(* ===== verification/Prelude.thy ===== *)
theory Prelude
  imports Complex_Main "HOL-Library.AList" "HOL-Library.Log_Nat"
begin

text \<open>
  Shared vocabulary of the development: Go's maps as association lists with
  distinct keys, Go's truncated integer division, the wrap-around of its fixed
  width integers, and the named theorem collections the component theories fill.
  A Go map iterates in an unspecified order; here the order of the list is the
  order of iteration, so a statement about every list covers every order.
\<close>

named_theorems f64_eval \<open>evaluation of closed floating point terms\<close>
named_theorems f64_intro \<open>closure of predicates on floating point values\<close>
named_theorems frame_simps \<open>what an operation leaves unchanged\<close>

section \<open>Maps\<close>

type_synonym ('k, 'v) gomap = "('k \<times> 'v) list"

abbreviation mlookup :: "('k, 'v) gomap \<Rightarrow> 'k \<Rightarrow> 'v option" where
  "mlookup \<equiv> map_of"

definition mget :: "'v \<Rightarrow> ('k, 'v) gomap \<Rightarrow> 'k \<Rightarrow> 'v" where
  "mget d m k = (case mlookup m k of None \<Rightarrow> d | Some v \<Rightarrow> v)"

definition mput :: "('k, 'v) gomap \<Rightarrow> 'k \<Rightarrow> 'v \<Rightarrow> ('k, 'v) gomap" where
  "mput m k v = AList.update k v m"

definition mdelete :: "('k, 'v) gomap \<Rightarrow> 'k \<Rightarrow> ('k, 'v) gomap" where
  "mdelete m k = AList.delete k m"

definition mkeys_ok :: "('k, 'v) gomap \<Rightarrow> bool" where
  "mkeys_ok m \<longleftrightarrow> distinct (map fst m)"

definition mmap_vals :: "('v \<Rightarrow> 'w) \<Rightarrow> ('k, 'v) gomap \<Rightarrow> ('k, 'w) gomap" where
  "mmap_vals f m = map (\<lambda>(k, v). (k, f v)) m"

lemma mlookup_mput: "mlookup (mput m k v) = (mlookup m)(k \<mapsto> v)"
  by (simp add: mput_def update_conv')

lemma mlookup_mput_eq [simp]: "mlookup (mput m k v) k' = (if k' = k then Some v else mlookup m k')"
  by (simp add: mlookup_mput)

lemma mlookup_mdelete [simp]: "mlookup (mdelete m k) k' = (if k' = k then None else mlookup m k')"
  by (simp add: mdelete_def delete_conv')

lemma mget_mput [simp]: "mget d (mput m k v) k' = (if k' = k then v else mget d m k')"
  by (simp add: mget_def)

lemma mget_mdelete [simp]: "mget d (mdelete m k) k' = (if k' = k then d else mget d m k')"
  by (simp add: mget_def)

lemma mget_Nil [simp]: "mget d [] k = d"
  by (simp add: mget_def)

lemma mlookup_mmap_vals [simp]: "mlookup (mmap_vals f m) k = map_option f (mlookup m k)"
  by (induction m) (auto simp: mmap_vals_def)

lemma mmap_vals_Nil [simp]: "mmap_vals f [] = []"
  by (simp add: mmap_vals_def)

lemma mkeys_ok_Nil [simp, intro]: "mkeys_ok []"
  by (simp add: mkeys_ok_def)

lemma mkeys_ok_mput [simp, intro]: "mkeys_ok m \<Longrightarrow> mkeys_ok (mput m k v)"
  by (simp add: mkeys_ok_def mput_def distinct_update)

lemma mkeys_ok_mdelete [simp, intro]: "mkeys_ok m \<Longrightarrow> mkeys_ok (mdelete m k)"
  by (simp add: mkeys_ok_def mdelete_def distinct_delete)

lemma mkeys_ok_mmap_vals [simp, intro]: "mkeys_ok m \<Longrightarrow> mkeys_ok (mmap_vals f m)"
  by (simp add: mkeys_ok_def mmap_vals_def case_prod_beta comp_def)

lemma mlookup_in_set: "mlookup m k = Some v \<Longrightarrow> (k, v) \<in> set m"
  by (rule map_of_SomeD)

lemma mlookup_of_mem: "mkeys_ok m \<Longrightarrow> (k, v) \<in> set m \<Longrightarrow> mlookup m k = Some v"
  by (simp add: mkeys_ok_def)

lemma set_mputD: "p \<in> set (mput m k v) \<Longrightarrow> p = (k, v) \<or> p \<in> set m"
  unfolding mput_def by (induction m) (auto split: if_splits)

section \<open>Fixed width integers\<close>

text \<open>
  A Go \<open>int64\<close> is an integer in \<open>[-2^63, 2^63)\<close>; every operation that can leave the
  range is followed by \<open>wrap64\<close>, which is Go's wrap-around.
\<close>

definition wrap64 :: "int \<Rightarrow> int" where
  "wrap64 x = (x + 2 ^ 63) mod 2 ^ 64 - 2 ^ 63"

definition wrap32 :: "int \<Rightarrow> int" where
  "wrap32 x = (x + 2 ^ 31) mod 2 ^ 32 - 2 ^ 31"

definition is_int64 :: "int \<Rightarrow> bool" where
  "is_int64 x \<longleftrightarrow> - (2 ^ 63) \<le> x \<and> x < 2 ^ 63"

definition is_int32 :: "int \<Rightarrow> bool" where
  "is_int32 x \<longleftrightarrow> - (2 ^ 31) \<le> x \<and> x < 2 ^ 31"

lemma wrap64_id [simp]: "is_int64 x \<Longrightarrow> wrap64 x = x"
  by (simp add: is_int64_def wrap64_def)

lemma wrap32_id [simp]: "is_int32 x \<Longrightarrow> wrap32 x = x"
  by (simp add: is_int32_def wrap32_def)

lemma is_int64_wrap64 [simp]: "is_int64 (wrap64 x)"
  unfolding is_int64_def wrap64_def
  using pos_mod_bound[of "2 ^ 64" "x + 2 ^ 63"] pos_mod_sign[of "2 ^ 64" "x + 2 ^ 63"]
  by auto

lemma wrap64_add_left: "wrap64 (wrap64 x + y) = wrap64 (x + y)"
proof -
  have "wrap64 x + y + 2 ^ 63 = (x + 2 ^ 63) mod 2 ^ 64 + y"
    by (simp add: wrap64_def)
  then show ?thesis
    unfolding wrap64_def by (simp add: mod_simps algebra_simps)
qed

lemma wrap64_add_right: "wrap64 (x + wrap64 y) = wrap64 (x + y)"
  using wrap64_add_left[of y x] by (simp add: add.commute)

lemma wrap64_diff_left: "wrap64 (wrap64 x - y) = wrap64 (x - y)"
  using wrap64_add_left[of x "- y"] by simp

text \<open>Go's \<open>/\<close> and \<open>%\<close> on integers truncate towards zero.\<close>

definition go_div :: "int \<Rightarrow> int \<Rightarrow> int" where
  "go_div a b = sgn a * sgn b * (\<bar>a\<bar> div \<bar>b\<bar>)"

definition go_rem :: "int \<Rightarrow> int \<Rightarrow> int" where
  "go_rem a b = a - b * go_div a b"

lemma go_div_nonneg [simp]: "0 \<le> a \<Longrightarrow> 0 < b \<Longrightarrow> go_div a b = a div b"
  by (cases "a = 0") (auto simp: go_div_def)

lemma go_rem_nonneg [simp]: "0 \<le> a \<Longrightarrow> 0 < b \<Longrightarrow> go_rem a b = a mod b"
  by (simp add: go_rem_def minus_mult_div_eq_mod)

section \<open>Sizes of maps\<close>

lemma length_mput: "length (mput m k v) = (if mlookup m k = None then Suc (length m) else length m)"
  unfolding mput_def by (induction m) auto

lemma length_mdelete_le: "length (mdelete m k) \<le> length m"
  unfolding mdelete_def by (simp add: length_delete_le)

lemma mdelete_absent: "mlookup m k = None \<Longrightarrow> mdelete m k = m"
  unfolding mdelete_def by (induction m) (auto split: if_splits)

lemma length_mdelete: "mkeys_ok m \<Longrightarrow> mlookup m k = Some v \<Longrightarrow> Suc (length (mdelete m k)) = length m"
proof (induction m)
  case (Cons p m)
  obtain a b where p: "p = (a, b)" by fastforce
  show ?case
  proof (cases "a = k")
    case True
    with Cons.prems p have "mlookup m k = None" by (auto simp: mkeys_ok_def map_of_eq_None_iff)
    then have "mdelete m k = m" by (rule mdelete_absent)
    with True p show ?thesis by (simp add: mdelete_def)
  next
    case False
    with Cons p show ?thesis by (simp add: mdelete_def mkeys_ok_def)
  qed
qed simp

lemma mdelete_mput [simp]: "mdelete (mput m k v) k = mdelete m k"
  by (simp add: mdelete_def mput_def delete_update_same)

definition msum :: "('v \<Rightarrow> int) \<Rightarrow> ('k, 'v) gomap \<Rightarrow> int" where
  "msum f m = sum_list (map (\<lambda>p. f (snd p)) m)"

lemma msum_mput: "msum f (mput m k v) = msum f m - (case mlookup m k of None \<Rightarrow> 0 | Some w \<Rightarrow> f w) + f v"
  unfolding msum_def mput_def by (induction m) auto

lemma msum_mmap_vals: "(\<And>v. f (g v) = f v) \<Longrightarrow> msum f (mmap_vals g m) = msum f m"
  unfolding msum_def mmap_vals_def by (induction m) auto

lemma mall_mput: "\<forall>p\<in>set m. P (snd p) \<Longrightarrow> P v \<Longrightarrow> \<forall>p\<in>set (mput m k v). P (snd p)"
  by (auto dest: set_mputD)

lemma mall_lookup: "\<forall>p\<in>set m. P (snd p) \<Longrightarrow> mlookup m k = Some v \<Longrightarrow> P v"
  by (force dest: map_of_SomeD)

end
