(* ===== verification/Float64.thy ===== *)
theory Float64
  imports Prelude
begin

text \<open>
  Go's \<open>float64\<close>: IEEE 754 binary64 with round to nearest, ties to even, as the
  amd64 compiler emits it (one rounding per operation, no fused multiply-add).
  A finite value is the rational it denotes; the two zeros, the infinities and NaN
  (whose payload no code here reads) are constructors. The operators of the type
  are instances of Isabelle's syntactic classes, so \<open>a + b\<close>, \<open>a * b\<close> and
  \<open>a < b\<close> on \<open>f64\<close> are the rounded operations and the IEEE comparisons: no law
  of arithmetic is assumed of them, and a comparison with NaN is false.
\<close>

datatype f64 = FNaN | FPosInf | FNegInf | FNegZero | Fin rat

section \<open>Rounding\<close>

definition pow2 :: "int \<Rightarrow> rat" where
  "pow2 k = 2 powi k"

definition ilog2 :: "rat \<Rightarrow> int" where
  "ilog2 x = (let (n, d) = quotient_of x; k = bitlen n - bitlen d
     in if pow2 k \<le> x then k else k - 1)"

definition round_half_even :: "rat \<Rightarrow> int" where
  "round_half_even x = (let f = \<lfloor>x\<rfloor>; r = x - of_int f in
     if r < 1/2 then f else if 1/2 < r then f + 1 else if even f then f else f + 1)"

definition ulp_exp :: "rat \<Rightarrow> int" where
  "ulp_exp x = max (ilog2 x - 52) (-1074)"

definition rnd_pos :: "rat \<Rightarrow> rat" where
  "rnd_pos x = of_int (round_half_even (x / pow2 (ulp_exp x))) * pow2 (ulp_exp x)"

definition f64_limit :: rat where
  "f64_limit = 2 ^ 1024"

definition rnd :: "rat \<Rightarrow> f64" where
  "rnd x = (if x = 0 then Fin 0 else
     let r = rnd_pos \<bar>x\<bar> in
     if f64_limit \<le> r then (if x < 0 then FNegInf else FPosInf)
     else if r = 0 then (if x < 0 then FNegZero else Fin 0)
     else Fin (if x < 0 then - r else r))"

section \<open>The operations\<close>

definition fval :: "f64 \<Rightarrow> rat" where
  "fval a = (case a of Fin q \<Rightarrow> q | _ \<Rightarrow> 0)"

definition frank :: "f64 \<Rightarrow> int" where
  "frank a = (case a of FPosInf \<Rightarrow> 1 | FNegInf \<Rightarrow> -1 | _ \<Rightarrow> 0)"

definition is_fin :: "f64 \<Rightarrow> bool" where
  "is_fin a \<longleftrightarrow> a \<noteq> FNaN \<and> a \<noteq> FPosInf \<and> a \<noteq> FNegInf"

definition is_nan :: "f64 \<Rightarrow> bool" where
  "is_nan a \<longleftrightarrow> a = FNaN"

definition is_inf :: "f64 \<Rightarrow> bool" where
  "is_inf a \<longleftrightarrow> a = FPosInf \<or> a = FNegInf"

definition fsign :: "f64 \<Rightarrow> bool" where
  "fsign a \<longleftrightarrow> a = FNegInf \<or> a = FNegZero \<or> fval a < 0"

definition fzero :: "bool \<Rightarrow> f64" where
  "fzero neg = (if neg then FNegZero else Fin 0)"

definition finf :: "bool \<Rightarrow> f64" where
  "finf neg = (if neg then FNegInf else FPosInf)"

definition is_zero :: "f64 \<Rightarrow> bool" where
  "is_zero a \<longleftrightarrow> a = FNegZero \<or> a = Fin 0"

instantiation f64 :: "{zero, one, plus, minus, uminus, times, inverse, abs, ord}"
begin

definition zero_f64 :: f64 where "0 = Fin 0"

definition one_f64 :: f64 where "1 = Fin 1"

definition uminus_f64 :: "f64 \<Rightarrow> f64" where
  "- a = (case a of FNaN \<Rightarrow> FNaN | FPosInf \<Rightarrow> FNegInf | FNegInf \<Rightarrow> FPosInf
     | FNegZero \<Rightarrow> Fin 0 | Fin q \<Rightarrow> if q = 0 then FNegZero else Fin (- q))"

definition plus_f64 :: "f64 \<Rightarrow> f64 \<Rightarrow> f64" where
  "a + b = (if a = FNaN \<or> b = FNaN then FNaN
     else if is_inf a then (if is_inf b \<and> a \<noteq> b then FNaN else a)
     else if is_inf b then b
     else if a = FNegZero \<and> b = FNegZero then FNegZero
     else rnd (fval a + fval b))"

definition minus_f64 :: "f64 \<Rightarrow> f64 \<Rightarrow> f64" where
  "a - b = a + (- b :: f64)"

definition times_f64 :: "f64 \<Rightarrow> f64 \<Rightarrow> f64" where
  "a * b = (if a = FNaN \<or> b = FNaN then FNaN
     else if is_inf a \<or> is_inf b
       then (if is_zero a \<or> is_zero b then FNaN else finf (fsign a \<noteq> fsign b))
     else if is_zero a \<or> is_zero b then fzero (fsign a \<noteq> fsign b)
     else rnd (fval a * fval b))"

definition divide_f64 :: "f64 \<Rightarrow> f64 \<Rightarrow> f64" where
  "a div b = (if a = FNaN \<or> b = FNaN then FNaN
     else if is_inf a then (if is_inf b then FNaN else finf (fsign a \<noteq> fsign b))
     else if is_inf b then fzero (fsign a \<noteq> fsign b)
     else if is_zero b then (if is_zero a then FNaN else finf (fsign a \<noteq> fsign b))
     else if is_zero a then fzero (fsign a \<noteq> fsign b)
     else rnd (fval a / fval b))"

definition inverse_f64 :: "f64 \<Rightarrow> f64" where
  "inverse a = (1 :: f64) div a"

definition abs_f64 :: "f64 \<Rightarrow> f64" where
  "\<bar>a\<bar> = (case a of FNegInf \<Rightarrow> FPosInf | FNegZero \<Rightarrow> Fin 0 | Fin q \<Rightarrow> Fin \<bar>q\<bar> | x \<Rightarrow> x)"

definition less_f64 :: "f64 \<Rightarrow> f64 \<Rightarrow> bool" where
  "a < b \<longleftrightarrow> a \<noteq> FNaN \<and> b \<noteq> FNaN \<and>
     (frank a < frank b \<or> frank a = frank b \<and> fval a < fval b)"

definition less_eq_f64 :: "f64 \<Rightarrow> f64 \<Rightarrow> bool" where
  "a \<le> b \<longleftrightarrow> a \<noteq> FNaN \<and> b \<noteq> FNaN \<and>
     (frank a < frank b \<or> frank a = frank b \<and> fval a \<le> fval b)"

instance ..

end

text \<open>Go's \<open>==\<close>, literals, and the conversions of the language.\<close>

definition feq :: "f64 \<Rightarrow> f64 \<Rightarrow> bool" where
  "feq a b \<longleftrightarrow> a \<noteq> FNaN \<and> b \<noteq> FNaN \<and> frank a = frank b \<and> fval a = fval b"

definition lit :: "rat \<Rightarrow> f64" where
  "lit q = rnd q"

definition float_of_int :: "int \<Rightarrow> f64" where
  "float_of_int n = rnd (of_int n)"

text \<open>
  \<open>int64(f)\<close>: truncation; out of range and NaN give \<open>-2^63\<close>, the value of the amd64
  instruction (the language leaves it to the implementation).
\<close>

definition int64_of_float :: "f64 \<Rightarrow> int" where
  "int64_of_float a = (case a of Fin q \<Rightarrow>
       (let t = (if 0 \<le> q then \<lfloor>q\<rfloor> else \<lceil>q\<rceil>) in if is_int64 t then t else - (2 ^ 63))
     | FNegZero \<Rightarrow> 0 | _ \<Rightarrow> - (2 ^ 63))"

text \<open>\<open>math.Round\<close> (half away from zero), \<open>math.Max\<close>, \<open>math.Min\<close>.\<close>

definition math_round :: "f64 \<Rightarrow> f64" where
  "math_round a = (case a of Fin q \<Rightarrow>
       (let r = \<lfloor>\<bar>q\<bar> + 1/2\<rfloor> in
        if r = 0 then fzero (q < 0) else Fin (if q < 0 then - of_int r else of_int r))
     | x \<Rightarrow> x)"

definition math_max :: "f64 \<Rightarrow> f64 \<Rightarrow> f64" where
  "math_max x y = (if x = FPosInf \<or> y = FPosInf then FPosInf
     else if x = FNaN \<or> y = FNaN then FNaN
     else if is_zero x \<and> is_zero y then (if fsign x then y else x)
     else if y < x then x else y)"

definition math_min :: "f64 \<Rightarrow> f64 \<Rightarrow> f64" where
  "math_min x y = (if x = FNegInf \<or> y = FNegInf then FNegInf
     else if x = FNaN \<or> y = FNaN then FNaN
     else if is_zero x \<and> is_zero y then (if fsign x then x else y)
     else if x < y then x else y)"

text \<open>\<open>math.Sqrt\<close>, correctly rounded: an integer square root with a sticky bit.\<close>

function isqrt :: "int \<Rightarrow> int" where
  "isqrt n = (if n \<le> 0 then 0
     else let r = 2 * isqrt (n div 4) in if (r + 1) * (r + 1) \<le> n then r + 1 else r)"
  by pat_completeness auto
termination
  by (relation "measure nat") auto

declare isqrt.simps [simp del]

definition sqrt_pos :: "rat \<Rightarrow> rat" where
  "sqrt_pos q = (let k = 60 - ilog2 q div 2; m = q * pow2 (2 * k); s = isqrt \<lfloor>m\<rfloor>
     in (if of_int (s * s) = m then of_int (2 * s) else of_int (2 * s + 1)) / pow2 (k + 1))"

definition math_sqrt :: "f64 \<Rightarrow> f64" where
  "math_sqrt a = (case a of FNaN \<Rightarrow> FNaN | FNegInf \<Rightarrow> FNaN | FPosInf \<Rightarrow> FPosInf
     | FNegZero \<Rightarrow> FNegZero
     | Fin q \<Rightarrow> if q < 0 then FNaN else if q = 0 then Fin 0 else rnd (sqrt_pos q))"

section \<open>Rounding: monotone, idempotent, odd\<close>

lemma pow2_pos [simp]: "0 < pow2 k" "0 \<le> pow2 k" "pow2 k \<noteq> 0"
  by (simp_all add: pow2_def)

lemma pow2_le_iff [simp]: "pow2 a \<le> pow2 b \<longleftrightarrow> a \<le> b"
proof
  assume "pow2 a \<le> pow2 b"
  then show "a \<le> b"
    using power_int_strict_increasing[of b a "2::rat"] by (force simp: pow2_def not_less)
qed (simp add: pow2_def power_int_increasing)

lemma pow2_less_iff [simp]: "pow2 a < pow2 b \<longleftrightarrow> a < b"
  by (simp add: less_le_not_le)

lemma pow2_add: "pow2 (a + b) = pow2 a * pow2 b"
  by (simp add: pow2_def power_int_add)

lemma pow2_nat: "0 \<le> k \<Longrightarrow> pow2 k = 2 ^ nat k"
  by (simp add: pow2_def power_int_nonneg_exp)

lemma bitlen_pow2_bounds:
  assumes "0 < m"
  shows "pow2 (bitlen m - 1) \<le> of_int m" and "of_int m < pow2 (bitlen m)"
proof -
  have "1 \<le> bitlen m"
    using assms bitlen_nonneg[of m] bitlen_eq_zero_iff[of m] by linarith
  then have "pow2 (bitlen m - 1) = of_int (2 ^ nat (bitlen m - 1))"
    and "pow2 (bitlen m) = of_int (2 ^ nat (bitlen m))"
    by (simp_all add: pow2_nat)
  then show "pow2 (bitlen m - 1) \<le> of_int m" and "of_int m < pow2 (bitlen m)"
    using bitlen_bounds[OF assms] by (simp_all only: of_int_le_iff of_int_less_iff)
qed

lemma quotient_bounds:
  assumes "0 < n" "0 < d"
  defines "k \<equiv> bitlen n - bitlen d" and "x \<equiv> rat_of_int n / of_int d"
  shows "pow2 (k - 1) \<le> x" and "x < pow2 (k + 1)"
proof -
  have "of_int n < pow2 (bitlen n)" by (rule bitlen_pow2_bounds[OF assms(1)])
  also have "\<dots> = pow2 (k + 1) * pow2 (bitlen d - 1)" by (simp add: k_def flip: pow2_add)
  also have "\<dots> \<le> pow2 (k + 1) * of_int d"
    by (rule mult_left_mono) (simp_all add: bitlen_pow2_bounds[OF assms(2)])
  finally show "x < pow2 (k + 1)" by (simp add: x_def pos_divide_less_eq assms(2))
  have "pow2 (k - 1) * of_int d \<le> pow2 (k - 1) * pow2 (bitlen d)"
    by (rule mult_left_mono) (simp_all add: less_imp_le bitlen_pow2_bounds[OF assms(2)])
  also have "\<dots> = pow2 (bitlen n - 1)" by (simp add: k_def flip: pow2_add)
  also have "\<dots> \<le> of_int n" by (rule bitlen_pow2_bounds[OF assms(1)])
  finally show "pow2 (k - 1) \<le> x" by (simp add: x_def pos_le_divide_eq assms(2))
qed

lemma ilog2_bounds:
  assumes "0 < x"
  shows "pow2 (ilog2 x) \<le> x" and "x < pow2 (ilog2 x + 1)"
proof -
  obtain n d where nd: "quotient_of x = (n, d)" by fastforce
  have d: "0 < d" using nd by (rule quotient_of_denom_pos)
  have x: "x = of_int n / of_int d" using nd by (rule quotient_of_div)
  with assms d have "0 < n" by (simp add: zero_less_divide_iff)
  from quotient_bounds[OF this d] show "pow2 (ilog2 x) \<le> x" "x < pow2 (ilog2 x + 1)"
    by (auto simp: ilog2_def nd Let_def simp flip: x)
qed

lemma ilog2_unique: "pow2 k \<le> x \<Longrightarrow> x < pow2 (k + 1) \<Longrightarrow> ilog2 x = k"
proof -
  assume a: "pow2 k \<le> x" "x < pow2 (k + 1)"
  moreover have "0 < pow2 k" by simp
  ultimately have "0 < x" by linarith
  note b = ilog2_bounds[OF this]
  have "pow2 k < pow2 (ilog2 x + 1)" "pow2 (ilog2 x) < pow2 (k + 1)"
    using a b by linarith+
  then show ?thesis by simp
qed

lemma ilog2_mono: "0 < x \<Longrightarrow> x \<le> y \<Longrightarrow> ilog2 x \<le> ilog2 y"
proof -
  assume a: "0 < x" "x \<le> y"
  have "pow2 (ilog2 x) < pow2 (ilog2 y + 1)"
    using ilog2_bounds(1)[OF a(1)] ilog2_bounds(2)[of y] a by linarith
  then show ?thesis by simp
qed

lemma round_half_even_of_int [simp]: "round_half_even (of_int m) = m"
  by (simp add: round_half_even_def Let_def)

lemma round_half_even_bounds: "\<lfloor>x\<rfloor> \<le> round_half_even x" "round_half_even x \<le> \<lfloor>x\<rfloor> + 1"
  by (auto simp: round_half_even_def Let_def)

lemma round_half_even_error: "\<bar>of_int (round_half_even x) - x\<bar> \<le> 1/2"
proof -
  have "of_int \<lfloor>x\<rfloor> \<le> x" "x < of_int \<lfloor>x\<rfloor> + 1" by linarith+
  then show ?thesis by (auto simp: round_half_even_def Let_def)
qed

lemma round_half_even_mono:
  assumes "x \<le> y"
  shows "round_half_even x \<le> round_half_even y"
proof (cases "\<lfloor>x\<rfloor> = \<lfloor>y\<rfloor>")
  case True
  with assms show ?thesis by (auto simp: round_half_even_def Let_def)
next
  case False
  with floor_mono[OF assms] have "\<lfloor>x\<rfloor> + 1 \<le> \<lfloor>y\<rfloor>" by linarith
  with round_half_even_bounds(2)[of x] round_half_even_bounds(1)[of y] show ?thesis by linarith
qed

lemma round_half_even_ge: "of_int m \<le> x \<Longrightarrow> m \<le> round_half_even x"
  using round_half_even_mono[of "of_int m" x] by simp

lemma round_half_even_le: "x \<le> of_int m \<Longrightarrow> round_half_even x \<le> m"
  using round_half_even_mono[of x "of_int m"] by simp

lemma ulp_exp_mono: "0 < x \<Longrightarrow> x \<le> y \<Longrightarrow> ulp_exp x \<le> ulp_exp y"
  using ilog2_mono[of x y] by (auto simp: ulp_exp_def)

lemma less_ulp_exp: "0 < x \<Longrightarrow> x < pow2 (ulp_exp x + 53)"
proof -
  assume "0 < x"
  then have "x < pow2 (ilog2 x + 1)" by (rule ilog2_bounds)
  also have "\<dots> \<le> pow2 (ulp_exp x + 53)" by (simp add: ulp_exp_def)
  finally show ?thesis .
qed

lemma rnd_pos_nonneg: "0 \<le> x \<Longrightarrow> 0 \<le> rnd_pos x"
  unfolding rnd_pos_def by (auto intro!: mult_nonneg_nonneg round_half_even_ge)

lemma rnd_pos_upper:
  assumes "0 < x" "ulp_exp x \<le> e" "x \<le> pow2 (e + k)" "0 \<le> k"
  shows "rnd_pos x \<le> pow2 (e + k)"
proof -
  have "pow2 (e + k) = of_int (2 ^ nat (e + k - ulp_exp x)) * pow2 (ulp_exp x)"
    using assms(2,4) by (simp flip: pow2_nat pow2_add)
  moreover have "x / pow2 (ulp_exp x) \<le> of_int (2 ^ nat (e + k - ulp_exp x))"
    using assms(3) calculation by (simp add: pos_divide_le_eq)
  ultimately show ?thesis
    unfolding rnd_pos_def
    by (simp add: mult_right_mono round_half_even_le)
qed

lemma rnd_pos_lower:
  assumes "0 < x" "ulp_exp x = ilog2 x - 52"
  shows "pow2 (ilog2 x) \<le> rnd_pos x"
proof -
  have "pow2 52 * pow2 (ulp_exp x) \<le> x"
    using ilog2_bounds(1)[OF assms(1)] by (simp add: assms(2) flip: pow2_add)
  then have "of_int (2 ^ 52) \<le> x / pow2 (ulp_exp x)"
    by (simp add: pos_le_divide_eq pow2_nat)
  then have "(2 ^ 52 :: int) \<le> round_half_even (x / pow2 (ulp_exp x))"
    by (rule round_half_even_ge)
  then have "rat_of_int (2 ^ 52) \<le> of_int (round_half_even (x / pow2 (ulp_exp x)))"
    by (simp only: of_int_le_iff)
  then have "pow2 52 * pow2 (ulp_exp x) \<le> rnd_pos x"
    unfolding rnd_pos_def by (intro mult_right_mono) (simp_all add: pow2_nat)
  then show ?thesis by (simp add: assms(2) flip: pow2_add)
qed

lemma rnd_pos_mono:
  assumes "0 < x" "x \<le> y"
  shows "rnd_pos x \<le> rnd_pos y"
proof (cases "ulp_exp x = ulp_exp y")
  case True
  have "x / pow2 (ulp_exp y) \<le> y / pow2 (ulp_exp y)"
    using assms by (simp add: divide_right_mono)
  then show ?thesis
    unfolding rnd_pos_def True
    by (intro mult_right_mono) (simp_all add: round_half_even_mono)
next
  case False
  with ulp_exp_mono[OF assms] have lt: "ulp_exp x < ulp_exp y" by simp
  then have y: "ulp_exp y = ilog2 y - 52" by (auto simp: ulp_exp_def)
  have "x < pow2 (ulp_exp x + 53)" using assms by (intro less_ulp_exp)
  then have "rnd_pos x \<le> pow2 (ulp_exp x + 53)"
    using assms by (intro rnd_pos_upper) auto
  also have "\<dots> \<le> pow2 (ilog2 y)" using lt y by simp
  also have "\<dots> \<le> rnd_pos y" using assms y by (intro rnd_pos_lower) auto
  finally show ?thesis .
qed

text \<open>The values a \<open>float64\<close> can hold: a 53-bit integer times a power of two.\<close>

definition representable :: "rat \<Rightarrow> bool" where
  "representable q \<longleftrightarrow> rnd q = Fin q"

definition f64_ok :: "f64 \<Rightarrow> bool" where
  "f64_ok a \<longleftrightarrow> (case a of Fin q \<Rightarrow> representable q | _ \<Rightarrow> True)"

lemma rnd_0 [simp]: "rnd 0 = Fin 0"
  by (simp add: rnd_def)

lemma rnd_not_nan [simp]: "rnd x \<noteq> FNaN"
  by (simp add: rnd_def Let_def)

lemma rnd_pos_eq:
  "0 < x \<Longrightarrow> rnd x = (if f64_limit \<le> rnd_pos x then FPosInf else Fin (rnd_pos x))"
  by (auto simp: rnd_def Let_def)

lemma rnd_minus: "x \<noteq> 0 \<Longrightarrow> rnd (- x) = - rnd x"
  by (auto simp: rnd_def Let_def uminus_f64_def rnd_pos_nonneg)

lemma rnd_pos_dyadic:
  assumes "0 < m" "m \<le> 2 ^ 53" "-1074 \<le> e"
  shows "rnd_pos (of_int m * pow2 e) = of_int m * pow2 e"
proof (cases "m = 2 ^ 53")
  case True
  let ?x = "rat_of_int m * pow2 e"
  have x: "?x = pow2 (e + 53)" by (simp add: True pow2_add pow2_nat)
  have "ilog2 ?x = e + 53" unfolding x by (rule ilog2_unique) simp_all
  then have u: "ulp_exp ?x = e + 1" using assms by (simp add: ulp_exp_def)
  have "?x / pow2 (e + 1) = of_int (2 ^ 52)"
    by (simp add: x pow2_add pow2_nat)
  then have "round_half_even (?x / pow2 (e + 1)) = 2 ^ 52"
    by (simp only: round_half_even_of_int)
  then show ?thesis unfolding rnd_pos_def u by (simp add: x pow2_add pow2_nat)
next
  case False
  let ?x = "rat_of_int m * pow2 e"
  have pos: "0 < ?x" using assms by simp
  have "rat_of_int m < of_int (2 ^ 53)" using assms False by (simp only: of_int_less_iff)
  then have "?x < pow2 53 * pow2 e" by (simp add: pow2_nat)
  then have "pow2 (ilog2 ?x) < pow2 (53 + e)"
    using ilog2_bounds(1)[OF pos] unfolding pow2_add by linarith
  then have le: "ulp_exp ?x \<le> e" using assms by (simp add: ulp_exp_def)
  then have "?x = of_int (m * 2 ^ nat (e - ulp_exp ?x)) * pow2 (ulp_exp ?x)"
    by (simp flip: pow2_nat pow2_add add: mult.assoc)
  then have x: "?x / pow2 (ulp_exp ?x) = of_int (m * 2 ^ nat (e - ulp_exp ?x))"
    by (simp add: nonzero_divide_eq_eq)
  have "rnd_pos ?x = ?x / pow2 (ulp_exp ?x) * pow2 (ulp_exp ?x)"
    unfolding rnd_pos_def x by (simp only: round_half_even_of_int)
  then show ?thesis by simp
qed

lemma representableI:
  assumes "\<bar>m\<bar> \<le> 2 ^ 53" "-1074 \<le> e" "q = of_int m * pow2 e" "\<bar>q\<bar> < f64_limit"
  shows "representable q"
proof (cases "m = 0")
  case True
  then show ?thesis by (simp add: representable_def assms)
next
  case False
  then have "rnd_pos \<bar>q\<bar> = \<bar>q\<bar>"
    using rnd_pos_dyadic[of "\<bar>m\<bar>" e] assms by (simp add: abs_mult)
  moreover have "q \<noteq> 0" using False assms by simp
  ultimately show ?thesis using assms(4) by (auto simp: representable_def rnd_def Let_def)
qed

lemma f64_limit_gt: "k < 1024 \<Longrightarrow> 2 ^ k < f64_limit"
  unfolding f64_limit_def by (rule power_strict_increasing) simp_all

lemma representable_of_int:
  assumes "\<bar>m\<bar> \<le> 2 ^ 53"
  shows "representable (of_int m)"
proof (rule representableI[of m 0])
  have "rat_of_int \<bar>m\<bar> \<le> of_int (2 ^ 53)" using assms by (simp only: of_int_le_iff)
  also have "\<dots> < f64_limit" using f64_limit_gt[of 53] by simp
  finally show "\<bar>rat_of_int m\<bar> < f64_limit" by simp
qed (use assms in \<open>simp_all add: pow2_nat\<close>)

lemma representable_rnd_pos:
  assumes "0 < x" "rnd_pos x < f64_limit"
  shows "representable (rnd_pos x)"
proof (rule representableI[of "round_half_even (x / pow2 (ulp_exp x))" "ulp_exp x"])
  let ?m = "round_half_even (x / pow2 (ulp_exp x))"
  have "x / pow2 (ulp_exp x) \<le> of_int (2 ^ 53)"
    using less_ulp_exp[OF assms(1)] by (simp add: pos_divide_le_eq pow2_add pow2_nat mult.commute)
  then have "?m \<le> 2 ^ 53" by (rule round_half_even_le)
  moreover have "0 \<le> ?m" using assms(1) by (intro round_half_even_ge) simp
  ultimately show "\<bar>?m\<bar> \<le> 2 ^ 53" by simp
  show "- 1074 \<le> ulp_exp x" by (simp add: ulp_exp_def)
  show "rnd_pos x = of_int ?m * pow2 (ulp_exp x)" by (simp add: rnd_pos_def)
  show "\<bar>rnd_pos x\<bar> < f64_limit" using assms rnd_pos_nonneg[of x] by simp
qed

lemma representable_minus [simp]: "representable (- q) \<longleftrightarrow> representable q"
  by (cases "q = 0") (auto simp: representable_def rnd_minus uminus_f64_def split: f64.splits if_splits)

lemma f64_ok_minus [simp]: "f64_ok (- a) \<longleftrightarrow> f64_ok a"
  by (auto simp: f64_ok_def uminus_f64_def representable_def[of 0] split: f64.splits)

lemma f64_ok_rnd [simp, f64_intro]: "f64_ok (rnd x)"
proof -
  have pos: "f64_ok (rnd x)" if "0 < x" for x
    using that representable_rnd_pos[of x] by (auto simp: f64_ok_def rnd_pos_eq)
  consider "x = 0" | "0 < x" | "0 < - x" by linarith
  then show ?thesis
  proof cases
    case 3
    then have "f64_ok (- rnd (- x))" using pos[of "- x"] f64_ok_minus by blast
    with 3 show ?thesis by (simp add: rnd_minus)
  next
    case 1
    then show ?thesis by (simp add: f64_ok_def representable_def)
  qed (rule pos)
qed

lemma rnd_mono_pos: "0 \<le> x \<Longrightarrow> x \<le> y \<Longrightarrow> rnd x \<le> rnd y"
proof (cases "x = 0")
  case True
  assume "0 \<le> x" "x \<le> y"
  then show ?thesis using rnd_pos_nonneg[of y] True
    by (cases "y = 0") (auto simp: rnd_pos_eq less_eq_f64_def frank_def fval_def)
next
  case False
  assume "0 \<le> x" "x \<le> y"
  then show ?thesis using False rnd_pos_mono[of x y]
    by (auto simp: rnd_pos_eq less_eq_f64_def frank_def fval_def)
qed

lemma f64_neg_le: "- a \<le> - b \<longleftrightarrow> b \<le> (a :: f64)"
  by (auto simp: less_eq_f64_def uminus_f64_def frank_def fval_def split: f64.splits)

lemma f64_le_trans: "a \<le> b \<Longrightarrow> b \<le> c \<Longrightarrow> a \<le> (c :: f64)"
  by (auto simp: less_eq_f64_def)

lemma f64_le_zero: "- 0 \<le> (a :: f64) \<longleftrightarrow> 0 \<le> a"
  by (auto simp: less_eq_f64_def uminus_f64_def zero_f64_def frank_def fval_def split: f64.splits)

lemma rnd_nonneg: "0 \<le> x \<Longrightarrow> 0 \<le> rnd x"
  using rnd_mono_pos[of 0 x] by (simp add: zero_f64_def)

lemma rnd_mono: "x \<le> y \<Longrightarrow> rnd x \<le> rnd y"
proof -
  assume le: "x \<le> y"
  consider "0 \<le> x" | "x < 0" "0 \<le> y" | "x < 0" "y < 0" using le by linarith
  then show ?thesis
  proof cases
    case 1 with le show ?thesis by (simp add: rnd_mono_pos)
  next
    case 2
    then have "0 \<le> rnd (- x)" "0 \<le> rnd y" by (simp_all add: rnd_nonneg)
    then have "rnd x \<le> 0"
      using 2 f64_neg_le[of 0 "rnd x"] by (simp add: rnd_minus f64_le_zero)
    then show ?thesis using \<open>0 \<le> rnd y\<close> by (rule f64_le_trans)
  next
    case 3
    then have "rnd (- y) \<le> rnd (- x)" using le by (intro rnd_mono_pos) auto
    with 3 show ?thesis by (simp add: rnd_minus f64_neg_le)
  qed
qed


lemma pow2_numeral:
  "pow2 (numeral k) = 2 ^ numeral k" "pow2 (- numeral k) = 1 / 2 ^ numeral k"
  "pow2 0 = 1" "pow2 1 = 2" "pow2 (- 1) = 1 / 2"
  by (simp_all add: pow2_def power_int_def field_simps)

section \<open>Order and arithmetic of finite values\<close>

lemma f64_le_refl [simp]: "a \<le> (a::f64) \<longleftrightarrow> a \<noteq> FNaN"
  by (auto simp: less_eq_f64_def)

lemma f64_nan_compare [simp]:
  "\<not> FNaN \<le> a" "\<not> a \<le> FNaN" "\<not> FNaN < a" "\<not> a < FNaN" "\<not> feq FNaN a" "\<not> feq a FNaN"
  by (simp_all add: less_eq_f64_def less_f64_def feq_def)

lemma f64_not_less: "a \<noteq> FNaN \<Longrightarrow> b \<noteq> FNaN \<Longrightarrow> \<not> a < b \<longleftrightarrow> b \<le> (a::f64)"
  by (auto simp: less_eq_f64_def less_f64_def)

lemma f64_not_le: "a \<noteq> FNaN \<Longrightarrow> b \<noteq> FNaN \<Longrightarrow> \<not> a \<le> b \<longleftrightarrow> b < (a::f64)"
  by (auto simp: less_eq_f64_def less_f64_def)

lemma f64_less_imp_le: "a < b \<Longrightarrow> a \<le> (b::f64)"
  by (auto simp: less_eq_f64_def less_f64_def)

lemma f64_le_less_trans: "a \<le> b \<Longrightarrow> b < c \<Longrightarrow> a < (c::f64)"
  by (auto simp: less_eq_f64_def less_f64_def)

lemma f64_less_le_trans: "a < b \<Longrightarrow> b \<le> c \<Longrightarrow> a < (c::f64)"
  by (auto simp: less_eq_f64_def less_f64_def)

lemma f64_less_irrefl [simp]: "\<not> a < (a::f64)"
  by (auto simp: less_f64_def)

lemma f64_less_not_le: "a < b \<Longrightarrow> \<not> b \<le> (a::f64)"
  by (auto simp: less_eq_f64_def less_f64_def)

lemma zero_one_simps [simp]: "(0 :: f64) \<noteq> FNaN" "FNaN \<noteq> (0 :: f64)" "(1 :: f64) \<noteq> FNaN"
  "FNaN \<noteq> (1 :: f64)" "frank 0 = 0" "frank 1 = 0"
  by (simp_all add: zero_f64_def one_f64_def frank_def)

lemma is_fin_Fin [simp]: "is_fin (Fin q)" "is_fin FNegZero" "is_fin 0" "is_fin 1"
  "\<not> is_fin FNaN" "\<not> is_fin FPosInf" "\<not> is_fin FNegInf"
  by (simp_all add: is_fin_def zero_f64_def one_f64_def)

lemma fval_simps [simp]: "fval (Fin q) = q" "fval FNegZero = 0" "fval 0 = 0" "fval 1 = 1"
  "fval FPosInf = 0" "fval FNegInf = 0" "fval FNaN = 0"
  by (simp_all add: fval_def zero_f64_def one_f64_def)

lemma frank_fin [simp]: "is_fin a \<Longrightarrow> frank a = 0"
  by (auto simp: is_fin_def frank_def split: f64.splits)

lemma frank_simps [simp]: "frank FPosInf = 1" "frank FNegInf = -1" "frank FNaN = 0" "frank FNegZero = 0"
  "frank (Fin q) = 0"
  by (simp_all add: frank_def)

lemma is_finE: "is_fin a \<Longrightarrow> (\<And>q. a = Fin q \<Longrightarrow> P) \<Longrightarrow> (a = FNegZero \<Longrightarrow> P) \<Longrightarrow> P"
  by (cases a) (auto simp: is_fin_def)

lemma fin_not_nan: "is_fin a \<Longrightarrow> a \<noteq> FNaN"
  by (auto simp: is_fin_def)

lemma fin_le: "is_fin a \<Longrightarrow> is_fin b \<Longrightarrow> a \<le> b \<longleftrightarrow> fval a \<le> fval b"
  by (auto simp: less_eq_f64_def is_fin_def frank_def split: f64.splits)

lemma fin_less: "is_fin a \<Longrightarrow> is_fin b \<Longrightarrow> a < b \<longleftrightarrow> fval a < fval b"
  by (auto simp: less_f64_def is_fin_def frank_def split: f64.splits)

lemma is_zero_iff: "is_fin a \<Longrightarrow> is_zero a \<longleftrightarrow> fval a = 0"
  by (auto simp: is_zero_def fval_def split: f64.splits)

lemma fin_between:
  assumes "x \<le> a" "a \<le> y" "is_fin x" "is_fin y"
  shows "is_fin a"
  using assms by (cases a) (auto simp: less_eq_f64_def)

lemma rnd_fin_le: "is_fin (rnd x) \<Longrightarrow> is_fin (rnd y) \<Longrightarrow> x \<le> y \<Longrightarrow> fval (rnd x) \<le> fval (rnd y)"
  using rnd_mono[of x y] by (simp add: fin_le)

lemma rnd_representable: "representable q \<Longrightarrow> rnd q = Fin q"
  by (simp add: representable_def)

lemma representable_0 [simp]: "representable 0"
  by (simp add: representable_def)

lemma f64_ok_simps [simp, f64_intro]: "f64_ok FNaN" "f64_ok FPosInf" "f64_ok FNegInf" "f64_ok FNegZero"
  "f64_ok 0" "f64_ok (fzero s)" "f64_ok (finf s)"
  by (simp_all add: f64_ok_def fzero_def finf_def zero_f64_def)

lemma f64_ok_Fin [simp]: "f64_ok (Fin q) = representable q"
  by (simp add: f64_ok_def)

lemma f64_ok_fin: "f64_ok a \<Longrightarrow> is_fin a \<Longrightarrow> representable (fval a)"
  by (auto elim: is_finE)

lemma rnd_fval: "f64_ok a \<Longrightarrow> is_fin a \<Longrightarrow> rnd (fval a) = Fin (fval a)"
  by (simp add: f64_ok_fin rnd_representable)

text \<open>
  On finite arguments an operation is the rounding of the exact result, up to the
  sign of a zero, which neither \<open>fval\<close> nor a comparison sees.
\<close>

definition feqv :: "f64 \<Rightarrow> f64 \<Rightarrow> bool" where
  "feqv a b \<longleftrightarrow> a = b \<or> is_zero a \<and> is_zero b"

lemma feqv_is_fin: "feqv a b \<Longrightarrow> is_fin a = is_fin b"
  by (auto simp: feqv_def is_zero_def)

lemma feqv_fval: "feqv a b \<Longrightarrow> fval a = fval b"
  by (auto simp: feqv_def is_zero_def)

lemma feqv_le: "feqv a b \<Longrightarrow> x \<le> a \<longleftrightarrow> x \<le> b" "feqv a b \<Longrightarrow> a \<le> x \<longleftrightarrow> b \<le> x"
  by (auto simp: feqv_def is_zero_def less_eq_f64_def frank_def)

lemma feqv_nan: "feqv a b \<Longrightarrow> a = FNaN \<longleftrightarrow> b = FNaN"
  by (auto simp: feqv_def is_zero_def)

lemma add_feqv: "is_fin a \<Longrightarrow> is_fin b \<Longrightarrow> feqv (a + b) (rnd (fval a + fval b))"
  by (auto simp: plus_f64_def feqv_def is_zero_def is_fin_def is_inf_def)

lemma uminus_fval [simp]: "is_fin a \<Longrightarrow> fval (- a) = - fval a"
  by (auto simp: uminus_f64_def elim!: is_finE)

lemma uminus_fin [simp]: "is_fin (- a) = is_fin a"
  by (cases a) (auto simp: uminus_f64_def is_fin_def)

lemma sub_feqv: "is_fin a \<Longrightarrow> is_fin b \<Longrightarrow> feqv (a - b) (rnd (fval a - fval b))"
  using add_feqv[of a "- b"] by (simp add: minus_f64_def)

lemma is_zero_simps [simp]: "is_zero (fzero s)" "is_zero (Fin 0)" "is_zero 0" "is_zero FNegZero"
  by (simp_all add: is_zero_def fzero_def zero_f64_def)

lemma is_inf_fin [simp]: "is_fin a \<Longrightarrow> \<not> is_inf a"
  by (auto simp: is_inf_def)

lemma mul_feqv:
  assumes "is_fin a" "is_fin b"
  shows "feqv (a * b) (rnd (fval a * fval b))"
proof (cases "is_zero a \<or> is_zero b")
  case True
  with assms have "rnd (fval a * fval b) = Fin 0" by (auto simp: is_zero_iff)
  with True assms show ?thesis by (simp add: times_f64_def feqv_def fin_not_nan)
next
  case False
  with assms show ?thesis by (simp add: times_f64_def feqv_def fin_not_nan)
qed

lemma div_feqv:
  assumes "is_fin a" "is_fin b" "fval b \<noteq> 0"
  shows "feqv (a / b) (rnd (fval a / fval b))"
proof (cases "is_zero a")
  case True
  with assms have "fval a / fval b = 0" by (auto simp: is_zero_iff)
  with True assms show ?thesis by (simp add: divide_f64_def feqv_def fin_not_nan is_zero_iff)
next
  case False
  with assms show ?thesis by (simp add: divide_f64_def feqv_def fin_not_nan is_zero_iff)
qed

lemma f64_ok_add [simp, f64_intro]: "f64_ok a \<Longrightarrow> f64_ok b \<Longrightarrow> f64_ok (a + b)"
  by (simp add: plus_f64_def)

lemma f64_ok_mul [simp, f64_intro]: "f64_ok (a * b)"
  by (simp add: times_f64_def)

lemma f64_ok_div [simp, f64_intro]: "f64_ok (a / b)"
  by (simp add: divide_f64_def)

lemma f64_ok_sub [simp, f64_intro]: "f64_ok a \<Longrightarrow> f64_ok b \<Longrightarrow> f64_ok (a - b)"
  by (simp add: minus_f64_def)

lemma f64_ok_lit [simp, f64_intro]: "f64_ok (lit q)" "f64_ok (float_of_int n)"
  by (simp_all add: lit_def float_of_int_def)

lemma f64_ok_one [simp, f64_intro]: "f64_ok 1"
  using representable_of_int[of 1] by (simp add: f64_ok_def one_f64_def)

text \<open>Finite, non-negative values, and factors of the unit interval.\<close>

definition fin_nonneg :: "f64 \<Rightarrow> bool" where
  "fin_nonneg a \<longleftrightarrow> is_fin a \<and> f64_ok a \<and> 0 \<le> fval a"

definition unit_scale :: "f64 \<Rightarrow> bool" where
  "unit_scale c \<longleftrightarrow> is_fin c \<and> 0 \<le> fval c \<and> fval c \<le> 1"

lemma fin_nonneg_ge0: "fin_nonneg a \<Longrightarrow> 0 \<le> a"
  by (auto simp: fin_nonneg_def fin_le)

lemma fin_nonneg_not_nan: "fin_nonneg a \<Longrightarrow> a \<noteq> FNaN"
  by (auto simp: fin_nonneg_def is_fin_def)

lemma fin_nonnegI: "0 \<le> a \<Longrightarrow> is_fin a \<Longrightarrow> f64_ok a \<Longrightarrow> fin_nonneg a"
  by (auto simp: fin_nonneg_def fin_le)

lemma fin_nonneg_zero [simp]: "fin_nonneg 0"
  by (simp add: fin_nonneg_def)

lemma rnd_shrink:
  assumes "fin_nonneg x" "0 \<le> q" "q \<le> fval x"
  shows "fin_nonneg (rnd q)" and "rnd q \<le> x"
proof -
  have x: "is_fin x" "f64_ok x" using assms(1) by (auto simp: fin_nonneg_def)
  have "rnd q \<le> rnd (fval x)" using assms(3) by (rule rnd_mono)
  then have le: "rnd q \<le> Fin (fval x)" by (simp add: rnd_fval x)
  have ge: "0 \<le> rnd q" using assms(2) by (rule rnd_nonneg)
  have fin: "is_fin (rnd q)" using fin_between[OF ge le] by simp
  with ge show "fin_nonneg (rnd q)" by (simp add: fin_nonnegI)
  from le fin x show "rnd q \<le> x" by (simp add: fin_le)
qed

lemma mul_unit_shrink:
  assumes "fin_nonneg x" "unit_scale c"
  shows "fin_nonneg (x * c)" and "x * c \<le> x"
proof -
  have fin: "is_fin x" "is_fin c" "0 \<le> fval x" "0 \<le> fval c" "fval c \<le> 1"
    using assms by (auto simp: fin_nonneg_def unit_scale_def)
  note e = mul_feqv[OF fin(1,2)]
  have q: "0 \<le> fval x * fval c" "fval x * fval c \<le> fval x"
    using fin by (simp_all add: mult_left_le)
  from rnd_shrink[OF assms(1) q] e
  show "fin_nonneg (x * c)" "x * c \<le> x"
    by (auto simp: fin_nonneg_def feqv_is_fin feqv_fval feqv_le)
qed

lemma unit_scale_one [simp]: "unit_scale 1"
  by (simp add: unit_scale_def)

lemma unit_scale_lit:
  assumes "0 \<le> q" "q \<le> 1"
  shows "unit_scale (lit q)"
proof -
  have one: "fin_nonneg 1" by (simp add: fin_nonneg_def)
  from rnd_shrink[OF one, of q] assms show ?thesis
    by (auto simp: unit_scale_def lit_def fin_nonneg_def fin_le)
qed

lemma fin_nonneg_sub_shrink:
  assumes "fin_nonneg x" "fin_nonneg y" "y \<le> x"
  shows "fin_nonneg (x - y)" and "x - y \<le> x"
proof -
  have fin: "is_fin x" "is_fin y" "0 \<le> fval y" "fval y \<le> fval x"
    using assms by (auto simp: fin_nonneg_def fin_le)
  note e = sub_feqv[OF fin(1,2)]
  from rnd_shrink[OF assms(1), of "fval x - fval y"] fin e assms(1,2)
  show "fin_nonneg (x - y)" "x - y \<le> x"
    by (auto simp: fin_nonneg_def feqv_is_fin feqv_fval feqv_le)
qed

lemma abs_fin_nonneg [simp]: "fin_nonneg x \<Longrightarrow> feqv \<bar>x\<bar> x"
  by (auto simp: fin_nonneg_def feqv_def abs_f64_def is_zero_def elim!: is_finE)

lemma f64_ok_abs [simp, f64_intro]: "f64_ok a \<Longrightarrow> f64_ok \<bar>a\<bar>"
  by (cases a) (auto simp: abs_f64_def abs_if)

lemma add_ge_left:
  assumes "fin_nonneg x" "fin_nonneg y"
  shows "x \<le> x + y" and "0 \<le> x + y"
proof -
  have fin: "is_fin x" "is_fin y" "0 \<le> fval x" "0 \<le> fval y" "f64_ok x"
    using assms by (auto simp: fin_nonneg_def)
  note e = add_feqv[OF fin(1,2)]
  have "rnd (fval x) \<le> rnd (fval x + fval y)" using fin by (intro rnd_mono) simp
  then have "x \<le> rnd (fval x + fval y)"
    using fin by (simp add: rnd_fval less_eq_f64_def is_fin_def)
  with e show "x \<le> x + y" by (simp add: feqv_le)
  with fin_nonneg_ge0[OF assms(1)] show "0 \<le> x + y" by (rule f64_le_trans)
qed

lemma mul_mono_le:
  assumes "fin_nonneg a" "fin_nonneg b" "fin_nonneg c" "a \<le> b"
  shows "a * c \<le> b * c"
proof -
  have fin: "is_fin a" "is_fin b" "is_fin c" "0 \<le> fval c" "fval a \<le> fval b"
    using assms by (auto simp: fin_nonneg_def fin_le)
  have "rnd (fval a * fval c) \<le> rnd (fval b * fval c)"
    using fin by (intro rnd_mono mult_right_mono)
  then show ?thesis
    using mul_feqv[OF fin(1,3)] mul_feqv[OF fin(2,3)] by (simp add: feqv_le)
qed

text \<open>The error of one rounding, in the range of normal numbers.\<close>

lemma rnd_pos_error:
  assumes "pow2 (-1022) \<le> x"
  shows "\<bar>rnd_pos x - x\<bar> \<le> x * pow2 (-53)"
proof -
  have pos: "0 < x" using assms pow2_pos(1)[of "-1022"] by linarith
  have "pow2 (-1022) < pow2 (ilog2 x + 1)" using assms ilog2_bounds(2)[OF pos] by linarith
  then have u: "ulp_exp x = ilog2 x - 52" by (simp add: ulp_exp_def)
  define y where "y = x / pow2 (ulp_exp x)"
  have "rnd_pos x - x = (of_int (round_half_even y) - y) * pow2 (ulp_exp x)"
    by (simp add: rnd_pos_def y_def algebra_simps)
  then have "\<bar>rnd_pos x - x\<bar> = \<bar>of_int (round_half_even y) - y\<bar> * pow2 (ulp_exp x)"
    by (simp add: abs_mult)
  also have "\<dots> \<le> 1/2 * pow2 (ulp_exp x)"
    by (intro mult_right_mono round_half_even_error) simp
  also have "\<dots> = pow2 (ilog2 x) * pow2 (-53)"
    using pow2_add[of "ilog2 x - 52" "-1"] pow2_add[of "ilog2 x" "-53"] pow2_numeral(5) 
    by (simp add: u)
  also have "\<dots> \<le> x * pow2 (-53)"
    by (intro mult_right_mono ilog2_bounds(1)[OF pos]) simp
  finally show ?thesis .
qed

lemma rnd_eq_rnd_pos:
  assumes "0 < x" "x \<le> pow2 1000"
  shows "rnd x = Fin (rnd_pos x)"
proof -
  have "pow2 (ilog2 x) \<le> pow2 1000" using ilog2_bounds(1)[OF assms(1)] assms(2) by linarith
  then have "ulp_exp x \<le> 1000" by (simp add: ulp_exp_def)
  then have "rnd_pos x \<le> pow2 (1000 + 0)" using assms by (intro rnd_pos_upper) auto
  also have "\<dots> < f64_limit" using f64_limit_gt[of 1000] by (simp add: pow2_nat)
  finally show ?thesis using assms(1) by (simp add: rnd_pos_eq)
qed

lemma float_of_int_exact: "\<bar>n\<bar> \<le> 2 ^ 53 \<Longrightarrow> float_of_int n = Fin (of_int n)"
  by (simp add: float_of_int_def rnd_representable representable_of_int)

section \<open>Monotonicity, infinities included\<close>

lemma f64_le_cases:
  assumes "a \<le> (b :: f64)"
  obtains "a = FNegInf" "b \<noteq> FNaN" | "b = FPosInf" "a \<noteq> FNaN" | "is_fin a" "is_fin b" "fval a \<le> fval b"
  using assms by (cases a; cases b) (auto simp: less_eq_f64_def)

lemma f64_bounds [simp]: "FNegInf \<le> a \<longleftrightarrow> a \<noteq> FNaN" "a \<le> FPosInf \<longleftrightarrow> a \<noteq> FNaN"
  by (cases a; simp add: less_eq_f64_def)+

lemma inf_ops [simp]:
  "is_fin c \<Longrightarrow> FNegInf + c = FNegInf" "is_fin c \<Longrightarrow> FPosInf + c = FPosInf"
  "is_fin c \<Longrightarrow> 0 < fval c \<Longrightarrow> FNegInf * c = FNegInf"
  "is_fin c \<Longrightarrow> 0 < fval c \<Longrightarrow> FPosInf * c = FPosInf"
  "is_fin c \<Longrightarrow> 0 < fval c \<Longrightarrow> FNegInf / c = FNegInf"
  "is_fin c \<Longrightarrow> 0 < fval c \<Longrightarrow> FPosInf / c = FPosInf"
  by (auto simp: plus_f64_def times_f64_def divide_f64_def is_inf_def is_zero_def is_fin_def
      fsign_def finf_def split: f64.splits)

lemma fzero_finf_not_nan [simp]: "fzero s \<noteq> FNaN" "finf s \<noteq> FNaN"
  by (simp_all add: fzero_def finf_def)

lemma is_zero_not_inf [simp]: "is_zero a \<Longrightarrow> \<not> is_inf a"
  by (auto simp: is_zero_def is_inf_def)

lemma op_not_nan:
  "a \<noteq> FNaN \<Longrightarrow> is_fin c \<Longrightarrow> a + c \<noteq> FNaN"
  "a \<noteq> FNaN \<Longrightarrow> is_fin c \<Longrightarrow> 0 < fval c \<Longrightarrow> a * c \<noteq> FNaN"
  "a \<noteq> FNaN \<Longrightarrow> is_fin c \<Longrightarrow> 0 < fval c \<Longrightarrow> a / c \<noteq> FNaN"
  by (simp_all add: plus_f64_def times_f64_def divide_f64_def fin_not_nan is_zero_iff)

lemma f64_add_mono:
  assumes "a \<le> b" "is_fin c"
  shows "a + c \<le> b + c"
  using assms(1)
proof (cases rule: f64_le_cases)
  case 3
  then have "rnd (fval a + fval c) \<le> rnd (fval b + fval c)" by (intro rnd_mono) simp
  then show ?thesis using add_feqv[OF 3(1) assms(2)] add_feqv[OF 3(2) assms(2)]
    by (simp add: feqv_le)
qed (use assms(2) in \<open>simp_all add: op_not_nan\<close>)

lemma f64_mul_mono:
  assumes "a \<le> b" "is_fin c" "0 < fval c"
  shows "a * c \<le> b * c"
  using assms(1)
proof (cases rule: f64_le_cases)
  case 3
  then have "rnd (fval a * fval c) \<le> rnd (fval b * fval c)"
    using assms(3) by (intro rnd_mono) simp
  then show ?thesis using mul_feqv[OF 3(1) assms(2)] mul_feqv[OF 3(2) assms(2)]
    by (simp add: feqv_le)
qed (use assms(2,3) in \<open>simp_all add: op_not_nan\<close>)

lemma f64_div_mono:
  assumes "a \<le> b" "is_fin c" "0 < fval c"
  shows "a / c \<le> b / c"
  using assms(1)
proof (cases rule: f64_le_cases)
  case 3
  then have "rnd (fval a / fval c) \<le> rnd (fval b / fval c)"
    using assms(3) by (intro rnd_mono divide_right_mono) simp_all
  then show ?thesis using div_feqv[OF 3(1) assms(2)] div_feqv[OF 3(2) assms(2)] assms(3)
    by (simp add: feqv_le)
qed (use assms(2,3) in \<open>simp_all add: op_not_nan\<close>)

lemma f64_sub_mono: "a \<le> b \<Longrightarrow> is_fin c \<Longrightarrow> a - c \<le> b - c"
  by (simp add: minus_f64_def f64_add_mono)

lemma f64_add_commute: "a + b = b + (a :: f64)"
  by (auto simp: plus_f64_def is_inf_def add.commute)

lemma f64_mul_commute: "a * b = b * (a :: f64)"
proof -
  have s: "(fsign a \<noteq> fsign b) = (fsign b \<noteq> fsign a)" by blast
  show ?thesis unfolding times_f64_def s by (simp add: mult.commute disj_commute)
qed

lemma f64_sub_antimono: "a \<le> b \<Longrightarrow> is_fin c \<Longrightarrow> c - b \<le> c - a"
  by (simp add: minus_f64_def f64_add_commute[of c] f64_add_mono f64_neg_le)

text \<open>Small integers and the literals the code uses.\<close>

lemma lit_int: "lit (of_int n) = Fin (of_int n)" if "\<bar>n\<bar> \<le> 2 ^ 53"
  using that by (simp add: lit_def rnd_representable representable_of_int)

lemma lit_numeral: "numeral k \<le> (2 ^ 53 :: int) \<Longrightarrow> lit (numeral k) = Fin (numeral k)"
  using lit_int[of "numeral k"] by simp

lemma lit_0 [simp]: "lit 0 = 0"
  by (simp add: lit_def zero_f64_def)

lemma lit_1 [simp]: "lit 1 = 1"
  using lit_int[of 1] by (simp add: one_f64_def)

lemma lit_not_nan [simp]: "lit q \<noteq> FNaN"
  by (simp add: lit_def)

lemma lit_pos_fin:
  assumes "0 < q" "q \<le> pow2 1000"
  shows "is_fin (lit q)" "0 \<le> fval (lit q)"
  using rnd_eq_rnd_pos[OF assms] rnd_pos_nonneg[of q] assms(1) by (simp_all add: lit_def)

section \<open>Relative error of one rounding\<close>

definition eps1 :: rat where
  "eps1 = 1 + 1 / 2 ^ 52"

lemma eps1_gt: "1 < eps1" "0 < eps1" "1 \<le> eps1"
  by (simp_all add: eps1_def)

lemma rnd_pos_tiny: "0 < x \<Longrightarrow> x < pow2 (-1022) \<Longrightarrow> rnd_pos x \<le> pow2 (-1022)"
proof -
  assume x: "0 < x" "x < pow2 (-1022)"
  have "pow2 (ilog2 x) < pow2 (-1022)" using ilog2_bounds(1)[OF x(1)] x(2) by linarith
  then have "ulp_exp x \<le> -1074" by (simp add: ulp_exp_def)
  then show ?thesis using rnd_pos_upper[of x "-1074" 52] x by simp
qed

lemma pow2_minus: "pow2 (- k) = 1 / pow2 k"
  by (simp add: pow2_def power_int_minus_divide)

lemma tiny_small: "pow2 (-900) \<le> y \<Longrightarrow> pow2 (-1022) \<le> y * pow2 (-53)"
proof -
  assume "pow2 (-900) \<le> y"
  then have "pow2 (-900) * pow2 (-53) \<le> y * pow2 (-53)" by (intro mult_right_mono) simp_all
  moreover have "pow2 (-1022) \<le> pow2 (-900) * pow2 (-53)" by (simp flip: pow2_add)
  ultimately show ?thesis by (rule order.trans[rotated])
qed

lemma rnd_up:
  assumes "0 \<le> x" "x \<le> y" "pow2 (-900) \<le> y" "is_fin (rnd x)"
  shows "fval (rnd x) \<le> y * eps1"
proof (cases "x = 0")
  case True
  have "0 \<le> y * eps1" using assms(1,2) eps1_gt by (intro mult_nonneg_nonneg) simp_all
  with True show ?thesis by simp
next
  case False
  then have x: "0 < x" using assms(1) by simp
  then have r: "fval (rnd x) = rnd_pos x"
    using assms(4) by (auto simp: rnd_pos_eq Let_def split: if_splits)
  have u: "eps1 = 1 + pow2 (-53) + pow2 (-53)"
    by (simp add: eps1_def pow2_numeral)
  have t: "pow2 (-1022) \<le> y * pow2 (-53)" by (rule tiny_small[OF assms(3)])
  have y: "0 < y" using x assms(2) by simp
  show ?thesis
  proof (cases "pow2 (-1022) \<le> x")
    case True
    have "rnd_pos x \<le> x + x * pow2 (-53)" using rnd_pos_error[OF True] by linarith
    also have "\<dots> \<le> y + y * pow2 (-53)" using assms(2) by (intro add_mono mult_right_mono) simp_all
    also have "\<dots> \<le> y * eps1" using y by (simp add: u algebra_simps)
    finally show ?thesis by (simp add: r)
  next
    case False
    then have "rnd_pos x \<le> y * pow2 (-53)" using rnd_pos_tiny[OF x] t by linarith
    also have "\<dots> \<le> y * eps1" using y by (simp add: u algebra_simps)
    finally show ?thesis by (simp add: r)
  qed
qed

lemma rnd_down:
  assumes "0 \<le> x" "fval (rnd x) \<le> y" "pow2 (-900) \<le> y" "is_fin (rnd x)"
  shows "x \<le> y * eps1"
proof (cases "pow2 (-1022) \<le> x")
  case True
  then have x: "0 < x" using pow2_pos(1)[of "-1022"] by linarith
  then have r: "fval (rnd x) = rnd_pos x"
    using assms(4) by (auto simp: rnd_pos_eq Let_def split: if_splits)
  have "x - x * pow2 (-53) \<le> y" using rnd_pos_error[OF True] assms(2) by (simp add: r abs_le_iff)
  then have a: "x * (1 - 1 / 2 ^ 53) \<le> y" by (simp add: pow2_numeral algebra_simps)
  have "x \<le> x * ((1 - 1 / 2 ^ 53) * eps1)" using x by (simp add: eps1_def)
  also have "\<dots> = x * (1 - 1 / 2 ^ 53) * eps1" by (simp only: mult.assoc)
  also have "\<dots> \<le> y * eps1" using a eps1_gt by (intro mult_right_mono) simp_all
  finally show ?thesis .
next
  case False
  have y: "0 < y" using assms(3) pow2_pos(1)[of "-900"] by linarith
  have "x \<le> y * pow2 (-53)" using False tiny_small[OF assms(3)] by linarith
  also have "\<dots> \<le> y * eps1" using y by (intro mult_left_mono) (simp_all add: pow2_numeral eps1_def)
  finally show ?thesis .
qed

lemma rnd_fin: "0 \<le> x \<Longrightarrow> x \<le> pow2 1000 \<Longrightarrow> is_fin (rnd x)"
  using rnd_eq_rnd_pos[of x] by (cases "x = 0") auto

lemma fin_nonneg_rnd: "0 \<le> x \<Longrightarrow> x \<le> pow2 1000 \<Longrightarrow> fin_nonneg (rnd x)"
  using rnd_fin[of x] rnd_nonneg[of x] by (intro fin_nonnegI) simp_all

lemma fin_nonneg_feqv: "feqv a b \<Longrightarrow> fin_nonneg a = fin_nonneg b"
  by (auto simp: fin_nonneg_def feqv_def is_zero_def)

end
