(* ===== verification/FloatEval.thy ===== *)
theory FloatEval
  imports Float64
begin

text \<open>
  Evaluation of closed \<open>f64\<close> terms by the simplifier: \<open>simp add: f64_eval\<close> computes
  each rounding with integer arithmetic only. The witnesses use it.
\<close>

definition round_quot :: "int \<Rightarrow> int \<Rightarrow> int" where
  "round_quot n d = (let q = n div d; r = 2 * (n mod d) in
     if r < d then q else if d < r then q + 1 else if even q then q else q + 1)"

definition frac_log :: "int \<Rightarrow> int \<Rightarrow> int" where
  "frac_log n d = (let k = bitlen n - bitlen d in
     if (if 0 \<le> k then d * 2 ^ nat k \<le> n else d \<le> n * 2 ^ nat (- k)) then k else k - 1)"

definition frac_rnd :: "int \<Rightarrow> int \<Rightarrow> int \<Rightarrow> f64" where
  "frac_rnd n d e = (if 0 \<le> e
     then let v = round_quot n (d * 2 ^ nat e) * 2 ^ nat e in
       if f64_limit \<le> of_int v then FPosInf else Fin (of_int v)
     else Fin (of_int (round_quot (n * 2 ^ nat (- e)) d) / 2 ^ nat (- e)))"

lemma round_quot_eq:
  assumes "0 < d"
  shows "round_half_even (of_int n / of_int d) = round_quot n d"
proof -
  have f: "\<lfloor>of_int n / of_int d :: rat\<rfloor> = n div d" by (simp add: floor_divide_of_int_eq)
  have n: "of_int n = of_int (n div d) * of_int d + (of_int (n mod d) :: rat)"
    by (metis div_mult_mod_eq of_int_add of_int_mult)
  have r: "of_int n / of_int d - of_int (n div d) = (of_int (n mod d) / of_int d :: rat)"
    using assms unfolding n by (simp add: field_simps)
  have "of_int (n mod d) / of_int d < (1/2 :: rat) \<longleftrightarrow> of_int (2 * (n mod d)) < (of_int d :: rat)"
    "(1/2 :: rat) < of_int (n mod d) / of_int d \<longleftrightarrow> of_int d < (of_int (2 * (n mod d)) :: rat)"
    using assms by (simp_all add: field_simps)
  then show ?thesis
    unfolding round_half_even_def round_quot_def Let_def f r of_int_less_iff by simp
qed

lemma pow2_frac: "0 \<le> k \<Longrightarrow> pow2 k = of_int (2 ^ nat k)" "k < 0 \<Longrightarrow> pow2 k = 1 / of_int (2 ^ nat (- k))"
  by (simp_all add: pow2_def power_int_def field_simps)

lemma frac_log_eq:
  assumes "0 < n" "0 < d"
  shows "ilog2 (of_int n / of_int d) = frac_log n d"
proof -
  have i: "ilog2 (of_int n / of_int d) = (let k = bitlen n - bitlen d
      in if pow2 k \<le> of_int n / of_int d then k else k - 1)"
    using quotient_bounds[OF assms] by (auto simp: Let_def intro!: ilog2_unique)
  have "pow2 k \<le> of_int n / of_int d \<longleftrightarrow>
      (if 0 \<le> k then d * 2 ^ nat k \<le> n else d \<le> n * 2 ^ nat (- k))" for k
  proof (cases "0 \<le> k")
    case True
    have "pow2 k \<le> of_int n / of_int d \<longleftrightarrow> (of_int (d * 2 ^ nat k) :: rat) \<le> of_int n"
      using assms(2) True by (simp add: pow2_frac field_simps)
    with True show ?thesis by (simp only: of_int_le_iff if_True)
  next
    case False
    have "pow2 k \<le> of_int n / of_int d \<longleftrightarrow> (of_int d :: rat) \<le> of_int (n * 2 ^ nat (- k))"
      using assms(2) False by (simp add: pow2_frac field_simps)
    with False show ?thesis by (simp only: of_int_le_iff if_False)
  qed
  then show ?thesis unfolding i frac_log_def by simp
qed

lemma rnd_frac:
  assumes "0 < n" "0 < d"
  shows "rnd (of_int n / of_int d) = frac_rnd n d (max (frac_log n d - 52) (- 1074))"
proof -
  define e where "e = max (frac_log n d - 52) (- 1074)"
  have u: "ulp_exp (of_int n / of_int d) = e"
    by (simp add: ulp_exp_def frac_log_eq[OF assms] e_def)
  have "rnd (of_int n / of_int d) = (let r = rnd_pos (of_int n / of_int d) in
      if f64_limit \<le> r then FPosInf else Fin r)"
    using assms by (simp add: rnd_pos_eq Let_def)
  also have "\<dots> = frac_rnd n d e"
  proof (cases "0 \<le> e")
    case True
    have "(of_int n / of_int d) / pow2 e = (of_int n / of_int (d * 2 ^ nat e) :: rat)"
      using True by (simp add: pow2_frac)
    then show ?thesis
      using True assms round_quot_eq[of "d * 2 ^ nat e" n] unfolding rnd_pos_def u frac_rnd_def Let_def
      by (simp add: pow2_frac)
  next
    case False
    have "(of_int n / of_int d) / pow2 e = (of_int (n * 2 ^ nat (- e)) / of_int d :: rat)"
      using False by (simp add: pow2_frac)
    then have r: "rnd_pos (of_int n / of_int d) = of_int (round_quot (n * 2 ^ nat (- e)) d) / 2 ^ nat (- e)"
      using False assms round_quot_eq[of d "n * 2 ^ nat (- e)"] unfolding rnd_pos_def u
      by (simp add: pow2_frac)
    have "\<not> f64_limit \<le> rnd_pos (of_int n / of_int d)"
      using rnd_pos_upper[of "of_int n / of_int d" e 53] less_ulp_exp[of "of_int n / of_int d"]
        f64_limit_gt[of 53] pow2_le_iff[of "e + 53" 53] False assms
      by (simp add: u pow2_numeral)
    with False show ?thesis unfolding frac_rnd_def Let_def by (simp add: r)
  qed
  finally show ?thesis by (simp add: e_def)
qed

lemma rnd_numeral_frac [f64_eval]:
  "rnd (numeral a / numeral b) = frac_rnd (numeral a) (numeral b)
     (max (frac_log (numeral a) (numeral b) - 52) (- 1074))"
  "rnd (1 / numeral b) = frac_rnd 1 (numeral b) (max (frac_log 1 (numeral b) - 52) (- 1074))"
  using rnd_frac[of "numeral a" "numeral b"] rnd_frac[of 1 "numeral b"] by simp_all

lemma rnd_numeral [f64_eval]:
  "rnd 1 = Fin 1"
  "rnd (numeral a) = (if numeral a \<le> (9007199254740992 :: int) then Fin (numeral a)
     else frac_rnd (numeral a) 1 (max (frac_log (numeral a) 1 - 52) (- 1074)))"
  using rnd_frac[of "numeral a" 1] lit_1 lit_numeral[of a] by (simp_all add: lit_def one_f64_def)

lemma rnd_uminus [f64_eval]: "0 < x \<Longrightarrow> rnd (- x) = - rnd x"
  by (simp add: rnd_minus)

lemma bitlen_numeral [f64_eval]:
  "bitlen (numeral (Num.Bit0 n)) = bitlen (numeral n) + 1"
  "bitlen (numeral (Num.Bit1 n)) = bitlen (numeral n) + 1"
  "bitlen 1 = 1"
  by (simp_all add: compute_bitlen[of "numeral (Num.Bit0 n)"]
      compute_bitlen[of "numeral (Num.Bit1 n)"] compute_bitlen[of 1] numeral_Bit0_div_2 numeral_Bit1_div_2)

lemma f64_limit_large [f64_eval]: "q < 2 ^ 100 \<Longrightarrow> f64_limit \<le> q \<longleftrightarrow> False"
  using f64_limit_gt[of 100] by simp

lemmas [f64_eval] = round_quot_def frac_log_def frac_rnd_def lit_def float_of_int_def
  zero_f64_def one_f64_def fzero_def finf_def is_zero_def is_inf_def is_nan_def

lemma fin_ops [f64_eval]:
  "- Fin a = (if a = 0 then FNegZero else Fin (- a))"
  "Fin a + Fin b = rnd (a + b)"
  "Fin a - Fin b = rnd (a - b)"
  "Fin a * Fin b = (if a = 0 \<or> b = 0 then fzero ((a < 0) \<noteq> (b < 0)) else rnd (a * b))"
  "Fin a / Fin b = (if b = 0 then if a = 0 then FNaN else finf (a < 0)
     else if a = 0 then fzero (b < 0) else rnd (a / b))"
  "\<bar>Fin a\<bar> = Fin \<bar>a\<bar>"
  by (auto simp: uminus_f64_def plus_f64_def minus_f64_def times_f64_def divide_f64_def abs_f64_def
      is_inf_def is_zero_def fsign_def)

lemma fin_compare [f64_eval]:
  "Fin a < Fin b \<longleftrightarrow> a < b" "Fin a \<le> Fin b \<longleftrightarrow> a \<le> b" "feq (Fin a) (Fin b) \<longleftrightarrow> a = b"
  "math_max (Fin a) (Fin b) = (if b < a then Fin a else Fin b)"
  "math_min (Fin a) (Fin b) = (if a < b then Fin a else Fin b)"
  by (auto simp: less_f64_def less_eq_f64_def feq_def math_max_def math_min_def is_zero_def fsign_def)

text \<open>The same with a negative zero, an infinity or NaN as an argument.\<close>

lemma neg_zero_ops [f64_eval]:
  "- FNegZero = Fin 0" "FNegZero + Fin b = rnd b" "Fin b + FNegZero = rnd b"
  "FNegZero - Fin b = (if b = 0 then FNegZero else rnd (- b))" "Fin b - FNegZero = rnd b"
  "FNegZero * Fin b = fzero (\<not> b < 0)" "Fin b * FNegZero = fzero (\<not> b < 0)"
  "b \<noteq> 0 \<Longrightarrow> FNegZero / Fin b = fzero (\<not> b < 0)" "\<bar>FNegZero\<bar> = Fin 0"
  by (auto simp: uminus_f64_def plus_f64_def minus_f64_def times_f64_def divide_f64_def abs_f64_def
      is_inf_def is_zero_def fsign_def)

lemma neg_zero_compare [f64_eval]:
  "FNegZero < Fin b \<longleftrightarrow> 0 < b" "Fin b < FNegZero \<longleftrightarrow> b < 0"
  "FNegZero \<le> Fin b \<longleftrightarrow> 0 \<le> b" "Fin b \<le> FNegZero \<longleftrightarrow> b \<le> 0"
  "feq FNegZero (Fin b) \<longleftrightarrow> b = 0" "feq (Fin b) FNegZero \<longleftrightarrow> b = 0"
  by (auto simp: less_f64_def less_eq_f64_def feq_def)

lemma inf_compare [f64_eval]:
  "Fin b < FPosInf" "Fin b \<le> FPosInf" "FNegInf < Fin b" "FNegInf \<le> Fin b"
  "\<not> FPosInf < Fin b" "\<not> FPosInf \<le> Fin b" "\<not> Fin b < FNegInf" "\<not> Fin b \<le> FNegInf"
  "\<not> feq FPosInf (Fin b)" "\<not> feq (Fin b) FPosInf" "\<not> feq FNegInf (Fin b)" "\<not> feq (Fin b) FNegInf"
  by (auto simp: less_f64_def less_eq_f64_def feq_def)

lemma inf_nan_ops [f64_eval]:
  "FNaN + a = FNaN" "a + FNaN = FNaN" "FNaN - a = FNaN" "a - FNaN = FNaN" "FNaN * a = FNaN"
  "a * FNaN = FNaN" "FNaN / a = FNaN" "a / FNaN = FNaN" "- FNaN = FNaN" "\<bar>FNaN\<bar> = FNaN"
  "- FPosInf = FNegInf" "- FNegInf = FPosInf" "\<bar>FPosInf\<bar> = FPosInf" "\<bar>FNegInf\<bar> = FPosInf"
  "Fin b + FPosInf = FPosInf" "Fin b - FPosInf = FNegInf" "FPosInf - Fin b = FPosInf"
  "b \<noteq> 0 \<Longrightarrow> Fin b * FPosInf = finf (b < 0)" "b \<noteq> 0 \<Longrightarrow> FPosInf * Fin b = finf (b < 0)"
  "Fin 0 * FPosInf = FNaN" "FPosInf * Fin 0 = FNaN" "Fin b / FPosInf = fzero (b < 0)"
  by (auto simp: uminus_f64_def plus_f64_def minus_f64_def times_f64_def divide_f64_def abs_f64_def
      is_inf_def is_zero_def fsign_def finf_def split: f64.splits)

lemma math_round_eval [f64_eval]:
  "math_round (Fin q) = (let r = \<lfloor>\<bar>q\<bar> + 1/2\<rfloor> in
     if r = 0 then fzero (q < 0) else Fin (if q < 0 then - of_int r else of_int r))"
  by (simp add: math_round_def)

lemma floor_rat_numeral [f64_eval]:
  "\<lfloor>(numeral a :: rat) / numeral b\<rfloor> = numeral a div numeral b"
  "\<lfloor>1 / (numeral b :: rat)\<rfloor> = 1 div numeral b"
  using floor_divide_of_int_eq[of "numeral a" "numeral b", where 'a = rat]
    floor_divide_of_int_eq[of 1 "numeral b", where 'a = rat] by simp_all

lemma representable_numeral [f64_eval]:
  "numeral k \<le> (9007199254740992 :: int) \<Longrightarrow> representable (numeral k)" "representable 1"
  using lit_numeral[of k] lit_1 by (simp_all add: representable_def lit_def one_f64_def)

lemma fin_nonneg_lit_numeral [simp]: "numeral k \<le> (9007199254740992 :: int) \<Longrightarrow> fin_nonneg (lit (numeral k))"
  by (simp add: lit_numeral fin_nonneg_def representable_numeral)

end
