(* ===== verification/Gates.thy ===== *)
theory Gates
  imports FloatEval
begin

text \<open>
  The three interfaces of \<open>internal/risk/interfaces.go\<close> through which the signal pipeline
  reaches its collaborators. A Go interface value is a method table together with the
  state it works on: the record types below are the tables, with a method that may
  change its receiver returning the new state. The optional methods, which the pipeline
  looks for with a type assertion, are option fields. \<open>time.Now()\<close> is an argument.

  For each interface a locale states the laws the pipeline relies on, relative to an
  invariant of the state; the theories of the implementations interpret it.
\<close>

record CapitalRequest =
  cr_StrategyID :: string
  cr_Confidence :: f64
  cr_Symbol :: string
  cr_Side :: string
  cr_BaseSize :: f64

record CapitalResult =
  cs_ApprovedSize :: f64
  cs_Reason :: string

definition capital_result :: "f64 \<Rightarrow> string \<Rightarrow> CapitalResult" where
  "capital_result sz reason = \<lparr>cs_ApprovedSize = sz, cs_Reason = reason\<rparr>"

lemma capital_result_simps [simp]:
  "cs_ApprovedSize (capital_result sz r) = sz" "cs_Reason (capital_result sz r) = r"
  by (simp_all add: capital_result_def)

record 's CapitalGate =
  cg_RequestCapital :: "'s \<Rightarrow> CapitalRequest \<Rightarrow> CapitalResult \<times> 's"
  cg_RecordFill :: "'s \<Rightarrow> string \<Rightarrow> string \<Rightarrow> string \<Rightarrow> f64 \<Rightarrow> f64 \<Rightarrow> 's"
  cg_ResetDaily :: "'s \<Rightarrow> 's"
  cg_Halted :: "'s \<Rightarrow> bool"
  cg_HaltReason :: "'s \<Rightarrow> string"
  cg_TotalBalance :: "'s \<Rightarrow> f64"
  cg_HasOpenPosition :: "('s \<Rightarrow> string \<Rightarrow> string \<Rightarrow> bool) option"
  cg_ApplyCorrelationReduction :: "('s \<Rightarrow> string \<Rightarrow> string \<Rightarrow> f64 \<Rightarrow> f64) option"
  cg_PerStrategyDrawdown :: "('s \<Rightarrow> string \<Rightarrow> f64) option"

record 's PropFirmGate =
  pg_CheckDailyLimits :: "'s \<Rightarrow> (bool \<times> string) \<times> 's"
  pg_OnFill :: "'s \<Rightarrow> f64 \<Rightarrow> f64 \<Rightarrow> 's"
  pg_OnNewDay :: "'s \<Rightarrow> 's"
  pg_IsHalted :: "'s \<Rightarrow> bool"
  pg_HaltReason :: "'s \<Rightarrow> string"
  pg_MarkViolated :: "'s \<Rightarrow> string \<Rightarrow> 's"
  pg_CurrentPhase :: "'s \<Rightarrow> int"
  pg_ProfitTargetMet :: "'s \<Rightarrow> bool"
  pg_GetPositionSize :: "'s \<Rightarrow> f64 \<Rightarrow> f64"
  pg_SoftHalt :: "('s \<Rightarrow> bool) option"
  pg_SoftHaltMultiplier :: "'s \<Rightarrow> f64"

record 's SignalGate =
  sg_ValidateSignal :: "'s \<Rightarrow> f64 \<Rightarrow> int \<Rightarrow> (bool \<times> string) \<times> 's"
  sg_ApplySizing :: "'s \<Rightarrow> f64 \<Rightarrow> f64 \<Rightarrow> f64 \<Rightarrow> f64"
  sg_CheckExposure :: "'s \<Rightarrow> string \<Rightarrow> string \<Rightarrow> f64 \<Rightarrow> bool \<times> string"
  sg_RecordExposure :: "'s \<Rightarrow> string \<Rightarrow> string \<Rightarrow> f64 \<Rightarrow> 's"
  sg_RemoveExposure :: "'s \<Rightarrow> string \<Rightarrow> string \<Rightarrow> f64 \<Rightarrow> 's"

text \<open>A size that stays between zero and another one.\<close>

definition shrunk :: "f64 \<Rightarrow> f64 \<Rightarrow> bool" where
  "shrunk b x \<longleftrightarrow> fin_nonneg x \<and> x \<le> b"

lemma shrunk_mul [intro]: "shrunk b x \<Longrightarrow> unit_scale c \<Longrightarrow> shrunk b (x * c)"
  using mul_unit_shrink[of x c] f64_le_trans[of "x * c" x b] by (simp add: shrunk_def)

lemma shrunk_refl: "fin_nonneg b \<Longrightarrow> shrunk b b"
  by (simp add: shrunk_def fin_nonneg_not_nan)

lemma shrunk_zero: "fin_nonneg b \<Longrightarrow> shrunk b 0"
  by (simp add: shrunk_def fin_nonneg_ge0)

lemma shrunk_if [intro]: "(c \<Longrightarrow> shrunk b x) \<Longrightarrow> (\<not> c \<Longrightarrow> shrunk b y) \<Longrightarrow> shrunk b (if c then x else y)"
  by simp

lemma shrunk_trans: "shrunk b x \<Longrightarrow> shrunk x y \<Longrightarrow> shrunk b y"
  using f64_le_trans[of y x b] by (simp add: shrunk_def)

lemma shrunk_fin_nonneg: "shrunk b x \<Longrightarrow> fin_nonneg x"
  by (simp add: shrunk_def)

lemma shrunkI: "fin_nonneg b \<Longrightarrow> x \<le> b \<Longrightarrow> 0 \<le> x \<Longrightarrow> f64_ok x \<Longrightarrow> shrunk b x"
  using fin_between[of 0 x b] by (auto simp: shrunk_def fin_nonneg_def fin_le)

text \<open>
  The capital gate: what it approves is at most what was asked for, it approves nothing
  while it is halted, and the optional correlation reduction only reduces.
\<close>

locale capital_gate =
  fixes G :: "'s CapitalGate" and inv :: "'s \<Rightarrow> bool"
  assumes request_inv: "inv s \<Longrightarrow> fin_nonneg (cr_BaseSize r) \<Longrightarrow> 0 \<le> cr_Confidence r \<Longrightarrow>
      inv (snd (cg_RequestCapital G s r))"
    and request_le: "inv s \<Longrightarrow> fin_nonneg (cr_BaseSize r) \<Longrightarrow> 0 \<le> cr_Confidence r \<Longrightarrow>
      cs_ApprovedSize (fst (cg_RequestCapital G s r)) \<le> cr_BaseSize r \<and>
      f64_ok (cs_ApprovedSize (fst (cg_RequestCapital G s r)))"
    and halted_zero: "cg_Halted G s \<Longrightarrow> cs_ApprovedSize (fst (cg_RequestCapital G s r)) = 0"
    and fill_inv: "inv s \<Longrightarrow> is_fin pnl \<Longrightarrow> fin_nonneg qty \<Longrightarrow>
      inv (cg_RecordFill G s sid symb side pnl qty)"
    and reset_inv: "inv s \<Longrightarrow> inv (cg_ResetDaily G s)"
    and reduction: "inv s \<Longrightarrow> cg_ApplyCorrelationReduction G = Some f \<Longrightarrow> fin_nonneg q \<Longrightarrow>
      shrunk q (f s side symb q)"
begin

lemma approved_shrunk:
  assumes "inv s" "fin_nonneg (cr_BaseSize r)" "0 \<le> cr_Confidence r"
    and "\<not> cs_ApprovedSize (fst (cg_RequestCapital G s r)) \<le> 0"
  shows "shrunk (cr_BaseSize r) (cs_ApprovedSize (fst (cg_RequestCapital G s r)))"
proof (rule shrunkI[OF assms(2)])
  note le = request_le[OF assms(1-3)]
  then show "cs_ApprovedSize (fst (cg_RequestCapital G s r)) \<le> cr_BaseSize r"
    and "f64_ok (cs_ApprovedSize (fst (cg_RequestCapital G s r)))" by simp_all
  have "cs_ApprovedSize (fst (cg_RequestCapital G s r)) \<noteq> FNaN" using le by auto
  with assms(4) show "0 \<le> cs_ApprovedSize (fst (cg_RequestCapital G s r))"
    by (auto simp: f64_not_le intro: f64_less_imp_le)
qed

lemma halted_rejects: "cg_Halted G s \<Longrightarrow> cs_ApprovedSize (fst (cg_RequestCapital G s r)) \<le> 0"
  by (simp add: halted_zero)

end

text \<open>The prop firm gate: its position cap and its soft halt only reduce.\<close>

locale propfirm_gate =
  fixes G :: "'s PropFirmGate" and inv :: "'s \<Rightarrow> bool"
  assumes size_le: "inv s \<Longrightarrow> fin_nonneg q \<Longrightarrow>
      pg_GetPositionSize G s q \<le> q \<and> f64_ok (pg_GetPositionSize G s q)"
    and soft_scale: "inv s \<Longrightarrow> unit_scale (pg_SoftHaltMultiplier G s)"
    and fill_inv: "inv s \<Longrightarrow> is_fin pnl \<Longrightarrow> inv (pg_OnFill G s pnl balance)"
    and check_inv: "inv s \<Longrightarrow> inv (snd (pg_CheckDailyLimits G s))"
    and mark_inv: "inv s \<Longrightarrow> inv (pg_MarkViolated G s reason)"
    and mark_halts: "pg_IsHalted G (pg_MarkViolated G s reason)"
    and new_day_inv: "inv s \<Longrightarrow> inv (pg_OnNewDay G s)"

text \<open>
  The signal gate: sizing never enlarges, a capital that is not positive is refused, and
  the exposure calls keep the invariant.
\<close>

locale signal_gate =
  fixes G :: "'s SignalGate" and inv :: "'s \<Rightarrow> bool"
  assumes sizing: "inv s \<Longrightarrow> fin_nonneg q \<Longrightarrow> 0 \<le> confidence \<Longrightarrow>
      shrunk q (sg_ApplySizing G s q capital confidence)"
    and no_capital: "capital \<le> 0 \<Longrightarrow> \<not> fst (fst (sg_ValidateSignal G s capital now))"
    and validate_inv: "inv s \<Longrightarrow> inv (snd (sg_ValidateSignal G s capital now))"
    and record_inv: "inv s \<Longrightarrow> inv (sg_RecordExposure G s symb side n)"
    and remove_inv: "inv s \<Longrightarrow> inv (sg_RemoveExposure G s symb side n)"

end
