(* ===== verification/Regime.thy ===== *)
theory Regime
  imports FloatEval
begin

text \<open>
  The regime activation matrix of \<open>internal/risk/regime_activation.go\<close>: for each
  strategy, whether it may trade in each of the four market regimes, the soft weight of
  its participation there and its Kelly multiplier. A Go array \<open>[4]T\<close> is a list of
  length four. The \<open>sync.RWMutex\<close> only makes each method atomic; the methods are
  functions of the map.
\<close>

record RegimeEntry =
  re_StrategyID :: string
  re_Allowed :: "bool list"
  re_Participation :: "f64 list"
  re_KellyMultiplier :: "f64 list"

type_synonym regime_matrix = "(string, RegimeEntry) gomap"

abbreviation regime_entry :: "string \<Rightarrow> bool list \<Rightarrow> f64 list \<Rightarrow> f64 list \<Rightarrow> RegimeEntry" where
  "regime_entry sid allowed part kelly \<equiv> \<lparr>re_StrategyID = sid, re_Allowed = allowed,
     re_Participation = part, re_KellyMultiplier = kelly\<rparr>"

definition NewRegimeActivationMatrix :: regime_matrix where
  "NewRegimeActivationMatrix = [
     (''grid_trading'', regime_entry ''grid_trading'' [True, False, False, False]
       [0, 0, 0, 0] [lit (25/100), 0, 0, 0]),
     (''trend_following'', regime_entry ''trend_following'' [False, True, False, False]
       [0, 0, 0, 0] [0, lit (25/100), 0, 0]),
     (''session_scalp'', regime_entry ''session_scalp'' [True, True, True, False]
       [1, 1, lit (5/10), 0] [lit (25/100), lit (25/100), lit (15/100), 0]),
     (''mean_reversion'', regime_entry ''mean_reversion'' [True, False, False, False]
       [0, 0, 0, 0] [lit (25/100), 0, 0, 0]),
     (''intraday_mr'', regime_entry ''intraday_mr'' [True, False, False, False]
       [0, 0, 0, 0] [lit (25/100), 0, 0, 0]),
     (''opening_range_breakout'', regime_entry ''opening_range_breakout'' [True, True, True, False]
       [0, 0, 0, 0] [lit (10/100), lit (25/100), lit (15/100), 0]),
     (''pairs_trading'', regime_entry ''pairs_trading'' [True, False, True, False]
       [0, 0, 0, 0] [lit (25/100), 0, lit (15/100), 0]),
     (''stat_arb'', regime_entry ''stat_arb'' [True, False, True, False]
       [0, 0, 0, 0] [lit (25/100), 0, lit (15/100), 0]),
     (''volatility_harvesting'', regime_entry ''volatility_harvesting'' [False, False, True, False]
       [0, 0, 0, 0] [0, 0, lit (15/100), 0]),
     (''dragon_trend'', regime_entry ''dragon_trend'' [False, True, True, False]
       [0, 0, 0, 0] [0, lit (25/100), lit (15/100), 0]),
     (''vwap_mr'', regime_entry ''vwap_mr'' [True, False, False, False]
       [0, 0, 0, 0] [lit (25/100), 0, 0, 0]),
     (''volume_scalp'', regime_entry ''volume_scalp'' [True, True, False, False]
       [0, 0, 0, 0] [lit (25/100), lit (25/100), 0, 0]),
     (''orb_15m'', regime_entry ''orb_15m'' [True, True, True, False]
       [0, 0, 0, 0] [lit (10/100), lit (25/100), lit (15/100), 0]),
     (''vix_futures_carry'', regime_entry ''vix_futures_carry'' [False, False, True, False]
       [0, 0, 0, 0] [0, 0, lit (15/100), 0]),
     (''momentum_12_1'', regime_entry ''momentum_12_1'' [True, True, False, False]
       [0, 0, 0, 0] [lit (25/100), lit (25/100), 0, 0]),
     (''fx_carry'', regime_entry ''fx_carry'' [True, False, True, False]
       [0, 0, 0, 0] [lit (25/100), 0, lit (15/100), 0]),
     (''session_momentum'', regime_entry ''session_momentum'' [True, True, True, False]
       [0, 0, 0, 0] [lit (25/100), lit (25/100), lit (15/100), 0]),
     (''donchian_breakout'', regime_entry ''donchian_breakout'' [True, True, True, False]
       [0, 0, 0, 0] [lit (25/100), lit (25/100), lit (15/100), 0]),
     (''keltner_macd'', regime_entry ''keltner_macd'' [True, True, False, False]
       [0, 0, 0, 0] [lit (25/100), lit (25/100), 0, 0]),
     (''vol_grid'', regime_entry ''vol_grid'' [True, False, False, False]
       [0, 0, 0, 0] [lit (15/100), 0, 0, 0]),
     (''multi_asset_statarb'', regime_entry ''multi_asset_statarb'' [True, False, True, False]
       [0, 0, 0, 0] [lit (25/100), 0, lit (15/100), 0]),
     (''rsi2_reversion'', regime_entry ''rsi2_reversion'' [True, True, False, False]
       [0, 0, 0, 0] [lit (25/100), lit (25/100), 0, 0])]"

definition defaultEntry :: RegimeEntry where
  "defaultEntry = regime_entry ''default'' [True, True, True, True] [0, 0, 0, 0]
     [lit (25/100), lit (25/100), lit (25/100), lit (25/100)]"

definition RegimeActivationMatrix_Get :: "regime_matrix \<Rightarrow> string \<Rightarrow> RegimeEntry" where
  "RegimeActivationMatrix_Get m sid = (case mlookup m sid of Some e \<Rightarrow> e | None \<Rightarrow> defaultEntry)"

definition RegimeActivationMatrix_Set :: "regime_matrix \<Rightarrow> RegimeEntry \<Rightarrow> regime_matrix" where
  "RegimeActivationMatrix_Set m e = mput m (re_StrategyID e) e"

text \<open>The loop of \<open>ApplyRegimeParticipation\<close> over the four parameter names, with its index.\<close>

fun participation_loop ::
  "(string, f64) gomap \<Rightarrow> nat \<Rightarrow> string list \<Rightarrow> RegimeEntry \<times> bool \<Rightarrow> RegimeEntry \<times> bool" where
  "participation_loop params i [] st = st"
| "participation_loop params i (name # names) (e, changed) =
     participation_loop params (Suc i) names (case mlookup params name of
         Some v \<Rightarrow> (e\<lparr>re_Participation := (re_Participation e)[i := v]\<rparr>, True)
       | None \<Rightarrow> (e, changed))"

definition regime_param_names :: "string list" where
  "regime_param_names =
     [''regime_w_calm'', ''regime_w_trending'', ''regime_w_highvol'', ''regime_w_crisis'']"

definition ApplyRegimeParticipation ::
  "regime_matrix option \<Rightarrow> string \<Rightarrow> (string, f64) gomap \<Rightarrow> regime_matrix option" where
  "ApplyRegimeParticipation mo sid params = (case mo of None \<Rightarrow> None
     | Some m \<Rightarrow> if sid = '''' \<or> length params = 0 then Some m else
        (let entry = (RegimeActivationMatrix_Get m sid)\<lparr>re_StrategyID := sid\<rparr>;
             (entry, changed) = participation_loop params 0 regime_param_names (entry, False)
         in if changed then Some (RegimeActivationMatrix_Set m entry) else Some m))"

definition RegimeActivationMatrix_IsAllowed :: "regime_matrix \<Rightarrow> string \<Rightarrow> int \<Rightarrow> bool" where
  "RegimeActivationMatrix_IsAllowed m sid regime =
     (if regime < 0 \<or> regime > 3 then False
      else re_Allowed (RegimeActivationMatrix_Get m sid) ! nat regime)"

definition RegimeActivationMatrix_ParticipationForRegime ::
  "regime_matrix \<Rightarrow> string \<Rightarrow> int \<Rightarrow> f64" where
  "RegimeActivationMatrix_ParticipationForRegime m sid regime =
     (if regime < 0 \<or> regime > 3 then 0 else
      let e = RegimeActivationMatrix_Get m sid in
      if re_Participation e ! nat regime > 0 then re_Participation e ! nat regime
      else if re_Allowed e ! nat regime then 1 else 0)"

definition RegimeActivationMatrix_KellyForRegime :: "regime_matrix \<Rightarrow> string \<Rightarrow> int \<Rightarrow> f64" where
  "RegimeActivationMatrix_KellyForRegime m sid regime =
     (if regime < 0 \<or> regime > 3 then 0
      else re_KellyMultiplier (RegimeActivationMatrix_Get m sid) ! nat regime)"

definition RegimeActivationMatrix_AllStrategies :: "regime_matrix \<Rightarrow> string list" where
  "RegimeActivationMatrix_AllStrategies m = map fst m"

section \<open>The arrays keep their length\<close>

definition regime_entry_ok :: "RegimeEntry \<Rightarrow> bool" where
  "regime_entry_ok e \<longleftrightarrow> length (re_Allowed e) = 4 \<and> length (re_Participation e) = 4 \<and>
     length (re_KellyMultiplier e) = 4"

definition regime_matrix_ok :: "regime_matrix \<Rightarrow> bool" where
  "regime_matrix_ok m \<longleftrightarrow> (\<forall>p\<in>set m. regime_entry_ok (snd p))"

lemma NewRegimeActivationMatrix_ok: "regime_matrix_ok NewRegimeActivationMatrix"
  by (simp add: regime_matrix_ok_def NewRegimeActivationMatrix_def regime_entry_ok_def)

lemma Get_ok [simp]: "regime_matrix_ok m \<Longrightarrow> regime_entry_ok (RegimeActivationMatrix_Get m sid)"
  by (auto simp: RegimeActivationMatrix_Get_def regime_matrix_ok_def defaultEntry_def
      regime_entry_ok_def split: option.splits dest!: map_of_SomeD)

lemma Get_Set [simp]: "RegimeActivationMatrix_Get (RegimeActivationMatrix_Set m e) sid =
    (if sid = re_StrategyID e then e else RegimeActivationMatrix_Get m sid)"
  by (simp add: RegimeActivationMatrix_Get_def RegimeActivationMatrix_Set_def)

lemma Set_ok: "regime_matrix_ok m \<Longrightarrow> regime_entry_ok e \<Longrightarrow> regime_matrix_ok (RegimeActivationMatrix_Set m e)"
  by (auto simp: regime_matrix_ok_def RegimeActivationMatrix_Set_def dest: set_mputD)

section \<open>What the parameters do\<close>

lemma participation_loop_frame:
  "re_StrategyID (fst (participation_loop ps i ns st)) = re_StrategyID (fst st)"
  "re_Allowed (fst (participation_loop ps i ns st)) = re_Allowed (fst st)"
  "re_KellyMultiplier (fst (participation_loop ps i ns st)) = re_KellyMultiplier (fst st)"
  "length (re_Participation (fst (participation_loop ps i ns st))) = length (re_Participation (fst st))"
  by (induction ps i ns st rule: participation_loop.induct) (auto split: option.splits)

lemma participation_loop_nth:
  "r < length (re_Participation (fst st)) \<Longrightarrow>
   re_Participation (fst (participation_loop ps i ns st)) ! r =
     (if i \<le> r \<and> r < i + length ns
      then mget (re_Participation (fst st) ! r) ps (ns ! (r - i)) else re_Participation (fst st) ! r)"
proof (induction ps i ns st rule: participation_loop.induct)
  case (2 ps i n ns e c)
  then show ?case
    by (cases "r = i"; cases "mlookup ps n") (auto simp: mget_def nth_Cons' Suc_diff_le split: option.splits)
qed auto

lemma participation_loop_changed:
  "snd (participation_loop ps i ns st) \<longleftrightarrow> snd st \<or> (\<exists>n\<in>set ns. mlookup ps n \<noteq> None)"
  by (induction ps i ns st rule: participation_loop.induct) (auto split: option.splits)

definition participation_weight :: "regime_matrix \<Rightarrow> string \<Rightarrow> (string, f64) gomap \<Rightarrow> nat \<Rightarrow> f64" where
  "participation_weight m sid params r = (case mlookup params (regime_param_names ! r) of
       None \<Rightarrow> RegimeActivationMatrix_ParticipationForRegime m sid (int r)
     | Some v \<Rightarrow> if v > 0 then v
         else if RegimeActivationMatrix_IsAllowed m sid (int r) then 1 else 0)"

lemma participation_loop_id:
  "re_Participation e = re_Participation e' \<Longrightarrow>
   re_Participation (fst (participation_loop ps i ns (e, c))) =
   re_Participation (fst (participation_loop ps i ns (e', d)))"
  by (induction ns arbitrary: i e e' c d) (auto split: option.splits)

lemma Get_ApplyRegimeParticipation:
  assumes "sid \<noteq> ''''"
  obtains m' e where "ApplyRegimeParticipation (Some m) sid params = Some m'"
    "\<And>s. RegimeActivationMatrix_Get m' s = (if s = sid then e else RegimeActivationMatrix_Get m s)"
    "re_Allowed e = re_Allowed (RegimeActivationMatrix_Get m sid)"
    "re_KellyMultiplier e = re_KellyMultiplier (RegimeActivationMatrix_Get m sid)"
    "re_Participation e = re_Participation (fst (participation_loop params 0 regime_param_names
      (RegimeActivationMatrix_Get m sid, False)))"
proof -
  define g where "g = RegimeActivationMatrix_Get m sid"
  define st where "st = participation_loop params 0 regime_param_names (g\<lparr>re_StrategyID := sid\<rparr>, False)"
  have frame: "re_StrategyID (fst st) = sid" "re_Allowed (fst st) = re_Allowed g"
    "re_KellyMultiplier (fst st) = re_KellyMultiplier g"
    "re_Participation (fst st) =
      re_Participation (fst (participation_loop params 0 regime_param_names (g, False)))"
    unfolding st_def by (auto simp: participation_loop_frame intro: participation_loop_id)
  have run: "ApplyRegimeParticipation (Some m) sid params =
      (if params \<noteq> [] \<and> snd st then Some (RegimeActivationMatrix_Set m (fst st)) else Some m)"
    using assms by (simp add: ApplyRegimeParticipation_def case_prod_beta st_def g_def)
  show thesis
  proof (cases "params \<noteq> [] \<and> snd st")
    case True
    with run frame show thesis
      by (intro that[of "RegimeActivationMatrix_Set m (fst st)" "fst st"]) (simp_all add: g_def)
  next
    case False
    then have "\<forall>n\<in>set regime_param_names. mlookup params n = None"
      by (auto simp: st_def participation_loop_changed)
    then have "participation_loop params 0 regime_param_names (g, False) = (g, False)"
      by (simp add: regime_param_names_def)
    with run False show thesis by (intro that[of m g]) (auto simp: g_def)
  qed
qed

lemma Participation_ApplyRegimeParticipation:
  assumes "regime_matrix_ok m" "r < 4"
    "re_Participation e = re_Participation (fst (participation_loop params 0 regime_param_names
      (RegimeActivationMatrix_Get m sid, False)))"
  shows "re_Participation e ! r = mget (re_Participation (RegimeActivationMatrix_Get m sid) ! r)
      params (regime_param_names ! r)"
proof -
  have "length (re_Participation (RegimeActivationMatrix_Get m sid)) = 4"
    using Get_ok[OF assms(1)] by (simp add: regime_entry_ok_def)
  then show ?thesis
    using assms(2,3) by (simp add: participation_loop_nth) (simp add: regime_param_names_def)
qed

text \<open>Applying the optimizer's parameters changes exactly what they name: a strategy's
  weight in a regime becomes the parameter when it is positive and falls back to the binary
  flag when it is not; every other weight, every Kelly multiplier and every other strategy
  keep their values.\<close>

theorem ApplyRegimeParticipation_spec:
  assumes ok: "regime_matrix_ok m" and sid: "sid \<noteq> ''''" and r: "r < 4"
  shows "\<exists>m'. ApplyRegimeParticipation (Some m) sid params = Some m' \<and>
    RegimeActivationMatrix_ParticipationForRegime m' s (int r) =
      (if s = sid then participation_weight m sid params r
       else RegimeActivationMatrix_ParticipationForRegime m s (int r)) \<and>
    RegimeActivationMatrix_KellyForRegime m' s (int r) = RegimeActivationMatrix_KellyForRegime m s (int r) \<and>
    RegimeActivationMatrix_IsAllowed m' s (int r) = RegimeActivationMatrix_IsAllowed m s (int r)"
proof (rule Get_ApplyRegimeParticipation[OF sid, of m params])
  fix m' e
  assume m': "ApplyRegimeParticipation (Some m) sid params = Some m'"
    "\<And>s. RegimeActivationMatrix_Get m' s = (if s = sid then e else RegimeActivationMatrix_Get m s)"
    "re_Allowed e = re_Allowed (RegimeActivationMatrix_Get m sid)"
    "re_KellyMultiplier e = re_KellyMultiplier (RegimeActivationMatrix_Get m sid)"
    "re_Participation e = re_Participation (fst (participation_loop params 0 regime_param_names
      (RegimeActivationMatrix_Get m sid, False)))"
  show ?thesis
    using m'(1-4) Participation_ApplyRegimeParticipation[OF ok r m'(5)] r
    by (intro exI[of _ m']) (auto simp: RegimeActivationMatrix_ParticipationForRegime_def
        RegimeActivationMatrix_KellyForRegime_def RegimeActivationMatrix_IsAllowed_def
        participation_weight_def mget_def Let_def split: option.splits)
qed

text \<open>The comments of the matrix say that a participation weight of 0 blocks the strategy in
  the regime. The weight 0 passed for a regime in which the strategy is allowed gives it
  full participation there instead, whatever its weight was before.\<close>

theorem zero_weight_gives_full_participation:
  assumes ok: "regime_matrix_ok m" and sid: "sid \<noteq> ''''" and r: "r < 4"
    and allowed: "RegimeActivationMatrix_IsAllowed m sid (int r)"
    and zero: "mlookup params (regime_param_names ! r) = Some 0"
  shows "\<exists>m'. ApplyRegimeParticipation (Some m) sid params = Some m' \<and>
    RegimeActivationMatrix_ParticipationForRegime m' sid (int r) = 1"
proof (rule Get_ApplyRegimeParticipation[OF sid, of m params])
  fix m' e
  assume m': "ApplyRegimeParticipation (Some m) sid params = Some m'"
    "\<And>s. RegimeActivationMatrix_Get m' s = (if s = sid then e else RegimeActivationMatrix_Get m s)"
    "re_Allowed e = re_Allowed (RegimeActivationMatrix_Get m sid)"
    "re_Participation e = re_Participation (fst (participation_loop params 0 regime_param_names
      (RegimeActivationMatrix_Get m sid, False)))"
  show ?thesis
    using m'(1-3) Participation_ApplyRegimeParticipation[OF ok r m'(4)] r allowed zero
    by (intro exI[of _ m']) (auto simp: RegimeActivationMatrix_ParticipationForRegime_def
        RegimeActivationMatrix_IsAllowed_def mget_def Let_def)
qed

section \<open>The default matrix\<close>

text \<open>Every strategy the default matrix lists is blocked in the crisis regime, whereas a
  strategy it does not list trades with full participation in all four regimes, crisis
  included.\<close>

theorem default_matrix_crisis:
  "RegimeActivationMatrix_ParticipationForRegime NewRegimeActivationMatrix sid 3 =
    (if sid \<in> set (RegimeActivationMatrix_AllStrategies NewRegimeActivationMatrix) then 0 else 1)"
proof (cases "mlookup NewRegimeActivationMatrix sid")
  case None
  then have "sid \<notin> set (RegimeActivationMatrix_AllStrategies NewRegimeActivationMatrix)"
    by (simp add: RegimeActivationMatrix_AllStrategies_def map_of_eq_None_iff)
  with None show ?thesis
    by (simp add: RegimeActivationMatrix_ParticipationForRegime_def RegimeActivationMatrix_Get_def
        defaultEntry_def)
next
  case (Some e)
  have "\<forall>p\<in>set NewRegimeActivationMatrix. re_Participation (snd p) ! 3 = 0 \<and> \<not> re_Allowed (snd p) ! 3"
    by (simp add: NewRegimeActivationMatrix_def)
  with map_of_SomeD[OF Some] have "re_Participation e ! 3 = 0" "\<not> re_Allowed e ! 3" by fastforce+
  moreover have "sid \<in> set (RegimeActivationMatrix_AllStrategies NewRegimeActivationMatrix)"
    using map_of_SomeD[OF Some] by (force simp: RegimeActivationMatrix_AllStrategies_def)
  ultimately show ?thesis using Some
    by (simp add: RegimeActivationMatrix_ParticipationForRegime_def RegimeActivationMatrix_Get_def)
qed

theorem ApplyRegimeParticipation_spec_witness:
  "\<exists>m'. ApplyRegimeParticipation (Some NewRegimeActivationMatrix) ''session_scalp''
      [(''regime_w_highvol'', lit (1/4))] = Some m' \<and>
    RegimeActivationMatrix_ParticipationForRegime m' ''session_scalp'' 2 = lit (1/4)"
  using ApplyRegimeParticipation_spec[OF NewRegimeActivationMatrix_ok, of "''session_scalp''" 2
      "[(''regime_w_highvol'', lit (1/4))]" "''session_scalp''"]
  by (auto simp: participation_weight_def regime_param_names_def f64_eval)

theorem zero_weight_gives_full_participation_witness:
  "\<exists>m'. ApplyRegimeParticipation (Some NewRegimeActivationMatrix) ''session_scalp''
      [(''regime_w_highvol'', 0)] = Some m' \<and>
    RegimeActivationMatrix_ParticipationForRegime m' ''session_scalp'' 2 = 1 \<and>
    RegimeActivationMatrix_ParticipationForRegime NewRegimeActivationMatrix ''session_scalp'' 2 = lit (1/2)"
proof -
  have "RegimeActivationMatrix_IsAllowed NewRegimeActivationMatrix ''session_scalp'' (int 2)"
    by (simp add: RegimeActivationMatrix_IsAllowed_def RegimeActivationMatrix_Get_def
        NewRegimeActivationMatrix_def)
  moreover have "RegimeActivationMatrix_ParticipationForRegime NewRegimeActivationMatrix
      ''session_scalp'' 2 = lit (1/2)"
    by (simp add: RegimeActivationMatrix_ParticipationForRegime_def RegimeActivationMatrix_Get_def
        NewRegimeActivationMatrix_def f64_eval)
  ultimately show ?thesis
    using zero_weight_gives_full_participation[OF NewRegimeActivationMatrix_ok, of "''session_scalp''" 2
        "[(''regime_w_highvol'', 0)]"]
    by (simp add: regime_param_names_def)
qed

end
