(* ===== verification/Pipeline.thy ===== *)
theory Pipeline
  imports Gates Regime
begin

text \<open>
  The risk pipeline of \<open>internal/risk/pipeline.go\<close>, through which every signal of the
  backtest and of the live engine passes before it becomes an order, and every closed
  trade on its way back into the books. The three gates are interface values, nil or a
  method table with its state; \<open>symbolNotional\<close> is nil or a map, which read the same.
  The calls into the metrics package only increment counters nothing here reads, and are
  left out. One argument of the code is made explicit: the clock reading of the call.
\<close>

record ProcessSignalRequest =
  rq_StrategyID :: string
  rq_Symbol :: string
  rq_Side :: string
  rq_Price :: f64
  rq_Confidence :: f64
  rq_BaseSize :: f64
  rq_ExistingPosition :: f64
  rq_RunningCapital :: f64
  rq_AllowFractional :: bool
  rq_IsExit :: bool
  rq_DisableRegimeGate :: bool

record ProcessSignalResult =
  rs_Approved :: bool
  rs_Size :: f64
  rs_Reason :: string

record ('s, 'c, 'p) RiskPipeline =
  rp_SignalGate :: "('s SignalGate \<times> 's) option"
  rp_Capital :: "('c CapitalGate \<times> 'c) option"
  rp_PropFirm :: "('p PropFirmGate \<times> 'p) option"
  rp_KellyMult :: f64
  rp_RegimeMatrix :: "regime_matrix option"
  rp_CurrentRegime :: int
  rp_symbolNotional :: "(string, f64) gomap"

definition maxPositionPct :: f64 where "maxPositionPct = lit (2/100)"
definition maxTotalNotionalPct :: f64 where "maxTotalNotionalPct = lit (10/100)"

definition approved :: "f64 \<Rightarrow> string \<Rightarrow> ProcessSignalResult" where
  "approved sz reason = \<lparr>rs_Approved = True, rs_Size = sz, rs_Reason = reason\<rparr>"

definition rejected :: "string \<Rightarrow> ProcessSignalResult" where
  "rejected reason = \<lparr>rs_Approved = False, rs_Size = 0, rs_Reason = reason\<rparr>"

section \<open>The steps of ProcessSignal\<close>

text \<open>Steps 1 to 3: the signal gate's validation, then the two halts. A reason is a rejection.\<close>

definition step_validate :: "('s, 'c, 'p) RiskPipeline \<Rightarrow> ProcessSignalRequest \<Rightarrow> int \<Rightarrow>
  string option \<times> ('s, 'c, 'p) RiskPipeline" where
  "step_validate p req now = (case rp_SignalGate p of None \<Rightarrow> (None, p) | Some (G, s) \<Rightarrow>
     (let ((ok, reason), s') = sg_ValidateSignal G s (rq_RunningCapital req) now;
          p' = p\<lparr>rp_SignalGate := Some (G, s')\<rparr>
      in if ok then (None, p') else (Some (''signal:'' @ reason), p')))"

definition step_halted :: "('s, 'c, 'p) RiskPipeline \<Rightarrow> string option" where
  "step_halted p =
     (if (case rp_Capital p of None \<Rightarrow> False | Some (G, c) \<Rightarrow> cg_Halted G c)
      then (case rp_Capital p of None \<Rightarrow> None | Some (G, c) \<Rightarrow> Some (''pool_halted:'' @ cg_HaltReason G c))
      else if (case rp_PropFirm p of None \<Rightarrow> False | Some (G, f) \<Rightarrow> pg_IsHalted G f)
      then (case rp_PropFirm p of None \<Rightarrow> None | Some (G, f) \<Rightarrow> Some (''propfirm_halted:'' @ pg_HaltReason G f))
      else None)"

text \<open>Step 3b: the weight of the regime, 1 without a matrix; a weight that is not positive blocks.\<close>

definition step_regime :: "('s, 'c, 'p) RiskPipeline \<Rightarrow> ProcessSignalRequest \<Rightarrow> f64" where
  "step_regime p req = (case rp_RegimeMatrix p of None \<Rightarrow> 1 | Some m \<Rightarrow>
     if rq_DisableRegimeGate req then 1
     else RegimeActivationMatrix_ParticipationForRegime m (rq_StrategyID req) (rp_CurrentRegime p))"

definition regime_blocks :: "('s, 'c, 'p) RiskPipeline \<Rightarrow> ProcessSignalRequest \<Rightarrow> bool" where
  "regime_blocks p req \<longleftrightarrow> rp_RegimeMatrix p \<noteq> None \<and> \<not> rq_DisableRegimeGate req \<and> step_regime p req \<le> 0"

text \<open>Step 4: sizing, regime weight, Kelly multiplier (only ever lowered), soft halt.\<close>

definition step_kelly :: "('s, 'c, 'p) RiskPipeline \<Rightarrow> ProcessSignalRequest \<Rightarrow> f64" where
  "step_kelly p req = (case rp_RegimeMatrix p of None \<Rightarrow> rp_KellyMult p | Some m \<Rightarrow>
     if rq_DisableRegimeGate req then rp_KellyMult p else
     let k = RegimeActivationMatrix_KellyForRegime m (rq_StrategyID req) (rp_CurrentRegime p)
     in if k > 0 \<and> k < rp_KellyMult p then k else rp_KellyMult p)"

definition step_size :: "('s, 'c, 'p) RiskPipeline \<Rightarrow> ProcessSignalRequest \<Rightarrow> f64" where
  "step_size p req =
     (let sz = rq_BaseSize req;
          sz = (case rp_SignalGate p of None \<Rightarrow> sz
                | Some (G, s) \<Rightarrow> sg_ApplySizing G s sz (rq_RunningCapital req) (rq_Confidence req));
          sz = sz * step_regime p req;
          sz = sz * step_kelly p req
      in case rp_PropFirm p of None \<Rightarrow> sz | Some (G, f) \<Rightarrow>
           (case pg_SoftHalt G of None \<Rightarrow> sz
            | Some soft \<Rightarrow> if soft f then sz * pg_SoftHaltMultiplier G f else sz))"

text \<open>Steps 4c and 4d: the cap on the position's notional and on the symbol's total.\<close>

definition step_position_cap :: "ProcessSignalRequest \<Rightarrow> f64 \<Rightarrow> f64" where
  "step_position_cap req sz =
     (let maxNotional = rq_RunningCapital req * maxPositionPct;
          positionNotional = sz * rq_Price req
      in if positionNotional > maxNotional \<and> maxNotional > 0 then maxNotional / rq_Price req else sz)"

definition step_total_cap :: "('s, 'c, 'p) RiskPipeline \<Rightarrow> ProcessSignalRequest \<Rightarrow> f64 \<Rightarrow> f64 option" where
  "step_total_cap p req sz =
     (let existingNotional = mget 0 (rp_symbolNotional p) (rq_Symbol req);
          newNotional = \<bar>sz * rq_Price req\<bar>;
          totalNotional = existingNotional + newNotional;
          maxTotalNotional = rq_RunningCapital req * maxTotalNotionalPct
      in if totalNotional > maxTotalNotional \<and> maxTotalNotional > 0
         then (let available = maxTotalNotional - existingNotional
               in if available \<le> 0 then None else Some (available / rq_Price req))
         else Some sz)"

definition add_notional :: "('s, 'c, 'p) RiskPipeline \<Rightarrow> ProcessSignalRequest \<Rightarrow> f64 \<Rightarrow>
  ('s, 'c, 'p) RiskPipeline" where
  "add_notional p req sz = p\<lparr>rp_symbolNotional := mput (rp_symbolNotional p) (rq_Symbol req)
     (mget 0 (rp_symbolNotional p) (rq_Symbol req) + \<bar>sz * rq_Price req\<bar>)\<rparr>"

text \<open>Step 5: the exposure check.\<close>

definition step_exposure :: "('s, 'c, 'p) RiskPipeline \<Rightarrow> ProcessSignalRequest \<Rightarrow> f64 \<Rightarrow> string option" where
  "step_exposure p req sz = (case rp_SignalGate p of None \<Rightarrow> None | Some (G, s) \<Rightarrow>
     (let (ok, reason) = sg_CheckExposure G s (rq_Symbol req) (rq_Side req) \<bar>sz * rq_Price req\<bar>
      in if ok then None else Some (''exposure:'' @ reason)))"

text \<open>
  Steps 6 to 6c: the correlation brake, the authorization, the correlation reduction and the
  drawdown of the strategy. A reason is a rejection; the pool keeps what it recorded.
\<close>

definition step_capital :: "('s, 'c, 'p) RiskPipeline \<Rightarrow> ProcessSignalRequest \<Rightarrow> f64 \<Rightarrow>
  (string + f64) \<times> ('s, 'c, 'p) RiskPipeline" where
  "step_capital p req sz = (case rp_Capital p of None \<Rightarrow> (Inr sz, p) | Some (G, c) \<Rightarrow>
     (let sz = (case cg_HasOpenPosition G of None \<Rightarrow> sz
                | Some f \<Rightarrow> if f c (rq_Symbol req) (rq_Side req) then sz * lit (5/10) else sz);
          (result, c) = cg_RequestCapital G c \<lparr>cr_StrategyID = rq_StrategyID req,
             cr_Confidence = rq_Confidence req, cr_Symbol = rq_Symbol req, cr_Side = rq_Side req,
             cr_BaseSize = sz\<rparr>;
          p = p\<lparr>rp_Capital := Some (G, c)\<rparr>
      in if cs_ApprovedSize result \<le> 0 then (Inl (''capital:'' @ cs_Reason result), p) else
      let sz = cs_ApprovedSize result;
          reduced = (case cg_ApplyCorrelationReduction G of None \<Rightarrow> sz
                     | Some f \<Rightarrow> f c (rq_Side req) (rq_Symbol req) sz)
      in if cg_ApplyCorrelationReduction G \<noteq> None \<and> reduced \<le> 0 then (Inl ''correlation_penalty'', p)
      else case cg_PerStrategyDrawdown G of None \<Rightarrow> (Inr reduced, p)
         | Some f \<Rightarrow> if f c (rq_StrategyID req) > lit (5/100)
             then (Inl (''per_strategy_drawdown:'' @ rq_StrategyID req), p)
             else (Inr reduced, p)))"

text \<open>Steps 7 and 8: the prop firm's cap, and the exposure recorded for later checks.\<close>

definition step_final :: "('s, 'c, 'p) RiskPipeline \<Rightarrow> f64 \<Rightarrow> f64" where
  "step_final p sz = (case rp_PropFirm p of None \<Rightarrow> sz | Some (G, f) \<Rightarrow> pg_GetPositionSize G f sz)"

definition step_record :: "('s, 'c, 'p) RiskPipeline \<Rightarrow> ProcessSignalRequest \<Rightarrow> f64 \<Rightarrow>
  ('s, 'c, 'p) RiskPipeline" where
  "step_record p req sz = (case rp_SignalGate p of None \<Rightarrow> p | Some (G, s) \<Rightarrow>
     if sz > 0 then p\<lparr>rp_SignalGate := Some (G,
       sg_RecordExposure G s (rq_Symbol req) (rq_Side req) \<bar>sz * rq_Price req\<bar>)\<rparr> else p)"

definition RiskPipeline_ProcessSignal :: "('s, 'c, 'p) RiskPipeline \<Rightarrow> ProcessSignalRequest \<Rightarrow> int \<Rightarrow>
  ProcessSignalResult \<times> ('s, 'c, 'p) RiskPipeline" where
  "RiskPipeline_ProcessSignal p req now =
     (if rq_IsExit req then (approved (rq_ExistingPosition req) ''exit'', p) else
      let (bad, p) = step_validate p req now in
      case bad of Some reason \<Rightarrow> (rejected reason, p) | None \<Rightarrow>
      case step_halted p of Some reason \<Rightarrow> (rejected reason, p) | None \<Rightarrow>
      if regime_blocks p req then (rejected ''regime_blocked'', p)
      else if rq_BaseSize req \<le> 0 then (rejected ''size_zero'', p)
      else if step_size p req \<le> 0 then (rejected ''size_zero_after_sizing'', p)
      else case step_total_cap p req (step_position_cap req (step_size p req)) of
        None \<Rightarrow> (rejected ''aggregate_notional_cap:max_reached'', p) | Some sz \<Rightarrow>
      let p = add_notional p req sz in
      case step_exposure p req sz of Some reason \<Rightarrow> (rejected reason, p) | None \<Rightarrow>
      let (r, p) = step_capital p req sz in
      case r of Inl reason \<Rightarrow> (rejected reason, p) | Inr sz \<Rightarrow>
      let sz = step_final p sz in (approved sz ''ok'', step_record p req sz))"

section \<open>Fills\<close>

definition SanitizeTradePnL :: "f64 \<Rightarrow> f64 \<Rightarrow> f64 \<Rightarrow> f64 \<Rightarrow> f64 \<times> bool" where
  "SanitizeTradePnL pnl quantity entryPrice referenceCapital =
     (if is_nan pnl \<or> is_inf pnl then (0, True) else
      let notional = quantity * entryPrice;
          maxByNotional = notional * lit (50/100);
          maxByCapital = referenceCapital * lit (10/100);
          maxPnL = (if maxByCapital < maxByNotional then maxByCapital else maxByNotional);
          maxPnL = (if maxPnL < referenceCapital * lit (2/100) then referenceCapital * lit (2/100) else maxPnL)
      in if \<bar>pnl\<bar> > maxPnL then (0, True) else (pnl, False))"

definition RiskPipeline_capitalBalance :: "('s, 'c, 'p) RiskPipeline \<Rightarrow> f64" where
  "RiskPipeline_capitalBalance p = (case rp_Capital p of None \<Rightarrow> 0 | Some (G, c) \<Rightarrow> cg_TotalBalance G c)"

definition fill_capital :: "('s, 'c, 'p) RiskPipeline \<Rightarrow> string \<Rightarrow> string \<Rightarrow> string \<Rightarrow> f64 \<Rightarrow> f64 \<Rightarrow>
  ('s, 'c, 'p) RiskPipeline" where
  "fill_capital p sid symbol side pnl quantity = (case rp_Capital p of None \<Rightarrow> p
     | Some (G, c) \<Rightarrow> p\<lparr>rp_Capital := Some (G, cg_RecordFill G c sid symbol side pnl quantity)\<rparr>)"

definition fill_propfirm :: "('s, 'c, 'p) RiskPipeline \<Rightarrow> f64 \<Rightarrow> ('s, 'c, 'p) RiskPipeline" where
  "fill_propfirm p pnl = (case (rp_PropFirm p, rp_Capital p) of
       (Some (G, f), Some (H, c)) \<Rightarrow>
         (let f = pg_OnFill G f pnl (cg_TotalBalance H c);
              ((ok, reason), f) = pg_CheckDailyLimits G f;
              f = (if ok then f else pg_MarkViolated G f reason)
          in p\<lparr>rp_PropFirm := Some (G, f)\<rparr>)
     | _ \<Rightarrow> p)"

definition release_notional :: "('s, 'c, 'p) RiskPipeline \<Rightarrow> string \<Rightarrow> f64 \<Rightarrow> ('s, 'c, 'p) RiskPipeline" where
  "release_notional p symbol n =
     (let v = mget 0 (rp_symbolNotional p) symbol - n
      in p\<lparr>rp_symbolNotional := mput (rp_symbolNotional p) symbol (if v < 0 then 0 else v)\<rparr>)"

definition release_exposure :: "('s, 'c, 'p) RiskPipeline \<Rightarrow> string \<Rightarrow> string \<Rightarrow> f64 \<Rightarrow>
  ('s, 'c, 'p) RiskPipeline" where
  "release_exposure p symbol side n = (case rp_SignalGate p of None \<Rightarrow> p
     | Some (G, s) \<Rightarrow> p\<lparr>rp_SignalGate := Some (G, sg_RemoveExposure G s symbol side n)\<rparr>)"

definition RiskPipeline_ReconcileFill :: "('s, 'c, 'p) RiskPipeline \<Rightarrow> string \<Rightarrow> string \<Rightarrow> string \<Rightarrow>
  f64 \<Rightarrow> f64 \<Rightarrow> f64 \<Rightarrow> ('s, 'c, 'p) RiskPipeline" where
  "RiskPipeline_ReconcileFill p sid symbol side pnl quantity price =
     (let safePnL = fst (SanitizeTradePnL pnl quantity price (RiskPipeline_capitalBalance p));
          p = fill_capital p sid symbol side safePnL quantity;
          p = fill_propfirm p safePnL;
          p = release_notional p symbol \<bar>quantity * price\<bar>
      in release_exposure p symbol side \<bar>quantity * price\<bar>)"

definition RiskPipeline_ReconcileFillWithoutPropFirm :: "('s, 'c, 'p) RiskPipeline \<Rightarrow> string \<Rightarrow> string \<Rightarrow>
  string \<Rightarrow> f64 \<Rightarrow> f64 \<Rightarrow> f64 \<Rightarrow> ('s, 'c, 'p) RiskPipeline" where
  "RiskPipeline_ReconcileFillWithoutPropFirm p sid symbol side pnl quantity price =
     (let safePnL = fst (SanitizeTradePnL pnl quantity price (RiskPipeline_capitalBalance p));
          p = fill_capital p sid symbol side safePnL quantity;
          p = release_notional p symbol \<bar>quantity * price\<bar>
      in release_exposure p symbol side \<bar>quantity * price\<bar>)"

section \<open>Which signals pass\<close>

lemma approved_simps [simp]:
  "rs_Approved (approved sz r)" "rs_Size (approved sz r) = sz" "rs_Reason (approved sz r) = r"
  "\<not> rs_Approved (rejected r)" "rs_Size (rejected r) = 0" "rs_Reason (rejected r) = r"
  by (simp_all add: approved_def rejected_def)

lemma step_validate_frame:
  assumes "step_validate p req now = (bad, p')"
  shows "rp_Capital p' = rp_Capital p" "rp_PropFirm p' = rp_PropFirm p" "rp_KellyMult p' = rp_KellyMult p"
    "rp_RegimeMatrix p' = rp_RegimeMatrix p" "rp_CurrentRegime p' = rp_CurrentRegime p"
    "rp_symbolNotional p' = rp_symbolNotional p"
  using assms by (auto simp: step_validate_def Let_def split: option.splits prod.splits if_splits)

text \<open>An exit signal always passes with the whole existing position and changes nothing: no
  halt, limit or gate can keep a position from being closed.\<close>

lemma exit_always_passes:
  "rq_IsExit req \<Longrightarrow>
   RiskPipeline_ProcessSignal p req now = (approved (rq_ExistingPosition req) ''exit'', p)"
  by (simp add: RiskPipeline_ProcessSignal_def)

text \<open>C39: While the capital pool or the prop firm account is halted no entry is approved,
  whatever gates are plugged in.\<close>

theorem halted_pipeline_rejects_entries:
  assumes "\<not> rq_IsExit req"
    and "(\<exists>G c. rp_Capital p = Some (G, c) \<and> cg_Halted G c) \<or>
         (\<exists>G f. rp_PropFirm p = Some (G, f) \<and> pg_IsHalted G f)"
  shows "\<not> rs_Approved (fst (RiskPipeline_ProcessSignal p req now))"
proof -
  obtain bad p' where v: "step_validate p req now = (bad, p')" by force
  have "step_halted p' \<noteq> None"
    using assms(2) by (auto simp: step_halted_def step_validate_frame[OF v] split: option.splits)
  then show ?thesis
    using assms(1) v by (cases bad) (auto simp: RiskPipeline_ProcessSignal_def)
qed

text \<open>The cases of an approved entry.\<close>

lemma approved_entryE:
  assumes "fst (RiskPipeline_ProcessSignal p req now) = res" "rs_Approved res" "\<not> rq_IsExit req"
  obtains p1 sz p2 sz' where "step_validate p req now = (None, p1)" "step_halted p1 = None"
    "\<not> rq_BaseSize req \<le> 0" "\<not> step_size p1 req \<le> 0"
    "step_total_cap p1 req (step_position_cap req (step_size p1 req)) = Some sz"
    "step_exposure (add_notional p1 req sz) req sz = None"
    "step_capital (add_notional p1 req sz) req sz = (Inr sz', p2)"
    "res = approved (step_final p2 sz') ''ok''"
    "snd (RiskPipeline_ProcessSignal p req now) = step_record p2 req (step_final p2 sz')"
proof -
  obtain bad p1 where v: "step_validate p req now = (bad, p1)" by force
  show thesis
    using assms that[of p1] v
    by (auto simp: RiskPipeline_ProcessSignal_def Let_def split: option.splits if_splits sum.splits prod.splits)
qed

section \<open>The caps on the notional\<close>

text \<open>The range of capital and price for which the bounds are stated.\<close>

definition capital_range :: "f64 \<Rightarrow> bool" where
  "capital_range c \<longleftrightarrow> fin_nonneg c \<and> 1 \<le> fval c \<and> fval c \<le> 2 ^ 100"

definition price_range :: "f64 \<Rightarrow> bool" where
  "price_range p \<longleftrightarrow> fin_nonneg p \<and> 1 / 2 ^ 100 \<le> fval p \<and> fval p \<le> 2 ^ 100"

lemma mul_fin_nonneg:
  assumes "fin_nonneg a" "fin_nonneg b" "fval a * fval b \<le> pow2 1000"
  shows "fin_nonneg (a * b)" "fval (a * b) = fval (rnd (fval a * fval b))" "is_fin (rnd (fval a * fval b))"
proof -
  have ab: "is_fin a" "is_fin b" "0 \<le> fval a * fval b" using assms by (simp_all add: fin_nonneg_def)
  note e = mul_feqv[OF ab(1,2)]
  show "fin_nonneg (a * b)" using fin_nonneg_rnd[OF ab(3) assms(3)] by (simp add: fin_nonneg_feqv[OF e])
  show "fval (a * b) = fval (rnd (fval a * fval b))" by (rule feqv_fval[OF e])
  show "is_fin (rnd (fval a * fval b))" by (rule rnd_fin[OF ab(3) assms(3)])
qed

lemma div_fin_nonneg:
  assumes "fin_nonneg a" "fin_nonneg b" "0 < fval b" "fval a / fval b \<le> pow2 1000"
  shows "fin_nonneg (a / b)" "fval (a / b) = fval (rnd (fval a / fval b))" "is_fin (rnd (fval a / fval b))"
proof -
  have ab: "is_fin a" "is_fin b" "0 \<le> fval a / fval b" using assms by (simp_all add: fin_nonneg_def)
  note e = div_feqv[OF ab(1,2)]
  show "fin_nonneg (a / b)" using fin_nonneg_rnd[OF ab(3) assms(4)] assms(3) by (simp add: fin_nonneg_feqv[OF e])
  show "fval (a / b) = fval (rnd (fval a / fval b))" using feqv_fval[OF e] assms(3) by simp
  show "is_fin (rnd (fval a / fval b))" by (rule rnd_fin[OF ab(3) assms(4)])
qed

lemma pow2_large: "2 ^ 600 \<le> pow2 1000" "pow2 (-900) \<le> 1 / 2 ^ 300"
proof -
  have "pow2 600 \<le> pow2 1000" "pow2 (-900) \<le> pow2 (-300)" by simp_all
  then show "2 ^ 600 \<le> pow2 1000" "pow2 (-900) \<le> 1 / 2 ^ 300" by (simp_all only: pow2_numeral)
qed

lemma notional_cap_range:
  assumes "capital_range c" "0 \<le> q" "1 / 100 \<le> q" "q \<le> 1"
  shows "fin_nonneg (c * lit q)" "fval (c * lit q) \<le> fval c * q * eps1 ^ 2" "1 / 200 \<le> fval (c * lit q)"
proof -
  have c: "fin_nonneg c" "1 \<le> fval c" "fval c \<le> 2 ^ 100" using assms(1) by (simp_all add: capital_range_def)
  have small: "pow2 (-900) \<le> 1 / 100" "pow2 (-900) \<le> 1 / 128" using pow2_large(2) by simp_all
  have l: "fin_nonneg (lit q)" "fval (lit q) \<le> 1"
    using unit_scale_lit[OF assms(2,4)] by (simp_all add: unit_scale_def fin_nonneg_def)
  have lq: "fval (lit q) \<le> q * eps1"
    using rnd_up[of q q] assms(2,3) small(1) l(1) by (simp add: lit_def fin_nonneg_def)
  have r128: "rnd (1/128) = Fin (1/128)" by (simp add: f64_eval)
  have "rnd (1/128) \<le> rnd q" using assms(3) by (intro rnd_mono) simp
  then have ll: "1 / 128 \<le> fval (lit q)" using l(1) by (simp add: r128 fin_le fin_nonneg_def lit_def)
  have cl: "1 / 128 \<le> fval c * fval (lit q)" "fval c * fval (lit q) \<le> 2 ^ 100"
    using mult_mono[OF c(2) ll] mult_mono[OF c(3) l(2)] ll c(2) by simp_all
  then have "fval c * fval (lit q) \<le> pow2 1000" using pow2_large(1) by simp
  note m = mul_fin_nonneg[OF c(1) l(1) this]
  show "fin_nonneg (c * lit q)" by (rule m(1))
  have "rnd (1/128) \<le> rnd (fval c * fval (lit q))" using cl(1) by (intro rnd_mono)
  then have "1 / 128 \<le> fval (rnd (fval c * fval (lit q)))" using m(3) by (simp add: f64_eval fin_le)
  then show "1 / 200 \<le> fval (c * lit q)" by (simp add: m(2))
  have "fval c * fval (lit q) \<le> fval c * (q * eps1)" using lq c(2) by (intro mult_left_mono) simp_all
  moreover have "pow2 (-900) \<le> fval c * (q * eps1)" using cl(1) calculation small(2) by linarith
  ultimately have "fval (rnd (fval c * fval (lit q))) \<le> fval c * (q * eps1) * eps1"
    using cl(1) m(3) by (intro rnd_up) simp_all
  then show "fval (c * lit q) \<le> fval c * q * eps1 ^ 2" by (simp add: m(2) power2_eq_square algebra_simps)
qed

lemma position_cap_bound:
  assumes "fin_nonneg x" "price_range (rq_Price req)" "capital_range (rq_RunningCapital req)"
  defines "M \<equiv> rq_RunningCapital req * maxPositionPct"
  shows "fin_nonneg (step_position_cap req x)"
    "fval (step_position_cap req x) * fval (rq_Price req) \<le> fval M * eps1"
proof -
  define c p where "c = rq_RunningCapital req" and "p = rq_Price req"
  have c: "fval c \<le> 2 ^ 100" using assms(3) by (simp add: capital_range_def c_def)
  have p: "fin_nonneg p" "1 / 2 ^ 100 \<le> fval p" "fval p \<le> 2 ^ 100" "0 < fval p"
    using assms(2) less_le_trans[of 0 "1 / 2 ^ 100" "fval p"] by (simp_all add: price_range_def p_def)
  have M: "fin_nonneg M" "fval M \<le> fval c * (2/100) * eps1 ^ 2" "1 / 200 \<le> fval M"
    using notional_cap_range[OF assms(3), of "2/100"] by (simp_all only: M_def maxPositionPct_def c_def)
  have "fval c * (2/100) * eps1 ^ 2 \<le> 2 ^ 100 * (2/100) * 2"
    using c by (intro mult_mono) (simp_all add: eps1_def power2_eq_square)
  then have Mup: "fval M \<le> 2 ^ 100" using M(2) by simp
  have Mpos: "0 < M" using M(1,3) by (simp add: fin_nonneg_def fin_less)
  have cap: "step_position_cap req x = (if M < x * p then M / p else x)"
    using Mpos by (simp add: step_position_cap_def M_def p_def)
  have "fin_nonneg (step_position_cap req x) \<and> fval (step_position_cap req x) * fval p \<le> fval M * eps1"
  proof (cases "M < x * p")
    case True
    have "fval M / fval p \<le> 2 ^ 100 / (1 / 2 ^ 100)" using Mup p by (intro frac_le) simp_all
    then have "fval M / fval p \<le> pow2 1000" using pow2_large(1) by simp
    note d = div_fin_nonneg[OF M(1) p(1,4) this]
    have "(1 / 200) / 2 ^ 100 \<le> fval M / fval p" using M(3) p by (intro frac_le) simp_all
    then have "pow2 (-900) \<le> fval M / fval p" using pow2_large(2) by simp
    then have "fval (M / p) \<le> fval M / fval p * eps1"
      using M(3) p(4) d(3) unfolding d(2) by (intro rnd_up) simp_all
    then have "fval (M / p) * fval p \<le> fval M / fval p * eps1 * fval p" using p(4) by (intro mult_right_mono) simp_all
    also have "\<dots> = fval M * eps1" using p(4) by simp
    finally show ?thesis using True d(1) by (simp add: cap)
  next
    case False
    have x: "is_fin x" "is_fin p" "0 \<le> fval x * fval p" using assms(1) p by (simp_all add: fin_nonneg_def)
    note e = mul_feqv[OF x(1,2)]
    have "x * p \<le> M" using False feqv_nan[OF e] M(1) f64_not_less[of M "x * p"] by (simp add: fin_nonneg_not_nan)
    then have le: "rnd (fval x * fval p) \<le> M" by (simp add: feqv_le[OF e])
    have fin: "is_fin (rnd (fval x * fval p))"
      using fin_between[OF rnd_nonneg[OF x(3)] le] M(1) by (simp add: fin_nonneg_def)
    have "fval (rnd (fval x * fval p)) \<le> fval M" using le fin M(1) by (simp add: fin_le fin_nonneg_def)
    moreover have "pow2 (-900) \<le> fval M" using M(3) pow2_large(2) by simp
    ultimately have "fval x * fval p \<le> fval M * eps1" using x(3) fin by (intro rnd_down)
    then show ?thesis using False assms(1) by (simp add: cap)
  qed
  then show "fin_nonneg (step_position_cap req x)"
    "fval (step_position_cap req x) * fval (rq_Price req) \<le> fval M * eps1" by (simp_all add: p_def)
qed

lemma total_cap_bound:
  assumes "fin_nonneg s1" "fval s1 * fval (rq_Price req) \<le> m" "1 / 200 \<le> m" "m \<le> 2 ^ 200"
    and "price_range (rq_Price req)" "capital_range (rq_RunningCapital req)"
    and "step_total_cap pl req s1 = Some s2"
  shows "fin_nonneg s2" "fval s2 * fval (rq_Price req) \<le> m * eps1 ^ 2"
proof -
  define p where "p = rq_Price req"
  define e where "e = mget 0 (rp_symbolNotional pl) (rq_Symbol req)"
  define T where "T = rq_RunningCapital req * maxTotalNotionalPct"
  define n where "n = \<bar>s1 * p\<bar>"
  have p: "fin_nonneg p" "1 / 2 ^ 100 \<le> fval p" "fval p \<le> 2 ^ 100" "0 < fval p"
    using assms(5) less_le_trans[of 0 "1 / 2 ^ 100" "fval p"] by (simp_all add: price_range_def p_def)
  have T: "fin_nonneg T"
    using notional_cap_range(1)[OF assms(6), of "10/100"] by (simp only: T_def maxTotalNotionalPct_def)
  have m: "pow2 (-900) \<le> m" "0 < m" using assms(3) pow2_large(2) by simp_all
  have "fval s1 * fval p \<le> pow2 1000" using assms(2,4) pow2_large(1) by (simp add: p_def)
  note sp = mul_fin_nonneg[OF assms(1) p(1) this]
  note n_abs = abs_fin_nonneg[OF sp(1), folded n_def]
  have n: "fin_nonneg n" using sp(1) by (simp add: fin_nonneg_feqv[OF n_abs])
  have "fval (rnd (fval s1 * fval p)) \<le> m * eps1"
    using assms(1,2) p(1) m(1) sp(3) by (intro rnd_up) (simp_all add: p_def fin_nonneg_def)
  then have nm: "fval n \<le> m * eps1" using sp(2) feqv_fval[OF n_abs] by simp
  have m2: "m \<le> m * eps1" "m * eps1 \<le> m * eps1 ^ 2"
    using m(2) eps1_gt by (simp_all add: power2_eq_square)
  consider (same) "s2 = s1" | (cut) "T < e + n" "\<not> T - e \<le> 0" "s2 = (T - e) / p"
    using assms(7) by (auto simp: step_total_cap_def Let_def p_def e_def T_def n_def split: if_splits)
  then have "fin_nonneg s2 \<and> fval s2 * fval p \<le> m * eps1 ^ 2"
  proof cases
    case same
    then show ?thesis using assms(1,2) m2 by (simp add: p_def)
  next
    case cut
    have TN: "is_fin T" "is_fin n" "f64_ok T" "f64_ok n" using T n by (simp_all add: fin_nonneg_def)
    have "\<not> T < FNegInf + n" "T - FPosInf = FNegInf" using TN
      by (auto simp: plus_f64_def minus_f64_def uminus_f64_def is_inf_def less_f64_def is_fin_def frank_def
          split: f64.splits)
    then have e: "is_fin e" using cut(1,2) by (cases e) (auto simp: inf_nan_ops)
    have "fval T < fval e + fval n"
    proof (rule ccontr)
      assume "\<not> fval T < fval e + fval n"
      then have "rnd (fval e + fval n) \<le> rnd (fval T)" by (intro rnd_mono) simp
      then have "rnd (fval e + fval n) \<le> T" using TN by (simp add: rnd_fval less_eq_f64_def is_fin_def)
      then have "e + n \<le> T" by (simp add: feqv_le[OF add_feqv[OF e TN(2)]])
      then show False using cut(1) f64_less_not_le by blast
    qed
    then have "rnd (fval T - fval e) \<le> rnd (fval n)" by (intro rnd_mono) simp
    then have "rnd (fval T - fval e) \<le> n" using TN by (simp add: rnd_fval less_eq_f64_def is_fin_def)
    then have an: "T - e \<le> n" by (simp add: feqv_le[OF sub_feqv[OF TN(1) e]])
    then have "T - e \<noteq> FNaN" by auto
    then have "0 \<le> T - e" using cut(2) by (simp add: f64_not_le f64_less_imp_le)
    moreover have "f64_ok (T - e)"
      using sub_feqv[OF TN(1) e] by (auto simp: feqv_def is_zero_def)
    ultimately have a: "fin_nonneg (T - e)" using shrunkI[OF n an] by (simp add: shrunk_def)
    then have am: "fval (T - e) \<le> m * eps1" using an n nm by (simp add: fin_le fin_nonneg_def)
    have me: "m * eps1 \<le> 2 ^ 201" using mult_mono[OF assms(4), of eps1 2] by (simp add: eps1_def)
    have up: "fval (T - e) / fval p \<le> m * eps1 / fval p" using am p(4) by (simp add: divide_right_mono)
    have "m * eps1 / fval p \<le> 2 ^ 201 / (1 / 2 ^ 100)" using me p by (intro frac_le) simp_all
    then have "fval (T - e) / fval p \<le> pow2 1000" using up pow2_large(1) by simp
    note d = div_fin_nonneg[OF a p(1,4) this]
    have "1 / 200 \<le> m * eps1" using assms(3) m2(1) by linarith
    then have "(1 / 200) / 2 ^ 100 \<le> m * eps1 / fval p" using p by (intro frac_le) simp_all
    then have "pow2 (-900) \<le> m * eps1 / fval p" using pow2_large(2) by simp
    then have "fval s2 \<le> m * eps1 / fval p * eps1"
      using up a p(4) d(3) unfolding cut(3) d(2) by (intro rnd_up) (simp_all add: fin_nonneg_def)
    then have "fval s2 * fval p \<le> m * eps1 / fval p * eps1 * fval p" using p(4) by (intro mult_right_mono) simp_all
    also have "\<dots> = m * eps1 ^ 2" using p(4) by (simp add: power2_eq_square)
    finally show ?thesis using d(1) by (simp add: cut(3))
  qed
  then show "fin_nonneg s2" "fval s2 * fval (rq_Price req) \<le> m * eps1 ^ 2" by (simp_all add: p_def)
qed

section \<open>The pipeline over gates that keep their laws\<close>

definition regime_scales :: "regime_matrix \<Rightarrow> bool" where
  "regime_scales m \<longleftrightarrow> regime_matrix_ok m \<and>
     (\<forall>e\<in>set m. \<forall>w\<in>set (re_Participation (snd e)) \<union> set (re_KellyMultiplier (snd e)). unit_scale w)"

definition pipeline_ok :: "'s SignalGate \<Rightarrow> ('s \<Rightarrow> bool) \<Rightarrow> 'c CapitalGate \<Rightarrow> ('c \<Rightarrow> bool) \<Rightarrow>
  'p PropFirmGate \<Rightarrow> ('p \<Rightarrow> bool) \<Rightarrow> ('s, 'c, 'p) RiskPipeline \<Rightarrow> bool" where
  "pipeline_ok SG sg_inv CG cg_inv PG pg_inv p \<longleftrightarrow>
     (\<forall>G s. rp_SignalGate p = Some (G, s) \<longrightarrow> G = SG \<and> sg_inv s) \<and>
     (\<forall>G c. rp_Capital p = Some (G, c) \<longrightarrow> G = CG \<and> cg_inv c) \<and>
     (\<forall>G f. rp_PropFirm p = Some (G, f) \<longrightarrow> G = PG \<and> pg_inv f) \<and>
     unit_scale (rp_KellyMult p) \<and>
     (\<forall>m. rp_RegimeMatrix p = Some m \<longrightarrow> regime_scales m)"

text \<open>A run of the pipeline: signals and closed trades in any order.\<close>

datatype pipeline_op =
    PlSignal ProcessSignalRequest int
  | PlFill string string string f64 f64 f64

fun pipeline_step :: "('s, 'c, 'p) RiskPipeline \<Rightarrow> pipeline_op \<Rightarrow> ('s, 'c, 'p) RiskPipeline" where
  "pipeline_step p (PlSignal req now) = snd (RiskPipeline_ProcessSignal p req now)"
| "pipeline_step p (PlFill sid symb side pnl qty price) = RiskPipeline_ReconcileFill p sid symb side pnl qty price"

definition request_ok :: "ProcessSignalRequest \<Rightarrow> bool" where
  "request_ok req \<longleftrightarrow> fin_nonneg (rq_BaseSize req) \<and> 0 \<le> rq_Confidence req \<and>
     price_range (rq_Price req) \<and> capital_range (rq_RunningCapital req)"

fun pipeline_op_ok :: "pipeline_op \<Rightarrow> bool" where
  "pipeline_op_ok (PlSignal req now) = request_ok req"
| "pipeline_op_ok (PlFill sid symb side pnl qty price) = fin_nonneg qty"

lemma regime_scales_weights:
  assumes "regime_scales m"
  shows "unit_scale (RegimeActivationMatrix_ParticipationForRegime m sid r)"
    "unit_scale (RegimeActivationMatrix_KellyForRegime m sid r)"
proof -
  define e where "e = RegimeActivationMatrix_Get m sid"
  have len: "regime_entry_ok e" using assms by (simp add: e_def regime_scales_def)
  have "\<forall>w\<in>set (re_Participation e) \<union> set (re_KellyMultiplier e). unit_scale w"
  proof (cases "mlookup m sid")
    case None
    then show ?thesis
      by (simp add: e_def RegimeActivationMatrix_Get_def defaultEntry_def unit_scale_lit) (simp add: unit_scale_def)
  next
    case (Some x)
    then show ?thesis using assms map_of_SomeD[OF Some]
      by (fastforce simp: e_def RegimeActivationMatrix_Get_def regime_scales_def)
  qed
  then have nth: "unit_scale (re_Participation e ! nat r)" "unit_scale (re_KellyMultiplier e ! nat r)"
    if "0 \<le> r" "r \<le> 3"
    using that len by (auto simp: regime_entry_ok_def nat_less_iff)
  have zero: "unit_scale 0" by (simp add: unit_scale_def)
  show "unit_scale (RegimeActivationMatrix_ParticipationForRegime m sid r)"
    "unit_scale (RegimeActivationMatrix_KellyForRegime m sid r)"
    using nth zero by (auto simp: RegimeActivationMatrix_ParticipationForRegime_def
        RegimeActivationMatrix_KellyForRegime_def Let_def simp flip: e_def)
qed

lemma SanitizeTradePnL_fin: "is_fin (fst (SanitizeTradePnL pnl q e r))"
  by (cases pnl) (simp_all add: SanitizeTradePnL_def Let_def is_nan_def is_inf_def)

locale risk_pipeline =
  sg: signal_gate SG sg_inv + cg: capital_gate CG cg_inv + pg: propfirm_gate PG pg_inv
  for SG :: "'s SignalGate" and sg_inv :: "'s \<Rightarrow> bool"
    and CG :: "'c CapitalGate" and cg_inv :: "'c \<Rightarrow> bool"
    and PG :: "'p PropFirmGate" and pg_inv :: "'p \<Rightarrow> bool"
begin

abbreviation ok :: "('s, 'c, 'p) RiskPipeline \<Rightarrow> bool" where
  "ok \<equiv> pipeline_ok SG sg_inv CG cg_inv PG pg_inv"

lemma step_validate_ok: "ok p \<Longrightarrow> step_validate p req now = (bad, p') \<Longrightarrow> ok p'"
  using sg.validate_inv[of _ "rq_RunningCapital req" now]
  by (cases "rp_SignalGate p")
    (auto simp: step_validate_def pipeline_ok_def Let_def split: prod.splits if_splits, fastforce+)

lemma step_size_fin:
  assumes "ok p" "fin_nonneg (rq_BaseSize req)" "0 \<le> rq_Confidence req"
  shows "shrunk (rq_BaseSize req) (step_size p req)"
proof -
  have w: "unit_scale (step_regime p req)" "unit_scale (step_kelly p req)"
    using assms(1) regime_scales_weights
    by (auto simp: step_regime_def step_kelly_def Let_def pipeline_ok_def split: option.splits)
  have s: "shrunk (rq_BaseSize req) (case rp_SignalGate p of None \<Rightarrow> rq_BaseSize req
      | Some (G, s) \<Rightarrow> sg_ApplySizing G s (rq_BaseSize req) (rq_RunningCapital req) (rq_Confidence req))"
    using assms sg.sizing shrunk_refl by (auto simp: pipeline_ok_def split: option.splits)
  have m: "rp_PropFirm p = Some (G, f) \<Longrightarrow> unit_scale (pg_SoftHaltMultiplier G f)" for G f
    using assms(1) pg.soft_scale by (auto simp: pipeline_ok_def)
  show ?thesis
    unfolding step_size_def Let_def using s w m
    by (auto split: option.split intro!: shrunk_mul simp del: split_paired_All)
qed

lemma step_capital_ok:
  assumes "ok p" "fin_nonneg sz" "0 \<le> rq_Confidence req" "step_capital p req sz = (r, p')"
  shows "ok p' \<and> (r = Inr sz' \<longrightarrow> shrunk sz sz')"
proof (cases "rp_Capital p")
  case None
  then show ?thesis using assms by (auto simp: step_capital_def shrunk_refl)
next
  case (Some gc)
  then obtain c where gc: "rp_Capital p = Some (CG, c)" "cg_inv c"
    using assms(1) by (cases gc) (auto simp: pipeline_ok_def)
  define sz1 where "sz1 = (case cg_HasOpenPosition CG of None \<Rightarrow> sz
    | Some f \<Rightarrow> if f c (rq_Symbol req) (rq_Side req) then sz * lit (5/10) else sz)"
  have sz1: "shrunk sz sz1" unfolding sz1_def
    using shrunk_refl[OF assms(2)] unit_scale_lit[of "5/10"] by (auto split: option.split simp del: divide_const_simps)
  define creq where "creq = \<lparr>cr_StrategyID = rq_StrategyID req, cr_Confidence = rq_Confidence req,
    cr_Symbol = rq_Symbol req, cr_Side = rq_Side req, cr_BaseSize = sz1\<rparr>"
  obtain res c' where rc: "cg_RequestCapital CG c creq = (res, c')" by force
  have cr: "fin_nonneg (cr_BaseSize creq)" "0 \<le> cr_Confidence creq" "cr_BaseSize creq = sz1"
    using shrunk_fin_nonneg[OF sz1] assms(3) by (simp_all add: creq_def)
  have inv: "cg_inv c'" using cg.request_inv[OF gc(2) cr(1,2)] by (simp add: rc)
  have app: "shrunk sz1 (cs_ApprovedSize res)" if "\<not> cs_ApprovedSize res \<le> 0"
    using cg.approved_shrunk[OF gc(2) cr(1,2)] that by (simp add: rc cr(3))
  have red: "shrunk q (f c' (rq_Side req) (rq_Symbol req) q)"
    if "cg_ApplyCorrelationReduction CG = Some f" "fin_nonneg q" for f q
    by (rule cg.reduction[OF inv that])
  define q where "q = (case cg_ApplyCorrelationReduction CG of None \<Rightarrow> cs_ApprovedSize res
    | Some f \<Rightarrow> f c' (rq_Side req) (rq_Symbol req) (cs_ApprovedSize res))"
  have q: "shrunk sz q" if "\<not> cs_ApprovedSize res \<le> 0"
    using red[OF _ shrunk_fin_nonneg[OF app[OF that]]] shrunk_trans[OF sz1 app[OF that]]
      shrunk_trans[OF shrunk_trans[OF sz1 app[OF that]]]
    by (auto simp: q_def split: option.split)
  have run: "step_capital p req sz = (let p = p\<lparr>rp_Capital := Some (CG, c')\<rparr> in
      if cs_ApprovedSize res \<le> 0 then (Inl (''capital:'' @ cs_Reason res), p)
      else if cg_ApplyCorrelationReduction CG \<noteq> None \<and> q \<le> 0 then (Inl ''correlation_penalty'', p)
      else case cg_PerStrategyDrawdown CG of None \<Rightarrow> (Inr q, p)
         | Some f \<Rightarrow> if f c' (rq_StrategyID req) > lit (5/100)
             then (Inl (''per_strategy_drawdown:'' @ rq_StrategyID req), p) else (Inr q, p))"
    unfolding step_capital_def gc(1) option.case prod.case Let_def
    by (simp only: rc prod.case flip: sz1_def creq_def q_def)
  have "ok (p\<lparr>rp_Capital := Some (CG, c')\<rparr>)" using assms(1) inv by (simp add: pipeline_ok_def)
  then show ?thesis
    using assms(4) q unfolding run Let_def by (auto split: if_splits option.splits)
qed

lemma step_final_le: "ok p \<Longrightarrow> fin_nonneg sz \<Longrightarrow> step_final p sz \<le> sz"
  using pg.size_le by (auto simp: step_final_def pipeline_ok_def fin_nonneg_not_nan split: option.split)

lemma ok_frame: "ok (add_notional p req sz) = ok p" "ok (release_notional p symb n) = ok p"
  by (simp_all add: pipeline_ok_def add_notional_def release_notional_def Let_def)

lemma step_record_ok: "ok p \<Longrightarrow> ok (step_record p req sz)"
  using sg.record_inv by (auto simp: step_record_def pipeline_ok_def split: option.splits)

lemma capped_size:
  assumes "ok p" "request_ok req"
    and "step_total_cap p req (step_position_cap req (step_size p req)) = Some sz"
  shows "fin_nonneg sz" "fval sz * fval (rq_Price req) \<le> fval (rq_RunningCapital req) * (2/100) * eps1 ^ 5"
proof -
  have r: "fin_nonneg (rq_BaseSize req)" "0 \<le> rq_Confidence req" "price_range (rq_Price req)"
    "capital_range (rq_RunningCapital req)" using assms(2) by (simp_all add: request_ok_def)
  define M where "M = rq_RunningCapital req * maxPositionPct"
  have M: "fval M \<le> fval (rq_RunningCapital req) * (2/100) * eps1 ^ 2" "1 / 200 \<le> fval M"
    using notional_cap_range[OF r(4), of "2/100"] by (simp_all only: M_def maxPositionPct_def)
  have x: "fin_nonneg (step_size p req)" by (rule shrunk_fin_nonneg[OF step_size_fin[OF assms(1) r(1,2)]])
  note pc = position_cap_bound[OF x r(3,4), folded M_def]
  have e: "eps1 ^ 5 = eps1 ^ 2 * eps1 * eps1 ^ 2" by (simp add: eval_nat_numeral)
  have m: "1 / 200 \<le> fval M * eps1" using mult_left_mono[OF eps1_gt(3), of "fval M"] M(2) by linarith
  have "fval M \<le> 2 ^ 100 * (2/100) * 2" using M(1) r(4) order.trans[OF M(1) mult_mono[of _ "2 ^ 100 * (2/100)" "eps1 ^ 2" 2]]
    by (simp add: capital_range_def eps1_def power2_eq_square)
  then have "fval M * eps1 \<le> 2 ^ 100 * (2/100) * 2 * 2" using eps1_gt by (intro mult_mono) (simp_all add: eps1_def)
  then have m2: "fval M * eps1 \<le> 2 ^ 200" by simp
  note tc = total_cap_bound[OF pc m m2 r(3,4) assms(3)]
  show "fin_nonneg sz" by (rule tc(1))
  have "fval M * eps1 * eps1 ^ 2 \<le> fval (rq_RunningCapital req) * (2/100) * eps1 ^ 2 * eps1 * eps1 ^ 2"
    using M(1) eps1_gt by (intro mult_right_mono) simp_all
  with tc(2) show "fval sz * fval (rq_Price req) \<le> fval (rq_RunningCapital req) * (2/100) * eps1 ^ 5"
    by (simp only: e mult.assoc)
qed

lemma entry_size_bound:
  assumes "ok p" "request_ok req" "RiskPipeline_ProcessSignal p req now = (res, p')"
    and "rs_Approved res" "\<not> rq_IsExit req"
  shows "fval (rs_Size res) * fval (rq_Price req) \<le> fval (rq_RunningCapital req) * (2/100) * eps1 ^ 5"
proof (rule approved_entryE[of p req now res])
  fix p1 sz p2 sz'
  assume s: "step_validate p req now = (None, p1)"
    "step_total_cap p1 req (step_position_cap req (step_size p1 req)) = Some sz"
    "step_capital (add_notional p1 req sz) req sz = (Inr sz', p2)"
    "res = approved (step_final p2 sz') ''ok''"
  have ok1: "ok p1" by (rule step_validate_ok[OF assms(1) s(1)])
  note tc = capped_size[OF ok1 assms(2) s(2)]
  have c: "ok p2" "shrunk sz sz'"
    using step_capital_ok[OF _ tc(1) _ s(3), of sz'] ok1 assms(2) by (simp_all add: ok_frame request_ok_def)
  have "step_final p2 sz' \<le> sz"
    using step_final_le[OF c(1) shrunk_fin_nonneg[OF c(2)]] c(2) f64_le_trans unfolding shrunk_def by blast
  then have "fval (rs_Size res) \<le> fval sz"
    using tc(1) by (cases "step_final p2 sz'") (auto simp: s(4) fin_le fin_nonneg_def less_eq_f64_def elim!: is_finE)
  then have "fval (rs_Size res) * fval (rq_Price req) \<le> fval sz * fval (rq_Price req)"
    using assms(2) by (intro mult_right_mono) (simp_all add: request_ok_def price_range_def fin_nonneg_def)
  with tc(2) show ?thesis by (rule order.trans[rotated])
qed (use assms in simp_all)

lemma ProcessSignal_ok:
  assumes "ok p" "request_ok req"
  shows "ok (snd (RiskPipeline_ProcessSignal p req now))"
proof -
  obtain bad p1 where v: "step_validate p req now = (bad, p1)" by force
  have ok1: "ok p1" by (rule step_validate_ok[OF assms(1) v])
  have cap: "ok p2 \<and> ok (step_record p2 req (step_final p2 sz'))"
    if "step_total_cap p1 req (step_position_cap req (step_size p1 req)) = Some sz"
      "step_capital (add_notional p1 req sz) req sz = (r, p2)" for sz r p2 sz'
    using step_capital_ok[OF _ capped_size(1)[OF ok1 assms(2) that(1)] _ that(2)] ok1 assms(2) step_record_ok
    by (simp add: ok_frame request_ok_def)
  show ?thesis
    unfolding RiskPipeline_ProcessSignal_def Let_def v prod.case
    using assms(1) ok1 cap by (auto split: option.split sum.split prod.split simp: ok_frame)
qed

lemma ReconcileFill_ok:
  assumes "ok p" "fin_nonneg qty"
  shows "ok (RiskPipeline_ReconcileFill p sid symb side pnl qty price)"
    "ok (RiskPipeline_ReconcileFillWithoutPropFirm p sid symb side pnl qty price)"
proof -
  define pl where "pl = fst (SanitizeTradePnL pnl qty price (RiskPipeline_capitalBalance p))"
  have pl: "is_fin pl" unfolding pl_def by (rule SanitizeTradePnL_fin)
  have "ok (fill_capital p sid symb side pl qty)"
    using assms cg.fill_inv pl by (auto simp: fill_capital_def pipeline_ok_def split: option.splits)
  moreover have "ok (fill_propfirm q pl)" if "ok q" for q
    using that pl pg.fill_inv pg.check_inv pg.mark_inv
    by (auto simp: fill_propfirm_def pipeline_ok_def Let_def case_prod_beta split: option.splits)
  moreover have "ok (release_exposure q symb side n)" if "ok q" for q n
    using that sg.remove_inv by (auto simp: release_exposure_def pipeline_ok_def split: option.splits)
  ultimately show "ok (RiskPipeline_ReconcileFill p sid symb side pnl qty price)"
    "ok (RiskPipeline_ReconcileFillWithoutPropFirm p sid symb side pnl qty price)"
    by (simp_all add: RiskPipeline_ReconcileFill_def RiskPipeline_ReconcileFillWithoutPropFirm_def
        Let_def ok_frame flip: pl_def)
qed

lemma run_ok: "ok p \<Longrightarrow> \<forall>op\<in>set ops. pipeline_op_ok op \<Longrightarrow> ok (foldl pipeline_step p ops)"
proof (induction ops arbitrary: p)
  case (Cons op ops)
  then show ?case by (cases op) (simp_all add: ProcessSignal_ok ReconcileFill_ok)
qed simp

lemma eps1_5: "eps1 ^ 5 \<le> 1 + 1 / 2 ^ 49"
  by (simp add: eps1_def power_divide eval_nat_numeral)

lemma run_entry_bound:
  assumes "ok p" "\<forall>op\<in>set ops. pipeline_op_ok op" "request_ok req" "\<not> rq_IsExit req"
    and "rs_Approved (fst (RiskPipeline_ProcessSignal (foldl pipeline_step p ops) req now))"
  shows "fval (rs_Size (fst (RiskPipeline_ProcessSignal (foldl pipeline_step p ops) req now))) * fval (rq_Price req)
    \<le> fval (rq_RunningCapital req) * (2/100) * (1 + 1 / 2 ^ 49)"
proof -
  obtain res p' where r: "RiskPipeline_ProcessSignal (foldl pipeline_step p ops) req now = (res, p')" by force
  have "fval (rs_Size res) * fval (rq_Price req) \<le> fval (rq_RunningCapital req) * (2/100) * eps1 ^ 5"
    using entry_size_bound[OF run_ok[OF assms(1,2)] assms(3) r _ assms(4)] assms(5) by (simp add: r)
  also have "\<dots> \<le> fval (rq_RunningCapital req) * (2/100) * (1 + 1 / 2 ^ 49)"
    using eps1_5 assms(3) by (intro mult_left_mono) (simp_all add: request_ok_def capital_range_def)
  finally show ?thesis by (simp add: r)
qed

end

section \<open>Fills\<close>

lemma Sanitize_zero: "fst (SanitizeTradePnL 0 q e r) = 0"
  by (simp add: SanitizeTradePnL_def Let_def)

text \<open>The sanitized profit is a number: it is the given one, or zero. A profit or loss beyond
  the bound is not clamped to it but dropped, so the books of the pool and of the prop firm
  gate see a fill of that size exactly as one that made nothing.\<close>

theorem outsized_pnl_is_dropped:
  assumes "snd (SanitizeTradePnL pnl qty price (RiskPipeline_capitalBalance p))"
  shows "RiskPipeline_ReconcileFill p sid symb side pnl qty price =
    RiskPipeline_ReconcileFill p sid symb side 0 qty price"
proof -
  have "fst (SanitizeTradePnL pnl qty price (RiskPipeline_capitalBalance p)) = 0"
    using assms by (auto simp: SanitizeTradePnL_def Let_def split: if_splits)
  then show ?thesis by (simp add: RiskPipeline_ReconcileFill_def Sanitize_zero)
qed

end
