(* ===== verification/PropFirm.thy ===== *)
theory PropFirm
  imports Gates
begin

text \<open>
  Package \<open>internal/propfirm\<close>: the prop-firm profile and the live \<open>Manager\<close>
  (\<open>profile.go\<close>), the rule formulas (\<open>rules.go\<close>) and the pool state shared by the
  backtest and the live capital pools (\<open>pool_base.go\<close>). Reading a profile from disk
  (\<open>LoadProfile\<close>) is not modelled: a loaded profile is an entry of the manager's map.
  The mutex of \<open>Manager\<close> makes each method one atomic step.
\<close>

section \<open>Rule formulas (rules.go)\<close>

definition DrawdownPct :: "f64 \<Rightarrow> f64 \<Rightarrow> f64" where
  "DrawdownPct peakBalance currentBalance =
     (if peakBalance \<le> 0 then 0
      else (peakBalance - currentBalance) / peakBalance * lit 100)"

definition DailyLossPct :: "f64 \<Rightarrow> f64 \<Rightarrow> f64" where
  "DailyLossPct startingBalance currentBalance =
     (if startingBalance \<le> 0 then 0
      else (currentBalance - startingBalance) / startingBalance * lit 100)"

definition DailyLossExceeded :: "f64 \<Rightarrow> f64 \<Rightarrow> f64 \<Rightarrow> bool" where
  "DailyLossExceeded startingBalance currentBalance maxDailyLossPct \<longleftrightarrow>
     DailyLossPct startingBalance currentBalance \<le> - maxDailyLossPct"

definition DrawdownExceeded :: "f64 \<Rightarrow> f64 \<Rightarrow> f64 \<Rightarrow> bool" where
  "DrawdownExceeded peakBalance currentBalance maxDrawdownPct \<longleftrightarrow>
     DrawdownPct peakBalance currentBalance > maxDrawdownPct"

definition ConsistencyBreached :: "f64 \<Rightarrow> f64 \<Rightarrow> bool" where
  "ConsistencyBreached dailyPnLPct thresholdPct \<longleftrightarrow> dailyPnLPct > thresholdPct"

section \<open>Profile and manager state (profile.go)\<close>

record profile =
  pf_ID :: string
  pf_Name :: string
  pf_MaxDailyLossPct :: f64
  pf_MaxDrawdownPct :: f64
  pf_DrawdownType :: string
  pf_MaxPositionPct :: f64
  pf_MaxOpenPositions :: int
  pf_MaxTradesPerDay :: int
  pf_ConsistencyEnabled :: bool
  pf_ConsistencyThresholdPct :: f64
  pf_ConsistencyPenalty :: f64
  pf_ProfitTargetPctPhase1 :: f64
  pf_ProfitTargetPctPhase2 :: f64
  pf_MinTradingDays :: int
  pf_WeekendHoldingAllowed :: bool
  pf_NewsTradingAllowed :: bool
  pf_RegimeMultipliers :: "f64 list"
  pf_SoftHaltThresholdPct :: f64
  pf_HardHaltThresholdPct :: f64

record pf_state =
  st_ProfileID :: string
  st_StartingBalance :: f64
  st_PeakBalance :: f64
  st_DailyPnL :: f64
  st_DailyPnLPct :: f64
  st_CumulativePnL :: f64
  st_ConsistencyMult :: f64
  st_TradingDays :: int
  st_CurrentPhase :: int
  st_PhaseTargetMet :: bool
  st_Violated :: bool
  st_ViolationReason :: string
  st_SoftHalted :: bool

record manager =
  mg_profiles :: "(string, profile) gomap"
  mg_active :: string
  mg_state :: pf_state

definition zero_pf_state :: pf_state where
  "zero_pf_state = \<lparr>st_ProfileID = '''', st_StartingBalance = 0, st_PeakBalance = 0,
     st_DailyPnL = 0, st_DailyPnLPct = 0, st_CumulativePnL = 0, st_ConsistencyMult = 0,
     st_TradingDays = 0, st_CurrentPhase = 0, st_PhaseTargetMet = False, st_Violated = False,
     st_ViolationReason = '''', st_SoftHalted = False\<rparr>"

definition NewManager :: manager where
  "NewManager = \<lparr>mg_profiles = [], mg_active = '''',
     mg_state = zero_pf_state\<lparr>st_ConsistencyMult := 1, st_CurrentPhase := 1\<rparr>\<rparr>"

definition DefaultFTMOProfile :: profile where
  "DefaultFTMOProfile = \<lparr>pf_ID = ''ftmo'', pf_Name = ''FTMO'',
     pf_MaxDailyLossPct = lit 5,
     pf_MaxDrawdownPct = lit 10,
     pf_DrawdownType = ''static_hwm'',
     pf_MaxPositionPct = lit 2,
     pf_MaxOpenPositions = 5,
     pf_MaxTradesPerDay = 10,
     pf_ConsistencyEnabled = True,
     pf_ConsistencyThresholdPct = lit 30,
     pf_ConsistencyPenalty = lit (1/2),
     pf_ProfitTargetPctPhase1 = lit 10,
     pf_ProfitTargetPctPhase2 = lit 5,
     pf_MinTradingDays = 4,
     pf_WeekendHoldingAllowed = True,
     pf_NewsTradingAllowed = True,
     pf_RegimeMultipliers = [1, lit (85/100), lit (75/100), lit (1/2)],
     pf_SoftHaltThresholdPct = lit (45/10),
     pf_HardHaltThresholdPct = lit 5\<rparr>"

definition DefaultProfile :: profile where
  "DefaultProfile = DefaultFTMOProfile"

datatype manager_error = ErrNotExist | ErrReadFile | ErrUnmarshal

definition zero_profile :: profile where
  "zero_profile = \<lparr>pf_ID = '''', pf_Name = '''', pf_MaxDailyLossPct = 0, pf_MaxDrawdownPct = 0,
     pf_DrawdownType = '''', pf_MaxPositionPct = 0, pf_MaxOpenPositions = 0, pf_MaxTradesPerDay = 0,
     pf_ConsistencyEnabled = False, pf_ConsistencyThresholdPct = 0, pf_ConsistencyPenalty = 0,
     pf_ProfitTargetPctPhase1 = 0, pf_ProfitTargetPctPhase2 = 0, pf_MinTradingDays = 0,
     pf_WeekendHoldingAllowed = False, pf_NewsTradingAllowed = False, pf_RegimeMultipliers = [0, 0, 0, 0],
     pf_SoftHaltThresholdPct = 0, pf_HardHaltThresholdPct = 0\<rparr>"

text \<open>
  \<open>LoadProfile\<close> with the file system and the two parsers as parameters: a parser takes the
  profile it fills and returns whether it succeeded together with what it left there.
\<close>

definition Manager_LoadProfile ::
  "(string \<Rightarrow> string option) \<Rightarrow> (string \<Rightarrow> profile \<Rightarrow> bool \<times> profile) \<Rightarrow>
   (string \<Rightarrow> profile \<Rightarrow> bool \<times> profile) \<Rightarrow> manager \<Rightarrow> string \<Rightarrow> manager_error option \<times> manager" where
  "Manager_LoadProfile read_file yaml json m path = (case read_file path of
       None \<Rightarrow> (Some ErrReadFile, m)
     | Some data \<Rightarrow>
        (let (ok, p) = yaml data zero_profile;
             (ok, p) = (if ok then (True, p) else json data p)
         in if ok then (None, m\<lparr>mg_profiles := mput (mg_profiles m) (pf_ID p) p\<rparr>)
            else (Some ErrUnmarshal, m)))"

definition Manager_ActivateProfile :: "manager \<Rightarrow> string \<Rightarrow> manager_error option \<times> manager" where
  "Manager_ActivateProfile m pid = (case mlookup (mg_profiles m) pid of
       None \<Rightarrow> (Some ErrNotExist, m)
     | Some _ \<Rightarrow> (None, m\<lparr>mg_active := pid,
         mg_state := zero_pf_state\<lparr>st_ProfileID := pid, st_StartingBalance := lit 100000,
           st_PeakBalance := lit 100000, st_ConsistencyMult := 1, st_CurrentPhase := 1\<rparr>\<rparr>))"

definition Manager_ActiveProfile :: "manager \<Rightarrow> profile option" where
  "Manager_ActiveProfile m = mlookup (mg_profiles m) (mg_active m)"

definition Manager_ActiveID :: "manager \<Rightarrow> string" where
  "Manager_ActiveID m = mg_active m"

definition Manager_State :: "manager \<Rightarrow> pf_state" where
  "Manager_State m = mg_state m"

definition Manager_AllProfiles :: "manager \<Rightarrow> (string, profile) gomap" where
  "Manager_AllProfiles m = mg_profiles m"

definition Manager_RecordFill :: "manager \<Rightarrow> f64 \<Rightarrow> f64 \<Rightarrow> manager" where
  "Manager_RecordFill m pnl balance =
     (let s = mg_state m;
          s = s\<lparr>st_DailyPnL := st_DailyPnL s + pnl, st_CumulativePnL := st_CumulativePnL s + pnl\<rparr>;
          s = (if balance > st_PeakBalance s then s\<lparr>st_PeakBalance := balance\<rparr> else s);
          s = (if st_StartingBalance s > 0
               then s\<lparr>st_DailyPnLPct := st_DailyPnL s / st_StartingBalance s * lit 100\<rparr> else s)
      in m\<lparr>mg_state := s\<rparr>)"

definition Manager_CheckDailyLimits :: "manager \<Rightarrow> bool \<times> string" where
  "Manager_CheckDailyLimits m = (case Manager_ActiveProfile m of
       None \<Rightarrow> (True, '''')
     | Some p \<Rightarrow>
        (let s = mg_state m; currentBalance = st_StartingBalance s + st_DailyPnL s in
         if pf_MaxDailyLossPct p > 0
            \<and> DailyLossExceeded (st_StartingBalance s) currentBalance (pf_MaxDailyLossPct p)
         then (False, ''daily_loss_limit'')
         else if pf_MaxDrawdownPct p > 0
            \<and> DrawdownExceeded (st_PeakBalance s) currentBalance (pf_MaxDrawdownPct p)
         then (False, ''max_drawdown'')
         else if pf_ConsistencyEnabled p \<and> pf_ConsistencyThresholdPct p > 0
            \<and> ConsistencyBreached (st_DailyPnLPct s) (pf_ConsistencyThresholdPct p)
         then (False, ''consistency_outlier'')
         else (True, '''')))"

definition Manager_DailyReset :: "manager \<Rightarrow> manager" where
  "Manager_DailyReset m =
     (let p = Manager_ActiveProfile m; s = mg_state m;
          s = (case p of
                 Some p \<Rightarrow> if pf_ConsistencyEnabled p \<and> st_DailyPnLPct s > pf_ConsistencyThresholdPct p
                   then s\<lparr>st_ConsistencyMult := pf_ConsistencyPenalty p\<rparr>
                   else s\<lparr>st_ConsistencyMult := 1\<rparr>
               | None \<Rightarrow> s\<lparr>st_ConsistencyMult := 1\<rparr>);
          s = s\<lparr>st_DailyPnL := 0, st_DailyPnLPct := 0, st_TradingDays := st_TradingDays s + 1\<rparr>;
          s = (case p of
                 None \<Rightarrow> s
               | Some p \<Rightarrow>
                  (let target = (if st_CurrentPhase s = 2 then pf_ProfitTargetPctPhase2 p
                                 else pf_ProfitTargetPctPhase1 p);
                       totalReturn = st_CumulativePnL s / st_StartingBalance s * lit 100
                   in if totalReturn \<ge> target \<and> st_TradingDays s \<ge> pf_MinTradingDays p
                      then s\<lparr>st_PhaseTargetMet := True\<rparr> else s))
      in m\<lparr>mg_state := s\<rparr>)"

definition Manager_AdvancePhase :: "manager \<Rightarrow> manager" where
  "Manager_AdvancePhase m = (let s = mg_state m in
     m\<lparr>mg_state := s\<lparr>st_CurrentPhase := st_CurrentPhase s + 1, st_PhaseTargetMet := False,
        st_DailyPnL := 0, st_DailyPnLPct := 0, st_CumulativePnL := 0,
        st_PeakBalance := st_StartingBalance s, st_ConsistencyMult := 1\<rparr>\<rparr>)"

definition Manager_MarkViolated :: "manager \<Rightarrow> string \<Rightarrow> manager" where
  "Manager_MarkViolated m reason =
     m\<lparr>mg_state := (mg_state m)\<lparr>st_Violated := True, st_ViolationReason := reason\<rparr>\<rparr>"

definition Manager_IsHalted :: "manager \<Rightarrow> bool" where
  "Manager_IsHalted m \<longleftrightarrow> st_Violated (mg_state m)"

definition Manager_OnFill :: "manager \<Rightarrow> f64 \<Rightarrow> f64 \<Rightarrow> manager" where
  "Manager_OnFill m pnl balance = Manager_RecordFill m pnl balance"

definition Manager_OnNewDay :: "manager \<Rightarrow> manager" where
  "Manager_OnNewDay m = Manager_DailyReset m"

definition Manager_HaltReason :: "manager \<Rightarrow> string" where
  "Manager_HaltReason m = st_ViolationReason (mg_state m)"

definition Manager_CurrentPhase :: "manager \<Rightarrow> int" where
  "Manager_CurrentPhase m = st_CurrentPhase (mg_state m)"

definition Manager_ProfitTargetMet :: "manager \<Rightarrow> bool" where
  "Manager_ProfitTargetMet m \<longleftrightarrow> st_PhaseTargetMet (mg_state m)"

definition Manager_GetPositionSize :: "manager \<Rightarrow> f64 \<Rightarrow> f64" where
  "Manager_GetPositionSize m baseQuantity = (case Manager_ActiveProfile m of
       None \<Rightarrow> baseQuantity
     | Some p \<Rightarrow>
        if pf_MaxPositionPct p \<le> 0 then baseQuantity
        else
          (let capPct = pf_MaxPositionPct p / lit 100; s = mg_state m;
               maxSize = st_StartingBalance s * capPct * st_ConsistencyMult s
           in if baseQuantity \<le> 0 then 0
              else if baseQuantity > maxSize then maxSize
              else baseQuantity))"

section \<open>Pool state (pool\_base.go)\<close>

record pool_state =
  ps_TotalBalance :: f64
  ps_TotalPeakBalance :: f64
  ps_DailyPnL :: f64
  ps_DailyPnLPct :: f64
  ps_Halted :: bool
  ps_HaltReason :: string
  ps_TradingDays :: int

definition zero_pool_state :: pool_state where
  "zero_pool_state = \<lparr>ps_TotalBalance = 0, ps_TotalPeakBalance = 0, ps_DailyPnL = 0,
     ps_DailyPnLPct = 0, ps_Halted = False, ps_HaltReason = '''', ps_TradingDays = 0\<rparr>"

definition InitPoolState :: "pool_state \<Rightarrow> f64 \<Rightarrow> pool_state" where
  "InitPoolState s startingBalance = s\<lparr>ps_TotalBalance := startingBalance,
     ps_TotalPeakBalance := startingBalance, ps_Halted := False, ps_HaltReason := '''',
     ps_TradingDays := 0\<rparr>"

fun CountTotalOpen :: "(int \<times> int) list \<Rightarrow> int" where
  "CountTotalOpen [] = 0"
| "CountTotalOpen ((openLong, openShort) # strats) =
     openLong + openShort + CountTotalOpen strats"

definition CheckDailyLossHalt ::
  "pool_state \<Rightarrow> f64 \<Rightarrow> profile option \<Rightarrow> (bool \<times> string) \<times> pool_state" where
  "CheckDailyLossHalt s startingBalance prof = (case prof of
       None \<Rightarrow> ((ps_Halted s, ps_HaltReason s), s)
     | Some p \<Rightarrow>
        if ps_Halted s then ((ps_Halted s, ps_HaltReason s), s)
        else
          (let currentBalance = startingBalance + ps_DailyPnL s in
           if DailyLossExceeded startingBalance currentBalance (pf_MaxDailyLossPct p)
           then ((True, ''daily_loss_limit''),
                 s\<lparr>ps_Halted := True, ps_HaltReason := ''daily_loss_limit''\<rparr>)
           else ((False, ''''), s)))"

definition CheckDrawdownHalt ::
  "pool_state \<Rightarrow> profile option \<Rightarrow> (bool \<times> string) \<times> pool_state" where
  "CheckDrawdownHalt s prof = (case prof of
       None \<Rightarrow> ((ps_Halted s, ps_HaltReason s), s)
     | Some p \<Rightarrow>
        if ps_Halted s then ((ps_Halted s, ps_HaltReason s), s)
        else if pf_MaxDrawdownPct p \<le> 0 then ((False, ''''), s)
        else
          (let dd = DrawdownPct (ps_TotalPeakBalance s) (ps_TotalBalance s) in
           if dd > pf_MaxDrawdownPct p
           then ((True, ''max_drawdown''),
                 s\<lparr>ps_Halted := True, ps_HaltReason := ''max_drawdown''\<rparr>)
           else ((False, ''''), s)))"

definition UpdatePeakBalance :: "pool_state \<Rightarrow> pool_state" where
  "UpdatePeakBalance s =
     (if ps_TotalBalance s > ps_TotalPeakBalance s
      then s\<lparr>ps_TotalPeakBalance := ps_TotalBalance s\<rparr> else s)"

definition RecordPoolPnL :: "pool_state \<Rightarrow> f64 \<Rightarrow> f64 \<Rightarrow> pool_state" where
  "RecordPoolPnL s pnl startingBalance =
     (let s = s\<lparr>ps_TotalBalance := ps_TotalBalance s + pnl, ps_DailyPnL := ps_DailyPnL s + pnl\<rparr>;
          s = UpdatePeakBalance s
      in if startingBalance > 0
         then s\<lparr>ps_DailyPnLPct := ps_DailyPnL s / startingBalance * lit 100\<rparr> else s)"

definition ResetPoolDaily :: "pool_state \<Rightarrow> pool_state" where
  "ResetPoolDaily s = s\<lparr>ps_DailyPnL := 0, ps_DailyPnLPct := 0, ps_TradingDays := ps_TradingDays s + 1\<rparr>"

definition PerStratDrawdownCheck :: "f64 \<Rightarrow> f64 \<Rightarrow> profile option \<Rightarrow> bool" where
  "PerStratDrawdownCheck stratPeakBalance totalBalance prof = (case prof of
       None \<Rightarrow> False
     | Some p \<Rightarrow>
        (let maxStratDD = pf_MaxDrawdownPct p * lit (1/2) in
         if maxStratDD \<le> 0 then False
         else DrawdownPct stratPeakBalance totalBalance > maxStratDD))"

definition CorrelationMultiplier ::
  "string \<Rightarrow> string \<Rightarrow> (string, f64) gomap \<Rightarrow> (string, f64) gomap \<Rightarrow> f64" where
  "CorrelationMultiplier side symbol openLong openShort =
     (if side = ''BUY'' \<and> mget 0 openShort symbol > 0 then lit (1/2)
      else if side = ''SELL'' \<and> mget 0 openLong symbol > 0 then lit (1/2)
      else 1)"

section \<open>The rule formulas\<close>

lemma lit_100: "lit 100 = Fin 100"
  by (simp add: lit_numeral)

lemma DailyLossPct_mono:
  assumes "is_fin start" "0 < fval start" "b' \<le> b"
  shows "DailyLossPct start b' \<le> DailyLossPct start b"
proof -
  have "\<not> start \<le> 0" using assms(1,2) by (simp add: fin_le)
  then show ?thesis unfolding DailyLossPct_def
    using assms by (auto intro!: f64_mul_mono f64_div_mono f64_sub_mono simp: lit_100)
qed

lemma DrawdownPct_antimono:
  assumes "is_fin peak" "0 < fval peak" "b' \<le> b"
  shows "DrawdownPct peak b \<le> DrawdownPct peak b'"
proof -
  have "\<not> peak \<le> 0" using assms(1,2) by (simp add: fin_le)
  then show ?thesis unfolding DrawdownPct_def
    using assms by (auto intro!: f64_mul_mono f64_div_mono f64_sub_antimono simp: lit_100)
qed

text \<open>The two loss rules are monotone under rounding: once a balance breaches the daily
  loss or the drawdown limit, every lower balance breaches it too, so no rounding of the
  percentage can reopen trading while the account keeps losing.\<close>

theorem loss_rules_monotone:
  assumes "is_fin start" "0 < fval start" "is_fin peak" "0 < fval peak" "b' \<le> b"
  shows "(DailyLossExceeded start b limit \<longrightarrow> DailyLossExceeded start b' limit) \<and>
         (DrawdownExceeded peak b limit \<longrightarrow> DrawdownExceeded peak b' limit)"
  using DailyLossPct_mono[OF assms(1,2,5)] DrawdownPct_antimono[OF assms(3,4,5)]
  by (auto simp: DailyLossExceeded_def DrawdownExceeded_def
      intro: f64_le_trans f64_less_le_trans)

theorem loss_rules_monotone_witness:
  "DailyLossExceeded (lit 1000) (lit 950) (lit 5) \<and> DailyLossExceeded (lit 1000) (lit 940) (lit 5)
   \<and> \<not> DailyLossExceeded (lit 1000) (lit 951) (lit 5)"
proof -
  have p: "is_fin (lit 1000)" "0 < fval (lit 1000)" "lit 940 \<le> lit 950"
    by (simp_all add: lit_numeral fin_le)
  have b: "DailyLossExceeded (lit 1000) (lit 950) (lit 5)"
    by (simp add: DailyLossExceeded_def DailyLossPct_def f64_eval)
  moreover have "\<not> DailyLossExceeded (lit 1000) (lit 951) (lit 5)"
    by (simp add: DailyLossExceeded_def DailyLossPct_def f64_eval)
  ultimately show ?thesis
    using loss_rules_monotone[OF p(1,2) p(1,2) p(3), of "lit 5"] by blast
qed

section \<open>The pool state\<close>

text \<open>The operations the two pools perform on the shared pool state.\<close>

datatype pool_op =
    PoolPnL f64 f64
  | PoolDailyReset
  | PoolUpdatePeak
  | PoolCheckDaily f64 "profile option"
  | PoolCheckDrawdown "profile option"

fun pool_step :: "pool_state \<Rightarrow> pool_op \<Rightarrow> pool_state" where
  "pool_step s (PoolPnL pnl start) = RecordPoolPnL s pnl start"
| "pool_step s PoolDailyReset = ResetPoolDaily s"
| "pool_step s PoolUpdatePeak = UpdatePeakBalance s"
| "pool_step s (PoolCheckDaily start p) = snd (CheckDailyLossHalt s start p)"
| "pool_step s (PoolCheckDrawdown p) = snd (CheckDrawdownHalt s p)"

definition pool_run :: "pool_state \<Rightarrow> pool_op list \<Rightarrow> pool_state" where
  "pool_run s ops = foldl pool_step s ops"

lemmas pool_defs = RecordPoolPnL_def UpdatePeakBalance_def ResetPoolDaily_def
  CheckDailyLossHalt_def CheckDrawdownHalt_def Let_def

lemma pool_step_halted:
  "ps_Halted s \<Longrightarrow> ps_Halted (pool_step s x) \<and> ps_HaltReason (pool_step s x) = ps_HaltReason s"
  by (cases x) (auto simp: pool_defs split: option.splits)

lemma pool_step_peak_mono:
  "ps_TotalPeakBalance s \<noteq> FNaN \<Longrightarrow> ps_TotalPeakBalance s \<le> ps_TotalPeakBalance (pool_step s x)"
  by (cases x) (auto simp: pool_defs f64_less_imp_le split: option.splits)

text \<open>C21: A halt of the pool is final and keeps its first reason: no sequence of profit and
  loss, daily resets, peak updates and limit checks clears the flag or rewrites the reason.\<close>

theorem pool_halt_sticky:
  assumes "ps_Halted s"
  shows "ps_Halted (pool_run s ops) \<and> ps_HaltReason (pool_run s ops) = ps_HaltReason s"
  using assms
proof (induction ops arbitrary: s)
  case (Cons x ops)
  with pool_step_halted[OF Cons.prems, of x] show ?case by (simp add: pool_run_def)
qed (simp add: pool_run_def)

theorem pool_halt_sticky_witness:
  "ps_Halted (pool_run (zero_pool_state\<lparr>ps_Halted := True, ps_HaltReason := ''max_drawdown''\<rparr>)
     [PoolDailyReset, PoolPnL 1 1, PoolCheckDaily 1 (Some DefaultFTMOProfile)])"
  by (rule pool_halt_sticky [THEN conjunct1]) (simp add: zero_pool_state_def)

text \<open>The peak balance is the high-water mark of the balance: recording profit and loss
  never lowers it and leaves it at or above the new balance (unless the sum is NaN).\<close>

theorem RecordPoolPnL_high_water:
  assumes "ps_TotalPeakBalance s \<noteq> FNaN" "ps_TotalBalance s + pnl \<noteq> FNaN"
    and "s' = RecordPoolPnL s pnl start"
  shows "ps_TotalBalance s' = ps_TotalBalance s + pnl
    \<and> ps_TotalBalance s' \<le> ps_TotalPeakBalance s'
    \<and> ps_TotalPeakBalance s \<le> ps_TotalPeakBalance s'"
  using assms by (auto simp: pool_defs f64_not_less f64_less_imp_le)

theorem RecordPoolPnL_high_water_witness:
  "ps_TotalPeakBalance (RecordPoolPnL (InitPoolState zero_pool_state (lit 100)) (lit 5) (lit 100)) = lit 105"
proof -
  let ?s = "InitPoolState zero_pool_state (lit 100)"
  have h: "ps_TotalPeakBalance ?s \<noteq> FNaN" "ps_TotalBalance ?s + lit 5 \<noteq> FNaN"
    by (simp_all add: InitPoolState_def f64_eval)
  have "ps_TotalPeakBalance (RecordPoolPnL ?s (lit 5) (lit 100)) = lit 105"
    by (simp add: InitPoolState_def pool_defs f64_eval)
  with RecordPoolPnL_high_water[OF h refl, of "lit 100"] show ?thesis by blast
qed

section \<open>The manager\<close>

text \<open>What the methods of the manager do to the verdict of the account.\<close>

datatype manager_op =
    MgrFill f64 f64
  | MgrNewDay
  | MgrAdvance
  | MgrViolate string

fun manager_step :: "manager \<Rightarrow> manager_op \<Rightarrow> manager" where
  "manager_step m (MgrFill pnl balance) = Manager_OnFill m pnl balance"
| "manager_step m MgrNewDay = Manager_OnNewDay m"
| "manager_step m MgrAdvance = Manager_AdvancePhase m"
| "manager_step m (MgrViolate r) = Manager_MarkViolated m r"

lemmas manager_defs = Manager_OnFill_def Manager_RecordFill_def Manager_OnNewDay_def
  Manager_DailyReset_def Manager_AdvancePhase_def Manager_MarkViolated_def Let_def

lemma manager_step_violated:
  "Manager_IsHalted m \<Longrightarrow> Manager_IsHalted (manager_step m x)"
  by (cases x) (auto simp: manager_defs Manager_IsHalted_def split: option.splits)

lemma Manager_GetPositionSize_le:
  "0 \<le> q \<Longrightarrow> Manager_GetPositionSize m q \<le> q"
  by (auto simp: Manager_GetPositionSize_def Let_def f64_less_imp_le split: option.splits)

text \<open>A violated account stays violated through every fill, day change, phase change and
  further violation; only activating a profile anew resets it.\<close>

theorem manager_violation_final:
  assumes "Manager_IsHalted m"
  shows "Manager_IsHalted (foldl manager_step m ops)"
  using assms by (induction ops arbitrary: m) (simp_all add: manager_step_violated)

theorem manager_violation_final_witness:
  "Manager_IsHalted (foldl manager_step (Manager_MarkViolated NewManager ''daily_loss_limit'')
     [MgrNewDay, MgrAdvance, MgrFill 1 1])"
  by (rule manager_violation_final) (simp add: Manager_MarkViolated_def Manager_IsHalted_def)

text \<open>The daily check of the manager passes only on an account inside all three limits,
  and reports the first breached limit in the order daily loss, drawdown, consistency.\<close>

theorem Manager_CheckDailyLimits_spec:
  assumes "Manager_ActiveProfile m = Some p"
    and "s = mg_state m" "b = st_StartingBalance s + st_DailyPnL s"
    and "daily = (0 < pf_MaxDailyLossPct p \<and> DailyLossPct (st_StartingBalance s) b \<le> - pf_MaxDailyLossPct p)"
    and "dd = (0 < pf_MaxDrawdownPct p \<and> pf_MaxDrawdownPct p < DrawdownPct (st_PeakBalance s) b)"
    and "cons = (pf_ConsistencyEnabled p \<and> 0 < pf_ConsistencyThresholdPct p
           \<and> pf_ConsistencyThresholdPct p < st_DailyPnLPct s)"
  shows "(Manager_CheckDailyLimits m = (True, '''') \<longleftrightarrow> \<not> daily \<and> \<not> dd \<and> \<not> cons)
    \<and> (Manager_CheckDailyLimits m = (False, ''daily_loss_limit'') \<longleftrightarrow> daily)
    \<and> (Manager_CheckDailyLimits m = (False, ''max_drawdown'') \<longleftrightarrow> \<not> daily \<and> dd)
    \<and> (Manager_CheckDailyLimits m = (False, ''consistency_outlier'') \<longleftrightarrow> \<not> daily \<and> \<not> dd \<and> cons)"
  using assms by (auto simp: Manager_CheckDailyLimits_def Let_def DailyLossExceeded_def
      DrawdownExceeded_def ConsistencyBreached_def)

definition ftmo_manager :: "f64 \<Rightarrow> manager" where
  "ftmo_manager pnl = Manager_OnFill (snd (Manager_ActivateProfile
     (NewManager\<lparr>mg_profiles := [(''ftmo'', DefaultFTMOProfile)]\<rparr>) ''ftmo'')) pnl (lit 100000 + pnl)"

theorem Manager_CheckDailyLimits_spec_witness:
  "Manager_CheckDailyLimits (ftmo_manager (- lit 5000)) = (False, ''daily_loss_limit'')
   \<and> Manager_CheckDailyLimits (ftmo_manager (- lit 4999)) = (True, '''')"
proof -
  have d: "Manager_ActiveProfile (ftmo_manager x) = Some DefaultFTMOProfile" for x
    by (simp add: ftmo_manager_def manager_defs Manager_ActiveProfile_def Manager_ActivateProfile_def)
  note spec = Manager_CheckDailyLimits_spec[OF d refl refl refl refl refl]
  note ev = ftmo_manager_def manager_defs Manager_ActivateProfile_def zero_pf_state_def
    DefaultFTMOProfile_def DailyLossPct_def DrawdownPct_def f64_eval
  show ?thesis
    unfolding spec[of "- lit 5000", THEN conjunct2, THEN conjunct1]
      spec[of "- lit 4999", THEN conjunct1]
    by (intro conjI) (simp_all add: ev)
qed

text \<open>\<open>AdvancePhase\<close> of the live manager keeps the trading day counter of the finished
  phase: in phase two the minimum number of trading days is already served, and the target
  counts as met after a single day that earns it (the backtest enforcer resets the counter).\<close>

theorem Manager_phase_two_in_one_day:
  assumes "Manager_ActiveProfile m = Some p" "st_CurrentPhase (mg_state m) = 1"
    and "pf_MinTradingDays p \<le> st_TradingDays (mg_state m) + 1"
    and "pf_ProfitTargetPctPhase2 p \<le> (0 + pnl) / st_StartingBalance (mg_state m) * lit 100"
  shows "Manager_ProfitTargetMet (Manager_OnNewDay (Manager_OnFill (Manager_AdvancePhase m) pnl bal))"
  using assms by (simp add: manager_defs Manager_ProfitTargetMet_def Manager_ActiveProfile_def)

theorem Manager_phase_two_in_one_day_witness:
  "Manager_ProfitTargetMet (Manager_OnNewDay (Manager_OnFill (Manager_AdvancePhase
     ((ftmo_manager 0)\<lparr>mg_state := (mg_state (ftmo_manager 0))\<lparr>st_TradingDays := 4\<rparr>\<rparr>)) (lit 5000) (lit 105000)))"
  by (rule Manager_phase_two_in_one_day[where p = DefaultFTMOProfile])
    (simp_all add: ftmo_manager_def manager_defs Manager_ActiveProfile_def Manager_ActivateProfile_def
      zero_pf_state_def DefaultFTMOProfile_def f64_eval)

section \<open>The live manager as a prop firm gate\<close>

definition Manager_gate :: "manager PropFirmGate" where
  "Manager_gate = \<lparr>pg_CheckDailyLimits = (\<lambda>m. (Manager_CheckDailyLimits m, m)),
     pg_OnFill = Manager_OnFill, pg_OnNewDay = Manager_OnNewDay, pg_IsHalted = Manager_IsHalted,
     pg_HaltReason = Manager_HaltReason, pg_MarkViolated = Manager_MarkViolated,
     pg_CurrentPhase = Manager_CurrentPhase, pg_ProfitTargetMet = Manager_ProfitTargetMet,
     pg_GetPositionSize = Manager_GetPositionSize, pg_SoftHalt = None,
     pg_SoftHaltMultiplier = (\<lambda>_. 1)\<rparr>"

lemma Manager_GetPositionSize_ok: "f64_ok q \<Longrightarrow> f64_ok (Manager_GetPositionSize m q)"
  by (auto simp: Manager_GetPositionSize_def Let_def split: option.splits)

interpretation live_manager: propfirm_gate Manager_gate "\<lambda>_. True"
  by unfold_locales
    (simp_all add: Manager_gate_def Manager_GetPositionSize_le fin_nonneg_ge0
      Manager_GetPositionSize_ok Manager_IsHalted_def Manager_MarkViolated_def,
     simp add: fin_nonneg_def Manager_GetPositionSize_ok)

end
