(* ===== verification/Price.thy ===== *)
theory Price
  imports FloatEval
begin

text \<open>
  The fixed point price of \<open>internal/types/price.go\<close>: a Go \<open>int64\<close> counting
  1/100000 of the currency unit. A price is an integer in the \<open>int64\<close> range and
  every integer operation of the source is followed by its wrap-around.
  Formatting (\<open>String\<close>, \<open>MarshalJSON\<close>) and parsing (\<open>UnmarshalJSON\<close>), which only
  call the formatter and \<open>strconv\<close>, are not modelled.
\<close>

type_synonym price = int

definition PriceScaleFactor :: int where
  "PriceScaleFactor = 100000"

definition FromFloat64 :: "f64 \<Rightarrow> price" where
  "FromFloat64 f = int64_of_float (math_round (f * float_of_int PriceScaleFactor))"

definition PriceFromFloat :: "f64 \<Rightarrow> price" where
  "PriceFromFloat f = FromFloat64 f"

definition ToFloat64 :: "price \<Rightarrow> f64" where
  "ToFloat64 p = float_of_int p / float_of_int PriceScaleFactor"

definition Price_Float64 :: "price \<Rightarrow> f64" where
  "Price_Float64 p = ToFloat64 p"

definition Price_IsZero :: "price \<Rightarrow> bool" where
  "Price_IsZero p \<longleftrightarrow> p = 0"

definition Price_Add :: "price \<Rightarrow> price \<Rightarrow> price" where
  "Price_Add p other = wrap64 (p + other)"

definition Price_Sub :: "price \<Rightarrow> price \<Rightarrow> price" where
  "Price_Sub p other = wrap64 (p - other)"

definition Price_MulRational :: "price \<Rightarrow> int \<Rightarrow> int \<Rightarrow> price" where
  "Price_MulRational p num den =
     (if den = 0 then 0 else wrap64 (go_div (wrap64 (p * num)) den))"

definition Price_MulFloat :: "price \<Rightarrow> f64 \<Rightarrow> price" where
  "Price_MulFloat p factor = int64_of_float (math_round (float_of_int p * factor))"

definition Price_DivFloat :: "price \<Rightarrow> f64 \<Rightarrow> price" where
  "Price_DivFloat p factor =
     (if feq factor 0 then 0 else int64_of_float (math_round (float_of_int p / factor)))"

definition Price_Mul :: "price \<Rightarrow> f64 \<Rightarrow> price" where
  "Price_Mul p factor = int64_of_float (math_round (float_of_int p * factor))"

definition Price_Div :: "price \<Rightarrow> f64 \<Rightarrow> price" where
  "Price_Div p factor =
     (if feq factor 0 then 0 else int64_of_float (math_round (float_of_int p / factor)))"

definition MinPrice :: "price \<Rightarrow> price \<Rightarrow> price" where
  "MinPrice a b = (if a < b then a else b)"

definition MaxPrice :: "price \<Rightarrow> price \<Rightarrow> price" where
  "MaxPrice a b = (if a > b then a else b)"

definition Price_Compare :: "price \<Rightarrow> price \<Rightarrow> int" where
  "Price_Compare p other = (if p < other then - 1 else if p > other then 1 else 0)"

definition Price_MulInt :: "price \<Rightarrow> int \<Rightarrow> price" where
  "Price_MulInt p qty = go_div (wrap64 (p * qty)) PriceScaleFactor"

definition Price_SpreadBps :: "price \<Rightarrow> f64 \<Rightarrow> price" where
  "Price_SpreadBps p bps = PriceFromFloat (Price_Float64 p * (1 + bps / lit 10000))"

definition PnLFromPrices :: "price \<Rightarrow> price \<Rightarrow> f64 \<Rightarrow> string \<Rightarrow> f64" where
  "PnLFromPrices entry exit qty side =
     (if side = ''BUY'' then (Price_Float64 exit - Price_Float64 entry) * qty
      else (Price_Float64 entry - Price_Float64 exit) * qty)"

definition Notional :: "price \<Rightarrow> f64 \<Rightarrow> f64" where
  "Notional price qty = Price_Float64 price * qty"

section \<open>Integer operations\<close>

lemma is_int64_Add [simp]: "is_int64 (Price_Add p q)"
  by (simp add: Price_Add_def)

lemma Price_Add_assoc: "Price_Add (Price_Add p q) r = Price_Add p (Price_Add q r)"
  by (simp add: Price_Add_def wrap64_add_left wrap64_add_right add.assoc)

text \<open>Subtraction undoes addition on every price, also when the sum wraps around.\<close>

theorem Price_Sub_Add:
  assumes "is_int64 p"
  shows "Price_Sub (Price_Add p q) q = p"
  using assms by (simp add: Price_Add_def Price_Sub_def wrap64_diff_left)

theorem Price_Sub_Add_witness:
  "Price_Sub (Price_Add (2 ^ 63 - 1) 5) 5 = 2 ^ 63 - 1 \<and> Price_Add (2 ^ 63 - 1) 5 < 0"
  using Price_Sub_Add[of "2 ^ 63 - 1" 5] by (simp add: is_int64_def Price_Add_def wrap64_def)

section \<open>Conversions\<close>

lemma nearest_int:
  fixes q :: rat
  assumes "of_int p - 1/2 < q" "q < of_int p + 1/2"
  shows "\<lfloor>\<bar>q\<bar> + 1/2\<rfloor> = \<bar>p\<bar>" and "p \<noteq> 0 \<Longrightarrow> q < 0 \<longleftrightarrow> p < 0"
proof -
  consider "p = 0" | "1 \<le> p" | "p \<le> -1" by linarith
  then show "\<lfloor>\<bar>q\<bar> + 1/2\<rfloor> = \<bar>p\<bar>"
  proof cases
    case 1 with assms show ?thesis by (auto simp: floor_eq_iff abs_if)
  next
    case 2
    then have "1 \<le> rat_of_int p" by simp
    with assms have "0 < q" by linarith
    with assms 2 show ?thesis by (simp add: floor_eq_iff)
  next
    case 3
    then have "rat_of_int p \<le> -1" by simp
    with assms have "q < 0" by linarith
    with assms 3 show ?thesis by (simp add: floor_eq_iff)
  qed
  assume "p \<noteq> 0"
  then consider "1 \<le> rat_of_int p" "0 < p" | "rat_of_int p \<le> -1" "p < 0" by fastforce
  then show "q < 0 \<longleftrightarrow> p < 0" by cases (use assms in linarith)+
qed

lemma int64_of_round_near:
  assumes "is_int64 p" "is_fin a" "of_int p - 1/2 < fval a" "fval a < of_int p + 1/2"
  shows "int64_of_float (math_round a) = p"
  using assms(2)
proof (rule is_finE)
  fix q assume a: "a = Fin q"
  note n = nearest_int[of p q]
  show ?thesis using n assms a
    by (cases "p < 0"; cases "p = 0")
      (auto simp: math_round_def fzero_def Let_def int64_of_float_def)
next
  assume a: "a = FNegZero"
  with assms(3,4) have "p = 0" by (simp add: less_minus_iff)
  with a show ?thesis by (simp add: math_round_def int64_of_float_def)
qed

lemma scale_round_trip:
  fixes p :: rat
  assumes p: "1 \<le> p" "p \<le> 2 ^ 50"
  defines "X \<equiv> rnd_pos (p / 100000)"
  shows "rnd (p / 100000) = Fin X" "0 < X" "rnd (X * 100000) = Fin (rnd_pos (X * 100000))"
    "p - 1/2 < rnd_pos (X * 100000)" "rnd_pos (X * 100000) < p + 1/2"
proof -
  define x y where "x = p / 100000" and "y = X * 100000"
  have vals: "pow2 (-20) = 1 / 2 ^ 20" "pow2 60 = 2 ^ 60" "pow2 (-53) = 1 / 2 ^ 53"
    by (simp_all add: pow2_numeral)
  have tiny: "pow2 (-1022) \<le> 1 / 2 ^ 20" and large: "2 ^ 60 \<le> pow2 1000"
    unfolding vals[symmetric] by simp_all
  have xb: "1 / 100000 \<le> x" "x \<le> 2 ^ 50" using p by (simp_all add: x_def)
  then have "pow2 (-1022) \<le> x" using tiny by simp
  then have eX: "\<bar>X - x\<bar> \<le> x * (1 / 2 ^ 53)"
    using rnd_pos_error[of x] by (simp add: X_def x_def vals)
  then have X: "x * (1 - 1 / 2 ^ 53) \<le> X" "X \<le> x * (1 + 1 / 2 ^ 53)"
    by (simp_all only: abs_le_iff) (simp_all add: algebra_simps)
  show "0 < X" using X(1) xb(1) by simp
  have y: "p * (1 - 1 / 2 ^ 53) \<le> y" "y \<le> p * (1 + 1 / 2 ^ 53)"
    using X unfolding x_def y_def by simp_all
  then have yb: "1 / 2 \<le> y" "y \<le> 2 ^ 51" using p by simp_all
  then have "pow2 (-1022) \<le> y" using tiny by simp
  then have "\<bar>rnd_pos y - y\<bar> \<le> y * (1 / 2 ^ 53)"
    using rnd_pos_error[of y] by (simp add: vals)
  then have "y * (1 - 1 / 2 ^ 53) \<le> rnd_pos y" "rnd_pos y \<le> y * (1 + 1 / 2 ^ 53)"
    by (simp_all only: abs_le_iff) (simp_all add: algebra_simps)
  with y p show "p - 1/2 < rnd_pos (X * 100000)" "rnd_pos (X * 100000) < p + 1/2"
    unfolding y_def[symmetric] by simp_all
  show "rnd (p / 100000) = Fin X"
    using xb large unfolding X_def x_def by (intro rnd_eq_rnd_pos) simp_all
  show "rnd (X * 100000) = Fin (rnd_pos (X * 100000))"
    using yb large unfolding y_def[symmetric] by (intro rnd_eq_rnd_pos) simp_all
qed

lemma PriceScale_float: "float_of_int PriceScaleFactor = Fin 100000"
  by (simp add: PriceScaleFactor_def float_of_int_exact)

lemma ToFloat64_rnd: "\<bar>p\<bar> \<le> 2 ^ 53 \<Longrightarrow> p \<noteq> 0 \<Longrightarrow> ToFloat64 p = rnd (of_int p / 100000)"
  by (simp add: ToFloat64_def PriceScale_float float_of_int_exact divide_f64_def
      is_inf_def is_zero_def)

lemma rnd_signed:
  assumes "rnd x = Fin r" "0 < x" "0 < r"
  shows "rnd (if neg then - x else x) = Fin (if neg then - r else r)"
  using assms by (auto simp: rnd_minus uminus_f64_def)

text \<open>C40: converting a price to \<open>float64\<close> and back returns the same price, for every price
  of magnitude up to 2^50 raw units (about 11 billion currency units): the conversion at the
  I/O boundaries that the migration comment of the type describes loses nothing there.\<close>

theorem FromFloat64_ToFloat64:
  assumes "\<bar>p\<bar> \<le> 2 ^ 50"
  shows "FromFloat64 (ToFloat64 p) = p"
proof (cases "p = 0")
  case True
  then have "ToFloat64 p = Fin 0"
    by (simp add: ToFloat64_def PriceScaleFactor_def f64_eval)
  then show ?thesis
    by (simp add: FromFloat64_def PriceScaleFactor_def True f64_eval int64_of_float_def is_int64_def)
next
  case False
  have "1 \<le> rat_of_int \<bar>p\<bar>" using False by simp
  moreover have "rat_of_int \<bar>p\<bar> \<le> of_int (2 ^ 50)" using assms by (simp only: of_int_le_iff)
  ultimately have q: "1 \<le> rat_of_int \<bar>p\<bar>" "rat_of_int \<bar>p\<bar> \<le> 2 ^ 50" by simp_all
  define X where "X = rnd_pos (rat_of_int \<bar>p\<bar> / 100000)"
  define Y where "Y = rnd_pos (X * 100000)"
  have s: "rnd (rat_of_int \<bar>p\<bar> / 100000) = Fin X" "0 < X" "rnd (X * 100000) = Fin Y"
    "rat_of_int \<bar>p\<bar> - 1/2 < Y" "Y < rat_of_int \<bar>p\<bar> + 1/2"
    unfolding X_def Y_def by (rule scale_round_trip[OF q])+
  have "ToFloat64 p = rnd (if p < 0 then - (rat_of_int \<bar>p\<bar> / 100000) else rat_of_int \<bar>p\<bar> / 100000)"
    using assms False by (simp add: ToFloat64_rnd abs_if)
  also have "\<dots> = Fin (if p < 0 then - X else X)"
    using s(1,2) q(1) by (intro rnd_signed) simp_all
  finally have a: "ToFloat64 p = Fin (if p < 0 then - X else X)" .
  have "rnd (if p < 0 then - (X * 100000) else X * 100000) = Fin (if p < 0 then - Y else Y)"
    using s(2-4) q(1) by (intro rnd_signed) simp_all
  then have "feqv (ToFloat64 p * float_of_int PriceScaleFactor) (Fin (if p < 0 then - Y else Y))"
    using mul_feqv[of "ToFloat64 p" "float_of_int PriceScaleFactor"]
    by (auto simp: a PriceScale_float split: if_splits)
  then have "is_fin (ToFloat64 p * float_of_int PriceScaleFactor)"
    and "fval (ToFloat64 p * float_of_int PriceScaleFactor) = (if p < 0 then - Y else Y)"
    by (simp_all add: feqv_is_fin feqv_fval)
  with s(4,5) assms show ?thesis unfolding FromFloat64_def
    by (intro int64_of_round_near) (auto simp: is_int64_def abs_if split: if_splits)
qed

theorem FromFloat64_ToFloat64_witness: "FromFloat64 (ToFloat64 (- 123456789)) = - 123456789"
  using FromFloat64_ToFloat64[of "- 123456789"] by simp

end
