(* ===== verification/Controls.thy ===== *)
theory Controls
  imports Price
begin

text \<open>
  The trading controls of \<open>internal/risk/trading_controls.go\<close>: the sliding window order
  rate limiter, the volatility halt and the exposure tracker. \<open>time.Now()\<close> is an
  argument, in nanoseconds. Every method holds the receiver's mutex for its whole
  body, so it is one function of the state.
\<close>

section \<open>OrderRateLimiter\<close>

record OrderRateLimiter =
  rl_maxPerSec :: f64
  rl_windowSize :: int
  rl_orders :: "(string, int list) gomap"

definition NewOrderRateLimiter :: "f64 \<Rightarrow> OrderRateLimiter" where
  "NewOrderRateLimiter maxPerSec =
     \<lparr>rl_maxPerSec = maxPerSec, rl_windowSize = 1000000000, rl_orders = []\<rparr>"

definition OrderRateLimiter_Allow :: "OrderRateLimiter \<Rightarrow> string \<Rightarrow> int \<Rightarrow> bool \<times> OrderRateLimiter" where
  "OrderRateLimiter_Allow l key now =
     (let cutoff = now - rl_windowSize l;
          keep = filter (\<lambda>t. t > cutoff) (mget [] (rl_orders l) key);
          l = l\<lparr>rl_orders := mput (rl_orders l) key keep\<rparr>
      in if float_of_int (int (length keep)) \<ge> rl_maxPerSec l then (False, l)
         else (True, l\<lparr>rl_orders := mput (rl_orders l) key (keep @ [now])\<rparr>))"

definition OrderRateLimiter_Reset :: "OrderRateLimiter \<Rightarrow> OrderRateLimiter" where
  "OrderRateLimiter_Reset l = l\<lparr>rl_orders := []\<rparr>"

section \<open>VolatilityHalt\<close>

record VolatilityHalt =
  vh_returns :: "f64 list"
  vh_maxHistory :: nat
  vh_zThreshold :: f64
  vh_isHalted :: bool
  vh_haltReason :: string

definition NewVolatilityHalt :: "f64 \<Rightarrow> VolatilityHalt" where
  "NewVolatilityHalt zThreshold = \<lparr>vh_returns = [], vh_maxHistory = 252, vh_zThreshold = zThreshold,
     vh_isHalted = False, vh_haltReason = ''''\<rparr>"

text \<open>The loop of \<open>Update\<close> from the newest return to the oldest; \<open>0\<close> when all are zero.\<close>

fun prev_price :: "f64 \<Rightarrow> f64 list \<Rightarrow> f64" where
  "prev_price priceF [] = 0"
| "prev_price priceF (r # newest_first) =
     (if \<not> feq r 0 then priceF / (1 + r) else prev_price priceF newest_first)"

definition vh_trim :: "VolatilityHalt \<Rightarrow> VolatilityHalt" where
  "vh_trim v = (if length (vh_returns v) > vh_maxHistory v
     then v\<lparr>vh_returns := drop (length (vh_returns v) - vh_maxHistory v) (vh_returns v)\<rparr> else v)"

text \<open>
  The z-score of the newest return, as both methods compute it: \<open>None\<close> with fewer than
  ten returns or when the deviation is not positive.
\<close>

definition vh_zscore :: "f64 list \<Rightarrow> f64 option" where
  "vh_zscore rs = (if length rs < 10 then None else
     let n = length rs;
         mean = foldl (\<lambda>m r. m + r) 0 rs / float_of_int (int n);
         variance = foldl (\<lambda>s r. let diff = r - mean in s + diff * diff) 0 rs
           / float_of_int (int n - 1);
         std = math_sqrt variance
     in if std > 0 then Some ((last rs - mean) / std) else None)"

definition VolatilityHalt_Update :: "VolatilityHalt \<Rightarrow> price \<Rightarrow> VolatilityHalt" where
  "VolatilityHalt_Update v price =
     (let priceF = Price_Float64 price;
          v = (if length (vh_returns v) \<ge> 2 then
                 let prevPrice = prev_price priceF (rev (vh_returns v)) in
                 if prevPrice > 0
                 then v\<lparr>vh_returns := vh_returns v @ [(priceF - prevPrice) / prevPrice]\<rparr> else v
               else v);
          v = vh_trim v
      in case vh_zscore (vh_returns v) of None \<Rightarrow> v
         | Some z \<Rightarrow> if \<bar>z\<bar> > vh_zThreshold v
             then v\<lparr>vh_isHalted := True, vh_haltReason := ''volatility_z''\<rparr> else v)"

definition VolatilityHalt_UpdateReturn :: "VolatilityHalt \<Rightarrow> f64 \<Rightarrow> VolatilityHalt" where
  "VolatilityHalt_UpdateReturn v ret =
     (let v = vh_trim (v\<lparr>vh_returns := vh_returns v @ [ret]\<rparr>)
      in case vh_zscore (vh_returns v) of None \<Rightarrow> v
         | Some z \<Rightarrow> if \<bar>z\<bar> > vh_zThreshold v
             then v\<lparr>vh_isHalted := True, vh_haltReason := ''volatility_z''\<rparr>
             else v\<lparr>vh_isHalted := False, vh_haltReason := ''''\<rparr>)"

definition VolatilityHalt_IsHalted :: "VolatilityHalt \<Rightarrow> bool" where
  "VolatilityHalt_IsHalted v = vh_isHalted v"

definition VolatilityHalt_HaltReason :: "VolatilityHalt \<Rightarrow> string" where
  "VolatilityHalt_HaltReason v = vh_haltReason v"

definition VolatilityHalt_Reset :: "VolatilityHalt \<Rightarrow> VolatilityHalt" where
  "VolatilityHalt_Reset v = v\<lparr>vh_returns := [], vh_isHalted := False, vh_haltReason := ''''\<rparr>"

section \<open>ExposureTracker\<close>

record ExposureTracker =
  ex_totalLong :: f64
  ex_totalShort :: f64
  ex_symbolLong :: "(string, f64) gomap"
  ex_symbolShort :: "(string, f64) gomap"
  ex_maxLeverage :: f64
  ex_maxSymbolGross :: f64
  ex_equity :: f64

definition NewExposureTracker :: "f64 \<Rightarrow> f64 \<Rightarrow> ExposureTracker" where
  "NewExposureTracker maxLeverage maxSymbolGross = \<lparr>ex_totalLong = 0, ex_totalShort = 0,
     ex_symbolLong = [], ex_symbolShort = [], ex_maxLeverage = maxLeverage,
     ex_maxSymbolGross = maxSymbolGross, ex_equity = 0\<rparr>"

definition ExposureTracker_SetEquity :: "ExposureTracker \<Rightarrow> f64 \<Rightarrow> ExposureTracker" where
  "ExposureTracker_SetEquity e equity = e\<lparr>ex_equity := equity\<rparr>"

definition ExposureTracker_CheckOrder ::
  "ExposureTracker \<Rightarrow> string \<Rightarrow> string \<Rightarrow> f64 \<Rightarrow> bool \<times> string" where
  "ExposureTracker_CheckOrder e symbol side notional =
     (if ex_equity e \<le> 0 then (False, ''equity_negative'') else
      let currentLong = ex_totalLong e; currentShort = ex_totalShort e;
          symLong = mget 0 (ex_symbolLong e) symbol; symShort = mget 0 (ex_symbolShort e) symbol;
          (currentLong, symLong, currentShort, symShort) =
            (if side = ''BUY'' then (currentLong + notional, symLong + notional, currentShort, symShort)
             else (currentLong, symLong, currentShort + notional, symShort + notional));
          grossExposure = currentLong + currentShort
      in if ex_maxLeverage e > 0 \<and> grossExposure / ex_equity e > ex_maxLeverage e
         then (False, ''max_leverage'')
         else if ex_maxSymbolGross e > 0 \<and> (symLong + symShort) / ex_equity e > ex_maxSymbolGross e
         then (False, ''max_symbol_gross_exposure'')
         else (True, ''''))"

definition ExposureTracker_AddPosition ::
  "ExposureTracker \<Rightarrow> string \<Rightarrow> string \<Rightarrow> f64 \<Rightarrow> ExposureTracker" where
  "ExposureTracker_AddPosition e symbol side notional =
     (if side = ''BUY''
      then e\<lparr>ex_totalLong := ex_totalLong e + notional,
             ex_symbolLong := mput (ex_symbolLong e) symbol (mget 0 (ex_symbolLong e) symbol + notional)\<rparr>
      else e\<lparr>ex_totalShort := ex_totalShort e + notional,
             ex_symbolShort := mput (ex_symbolShort e) symbol (mget 0 (ex_symbolShort e) symbol + notional)\<rparr>)"

definition clamp_neg :: "f64 \<Rightarrow> f64" where
  "clamp_neg x = (if x < 0 then 0 else x)"

definition ExposureTracker_RemovePosition ::
  "ExposureTracker \<Rightarrow> string \<Rightarrow> string \<Rightarrow> f64 \<Rightarrow> ExposureTracker" where
  "ExposureTracker_RemovePosition e symbol side notional =
     (if side = ''BUY''
      then e\<lparr>ex_totalLong := ex_totalLong e - notional,
             ex_symbolLong := mput (ex_symbolLong e) symbol
               (clamp_neg (mget 0 (ex_symbolLong e) symbol - notional))\<rparr>
      else e\<lparr>ex_totalShort := ex_totalShort e - notional,
             ex_symbolShort := mput (ex_symbolShort e) symbol
               (clamp_neg (mget 0 (ex_symbolShort e) symbol - notional))\<rparr>)"

definition ExposureTracker_GrossExposure :: "ExposureTracker \<Rightarrow> f64" where
  "ExposureTracker_GrossExposure e = ex_totalLong e + ex_totalShort e"

section \<open>The limiter is a sliding window\<close>

text \<open>The accepted orders of a run, and a reference that keeps the whole history.\<close>

fun limiter_run :: "OrderRateLimiter \<Rightarrow> (string \<times> int) list \<Rightarrow> (string \<times> int) list" where
  "limiter_run l [] = []"
| "limiter_run l ((key, now) # evs) = (let (ok, l') = OrderRateLimiter_Allow l key now
     in if ok then (key, now) # limiter_run l' evs else limiter_run l' evs)"

definition in_window :: "int \<Rightarrow> string \<Rightarrow> int \<Rightarrow> (string \<times> int) list \<Rightarrow> nat" where
  "in_window w key now hist = length (filter (\<lambda>p. fst p = key \<and> snd p > now - w) hist)"

fun reference_run :: "f64 \<Rightarrow> int \<Rightarrow> (string \<times> int) list \<Rightarrow> (string \<times> int) list \<Rightarrow> (string \<times> int) list" where
  "reference_run n w hist [] = []"
| "reference_run n w hist ((key, now) # evs) =
     (if float_of_int (int (in_window w key now hist)) \<ge> n then reference_run n w hist evs
      else (key, now) # reference_run n w (hist @ [(key, now)]) evs)"

definition limiter_refines :: "OrderRateLimiter \<Rightarrow> (string \<times> int) list \<Rightarrow> int \<Rightarrow> bool" where
  "limiter_refines l hist c \<longleftrightarrow> (\<forall>key c'. c \<le> c' \<longrightarrow>
     filter (\<lambda>t. t > c') (mget [] (rl_orders l) key) =
     map snd (filter (\<lambda>p. fst p = key \<and> snd p > c') hist))"

lemma filter_above: "(c :: int) \<le> c' \<Longrightarrow> filter (\<lambda>t. t > c') (filter (\<lambda>t. t > c) ts) = filter (\<lambda>t. t > c') ts"
  by (induction ts) auto

lemma Allow_refines:
  assumes "limiter_refines l hist c" "c \<le> now - rl_windowSize l"
  shows "OrderRateLimiter_Allow l key now = (ok, l') \<Longrightarrow>
    ok = (\<not> float_of_int (int (in_window (rl_windowSize l) key now hist)) \<ge> rl_maxPerSec l) \<and>
    limiter_refines l' (if ok then hist @ [(key, now)] else hist) (now - rl_windowSize l) \<and>
    rl_windowSize l' = rl_windowSize l \<and> rl_maxPerSec l' = rl_maxPerSec l"
proof -
  assume a: "OrderRateLimiter_Allow l key now = (ok, l')"
  define keep where "keep = filter (\<lambda>t. t > now - rl_windowSize l) (mget [] (rl_orders l) key)"
  have "length keep = in_window (rl_windowSize l) key now hist"
    using assms by (simp add: keep_def limiter_refines_def in_window_def)
  moreover have "filter (\<lambda>t. t > c') keep = map snd (filter (\<lambda>p. fst p = key \<and> snd p > c') hist)"
    if "now - rl_windowSize l \<le> c'" for c'
    using that assms filter_above[OF that, of "mget [] (rl_orders l) key"]
    by (simp add: keep_def limiter_refines_def del: filter_filter)
  moreover have "limiter_refines l hist (now - rl_windowSize l)"
    using assms by (auto simp: limiter_refines_def)
  ultimately show ?thesis
    using a by (auto simp: OrderRateLimiter_Allow_def Let_def limiter_refines_def simp flip: keep_def
        split: if_splits)
qed

lemma limiter_refines_New [simp]: "limiter_refines (NewOrderRateLimiter n) [] c"
  by (simp add: limiter_refines_def NewOrderRateLimiter_def)

lemma sorted_hd_le: "sorted (map snd evs) \<Longrightarrow> \<forall>e\<in>set evs. snd (hd evs) \<le> (snd e :: int)"
  by (cases evs) auto

lemma limiter_run_refines:
  assumes "limiter_refines l hist c" "sorted (map snd evs)" "\<forall>e\<in>set evs. c \<le> snd e - rl_windowSize l"
  shows "limiter_run l evs = reference_run (rl_maxPerSec l) (rl_windowSize l) hist evs"
  using assms
proof (induction evs arbitrary: l hist c)
  case (Cons e evs)
  obtain key now where e: "e = (key, now)" by force
  obtain ok l' where a: "OrderRateLimiter_Allow l key now = (ok, l')" by force
  note r = Allow_refines[OF Cons.prems(1) _ a]
  have "limiter_run l' evs = reference_run (rl_maxPerSec l) (rl_windowSize l)
      (if ok then hist @ [(key, now)] else hist) evs"
    using Cons.IH[of l' _ "now - rl_windowSize l"] Cons.prems r by (auto simp: e)
  then show ?case using a r Cons.prems(3) by (auto simp: e)
qed simp

text \<open>C22: pruning the order times of the past never changes a decision: on a clock that does not
  run backwards the limiter accepts the same orders as the reference that counts, in the
  full history of accepted orders, those of the key in the last window.\<close>

theorem limiter_equals_reference:
  assumes "sorted (map snd evs)"
  shows "limiter_run (NewOrderRateLimiter n) evs = reference_run n 1000000000 [] evs"
  using limiter_run_refines[OF limiter_refines_New[of n "snd (hd evs) - 1000000000"] assms]
    sorted_hd_le[OF assms] by (simp add: NewOrderRateLimiter_def)

theorem limiter_equals_reference_witness:
  "limiter_run (NewOrderRateLimiter (lit 2))
     [(''a'', 0), (''a'', 1), (''a'', 2), (''b'', 3), (''a'', 1000000000)] =
   [(''a'', 0), (''a'', 1), (''b'', 3), (''a'', 1000000000)]"
proof -
  have "float_of_int 2 = Fin 2" by (simp add: f64_eval)
  then show ?thesis
    by (subst limiter_equals_reference) (simp_all add: in_window_def f64_eval)
qed

text \<open>The orders of a key accepted in the window that ends at \<open>t\<close>.\<close>

definition accepted_in :: "int \<Rightarrow> string \<Rightarrow> int \<Rightarrow> (string \<times> int) list \<Rightarrow> nat" where
  "accepted_in w key t acc = length (filter (\<lambda>p. fst p = key \<and> t - w < snd p \<and> snd p \<le> t) acc)"

lemma accepted_in_append [simp]:
  "accepted_in w key t (xs @ ys) = accepted_in w key t xs + accepted_in w key t ys"
  by (simp add: accepted_in_def)

lemma accepted_le_in_window: "now \<le> t \<Longrightarrow> accepted_in w key t hist \<le> in_window w key now hist"
  unfolding accepted_in_def in_window_def by (induction hist) auto

lemma float_of_int_less: "\<not> float_of_int m \<ge> float_of_int n \<Longrightarrow> m < n"
  using rnd_mono[of "of_int n" "of_int m"] by (auto simp: float_of_int_def not_le[symmetric])

lemma reference_run_bound:
  assumes "\<And>t. accepted_in w key t hist \<le> n"
  shows "accepted_in w key t (hist @ reference_run (float_of_int (int n)) w hist evs) \<le> n"
  using assms
proof (induction evs arbitrary: hist)
  case (Cons e evs)
  obtain k now where e: "e = (k, now)" by force
  show ?case
  proof (cases "float_of_int (int (in_window w k now hist)) \<ge> float_of_int (int n)")
    case True
    with Cons show ?thesis by (simp add: e)
  next
    case False
    then have "in_window w k now hist < n" using float_of_int_less by fastforce
    then have "accepted_in w key t (hist @ [e]) \<le> n" for t
      using Cons.prems[of t] accepted_le_in_window[of now t w k hist]
      by (cases "k = key \<and> now \<le> t") (auto simp: e accepted_in_def)
    from Cons.IH[OF this] False show ?thesis by (simp add: e)
  qed
qed simp

text \<open>C26: No window of one second, wherever it starts, holds more accepted orders of a key than
  the configured rate.\<close>

theorem limiter_rate_bound:
  assumes "sorted (map snd evs)"
  shows "accepted_in 1000000000 key t (limiter_run (NewOrderRateLimiter (float_of_int (int n))) evs) \<le> n"
  using limiter_run_refines[OF limiter_refines_New[of "float_of_int (int n)"
      "snd (hd evs) - 1000000000"] assms] sorted_hd_le[OF assms]
    reference_run_bound[of 1000000000 key "[]" n t evs]
  by (simp add: NewOrderRateLimiter_def accepted_in_def)

theorem limiter_rate_bound_witness:
  "accepted_in 1000000000 ''a'' 999999999
     (limiter_run (NewOrderRateLimiter (float_of_int 2)) [(''a'', 0), (''a'', 1), (''a'', 2)]) \<le> 2"
  using limiter_rate_bound[of "[(''a'', 0), (''a'', 1), (''a'', 2)]" "''a''" 999999999 2] by simp

section \<open>The volatility halt\<close>

lemma vh_trim_simps [simp]:
  "vh_maxHistory (vh_trim v) = vh_maxHistory v" "vh_zThreshold (vh_trim v) = vh_zThreshold v"
  "vh_isHalted (vh_trim v) = vh_isHalted v" "vh_haltReason (vh_trim v) = vh_haltReason v"
  "length (vh_returns (vh_trim v)) = min (length (vh_returns v)) (vh_maxHistory v)"
  by (auto simp: vh_trim_def)

datatype vh_op = VhPrice price | VhReturn f64 | VhReset

fun vh_step :: "VolatilityHalt \<Rightarrow> vh_op \<Rightarrow> VolatilityHalt" where
  "vh_step v (VhPrice p) = VolatilityHalt_Update v p"
| "vh_step v (VhReturn r) = VolatilityHalt_UpdateReturn v r"
| "vh_step v VhReset = VolatilityHalt_Reset v"

definition vh_ok :: "VolatilityHalt \<Rightarrow> bool" where
  "vh_ok v \<longleftrightarrow> length (vh_returns v) \<le> vh_maxHistory v \<and>
     (vh_haltReason v = (if vh_isHalted v then ''volatility_z'' else ''''))"

lemma vh_step_ok: "vh_ok v \<Longrightarrow> vh_ok (vh_step v op)"
  by (cases op) (auto simp: vh_ok_def VolatilityHalt_Update_def VolatilityHalt_UpdateReturn_def
      VolatilityHalt_Reset_def Let_def split: option.splits)

lemma vh_step_maxHistory: "vh_maxHistory (vh_step v op) = vh_maxHistory v"
  by (cases op) (auto simp: VolatilityHalt_Update_def VolatilityHalt_UpdateReturn_def
      VolatilityHalt_Reset_def Let_def split: option.splits)

text \<open>Through any sequence of prices, returns and resets the halt keeps at most 252 returns,
  and it carries the reason \<open>volatility_z\<close> exactly while it is halted.\<close>

theorem VolatilityHalt_bounded:
  "length (vh_returns (foldl vh_step (NewVolatilityHalt z) ops)) \<le> 252 \<and>
   (vh_haltReason (foldl vh_step (NewVolatilityHalt z) ops) =
      (if VolatilityHalt_IsHalted (foldl vh_step (NewVolatilityHalt z) ops) then ''volatility_z'' else ''''))"
proof -
  have "vh_ok (foldl vh_step v ops) \<and> vh_maxHistory (foldl vh_step v ops) = vh_maxHistory v"
    if "vh_ok v" for v
    using that by (induction ops arbitrary: v) (simp_all add: vh_step_ok vh_step_maxHistory)
  from this[of "NewVolatilityHalt z"] show ?thesis
    by (simp add: vh_ok_def NewVolatilityHalt_def VolatilityHalt_IsHalted_def)
qed

text \<open>\<open>Update\<close> derives the previous price from the return it recorded last, and records
  nothing while it has fewer than two returns: fed with prices alone it stays in its
  initial state and never halts, whatever the prices do.\<close>

theorem VolatilityHalt_Update_inert:
  "foldl VolatilityHalt_Update (NewVolatilityHalt z) prices = NewVolatilityHalt z"
  by (induction prices)
    (simp_all add: VolatilityHalt_Update_def NewVolatilityHalt_def vh_trim_def vh_zscore_def)

lemma foldl_nan:
  assumes "\<And>a r. f FNaN r = FNaN" "\<And>a. f a FNaN = FNaN" "FNaN \<in> set rs"
  shows "foldl f a rs = FNaN"
proof -
  have stay: "foldl f FNaN rs = FNaN" for rs by (induction rs) (simp_all add: assms(1))
  show ?thesis using assms(3) by (induction rs arbitrary: a) (auto simp: assms(2) stay)
qed

lemma vh_zscore_nan: "FNaN \<in> set rs \<Longrightarrow> vh_zscore rs = None"
proof -
  assume n: "FNaN \<in> set rs"
  have "foldl (\<lambda>m r. m + r) 0 rs = FNaN" by (rule foldl_nan[OF _ _ n]) (simp_all add: inf_nan_ops)
  moreover have "foldl (\<lambda>s r. let diff = r - FNaN in s + diff * diff) 0 rs = FNaN"
    by (rule foldl_nan[OF _ _ n]) (simp_all add: inf_nan_ops)
  moreover have "FNaN / x = FNaN" for x by (simp add: inf_nan_ops)
  ultimately show ?thesis by (simp add: vh_zscore_def Let_def math_sqrt_def)
qed

text \<open>C38: A return that is not a number switches the volatility halt off for as long as it stays
  in the history: no later return changes the halt, whatever its size.\<close>

theorem nan_return_disables_halt:
  assumes "FNaN \<in> set (drop (length (vh_returns v) + 1 - vh_maxHistory v) (vh_returns v))"
  shows "vh_isHalted (VolatilityHalt_UpdateReturn v ret) = vh_isHalted v"
proof -
  have "FNaN \<in> set (vh_returns (vh_trim (v\<lparr>vh_returns := vh_returns v @ [ret]\<rparr>)))"
    using assms set_drop_subset by (fastforce simp: vh_trim_def)
  then show ?thesis by (simp add: VolatilityHalt_UpdateReturn_def vh_zscore_nan)
qed

theorem nan_return_disables_halt_witness:
  "vh_isHalted (VolatilityHalt_UpdateReturn
     (VolatilityHalt_UpdateReturn (NewVolatilityHalt (lit 3)) FNaN) (lit 1000)) = False"
  using nan_return_disables_halt[of "VolatilityHalt_UpdateReturn (NewVolatilityHalt (lit 3)) FNaN" "lit 1000"]
  by (simp add: VolatilityHalt_UpdateReturn_def NewVolatilityHalt_def vh_trim_def vh_zscore_def)

section \<open>The exposure limits\<close>

text \<open>
  The way the pipeline uses the tracker: an order is checked with one notional and recorded,
  when it passes, with one that is not larger; a closed position is removed.
\<close>

datatype exposure_op =
    ExOrder string string f64 f64
  | ExRemove string string f64

fun exposure_step :: "ExposureTracker \<Rightarrow> exposure_op \<Rightarrow> ExposureTracker" where
  "exposure_step e (ExOrder symbol side checked recorded) =
     (if fst (ExposureTracker_CheckOrder e symbol side checked)
      then ExposureTracker_AddPosition e symbol side recorded else e)"
| "exposure_step e (ExRemove symbol side notional) = ExposureTracker_RemovePosition e symbol side notional"

fun exposure_op_ok :: "exposure_op \<Rightarrow> bool" where
  "exposure_op_ok (ExOrder symbol side checked recorded) \<longleftrightarrow>
     fin_nonneg checked \<and> fin_nonneg recorded \<and> recorded \<le> checked"
| "exposure_op_ok (ExRemove symbol side notional) \<longleftrightarrow> fin_nonneg notional"

definition SymbolGross :: "ExposureTracker \<Rightarrow> string \<Rightarrow> f64" where
  "SymbolGross e s = mget 0 (ex_symbolLong e) s + mget 0 (ex_symbolShort e) s"

definition exposure_wf :: "ExposureTracker \<Rightarrow> bool" where
  "exposure_wf e \<longleftrightarrow> ex_totalLong e \<noteq> FNaN \<and> ex_totalShort e \<noteq> FNaN \<and>
     f64_ok (ex_totalLong e) \<and> f64_ok (ex_totalShort e) \<and>
     (\<forall>s. 0 \<le> mget 0 (ex_symbolLong e) s \<and> f64_ok (mget 0 (ex_symbolLong e) s) \<and>
          0 \<le> mget 0 (ex_symbolShort e) s \<and> f64_ok (mget 0 (ex_symbolShort e) s))"

definition exposure_within :: "ExposureTracker \<Rightarrow> bool" where
  "exposure_within e \<longleftrightarrow>
     \<not> ex_maxLeverage e < ExposureTracker_GrossExposure e / ex_equity e \<and>
     (\<forall>s. \<not> ex_maxSymbolGross e < SymbolGross e s / ex_equity e)"

lemma sum_not_above:
  assumes "x' \<le> x" "is_fin q" "0 < fval q" "\<not> m < (x + y) / q"
  shows "\<not> m < (x' + y) / q" and "\<not> m < (y + x') / q"
proof -
  show 1: "\<not> m < (x' + y) / q"
  proof (cases "is_fin y")
    case True
    then have "(x' + y) / q \<le> (x + y) / q"
      by (intro f64_div_mono f64_add_mono assms)
    then show ?thesis using assms(4) f64_less_le_trans by blast
  next
    case False
    then consider "y = FNaN" | "y = FPosInf" | "y = FNegInf" by (auto simp: is_fin_def)
    then show ?thesis
    proof cases
      case 1
      then show ?thesis by (simp add: inf_nan_ops)
    next
      case 2
      then have "x' + y = FNaN \<or> x' + y = x + y"
        using assms(1) by (cases x'; cases x) (auto simp: plus_f64_def is_inf_def less_eq_f64_def)
      then show ?thesis using assms(4) by (auto simp: inf_nan_ops)
    next
      case 3
      then have "x' + y = FNaN \<or> x' + y = FNegInf"
        by (cases x') (auto simp: plus_f64_def is_inf_def)
      moreover have "\<not> m < FNegInf" by (cases m) (auto simp: less_f64_def)
      ultimately show ?thesis using assms(2,3) by (auto simp: inf_nan_ops)
    qed
  qed
  then show "\<not> m < (y + x') / q" by (simp add: f64_add_commute)
qed

lemma sum_not_above_right:
  "x' \<le> x \<Longrightarrow> is_fin q \<Longrightarrow> 0 < fval q \<Longrightarrow> \<not> m < (y + x) / q \<Longrightarrow> \<not> m < (y + x') / q"
  using sum_not_above(2)[of x' x q m y] by (simp add: f64_add_commute)

lemma add_right_mono: "a \<le> b \<Longrightarrow> is_fin a \<Longrightarrow> is_fin b \<Longrightarrow> x \<noteq> FNaN \<Longrightarrow> x + a \<le> x + (b :: f64)"
  using f64_add_mono[of a b x] by (cases x) (auto simp: f64_add_commute plus_f64_def is_fin_def is_inf_def)

lemma sub_le:
  assumes "fin_nonneg n" "x \<noteq> FNaN" "f64_ok x"
  shows "x - n \<le> x"
proof (cases "is_fin x")
  case True
  have n: "is_fin n" "0 \<le> fval n" using assms(1) by (auto simp: fin_nonneg_def)
  have "rnd (fval x - fval n) \<le> rnd (fval x)" using n by (intro rnd_mono) simp
  then have "rnd (fval x - fval n) \<le> x"
    using True assms(3) by (simp add: rnd_fval) (auto simp: less_eq_f64_def is_fin_def)
  then show ?thesis using sub_feqv[OF True n(1)] by (simp add: feqv_le)
next
  case False
  then show ?thesis using assms(1,2)
    by (auto simp: is_fin_def minus_f64_def plus_f64_def is_inf_def fin_nonneg_def uminus_f64_def
        split: f64.splits)
qed

lemma CheckOrder_within:
  assumes "fst (ExposureTracker_CheckOrder e symbol side n)" "0 < ex_maxLeverage e" "0 < ex_maxSymbolGross e"
  shows "\<not> ex_maxLeverage e <
      ExposureTracker_GrossExposure (ExposureTracker_AddPosition e symbol side n) / ex_equity e"
    and "\<not> ex_maxSymbolGross e < SymbolGross (ExposureTracker_AddPosition e symbol side n) symbol / ex_equity e"
  using assms by (auto simp: ExposureTracker_CheckOrder_def ExposureTracker_AddPosition_def Let_def
      ExposureTracker_GrossExposure_def SymbolGross_def split: if_splits)

lemma Add_config [simp]:
  "ex_equity (ExposureTracker_AddPosition e s d n) = ex_equity e"
  "ex_maxLeverage (ExposureTracker_AddPosition e s d n) = ex_maxLeverage e"
  "ex_maxSymbolGross (ExposureTracker_AddPosition e s d n) = ex_maxSymbolGross e"
  "ex_equity (ExposureTracker_RemovePosition e s d n) = ex_equity e"
  "ex_maxLeverage (ExposureTracker_RemovePosition e s d n) = ex_maxLeverage e"
  "ex_maxSymbolGross (ExposureTracker_RemovePosition e s d n) = ex_maxSymbolGross e"
  by (simp_all add: ExposureTracker_AddPosition_def ExposureTracker_RemovePosition_def)

lemma nonneg_cases: "0 \<le> x \<Longrightarrow> x = FPosInf \<or> is_fin x \<and> 0 \<le> fval x"
  by (cases x) (auto simp: less_eq_f64_def is_fin_def)

lemma add_pos: "0 \<le> x \<Longrightarrow> fin_nonneg n \<Longrightarrow> 0 \<le> x + (n :: f64)"
  using nonneg_cases[of x] add_feqv[of x n] rnd_nonneg[of "fval x + fval n"]
  by (auto simp: fin_nonneg_def feqv_le)

lemma sub_not_nan: "x \<noteq> FNaN \<Longrightarrow> is_fin n \<Longrightarrow> x - n \<noteq> (FNaN :: f64)"
  by (simp add: minus_f64_def op_not_nan)

lemma clamp_sub:
  assumes "0 \<le> x" "f64_ok x" "fin_nonneg n"
  shows "0 \<le> clamp_neg (x - n)" "f64_ok (clamp_neg (x - n))" "clamp_neg (x - n) \<le> x"
proof -
  have x: "x \<noteq> FNaN" using assms(1) by auto
  have n: "is_fin n" "f64_ok n" using assms(3) by (simp_all add: fin_nonneg_def)
  have "x - n \<noteq> FNaN" by (rule sub_not_nan[OF x n(1)])
  then show "0 \<le> clamp_neg (x - n)"
    using f64_not_less[of "x - n" 0] by (auto simp: clamp_neg_def)
  show "f64_ok (clamp_neg (x - n))" using assms(2) n by (simp add: clamp_neg_def)
  show "clamp_neg (x - n) \<le> x" using assms(1) sub_le[OF assms(3) x assms(2)] by (simp add: clamp_neg_def)
qed

lemma exposure_wf_step:
  assumes "exposure_wf e" "exposure_op_ok op"
  shows "exposure_wf (exposure_step e op)"
proof (cases op)
  case (ExOrder symbol side checked recorded)
  then have "fin_nonneg recorded" using assms(2) by simp
  then show ?thesis using assms(1)
    by (auto simp: ExOrder exposure_wf_def ExposureTracker_AddPosition_def add_pos op_not_nan fin_nonneg_def)
next
  case (ExRemove symbol side n)
  then have n: "fin_nonneg n" "is_fin n" "f64_ok n" using assms(2) by (simp_all add: fin_nonneg_def)
  then show ?thesis using assms(1)
    by (auto simp: ExRemove exposure_wf_def ExposureTracker_RemovePosition_def clamp_sub sub_not_nan)
qed

lemma exposure_step_within:
  assumes "exposure_wf e" "exposure_within e" "exposure_op_ok op" "is_fin (ex_equity e)" "0 < fval (ex_equity e)"
    "0 < ex_maxLeverage e" "0 < ex_maxSymbolGross e"
  shows "exposure_within (exposure_step e op)"
proof (cases op)
  case (ExOrder symbol side n r)
  have le: "x + r \<le> x + n" if "x \<noteq> FNaN" for x
    using assms(3) that by (intro add_right_mono) (auto simp: ExOrder fin_nonneg_def)
  have sym: "mget 0 (ex_symbolLong e) s \<noteq> FNaN" "mget 0 (ex_symbolShort e) s \<noteq> FNaN" for s
    using assms(1) by (metis exposure_wf_def f64_nan_compare(2))+
  show ?thesis
  proof (cases "fst (ExposureTracker_CheckOrder e symbol side n)")
    case True
    note c = CheckOrder_within[OF True assms(6,7)]
    show ?thesis
      using c assms(1,2,4,5) sum_not_above(1)[OF le] sum_not_above_right[OF le] sym
      by (auto simp: ExOrder True exposure_within_def exposure_wf_def ExposureTracker_AddPosition_def
          ExposureTracker_GrossExposure_def SymbolGross_def)
  qed (use assms(2) ExOrder in simp)
next
  case (ExRemove symbol side n)
  then have n: "fin_nonneg n" using assms(3) by simp
  show ?thesis
    using assms(1,2,4,5) sum_not_above(1)[OF sub_le[OF n]] sum_not_above(1)[OF clamp_sub(3)[OF _ _ n]]
      sum_not_above_right[OF sub_le[OF n]] sum_not_above_right[OF clamp_sub(3)[OF _ _ n]]
    by (auto simp: ExRemove exposure_within_def exposure_wf_def ExposureTracker_RemovePosition_def
          ExposureTracker_GrossExposure_def SymbolGross_def)
qed

definition fresh_tracker :: "f64 \<Rightarrow> f64 \<Rightarrow> f64 \<Rightarrow> ExposureTracker" where
  "fresh_tracker maxLeverage maxSymbolGross equity =
     ExposureTracker_SetEquity (NewExposureTracker maxLeverage maxSymbolGross) equity"

lemma exposure_step_config [simp]:
  "ex_equity (exposure_step e op) = ex_equity e"
  "ex_maxLeverage (exposure_step e op) = ex_maxLeverage e"
  "ex_maxSymbolGross (exposure_step e op) = ex_maxSymbolGross e"
  by (cases op; simp)+

lemma exposure_run_within:
  assumes "exposure_wf e" "exposure_within e" "\<forall>op\<in>set ops. exposure_op_ok op"
    "is_fin (ex_equity e)" "0 < fval (ex_equity e)" "0 < ex_maxLeverage e" "0 < ex_maxSymbolGross e"
  shows "exposure_within (foldl exposure_step e ops) \<and> exposure_wf (foldl exposure_step e ops)"
  using assms by (induction ops arbitrary: e) (simp_all add: exposure_wf_step exposure_step_within)

lemma fresh_tracker_within:
  assumes "is_fin equity" "0 < fval equity" "0 < maxLeverage" "0 < maxSymbolGross"
  shows "exposure_wf (fresh_tracker maxLeverage maxSymbolGross equity)"
    "exposure_within (fresh_tracker maxLeverage maxSymbolGross equity)"
proof -
  have "(0 + 0) / equity = (0 :: f64)"
    using assms(1,2) by (auto simp: zero_f64_def f64_eval divide_f64_def is_zero_def is_inf_def
        fsign_def fval_def fzero_def is_fin_def split: f64.splits)
  then show "exposure_wf (fresh_tracker maxLeverage maxSymbolGross equity)"
    "exposure_within (fresh_tracker maxLeverage maxSymbolGross equity)"
    using f64_less_not_le[OF assms(3)] f64_less_not_le[OF assms(4)] f64_less_imp_le
    by (auto simp: exposure_wf_def exposure_within_def fresh_tracker_def SymbolGross_def
        ExposureTracker_SetEquity_def NewExposureTracker_def ExposureTracker_GrossExposure_def)
qed

text \<open>C29: Between two updates of the equity, no sequence of checked orders and closed positions
  takes the gross exposure the tracker accounts for above the leverage limit, nor that of
  any symbol above the concentration limit.\<close>

theorem exposure_limits_respected:
  assumes "\<forall>op\<in>set ops. exposure_op_ok op"
    and "is_fin equity" "0 < fval equity" "0 < maxLeverage" "0 < maxSymbolGross"
  shows "\<not> maxLeverage < ExposureTracker_GrossExposure
           (foldl exposure_step (fresh_tracker maxLeverage maxSymbolGross equity) ops) / equity \<and>
    \<not> maxSymbolGross < SymbolGross
           (foldl exposure_step (fresh_tracker maxLeverage maxSymbolGross equity) ops) s / equity"
proof -
  have "ex_equity (foldl exposure_step e ops) = ex_equity e \<and>
      ex_maxLeverage (foldl exposure_step e ops) = ex_maxLeverage e \<and>
      ex_maxSymbolGross (foldl exposure_step e ops) = ex_maxSymbolGross e" for e
    by (induction ops arbitrary: e) simp_all
  then show ?thesis
    using exposure_run_within[OF fresh_tracker_within[OF assms(2-5)] assms(1)] assms(2-5)
    by (simp add: exposure_within_def fresh_tracker_def ExposureTracker_SetEquity_def
        NewExposureTracker_def)
qed

lemmas tracker_eval = fresh_tracker_def ExposureTracker_SetEquity_def NewExposureTracker_def
  ExposureTracker_CheckOrder_def ExposureTracker_AddPosition_def ExposureTracker_RemovePosition_def
  ExposureTracker_GrossExposure_def SymbolGross_def clamp_neg_def

theorem exposure_limits_respected_witness:
  "\<not> lit 2 < ExposureTracker_GrossExposure (foldl exposure_step
      (fresh_tracker (lit 2) 1 (lit 100)) [ExOrder ''A'' ''BUY'' (lit 80) (lit 80),
       ExOrder ''B'' ''SELL'' (lit 150) (lit 150), ExRemove ''A'' ''BUY'' (lit 80)]) / lit 100"
  using exposure_limits_respected[of "[ExOrder ''A'' ''BUY'' (lit 80) (lit 80),
       ExOrder ''B'' ''SELL'' (lit 150) (lit 150), ExRemove ''A'' ''BUY'' (lit 80)]" "lit 100" "lit 2" 1]
  by (simp add: lit_numeral fin_nonneg_def representable_def f64_eval)

text \<open>\<open>RemovePosition\<close> clamps the symbol at zero but not the total. A position opened for 100
  and closed at a notional of 150 leaves a total of -50, and the leverage limit then lets
  through open positions of one and a half times the equity with a limit of one.\<close>

theorem exposure_total_drifts:
  "let e = foldl exposure_step (fresh_tracker 1 (lit 10) (lit 100))
         [ExOrder ''A'' ''BUY'' (lit 100) (lit 100), ExRemove ''A'' ''BUY'' (lit 150)]
   in ex_totalLong e = lit (- 50) \<and> SymbolGross e ''A'' = 0 \<and>
      fst (ExposureTracker_CheckOrder e ''B'' ''BUY'' (lit 150)) \<and>
      \<not> fst (ExposureTracker_CheckOrder (fresh_tracker 1 (lit 10) (lit 100)) ''B'' ''BUY'' (lit 150))"
  by (simp add: tracker_eval f64_eval)

text \<open>An order whose notional is not a number passes every limit, and once it is recorded
  the leverage limit rejects no order of any symbol and size any more.\<close>

theorem exposure_nan_passes:
  assumes "\<not> ex_equity e \<le> 0"
  shows "ExposureTracker_CheckOrder e symbol side FNaN = (True, '''') \<and>
    snd (ExposureTracker_CheckOrder (ExposureTracker_AddPosition e symbol side FNaN) s d n)
      \<noteq> ''max_leverage''"
  using assms
  by (simp add: ExposureTracker_CheckOrder_def ExposureTracker_AddPosition_def Let_def inf_nan_ops)

theorem exposure_nan_passes_witness:
  "snd (ExposureTracker_CheckOrder (ExposureTracker_AddPosition (fresh_tracker 1 1 (lit 100))
      ''A'' ''BUY'' FNaN) ''B'' ''BUY'' (lit 1000000)) \<noteq> ''max_leverage''"
  using exposure_nan_passes[of "fresh_tracker 1 1 (lit 100)" "''A''" "''BUY''" "''B''" "''BUY''" "lit 1000000"]
  by (simp add: fresh_tracker_def ExposureTracker_SetEquity_def f64_eval)

end
