(* ===== verification/Sizing.thy ===== *)
theory Sizing
  imports PropFirm Controls Gates
begin

text \<open>
  Position sizing: the constants of \<open>internal/risk/constants.go\<close>, the position sizer of
  \<open>position_sizer.go\<close> and the signal gate of \<open>signal_gate_impl.go\<close>, which bundles a
  volatility halt, a sizer, an exposure tracker and a rate limiter. The gate holds its
  parts by pointer, each possibly nil: here a component of the record, \<open>None\<close> for nil.
\<close>

section \<open>Constants\<close>

definition DefaultBufferPct :: f64 where "DefaultBufferPct = lit (2/1000)"
definition DefaultCorrelationMult :: f64 where "DefaultCorrelationMult = lit (5/10)"
definition DefaultAdverseSelectPct :: f64 where "DefaultAdverseSelectPct = lit (5/100)"
definition DefaultKellyMultiplier :: f64 where "DefaultKellyMultiplier = lit (25/100)"
definition DefaultPerTradeCap :: f64 where "DefaultPerTradeCap = lit (2/100)"
definition DefaultTotalExpCap :: f64 where "DefaultTotalExpCap = lit (30/100)"
definition DefaultMaxPositionPct :: f64 where "DefaultMaxPositionPct = lit (3/100)"
definition DefaultVolatilityHalt :: f64 where "DefaultVolatilityHalt = lit 3"
definition DefaultOrderRateLimit :: f64 where "DefaultOrderRateLimit = lit 10"
definition DefaultStratDrawdownFrac :: f64 where "DefaultStratDrawdownFrac = lit (5/10)"
definition DefaultVIXHigh :: f64 where "DefaultVIXHigh = lit 35"
definition DefaultVIXMid :: f64 where "DefaultVIXMid = lit 28"
definition DefaultVIXLow :: f64 where "DefaultVIXLow = lit 20"
definition VIXHighMult :: f64 where "VIXHighMult = lit (50/100)"
definition VIXMidMult :: f64 where "VIXMidMult = lit (75/100)"
definition VIXLowMult :: f64 where "VIXLowMult = lit (90/100)"
definition SentimentExtremeLow :: int where "SentimentExtremeLow = 10"
definition SentimentExtremeHigh :: int where "SentimentExtremeHigh = 90"
definition SentimentModerateLow :: int where "SentimentModerateLow = 20"
definition SentimentModerateHigh :: int where "SentimentModerateHigh = 80"
definition SentimentExtremeMult :: f64 where "SentimentExtremeMult = lit (50/100)"
definition SentimentModerateMult :: f64 where "SentimentModerateMult = lit (75/100)"
definition RegimeModerateMult :: f64 where "RegimeModerateMult = lit (75/100)"
definition RegimeCrisisMult :: f64 where "RegimeCrisisMult = lit (50/100)"
definition RegimeMLScale :: f64 where "RegimeMLScale = lit (15/10)"

section \<open>PositionSizer\<close>

record PositionSizer =
  pz_profile :: "profile option"
  pz_vix :: f64
  pz_sentiment :: int
  pz_regime :: int
  pz_regimeScore :: f64
  pz_kellyMult :: f64
  pz_perTradeCap :: f64
  pz_totalExpCap :: f64
  pz_useMLRegime :: bool
  pz_lotSize :: f64

definition NewPositionSizer :: "profile option \<Rightarrow> PositionSizer" where
  "NewPositionSizer profile = \<lparr>pz_profile = profile, pz_vix = 0, pz_sentiment = 0, pz_regime = 0,
     pz_regimeScore = 0, pz_kellyMult = DefaultKellyMultiplier, pz_perTradeCap = DefaultPerTradeCap,
     pz_totalExpCap = DefaultTotalExpCap, pz_useMLRegime = False, pz_lotSize = 0\<rparr>"

definition PositionSizer_SetProfile :: "PositionSizer \<Rightarrow> profile option \<Rightarrow> PositionSizer" where
  "PositionSizer_SetProfile ps profile = ps\<lparr>pz_profile := profile\<rparr>"

definition PositionSizer_UpdateMarketState :: "PositionSizer \<Rightarrow> f64 \<Rightarrow> int \<Rightarrow> int \<Rightarrow> PositionSizer" where
  "PositionSizer_UpdateMarketState ps vix sentiment regime =
     ps\<lparr>pz_vix := vix, pz_sentiment := sentiment, pz_regime := regime\<rparr>"

definition PositionSizer_SetRegimeScore :: "PositionSizer \<Rightarrow> f64 \<Rightarrow> PositionSizer" where
  "PositionSizer_SetRegimeScore ps score = ps\<lparr>pz_regimeScore := score, pz_useMLRegime := True\<rparr>"

definition PositionSizer_SetKellyMultiplier :: "PositionSizer \<Rightarrow> f64 \<Rightarrow> PositionSizer" where
  "PositionSizer_SetKellyMultiplier ps mult = ps\<lparr>pz_kellyMult := mult\<rparr>"

definition PositionSizer_SetLotSize :: "PositionSizer \<Rightarrow> f64 \<Rightarrow> PositionSizer" where
  "PositionSizer_SetLotSize ps lotSize = ps\<lparr>pz_lotSize := lotSize\<rparr>"

definition RoundToLotSize :: "f64 \<Rightarrow> f64 \<Rightarrow> f64" where
  "RoundToLotSize sz lotSize =
     (if sz \<le> 0 \<or> lotSize \<le> 0 then math_max 0 sz
      else math_round (sz / lotSize) * lotSize)"

definition PositionSizer_applyMultipliers :: "PositionSizer \<Rightarrow> f64 \<Rightarrow> f64 \<Rightarrow> f64 \<Rightarrow> f64" where
  "PositionSizer_applyMultipliers ps confidence baseSize existingPosition =
     (if baseSize \<le> 0 then 0 else
      let p = (case pz_profile ps of None \<Rightarrow> DefaultFTMOProfile | Some p \<Rightarrow> p);
          size = baseSize;
          size = size * math_min confidence 1;
          size = (if pf_ConsistencyEnabled p then
                    if pz_useMLRegime ps then size * math_max (pz_regimeScore ps * RegimeMLScale) 0
                    else if pz_regime ps = 0 \<or> pz_regime ps = 1 then size * 1
                    else if pz_regime ps = 2 then size * RegimeModerateMult
                    else size * RegimeCrisisMult
                  else size);
          size = (if pz_vix ps > DefaultVIXHigh then size * VIXHighMult
                  else if pz_vix ps > DefaultVIXMid then size * VIXMidMult
                  else if pz_vix ps > DefaultVIXLow then size * VIXLowMult else size);
          size = (if pz_sentiment ps < SentimentExtremeLow \<or> pz_sentiment ps > SentimentExtremeHigh
                  then size * SentimentExtremeMult
                  else if pz_sentiment ps < SentimentModerateLow \<or> pz_sentiment ps > SentimentModerateHigh
                  then size * SentimentModerateMult else size);
          size = (if existingPosition > 0
                  then size * (1 / (1 + existingPosition / baseSize)) else size)
      in size)"

definition PositionSizer_ComputeSize ::
  "PositionSizer \<Rightarrow> f64 \<Rightarrow> f64 \<Rightarrow> string \<Rightarrow> f64 \<Rightarrow> f64 \<Rightarrow> f64" where
  "PositionSizer_ComputeSize ps confidence baseSize symbol currentAllocation existingPosition =
     (let size = PositionSizer_applyMultipliers ps confidence baseSize existingPosition
      in if size \<le> 0 then 0 else
         let size = (if currentAllocation + size > baseSize * pz_totalExpCap ps then
                       let size = baseSize * pz_totalExpCap ps - currentAllocation
                       in if size < 0 then 0 else size
                     else size)
         in RoundToLotSize (math_max 0 size) (pz_lotSize ps))"

definition PositionSizer_ComputeSizeUncapped :: "PositionSizer \<Rightarrow> f64 \<Rightarrow> f64 \<Rightarrow> f64 \<Rightarrow> f64" where
  "PositionSizer_ComputeSizeUncapped ps confidence baseSize existingPosition =
     RoundToLotSize (math_max 0
       (PositionSizer_applyMultipliers ps confidence baseSize existingPosition)) (pz_lotSize ps)"

section \<open>SignalGateImpl\<close>

record SignalGateImpl =
  si_volHalt :: "VolatilityHalt option"
  si_sizer :: "PositionSizer option"
  si_exposure :: "ExposureTracker option"
  si_rateLimit :: "OrderRateLimiter option"
  si_backtestSkipRateLimit :: bool

definition NewSignalGateImpl :: "VolatilityHalt option \<Rightarrow> PositionSizer option \<Rightarrow>
  ExposureTracker option \<Rightarrow> OrderRateLimiter option \<Rightarrow> SignalGateImpl" where
  "NewSignalGateImpl volHalt sizer exposure rateLimit = \<lparr>si_volHalt = volHalt, si_sizer = sizer,
     si_exposure = exposure, si_rateLimit = rateLimit, si_backtestSkipRateLimit = False\<rparr>"

definition SignalGateImpl_SetBacktestMode :: "SignalGateImpl \<Rightarrow> bool \<Rightarrow> SignalGateImpl" where
  "SignalGateImpl_SetBacktestMode g v = g\<lparr>si_backtestSkipRateLimit := v\<rparr>"

text \<open>The setters dereference the part they change: \<open>None\<close> is the nil pointer panic.\<close>

definition SignalGateImpl_SetVIX :: "SignalGateImpl \<Rightarrow> f64 \<Rightarrow> SignalGateImpl option" where
  "SignalGateImpl_SetVIX g vix = (case si_sizer g of None \<Rightarrow> None | Some ps \<Rightarrow>
     Some (g\<lparr>si_sizer := Some (PositionSizer_UpdateMarketState ps vix 50 (pz_regime ps))\<rparr>))"

definition SignalGateImpl_SetRegime :: "SignalGateImpl \<Rightarrow> int \<Rightarrow> SignalGateImpl option" where
  "SignalGateImpl_SetRegime g regime = (case si_sizer g of None \<Rightarrow> None | Some ps \<Rightarrow>
     Some (g\<lparr>si_sizer := Some (PositionSizer_UpdateMarketState ps (pz_vix ps) (pz_sentiment ps) regime)\<rparr>))"

definition SignalGateImpl_SetEquity :: "SignalGateImpl \<Rightarrow> f64 \<Rightarrow> SignalGateImpl option" where
  "SignalGateImpl_SetEquity g equity = (case si_exposure g of None \<Rightarrow> None | Some e \<Rightarrow>
     Some (g\<lparr>si_exposure := Some (ExposureTracker_SetEquity e equity)\<rparr>))"

definition SignalGateImpl_SetKellyMultiplier :: "SignalGateImpl \<Rightarrow> f64 \<Rightarrow> SignalGateImpl option" where
  "SignalGateImpl_SetKellyMultiplier g mult = (case si_sizer g of None \<Rightarrow> None | Some ps \<Rightarrow>
     Some (g\<lparr>si_sizer := Some (PositionSizer_SetKellyMultiplier ps mult)\<rparr>))"

definition SignalGateImpl_SetRegimeScore :: "SignalGateImpl \<Rightarrow> f64 \<Rightarrow> SignalGateImpl option" where
  "SignalGateImpl_SetRegimeScore g score = (case si_sizer g of None \<Rightarrow> None | Some ps \<Rightarrow>
     Some (g\<lparr>si_sizer := Some (PositionSizer_SetRegimeScore ps score)\<rparr>))"

definition SignalGateImpl_ValidateSignal ::
  "SignalGateImpl \<Rightarrow> f64 \<Rightarrow> int \<Rightarrow> (bool \<times> string) \<times> SignalGateImpl" where
  "SignalGateImpl_ValidateSignal g runningCapital now =
     (if runningCapital \<le> 0 then ((False, ''capital_zero''), g)
      else if (case si_volHalt g of None \<Rightarrow> False | Some v \<Rightarrow> VolatilityHalt_IsHalted v)
      then ((False, ''volatility_halt''), g)
      else (case si_rateLimit g of
          Some l \<Rightarrow> if si_backtestSkipRateLimit g then ((True, ''''), g) else
            (let (ok, l') = OrderRateLimiter_Allow l ''signal'' now; g = g\<lparr>si_rateLimit := Some l'\<rparr>
             in if ok then ((True, ''''), g) else ((False, ''rate_limited''), g))
        | None \<Rightarrow> ((True, ''''), g)))"

definition SignalGateImpl_ApplySizing :: "SignalGateImpl \<Rightarrow> f64 \<Rightarrow> f64 \<Rightarrow> f64 \<Rightarrow> f64" where
  "SignalGateImpl_ApplySizing g baseSize runningCapital confidence =
     (if baseSize \<le> 0 \<or> runningCapital \<le> 0 then 0
      else case si_sizer g of None \<Rightarrow> baseSize
         | Some ps \<Rightarrow> PositionSizer_ComputeSizeUncapped ps confidence baseSize 0)"

definition SignalGateImpl_CheckExposure ::
  "SignalGateImpl \<Rightarrow> string \<Rightarrow> string \<Rightarrow> f64 \<Rightarrow> bool \<times> string" where
  "SignalGateImpl_CheckExposure g symbol side notional = (case si_exposure g of
       None \<Rightarrow> (True, '''') | Some e \<Rightarrow> ExposureTracker_CheckOrder e symbol side notional)"

definition SignalGateImpl_RecordExposure ::
  "SignalGateImpl \<Rightarrow> string \<Rightarrow> string \<Rightarrow> f64 \<Rightarrow> SignalGateImpl" where
  "SignalGateImpl_RecordExposure g symbol side notional = (case si_exposure g of None \<Rightarrow> g
     | Some e \<Rightarrow> g\<lparr>si_exposure := Some (ExposureTracker_AddPosition e symbol side notional)\<rparr>)"

definition SignalGateImpl_RemoveExposure ::
  "SignalGateImpl \<Rightarrow> string \<Rightarrow> string \<Rightarrow> f64 \<Rightarrow> SignalGateImpl" where
  "SignalGateImpl_RemoveExposure g symbol side notional = (case si_exposure g of None \<Rightarrow> g
     | Some e \<Rightarrow> g\<lparr>si_exposure := Some (ExposureTracker_RemovePosition e symbol side notional)\<rparr>)"

definition SignalGateImpl_VolatilityHalt :: "SignalGateImpl \<Rightarrow> VolatilityHalt option" where
  "SignalGateImpl_VolatilityHalt g = si_volHalt g"

definition SignalGateImpl_PositionSizer :: "SignalGateImpl \<Rightarrow> PositionSizer option" where
  "SignalGateImpl_PositionSizer g = si_sizer g"

definition SignalGateImpl_ExposureTracker :: "SignalGateImpl \<Rightarrow> ExposureTracker option" where
  "SignalGateImpl_ExposureTracker g = si_exposure g"

definition clamp :: "f64 \<Rightarrow> f64 \<Rightarrow> f64 \<Rightarrow> f64" where
  "clamp v lo hi = (if v < lo then lo else if v > hi then hi else v)"

definition SignalGateImpl_ApplyPWin :: "SignalGateImpl \<Rightarrow> f64 \<Rightarrow> f64 \<Rightarrow> f64" where
  "SignalGateImpl_ApplyPWin g baseSize pWin =
     (if pWin \<le> 0 then 0 else baseSize * clamp (pWin * lit (15/10)) 0 1)"

section \<open>Sizing only shrinks\<close>

lemma math_max_fin_nonneg: "fin_nonneg x \<Longrightarrow> feqv (math_max 0 x) x"
  by (auto simp: fin_nonneg_def math_max_def fin_less feqv_def is_zero_iff zero_f64_def fsign_def
      is_zero_def elim!: is_finE)

lemma math_max_shrink:
  "fin_nonneg x \<Longrightarrow> fin_nonneg (math_max 0 x)" "fin_nonneg x \<Longrightarrow> x \<le> b \<Longrightarrow> math_max 0 x \<le> b"
  by (simp_all add: fin_nonneg_feqv[OF math_max_fin_nonneg] feqv_le[OF math_max_fin_nonneg])

lemma unit_scale_min: "0 \<le> c \<Longrightarrow> unit_scale (math_min c 1)"
  by (cases c) (auto simp: unit_scale_def math_min_def less_eq_f64_def less_f64_def is_zero_def)

lemma unit_scale_correlation:
  assumes "0 \<le> y"
  shows "unit_scale (1 / (1 + y))"
proof -
  consider "y = FPosInf" | "is_fin y" "0 \<le> fval y" using nonneg_cases[OF assms] by blast
  then show ?thesis
  proof cases
    case 1
    then show ?thesis by (simp add: unit_scale_def one_f64_def f64_eval)
  next
    case 2
    have "rnd 1 \<le> rnd (1 + fval y)" using 2 by (intro rnd_mono) simp
    then have "1 \<le> rnd (1 + fval y)" by (simp add: f64_eval one_f64_def)
    then have ge: "1 \<le> 1 + y" using add_feqv[of 1 y] 2 by (simp add: feqv_le)
    then consider "1 + y = FPosInf" | "is_fin (1 + y)" "1 \<le> fval (1 + y)"
      by (cases "1 + y") (auto simp: less_eq_f64_def)
    then show ?thesis
    proof cases
      case 1
      then show ?thesis by (simp add: unit_scale_def one_f64_def f64_eval)
    next
      case 2
      have one: "fin_nonneg 1" by (simp add: fin_nonneg_def)
      have "feqv (1 / (1 + y)) (rnd (1 / fval (1 + y)))"
        using div_feqv[of 1 "1 + y"] 2 by simp
      then show ?thesis
        using rnd_shrink[OF one, of "1 / fval (1 + y)"] 2
        by (auto simp: unit_scale_def fin_nonneg_def feqv_is_fin feqv_fval fin_le)
    qed
  qed
qed

definition sizer_ok :: "PositionSizer \<Rightarrow> bool" where
  "sizer_ok ps \<longleftrightarrow> (pz_useMLRegime ps \<longrightarrow> unit_scale (math_max (pz_regimeScore ps * RegimeMLScale) 0))"

lemma sizing_scales [simp]:
  "unit_scale RegimeModerateMult" "unit_scale RegimeCrisisMult" "unit_scale VIXHighMult"
  "unit_scale VIXMidMult" "unit_scale VIXLowMult" "unit_scale SentimentExtremeMult"
  "unit_scale SentimentModerateMult"
  by (simp_all add: RegimeModerateMult_def RegimeCrisisMult_def VIXHighMult_def VIXMidMult_def
      VIXLowMult_def SentimentExtremeMult_def SentimentModerateMult_def unit_scale_lit)

lemma applyMultipliers_shrunk:
  assumes "fin_nonneg baseSize" "0 \<le> confidence" "sizer_ok ps"
  shows "shrunk baseSize (PositionSizer_applyMultipliers ps confidence baseSize existingPosition)"
proof (cases "baseSize \<le> 0")
  case True
  then show ?thesis using assms(1)
    by (simp add: PositionSizer_applyMultipliers_def shrunk_def fin_nonneg_ge0)
next
  case False
  have corr: "unit_scale (1 / (1 + e / baseSize))" if "0 < e" for e
    using that assms(1) False rnd_nonneg[of "fval e / fval baseSize"] div_feqv[of e baseSize]
    by (intro unit_scale_correlation)
      (cases "e = FPosInf"; cases e; auto simp: fin_nonneg_def fin_le less_f64_def feqv_le)
  show ?thesis
    unfolding PositionSizer_applyMultipliers_def Let_def if_not_P[OF False]
    by (intro shrunk_mul shrunk_if shrunk_refl assms(1) unit_scale_min assms(2) corr sizing_scales
        unit_scale_one) (use assms(3) in \<open>simp_all add: sizer_ok_def\<close>)
qed

definition signal_gate_ok :: "SignalGateImpl \<Rightarrow> bool" where
  "signal_gate_ok g \<longleftrightarrow> (case si_sizer g of None \<Rightarrow> True
     | Some ps \<Rightarrow> sizer_ok ps \<and> pz_lotSize ps \<le> 0)"

lemma ComputeSizeUncapped_shrunk:
  assumes "fin_nonneg baseSize" "0 \<le> confidence" "sizer_ok ps" "pz_lotSize ps \<le> 0"
  shows "shrunk baseSize (PositionSizer_ComputeSizeUncapped ps confidence baseSize existing)"
  using applyMultipliers_shrunk[OF assms(1-3), of existing] assms(4)
  by (simp add: PositionSizer_ComputeSizeUncapped_def RoundToLotSize_def shrunk_def math_max_shrink)

lemma ApplySizing_shrunk:
  assumes "signal_gate_ok g" "fin_nonneg baseSize" "0 \<le> confidence"
  shows "shrunk baseSize (SignalGateImpl_ApplySizing g baseSize runningCapital confidence)"
  using assms ComputeSizeUncapped_shrunk[of baseSize confidence _ 0]
  by (auto simp: SignalGateImpl_ApplySizing_def signal_gate_ok_def shrunk_def fin_nonneg_ge0
      fin_nonneg_not_nan split: option.splits)

text \<open>Without lot rounding, sizing never enlarges an order: for every VIX, sentiment and regime, a
  machine learning score that is off or at most 1 after it is scaled by one and a half and
  raised to 0, and a confidence of at least 0, the result is finite, not negative and at
  most the size the strategy asked for. A score above two thirds enlarges it.\<close>

theorem ApplySizing_never_enlarges:
  assumes "signal_gate_ok g" "fin_nonneg baseSize" "0 \<le> confidence"
  shows "is_fin (SignalGateImpl_ApplySizing g baseSize runningCapital confidence) \<and>
    0 \<le> SignalGateImpl_ApplySizing g baseSize runningCapital confidence \<and>
    SignalGateImpl_ApplySizing g baseSize runningCapital confidence \<le> baseSize"
  using ApplySizing_shrunk[OF assms, of runningCapital]
  by (simp add: shrunk_def fin_nonneg_ge0) (simp add: fin_nonneg_def)

definition sample_gate :: SignalGateImpl where
  "sample_gate = NewSignalGateImpl (Some (NewVolatilityHalt DefaultVolatilityHalt))
     (Some (PositionSizer_UpdateMarketState (NewPositionSizer None) (lit 30) 85 2))
     (Some (fresh_tracker (lit 2) 1 (lit 100000))) (Some (NewOrderRateLimiter DefaultOrderRateLimit))"

lemma sample_gate_ok: "signal_gate_ok sample_gate"
  by (simp add: signal_gate_ok_def sample_gate_def NewSignalGateImpl_def NewPositionSizer_def
      PositionSizer_UpdateMarketState_def sizer_ok_def)

theorem ApplySizing_never_enlarges_witness:
  "SignalGateImpl_ApplySizing sample_gate (lit 64) (lit 100000) (lit (1/2)) \<le> lit 64 \<and>
   SignalGateImpl_ApplySizing sample_gate (lit 64) (lit 100000) (lit (1/2)) = lit (27/2)"
proof -
  have "fin_nonneg (lit 64)" "0 \<le> lit (1/2)"
    by (simp_all add: fin_nonneg_def lit_numeral f64_eval)
  then show ?thesis
    using ApplySizing_never_enlarges[OF sample_gate_ok, of "lit 64" "lit (1/2)" "lit 100000"]
    by (simp add: SignalGateImpl_ApplySizing_def sample_gate_def NewSignalGateImpl_def
        NewPositionSizer_def PositionSizer_UpdateMarketState_def PositionSizer_ComputeSizeUncapped_def
        PositionSizer_applyMultipliers_def RoundToLotSize_def DefaultFTMOProfile_def
        RegimeModerateMult_def DefaultVIXHigh_def DefaultVIXMid_def VIXMidMult_def SentimentExtremeLow_def
        SentimentExtremeHigh_def SentimentModerateLow_def SentimentModerateHigh_def
        SentimentModerateMult_def Let_def f64_eval)
qed

section \<open>The signal gate interface\<close>

definition SignalGateImpl_gate :: "SignalGateImpl SignalGate" where
  "SignalGateImpl_gate = \<lparr>sg_ValidateSignal = SignalGateImpl_ValidateSignal,
     sg_ApplySizing = SignalGateImpl_ApplySizing, sg_CheckExposure = SignalGateImpl_CheckExposure,
     sg_RecordExposure = SignalGateImpl_RecordExposure, sg_RemoveExposure = SignalGateImpl_RemoveExposure\<rparr>"

lemma SignalGateImpl_sizer_frame [frame_simps]:
  "si_sizer (snd (SignalGateImpl_ValidateSignal g c now)) = si_sizer g"
  "si_sizer (SignalGateImpl_RecordExposure g symb side n) = si_sizer g"
  "si_sizer (SignalGateImpl_RemoveExposure g symb side n) = si_sizer g"
  by (auto simp: SignalGateImpl_ValidateSignal_def SignalGateImpl_RecordExposure_def
      SignalGateImpl_RemoveExposure_def Let_def split: option.splits prod.splits)

lemma signal_gate_ok_frame [frame_simps]:
  "signal_gate_ok (snd (SignalGateImpl_ValidateSignal g c now)) = signal_gate_ok g"
  "signal_gate_ok (SignalGateImpl_RecordExposure g symb side n) = signal_gate_ok g"
  "signal_gate_ok (SignalGateImpl_RemoveExposure g symb side n) = signal_gate_ok g"
  by (simp_all add: signal_gate_ok_def SignalGateImpl_sizer_frame)

lemma ValidateSignal_no_capital: "capital \<le> 0 \<Longrightarrow> \<not> fst (fst (SignalGateImpl_ValidateSignal g capital now))"
  by (simp add: SignalGateImpl_ValidateSignal_def)

interpretation signal_gate_impl: signal_gate SignalGateImpl_gate signal_gate_ok
  by unfold_locales
    (simp_all add: SignalGateImpl_gate_def ApplySizing_shrunk signal_gate_ok_frame ValidateSignal_no_capital)

end
