(* ===== verification/CapitalPool.thy ===== *)
theory CapitalPool
  imports Sizing
begin

text \<open>
  The live capital pool: \<open>internal/risk/capital_pool.go\<close> (\<open>CapitalPoolManager\<close>),
  \<open>capital_pool_math.go\<close> and \<open>multi_account_capital_pool.go\<close>. Each method runs under the
  pool's mutex. The map of strategies holds pointers that no other object shares, so the
  allocations are values of the map; the context argument of \<open>RequestCapital\<close> is not
  used by the code. A loop over a map is a loop over the association list: the order is
  arbitrary, and only \<open>TotalExposure\<close> and \<open>AggregateBalance\<close> (sums of \<open>float64\<close>) could see it.
\<close>

record StrategyAllocation =
  sa_StrategyID :: string
  sa_Allocated :: f64
  sa_Exposure :: f64
  sa_DailyPnL :: f64
  sa_PeakBalance :: f64
  sa_DrawdownPct :: f64
  sa_OpenLong :: "(string, f64) gomap"
  sa_OpenShort :: "(string, f64) gomap"
  sa_Suspended :: bool

record CapitalPoolManager =
  cp_poolState :: pool_state
  cp_accountID :: string
  cp_profile :: "profile option"
  cp_state :: "pf_state option"
  cp_strategies :: "(string, StrategyAllocation) gomap"
  cp_positionSizer :: PositionSizer

definition NewCapitalPoolManager :: "profile option \<Rightarrow> pf_state option \<Rightarrow> CapitalPoolManager" where
  "NewCapitalPoolManager profile state =
     (let startingBalance = (case state of None \<Rightarrow> lit 100000 | Some s \<Rightarrow> st_StartingBalance s)
      in \<lparr>cp_poolState = InitPoolState zero_pool_state startingBalance, cp_accountID = '''',
          cp_profile = profile, cp_state = state, cp_strategies = [],
          cp_positionSizer = NewPositionSizer profile\<rparr>)"

definition NewCapitalPoolManagerWithAccount ::
  "string \<Rightarrow> profile option \<Rightarrow> pf_state option \<Rightarrow> CapitalPoolManager" where
  "NewCapitalPoolManagerWithAccount accountID profile state =
     (NewCapitalPoolManager profile state)\<lparr>cp_accountID := accountID\<rparr>"

definition CapitalPoolManager_AccountID :: "CapitalPoolManager \<Rightarrow> string" where
  "CapitalPoolManager_AccountID c = cp_accountID c"

definition CapitalPoolManager_SetAccountID :: "CapitalPoolManager \<Rightarrow> string \<Rightarrow> CapitalPoolManager" where
  "CapitalPoolManager_SetAccountID c aid = c\<lparr>cp_accountID := aid\<rparr>"

definition CapitalPoolManager_SetProfile :: "CapitalPoolManager \<Rightarrow> profile option \<Rightarrow> CapitalPoolManager" where
  "CapitalPoolManager_SetProfile c profile =
     c\<lparr>cp_profile := profile, cp_positionSizer := NewPositionSizer profile\<rparr>"

definition CapitalPoolManager_UpdateState :: "CapitalPoolManager \<Rightarrow> pf_state option \<Rightarrow> CapitalPoolManager" where
  "CapitalPoolManager_UpdateState c state =
     (let c = c\<lparr>cp_state := state\<rparr> in
      case state of None \<Rightarrow> c
      | Some s \<Rightarrow>
         (let ps = (cp_poolState c)\<lparr>ps_TotalBalance := st_StartingBalance s + st_CumulativePnL s\<rparr>;
              ps = (if ps_TotalBalance ps > ps_TotalPeakBalance ps
                    then ps\<lparr>ps_TotalPeakBalance := ps_TotalBalance ps\<rparr> else ps)
          in c\<lparr>cp_poolState := ps\<rparr>))"

definition new_allocation :: "CapitalPoolManager \<Rightarrow> string \<Rightarrow> StrategyAllocation" where
  "new_allocation c sid = \<lparr>sa_StrategyID = sid, sa_Allocated = 0, sa_Exposure = 0, sa_DailyPnL = 0,
     sa_PeakBalance = ps_TotalBalance (cp_poolState c), sa_DrawdownPct = 0, sa_OpenLong = [],
     sa_OpenShort = [], sa_Suspended = False\<rparr>"

definition put_strategy :: "CapitalPoolManager \<Rightarrow> string \<Rightarrow> StrategyAllocation \<Rightarrow> CapitalPoolManager" where
  "put_strategy c sid s = c\<lparr>cp_strategies := mput (cp_strategies c) sid s\<rparr>"

text \<open>The strategy of a request or fill, created in the map when it is not there.\<close>

definition find_strategy :: "CapitalPoolManager \<Rightarrow> string \<Rightarrow> StrategyAllocation \<times> CapitalPoolManager" where
  "find_strategy c sid = (case mlookup (cp_strategies c) sid of
       Some s \<Rightarrow> (s, c)
     | None \<Rightarrow> (let s = new_allocation c sid in (s, put_strategy c sid s)))"

definition open_positions :: "CapitalPoolManager \<Rightarrow> int" where
  "open_positions c = foldl (\<lambda>n (_, s). n + int (length (sa_OpenLong s)) + int (length (sa_OpenShort s)))
     0 (cp_strategies c)"

definition CapitalPoolManager_RequestCapital ::
  "CapitalPoolManager \<Rightarrow> CapitalRequest \<Rightarrow> CapitalResult \<times> CapitalPoolManager" where
  "CapitalPoolManager_RequestCapital c req =
     (let p = (case cp_profile c of None \<Rightarrow> DefaultFTMOProfile | Some p \<Rightarrow> p);
          symbol = cr_Symbol req;
          (strat, c) = find_strategy c (cr_StrategyID req);
          compute = (\<lambda>existing. PositionSizer_ComputeSize (cp_positionSizer c) (cr_Confidence req)
             (cr_BaseSize req) symbol (sa_Allocated strat) existing)
      in if (case cp_state c of None \<Rightarrow> False | Some s \<Rightarrow> st_Violated s)
      then (capital_result 0 ''prop_firm_violated'', c)
      else if cr_Side req = ''BUY'' \<and> mget 0 (sa_OpenLong strat) symbol > 0
      then (let sz = compute (mget 0 (sa_OpenLong strat) symbol)
            in if sz \<le> 0 then (capital_result 0 ''correlation_limit'', c)
               else (capital_result sz ''ok'', c))
      else if cr_Side req = ''SELL'' \<and> mget 0 (sa_OpenShort strat) symbol > 0
      then (let sz = compute (mget 0 (sa_OpenShort strat) symbol)
            in if sz \<le> 0 then (capital_result 0 ''correlation_limit'', c)
               else (capital_result sz ''ok'', c))
      else if open_positions c \<ge> pf_MaxOpenPositions p
      then (capital_result 0 ''max_open_positions'', c)
      else if cp_state c \<noteq> None \<and>
         (let dayStart = ps_TotalBalance (cp_poolState c) - ps_DailyPnL (cp_poolState c)
          in dayStart > 0 \<and>
             DailyLossExceeded dayStart (ps_TotalBalance (cp_poolState c)) (pf_MaxDailyLossPct p))
      then (capital_result 0 ''daily_loss_limit'', c)
      else if DrawdownPct (sa_PeakBalance strat) (ps_TotalBalance (cp_poolState c))
                > pf_MaxDrawdownPct p * lit (5/10)
      then (capital_result 0 ''per_strategy_drawdown_suspended'',
            put_strategy c (cr_StrategyID req) (strat\<lparr>sa_Suspended := True\<rparr>))
      else if sa_Suspended strat then (capital_result 0 ''strategy_suspended'', c)
      else (let sz = compute 0 in
            if sz \<le> 0 then (capital_result 0 ''size_zero'', c)
            else (let strat = strat\<lparr>sa_Allocated := sa_Allocated strat + sz\<rparr>;
                      strat = (if cr_Side req = ''BUY''
                        then strat\<lparr>sa_OpenLong := mput (sa_OpenLong strat) symbol
                               (mget 0 (sa_OpenLong strat) symbol + sz)\<rparr>
                        else strat\<lparr>sa_OpenShort := mput (sa_OpenShort strat) symbol
                               (mget 0 (sa_OpenShort strat) symbol + sz)\<rparr>)
                  in (capital_result sz ''ok'', put_strategy c (cr_StrategyID req) strat))))"

text \<open>\<open>m[k] -= q\<close>, and the entry deleted when it is then not positive.\<close>

definition reduce_entry :: "(string, f64) gomap \<Rightarrow> string \<Rightarrow> f64 \<Rightarrow> (string, f64) gomap" where
  "reduce_entry m k q = (let m = mput m k (mget 0 m k - q) in
     if mget 0 m k \<le> 0 then mdelete m k else m)"

definition CapitalPoolManager_RecordFill ::
  "CapitalPoolManager \<Rightarrow> string \<Rightarrow> string \<Rightarrow> string \<Rightarrow> f64 \<Rightarrow> f64 \<Rightarrow> CapitalPoolManager" where
  "CapitalPoolManager_RecordFill c strategyID symbol side pnl quantity =
     (let (s, c) = find_strategy c strategyID;
          s = s\<lparr>sa_DailyPnL := sa_DailyPnL s + pnl\<rparr>;
          s = (if side = ''BUY''
               then s\<lparr>sa_OpenLong := reduce_entry (sa_OpenLong s) symbol quantity\<rparr>
               else s\<lparr>sa_OpenShort := reduce_entry (sa_OpenShort s) symbol quantity\<rparr>);
          s = s\<lparr>sa_Allocated := sa_Allocated s - quantity\<rparr>;
          s = (if sa_Allocated s < 0 then s\<lparr>sa_Allocated := 0\<rparr> else s);
          ps = (cp_poolState c)\<lparr>ps_TotalBalance := ps_TotalBalance (cp_poolState c) + pnl\<rparr>;
          s = (if ps_TotalBalance ps > sa_PeakBalance s
               then s\<lparr>sa_PeakBalance := ps_TotalBalance ps\<rparr> else s);
          ps = UpdatePeakBalance ps;
          s = (if ps_TotalBalance ps > 0
               then s\<lparr>sa_DrawdownPct := DrawdownPct (sa_PeakBalance s) (ps_TotalBalance ps)\<rparr> else s)
      in put_strategy (c\<lparr>cp_poolState := ps\<rparr>) strategyID s)"

definition CapitalPoolManager_ResetDaily :: "CapitalPoolManager \<Rightarrow> CapitalPoolManager" where
  "CapitalPoolManager_ResetDaily c =
     c\<lparr>cp_strategies := mmap_vals (\<lambda>s. s\<lparr>sa_DailyPnL := 0\<rparr>) (cp_strategies c)\<rparr>"

definition CapitalPoolManager_StrategyMetrics :: "CapitalPoolManager \<Rightarrow> StrategyAllocation list" where
  "CapitalPoolManager_StrategyMetrics c = map snd (cp_strategies c)"

definition CapitalPoolManager_ResumeStrategy :: "CapitalPoolManager \<Rightarrow> string \<Rightarrow> CapitalPoolManager" where
  "CapitalPoolManager_ResumeStrategy c strategyID = (case mlookup (cp_strategies c) strategyID of
       None \<Rightarrow> c
     | Some s \<Rightarrow> put_strategy c strategyID
         (s\<lparr>sa_Suspended := False, sa_PeakBalance := ps_TotalBalance (cp_poolState c)\<rparr>))"

definition CapitalPoolManager_SuspendedStrategies :: "CapitalPoolManager \<Rightarrow> string list" where
  "CapitalPoolManager_SuspendedStrategies c =
     map fst (filter (\<lambda>(_, s). sa_Suspended s) (cp_strategies c))"

definition CapitalPoolManager_TotalBalance :: "CapitalPoolManager \<Rightarrow> f64" where
  "CapitalPoolManager_TotalBalance c = ps_TotalBalance (cp_poolState c)"

definition CapitalPoolManager_TotalExposure :: "CapitalPoolManager \<Rightarrow> f64" where
  "CapitalPoolManager_TotalExposure c = foldl (\<lambda>x (_, s). x + sa_Allocated s) 0 (cp_strategies c)"

definition CapitalPoolManager_Halted :: "CapitalPoolManager \<Rightarrow> bool" where
  "CapitalPoolManager_Halted c = (case cp_state c of None \<Rightarrow> False | Some s \<Rightarrow> st_Violated s)"

definition CapitalPoolManager_HaltReason :: "CapitalPoolManager \<Rightarrow> string" where
  "CapitalPoolManager_HaltReason c = (case cp_state c of None \<Rightarrow> '''' | Some s \<Rightarrow> st_ViolationReason s)"

definition CapitalPoolManager_HasOpenPosition :: "CapitalPoolManager \<Rightarrow> string \<Rightarrow> string \<Rightarrow> bool" where
  "CapitalPoolManager_HasOpenPosition c symbol side = list_ex
     (\<lambda>(_, s). side = ''BUY'' \<and> mget 0 (sa_OpenLong s) symbol > 0 \<or>
        side = ''SELL'' \<and> mget 0 (sa_OpenShort s) symbol > 0) (cp_strategies c)"

section \<open>CapitalPoolMath\<close>

record CapitalPoolMath =
  cm_TotalBalance :: f64
  cm_TotalPeakBalance :: f64
  cm_StartingBalance :: f64

definition CapitalPoolMath_UpdatePeakBalance :: "CapitalPoolMath \<Rightarrow> f64 \<Rightarrow> CapitalPoolMath" where
  "CapitalPoolMath_UpdatePeakBalance cpm balance =
     (if balance > cm_TotalPeakBalance cpm then cpm\<lparr>cm_TotalPeakBalance := balance\<rparr> else cpm)"

definition CapitalPoolMath_DrawdownPct :: "CapitalPoolMath \<Rightarrow> f64 \<Rightarrow> f64" where
  "CapitalPoolMath_DrawdownPct cpm balance = DrawdownPct (cm_TotalPeakBalance cpm) balance"

definition CapitalPoolMath_DailyLossPct :: "CapitalPoolMath \<Rightarrow> f64 \<Rightarrow> f64" where
  "CapitalPoolMath_DailyLossPct cpm balance = DailyLossPct (cm_StartingBalance cpm) balance"

definition CapitalPoolMath_IsDailyLossExceeded :: "CapitalPoolMath \<Rightarrow> f64 \<Rightarrow> f64 \<Rightarrow> bool" where
  "CapitalPoolMath_IsDailyLossExceeded cpm balance maxDailyLossPct =
     DailyLossExceeded (cm_StartingBalance cpm) balance maxDailyLossPct"

definition CapitalPoolMath_IsDrawdownExceeded :: "CapitalPoolMath \<Rightarrow> f64 \<Rightarrow> f64 \<Rightarrow> bool" where
  "CapitalPoolMath_IsDrawdownExceeded cpm balance maxDrawdownPct =
     DrawdownExceeded (cm_TotalPeakBalance cpm) balance maxDrawdownPct"

section \<open>The capital gate laws\<close>

definition alloc_ok :: "StrategyAllocation \<Rightarrow> bool" where
  "alloc_ok s \<longleftrightarrow> 0 \<le> sa_Allocated s \<and> f64_ok (sa_Allocated s)"

definition cpm_ok :: "CapitalPoolManager \<Rightarrow> bool" where
  "cpm_ok c \<longleftrightarrow> sizer_ok (cp_positionSizer c) \<and> unit_scale (pz_totalExpCap (cp_positionSizer c)) \<and>
     pz_lotSize (cp_positionSizer c) = 0 \<and> (\<forall>p\<in>set (cp_strategies c). alloc_ok (snd p))"

lemma ComputeSize_shrunk:
  assumes "fin_nonneg baseSize" "0 \<le> confidence" "sizer_ok ps" "unit_scale (pz_totalExpCap ps)"
    "pz_lotSize ps = 0" "0 \<le> alloc" "f64_ok alloc"
  shows "shrunk baseSize (PositionSizer_ComputeSize ps confidence baseSize symbol alloc existing)"
proof -
  define m where "m = PositionSizer_applyMultipliers ps confidence baseSize existing"
  define d where "d = baseSize * pz_totalExpCap ps - alloc"
  have m: "shrunk baseSize m" unfolding m_def by (rule applyMultipliers_shrunk[OF assms(1-3)])
  note cap = mul_unit_shrink[OF assms(1,4)]
  have d: "shrunk baseSize (if d < 0 then 0 else d)"
  proof (cases "alloc = FPosInf")
    case True
    then have "d = FNegInf" using cap(1) by (auto simp: d_def fin_nonneg_def inf_nan_ops elim!: is_finE)
      (simp_all add: minus_f64_def plus_f64_def uminus_f64_def is_inf_def)
    then show ?thesis using shrunk_zero[OF assms(1)] by (simp add: less_f64_def)
  next
    case False
    then have fa: "fin_nonneg alloc" using nonneg_cases[OF assms(6)] assms(7) by (auto simp: fin_nonneg_def)
    have nn: "baseSize * pz_totalExpCap ps \<noteq> FNaN" by (rule fin_nonneg_not_nan[OF cap(1)])
    have "d \<noteq> FNaN" unfolding d_def using fa nn by (intro sub_not_nan) (simp_all add: fin_nonneg_def)
    moreover have "d \<le> baseSize * pz_totalExpCap ps"
      unfolding d_def by (rule sub_le[OF fa nn]) (simp add: f64_ok_mul)
    then have "d \<le> baseSize" using cap(2) f64_le_trans by blast
    moreover have "f64_ok d" using fa by (simp add: d_def fin_nonneg_def)
    ultimately show ?thesis
      using shrunkI[OF assms(1), of d] shrunk_zero[OF assms(1)] by (auto simp: f64_not_less)
  qed
  have r: "shrunk baseSize (RoundToLotSize (math_max 0 x) 0)" if "shrunk baseSize x" for x
    using that by (simp add: RoundToLotSize_def shrunk_def math_max_shrink)
  show ?thesis
    unfolding PositionSizer_ComputeSize_def Let_def m_def[symmetric] d_def[symmetric] assms(5)
    using r m d shrunk_zero[OF assms(1)] by (auto simp: Let_def)
qed

lemma put_strategy_ok: "cpm_ok c \<Longrightarrow> alloc_ok s \<Longrightarrow> cpm_ok (put_strategy c sid s)"
  using mall_mput[of "cp_strategies c" alloc_ok s sid] by (simp add: cpm_ok_def put_strategy_def)

lemma find_strategy_ok:
  assumes "find_strategy c sid = (s, c')" "cpm_ok c"
  shows "cpm_ok c'" "alloc_ok s" "mlookup (cp_strategies c') sid = Some s"
proof -
  have new: "alloc_ok (new_allocation c sid)" by (simp add: alloc_ok_def new_allocation_def)
  show "cpm_ok c'" "alloc_ok s" "mlookup (cp_strategies c') sid = Some s"
    using assms new put_strategy_ok[OF assms(2) new, of sid]
      mall_lookup[of "cp_strategies c" alloc_ok sid s]
    by (cases "mlookup (cp_strategies c) sid"; simp add: find_strategy_def Let_def cpm_ok_def;
        auto simp: put_strategy_def)+
qed

lemma find_strategy_frame:
  assumes "find_strategy c sid = (s, c')"
  shows "cp_state c' = cp_state c" "cp_profile c' = cp_profile c"
    "cp_positionSizer c' = cp_positionSizer c" "cp_poolState c' = cp_poolState c"
  using assms by (auto simp: find_strategy_def Let_def put_strategy_def split: option.splits)



lemma RequestCapital_ok:
  assumes "cpm_ok c" "fin_nonneg (cr_BaseSize req)" "0 \<le> cr_Confidence req"
  shows "cpm_ok (snd (CapitalPoolManager_RequestCapital c req)) \<and>
    shrunk (cr_BaseSize req) (cs_ApprovedSize (fst (CapitalPoolManager_RequestCapital c req)))"
proof -
  obtain s c' where f: "find_strategy c (cr_StrategyID req) = (s, c')" by force
  note ok = find_strategy_ok[OF f assms(1)] and zero = shrunk_zero[OF assms(2)]
  have size: "shrunk (cr_BaseSize req) (PositionSizer_ComputeSize (cp_positionSizer c')
      (cr_Confidence req) (cr_BaseSize req) (cr_Symbol req) (sa_Allocated s) e)" for e
    using ok(1,2) by (intro ComputeSize_shrunk assms) (auto simp: cpm_ok_def alloc_ok_def)
  have add: "alloc_ok (s\<lparr>sa_Allocated := sa_Allocated s + x\<rparr>)" if "shrunk (cr_BaseSize req) x" for x
    using ok(2) that by (auto simp: alloc_ok_def shrunk_def add_pos) (simp add: fin_nonneg_def)
  have upd: "alloc_ok (t\<lparr>sa_OpenLong := m\<rparr>) = alloc_ok t" "alloc_ok (t\<lparr>sa_OpenShort := m\<rparr>) = alloc_ok t"
    "alloc_ok (t\<lparr>sa_Suspended := b\<rparr>) = alloc_ok t" for t m b
    by (simp_all add: alloc_ok_def)
  show ?thesis
    unfolding CapitalPoolManager_RequestCapital_def Let_def f
    using ok size zero add by (simp add: put_strategy_ok upd split: option.split)
qed

lemma RecordFill_ok:
  assumes "cpm_ok c" "fin_nonneg qty"
  shows "cpm_ok (CapitalPoolManager_RecordFill c sid symb side pnl qty)"
proof -
  obtain s c' where f: "find_strategy c sid = (s, c')" by force
  note ok = find_strategy_ok[OF f assms(1)]
  have "sa_Allocated s - qty \<noteq> FNaN"
    using ok(2) assms(2) by (intro sub_not_nan) (auto simp: alloc_ok_def fin_nonneg_def)
  then have "0 \<le> sa_Allocated s - qty" if "\<not> sa_Allocated s - qty < 0"
    using that by (simp add: f64_not_less)
  then have "alloc_ok (s\<lparr>sa_Allocated := if sa_Allocated s - qty < 0 then 0 else sa_Allocated s - qty\<rparr>)"
    using ok(2) assms(2) by (simp add: alloc_ok_def fin_nonneg_def)
  then show ?thesis
    unfolding CapitalPoolManager_RecordFill_def Let_def f prod.case
    using ok(1) by (intro put_strategy_ok) (simp_all add: cpm_ok_def alloc_ok_def split: if_splits)
qed

lemma ResetDaily_ok: "cpm_ok c \<Longrightarrow> cpm_ok (CapitalPoolManager_ResetDaily c)"
  by (auto simp: cpm_ok_def CapitalPoolManager_ResetDaily_def mmap_vals_def alloc_ok_def)

lemma halted_request: "CapitalPoolManager_Halted c \<Longrightarrow>
    fst (CapitalPoolManager_RequestCapital c req) = capital_result 0 ''prop_firm_violated''"
  by (cases "find_strategy c (cr_StrategyID req)")
    (auto simp: CapitalPoolManager_RequestCapital_def CapitalPoolManager_Halted_def Let_def
      find_strategy_frame split: option.splits)

definition CapitalPoolManager_gate :: "CapitalPoolManager CapitalGate" where
  "CapitalPoolManager_gate = \<lparr>cg_RequestCapital = CapitalPoolManager_RequestCapital,
     cg_RecordFill = CapitalPoolManager_RecordFill, cg_ResetDaily = CapitalPoolManager_ResetDaily,
     cg_Halted = CapitalPoolManager_Halted, cg_HaltReason = CapitalPoolManager_HaltReason,
     cg_TotalBalance = CapitalPoolManager_TotalBalance,
     cg_HasOpenPosition = Some CapitalPoolManager_HasOpenPosition,
     cg_ApplyCorrelationReduction = None, cg_PerStrategyDrawdown = None\<rparr>"

interpretation live_pool: capital_gate CapitalPoolManager_gate cpm_ok
proof unfold_locales
  fix s :: CapitalPoolManager and r :: CapitalRequest
  assume "cpm_ok s" "fin_nonneg (cr_BaseSize r)" "0 \<le> cr_Confidence r"
  note ok = RequestCapital_ok[OF this]
  then show "cs_ApprovedSize (fst (cg_RequestCapital CapitalPoolManager_gate s r)) \<le> cr_BaseSize r \<and>
      f64_ok (cs_ApprovedSize (fst (cg_RequestCapital CapitalPoolManager_gate s r)))"
    by (simp add: CapitalPoolManager_gate_def shrunk_def fin_nonneg_def)
qed (simp_all add: CapitalPoolManager_gate_def RequestCapital_ok halted_request RecordFill_ok ResetDaily_ok)

section \<open>The limit on open positions\<close>

definition strategy_open :: "StrategyAllocation \<Rightarrow> int" where
  "strategy_open s = int (length (sa_OpenLong s)) + int (length (sa_OpenShort s))"

lemma open_positions_msum: "open_positions c = msum strategy_open (cp_strategies c)"
proof -
  have "foldl (\<lambda>n (_, s). n + int (length (sa_OpenLong s)) + int (length (sa_OpenShort s))) a xs =
      a + msum strategy_open xs" for a and xs :: "(string \<times> StrategyAllocation) list"
    by (induction xs arbitrary: a) (auto simp: msum_def strategy_open_def)
  then show ?thesis by (simp add: open_positions_def)
qed

lemma open_find: "find_strategy c sid = (s, c') \<Longrightarrow> open_positions c' = open_positions c \<and>
    mlookup (cp_strategies c') sid = Some s"
  by (auto simp: find_strategy_def Let_def open_positions_msum put_strategy_def msum_mput
      new_allocation_def strategy_open_def split: option.splits)

lemma open_put: "mlookup (cp_strategies c) sid = Some s \<Longrightarrow>
    open_positions (put_strategy c sid t) = open_positions c - strategy_open s + strategy_open t"
  by (simp add: open_positions_msum put_strategy_def msum_mput)

lemma length_reduce_entry:
  assumes "fin_nonneg q"
  shows "length (reduce_entry m k q) \<le> length m"
proof (cases "mlookup m k")
  case None
  have "mget 0 m k - q \<le> 0" using sub_le[OF assms, of 0] None by (simp add: mget_def)
  then show ?thesis by (simp add: reduce_entry_def Let_def length_mdelete_le)
next
  case Some
  then show ?thesis by (simp add: reduce_entry_def Let_def length_mdelete_le length_mput)
qed

lemma RequestCapital_open:
  "open_positions (snd (CapitalPoolManager_RequestCapital c req)) \<le>
     max (open_positions c) (pf_MaxOpenPositions (case cp_profile c of None \<Rightarrow> DefaultFTMOProfile | Some p \<Rightarrow> p))"
proof -
  obtain s c' where f: "find_strategy c (cr_StrategyID req) = (s, c')" by force
  have o: "open_positions c' = open_positions c" "mlookup (cp_strategies c') (cr_StrategyID req) = Some s"
    using open_find[OF f] by simp_all
  show ?thesis
    unfolding CapitalPoolManager_RequestCapital_def Let_def f
    using o by (simp add: open_put strategy_open_def length_mput)
qed

lemma RecordFill_open:
  assumes "fin_nonneg qty"
  shows "open_positions (CapitalPoolManager_RecordFill c sid symb side pnl qty) \<le> open_positions c"
proof -
  obtain s c' where f: "find_strategy c sid = (s, c')" by force
  have o: "open_positions c' = open_positions c" "mlookup (cp_strategies c') sid = Some s"
    using open_find[OF f] by simp_all
  have "open_positions (put_strategy (c'\<lparr>cp_poolState := ps\<rparr>) sid t) =
      open_positions c - strategy_open s + strategy_open t" for ps t
    using o open_put[of "c'\<lparr>cp_poolState := ps\<rparr>" sid s t] by (simp add: open_positions_def)
  then show ?thesis
    using length_reduce_entry[OF assms]
    by (simp add: CapitalPoolManager_RecordFill_def Let_def f strategy_open_def)
qed

text \<open>The operations of the pool, for a run.\<close>

datatype cpm_op =
    CpmRequest CapitalRequest
  | CpmFill string string string f64 f64
  | CpmResetDaily
  | CpmResume string
  | CpmUpdateState "pf_state option"

fun cpm_step :: "CapitalPoolManager \<Rightarrow> cpm_op \<Rightarrow> CapitalPoolManager" where
  "cpm_step c (CpmRequest req) = snd (CapitalPoolManager_RequestCapital c req)"
| "cpm_step c (CpmFill sid symb side pnl qty) = CapitalPoolManager_RecordFill c sid symb side pnl qty"
| "cpm_step c CpmResetDaily = CapitalPoolManager_ResetDaily c"
| "cpm_step c (CpmResume sid) = CapitalPoolManager_ResumeStrategy c sid"
| "cpm_step c (CpmUpdateState st) = CapitalPoolManager_UpdateState c st"

fun cpm_op_ok :: "cpm_op \<Rightarrow> bool" where
  "cpm_op_ok (CpmFill sid symb side pnl qty) \<longleftrightarrow> f64_ok pnl \<and> fin_nonneg qty"
| "cpm_op_ok (CpmUpdateState (Some s)) \<longleftrightarrow> f64_ok (st_StartingBalance s) \<and> f64_ok (st_CumulativePnL s)"
| "cpm_op_ok op \<longleftrightarrow> True"

lemma RequestCapital_frame:
  "cp_profile (snd (CapitalPoolManager_RequestCapital c req)) = cp_profile c"
  "cp_poolState (snd (CapitalPoolManager_RequestCapital c req)) = cp_poolState c"
proof -
  obtain s c' where f: "find_strategy c (cr_StrategyID req) = (s, c')" by force
  show "cp_profile (snd (CapitalPoolManager_RequestCapital c req)) = cp_profile c"
    "cp_poolState (snd (CapitalPoolManager_RequestCapital c req)) = cp_poolState c"
    unfolding CapitalPoolManager_RequestCapital_def Let_def f
    by (simp_all add: put_strategy_def find_strategy_frame[OF f])
qed

lemma cpm_step_profile: "cp_profile (cpm_step c op) = cp_profile c"
proof (cases op)
  case (CpmFill sid symb side pnl qty)
  then show ?thesis by (cases "find_strategy c sid")
    (simp add: CapitalPoolManager_RecordFill_def Let_def put_strategy_def find_strategy_frame)
qed (auto simp: RequestCapital_frame CapitalPoolManager_ResetDaily_def put_strategy_def Let_def
    CapitalPoolManager_ResumeStrategy_def CapitalPoolManager_UpdateState_def split: option.splits)

lemma cpm_step_open:
  assumes "cpm_op_ok op"
  shows "open_positions (cpm_step c op) \<le>
    max (open_positions c) (pf_MaxOpenPositions (case cp_profile c of None \<Rightarrow> DefaultFTMOProfile | Some p \<Rightarrow> p))"
proof (cases op)
  case (CpmFill sid symb side pnl qty)
  then show ?thesis using RecordFill_open[of qty c sid symb side pnl] assms by simp
next
  case (CpmResume sid)
  then show ?thesis
    by (auto simp: CapitalPoolManager_ResumeStrategy_def open_put strategy_open_def split: option.splits)
next
  case (CpmUpdateState st)
  then show ?thesis
    by (auto simp: CapitalPoolManager_UpdateState_def Let_def open_positions_def split: option.splits)
next
  case CpmResetDaily
  then show ?thesis
    by (simp add: CapitalPoolManager_ResetDaily_def open_positions_msum msum_mmap_vals strategy_open_def)
qed (simp add: RequestCapital_open)

text \<open>C25: No sequence of requests, fills, daily resets, resumptions and state updates takes the
  pool above the profile's limit of open positions, whatever the strategies, symbols and
  sizes are.\<close>

theorem open_positions_bounded:
  assumes "\<forall>op\<in>set ops. cpm_op_ok op"
  shows "open_positions (foldl cpm_step (NewCapitalPoolManager (Some p) state) ops) \<le>
    max 0 (pf_MaxOpenPositions p)"
proof -
  have "open_positions (foldl cpm_step c ops) \<le> max 0 (pf_MaxOpenPositions p)"
    if "open_positions c \<le> max 0 (pf_MaxOpenPositions p)" "cp_profile c = Some p" for c
    using assms that
  proof (induction ops arbitrary: c)
    case (Cons op ops)
    then show ?case using cpm_step_open[of op c] by (auto simp: cpm_step_profile)
  qed simp
  then show ?thesis by (simp add: NewCapitalPoolManager_def open_positions_def)
qed

definition sample_pool :: CapitalPoolManager where
  "sample_pool = NewCapitalPoolManager (Some DefaultFTMOProfile) (Some (zero_pf_state
     \<lparr>st_StartingBalance := lit 100000\<rparr>))"

definition sample_request :: "string \<Rightarrow> f64 \<Rightarrow> CapitalRequest" where
  "sample_request symb sz = \<lparr>cr_StrategyID = ''s1'', cr_Confidence = 1, cr_Symbol = symb,
     cr_Side = ''BUY'', cr_BaseSize = sz\<rparr>"

theorem open_positions_bounded_witness:
  "open_positions (foldl cpm_step sample_pool [CpmRequest (sample_request ''A'' (lit 100)),
     CpmFill ''s1'' ''A'' ''BUY'' 1 1, CpmResetDaily]) \<le> 5"
proof -
  have "fin_nonneg 1" by (simp add: fin_nonneg_def)
  then show ?thesis
    using open_positions_bounded[of "[CpmRequest (sample_request ''A'' (lit 100)),
       CpmFill ''s1'' ''A'' ''BUY'' 1 1, CpmResetDaily]" DefaultFTMOProfile
      "Some (zero_pf_state\<lparr>st_StartingBalance := lit 100000\<rparr>)"]
    by (simp add: sample_pool_def) (simp add: DefaultFTMOProfile_def)
qed

section \<open>Approvals\<close>

lemma cpm_ok_New: "cpm_ok (NewCapitalPoolManager profile state)"
  by (simp add: cpm_ok_def NewCapitalPoolManager_def NewPositionSizer_def sizer_ok_def
      DefaultTotalExpCap_def unit_scale_lit)

text \<open>What the live pool approves is never more than what was asked for, and it approves
  nothing while the prop firm state is violated.\<close>

theorem approved_at_most_requested:
  assumes "cpm_ok c" "fin_nonneg (cr_BaseSize req)" "0 \<le> cr_Confidence req"
  shows "cs_ApprovedSize (fst (CapitalPoolManager_RequestCapital c req)) \<le> cr_BaseSize req \<and>
    (CapitalPoolManager_Halted c \<longrightarrow>
       cs_ApprovedSize (fst (CapitalPoolManager_RequestCapital c req)) = 0) \<and>
    cpm_ok (snd (CapitalPoolManager_RequestCapital c req))"
  using live_pool.request_le[OF assms] live_pool.request_inv[OF assms] live_pool.halted_zero[of c req]
  by (simp add: CapitalPoolManager_gate_def)

theorem approved_at_most_requested_witness:
  "cs_ApprovedSize (fst (CapitalPoolManager_RequestCapital sample_pool (sample_request ''A'' (lit 100))))
     \<le> lit 100"
proof -
  have "fin_nonneg (cr_BaseSize (sample_request ''A'' (lit 100)))"
    "0 \<le> cr_Confidence (sample_request ''A'' (lit 100))"
    by (simp add: sample_request_def) (simp add: sample_request_def f64_eval)
  then show ?thesis
    using approved_at_most_requested[of sample_pool "sample_request ''A'' (lit 100)"]
    by (simp add: sample_pool_def cpm_ok_New) (simp add: sample_request_def)
qed

section \<open>The daily loss limit of the live pool\<close>

definition cpm_no_daily :: "CapitalPoolManager \<Rightarrow> bool" where
  "cpm_no_daily c \<longleftrightarrow> ps_DailyPnL (cp_poolState c) = 0 \<and> f64_ok (ps_TotalBalance (cp_poolState c))"

lemma cpm_step_no_daily: "cpm_no_daily c \<Longrightarrow> cpm_op_ok op \<Longrightarrow> cpm_no_daily (cpm_step c op)"
proof (cases op)
  case (CpmFill sid symb side pnl qty)
  assume "cpm_no_daily c" "cpm_op_ok op"
  with CpmFill show ?thesis by (cases "find_strategy c sid")
    (simp add: CapitalPoolManager_RecordFill_def Let_def put_strategy_def find_strategy_frame
      cpm_no_daily_def UpdatePeakBalance_def)
qed (auto simp: cpm_no_daily_def RequestCapital_frame CapitalPoolManager_ResetDaily_def
    put_strategy_def CapitalPoolManager_ResumeStrategy_def CapitalPoolManager_UpdateState_def Let_def
    split: option.splits)

lemma no_loss_from_own_balance:
  assumes "f64_ok t" "0 < maxLoss"
  shows "\<not> (0 < t - 0 \<and> DailyLossExceeded (t - 0) t maxLoss)"
proof -
  have neg: "\<not> Fin 0 \<le> - maxLoss"
    using assms(2) by (cases maxLoss) (auto simp: f64_eval less_eq_f64_def less_f64_def)
  show ?thesis
  proof (cases t)
    case (Fin q)
    then have r: "t - 0 = Fin q" using assms(1) by (simp add: f64_eval rnd_representable)
    show ?thesis
    proof (cases "0 < q")
      case True
      then have "DailyLossPct (Fin q) (Fin q) = Fin 0"
        by (simp add: DailyLossPct_def f64_eval)
      with neg r Fin show ?thesis by (simp add: DailyLossExceeded_def)
    qed (simp add: r, simp add: f64_eval)
  qed (simp_all add: DailyLossExceeded_def DailyLossPct_def f64_eval minus_f64_def plus_f64_def
      less_f64_def is_inf_def)
qed

text \<open>Fills change the pool's balance but never its daily profit and loss, so the day's
  opening balance is always the current balance: in no reachable state does the live pool
  refuse a request with \<open>daily_loss_limit\<close>, however much the day has lost.\<close>

theorem daily_loss_limit_never_fires:
  assumes "\<forall>op\<in>set ops. cpm_op_ok op" "0 < pf_MaxDailyLossPct p"
    and "f64_ok (st_StartingBalance s)"
  shows "cs_Reason (fst (CapitalPoolManager_RequestCapital
    (foldl cpm_step (NewCapitalPoolManager (Some p) (Some s)) ops) req)) \<noteq> ''daily_loss_limit''"
proof -
  define c where "c = foldl cpm_step (NewCapitalPoolManager (Some p) (Some s)) ops"
  have inv: "cpm_no_daily (foldl cpm_step c ops) \<and> cp_profile (foldl cpm_step c ops) = Some p"
    if "cpm_no_daily c" "cp_profile c = Some p" for c
    using assms(1) that
    by (induction ops arbitrary: c) (simp_all add: cpm_step_no_daily cpm_step_profile)
  have c: "cpm_no_daily c" "cp_profile c = Some p"
    using inv[of "NewCapitalPoolManager (Some p) (Some s)"] assms(3)
    by (simp_all add: c_def cpm_no_daily_def NewCapitalPoolManager_def InitPoolState_def
        zero_pool_state_def Let_def)
  obtain a c' where f: "find_strategy c (cr_StrategyID req) = (a, c')" by force
  show ?thesis
    using no_loss_from_own_balance[OF _ assms(2), of "ps_TotalBalance (cp_poolState c)"] c
    unfolding c_def[symmetric] CapitalPoolManager_RequestCapital_def Let_def f
    by (auto simp: find_strategy_frame[OF f] cpm_no_daily_def)
qed

text \<open>A strategy with an open position in the symbol and direction of the request is answered
  by the sizer alone: the suspension of the strategy, its drawdown, the daily loss and the
  limit on open positions are not looked at, and the pool does not account for the size it
  approves.\<close>

theorem open_position_bypasses_checks:
  assumes "mlookup (cp_strategies c) (cr_StrategyID req) = Some s" "\<not> CapitalPoolManager_Halted c"
    and "cr_Side req = ''BUY''" "0 < mget 0 (sa_OpenLong s) (cr_Symbol req)"
  shows "CapitalPoolManager_RequestCapital c req =
    (let sz = PositionSizer_ComputeSize (cp_positionSizer c) (cr_Confidence req) (cr_BaseSize req)
           (cr_Symbol req) (sa_Allocated s) (mget 0 (sa_OpenLong s) (cr_Symbol req))
     in (if sz \<le> 0 then capital_result 0 ''correlation_limit'' else capital_result sz ''ok'', c))"
  using assms by (auto simp: CapitalPoolManager_RequestCapital_def find_strategy_def Let_def
      CapitalPoolManager_Halted_def split: option.splits)

theorem open_position_bypasses_checks_witness:
  "let s = (new_allocation sample_pool ''s1'')\<lparr>sa_OpenLong := [(''A'', 1)], sa_Suspended := True\<rparr>;
       c = put_strategy sample_pool ''s1'' s
   in CapitalPoolManager_RequestCapital c (sample_request ''A'' 1) = (capital_result (lit (1/4)) ''ok'', c)"
proof -
  define s where "s = (new_allocation sample_pool ''s1'')\<lparr>sa_OpenLong := [(''A'', 1)], sa_Suspended := True\<rparr>"
  define c where "c = put_strategy sample_pool ''s1'' s"
  have "mlookup (cp_strategies c) (cr_StrategyID (sample_request ''A'' 1)) = Some s"
    by (simp add: c_def put_strategy_def sample_request_def)
  moreover have "\<not> CapitalPoolManager_Halted c"
    by (simp add: c_def put_strategy_def CapitalPoolManager_Halted_def sample_pool_def
        NewCapitalPoolManager_def zero_pf_state_def)
  moreover have "cr_Side (sample_request ''A'' 1) = ''BUY''"
    "0 < mget 0 (sa_OpenLong s) (cr_Symbol (sample_request ''A'' 1))"
    by (simp_all add: sample_request_def s_def mget_def f64_eval)
  moreover have "PositionSizer_ComputeSize (cp_positionSizer c) 1 1 ''A'' (sa_Allocated s) 1 = lit (1/4)"
    by (simp add: c_def s_def put_strategy_def sample_pool_def NewCapitalPoolManager_def
        NewPositionSizer_def new_allocation_def PositionSizer_ComputeSize_def
        PositionSizer_applyMultipliers_def DefaultFTMOProfile_def DefaultVIXHigh_def DefaultVIXMid_def
        DefaultVIXLow_def SentimentExtremeLow_def SentimentExtremeHigh_def SentimentModerateLow_def
        SentimentModerateHigh_def SentimentExtremeMult_def DefaultTotalExpCap_def RoundToLotSize_def Let_def f64_eval)
  ultimately show ?thesis
    using open_position_bypasses_checks[of c "sample_request ''A'' 1" s]
    unfolding Let_def c_def[symmetric] s_def[symmetric]
    by (simp add: sample_request_def s_def mget_def f64_eval)
qed

theorem daily_loss_limit_never_fires_witness:
  "let c = foldl cpm_step sample_pool [CpmFill ''s1'' ''A'' ''BUY'' (lit (- 50000)) 1] in
     CapitalPoolManager_TotalBalance c = lit 50000 \<and>
     cs_Reason (fst (CapitalPoolManager_RequestCapital c (sample_request ''A'' 1))) \<noteq> ''daily_loss_limit''"
proof -
  have hyp: "\<forall>op\<in>set [CpmFill ''s1'' ''A'' ''BUY'' (lit (- 50000)) 1]. cpm_op_ok op"
    "0 < pf_MaxDailyLossPct DefaultFTMOProfile"
    "f64_ok (st_StartingBalance (zero_pf_state\<lparr>st_StartingBalance := lit 100000\<rparr>))"
    by (simp_all add: fin_nonneg_def DefaultFTMOProfile_def) (simp_all add: f64_eval)
  have "CapitalPoolManager_TotalBalance
      (foldl cpm_step sample_pool [CpmFill ''s1'' ''A'' ''BUY'' (lit (- 50000)) 1]) = lit 50000"
    by (simp add: sample_pool_def NewCapitalPoolManager_def InitPoolState_def zero_pool_state_def
        zero_pf_state_def CapitalPoolManager_RecordFill_def find_strategy_def Let_def put_strategy_def
        new_allocation_def CapitalPoolManager_TotalBalance_def UpdatePeakBalance_def f64_eval)
  with daily_loss_limit_never_fires[OF hyp, of "sample_request ''A'' 1"] show ?thesis
    unfolding sample_pool_def Let_def by simp
qed

section \<open>MultiAccountCapitalPool\<close>

type_synonym MultiAccountCapitalPool = "(string, CapitalPoolManager) gomap"

definition NewMultiAccountCapitalPool :: MultiAccountCapitalPool where
  "NewMultiAccountCapitalPool = []"

definition MultiAccountCapitalPool_RegisterPool :: "MultiAccountCapitalPool \<Rightarrow> string \<Rightarrow>
  profile option \<Rightarrow> pf_state option \<Rightarrow> MultiAccountCapitalPool" where
  "MultiAccountCapitalPool_RegisterPool m accountID profile state =
     mput m accountID (NewCapitalPoolManagerWithAccount accountID profile state)"

definition MultiAccountCapitalPool_RegisterPoolDirect ::
  "MultiAccountCapitalPool \<Rightarrow> string \<Rightarrow> CapitalPoolManager \<Rightarrow> MultiAccountCapitalPool" where
  "MultiAccountCapitalPool_RegisterPoolDirect m accountID pool =
     mput m accountID (CapitalPoolManager_SetAccountID pool accountID)"

text \<open>The one error of this type, \<open>capital pool for account ... not found\<close>, carries the account.\<close>

datatype pool_error = AccountNotFound string

definition MultiAccountCapitalPool_GetPool ::
  "MultiAccountCapitalPool \<Rightarrow> string \<Rightarrow> pool_error + CapitalPoolManager" where
  "MultiAccountCapitalPool_GetPool m accountID = (case mlookup m accountID of
       None \<Rightarrow> Inl (AccountNotFound accountID) | Some pool \<Rightarrow> Inr pool)"

definition MultiAccountCapitalPool_RequestCapital :: "MultiAccountCapitalPool \<Rightarrow> string \<Rightarrow>
  CapitalRequest \<Rightarrow> (CapitalResult \<times> pool_error option) \<times> MultiAccountCapitalPool" where
  "MultiAccountCapitalPool_RequestCapital m accountID req =
     (case MultiAccountCapitalPool_GetPool m accountID of
       Inl err \<Rightarrow> ((capital_result 0 ''account_not_found'', Some err), m)
     | Inr pool \<Rightarrow> (let (r, pool') = CapitalPoolManager_RequestCapital pool req
         in ((r, None), mput m accountID pool')))"

text \<open>The methods that look the account up and return its error.\<close>

definition with_pool :: "MultiAccountCapitalPool \<Rightarrow> string \<Rightarrow> (CapitalPoolManager \<Rightarrow> CapitalPoolManager) \<Rightarrow>
  pool_error option \<times> MultiAccountCapitalPool" where
  "with_pool m accountID f = (case MultiAccountCapitalPool_GetPool m accountID of
       Inl err \<Rightarrow> (Some err, m) | Inr pool \<Rightarrow> (None, mput m accountID (f pool)))"

definition MultiAccountCapitalPool_RecordFill :: "MultiAccountCapitalPool \<Rightarrow> string \<Rightarrow> string \<Rightarrow>
  string \<Rightarrow> string \<Rightarrow> f64 \<Rightarrow> f64 \<Rightarrow> pool_error option \<times> MultiAccountCapitalPool" where
  "MultiAccountCapitalPool_RecordFill m accountID strategyID symbol side pnl quantity =
     with_pool m accountID (\<lambda>p. CapitalPoolManager_RecordFill p strategyID symbol side pnl quantity)"

definition MultiAccountCapitalPool_ResetDaily ::
  "MultiAccountCapitalPool \<Rightarrow> string \<Rightarrow> pool_error option \<times> MultiAccountCapitalPool" where
  "MultiAccountCapitalPool_ResetDaily m accountID = with_pool m accountID CapitalPoolManager_ResetDaily"

definition MultiAccountCapitalPool_ResetAllDaily :: "MultiAccountCapitalPool \<Rightarrow> MultiAccountCapitalPool" where
  "MultiAccountCapitalPool_ResetAllDaily m = mmap_vals CapitalPoolManager_ResetDaily m"

definition MultiAccountCapitalPool_TotalBalance ::
  "MultiAccountCapitalPool \<Rightarrow> string \<Rightarrow> f64 \<times> pool_error option" where
  "MultiAccountCapitalPool_TotalBalance m accountID = (case MultiAccountCapitalPool_GetPool m accountID of
       Inl err \<Rightarrow> (0, Some err) | Inr pool \<Rightarrow> (CapitalPoolManager_TotalBalance pool, None))"

definition MultiAccountCapitalPool_AggregateBalance :: "MultiAccountCapitalPool \<Rightarrow> f64" where
  "MultiAccountCapitalPool_AggregateBalance m =
     foldl (\<lambda>total (_, pool). total + CapitalPoolManager_TotalBalance pool) 0 m"

definition MultiAccountCapitalPool_TotalExposure ::
  "MultiAccountCapitalPool \<Rightarrow> string \<Rightarrow> f64 \<times> pool_error option" where
  "MultiAccountCapitalPool_TotalExposure m accountID = (case MultiAccountCapitalPool_GetPool m accountID of
       Inl err \<Rightarrow> (0, Some err) | Inr pool \<Rightarrow> (CapitalPoolManager_TotalExposure pool, None))"

definition MultiAccountCapitalPool_StrategyMetrics ::
  "MultiAccountCapitalPool \<Rightarrow> string \<Rightarrow> pool_error + StrategyAllocation list" where
  "MultiAccountCapitalPool_StrategyMetrics m accountID = (case MultiAccountCapitalPool_GetPool m accountID of
       Inl err \<Rightarrow> Inl err | Inr pool \<Rightarrow> Inr (CapitalPoolManager_StrategyMetrics pool))"

definition MultiAccountCapitalPool_SetProfile :: "MultiAccountCapitalPool \<Rightarrow> string \<Rightarrow>
  profile option \<Rightarrow> pool_error option \<times> MultiAccountCapitalPool" where
  "MultiAccountCapitalPool_SetProfile m accountID profile =
     with_pool m accountID (\<lambda>p. CapitalPoolManager_SetProfile p profile)"

definition MultiAccountCapitalPool_UpdateState :: "MultiAccountCapitalPool \<Rightarrow> string \<Rightarrow>
  pf_state option \<Rightarrow> pool_error option \<times> MultiAccountCapitalPool" where
  "MultiAccountCapitalPool_UpdateState m accountID state =
     with_pool m accountID (\<lambda>p. CapitalPoolManager_UpdateState p state)"

definition MultiAccountCapitalPool_AccountIDs :: "MultiAccountCapitalPool \<Rightarrow> string list" where
  "MultiAccountCapitalPool_AccountIDs m = map fst m"

definition MultiAccountCapitalPool_PoolCount :: "MultiAccountCapitalPool \<Rightarrow> nat" where
  "MultiAccountCapitalPool_PoolCount m = length m"

definition MultiAccountCapitalPool_MarkAllViolated ::
  "MultiAccountCapitalPool \<Rightarrow> string \<Rightarrow> MultiAccountCapitalPool" where
  "MultiAccountCapitalPool_MarkAllViolated m reason = mmap_vals (\<lambda>pool.
     CapitalPoolManager_UpdateState pool (Some (zero_pf_state
       \<lparr>st_StartingBalance := CapitalPoolManager_TotalBalance pool,
        st_Violated := True, st_ViolationReason := reason\<rparr>))) m"

definition MultiAccountCapitalPool_Halted :: "MultiAccountCapitalPool \<Rightarrow> bool" where
  "MultiAccountCapitalPool_Halted m = list_ex (\<lambda>(_, pool). CapitalPoolManager_Halted pool) m"

definition MultiAccountCapitalPool_HaltReason :: "MultiAccountCapitalPool \<Rightarrow> string" where
  "MultiAccountCapitalPool_HaltReason m =
     (case filter (\<lambda>r. r \<noteq> '''') (map (\<lambda>(_, pool). CapitalPoolManager_HaltReason pool) m) of
       [] \<Rightarrow> '''' | r # _ \<Rightarrow> r)"

text \<open>What can happen to the pools short of a state update.\<close>

datatype multi_op =
    MpRequest string CapitalRequest
  | MpFill string string string string f64 f64
  | MpResetDaily string
  | MpResetAll
  | MpSetProfile string "profile option"

fun multi_step :: "MultiAccountCapitalPool \<Rightarrow> multi_op \<Rightarrow> MultiAccountCapitalPool" where
  "multi_step m (MpRequest acc req) = snd (MultiAccountCapitalPool_RequestCapital m acc req)"
| "multi_step m (MpFill acc sid symb side pnl qty) =
     snd (MultiAccountCapitalPool_RecordFill m acc sid symb side pnl qty)"
| "multi_step m (MpResetDaily acc) = snd (MultiAccountCapitalPool_ResetDaily m acc)"
| "multi_step m MpResetAll = MultiAccountCapitalPool_ResetAllDaily m"
| "multi_step m (MpSetProfile acc p) = snd (MultiAccountCapitalPool_SetProfile m acc p)"

definition all_halted :: "MultiAccountCapitalPool \<Rightarrow> bool" where
  "all_halted m \<longleftrightarrow> (\<forall>p\<in>set m. CapitalPoolManager_Halted (snd p))"

lemma all_halted_mput: "all_halted m \<Longrightarrow> CapitalPoolManager_Halted v \<Longrightarrow> all_halted (mput m k v)"
  unfolding all_halted_def by (rule mall_mput)

lemma Halted_frame:
  "CapitalPoolManager_Halted (snd (CapitalPoolManager_RequestCapital c req)) = CapitalPoolManager_Halted c"
  "CapitalPoolManager_Halted (CapitalPoolManager_RecordFill c sid symb side pnl qty) = CapitalPoolManager_Halted c"
  "CapitalPoolManager_Halted (CapitalPoolManager_ResetDaily c) = CapitalPoolManager_Halted c"
  "CapitalPoolManager_Halted (CapitalPoolManager_SetProfile c p) = CapitalPoolManager_Halted c"
proof -
  obtain s c' where f: "find_strategy c (cr_StrategyID req) = (s, c')" by force
  show "CapitalPoolManager_Halted (snd (CapitalPoolManager_RequestCapital c req)) = CapitalPoolManager_Halted c"
    unfolding CapitalPoolManager_RequestCapital_def Let_def f
    by (simp add: put_strategy_def find_strategy_frame[OF f] CapitalPoolManager_Halted_def)
  obtain s c' where f: "find_strategy c sid = (s, c')" by force
  then show "CapitalPoolManager_Halted (CapitalPoolManager_RecordFill c sid symb side pnl qty) =
      CapitalPoolManager_Halted c"
    by (simp add: CapitalPoolManager_RecordFill_def Let_def put_strategy_def find_strategy_frame[OF f]
        CapitalPoolManager_Halted_def)
qed (simp_all add: CapitalPoolManager_Halted_def CapitalPoolManager_ResetDaily_def
    CapitalPoolManager_SetProfile_def)

lemma GetPool_halted: "all_halted m \<Longrightarrow> MultiAccountCapitalPool_GetPool m acc = Inr pool \<Longrightarrow>
    CapitalPoolManager_Halted pool"
  by (auto simp: MultiAccountCapitalPool_GetPool_def all_halted_def dest!: map_of_SomeD split: option.splits)

lemma with_pool_halted:
  assumes "all_halted m" "\<And>c. CapitalPoolManager_Halted c \<Longrightarrow> CapitalPoolManager_Halted (f c)"
  shows "all_halted (snd (with_pool m acc f))"
  using assms GetPool_halted[OF assms(1), of acc]
  by (auto simp: with_pool_def all_halted_mput split: sum.splits)

lemma multi_step_halted: "all_halted m \<Longrightarrow> all_halted (multi_step m op)"
proof (cases op)
  case (MpRequest acc req)
  assume a: "all_halted m"
  with MpRequest GetPool_halted[OF a, of acc] show ?thesis
    by (auto simp: MultiAccountCapitalPool_RequestCapital_def all_halted_mput Halted_frame
        case_prod_beta split: sum.splits)
qed (auto simp: MultiAccountCapitalPool_RecordFill_def MultiAccountCapitalPool_ResetDaily_def
    MultiAccountCapitalPool_SetProfile_def MultiAccountCapitalPool_ResetAllDaily_def Halted_frame
    intro!: with_pool_halted, auto simp: all_halted_def mmap_vals_def Halted_frame)

lemma MarkAllViolated_halted: "all_halted (MultiAccountCapitalPool_MarkAllViolated m reason)"
  by (auto simp: all_halted_def MultiAccountCapitalPool_MarkAllViolated_def mmap_vals_def
      CapitalPoolManager_Halted_def CapitalPoolManager_UpdateState_def Let_def)

text \<open>After the kill switch marks all pools violated, no account approves capital until its
  state is updated again: fills, daily resets and further requests of any account leave
  every request refused with \<open>prop_firm_violated\<close>, and an unknown account is an error.\<close>

theorem MarkAllViolated_stops_trading:
  "let m' = foldl multi_step (MultiAccountCapitalPool_MarkAllViolated m reason) ops in
   fst (MultiAccountCapitalPool_RequestCapital m' acc req) =
     (if mlookup m' acc = None then (capital_result 0 ''account_not_found'', Some (AccountNotFound acc))
      else (capital_result 0 ''prop_firm_violated'', None))"
proof -
  define m' where "m' = foldl multi_step (MultiAccountCapitalPool_MarkAllViolated m reason) ops"
  have "all_halted (foldl multi_step m ops)" if "all_halted m" for m
    using that by (induction ops arbitrary: m) (simp_all add: multi_step_halted)
  then have h: "all_halted m'" by (simp add: m'_def MarkAllViolated_halted)
  show ?thesis
    unfolding m'_def[symmetric] Let_def
    using GetPool_halted[OF h, of acc]
    by (auto simp: MultiAccountCapitalPool_RequestCapital_def MultiAccountCapitalPool_GetPool_def
        case_prod_beta halted_request split: option.splits)
qed

end
