(* ===== verification/Enforcer.thy ===== *)
theory Enforcer
  imports PropFirm
begin

text \<open>
  The backtest's rule enforcer, \<open>internal/backtest/propfirm_enforcer.go\<close>: the second
  implementation of the prop firm gate. \<open>time.Now()\<close> (the date of a breach) and the
  clock of \<open>CheckNewsTrading\<close> are arguments; the counters of type \<open>int\<close> are integers.
\<close>

record RuleBreach =
  rb_Date :: int
  rb_Code :: string
  rb_Value :: f64
  rb_Limit :: f64
  rb_Action :: string

record PropFirmEnforcer =
  en_DailyLossLimitPct :: f64
  en_SoftHaltThresholdPct :: f64
  en_HardHaltThresholdPct :: f64
  en_MaxDrawdownPct :: f64
  en_MaxPositionPct :: f64
  en_ConsistencyThreshold :: f64
  en_ConsistencySizeMult :: f64
  en_StartingBalance :: f64
  en_CurrentBalance :: f64
  en_DayStartingBalance :: f64
  en_PeakBalance :: f64
  en_DailyPnL :: f64
  en_DailyPnLPct :: f64
  en_CumulativePnL :: f64
  en_halted :: bool
  en_softHalted :: bool
  en_haltReason :: string
  en_ConsistencyMultiplier :: f64
  en_CurrentRegime :: int
  en_RegimeSizeMultipliers :: "f64 list"
  en_DailyBreaches :: "RuleBreach list"
  en_ProfitTargetPct :: f64
  en_MinTradingDays :: int
  en_TradingDays :: int
  en_profitTargetMet :: bool
  en_NewsTradingRestricted :: bool
  en_currentPhase :: int

definition NewPropFirmEnforcerFromProfile :: "profile option \<Rightarrow> f64 \<Rightarrow> PropFirmEnforcer" where
  "NewPropFirmEnforcerFromProfile po startingBalance =
     (let p = (case po of None \<Rightarrow> DefaultProfile | Some p \<Rightarrow> p)
      in \<lparr>en_DailyLossLimitPct = pf_MaxDailyLossPct p,
          en_SoftHaltThresholdPct = pf_SoftHaltThresholdPct p,
          en_HardHaltThresholdPct = pf_HardHaltThresholdPct p,
          en_MaxDrawdownPct = pf_MaxDrawdownPct p,
          en_MaxPositionPct = pf_MaxPositionPct p,
          en_ConsistencyThreshold = pf_ConsistencyThresholdPct p,
          en_ConsistencySizeMult = pf_ConsistencyPenalty p,
          en_StartingBalance = startingBalance,
          en_CurrentBalance = startingBalance,
          en_DayStartingBalance = startingBalance,
          en_PeakBalance = startingBalance,
          en_DailyPnL = 0, en_DailyPnLPct = 0, en_CumulativePnL = 0,
          en_halted = False, en_softHalted = False, en_haltReason = '''',
          en_ConsistencyMultiplier = 1,
          en_CurrentRegime = 0,
          en_RegimeSizeMultipliers = pf_RegimeMultipliers p,
          en_DailyBreaches = [],
          en_ProfitTargetPct = pf_ProfitTargetPctPhase1 p,
          en_MinTradingDays = pf_MinTradingDays p,
          en_TradingDays = 0,
          en_profitTargetMet = False,
          en_NewsTradingRestricted = (\<not> pf_NewsTradingAllowed p),
          en_currentPhase = 1\<rparr>)"

definition DefaultPropFirmEnforcer :: "f64 \<Rightarrow> PropFirmEnforcer" where
  "DefaultPropFirmEnforcer startingBalance = NewPropFirmEnforcerFromProfile (Some DefaultProfile) startingBalance"

definition add_breach :: "PropFirmEnforcer \<Rightarrow> int \<Rightarrow> string \<Rightarrow> f64 \<Rightarrow> f64 \<Rightarrow> string \<Rightarrow> PropFirmEnforcer" where
  "add_breach f now code v limit action = f\<lparr>en_DailyBreaches := en_DailyBreaches f @
     [\<lparr>rb_Date = now, rb_Code = code, rb_Value = v, rb_Limit = limit, rb_Action = action\<rparr>]\<rparr>"

definition PropFirmEnforcer_CheckDailyLoss :: "PropFirmEnforcer \<Rightarrow> int \<Rightarrow> bool \<times> PropFirmEnforcer" where
  "PropFirmEnforcer_CheckDailyLoss f now =
     (let dayStart = (if en_DayStartingBalance f \<le> 0 then en_StartingBalance f
                      else en_DayStartingBalance f)
      in if dayStart \<le> 0 then (True, f) else
      let dailyChange = DailyLossPct dayStart (en_CurrentBalance f);
          f = f\<lparr>en_DailyPnLPct := dailyChange\<rparr>;
          hardLimit = (if en_HardHaltThresholdPct f \<le> 0 then en_DailyLossLimitPct f
                       else en_HardHaltThresholdPct f);
          softLimit = (if en_SoftHaltThresholdPct f \<le> 0 then hardLimit * lit (9/10)
                       else en_SoftHaltThresholdPct f)
      in if DailyLossExceeded dayStart (en_CurrentBalance f) hardLimit
         then (False, add_breach (f\<lparr>en_halted := True, en_softHalted := True,
                 en_haltReason := ''daily_loss_limit_hard''\<rparr>)
               now ''DAILY_DD_HARD'' dailyChange (- hardLimit) ''halted'')
         else if DailyLossExceeded dayStart (en_CurrentBalance f) softLimit
         then (True, add_breach (f\<lparr>en_softHalted := True\<rparr>)
               now ''DAILY_DD_SOFT'' dailyChange (- softLimit) ''size_reduced'')
         else (True, f))"

definition PropFirmEnforcer_CheckDrawdown :: "PropFirmEnforcer \<Rightarrow> bool \<times> PropFirmEnforcer" where
  "PropFirmEnforcer_CheckDrawdown f =
     (let f = (if en_CurrentBalance f > en_PeakBalance f
               then f\<lparr>en_PeakBalance := en_CurrentBalance f\<rparr> else f)
      in if en_PeakBalance f \<le> 0 then (True, f)
         else if DrawdownExceeded (en_PeakBalance f) (en_CurrentBalance f) (en_MaxDrawdownPct f)
         then (False, f\<lparr>en_halted := True, en_haltReason := ''max_drawdown''\<rparr>)
         else (True, f))"

definition PropFirmEnforcer_CheckConsistency :: "PropFirmEnforcer \<Rightarrow> int \<Rightarrow> bool \<times> PropFirmEnforcer" where
  "PropFirmEnforcer_CheckConsistency f now =
     (if ConsistencyBreached (en_DailyPnLPct f) (en_ConsistencyThreshold f)
      then (False, add_breach (f\<lparr>en_ConsistencyMultiplier := en_ConsistencySizeMult f\<rparr>)
              now ''CONSISTENCY'' (en_DailyPnLPct f) (en_ConsistencyThreshold f) ''size_reduced'')
      else (True, f))"

definition PropFirmEnforcer_GetRegimeMultiplier :: "PropFirmEnforcer \<Rightarrow> f64" where
  "PropFirmEnforcer_GetRegimeMultiplier f =
     (let r = en_CurrentRegime f in
      if r < 0 \<or> r > 3 then 1
      else en_RegimeSizeMultipliers f ! nat r * en_ConsistencyMultiplier f)"

definition PropFirmEnforcer_CheckProfitTarget :: "PropFirmEnforcer \<Rightarrow> bool \<times> PropFirmEnforcer" where
  "PropFirmEnforcer_CheckProfitTarget f =
     (if en_StartingBalance f \<le> 0 then (False, f) else
      let totalReturn = en_CumulativePnL f / en_StartingBalance f * lit 100
      in if totalReturn \<ge> en_ProfitTargetPct f \<and> en_TradingDays f \<ge> en_MinTradingDays f
         then (True, f\<lparr>en_profitTargetMet := True\<rparr>) else (False, f))"

definition PropFirmEnforcer_OnFill :: "PropFirmEnforcer \<Rightarrow> int \<Rightarrow> f64 \<Rightarrow> f64 \<Rightarrow> PropFirmEnforcer" where
  "PropFirmEnforcer_OnFill f now pnl balance =
     (let f = f\<lparr>en_CurrentBalance := en_CurrentBalance f + pnl,
                en_DailyPnL := en_DailyPnL f + pnl,
                en_CumulativePnL := en_CumulativePnL f + pnl\<rparr>;
          f = snd (PropFirmEnforcer_CheckDailyLoss f now);
          f = snd (PropFirmEnforcer_CheckDrawdown f);
          f = snd (PropFirmEnforcer_CheckConsistency f now)
      in snd (PropFirmEnforcer_CheckProfitTarget f))"

definition PropFirmEnforcer_OnNewDay :: "PropFirmEnforcer \<Rightarrow> PropFirmEnforcer" where
  "PropFirmEnforcer_OnNewDay f =
     (let f = f\<lparr>en_TradingDays := en_TradingDays f + 1\<rparr>;
          f = snd (PropFirmEnforcer_CheckProfitTarget f)
      in f\<lparr>en_DayStartingBalance := en_CurrentBalance f, en_DailyPnL := 0, en_DailyPnLPct := 0,
           en_ConsistencyMultiplier := 1\<rparr>)"

definition PropFirmEnforcer_GetPositionSize :: "PropFirmEnforcer \<Rightarrow> f64 \<Rightarrow> f64" where
  "PropFirmEnforcer_GetPositionSize f baseQuantity =
     (if en_CurrentBalance f \<le> 0 then 0 else
      let maxSize = en_CurrentBalance f * en_MaxPositionPct f / lit 100;
          mult = PropFirmEnforcer_GetRegimeMultiplier f;
          adjusted = baseQuantity * mult
      in if adjusted > maxSize then maxSize else adjusted)"

text \<open>\<open>ts.Hour()\<close> and \<open>ts.Minute()\<close> are the arguments.\<close>

definition PropFirmEnforcer_CheckNewsTrading :: "PropFirmEnforcer \<Rightarrow> int \<Rightarrow> int \<Rightarrow> bool" where
  "PropFirmEnforcer_CheckNewsTrading f hour minute =
     (if \<not> en_NewsTradingRestricted f then True
      else if hour = 8 \<and> minute \<ge> 30 \<and> minute \<le> 35 then False
      else if hour = 10 \<and> minute \<ge> 0 \<and> minute \<le> 5 then False
      else if hour = 14 \<and> minute \<ge> 0 \<and> minute \<le> 5 then False
      else True)"

definition PropFirmEnforcer_AdvancePhase :: "PropFirmEnforcer \<Rightarrow> PropFirmEnforcer" where
  "PropFirmEnforcer_AdvancePhase f = f\<lparr>en_currentPhase := en_currentPhase f + 1,
     en_profitTargetMet := False, en_DailyPnL := 0, en_DailyPnLPct := 0, en_CumulativePnL := 0,
     en_PeakBalance := en_CurrentBalance f, en_TradingDays := 0, en_ConsistencyMultiplier := 1\<rparr>"

definition PropFirmEnforcer_TotalReturnPct :: "PropFirmEnforcer \<Rightarrow> f64" where
  "PropFirmEnforcer_TotalReturnPct f =
     (if en_StartingBalance f \<le> 0 then 0
      else en_CumulativePnL f / en_StartingBalance f * lit 100)"

definition PropFirmEnforcer_maxDailyLossObserved :: "PropFirmEnforcer \<Rightarrow> f64" where
  "PropFirmEnforcer_maxDailyLossObserved f = foldl
     (\<lambda>worst b. if rb_Code b = ''DAILY_DD'' \<and> rb_Value b < worst then rb_Value b else worst)
     0 (en_DailyBreaches f)"

record ComplianceReport =
  co_Passed :: bool
  co_HaltReason :: string
  co_FinalBalance :: f64
  co_PeakBalance :: f64
  co_MaxDailyLossPct :: f64
  co_NumBreaches :: nat
  co_Breaches :: "RuleBreach list"
  co_TotalReturnPct :: f64
  co_ProfitTargetMet :: bool
  co_TradingDays :: int
  co_MinTradingDays :: int
  co_CurrentPhase :: int

definition PropFirmEnforcer_Summary :: "PropFirmEnforcer \<Rightarrow> ComplianceReport" where
  "PropFirmEnforcer_Summary f = \<lparr>co_Passed = (\<not> en_halted f), co_HaltReason = en_haltReason f,
     co_FinalBalance = en_CurrentBalance f, co_PeakBalance = en_PeakBalance f,
     co_MaxDailyLossPct = PropFirmEnforcer_maxDailyLossObserved f,
     co_NumBreaches = length (en_DailyBreaches f), co_Breaches = en_DailyBreaches f,
     co_TotalReturnPct = PropFirmEnforcer_TotalReturnPct f,
     co_ProfitTargetMet = en_profitTargetMet f, co_TradingDays = en_TradingDays f,
     co_MinTradingDays = en_MinTradingDays f, co_CurrentPhase = en_currentPhase f\<rparr>"

definition PropFirmEnforcer_CheckDailyLimits :: "PropFirmEnforcer \<Rightarrow> int \<Rightarrow> (bool \<times> string) \<times> PropFirmEnforcer" where
  "PropFirmEnforcer_CheckDailyLimits f now =
     (let (ok, f) = PropFirmEnforcer_CheckDailyLoss f now in
      if ok then ((False, ''daily_loss''), f) else
      let (ok, f) = PropFirmEnforcer_CheckDrawdown f in
      if ok then ((False, ''max_drawdown''), f)
      else ((True, ''''), f))"

definition PropFirmEnforcer_MarkViolated :: "PropFirmEnforcer \<Rightarrow> string \<Rightarrow> PropFirmEnforcer" where
  "PropFirmEnforcer_MarkViolated f reason = f\<lparr>en_halted := True, en_haltReason := reason\<rparr>"

definition PropFirmEnforcer_IsHalted :: "PropFirmEnforcer \<Rightarrow> bool" where
  "PropFirmEnforcer_IsHalted f = en_halted f"

definition PropFirmEnforcer_IsSoftHalted :: "PropFirmEnforcer \<Rightarrow> bool" where
  "PropFirmEnforcer_IsSoftHalted f \<longleftrightarrow> en_softHalted f \<and> \<not> en_halted f"

definition PropFirmEnforcer_SoftHaltMultiplier :: "PropFirmEnforcer \<Rightarrow> f64" where
  "PropFirmEnforcer_SoftHaltMultiplier f =
     (if PropFirmEnforcer_IsSoftHalted f then lit (5/10) else 1)"

definition PropFirmEnforcer_HaltReason :: "PropFirmEnforcer \<Rightarrow> string" where
  "PropFirmEnforcer_HaltReason f = en_haltReason f"

definition PropFirmEnforcer_CurrentPhase :: "PropFirmEnforcer \<Rightarrow> int" where
  "PropFirmEnforcer_CurrentPhase f = en_currentPhase f"

definition PropFirmEnforcer_ProfitTargetMet :: "PropFirmEnforcer \<Rightarrow> bool" where
  "PropFirmEnforcer_ProfitTargetMet f = en_profitTargetMet f"

section \<open>Runs\<close>

datatype enforcer_op =
    EnFill int f64 f64
  | EnNewDay
  | EnAdvancePhase
  | EnCheckLimits int
  | EnMarkViolated string
  | EnRegime int

fun enforcer_step :: "PropFirmEnforcer \<Rightarrow> enforcer_op \<Rightarrow> PropFirmEnforcer" where
  "enforcer_step f (EnFill now pnl balance) = PropFirmEnforcer_OnFill f now pnl balance"
| "enforcer_step f EnNewDay = PropFirmEnforcer_OnNewDay f"
| "enforcer_step f EnAdvancePhase = PropFirmEnforcer_AdvancePhase f"
| "enforcer_step f (EnCheckLimits now) = snd (PropFirmEnforcer_CheckDailyLimits f now)"
| "enforcer_step f (EnMarkViolated reason) = PropFirmEnforcer_MarkViolated f reason"
| "enforcer_step f (EnRegime r) = f\<lparr>en_CurrentRegime := r\<rparr>"

text \<open>What the checks may change: a relation every operation respects.\<close>

definition enforcer_evolves :: "PropFirmEnforcer \<Rightarrow> PropFirmEnforcer \<Rightarrow> bool" where
  "enforcer_evolves f g \<longleftrightarrow> (en_halted f \<longrightarrow> en_halted g) \<and> (en_softHalted f \<longrightarrow> en_softHalted g) \<and>
     en_ConsistencySizeMult g = en_ConsistencySizeMult f \<and>
     en_RegimeSizeMultipliers g = en_RegimeSizeMultipliers f \<and>
     (en_ConsistencyMultiplier g \<in> {en_ConsistencyMultiplier f, en_ConsistencySizeMult f, 1}) \<and>
     (\<exists>bs. en_DailyBreaches g = en_DailyBreaches f @ bs \<and> (\<forall>b\<in>set bs. rb_Code b \<noteq> ''DAILY_DD''))"

lemma evolves_refl: "enforcer_evolves f f"
  by (simp add: enforcer_evolves_def)

lemma evolves_trans: "enforcer_evolves f g \<Longrightarrow> enforcer_evolves g h \<Longrightarrow> enforcer_evolves f h"
  unfolding enforcer_evolves_def by auto

lemma CheckDailyLoss_evolves: "enforcer_evolves f (snd (PropFirmEnforcer_CheckDailyLoss f now))"
  by (simp add: PropFirmEnforcer_CheckDailyLoss_def Let_def enforcer_evolves_def add_breach_def)

lemma CheckDrawdown_evolves: "enforcer_evolves f (snd (PropFirmEnforcer_CheckDrawdown f))"
  by (simp add: PropFirmEnforcer_CheckDrawdown_def Let_def enforcer_evolves_def)

lemma CheckConsistency_evolves: "enforcer_evolves f (snd (PropFirmEnforcer_CheckConsistency f now))"
  by (simp add: PropFirmEnforcer_CheckConsistency_def enforcer_evolves_def add_breach_def)

lemma CheckProfitTarget_evolves: "enforcer_evolves f (snd (PropFirmEnforcer_CheckProfitTarget f))"
  by (simp add: PropFirmEnforcer_CheckProfitTarget_def Let_def enforcer_evolves_def)

lemmas checks_evolve = CheckDailyLoss_evolves CheckDrawdown_evolves CheckConsistency_evolves
  CheckProfitTarget_evolves

lemma OnFill_evolves: "enforcer_evolves f (PropFirmEnforcer_OnFill f now pnl balance)"
proof -
  have start: "enforcer_evolves f (f\<lparr>en_CurrentBalance := a, en_DailyPnL := b, en_CumulativePnL := c\<rparr>)" for a b c
    by (simp add: enforcer_evolves_def)
  show ?thesis unfolding PropFirmEnforcer_OnFill_def Let_def
    by (rule evolves_trans[OF start], (rule evolves_trans[rotated], rule checks_evolve)+, rule evolves_refl)
qed

lemma CheckDailyLimits_evolves: "enforcer_evolves f (snd (PropFirmEnforcer_CheckDailyLimits f now))"
  using CheckDailyLoss_evolves[of f now]
    evolves_trans[OF CheckDailyLoss_evolves[of f now] CheckDrawdown_evolves]
  by (simp add: PropFirmEnforcer_CheckDailyLimits_def case_prod_beta)

lemma OnNewDay_evolves: "enforcer_evolves f (PropFirmEnforcer_OnNewDay f)"
proof -
  have "enforcer_evolves f (f\<lparr>en_TradingDays := en_TradingDays f + 1\<rparr>)" by (simp add: enforcer_evolves_def)
  from evolves_trans[OF this CheckProfitTarget_evolves] show ?thesis
    by (simp add: PropFirmEnforcer_OnNewDay_def Let_def) (simp add: enforcer_evolves_def)
qed

lemma enforcer_step_evolves: "enforcer_evolves f (enforcer_step f op)"
  by (cases op) (simp_all add: OnFill_evolves OnNewDay_evolves CheckDailyLimits_evolves,
      simp_all add: enforcer_evolves_def PropFirmEnforcer_AdvancePhase_def PropFirmEnforcer_MarkViolated_def)

lemma enforcer_run_evolves: "enforcer_evolves f (foldl enforcer_step f ops)"
proof (induction ops rule: rev_induct)
  case (snoc op ops)
  then show ?case using evolves_trans enforcer_step_evolves by simp
qed (simp add: evolves_refl)

text \<open>C28: a halt and a soft halt are both final: no fill, day change or phase change clears them.
  In particular the soft halt, a daily condition, halves every later position: the change
  of the day resets the daily loss and the consistency multiplier but not the flag.\<close>

theorem enforcer_halts_final:
  "(en_halted f \<longrightarrow> en_halted (foldl enforcer_step f ops)) \<and>
   (en_softHalted f \<longrightarrow> en_softHalted (foldl enforcer_step f ops) \<and>
      PropFirmEnforcer_SoftHaltMultiplier (foldl enforcer_step f ops) =
        (if en_halted (foldl enforcer_step f ops) then 1 else lit (1/2)))"
  using enforcer_run_evolves[of f ops]
  by (auto simp: enforcer_evolves_def PropFirmEnforcer_SoftHaltMultiplier_def
      PropFirmEnforcer_IsSoftHalted_def)

theorem enforcer_halts_final_witness:
  "let f = snd (PropFirmEnforcer_CheckDailyLoss
        ((DefaultPropFirmEnforcer (lit 100000))\<lparr>en_CurrentBalance := lit 95400\<rparr>) 0)
   in en_softHalted f \<and> \<not> en_halted f \<and> en_softHalted (foldl enforcer_step f [EnNewDay, EnNewDay])"
proof -
  define f where "f = snd (PropFirmEnforcer_CheckDailyLoss
        ((DefaultPropFirmEnforcer (lit 100000))\<lparr>en_CurrentBalance := lit 95400\<rparr>) 0)"
  have "en_softHalted f \<and> \<not> en_halted f"
    by (simp add: f_def PropFirmEnforcer_CheckDailyLoss_def DefaultPropFirmEnforcer_def
        NewPropFirmEnforcerFromProfile_def DefaultProfile_def DefaultFTMOProfile_def Let_def
        DailyLossExceeded_def DailyLossPct_def add_breach_def f64_eval)
  then show ?thesis
    using enforcer_halts_final[of f "[EnNewDay, EnNewDay]"] unfolding f_def[symmetric] Let_def by simp
qed

text \<open>The compliance report looks for breaches with the code \<open>DAILY_DD\<close>, which no check
  emits (they are \<open>DAILY_DD_HARD\<close> and \<open>DAILY_DD_SOFT\<close>): after any run of any account it
  reports a worst daily loss of zero.\<close>

theorem reported_daily_loss_is_zero:
  "co_MaxDailyLossPct (PropFirmEnforcer_Summary
     (foldl enforcer_step (NewPropFirmEnforcerFromProfile p start) ops)) = 0"
proof -
  have zero: "foldl (\<lambda>worst b. if rb_Code b = ''DAILY_DD'' \<and> rb_Value b < worst then rb_Value b else worst) a bs = a"
    if "\<forall>b\<in>set bs. rb_Code b \<noteq> ''DAILY_DD''" for a bs
    using that by (induction bs arbitrary: a) simp_all
  have "en_DailyBreaches (NewPropFirmEnforcerFromProfile p start) = []"
    by (simp add: NewPropFirmEnforcerFromProfile_def Let_def)
  then obtain bs where "en_DailyBreaches (foldl enforcer_step (NewPropFirmEnforcerFromProfile p start) ops) = bs"
    "\<forall>b\<in>set bs. rb_Code b \<noteq> ''DAILY_DD''"
    using enforcer_run_evolves[of "NewPropFirmEnforcerFromProfile p start" ops]
    by (auto simp: enforcer_evolves_def)
  then show ?thesis
    by (simp add: PropFirmEnforcer_Summary_def PropFirmEnforcer_maxDailyLossObserved_def zero)
qed

section \<open>When a fill halts the account\<close>

definition day_start :: "PropFirmEnforcer \<Rightarrow> f64" where
  "day_start f = (if en_DayStartingBalance f \<le> 0 then en_StartingBalance f else en_DayStartingBalance f)"

definition hard_limit :: "PropFirmEnforcer \<Rightarrow> f64" where
  "hard_limit f = (if en_HardHaltThresholdPct f \<le> 0 then en_DailyLossLimitPct f
     else en_HardHaltThresholdPct f)"

lemma CheckProfitTarget_frame [frame_simps]:
  "en_halted (snd (PropFirmEnforcer_CheckProfitTarget f)) = en_halted f"
  by (simp add: PropFirmEnforcer_CheckProfitTarget_def Let_def)

lemma CheckConsistency_frame [frame_simps]:
  "en_halted (snd (PropFirmEnforcer_CheckConsistency f now)) = en_halted f"
  by (simp add: PropFirmEnforcer_CheckConsistency_def add_breach_def)

lemma CheckDailyLoss_halted:
  "en_halted (snd (PropFirmEnforcer_CheckDailyLoss f now)) \<longleftrightarrow> en_halted f \<or>
     \<not> day_start f \<le> 0 \<and> DailyLossExceeded (day_start f) (en_CurrentBalance f) (hard_limit f)"
  "fst (PropFirmEnforcer_CheckDailyLoss f now) \<longleftrightarrow>
     day_start f \<le> 0 \<or> \<not> DailyLossExceeded (day_start f) (en_CurrentBalance f) (hard_limit f)"
  "en_CurrentBalance (snd (PropFirmEnforcer_CheckDailyLoss f now)) = en_CurrentBalance f"
  "en_PeakBalance (snd (PropFirmEnforcer_CheckDailyLoss f now)) = en_PeakBalance f"
  "en_MaxDrawdownPct (snd (PropFirmEnforcer_CheckDailyLoss f now)) = en_MaxDrawdownPct f"
  by (simp_all add: PropFirmEnforcer_CheckDailyLoss_def Let_def add_breach_def day_start_def hard_limit_def)

lemma day_start_update:
  "day_start (f\<lparr>en_CurrentBalance := a, en_DailyPnL := b, en_CumulativePnL := c\<rparr>) = day_start f"
  by (simp add: day_start_def)

lemma hard_limit_update:
  "hard_limit (f\<lparr>en_CurrentBalance := a, en_DailyPnL := b, en_CumulativePnL := c\<rparr>) = hard_limit f"
  by (simp add: hard_limit_def)

definition high_water :: "PropFirmEnforcer \<Rightarrow> f64" where
  "high_water f = (if en_CurrentBalance f > en_PeakBalance f then en_CurrentBalance f else en_PeakBalance f)"

lemma CheckDrawdown_halted:
  "en_halted (snd (PropFirmEnforcer_CheckDrawdown f)) \<longleftrightarrow> en_halted f \<or>
     \<not> high_water f \<le> 0 \<and> DrawdownExceeded (high_water f) (en_CurrentBalance f) (en_MaxDrawdownPct f)"
  "fst (PropFirmEnforcer_CheckDrawdown f) \<longleftrightarrow>
     high_water f \<le> 0 \<or> \<not> DrawdownExceeded (high_water f) (en_CurrentBalance f) (en_MaxDrawdownPct f)"
  by (simp_all add: PropFirmEnforcer_CheckDrawdown_def Let_def high_water_def)

text \<open>After a fill the account is halted exactly if it was before, or the loss of the new balance
  exceeds the hard daily limit of a positive balance at the start of the day, or its drawdown exceeds
  the drawdown limit of a positive high-water mark. Reaching a limit does not halt, and a start of the
  day or a high-water mark that is not positive is not checked.\<close>

theorem OnFill_halts_iff:
  "en_halted (PropFirmEnforcer_OnFill f now pnl balance) \<longleftrightarrow> en_halted f \<or>
     (let f' = f\<lparr>en_CurrentBalance := en_CurrentBalance f + pnl\<rparr> in
       \<not> day_start f \<le> 0 \<and> DailyLossExceeded (day_start f) (en_CurrentBalance f') (hard_limit f) \<or>
       \<not> high_water f' \<le> 0 \<and> DrawdownExceeded (high_water f') (en_CurrentBalance f') (en_MaxDrawdownPct f))"
  unfolding PropFirmEnforcer_OnFill_def Let_def
  by (simp add: frame_simps CheckDrawdown_halted CheckDailyLoss_halted high_water_def day_start_update
      hard_limit_update disj_assoc)

section \<open>The combined check\<close>

text \<open>\<open>CheckDailyLimits\<close> of the enforcer answers the opposite of its two checks: an account
  inside the daily limit is reported as a violation \<open>daily_loss\<close>, one that breaches only
  the daily limit as \<open>max_drawdown\<close>, and the check passes exactly when both limits are
  breached.\<close>

theorem CheckDailyLimits_inverted:
  "fst (PropFirmEnforcer_CheckDailyLimits f now) =
    (if fst (PropFirmEnforcer_CheckDailyLoss f now) then (False, ''daily_loss'')
     else if fst (PropFirmEnforcer_CheckDrawdown f) then (False, ''max_drawdown'')
     else (True, ''''))"
  by (simp add: PropFirmEnforcer_CheckDailyLimits_def case_prod_beta CheckDrawdown_halted
      CheckDailyLoss_halted high_water_def)

section \<open>The enforcer as a prop firm gate\<close>

text \<open>The interface with the clock reading of the call as a parameter.\<close>

definition PropFirmEnforcer_gate :: "int \<Rightarrow> PropFirmEnforcer PropFirmGate" where
  "PropFirmEnforcer_gate now = \<lparr>pg_CheckDailyLimits = (\<lambda>f. PropFirmEnforcer_CheckDailyLimits f now),
     pg_OnFill = (\<lambda>f pnl balance. PropFirmEnforcer_OnFill f now pnl balance),
     pg_OnNewDay = PropFirmEnforcer_OnNewDay, pg_IsHalted = PropFirmEnforcer_IsHalted,
     pg_HaltReason = PropFirmEnforcer_HaltReason, pg_MarkViolated = PropFirmEnforcer_MarkViolated,
     pg_CurrentPhase = PropFirmEnforcer_CurrentPhase,
     pg_ProfitTargetMet = PropFirmEnforcer_ProfitTargetMet,
     pg_GetPositionSize = PropFirmEnforcer_GetPositionSize,
     pg_SoftHalt = Some PropFirmEnforcer_IsSoftHalted,
     pg_SoftHaltMultiplier = PropFirmEnforcer_SoftHaltMultiplier\<rparr>"

definition enforcer_ok :: "PropFirmEnforcer \<Rightarrow> bool" where
  "enforcer_ok f \<longleftrightarrow> length (en_RegimeSizeMultipliers f) = 4 \<and>
     (\<forall>m\<in>set (en_RegimeSizeMultipliers f). unit_scale m \<and> f64_ok m) \<and>
     unit_scale (en_ConsistencySizeMult f) \<and> unit_scale (en_ConsistencyMultiplier f)"

lemma evolves_ok: "enforcer_evolves f g \<Longrightarrow> enforcer_ok f \<Longrightarrow> enforcer_ok g"
  by (auto simp: enforcer_evolves_def enforcer_ok_def)

lemma unit_scale_mul:
  assumes "unit_scale a" "f64_ok a" "unit_scale b"
  shows "unit_scale (a * b)"
proof -
  have a: "fin_nonneg a" using assms(1,2) by (simp add: unit_scale_def fin_nonneg_def)
  have "is_fin (a * b)" "0 \<le> fval (a * b)" "fval (a * b) \<le> fval a"
    using mul_unit_shrink[OF a assms(3)] assms(1) by (simp_all add: fin_nonneg_def fin_le unit_scale_def)
  then show ?thesis using assms(1) by (simp add: unit_scale_def)
qed

lemma GetRegimeMultiplier_scale: "enforcer_ok f \<Longrightarrow> unit_scale (PropFirmEnforcer_GetRegimeMultiplier f)"
  by (auto simp: PropFirmEnforcer_GetRegimeMultiplier_def Let_def enforcer_ok_def intro!: unit_scale_mul)

lemma GetPositionSize_le:
  assumes "enforcer_ok f" "fin_nonneg q"
  shows "PropFirmEnforcer_GetPositionSize f q \<le> q \<and> f64_ok (PropFirmEnforcer_GetPositionSize f q)"
proof -
  have a: "q * PropFirmEnforcer_GetRegimeMultiplier f \<le> q"
    by (rule mul_unit_shrink(2)[OF assms(2) GetRegimeMultiplier_scale[OF assms(1)]])
  then show ?thesis
    using assms(2) f64_le_trans[OF f64_less_imp_le a]
    by (auto simp: PropFirmEnforcer_GetPositionSize_def Let_def fin_nonneg_ge0)
qed

interpretation backtest_enforcer: propfirm_gate "PropFirmEnforcer_gate now" enforcer_ok
  by unfold_locales
    (simp_all add: PropFirmEnforcer_gate_def GetPositionSize_le PropFirmEnforcer_IsHalted_def
      PropFirmEnforcer_SoftHaltMultiplier_def unit_scale_lit evolves_ok[OF OnFill_evolves]
      evolves_ok[OF CheckDailyLimits_evolves] evolves_ok[OF OnNewDay_evolves],
     simp_all add: PropFirmEnforcer_MarkViolated_def enforcer_ok_def)

end
