(* ===== verification/MarketTypes.thy ===== *)
theory MarketTypes
  imports Price
begin

text \<open>
  Candles and signals, \<open>internal/strategy/types.go\<close>. A time is an instant in
  nanoseconds. \<open>SignalAction\<close> is an \<open>int8\<close> with three named values. The declaration of a
  parameter of a strategy (\<open>param_def.go\<close>) is here without its group and its description.
\<close>

record Candle =
  ca_Time :: int
  ca_Open :: price
  ca_High :: price
  ca_Low :: price
  ca_Close :: price
  ca_Volume :: f64
  ca_Symbol :: string
  ca_AdjustmentFactor :: f64
  ca_Source :: string
  ca_GenerationID :: string

type_synonym SignalAction = int

definition SignalNone :: SignalAction where "SignalNone = 0"
definition SignalEntry :: SignalAction where "SignalEntry = 1"
definition SignalExit :: SignalAction where "SignalExit = 2"

record Signal =
  sl_Symbol :: string
  sl_Side :: string
  sl_Quantity :: f64
  sl_Action :: SignalAction
  sl_PWin :: f64
  sl_StrategyID :: string
  sl_StopLoss :: price
  sl_TakeProfit :: price

record ParamDef =
  pd_Name :: string
  pd_Type :: string
  pd_Default :: f64
  pd_Min :: f64
  pd_Max :: f64
  pd_Step :: f64

definition ParamDef_Clamp :: "ParamDef \<Rightarrow> f64 \<Rightarrow> f64" where
  "ParamDef_Clamp d v = (if v < pd_Min d then pd_Min d else if v > pd_Max d then pd_Max d else v)"

end
