(* ===== verification/PoolSim.thy ===== *)
theory PoolSim
  imports CapitalPool MarketTypes
begin

text \<open>
  The backtest's capital pool, \<open>internal/backtest/capital_pool_sim.go\<close>: the second
  implementation of the capital gate. A strategy runner is an interface value the pool
  only calls \<open>Evaluate\<close> on: a state of type \<open>'r\<close> and the parameter \<open>evaluate\<close>, which
  returns the signal and the runner's next state. The loop over the map of strategies
  visits the keys in the order of the association list.
\<close>

record 'r PoolSimStrategy =
  pss_ID :: string
  pss_Allocated :: f64
  pss_dailyPnL :: f64
  pss_PeakBalance :: f64
  pss_DrawdownPct :: f64
  pss_OpenLong :: "(string, f64) gomap"
  pss_OpenShort :: "(string, f64) gomap"
  pss_Runner :: "'r option"

record 'r CapitalPoolSim =
  sim_PoolState :: pool_state
  sim_Profile :: "profile option"
  sim_Strategies :: "(string, 'r PoolSimStrategy) gomap"

definition NewCapitalPoolSim :: "profile option \<Rightarrow> f64 \<Rightarrow> 'r CapitalPoolSim" where
  "NewCapitalPoolSim profile startingBalance =
     \<lparr>sim_PoolState = InitPoolState zero_pool_state startingBalance, sim_Profile = profile,
      sim_Strategies = []\<rparr>"

definition CapitalPoolSim_AddStrategy :: "'r CapitalPoolSim \<Rightarrow> string \<Rightarrow> 'r option \<Rightarrow> 'r CapitalPoolSim" where
  "CapitalPoolSim_AddStrategy c sid runner = c\<lparr>sim_Strategies := mput (sim_Strategies c) sid
     \<lparr>pss_ID = sid, pss_Allocated = 0, pss_dailyPnL = 0,
      pss_PeakBalance = ps_TotalBalance (sim_PoolState c), pss_DrawdownPct = 0,
      pss_OpenLong = [], pss_OpenShort = [], pss_Runner = runner\<rparr>\<rparr>"

definition sim_profile :: "'r CapitalPoolSim \<Rightarrow> profile" where
  "sim_profile c = (case sim_Profile c of None \<Rightarrow> DefaultFTMOProfile | Some p \<Rightarrow> p)"

definition put_sim :: "'r CapitalPoolSim \<Rightarrow> string \<Rightarrow> 'r PoolSimStrategy \<Rightarrow> 'r CapitalPoolSim" where
  "put_sim c sid s = c\<lparr>sim_Strategies := mput (sim_Strategies c) sid s\<rparr>"

definition sim_total_open :: "'r CapitalPoolSim \<Rightarrow> int" where
  "sim_total_open c = foldl (\<lambda>n (_, s). n + int (length (pss_OpenLong s)) + int (length (pss_OpenShort s)))
     0 (sim_Strategies c)"

text \<open>The sizing computed for a signal, which decides only whether the strategy is skipped.\<close>

definition sim_quantity :: "'r CapitalPoolSim \<Rightarrow> 'r PoolSimStrategy \<Rightarrow> Candle \<Rightarrow> int \<Rightarrow> Signal \<Rightarrow> f64" where
  "sim_quantity c strat candle regime signal =
     (let p = sim_profile c;
          balance = ps_TotalBalance (sim_PoolState c);
          close = Price_Float64 (ca_Close candle);
          correlationMult = 1;
          correlationMult = (if sl_Side signal = ''BUY'' \<and> mget 0 (pss_OpenShort strat) (ca_Symbol candle) > 0
                             then lit (5/10) else correlationMult);
          correlationMult = (if sl_Side signal = ''SELL'' \<and> mget 0 (pss_OpenLong strat) (ca_Symbol candle) > 0
                             then lit (5/10) else correlationMult);
          positionPct = pf_MaxPositionPct p / lit 100;
          regimeMult = (if regime \<ge> 0 \<and> regime < 4 then pf_RegimeMultipliers p ! nat regime else 1);
          quantity = (balance * positionPct * regimeMult * correlationMult) / close;
          maxSize = balance * pf_MaxPositionPct p / lit 100
      in if quantity > maxSize / close then maxSize / close else quantity)"

definition sim_strategy ::
  "('r \<Rightarrow> Candle \<Rightarrow> int \<Rightarrow> Signal option \<times> 'r) \<Rightarrow> Candle \<Rightarrow> int \<Rightarrow> string \<Rightarrow>
   'r CapitalPoolSim \<times> (string, Signal) gomap \<Rightarrow> 'r CapitalPoolSim \<times> (string, Signal) gomap" where
  "sim_strategy evaluate candle regime sid = (\<lambda>(c, signals).
     case mlookup (sim_Strategies c) sid of None \<Rightarrow> (c, signals) | Some strat \<Rightarrow>
     case pss_Runner strat of None \<Rightarrow> (c, signals) | Some r \<Rightarrow>
       (let (so, r') = evaluate r candle regime;
            strat = strat\<lparr>pss_Runner := Some r'\<rparr>;
            c = put_sim c sid strat
        in case so of None \<Rightarrow> (c, signals) | Some signal \<Rightarrow>
        let p = sim_profile c in
        if ps_DailyPnLPct (sim_PoolState c) \<le> - pf_MaxDailyLossPct p
        then (c\<lparr>sim_PoolState := (sim_PoolState c)
                 \<lparr>ps_Halted := True, ps_HaltReason := ''daily_loss_limit''\<rparr>\<rparr>, signals)
        else if DrawdownPct (pss_PeakBalance strat) (ps_TotalBalance (sim_PoolState c))
                  > pf_MaxDrawdownPct p * lit (5/10)
        then (c, signals)
        else if sim_total_open c \<ge> pf_MaxOpenPositions p then (c, signals)
        else if sim_quantity c strat candle regime signal < 1 then (c, signals)
        else
        let bufferPct = lit (2/1000);
            signal = signal\<lparr>sl_Quantity := sl_Quantity signal * (1 - bufferPct)\<rparr>;
            strat = strat\<lparr>pss_Allocated := pss_Allocated strat
               + sl_Quantity signal * Price_Float64 (ca_Close candle)\<rparr>;
            strat = (if sl_Side signal = ''BUY''
              then strat\<lparr>pss_OpenLong := mput (pss_OpenLong strat) (ca_Symbol candle)
                     (mget 0 (pss_OpenLong strat) (ca_Symbol candle) + sl_Quantity signal)\<rparr>
              else strat\<lparr>pss_OpenShort := mput (pss_OpenShort strat) (ca_Symbol candle)
                     (mget 0 (pss_OpenShort strat) (ca_Symbol candle) + sl_Quantity signal)\<rparr>)
        in (put_sim c sid strat, mput signals sid signal)))"

definition CapitalPoolSim_EvaluateAll ::
  "('r \<Rightarrow> Candle \<Rightarrow> int \<Rightarrow> Signal option \<times> 'r) \<Rightarrow> 'r CapitalPoolSim \<Rightarrow> Candle \<Rightarrow> int \<Rightarrow>
   'r CapitalPoolSim \<times> (string, Signal) gomap" where
  "CapitalPoolSim_EvaluateAll evaluate c candle regime =
     (if ps_Halted (sim_PoolState c) then (c, []) else
      fold (sim_strategy evaluate candle regime) (map fst (sim_Strategies c)) (c, []))"

definition CapitalPoolSim_RecordFill ::
  "'r CapitalPoolSim \<Rightarrow> string \<Rightarrow> string \<Rightarrow> string \<Rightarrow> f64 \<Rightarrow> f64 \<Rightarrow> 'r CapitalPoolSim" where
  "CapitalPoolSim_RecordFill c strategyID symbol side pnl quantity =
     (case mlookup (sim_Strategies c) strategyID of None \<Rightarrow> c | Some s \<Rightarrow>
       (let s = s\<lparr>pss_dailyPnL := pss_dailyPnL s + pnl\<rparr>;
            s = s\<lparr>pss_Allocated := pss_Allocated s - quantity\<rparr>;
            s = (if pss_Allocated s < 0 then s\<lparr>pss_Allocated := 0\<rparr> else s);
            s = (if side = ''BUY''
                 then s\<lparr>pss_OpenLong := reduce_entry (pss_OpenLong s) symbol quantity\<rparr>
                 else s\<lparr>pss_OpenShort := reduce_entry (pss_OpenShort s) symbol quantity\<rparr>);
            ps = RecordPoolPnL (sim_PoolState c) pnl
                   (ps_TotalBalance (sim_PoolState c) - ps_DailyPnL (sim_PoolState c));
            s = (if ps_TotalBalance ps > pss_PeakBalance s
                 then s\<lparr>pss_PeakBalance := ps_TotalBalance ps\<rparr> else s);
            ps = snd (CheckDrawdownHalt ps (sim_Profile c))
        in put_sim (c\<lparr>sim_PoolState := ps\<rparr>) strategyID s))"

definition CapitalPoolSim_ResetDaily :: "'r CapitalPoolSim \<Rightarrow> 'r CapitalPoolSim" where
  "CapitalPoolSim_ResetDaily c = c\<lparr>sim_PoolState := ResetPoolDaily (sim_PoolState c),
     sim_Strategies := mmap_vals (\<lambda>s. s\<lparr>pss_dailyPnL := 0\<rparr>) (sim_Strategies c)\<rparr>"

definition CapitalPoolSim_RequestCapital :: "'r CapitalPoolSim \<Rightarrow> CapitalRequest \<Rightarrow> CapitalResult" where
  "CapitalPoolSim_RequestCapital c req =
     (if ps_Halted (sim_PoolState c) then capital_result 0 ''pool_halted'' else
      let p = sim_profile c; balance = ps_TotalBalance (sim_PoolState c) in
      case mlookup (sim_Strategies c) (cr_StrategyID req) of
        None \<Rightarrow> capital_result (cr_BaseSize req) ''ok''
      | Some strat \<Rightarrow>
         if cr_Side req = ''BUY'' \<and> mget 0 (pss_OpenLong strat) (cr_Symbol req) > 0
         then capital_result (cr_BaseSize req * lit (5/10)) ''correlation_limit''
         else if cr_Side req = ''SELL'' \<and> mget 0 (pss_OpenShort strat) (cr_Symbol req) > 0
         then capital_result (cr_BaseSize req * lit (5/10)) ''correlation_limit''
         else if sim_total_open c \<ge> pf_MaxOpenPositions p then capital_result 0 ''max_open_positions''
         else if balance \<le> 0 then capital_result 0 ''no_capital''
         else (let sz = cr_BaseSize req;
                   maxSize = balance * pf_MaxPositionPct p / lit 100;
                   sz = (if sz > maxSize then maxSize else sz);
                   sz = (if sz > balance * lit (25/100) then balance * lit (25/100) else sz)
               in capital_result sz ''ok''))"

definition CapitalPoolSim_Halted :: "'r CapitalPoolSim \<Rightarrow> bool" where
  "CapitalPoolSim_Halted c = ps_Halted (sim_PoolState c)"

definition CapitalPoolSim_HaltReason :: "'r CapitalPoolSim \<Rightarrow> string" where
  "CapitalPoolSim_HaltReason c = ps_HaltReason (sim_PoolState c)"

definition CapitalPoolSim_TotalBalance :: "'r CapitalPoolSim \<Rightarrow> f64" where
  "CapitalPoolSim_TotalBalance c = ps_TotalBalance (sim_PoolState c)"

definition CapitalPoolSim_ApplyCorrelationReduction ::
  "'r CapitalPoolSim \<Rightarrow> string \<Rightarrow> string \<Rightarrow> f64 \<Rightarrow> f64" where
  "CapitalPoolSim_ApplyCorrelationReduction c side symbol baseSize =
     (if list_ex (\<lambda>(_, s). side = ''BUY'' \<and> mget 0 (pss_OpenShort s) symbol > 0 \<or>
           side = ''SELL'' \<and> mget 0 (pss_OpenLong s) symbol > 0) (sim_Strategies c)
      then baseSize * lit (5/10) else baseSize)"

definition CapitalPoolSim_PerStrategyDrawdown :: "'r CapitalPoolSim \<Rightarrow> string \<Rightarrow> f64" where
  "CapitalPoolSim_PerStrategyDrawdown c strategyID =
     (case mlookup (sim_Strategies c) strategyID of None \<Rightarrow> 0 | Some strat \<Rightarrow>
        if pss_PeakBalance strat \<le> 0 then 0 else
        let dd = (pss_PeakBalance strat - ps_TotalBalance (sim_PoolState c)) / pss_PeakBalance strat
        in if dd < 0 then 0 else dd)"

section \<open>The pool as a capital gate\<close>

definition CapitalPoolSim_gate :: "'r CapitalPoolSim CapitalGate" where
  "CapitalPoolSim_gate = \<lparr>cg_RequestCapital = (\<lambda>c req. (CapitalPoolSim_RequestCapital c req, c)),
     cg_RecordFill = CapitalPoolSim_RecordFill, cg_ResetDaily = CapitalPoolSim_ResetDaily,
     cg_Halted = CapitalPoolSim_Halted, cg_HaltReason = CapitalPoolSim_HaltReason,
     cg_TotalBalance = CapitalPoolSim_TotalBalance, cg_HasOpenPosition = None,
     cg_ApplyCorrelationReduction = Some CapitalPoolSim_ApplyCorrelationReduction,
     cg_PerStrategyDrawdown = Some CapitalPoolSim_PerStrategyDrawdown\<rparr>"

lemma half_scale: "unit_scale (lit (5/10))" "unit_scale (lit (1/2))"
  by (simp_all add: unit_scale_lit)

lemma sim_RequestCapital_le:
  assumes "fin_nonneg (cr_BaseSize req)"
  shows "cs_ApprovedSize (CapitalPoolSim_RequestCapital c req) \<le> cr_BaseSize req \<and>
    f64_ok (cs_ApprovedSize (CapitalPoolSim_RequestCapital c req))"
proof -
  have base: "cr_BaseSize req \<le> cr_BaseSize req" "0 \<le> cr_BaseSize req" "f64_ok (cr_BaseSize req)"
    using assms fin_nonneg_not_nan by (simp_all add: fin_nonneg_ge0) (simp add: fin_nonneg_def)
  have half: "cr_BaseSize req * lit (1/2) \<le> cr_BaseSize req"
    by (rule mul_unit_shrink(2)[OF assms half_scale(2)])
  have less: "y < x \<Longrightarrow> y \<le> x" "y < z \<Longrightarrow> z < x \<Longrightarrow> y \<le> x" for x y z :: f64
    using f64_le_trans[of y z x] by (auto intro: f64_less_imp_le)
  show ?thesis
    using base half less
    by (auto simp: CapitalPoolSim_RequestCapital_def Let_def split: option.split)
qed

lemma sim_correlation_shrunk:
  "fin_nonneg q \<Longrightarrow> shrunk q (CapitalPoolSim_ApplyCorrelationReduction c side symb q)"
  unfolding CapitalPoolSim_ApplyCorrelationReduction_def
  by (intro shrunk_if shrunk_mul shrunk_refl half_scale)

lemma sim_halted_request:
  "CapitalPoolSim_Halted c \<Longrightarrow> CapitalPoolSim_RequestCapital c req = capital_result 0 ''pool_halted''"
  by (simp add: CapitalPoolSim_Halted_def CapitalPoolSim_RequestCapital_def)

interpretation backtest_pool: capital_gate CapitalPoolSim_gate "\<lambda>_. True"
  by unfold_locales (auto simp: CapitalPoolSim_gate_def sim_RequestCapital_le sim_correlation_shrunk
      sim_halted_request)

section \<open>What EvaluateAll emits\<close>

definition buffered :: "('r \<Rightarrow> Candle \<Rightarrow> int \<Rightarrow> Signal option \<times> 'r) \<Rightarrow> Candle \<Rightarrow> int \<Rightarrow> Signal \<Rightarrow> bool" where
  "buffered evaluate candle regime s \<longleftrightarrow> (\<exists>r signal r'. evaluate r candle regime = (Some signal, r') \<and>
    s = signal\<lparr>sl_Quantity := sl_Quantity signal * (1 - lit (2/1000))\<rparr>)"

lemma buffered_intro: "fst (evaluate r candle regime) = Some signal \<Longrightarrow>
    buffered evaluate candle regime (signal\<lparr>sl_Quantity := sl_Quantity signal * (1 - lit (2/1000))\<rparr>)"
  unfolding buffered_def by (metis prod.collapse)

lemma sim_strategy_signals:
  "snd (sim_strategy evaluate candle regime sid st) = snd st \<or>
   (\<exists>s. buffered evaluate candle regime s \<and> snd (sim_strategy evaluate candle regime sid st) = mput (snd st) sid s)"
  using buffered_intro[of evaluate _ candle regime]
  by (simp add: sim_strategy_def Let_def case_prod_beta split: option.split) blast

text \<open>The position sizing of the pool never reaches an order. Every signal \<open>EvaluateAll\<close> emits
  carries the quantity its runner asked for less the buffer of 0.2 per cent: the computed
  quantity and its cap by the profile's maximal position only decide whether a signal is
  emitted at all.\<close>

theorem EvaluateAll_ignores_position_cap:
  assumes "mlookup (snd (CapitalPoolSim_EvaluateAll evaluate c candle regime)) sid = Some s"
  shows "\<exists>r signal r'. evaluate r candle regime = (Some signal, r') \<and>
    s = signal\<lparr>sl_Quantity := sl_Quantity signal * (1 - lit (2/1000))\<rparr>"
proof -
  have "buffered evaluate candle regime s"
    if "mlookup (snd (fold (sim_strategy evaluate candle regime) ids st)) sid = Some s"
      "\<forall>s. mlookup (snd st) sid = Some s \<longrightarrow> buffered evaluate candle regime s" for ids st
    using that
  proof (induction ids arbitrary: st)
    case (Cons i ids)
    then show ?case
      using sim_strategy_signals[of evaluate candle regime i st]
      by (intro Cons.IH[of "sim_strategy evaluate candle regime i st"]) (auto split: if_splits)
  qed simp
  from this[of _ "(c, [])"] show ?thesis
    using assms by (simp add: CapitalPoolSim_EvaluateAll_def buffered_def split: if_splits)
qed

definition sample_candle :: Candle where
  "sample_candle = \<lparr>ca_Time = 0, ca_Open = 10000000, ca_High = 10000000, ca_Low = 10000000,
     ca_Close = 10000000, ca_Volume = 1, ca_Symbol = ''A'', ca_AdjustmentFactor = 1, ca_Source = '''',
     ca_GenerationID = ''''\<rparr>"

definition greedy_signal :: Signal where
  "greedy_signal = \<lparr>sl_Symbol = ''A'', sl_Side = ''BUY'', sl_Quantity = lit 1000000,
     sl_Action = SignalEntry, sl_PWin = 1, sl_StrategyID = ''s1'', sl_StopLoss = 0, sl_TakeProfit = 0\<rparr>"

definition sample_sim :: "unit CapitalPoolSim" where
  "sample_sim = CapitalPoolSim_AddStrategy (NewCapitalPoolSim (Some DefaultFTMOProfile) (lit 100000)) ''s1'' (Some ())"

theorem EvaluateAll_ignores_position_cap_witness:
  "\<exists>s. mlookup (snd (CapitalPoolSim_EvaluateAll (\<lambda>r candle regime. (Some greedy_signal, r))
      sample_sim sample_candle 0)) ''s1'' = Some s \<and> sl_Quantity s = lit 1000000 * (1 - lit (2/1000))"
proof -
  define ev :: "unit \<Rightarrow> Candle \<Rightarrow> int \<Rightarrow> Signal option \<times> unit"
    where "ev = (\<lambda>r candle regime. (Some greedy_signal, r))"
  have "mlookup (snd (CapitalPoolSim_EvaluateAll ev sample_sim sample_candle 0)) ''s1'' \<noteq> None"
    by (simp add: CapitalPoolSim_EvaluateAll_def sample_sim_def CapitalPoolSim_AddStrategy_def
        NewCapitalPoolSim_def InitPoolState_def zero_pool_state_def mput_def sim_strategy_def ev_def
        sim_profile_def put_sim_def DefaultFTMOProfile_def DrawdownPct_def sim_total_open_def
        sim_quantity_def sample_candle_def greedy_signal_def Price_Float64_def ToFloat64_def
        PriceScaleFactor_def Let_def f64_eval)
  then obtain s where s: "mlookup (snd (CapitalPoolSim_EvaluateAll ev sample_sim sample_candle 0)) ''s1'' = Some s"
    by auto
  from EvaluateAll_ignores_position_cap[OF this] have "sl_Quantity s = lit 1000000 * (1 - lit (2/1000))"
    by (auto simp: ev_def greedy_signal_def)
  with s show ?thesis by (auto simp: ev_def)
qed

end
