(* ===== verification/Deployments.thy ===== *)
theory Deployments
  imports Pipeline Sizing CapitalPool Enforcer PoolSim
begin

text \<open>
  The pipelines the program builds: the live engine's (\<open>SetLiveEngine\<close> of
  \<open>internal/api/router.go\<close> and the calls of \<open>internal/engine/live_engine.go\<close>), the
  orchestrator's (\<open>AddStrategy\<close> and the entry part of \<open>Run\<close> of
  \<open>internal/backtest/orchestrator.go\<close>) and the backtest engine's (\<open>WirePipeline\<close> and
  \<open>generateSignal\<close> of \<open>internal/backtest/engine.go\<close>).
\<close>

interpretation live: risk_pipeline SignalGateImpl_gate signal_gate_ok CapitalPoolManager_gate cpm_ok
    Manager_gate "\<lambda>_. True"
  by unfold_locales

interpretation backtest: risk_pipeline SignalGateImpl_gate signal_gate_ok CapitalPoolSim_gate "\<lambda>_. True"
    "PropFirmEnforcer_gate now" enforcer_ok for now
  by unfold_locales

section \<open>The live engine\<close>

type_synonym live_pipeline = "(SignalGateImpl, CapitalPoolManager, manager) RiskPipeline"

text \<open>The pipeline \<open>SetLiveEngine\<close> builds, if the server has a multi-account pool, with the server's
  prop firm manager.\<close>

definition SetLiveEngine_pipeline :: "manager \<Rightarrow> live_pipeline" where
  "SetLiveEngine_pipeline mgr = \<lparr>
     rp_SignalGate = Some (SignalGateImpl_gate, SignalGateImpl_SetBacktestMode
       (NewSignalGateImpl (Some (NewVolatilityHalt DefaultVolatilityHalt)) (Some (NewPositionSizer None))
         (Some (NewExposureTracker (lit 5) (lit (25/100)))) (Some (NewOrderRateLimiter DefaultOrderRateLimit)))
       False),
     rp_Capital = None, rp_PropFirm = Some (Manager_gate, mgr), rp_KellyMult = lit (25/100),
     rp_RegimeMatrix = Some NewRegimeActivationMatrix, rp_CurrentRegime = 0, rp_symbolNotional = []\<rparr>"

text \<open>
  What \<open>ProcessTickForAccount\<close> does to the pipeline before a tick's signals: the market
  state of the sizer (the gate's sizer is never nil there) and the regime.
\<close>

definition live_market_state :: "live_pipeline \<Rightarrow> f64 \<Rightarrow> int \<Rightarrow> live_pipeline" where
  "live_market_state p vix regime =
     (let p = (case rp_SignalGate p of None \<Rightarrow> p | Some (G, g) \<Rightarrow>
          (case SignalGateImpl_SetVIX g vix of None \<Rightarrow> p | Some g \<Rightarrow>
           (case SignalGateImpl_SetRegime g regime of None \<Rightarrow> p | Some g \<Rightarrow>
              p\<lparr>rp_SignalGate := Some (G, g)\<rparr>)))
      in p\<lparr>rp_CurrentRegime := regime\<rparr>)"

definition LiveEngine_request :: "Signal \<Rightarrow> price \<Rightarrow> f64 \<Rightarrow> ProcessSignalRequest" where
  "LiveEngine_request sig close capital =
     (let pWin = (if sl_PWin sig \<le> 0 then lit (5/10) else sl_PWin sig);
          stratID = (if sl_StrategyID sig = '''' then ''live'' else sl_StrategyID sig)
      in \<lparr>rq_StrategyID = stratID, rq_Symbol = sl_Symbol sig, rq_Side = sl_Side sig,
          rq_Price = Price_Float64 close, rq_Confidence = pWin, rq_BaseSize = sl_Quantity sig,
          rq_ExistingPosition = 0, rq_RunningCapital = capital, rq_AllowFractional = False,
          rq_IsExit = False, rq_DisableRegimeGate = False\<rparr>)"

text \<open>
  The loop over the approved signals, each with the clock reading of its check: the ones the
  pipeline passes, with their new size.
\<close>

fun live_filter :: "live_pipeline \<Rightarrow> (Signal \<times> int) list \<Rightarrow> price \<Rightarrow> f64 \<Rightarrow> Signal list \<times> live_pipeline" where
  "live_filter p [] close capital = ([], p)"
| "live_filter p ((sig, now) # sigs) close capital =
     (let (result, p) = RiskPipeline_ProcessSignal p (LiveEngine_request sig close capital) now;
          (rest, p) = live_filter p sigs close capital
      in (if rs_Approved result then sig\<lparr>sl_Quantity := rs_Size result\<rparr> # rest else rest, p))"

text \<open>
  The life of the live pipeline: ticks with their signals, fills, new participation weights
  (\<open>RegisterAccountStrategies\<close>), and whatever the rest of the server does to the manager.
\<close>

datatype live_op =
    LvTick f64 int "(Signal \<times> int) list" price f64
  | LvFill string string string f64 f64 f64
  | LvParticipation string "(string, f64) gomap"
  | LvManager manager

fun live_step :: "live_pipeline \<Rightarrow> live_op \<Rightarrow> live_pipeline" where
  "live_step p (LvTick vix regime sigs close capital) =
     snd (live_filter (live_market_state p vix regime) sigs close capital)"
| "live_step p (LvFill sid symb side pnl qty price) = RiskPipeline_ReconcileFill p sid symb side pnl qty price"
| "live_step p (LvParticipation sid params) =
     p\<lparr>rp_RegimeMatrix := ApplyRegimeParticipation (rp_RegimeMatrix p) sid params\<rparr>"
| "live_step p (LvManager mgr) = p\<lparr>rp_PropFirm := Some (Manager_gate, mgr)\<rparr>"

text \<open>The equity the exposure tracker of a pipeline divides by, when it has a tracker.\<close>

definition tracker_equity :: "SignalGateImpl \<Rightarrow> f64 option" where
  "tracker_equity g = map_option ex_equity (si_exposure g)"

definition pipeline_equity :: "(SignalGateImpl, 'c, 'p) RiskPipeline \<Rightarrow> f64 option" where
  "pipeline_equity p = (case rp_SignalGate p of
     Some (G, g) \<Rightarrow> if G = SignalGateImpl_gate then tracker_equity g else None | None \<Rightarrow> None)"

lemma tracker_equity_frame [frame_simps]:
  "tracker_equity (snd (SignalGateImpl_ValidateSignal g c now)) = tracker_equity g"
  "tracker_equity (SignalGateImpl_RecordExposure g symb side n) = tracker_equity g"
  "tracker_equity (SignalGateImpl_RemoveExposure g symb side n) = tracker_equity g"
  by (auto simp: tracker_equity_def SignalGateImpl_ValidateSignal_def SignalGateImpl_RecordExposure_def
      SignalGateImpl_RemoveExposure_def ExposureTracker_AddPosition_def ExposureTracker_RemovePosition_def
      Let_def split: option.splits prod.splits)

lemma pipeline_equity_frame [frame_simps]:
  "pipeline_equity (p\<lparr>rp_Capital := cap\<rparr>) = pipeline_equity p"
  "pipeline_equity (p\<lparr>rp_PropFirm := pf\<rparr>) = pipeline_equity p"
  "pipeline_equity (p\<lparr>rp_RegimeMatrix := m\<rparr>) = pipeline_equity p"
  "pipeline_equity (p\<lparr>rp_CurrentRegime := r\<rparr>) = pipeline_equity p"
  "pipeline_equity (p\<lparr>rp_KellyMult := k\<rparr>) = pipeline_equity p"
  "pipeline_equity (p\<lparr>rp_symbolNotional := n\<rparr>) = pipeline_equity p"
  by (simp_all add: pipeline_equity_def)

lemma pipeline_equity_steps [frame_simps]:
  "pipeline_equity (snd (step_validate p req now)) = pipeline_equity p"
  "pipeline_equity (add_notional p req sz) = pipeline_equity p"
  "pipeline_equity (snd (step_capital p req sz)) = pipeline_equity p"
  "pipeline_equity (step_record p req sz) = pipeline_equity p"
  "pipeline_equity (fill_capital p sid symb side pnl qty) = pipeline_equity p"
  "pipeline_equity (fill_propfirm p pnl) = pipeline_equity p"
  "pipeline_equity (release_notional p symb n) = pipeline_equity p"
  "pipeline_equity (release_exposure p symb side n) = pipeline_equity p"
  by (auto simp: step_validate_def add_notional_def step_capital_def step_record_def fill_capital_def
      fill_propfirm_def release_notional_def release_exposure_def Let_def frame_simps case_prod_beta
      split: option.splits prod.splits)
   (auto simp: pipeline_equity_def SignalGateImpl_gate_def frame_simps)

lemma ProcessSignal_equity [frame_simps]:
  "pipeline_equity (snd (RiskPipeline_ProcessSignal p req now)) = pipeline_equity p"
proof -
  obtain bad q where v: "step_validate p req now = (bad, q)" by force
  have q: "pipeline_equity q = pipeline_equity p" using pipeline_equity_steps(1)[of p req now] by (simp add: v)
  have c: "pipeline_equity r = pipeline_equity p" if "step_capital (add_notional q req sz) req sz = (x, r)" for sz x r
    using pipeline_equity_steps(3)[of "add_notional q req sz" req sz] q that by (simp add: frame_simps)
  show ?thesis
    unfolding RiskPipeline_ProcessSignal_def Let_def v prod.case
    using q c by (auto split: option.split sum.split prod.split simp: frame_simps)
qed

lemma ReconcileFill_equity [frame_simps]:
  "pipeline_equity (RiskPipeline_ReconcileFill p sid symb side pnl qty price) = pipeline_equity p"
  "pipeline_equity (RiskPipeline_ReconcileFillWithoutPropFirm p sid symb side pnl qty price) = pipeline_equity p"
  by (simp_all add: RiskPipeline_ReconcileFill_def RiskPipeline_ReconcileFillWithoutPropFirm_def Let_def frame_simps)

lemma live_market_state_equity [frame_simps]: "pipeline_equity (live_market_state p vix r) = pipeline_equity p"
  by (auto simp: live_market_state_def SignalGateImpl_SetVIX_def SignalGateImpl_SetRegime_def Let_def
      frame_simps split: option.splits)
    (auto simp: pipeline_equity_def tracker_equity_def)

lemma live_filter_equity: "pipeline_equity (snd (live_filter p sigs close capital)) = pipeline_equity p"
  by (induction sigs arbitrary: p) (auto simp: Let_def case_prod_beta frame_simps)

lemma live_step_equity [frame_simps]: "pipeline_equity (live_step p op) = pipeline_equity p"
  by (cases op) (simp_all add: frame_simps live_filter_equity)

lemma live_run_equity: "pipeline_equity (foldl live_step p ops) = pipeline_equity p"
  by (induction ops arbitrary: p) (simp_all add: frame_simps)

text \<open>An exposure tracker that was never told the equity refuses every order.\<close>

lemma starved_rejects:
  assumes "pipeline_equity p = Some e" "e \<le> 0" "\<not> rq_IsExit req"
  shows "\<not> rs_Approved (fst (RiskPipeline_ProcessSignal p req now))"
proof
  assume "rs_Approved (fst (RiskPipeline_ProcessSignal p req now))"
  then obtain p1 sz where s: "step_validate p req now = (None, p1)"
    "step_exposure (add_notional p1 req sz) req sz = None"
    using approved_entryE[OF refl _ assms(3)] by metis
  have "pipeline_equity (add_notional p1 req sz) = Some e"
    using pipeline_equity_steps(1)[of p req now] assms(1) by (simp add: s frame_simps)
  then show False using s(2) assms(2)
    by (auto simp: pipeline_equity_def tracker_equity_def step_exposure_def SignalGateImpl_gate_def
        SignalGateImpl_CheckExposure_def ExposureTracker_CheckOrder_def split: option.splits if_splits)
qed

lemma live_filter_starved:
  "pipeline_equity p = Some 0 \<Longrightarrow> fst (live_filter p sigs close capital) = []"
proof (induction sigs arbitrary: p)
  case (Cons s sigs)
  obtain sig now where sg: "s = (sig, now)" by force
  obtain r q where r: "RiskPipeline_ProcessSignal p (LiveEngine_request sig close capital) now = (r, q)" by force
  have "\<not> rs_Approved r"
    using starved_rejects[OF Cons.prems, of "LiveEngine_request sig close capital" now]
    by (simp add: r) (simp add: LiveEngine_request_def Let_def)
  moreover have "pipeline_equity q = Some 0"
    using ProcessSignal_equity[of p "LiveEngine_request sig close capital" now] Cons.prems by (simp add: r)
  ultimately show ?case using Cons.IH[of q] by (simp add: sg r Let_def case_prod_beta)
qed simp

lemma SetLiveEngine_equity: "pipeline_equity (SetLiveEngine_pipeline mgr) = Some 0"
  by (simp add: SetLiveEngine_pipeline_def pipeline_equity_def tracker_equity_def
      SignalGateImpl_SetBacktestMode_def NewSignalGateImpl_def NewExposureTracker_def)

text \<open>The pipeline of \<open>SetLiveEngine\<close>, which it wires when a multi-account pool is set, passes no signal:
  nothing ever gives the exposure tracker its equity, so after any history of ticks, fills, new
  participation weights and changes to the prop firm manager, every signal of a tick is
  filtered out, whatever its strategy, size, price and the capital are.\<close>

theorem live_engine_never_trades:
  "fst (live_filter (foldl live_step (SetLiveEngine_pipeline mgr) ops) sigs close capital) = []"
  by (rule live_filter_starved) (simp add: live_run_equity SetLiveEngine_equity)

section \<open>The orchestrator\<close>

type_synonym 'r orchestrator_pipeline =
  "(SignalGateImpl, 'r CapitalPoolSim, PropFirmEnforcer) RiskPipeline"

record OrchestratorConfig =
  oc_InitialCapital :: f64
  oc_RebalanceBars :: int
  oc_KellyFraction :: f64
  oc_MaxPositionPct :: f64
  oc_AllowFractional :: bool
  oc_EnableCorrelationBrake :: bool
  oc_CorrelationThreshold :: f64
  oc_FrictionModel :: string
  oc_CommissionBps :: f64

text \<open>The defaults \<open>NewOrchestrator\<close> fills in.\<close>

definition NewOrchestrator_config :: "OrchestratorConfig \<Rightarrow> OrchestratorConfig" where
  "NewOrchestrator_config cfg =
     (let cfg = (if oc_RebalanceBars cfg \<le> 0 then cfg\<lparr>oc_RebalanceBars := 20\<rparr> else cfg);
          cfg = (if oc_CorrelationThreshold cfg \<le> 0 then cfg\<lparr>oc_CorrelationThreshold := lit (6/10)\<rparr> else cfg);
          cfg = (if oc_KellyFraction cfg \<le> 0 then cfg\<lparr>oc_KellyFraction := lit (25/100)\<rparr> else cfg);
          cfg = (if oc_MaxPositionPct cfg \<le> lit (1/1000) \<or> oc_MaxPositionPct cfg > lit (20/100)
                 then cfg\<lparr>oc_MaxPositionPct := lit (2/100)\<rparr> else cfg)
      in if oc_CommissionBps cfg \<le> 0 then cfg\<lparr>oc_CommissionBps := lit 2\<rparr> else cfg)"

text \<open>The pipeline of an added strategy; \<open>Run\<close> puts the simulated pool in before the first bar.\<close>

definition Orchestrator_AddStrategy :: "OrchestratorConfig \<Rightarrow> regime_matrix \<Rightarrow> 'r orchestrator_pipeline" where
  "Orchestrator_AddStrategy cfg matrix = \<lparr>
     rp_SignalGate = Some (SignalGateImpl_gate, SignalGateImpl_SetBacktestMode
       (NewSignalGateImpl (Some (NewVolatilityHalt (lit 3))) (Some (NewPositionSizer None))
         (Some (NewExposureTracker (lit 5) (lit (25/100)))) None) True),
     rp_Capital = None, rp_PropFirm = None, rp_KellyMult = oc_KellyFraction cfg,
     rp_RegimeMatrix = Some matrix, rp_CurrentRegime = 0, rp_symbolNotional = []\<rparr>"

definition Orchestrator_set_pool :: "'r orchestrator_pipeline \<Rightarrow> 'r CapitalPoolSim \<Rightarrow> 'r orchestrator_pipeline" where
  "Orchestrator_set_pool p pool = p\<lparr>rp_Capital := Some (CapitalPoolSim_gate, pool)\<rparr>"

definition Orchestrator_baseSize :: "OrchestratorConfig \<Rightarrow> f64 \<Rightarrow> f64 \<Rightarrow> f64 \<Rightarrow> f64 \<Rightarrow> f64" where
  "Orchestrator_baseSize cfg capital w kelly price =
     (let sizingPct = oc_MaxPositionPct cfg * kelly;
          sizingPct = (if w > 0 then sizingPct * w else sizingPct * lit (5/10))
      in capital * sizingPct / price)"

text \<open>
  The entry part of \<open>Run\<close>, from the strategy's signal to the quantity that is sent to the
  fill simulator; \<open>None\<close> when the bar is skipped because the quantity is below the minimum.
\<close>

definition Orchestrator_entry :: "OrchestratorConfig \<Rightarrow> 'r orchestrator_pipeline \<Rightarrow> string \<Rightarrow> f64 \<Rightarrow>
  Signal \<Rightarrow> string \<Rightarrow> f64 \<Rightarrow> f64 \<Rightarrow> f64 \<Rightarrow> f64 \<Rightarrow> int \<Rightarrow> int \<Rightarrow> f64 option \<times> 'r orchestrator_pipeline" where
  "Orchestrator_entry cfg p sid currentPosition raw symbol price capital w kelly regime now =
     (let baseSize = Orchestrator_baseSize cfg capital w kelly price;
          p = p\<lparr>rp_CurrentRegime := regime\<rparr>;
          (pipeResult, p) = RiskPipeline_ProcessSignal p \<lparr>rq_StrategyID = sid, rq_Symbol = symbol,
            rq_Side = sl_Side raw, rq_Price = price, rq_Confidence = sl_PWin raw, rq_BaseSize = baseSize,
            rq_ExistingPosition = currentPosition, rq_RunningCapital = capital, rq_AllowFractional = False,
            rq_IsExit = False, rq_DisableRegimeGate = False\<rparr> now;
          fillQty = (if rs_Approved pipeResult \<and> rs_Size pipeResult > 0 then rs_Size pipeResult else baseSize);
          minQty = (if oc_AllowFractional cfg then lit (1/100) else 1)
      in (if fillQty < minQty then None else Some fillQty, p))"

text \<open>The profit of a closed trade, with the commission, and what is booked of it.\<close>

definition Orchestrator_pnl :: "OrchestratorConfig \<Rightarrow> string \<Rightarrow> price \<Rightarrow> f64 \<Rightarrow> f64 \<Rightarrow> f64" where
  "Orchestrator_pnl cfg side entryPrice quantity fp =
     (let pnl = (if side = ''BUY'' then (fp - Price_Float64 entryPrice) * quantity
                 else (Price_Float64 entryPrice - fp) * quantity);
          commission = Price_Float64 entryPrice * quantity * (oc_CommissionBps cfg / lit 10000)
      in pnl - commission)"

definition Orchestrator_safePnl :: "f64 \<Rightarrow> f64 \<Rightarrow> f64 \<Rightarrow> price \<Rightarrow> f64" where
  "Orchestrator_safePnl pnl capital quantity entryPrice =
     fst (SanitizeTradePnL pnl capital quantity (Price_Float64 entryPrice))"

text \<open>The pipeline of a strategy during the run: entries, and other strategies using the pool.\<close>

datatype 'r orchestrator_op =
    OcEntry string f64 Signal string f64 f64 f64 f64 int int
  | OcPool "'r CapitalPoolSim"

fun orchestrator_step :: "OrchestratorConfig \<Rightarrow> 'r orchestrator_pipeline \<Rightarrow> 'r orchestrator_op \<Rightarrow>
  'r orchestrator_pipeline" where
  "orchestrator_step cfg p (OcEntry sid pos raw symb price capital w kelly regime now) =
     snd (Orchestrator_entry cfg p sid pos raw symb price capital w kelly regime now)"
| "orchestrator_step cfg p (OcPool pool) = Orchestrator_set_pool p pool"

lemma orchestrator_step_equity: "pipeline_equity (orchestrator_step cfg p op) = pipeline_equity p"
  by (cases op) (simp_all add: Orchestrator_entry_def Orchestrator_set_pool_def Let_def case_prod_beta frame_simps)

lemma orchestrator_run_equity: "pipeline_equity (foldl (orchestrator_step cfg) p ops) = pipeline_equity p"
  by (induction ops arbitrary: p) (simp_all add: orchestrator_step_equity)

lemma Orchestrator_entry_starved:
  assumes "pipeline_equity p = Some 0"
  shows "fst (Orchestrator_entry cfg p sid pos raw symb price capital w kelly regime now) =
   (let sz = Orchestrator_baseSize cfg capital w kelly price
    in if sz < (if oc_AllowFractional cfg then lit (1/100) else 1) then None else Some sz)"
proof -
  define q where "q = p\<lparr>rp_CurrentRegime := regime\<rparr>"
  have e: "pipeline_equity q = Some 0" using assms by (simp add: q_def frame_simps)
  note starved = starved_rejects[OF e, simplified]
  show ?thesis by (simp add: Orchestrator_entry_def Let_def case_prod_beta starved flip: q_def)
qed

lemma orchestrator_history_equity:
  "pipeline_equity (foldl (orchestrator_step cfg) (Orchestrator_AddStrategy cfg matrix) ops) = Some 0"
  by (simp add: orchestrator_run_equity) (simp add: Orchestrator_AddStrategy_def pipeline_equity_def
    tracker_equity_def SignalGateImpl_SetBacktestMode_def NewSignalGateImpl_def NewExposureTracker_def)

text \<open>C15: The risk pipeline has no say in what the orchestrator orders. Its exposure tracker never
  gets an equity, so after any history of entries and uses of the pool, whatever regime is set, the
  pipeline approves no entry request; and the quantity the orchestrator hands to the fill simulator
  for an entry is the whole base size, or the bar is skipped because that is below the minimum
  quantity. What the simulator then fills of it is not part of the statement.\<close>

theorem orchestrator_ignores_the_gates:
  "let p = foldl (orchestrator_step cfg) (Orchestrator_AddStrategy cfg matrix) ops;
       sz = Orchestrator_baseSize cfg capital w kelly price
   in \<not> rs_Approved (fst (RiskPipeline_ProcessSignal (p\<lparr>rp_CurrentRegime := regime\<rparr>) (req\<lparr>rq_IsExit := False\<rparr>) now)) \<and>
      fst (Orchestrator_entry cfg p sid pos raw symb price capital w kelly regime now) =
        (if sz < (if oc_AllowFractional cfg then lit (1/100) else 1) then None else Some sz)"
proof -
  define p where "p = foldl (orchestrator_step cfg) (Orchestrator_AddStrategy cfg matrix) ops"
  have e: "pipeline_equity p = Some 0" by (simp add: p_def orchestrator_history_equity)
  then have "pipeline_equity (p\<lparr>rp_CurrentRegime := regime\<rparr>) = Some 0" by (simp add: frame_simps)
  then show ?thesis
    using Orchestrator_entry_starved[OF e] starved_rejects[of "p\<lparr>rp_CurrentRegime := regime\<rparr>" 0 "req\<lparr>rq_IsExit := False\<rparr>" now]
    unfolding p_def[symmetric] Let_def by simp
qed

lemma Price_Float64_fin_nonneg:
  assumes "0 \<le> p" "p < 2 ^ 63"
  shows "fin_nonneg (Price_Float64 p)"
proof -
  have "of_int p \<le> (of_int (2 ^ 63) :: rat)" using assms(2) by (simp only: of_int_le_iff)
  then have le: "of_int p \<le> (2 ^ 63 :: rat)" by simp
  have top: "rnd (2 ^ 63) = Fin (2 ^ 63)" by (simp add: f64_eval)
  have big: "(2 :: rat) ^ 63 \<le> pow2 1000" using pow2_large(1) by simp
  have fin: "fin_nonneg (float_of_int p)" unfolding float_of_int_def
    using assms(1) le big by (intro fin_nonneg_rnd) simp_all
  have "float_of_int p \<le> Fin (2 ^ 63)" using rnd_mono[OF le] by (simp only: float_of_int_def top)
  then have up: "fval (float_of_int p) \<le> 2 ^ 63" using fin by (simp add: fin_le fin_nonneg_def)
  have sc: "float_of_int PriceScaleFactor = Fin 100000" by (simp add: PriceScaleFactor_def f64_eval)
  have "fin_nonneg (Fin 100000)" by (simp add: fin_nonneg_def representable_numeral)
  moreover have "fval (float_of_int p) / fval (Fin 100000) \<le> pow2 1000" using up big fin
    by (simp add: fin_nonneg_def)
  ultimately show ?thesis
    unfolding Price_Float64_def ToFloat64_def sc by (intro div_fin_nonneg(1)[OF fin]) simp_all
qed

lemma SanitizeTradePnL_swapped_le:
  assumes "is_fin a" "is_fin q" "fin_nonneg r"
  shows "\<bar>fst (SanitizeTradePnL pnl a q r)\<bar> \<le> r * lit (10/100)"
proof -
  define M1 M2 M3 where "M1 = a * q * lit (50/100)" and "M2 = r * lit (10/100)" and "M3 = r * lit (2/100)"
  define m where "m = (if M2 < M1 then M2 else M1)"
  define m' where "m' = (if m < M3 then M3 else m)"
  have "rnd (2/100) \<le> rnd (10/100)" by (intro rnd_mono) simp
  then have l: "fval (lit (2/100)) \<le> fval (lit (10/100))"
    using unit_scale_lit[of "2/100"] unit_scale_lit[of "10/100"] by (simp add: lit_def unit_scale_def fin_le)
  have half: "is_fin (lit (50/100))" "0 < fval (lit (50/100))" by (simp_all add: f64_eval)
  have aq: "a * q \<noteq> FNaN" using feqv_nan[OF mul_feqv[OF assms(1,2)]] by simp
  have n1: "M1 \<noteq> FNaN" unfolding M1_def by (rule op_not_nan(2)[OF aq half])
  have f2: "fin_nonneg M2" "fin_nonneg M3" unfolding M2_def M3_def
    using mul_unit_shrink(1)[OF assms(3)] unit_scale_lit[of "10/100"] unit_scale_lit[of "2/100"]
    by (simp_all del: divide_const_simps)
  have r: "is_fin r" "0 \<le> fval r" using assms(3) by (simp_all add: fin_nonneg_def)
  have lf: "is_fin (lit (10/100))" "is_fin (lit (2/100))"
    using unit_scale_lit[of "10/100"] unit_scale_lit[of "2/100"] by (simp_all add: unit_scale_def)
  have "rnd (fval r * fval (lit (2/100))) \<le> rnd (fval r * fval (lit (10/100)))"
    using l r by (intro rnd_mono mult_left_mono)
  then have m3: "M3 \<le> M2" unfolding M2_def M3_def
    using mul_feqv[OF r(1) lf(1)] mul_feqv[OF r(1) lf(2)] by (simp add: feqv_le)
  have nan: "M2 \<noteq> FNaN" "M3 \<noteq> FNaN" using f2 by (simp_all add: fin_nonneg_not_nan)
  have "m \<le> M2" "m \<noteq> FNaN" using n1 nan f64_not_less[of M2 M1] by (auto simp: m_def)
  then have m: "m' \<le> M2" "m' \<noteq> FNaN" using m3 nan by (auto simp: m'_def)
  have s: "fst (SanitizeTradePnL pnl a q r) = (if is_nan pnl \<or> is_inf pnl \<or> m' < \<bar>pnl\<bar> then 0 else pnl)"
    unfolding SanitizeTradePnL_def Let_def M1_def[symmetric] M2_def[symmetric] M3_def[symmetric]
      m_def[symmetric] m'_def[symmetric] by simp
  have "\<bar>pnl\<bar> \<le> M2" if "\<not> is_nan pnl" "\<not> m' < \<bar>pnl\<bar>"
    using that f64_not_less[of m' "\<bar>pnl\<bar>"] m f64_le_trans[of "\<bar>pnl\<bar>" m' M2]
    by (cases pnl) (auto simp: abs_f64_def is_nan_def)
  moreover have "\<bar>0\<bar> \<le> M2" using fin_nonneg_ge0[OF f2(1)] by (simp add: abs_f64_def zero_f64_def)
  ultimately have "\<bar>fst (SanitizeTradePnL pnl a q r)\<bar> \<le> M2" by (simp add: s)
  then show ?thesis by (simp only: M2_def)
qed

text \<open>The orchestrator passes the arguments of \<open>SanitizeTradePnL\<close> in the wrong order (capital
  as quantity, quantity as entry price, entry price as reference capital). So no trade is ever
  booked with a profit or loss of more than a tenth of the price of one share.\<close>

theorem orchestrator_books_tenth_of_share:
  assumes "is_fin capital" "is_fin quantity" "0 \<le> entryPrice" "entryPrice < 2 ^ 63"
  shows "\<bar>Orchestrator_safePnl pnl capital quantity entryPrice\<bar> \<le> Price_Float64 entryPrice * lit (10/100)"
  unfolding Orchestrator_safePnl_def
  using assms by (intro SanitizeTradePnL_swapped_le Price_Float64_fin_nonneg) simp_all

theorem orchestrator_books_tenth_of_share_witness:
  "\<bar>Orchestrator_safePnl (lit 25) (lit 100000) (lit 100) 10000000\<bar> \<le>
     Price_Float64 10000000 * lit (10/100) \<and>
   Orchestrator_pnl \<lparr>oc_InitialCapital = lit 100000, oc_RebalanceBars = 20, oc_KellyFraction = lit (25/100),
     oc_MaxPositionPct = lit (2/100), oc_AllowFractional = False, oc_EnableCorrelationBrake = False,
     oc_CorrelationThreshold = lit (6/10), oc_FrictionModel = '''', oc_CommissionBps = lit 0\<rparr>
     ''BUY'' 10000000 (lit 100) (lit (401/4)) = lit 25 \<and>
   Orchestrator_safePnl (lit 25) (lit 100000) (lit 100) 10000000 = 0"
proof -
  have fin: "is_fin (lit 100000)" "is_fin (lit 100)" by (simp_all add: f64_eval)
  show ?thesis
    using orchestrator_books_tenth_of_share[OF fin, of 10000000 "lit 25"]
    by (simp add: Orchestrator_safePnl_def Orchestrator_pnl_def SanitizeTradePnL_def Price_Float64_def
        ToFloat64_def PriceScaleFactor_def Let_def f64_eval is_nan_def is_inf_def)
qed

section \<open>The backtest engine\<close>

type_synonym engine_pipeline = "(SignalGateImpl, unit CapitalPoolSim, PropFirmEnforcer) RiskPipeline"

text \<open>The two fields of \<open>BacktestConfig\<close> that size an order; a missing parameter falls through.\<close>

definition resolveSizingPercent :: "(string, f64) gomap \<Rightarrow> f64 \<Rightarrow> f64" where
  "resolveSizingPercent params sizingPercent =
     (case mlookup params ''sizing_percent'' of
        Some v \<Rightarrow> if v > 0 then v else if sizingPercent > 0 then sizingPercent else lit (2/100)
      | None \<Rightarrow> if sizingPercent > 0 then sizingPercent else lit (2/100))"

definition resolveKellyFraction :: "(string, f64) gomap \<Rightarrow> f64 \<Rightarrow> f64" where
  "resolveKellyFraction params kellyFraction =
     (let fallback = (if kellyFraction > 0 then kellyFraction else lit (25/100));
          k = (case mlookup params ''kelly_fraction'' of
                 Some v \<Rightarrow> if v > 0 then v else fallback | None \<Rightarrow> fallback)
      in if k > lit (25/100) then lit (25/100) else k)"

text \<open>The enforcer's breaches are stamped by a clock; \<open>now\<close> is its reading.\<close>

definition Engine_WirePipeline :: "int \<Rightarrow> VolatilityHalt option \<Rightarrow> PositionSizer \<Rightarrow> ExposureTracker \<Rightarrow>
  PropFirmEnforcer option \<Rightarrow> f64 \<Rightarrow> regime_matrix \<Rightarrow> engine_pipeline" where
  "Engine_WirePipeline now volHalt sizer exposure ftmo kellyMult matrix = \<lparr>
     rp_SignalGate = Some (SignalGateImpl_gate, SignalGateImpl_SetBacktestMode
       (NewSignalGateImpl volHalt (Some sizer) (Some exposure) None) True),
     rp_Capital = None,
     rp_PropFirm = map_option (\<lambda>f. (PropFirmEnforcer_gate now, f)) ftmo,
     rp_KellyMult = kellyMult, rp_RegimeMatrix = Some matrix, rp_CurrentRegime = 0,
     rp_symbolNotional = []\<rparr>"

definition with_gate :: "(SignalGateImpl, 'c, 'p) RiskPipeline \<Rightarrow> (SignalGateImpl \<Rightarrow> SignalGateImpl option) \<Rightarrow>
  (SignalGateImpl, 'c, 'p) RiskPipeline" where
  "with_gate p f = (case rp_SignalGate p of None \<Rightarrow> p | Some (G, g) \<Rightarrow>
     (case f g of None \<Rightarrow> p | Some g \<Rightarrow> p\<lparr>rp_SignalGate := Some (G, g)\<rparr>))"

text \<open>
  The pipeline part of \<open>generateSignal\<close>: the engine shares the tracker with the gate, and
  tells it the capital before every check.
\<close>

definition Engine_signal :: "engine_pipeline \<Rightarrow> ProcessSignalRequest \<Rightarrow> int \<Rightarrow> int \<Rightarrow>
  ProcessSignalResult \<times> engine_pipeline" where
  "Engine_signal p req regime now =
     (let p = p\<lparr>rp_CurrentRegime := regime\<rparr>;
          p = with_gate p (\<lambda>g. SignalGateImpl_SetEquity g (rq_RunningCapital req))
      in RiskPipeline_ProcessSignal p req now)"

text \<open>
  What the engine does to its pipeline during a run: the parameters of the run, the market
  state and the machine learning score of the sizer, signals and closed trades.
\<close>

datatype engine_op =
    BeRun "(string, f64) gomap" f64 string
  | BeMarket f64 int int
  | BeScore f64
  | BeReturn f64
  | BeSignal ProcessSignalRequest int int
  | BeFill string string string f64 f64 f64

definition set_market :: "f64 \<Rightarrow> int \<Rightarrow> int \<Rightarrow> SignalGateImpl \<Rightarrow> SignalGateImpl option" where
  "set_market vix sentiment regime g =
     map_option (\<lambda>ps. g\<lparr>si_sizer := Some (PositionSizer_UpdateMarketState ps vix sentiment regime)\<rparr>) (si_sizer g)"

text \<open>The return of a bar goes to the volatility halt, which the gate shares with the engine.\<close>

definition set_return :: "f64 \<Rightarrow> SignalGateImpl \<Rightarrow> SignalGateImpl option" where
  "set_return r g = map_option (\<lambda>v. g\<lparr>si_volHalt := Some (VolatilityHalt_UpdateReturn v r)\<rparr>) (si_volHalt g)"

fun engine_step :: "engine_pipeline \<Rightarrow> engine_op \<Rightarrow> engine_pipeline" where
  "engine_step p (BeRun params kf sid) = p\<lparr>rp_KellyMult := resolveKellyFraction params kf,
     rp_RegimeMatrix := ApplyRegimeParticipation (rp_RegimeMatrix p) sid params\<rparr>"
| "engine_step p (BeMarket vix sentiment regime) = with_gate p (set_market vix sentiment regime)"
| "engine_step p (BeScore score) = with_gate p (\<lambda>g. SignalGateImpl_SetRegimeScore g score)"
| "engine_step p (BeReturn r) = with_gate p (set_return r)"
| "engine_step p (BeSignal req regime now) = snd (Engine_signal p req regime now)"
| "engine_step p (BeFill sid symb side pnl qty price) =
     RiskPipeline_ReconcileFillWithoutPropFirm p sid symb side pnl qty price"

text \<open>Weights and scores in their range, requests with numbers in range.\<close>

fun engine_op_ok :: "engine_op \<Rightarrow> bool" where
  "engine_op_ok (BeRun params kf sid) \<longleftrightarrow>
     (\<forall>name\<in>set regime_param_names. \<forall>w. mlookup params name = Some w \<longrightarrow> unit_scale w)"
| "engine_op_ok (BeMarket vix sentiment regime) \<longleftrightarrow> True"
| "engine_op_ok (BeScore score) \<longleftrightarrow> unit_scale (math_max (score * RegimeMLScale) 0)"
| "engine_op_ok (BeReturn r) \<longleftrightarrow> True"
| "engine_op_ok (BeSignal req regime now) \<longleftrightarrow> request_ok req"
| "engine_op_ok (BeFill sid symb side pnl qty price) \<longleftrightarrow> fin_nonneg qty"

lemma participation_loop_scales:
  "\<forall>w\<in>set (re_Participation (fst st)). unit_scale w \<Longrightarrow>
   \<forall>n\<in>set ns. \<forall>w. mlookup params n = Some w \<longrightarrow> unit_scale w \<Longrightarrow>
   \<forall>w\<in>set (re_Participation (fst (participation_loop params i ns st))). unit_scale w"
proof (induction ns arbitrary: i st)
  case (Cons name ns)
  obtain e c where st: "st = (e, c)" by force
  define st' where "st' = (case mlookup params name of
    Some v \<Rightarrow> (e\<lparr>re_Participation := (re_Participation e)[i := v]\<rparr>, True) | None \<Rightarrow> (e, c))"
  have upd: "\<forall>w\<in>set ((re_Participation e)[i := v]). unit_scale w" if "unit_scale v" for v
    using that Cons.prems(1) set_update_subset_insert[of "re_Participation e" i v] by (auto simp: st)
  have "\<forall>w\<in>set (re_Participation (fst st')). unit_scale w"
  proof (cases "mlookup params name")
    case (Some v)
    then show ?thesis using upd[of v] Cons.prems(2) by (simp add: st'_def)
  qed (use Cons.prems(1) in \<open>simp add: st'_def st\<close>)
  then have "\<forall>w\<in>set (re_Participation (fst (participation_loop params (Suc i) ns st'))). unit_scale w"
    using Cons.prems(2) by (intro Cons.IH) simp_all
  then show ?case by (simp add: st st'_def)
qed simp

lemma ApplyRegimeParticipation_scales:
  assumes "regime_scales m" "\<forall>n\<in>set regime_param_names. \<forall>w. mlookup params n = Some w \<longrightarrow> unit_scale w"
    and "ApplyRegimeParticipation (Some m) sid params = Some m'"
  shows "regime_scales m'"
proof -
  define e where "e = (RegimeActivationMatrix_Get m sid)\<lparr>re_StrategyID := sid\<rparr>"
  define e' where "e' = fst (participation_loop params 0 regime_param_names (e, False))"
  have ok: "regime_matrix_ok m" using assms(1) by (simp add: regime_scales_def)
  have de: "\<forall>w\<in>set (re_Participation defaultEntry) \<union> set (re_KellyMultiplier defaultEntry). unit_scale w"
    by (simp add: defaultEntry_def unit_scale_lit) (simp add: unit_scale_def)
  have e: "\<forall>w\<in>set (re_Participation e) \<union> set (re_KellyMultiplier e). unit_scale w"
  proof (cases "mlookup m sid")
    case None
    then show ?thesis using de by (simp add: e_def RegimeActivationMatrix_Get_def)
  next
    case (Some x)
    then show ?thesis using assms(1) map_of_SomeD[OF Some]
      by (fastforce simp: e_def RegimeActivationMatrix_Get_def regime_scales_def)
  qed
  have "\<forall>w\<in>set (re_Participation e'). unit_scale w"
    unfolding e'_def using e assms(2) by (intro participation_loop_scales) simp_all
  moreover have "re_KellyMultiplier e' = re_KellyMultiplier e"
    by (simp add: e'_def participation_loop_frame)
  moreover have "regime_entry_ok e'"
    using Get_ok[OF ok, of sid] by (simp add: e'_def e_def regime_entry_ok_def participation_loop_frame)
  ultimately have "regime_scales (RegimeActivationMatrix_Set m e')"
    using assms(1) e Set_ok[OF ok]
    by (auto simp: regime_scales_def RegimeActivationMatrix_Set_def dest!: set_mputD)
  then show ?thesis
    using assms(1,3) by (auto simp: ApplyRegimeParticipation_def Let_def case_prod_beta
        simp flip: e_def e'_def split: if_splits)
qed

lemma resolveKellyFraction_scale: "unit_scale (resolveKellyFraction params kf)"
proof -
  have l: "is_fin (lit (25/100))" "0 < lit (25/100)" "unit_scale (lit (25/100))"
    by (simp_all add: f64_eval unit_scale_def)
  have "unit_scale k" if "0 < k" "\<not> lit (25/100) < k" for k
    using that l by (cases k) (auto simp: unit_scale_def f64_eval)
  then show ?thesis using l
    by (auto simp: resolveKellyFraction_def Let_def split: option.split)
qed

abbreviation engine_ok :: "int \<Rightarrow> engine_pipeline \<Rightarrow> bool" where
  "engine_ok now \<equiv> pipeline_ok SignalGateImpl_gate signal_gate_ok CapitalPoolSim_gate (\<lambda>_. True)
     (PropFirmEnforcer_gate now) enforcer_ok"

lemma with_gate_ok:
  assumes "pipeline_ok SG sg_inv CG cg_inv PG pg_inv p" "\<And>g g'. sg_inv g \<Longrightarrow> f g = Some g' \<Longrightarrow> sg_inv g'"
  shows "pipeline_ok SG sg_inv CG cg_inv PG pg_inv (with_gate p f)"
  using assms by (auto simp: with_gate_def pipeline_ok_def split: option.splits)

lemma gate_setters_ok:
  "signal_gate_ok g \<Longrightarrow> SignalGateImpl_SetEquity g e = Some g' \<Longrightarrow> signal_gate_ok g'"
  "signal_gate_ok g \<Longrightarrow> set_market vix sentiment r g = Some g' \<Longrightarrow> signal_gate_ok g'"
  "signal_gate_ok g \<Longrightarrow> unit_scale (math_max (score * RegimeMLScale) 0) \<Longrightarrow>
     SignalGateImpl_SetRegimeScore g score = Some g' \<Longrightarrow> signal_gate_ok g'"
  "signal_gate_ok g \<Longrightarrow> set_return x g = Some g' \<Longrightarrow> signal_gate_ok g'"
  by (auto simp: SignalGateImpl_SetEquity_def set_market_def set_return_def SignalGateImpl_SetRegimeScore_def
      signal_gate_ok_def sizer_ok_def PositionSizer_UpdateMarketState_def PositionSizer_SetRegimeScore_def
      split: option.splits)

lemma pipeline_ok_regime [simp]:
  "pipeline_ok SG sg_inv CG cg_inv PG pg_inv (p\<lparr>rp_CurrentRegime := r\<rparr>) = pipeline_ok SG sg_inv CG cg_inv PG pg_inv p"
  by (simp add: pipeline_ok_def)

lemma Engine_signal_gate_ok: "engine_ok c p \<Longrightarrow>
    engine_ok c (with_gate (p\<lparr>rp_CurrentRegime := r\<rparr>) (\<lambda>g. SignalGateImpl_SetEquity g e))"
  by (intro with_gate_ok) (auto intro: gate_setters_ok(1))

lemma engine_step_ok: "engine_ok c p \<Longrightarrow> engine_op_ok op \<Longrightarrow> engine_ok c (engine_step p op)"
proof (cases op)
  case (BeRun params kf sid)
  assume a: "engine_ok c p" "engine_op_ok op"
  have "regime_scales m'" if "ApplyRegimeParticipation (rp_RegimeMatrix p) sid params = Some m'" for m'
    using that a ApplyRegimeParticipation_scales[of _ params sid m'] unfolding BeRun
    by (cases "rp_RegimeMatrix p") (auto simp: ApplyRegimeParticipation_def pipeline_ok_def)
  then show ?thesis using a(1) unfolding BeRun
    by (simp add: pipeline_ok_def resolveKellyFraction_scale)
next
  case (BeMarket vix sentiment r)
  assume "engine_ok c p"
  then show ?thesis unfolding BeMarket engine_step.simps by (rule with_gate_ok) (rule gate_setters_ok(2))
next
  case (BeScore score)
  assume "engine_ok c p" "engine_op_ok op"
  then show ?thesis unfolding BeScore engine_step.simps
    by (intro with_gate_ok) (auto intro: gate_setters_ok(3))
next
  case (BeReturn x)
  assume "engine_ok c p"
  then show ?thesis unfolding BeReturn engine_step.simps by (rule with_gate_ok) (rule gate_setters_ok(4))
next
  case (BeSignal req r now)
  assume "engine_ok c p" "engine_op_ok op"
  then show ?thesis unfolding BeSignal
    by (simp add: Engine_signal_def Let_def backtest.ProcessSignal_ok[OF Engine_signal_gate_ok])
next
  case (BeFill sid symb side pnl qty price)
  assume "engine_ok c p" "engine_op_ok op"
  then show ?thesis unfolding BeFill by (simp add: backtest.ReconcileFill_ok(2))
qed

lemma engine_run_ok: "engine_ok c p \<Longrightarrow> \<forall>op\<in>set ops. engine_op_ok op \<Longrightarrow> engine_ok c (foldl engine_step p ops)"
  by (induction ops arbitrary: p) (simp_all add: engine_step_ok)

lemma WirePipeline_ok:
  assumes "sizer_ok sizer" "pz_lotSize sizer \<le> 0" "\<And>f. ftmo = Some f \<Longrightarrow> enforcer_ok f"
    and "unit_scale kellyMult" "regime_scales matrix"
  shows "engine_ok c (Engine_WirePipeline c volHalt sizer exposure ftmo kellyMult matrix)"
  using assms by (auto simp: Engine_WirePipeline_def pipeline_ok_def signal_gate_ok_def
      SignalGateImpl_SetBacktestMode_def NewSignalGateImpl_def)

text \<open>C1: the position cap holds throughout a backtest. After any run of the wired engine, with
  weights, scores and requests in range, an approved entry has a notional of at most two percent
  of the running capital, up to the rounding of the floating point operations.\<close>

theorem backtest_entry_bounded:
  assumes wired: "sizer_ok sizer" "pz_lotSize sizer \<le> 0" "unit_scale kellyMult" "regime_scales matrix"
      "case ftmo of None \<Rightarrow> True | Some f \<Rightarrow> enforcer_ok f"
    and run: "\<forall>op\<in>set ops. engine_op_ok op"
    and req: "request_ok req" "\<not> rq_IsExit req"
    and app: "Engine_signal (foldl engine_step
        (Engine_WirePipeline c volHalt sizer exposure ftmo kellyMult matrix) ops) req regime now = (res, p')"
      "rs_Approved res"
  shows "fval (rs_Size res) * fval (rq_Price req) \<le> fval (rq_RunningCapital req) * (2/100) * (1 + 1 / 2 ^ 49)"
proof -
  have "engine_ok c (Engine_WirePipeline c volHalt sizer exposure ftmo kellyMult matrix)"
    using wired by (intro WirePipeline_ok) auto
  then have "engine_ok c (foldl engine_step (Engine_WirePipeline c volHalt sizer exposure ftmo kellyMult matrix) ops)"
    using run by (rule engine_run_ok)
  note ok = Engine_signal_gate_ok[OF this, of regime "rq_RunningCapital req"]
  show ?thesis
    using backtest.run_entry_bound[OF ok, of "[]" req now] req app by (simp add: Engine_signal_def Let_def)
qed

lemma default_matrix_scales: "regime_scales NewRegimeActivationMatrix"
proof -
  have l: "unit_scale 0" "unit_scale (lit (5/10))" "unit_scale (lit (25/100))" "unit_scale (lit (15/100))"
    "unit_scale (lit (1/10))"
    by (simp_all add: unit_scale_lit) (simp add: unit_scale_def)
  show ?thesis
    using l by (simp add: regime_scales_def NewRegimeActivationMatrix_ok)
      (simp add: NewRegimeActivationMatrix_def)
qed

definition sample_entry :: ProcessSignalRequest where
  "sample_entry = \<lparr>rq_StrategyID = ''s'', rq_Symbol = ''ES'', rq_Side = ''BUY'', rq_Price = lit 100,
     rq_Confidence = 1, rq_BaseSize = lit 640, rq_ExistingPosition = 0, rq_RunningCapital = lit 100000,
     rq_AllowFractional = False, rq_IsExit = False, rq_DisableRegimeGate = False\<rparr>"

definition sample_engine :: engine_pipeline where
  "sample_engine = foldl engine_step
     (Engine_WirePipeline 0 (Some (NewVolatilityHalt (lit 3))) (NewPositionSizer None)
       (NewExposureTracker (lit 5) (lit (25/100))) None 1 NewRegimeActivationMatrix)
     [BeRun [] (lit (25/100)) ''s'', BeMarket (lit 15) 50 0]"

lemma sample_entry_ok: "request_ok sample_entry" "\<not> rq_IsExit sample_entry"
  by (simp_all add: request_ok_def sample_entry_def price_range_def capital_range_def fin_nonneg_def
      representable_numeral f64_eval)

lemma default_weights:
  "RegimeActivationMatrix_ParticipationForRegime NewRegimeActivationMatrix ''s'' 0 = 1"
  "RegimeActivationMatrix_KellyForRegime NewRegimeActivationMatrix ''s'' 0 = lit (25/100)"
  by (simp_all add: RegimeActivationMatrix_ParticipationForRegime_def RegimeActivationMatrix_KellyForRegime_def
      RegimeActivationMatrix_Get_def NewRegimeActivationMatrix_def defaultEntry_def)

lemma sample_engine_entry:
  "fst (Engine_signal sample_engine sample_entry 0 0) = approved (lit 20) ''ok''"
  by (simp add: sample_engine_def Engine_WirePipeline_def NewSignalGateImpl_def SignalGateImpl_SetBacktestMode_def
      with_gate_def set_market_def NewPositionSizer_def PositionSizer_UpdateMarketState_def
      ApplyRegimeParticipation_def resolveKellyFraction_def Let_def Engine_signal_def SignalGateImpl_SetEquity_def
      NewExposureTracker_def ExposureTracker_SetEquity_def RiskPipeline_ProcessSignal_def sample_entry_def
      step_validate_def SignalGateImpl_gate_def SignalGateImpl_ValidateSignal_def NewVolatilityHalt_def
      VolatilityHalt_IsHalted_def step_halted_def regime_blocks_def step_regime_def step_kelly_def
      step_size_def step_position_cap_def step_total_cap_def maxPositionPct_def maxTotalNotionalPct_def
      SignalGateImpl_ApplySizing_def PositionSizer_ComputeSizeUncapped_def PositionSizer_applyMultipliers_def
      RoundToLotSize_def DefaultFTMOProfile_def DefaultVIXHigh_def DefaultVIXMid_def DefaultVIXLow_def
      SentimentExtremeLow_def SentimentExtremeHigh_def SentimentModerateLow_def SentimentModerateHigh_def
      default_weights add_notional_def step_exposure_def SignalGateImpl_CheckExposure_def
      ExposureTracker_CheckOrder_def step_capital_def step_final_def f64_eval)

theorem backtest_entry_bounded_witness:
  "rs_Approved (fst (Engine_signal sample_engine sample_entry 0 0)) \<and>
   fval (rs_Size (fst (Engine_signal sample_engine sample_entry 0 0))) * fval (rq_Price sample_entry)
     \<le> fval (rq_RunningCapital sample_entry) * (2/100) * (1 + 1 / 2 ^ 49)"
proof
  show a: "rs_Approved (fst (Engine_signal sample_engine sample_entry 0 0))"
    by (simp add: sample_engine_entry)
  obtain res p' where r: "Engine_signal sample_engine sample_entry 0 0 = (res, p')" by force
  have s: "sizer_ok (NewPositionSizer None)" "pz_lotSize (NewPositionSizer None) \<le> 0"
    by (simp_all add: sizer_ok_def NewPositionSizer_def)
  show "fval (rs_Size (fst (Engine_signal sample_engine sample_entry 0 0))) * fval (rq_Price sample_entry)
     \<le> fval (rq_RunningCapital sample_entry) * (2/100) * (1 + 1 / 2 ^ 49)"
    using backtest_entry_bounded[OF s unit_scale_one default_matrix_scales _ _ sample_entry_ok
        r[unfolded sample_engine_def]] a by (simp add: r)
qed

section \<open>Notional that leaks\<close>

lemma step_capital_notional: "rp_symbolNotional (snd (step_capital p req sz)) = rp_symbolNotional p"
  by (auto simp: step_capital_def Let_def split: option.split prod.split)

lemma step_record_notional: "rp_symbolNotional (step_record p req sz) = rp_symbolNotional p"
  by (auto simp: step_record_def split: option.split)

text \<open>An entry that passes the notional caps is added to the symbol's notional even when a later
  step rejects it: the notional of a trade that never happens stays reserved.\<close>

theorem rejected_entry_keeps_notional:
  assumes "\<not> rq_IsExit req" "step_validate p req now = (None, p1)" "step_halted p1 = None"
    and "\<not> regime_blocks p1 req" "\<not> rq_BaseSize req \<le> 0" "\<not> step_size p1 req \<le> 0"
    and "step_total_cap p1 req (step_position_cap req (step_size p1 req)) = Some sz"
  shows "rp_symbolNotional (snd (RiskPipeline_ProcessSignal p req now)) =
    mput (rp_symbolNotional p) (rq_Symbol req) (mget 0 (rp_symbolNotional p) (rq_Symbol req) + \<bar>sz * rq_Price req\<bar>)"
proof -
  have c: "rp_symbolNotional q = rp_symbolNotional (add_notional p1 req sz)"
    if "step_capital (add_notional p1 req sz) req sz = (x, q)" for x q
    using step_capital_notional[of "add_notional p1 req sz" req sz] that by simp
  have "rp_symbolNotional (snd (RiskPipeline_ProcessSignal p req now)) = rp_symbolNotional (add_notional p1 req sz)"
    unfolding RiskPipeline_ProcessSignal_def Let_def using assms c
    by (auto split: option.split sum.split prod.split simp: step_record_notional)
  then show ?thesis by (simp add: add_notional_def step_validate_frame[OF assms(2)])
qed

definition sample_starved :: "unit orchestrator_pipeline" where
  "sample_starved = Orchestrator_AddStrategy \<lparr>oc_InitialCapital = lit 100000, oc_RebalanceBars = 20,
     oc_KellyFraction = lit (25/100), oc_MaxPositionPct = lit (2/100), oc_AllowFractional = False,
     oc_EnableCorrelationBrake = False, oc_CorrelationThreshold = lit (6/10), oc_FrictionModel = '''',
     oc_CommissionBps = lit 2\<rparr> NewRegimeActivationMatrix"

theorem rejected_entry_keeps_notional_witness:
  "fst (RiskPipeline_ProcessSignal sample_starved sample_entry 0) = rejected ''exposure:equity_negative'' \<and>
   rp_symbolNotional (snd (RiskPipeline_ProcessSignal sample_starved sample_entry 0)) = [(''ES'', lit 2000)]"
proof -
  note defs = sample_starved_def Orchestrator_AddStrategy_def NewSignalGateImpl_def
    SignalGateImpl_SetBacktestMode_def NewPositionSizer_def NewExposureTracker_def sample_entry_def
    step_validate_def SignalGateImpl_gate_def SignalGateImpl_ValidateSignal_def NewVolatilityHalt_def
    VolatilityHalt_IsHalted_def step_halted_def regime_blocks_def step_regime_def step_kelly_def
    step_size_def step_position_cap_def step_total_cap_def maxPositionPct_def maxTotalNotionalPct_def
    SignalGateImpl_ApplySizing_def PositionSizer_ComputeSizeUncapped_def PositionSizer_applyMultipliers_def
    RoundToLotSize_def DefaultFTMOProfile_def DefaultVIXHigh_def DefaultVIXMid_def DefaultVIXLow_def
    SentimentExtremeLow_def SentimentExtremeHigh_def SentimentModerateLow_def SentimentModerateHigh_def
    SentimentExtremeMult_def default_weights add_notional_def step_exposure_def
    SignalGateImpl_CheckExposure_def ExposureTracker_CheckOrder_def Let_def f64_eval
  have v: "step_validate sample_starved sample_entry 0 = (None, sample_starved)"
    by (simp add: defs)
  have z: "step_size sample_starved sample_entry = Fin 80" by (simp add: defs)
  have pc: "step_position_cap sample_entry (Fin 80) = Fin 20" by (simp add: defs)
  have t: "step_total_cap sample_starved sample_entry (Fin 20) = Some (Fin 20)" by (simp add: defs)
  have b: "\<not> rq_IsExit sample_entry" "step_halted sample_starved = None"
    "\<not> regime_blocks sample_starved sample_entry" "\<not> rq_BaseSize sample_entry \<le> 0"
    by (simp_all add: defs)
  have x: "step_exposure (add_notional sample_starved sample_entry (Fin 20)) sample_entry (Fin 20) =
      Some ''exposure:equity_negative''" by (simp add: defs)
  have "rp_symbolNotional (snd (RiskPipeline_ProcessSignal sample_starved sample_entry 0)) = [(''ES'', lit 2000)]"
    using rejected_entry_keeps_notional[OF b(1) v b(2-4), of "Fin 20"] by (simp add: z pc t) (simp add: defs mput_def)
  moreover have "fst (RiskPipeline_ProcessSignal sample_starved sample_entry 0) = rejected ''exposure:equity_negative''"
    using b x by (simp add: RiskPipeline_ProcessSignal_def v z pc t Let_def) (simp add: fin_less f64_eval)
  ultimately show ?thesis by simp
qed

section \<open>Examples of the pipeline's properties\<close>

definition halted_pipeline :: live_pipeline where
  "halted_pipeline = (SetLiveEngine_pipeline NewManager)\<lparr>rp_PropFirm := Some (Manager_gate,
     pg_MarkViolated Manager_gate NewManager ''max_drawdown'')\<rparr>"

theorem halted_pipeline_rejects_entries_witness:
  "\<not> rs_Approved (fst (RiskPipeline_ProcessSignal halted_pipeline sample_entry 0))"
  using halted_pipeline_rejects_entries[OF sample_entry_ok(2), of halted_pipeline 0]
  by (simp add: halted_pipeline_def live_manager.mark_halts)

text \<open>A loss of 15000 on a position of 100000, with a pool of 100000, counts as zero.\<close>

theorem outsized_pnl_is_dropped_witness:
  "RiskPipeline_ReconcileFill (halted_pipeline\<lparr>rp_Capital := Some (CapitalPoolManager_gate, sample_pool)\<rparr>)
     ''s'' ''ES'' ''BUY'' (lit (-15000)) (lit 1000) (lit 100) =
   RiskPipeline_ReconcileFill (halted_pipeline\<lparr>rp_Capital := Some (CapitalPoolManager_gate, sample_pool)\<rparr>)
     ''s'' ''ES'' ''BUY'' 0 (lit 1000) (lit 100)"
proof (rule outsized_pnl_is_dropped)
  show "snd (SanitizeTradePnL (lit (-15000)) (lit 1000) (lit 100) (RiskPipeline_capitalBalance
     (halted_pipeline\<lparr>rp_Capital := Some (CapitalPoolManager_gate, sample_pool)\<rparr>)))"
    by (simp add: SanitizeTradePnL_def RiskPipeline_capitalBalance_def CapitalPoolManager_gate_def
        CapitalPoolManager_TotalBalance_def sample_pool_def NewCapitalPoolManager_def InitPoolState_def
        zero_pool_state_def zero_pf_state_def Let_def f64_eval is_nan_def is_inf_def)
qed

end
