(* ===== verification/Rebalance.thy ===== *)
theory Rebalance
  imports Regime "HOL-Library.List_Lexorder" "HOL-Library.Char_ord"
begin

text \<open>
  The parts the orchestrator consults on every bar: the rebalancing schedule with its weights
  (\<open>internal/backtest/rebalance_scheduler.go\<close>), the detector of volatility jumps
  (\<open>internal/backtest/vix_detector.go\<close>) and the tracker of strategy correlations
  (\<open>internal/backtest/correlation_tracker.go\<close>). The trades a Sharpe ratio is taken of enter
  as the list of their percentages.
\<close>

section \<open>The schedule\<close>

record RebalanceScheduler =
  sch_T :: int
  sch_BarCount :: int
  sch_matrix :: regime_matrix
  sch_trailingSharpe :: "(string, f64 list) gomap"

definition NewRebalanceScheduler :: "int \<Rightarrow> regime_matrix \<Rightarrow> RebalanceScheduler" where
  "NewRebalanceScheduler barCadence matrix = \<lparr>sch_T = barCadence, sch_BarCount = 0,
     sch_matrix = matrix, sch_trailingSharpe = []\<rparr>"

record EligibilityResult =
  el_StrategyID :: string
  el_Eligible :: bool
  el_Sharpe :: f64
  el_Kelly :: f64
  el_Reason :: string

definition RebalanceScheduler_trailingSharpeFor :: "RebalanceScheduler \<Rightarrow> string \<Rightarrow> f64" where
  "RebalanceScheduler_trailingSharpeFor s strategyID =
     (case mlookup (sch_trailingSharpe s) strategyID of None \<Rightarrow> 0
      | Some xs \<Rightarrow> if xs = [] then 0 else if is_nan (last xs) \<or> is_inf (last xs) then 0 else last xs)"

definition RebalanceScheduler_EvaluateEligibility ::
  "RebalanceScheduler \<Rightarrow> string \<Rightarrow> int \<Rightarrow> bool \<Rightarrow> f64 \<Rightarrow> EligibilityResult" where
  "RebalanceScheduler_EvaluateEligibility s strategyID regime hasSignal kellyOverride =
     (let result = \<lparr>el_StrategyID = strategyID, el_Eligible = False, el_Sharpe = 0,
                    el_Kelly = kellyOverride, el_Reason = ''''\<rparr>
      in if RegimeActivationMatrix_ParticipationForRegime (sch_matrix s) strategyID regime \<le> 0
         then result\<lparr>el_Reason := ''regime_blocked''\<rparr>
         else
      let kellyForRegime = RegimeActivationMatrix_KellyForRegime (sch_matrix s) strategyID regime;
          result = (if 0 < kellyForRegime then result\<lparr>el_Kelly := kellyForRegime\<rparr> else result)
      in if \<not> hasSignal then result\<lparr>el_Reason := ''no_signal''\<rparr>
         else result\<lparr>el_Eligible := True, el_Sharpe := RebalanceScheduler_trailingSharpeFor s strategyID,
                     el_Reason := ''active''\<rparr>)"

definition floatMax :: "f64 \<Rightarrow> f64 \<Rightarrow> f64" where
  "floatMax a b = (if b < a then a else b)"

definition eligible_weight :: "EligibilityResult \<Rightarrow> f64" where
  "eligible_weight e = el_Kelly e * floatMax (el_Sharpe e) 0"

definition RebalanceScheduler_ComputeWeights :: "EligibilityResult list \<Rightarrow> (string, f64) gomap" where
  "RebalanceScheduler_ComputeWeights active =
     (if active = [] then [] else
      let (numerator, denominator) = foldl (\<lambda>(num, den) e.
            (mput num (el_StrategyID e) (eligible_weight e), den + eligible_weight e)) ([], 0) active
      in if denominator \<le> 0
         then foldl (\<lambda>ws e. mput ws (el_StrategyID e) (1 / float_of_int (int (length active)))) [] active
         else foldl (\<lambda>ws e. mput ws (el_StrategyID e)
                (mget 0 numerator (el_StrategyID e) / denominator)) [] active)"

definition RebalanceScheduler_IsFullRebalanceDue :: "RebalanceScheduler \<Rightarrow> bool \<times> RebalanceScheduler" where
  "RebalanceScheduler_IsFullRebalanceDue s =
     (let s = s\<lparr>sch_BarCount := sch_BarCount s + 1\<rparr>
      in if sch_BarCount s \<ge> sch_T s then (True, s\<lparr>sch_BarCount := 0\<rparr>) else (False, s))"

text \<open>\<open>sort.Float64s\<close> puts NaN first; the order of equal values does not matter to the sums.\<close>

definition float_before :: "f64 \<Rightarrow> f64 \<Rightarrow> bool" where
  "float_before a b \<longleftrightarrow> a < b \<or> is_nan a \<and> \<not> is_nan b"

fun float_insert :: "f64 \<Rightarrow> f64 list \<Rightarrow> f64 list" where
  "float_insert x [] = [x]"
| "float_insert x (y # ys) = (if float_before y x then y # float_insert x ys else x # y # ys)"

definition sort_Float64s :: "f64 list \<Rightarrow> f64 list" where
  "sort_Float64s xs = foldr float_insert xs []"

definition sharpeFromReturns :: "f64 list \<Rightarrow> f64" where
  "sharpeFromReturns returns =
     (let n = length returns in
      if n < 2 then 0 else
      let mean = foldl (\<lambda>s r. s + r) 0 returns / float_of_int (int n);
          variance = foldl (\<lambda>v r. v + (r - mean) * (r - mean)) 0 returns / float_of_int (int n - 1)
      in if variance < lit (1 / 10 ^ 12) then 0 else mean / math_sqrt variance)"

definition calculateTrailingSharpeFromTrades :: "f64 list \<Rightarrow> nat \<Rightarrow> f64" where
  "calculateTrailingSharpeFromTrades pnlPcts window =
     (if length pnlPcts < 2 then 0
      else let subset = (if window < length pnlPcts then drop (length pnlPcts - window) pnlPcts else pnlPcts)
        in sharpeFromReturns (sort_Float64s subset))"

definition RebalanceScheduler_RecordSharpe :: "RebalanceScheduler \<Rightarrow> string \<Rightarrow> f64 list \<Rightarrow> RebalanceScheduler" where
  "RebalanceScheduler_RecordSharpe s strategyID pnlPcts =
     (let sharpe = calculateTrailingSharpeFromTrades pnlPcts 20;
          xs = mget [] (sch_trailingSharpe s) strategyID @ [sharpe];
          xs = (if 20 < length xs then drop (length xs - 20) xs else xs)
      in s\<lparr>sch_trailingSharpe := mput (sch_trailingSharpe s) strategyID xs\<rparr>)"

definition RebalanceScheduler_ActiveWeight :: "(string, f64) gomap \<Rightarrow> string \<Rightarrow> f64" where
  "RebalanceScheduler_ActiveWeight weights strategyID = mget 0 weights strategyID"

definition RebalanceScheduler_CadenceForTimeframe :: "string \<Rightarrow> int" where
  "RebalanceScheduler_CadenceForTimeframe tf =
     (if tf = ''1d'' then 20 else if tf = ''4h'' then 40 else if tf = ''1h'' then 80
      else if tf = ''30m'' then 120 else if tf = ''15m'' then 160 else 40)"

section \<open>Volatility jumps\<close>

record VIXAccelerationDetector =
  vd_history :: "f64 list"
  vd_threshold :: f64
  vd_window :: nat

definition NewVIXAccelerationDetector :: "f64 \<Rightarrow> VIXAccelerationDetector" where
  "NewVIXAccelerationDetector threshold = \<lparr>vd_history = [], vd_threshold = threshold, vd_window = 2\<rparr>"

definition vix_delta :: "VIXAccelerationDetector \<Rightarrow> f64" where
  "vix_delta v = \<bar>last (vd_history v) - hd (vd_history v)\<bar>"

definition VIXAccelerationDetector_Feed :: "VIXAccelerationDetector \<Rightarrow> f64 \<Rightarrow> f64 \<Rightarrow> f64 \<times> VIXAccelerationDetector" where
  "VIXAccelerationDetector_Feed v rawVIX smoothVIX =
     (let h = vd_history v @ [rawVIX];
          h = (if vd_window v + 1 < length h then drop (length h - vd_window v - 1) h else h);
          v = v\<lparr>vd_history := h\<rparr>
      in (if 2 \<le> length h \<and> vd_threshold v < vix_delta v then rawVIX else smoothVIX, v))"

definition VIXAccelerationDetector_IsSpike :: "VIXAccelerationDetector \<Rightarrow> f64 \<Rightarrow> f64 \<Rightarrow> bool \<times> VIXAccelerationDetector" where
  "VIXAccelerationDetector_IsSpike v rawVIX smoothVIX =
     (let v = snd (VIXAccelerationDetector_Feed v rawVIX smoothVIX)
      in (2 \<le> length (vd_history v) \<and> vd_threshold v < vix_delta v, v))"

definition VIXAccelerationDetector_Reset :: "VIXAccelerationDetector \<Rightarrow> VIXAccelerationDetector" where
  "VIXAccelerationDetector_Reset v = v\<lparr>vd_history := []\<rparr>"

section \<open>Correlations\<close>

record CorrelationTracker =
  ct_equityHistories :: "(string, f64 list) gomap"
  ct_window :: nat
  ct_threshold :: f64
  ct_brakeDuration :: int
  ct_brakes :: "(string, int) gomap"
  ct_velocityThreshold :: f64
  ct_cooldown :: int
  ct_velocityCooldown :: "(string, int) gomap"
  ct_rhoHistory :: "(string, f64) gomap"

definition NewCorrelationTracker :: "nat \<Rightarrow> f64 \<Rightarrow> CorrelationTracker" where
  "NewCorrelationTracker window threshold = \<lparr>ct_equityHistories = [], ct_window = window,
     ct_threshold = threshold, ct_brakeDuration = 10, ct_brakes = [], ct_velocityThreshold = lit (3/10),
     ct_cooldown = 3, ct_velocityCooldown = [], ct_rhoHistory = []\<rparr>"

definition CorrelationTracker_SetVelocityBrakeParams :: "CorrelationTracker \<Rightarrow> f64 \<Rightarrow> int \<Rightarrow> CorrelationTracker" where
  "CorrelationTracker_SetVelocityBrakeParams ct dailyThreshold cooldownBars =
     ct\<lparr>ct_velocityThreshold := dailyThreshold, ct_cooldown := cooldownBars\<rparr>"

definition CorrelationTracker_RecordEquity :: "CorrelationTracker \<Rightarrow> string \<Rightarrow> f64 \<Rightarrow> CorrelationTracker" where
  "CorrelationTracker_RecordEquity ct strategyID equity =
     (let h = mget [] (ct_equityHistories ct) strategyID @ [equity];
          h = (if ct_window ct < length h then drop (length h - ct_window ct) h else h)
      in ct\<lparr>ct_equityHistories := mput (ct_equityHistories ct) strategyID h\<rparr>)"

record PairCorrelation =
  pc_StrategyA :: string
  pc_StrategyB :: string
  pc_Correlation :: f64
  pc_BrakeActive :: bool

record BreachEvent =
  bv_StrategyA :: string
  bv_StrategyB :: string
  bv_Correlation :: f64
  bv_Action :: string

definition pairKey :: "string \<Rightarrow> string \<Rightarrow> string" where
  "pairKey a b = (if a < b then a @ '':'' @ b else b @ '':'' @ a)"

definition CorrelationTracker_activeIDs :: "CorrelationTracker \<Rightarrow> string list" where
  "CorrelationTracker_activeIDs ct = map fst (filter (\<lambda>(_, h). 2 \<le> length h) (ct_equityHistories ct))"

fun returnsFromEquity :: "f64 list \<Rightarrow> f64 list" where
  "returnsFromEquity (x # y # zs) = (if 0 < x then (y - x) / x else 0) # returnsFromEquity (y # zs)"
| "returnsFromEquity _ = []"

definition keep_tail :: "nat \<Rightarrow> 'a list \<Rightarrow> 'a list" where
  "keep_tail n xs = drop (length xs - n) xs"

definition CorrelationTracker_computePearson :: "CorrelationTracker \<Rightarrow> string \<Rightarrow> string \<Rightarrow> f64" where
  "CorrelationTracker_computePearson ct a b =
     (let eqA = mget [] (ct_equityHistories ct) a; eqB = mget [] (ct_equityHistories ct) b in
      if length eqA < 2 \<or> length eqB < 2 then 0 else
      let ra = returnsFromEquity eqA; rb = returnsFromEquity eqB; n = min (length ra) (length rb) in
      if n < 2 then 0 else
      let rs = zip (keep_tail n ra) (keep_tail n rb);
          sumA = foldl (\<lambda>s (x, y). s + x) 0 rs;
          sumB = foldl (\<lambda>s (x, y). s + y) 0 rs;
          sumAB = foldl (\<lambda>s (x, y). s + x * y) 0 rs;
          sumA2 = foldl (\<lambda>s (x, y). s + x * x) 0 rs;
          sumB2 = foldl (\<lambda>s (x, y). s + y * y) 0 rs;
          nf = float_of_int (int n);
          num = nf * sumAB - sumA * sumB;
          den = math_sqrt ((nf * sumA2 - sumA * sumA) * (nf * sumB2 - sumB * sumB))
      in if den < lit (1 / 10 ^ 12) then 0
         else let rho = num / den in if is_nan rho \<or> is_inf rho then 0 else rho)"

fun all_pairs :: "'a list \<Rightarrow> ('a \<times> 'a) list" where
  "all_pairs [] = []"
| "all_pairs (x # xs) = map (Pair x) xs @ all_pairs xs"

text \<open>The body of the double loop: the brake of one pair, then its velocity brake.\<close>

definition check_pair :: "CorrelationTracker \<Rightarrow> string \<Rightarrow> string \<Rightarrow>
  CorrelationTracker \<times> PairCorrelation \<times> BreachEvent list" where
  "check_pair ct a b =
     (let rho = CorrelationTracker_computePearson ct a b;
          k = pairKey a b;
          prevRho = mget 0 (ct_rhoHistory ct) k;
          event = (\<lambda>action. \<lparr>bv_StrategyA = a, bv_StrategyB = b, bv_Correlation = rho, bv_Action = action\<rparr>);
          (ct, active, es) =
            (if ct_threshold ct < rho
             then (ct\<lparr>ct_brakes := mput (ct_brakes ct) k (ct_brakeDuration ct)\<rparr>, True, [event ''brake_applied''])
             else if 0 < mget 0 (ct_brakes ct) k
             then (let left = mget 0 (ct_brakes ct) k - 1
                   in (ct\<lparr>ct_brakes := mput (ct_brakes ct) k left\<rparr>, True,
                       if left = 0 then [event ''brake_released''] else []))
             else (ct, False, []));
          (ct, active, es) =
            (if mget 0 (ct_velocityCooldown ct) k = 0 \<and> \<not> feq prevRho 0 \<and> ct_velocityThreshold ct < \<bar>rho - prevRho\<bar>
             then (ct\<lparr>ct_brakes := mput (ct_brakes ct) k (ct_brakeDuration ct),
                     ct_velocityCooldown := mput (ct_velocityCooldown ct) k (ct_cooldown ct)\<rparr>, True,
                   es @ [event ''brake_applied_velocity''])
             else (ct, active, es));
          ct = (if 0 < mget 0 (ct_velocityCooldown ct) k
                then ct\<lparr>ct_velocityCooldown := mput (ct_velocityCooldown ct) k (mget 0 (ct_velocityCooldown ct) k - 1)\<rparr>
                else ct);
          ct = ct\<lparr>ct_rhoHistory := mput (ct_rhoHistory ct) k rho\<rparr>
      in (ct, \<lparr>pc_StrategyA = a, pc_StrategyB = b, pc_Correlation = rho, pc_BrakeActive = active\<rparr>, es))"

definition CorrelationTracker_CheckCorrelations :: "CorrelationTracker \<Rightarrow>
  (PairCorrelation list \<times> BreachEvent list) \<times> CorrelationTracker" where
  "CorrelationTracker_CheckCorrelations ct =
     (let (ct, cs, bs) = foldl (\<lambda>(ct, cs, bs) (a, b). let (ct, pc, es) = check_pair ct a b in (ct, cs @ [pc], bs @ es))
            (ct, [], []) (all_pairs (CorrelationTracker_activeIDs ct))
      in ((cs, bs), ct))"

definition CorrelationTracker_IsBrakeActive :: "CorrelationTracker \<Rightarrow> string \<Rightarrow> string \<Rightarrow> bool" where
  "CorrelationTracker_IsBrakeActive ct a b \<longleftrightarrow> 0 < mget 0 (ct_brakes ct) (pairKey a b)"

definition CorrelationTracker_BrakeDiscount :: "CorrelationTracker \<Rightarrow> string \<Rightarrow> string \<Rightarrow> f64" where
  "CorrelationTracker_BrakeDiscount ct a b =
     (if CorrelationTracker_IsBrakeActive ct a b then lit (70/100) else 1)"

text \<open>A nested map of the pairs, here with pairs as keys.\<close>

definition CorrelationTracker_PairMatrix :: "CorrelationTracker \<Rightarrow> (string \<times> string, f64) gomap" where
  "CorrelationTracker_PairMatrix ct = foldl (\<lambda>m (a, b).
     let rho = CorrelationTracker_computePearson ct a b in mput (mput m (a, b) rho) (b, a) rho)
     [] (all_pairs (CorrelationTracker_activeIDs ct))"

section \<open>The calendar\<close>

fun due_run :: "nat \<Rightarrow> RebalanceScheduler \<Rightarrow> bool list" where
  "due_run 0 s = []"
| "due_run (Suc n) s = (let (due, s') = RebalanceScheduler_IsFullRebalanceDue s in due # due_run n s')"

lemma due_run_nth:
  assumes "0 < T" "sch_T s = int T" "sch_BarCount s = int c" "c < T" "i < n"
  shows "due_run n s ! i \<longleftrightarrow> T dvd (c + i + 1)"
  using assms(2-)
proof (induction n arbitrary: s c i)
  case (Suc n)
  define s' where "s' = snd (RebalanceScheduler_IsFullRebalanceDue s)"
  define c' where "c' = (if Suc c = T then 0 else Suc c)"
  have s': "sch_T s' = int T" "sch_BarCount s' = int c'" "c' < T"
    using Suc.prems assms(1) by (auto simp: s'_def c'_def RebalanceScheduler_IsFullRebalanceDue_def Let_def)
  have due: "fst (RebalanceScheduler_IsFullRebalanceDue s) \<longleftrightarrow> Suc c = T"
    using Suc.prems by (auto simp: RebalanceScheduler_IsFullRebalanceDue_def Let_def)
  have run: "due_run (Suc n) s = fst (RebalanceScheduler_IsFullRebalanceDue s) # due_run n s'"
    by (simp add: s'_def case_prod_beta)
  show ?case
  proof (cases i)
    case 0
    have "T dvd Suc c \<longleftrightarrow> Suc c = T" using Suc.prems(3) by (auto dest: dvd_imp_le)
    then show ?thesis unfolding run by (simp add: 0 due)
  next
    case (Suc j)
    have "T dvd (c + Suc j + 1) \<longleftrightarrow> T dvd (c' + j + 1)"
    proof (cases "Suc c = T")
      case True
      have "c + Suc j + 1 = T + (j + 1)" using True by simp
      then show ?thesis using True unfolding c'_def by (simp only: if_True dvd_add_right_iff[OF dvd_refl] add_0 simp_thms)
    qed (simp add: c'_def)
    then show ?thesis using Suc.IH[OF s', of j] Suc.prems(4) Suc unfolding run by simp
  qed
qed simp

text \<open>A full rebalance is due on every \<open>T\<close>-th bar, counted from the first, and on no other.\<close>

theorem rebalance_every_T_bars:
  assumes "0 < T" "i < n"
  shows "due_run n (NewRebalanceScheduler (int T) matrix) ! i \<longleftrightarrow> T dvd (i + 1)"
  using due_run_nth[of T "NewRebalanceScheduler (int T) matrix" 0 i n] assms
  by (simp add: NewRebalanceScheduler_def)

theorem rebalance_every_T_bars_witness:
  "due_run 4 (NewRebalanceScheduler 2 []) ! 3 \<and> \<not> due_run 4 (NewRebalanceScheduler 2 []) ! 2"
  using rebalance_every_T_bars[of 2 3 4 "[]"] rebalance_every_T_bars[of 2 2 4 "[]"] by simp

section \<open>The weights\<close>

definition eligible_ok :: "EligibilityResult \<Rightarrow> bool" where
  "eligible_ok e \<longleftrightarrow> unit_scale (el_Kelly e) \<and> is_fin (el_Sharpe e) \<and> f64_ok (el_Sharpe e)"

lemma eligible_weight_nonneg: "eligible_ok e \<Longrightarrow> fin_nonneg (eligible_weight e)"
proof -
  assume e: "eligible_ok e"
  have m: "fin_nonneg (floatMax (el_Sharpe e) 0)"
    using e by (auto simp: eligible_ok_def floatMax_def fin_nonneg_def fin_less)
  have "fin_nonneg (floatMax (el_Sharpe e) 0 * el_Kelly e)"
    using mul_unit_shrink(1)[OF m, of "el_Kelly e"] e by (simp add: eligible_ok_def)
  then show ?thesis by (simp add: eligible_weight_def f64_mul_commute[of "el_Kelly e"])
qed

text \<open>A sum of non-negative values may overflow to infinity, but never falls below a summand.\<close>

lemma add_grows:
  assumes "0 \<le> a" "f64_ok a" "fin_nonneg x"
  shows "a \<le> a + x" "x \<le> a + x" "0 \<le> a + (x :: f64)" "f64_ok (a + x)"
proof -
  have "a \<le> a + x \<and> x \<le> a + x"
  proof (cases "is_fin a")
    case True
    then have "fin_nonneg a" using assms(1,2) by (intro fin_nonnegI)
    then show ?thesis using add_ge_left[of a x] add_ge_left[of x a] assms(3) by (simp add: f64_add_commute[of x a])
  next
    case False
    then have "a = FPosInf" using assms(1) by (cases a) (auto simp: less_eq_f64_def)
    then show ?thesis using assms(3) by (auto simp: fin_nonneg_def fin_not_nan)
  qed
  then show "a \<le> a + x" "x \<le> a + x" by simp_all
  then show "0 \<le> a + x" using assms(1) f64_le_trans by blast
  show "f64_ok (a + x)" using assms by (simp add: fin_nonneg_def)
qed

lemma sum_grows:
  assumes "0 \<le> a" "f64_ok a" "\<forall>x\<in>set xs. fin_nonneg x"
  shows "a \<le> foldl (+) a xs \<and> (\<forall>x\<in>set xs. x \<le> foldl (+) a xs) \<and> f64_ok (foldl (+) a xs)"
  using assms
proof (induction xs arbitrary: a)
  case Nil
  then show ?case by (auto simp: less_eq_f64_def)
next
  case (Cons x xs)
  note g = add_grows[of a x]
  have "a + x \<le> foldl (+) (a + x) xs \<and> (\<forall>x'\<in>set xs. x' \<le> foldl (+) (a + x) xs) \<and> f64_ok (foldl (+) (a + x) xs)"
    using Cons.IH[of "a + x"] Cons.prems g by simp
  then show ?case using g Cons.prems by (auto intro: f64_le_trans)
qed

lemma quotient_unit:
  assumes "fin_nonneg w" "w \<le> d" "\<not> d \<le> 0" "f64_ok d"
  shows "0 \<le> w / d \<and> w / d \<le> 1"
proof (cases "is_fin d")
  case True
  have f: "is_fin w" "0 \<le> fval w" "fval w \<le> fval d" "0 < fval d" "fval d \<noteq> 0"
    using assms True by (auto simp: fin_nonneg_def fin_le)
  have q: "0 \<le> fval w / fval d" "fval w / fval d \<le> 1" using f by (simp_all add: divide_le_eq_1)
  have one: "rnd 1 = 1" using lit_1 by (simp only: lit_def)
  have "0 \<le> rnd (fval w / fval d)" "rnd (fval w / fval d) \<le> 1"
    using rnd_nonneg[OF q(1)] rnd_mono[OF q(2)] by (simp_all only: one)
  then show ?thesis using feqv_le[OF div_feqv[OF f(1) True f(5)]] by simp
next
  case False
  then have "d = FPosInf" using assms(1,2) by (cases d) (auto simp: less_eq_f64_def fin_nonneg_def)
  then show ?thesis using assms(1)
    by (auto simp: fin_nonneg_def divide_f64_def is_inf_def fzero_def fin_le fin_not_nan)
qed

lemma weights_fold:
  "foldl (\<lambda>(num, den) e. (mput num (el_StrategyID e) (eligible_weight e), den + eligible_weight e)) (m, d) es =
   (foldl (\<lambda>m e. mput m (el_StrategyID e) (eligible_weight e)) m es, foldl (+) d (map eligible_weight es))"
  by (induction es arbitrary: m d) simp_all

lemma mput_fold_lookup:
  "mlookup (foldl (\<lambda>m e. mput m (g e) (f e)) m es) k = Some w \<Longrightarrow> mlookup m k = Some w \<or> (\<exists>e\<in>set es. w = f e \<and> g e = k)"
  by (induction es arbitrary: m) (fastforce split: if_splits)+

lemma mput_fold_total:
  "e \<in> set es \<Longrightarrow> \<exists>w. mlookup (foldl (\<lambda>m e. mput m (g e) (f e)) m es) (g e) = Some w"
proof (induction es arbitrary: m)
  case (Cons x es)
  have keep: "mlookup m k = Some w \<Longrightarrow> \<exists>w. mlookup (foldl (\<lambda>m e. mput m (g e) (f e)) m es) k = Some w" for m k w
  proof (induction es arbitrary: m w)
    case (Cons a es)
    then show ?case by (cases "k = g a") auto
  qed simp
  show ?case using Cons keep[of "mput m (g x) (f x)" "g x"] by auto
qed simp

text \<open>Every weight the schedule hands out is a share: at least zero and at most one, also when
  the sum of the numerators overflows and when no strategy has a positive Sharpe ratio.\<close>

theorem rebalance_weights_are_shares:
  assumes "\<forall>e\<in>set active. eligible_ok e" "mlookup (RebalanceScheduler_ComputeWeights active) sid = Some w"
  shows "0 \<le> w \<and> w \<le> 1"
proof -
  define num where "num = foldl (\<lambda>m e. mput m (el_StrategyID e) (eligible_weight e)) [] active"
  define den where "den = foldl (+) 0 (map eligible_weight active)"
  have ne: "active \<noteq> []" using assms(2) by (auto simp: RebalanceScheduler_ComputeWeights_def)
  have nn: "\<forall>x\<in>set (map eligible_weight active). fin_nonneg x" using assms(1) eligible_weight_nonneg by simp
  have den: "\<forall>x\<in>set (map eligible_weight active). x \<le> den" "f64_ok den"
    using sum_grows[OF _ _ nn, of 0] by (simp_all add: den_def)
  show ?thesis
  proof (cases "den \<le> 0")
    case True
    define q where "q = 1 / float_of_int (int (length active))"
    have "mlookup (foldl (\<lambda>ws e. mput ws (el_StrategyID e) q) [] active) sid = Some w"
      using assms(2) ne True by (simp add: RebalanceScheduler_ComputeWeights_def weights_fold flip: den_def q_def)
    then have w: "w = q" by (auto dest: mput_fold_lookup)
    have l: "1 \<le> rat_of_nat (length active)" using ne by (cases active) simp_all
    have one: "rnd 1 = 1" using lit_1 by (simp only: lit_def)
    have "1 \<le> float_of_int (int (length active))"
      using rnd_mono[OF l] by (simp add: float_of_int_def one)
    then have "0 \<le> q \<and> q \<le> 1" unfolding q_def
      by (intro quotient_unit) (auto simp: fin_nonneg_def f64_less_not_le fin_le less_eq_f64_def)
    then show ?thesis by (simp add: w)
  next
    case False
    have "mlookup (foldl (\<lambda>ws e. mput ws (el_StrategyID e) (mget 0 num (el_StrategyID e) / den)) [] active) sid = Some w"
      using assms(2) ne False by (simp add: RebalanceScheduler_ComputeWeights_def weights_fold flip: den_def num_def)
    then obtain e where e: "e \<in> set active" "w = mget 0 num (el_StrategyID e) / den" by (auto dest: mput_fold_lookup)
    obtain v where v: "mlookup num (el_StrategyID e) = Some v"       using mput_fold_total[OF e(1), where g = el_StrategyID and f = eligible_weight and m = "[]"] unfolding num_def by blast
    then obtain e' where "e' \<in> set active" "v = eligible_weight e'" unfolding num_def by (auto dest: mput_fold_lookup)
    then have "fin_nonneg v" "v \<le> den" using nn den(1) by simp_all
    then show ?thesis using quotient_unit[OF _ _ False den(2)] by (simp add: e(2) mget_def v)
  qed
qed

section \<open>Two parts without effect\<close>

text \<open>The orchestrator feeds the detector the same value as raw and as smoothed.\<close>

lemma Feed_same: "fst (VIXAccelerationDetector_Feed v x x) = x"
  by (simp add: VIXAccelerationDetector_Feed_def Let_def)

text \<open>A correlation is always a number.\<close>

lemma computePearson_finite: "is_fin (CorrelationTracker_computePearson ct a b)"
proof -
  have g: "is_nan r \<or> is_inf r \<or> is_fin r" for r by (auto simp: is_fin_def is_nan_def is_inf_def)
  show ?thesis using g unfolding CorrelationTracker_computePearson_def Let_def by (auto split: if_split)
qed

end
