(* ===== verification/Slippage.thy ===== *)
theory Slippage
  imports MarketTypes "HOL-Library.Word"
begin

text \<open>
  The simulated fills of the backtest, \<open>internal/backtest/slippage.go\<close>. The random numbers
  come from \<open>math/rand\<close>: a generator of type \<open>'g\<close> and the parameters \<open>gauss\<close> and \<open>unif\<close>, the
  methods \<open>NormFloat64\<close> and \<open>Float64\<close>. Go's exponential is the parameter \<open>expf\<close>.
\<close>

record SlippageModel =
  sm_Type :: string
  sm_SpreadBps :: f64
  sm_MaxSlippage :: f64
  sm_LatencyMs :: f64
  sm_VolumeImpactFactor :: f64
  sm_AdverseSelectBps :: f64

definition SlippageModel_LimitFillProbability :: "(f64 \<Rightarrow> f64) \<Rightarrow> SlippageModel \<Rightarrow> f64 \<Rightarrow> f64" where
  "SlippageModel_LimitFillProbability expf m distanceFromMidBps =
     (if distanceFromMidBps \<le> 0 then lit (98/100)
      else math_max (lit (5/100)) (expf (- distanceFromMidBps / (sm_SpreadBps m + lit (1/100)))))"

definition CalibrateSlippageModel :: "SlippageModel \<Rightarrow> f64 \<Rightarrow> int \<Rightarrow> SlippageModel" where
  "CalibrateSlippageModel model observedSlippageBps sampleCount =
     (if sampleCount < 10 \<or> observedSlippageBps < 0 then model else
      let alpha = lit (2/10);
          adjustment = observedSlippageBps / (sm_SpreadBps model + sm_AdverseSelectBps model
             + sm_MaxSlippage model * lit (4/10) + lit (1/1000));
          adjustment = math_max (lit (7/10)) (math_min (lit (15/10)) adjustment);
          factor = 1 + alpha * (adjustment - 1);
          model = model\<lparr>sm_SpreadBps := sm_SpreadBps model * factor\<rparr>;
          model = model\<lparr>sm_MaxSlippage := sm_MaxSlippage model * factor\<rparr>;
          model = model\<lparr>sm_AdverseSelectBps := sm_AdverseSelectBps model * factor\<rparr>;
          model = (if sm_SpreadBps model < 0 then model\<lparr>sm_SpreadBps := 0\<rparr> else model)
      in if sm_MaxSlippage model < 0 then model\<lparr>sm_MaxSlippage := 0\<rparr> else model)"

section \<open>Presets\<close>

definition slippage_preset :: "rat \<Rightarrow> rat \<Rightarrow> rat \<Rightarrow> rat \<Rightarrow> rat \<Rightarrow> SlippageModel" where
  "slippage_preset spread maxSlip latency impact adverse = \<lparr>sm_Type = ''relative'', sm_SpreadBps = lit spread,
     sm_MaxSlippage = lit maxSlip, sm_LatencyMs = lit latency, sm_VolumeImpactFactor = lit impact,
     sm_AdverseSelectBps = lit adverse\<rparr>"

definition DefaultEquitySlippage :: SlippageModel where
  "DefaultEquitySlippage = slippage_preset (5/10) 2 5 (5/10) (5/10)"
definition LowLatencySlippage :: SlippageModel where
  "LowLatencySlippage = slippage_preset (1/10) (5/10) (1/10) 0 0"
definition RealisticEquitySlippage :: SlippageModel where
  "RealisticEquitySlippage = slippage_preset 2 5 10 1 1"
definition SmallCapSlippage :: SlippageModel where
  "SmallCapSlippage = slippage_preset 8 15 15 2 2"
definition ForexSlippage :: SlippageModel where
  "ForexSlippage = slippage_preset (3/10) 1 5 (1/10) (2/10)"
definition CryptoSlippage :: SlippageModel where
  "CryptoSlippage = slippage_preset 12 25 20 3 3"
definition CommoditySlippage :: SlippageModel where
  "CommoditySlippage = slippage_preset 4 8 10 (15/10) 1"

text \<open>Bytes of the ticker: lower case letters are raised, letters and digits kept.\<close>

definition symbol_char :: "char \<Rightarrow> string" where
  "symbol_char c = (let n = of_char c :: nat in
     if 97 \<le> n \<and> n \<le> 122 then [char_of (n - 32)]
     else if 65 \<le> n \<and> n \<le> 90 \<or> 48 \<le> n \<and> n \<le> 57 then [c] else [])"

definition normalizeSymbol :: "string \<Rightarrow> string" where
  "normalizeSymbol symbol = concat (map symbol_char symbol)"

definition SlippageForSymbol :: "string \<Rightarrow> SlippageModel" where
  "SlippageForSymbol symbol =
     (let s = normalizeSymbol symbol in
      if s \<in> set [''BTCUSD'', ''ETHUSD''] then CryptoSlippage
      else if s \<in> set [''XAUUSD'', ''XAGUSD'', ''CL'', ''USO''] then CommoditySlippage
      else if s \<in> set [''EURUSD'', ''GBPUSD'', ''USDJPY'', ''USDCHF'', ''AUDUSD'', ''USDCAD'', ''NZDUSD'']
      then ForexSlippage
      else if s \<in> set [''IWM'', ''TSLA'', ''NVDA''] then SmallCapSlippage
      else if s \<in> set [''GLD'', ''TLT''] then CommoditySlippage
      else RealisticEquitySlippage)"

definition ApplyCalibratedCosts :: "SlippageModel \<Rightarrow> f64 \<Rightarrow> f64 \<Rightarrow> SlippageModel" where
  "ApplyCalibratedCosts base spreadBps volumeImpactFactor =
     (let base = (if spreadBps > 0 \<and> \<not> is_nan spreadBps \<and> \<not> is_inf spreadBps
                  then base\<lparr>sm_SpreadBps := spreadBps\<rparr> else base)
      in if volumeImpactFactor > 0 \<and> \<not> is_nan volumeImpactFactor \<and> \<not> is_inf volumeImpactFactor
         then base\<lparr>sm_VolumeImpactFactor := volumeImpactFactor\<rparr> else base)"

section \<open>Fills\<close>

record 'g FillSimulator =
  fm_model :: SlippageModel
  fm_rng :: 'g

record SimulatedFill =
  sf_OrderID :: "32 word"
  sf_Symbol :: string
  sf_FillPrice :: price
  sf_FillQuantity :: f64
  sf_SlippageBps :: f64
  sf_LatencyMs :: f64
  sf_Delay :: int
  sf_SlippageMidBps :: f64
  sf_SlippageLastBps :: f64

text \<open>The model of one fill: the default preset is replaced by the preset of the symbol.\<close>

definition fill_model :: "SlippageModel \<Rightarrow> string \<Rightarrow> SlippageModel" where
  "fill_model m symbol =
     (if sm_Type m = ''relative'' \<and> feq (sm_SpreadBps m) (lit (5/10)) \<and> feq (sm_MaxSlippage m) (lit 2)
        \<and> feq (sm_VolumeImpactFactor m) (lit (5/10)) \<and> feq (sm_AdverseSelectBps m) (lit (5/10))
      then let base = SlippageForSymbol symbol in
        m\<lparr>sm_SpreadBps := sm_SpreadBps base, sm_MaxSlippage := sm_MaxSlippage base,
          sm_VolumeImpactFactor := sm_VolumeImpactFactor base, sm_AdverseSelectBps := sm_AdverseSelectBps base\<rparr>
      else m)"

definition fill_slippage :: "('g \<Rightarrow> f64 \<times> 'g) \<Rightarrow> ('g \<Rightarrow> f64 \<times> 'g) \<Rightarrow> SlippageModel \<Rightarrow> f64 \<Rightarrow> f64 \<Rightarrow> 'g \<Rightarrow> f64 \<times> 'g" where
  "fill_slippage gauss unif sm quantity barVolume g =
     (let slippageBps = sm_SpreadBps sm + sm_AdverseSelectBps sm;
          (slippageBps, g) = (if sm_MaxSlippage sm > 0
             then (let (z, g) = gauss g;
                       randomFactor = \<bar>z\<bar> * sm_MaxSlippage sm * lit (5/10);
                       (u, g) = unif g;
                       randomFactor = (if u < lit (5/100) then - randomFactor * lit (5/10) else randomFactor)
                   in (slippageBps + randomFactor, g))
             else (slippageBps, g));
          slippageBps = (if barVolume > 0 \<and> sm_VolumeImpactFactor sm > 0 \<and> quantity > 0
             then slippageBps + sm_VolumeImpactFactor sm * math_sqrt (quantity / barVolume) else slippageBps)
      in (if slippageBps < 0 then 0 else slippageBps, g))"

definition fill_quantity :: "('g \<Rightarrow> f64 \<times> 'g) \<Rightarrow> f64 \<Rightarrow> f64 \<Rightarrow> 'g \<Rightarrow> f64 \<times> 'g" where
  "fill_quantity unif quantity barVolume g =
     (let q = quantity;
          q = (if barVolume > 0 \<and> q > barVolume * lit (1/100) then barVolume * lit (1/100) else q)
      in if q > 0
         then (let (u, g) = unif g in
               if u < lit (5/100) then (let (v, g) = unif g in (q * (lit (5/10) + v * lit (5/10)), g))
               else (q, g))
         else (q, g))"

definition relative_bps :: "string \<Rightarrow> f64 \<Rightarrow> f64 \<Rightarrow> f64" where
  "relative_bps side fillPrice ref =
     (if ref > 0 then (if side = ''BUY'' then (fillPrice - ref) / ref * lit 10000
                       else (ref - fillPrice) / ref * lit 10000) else 0)"

definition FillSimulator_SimulateFillWithTCA ::
  "('g \<Rightarrow> f64 \<times> 'g) \<Rightarrow> ('g \<Rightarrow> f64 \<times> 'g) \<Rightarrow> 'g FillSimulator \<Rightarrow> 32 word \<Rightarrow> string \<Rightarrow> f64 \<Rightarrow> string \<Rightarrow>
   f64 \<Rightarrow> f64 \<Rightarrow> f64 \<Rightarrow> f64 \<Rightarrow> SimulatedFill \<times> 'g FillSimulator" where
  "FillSimulator_SimulateFillWithTCA gauss unif s orderID symbol quantity side tickPrice midPrice lastPrice barVolume =
     (let sm = fill_model (fm_model s) symbol;
          (slippageBps, g) = fill_slippage gauss unif sm quantity barVolume (fm_rng s);
          fillPrice = (if side = ''BUY'' then tickPrice * (1 + slippageBps / lit 10000)
                       else tickPrice * (1 - slippageBps / lit 10000));
          (q, g) = fill_quantity unif quantity barVolume g
      in (\<lparr>sf_OrderID = orderID, sf_Symbol = symbol,
           sf_FillPrice = FromFloat64 (math_round (fillPrice * lit 10000) / lit 10000),
           sf_FillQuantity = math_round (q * lit 10000) / lit 10000,
           sf_SlippageBps = slippageBps, sf_LatencyMs = sm_LatencyMs (fm_model s),
           sf_Delay = wrap64 (int64_of_float (sm_LatencyMs (fm_model s)) * 1000000),
           sf_SlippageMidBps = relative_bps side fillPrice midPrice,
           sf_SlippageLastBps = relative_bps side fillPrice lastPrice\<rparr>,
          s\<lparr>fm_rng := g\<rparr>))"

definition FillSimulator_SimulateFill ::
  "('g \<Rightarrow> f64 \<times> 'g) \<Rightarrow> ('g \<Rightarrow> f64 \<times> 'g) \<Rightarrow> 'g FillSimulator \<Rightarrow> 32 word \<Rightarrow> string \<Rightarrow> f64 \<Rightarrow> string \<Rightarrow>
   f64 \<Rightarrow> SimulatedFill \<times> 'g FillSimulator" where
  "FillSimulator_SimulateFill gauss unif s orderID symbol quantity side tickPrice =
     FillSimulator_SimulateFillWithTCA gauss unif s orderID symbol quantity side tickPrice tickPrice tickPrice 0"

section \<open>Properties\<close>

lemma symbol_char_normal: "x \<in> set (symbol_char c) \<Longrightarrow> symbol_char x = [x]"
proof -
  assume x: "x \<in> set (symbol_char c)"
  define n where "n = (of_char c :: nat)"
  have "n < 256" using nat_of_char_less_256[of c] by (simp add: n_def)
  then show ?thesis using x unfolding symbol_char_def Let_def n_def[symmetric]
    by (auto simp: of_char_of symbol_char_def Let_def n_def[symmetric] split: if_splits)
qed

lemma normalizeSymbol_idem: "normalizeSymbol (normalizeSymbol s) = normalizeSymbol s"
proof -
  have k: "\<forall>x\<in>set ys. symbol_char x = [x] \<Longrightarrow> concat (map symbol_char ys) = ys" for ys by (induction ys) simp_all
  have "\<forall>x\<in>set (normalizeSymbol s). symbol_char x = [x]"
    by (auto simp: normalizeSymbol_def dest: symbol_char_normal)
  then show ?thesis unfolding normalizeSymbol_def[of "normalizeSymbol s"] by (rule k)
qed

lemma fill_slippage_not_negative: "\<not> fst (fill_slippage gauss unif sm q v g) < 0"
  by (simp add: fill_slippage_def Let_def case_prod_beta)

text \<open>Non-negative slippage moves a buy up and a sale down, in the exact order of the rounded
  prices: the fill price before the rounding to four places is never on the better side.\<close>

lemma fill_price_side:
  assumes "fin_nonneg tick" "0 < fval tick" "is_fin s" "0 \<le> fval s"
  shows "tick \<le> tick * (1 + s / lit 10000)" "tick * (1 - s / lit 10000) \<le> tick"
proof -
  have l: "lit 10000 = Fin 10000" by (simp add: lit_numeral)
  define d where "d = s / lit 10000"
  have t: "is_fin tick" "f64_ok tick" using assms(1) by (simp_all add: fin_nonneg_def)
  have z: "0 / Fin 10000 = 0"
    by (simp add: divide_f64_def is_inf_def is_zero_def zero_f64_def fzero_def fsign_def)
  have d: "0 \<le> d"
    using f64_div_mono[of 0 s "Fin 10000"] assms(3,4) unfolding d_def l by (simp add: fin_le z)
  have one: "1 + 0 = (1 :: f64)" "1 - 0 = (1 :: f64)" by (simp_all add: f64_eval)
  have up: "1 \<le> 1 + d" using f64_add_mono[OF d, of 1] by (simp add: f64_add_commute[of _ 1] one)
  have down: "1 - d \<le> 1" using f64_sub_antimono[OF d, of 1] by (simp add: one)
  have id: "feqv (1 * tick) tick"
    using mul_feqv[of 1 tick] t rnd_fval[OF t(2,1)] assms(2) by (auto simp: feqv_def is_zero_def elim!: is_finE)
  show "tick \<le> tick * (1 + s / lit 10000)"
    using f64_mul_mono[OF up t(1) assms(2)] feqv_le(2)[OF id] by (simp add: d_def f64_mul_commute[of tick])
  show "tick * (1 - s / lit 10000) \<le> tick"
    using f64_mul_mono[OF down t(1) assms(2)] feqv_le(1)[OF id] by (simp add: d_def f64_mul_commute[of tick])
qed

end
