(* ===== verification/Trades.thy ===== *)
theory Trades
  imports MarketTypes
begin

text \<open>
  What the runs of the backtest share, \<open>internal/backtest/engine.go\<close> and
  \<open>internal/broker/fee.go\<close>: trades, the points of an equity curve, the brokerage fees and the
  small helpers of the fills. The change log of a trade, which only the reports show, is left
  out. A time is an instant in nanoseconds of UTC; Go's zero time is \<open>zero_time\<close>.
\<close>

section \<open>Trades\<close>

record Trade =
  tr_Symbol :: string
  tr_Side :: string
  tr_Quantity :: f64
  tr_EntryPrice :: price
  tr_ExitPrice :: price
  tr_EntryTime :: int
  tr_ExitTime :: int
  tr_PnL :: f64
  tr_PnLPct :: f64
  tr_HMMRegime :: int
  tr_StrategyID :: string
  tr_StopPrice :: price
  tr_TakePrice :: price
  tr_ExitReason :: string
  tr_EndOfData :: bool
  tr_BrokerFee :: f64
  tr_SlippageMidBps :: f64
  tr_SlippageLastBps :: f64
  tr_SlippageBps :: f64
  tr_SlippageFillCount :: int
  tr_AdverseSelection :: bool
  tr_MAE :: f64
  tr_MFE :: f64
  tr_lowestSinceEntry :: f64
  tr_highestSinceEntry :: f64

definition zero_time :: int where
  "zero_time = - 62135596800000000000"

definition zero_trade :: Trade where
  "zero_trade = \<lparr>tr_Symbol = '''', tr_Side = '''', tr_Quantity = 0, tr_EntryPrice = 0, tr_ExitPrice = 0,
     tr_EntryTime = zero_time, tr_ExitTime = zero_time, tr_PnL = 0, tr_PnLPct = 0, tr_HMMRegime = 0,
     tr_StrategyID = '''', tr_StopPrice = 0, tr_TakePrice = 0, tr_ExitReason = '''', tr_EndOfData = False,
     tr_BrokerFee = 0, tr_SlippageMidBps = 0, tr_SlippageLastBps = 0, tr_SlippageBps = 0,
     tr_SlippageFillCount = 0, tr_AdverseSelection = False, tr_MAE = 0, tr_MFE = 0,
     tr_lowestSinceEntry = 0, tr_highestSinceEntry = 0\<rparr>"

record EquityPoint =
  eq_Time :: int
  eq_Value :: f64
  eq_Regime :: int

text \<open>The day of an instant, for the date strings Go compares.\<close>

definition day_of :: "int \<Rightarrow> int" where
  "day_of t = t div 86400000000000"

definition invertSide :: "string \<Rightarrow> string" where
  "invertSide side = (if side = ''BUY'' then ''SELL'' else ''BUY'')"

definition adjFactor :: "f64 \<Rightarrow> f64" where
  "adjFactor af = (if af \<le> 0 then 1 else af)"

definition clampExcursionPct :: "f64 \<Rightarrow> f64" where
  "clampExcursionPct v =
     (if is_nan v \<or> is_inf v then 0
      else if v > lit 10000 then lit 10000
      else if v < - lit 10000 then - lit 10000 else v)"

section \<open>Fees\<close>

record BrokerageFeeConfig =
  bf_PerTradeFixed :: f64
  bf_PerShare :: f64
  bf_MinFee :: f64
  bf_SECTxnFee :: f64
  bf_MakerFeeBps :: f64
  bf_TakerFeeBps :: f64
  bf_Enabled :: bool

definition DefaultBrokerageFee :: BrokerageFeeConfig where
  "DefaultBrokerageFee = \<lparr>bf_PerTradeFixed = lit (35/100), bf_PerShare = lit (35/10000), bf_MinFee = lit 1,
     bf_SECTxnFee = lit (229/10000000), bf_MakerFeeBps = lit 0, bf_TakerFeeBps = lit (5/10), bf_Enabled = True\<rparr>"

definition fee_with :: "BrokerageFeeConfig \<Rightarrow> f64 \<Rightarrow> f64 \<Rightarrow> f64 \<Rightarrow> f64" where
  "fee_with f bps quantity price =
     (if \<not> bf_Enabled f then 0 else
      let fee = bf_PerTradeFixed f + quantity * bf_PerShare f + quantity * price * bf_SECTxnFee f;
          fee = fee + quantity * price * bps / lit 10000
      in if fee < bf_MinFee f then bf_MinFee f else fee)"

definition BrokerageFeeConfig_CalculateFee :: "BrokerageFeeConfig \<Rightarrow> f64 \<Rightarrow> f64 \<Rightarrow> f64" where
  "BrokerageFeeConfig_CalculateFee f quantity price = fee_with f (bf_TakerFeeBps f) quantity price"

definition BrokerageFeeConfig_CalculateMakerFee :: "BrokerageFeeConfig \<Rightarrow> f64 \<Rightarrow> f64 \<Rightarrow> f64" where
  "BrokerageFeeConfig_CalculateMakerFee f quantity price = fee_with f (bf_MakerFeeBps f) quantity price"

definition BrokerageFeeConfig_CalculateFeeForAssetClass :: "BrokerageFeeConfig \<Rightarrow> string \<Rightarrow> f64 \<Rightarrow> f64 \<Rightarrow> f64" where
  "BrokerageFeeConfig_CalculateFeeForAssetClass f assetClass quantity price =
     (if \<not> bf_Enabled f then 0 else
      let notional = quantity * price in
      if assetClass \<in> set [''forex'', ''crypto'', ''futures'', ''commodity'', ''index'']
      then (let fee = bf_PerTradeFixed f + notional * bf_TakerFeeBps f / lit 10000 in if fee < 0 then 0 else fee)
      else BrokerageFeeConfig_CalculateFee f quantity price)"

definition isForex :: "string \<Rightarrow> bool" where
  "isForex symb \<longleftrightarrow> symb \<in> set [''EURUSD'', ''GBPUSD'', ''USDJPY'', ''AUDUSD'', ''USDCAD'', ''USDCHF'', ''NZDUSD'',
     ''USDEUR'', ''US30'', ''SPX500'', ''NAS100'', ''GER40'', ''UK100'', ''JPN225'', ''^_US'', ''^DAX'']"

definition isCrypto :: "string \<Rightarrow> bool" where
  "isCrypto symb \<longleftrightarrow> symb \<in> set [''BTCUSD'', ''ETHUSD'', ''BTC-USD'', ''ETH-USD'', ''SOLUSD'', ''XRPUSD'',
     ''ADAUSD'', ''DOGEUSD'', ''LTCUSD'', ''BCHUSD'', ''DOTUSD'', ''LINKUSD'', ''AVAXUSD'', ''MATICUSD'', ''TRXUSD'', ''UNIUSD'']"

definition isFutures :: "string \<Rightarrow> bool" where
  "isFutures symb \<longleftrightarrow> symb \<in> set [''ES'', ''NQ'', ''CL'', ''YM'', ''RTY'', ''GC'', ''SI'', ''HG'', ''NG'',
     ''ZB'', ''ZN'', ''ZF'', ''6E'', ''6A'', ''6B'', ''6J'', ''6C'', ''6S'', ''6N'']"

definition isCommodity :: "string \<Rightarrow> bool" where
  "isCommodity symb \<longleftrightarrow> symb \<in> set [''XAUUSD'', ''XAGUSD'', ''GLD'', ''SLV'', ''USO'', ''UNG'']"

definition AssetClassForSymbol :: "string \<Rightarrow> string" where
  "AssetClassForSymbol symb =
     (if isForex symb then ''forex'' else if isCrypto symb then ''crypto'' else if isFutures symb then ''futures''
      else if isCommodity symb then ''commodity'' else ''equity'')"

definition BrokerageFeeConfig_CalculateFeeForSymbol :: "BrokerageFeeConfig \<Rightarrow> string \<Rightarrow> f64 \<Rightarrow> f64 \<Rightarrow> f64" where
  "BrokerageFeeConfig_CalculateFeeForSymbol f symb quantity price =
     BrokerageFeeConfig_CalculateFeeForAssetClass f (AssetClassForSymbol symb) quantity price"

definition BrokerageFeeConfig_CalculateHoldingFee :: "BrokerageFeeConfig \<Rightarrow> f64 \<Rightarrow> f64 \<Rightarrow> f64 \<Rightarrow> f64" where
  "BrokerageFeeConfig_CalculateHoldingFee f notional expenseRatio yearsHeld =
     (if \<not> bf_Enabled f \<or> notional \<le> 0 \<or> expenseRatio \<le> 0 \<or> yearsHeld \<le> 0 then 0 else
      let holding = notional * expenseRatio * yearsHeld
      in if is_nan holding \<or> is_inf holding \<or> holding < 0 then 0 else holding)"

text \<open>\<open>exit.Sub(entry).Hours()\<close>; the difference of two times saturates at the \<open>int64\<close> range.\<close>

definition duration_between :: "int \<Rightarrow> int \<Rightarrow> int" where
  "duration_between a b = max (- (2 ^ 63)) (min (2 ^ 63 - 1) (b - a))"

definition duration_hours :: "int \<Rightarrow> f64" where
  "duration_hours d = float_of_int (go_div d 3600000000000) + float_of_int (go_rem d 3600000000000) / lit 3600000000000"

definition holdingExpenseFee :: "(string \<Rightarrow> f64) \<Rightarrow> BrokerageFeeConfig \<Rightarrow> string \<Rightarrow> string \<Rightarrow> f64 \<Rightarrow> int \<Rightarrow> int \<Rightarrow> f64" where
  "holdingExpenseFee expenseRatio fee symb side notional entry exit =
     (if side \<noteq> ''BUY'' \<or> entry = zero_time \<or> \<not> entry < exit then 0
      else BrokerageFeeConfig_CalculateHoldingFee fee notional (expenseRatio symb)
        (duration_hours (duration_between entry exit) / lit 24 / lit (36525/100)))"

text \<open>No schedule charges a negative fee, and a holding costs nothing or a positive number.\<close>

lemma CalculateFee_at_least_min:
  "bf_Enabled f \<Longrightarrow> \<not> BrokerageFeeConfig_CalculateFee f q p < bf_MinFee f \<or> is_nan (bf_MinFee f)"
  by (auto simp: BrokerageFeeConfig_CalculateFee_def fee_with_def Let_def less_f64_def)

lemma fee_with_not_negative:
  assumes "0 \<le> bf_MinFee f"
  shows "\<not> fee_with f bps q p < 0"
proof -
  have least: "\<not> m < 0" "\<not> x < m \<Longrightarrow> \<not> x < 0" if "0 \<le> m" for m x :: f64
    using that by (auto simp: less_f64_def less_eq_f64_def)
  have "\<not> (0 :: f64) < 0" by (simp add: less_f64_def)
  then show ?thesis unfolding fee_with_def Let_def using least[OF assms] by (simp split: if_split)
qed

lemma CalculateFeeForSymbol_not_negative:
  assumes "0 \<le> bf_MinFee f"
  shows "\<not> BrokerageFeeConfig_CalculateFeeForSymbol f symb q p < 0"
proof -
  have "\<not> (0 :: f64) < 0" by (simp add: less_f64_def)
  then show ?thesis
    unfolding BrokerageFeeConfig_CalculateFeeForSymbol_def BrokerageFeeConfig_CalculateFeeForAssetClass_def
      BrokerageFeeConfig_CalculateFee_def Let_def
    using fee_with_not_negative[OF assms] by (simp only: split: if_split) blast
qed

lemma holdingExpenseFee_short: "side \<noteq> ''BUY'' \<Longrightarrow> holdingExpenseFee er f symb side n a b = 0"
  by (simp add: holdingExpenseFee_def)

end
