(* ===== verification/Orchestrator.thy ===== *)
theory Orchestrator
  imports Deployments Rebalance Slippage Trades
begin

text \<open>
  The orchestrated backtest, \<open>Orchestrator.Run\<close> of \<open>internal/backtest/orchestrator.go\<close>: many
  strategies on one pool. \<open>o.engines\<close> and \<open>o.enginesByID\<close> hold the same engines, here one
  association list from the engine's id in the order of addition. The logs and the candles the
  database returns are arguments, the candles merged and in the order of the sort. A runner is
  a state of type \<open>'r\<close> with \<open>evaluate\<close> and \<open>setVIX\<close> (the identity for a runner without the
  method); the fills draw from a generator of type \<open>'g\<close>. The context is not cancelled. All
  pipelines share the pool: it is put into a pipeline before its call, and no call of the
  pipeline changes it. Go ranges over \<open>openPositions\<close> in any order, here in the order of the
  entries. Times are nanoseconds of UTC. The Sharpe, Sortino and drawdown figures of the result are left out.
\<close>

record OrchAllocationPoint =
  ap_BarTime :: int
  ap_StrategyID :: string
  ap_Weight :: f64
  ap_Capital :: f64
  ap_IsActive :: bool

record 'r orchestratorEngine =
  oe_strategyID :: string
  oe_symbol :: string
  oe_timeframe :: string
  oe_runner :: 'r
  oe_pipeline :: "unit orchestrator_pipeline"
  oe_kellyMult :: f64
  oe_currentPosition :: f64
  oe_entryPrice :: f64
  oe_side :: string

text \<open>The orchestrator and the local variables of its run.\<close>

record ('r, 'g) orchestrator =
  oo_engines :: "(string, 'r orchestratorEngine) gomap"
  oo_pool :: "unit CapitalPoolSim"
  oo_matrix :: regime_matrix
  oo_scheduler :: RebalanceScheduler
  oo_correlation :: CorrelationTracker
  oo_vixDetector :: VIXAccelerationDetector
  oo_fillSim :: "'g FillSimulator"
  oo_config :: OrchestratorConfig
  oo_orderIDSeq :: "32 word"
  oo_capital :: f64
  oo_peakCapital :: f64
  oo_equity :: "EquityPoint list"
  oo_trades :: "Trade list"
  oo_allocationHistory :: "OrchAllocationPoint list"
  oo_correlationBreaches :: "BreachEvent list"
  oo_strategyPnL :: "(string, f64) gomap"
  oo_activeCounts :: "int list"
  oo_openPositions :: "(string, Trade) gomap"
  oo_currentWeights :: "(string, f64) gomap"
  oo_strategyTrades :: "(string, Trade list) gomap"
  oo_lastDay :: "int option"

definition Orchestrator_engineID :: "string \<Rightarrow> string \<Rightarrow> string \<Rightarrow> string" where
  "Orchestrator_engineID symb tf sid = symb @ '':'' @ tf @ '':'' @ sid"

definition NewOrchestrator :: "OrchestratorConfig \<Rightarrow> 'g \<Rightarrow> ('r, 'g) orchestrator" where
  "NewOrchestrator cfg rng =
     (let model = (if oc_FrictionModel cfg = ''realistic'' then RealisticEquitySlippage else DefaultEquitySlippage);
          cfg = NewOrchestrator_config cfg
      in \<lparr>oo_engines = [], oo_pool = NewCapitalPoolSim None 0, oo_matrix = NewRegimeActivationMatrix,
          oo_scheduler = NewRebalanceScheduler (oc_RebalanceBars cfg) NewRegimeActivationMatrix,
          oo_correlation = NewCorrelationTracker 30 (oc_CorrelationThreshold cfg),
          oo_vixDetector = NewVIXAccelerationDetector (lit 5),
          oo_fillSim = \<lparr>fm_model = model, fm_rng = rng\<rparr>, oo_config = cfg, oo_orderIDSeq = 0,
          oo_capital = 0, oo_peakCapital = 0, oo_equity = [], oo_trades = [], oo_allocationHistory = [],
          oo_correlationBreaches = [], oo_strategyPnL = [], oo_activeCounts = [], oo_openPositions = [],
          oo_currentWeights = [], oo_strategyTrades = [], oo_lastDay = None\<rparr>)"

datatype orchestrator_error = DuplicateEngine string | UnknownStrategy string

definition Orchestrator_Add :: "(string \<Rightarrow> 'r option) \<Rightarrow> ('r, 'g) orchestrator \<Rightarrow> string \<Rightarrow> string \<Rightarrow> string \<Rightarrow>
  orchestrator_error + ('r, 'g) orchestrator" where
  "Orchestrator_Add create o0 symb tf sid =
     (let key = Orchestrator_engineID symb tf sid in
      if mlookup (oo_engines o0) key \<noteq> None then Inl (DuplicateEngine key)
      else (case create sid of None \<Rightarrow> Inl (UnknownStrategy sid)
        | Some runner \<Rightarrow> Inr (o0\<lparr>oo_engines := mput (oo_engines o0) key
            \<lparr>oe_strategyID = sid, oe_symbol = symb, oe_timeframe = tf, oe_runner = runner,
             oe_pipeline = Orchestrator_AddStrategy (oo_config o0) (oo_matrix o0),
             oe_kellyMult = oc_KellyFraction (oo_config o0), oe_currentPosition = 0,
             oe_entryPrice = 0, oe_side = ''''\<rparr>\<rparr>)))"

section \<open>A bar\<close>

definition Orchestrator_executeRebalance :: "('r, 'g) orchestrator \<Rightarrow> f64" where
  "Orchestrator_executeRebalance s =
     (let totalCost = foldl (\<lambda>cost (sid, w). case mlookup (oo_engines s) sid of None \<Rightarrow> cost
            | Some eng \<Rightarrow>
               if 0 < oe_currentPosition eng \<and> 0 < oe_entryPrice eng
               then (let delta = w * oo_capital s - oe_currentPosition eng * oe_entryPrice eng
                     in if \<bar>delta\<bar> < 1 then cost else cost + \<bar>delta\<bar> * lit (2/10000))
               else cost) 0 (oo_currentWeights s)
      in if is_nan totalCost \<or> is_inf totalCost then 0 else totalCost)"

definition Orchestrator_rebalance :: "Candle \<Rightarrow> int \<Rightarrow> ('r, 'g) orchestrator \<Rightarrow> ('r, 'g) orchestrator" where
  "Orchestrator_rebalance candle regime s =
     (let (due, sch) = RebalanceScheduler_IsFullRebalanceDue (oo_scheduler s);
          s = s\<lparr>oo_scheduler := sch\<rparr>
      in if \<not> due then s else
      let results = map (\<lambda>(eid, eng). RebalanceScheduler_EvaluateEligibility sch (oe_strategyID eng) regime
            (mlookup (oo_openPositions s) eid = None) (oe_kellyMult eng)) (oo_engines s);
          s = s\<lparr>oo_currentWeights := RebalanceScheduler_ComputeWeights (filter el_Eligible results)\<rparr>;
          s = s\<lparr>oo_capital := oo_capital s - Orchestrator_executeRebalance s\<rparr>
      in s\<lparr>oo_allocationHistory := oo_allocationHistory s @ map (\<lambda>(eid, eng).
            let w = RebalanceScheduler_ActiveWeight (oo_currentWeights s) (oe_strategyID eng)
            in \<lparr>ap_BarTime = ca_Time candle, ap_StrategyID = oe_strategyID eng, ap_Weight = w,
                ap_Capital = w * oo_capital s, ap_IsActive = (0 < w)\<rparr>) (oo_engines s)\<rparr>)"

definition Orchestrator_correlations :: "('r, 'g) orchestrator \<Rightarrow> ('r, 'g) orchestrator" where
  "Orchestrator_correlations s =
     (let ((_, breaches), ct) = CorrelationTracker_CheckCorrelations (oo_correlation s);
          s = s\<lparr>oo_correlation := ct\<rparr>
      in if oc_EnableCorrelationBrake (oo_config s)
         then s\<lparr>oo_correlationBreaches := oo_correlationBreaches s @ breaches\<rparr> else s)"

text \<open>The entry of one engine: the guards and the strategy's signal, the quantity the pipeline
  and the minimum leave, the fill and the opened position.\<close>

definition Orchestrator_raw ::
  "('r \<Rightarrow> Candle \<Rightarrow> int \<Rightarrow> Signal option \<times> 'r) \<Rightarrow> (f64 \<Rightarrow> 'r \<Rightarrow> 'r) \<Rightarrow> Candle \<Rightarrow> int \<Rightarrow> f64 \<Rightarrow> string \<Rightarrow>
   ('r, 'g) orchestrator \<Rightarrow> (Signal \<times> 'r orchestratorEngine) option \<times> ('r, 'g) orchestrator" where
  "Orchestrator_raw evaluate setVIX candle regime vix eid s =
     (case mlookup (oo_engines s) eid of None \<Rightarrow> (None, s) | Some eng \<Rightarrow>
      if ca_Symbol candle \<noteq> oe_symbol eng then (None, s)
      else if mlookup (oo_openPositions s) eid \<noteq> None then (None, s)
      else if RegimeActivationMatrix_ParticipationForRegime (oo_matrix s) (oe_strategyID eng) regime \<le> 0 then (None, s)
      else
      let (raw, runner) = evaluate (setVIX vix (oe_runner eng)) candle regime;
          eng = eng\<lparr>oe_runner := runner\<rparr>;
          s = s\<lparr>oo_engines := mput (oo_engines s) eid eng\<rparr>
      in case raw of None \<Rightarrow> (None, s)
         | Some sig \<Rightarrow> if feq (sl_Quantity sig) 0 then (None, s) else (Some (sig, eng), s))"

definition Orchestrator_quantity :: "Candle \<Rightarrow> int \<Rightarrow> int \<Rightarrow> string \<Rightarrow> Signal \<Rightarrow> 'r orchestratorEngine \<Rightarrow>
   ('r, 'g) orchestrator \<Rightarrow> f64 option \<times> 'r orchestratorEngine \<times> ('r, 'g) orchestrator" where
  "Orchestrator_quantity candle regime now eid sig eng s =
     (let w = RebalanceScheduler_ActiveWeight (oo_currentWeights s) (oe_strategyID eng);
          kelly = el_Kelly (RebalanceScheduler_EvaluateEligibility (oo_scheduler s) (oe_strategyID eng) regime
            True (oe_kellyMult eng));
          kelly = (if kelly \<le> 0 then oe_kellyMult eng else kelly);
          (fillQty, p) = Orchestrator_entry (oo_config s) (Orchestrator_set_pool (oe_pipeline eng) (oo_pool s))
            (oe_strategyID eng) (oe_currentPosition eng) sig (ca_Symbol candle) (Price_Float64 (ca_Close candle))
            (oo_capital s) w kelly regime now;
          eng = eng\<lparr>oe_pipeline := p\<rparr>
      in (fillQty, eng, s\<lparr>oo_engines := mput (oo_engines s) eid eng\<rparr>))"

definition Orchestrator_fill :: "('g \<Rightarrow> f64 \<times> 'g) \<Rightarrow> ('g \<Rightarrow> f64 \<times> 'g) \<Rightarrow> Candle \<Rightarrow> string \<Rightarrow> Signal \<Rightarrow> f64 \<Rightarrow>
   'r orchestratorEngine \<Rightarrow> ('r, 'g) orchestrator \<Rightarrow> ('r, 'g) orchestrator" where
  "Orchestrator_fill gauss unif candle eid sig qty eng s =
     (let price = Price_Float64 (ca_Close candle);
          orderID = oo_orderIDSeq s + 1;
          (fill, sim) = FillSimulator_SimulateFillWithTCA gauss unif (oo_fillSim s) orderID
            (ca_Symbol candle) qty (sl_Side sig) price price price (ca_Volume candle);
          fp = Price_Float64 (sf_FillPrice fill);
          fp = (if fp \<le> 0 then price else fp);
          fq = (if sf_FillQuantity fill \<le> 0 then qty else sf_FillQuantity fill);
          eng = eng\<lparr>oe_currentPosition := fq, oe_entryPrice := fp, oe_side := sl_Side sig\<rparr>
      in s\<lparr>oo_engines := mput (oo_engines s) eid eng, oo_orderIDSeq := orderID, oo_fillSim := sim,
           oo_openPositions := mput (oo_openPositions s) eid
             (zero_trade\<lparr>tr_Symbol := ca_Symbol candle, tr_Side := sl_Side sig, tr_Quantity := fq,
              tr_EntryPrice := PriceFromFloat fp, tr_EntryTime := ca_Time candle,
              tr_StrategyID := oe_strategyID eng\<rparr>)\<rparr>)"

definition Orchestrator_open ::
  "('r \<Rightarrow> Candle \<Rightarrow> int \<Rightarrow> Signal option \<times> 'r) \<Rightarrow> (f64 \<Rightarrow> 'r \<Rightarrow> 'r) \<Rightarrow> ('g \<Rightarrow> f64 \<times> 'g) \<Rightarrow> ('g \<Rightarrow> f64 \<times> 'g) \<Rightarrow>
   Candle \<Rightarrow> int \<Rightarrow> f64 \<Rightarrow> int \<Rightarrow> string \<Rightarrow> ('r, 'g) orchestrator \<Rightarrow> ('r, 'g) orchestrator" where
  "Orchestrator_open evaluate setVIX gauss unif candle regime vix now eid s =
     (case Orchestrator_raw evaluate setVIX candle regime vix eid s of (None, s) \<Rightarrow> s
      | (Some (sig, eng), s) \<Rightarrow> (case Orchestrator_quantity candle regime now eid sig eng s of
          (None, eng, s) \<Rightarrow> s
        | (Some qty, eng, s) \<Rightarrow> Orchestrator_fill gauss unif candle eid sig qty eng s))"

text \<open>The exit loop has no condition: it closes every open position at the bar.\<close>

definition Orchestrator_close ::
  "('g \<Rightarrow> f64 \<times> 'g) \<Rightarrow> ('g \<Rightarrow> f64 \<times> 'g) \<Rightarrow> Candle \<Rightarrow> int \<Rightarrow> string \<times> Trade \<Rightarrow> ('r, 'g) orchestrator \<Rightarrow>
   ('r, 'g) orchestrator" where
  "Orchestrator_close gauss unif candle regime = (\<lambda>(eid, t) s.
     case mlookup (oo_engines s) eid of
       None \<Rightarrow> s\<lparr>oo_openPositions := mdelete (oo_openPositions s) eid\<rparr>
     | Some eng \<Rightarrow>
      let price = Price_Float64 (ca_Close candle);
          s = s\<lparr>oo_orderIDSeq := oo_orderIDSeq s + 1\<rparr>;
          (fill, sim) = FillSimulator_SimulateFillWithTCA gauss unif (oo_fillSim s) (oo_orderIDSeq s)
            (tr_Symbol t) (tr_Quantity t) (tr_Side t) price price price (ca_Volume candle);
          fp = Price_Float64 (sf_FillPrice fill);
          fp = (if fp \<le> 0 then price else fp);
          pnl = Orchestrator_pnl (oo_config s) (tr_Side t) (tr_EntryPrice t) (tr_Quantity t) fp;
          pnlPct = (if 0 < oo_capital s then pnl / oo_capital s * lit 100 else 0);
          safePnl = Orchestrator_safePnl pnl (oo_capital s) (tr_Quantity t) (tr_EntryPrice t);
          t = t\<lparr>tr_PnL := safePnl, tr_PnLPct := pnlPct, tr_ExitPrice := PriceFromFloat fp,
                tr_ExitTime := ca_Time candle, tr_HMMRegime := regime,
                tr_SlippageMidBps := sf_SlippageMidBps fill, tr_SlippageLastBps := sf_SlippageLastBps fill\<rparr>;
          sid = oe_strategyID eng;
          ts = mget [] (oo_strategyTrades s) sid @ [t]
      in s\<lparr>oo_fillSim := sim, oo_capital := oo_capital s + safePnl,
           oo_pool := CapitalPoolSim_RecordFill (oo_pool s) eid (tr_Symbol t) (tr_Side t) safePnl (tr_Quantity t),
           oo_trades := oo_trades s @ [t],
           oo_strategyPnL := mput (oo_strategyPnL s) sid (mget 0 (oo_strategyPnL s) sid + safePnl),
           oo_strategyTrades := mput (oo_strategyTrades s) sid ts,
           oo_scheduler := RebalanceScheduler_RecordSharpe (oo_scheduler s) sid (map tr_PnLPct ts),
           oo_openPositions := mdelete (oo_openPositions s) eid,
           oo_engines := mput (oo_engines s) eid
             (eng\<lparr>oe_currentPosition := 0, oe_entryPrice := 0, oe_side := ''''\<rparr>)\<rparr>)"

definition Orchestrator_book :: "Candle \<Rightarrow> int \<Rightarrow> ('r, 'g) orchestrator \<Rightarrow> ('r, 'g) orchestrator" where
  "Orchestrator_book candle regime s =
     (let s = s\<lparr>oo_equity := oo_equity s @ [\<lparr>eq_Time = ca_Time candle, eq_Value = oo_capital s, eq_Regime = regime\<rparr>]\<rparr>;
          s = (if oo_peakCapital s < oo_capital s then s\<lparr>oo_peakCapital := oo_capital s\<rparr> else s);
          s = s\<lparr>oo_correlation := foldl (\<lambda>ct (eid, eng). CorrelationTracker_RecordEquity ct (oe_strategyID eng)
                 (oo_capital s + mget 0 (oo_strategyPnL s) (oe_strategyID eng))) (oo_correlation s) (oo_engines s)\<rparr>
      in s\<lparr>oo_activeCounts := oo_activeCounts s @ [int (length (filter (\<lambda>(eid, eng).
            0 < RebalanceScheduler_ActiveWeight (oo_currentWeights s) (oe_strategyID eng)) (oo_engines s)))]\<rparr>)"

text \<open>The last logged volatility not after an instant.\<close>

definition vix_at :: "(int \<times> f64) list \<Rightarrow> int \<Rightarrow> f64" where
  "vix_at logs t = (case find (\<lambda>(u, _). u \<le> t) (rev logs) of None \<Rightarrow> 0 | Some (_, v) \<Rightarrow> v)"

definition Orchestrator_bar ::
  "('r \<Rightarrow> Candle \<Rightarrow> int \<Rightarrow> Signal option \<times> 'r) \<Rightarrow> (f64 \<Rightarrow> 'r \<Rightarrow> 'r) \<Rightarrow> ('g \<Rightarrow> f64 \<times> 'g) \<Rightarrow> ('g \<Rightarrow> f64 \<times> 'g) \<Rightarrow>
   (int, int) gomap \<Rightarrow> (int \<times> f64) list \<Rightarrow> int \<Rightarrow> ('r, 'g) orchestrator \<Rightarrow> Candle \<Rightarrow> ('r, 'g) orchestrator" where
  "Orchestrator_bar evaluate setVIX gauss unif regimeIndex vixLogs now s candle =
     (let day = Some (day_of (ca_Time candle));
          s = (if day \<noteq> oo_lastDay s
               then s\<lparr>oo_pool := CapitalPoolSim_ResetDaily (oo_pool s), oo_lastDay := day\<rparr> else s);
          regime = mget 0 regimeIndex (ca_Time candle div 1000000000);
          currentVIX = vix_at vixLogs (ca_Time candle);
          (vix, detector) = VIXAccelerationDetector_Feed (oo_vixDetector s) currentVIX currentVIX;
          s = s\<lparr>oo_vixDetector := detector\<rparr>
      in if ps_Halted (sim_PoolState (oo_pool s)) then s else
      let s = Orchestrator_rebalance candle regime s;
          s = Orchestrator_correlations s;
          s = fold (Orchestrator_open evaluate setVIX gauss unif candle regime vix now) (map fst (oo_engines s)) s;
          s = fold (Orchestrator_close gauss unif candle regime) (oo_openPositions s) s
      in Orchestrator_book candle regime s)"

text \<open>The start of \<open>Run\<close>: a new pool of the initial capital for all pipelines.\<close>

definition Orchestrator_start :: "('r, 'g) orchestrator \<Rightarrow> ('r, 'g) orchestrator" where
  "Orchestrator_start s =
     (let capital = oc_InitialCapital (oo_config s); pool = NewCapitalPoolSim (Some DefaultFTMOProfile) capital
      in s\<lparr>oo_pool := pool, oo_capital := capital, oo_peakCapital := capital,
           oo_engines := mmap_vals (\<lambda>e. e\<lparr>oe_pipeline := Orchestrator_set_pool (oe_pipeline e) pool\<rparr>) (oo_engines s),
           oo_equity := [], oo_trades := [], oo_allocationHistory := [], oo_correlationBreaches := [],
           oo_strategyPnL := [], oo_activeCounts := [], oo_openPositions := [], oo_currentWeights := [],
           oo_strategyTrades := [], oo_lastDay := None\<rparr>)"

text \<open>The positions left at the end of the data are closed at the last close, without a fee.\<close>

definition Orchestrator_last :: "Candle \<Rightarrow> string \<times> Trade \<Rightarrow> ('r, 'g) orchestrator \<Rightarrow> ('r, 'g) orchestrator" where
  "Orchestrator_last lastCandle = (\<lambda>(eid, t) s.
     let sid = (case mlookup (oo_engines s) eid of Some eng \<Rightarrow> oe_strategyID eng | None \<Rightarrow> eid);
         fp = Price_Float64 (ca_Close lastCandle);
         pnl = (if tr_Side t = ''BUY'' then (fp - Price_Float64 (tr_EntryPrice t)) * tr_Quantity t
                else (Price_Float64 (tr_EntryPrice t) - fp) * tr_Quantity t);
         safePnl = Orchestrator_safePnl pnl (oo_capital s) (tr_Quantity t) (tr_EntryPrice t);
         t = t\<lparr>tr_PnL := safePnl, tr_ExitPrice := PriceFromFloat fp, tr_ExitTime := ca_Time lastCandle\<rparr>
     in s\<lparr>oo_capital := oo_capital s + safePnl,
          oo_strategyPnL := mput (oo_strategyPnL s) sid (mget 0 (oo_strategyPnL s) sid + safePnl),
          oo_trades := oo_trades s @ [t], oo_openPositions := mdelete (oo_openPositions s) eid\<rparr>)"

definition Orchestrator_finish :: "Candle list \<Rightarrow> ('r, 'g) orchestrator \<Rightarrow> ('r, 'g) orchestrator" where
  "Orchestrator_finish candles s =
     (if candles = [] then s else fold (Orchestrator_last (last candles)) (oo_openPositions s) s)"

definition Orchestrator_Run ::
  "('r \<Rightarrow> Candle \<Rightarrow> int \<Rightarrow> Signal option \<times> 'r) \<Rightarrow> (f64 \<Rightarrow> 'r \<Rightarrow> 'r) \<Rightarrow> ('g \<Rightarrow> f64 \<times> 'g) \<Rightarrow> ('g \<Rightarrow> f64 \<times> 'g) \<Rightarrow>
   (int, int) gomap \<Rightarrow> (int \<times> f64) list \<Rightarrow> int \<Rightarrow> Candle list \<Rightarrow> ('r, 'g) orchestrator \<Rightarrow> ('r, 'g) orchestrator" where
  "Orchestrator_Run evaluate setVIX gauss unif regimeIndex vixLogs now candles s =
     Orchestrator_finish candles
       (foldl (Orchestrator_bar evaluate setVIX gauss unif regimeIndex vixLogs now) (Orchestrator_start s) candles)"

definition Orchestrator_returnPct :: "('r, 'g) orchestrator \<Rightarrow> f64" where
  "Orchestrator_returnPct s = (oo_capital s - oc_InitialCapital (oo_config s)) / oc_InitialCapital (oo_config s) * lit 100"

section \<open>What every step leaves alone\<close>

definition orchestrator_try :: "(string \<Rightarrow> 'r option) \<Rightarrow> ('r, 'g) orchestrator \<Rightarrow> string \<times> string \<times> string \<Rightarrow>
  ('r, 'g) orchestrator" where
  "orchestrator_try create s a = (case a of (symb, tf, sid) \<Rightarrow>
     (case Orchestrator_Add create s symb tf sid of Inl e \<Rightarrow> s | Inr s' \<Rightarrow> s'))"

definition orchestrator_of :: "(string \<Rightarrow> 'r option) \<Rightarrow> OrchestratorConfig \<Rightarrow> 'g \<Rightarrow> (string \<times> string \<times> string) list \<Rightarrow>
  ('r, 'g) orchestrator" where
  "orchestrator_of create cfg rng adds = foldl (orchestrator_try create) (NewOrchestrator cfg rng) adds"

text \<open>An engine without an open position holds nothing.\<close>

definition flat_outside :: "('r, 'g) orchestrator \<Rightarrow> bool" where
  "flat_outside s \<longleftrightarrow> (\<forall>k e. mlookup (oo_engines s) k = Some e \<longrightarrow> mlookup (oo_openPositions s) k = None \<longrightarrow>
     oe_currentPosition e = 0)"

definition pool_untouched :: "('r, 'g) orchestrator \<Rightarrow> bool" where
  "pool_untouched s \<longleftrightarrow> sim_Strategies (oo_pool s) = [] \<and> \<not> ps_Halted (sim_PoolState (oo_pool s)) \<and>
     ps_TotalBalance (sim_PoolState (oo_pool s)) = oc_InitialCapital (oo_config s)"

lemma orchestrator_try_frame:
  "flat_outside s \<Longrightarrow> flat_outside (orchestrator_try create s a) \<and> oo_config (orchestrator_try create s a) = oo_config s"
  by (cases a) (auto simp: orchestrator_try_def Orchestrator_Add_def Let_def flat_outside_def split: option.splits)

lemma orchestrator_of_flat:
  "flat_outside (orchestrator_of create cfg rng adds) \<and>
   oo_config (orchestrator_of create cfg rng adds) = NewOrchestrator_config cfg"
proof -
  have "flat_outside s \<Longrightarrow> flat_outside (foldl (orchestrator_try create) s adds) \<and>
     oo_config (foldl (orchestrator_try create) s adds) = oo_config s" for s
    by (induction adds arbitrary: s) (simp_all add: orchestrator_try_frame)
  from this[of "NewOrchestrator cfg rng"] show ?thesis
    by (simp add: orchestrator_of_def) (simp add: NewOrchestrator_def Let_def flat_outside_def)
qed

lemma mput_mput [simp]: "mput (mput m k a) k b = mput m k b"
  unfolding mput_def by (induction m) auto

text \<open>An entry changes nothing, or only its engine, or it opens a position of this bar.\<close>

lemma Orchestrator_raw_cases:
  assumes "Orchestrator_raw ev sv c r v eid s = (res, s')"
  shows "(res = None \<and> s' = s) \<or> (\<exists>eng eng'. mlookup (oo_engines s) eid = Some eng \<and>
    mlookup (oo_openPositions s) eid = None \<and> oe_currentPosition eng' = oe_currentPosition eng \<and>
    s' = s\<lparr>oo_engines := mput (oo_engines s) eid eng'\<rparr> \<and> (res = None \<or> (\<exists>sig. res = Some (sig, eng'))))"
proof (cases "mlookup (oo_engines s) eid")
  case None
  then show ?thesis using assms by (simp add: Orchestrator_raw_def)
next
  case (Some eng)
  define eng' where "eng' = eng\<lparr>oe_runner := snd (ev (sv v (oe_runner eng)) c r)\<rparr>"
  have "res = None \<and> s' = s \<or> mlookup (oo_openPositions s) eid = None \<and>
      s' = s\<lparr>oo_engines := mput (oo_engines s) eid eng'\<rparr> \<and> (res = None \<or> (\<exists>sig. res = Some (sig, eng')))"
    using assms unfolding Orchestrator_raw_def Let_def case_prod_beta eng'_def
    by (auto simp: Some split: option.splits if_splits)
  moreover have "oe_currentPosition eng' = oe_currentPosition eng" by (simp add: eng'_def)
  ultimately show ?thesis using Some by blast
qed

lemma Orchestrator_fill_form:
  "\<exists>eng' t n sim. tr_EntryTime t = ca_Time c \<and> Orchestrator_fill ga un c eid sig x eng s =
     s\<lparr>oo_engines := mput (oo_engines s) eid eng', oo_orderIDSeq := n, oo_fillSim := sim,
       oo_openPositions := mput (oo_openPositions s) eid t\<rparr>"
  unfolding Orchestrator_fill_def Let_def case_prod_beta
  by (intro exI conjI[rotated], rule refl) simp

definition entry_result :: "Candle \<Rightarrow> string \<Rightarrow> ('r, 'g) orchestrator \<Rightarrow> ('r, 'g) orchestrator \<Rightarrow> bool" where
  "entry_result c eid s s' \<longleftrightarrow> s' = s \<or>
     (\<exists>eng eng'. mlookup (oo_engines s) eid = Some eng \<and> mlookup (oo_openPositions s) eid = None \<and>
        oe_currentPosition eng' = oe_currentPosition eng \<and> s' = s\<lparr>oo_engines := mput (oo_engines s) eid eng'\<rparr>) \<or>
     (\<exists>eng' t n sim. tr_EntryTime t = ca_Time c \<and> s' = s\<lparr>oo_engines := mput (oo_engines s) eid eng', oo_orderIDSeq := n,
        oo_fillSim := sim, oo_openPositions := mput (oo_openPositions s) eid t\<rparr>)"

lemma Orchestrator_open_result:
  "entry_result c eid s (Orchestrator_open ev sv ga un c r v now eid s)"
proof -
  obtain res s1 where raw: "Orchestrator_raw ev sv c r v eid s = (res, s1)" by force
  show ?thesis
  proof (cases res)
    case None
    then show ?thesis using Orchestrator_raw_cases[OF raw]
      by (auto simp: Orchestrator_open_def raw entry_result_def)
  next
    case (Some p)
    obtain eng eng1 sig where 1: "mlookup (oo_engines s) eid = Some eng" "mlookup (oo_openPositions s) eid = None"
      "oe_currentPosition eng1 = oe_currentPosition eng" "s1 = s\<lparr>oo_engines := mput (oo_engines s) eid eng1\<rparr>" "p = (sig, eng1)"
      using Orchestrator_raw_cases[OF raw] Some by auto
    obtain q eng2 s2 where qty: "Orchestrator_quantity c r now eid sig eng1 s1 = (q, eng2, s2)" by (metis prod_cases3)
    have 2: "oe_currentPosition eng2 = oe_currentPosition eng" "s2 = s\<lparr>oo_engines := mput (oo_engines s) eid eng2\<rparr>"
      using qty 1(3) by (auto simp: Orchestrator_quantity_def Let_def case_prod_beta 1(4))
    show ?thesis
    proof (cases q)
      case None
      then have "Orchestrator_open ev sv ga un c r v now eid s = s2"
        by (simp add: Orchestrator_open_def raw \<open>res = Some p\<close> 1(5) qty)
      then show ?thesis using 1(1,2) 2 by (auto simp: entry_result_def)
    next
      case (Some x)
      have a: "Orchestrator_open ev sv ga un c r v now eid s = Orchestrator_fill ga un c eid sig x eng2 s2"
        by (simp add: Orchestrator_open_def raw \<open>res = Some p\<close> 1(5) qty Some)
      obtain eng' t n sim where f: "tr_EntryTime t = ca_Time c"
        "Orchestrator_fill ga un c eid sig x eng2 s2 = s2\<lparr>oo_engines := mput (oo_engines s2) eid eng',
          oo_orderIDSeq := n, oo_fillSim := sim, oo_openPositions := mput (oo_openPositions s2) eid t\<rparr>"
        using Orchestrator_fill_form by blast
      show ?thesis unfolding entry_result_def a f(2) using f(1)
        by (intro disjI2, intro exI[of _ eng'] exI[of _ t] exI[of _ n] exI[of _ sim]) (simp add: 2(2))
    qed
  qed
qed

lemma entry_result_frame:
  "entry_result c eid s s' \<Longrightarrow> oo_pool s' = oo_pool s \<and> oo_config s' = oo_config s \<and>
     oo_capital s' = oo_capital s \<and> oo_trades s' = oo_trades s"
  by (auto simp: entry_result_def)

lemma entry_result_flat: "entry_result c eid s s' \<Longrightarrow> flat_outside s \<Longrightarrow> flat_outside s'"
  unfolding entry_result_def by (elim disjE exE conjE) (auto simp: flat_outside_def)

lemma entry_result_times: "entry_result c eid s s' \<Longrightarrow>
  \<forall>p\<in>set (oo_openPositions s). tr_EntryTime (snd p) = ca_Time c \<Longrightarrow>
  \<forall>p\<in>set (oo_openPositions s'). tr_EntryTime (snd p) = ca_Time c"
  unfolding entry_result_def by (elim disjE exE conjE) (auto dest: set_mputD)

section \<open>Every bar ends flat\<close>

lemma fold_invariant_list: "(\<And>x s. x \<in> set xs \<Longrightarrow> P s \<Longrightarrow> P (f x s)) \<Longrightarrow> P s \<Longrightarrow> P (fold f xs s)"
  by (induction xs arbitrary: s) auto

lemma mdelete_all: "fold (\<lambda>p m. mdelete m (fst p)) L m = filter (\<lambda>p. fst p \<notin> fst ` set L) m"
  by (induction L arbitrary: m) (auto simp: mdelete_def AList.delete_eq intro!: filter_cong)

lemma mdelete_self: "fold (\<lambda>p m. mdelete m (fst p)) m m = []"
  unfolding mdelete_all by (simp add: filter_empty_conv)

text \<open>A close removes its position and empties its engine; it opens nothing.\<close>

lemma Orchestrator_close_open:
  "oo_openPositions (Orchestrator_close ga un c r p s) = mdelete (oo_openPositions s) (fst p)"
  by (cases p) (simp add: Orchestrator_close_def Let_def case_prod_beta split: option.split)

lemma Orchestrator_close_all:
  "oo_openPositions (fold (Orchestrator_close ga un c r) (oo_openPositions s) s) = []"
proof -
  have "oo_openPositions (fold (Orchestrator_close ga un c r) L s) =
      fold (\<lambda>p m. mdelete m (fst p)) L (oo_openPositions s)" for L
    by (induction L arbitrary: s) (simp_all add: Orchestrator_close_open)
  then show ?thesis by (simp add: mdelete_self)
qed

lemma Orchestrator_close_flat: "flat_outside s \<Longrightarrow> flat_outside (Orchestrator_close ga un c r p s)"
  by (cases p) (auto simp: Orchestrator_close_def Let_def case_prod_beta flat_outside_def split: option.split)

lemma Orchestrator_close_pool:
  "pool_untouched s \<Longrightarrow> oo_pool (Orchestrator_close ga un c r p s) = oo_pool s \<and>
     oo_config (Orchestrator_close ga un c r p s) = oo_config s"
  by (cases p) (simp add: Orchestrator_close_def Let_def case_prod_beta pool_untouched_def
      CapitalPoolSim_RecordFill_def split: option.split)

text \<open>What a close books: a trade of this bar, by which the capital grows.\<close>

lemma Orchestrator_close_trade:
  "(oo_trades (Orchestrator_close ga un c r p s) = oo_trades s \<and>
    oo_capital (Orchestrator_close ga un c r p s) = oo_capital s) \<or>
   (\<exists>t. oo_trades (Orchestrator_close ga un c r p s) = oo_trades s @ [t] \<and>
    oo_capital (Orchestrator_close ga un c r p s) = oo_capital s + tr_PnL t \<and>
    tr_EntryTime t = tr_EntryTime (snd p) \<and> tr_ExitTime t = ca_Time c)"
  by (cases p) (simp add: Orchestrator_close_def Let_def case_prod_beta split: option.split)

lemma f64_sub_zero: "f64_ok x \<Longrightarrow> x - 0 = x"
  by (cases x) (auto simp: minus_f64_def plus_f64_def uminus_f64_def zero_f64_def is_inf_def is_nan_def
      is_zero_def fval_def rnd_representable fsign_def split: if_splits)

lemma f64_ok_safePnl: "f64_ok (Orchestrator_safePnl (Orchestrator_pnl cfg side ep q fp) c q' ep')"
  by (auto simp: Orchestrator_safePnl_def SanitizeTradePnL_def Orchestrator_pnl_def Let_def)

lemma Orchestrator_close_capital_ok: "f64_ok (oo_capital s) \<Longrightarrow> f64_ok (oo_capital (Orchestrator_close ga un c r p s))"
  by (cases p) (simp add: Orchestrator_close_def Let_def case_prod_beta f64_ok_safePnl split: option.split)

text \<open>A rebalance of flat engines costs nothing.\<close>

lemma foldl_inert: "(\<And>c x. f c x = c) \<Longrightarrow> foldl f a xs = a"
  by (induction xs) auto

lemma executeRebalance_flat:
  assumes "flat_outside s" "oo_openPositions s = []"
  shows "Orchestrator_executeRebalance s = 0"
proof -
  have "oe_currentPosition e = 0" if "mlookup (oo_engines s) k = Some e" for k e
    using that assms by (simp add: flat_outside_def)
  then have "\<not> 0 < oe_currentPosition e" if "mlookup (oo_engines s) k = Some e" for k e
    using that by (simp add: less_f64_def)
  then have cost: "foldl (\<lambda>cost (sid, w). case mlookup (oo_engines s) sid of None \<Rightarrow> cost
      | Some eng \<Rightarrow> if 0 < oe_currentPosition eng \<and> 0 < oe_entryPrice eng
          then (let delta = w * oo_capital s - oe_currentPosition eng * oe_entryPrice eng
                in if \<bar>delta\<bar> < 1 then cost else cost + \<bar>delta\<bar> * lit (2/10000)) else cost) 0 (oo_currentWeights s) = 0"
    by (intro foldl_inert) (auto split: option.split)
  show ?thesis unfolding Orchestrator_executeRebalance_def cost by simp
qed

lemma Orchestrator_rebalance_frame:
  "oo_engines (Orchestrator_rebalance c r s) = oo_engines s \<and>
   oo_openPositions (Orchestrator_rebalance c r s) = oo_openPositions s \<and>
   oo_pool (Orchestrator_rebalance c r s) = oo_pool s \<and> oo_config (Orchestrator_rebalance c r s) = oo_config s \<and>
   oo_trades (Orchestrator_rebalance c r s) = oo_trades s \<and> oo_matrix (Orchestrator_rebalance c r s) = oo_matrix s"
  by (simp add: Orchestrator_rebalance_def Let_def case_prod_beta)

lemma Orchestrator_rebalance_free:
  assumes "flat_outside s" "oo_openPositions s = []" "f64_ok (oo_capital s)"
  shows "oo_capital (Orchestrator_rebalance c r s) = oo_capital s"
proof -
  have flat: "flat_outside (s\<lparr>oo_scheduler := sch, oo_currentWeights := w\<rparr>)" for sch w
    using assms(1) by (simp add: flat_outside_def)
  show ?thesis
    by (simp add: Orchestrator_rebalance_def Let_def case_prod_beta executeRebalance_flat[OF flat] assms f64_sub_zero)
qed

lemma Orchestrator_correlations_frame:
  "\<exists>ct b. Orchestrator_correlations s = s\<lparr>oo_correlation := ct, oo_correlationBreaches := b\<rparr>"
  by (intro exI[of _ "snd (CorrelationTracker_CheckCorrelations (oo_correlation s))"]
      exI[of _ "oo_correlationBreaches s @ (if oc_EnableCorrelationBrake (oo_config s)
        then snd (fst (CorrelationTracker_CheckCorrelations (oo_correlation s))) else [])"], cases s)
     (simp add: Orchestrator_correlations_def Let_def case_prod_beta)

text \<open>The books of the run: all positions closed, all engines flat, the pool as it was created,
  every trade opened and closed in one bar, the capital the sum of what was booked.\<close>

definition books_ok :: "('r, 'g) orchestrator \<Rightarrow> bool" where
  "books_ok s \<longleftrightarrow> (\<forall>t\<in>set (oo_trades s). tr_EntryTime t = tr_ExitTime t) \<and> f64_ok (oo_capital s) \<and>
     foldl (+) (oc_InitialCapital (oo_config s)) (map tr_PnL (oo_trades s)) = oo_capital s"

definition bar_ok :: "OrchestratorConfig \<Rightarrow> ('r, 'g) orchestrator \<Rightarrow> bool" where
  "bar_ok cfg s \<longleftrightarrow> cfg = oo_config s \<and> flat_outside s \<and> pool_untouched s \<and> books_ok s"

lemma Orchestrator_opens_ok:
  assumes "bar_ok cfg s" "oo_openPositions s = []"
  shows "bar_ok cfg (fold (Orchestrator_open ev sv ga un c r v now) eids s) \<and>
    (\<forall>p\<in>set (oo_openPositions (fold (Orchestrator_open ev sv ga un c r v now) eids s)). tr_EntryTime (snd p) = ca_Time c)"
proof (rule fold_invariant_list)
  show "bar_ok cfg s \<and> (\<forall>p\<in>set (oo_openPositions s). tr_EntryTime (snd p) = ca_Time c)" using assms by simp
next
  fix eid and s :: "('a, 'b) orchestrator"
  assume ok: "bar_ok cfg s \<and> (\<forall>p\<in>set (oo_openPositions s). tr_EntryTime (snd p) = ca_Time c)"
  note res = Orchestrator_open_result[of c eid s ev sv ga un r v now]
  show "bar_ok cfg (Orchestrator_open ev sv ga un c r v now eid s) \<and>
    (\<forall>p\<in>set (oo_openPositions (Orchestrator_open ev sv ga un c r v now eid s)). tr_EntryTime (snd p) = ca_Time c)"
    using ok entry_result_frame[OF res] entry_result_flat[OF res] entry_result_times[OF res]
    by (simp add: bar_ok_def pool_untouched_def books_ok_def)
qed

lemma Orchestrator_close_ok:
  assumes "bar_ok cfg s" "tr_EntryTime (snd p) = ca_Time c"
  shows "bar_ok cfg (Orchestrator_close ga un c r p s)"
proof -
  have "pool_untouched s" "flat_outside s" using assms(1) by (simp_all add: bar_ok_def)
  note * = Orchestrator_close_pool[OF this(1), of ga un c r p] Orchestrator_close_flat[OF this(2), of ga un c r p]
  show ?thesis
    using Orchestrator_close_trade[of ga un c r p s] Orchestrator_close_capital_ok[of s ga un c r p] * assms
    by (auto simp: bar_ok_def books_ok_def pool_untouched_def)
qed

lemma Orchestrator_closes_ok:
  fixes s :: "('r, 'g) orchestrator"
  assumes "bar_ok cfg s" "\<forall>p\<in>set (oo_openPositions s). tr_EntryTime (snd p) = ca_Time c"
  shows "bar_ok cfg (fold (Orchestrator_close ga un c r) (oo_openPositions s) s) \<and>
    oo_openPositions (fold (Orchestrator_close ga un c r) (oo_openPositions s) s) = []"
proof
  show "bar_ok cfg (fold (Orchestrator_close ga un c r) (oo_openPositions s) s)"
  proof (rule fold_invariant_list[where P = "bar_ok cfg"])
    fix p and s' :: "('r, 'g) orchestrator" assume "p \<in> set (oo_openPositions s)" "bar_ok cfg s'"
    then show "bar_ok cfg (Orchestrator_close ga un c r p s')" using assms(2) by (intro Orchestrator_close_ok) auto
  qed (rule assms(1))
qed (rule Orchestrator_close_all)

lemma Orchestrator_book_frame:
  "bar_ok cfg (Orchestrator_book c r s) = bar_ok cfg s \<and> oo_openPositions (Orchestrator_book c r s) = oo_openPositions s"
  by (simp add: Orchestrator_book_def Let_def bar_ok_def books_ok_def pool_untouched_def flat_outside_def)

lemma Orchestrator_before_entries:
  assumes "bar_ok cfg s" "oo_openPositions s = []"
  shows "bar_ok cfg (Orchestrator_correlations (Orchestrator_rebalance c r s)) \<and>
    oo_openPositions (Orchestrator_correlations (Orchestrator_rebalance c r s)) = []"
proof -
  obtain ct b where *: "Orchestrator_correlations (Orchestrator_rebalance c r s) =
      Orchestrator_rebalance c r s\<lparr>oo_correlation := ct, oo_correlationBreaches := b\<rparr>"
    using Orchestrator_correlations_frame by blast
  show ?thesis unfolding * using assms Orchestrator_rebalance_free[of s c r] Orchestrator_rebalance_frame[of c r s]
    by (simp add: bar_ok_def books_ok_def pool_untouched_def flat_outside_def)
qed

lemma Orchestrator_bar_body:
  assumes "bar_ok cfg u \<and> oo_openPositions u = []"
  shows "bar_ok cfg (fold (Orchestrator_close ga un c r)
      (oo_openPositions (fold (Orchestrator_open ev sv ga un c r v now) eids u))
      (fold (Orchestrator_open ev sv ga un c r v now) eids u)) \<and>
    oo_openPositions (fold (Orchestrator_close ga un c r)
      (oo_openPositions (fold (Orchestrator_open ev sv ga un c r v now) eids u))
      (fold (Orchestrator_open ev sv ga un c r v now) eids u)) = []"
  by (rule Orchestrator_closes_ok[OF Orchestrator_opens_ok[THEN conjunct1] Orchestrator_opens_ok[THEN conjunct2],
        OF assms[THEN conjunct1] assms[THEN conjunct2] assms[THEN conjunct1] assms[THEN conjunct2]])

lemma Orchestrator_bar_ok:
  assumes "bar_ok cfg s" "oo_openPositions s = []"
  shows "bar_ok cfg (Orchestrator_bar ev sv ga un ri vl now s c) \<and> oo_openPositions (Orchestrator_bar ev sv ga un ri vl now s c) = []"
proof -
  define s1 where "s1 = (if Some (day_of (ca_Time c)) \<noteq> oo_lastDay s
     then s\<lparr>oo_pool := CapitalPoolSim_ResetDaily (oo_pool s), oo_lastDay := Some (day_of (ca_Time c))\<rparr> else s)"
  define s2 where "s2 = s1\<lparr>oo_vixDetector := snd (VIXAccelerationDetector_Feed (oo_vixDetector s1)
     (vix_at vl (ca_Time c)) (vix_at vl (ca_Time c)))\<rparr>"
  have 2: "bar_ok cfg s2 \<and> oo_openPositions s2 = []" using assms
    by (auto simp: s2_def s1_def bar_ok_def books_ok_def pool_untouched_def flat_outside_def
        CapitalPoolSim_ResetDaily_def ResetPoolDaily_def mmap_vals_def)
  then have running: "\<not> ps_Halted (sim_PoolState (oo_pool s2))" by (simp add: bar_ok_def pool_untouched_def)
  have bar: "Orchestrator_bar ev sv ga un ri vl now s c = Orchestrator_book c r
      (fold (Orchestrator_close ga un c r) (oo_openPositions t) t)"
    if "t = fold (Orchestrator_open ev sv ga un c r v now) (map fst (oo_engines u)) u"
       "u = Orchestrator_correlations (Orchestrator_rebalance c r s2)"
       "r = mget 0 ri (ca_Time c div 1000000000)"
       "v = fst (VIXAccelerationDetector_Feed (oo_vixDetector s1) (vix_at vl (ca_Time c)) (vix_at vl (ca_Time c)))"
    for r v t u
    using running unfolding that Orchestrator_bar_def Let_def case_prod_beta s2_def s1_def by simp
  show ?thesis unfolding bar[OF refl refl refl refl]
    unfolding Orchestrator_book_frame[THEN conjunct1] Orchestrator_book_frame[THEN conjunct2]
    by (rule Orchestrator_bar_body, rule Orchestrator_before_entries[OF 2[THEN conjunct1] 2[THEN conjunct2]])
qed

lemma Orchestrator_bars_ok:
  "bar_ok cfg s \<Longrightarrow> oo_openPositions s = [] \<Longrightarrow>
     bar_ok cfg (foldl (Orchestrator_bar ev sv ga un ri vl now) s candles) \<and>
     oo_openPositions (foldl (Orchestrator_bar ev sv ga un ri vl now) s candles) = []"
  by (induction candles arbitrary: s) (simp_all add: Orchestrator_bar_ok)

lemma Orchestrator_start_ok:
  assumes "flat_outside s" "oo_openPositions s = []" "f64_ok (oc_InitialCapital (oo_config s))"
  shows "bar_ok (oo_config s) (Orchestrator_start s) \<and> oo_openPositions (Orchestrator_start s) = []"
  using assms by (auto simp: Orchestrator_start_def Let_def bar_ok_def books_ok_def pool_untouched_def
      flat_outside_def NewCapitalPoolSim_def InitPoolState_def zero_pool_state_def split: option.splits)

definition orchestrator_after where
  "orchestrator_after ev sv ga un ri vl now create cfg rng adds candles =
     foldl (Orchestrator_bar ev sv ga un ri vl now) (Orchestrator_start (orchestrator_of create cfg rng adds)) candles"

lemma NewOrchestrator_capital [simp]: "oc_InitialCapital (NewOrchestrator_config cfg) = oc_InitialCapital cfg"
  by (simp add: NewOrchestrator_config_def Let_def)

lemma orchestrator_of_closed: "oo_openPositions (orchestrator_of create cfg rng adds) = []"
proof -
  have "oo_openPositions (foldl (orchestrator_try create) s adds) = oo_openPositions s" for s :: "('a, 'b) orchestrator"
  proof (induction adds arbitrary: s)
    case (Cons a adds)
    have "oo_openPositions (orchestrator_try create s a) = oo_openPositions s"
      by (cases a) (simp add: orchestrator_try_def Orchestrator_Add_def Let_def split: option.split)
    then show ?case using Cons by simp
  qed simp
  then show ?thesis by (simp add: orchestrator_of_def NewOrchestrator_def Let_def)
qed

lemma orchestrator_after_ok:
  assumes "f64_ok (oc_InitialCapital cfg)"
  shows "bar_ok (NewOrchestrator_config cfg) (orchestrator_after ev sv ga un ri vl now create cfg rng adds candles) \<and>
    oo_openPositions (orchestrator_after ev sv ga un ri vl now create cfg rng adds candles) = []"
  unfolding orchestrator_after_def using assms orchestrator_of_flat[of create cfg rng adds]
    Orchestrator_start_ok[of "orchestrator_of create cfg rng adds"]
  by (intro Orchestrator_bars_ok) (simp_all add: orchestrator_of_closed)

lemma orchestrator_after_capital:
  "f64_ok (oc_InitialCapital cfg) \<Longrightarrow>
   oc_InitialCapital (oo_config (orchestrator_after ev sv ga un ri vl now create cfg rng adds candles)) = oc_InitialCapital cfg"
  using orchestrator_after_ok[of cfg ev sv ga un ri vl now create rng adds candles] NewOrchestrator_capital[of cfg]
  by (simp add: bar_ok_def)

text \<open>The run never stops at a halt: every bar is booked.\<close>

lemma Orchestrator_open_equity: "oo_equity (Orchestrator_open ev sv ga un c r v now eid s) = oo_equity s"
  using Orchestrator_open_result[of c eid s ev sv ga un r v now] by (auto simp: entry_result_def)

lemma Orchestrator_close_equity: "oo_equity (Orchestrator_close ga un c r p s) = oo_equity s"
  by (cases p) (simp add: Orchestrator_close_def Let_def case_prod_beta split: option.split)

lemma Orchestrator_before_equity:
  "oo_equity (Orchestrator_correlations (Orchestrator_rebalance c r s)) = oo_equity s"
  by (simp add: Orchestrator_correlations_def Orchestrator_rebalance_def Let_def case_prod_beta)

lemma fold_equity:
  "(\<And>x s. oo_equity (f x s) = oo_equity s) \<Longrightarrow> oo_equity (fold f xs s) = oo_equity s"
  by (induction xs arbitrary: s) auto

lemma Orchestrator_bar_equity:
  assumes "\<not> ps_Halted (sim_PoolState (oo_pool s))"
  shows "map eq_Time (oo_equity (Orchestrator_bar ev sv ga un ri vl now s c)) = map eq_Time (oo_equity s) @ [ca_Time c]"
proof -
  have "\<not> ps_Halted (sim_PoolState (CapitalPoolSim_ResetDaily (oo_pool s)))"
    using assms by (simp add: CapitalPoolSim_ResetDaily_def ResetPoolDaily_def)
  then show ?thesis using assms
    by (simp add: Orchestrator_bar_def Let_def case_prod_beta Orchestrator_book_def
        fold_equity[OF Orchestrator_open_equity] fold_equity[OF Orchestrator_close_equity] Orchestrator_before_equity)
qed

lemma Orchestrator_bars_equity:
  "bar_ok cfg s \<Longrightarrow> oo_openPositions s = [] \<Longrightarrow>
     map eq_Time (oo_equity (foldl (Orchestrator_bar ev sv ga un ri vl now) s candles)) =
       map eq_Time (oo_equity s) @ map ca_Time candles"
proof (induction candles arbitrary: s)
  case (Cons c candles)
  have "\<not> ps_Halted (sim_PoolState (oo_pool s))" using Cons.prems by (simp add: bar_ok_def pool_untouched_def)
  then show ?case using Cons.IH[of "Orchestrator_bar ev sv ga un ri vl now s c"] Orchestrator_bar_ok[OF Cons.prems]
    by (simp add: Orchestrator_bar_equity)
qed simp

text \<open>C16: after any bars of any orchestrator no position is open, every engine is flat, and every
  trade was closed in the bar that opened it: the exit loop closes whatever the entry loop opened,
  without asking the strategy, a stop or the regime.\<close>

theorem orchestrator_positions_last_one_bar:
  assumes "f64_ok (oc_InitialCapital cfg)"
    and "s = foldl (Orchestrator_bar ev sv ga un ri vl now) (Orchestrator_start (orchestrator_of create cfg rng adds)) candles"
  shows "oo_openPositions s = [] \<and>
    (\<forall>k eng. mlookup (oo_engines s) k = Some eng \<longrightarrow> oe_currentPosition eng = 0) \<and>
    map tr_EntryTime (oo_trades s) = map tr_ExitTime (oo_trades s)"
  using orchestrator_after_ok[OF assms(1), of ev sv ga un ri vl now create rng adds candles]
  unfolding orchestrator_after_def assms(2)[symmetric]
  by (auto simp: bar_ok_def books_ok_def flat_outside_def)

text \<open>C17: The end of the data closes nothing, and the capital a run reports is the initial capital
  plus the booked profits in the order of the trades: no rebalance ever costs anything, because
  every engine is flat when the weights are recomputed.\<close>

theorem orchestrator_capital_is_booked:
  assumes "f64_ok (oc_InitialCapital cfg)"
    and "r = Orchestrator_Run ev sv ga un ri vl now candles (orchestrator_of create cfg rng adds)"
  shows "oo_capital r = foldl (+) (oc_InitialCapital cfg) (map tr_PnL (oo_trades r)) \<and>
    map tr_EntryTime (oo_trades r) = map tr_ExitTime (oo_trades r)"
proof -
  note ok = orchestrator_after_ok[OF assms(1), of ev sv ga un ri vl now create rng adds candles]
  have r: "r = orchestrator_after ev sv ga un ri vl now create cfg rng adds candles"
    using ok by (simp add: assms(2) Orchestrator_Run_def Orchestrator_finish_def orchestrator_after_def)
  show ?thesis using ok orchestrator_after_capital[OF assms(1), of ev sv ga un ri vl now create rng adds candles] unfolding r
    by (auto simp: bar_ok_def books_ok_def)
qed

text \<open>The pool that is to guard the run is never told of anything: it holds no strategy, its
  balance stays the initial capital, it never halts, and so every candle is traded and booked in
  the equity curve, whatever is lost.\<close>

theorem orchestrator_pool_never_halts:
  assumes "f64_ok (oc_InitialCapital cfg)"
    and "s = foldl (Orchestrator_bar ev sv ga un ri vl now) (Orchestrator_start (orchestrator_of create cfg rng adds)) candles"
  shows "sim_Strategies (oo_pool s) = [] \<and> \<not> ps_Halted (sim_PoolState (oo_pool s)) \<and>
    ps_TotalBalance (sim_PoolState (oo_pool s)) = oc_InitialCapital cfg \<and>
    map eq_Time (oo_equity s) = map ca_Time candles"
proof -
  have "bar_ok (NewOrchestrator_config cfg) (Orchestrator_start (orchestrator_of create cfg rng adds)) \<and>
      oo_openPositions (Orchestrator_start (orchestrator_of create cfg rng adds)) = []"
    using orchestrator_after_ok[OF assms(1), of ev sv ga un ri vl now create rng adds "[]"]
    by (simp add: orchestrator_after_def)
  then have "map eq_Time (oo_equity s) = map eq_Time (oo_equity (Orchestrator_start (orchestrator_of create cfg rng adds))) @
      map ca_Time candles" unfolding assms(2) by (blast intro: Orchestrator_bars_equity)
  then show ?thesis using orchestrator_after_ok[OF assms(1), of ev sv ga un ri vl now create rng adds candles]
    orchestrator_after_capital[OF assms(1), of ev sv ga un ri vl now create rng adds candles]
    unfolding orchestrator_after_def assms(2)[symmetric]
    by (auto simp: bar_ok_def pool_untouched_def Orchestrator_start_def Let_def)
qed

section \<open>A run that trades\<close>

definition sample_orchestrator :: "(unit, unit) orchestrator" where
  "sample_orchestrator = orchestrator_of (\<lambda>sid. Some ()) \<lparr>oc_InitialCapital = lit 100000, oc_RebalanceBars = 20,
     oc_KellyFraction = lit (25/100), oc_MaxPositionPct = lit (20/100), oc_AllowFractional = False,
     oc_EnableCorrelationBrake = True, oc_CorrelationThreshold = lit (6/10), oc_FrictionModel = '''', oc_CommissionBps = lit 2\<rparr>
     () [(''A'', ''1d'', ''session_scalp'')]"

definition sample_key :: string where "sample_key = ''A:1d:session_scalp''"

definition sample_run :: "Candle list \<Rightarrow> (unit, unit) orchestrator" where
  "sample_run = foldl (Orchestrator_bar (\<lambda>r c g. (Some greedy_signal, r)) (\<lambda>v r. r) (\<lambda>g. (0, g)) (\<lambda>g. (0, g)) [] [] 0)
     (Orchestrator_start sample_orchestrator)"

lemma sample_start:
  "\<exists>e. oo_engines (Orchestrator_start sample_orchestrator) = [(sample_key, e)] \<and>
     oe_strategyID e = ''session_scalp'' \<and> oe_symbol e = ''A'' \<and> oe_kellyMult e = Fin (1/4) \<and>
     pipeline_equity (oe_pipeline e) = Some 0"
  "oo_openPositions (Orchestrator_start sample_orchestrator) = []"
  "oo_matrix (Orchestrator_start sample_orchestrator) = NewRegimeActivationMatrix"
  "oo_scheduler (Orchestrator_start sample_orchestrator) = NewRebalanceScheduler 20 NewRegimeActivationMatrix"
  "oo_currentWeights (Orchestrator_start sample_orchestrator) = []"
  "oo_capital (Orchestrator_start sample_orchestrator) = Fin 100000"
  "oc_MaxPositionPct (oo_config (Orchestrator_start sample_orchestrator)) = lit (20/100)"
  "\<not> oc_AllowFractional (oo_config (Orchestrator_start sample_orchestrator))"
  "\<not> ps_Halted (sim_PoolState (oo_pool (Orchestrator_start sample_orchestrator)))"
  by (simp_all add: sample_orchestrator_def sample_key_def orchestrator_of_def orchestrator_try_def
    Orchestrator_Add_def NewOrchestrator_def NewOrchestrator_config_def Let_def Orchestrator_engineID_def mput_def
    Orchestrator_start_def f64_eval mmap_vals_def NewCapitalPoolSim_def InitPoolState_def
    Orchestrator_AddStrategy_def pipeline_equity_def tracker_equity_def Orchestrator_set_pool_def
    SignalGateImpl_SetBacktestMode_def NewSignalGateImpl_def NewExposureTracker_def)

lemma sample_regime:
  "RegimeActivationMatrix_ParticipationForRegime NewRegimeActivationMatrix ''session_scalp'' 0 = 1 \<and>
   RegimeActivationMatrix_KellyForRegime NewRegimeActivationMatrix ''session_scalp'' 0 = Fin (1/4)"
  by (simp add: RegimeActivationMatrix_ParticipationForRegime_def RegimeActivationMatrix_KellyForRegime_def
     RegimeActivationMatrix_Get_def NewRegimeActivationMatrix_def f64_eval Let_def)

lemma sample_open:
  assumes "oo_engines s = [(sample_key, e)]" "oe_strategyID e = ''session_scalp''" "oe_symbol e = ''A''"
    "oe_kellyMult e = Fin (1/4)" "pipeline_equity (oe_pipeline e) = Some 0"
    "oo_openPositions s = []" "oo_matrix s = NewRegimeActivationMatrix"
    "sch_matrix (oo_scheduler s) = NewRegimeActivationMatrix" "oo_currentWeights s = []"
    "oo_capital s = Fin 100000" "oc_MaxPositionPct (oo_config s) = lit (20/100)"
    "\<not> oc_AllowFractional (oo_config s)"
  shows "\<exists>t e'. oo_openPositions (Orchestrator_open (\<lambda>r c g. (Some greedy_signal, r)) (\<lambda>v r. r) ga un
      sample_candle 0 v 0 sample_key s) = [(sample_key, t)] \<and>
    oo_engines (Orchestrator_open (\<lambda>r c g. (Some greedy_signal, r)) (\<lambda>v r. r) ga un
      sample_candle 0 v 0 sample_key s) = [(sample_key, e')]"
proof -
  have p: "pipeline_equity (Orchestrator_set_pool (oe_pipeline e) q) = Some 0" for q
    using assms(5) by (simp add: Orchestrator_set_pool_def frame_simps)
  note en = Orchestrator_entry_starved[OF p]
  show ?thesis using assms
    apply (simp add: Orchestrator_open_def Orchestrator_raw_def Orchestrator_quantity_def Orchestrator_fill_def
      Let_def case_prod_beta en sample_candle_def greedy_signal_def feq_def RebalanceScheduler_ActiveWeight_def
      RebalanceScheduler_EvaluateEligibility_def sample_regime Orchestrator_baseSize_def mput_def
      Price_Float64_def ToFloat64_def PriceScaleFactor_def f64_eval)
    done
qed

lemma sample_close:
  assumes "oo_engines s = [(sample_key, e)]" "oo_openPositions s = [(sample_key, t)]"
  shows "oo_trades (fold (Orchestrator_close ga un c r) (oo_openPositions s) s) \<noteq> []"
  using assms by (simp add: Orchestrator_close_def Let_def case_prod_beta)

lemma sample_trades: "oo_trades (sample_run [sample_candle]) \<noteq> []"
proof -
  define s where "s = Orchestrator_start sample_orchestrator"
  define q where "q = s\<lparr>oo_pool := CapitalPoolSim_ResetDaily (oo_pool s), oo_lastDay := Some 0,
     oo_vixDetector := snd (VIXAccelerationDetector_Feed (oo_vixDetector s) 0 0)\<rparr>"
  define u where "u = Orchestrator_correlations (Orchestrator_rebalance sample_candle 0 q)"
  obtain e where e: "oo_engines s = [(sample_key, e)]" "oe_strategyID e = ''session_scalp''" "oe_symbol e = ''A''"
     "oe_kellyMult e = Fin (1/4)" "pipeline_equity (oe_pipeline e) = Some 0"
    using sample_start(1) by (auto simp: s_def)
  obtain ct b where "u = Orchestrator_rebalance sample_candle 0 q\<lparr>oo_correlation := ct, oo_correlationBreaches := b\<rparr>"
    using Orchestrator_correlations_frame unfolding u_def by blast
  then have u: "u = q\<lparr>oo_scheduler := sch, oo_correlation := ct, oo_correlationBreaches := b\<rparr>" "sch_matrix sch = NewRegimeActivationMatrix"
    if "sch = snd (RebalanceScheduler_IsFullRebalanceDue (oo_scheduler q))" for sch
    using that by (simp_all add: Orchestrator_rebalance_def Let_def case_prod_beta q_def
      RebalanceScheduler_IsFullRebalanceDue_def s_def sample_start NewRebalanceScheduler_def)
  define w where "w = Orchestrator_open (\<lambda>r c g. (Some greedy_signal, r)) (\<lambda>v r. r) (\<lambda>g. (0, g)) (\<lambda>g. (0, g)) sample_candle 0
     (fst (VIXAccelerationDetector_Feed (oo_vixDetector s) 0 0)) 0 sample_key u"
  have "\<exists>t e'. oo_openPositions w = [(sample_key, t)] \<and> oo_engines w = [(sample_key, e')]"
    unfolding w_def
    by (rule sample_open[of u e]) (use u[OF refl] e sample_start in \<open>simp_all add: q_def s_def\<close>)
  then have "oo_trades (fold (Orchestrator_close (\<lambda>g. (0, g)) (\<lambda>g. (0, g)) sample_candle 0) (oo_openPositions w) w) \<noteq> []"
    using sample_close by blast
  moreover have "sample_run [sample_candle] = Orchestrator_book sample_candle 0
     (fold (Orchestrator_close (\<lambda>g. (0, g)) (\<lambda>g. (0, g)) sample_candle 0) (oo_openPositions w) w)"
  proof -
    have t: "ca_Time sample_candle = 0" "oo_lastDay s = None" "day_of 0 = 0" "vix_at [] 0 = 0"
      "\<not> ps_Halted (sim_PoolState (oo_pool q))" "map fst (oo_engines u) = [sample_key]"
      using u[OF refl] e sample_start(9) by (simp_all add: sample_candle_def day_of_def vix_at_def q_def
          CapitalPoolSim_ResetDaily_def ResetPoolDaily_def s_def) (simp add: Orchestrator_start_def Let_def)
    show ?thesis using t(5,6) unfolding sample_run_def w_def u_def q_def
      by (simp add: Orchestrator_bar_def Let_def case_prod_beta t(1-4) flip: s_def)
  qed
  ultimately show ?thesis by (simp add: Orchestrator_book_def Let_def)
qed

lemma sample_capital_ok: "f64_ok (lit 100000)"
  by simp

lemmas sample_run_eq = sample_run_def[unfolded sample_orchestrator_def]

theorem orchestrator_positions_last_one_bar_witness:
  "oo_trades (sample_run [sample_candle]) \<noteq> [] \<and> oo_openPositions (sample_run [sample_candle]) = [] \<and>
   map tr_EntryTime (oo_trades (sample_run [sample_candle])) = map tr_ExitTime (oo_trades (sample_run [sample_candle]))"
  using orchestrator_positions_last_one_bar[OF _ sample_run_eq[THEN fun_cong]] sample_trades by simp

theorem orchestrator_pool_never_halts_witness:
  "\<not> ps_Halted (sim_PoolState (oo_pool (sample_run [sample_candle, sample_candle]))) \<and>
   map eq_Time (oo_equity (sample_run [sample_candle, sample_candle])) = [0, 0]"
  using orchestrator_pool_never_halts[OF _ sample_run_eq[THEN fun_cong]] by (simp add: sample_candle_def)

theorem orchestrator_capital_is_booked_witness:
  "oo_capital (Orchestrator_finish [sample_candle] (sample_run [sample_candle])) =
     foldl (+) (lit 100000) (map tr_PnL (oo_trades (Orchestrator_finish [sample_candle] (sample_run [sample_candle]))))"
proof -
  have "Orchestrator_finish [sample_candle] (sample_run [sample_candle]) =
     Orchestrator_Run (\<lambda>r c g. (Some greedy_signal, r)) (\<lambda>v r. r) (\<lambda>g. (0, g)) (\<lambda>g. (0, g)) [] [] 0 [sample_candle] sample_orchestrator"
    by (simp only: Orchestrator_Run_def sample_run_def)
  from orchestrator_capital_is_booked[OF _ this[unfolded sample_orchestrator_def]] show ?thesis by simp
qed

section \<open>The correlation brake brakes nothing\<close>

text \<open>The run with another correlation tracker, other breaches and other brake settings.\<close>

definition rebraked :: "CorrelationTracker \<Rightarrow> BreachEvent list \<Rightarrow> bool \<Rightarrow> f64 \<Rightarrow> ('r, 'g) orchestrator \<Rightarrow>
  ('r, 'g) orchestrator" where
  "rebraked ct b en th s = s\<lparr>oo_correlation := ct, oo_correlationBreaches := b, oo_config :=
     (oo_config s)\<lparr>oc_EnableCorrelationBrake := en, oc_CorrelationThreshold := th\<rparr>\<rparr>"

lemma rebraked_sel [simp]:
  "oo_engines (rebraked ct b en th s) = oo_engines s" "oo_openPositions (rebraked ct b en th s) = oo_openPositions s"
  "oo_pool (rebraked ct b en th s) = oo_pool s" "oo_matrix (rebraked ct b en th s) = oo_matrix s"
  "oo_scheduler (rebraked ct b en th s) = oo_scheduler s" "oo_fillSim (rebraked ct b en th s) = oo_fillSim s"
  "oo_vixDetector (rebraked ct b en th s) = oo_vixDetector s" "oo_capital (rebraked ct b en th s) = oo_capital s"
  "oo_peakCapital (rebraked ct b en th s) = oo_peakCapital s" "oo_equity (rebraked ct b en th s) = oo_equity s"
  "oo_trades (rebraked ct b en th s) = oo_trades s" "oo_strategyPnL (rebraked ct b en th s) = oo_strategyPnL s"
  "oo_allocationHistory (rebraked ct b en th s) = oo_allocationHistory s"
  "oo_activeCounts (rebraked ct b en th s) = oo_activeCounts s"
  "oo_currentWeights (rebraked ct b en th s) = oo_currentWeights s"
  "oo_strategyTrades (rebraked ct b en th s) = oo_strategyTrades s" "oo_lastDay (rebraked ct b en th s) = oo_lastDay s"
  "oo_orderIDSeq (rebraked ct b en th s) = oo_orderIDSeq s"
  by (simp_all add: rebraked_def)

lemma Orchestrator_entry_brake:
  "Orchestrator_entry (cfg\<lparr>oc_EnableCorrelationBrake := en, oc_CorrelationThreshold := th\<rparr>) = Orchestrator_entry cfg"
  "Orchestrator_pnl (cfg\<lparr>oc_EnableCorrelationBrake := en, oc_CorrelationThreshold := th\<rparr>) = Orchestrator_pnl cfg"
  by (intro ext, simp add: Orchestrator_entry_def Orchestrator_baseSize_def Orchestrator_pnl_def)+

lemma rebraked_upd [simp]:
  "(rebraked ct b en th s)\<lparr>oo_engines := x0\<rparr> = rebraked ct b en th (s\<lparr>oo_engines := x0\<rparr>)"
  "(rebraked ct b en th s)\<lparr>oo_openPositions := x1\<rparr> = rebraked ct b en th (s\<lparr>oo_openPositions := x1\<rparr>)"
  "(rebraked ct b en th s)\<lparr>oo_pool := x2\<rparr> = rebraked ct b en th (s\<lparr>oo_pool := x2\<rparr>)"
  "(rebraked ct b en th s)\<lparr>oo_scheduler := x3\<rparr> = rebraked ct b en th (s\<lparr>oo_scheduler := x3\<rparr>)"
  "(rebraked ct b en th s)\<lparr>oo_fillSim := x4\<rparr> = rebraked ct b en th (s\<lparr>oo_fillSim := x4\<rparr>)"
  "(rebraked ct b en th s)\<lparr>oo_vixDetector := x5\<rparr> = rebraked ct b en th (s\<lparr>oo_vixDetector := x5\<rparr>)"
  "(rebraked ct b en th s)\<lparr>oo_capital := x6\<rparr> = rebraked ct b en th (s\<lparr>oo_capital := x6\<rparr>)"
  "(rebraked ct b en th s)\<lparr>oo_peakCapital := x7\<rparr> = rebraked ct b en th (s\<lparr>oo_peakCapital := x7\<rparr>)"
  "(rebraked ct b en th s)\<lparr>oo_equity := x8\<rparr> = rebraked ct b en th (s\<lparr>oo_equity := x8\<rparr>)"
  "(rebraked ct b en th s)\<lparr>oo_trades := x9\<rparr> = rebraked ct b en th (s\<lparr>oo_trades := x9\<rparr>)"
  "(rebraked ct b en th s)\<lparr>oo_strategyPnL := x10\<rparr> = rebraked ct b en th (s\<lparr>oo_strategyPnL := x10\<rparr>)"
  "(rebraked ct b en th s)\<lparr>oo_allocationHistory := x11\<rparr> = rebraked ct b en th (s\<lparr>oo_allocationHistory := x11\<rparr>)"
  "(rebraked ct b en th s)\<lparr>oo_activeCounts := x12\<rparr> = rebraked ct b en th (s\<lparr>oo_activeCounts := x12\<rparr>)"
  "(rebraked ct b en th s)\<lparr>oo_currentWeights := x13\<rparr> = rebraked ct b en th (s\<lparr>oo_currentWeights := x13\<rparr>)"
  "(rebraked ct b en th s)\<lparr>oo_strategyTrades := x14\<rparr> = rebraked ct b en th (s\<lparr>oo_strategyTrades := x14\<rparr>)"
  "(rebraked ct b en th s)\<lparr>oo_lastDay := x15\<rparr> = rebraked ct b en th (s\<lparr>oo_lastDay := x15\<rparr>)"
  "(rebraked ct b en th s)\<lparr>oo_orderIDSeq := x16\<rparr> = rebraked ct b en th (s\<lparr>oo_orderIDSeq := x16\<rparr>)"
  by (simp_all add: rebraked_def)

lemma Orchestrator_rebalance_brake:
  "Orchestrator_rebalance c r (rebraked ct b en th s) = rebraked ct b en th (Orchestrator_rebalance c r s)"
proof -
  have "Orchestrator_executeRebalance (rebraked ct b en th s') = Orchestrator_executeRebalance s'" for s' :: "('a, 'b) orchestrator"
    unfolding Orchestrator_executeRebalance_def rebraked_sel ..
  then show ?thesis by (simp add: Orchestrator_rebalance_def Let_def case_prod_beta)
qed

lemma rebraked_config: "oo_config (rebraked ct b en th s) =
    (oo_config s)\<lparr>oc_EnableCorrelationBrake := en, oc_CorrelationThreshold := th\<rparr>"
  by (simp add: rebraked_def)

lemma Orchestrator_open_brake:
  "Orchestrator_open ev sv ga un c r v now eid (rebraked ct b en th s) =
   rebraked ct b en th (Orchestrator_open ev sv ga un c r v now eid s)"
proof -
  have raw: "Orchestrator_raw ev sv c r v eid (rebraked ct b en th s) =
      apsnd (rebraked ct b en th) (Orchestrator_raw ev sv c r v eid s)"
    by (simp add: Orchestrator_raw_def Let_def case_prod_beta split: option.split)
  have qty: "Orchestrator_quantity c r now eid sig eng (rebraked ct b en th s') =
      apsnd (apsnd (rebraked ct b en th)) (Orchestrator_quantity c r now eid sig eng s')" for sig eng s'
    by (simp add: Orchestrator_quantity_def rebraked_config Orchestrator_entry_brake Let_def case_prod_beta)
  have fill: "Orchestrator_fill ga un c eid sig x eng (rebraked ct b en th s') =
      rebraked ct b en th (Orchestrator_fill ga un c eid sig x eng s')" for sig x eng s'
    by (simp add: Orchestrator_fill_def rebraked_config Let_def case_prod_beta)
  show ?thesis unfolding Orchestrator_open_def raw
    by (auto simp: qty fill split: option.split prod.split)
qed

lemma Orchestrator_close_brake:
  "Orchestrator_close ga un c r p (rebraked ct b en th s) = rebraked ct b en th (Orchestrator_close ga un c r p s)"
  by (cases p) (simp add: Orchestrator_close_def rebraked_config Orchestrator_entry_brake Let_def case_prod_beta split: option.split)

lemma fold_brake:
  "(\<And>x s. f x (rebraked ct b en th s) = rebraked ct b en th (f x s)) \<Longrightarrow>
   fold f xs (rebraked ct b en th s) = rebraked ct b en th (fold f xs s)"
  by (induction xs arbitrary: s) auto

lemma Orchestrator_correlations_brake:
  "\<exists>ct' b'. Orchestrator_correlations (rebraked ct b en th s) = rebraked ct' b' en th (Orchestrator_correlations s)"
proof -
  obtain ct1 b1 where 1: "Orchestrator_correlations s = s\<lparr>oo_correlation := ct1, oo_correlationBreaches := b1\<rparr>"
    using Orchestrator_correlations_frame by blast
  obtain ct2 b2 where 2: "Orchestrator_correlations (rebraked ct b en th s) =
      (rebraked ct b en th s)\<lparr>oo_correlation := ct2, oo_correlationBreaches := b2\<rparr>"
    using Orchestrator_correlations_frame by blast
  show ?thesis unfolding 1 2 by (intro exI[of _ ct2] exI[of _ b2]) (simp add: rebraked_def)
qed

lemma Orchestrator_book_brake:
  "\<exists>ct'. Orchestrator_book c r (rebraked ct b en th s) = rebraked ct' b en th (Orchestrator_book c r s)"
proof -
  have corr: "(rebraked ct b en th s')\<lparr>oo_correlation := x\<rparr> = rebraked x b en th (s'\<lparr>oo_correlation := y\<rparr>)"
    for s' :: "('a, 'b) orchestrator" and x y
    by (simp add: rebraked_def)
  define u where "u = (let s = s\<lparr>oo_equity := oo_equity s @ [\<lparr>eq_Time = ca_Time c, eq_Value = oo_capital s, eq_Regime = r\<rparr>]\<rparr>
     in if oo_peakCapital s < oo_capital s then s\<lparr>oo_peakCapital := oo_capital s\<rparr> else s)"
  define rec where "rec = (\<lambda>s :: ('a, 'b) orchestrator. foldl (\<lambda>ct (eid, eng). CorrelationTracker_RecordEquity ct (oe_strategyID eng)
     (oo_capital s + mget 0 (oo_strategyPnL s) (oe_strategyID eng))) (oo_correlation s) (oo_engines s))"
  define count where "count = (\<lambda>s :: ('a, 'b) orchestrator. s\<lparr>oo_activeCounts := oo_activeCounts s @ [int (length (filter (\<lambda>(eid, eng).
     0 < RebalanceScheduler_ActiveWeight (oo_currentWeights s) (oe_strategyID eng)) (oo_engines s)))]\<rparr>)"
  have "Orchestrator_book c r s = count (u\<lparr>oo_correlation := rec u\<rparr>)"
    by (simp add: Orchestrator_book_def u_def rec_def count_def Let_def)
  moreover have "Orchestrator_book c r (rebraked ct b en th s) =
      count ((rebraked ct b en th u)\<lparr>oo_correlation := rec (rebraked ct b en th u)\<rparr>)"
    by (simp add: Orchestrator_book_def u_def rec_def count_def Let_def)
  moreover have "count (rebraked x b en th s') = rebraked x b en th (count s')" for x s'
    by (simp add: count_def)
  ultimately show ?thesis using corr by metis
qed

lemma Orchestrator_bar_brake:
  "\<exists>ct' b'. Orchestrator_bar ev sv ga un ri vl now (rebraked ct b en th s) c =
     rebraked ct' b' en th (Orchestrator_bar ev sv ga un ri vl now s c)"
proof -
  define pre where "pre = (\<lambda>s :: ('a, 'b) orchestrator. (let s = (if Some (day_of (ca_Time c)) \<noteq> oo_lastDay s
     then s\<lparr>oo_pool := CapitalPoolSim_ResetDaily (oo_pool s), oo_lastDay := Some (day_of (ca_Time c))\<rparr> else s)
     in s\<lparr>oo_vixDetector := snd (VIXAccelerationDetector_Feed (oo_vixDetector s) (vix_at vl (ca_Time c)) (vix_at vl (ca_Time c)))\<rparr>))"
  define r where "r = mget 0 ri (ca_Time c div 1000000000)"
  define v where "v = fst (VIXAccelerationDetector_Feed (oo_vixDetector s) (vix_at vl (ca_Time c)) (vix_at vl (ca_Time c)))"
  define body where "body = (\<lambda>u :: ('a, 'b) orchestrator. let u = fold (Orchestrator_open ev sv ga un c r v now) (map fst (oo_engines u)) u
     in fold (Orchestrator_close ga un c r) (oo_openPositions u) u)"
  have bar: "Orchestrator_bar ev sv ga un ri vl now s' c = (if ps_Halted (sim_PoolState (oo_pool (pre s'))) then pre s'
      else Orchestrator_book c r (body (Orchestrator_correlations (Orchestrator_rebalance c r (pre s')))))"
    if "oo_vixDetector s' = oo_vixDetector s" for s'
    using that by (simp add: Orchestrator_bar_def pre_def body_def r_def v_def Let_def case_prod_beta)
  have pre: "pre (rebraked ct b en th s) = rebraked ct b en th (pre s)" by (simp add: pre_def Let_def)
  have body: "body (rebraked ct' b' en th u) = rebraked ct' b' en th (body u)" for ct' b' u
    by (simp add: body_def Let_def fold_brake[of "Orchestrator_open ev sv ga un c r v now"]
        fold_brake[of "Orchestrator_close ga un c r"] Orchestrator_open_brake Orchestrator_close_brake)
  obtain ct1 b1 where 1: "Orchestrator_correlations (rebraked ct b en th (Orchestrator_rebalance c r (pre s))) =
      rebraked ct1 b1 en th (Orchestrator_correlations (Orchestrator_rebalance c r (pre s)))"
    using Orchestrator_correlations_brake by blast
  have "\<exists>ct'. Orchestrator_book c r (rebraked ct1 b1 en th (body (Orchestrator_correlations (Orchestrator_rebalance c r (pre s))))) =
      rebraked ct' b1 en th (Orchestrator_book c r (body (Orchestrator_correlations (Orchestrator_rebalance c r (pre s)))))"
    by (rule Orchestrator_book_brake)
  then show ?thesis unfolding bar[OF refl] bar[OF rebraked_sel(7)] pre Orchestrator_rebalance_brake 1 body
    by (cases "ps_Halted (sim_PoolState (oo_pool (pre s)))") auto
qed

lemma Orchestrator_bars_brake:
  "\<exists>ct' b'. foldl (Orchestrator_bar ev sv ga un ri vl now) (rebraked ct b en th s) candles =
     rebraked ct' b' en th (foldl (Orchestrator_bar ev sv ga un ri vl now) s candles)"
proof (induction candles arbitrary: s ct b)
  case (Cons c candles)
  obtain ct' b' where "Orchestrator_bar ev sv ga un ri vl now (rebraked ct b en th s) c =
     rebraked ct' b' en th (Orchestrator_bar ev sv ga un ri vl now s c)" using Orchestrator_bar_brake by blast
  then show ?case using Cons by simp
qed auto

lemma Orchestrator_last_brake:
  "Orchestrator_last c p (rebraked ct b en th s) = rebraked ct b en th (Orchestrator_last c p s)"
  by (cases p) (simp add: Orchestrator_last_def Let_def)

lemma Orchestrator_finish_brake:
  "Orchestrator_finish candles (rebraked ct b en th s) = rebraked ct b en th (Orchestrator_finish candles s)"
  by (simp add: Orchestrator_finish_def fold_brake[of "Orchestrator_last (last candles)"] Orchestrator_last_brake)

lemma orchestrator_of_brake:
  "\<exists>ct th'. orchestrator_of create (cfg\<lparr>oc_EnableCorrelationBrake := en, oc_CorrelationThreshold := th\<rparr>) rng adds =
     rebraked ct [] en th' (orchestrator_of create cfg rng adds)"
proof -
  have add: "orchestrator_try create (rebraked ct b en th' s) a = rebraked ct b en th' (orchestrator_try create s a)"
    for ct b th' and s :: "('a, 'b) orchestrator" and a
  proof -
    have pipe: "Orchestrator_AddStrategy (oo_config (rebraked ct b en th' s)) = Orchestrator_AddStrategy (oo_config s)"
      "oc_KellyFraction (oo_config (rebraked ct b en th' s)) = oc_KellyFraction (oo_config s)"
      by (intro ext, simp_all add: Orchestrator_AddStrategy_def rebraked_config)
    show ?thesis
      by (cases a) (simp add: orchestrator_try_def Orchestrator_Add_def Let_def pipe split: option.split)
  qed
  have adds: "foldl (orchestrator_try create) (rebraked ct b en th' s) adds =
      rebraked ct b en th' (foldl (orchestrator_try create) s adds)" for ct b th' and s :: "('a, 'b) orchestrator"
    by (induction adds arbitrary: s) (simp_all add: add)
  have cfg: "NewOrchestrator_config (cfg\<lparr>oc_EnableCorrelationBrake := en, oc_CorrelationThreshold := th\<rparr>) =
      (NewOrchestrator_config cfg)\<lparr>oc_EnableCorrelationBrake := en,
         oc_CorrelationThreshold := (if th \<le> 0 then lit (6/10) else th)\<rparr>"
    by (cases cfg) (simp add: NewOrchestrator_config_def Let_def)
  have "NewOrchestrator (cfg\<lparr>oc_EnableCorrelationBrake := en, oc_CorrelationThreshold := th\<rparr>) rng =
      rebraked (NewCorrelationTracker 30 (if th \<le> 0 then lit (6/10) else th)) [] en (if th \<le> 0 then lit (6/10) else th)
        (NewOrchestrator cfg rng :: ('a, 'b) orchestrator)"
    unfolding NewOrchestrator_def cfg by (simp add: rebraked_def Let_def)
  then show ?thesis unfolding orchestrator_of_def by (metis adds)
qed

text \<open>The correlation brake brakes nothing: with the brake on or off and any threshold a run makes
  the same trades, the same equity curve, the same profits and the same allocations.\<close>

theorem orchestrator_brake_has_no_effect:
  "let r = Orchestrator_Run ev sv ga un ri vl now candles (orchestrator_of create cfg rng adds);
       r' = Orchestrator_Run ev sv ga un ri vl now candles
         (orchestrator_of create (cfg\<lparr>oc_EnableCorrelationBrake := en, oc_CorrelationThreshold := th\<rparr>) rng adds)
   in oo_trades r' = oo_trades r \<and> oo_equity r' = oo_equity r \<and> oo_capital r' = oo_capital r \<and>
      oo_allocationHistory r' = oo_allocationHistory r \<and> oo_strategyPnL r' = oo_strategyPnL r"
proof -
  obtain ct th' where o: "orchestrator_of create (cfg\<lparr>oc_EnableCorrelationBrake := en, oc_CorrelationThreshold := th\<rparr>) rng adds =
     rebraked ct [] en th' (orchestrator_of create cfg rng adds)" using orchestrator_of_brake[of create th en cfg rng adds] by blast
  define s where "s = Orchestrator_start (orchestrator_of create cfg rng adds)"
  have "Orchestrator_start (rebraked ct [] en th' (orchestrator_of create cfg rng adds)) = rebraked ct [] en th' s"
    unfolding s_def Orchestrator_start_def Let_def by (simp add: rebraked_def)
  moreover obtain ct' b' where "foldl (Orchestrator_bar ev sv ga un ri vl now) (rebraked ct [] en th' s) candles =
     rebraked ct' b' en th' (foldl (Orchestrator_bar ev sv ga un ri vl now) s candles)"
    using Orchestrator_bars_brake by blast
  ultimately show ?thesis unfolding Let_def Orchestrator_Run_def o by (simp add: Orchestrator_finish_brake flip: s_def)
qed

end
