(* ===== verification/PriceExact.thy ===== *)
theory PriceExact
  imports MarketTypes
begin

text \<open>
  Error bounds for the code that computes with prices in \<open>float64\<close>: for prices of up to
  2^46 raw units (about 700 million currency units) comparisons of the converted prices are
  comparisons of the prices, and a sum or difference of a few of them, converted back,
  is the exact one.
\<close>

section \<open>Approximation\<close>

definition near :: "f64 \<Rightarrow> rat \<Rightarrow> rat \<Rightarrow> bool" where
  "near a x e \<longleftrightarrow> is_fin a \<and> \<bar>fval a - x\<bar> \<le> e"

lemma near_fin: "near a x e \<Longrightarrow> is_fin a"
  by (simp add: near_def)

lemma near_bounds: "near a x e \<Longrightarrow> x - e \<le> fval a" "near a x e \<Longrightarrow> fval a \<le> x + e"
  by (auto simp: near_def abs_le_iff)

lemma near_mono: "near a x e \<Longrightarrow> e \<le> e' \<Longrightarrow> near a x e'"
  by (auto simp: near_def)

lemma rnd_error_pos:
  assumes "0 < x" "x \<le> m" "m \<le> 2 ^ 100"
  shows "near (rnd x) x (m / 2 ^ 53 + 1 / 2 ^ 60)"
proof -
  have "(2::rat) ^ 100 = pow2 100" by (simp add: pow2_numeral)
  then have "x \<le> pow2 1000" using assms pow2_le_iff[of 100 1000] by linarith
  then have r: "rnd x = Fin (rnd_pos x)" by (rule rnd_eq_rnd_pos[OF assms(1)])
  have "pow2 (-1022) \<le> pow2 (-60)" by simp
  then have t: "pow2 (-1022) \<le> 1 / 2 ^ 60" by (simp add: pow2_numeral)
  have "\<bar>rnd_pos x - x\<bar> \<le> m / 2 ^ 53 + 1 / 2 ^ 60"
  proof (cases "pow2 (-1022) \<le> x")
    case True
    then have "\<bar>rnd_pos x - x\<bar> \<le> x / 2 ^ 53" using rnd_pos_error[OF True] by (simp add: pow2_numeral)
    also have "\<dots> \<le> m / 2 ^ 53" using assms(2) by (intro divide_right_mono) simp_all
    finally show ?thesis by simp
  next
    case False
    then have "rnd_pos x \<le> pow2 (-1022)" "0 \<le> rnd_pos x" "x < pow2 (-1022)"
      using assms(1) by (simp_all add: rnd_pos_tiny rnd_pos_nonneg)
    then have "\<bar>rnd_pos x - x\<bar> \<le> 1 / 2 ^ 60" using t assms(1) by linarith
    moreover have "0 \<le> m / 2 ^ 53" using assms(1,2) by simp
    ultimately show ?thesis by linarith
  qed
  then show ?thesis by (simp add: near_def r)
qed

lemma rnd_error:
  assumes "\<bar>x\<bar> \<le> m" "m \<le> 2 ^ 100"
  shows "near (rnd x) x (m / 2 ^ 53 + 1 / 2 ^ 60)"
proof -
  consider "x = 0" | "0 < x" | "x < 0" by linarith
  then show ?thesis
  proof cases
    case 1 then show ?thesis using assms by (simp add: near_def)
  next
    case 2 then show ?thesis using assms by (intro rnd_error_pos) simp_all
  next
    case 3
    then have "near (rnd (- x)) (- x) (m / 2 ^ 53 + 1 / 2 ^ 60)" using assms by (intro rnd_error_pos) simp_all
    moreover have "rnd (- x) = - rnd x" using 3 by (simp add: rnd_minus)
    ultimately show ?thesis by (auto simp: near_def abs_minus_commute)
  qed
qed

lemma near_feqv: "feqv a b \<Longrightarrow> near a x e = near b x e"
  by (simp add: near_def feqv_is_fin feqv_fval)

lemma near_trans: "near a y e \<Longrightarrow> \<bar>y - x\<bar> \<le> d \<Longrightarrow> near a x (d + e)"
  by (auto simp: near_def)

lemma near_sub:
  assumes "near a x e" "near b y d" "\<bar>x - y\<bar> + e + d \<le> m" "m \<le> 2 ^ 100"
  shows "near (a - b) (x - y) (e + d + (m / 2 ^ 53 + 1 / 2 ^ 60))"
proof -
  have ab: "\<bar>(fval a - fval b) - (x - y)\<bar> \<le> e + d" using assms(1,2) by (simp add: near_def abs_le_iff)
  then have "\<bar>fval a - fval b\<bar> \<le> m" using assms(3) by linarith
  then have "near (rnd (fval a - fval b)) (fval a - fval b) (m / 2 ^ 53 + 1 / 2 ^ 60)"
    using assms(4) by (rule rnd_error)
  then have "near (a - b) (fval a - fval b) (m / 2 ^ 53 + 1 / 2 ^ 60)"
    using near_feqv[OF sub_feqv[of a b]] assms(1,2) by (simp add: near_def)
  then show ?thesis using ab by (rule near_trans)
qed

lemma near_add:
  assumes "near a x e" "near b y d" "\<bar>x + y\<bar> + e + d \<le> m" "m \<le> 2 ^ 100"
  shows "near (a + b) (x + y) (e + d + (m / 2 ^ 53 + 1 / 2 ^ 60))"
proof -
  have "near (- b) (- y) d" using assms(2) by (simp add: near_def abs_le_iff)
  then have "near (a - - b) (x - - y) (e + d + (m / 2 ^ 53 + 1 / 2 ^ 60))"
    using assms by (intro near_sub) simp_all
  moreover have "a - - b = a + b" using near_fin[OF assms(2)]
    by (auto simp: minus_f64_def uminus_f64_def elim!: is_finE)
  ultimately show ?thesis by simp
qed

lemma near_scale:
  assumes "near a x e" "(\<bar>x\<bar> + e) * 100000 \<le> m" "m \<le> 2 ^ 100"
  shows "near (a * Fin 100000) (x * 100000) (e * 100000 + (m / 2 ^ 53 + 1 / 2 ^ 60))"
proof -
  have ab: "\<bar>fval a * 100000 - x * 100000\<bar> \<le> e * 100000"
    using assms(1) by (simp add: near_def abs_le_iff)
  then have "\<bar>fval a * 100000\<bar> \<le> m" using assms(2) by (simp add: abs_le_iff abs_if split: if_splits)
  then have "near (rnd (fval a * 100000)) (fval a * 100000) (m / 2 ^ 53 + 1 / 2 ^ 60)"
    using assms(3) by (rule rnd_error)
  then have "near (a * Fin 100000) (fval a * 100000) (m / 2 ^ 53 + 1 / 2 ^ 60)"
    using near_feqv[OF mul_feqv[of a "Fin 100000"]] assms(1) by (simp add: near_def)
  then show ?thesis using ab by (rule near_trans)
qed

section \<open>Prices\<close>

definition small_price :: "price \<Rightarrow> bool" where
  "small_price p \<longleftrightarrow> 0 \<le> p \<and> p \<le> 2 ^ 46"

text \<open>A twentieth of a raw unit.\<close>

definition price_err :: rat where "price_err = 1 / 2 ^ 21"

text \<open>The range of the intermediate results.\<close>

definition wide_price :: "price \<Rightarrow> bool" where
  "wide_price p \<longleftrightarrow> \<bar>p\<bar> \<le> 2 ^ 47"

lemma small_wide [simp]: "small_price p \<Longrightarrow> wide_price p"
  by (simp add: small_price_def wide_price_def)

lemma price_err_small: "price_err < 1 / 200000"
  by (simp add: price_err_def)

lemma small_price_rat:
  assumes "small_price p"
  shows "0 \<le> rat_of_int p / 100000" "rat_of_int p / 100000 \<le> 2 ^ 30"
proof -
  have "rat_of_int p \<le> of_int (2 ^ 46)" using assms by (simp only: small_price_def of_int_le_iff)
  then show "rat_of_int p / 100000 \<le> 2 ^ 30" by simp
  show "0 \<le> rat_of_int p / 100000" using assms by (simp add: small_price_def)
qed

lemma near_price:
  assumes "wide_price p"
  shows "near (Price_Float64 p) (of_int p / 100000) price_err"
proof (cases "p = 0")
  case True
  then show ?thesis
    by (simp add: Price_Float64_def ToFloat64_def PriceScale_float float_of_int_exact divide_f64_def
        is_inf_def is_zero_def near_def price_err_def fzero_def fsign_def)
next
  case False
  have "rat_of_int \<bar>p\<bar> \<le> of_int (2 ^ 47)" using assms by (simp only: wide_price_def of_int_le_iff)
  then have r: "\<bar>rat_of_int p / 100000\<bar> \<le> 2 ^ 31" by simp
  have "Price_Float64 p = rnd (of_int p / 100000)"
    using assms False by (simp add: Price_Float64_def ToFloat64_rnd wide_price_def)
  moreover have "near (rnd (of_int p / 100000)) (of_int p / 100000) (2 ^ 31 / 2 ^ 53 + 1 / 2 ^ 60)"
    using r by (intro rnd_error) simp_all
  ultimately show ?thesis by (simp add: near_mono price_err_def)
qed

lemma price_fin [simp]: "wide_price p \<Longrightarrow> is_fin (Price_Float64 p)"
  using near_price near_fin by blast

lemma Price_Float64_mono: "p \<le> q \<Longrightarrow> Price_Float64 p \<le> Price_Float64 q"
  unfolding Price_Float64_def ToFloat64_def PriceScale_float
  by (rule f64_div_mono) (simp_all add: float_of_int_def rnd_mono)

lemma price_not_nan [simp]: "Price_Float64 p \<noteq> FNaN"
  using f64_le_refl[of "Price_Float64 p"] Price_Float64_mono[of p p] by simp

lemma Price_Float64_strict:
  assumes "wide_price p" "wide_price q" "p < q"
  shows "fval (Price_Float64 p) < fval (Price_Float64 q)"
proof -
  have "rat_of_int (p + 1) \<le> of_int q" using assms(3) by (subst of_int_le_iff) simp
  then have "rat_of_int p / 100000 + 1 / 100000 \<le> of_int q / 100000" by simp
  then show ?thesis
    using near_bounds(2)[OF near_price[OF assms(1)]] near_bounds(1)[OF near_price[OF assms(2)]]
      price_err_small by linarith
qed

lemma Price_Float64_less [simp]:
  "wide_price p \<Longrightarrow> wide_price q \<Longrightarrow> Price_Float64 p < Price_Float64 q \<longleftrightarrow> p < q"
  using Price_Float64_strict[of p q] Price_Float64_mono[of q p] by (auto simp: fin_less fin_le not_less[symmetric])

lemma Price_Float64_le [simp]:
  "wide_price p \<Longrightarrow> wide_price q \<Longrightarrow> Price_Float64 p \<le> Price_Float64 q \<longleftrightarrow> p \<le> q"
  using Price_Float64_strict[of q p] Price_Float64_mono[of p q] by (auto simp: fin_less fin_le not_less[symmetric])

lemma small_price_0 [simp]: "small_price 0"
  by (simp add: small_price_def)

lemma Price_Float64_0: "Price_Float64 0 = 0"
  by (simp add: Price_Float64_def ToFloat64_def PriceScale_float float_of_int_exact divide_f64_def
      is_inf_def is_zero_def fzero_def fsign_def zero_f64_def)

lemma Price_Float64_le_0 [simp]: "small_price p \<Longrightarrow> Price_Float64 p \<le> 0 \<longleftrightarrow> p \<le> 0"
  using Price_Float64_le[of p 0] by (simp add: Price_Float64_0)

lemma Price_Float64_gt_0 [simp]: "small_price p \<Longrightarrow> 0 < Price_Float64 p \<longleftrightarrow> 0 < p"
  using Price_Float64_less[of 0 p] by (simp add: Price_Float64_0)

lemma Price_Float64_diff_pos [simp]:
  assumes "small_price p" "small_price q"
  shows "0 < Price_Float64 q - Price_Float64 p \<longleftrightarrow> p < q"
proof -
  note n = near_price[OF small_wide[OF assms(1)]] near_price[OF small_wide[OF assms(2)]]
  have f: "feqv (Price_Float64 q - Price_Float64 p) (rnd (fval (Price_Float64 q) - fval (Price_Float64 p)))"
    by (rule sub_feqv) (simp_all add: assms)
  have fin: "near (Price_Float64 q - Price_Float64 p) (of_int q / 100000 - of_int p / 100000)
     (price_err + price_err + (2 ^ 31 / 2 ^ 53 + 1 / 2 ^ 60))"
    using n(2,1) small_price_rat[OF assms(1)] small_price_rat[OF assms(2)]
    by (intro near_sub) (simp_all add: price_err_def abs_le_iff)
  have small: "price_err + price_err + (2 ^ 31 / 2 ^ 53 + 1 / 2 ^ 60) < 1 / 100000" by (simp add: price_err_def)
  show ?thesis
  proof
    assume "p < q"
    then have "rat_of_int (p + 1) \<le> of_int q" by (subst of_int_le_iff) simp
    then have "rat_of_int p / 100000 + 1 / 100000 \<le> of_int q / 100000" by simp
    then have "0 < fval (Price_Float64 q - Price_Float64 p)"
      using near_bounds(1)[OF fin] small by linarith
    then show "0 < Price_Float64 q - Price_Float64 p" using near_fin[OF fin] by (simp add: fin_less)
  next
    assume a: "0 < Price_Float64 q - Price_Float64 p"
    show "p < q"
    proof (rule ccontr)
      assume "\<not> p < q"
      then have "fval (Price_Float64 q) \<le> fval (Price_Float64 p)"
        using assms Price_Float64_mono[of q p] by (simp add: fin_le)
      then have "rnd (fval (Price_Float64 q) - fval (Price_Float64 p)) \<le> rnd 0" by (intro rnd_mono) simp
      then have "Price_Float64 q - Price_Float64 p \<le> 0" using feqv_le(2)[OF f] by (simp add: zero_f64_def)
      then show False using f64_less_not_le[OF a] by simp
    qed
  qed
qed

lemma PriceFromFloat_near:
  assumes "near a (of_int p / 100000) (1 / 2 ^ 18)" "\<bar>p\<bar> \<le> 2 ^ 48"
  shows "PriceFromFloat a = p"
proof -
  have "rat_of_int \<bar>p\<bar> \<le> of_int (2 ^ 48)" using assms(2) by (simp only: of_int_le_iff)
  then have p: "\<bar>rat_of_int p\<bar> \<le> 2 ^ 48" by simp
  have "near (a * Fin 100000) (of_int p / 100000 * 100000)
      (1 / 2 ^ 18 * 100000 + (2 ^ 49 / 2 ^ 53 + 1 / 2 ^ 60))"
    by (rule near_scale[OF assms(1)]) (use p in \<open>simp_all add: abs_div\<close>)
  then have "near (a * Fin 100000) (of_int p) (49 / 100)" by (simp add: near_def)
  then show ?thesis using assms(2)
    unfolding PriceFromFloat_def FromFloat64_def PriceScale_float
    by (intro int64_of_round_near) (auto simp: near_def is_int64_def abs_le_iff abs_if split: if_splits)
qed

text \<open>What the trailing stop computes: \<open>a - (b - c)\<close> and \<open>a + (b - c)\<close> on prices.\<close>

lemma PriceFromFloat_sub_sub:
  assumes "small_price a" "small_price b" "small_price c"
  shows "PriceFromFloat (Price_Float64 a - (Price_Float64 b - Price_Float64 c)) = a - (b - c)"
    and "PriceFromFloat (Price_Float64 a + (Price_Float64 b - Price_Float64 c)) = a + (b - c)"
proof -
  note r = small_price_rat[OF assms(1)] small_price_rat[OF assms(2)] small_price_rat[OF assms(3)]
  note n = assms[THEN small_wide, THEN near_price]
  have bc: "near (Price_Float64 b - Price_Float64 c) (of_int b / 100000 - of_int c / 100000)
      (price_err + price_err + (2 ^ 31 / 2 ^ 53 + 1 / 2 ^ 60))"
    using n(2,3) r by (intro near_sub) (simp_all add: price_err_def abs_le_iff)
  have "near (Price_Float64 a - (Price_Float64 b - Price_Float64 c))
      (of_int a / 100000 - (of_int b / 100000 - of_int c / 100000))
      (price_err + (price_err + price_err + (2 ^ 31 / 2 ^ 53 + 1 / 2 ^ 60)) + (2 ^ 32 / 2 ^ 53 + 1 / 2 ^ 60))"
    using r by (intro near_sub[OF n(1) bc]) (simp_all add: price_err_def abs_le_iff)
  then have "near (Price_Float64 a - (Price_Float64 b - Price_Float64 c)) (of_int (a - (b - c)) / 100000) (1 / 2 ^ 18)"
    by (simp add: near_def price_err_def diff_divide_distrib)
  then show "PriceFromFloat (Price_Float64 a - (Price_Float64 b - Price_Float64 c)) = a - (b - c)"
    using assms by (intro PriceFromFloat_near) (auto simp: small_price_def)
  have "near (Price_Float64 a + (Price_Float64 b - Price_Float64 c))
      (of_int a / 100000 + (of_int b / 100000 - of_int c / 100000))
      (price_err + (price_err + price_err + (2 ^ 31 / 2 ^ 53 + 1 / 2 ^ 60)) + (2 ^ 32 / 2 ^ 53 + 1 / 2 ^ 60))"
    using r by (intro near_add[OF n(1) bc]) (simp_all add: price_err_def abs_le_iff)
  then have "near (Price_Float64 a + (Price_Float64 b - Price_Float64 c)) (of_int (a + (b - c)) / 100000) (1 / 2 ^ 18)"
    by (simp add: near_def price_err_def add_divide_distrib diff_divide_distrib)
  then show "PriceFromFloat (Price_Float64 a + (Price_Float64 b - Price_Float64 c)) = a + (b - c)"
    using assms by (intro PriceFromFloat_near) (auto simp: small_price_def)
qed

end
