(* ===== verification/StopLoss.thy ===== *)
theory StopLoss
  imports PriceExact
begin

text \<open>
  Stop losses, take profits and the average true range, \<open>internal/backtest/stop_loss.go\<close>.
  A nil pointer is \<open>None\<close>; the method that writes through its pointer returns the new value.
  The engine updates the trailing stop with a candle and then resolves stop and target with
  the same candle, which the last section composes.
\<close>

type_synonym StopLossType = string

definition StopLossNone :: StopLossType where "StopLossNone = ''none''"
definition StopLossFixed :: StopLossType where "StopLossFixed = ''fixed''"
definition StopLossATR :: StopLossType where "StopLossATR = ''atr''"
definition StopLossTrail :: StopLossType where "StopLossTrail = ''trailing''"

type_synonym TakeProfitType = string

definition TakeProfitNone :: TakeProfitType where "TakeProfitNone = ''none''"
definition TakeProfitFixed :: TakeProfitType where "TakeProfitFixed = ''fixed''"
definition TakeProfitATR :: TakeProfitType where "TakeProfitATR = ''atr''"
definition TakeProfitRR :: TakeProfitType where "TakeProfitRR = ''risk_reward''"

lemmas stop_types = StopLossNone_def StopLossFixed_def StopLossATR_def StopLossTrail_def
lemmas take_types = TakeProfitNone_def TakeProfitFixed_def TakeProfitATR_def TakeProfitRR_def

record StopLossConfig =
  sc_Type :: StopLossType
  sc_StopPoints :: price
  sc_StopPercent :: f64
  sc_ATRPeriod :: int
  sc_ATRMultiplier :: f64
  sc_TrailActivation :: f64
  sc_TrailDistance :: price

record TakeProfitConfig =
  tc_Type :: TakeProfitType
  tc_TakePoints :: price
  tc_TakePercent :: f64
  tc_ATRMultiplier :: f64
  tc_RRRatio :: f64

record ActiveStop =
  as_TradeID :: int
  as_EntryPrice :: price
  as_Side :: string
  as_StopPrice :: price
  as_TakePrice :: price
  as_PeakPrice :: price
  as_ATRValue :: f64
  as_StopType :: StopLossType
  as_TakeType :: TakeProfitType

definition DefaultStopLossConfig :: StopLossConfig where
  "DefaultStopLossConfig = \<lparr>sc_Type = StopLossNone, sc_StopPoints = 0, sc_StopPercent = lit 1,
     sc_ATRPeriod = 14, sc_ATRMultiplier = lit 2, sc_TrailActivation = 0, sc_TrailDistance = 0\<rparr>"

definition DefaultTakeProfitConfig :: TakeProfitConfig where
  "DefaultTakeProfitConfig = \<lparr>tc_Type = TakeProfitNone, tc_TakePoints = 0, tc_TakePercent = lit 2,
     tc_ATRMultiplier = 0, tc_RRRatio = lit 2\<rparr>"

section \<open>The levels at entry\<close>

text \<open>The offset of a stop; \<open>None\<close> is the early return of zero.\<close>

definition stop_offset :: "StopLossConfig \<Rightarrow> f64 \<Rightarrow> f64 \<Rightarrow> f64 option" where
  "stop_offset cfg entryPrice atrValue =
     (if sc_Type cfg = StopLossFixed then
        (if sc_StopPercent cfg > 0 then Some (entryPrice * sc_StopPercent cfg / lit 100)
         else if Price_Float64 (sc_StopPoints cfg) > 0 then Some (Price_Float64 (sc_StopPoints cfg))
         else None)
      else if sc_Type cfg = StopLossATR then
        (if sc_ATRMultiplier cfg > 0 \<and> atrValue > 0 then Some (sc_ATRMultiplier cfg * atrValue) else None)
      else if sc_Type cfg = StopLossTrail then
        (if Price_Float64 (sc_TrailDistance cfg) > 0 then Some (Price_Float64 (sc_TrailDistance cfg))
         else if sc_ATRMultiplier cfg > 0 \<and> atrValue > 0 then Some (sc_ATRMultiplier cfg * atrValue)
         else None)
      else None)"

definition CalculateStopPrice :: "f64 \<Rightarrow> string \<Rightarrow> StopLossConfig option \<Rightarrow> f64 \<Rightarrow> f64 \<Rightarrow> f64" where
  "CalculateStopPrice entryPrice side cfg atrValue currentHigh = (case cfg of None \<Rightarrow> 0
     | Some c \<Rightarrow> if sc_Type c = StopLossNone then 0
         else (case stop_offset c entryPrice atrValue of None \<Rightarrow> 0
           | Some stopOffset \<Rightarrow> if side = ''BUY'' then entryPrice - stopOffset else entryPrice + stopOffset))"

definition take_offset :: "TakeProfitConfig \<Rightarrow> f64 \<Rightarrow> f64 \<Rightarrow> f64 \<Rightarrow> f64 option" where
  "take_offset cfg entryPrice stopPrice atrValue =
     (if tc_Type cfg = TakeProfitFixed then
        (if tc_TakePercent cfg > 0 then Some (entryPrice * tc_TakePercent cfg / lit 100)
         else if Price_Float64 (tc_TakePoints cfg) > 0 then Some (Price_Float64 (tc_TakePoints cfg))
         else None)
      else if tc_Type cfg = TakeProfitATR then
        (if tc_ATRMultiplier cfg > 0 \<and> atrValue > 0 then Some (tc_ATRMultiplier cfg * atrValue) else None)
      else if tc_Type cfg = TakeProfitRR then
        (if stopPrice > 0 \<and> entryPrice > 0 then Some (\<bar>entryPrice - stopPrice\<bar> * tc_RRRatio cfg)
         else if tc_TakePercent cfg > 0 then Some (entryPrice * tc_TakePercent cfg / lit 100)
         else None)
      else None)"

definition CalculateTakeProfitPrice :: "f64 \<Rightarrow> string \<Rightarrow> TakeProfitConfig option \<Rightarrow> f64 \<Rightarrow> f64 \<Rightarrow> f64" where
  "CalculateTakeProfitPrice entryPrice side cfg stopPrice atrValue = (case cfg of None \<Rightarrow> 0
     | Some c \<Rightarrow> if tc_Type c = TakeProfitNone then 0
         else (case take_offset c entryPrice stopPrice atrValue of None \<Rightarrow> 0
           | Some takeOffset \<Rightarrow> if side = ''BUY'' then entryPrice + takeOffset else entryPrice - takeOffset))"

section \<open>Hits\<close>

definition CheckStopHit :: "Candle \<Rightarrow> ActiveStop option \<Rightarrow> bool \<times> f64" where
  "CheckStopHit candle stop = (case stop of None \<Rightarrow> (False, 0)
     | Some s \<Rightarrow> let stopF = Price_Float64 (as_StopPrice s); openF = Price_Float64 (ca_Open candle) in
         if stopF \<le> 0 then (False, 0)
         else if as_Side s = ''BUY'' then
           (if ca_Low candle > 0 \<and> Price_Float64 (ca_Low candle) \<le> stopF
            then (True, if openF < stopF then openF else stopF)
            else if ca_Open candle > 0 \<and> openF \<le> stopF then (True, openF)
            else (False, 0))
         else
           (if ca_High candle > 0 \<and> stopF \<le> Price_Float64 (ca_High candle)
            then (True, if stopF < openF then openF else stopF)
            else if ca_Open candle > 0 \<and> stopF \<le> openF then (True, openF)
            else (False, 0)))"

definition CheckTakeProfitHit :: "Candle \<Rightarrow> ActiveStop option \<Rightarrow> bool \<times> f64" where
  "CheckTakeProfitHit candle stop = (case stop of None \<Rightarrow> (False, 0)
     | Some s \<Rightarrow> let takeF = Price_Float64 (as_TakePrice s); openF = Price_Float64 (ca_Open candle) in
         if takeF \<le> 0 then (False, 0)
         else if as_Side s = ''BUY'' then
           (if ca_High candle > 0 \<and> takeF \<le> Price_Float64 (ca_High candle)
            then (True, if takeF < openF then openF else takeF)
            else if ca_Open candle > 0 \<and> takeF \<le> openF then (True, openF)
            else (False, 0))
         else
           (if ca_Low candle > 0 \<and> Price_Float64 (ca_Low candle) \<le> takeF
            then (True, if openF < takeF then openF else takeF)
            else if ca_Open candle > 0 \<and> openF \<le> takeF then (True, openF)
            else (False, 0)))"

definition resolveStopTarget :: "Candle \<Rightarrow> ActiveStop option \<Rightarrow> string \<times> f64" where
  "resolveStopTarget candle stop = (case stop of None \<Rightarrow> ('''', 0)
     | Some s \<Rightarrow> (case CheckStopHit candle stop of (stopHit, sp) \<Rightarrow>
         if stopHit then (''stop_loss'', sp)
         else (case CheckTakeProfitHit candle stop of (tpHit, tp) \<Rightarrow>
           if tpHit then (''take_profit'', tp) else ('''', 0))))"

section \<open>The trailing stop\<close>

definition UpdateTrailingStop :: "ActiveStop option \<Rightarrow> Candle \<Rightarrow> ActiveStop option" where
  "UpdateTrailingStop stop candle = (case stop of None \<Rightarrow> None
     | Some s \<Rightarrow> Some (
        if as_StopType s \<noteq> StopLossTrail \<or> Price_Float64 (as_StopPrice s) \<le> 0 then s
        else if as_Side s = ''BUY'' then
          (if Price_Float64 (as_PeakPrice s) < Price_Float64 (ca_High candle) then
             (let s = s\<lparr>as_PeakPrice := ca_High candle\<rparr>;
                  delta = Price_Float64 (as_PeakPrice s) - Price_Float64 (as_EntryPrice s) in
              if 0 < delta then
                (let s = s\<lparr>as_StopPrice := PriceFromFloat (Price_Float64 (as_PeakPrice s) -
                       (Price_Float64 (as_StopPrice s) - Price_Float64 (as_EntryPrice s)))\<rparr> in
                 if Price_Float64 (as_StopPrice s) < Price_Float64 (as_EntryPrice s)
                 then s\<lparr>as_StopPrice := as_EntryPrice s\<rparr> else s)
              else s)
           else s)
        else
          (if ca_Low candle > 0 \<and> Price_Float64 (ca_Low candle) < Price_Float64 (as_PeakPrice s) then
             (let s = s\<lparr>as_PeakPrice := ca_Low candle\<rparr>;
                  delta = Price_Float64 (as_EntryPrice s) - Price_Float64 (as_PeakPrice s) in
              if 0 < delta then
                (let s = s\<lparr>as_StopPrice := PriceFromFloat (Price_Float64 (as_PeakPrice s) +
                       (Price_Float64 (as_EntryPrice s) - Price_Float64 (as_StopPrice s)))\<rparr> in
                 if Price_Float64 (as_EntryPrice s) < Price_Float64 (as_StopPrice s)
                 then s\<lparr>as_StopPrice := as_EntryPrice s\<rparr> else s)
              else s)
           else s)))"

section \<open>The average true range\<close>

definition true_range :: "Candle \<Rightarrow> f64 \<Rightarrow> f64" where
  "true_range c prevClose =
     (let high = Price_Float64 (ca_High c); low = Price_Float64 (ca_Low c); tr = high - low in
      if 0 < prevClose then
        (let hc = \<bar>high - prevClose\<bar>; lc = \<bar>low - prevClose\<bar>;
             tr = (if tr < hc then hc else tr) in
         if tr < lc then lc else tr)
      else tr)"

text \<open>The loop from \<open>start\<close> to the end; the first candle of a series has no predecessor and
  uses its own close.\<close>

definition atr_prev :: "Candle list \<Rightarrow> nat \<Rightarrow> f64" where
  "atr_prev candles i = (if 0 < i then Price_Float64 (ca_Close (candles ! (i - 1)))
     else Price_Float64 (ca_Close (candles ! i)))"

definition atr_sum :: "Candle list \<Rightarrow> nat \<Rightarrow> nat \<Rightarrow> f64" where
  "atr_sum candles start end = foldl (\<lambda>trSum i. trSum + true_range (candles ! i) (atr_prev candles i)) 0 [start..<end]"

text \<open>With a negative period the loop starts past the end and does not run.\<close>

definition ComputeATR :: "Candle list \<Rightarrow> int \<Rightarrow> f64" where
  "ComputeATR candles period =
     (if int (length candles) < period + 1 then 0
      else let end = length candles;
               start = (if int end - period < 0 then 0 else nat (int end - period));
               count = end - start in
        if count = 0 then 0 else atr_sum candles start end / float_of_int (int count))"

section \<open>Candles in range\<close>

definition candle_wf :: "Candle \<Rightarrow> bool" where
  "candle_wf c \<longleftrightarrow> 0 < ca_Low c \<and> ca_Low c \<le> ca_Open c \<and> ca_Open c \<le> ca_High c \<and>
     ca_Low c \<le> ca_Close c \<and> ca_Close c \<le> ca_High c \<and> small_price (ca_High c)"

definition stop_wf :: "ActiveStop \<Rightarrow> bool" where
  "stop_wf s \<longleftrightarrow> small_price (as_EntryPrice s) \<and> small_price (as_StopPrice s) \<and>
     small_price (as_TakePrice s) \<and> small_price (as_PeakPrice s)"

lemma candle_wf_prices:
  assumes "candle_wf c"
  shows "small_price (ca_Low c)" "small_price (ca_High c)" "small_price (ca_Open c)" "small_price (ca_Close c)"
    "0 < ca_Low c" "0 < ca_High c" "0 < ca_Open c"
  using assms by (auto simp: candle_wf_def small_price_def)

text \<open>A stop or a target that is hit closes the trade inside the range of the bar, whatever the
  prices are.\<close>

theorem exit_within_bar:
  assumes "resolveStopTarget c stop = (reason, x)" "reason \<noteq> ''''"
    "ca_Low c \<le> ca_Open c" "ca_Open c \<le> ca_High c"
  shows "Price_Float64 (ca_Low c) \<le> x \<and> x \<le> Price_Float64 (ca_High c)"
proof -
  have o: "Price_Float64 (ca_Low c) \<le> Price_Float64 (ca_Open c)" "Price_Float64 (ca_Open c) \<le> Price_Float64 (ca_High c)"
    using assms(3,4) by (simp_all add: Price_Float64_mono)
  obtain s where s: "stop = Some s" using assms(1,2) by (cases stop) (simp_all add: resolveStopTarget_def)
  show ?thesis using assms(1,2) o
    unfolding s resolveStopTarget_def CheckStopHit_def CheckTakeProfitHit_def Let_def
    by (auto simp: f64_not_less split: if_splits dest: f64_less_imp_le intro: f64_le_trans)
qed

definition long_stop :: ActiveStop where
  "long_stop = \<lparr>as_TradeID = 1, as_EntryPrice = 10000000, as_Side = ''BUY'', as_StopPrice = 9900000,
     as_TakePrice = 10200000, as_PeakPrice = 10000000, as_ATRValue = 0, as_StopType = StopLossTrail,
     as_TakeType = TakeProfitNone\<rparr>"

definition bar_at :: "price \<Rightarrow> price \<Rightarrow> price \<Rightarrow> price \<Rightarrow> Candle" where
  "bar_at op hi lo cl = \<lparr>ca_Time = 0, ca_Open = op, ca_High = hi, ca_Low = lo, ca_Close = cl, ca_Volume = 0,
     ca_Symbol = ''A'', ca_AdjustmentFactor = 0, ca_Source = '''', ca_GenerationID = ''''\<rparr>"

lemma bar_at_simps [simp]:
  "ca_Open (bar_at op hi lo cl) = op" "ca_High (bar_at op hi lo cl) = hi"
  "ca_Low (bar_at op hi lo cl) = lo" "ca_Close (bar_at op hi lo cl) = cl"
  by (simp_all add: bar_at_def)

text \<open>C35: Which level closes the trade and at which price: the stop goes before the target when one
  bar holds both; a bar that opens beyond a level fills at its open.\<close>

theorem resolveStopTarget_spec:
  assumes "candle_wf c" "stop_wf s"
  shows "resolveStopTarget c (Some s) =
    (if 0 < as_StopPrice s \<and> (if as_Side s = ''BUY'' then ca_Low c \<le> as_StopPrice s else as_StopPrice s \<le> ca_High c)
     then (''stop_loss'', Price_Float64 (if as_Side s = ''BUY'' then min (ca_Open c) (as_StopPrice s)
        else max (ca_Open c) (as_StopPrice s)))
     else if 0 < as_TakePrice s \<and> (if as_Side s = ''BUY'' then as_TakePrice s \<le> ca_High c else ca_Low c \<le> as_TakePrice s)
     then (''take_profit'', Price_Float64 (if as_Side s = ''BUY'' then max (ca_Open c) (as_TakePrice s)
        else min (ca_Open c) (as_TakePrice s)))
     else ('''', 0))"
proof -
  have p: "small_price (as_StopPrice s)" "small_price (as_TakePrice s)" using assms(2) by (simp_all add: stop_wf_def)
  have ge: "0 \<le> as_StopPrice s" "0 \<le> as_TakePrice s" using p by (simp_all add: small_price_def)
  have o: "ca_Low c \<le> ca_Open c" "ca_Open c \<le> ca_High c" using assms(1) by (simp_all add: candle_wf_def)
  have stop: "CheckStopHit c (Some s) =
    (if 0 < as_StopPrice s \<and> (if as_Side s = ''BUY'' then ca_Low c \<le> as_StopPrice s else as_StopPrice s \<le> ca_High c)
     then (True, Price_Float64 (if as_Side s = ''BUY'' then min (ca_Open c) (as_StopPrice s)
        else max (ca_Open c) (as_StopPrice s)))
     else (False, 0))"
    using o ge by (cases "as_Side s = ''BUY''") (simp_all add: CheckStopHit_def Let_def p candle_wf_prices[OF assms(1)] min_def max_def)
  have take: "CheckTakeProfitHit c (Some s) =
    (if 0 < as_TakePrice s \<and> (if as_Side s = ''BUY'' then as_TakePrice s \<le> ca_High c else ca_Low c \<le> as_TakePrice s)
     then (True, Price_Float64 (if as_Side s = ''BUY'' then max (ca_Open c) (as_TakePrice s)
        else min (ca_Open c) (as_TakePrice s)))
     else (False, 0))"
    using o ge by (cases "as_Side s = ''BUY''") (simp_all add: CheckTakeProfitHit_def Let_def p candle_wf_prices[OF assms(1)] min_def max_def)
  show ?thesis by (simp add: resolveStopTarget_def stop take)
qed

theorem resolveStopTarget_spec_witness:
  "resolveStopTarget (bar_at 10000000 10300000 9800000 10100000) (Some long_stop) = (''stop_loss'', Price_Float64 9900000)"
  using resolveStopTarget_spec[of "bar_at 10000000 10300000 9800000 10100000" long_stop]
  by (simp add: candle_wf_def stop_wf_def small_price_def long_stop_def)

theorem exit_within_bar_witness:
  "Price_Float64 9800000 \<le> Price_Float64 9900000 \<and> Price_Float64 9900000 \<le> Price_Float64 10300000"
proof -
  have "resolveStopTarget (bar_at 10000000 10300000 9800000 10100000) (Some long_stop) = (''stop_loss'', Price_Float64 9900000)"
    by (simp add: resolveStopTarget_def CheckStopHit_def long_stop_def Let_def small_price_def)
  from exit_within_bar[OF this] show ?thesis by simp
qed

section \<open>What the trailing stop does\<close>

text \<open>The stop a bar leaves behind, in exact prices.\<close>

definition trailed :: "ActiveStop \<Rightarrow> Candle \<Rightarrow> ActiveStop" where
  "trailed s c =
     (if as_Side s = ''BUY'' then
        (if as_PeakPrice s < ca_High c then
           (if as_EntryPrice s < ca_High c then
              s\<lparr>as_PeakPrice := ca_High c, as_StopPrice := max (as_EntryPrice s) (ca_High c + as_EntryPrice s - as_StopPrice s)\<rparr>
            else s\<lparr>as_PeakPrice := ca_High c\<rparr>)
         else s)
      else
        (if ca_Low c < as_PeakPrice s then
           (if ca_Low c < as_EntryPrice s then
              s\<lparr>as_PeakPrice := ca_Low c, as_StopPrice := min (as_EntryPrice s) (ca_Low c + as_EntryPrice s - as_StopPrice s)\<rparr>
            else s\<lparr>as_PeakPrice := ca_Low c\<rparr>)
         else s))"

lemma UpdateTrailingStop_exact:
  assumes "candle_wf c" "stop_wf s" "as_StopType s = StopLossTrail" "0 < as_StopPrice s"
  shows "UpdateTrailingStop (Some s) c = Some (trailed s c)"
proof -
  have p: "small_price (as_StopPrice s)" "small_price (as_PeakPrice s)" "small_price (as_EntryPrice s)"
    using assms(2) by (simp_all add: stop_wf_def)
  note w = candle_wf_prices[OF assms(1)]
  have b: "wide_price (ca_High c + as_EntryPrice s - as_StopPrice s)"
    "wide_price (ca_Low c + as_EntryPrice s - as_StopPrice s)"
    using p w by (auto simp: small_price_def wide_price_def)
  show ?thesis
    using assms(3,4)
    by (cases "as_Side s = ''BUY''")
      (simp_all add: UpdateTrailingStop_def trailed_def Let_def p w PriceFromFloat_sub_sub b max_def min_def algebra_simps)
qed

text \<open>C20: The bar that first moves a trailing stop in favour of the position stops it out. The stop
  starts on the losing side of the entry and no earlier bar has moved it: for a long position the
  stop is below the entry, the peak not below it and the high of the bar above the peak; for a
  short position the stop is above the entry, the peak not above it and the low of the bar below the
  peak, and the stop is below the sum of entry and low (otherwise it vanishes, see
  \<open>short_trailing_stop_vanishes\<close>). The candle is well formed, the prices are at most \<open>2 ^ 46\<close> raw
  units and the stop is positive. Then the moved stop lands beyond the extreme of the bar instead of
  behind it, and resolving it with the same bar answers \<open>stop_loss\<close> at the open of the bar.\<close>

theorem trailing_stop_exits_at_open:
  assumes "candle_wf c" "stop_wf s" "as_StopType s = StopLossTrail" "0 < as_StopPrice s"
    "if as_Side s = ''BUY''
     then as_StopPrice s < as_EntryPrice s \<and> as_EntryPrice s \<le> as_PeakPrice s \<and> as_PeakPrice s < ca_High c
     else as_EntryPrice s < as_StopPrice s \<and> as_PeakPrice s \<le> as_EntryPrice s \<and> ca_Low c < as_PeakPrice s \<and>
       as_StopPrice s < as_EntryPrice s + ca_Low c"
  shows "resolveStopTarget c (UpdateTrailingStop (Some s) c) = (''stop_loss'', Price_Float64 (ca_Open c))"
proof -
  have p: "small_price (as_StopPrice s)" "small_price (as_PeakPrice s)" "small_price (as_EntryPrice s)"
    using assms(2) by (simp_all add: stop_wf_def)
  note w = candle_wf_prices[OF assms(1)]
  have o: "ca_Low c \<le> ca_Open c" "ca_Open c \<le> ca_High c" using assms(1) by (simp_all add: candle_wf_def)
  have z: "Price_Float64 q \<le> 0 \<longleftrightarrow> q \<le> 0" if "wide_price q" for q
    using that Price_Float64_le[of q 0] by (simp add: Price_Float64_0)
  have b: "wide_price (ca_High c + as_EntryPrice s - as_StopPrice s)"
    "wide_price (ca_Low c + as_EntryPrice s - as_StopPrice s)"
    using p w by (auto simp: small_price_def wide_price_def)
  show ?thesis
  proof (cases "as_Side s = ''BUY''")
    case True
    define x where "x = ca_High c + as_EntryPrice s - as_StopPrice s"
    have x: "ca_High c < x" "0 < x" "wide_price x" "max (as_EntryPrice s) x = x"
      using assms(5) True w b by (auto simp: x_def)
    have "trailed s c = s\<lparr>as_PeakPrice := ca_High c, as_StopPrice := x\<rparr>"
      using True assms(5) x(4) by (simp add: trailed_def flip: x_def)
    then show ?thesis using True x(1-3) o
      by (simp add: UpdateTrailingStop_exact[OF assms(1-4)] resolveStopTarget_def CheckStopHit_def Let_def w z)
  next
    case False
    define x where "x = ca_Low c + as_EntryPrice s - as_StopPrice s"
    have x: "x < ca_Low c" "0 < x" "wide_price x" "min (as_EntryPrice s) x = x"
      using assms(5) False w b by (auto simp: x_def)
    have "trailed s c = s\<lparr>as_PeakPrice := ca_Low c, as_StopPrice := x\<rparr>"
      using False assms(5) x(4) by (simp add: trailed_def flip: x_def)
    then show ?thesis using False x(1-3) o
      by (simp add: UpdateTrailingStop_exact[OF assms(1-4)] resolveStopTarget_def CheckStopHit_def Let_def w z)
  qed
qed

theorem trailing_stop_exits_at_open_witness:
  "resolveStopTarget (bar_at 10050000 10060000 10040000 10055000)
     (UpdateTrailingStop (Some long_stop) (bar_at 10050000 10060000 10040000 10055000)) =
   (''stop_loss'', Price_Float64 10050000)"
  using trailing_stop_exits_at_open[of "bar_at 10050000 10060000 10040000 10055000" long_stop]
  by (simp add: candle_wf_def stop_wf_def small_price_def long_stop_def)

text \<open>A short position whose stop is further away than the new low loses its stop: the stop
  price becomes zero or negative, which the check takes for no stop at all.\<close>

lemma short_trailing_stop_vanishes:
  assumes "candle_wf c" "stop_wf s" "as_StopType s = StopLossTrail" "as_Side s \<noteq> ''BUY''"
    "as_PeakPrice s \<le> as_EntryPrice s" "ca_Low c < as_PeakPrice s" "as_EntryPrice s + ca_Low c \<le> as_StopPrice s"
  shows "CheckStopHit c' (UpdateTrailingStop (Some s) c) = (False, 0)"
proof -
  have p: "small_price (as_StopPrice s)" "small_price (as_PeakPrice s)" "small_price (as_EntryPrice s)"
    using assms(2) by (simp_all add: stop_wf_def)
  note w = candle_wf_prices[OF assms(1)]
  define x where "x = ca_Low c + as_EntryPrice s - as_StopPrice s"
  have x: "x \<le> 0" "wide_price x" "min (as_EntryPrice s) x = x" "0 < as_StopPrice s"
    using assms(7) p w by (auto simp: x_def small_price_def wide_price_def)
  have "trailed s c = s\<lparr>as_PeakPrice := ca_Low c, as_StopPrice := x\<rparr>"
    using assms(4-6) x(3) by (simp add: trailed_def flip: x_def)
  then show ?thesis using x(1,2) Price_Float64_le[of x 0]
    by (simp add: UpdateTrailingStop_exact[OF assms(1-3) x(4)] CheckStopHit_def Let_def Price_Float64_0)
qed

section \<open>The average true range depends on the last candles only\<close>

lemma atr_prev_append: "0 < i \<Longrightarrow> atr_prev (xs @ ys) (length xs + i) = atr_prev ys i"
proof -
  assume "0 < i"
  then have "length xs + i - 1 = length xs + (i - 1)" by simp
  then show ?thesis using \<open>0 < i\<close> by (simp only: atr_prev_def nth_append_length_plus) simp
qed

lemma atr_sum_append:
  "0 < a \<Longrightarrow> atr_sum (xs @ ys) (length xs + a) (length xs + b) = atr_sum ys a b"
proof -
  assume a: "0 < a"
  have e: "[length xs + a..<length xs + b] = map ((+) (length xs)) [a..<b]"
    by (induction b) auto
  have "foldl (\<lambda>t i. t + true_range ((xs @ ys) ! i) (atr_prev (xs @ ys) i)) z (map ((+) (length xs)) [a..<b]) =
    foldl (\<lambda>t i. t + true_range (ys ! i) (atr_prev ys i)) z [a..<b]" for z
    using a by (induction b arbitrary: z) (auto simp: atr_prev_append)
  then show ?thesis by (simp add: atr_sum_def e)
qed

text \<open>With at least one candle more than the period, candles before the last period and one
  do not matter: the value at a bar depends on the same window in a long and in a short
  history.\<close>

theorem ComputeATR_window:
  assumes "0 \<le> period" "period < int (length ys)"
  shows "ComputeATR (xs @ ys) period = ComputeATR ys period"
proof -
  have n: "nat (int (length xs + length ys) - period) = length xs + nat (int (length ys) - period)"
    using assms(2) by (simp add: nat_add_distrib flip: add_diff_eq)
  have "0 < nat (int (length ys) - period)" using assms(2) by simp
  from atr_sum_append[OF this, of xs ys "length ys"] show ?thesis
    using assms n by (simp add: ComputeATR_def Let_def)
qed

theorem ComputeATR_window_witness:
  "ComputeATR [bar_at 5 5 5 5, bar_at 100000 200000 100000 100000, bar_at 100000 300000 100000 200000] 1 =
   ComputeATR [bar_at 100000 200000 100000 100000, bar_at 100000 300000 100000 200000] 1"
  using ComputeATR_window[of 1 "[bar_at 100000 200000 100000 100000, bar_at 100000 300000 100000 200000]" "[bar_at 5 5 5 5]"]
  by simp

end
