(* ===== verification/Backtest.thy ===== *)
theory Backtest
  imports Deployments Slippage StopLoss Trades
begin

text \<open>
  The backtest run, \<open>Engine.Run\<close> of \<open>internal/backtest/engine.go\<close>, from the loaded candles to
  the closed trades. What the run asks of code outside this development is the record
  \<open>environment\<close>: the strategy runner with a state of type \<open>'r\<close> (a panic of \<open>Evaluate\<close> is
  \<open>None\<close>), the machine learning services with a state of type \<open>'m\<close> (\<open>None\<close> for a service that
  is not set or not healthy), the random numbers of the fills, the logs, the clock at every
  bar. The candles are the merged ones in the order of the sort. The engine shares its
  volatility halt, sizer, tracker and matrix with its pipeline by pointer: they are put into the
  pipeline before a call and read back after it. The gate of \<open>WirePipeline\<close> is the only one. Go
  ranges over maps in any order, here in the order of the first insertion. The recorder, the
  warnings and the log of trade changes are left out.
\<close>

record SignalDiag =
  sd_CandlesSeen :: int
  sd_SignalAttempts :: int
  sd_CapitalZero :: int
  sd_VolHalted :: int
  sd_BaseSizeZero :: int
  sd_StrategyNil :: int
  sd_NilError :: int
  sd_ExitSignalZeroQty :: int
  sd_QuantityTooSmall :: int
  sd_ExposureBlocked :: int
  sd_PipelineRejected :: int
  sd_SignalsPassed :: int
  sd_TradesOpened :: int
  sd_FillRejected :: int
  sd_MLRejected :: int
  sd_RegimeRejected :: int
  sd_PipelineRejects :: "(string, int) gomap"

definition zero_diag :: SignalDiag where
  "zero_diag = \<lparr>sd_CandlesSeen = 0, sd_SignalAttempts = 0, sd_CapitalZero = 0, sd_VolHalted = 0,
     sd_BaseSizeZero = 0, sd_StrategyNil = 0, sd_NilError = 0, sd_ExitSignalZeroQty = 0,
     sd_QuantityTooSmall = 0, sd_ExposureBlocked = 0, sd_PipelineRejected = 0, sd_SignalsPassed = 0,
     sd_TradesOpened = 0, sd_FillRejected = 0, sd_MLRejected = 0, sd_RegimeRejected = 0, sd_PipelineRejects = []\<rparr>"

record BacktestConfig =
  bc_StrategyID :: string
  bc_InitialCapital :: f64
  bc_RegimeFilter :: "int option"
  bc_CommissionBps :: f64
  bc_BrokerFee :: BrokerageFeeConfig
  bc_PropFirmEnabled :: bool
  bc_StopLoss :: "StopLossConfig option"
  bc_TakeProfit :: "TakeProfitConfig option"
  bc_UseSeasonalityOverlay :: bool
  bc_StrategyParams :: "(string, f64) gomap"
  bc_FixedSeed :: int
  bc_SizingPercent :: f64
  bc_KellyFraction :: f64
  bc_WarmUpBars :: int
  bc_SecondarySymbols :: "(string, string) gomap"
  bc_SkipEarningsDays :: bool
  bc_DisableRegimeGate :: bool

record ('r, 'g, 'm) environment =
  nv_newRunner :: 'r
  nv_evaluate :: "'r \<Rightarrow> Candle \<Rightarrow> int \<Rightarrow> Signal option option \<times> 'r"
  nv_setVIX :: "f64 \<Rightarrow> 'r \<Rightarrow> 'r"
  nv_receivesATR :: "'r \<Rightarrow> bool"
  nv_setATR :: "f64 \<Rightarrow> 'r \<Rightarrow> 'r"
  nv_pushSecondary :: "price \<Rightarrow> 'r \<Rightarrow> 'r"
  nv_earningsDay :: "string \<Rightarrow> int \<Rightarrow> bool"
  nv_activeSymbols :: "int \<Rightarrow> string list option"
  nv_meta :: "'m \<Rightarrow> Candle \<Rightarrow> int \<Rightarrow> f64 \<Rightarrow> (bool \<times> f64) option \<times> 'm"
  nv_enhance :: "'m \<Rightarrow> int \<Rightarrow> int \<Rightarrow> f64 option \<times> 'm"
  nv_exitMult :: "'m \<Rightarrow> ActiveStop \<Rightarrow> Candle \<Rightarrow> int \<Rightarrow> f64 option \<times> 'm"
  nv_seasonality :: "int \<Rightarrow> f64"
  nv_expenseRatio :: "string \<Rightarrow> f64"
  nv_gauss :: "'g \<Rightarrow> f64 \<times> 'g"
  nv_unif :: "'g \<Rightarrow> f64 \<times> 'g"
  nv_seed :: "int \<Rightarrow> 'g"
  nv_regimeLogs :: "(string \<times> int \<times> int) list"
  nv_vixLogs :: "(int \<times> f64) list"
  nv_sentimentLogs :: "(int \<times> int) list"
  nv_clock :: "nat \<Rightarrow> int"

text \<open>The engine and the local variables of its run.\<close>

record ('r, 'g, 'm) Engine =
  be_fillSim :: "'g FillSimulator"
  be_stratBySymbol :: "(string, 'r) gomap"
  be_ftmo :: "PropFirmEnforcer option"
  be_volHalt :: VolatilityHalt
  be_exposure :: ExposureTracker
  be_kellyMult :: f64
  be_positionSizer :: PositionSizer
  be_signalDiag :: SignalDiag
  be_ml :: 'm
  be_pipeline :: "engine_pipeline option"
  be_regimeMatrix :: regime_matrix
  ru_capital :: f64
  ru_peakCapital :: f64
  ru_equity :: "EquityPoint list"
  ru_mtmEquity :: "EquityPoint list"
  ru_trades :: "Trade list"
  ru_openTrades :: "(string, Trade) gomap"
  ru_activeStops :: "(string, ActiveStop) gomap"
  ru_pendingAS :: "(string, Trade) gomap"
  ru_pendingEntries :: "(string, Signal) gomap"
  ru_lastDay :: "int option"
  ru_atrWindow :: "Candle list"
  ru_hasHighVIX :: bool
  ru_hasVIXSpike :: bool
  ru_prevVIX :: f64
  ru_panicked :: bool

definition EngineBuilder_Build :: "SlippageModel \<Rightarrow> 'g \<Rightarrow> 'm \<Rightarrow> ('r, 'g, 'm) Engine" where
  "EngineBuilder_Build slippage rng ml = \<lparr>be_fillSim = \<lparr>fm_model = slippage, fm_rng = rng\<rparr>,
     be_stratBySymbol = [], be_ftmo = None, be_volHalt = NewVolatilityHalt (lit 3),
     be_exposure = NewExposureTracker (lit 5) (lit (25/100)), be_kellyMult = lit (25/100),
     be_positionSizer = NewPositionSizer None, be_signalDiag = zero_diag, be_ml = ml,
     be_pipeline = None, be_regimeMatrix = NewRegimeActivationMatrix, ru_capital = 0, ru_peakCapital = 0,
     ru_equity = [], ru_mtmEquity = [], ru_trades = [], ru_openTrades = [], ru_activeStops = [],
     ru_pendingAS = [], ru_pendingEntries = [], ru_lastDay = None, ru_atrWindow = [], ru_hasHighVIX = False,
     ru_hasVIXSpike = False, ru_prevVIX = 0, ru_panicked = False\<rparr>"

definition Engine_wire :: "int \<Rightarrow> ('r, 'g, 'm) Engine \<Rightarrow> ('r, 'g, 'm) Engine" where
  "Engine_wire now s = s\<lparr>be_pipeline := Some (Engine_WirePipeline now (Some (be_volHalt s)) (be_positionSizer s)
     (be_exposure s) (be_ftmo s) (be_kellyMult s) (be_regimeMatrix s))\<rparr>"

definition diag :: "(SignalDiag \<Rightarrow> SignalDiag) \<Rightarrow> ('r, 'g, 'm) Engine \<Rightarrow> ('r, 'g, 'm) Engine" where
  "diag f s = s\<lparr>be_signalDiag := f (be_signalDiag s)\<rparr>"

section \<open>The logs\<close>

text \<open>The regime logs (symbol, time, state) of a symbol, and the binary search in them.\<close>

definition buildRegimeIndex :: "(string \<times> int \<times> int) list \<Rightarrow> (string, (int \<times> int) list) gomap" where
  "buildRegimeIndex logs = foldl (\<lambda>idx (symb, l). mput idx symb (mget [] idx symb @ [l])) [] logs"

function regime_search :: "(int \<times> int) list \<Rightarrow> int \<Rightarrow> nat \<Rightarrow> nat \<Rightarrow> nat" where
  "regime_search logs t lo hi =
     (if lo < hi
      then (let mid = (lo + hi) div 2 in
            if t < fst (logs ! mid) then regime_search logs t lo mid else regime_search logs t (mid + 1) hi)
      else lo)"
  by pat_completeness auto
termination by (relation "measure (\<lambda>(logs, t, lo, hi). hi - lo)") auto

declare regime_search.simps [simp del]

definition regimeAt :: "(string, (int \<times> int) list) gomap \<Rightarrow> string \<Rightarrow> int \<Rightarrow> int" where
  "regimeAt idx symb t =
     (let logs = mget [] idx symb in
      if logs = [] then 0
      else let lo = regime_search logs t 0 (length logs) in if lo = 0 then 0 else snd (logs ! (lo - 1)))"

definition getVIXAt :: "int \<Rightarrow> (int \<times> f64) list \<Rightarrow> f64" where
  "getVIXAt t logs = (case find (\<lambda>(u, _). u \<le> t) (rev logs) of None \<Rightarrow> 0 | Some (_, v) \<Rightarrow> v)"

definition getSentimentAt :: "int \<Rightarrow> (int \<times> int) list \<Rightarrow> int" where
  "getSentimentAt t logs = (case find (\<lambda>(u, _). u \<le> t) (rev logs) of None \<Rightarrow> 50 | Some (_, v) \<Rightarrow> v)"

section \<open>Signals\<close>

text \<open>The runner of a symbol is made at its first use and then kept.\<close>

definition Engine_runner :: "('r, 'g, 'm) environment \<Rightarrow> BacktestConfig \<Rightarrow> string \<Rightarrow> ('r, 'g, 'm) Engine \<Rightarrow> 'r" where
  "Engine_runner env cfg symb s = mget (nv_newRunner env) (be_stratBySymbol s) (symb @ '':'' @ bc_StrategyID cfg)"

definition Engine_put_runner :: "BacktestConfig \<Rightarrow> string \<Rightarrow> 'r \<Rightarrow> ('r, 'g, 'm) Engine \<Rightarrow> ('r, 'g, 'm) Engine" where
  "Engine_put_runner cfg symb r s =
     s\<lparr>be_stratBySymbol := mput (be_stratBySymbol s) (symb @ '':'' @ bc_StrategyID cfg) r\<rparr>"

definition Engine_evaluate :: "('r, 'g, 'm) environment \<Rightarrow> BacktestConfig \<Rightarrow> Candle \<Rightarrow> int \<Rightarrow> ('r, 'g, 'm) Engine \<Rightarrow>
  Signal option option \<times> ('r, 'g, 'm) Engine" where
  "Engine_evaluate env cfg candle regime s =
     (let (raw, r) = nv_evaluate env (Engine_runner env cfg (ca_Symbol candle) s) candle regime
      in (raw, Engine_put_runner cfg (ca_Symbol candle) r s))"

text \<open>The shared parts go into the pipeline before a call and come back after it.\<close>

definition Engine_load :: "('r, 'g, 'm) Engine \<Rightarrow> engine_pipeline \<Rightarrow> engine_pipeline" where
  "Engine_load s p = with_gate (p\<lparr>rp_RegimeMatrix := Some (be_regimeMatrix s)\<rparr>)
     (\<lambda>g. Some (g\<lparr>si_volHalt := Some (be_volHalt s), si_sizer := Some (be_positionSizer s),
        si_exposure := Some (be_exposure s)\<rparr>))"

definition Engine_store :: "engine_pipeline \<Rightarrow> ('r, 'g, 'm) Engine \<Rightarrow> ('r, 'g, 'm) Engine" where
  "Engine_store p s = (case rp_SignalGate p of None \<Rightarrow> s\<lparr>be_pipeline := Some p\<rparr> | Some (G, g) \<Rightarrow>
     s\<lparr>be_pipeline := Some p,
       be_volHalt := (case si_volHalt g of None \<Rightarrow> be_volHalt s | Some v \<Rightarrow> v),
       be_positionSizer := (case si_sizer g of None \<Rightarrow> be_positionSizer s | Some z \<Rightarrow> z),
       be_exposure := (case si_exposure g of None \<Rightarrow> be_exposure s | Some e \<Rightarrow> e)\<rparr>)"

definition entry_signal :: "Candle \<Rightarrow> Signal \<Rightarrow> f64 \<Rightarrow> Signal" where
  "entry_signal candle raw qty = \<lparr>sl_Symbol = ca_Symbol candle, sl_Side = sl_Side raw, sl_Quantity = qty,
     sl_Action = SignalNone, sl_PWin = 0, sl_StrategyID = '''', sl_StopLoss = sl_StopLoss raw,
     sl_TakeProfit = sl_TakeProfit raw\<rparr>"

definition Engine_generateSignalInlineFallback :: "BacktestConfig \<Rightarrow> Candle \<Rightarrow> int \<Rightarrow> Signal \<Rightarrow> f64 \<Rightarrow> f64 \<Rightarrow>
  ('r, 'g, 'm) Engine \<Rightarrow> Signal option \<times> ('r, 'g, 'm) Engine" where
  "Engine_generateSignalInlineFallback cfg candle regime raw confidence seasonalityMult s =
     (let c = ru_capital s in
      if c \<le> 0 then (None, diag (sd_CapitalZero_update (\<lambda>n. n + 1)) s)
      else if VolatilityHalt_IsHalted (be_volHalt s) then (None, diag (sd_VolHalted_update (\<lambda>n. n + 1)) s)
      else
      let s = s\<lparr>be_volHalt := VolatilityHalt_UpdateReturn (be_volHalt s) 0,
                be_exposure := ExposureTracker_SetEquity (be_exposure s) c\<rparr>;
          baseSize = c * resolveSizingPercent (bc_StrategyParams cfg) (bc_SizingPercent cfg) * seasonalityMult;
          baseSize = (case be_ftmo s of
             Some f \<Rightarrow> baseSize * PropFirmEnforcer_GetRegimeMultiplier f
           | None \<Rightarrow> if regime = 0 then baseSize * lit (15/10) else if regime = 2 then baseSize * lit (5/10)
               else if regime = 3 then 0 else baseSize)
      in if baseSize \<le> 0 then (None, diag (sd_BaseSizeZero_update (\<lambda>n. n + 1)) s) else
      let baseSize = baseSize * be_kellyMult s;
          baseSize = baseSize * math_min (confidence * lit (15/10)) 1;
          positionPct = baseSize / c;
          positionPct = (if positionPct > lit (3/100) then lit (3/100) else positionPct);
          quantity = (c * positionPct) / Price_Float64 (ca_Close candle);
          quantity = (case be_ftmo s of
             Some f \<Rightarrow> if bc_PropFirmEnabled cfg then PropFirmEnforcer_GetPositionSize f quantity else quantity
           | None \<Rightarrow> quantity);
          quantity = PositionSizer_ComputeSizeUncapped (be_positionSizer s) 1 quantity 0
      in if quantity < lit (1/1000) then (None, diag (sd_QuantityTooSmall_update (\<lambda>n. n + 1)) s)
      else if \<not> fst (ExposureTracker_CheckOrder (be_exposure s) (ca_Symbol candle) (sl_Side raw)
                       (quantity * Price_Float64 (ca_Close candle)))
      then (None, diag (sd_ExposureBlocked_update (\<lambda>n. n + 1)) s)
      else (Some (entry_signal candle raw quantity), diag (sd_SignalsPassed_update (\<lambda>n. n + 1)) s))"

definition Engine_pipeline_signal :: "('r, 'g, 'm) environment \<Rightarrow> nat \<Rightarrow> BacktestConfig \<Rightarrow> Candle \<Rightarrow> int \<Rightarrow> Signal \<Rightarrow>
  f64 \<Rightarrow> f64 \<Rightarrow> engine_pipeline \<Rightarrow> ('r, 'g, 'm) Engine \<Rightarrow> Signal option \<times> ('r, 'g, 'm) Engine" where
  "Engine_pipeline_signal env i cfg candle regime raw confidence seasonalityMult p s =
     (let sp = resolveSizingPercent (bc_StrategyParams cfg) (bc_SizingPercent cfg);
          baseSize = ru_capital s * sp * seasonalityMult / Price_Float64 (ca_Close candle);
          (r, p) = Engine_signal (Engine_load s p) \<lparr>rq_StrategyID = bc_StrategyID cfg, rq_Symbol = ca_Symbol candle,
            rq_Side = sl_Side raw, rq_Price = Price_Float64 (ca_Close candle), rq_Confidence = confidence,
            rq_BaseSize = baseSize, rq_ExistingPosition = 0, rq_RunningCapital = ru_capital s,
            rq_AllowFractional = False, rq_IsExit = False, rq_DisableRegimeGate = bc_DisableRegimeGate cfg\<rparr>
            regime (nv_clock env i);
          s = Engine_store p s
      in if \<not> rs_Approved r
         then (None, diag (\<lambda>d. d\<lparr>sd_PipelineRejected := sd_PipelineRejected d + 1, sd_PipelineRejects :=
                mput (sd_PipelineRejects d) (rs_Reason r) (mget 0 (sd_PipelineRejects d) (rs_Reason r) + 1)\<rparr>) s)
         else (Some (entry_signal candle raw (rs_Size r)), diag (sd_SignalsPassed_update (\<lambda>n. n + 1)) s))"

definition Engine_generateSignal :: "('r, 'g, 'm) environment \<Rightarrow> nat \<Rightarrow> BacktestConfig \<Rightarrow> Candle \<Rightarrow> int \<Rightarrow>
  ('r, 'g, 'm) Engine \<Rightarrow> Signal option \<times> ('r, 'g, 'm) Engine" where
  "Engine_generateSignal env i cfg candle regime s =
     (if \<not> bc_DisableRegimeGate cfg \<and>
         RegimeActivationMatrix_ParticipationForRegime (be_regimeMatrix s) (bc_StrategyID cfg) regime \<le> 0
      then (None, diag (sd_RegimeRejected_update (\<lambda>n. n + 1)) s)
      else (case Engine_evaluate env cfg candle regime s of
        (None, s) \<Rightarrow> (None, diag (sd_NilError_update (\<lambda>n. n + 1)) s)
      | (Some None, s) \<Rightarrow> (None, diag (sd_StrategyNil_update (\<lambda>n. n + 1)) s)
      | (Some (Some raw), s) \<Rightarrow>
          if sl_Action raw = SignalExit then (None, diag (sd_ExitSignalZeroQty_update (\<lambda>n. n + 1)) s)
          else
          let (verdict, ml) = nv_meta env (be_ml s) candle regime (sl_PWin raw);
              s = s\<lparr>be_ml := ml\<rparr>
          in if (case verdict of Some (accepted, _) \<Rightarrow> \<not> accepted | None \<Rightarrow> False)
             then (None, diag (sd_MLRejected_update (\<lambda>n. n + 1)) s)
          else
          let confidence = (case verdict of Some (_, pwin) \<Rightarrow> pwin | None \<Rightarrow> 1);
              seasonalityMult = (if bc_UseSeasonalityOverlay cfg then nv_seasonality env (ca_Time candle) else 1);
              (score, ml) = nv_enhance env (be_ml s) regime (ca_Time candle);
              s = s\<lparr>be_ml := ml, be_positionSizer := (case score of None \<Rightarrow> be_positionSizer s
                    | Some x \<Rightarrow> PositionSizer_SetRegimeScore (be_positionSizer s) x)\<rparr>
          in (case be_pipeline s of
                Some p \<Rightarrow> Engine_pipeline_signal env i cfg candle regime raw confidence seasonalityMult p s
              | None \<Rightarrow> Engine_generateSignalInlineFallback cfg candle regime raw confidence seasonalityMult s)))"

text \<open>Any signal closes an open position; a panic counts as none.\<close>

definition Engine_generateSignalForExit :: "('r, 'g, 'm) environment \<Rightarrow> BacktestConfig \<Rightarrow> Candle \<Rightarrow> int \<Rightarrow>
  ('r, 'g, 'm) Engine \<Rightarrow> bool \<times> ('r, 'g, 'm) Engine" where
  "Engine_generateSignalForExit env cfg candle regime s =
     (let (raw, s) = Engine_evaluate env cfg candle regime s
      in (case raw of Some (Some sig) \<Rightarrow> True | _ \<Rightarrow> False, s))"

section \<open>Entries\<close>

text \<open>The stop of an entry: the levels of the signal, or those of the configuration.\<close>

definition entry_stop :: "BacktestConfig \<Rightarrow> Candle \<Rightarrow> Signal \<Rightarrow> f64 \<Rightarrow> f64 \<Rightarrow> int \<Rightarrow> f64 \<times> f64 \<times> ActiveStop option" where
  "entry_stop cfg candle sig entryPrice atrVal tradeID =
     (if sl_StopLoss sig \<noteq> 0
      then (Price_Float64 (sl_StopLoss sig),
            if sl_TakeProfit sig \<noteq> 0 then Price_Float64 (sl_TakeProfit sig) else 0,
            Some \<lparr>as_TradeID = tradeID, as_EntryPrice = PriceFromFloat entryPrice, as_Side = sl_Side sig,
              as_StopPrice = sl_StopLoss sig, as_TakePrice = sl_TakeProfit sig,
              as_PeakPrice = PriceFromFloat entryPrice, as_ATRValue = atrVal,
              as_StopType = StopLossFixed, as_TakeType = TakeProfitFixed\<rparr>)
      else (case bc_StopLoss cfg of None \<Rightarrow> (0, 0, None) | Some sl \<Rightarrow>
        if sc_Type sl = StopLossNone then (0, 0, None) else
        let stopPrice = CalculateStopPrice entryPrice (sl_Side sig) (Some sl) atrVal (Price_Float64 (ca_High candle));
            takePrice = (case bc_TakeProfit cfg of None \<Rightarrow> 0 | Some tp \<Rightarrow>
              if tc_Type tp \<noteq> TakeProfitNone
              then CalculateTakeProfitPrice entryPrice (sl_Side sig) (Some tp) stopPrice atrVal else 0)
        in (stopPrice, takePrice,
            Some \<lparr>as_TradeID = tradeID, as_EntryPrice = PriceFromFloat entryPrice, as_Side = sl_Side sig,
              as_StopPrice = PriceFromFloat stopPrice, as_TakePrice = PriceFromFloat takePrice,
              as_PeakPrice = PriceFromFloat entryPrice, as_ATRValue = atrVal, as_StopType = sc_Type sl,
              as_TakeType = (case bc_TakeProfit cfg of None \<Rightarrow> '''' | Some tp \<Rightarrow> tc_Type tp)\<rparr>)))"

definition atrPeriod :: "BacktestConfig \<Rightarrow> int" where
  "atrPeriod cfg = (case bc_StopLoss cfg of None \<Rightarrow> 14
     | Some sl \<Rightarrow> if sc_ATRPeriod sl > 0 then sc_ATRPeriod sl else 14)"

definition Engine_executeEntry :: "('r, 'g, 'm) environment \<Rightarrow> BacktestConfig \<Rightarrow> Candle \<Rightarrow> Signal \<Rightarrow> f64 \<Rightarrow> int \<Rightarrow>
  ('r, 'g, 'm) Engine \<Rightarrow> ('r, 'g, 'm) Engine" where
  "Engine_executeEntry env cfg candle sig refPrice regime s =
     (let midPrice = (Price_Float64 (ca_High candle) + Price_Float64 (ca_Low candle)) / lit 2;
          adj = adjFactor (ca_AdjustmentFactor candle);
          (fill, sim) = FillSimulator_SimulateFillWithTCA (nv_gauss env) (nv_unif env) (be_fillSim s)
            (word_of_int (int (length (ru_trades s)) + 1)) (ca_Symbol candle) (sl_Quantity sig) (sl_Side sig)
            (refPrice * adj) midPrice (refPrice * adj) (ca_Volume candle);
          s = s\<lparr>be_fillSim := sim\<rparr>;
          entryPrice = Price_Float64 (sf_FillPrice fill);
          entryPrice = (if entryPrice \<le> 0 then refPrice else entryPrice);
          entryQty = (if sf_FillQuantity fill \<le> 0 then sl_Quantity sig else sf_FillQuantity fill);
          (entryQty, s) = (if entryQty \<le> 0 then (0, diag (sd_FillRejected_update (\<lambda>n. n + 1)) s) else (entryQty, s));
          atrVal = ComputeATR (ru_atrWindow s) (atrPeriod cfg);
          (stopPrice, takePrice, stop) = entry_stop cfg candle sig entryPrice atrVal (int (length (ru_trades s)) + 1);
          s = (case stop of None \<Rightarrow> s
               | Some st \<Rightarrow> s\<lparr>ru_activeStops := mput (ru_activeStops s) (ca_Symbol candle) st\<rparr>);
          t = zero_trade\<lparr>tr_Symbol := ca_Symbol candle, tr_Side := sl_Side sig, tr_Quantity := entryQty,
            tr_EntryPrice := PriceFromFloat entryPrice, tr_EntryTime := ca_Time candle, tr_HMMRegime := regime,
            tr_StrategyID := bc_StrategyID cfg, tr_StopPrice := PriceFromFloat stopPrice,
            tr_TakePrice := PriceFromFloat takePrice, tr_SlippageMidBps := sf_SlippageMidBps fill,
            tr_SlippageLastBps := sf_SlippageLastBps fill, tr_SlippageBps := sf_SlippageBps fill,
            tr_SlippageFillCount := 1, tr_lowestSinceEntry := entryPrice, tr_highestSinceEntry := entryPrice\<rparr>
      in s\<lparr>ru_openTrades := mput (ru_openTrades s) (ca_Symbol candle) t,
           ru_pendingAS := mput (ru_pendingAS s) (ca_Symbol candle) t\<rparr>)"

section \<open>Exits\<close>

text \<open>The profit of a closed quantity after commission and fees, and the fees.\<close>

definition trade_pnl :: "('r, 'g, 'm) environment \<Rightarrow> BacktestConfig \<Rightarrow> Trade \<Rightarrow> f64 \<Rightarrow> f64 \<Rightarrow> int \<Rightarrow> f64 \<times> f64" where
  "trade_pnl env cfg ot qty exitPrice exitTime =
     (let ep = Price_Float64 (tr_EntryPrice ot);
          commission = ep * qty * bc_CommissionBps cfg / lit 10000 * lit 2;
          brokerFee = BrokerageFeeConfig_CalculateFeeForSymbol (bc_BrokerFee cfg) (tr_Symbol ot) qty ep
            + BrokerageFeeConfig_CalculateFeeForSymbol (bc_BrokerFee cfg) (tr_Symbol ot) qty exitPrice
            + holdingExpenseFee (nv_expenseRatio env) (bc_BrokerFee cfg) (tr_Symbol ot) (tr_Side ot) (ep * qty)
                (tr_EntryTime ot) exitTime
      in (if tr_Side ot = ''BUY'' then (exitPrice - ep) * qty - commission - brokerFee
          else (ep - exitPrice) * qty - commission - brokerFee, brokerFee))"

definition with_excursions :: "Trade \<Rightarrow> Trade" where
  "with_excursions ot =
     (let entry = Price_Float64 (tr_EntryPrice ot);
          down = clampExcursionPct ((entry - tr_lowestSinceEntry ot) / entry * lit 100);
          up = clampExcursionPct ((tr_highestSinceEntry ot - entry) / entry * lit 100)
      in if entry > 0 then
           (if tr_Side ot = ''BUY'' then ot\<lparr>tr_MAE := down, tr_MFE := up\<rparr> else ot\<lparr>tr_MAE := up, tr_MFE := down\<rparr>)
         else ot)"

text \<open>What is booked: the sanitized profit, its percentage, the exit and the excursions.\<close>

definition close_trade :: "('r, 'g, 'm) environment \<Rightarrow> BacktestConfig \<Rightarrow> Trade \<Rightarrow> f64 \<Rightarrow> f64 \<Rightarrow> int \<Rightarrow> string \<Rightarrow> Trade" where
  "close_trade env cfg ot qty exitPrice exitTime reason =
     (let (pnl, brokerFee) = trade_pnl env cfg ot qty exitPrice exitTime;
          (safe, clamped) = SanitizeTradePnL pnl qty (Price_Float64 (tr_EntryPrice ot)) (bc_InitialCapital cfg)
      in with_excursions (ot\<lparr>tr_PnL := safe, tr_PnLPct := safe / bc_InitialCapital cfg * lit 100,
           tr_ExitPrice := PriceFromFloat exitPrice, tr_ExitTime := exitTime,
           tr_ExitReason := (if clamped then ''pnl_clamped'' else reason), tr_BrokerFee := brokerFee\<rparr>))"

definition clamp_capital :: "BacktestConfig \<Rightarrow> f64 \<Rightarrow> f64" where
  "clamp_capital cfg capital =
     (let c = (if capital > bc_InitialCapital cfg * lit 100 then bc_InitialCapital cfg * lit 100 else capital)
      in if c \<le> 0 then 0 else c)"

definition Engine_reconcile :: "Trade \<Rightarrow> f64 \<Rightarrow> ('r, 'g, 'm) Engine \<Rightarrow> ('r, 'g, 'm) Engine" where
  "Engine_reconcile t price s = (case be_pipeline s of None \<Rightarrow> s | Some p \<Rightarrow>
     Engine_store (RiskPipeline_ReconcileFillWithoutPropFirm (Engine_load s p) (tr_StrategyID t) (tr_Symbol t)
       (tr_Side t) (tr_PnL t) (tr_Quantity t) price) s)"

text \<open>The stop of a trade follows the candle, then the exit model may move it.\<close>

definition Engine_trail :: "Candle \<Rightarrow> ('r, 'g, 'm) Engine \<Rightarrow> ('r, 'g, 'm) Engine" where
  "Engine_trail candle s = (case mlookup (ru_activeStops s) (ca_Symbol candle) of None \<Rightarrow> s
     | Some stop \<Rightarrow> if as_StopType stop \<noteq> StopLossTrail then s
         else (case UpdateTrailingStop (Some stop) candle of None \<Rightarrow> s
           | Some st \<Rightarrow> s\<lparr>ru_activeStops := mput (ru_activeStops s) (ca_Symbol candle) st\<rparr>))"

definition dynamic_stop :: "ActiveStop \<Rightarrow> Candle \<Rightarrow> f64 \<Rightarrow> ActiveStop" where
  "dynamic_stop stop candle mult =
     (let entry = Price_Float64 (as_EntryPrice stop); close = Price_Float64 (ca_Close candle) in
      if \<not> (mult > 0 \<and> entry > 0) then stop
      else if as_Side stop = ''BUY'' then
        (let d = close - mult * as_ATRValue stop;
             d = (if d < entry * lit (80/100) then entry * lit (80/100) else d)
         in if d > Price_Float64 (as_StopPrice stop) \<and> as_StopType stop = StopLossTrail then stop
            else stop\<lparr>as_StopPrice := PriceFromFloat d\<rparr>)
      else
        (let d = close + mult * as_ATRValue stop;
             d = (if d > entry * lit (120/100) then entry * lit (120/100) else d)
         in if d < Price_Float64 (as_StopPrice stop) \<and> as_StopType stop = StopLossTrail then stop
            else stop\<lparr>as_StopPrice := PriceFromFloat d\<rparr>))"

definition Engine_dynamic :: "('r, 'g, 'm) environment \<Rightarrow> Candle \<Rightarrow> int \<Rightarrow> ('r, 'g, 'm) Engine \<Rightarrow> ('r, 'g, 'm) Engine" where
  "Engine_dynamic env candle regime s = (case mlookup (ru_activeStops s) (ca_Symbol candle) of None \<Rightarrow> s
     | Some stop \<Rightarrow> if \<not> Price_Float64 (as_StopPrice stop) > 0 then s else
       let (mult, ml) = nv_exitMult env (be_ml s) stop candle regime; s = s\<lparr>be_ml := ml\<rparr>
       in (case mult of None \<Rightarrow> s
           | Some m \<Rightarrow> s\<lparr>ru_activeStops := mput (ru_activeStops s) (ca_Symbol candle) (dynamic_stop stop candle m)\<rparr>))"

definition excursion_update :: "Candle \<Rightarrow> Trade \<Rightarrow> Trade" where
  "excursion_update candle ot =
     (let low = Price_Float64 (ca_Low candle); high = Price_Float64 (ca_High candle);
          ot = (if low < tr_lowestSinceEntry ot then ot\<lparr>tr_lowestSinceEntry := low\<rparr> else ot)
      in if high > tr_highestSinceEntry ot then ot\<lparr>tr_highestSinceEntry := high\<rparr> else ot)"

text \<open>The order of a close and the trade it leaves.\<close>

definition closed_fill :: "('r, 'g, 'm) environment \<Rightarrow> BacktestConfig \<Rightarrow> Candle \<Rightarrow> int \<Rightarrow> Trade \<Rightarrow> f64 \<Rightarrow> string \<Rightarrow>
  ('r, 'g, 'm) Engine \<Rightarrow> Trade \<times> 'g FillSimulator" where
  "closed_fill env cfg candle regime ot exitPrice reason s =
     (let midPrice = (Price_Float64 (ca_High candle) + Price_Float64 (ca_Low candle)) / lit 2;
          (fill, sim) = FillSimulator_SimulateFillWithTCA (nv_gauss env) (nv_unif env) (be_fillSim s)
            (word_of_int (int (length (ru_trades s)) + 1)) (tr_Symbol ot) (tr_Quantity ot) (invertSide (tr_Side ot))
            exitPrice midPrice (Price_Float64 (ca_Close candle) * adjFactor (ca_AdjustmentFactor candle)) (ca_Volume candle);
          exitPrice = (if Price_Float64 (sf_FillPrice fill) > 0 then Price_Float64 (sf_FillPrice fill) else exitPrice);
          fillQty = (if sf_FillQuantity fill > 0 then sf_FillQuantity fill else tr_Quantity ot);
          ot = ot\<lparr>tr_SlippageBps := tr_SlippageBps ot + sf_SlippageBps fill,
                  tr_SlippageFillCount := tr_SlippageFillCount ot + 1\<rparr>
      in ((close_trade env cfg ot fillQty exitPrice (ca_Time candle) reason)
            \<lparr>tr_Quantity := fillQty, tr_HMMRegime := regime\<rparr>, sim))"

definition Engine_closeTrade :: "('r, 'g, 'm) environment \<Rightarrow> nat \<Rightarrow> BacktestConfig \<Rightarrow> Candle \<Rightarrow> int \<Rightarrow> Trade \<Rightarrow> f64 \<Rightarrow> string \<Rightarrow>
  ('r, 'g, 'm) Engine \<Rightarrow> ('r, 'g, 'm) Engine" where
  "Engine_closeTrade env i cfg candle regime ot exitPrice reason s =
     (let (ot, sim) = closed_fill env cfg candle regime ot exitPrice reason s;
          s = s\<lparr>be_fillSim := sim, ru_capital := clamp_capital cfg (ru_capital s + tr_PnL ot),
                be_ftmo := map_option (\<lambda>f. PropFirmEnforcer_OnFill f (nv_clock env i) (tr_PnL ot) 0) (be_ftmo s)\<rparr>;
          s = Engine_reconcile ot (Price_Float64 (tr_ExitPrice ot)) s
      in s\<lparr>ru_trades := ru_trades s @ [ot], ru_openTrades := mdelete (ru_openTrades s) (ca_Symbol candle),
           ru_activeStops := mdelete (ru_activeStops s) (ca_Symbol candle)\<rparr>)"

definition Engine_exits :: "('r, 'g, 'm) environment \<Rightarrow> nat \<Rightarrow> BacktestConfig \<Rightarrow> Candle \<Rightarrow> int \<Rightarrow>
  ('r, 'g, 'm) Engine \<Rightarrow> ('r, 'g, 'm) Engine" where
  "Engine_exits env i cfg candle regime s =
     (let sym = ca_Symbol candle in
      case mlookup (ru_openTrades s) sym of None \<Rightarrow> s | Some ot \<Rightarrow>
      let s = Engine_dynamic env candle regime (Engine_trail candle s);
          (reason, price) = resolveStopTarget candle (mlookup (ru_activeStops s) sym);
          ot = excursion_update candle ot;
          s = s\<lparr>ru_openTrades := mput (ru_openTrades s) sym ot\<rparr>
      in if reason \<noteq> '''' then Engine_closeTrade env i cfg candle regime ot price reason s
         else (case Engine_generateSignalForExit env cfg candle regime s of
             (True, s) \<Rightarrow> Engine_closeTrade env i cfg candle regime ot
                (Price_Float64 (ca_Close candle) * adjFactor (ca_AdjustmentFactor candle)) ''signal_reverse'' s
           | (False, s) \<Rightarrow> s))"

section \<open>A bar\<close>

definition Engine_window :: "BacktestConfig \<Rightarrow> Candle \<Rightarrow> ('r, 'g, 'm) Engine \<Rightarrow> ('r, 'g, 'm) Engine" where
  "Engine_window cfg candle s =
     (let w = ru_atrWindow s @ [candle]
      in s\<lparr>ru_atrWindow := (if int (length w) > atrPeriod cfg * 3
             then drop (nat (int (length w) - atrPeriod cfg * 3)) w else w)\<rparr>)"

definition Engine_newDay :: "Candle \<Rightarrow> ('r, 'g, 'm) Engine \<Rightarrow> ('r, 'g, 'm) Engine" where
  "Engine_newDay candle s = (case be_ftmo s of None \<Rightarrow> s | Some f \<Rightarrow>
     if Some (day_of (ca_Time candle)) \<noteq> ru_lastDay s
     then s\<lparr>be_ftmo := Some (PropFirmEnforcer_OnNewDay f), ru_lastDay := Some (day_of (ca_Time candle))\<rparr> else s)"

definition news_blocked :: "BacktestConfig \<Rightarrow> Candle \<Rightarrow> ('r, 'g, 'm) Engine \<Rightarrow> bool" where
  "news_blocked cfg candle s = (case be_ftmo s of None \<Rightarrow> False | Some f \<Rightarrow>
     bc_PropFirmEnabled cfg \<and> en_NewsTradingRestricted f \<and>
     \<not> PropFirmEnforcer_CheckNewsTrading f (ca_Time candle mod 86400000000000 div 3600000000000)
         (ca_Time candle mod 3600000000000 div 60000000000))"

definition Engine_market :: "('r, 'g, 'm) environment \<Rightarrow> BacktestConfig \<Rightarrow> Candle \<Rightarrow> int \<Rightarrow>
  ('r, 'g, 'm) Engine \<Rightarrow> ('r, 'g, 'm) Engine" where
  "Engine_market env cfg candle regime s =
     (let vix = getVIXAt (ca_Time candle) (nv_vixLogs env);
          sentiment = getSentimentAt (ca_Time candle) (nv_sentimentLogs env);
          s = (if vix > lit 25 then s\<lparr>ru_hasHighVIX := True\<rparr> else s);
          s = (if ru_prevVIX s > 0 \<and> vix > 0 \<and> \<bar>vix - ru_prevVIX s\<bar> > lit 3 then s\<lparr>ru_hasVIXSpike := True\<rparr> else s);
          s = s\<lparr>ru_prevVIX := vix, be_positionSizer :=
                 PositionSizer_UpdateMarketState (be_positionSizer s) vix sentiment regime\<rparr>
      in Engine_put_runner cfg (ca_Symbol candle) (nv_setVIX env vix (Engine_runner env cfg (ca_Symbol candle) s)) s)"

text \<open>The true range for a runner that takes it; \<open>True\<close> if the bar is skipped for earnings.\<close>

definition Engine_atr :: "('r, 'g, 'm) environment \<Rightarrow> BacktestConfig \<Rightarrow> Candle \<Rightarrow> ('r, 'g, 'm) Engine \<Rightarrow>
  bool \<times> ('r, 'g, 'm) Engine" where
  "Engine_atr env cfg candle s =
     (let sr = Engine_runner env cfg (ca_Symbol candle) s in
      if \<not> nv_receivesATR env sr then (False, s) else
      let atrVal = ComputeATR (ru_atrWindow s) (atrPeriod cfg);
          earnings = nv_earningsDay env (ca_Symbol candle) (ca_Time candle)
      in if earnings \<and> bc_SkipEarningsDays cfg then (True, s)
         else (False, Engine_put_runner cfg (ca_Symbol candle)
            (nv_setATR env (if earnings then atrVal * lit (12/10) else atrVal) sr) s))"

text \<open>
  \<open>pendingAS\<close> points at the trade opened last in its symbol: the open trade of the symbol, or
  a closed one that was copied before.
\<close>

definition Engine_adverse :: "Candle \<Rightarrow> ('r, 'g, 'm) Engine \<Rightarrow> ('r, 'g, 'm) Engine" where
  "Engine_adverse candle s =
     (let sym = ca_Symbol candle; close = Price_Float64 (ca_Close candle) in
      case mlookup (ru_pendingAS s) sym of None \<Rightarrow> s | Some p \<Rightarrow>
      let adverse = (tr_Side p = ''BUY'' \<and> close < Price_Float64 (tr_EntryPrice p) \<or>
                     tr_Side p = ''SELL'' \<and> close > Price_Float64 (tr_EntryPrice p));
          s = s\<lparr>ru_pendingAS := mdelete (ru_pendingAS s) sym\<rparr>
      in (case mlookup (ru_openTrades s) sym of
            Some ot \<Rightarrow> if adverse then s\<lparr>ru_openTrades := mput (ru_openTrades s) sym (ot\<lparr>tr_AdverseSelection := True\<rparr>)\<rparr> else s
          | None \<Rightarrow> s))"

definition Engine_fillPending :: "('r, 'g, 'm) environment \<Rightarrow> BacktestConfig \<Rightarrow> Candle \<Rightarrow> int \<Rightarrow>
  ('r, 'g, 'm) Engine \<Rightarrow> ('r, 'g, 'm) Engine" where
  "Engine_fillPending env cfg candle regime s =
     (case mlookup (ru_pendingEntries s) (ca_Symbol candle) of None \<Rightarrow> s | Some sig \<Rightarrow>
      let s = s\<lparr>ru_pendingEntries := mdelete (ru_pendingEntries s) (ca_Symbol candle)\<rparr>;
          s = diag (sd_TradesOpened_update (\<lambda>n. n + 1)) s
      in Engine_executeEntry env cfg candle sig (Price_Float64 (ca_Open candle)) regime s)"

text \<open>The search for a signal; \<open>True\<close> if the bar ends here.\<close>

definition in_drawdown :: "('r, 'g, 'm) Engine \<Rightarrow> bool" where
  "in_drawdown s \<longleftrightarrow> ru_peakCapital s > 0 \<and> (ru_peakCapital s - ru_capital s) / ru_peakCapital s > lit (80/100)"

definition Engine_search :: "('r, 'g, 'm) environment \<Rightarrow> nat \<Rightarrow> BacktestConfig \<Rightarrow> Candle \<Rightarrow> int \<Rightarrow>
  ('r, 'g, 'm) Engine \<Rightarrow> bool \<times> ('r, 'g, 'm) Engine" where
  "Engine_search env i cfg candle regime s =
     (if mlookup (ru_openTrades s) (ca_Symbol candle) \<noteq> None then (False, s) else
      let attempted = diag (sd_SignalAttempts_update (\<lambda>n. n + 1)) in
      if in_drawdown s then (True, attempted s)
      else (case find (\<lambda>(primary, secondary). secondary = ca_Symbol candle) (bc_SecondarySymbols cfg) of
        Some (primary, _) \<Rightarrow> (True, attempted (Engine_put_runner cfg primary
            (nv_pushSecondary env (ca_Close candle) (Engine_runner env cfg primary s)) s))
      | None \<Rightarrow>
        let s = attempted s in
        if int i < bc_WarmUpBars cfg
        then (case Engine_evaluate env cfg candle regime s of
            (None, s) \<Rightarrow> (True, s\<lparr>ru_panicked := True\<rparr>) | (Some _, s) \<Rightarrow> (True, s))
        else (case Engine_generateSignal env i cfg candle regime s of
            (None, s) \<Rightarrow> (False, s)
          | (Some sig, s) \<Rightarrow> (False, s\<lparr>ru_pendingEntries := mput (ru_pendingEntries s) (ca_Symbol candle) sig\<rparr>))))"

definition unrealizedPnL :: "Candle \<Rightarrow> ('r, 'g, 'm) Engine \<Rightarrow> f64" where
  "unrealizedPnL candle s = foldl (\<lambda>u (sym, ot).
     if tr_Side ot = ''BUY''
     then u + (Price_Float64 (ca_Close candle) - Price_Float64 (tr_EntryPrice ot)) * tr_Quantity ot
     else u + (Price_Float64 (tr_EntryPrice ot) - Price_Float64 (ca_Close candle)) * tr_Quantity ot)
   0 (ru_openTrades s)"

definition Engine_book :: "Candle option \<Rightarrow> Candle \<Rightarrow> int \<Rightarrow> ('r, 'g, 'm) Engine \<Rightarrow> ('r, 'g, 'm) Engine" where
  "Engine_book prev candle regime s =
     (let close = Price_Float64 (ca_Close candle);
          s = (case prev of None \<Rightarrow> s | Some p \<Rightarrow>
             if ca_Close p > 0 \<and> ca_Close candle > 0
             then s\<lparr>be_volHalt := VolatilityHalt_UpdateReturn (be_volHalt s)
                    ((close - Price_Float64 (ca_Close p)) / Price_Float64 (ca_Close p))\<rparr>
             else s);
          s = s\<lparr>ru_equity := ru_equity s @ [\<lparr>eq_Time = ca_Time candle, eq_Value = ru_capital s, eq_Regime = regime\<rparr>],
                ru_mtmEquity := ru_mtmEquity s @ [\<lparr>eq_Time = ca_Time candle,
                  eq_Value = ru_capital s + unrealizedPnL candle s, eq_Regime = regime\<rparr>]\<rparr>
      in if ru_capital s > ru_peakCapital s then s\<lparr>ru_peakCapital := ru_capital s\<rparr> else s)"

definition active_symbol :: "('r, 'g, 'm) environment \<Rightarrow> Candle \<Rightarrow> bool" where
  "active_symbol env candle = (case nv_activeSymbols env (day_of (ca_Time candle)) of
     None \<Rightarrow> True | Some syms \<Rightarrow> ca_Symbol candle \<in> set syms)"

text \<open>The trading part of a bar that nothing has skipped.\<close>

definition Engine_trade :: "('r, 'g, 'm) environment \<Rightarrow> nat \<Rightarrow> BacktestConfig \<Rightarrow> Candle option \<Rightarrow> Candle \<Rightarrow> int \<Rightarrow>
  ('r, 'g, 'm) Engine \<Rightarrow> ('r, 'g, 'm) Engine" where
  "Engine_trade env i cfg prev candle regime s =
     (let s = Engine_fillPending env cfg candle regime s;
          s = Engine_exits env i cfg candle regime s
      in (case Engine_search env i cfg candle regime s of
            (True, s) \<Rightarrow> s | (False, s) \<Rightarrow> Engine_book prev candle regime s))"

definition Engine_bar :: "('r, 'g, 'm) environment \<Rightarrow> BacktestConfig \<Rightarrow> nat \<Rightarrow> Candle option \<Rightarrow> Candle \<Rightarrow>
  ('r, 'g, 'm) Engine \<Rightarrow> ('r, 'g, 'm) Engine" where
  "Engine_bar env cfg i prev candle s =
     (if ru_panicked s then s else
      let s = diag (sd_CandlesSeen_update (\<lambda>n. n + 1)) s in
      if \<not> active_symbol env candle then s else
      let s = Engine_newDay candle (Engine_window cfg candle s) in
      if news_blocked cfg candle s then s else
      let regime = regimeAt (buildRegimeIndex (nv_regimeLogs env)) (ca_Symbol candle) (ca_Time candle);
          (skipped, s) = Engine_atr env cfg candle (Engine_market env cfg candle regime s)
      in if skipped then s else
      let s = Engine_adverse candle s;
          s = s\<lparr>be_ftmo := map_option (\<lambda>f. f\<lparr>en_CurrentRegime := regime\<rparr>) (be_ftmo s)\<rparr>
      in if (case bc_RegimeFilter cfg of None \<Rightarrow> False | Some r \<Rightarrow> regime \<noteq> r) then s
      else if (case be_ftmo s of None \<Rightarrow> False | Some f \<Rightarrow> PropFirmEnforcer_IsHalted f) then s
      else Engine_trade env i cfg prev candle regime s)"

fun Engine_loop :: "('r, 'g, 'm) environment \<Rightarrow> BacktestConfig \<Rightarrow> nat \<Rightarrow> Candle option \<Rightarrow> Candle list \<Rightarrow>
  ('r, 'g, 'm) Engine \<Rightarrow> ('r, 'g, 'm) Engine" where
  "Engine_loop env cfg i prev [] s = s"
| "Engine_loop env cfg i prev (c # cs) s = Engine_loop env cfg (Suc i) (Some c) cs (Engine_bar env cfg i prev c s)"

section \<open>The run\<close>

definition run_config :: "BacktestConfig \<Rightarrow> BacktestConfig" where
  "run_config cfg =
     (let cfg = (if bc_CommissionBps cfg \<le> 0 then cfg\<lparr>bc_CommissionBps := lit 5\<rparr> else cfg)
      in if \<not> bf_Enabled (bc_BrokerFee cfg) \<and> feq (bf_PerTradeFixed (bc_BrokerFee cfg)) 0
         then cfg\<lparr>bc_BrokerFee := DefaultBrokerageFee\<rparr> else cfg)"

definition Engine_start :: "('r, 'g, 'm) environment \<Rightarrow> BacktestConfig \<Rightarrow> ('r, 'g, 'm) Engine \<Rightarrow> ('r, 'g, 'm) Engine" where
  "Engine_start env cfg s =
     (let kelly = resolveKellyFraction (bc_StrategyParams cfg) (bc_KellyFraction cfg)
      in s\<lparr>be_stratBySymbol := [],
           be_fillSim := (if bc_FixedSeed cfg \<noteq> 0 then (be_fillSim s)\<lparr>fm_rng := nv_seed env (bc_FixedSeed cfg)\<rparr> else be_fillSim s),
           be_ftmo := (if bc_PropFirmEnabled cfg then Some (DefaultPropFirmEnforcer (bc_InitialCapital cfg)) else None),
           be_kellyMult := kelly,
           be_pipeline := map_option (\<lambda>p. p\<lparr>rp_KellyMult := kelly\<rparr>) (be_pipeline s),
           be_regimeMatrix := (case ApplyRegimeParticipation (Some (be_regimeMatrix s)) (bc_StrategyID cfg)
              (bc_StrategyParams cfg) of None \<Rightarrow> be_regimeMatrix s | Some m \<Rightarrow> m),
           ru_capital := bc_InitialCapital cfg, ru_peakCapital := bc_InitialCapital cfg, ru_equity := [],
           ru_mtmEquity := [], ru_trades := [], ru_openTrades := [], ru_activeStops := [], ru_pendingAS := [],
           ru_pendingEntries := [], ru_lastDay := None, ru_atrWindow := [], ru_hasHighVIX := False,
           ru_hasVIXSpike := False, ru_prevVIX := 0, ru_panicked := False\<rparr>)"

text \<open>At the end of the data every pending entry is filled at the last close, and every open trade is
  closed there: the last candle of the run, of whatever symbol.\<close>

definition Engine_flush :: "('r, 'g, 'm) environment \<Rightarrow> BacktestConfig \<Rightarrow> Candle \<Rightarrow> string \<times> Signal \<Rightarrow>
  ('r, 'g, 'm) Engine \<Rightarrow> ('r, 'g, 'm) Engine" where
  "Engine_flush env cfg lastCandle = (\<lambda>(sym, sig) s.
     Engine_executeEntry env cfg (lastCandle\<lparr>ca_Symbol := sym, ca_Source := '''', ca_GenerationID := ''''\<rparr>) sig
       (Price_Float64 (ca_Close lastCandle)) 0 (diag (sd_TradesOpened_update (\<lambda>n. n + 1)) s))"

definition end_exit :: "Candle \<Rightarrow> ActiveStop option \<Rightarrow> f64 \<times> string" where
  "end_exit lastCandle stop =
     (let close = (Price_Float64 (ca_Close lastCandle) * adjFactor (ca_AdjustmentFactor lastCandle), ''end_of_data'') in
      case stop of None \<Rightarrow> close | Some st \<Rightarrow>
        (let (stopHit, sp) = CheckStopHit lastCandle stop; (tpHit, tp) = CheckTakeProfitHit lastCandle stop
         in if stopHit then (sp, ''stop_loss'') else if tpHit then (tp, ''take_profit'') else close))"

definition Engine_end :: "('r, 'g, 'm) environment \<Rightarrow> BacktestConfig \<Rightarrow> Candle \<Rightarrow> string \<times> Trade \<Rightarrow>
  ('r, 'g, 'm) Engine \<Rightarrow> ('r, 'g, 'm) Engine" where
  "Engine_end env cfg lastCandle = (\<lambda>(sym, ot) s.
     let (exitPrice, reason) = end_exit lastCandle (mlookup (ru_activeStops s) (tr_Symbol ot));
         ot = (close_trade env cfg ot (tr_Quantity ot) exitPrice (ca_Time lastCandle) reason)\<lparr>tr_EndOfData := True\<rparr>;
         s = s\<lparr>ru_capital := clamp_capital cfg (ru_capital s + tr_PnL ot)\<rparr>;
         s = Engine_reconcile ot exitPrice s
     in s\<lparr>ru_trades := ru_trades s @ [ot]\<rparr>)"

definition Engine_finish :: "('r, 'g, 'm) environment \<Rightarrow> BacktestConfig \<Rightarrow> Candle list \<Rightarrow> ('r, 'g, 'm) Engine \<Rightarrow>
  ('r, 'g, 'm) Engine" where
  "Engine_finish env cfg candles s =
     (if candles = [] then s else
      let s = fold (Engine_flush env cfg (last candles)) (ru_pendingEntries s) s
      in fold (Engine_end env cfg (last candles)) (ru_openTrades s) s)"

text \<open>A panic that nothing recovers ends the run with an error.\<close>

definition Engine_Run :: "('r, 'g, 'm) environment \<Rightarrow> BacktestConfig \<Rightarrow> Candle list \<Rightarrow> ('r, 'g, 'm) Engine \<Rightarrow>
  ('r, 'g, 'm) Engine option" where
  "Engine_Run env config candles s =
     (let cfg = run_config config;
          s = Engine_loop env cfg 0 None candles (Engine_start env cfg s)
      in if ru_panicked s then None else Some (Engine_finish env cfg candles s))"

section \<open>Samples\<close>

text \<open>A strategy that always buys, in an environment without services, and bars that rise.\<close>

definition buy_env :: "(nat, nat, unit) environment" where
  "buy_env = \<lparr>nv_newRunner = 0, nv_evaluate = (\<lambda>r c g. (Some (Some \<lparr>sl_Symbol = ''A'', sl_Side = ''BUY'',
       sl_Quantity = 1, sl_Action = SignalNone, sl_PWin = 1, sl_StrategyID = '''', sl_StopLoss = 0,
       sl_TakeProfit = 0\<rparr>), r + 1)),
     nv_setVIX = (\<lambda>v r. r), nv_receivesATR = (\<lambda>r. False), nv_setATR = (\<lambda>v r. r), nv_pushSecondary = (\<lambda>p r. r),
     nv_earningsDay = (\<lambda>s t. False), nv_activeSymbols = (\<lambda>d. None), nv_meta = (\<lambda>m c g p. (None, m)),
     nv_enhance = (\<lambda>m r t. (None, m)), nv_exitMult = (\<lambda>m a c r. (None, m)), nv_seasonality = (\<lambda>t. 1),
     nv_expenseRatio = (\<lambda>s. 0), nv_gauss = (\<lambda>g. (0, g)), nv_unif = (\<lambda>g. (0, g)), nv_seed = (\<lambda>i. 0),
     nv_regimeLogs = [], nv_vixLogs = [], nv_sentimentLogs = [], nv_clock = int\<rparr>"

definition run_cfg :: BacktestConfig where
  "run_cfg = \<lparr>bc_StrategyID = ''S'', bc_InitialCapital = lit 100000, bc_RegimeFilter = None, bc_CommissionBps = 0,
     bc_BrokerFee = DefaultBrokerageFee, bc_PropFirmEnabled = False, bc_StopLoss = None, bc_TakeProfit = None,
     bc_UseSeasonalityOverlay = False, bc_StrategyParams = [], bc_FixedSeed = 0, bc_SizingPercent = 0,
     bc_KellyFraction = 0, bc_WarmUpBars = 0, bc_SecondarySymbols = [], bc_SkipEarningsDays = False,
     bc_DisableRegimeGate = True\<rparr>"

definition rising_bars :: "Candle list" where
  "rising_bars = map (\<lambda>p. bar_at (p * 100000) ((p + 1) * 100000) ((p - 1) * 100000) (p * 100000)) [100, 101, 102]"

definition new_engine :: "(nat, nat, unit) Engine" where
  "new_engine = EngineBuilder_Build \<lparr>sm_Type = ''FIXED'', sm_SpreadBps = 0, sm_MaxSlippage = 0, sm_LatencyMs = 0,
     sm_VolumeImpactFactor = 0, sm_AdverseSelectBps = 0\<rparr> 0 ()"

section \<open>The ledger of a run\<close>

text \<open>What the funnel and the books rest on; every other step leaves it alone.\<close>

type_synonym ledger_t = "(string, Trade) gomap \<times> (string, Signal) gomap \<times> Trade list \<times> int \<times> int \<times> f64 \<times> bool"

definition ledger :: "('r, 'g, 'm) Engine \<Rightarrow> ledger_t" where
  "ledger s = (ru_openTrades s, ru_pendingEntries s, ru_trades s, sd_SignalsPassed (be_signalDiag s),
     sd_TradesOpened (be_signalDiag s), ru_capital s, ru_panicked s)"

lemma ledger_sel:
  assumes "ledger s' = ledger s"
  shows "ru_openTrades s' = ru_openTrades s" "ru_pendingEntries s' = ru_pendingEntries s" "ru_trades s' = ru_trades s"
    "sd_SignalsPassed (be_signalDiag s') = sd_SignalsPassed (be_signalDiag s)"
    "sd_TradesOpened (be_signalDiag s') = sd_TradesOpened (be_signalDiag s)" "ru_capital s' = ru_capital s"
    "ru_panicked s' = ru_panicked s"
  using assms by (simp_all add: ledger_def)

lemma ledger_frame [simp]:
  "ledger (Engine_window cfg c s) = ledger s" "ledger (Engine_newDay c s) = ledger s"
  "ledger (Engine_put_runner cfg symb r s) = ledger s" "ledger (Engine_market env cfg c regime s) = ledger s"
  "ledger (snd (Engine_atr env cfg c s)) = ledger s" "ledger (Engine_store p s) = ledger s"
  "ledger (Engine_reconcile t price s) = ledger s" "ledger (Engine_trail c s) = ledger s"
  "ledger (Engine_dynamic env c regime s) = ledger s" "ledger (snd (Engine_evaluate env cfg c regime s)) = ledger s"
  "ledger (snd (Engine_generateSignalForExit env cfg c regime s)) = ledger s"
  "ledger (Engine_book prev c regime s) = ledger s"
  by (simp_all add: ledger_def Engine_window_def Engine_newDay_def Engine_put_runner_def Engine_market_def
      Engine_atr_def Engine_store_def Engine_reconcile_def Engine_trail_def Engine_dynamic_def Engine_evaluate_def
      Engine_generateSignalForExit_def Engine_book_def Let_def case_prod_beta split: option.split)

text \<open>A passed signal is counted, and nothing else of the ledger changes.\<close>

definition pass :: "bool \<Rightarrow> ('r, 'g, 'm) Engine \<Rightarrow> ('r, 'g, 'm) Engine" where
  "pass b s = (if b then diag (sd_SignalsPassed_update (\<lambda>n. n + 1)) s else s)"

lemma ledger_pass: "ledger (pass b s) = (ru_openTrades s, ru_pendingEntries s, ru_trades s,
    sd_SignalsPassed (be_signalDiag s) + (if b then 1 else 0), sd_TradesOpened (be_signalDiag s), ru_capital s, ru_panicked s)"
  by (simp add: ledger_def pass_def diag_def)

text \<open>
  Rules that walk through the lets and branches of an operation without unfolding them: a bound
  engine has the ledger \<open>L\<close>, nothing is kept of the other bound values.
\<close>

definition walks :: "ledger_t \<Rightarrow> ('x \<Rightarrow> bool) \<Rightarrow> 'x \<Rightarrow> bool" where
  "walks L Q r \<longleftrightarrow> Q r"

lemma walk_let_engine:
  fixes a :: "('r, 'g, 'm) Engine"
  assumes "ledger a = L" "\<And>x. ledger x = L \<Longrightarrow> walks L Q (f x)"
  shows "walks L Q (let x = a in f x)"
  using assms by simp

lemma walk_let:
  assumes "\<And>x. walks L Q (f x)" shows "walks L Q (let x = a in f x)"
  using assms by simp

lemma walk_pair:
  fixes a :: "'x \<times> ('r, 'g, 'm) Engine"
  assumes "ledger (snd a) = L" "\<And>x y. ledger y = L \<Longrightarrow> walks L Q (f x y)"
  shows "walks L Q (let (x, y) = a in f x y)"
  using assms by (cases a) simp

lemma walk_prod:
  assumes "\<And>x y. walks L Q (f x y)" shows "walks L Q (case a of (x, y) \<Rightarrow> f x y)"
  using assms by (cases a) simp

lemma walk_if:
  assumes "walks L Q x" "walks L Q y" shows "walks L Q (if b then x else y)"
  using assms by simp

lemma walk_option:
  assumes "walks L Q x" "\<And>y. walks L Q (f y)" shows "walks L Q (case v of None \<Rightarrow> x | Some y \<Rightarrow> f y)"
  using assms by (cases v) simp_all

lemmas walk = walk_let_engine walk_pair walk_let walk_prod walk_if walk_option

definition booked :: "('r, 'g, 'm) Engine \<Rightarrow> Signal option \<times> ('r, 'g, 'm) Engine \<Rightarrow> bool" where
  "booked s r \<longleftrightarrow> ledger (snd r) = ledger (pass (fst r \<noteq> None) s)"

abbreviation books :: "Signal option \<times> ('r, 'g, 'm) Engine \<Rightarrow> ('r, 'g, 'm) Engine \<Rightarrow> bool" where
  "books r s \<equiv> walks (ledger s) (booked s) r"

lemma books_none:
  assumes "ledger s' = ledger s" "\<And>d. sd_TradesOpened (f d) = sd_TradesOpened d"
    "\<And>d. sd_SignalsPassed (f d) = sd_SignalsPassed d"
  shows "books (None, diag f s') s"
  using assms by (simp add: walks_def booked_def ledger_def pass_def diag_def)

lemma books_some:
  assumes "ledger s' = ledger s"
  shows "books (Some x, diag (sd_SignalsPassed_update (\<lambda>n. n + 1)) s') s"
  using assms by (simp add: walks_def booked_def ledger_def pass_def diag_def)

lemma fallback_books: "books (Engine_generateSignalInlineFallback cfg c regime raw conf sm s) s"
  unfolding Engine_generateSignalInlineFallback_def
  by (intro walk books_none books_some; simp add: ledger_def)

lemma pipeline_signal_books: "books (Engine_pipeline_signal env i cfg c regime raw conf sm p s) s"
  unfolding Engine_pipeline_signal_def
  by (intro walk books_none books_some; simp)

lemma generateSignal_books: "books (Engine_generateSignal env i cfg c regime s) s"
proof -
  have st: "books r t" if "books r s'" "ledger s' = ledger t" for r :: "Signal option \<times> ('a, 'b, 'c) Engine" and s' t
    using that(1) ledger_sel[OF that(2)] by (simp add: walks_def booked_def ledger_pass)
  have fb: "books (Engine_generateSignalInlineFallback cfg c regime raw conf sm t) s" if "ledger t = ledger s"
    for raw conf sm t using st[OF fallback_books that] .
  have pp: "books (Engine_pipeline_signal env i cfg c regime raw conf sm p t) s" if "ledger t = ledger s"
    for raw conf sm p t using st[OF pipeline_signal_books that] .
  obtain raw t where e: "Engine_evaluate env cfg c regime s = (raw, t)" by fastforce
  have t: "ledger t = ledger s" using ledger_frame(10)[of env cfg c regime s] e by simp
  have upd: "ledger (x\<lparr>be_ml := ml\<rparr>) = ledger x" "ledger (x\<lparr>be_ml := ml, be_positionSizer := z\<rparr>) = ledger x"
    for x :: "('a, 'b, 'c) Engine" and ml z by (simp_all add: ledger_def)
  show ?thesis
    unfolding Engine_generateSignal_def e prod.case
    by (intro walk books_none fb pp; simp add: t upd)
qed

text \<open>An entry opens a trade in the symbol, whatever the fill; a close moves it to the trades.\<close>

definition opened :: "string \<Rightarrow> ledger_t \<Rightarrow> ('r, 'g, 'm) Engine \<Rightarrow> bool" where
  "opened symb = (\<lambda>(op, pe, tr, sp, to, c, pk) r. \<exists>t. ledger r = (mput op symb t, pe, tr, sp, to, c, pk))"

lemma opened_leaf:
  assumes "ledger x = L"
  shows "walks L (opened symb L) (x\<lparr>ru_openTrades := mput (ru_openTrades x) symb t, ru_pendingAS := q\<rparr>)"
  using assms by (auto simp: walks_def opened_def ledger_def)

lemma executeEntry_opened: "opened (ca_Symbol c) (ledger s) (Engine_executeEntry env cfg c sig p regime s)"
proof -
  have "walks (ledger s) (opened (ca_Symbol c) (ledger s)) (Engine_executeEntry env cfg c sig p regime s)"
    unfolding Engine_executeEntry_def
    by (intro walk opened_leaf; simp add: ledger_def diag_def split: option.split)
  then show ?thesis by (simp add: walks_def)
qed

lemma closeTrade_ledger:
  "ledger (Engine_closeTrade env i cfg c regime ot p reason s) =
   (let t = fst (closed_fill env cfg c regime ot p reason s)
    in (mdelete (ru_openTrades s) (ca_Symbol c), ru_pendingEntries s, ru_trades s @ [t],
        sd_SignalsPassed (be_signalDiag s), sd_TradesOpened (be_signalDiag s),
        clamp_capital cfg (ru_capital s + tr_PnL t), ru_panicked s))"
  unfolding Engine_closeTrade_def Let_def case_prod_beta
  by (simp add: ledger_def ledger_sel[OF ledger_frame(7)])

section \<open>The books balance\<close>

text \<open>The capital is the initial one with the profit of every trade booked in order and clamped.\<close>

definition account :: "BacktestConfig \<Rightarrow> Trade list \<Rightarrow> f64" where
  "account cfg ts = foldl (\<lambda>c t. clamp_capital cfg (c + tr_PnL t)) (bc_InitialCapital cfg) ts"

definition ledger_ok :: "bool \<Rightarrow> BacktestConfig \<Rightarrow> int \<Rightarrow> int \<Rightarrow> ledger_t \<Rightarrow> bool" where
  "ledger_ok b cfg n o0 = (\<lambda>(op, pe, tr, passed, opn, cap, pk). mkeys_ok op \<and> mkeys_ok pe \<and>
     (\<forall>k. mlookup op k = None \<or> mlookup pe k = None) \<and> passed = n + opn + int (length pe) \<and>
     opn = o0 + int (length tr) + int (length op) \<and> cap = account cfg tr \<and> (pk \<longrightarrow> b))"

text \<open>The invariant, and that no entry of the symbol waits.\<close>

definition ledger_at :: "bool \<Rightarrow> BacktestConfig \<Rightarrow> int \<Rightarrow> int \<Rightarrow> string \<Rightarrow> ('r, 'g, 'm) Engine \<Rightarrow> bool" where
  "ledger_at b cfg n o0 symb s \<longleftrightarrow> ledger_ok b cfg n o0 (ledger s) \<and> mlookup (ru_pendingEntries s) symb = None"

lemma account_snoc: "account cfg (ts @ [t]) = clamp_capital cfg (account cfg ts + tr_PnL t)"
  by (simp add: account_def)

text \<open>An open trade may change, and it may be closed.\<close>

lemma ledger_ok_change:
  assumes "ledger_ok b cfg n o0 (ledger s)" "mlookup (ru_openTrades s) k = Some t"
    "ledger s' = (mput (ru_openTrades s) k t', snd (ledger s))"
  shows "ledger_ok b cfg n o0 (ledger s')"
proof -
  have "mlookup (ru_pendingEntries s) k = None"
    using assms(1,2) by (auto simp: ledger_ok_def ledger_def dest: spec [where x = k])
  with assms show ?thesis by (auto simp: ledger_ok_def ledger_def length_mput)
qed

lemma adverse_ok:
  assumes ok: "ledger_ok b cfg n o0 (ledger s)"
  shows "ledger_ok b cfg n o0 (ledger (Engine_adverse c s))"
proof (cases "mlookup (ru_pendingAS s) (ca_Symbol c)")
  case None
  with ok show ?thesis by (simp add: Engine_adverse_def)
next
  case p: (Some p)
  have d: "ledger (s\<lparr>ru_pendingAS := m\<rparr>) = ledger s" for m by (simp add: ledger_def)
  show ?thesis
  proof (cases "mlookup (ru_openTrades s) (ca_Symbol c)")
    case None
    with p d ok show ?thesis by (simp add: Engine_adverse_def)
  next
    case (Some t)
    have "ledger_ok b cfg n o0 (ledger (s\<lparr>ru_pendingAS := m, ru_openTrades := mput (ru_openTrades s) (ca_Symbol c) u\<rparr>))" for m u
      by (rule ledger_ok_change [OF ok Some]) (simp add: ledger_def)
    with p Some d ok show ?thesis by (simp add: Engine_adverse_def Let_def)
  qed
qed

lemma fillPending_ok:
  assumes "ledger_ok b cfg n o0 (ledger s)"
  shows "ledger_at b cfg n o0 (ca_Symbol c) (Engine_fillPending env cfg' c regime s)"
proof (cases "mlookup (ru_pendingEntries s) (ca_Symbol c)")
  case None
  with assms show ?thesis by (simp add: Engine_fillPending_def ledger_at_def)
next
  case (Some sig)
  let ?m = "mdelete (ru_pendingEntries s) (ca_Symbol c)"
  define t where "t = diag (sd_TradesOpened_update (\<lambda>n. n + 1)) (s\<lparr>ru_pendingEntries := ?m\<rparr>)"
  have ok: "mkeys_ok (ru_pendingEntries s)" and op: "mlookup (ru_openTrades s) (ca_Symbol c) = None"
    using assms Some by (auto simp: ledger_ok_def ledger_def)
  from length_mdelete [OF ok Some] have len: "int (length (ru_pendingEntries s)) = int (length ?m) + 1" by linarith
  have f: "Engine_fillPending env cfg' c regime s =
      Engine_executeEntry env cfg' c sig (Price_Float64 (ca_Open c)) regime t"
    by (simp add: Engine_fillPending_def Some Let_def t_def)
  obtain u where "ledger (Engine_fillPending env cfg' c regime s) =
      (mput (ru_openTrades s) (ca_Symbol c) u, ?m, ru_trades s, sd_SignalsPassed (be_signalDiag s),
       sd_TradesOpened (be_signalDiag s) + 1, ru_capital s, ru_panicked s)"
    using executeEntry_opened [of c t env cfg' sig "Price_Float64 (ca_Open c)" regime]
    by (auto simp: f opened_def t_def ledger_def diag_def)
  with assms op len show ?thesis
    by (auto simp: ledger_at_def ledger_ok_def ledger_def length_mput)
qed

lemma closeTrade_ok:
  assumes "ledger_at b cfg n o0 (ca_Symbol c) s" "mlookup (ru_openTrades s) (ca_Symbol c) = Some t"
  shows "ledger_at b cfg n o0 (ca_Symbol c) (Engine_closeTrade env i cfg c regime ot p reason s)"
proof -
  let ?k = "ca_Symbol c"
  have ok: "mkeys_ok (ru_openTrades s)" using assms(1) by (simp add: ledger_at_def ledger_ok_def ledger_def)
  from length_mdelete [OF ok assms(2)]
  have len: "int (length (ru_openTrades s)) = int (length (mdelete (ru_openTrades s) ?k)) + 1" by linarith
  have L: "ledger_ok b cfg n o0 (ledger (Engine_closeTrade env i cfg c regime ot p reason s))"
    using assms(1) len unfolding closeTrade_ledger Let_def
    by (auto simp: ledger_at_def ledger_ok_def ledger_def account_snoc)
  have "ru_pendingEntries (Engine_closeTrade env i cfg c regime ot p reason s) = ru_pendingEntries s"
    using closeTrade_ledger [of env i cfg c regime ot p reason s] by (simp add: ledger_def Let_def)
  with L assms(1) show ?thesis by (simp add: ledger_at_def)
qed

lemma exits_ok:
  assumes "ledger_at b cfg n o0 (ca_Symbol c) s"
  shows "ledger_at b cfg n o0 (ca_Symbol c) (Engine_exits env i cfg c regime s)"
proof (cases "mlookup (ru_openTrades s) (ca_Symbol c)")
  case None
  with assms show ?thesis by (simp add: Engine_exits_def)
next
  case (Some ot)
  define d where "d = Engine_dynamic env c regime (Engine_trail c s)"
  define e where "e = d\<lparr>ru_openTrades := mput (ru_openTrades d) (ca_Symbol c) (excursion_update c ot)\<rparr>"
  obtain z g where g: "Engine_generateSignalForExit env cfg c regime e = (z, g)" by fastforce
  have lg: "ledger g = ledger e" using ledger_frame(11) [of env cfg c regime e] g by simp
  have ld: "ledger d = ledger s" by (simp add: d_def)
  have le: "ledger e = (mput (ru_openTrades s) (ca_Symbol c) (excursion_update c ot), snd (ledger s))"
    using ld by (simp add: e_def ledger_def)
  have ok: "ledger_at b cfg n o0 (ca_Symbol c) x" if "ledger x = ledger e" for x :: "('a, 'b, 'c) Engine"
  proof -
    from le that have x: "ledger x = (mput (ru_openTrades s) (ca_Symbol c) (excursion_update c ot), snd (ledger s))" by simp
    then have "ru_pendingEntries x = ru_pendingEntries s" by (simp add: ledger_def)
    with ledger_ok_change [OF _ Some x] assms show ?thesis by (simp add: ledger_at_def)
  qed
  have op: "mlookup (ru_openTrades x) (ca_Symbol c) = Some (excursion_update c ot)"
    if "ledger x = ledger e" for x :: "('a, 'b, 'c) Engine"
    using le that by (simp add: ledger_def)
  note cl = closeTrade_ok [OF ok op]
  show ?thesis
    unfolding Engine_exits_def Let_def Some option.case d_def [symmetric] e_def [symmetric] g prod.case
    using cl [OF refl refl] cl [OF lg lg] ok [OF lg] by (simp split: prod.split bool.split)
qed

text \<open>A strategy that never panics; \<open>b\<close> in the invariant allows a panic.\<close>

definition never_panics :: "('r, 'g, 'm) environment \<Rightarrow> bool" where
  "never_panics env \<longleftrightarrow> (\<forall>r c g. fst (nv_evaluate env r c g) \<noteq> None)"

lemma search_ok:
  assumes "ledger_at b cfg n o0 (ca_Symbol c) s" and quiet: "b \<or> never_panics env"
  shows "ledger_ok b cfg n o0 (ledger (snd (Engine_search env i cfg c regime s)))"
proof -
  define a where "a = diag (sd_SignalAttempts_update (\<lambda>n. n + 1)) s"
  have la: "ledger a = ledger s" by (simp add: a_def diag_def ledger_def)
  obtain r g where g: "Engine_generateSignal env i cfg c regime a = (r, g)" by fastforce
  obtain raw v where v: "Engine_evaluate env cfg c regime a = (raw, v)" by fastforce
  have lv: "ledger v = ledger s" using ledger_frame(10) [of env cfg c regime a] v la by simp
  have lg: "ledger g = ledger (pass (r \<noteq> None) a)"
    using generateSignal_books [of a env i cfg c regime] g by (simp add: walks_def booked_def)
  have at: "ledger (diag (sd_SignalAttempts_update (\<lambda>n. n + 1)) x) = ledger x" for x :: "('a, 'b, 'c) Engine"
    by (simp_all add: diag_def ledger_def)
  have "b \<or> raw \<noteq> None"
    using quiet v by (auto simp: never_panics_def Engine_evaluate_def case_prod_beta)
  then have panic: "ledger_ok b cfg n o0 (ledger (v\<lparr>ru_panicked := True\<rparr>))" if "raw = None"
    using that assms(1) lv by (auto simp: ledger_at_def ledger_ok_def ledger_def)
  have sig: "ledger_ok b cfg n o0 (ledger (g\<lparr>ru_pendingEntries := mput (ru_pendingEntries g) (ca_Symbol c) sg\<rparr>))"
    if n: "mlookup (ru_openTrades s) (ca_Symbol c) = None" and r: "r \<noteq> None" for sg
  proof -
    have lg': "ledger g = (ru_openTrades s, ru_pendingEntries s, ru_trades s,
        sd_SignalsPassed (be_signalDiag s) + 1, sd_TradesOpened (be_signalDiag s), ru_capital s, ru_panicked s)"
      using r by (simp add: lg ledger_pass ledger_sel [OF la])
    then have "ledger (g\<lparr>ru_pendingEntries := mput (ru_pendingEntries g) (ca_Symbol c) sg\<rparr>) =
       (ru_openTrades s, mput (ru_pendingEntries s) (ca_Symbol c) sg, ru_trades s,
        sd_SignalsPassed (be_signalDiag s) + 1, sd_TradesOpened (be_signalDiag s), ru_capital s, ru_panicked s)"
      by (simp add: ledger_def)
    then show ?thesis
      using assms n by (auto simp: ledger_at_def ledger_ok_def ledger_def length_mput)
  qed
  have nosig: "ledger_ok b cfg n o0 (ledger g)" if "r = None"
    using that assms lg la by (simp add: pass_def ledger_at_def)
  show ?thesis
    unfolding Engine_search_def Let_def a_def [symmetric] g v prod.case
    using assms(1) sig nosig lv la panic
    by (auto simp: at ledger_at_def split: option.split prod.split)
qed

lemma trade_ok:
  assumes "ledger_ok b cfg n o0 (ledger s)" and quiet: "b \<or> never_panics env"
  shows "ledger_ok b cfg n o0 (ledger (Engine_trade env i cfg prev c regime s))"
proof -
  obtain z t where t: "Engine_search env i cfg c regime (Engine_exits env i cfg c regime
      (Engine_fillPending env cfg c regime s)) = (z, t)" by fastforce
  show ?thesis
    unfolding Engine_trade_def Let_def t prod.case
    using search_ok [OF exits_ok [OF fillPending_ok [OF assms(1)]] quiet, where env1 = env and env2 = env
        and i = i and i1 = i and c = c and regime = regime and regime1 = regime and regime2 = regime and cfg'2 = cfg] t
    by (simp split: bool.split)
qed

lemma bar_ok:
  assumes ok: "ledger_ok b cfg n o0 (ledger s)" and quiet: "b \<or> never_panics env"
  shows "ledger_ok b cfg n o0 (ledger (Engine_bar env cfg i prev c s))"
proof -
  define a where "a = Engine_newDay c (Engine_window cfg c (diag (sd_CandlesSeen_update (\<lambda>n. n + 1)) s))"
  obtain z t where t: "Engine_atr env cfg c (Engine_market env cfg c (regimeAt (buildRegimeIndex (nv_regimeLogs env)) (ca_Symbol c)
      (ca_Time c)) a) = (z, t)" by fastforce
  have f: "ledger (x\<lparr>be_ftmo := z\<rparr>) = ledger x" "ledger (diag (sd_CandlesSeen_update (\<lambda>n. n + 1)) x) = ledger x"
    for x :: "('a, 'b, 'c) Engine" and z by (simp_all add: ledger_def diag_def)
  have la: "ledger a = ledger s" by (simp add: a_def f)
  have lt: "ledger t = ledger s" using ledger_frame(5) [of env cfg c "Engine_market env cfg c
      (regimeAt (buildRegimeIndex (nv_regimeLogs env)) (ca_Symbol c) (ca_Time c)) a"] t la by simp
  show ?thesis
    unfolding Engine_bar_def Let_def a_def [symmetric] t prod.case
    using ok adverse_ok [of b cfg n o0 t c] la lt quiet by (simp add: f trade_ok)
qed

lemma loop_ok:
  "ledger_ok b cfg n o0 (ledger s) \<Longrightarrow> b \<or> never_panics env \<Longrightarrow>
   ledger_ok b cfg n o0 (ledger (Engine_loop env cfg i prev cs s))"
  by (induction cs arbitrary: i prev s) (simp_all add: bar_ok)

lemma start_ok:
  "ledger_ok b cfg (sd_SignalsPassed (be_signalDiag s) - sd_TradesOpened (be_signalDiag s))
     (sd_TradesOpened (be_signalDiag s)) (ledger (Engine_start env cfg s))"
  by (simp add: ledger_ok_def ledger_def Engine_start_def Let_def account_def)

text \<open>At the end of the data: the pending entries become open trades, the open trades become trades.\<close>

lemma flush_ledger:
  assumes "mkeys_ok ps" "mkeys_ok (ru_openTrades s)" "\<forall>k. mlookup (ru_openTrades s) k = None \<or> mlookup ps k = None"
  obtains op where "ledger (fold (Engine_flush env cfg c) ps s) = (op, ru_pendingEntries s, ru_trades s,
      sd_SignalsPassed (be_signalDiag s), sd_TradesOpened (be_signalDiag s) + int (length ps), ru_capital s, ru_panicked s)"
    and "length op = length (ru_openTrades s) + length ps"
  using assms
proof (induction ps arbitrary: s thesis)
  case Nil
  show ?case by (rule Nil.prems(1)) (simp_all add: ledger_def)
next
  case (Cons p ps)
  obtain k sig where p: "p = (k, sig)" by fastforce
  define t where "t = Engine_flush env cfg c p s"
  obtain u where t: "ledger t = (mput (ru_openTrades s) k u, ru_pendingEntries s, ru_trades s,
      sd_SignalsPassed (be_signalDiag s), sd_TradesOpened (be_signalDiag s) + 1, ru_capital s, ru_panicked s)"
    using executeEntry_opened [of "c\<lparr>ca_Symbol := k, ca_Source := '''', ca_GenerationID := ''''\<rparr>"
        "diag (sd_TradesOpened_update (\<lambda>n. n + 1)) s" env cfg sig "Price_Float64 (ca_Close c)" 0]
    by (auto simp: t_def Engine_flush_def p opened_def ledger_def diag_def)
  have k: "mlookup (ru_openTrades s) k = None" "mlookup ps k = None" "mkeys_ok ps"
    using Cons.prems(2,4) by (auto simp: p mkeys_ok_def map_of_eq_None_iff dest: spec [where x = k])
  have d: "\<forall>j. mlookup (ru_openTrades t) j = None \<or> mlookup ps j = None"
  proof
    fix j show "mlookup (ru_openTrades t) j = None \<or> mlookup ps j = None"
      using Cons.prems(4) [THEN spec, of j] k t by (auto simp: p ledger_def split: if_splits)
  qed
  have m: "mkeys_ok (ru_openTrades t)" using Cons.prems(3) t by (simp add: ledger_def)
  obtain op where "ledger (fold (Engine_flush env cfg c) ps t) = (op, ru_pendingEntries t, ru_trades t,
      sd_SignalsPassed (be_signalDiag t), sd_TradesOpened (be_signalDiag t) + int (length ps), ru_capital t, ru_panicked t)"
    "length op = length (ru_openTrades t) + length ps"
    using Cons.IH [OF _ k(3) m d] by blast
  with t k show ?case
    by (intro Cons.prems(1) [of op]) (simp_all add: t_def [symmetric] ledger_def length_mput)
qed

lemma end_ledger:
  "ledger (Engine_end env cfg c p s) = (let t = last (ru_trades (Engine_end env cfg c p s)) in
     (ru_openTrades s, ru_pendingEntries s, ru_trades s @ [t], sd_SignalsPassed (be_signalDiag s),
      sd_TradesOpened (be_signalDiag s), clamp_capital cfg (ru_capital s + tr_PnL t), ru_panicked s))"
proof -
  obtain symb ot where p: "p = (symb, ot)" by fastforce
  show ?thesis
    unfolding Engine_end_def p prod.case Let_def case_prod_beta
    by (simp add: ledger_def ledger_sel [OF ledger_frame(7)])
qed

lemma end_fold:
  assumes "ru_capital s = account cfg (ru_trades s)"
  obtains ts where "ledger (fold (Engine_end env cfg c) os s) = (ru_openTrades s, ru_pendingEntries s, ru_trades s @ ts,
      sd_SignalsPassed (be_signalDiag s), sd_TradesOpened (be_signalDiag s), account cfg (ru_trades s @ ts), ru_panicked s)"
    and "length ts = length os"
  using assms
proof (induction os arbitrary: s thesis)
  case Nil
  show ?case by (rule Nil.prems(1) [of "[]"]) (simp_all add: ledger_def Nil.prems(2))
next
  case (Cons p os)
  define t where "t = Engine_end env cfg c p s"
  define u where "u = last (ru_trades t)"
  have t: "ledger t = (ru_openTrades s, ru_pendingEntries s, ru_trades s @ [u], sd_SignalsPassed (be_signalDiag s),
      sd_TradesOpened (be_signalDiag s), clamp_capital cfg (ru_capital s + tr_PnL u), ru_panicked s)"
    unfolding t_def u_def by (rule end_ledger [unfolded Let_def])
  then have c: "ru_capital t = account cfg (ru_trades t)"
    by (simp add: ledger_def account_snoc Cons.prems(2))
  obtain ts where "ledger (fold (Engine_end env cfg c) os t) = (ru_openTrades t, ru_pendingEntries t, ru_trades t @ ts,
      sd_SignalsPassed (be_signalDiag t), sd_TradesOpened (be_signalDiag t), account cfg (ru_trades t @ ts), ru_panicked t)"
    "length ts = length os" using Cons.IH [OF _ c] by blast
  with t show ?case
    by (intro Cons.prems(1) [of "u # ts"]) (simp_all add: t_def [symmetric] ledger_def)
qed

text \<open>The funnel, the trades and the capital of a finished run.\<close>

definition balanced :: "BacktestConfig \<Rightarrow> SignalDiag \<Rightarrow> ('r, 'g, 'm) Engine \<Rightarrow> bool" where
  "balanced cfg d0 s \<longleftrightarrow>
     sd_TradesOpened (be_signalDiag s) = sd_TradesOpened d0 + int (length (ru_trades s)) \<and>
     sd_SignalsPassed (be_signalDiag s) = sd_SignalsPassed d0 + int (length (ru_trades s)) \<and>
     ru_capital s = account cfg (ru_trades s)"

lemma finish_balanced:
  assumes "ledger_ok b cfg (sd_SignalsPassed d0 - sd_TradesOpened d0) (sd_TradesOpened d0) (ledger s)" "candles \<noteq> []"
  shows "balanced cfg d0 (Engine_finish env cfg candles s)"
proof -
  define f where "f = fold (Engine_flush env cfg (last candles)) (ru_pendingEntries s) s"
  define e where "e = fold (Engine_end env cfg (last candles)) (ru_openTrades f) f"
  have ok: "mkeys_ok (ru_pendingEntries s)" "mkeys_ok (ru_openTrades s)"
    "\<forall>k. mlookup (ru_openTrades s) k = None \<or> mlookup (ru_pendingEntries s) k = None"
    using assms(1) by (simp_all add: ledger_ok_def ledger_def)
  obtain op where f: "ledger f = (op, ru_pendingEntries s, ru_trades s, sd_SignalsPassed (be_signalDiag s),
      sd_TradesOpened (be_signalDiag s) + int (length (ru_pendingEntries s)), ru_capital s, ru_panicked s)"
    and op: "length op = length (ru_openTrades s) + length (ru_pendingEntries s)"
    using flush_ledger [OF ok] unfolding f_def by blast
  have cf: "ru_capital f = account cfg (ru_trades f)"
    using assms(1) f by (simp add: ledger_ok_def ledger_def)
  obtain ts where "ledger e = (ru_openTrades f, ru_pendingEntries f, ru_trades f @ ts,
      sd_SignalsPassed (be_signalDiag f), sd_TradesOpened (be_signalDiag f), account cfg (ru_trades f @ ts), ru_panicked f)"
    "length ts = length (ru_openTrades f)"
    using end_fold [OF cf] unfolding e_def by blast
  with f op assms have "balanced cfg d0 e" by (simp add: balanced_def ledger_ok_def ledger_def)
  with assms(2) show ?thesis by (simp add: Engine_finish_def e_def f_def Let_def)
qed

lemma loop_balanced:
  assumes "candles = []"
  shows "balanced cfg (be_signalDiag s) (Engine_finish env cfg candles (Engine_loop env cfg i prev candles (Engine_start env cfg s)))"
  using assms by (simp add: Engine_finish_def balanced_def account_def Engine_start_def Let_def)

lemma account_run_config: "account (run_config cfg) = account cfg"
proof -
  have i: "bc_InitialCapital (run_config cfg) = bc_InitialCapital cfg" by (simp add: run_config_def Let_def)
  then have "clamp_capital (run_config cfg) = clamp_capital cfg" by (simp add: clamp_capital_def fun_eq_iff)
  with i show ?thesis by (simp add: account_def fun_eq_iff)
qed

lemma run_balanced:
  assumes "Engine_Run env cfg candles s = Some s'"
  shows "balanced cfg (be_signalDiag s) s'"
proof -
  let ?c = "run_config cfg"
  have s': "s' = Engine_finish env ?c candles (Engine_loop env ?c 0 None candles (Engine_start env ?c s))"
    using assms by (simp add: Engine_Run_def Let_def split: if_splits)
  have "ledger_ok True ?c (sd_SignalsPassed (be_signalDiag s) - sd_TradesOpened (be_signalDiag s))
      (sd_TradesOpened (be_signalDiag s)) (ledger (Engine_loop env ?c 0 None candles (Engine_start env ?c s)))"
    by (rule loop_ok [OF start_ok]) simp
  from finish_balanced [OF this] have "balanced ?c (be_signalDiag s) s'"
    using loop_balanced [of candles ?c s env] by (cases "candles = []") (simp_all add: s')
  then show ?thesis by (simp add: balanced_def account_run_config)
qed

lemma run_returns:
  assumes "never_panics env"
  shows "Engine_Run env cfg candles s \<noteq> None"
proof -
  have "ledger_ok False (run_config cfg) (sd_SignalsPassed (be_signalDiag s) - sd_TradesOpened (be_signalDiag s))
      (sd_TradesOpened (be_signalDiag s))
      (ledger (Engine_loop env (run_config cfg) 0 None candles (Engine_start env (run_config cfg) s)))"
    by (rule loop_ok [OF start_ok]) (simp add: assms)
  then show ?thesis by (simp add: Engine_Run_def Let_def ledger_ok_def ledger_def)
qed

text \<open>The capital after a trade is never below zero.\<close>

lemma account_not_negative:
  assumes "ts \<noteq> []" shows "\<not> account cfg ts < 0"
proof -
  obtain us t where ts: "ts = us @ [t]" using assms by (metis append_butlast_last_id)
  have "\<not> clamp_capital cfg x < 0" for x
    by (auto simp: clamp_capital_def Let_def f64_not_less dest: f64_less_imp_le)
  then show ?thesis by (simp add: ts account_snoc)
qed

text \<open>C2: The books of a run balance, for every engine, fresh or re-used, with or without a pipeline.
  When the evaluation of the strategy and of its exits does not panic in any state (\<open>never_panics\<close>), the
  run returns; the signals it adds to those counted as passed, and the trades it adds to those counted
  as opened, are both as many as the trades of its result; the capital is the initial one with the
  profits of those trades added in order and clamped, and not below zero after a trade.\<close>

theorem run_books_balance:
  assumes "never_panics env"
  shows "\<exists>s'. Engine_Run env cfg candles s = Some s' \<and>
    sd_SignalsPassed (be_signalDiag s') - sd_SignalsPassed (be_signalDiag s) = int (length (ru_trades s')) \<and>
    sd_TradesOpened (be_signalDiag s') - sd_TradesOpened (be_signalDiag s) = int (length (ru_trades s')) \<and>
    ru_capital s' = foldl (\<lambda>c t. clamp_capital cfg (c + tr_PnL t)) (bc_InitialCapital cfg) (ru_trades s') \<and>
    (ru_trades s' \<noteq> [] \<longrightarrow> \<not> ru_capital s' < 0)"
proof -
  obtain s' where s': "Engine_Run env cfg candles s = Some s'"
    using run_returns [OF assms] by blast
  then show ?thesis
    using run_balanced [OF s'] account_not_negative [of "ru_trades s'" cfg]
    by (intro exI [of _ s']) (simp add: balanced_def account_def)
qed

text \<open>The engine of the sample is wired and has counted five signals in an earlier run.\<close>

lemma run_books_balance_witness:
  "\<exists>s'. Engine_Run buy_env run_cfg rising_bars (Engine_wire 7
       (new_engine\<lparr>be_signalDiag := zero_diag\<lparr>sd_SignalsPassed := 5\<rparr>\<rparr>)) = Some s' \<and>
     sd_SignalsPassed (be_signalDiag s') - 5 = int (length (ru_trades s'))"
  using run_books_balance [of buy_env run_cfg rising_bars
      "Engine_wire 7 (new_engine\<lparr>be_signalDiag := zero_diag\<lparr>sd_SignalsPassed := 5\<rparr>\<rparr>)"]
  by (auto simp: never_panics_def buy_env_def Engine_wire_def)

section \<open>No trade on the bar of its signal\<close>

text \<open>The side, the time and the price an open trade was entered with, by symbol; and the price an
  entry is filled at by the simulator of an engine.\<close>

definition entry_of :: "Trade \<Rightarrow> string \<times> int \<times> price" where
  "entry_of t = (tr_Side t, tr_EntryTime t, tr_EntryPrice t)"

definition entries :: "('r, 'g, 'm) Engine \<Rightarrow> string \<Rightarrow> (string \<times> int \<times> price) option" where
  "entries s k = map_option entry_of (mlookup (ru_openTrades s) k)"

definition entry_price :: "('r, 'g, 'm) environment \<Rightarrow> Candle \<Rightarrow> Signal \<Rightarrow> f64 \<Rightarrow> ('r, 'g, 'm) Engine \<Rightarrow> price" where
  "entry_price env c sig refPrice s =
     (let ref = refPrice * adjFactor (ca_AdjustmentFactor c);
          fill = fst (FillSimulator_SimulateFillWithTCA (nv_gauss env) (nv_unif env) (be_fillSim s)
            (word_of_int (int (length (ru_trades s)) + 1)) (ca_Symbol c) (sl_Quantity sig) (sl_Side sig)
            ref ((Price_Float64 (ca_High c) + Price_Float64 (ca_Low c)) / lit 2) ref (ca_Volume c));
          price = Price_Float64 (sf_FillPrice fill)
      in PriceFromFloat (if price \<le> 0 then refPrice else price))"

lemma executeEntry_entry:
  "map_option entry_of (mlookup (ru_openTrades (Engine_executeEntry env cfg c sig p regime s)) (ca_Symbol c)) =
     Some (sl_Side sig, ca_Time c, entry_price env c sig p s)"
  unfolding Engine_executeEntry_def entry_price_def Let_def case_prod_beta by (simp add: entry_of_def)

text \<open>What the steps of a bar before the fill leave alone.\<close>

lemma simulator_frame [simp]:
  "be_fillSim (Engine_window cfg c s) = be_fillSim s" "be_fillSim (Engine_newDay c s) = be_fillSim s"
  "be_fillSim (Engine_market env cfg c regime s) = be_fillSim s"
  "be_fillSim (snd (Engine_atr env cfg c s)) = be_fillSim s" "be_fillSim (Engine_adverse c s) = be_fillSim s"
  by (simp_all add: Engine_window_def Engine_newDay_def Engine_put_runner_def Engine_market_def
      Engine_atr_def Engine_adverse_def Let_def split: option.split)

lemma adverse_entries:
  "entries (Engine_adverse c s) = entries s" "ru_pendingEntries (Engine_adverse c s) = ru_pendingEntries s"
  "ru_trades (Engine_adverse c s) = ru_trades s"
  by (auto simp: Engine_adverse_def Let_def entries_def entry_of_def fun_eq_iff split: option.splits)

lemma adverse_symbols: "dom (mlookup (ru_openTrades (Engine_adverse c s))) = dom (mlookup (ru_openTrades s))"
  by (auto simp: Engine_adverse_def Let_def split: option.splits if_splits)

lemma fillPending_entries:
  "Map.graph (entries (Engine_fillPending env cfg c regime s)) \<subseteq> Map.graph (entries s) \<union>
     {(ca_Symbol c, sl_Side sig, ca_Time c, entry_price env c sig (Price_Float64 (ca_Open c)) s) | sig.
        mlookup (ru_pendingEntries s) (ca_Symbol c) = Some sig} \<and>
   Map.graph (mlookup (ru_pendingEntries (Engine_fillPending env cfg c regime s))) \<subseteq>
     Map.graph (mlookup (ru_pendingEntries s))"
proof (cases "mlookup (ru_pendingEntries s) (ca_Symbol c)")
  case None
  then show ?thesis by (simp add: Engine_fillPending_def)
next
  case (Some sig)
  define t where "t = diag (sd_TradesOpened_update (\<lambda>n. n + 1))
    (s\<lparr>ru_pendingEntries := mdelete (ru_pendingEntries s) (ca_Symbol c)\<rparr>)"
  have f: "Engine_fillPending env cfg c regime s =
      Engine_executeEntry env cfg c sig (Price_Float64 (ca_Open c)) regime t"
    by (simp add: Engine_fillPending_def Some Let_def t_def)
  obtain u where u: "ru_openTrades (Engine_fillPending env cfg c regime s) = mput (ru_openTrades s) (ca_Symbol c) u"
    "ru_pendingEntries (Engine_fillPending env cfg c regime s) = mdelete (ru_pendingEntries s) (ca_Symbol c)"
    using executeEntry_opened [of c t env cfg sig "Price_Float64 (ca_Open c)" regime]
    by (auto simp: f opened_def t_def ledger_def diag_def)
  have "entry_price env c sig (Price_Float64 (ca_Open c)) t = entry_price env c sig (Price_Float64 (ca_Open c)) s"
    by (simp add: entry_price_def t_def diag_def)
  then have "entry_of u = (sl_Side sig, ca_Time c, entry_price env c sig (Price_Float64 (ca_Open c)) s)"
    using executeEntry_entry [of env cfg c sig "Price_Float64 (ca_Open c)" regime t] u(1) by (simp add: f)
  then show ?thesis using Some u by (auto simp: Map.graph_def entries_def split: if_splits)
qed

lemma exits_entries:
  "Map.graph (entries (Engine_exits env i cfg c regime s)) \<subseteq> Map.graph (entries s) \<and>
   ru_pendingEntries (Engine_exits env i cfg c regime s) = ru_pendingEntries s"
proof (cases "mlookup (ru_openTrades s) (ca_Symbol c)")
  case None
  then show ?thesis by (simp add: Engine_exits_def)
next
  case (Some ot)
  define d where "d = Engine_dynamic env c regime (Engine_trail c s)"
  define e where "e = d\<lparr>ru_openTrades := mput (ru_openTrades d) (ca_Symbol c) (excursion_update c ot)\<rparr>"
  obtain z g where g: "Engine_generateSignalForExit env cfg c regime e = (z, g)" by fastforce
  have lg: "ledger g = ledger e" using ledger_frame(11) [of env cfg c regime e] g by simp
  have ld: "ledger d = ledger s" by (simp add: d_def)
  have eo: "entry_of (excursion_update c ot) = entry_of ot" by (simp add: excursion_update_def entry_of_def Let_def)
  have e: "entries e = entries s" "ru_pendingEntries e = ru_pendingEntries s"
    using Some ledger_sel [OF ld] by (auto simp: e_def entries_def fun_eq_iff eo)
  have lk: "entries x = entries s \<and> ru_pendingEntries x = ru_pendingEntries s" if "ledger x = ledger e"
    for x :: "('a, 'b, 'c) Engine"
    using ledger_sel(1,2) [OF that] e by (simp add: entries_def fun_eq_iff)
  have cx: "Map.graph (entries (Engine_closeTrade env i cfg c regime ot' p reason x)) \<subseteq> Map.graph (entries x) \<and>
      ru_pendingEntries (Engine_closeTrade env i cfg c regime ot' p reason x) = ru_pendingEntries x"
    for ot' p reason and x :: "('a, 'b, 'c) Engine"
    using closeTrade_ledger [of env i cfg c regime ot' p reason x]
    by (simp add: ledger_def Let_def) (auto simp: entries_def Map.graph_def split: if_splits)
  then have cl: "Map.graph (entries (Engine_closeTrade env i cfg c regime ot' p reason x)) \<subseteq> Map.graph (entries s) \<and>
      ru_pendingEntries (Engine_closeTrade env i cfg c regime ot' p reason x) = ru_pendingEntries s"
    if "ledger x = ledger e" for ot' p reason and x :: "('a, 'b, 'c) Engine"
    using lk [OF that] by metis
  show ?thesis
    unfolding Engine_exits_def Let_def Some option.case d_def [symmetric] e_def [symmetric] g prod.case
    using cl [OF refl] cl [OF lg] lk [OF lg] by (simp split: prod.split bool.split)
qed

lemma search_entries:
  "ru_openTrades (snd (Engine_search env i cfg c regime s)) = ru_openTrades s \<and>
   Map.graph (mlookup (ru_pendingEntries (snd (Engine_search env i cfg c regime s)))) \<subseteq>
     Map.graph (mlookup (ru_pendingEntries s)) \<union>
     {(ca_Symbol c, sig) | sig. mlookup (ru_openTrades s) (ca_Symbol c) = None}"
proof -
  define a where "a = diag (sd_SignalAttempts_update (\<lambda>n. n + 1)) s"
  have la: "ledger a = ledger s" by (simp add: a_def diag_def ledger_def)
  obtain r g where g: "Engine_generateSignal env i cfg c regime a = (r, g)" by fastforce
  obtain raw v where v: "Engine_evaluate env cfg c regime a = (raw, v)" by fastforce
  have "ledger v = ledger s" using ledger_frame(10) [of env cfg c regime a] v la by simp
  moreover have "ledger g = ledger (pass (r \<noteq> None) a)"
    using generateSignal_books [of a env i cfg c regime] g by (simp add: walks_def booked_def)
  ultimately have "ru_openTrades v = ru_openTrades s" "ru_openTrades g = ru_openTrades s"
    "ru_pendingEntries v = ru_pendingEntries s" "ru_pendingEntries g = ru_pendingEntries s"
    using la by (simp_all add: ledger_pass) (simp_all add: ledger_def)
  moreover have "ru_openTrades (diag f x) = ru_openTrades x" "ru_pendingEntries (diag f x) = ru_pendingEntries x"
    for f and x :: "('a, 'b, 'c) Engine" by (simp_all add: diag_def)
  moreover have "ru_openTrades (Engine_put_runner cfg' y z x) = ru_openTrades x"
    "ru_pendingEntries (Engine_put_runner cfg' y z x) = ru_pendingEntries x" for cfg' y z and x :: "('a, 'b, 'c) Engine"
    by (simp_all add: Engine_put_runner_def)
  ultimately show ?thesis
    unfolding Engine_search_def Let_def a_def [symmetric] g v prod.case
    by (auto simp: a_def Map.graph_def split: option.split prod.split if_splits)
qed

text \<open>C4: No look-ahead. After a bar every open trade has the side, time and price of entry of one that
  was open before it, or it is the entry that was pending in the symbol of the bar before it, filled
  at the open: no signal is filled on the bar it was decided on. A signal is added to the pending
  entries only in the symbol of the bar and when no trade is open there after it. This is the bar of
  the loop; after the last bar \<open>Engine_finish\<close> fills what is still pending at its close.\<close>

theorem entry_waits_for_next_bar:
  "let s' = Engine_bar env cfg i prev c s in
   Map.graph (entries s') \<subseteq> Map.graph (entries s) \<union>
     {(ca_Symbol c, sl_Side sig, ca_Time c, entry_price env c sig (Price_Float64 (ca_Open c)) s) | sig.
        mlookup (ru_pendingEntries s) (ca_Symbol c) = Some sig} \<and>
   Map.graph (mlookup (ru_pendingEntries s')) \<subseteq> Map.graph (mlookup (ru_pendingEntries s)) \<union>
     {(ca_Symbol c, sig) | sig. mlookup (ru_openTrades s') (ca_Symbol c) = None}"
proof -
  define b where "b = diag (sd_CandlesSeen_update (\<lambda>n. n + 1)) s"
  define a where "a = Engine_newDay c (Engine_window cfg c b)"
  define regime where "regime = regimeAt (buildRegimeIndex (nv_regimeLogs env)) (ca_Symbol c) (ca_Time c)"
  obtain z t where t: "Engine_atr env cfg c (Engine_market env cfg c regime a) = (z, t)" by fastforce
  define u where "u = (Engine_adverse c t)\<lparr>be_ftmo := map_option (\<lambda>f. f\<lparr>en_CurrentRegime := regime\<rparr>) (be_ftmo (Engine_adverse c t))\<rparr>"
  define E where "E x \<longleftrightarrow> entries x = entries s \<and> ru_pendingEntries x = ru_pendingEntries s"
    for x :: "('a, 'b, 'c) Engine"
  have E: "E x" if "ledger x = ledger s" for x
    using ledger_sel(1,2) [OF that] by (simp add: E_def entries_def fun_eq_iff)
  have lb: "ledger b = ledger s" by (simp add: b_def diag_def ledger_def)
  have la: "ledger a = ledger s" by (simp add: a_def lb)
  have lt: "ledger t = ledger s"
    using ledger_frame(5) [of env cfg c "Engine_market env cfg c regime a"] t la by simp
  have eu: "entries (x\<lparr>be_ftmo := y\<rparr>) = entries x" for x :: "('a, 'b, 'c) Engine" and y
    by (simp add: entries_def fun_eq_iff)
  have u: "E u" "ru_trades u = ru_trades s" using adverse_entries [of c t] E [OF lt] ledger_sel(3) [OF lt]
    by (simp_all add: u_def E_def eu)
  have "be_fillSim t = be_fillSim a" using simulator_frame(4) [of env cfg c "Engine_market env cfg c regime a"] t by simp
  then have p: "entry_price env c sig q u = entry_price env c sig q s" for sig q
    using u(2) by (simp add: entry_price_def u_def a_def b_def diag_def)
  define w where "w = Engine_exits env i cfg c regime (Engine_fillPending env cfg c regime u)"
  obtain y v where v: "Engine_search env i cfg c regime w = (y, v)" by fastforce
  define good where "good x \<longleftrightarrow> Map.graph (entries x) \<subseteq> Map.graph (entries s) \<union>
     {(ca_Symbol c, sl_Side sig, ca_Time c, entry_price env c sig (Price_Float64 (ca_Open c)) s) | sig.
        mlookup (ru_pendingEntries s) (ca_Symbol c) = Some sig} \<and>
   Map.graph (mlookup (ru_pendingEntries x)) \<subseteq> Map.graph (mlookup (ru_pendingEntries s)) \<union>
     {(ca_Symbol c, sig) | sig. mlookup (ru_openTrades x) (ca_Symbol c) = None}" for x :: "('a, 'b, 'c) Engine"
  have gE: "good x" if "E x" for x using that unfolding good_def E_def by auto
  have "entries v = entries w" "ru_openTrades v = ru_openTrades w"
    using search_entries [of env i cfg c regime w] v by (simp_all add: entries_def fun_eq_iff)
  then have "good v"
    using search_entries [of env i cfg c regime w] v u(1) exits_entries [of env i cfg c regime "Engine_fillPending env cfg c regime u"]
      fillPending_entries [of env cfg c regime u]
    unfolding good_def E_def p w_def [symmetric] by auto
  moreover have "good x" if "ledger x = ledger v" "good v" for x
    using ledger_sel(1,2) [OF that(1)] that(2) by (simp add: good_def entries_def Map.graph_def)
  ultimately have "good (Engine_trade env i cfg prev c regime u)"
    using ledger_frame(12) [of prev c regime v]
    unfolding Engine_trade_def Let_def w_def [symmetric] v by (simp split: bool.split)
  then have "good (Engine_bar env cfg i prev c s)"
    unfolding Engine_bar_def Let_def b_def [symmetric] a_def [symmetric] regime_def [symmetric] t prod.case u_def [symmetric]
    using gE u E [OF lb] E [OF la] E [OF lt] by (auto simp: E_def)
  then show ?thesis by (simp only: good_def Let_def)
qed

section \<open>A halted account\<close>

text \<open>What a bar may not change while the prop firm enforcer is halted.\<close>

definition positions :: "('r, 'g, 'm) Engine \<Rightarrow> string set \<times> (string, ActiveStop) gomap \<times> (string, Signal) gomap \<times> Trade list \<times> f64" where
  "positions s = (dom (mlookup (ru_openTrades s)), ru_activeStops s, ru_pendingEntries s, ru_trades s, ru_capital s)"

definition account_halted :: "('r, 'g, 'm) Engine \<Rightarrow> bool" where
  "account_halted s = (case be_ftmo s of None \<Rightarrow> False | Some f \<Rightarrow> PropFirmEnforcer_IsHalted f)"

lemma newDay_halted: "account_halted s \<Longrightarrow> account_halted (Engine_newDay c s)"
  using OnNewDay_evolves
  by (auto simp: account_halted_def Engine_newDay_def PropFirmEnforcer_IsHalted_def enforcer_evolves_def
      split: option.splits)

lemma halted_frame:
  "account_halted (Engine_window cfg c s) = account_halted s" "positions (Engine_window cfg c s) = positions s"
  "positions (Engine_newDay c s) = positions s"
  "account_halted (Engine_put_runner cfg symb r s) = account_halted s" "positions (Engine_put_runner cfg symb r s) = positions s"
  "account_halted (diag f s) = account_halted s" "positions (diag f s) = positions s"
  by (simp_all add: account_halted_def positions_def Engine_window_def Engine_newDay_def Engine_put_runner_def diag_def
      Let_def split: option.split)

lemma halted_market:
  "account_halted (Engine_market env cfg c regime s) = account_halted s"
  "positions (Engine_market env cfg c regime s) = positions s"
  unfolding Engine_market_def Let_def halted_frame by (simp_all add: account_halted_def positions_def)

lemma halted_atr:
  "account_halted (snd (Engine_atr env cfg c s)) = account_halted s"
  "positions (snd (Engine_atr env cfg c s)) = positions s"
  by (simp_all add: Engine_atr_def Let_def halted_frame)

lemma halted_adverse:
  "account_halted (Engine_adverse c s) = account_halted s"
  "positions (Engine_adverse c s) = positions s"
proof -
  have "be_ftmo (Engine_adverse c s) = be_ftmo s" "ru_activeStops (Engine_adverse c s) = ru_activeStops s"
    "ru_trades (Engine_adverse c s) = ru_trades s" "ru_capital (Engine_adverse c s) = ru_capital s"
    by (simp_all add: Engine_adverse_def Let_def split: option.split)
  then show "account_halted (Engine_adverse c s) = account_halted s" "positions (Engine_adverse c s) = positions s"
    by (simp_all add: account_halted_def positions_def adverse_symbols adverse_entries(2))
qed

lemma halted_regime:
  "account_halted (s\<lparr>be_ftmo := map_option (\<lambda>f. f\<lparr>en_CurrentRegime := regime\<rparr>) (be_ftmo s)\<rparr>) = account_halted s"
  "positions (s\<lparr>be_ftmo := z\<rparr>) = positions s"
  by (simp_all add: account_halted_def positions_def PropFirmEnforcer_IsHalted_def split: option.split)

lemma halted_bar:
  assumes "account_halted s"
  shows "account_halted (Engine_bar env cfg i prev c s) \<and> positions (Engine_bar env cfg i prev c s) = positions s"
proof -
  define a where "a = Engine_newDay c (Engine_window cfg c (diag (sd_CandlesSeen_update (\<lambda>n. n + 1)) s))"
  define regime where "regime = regimeAt (buildRegimeIndex (nv_regimeLogs env)) (ca_Symbol c) (ca_Time c)"
  obtain z t where t: "Engine_atr env cfg c (Engine_market env cfg c regime a) = (z, t)" by fastforce
  define u where "u = (Engine_adverse c t)\<lparr>be_ftmo := map_option (\<lambda>f. f\<lparr>en_CurrentRegime := regime\<rparr>) (be_ftmo (Engine_adverse c t))\<rparr>"
  have a: "account_halted a" "positions a = positions s"
    unfolding a_def by (simp_all add: newDay_halted halted_frame assms)
  then have t': "account_halted t" "positions t = positions s"
    using halted_atr [of env cfg c "Engine_market env cfg c regime a"] t by (simp_all add: halted_market)
  then have u: "account_halted u" "positions u = positions s"
    unfolding u_def halted_regime by (simp_all add: halted_adverse)
  have h: "(case be_ftmo u of None \<Rightarrow> False | Some f \<Rightarrow> PropFirmEnforcer_IsHalted f)"
    using u(1) by (simp add: account_halted_def)
  show ?thesis
    unfolding Engine_bar_def Let_def a_def [symmetric] regime_def [symmetric] t prod.case u_def [symmetric]
    using a t' u h assms by (auto simp: halted_frame)
qed

text \<open>C5: A halted prop firm account freezes its positions. Once the enforcer is halted no later bar
  of the run fills an entry, moves or honours a stop, closes a trade or changes the capital: an open
  position is carried past its stop to the end of the data.\<close>

theorem halted_run_freezes_positions:
  assumes "be_ftmo s = Some f" "PropFirmEnforcer_IsHalted f"
  shows "let s' = Engine_loop env cfg i prev candles s in
    dom (mlookup (ru_openTrades s')) = dom (mlookup (ru_openTrades s)) \<and> ru_activeStops s' = ru_activeStops s \<and>
    ru_pendingEntries s' = ru_pendingEntries s \<and> ru_trades s' = ru_trades s \<and> ru_capital s' = ru_capital s \<and>
    account_halted s'"
proof -
  have "account_halted s \<Longrightarrow> account_halted (Engine_loop env cfg i prev candles s) \<and>
      positions (Engine_loop env cfg i prev candles s) = positions s" for s
  proof (induction candles arbitrary: i prev s)
    case (Cons c cs)
    from halted_bar [OF Cons.prems, of env cfg i prev c] Cons.IH [of "Engine_bar env cfg i prev c s"] show ?case
      by simp
  qed simp
  moreover have "account_halted s" using assms by (simp add: account_halted_def)
  ultimately show ?thesis unfolding Let_def by (simp add: positions_def)
qed

lemma halted_run_freezes_positions_witness:
  "let s' = Engine_loop buy_env run_cfg 0 None rising_bars (new_engine\<lparr>be_ftmo := Some ((DefaultPropFirmEnforcer
       (lit 100000))\<lparr>en_halted := True\<rparr>), ru_openTrades := [(''A'', zero_trade)]\<rparr>)
   in dom (mlookup (ru_openTrades s')) = {''A''} \<and> ru_trades s' = [] \<and> account_halted s'"
  using halted_run_freezes_positions [of "new_engine\<lparr>be_ftmo := Some ((DefaultPropFirmEnforcer (lit 100000))
      \<lparr>en_halted := True\<rparr>), ru_openTrades := [(''A'', zero_trade)]\<rparr>" _ buy_env run_cfg 0 None rising_bars]
  by (simp add: PropFirmEnforcer_IsHalted_def new_engine_def EngineBuilder_Build_def Let_def)

section \<open>The regime of a bar\<close>

lemma regime_search_bounds:
  assumes "sorted (map fst logs)" "lo \<le> hi" "hi \<le> length logs"
    "\<And>j. j < lo \<Longrightarrow> fst (logs ! j) \<le> t" "\<And>j. hi \<le> j \<Longrightarrow> j < length logs \<Longrightarrow> t < fst (logs ! j)"
  shows "(let r = regime_search logs t lo hi in r \<le> length logs \<and> (\<forall>j < r. fst (logs ! j) \<le> t) \<and>
    (\<forall>j. r \<le> j \<and> j < length logs \<longrightarrow> t < fst (logs ! j)))"
  using assms
proof (induction logs t lo hi rule: regime_search.induct)
  case (1 logs t lo hi)
  have mono: "fst (logs ! a) \<le> fst (logs ! b)" if "a \<le> b" "b < length logs" for a b
    using sorted_nth_mono [OF 1(3) that(1)] that by simp
  show ?case
  proof (cases "lo < hi")
    case False
    with 1(4-7) show ?thesis by (subst regime_search.simps) (auto simp: Let_def)
  next
    case True
    let ?m = "(lo + hi) div 2"
    have m: "lo \<le> ?m" "?m < hi" "?m < length logs" using True 1(5) by auto
    show ?thesis
    proof (cases "t < fst (logs ! ?m)")
      case True
      have "t < fst (logs ! j)" if "?m \<le> j" "j < length logs" for j
        using mono [OF that] True by simp
      from 1(1) [OF \<open>lo < hi\<close> refl True 1(3) m(1) _ 1(6) this] m show ?thesis
        using True \<open>lo < hi\<close> by (subst regime_search.simps) (simp add: Let_def)
    next
      case False
      have "fst (logs ! j) \<le> t" if "j < ?m + 1" for j
        using mono [of j ?m] that m False by simp
      from 1(2) [OF \<open>lo < hi\<close> refl False 1(3) _ 1(5) this 1(7)] m show ?thesis
        using False \<open>lo < hi\<close> by (subst regime_search.simps) (simp add: Let_def)
    qed
  qed
qed

lemma filter_prefix:
  assumes "r \<le> length xs" "\<forall>j < r. P (xs ! j)" "\<forall>j. r \<le> j \<and> j < length xs \<longrightarrow> \<not> P (xs ! j)"
  shows "filter P xs = take r xs"
proof -
  have "filter P (take r xs) = take r xs" "filter P (drop r xs) = []"
    using assms by (auto simp: filter_id_conv filter_empty_conv in_set_conv_nth)
  then show ?thesis by (metis append_Nil2 append_take_drop_id filter_append)
qed

lemma regime_index: "mget [] (buildRegimeIndex logs) symb = map snd (filter (\<lambda>l. fst l = symb) logs)"
  unfolding buildRegimeIndex_def by (induction logs rule: rev_induct) (auto simp: mget_def)

text \<open>C19: The regime of a bar is the state of the last log of its own symbol that is not after it,
  zero without one, for logs in the order of time: the binary search agrees with the scan.\<close>

theorem regimeAt_is_latest_log:
  assumes "sorted (map (\<lambda>(symb, u, h). u) logs)"
  shows "regimeAt (buildRegimeIndex logs) symb t =
    (case filter (\<lambda>(s, u, h). s = symb \<and> u \<le> t) logs of [] \<Rightarrow> 0 | l # ls \<Rightarrow> snd (snd (last (l # ls))))"
proof -
  let ?ls = "map snd (filter (\<lambda>l. fst l = symb) logs)"
  let ?r = "regime_search ?ls t 0 (length ?ls)"
  have f: "map fst ?ls = map (\<lambda>(symb, u, h). u) (filter (\<lambda>l. fst l = symb) logs)" by (simp add: case_prod_beta)
  have sorted: "sorted (map fst ?ls)" unfolding f using assms by (rule sorted_filter)
  have r: "?r \<le> length ?ls" "\<forall>j < ?r. fst (?ls ! j) \<le> t" "\<forall>j. ?r \<le> j \<and> j < length ?ls \<longrightarrow> t < fst (?ls ! j)"
    using regime_search_bounds [OF sorted, of 0 "length ?ls" t] by (auto simp: Let_def)
  have "filter (\<lambda>l. fst l \<le> t) ?ls = take ?r ?ls"
    using r by (intro filter_prefix) auto
  moreover have "filter (\<lambda>l. fst l \<le> t) ?ls = map snd (filter (\<lambda>(s, u, h). s = symb \<and> u \<le> t) logs)"
    by (auto simp: filter_map comp_def intro!: arg_cong [of _ _ "map snd"] filter_cong)
  ultimately have m: "map snd (filter (\<lambda>(s, u, h). s = symb \<and> u \<le> t) logs) = take ?r ?ls" by simp
  show ?thesis
  proof (cases "?r = 0")
    case True
    with m have "filter (\<lambda>(s, u, h). s = symb \<and> u \<le> t) logs = []" by simp
    with True show ?thesis by (simp add: regimeAt_def regime_index Let_def)
  next
    case False
    with r(1) have "?ls \<noteq> []" by auto
    obtain l ls where l: "filter (\<lambda>(s, u, h). s = symb \<and> u \<le> t) logs = l # ls"
      using m False \<open>?ls \<noteq> []\<close> by (cases "filter (\<lambda>(s, u, h). s = symb \<and> u \<le> t) logs") auto
    have "snd (last (l # ls)) = last (take ?r ?ls)" unfolding m [symmetric] l by (simp add: last_map)
    also have "\<dots> = ?ls ! (?r - 1)" using False r(1) \<open>?ls \<noteq> []\<close> by (subst last_conv_nth) (auto simp: min_absorb2)
    finally have "snd (last (l # ls)) = ?ls ! (?r - 1)" .
    with False \<open>?ls \<noteq> []\<close> l show ?thesis unfolding regimeAt_def regime_index Let_def by simp
  qed
qed

lemma regimeAt_is_latest_log_witness:
  "regimeAt (buildRegimeIndex [(''A'', 1, 2), (''B'', 3, 1), (''A'', 5, 3)]) ''A'' 4 = 2"
  by (subst regimeAt_is_latest_log) simp_all

section \<open>Exits by signal\<close>

lemma runner_frame:
  "Engine_runner env cfg symb (Engine_dynamic env c regime (Engine_trail c s)) = Engine_runner env cfg symb s"
  by (simp add: Engine_runner_def Engine_dynamic_def Engine_trail_def Let_def case_prod_beta split: option.split)

text \<open>C18: Any signal closes an open position. When neither the stop nor the target of the position, if
  it has any, is hit after they were moved for the bar, and the strategy answers with a signal,
  whatever its side or action, the position of the symbol is closed and booked on that bar: a signal
  that repeats the side of the position closes it too. The reason booked is the reversed signal,
  or that the profit was clamped.\<close>

theorem any_signal_closes_position:
  assumes "mlookup (ru_openTrades s) (ca_Symbol c) = Some ot"
    "fst (resolveStopTarget c (mlookup (ru_activeStops (Engine_dynamic env c regime (Engine_trail c s))) (ca_Symbol c))) = ''''"
    "fst (nv_evaluate env (Engine_runner env cfg (ca_Symbol c) s) c regime) = Some (Some sig)"
  shows "let s' = Engine_exits env i cfg c regime s in mlookup (ru_openTrades s') (ca_Symbol c) = None \<and>
    (\<exists>t. ru_trades s' = ru_trades s @ [t] \<and> tr_ExitReason t \<in> {''signal_reverse'', ''pnl_clamped''})"
proof -
  define d where "d = Engine_dynamic env c regime (Engine_trail c s)"
  define e where "e = d\<lparr>ru_openTrades := mput (ru_openTrades d) (ca_Symbol c) (excursion_update c ot)\<rparr>"
  define p where "p = Price_Float64 (ca_Close c) * adjFactor (ca_AdjustmentFactor c)"
  have "Engine_runner env cfg (ca_Symbol c) e = Engine_runner env cfg (ca_Symbol c) s"
    using runner_frame [of env cfg "ca_Symbol c" c regime s] by (simp add: e_def Engine_runner_def flip: d_def)
  then obtain g where g: "Engine_generateSignalForExit env cfg c regime e = (True, g)"
    using assms(3) by (cases "nv_evaluate env (Engine_runner env cfg (ca_Symbol c) s) c regime")
      (simp add: Engine_generateSignalForExit_def Engine_evaluate_def Let_def)
  have lg: "ledger g = ledger e" using ledger_frame(11) [of env cfg c regime e] g by simp
  have ld: "ledger d = ledger s" by (simp add: d_def)
  have x: "Engine_exits env i cfg c regime s = Engine_closeTrade env i cfg c regime (excursion_update c ot) p ''signal_reverse'' g"
    using assms(2) unfolding Engine_exits_def Let_def assms(1) option.case d_def [symmetric] e_def [symmetric]
    by (simp add: g p_def case_prod_beta)
  define t where "t = fst (closed_fill env cfg c regime (excursion_update c ot) p ''signal_reverse'' g)"
  have "tr_ExitReason t \<in> {''signal_reverse'', ''pnl_clamped''}"
    by (simp add: t_def closed_fill_def close_trade_def with_excursions_def Let_def case_prod_beta)
  moreover have "ru_trades (Engine_exits env i cfg c regime s) = ru_trades s @ [t]"
    "mlookup (ru_openTrades (Engine_exits env i cfg c regime s)) (ca_Symbol c) = None"
    using closeTrade_ledger [of env i cfg c regime "excursion_update c ot" p "''signal_reverse''" g] ledger_sel [OF lg]
      ledger_sel(3) [OF ld]
    by (simp_all add: x t_def [symmetric] ledger_def Let_def e_def)
  ultimately show ?thesis by auto
qed

text \<open>The position of the sample has a stop below the bar.\<close>

lemma any_signal_closes_position_witness:
  "let s' = Engine_exits buy_env 1 run_cfg (bar_at 10100000 10200000 10000000 10100000) 0
       (new_engine\<lparr>ru_openTrades := [(''A'', zero_trade\<lparr>tr_Side := ''BUY''\<rparr>)],
          ru_activeStops := [(''A'', long_stop\<lparr>as_StopType := '''', as_TakePrice := 0\<rparr>)]\<rparr>)
   in mlookup (ru_openTrades s') ''A'' = None \<and> length (ru_trades s') = 1"
proof -
  define s where "s = new_engine\<lparr>ru_openTrades := [(''A'', zero_trade\<lparr>tr_Side := ''BUY''\<rparr>)],
    ru_activeStops := [(''A'', long_stop\<lparr>as_StopType := '''', as_TakePrice := 0\<rparr>)]\<rparr>"
  have st: "mlookup (ru_activeStops s) ''A'' = Some (long_stop\<lparr>as_StopType := '''', as_TakePrice := 0\<rparr>)"
    "mlookup (ru_openTrades s) ''A'' = Some (zero_trade\<lparr>tr_Side := ''BUY''\<rparr>)" "ru_trades s = []"
    by (simp_all add: s_def new_engine_def EngineBuilder_Build_def)
  have "mlookup (ru_activeStops (Engine_dynamic buy_env (bar_at 10100000 10200000 10000000 10100000) 0
      (Engine_trail (bar_at 10100000 10200000 10000000 10100000) s))) ''A'' = Some (long_stop\<lparr>as_StopType := '''', as_TakePrice := 0\<rparr>)"
    by (simp add: Engine_trail_def Engine_dynamic_def Let_def buy_env_def st StopLossTrail_def bar_at_def)
  then show ?thesis unfolding s_def [symmetric]
    using any_signal_closes_position [of s "bar_at 10100000 10200000 10000000 10100000" "zero_trade\<lparr>tr_Side := ''BUY''\<rparr>"
        buy_env 0 run_cfg _ 1]
    by (auto simp: st buy_env_def Let_def resolveStopTarget_def CheckStopHit_def CheckTakeProfitHit_def long_stop_def
        small_price_def bar_at_def)
qed

section \<open>The wiring\<close>

text \<open>The pipeline is wired before a run makes the enforcer, so its prop firm gate is absent.\<close>

lemma pipeline_misses_enforcer:
  "let s = Engine_start env (cfg\<lparr>bc_PropFirmEnabled := True\<rparr>) (Engine_wire now (EngineBuilder_Build slippage rng ml)) in
   be_ftmo s \<noteq> None \<and> map_option rp_PropFirm (be_pipeline s) = Some None"
  by (simp add: Engine_start_def Engine_wire_def EngineBuilder_Build_def Engine_WirePipeline_def Let_def)

end
