(* ===== verification/Metrics.thy ===== *)
theory Metrics
  imports Trades Rebalance "HOL-Library.Multiset"
begin

text \<open>
  The figures of a finished run, \<open>internal/backtest/metrics.go\<close> and the \<open>calculate\<close> functions
  of \<open>internal/backtest/engine.go\<close>: returns, Sharpe and Sortino ratios, drawdowns, counts of
  trades by result, side, regime and period, the bars of a day and the data check. A day is
  \<open>day_of\<close> of the instant, in UTC; years, months and weeks are computed by the civil calendar, as
  \<open>time.Format\<close> and \<open>time.ISOWeek\<close> do. \<open>math.Pow\<close> is the parameter \<open>powf\<close>. The registry of
  metrics and its formatters are left out.
\<close>

section \<open>The calendar\<close>

text \<open>Year, month and day of a day number; the day number of a first of January.\<close>

definition civil :: "int \<Rightarrow> int \<times> int \<times> int" where
  "civil n =
     (let z = n + 719468; era = z div 146097; doe = z mod 146097;
          yoe = (doe - doe div 1460 + doe div 36524 - doe div 146096) div 365;
          doy = doe - (365 * yoe + yoe div 4 - yoe div 100);
          mp = (5 * doy + 2) div 153;
          m = (if mp < 10 then mp + 3 else mp - 9)
      in (yoe + era * 400 + (if m \<le> 2 then 1 else 0), m, doy - (153 * mp + 2) div 5 + 1))"

definition first_of_year :: "int \<Rightarrow> int" where
  "first_of_year y = (let p = y - 1 in 365 * p + p div 4 - p div 100 + p div 400 - 719162)"

text \<open>Decimal digits, padded to a width.\<close>

fun decimal :: "nat \<Rightarrow> int \<Rightarrow> string" where
  "decimal 0 n = ''''"
| "decimal (Suc w) n = decimal w (n div 10) @ [char_of (48 + nat (n mod 10))]"

definition year_key :: "int \<Rightarrow> string" where
  "year_key t = (let (y, m, d) = civil (day_of t) in decimal 4 y)"

definition month_key :: "int \<Rightarrow> string" where
  "month_key t = (let (y, m, d) = civil (day_of t) in decimal 4 y @ ''-'' @ decimal 2 m)"

definition day_key :: "int \<Rightarrow> string" where
  "day_key t = (let (y, m, d) = civil (day_of t) in decimal 4 y @ ''-'' @ decimal 2 m @ ''-'' @ decimal 2 d)"

text \<open>The week of the Thursday of the week.\<close>

definition isoWeek :: "int \<Rightarrow> string" where
  "isoWeek t =
     (let d = day_of t; thursday = d - (d + 3) mod 7 + 3; (y, m, k) = civil thursday
      in decimal 4 y @ ''-W'' @ decimal 2 ((thursday - first_of_year y) div 7 + 1))"

definition weekend :: "int \<Rightarrow> bool" where
  "weekend t = ((day_of t + 4) mod 7 \<in> {0, 6})"

section \<open>Returns and ratios\<close>

definition fsum :: "f64 list \<Rightarrow> f64" where
  "fsum xs = foldl (\<lambda>s x. s + x) 0 xs"

definition mean :: "f64 list \<Rightarrow> f64" where
  "mean values = (if values = [] then 0 else fsum values / float_of_int (int (length values)))"

definition squares :: "f64 \<Rightarrow> f64 list \<Rightarrow> f64" where
  "squares m values = foldl (\<lambda>s v. s + (v - m) * (v - m)) 0 values"

definition stdDev :: "f64 list \<Rightarrow> f64" where
  "stdDev values = (if length values < 2 then 0
     else math_sqrt (squares (mean values) values / float_of_int (int (length values) - 1)))"

text \<open>The last value of every day, in the order of the days' first points.\<close>

definition day_closes :: "EquityPoint list \<Rightarrow> (int, f64) gomap" where
  "day_closes equity = foldl (\<lambda>m p. mput m (day_of (eq_Time p)) (eq_Value p)) [] equity"

text \<open>The returns between neighbours: a previous value that is not positive yields zero, or, in the
  engine, no return at all.\<close>

fun step_returns :: "f64 list \<Rightarrow> f64 list" where
  "step_returns (a # b # xs) = (if a > 0 then (b - a) / a else 0) # step_returns (b # xs)"
| "step_returns _ = []"

fun positive_returns :: "f64 list \<Rightarrow> f64 list" where
  "positive_returns (a # b # xs) =
     (if a > 0 then (b - a) / a # positive_returns (b # xs) else positive_returns (b # xs))"
| "positive_returns _ = []"

definition equityToDailyReturns :: "EquityPoint list \<Rightarrow> f64 list" where
  "equityToDailyReturns equity = (if length equity < 2 then [] else step_returns (map snd (day_closes equity)))"

definition equityToReturns :: "EquityPoint list \<Rightarrow> f64 list" where
  "equityToReturns equity = step_returns (map eq_Value equity)"

definition computeSharpe :: "EquityPoint list \<Rightarrow> f64" where
  "computeSharpe equity =
     (let returns = equityToDailyReturns equity in
      if length returns < 2 then 0
      else if feq (stdDev returns) 0 then 0
      else mean returns / stdDev returns * math_sqrt (lit 252))"

definition calculateMtmSharpe :: "EquityPoint list \<Rightarrow> f64 \<Rightarrow> f64" where
  "calculateMtmSharpe equity barsPerDay = computeSharpe equity"

text \<open>The sum of the squared losses.\<close>

definition downside_sum :: "f64 list \<Rightarrow> f64" where
  "downside_sum returns = foldl (\<lambda>s r. s + r * r) 0 (filter (\<lambda>r. r < 0) returns)"

definition downside_count :: "f64 list \<Rightarrow> int" where
  "downside_count returns = int (length (filter (\<lambda>r. r < 0) returns))"

definition computeSortino :: "EquityPoint list \<Rightarrow> f64" where
  "computeSortino equity =
     (let returns = equityToDailyReturns equity in
      if length returns < 2 then 0 else
      let m = mean returns; sumSq = downside_sum returns; count = downside_count returns
      in if count = 0 \<or> feq sumSq 0 then 0 else
      let downside = math_sqrt (sumSq / float_of_int count)
      in if downside < \<bar>m\<bar> * lit (10/100) then 0 else
      let sortino = m / downside * math_sqrt (lit 252)
      in if sortino > lit 20 then 0 else sortino)"

definition calculateSharpe :: "EquityPoint list \<Rightarrow> f64 \<Rightarrow> f64" where
  "calculateSharpe equity barsPerDay =
     (if length equity < 2 then 0 else
      let days = map snd (day_closes equity) in
      if length days < 2 then 0 else
      let returns = positive_returns days in
      if length returns < 2 then 0 else
      let m = fsum returns / float_of_int (int (length returns));
          variance = squares m returns / float_of_int (int (length returns) - 1)
      in if feq variance 0 then 0
         else if math_sqrt variance < lit (1 / 10 ^ 6) then 0
         else m / math_sqrt variance * math_sqrt (lit 252))"

definition calculateSortino :: "EquityPoint list \<Rightarrow> f64 \<Rightarrow> f64" where
  "calculateSortino equity barsPerDay =
     (if length equity < 2 then 0 else
      let days = map snd (day_closes equity) in
      if length days < 2 then 0 else
      let returns = positive_returns days in
      if length returns < 2 then 0 else
      let m = fsum returns / float_of_int (int (length returns));
          sumSq = downside_sum returns; count = downside_count returns
      in if count = 0 \<or> feq sumSq 0 then 0
         else if is_nan m \<or> is_nan sumSq \<or> is_inf m \<or> is_inf sumSq then 0 else
      let downStdDev = math_sqrt (sumSq / float_of_int count)
      in if downStdDev < lit (1 / 10 ^ 6) then 0 else
      let result = m / downStdDev * math_sqrt (lit 252)
      in if is_nan result \<or> is_inf result then 0 else result)"

definition computeTotalReturn :: "EquityPoint list \<Rightarrow> f64" where
  "computeTotalReturn equity =
     (if length equity < 2 then 0 else
      let initial = eq_Value (hd equity); final = eq_Value (last equity)
      in if feq initial 0 then 0 else (final - initial) / initial * lit 100)"

definition computeCAGR :: "(f64 \<Rightarrow> f64 \<Rightarrow> f64) \<Rightarrow> EquityPoint list \<Rightarrow> f64" where
  "computeCAGR powf equity =
     (if length equity < 2 then 0 else
      let initial = eq_Value (hd equity); final = eq_Value (last equity)
      in if initial \<le> 0 \<or> final \<le> 0 then 0 else
      let days = duration_hours (duration_between (eq_Time (hd equity)) (eq_Time (last equity))) / lit 24
      in if days < 1 then 0 else
      let years = days / lit (36525/100)
      in (powf (final / initial) (1 / years) - 1) * lit 100)"

section \<open>Drawdowns\<close>

text \<open>A point of the curve: the peak and the largest drawdown so far.\<close>

definition drawdown_step :: "f64 \<times> f64 \<Rightarrow> EquityPoint \<Rightarrow> f64 \<times> f64" where
  "drawdown_step = (\<lambda>(peak, maxDD) p.
     let peak = (if eq_Value p > peak then eq_Value p else peak);
         dd = (peak - eq_Value p) / peak * lit 100
     in (peak, if dd > maxDD then dd else maxDD))"

definition computeMaxDrawdown :: "EquityPoint list \<Rightarrow> f64" where
  "computeMaxDrawdown equity = (case equity of [] \<Rightarrow> 0
     | p # ps \<Rightarrow> snd (foldl drawdown_step (eq_Value p, 0) equity))"

definition calculateMaxDrawdown :: "EquityPoint list \<Rightarrow> f64" where
  "calculateMaxDrawdown equity = snd (foldl drawdown_step (0, 0) equity)"

definition calculateCalmar :: "(f64 \<Rightarrow> f64 \<Rightarrow> f64) \<Rightarrow> EquityPoint list \<Rightarrow> f64 \<Rightarrow> f64" where
  "calculateCalmar powf equity barsPerDay =
     (if length equity < 2 then 0 else
      if computeMaxDrawdown equity \<le> 0 then 0 else computeCAGR powf equity / computeMaxDrawdown equity)"

text \<open>Peak, current and longest duration, and whether the curve is below its peak.\<close>

definition duration_step :: "f64 \<times> int \<times> int \<times> bool \<Rightarrow> EquityPoint \<Rightarrow> f64 \<times> int \<times> int \<times> bool" where
  "duration_step = (\<lambda>(peak, current, longest, inDrawdown) p.
     if eq_Value p \<ge> peak then
       (if inDrawdown then (eq_Value p, 0, if current > longest then current else longest, False)
        else (eq_Value p, current, longest, inDrawdown))
     else (peak, current + 1, longest, True))"

definition calculateMaxDrawdownDuration :: "EquityPoint list \<Rightarrow> int" where
  "calculateMaxDrawdownDuration equity =
     (let (peak, current, longest, inDrawdown) = foldl duration_step (0, 0, 0, False) equity
      in if current > longest then current else longest)"

definition computeMaxDrawdownDuration :: "EquityPoint list \<Rightarrow> f64" where
  "computeMaxDrawdownDuration equity = float_of_int (calculateMaxDrawdownDuration equity)"

section \<open>Wins and losses\<close>

definition winning :: "Trade \<Rightarrow> bool" where
  "winning t \<longleftrightarrow> tr_PnL t > 0"

definition count_trades :: "(Trade \<Rightarrow> bool) \<Rightarrow> Trade list \<Rightarrow> int" where
  "count_trades f trades = int (length (filter f trades))"

definition calculateWinRate :: "Trade list \<Rightarrow> f64" where
  "calculateWinRate trades = (if trades = [] then 0
     else float_of_int (count_trades winning trades) / float_of_int (int (length trades)) * lit 100)"

definition computeWinRate :: "Trade list \<Rightarrow> f64" where
  "computeWinRate trades = (if trades = [] then 0
     else float_of_int (count_trades winning trades) / float_of_int (int (length trades)) * lit 100)"

definition countWinsLosses :: "Trade list \<Rightarrow> int \<times> int" where
  "countWinsLosses trades =
     foldl (\<lambda>(wins, losses) t. if tr_PnL t > 0 then (wins + 1, losses) else (wins, losses + 1)) (0, 0) trades"

text \<open>The sums of the profits and of the losses.\<close>

definition gross :: "Trade list \<Rightarrow> f64 \<times> f64" where
  "gross trades = (fsum (map tr_PnL (filter winning trades)),
     fsum (map (\<lambda>t. - tr_PnL t) (filter (\<lambda>t. \<not> winning t) trades)))"

definition calculateProfitFactor :: "Trade list \<Rightarrow> f64" where
  "calculateProfitFactor trades =
     (if trades = [] then 0 else
      let (grossWin, grossLoss) = gross trades
      in if feq grossLoss 0 then (if grossWin > 0 then lit 999 else 0)
         else if is_nan grossWin \<or> is_nan grossLoss \<or> is_inf grossWin \<or> is_inf grossLoss then 0
         else grossWin / grossLoss)"

definition computeProfitFactor :: "Trade list \<Rightarrow> f64" where
  "computeProfitFactor trades =
     (let (grossProfit, grossLoss) = gross trades
      in if feq grossLoss 0 then (if grossProfit > 0 then FPosInf else 0)
         else if grossProfit / grossLoss > lit 100 then FPosInf else grossProfit / grossLoss)"

definition calculateAvgWinLoss :: "Trade list \<Rightarrow> f64 \<times> f64" where
  "calculateAvgWinLoss trades =
     (let (wins, losses) = gross trades; winCount = count_trades winning trades;
          lossCount = count_trades (\<lambda>t. \<not> winning t) trades
      in (if winCount > 0 then wins / float_of_int winCount else 0,
          if lossCount > 0 then losses / float_of_int lossCount else 0))"

definition calculateAdverseSelectionRate :: "Trade list \<Rightarrow> f64" where
  "calculateAdverseSelectionRate trades = (if trades = [] then 0
     else float_of_int (count_trades tr_AdverseSelection trades) / float_of_int (int (length trades)) * lit 100)"

section \<open>Long and short\<close>

record LongShortBreakdown =
  ls_LongTrades :: int
  ls_ShortTrades :: int
  ls_LongWins :: int
  ls_ShortWins :: int
  ls_LongWinRate :: f64
  ls_ShortWinRate :: f64
  ls_LongGrossPnL :: f64
  ls_ShortGrossPnL :: f64
  ls_LongAvgPnL :: f64
  ls_ShortAvgPnL :: f64
  ls_LongPF :: f64
  ls_ShortPF :: f64
  ls_LongAvgMAE :: f64
  ls_ShortAvgMAE :: f64
  ls_LongAvgMFE :: f64
  ls_ShortAvgMFE :: f64
  ls_DirectionalBias :: f64

definition not_finite :: "f64 \<Rightarrow> bool" where
  "not_finite x \<longleftrightarrow> is_nan x \<or> is_inf x"

definition usable :: "Trade \<Rightarrow> bool" where
  "usable t \<longleftrightarrow> \<not> not_finite (tr_PnL t) \<and> \<not> not_finite (tr_MAE t) \<and> \<not> not_finite (tr_MFE t)"

text \<open>One side: trades, wins, win rate, gross and average profit, profit factor, excursions.\<close>

definition side_average :: "f64 \<Rightarrow> int \<Rightarrow> f64" where
  "side_average x n = (if n > 0 then x / float_of_int n else 0)"

definition side_factor :: "f64 \<Rightarrow> f64 \<Rightarrow> f64" where
  "side_factor grossPnL loss = (if loss > 0 then (grossPnL + loss) / loss else if grossPnL > 0 then lit 999 else 0)"

definition calculateLongShortBreakdown :: "Trade list \<Rightarrow> LongShortBreakdown" where
  "calculateLongShortBreakdown trades =
     (let longs = filter (\<lambda>t. usable t \<and> tr_Side t = ''BUY'') trades;
          shorts = filter (\<lambda>t. usable t \<and> tr_Side t \<noteq> ''BUY'') trades;
          nl = int (length longs); ns = int (length shorts);
          wl = count_trades winning longs; ws = count_trades winning shorts;
          gl = fsum (map tr_PnL longs); gs = fsum (map tr_PnL shorts);
          total = \<bar>gl\<bar> + \<bar>gs\<bar>
      in \<lparr>ls_LongTrades = nl, ls_ShortTrades = ns, ls_LongWins = wl, ls_ShortWins = ws,
          ls_LongWinRate = (if nl > 0 then float_of_int wl / float_of_int nl * lit 100 else 0),
          ls_ShortWinRate = (if ns > 0 then float_of_int ws / float_of_int ns * lit 100 else 0),
          ls_LongGrossPnL = gl, ls_ShortGrossPnL = gs,
          ls_LongAvgPnL = side_average gl nl, ls_ShortAvgPnL = side_average gs ns,
          ls_LongPF = side_factor gl (snd (gross longs)), ls_ShortPF = side_factor gs (snd (gross shorts)),
          ls_LongAvgMAE = side_average (fsum (map tr_MAE longs)) nl,
          ls_ShortAvgMAE = side_average (fsum (map tr_MAE shorts)) ns,
          ls_LongAvgMFE = side_average (fsum (map tr_MFE longs)) nl,
          ls_ShortAvgMFE = side_average (fsum (map tr_MFE shorts)) ns,
          ls_DirectionalBias = (if total > 0 then (gl - gs) / total else 0)\<rparr>)"

section \<open>Days, regimes and periods\<close>

record DailyReturn =
  dr_Date :: int
  dr_Return :: f64

fun daily_from :: "(int \<times> f64) list \<Rightarrow> DailyReturn list" where
  "daily_from ((d, prev) # (e, cur) # xs) =
     \<lparr>dr_Date = e * 86400000000000, dr_Return = (if prev > 0 then (cur - prev) / prev * lit 100 else 0)\<rparr>
     # daily_from ((e, cur) # xs)"
| "daily_from _ = []"

definition calculateDailyReturns :: "EquityPoint list \<Rightarrow> DailyReturn list" where
  "calculateDailyReturns equity = (if length equity < 2 then [] else daily_from (sort_key fst (day_closes equity)))"

record RegimeStat =
  rg_Regime :: int
  rg_Label :: string
  rg_NumTrades :: int
  rg_WinRate :: f64
  rg_TotalReturn :: f64

definition regime_label :: "int \<Rightarrow> string" where
  "regime_label r = (if r = 0 then ''Calm'' else if r = 1 then ''Trending''
     else if r = 2 then ''High Vol'' else if r = 3 then ''Crisis'' else '''')"

text \<open>The statistics of a regime; the return is the average profit of its trades.\<close>

definition regime_stat :: "Trade list \<Rightarrow> int \<Rightarrow> RegimeStat" where
  "regime_stat trades r =
     (let ts = filter (\<lambda>t. tr_HMMRegime t = r) trades; n = float_of_int (int (length ts))
      in \<lparr>rg_Regime = r, rg_Label = regime_label r, rg_NumTrades = int (length ts),
          rg_WinRate = float_of_int (count_trades winning ts) / n * lit 100,
          rg_TotalReturn = fsum (map tr_PnL ts) / n\<rparr>)"

definition calculateRegimeStats :: "Trade list \<Rightarrow> RegimeStat list" where
  "calculateRegimeStats trades = map (regime_stat trades) (sort (remdups (map tr_HMMRegime trades)))"

record PeriodStat =
  pe_Period :: string
  pe_NetPnL :: f64
  pe_NumTrades :: int
  pe_WinRate :: f64
  pe_GrossProfit :: f64
  pe_GrossLoss :: f64
  pe_Commission :: f64
  pe_BrokerFees :: f64

definition new_period :: "string \<Rightarrow> PeriodStat" where
  "new_period key = \<lparr>pe_Period = key, pe_NetPnL = 0, pe_NumTrades = 0, pe_WinRate = 0, pe_GrossProfit = 0,
     pe_GrossLoss = 0, pe_Commission = 0, pe_BrokerFees = 0\<rparr>"

definition period_add :: "Trade \<Rightarrow> PeriodStat \<Rightarrow> PeriodStat" where
  "period_add t ps =
     (let n = pe_NumTrades ps + 1
      in ps\<lparr>pe_NumTrades := n, pe_NetPnL := pe_NetPnL ps + tr_PnL t, pe_BrokerFees := pe_BrokerFees ps + tr_BrokerFee t,
            pe_Commission := pe_Commission ps
              + Price_Float64 (tr_EntryPrice t) * tr_Quantity t * lit (5/1000) / lit 10000 * lit 2,
            pe_GrossProfit := (if tr_PnL t > 0 then pe_GrossProfit ps + tr_PnL t else pe_GrossProfit ps),
            pe_GrossLoss := (if tr_PnL t < 0 then pe_GrossLoss ps + (- tr_PnL t) else pe_GrossLoss ps),
            pe_WinRate := (if n > 0 \<and> tr_PnL t > 0
               then (pe_WinRate ps * float_of_int (n - 1) + lit 100) / float_of_int n
               else if n > 0 then pe_WinRate ps * float_of_int (n - 1) / float_of_int n else pe_WinRate ps)\<rparr>)"

definition addToPeriod :: "(string, PeriodStat) gomap \<Rightarrow> string \<Rightarrow> Trade \<Rightarrow> (string, PeriodStat) gomap" where
  "addToPeriod m key t = mput m key (period_add t (mget (new_period key) m key))"

text \<open>Go compares strings by their bytes, as the library orders them.\<close>

definition sortedPeriods :: "(string, PeriodStat) gomap \<Rightarrow> PeriodStat list" where
  "sortedPeriods m = sort_key pe_Period (map snd m)"

definition periods :: "(int \<Rightarrow> string) \<Rightarrow> Trade list \<Rightarrow> PeriodStat list" where
  "periods key trades = sortedPeriods (foldl (\<lambda>m t. addToPeriod m (key (tr_ExitTime t)) t) [] trades)"

record TemporalBreakdown =
  tb_Yearly :: "PeriodStat list"
  tb_Monthly :: "PeriodStat list"
  tb_Weekly :: "PeriodStat list"
  tb_Daily :: "PeriodStat list"

definition calculateTemporalBreakdown :: "Trade list \<Rightarrow> TemporalBreakdown" where
  "calculateTemporalBreakdown trades = \<lparr>tb_Yearly = periods year_key trades, tb_Monthly = periods month_key trades,
     tb_Weekly = periods isoWeek trades, tb_Daily = periods day_key trades\<rparr>"

section \<open>Bars and candles\<close>

definition barsPerDayFromTimeframe :: "string \<Rightarrow> f64" where
  "barsPerDayFromTimeframe timeframe =
     (if timeframe = ''1m'' then lit 390
      else if timeframe \<in> {''5m'', ''5min''} then lit 78
      else if timeframe \<in> {''15m'', ''15min''} then lit 26
      else if timeframe \<in> {''30m'', ''30min''} then lit 13
      else if timeframe \<in> {''1h'', ''60m'', ''hourly''} then lit (65/10)
      else if timeframe = ''4h'' then lit (1625/1000)
      else lit 1)"

definition barsPerDay24h :: "string \<Rightarrow> f64" where
  "barsPerDay24h timeframe =
     (if timeframe \<in> {''5m'', ''5min''} then lit 288
      else if timeframe \<in> {''15m'', ''15min''} then lit 96
      else if timeframe \<in> {''30m'', ''30min''} then lit 48
      else if timeframe \<in> {''1h'', ''60m'', ''hourly''} then lit 24
      else if timeframe = ''4h'' then lit 6
      else if timeframe \<in> {''1d'', ''daily'', ''''} then lit 1
      else barsPerDayFromTimeframe timeframe)"

text \<open>The table of symbols, the asset class of a ticker, is a parameter.\<close>

definition barsPerDayForSymbol :: "(string \<Rightarrow> string option) \<Rightarrow> string \<Rightarrow> string \<Rightarrow> f64" where
  "barsPerDayForSymbol assetClass timeframe symbol =
     (if symbol = '''' then barsPerDayFromTimeframe timeframe
      else (case assetClass symbol of
          Some c \<Rightarrow> if c \<in> {''forex_major'', ''forex_minor'', ''crypto''} then barsPerDay24h timeframe
                    else barsPerDayFromTimeframe timeframe
        | None \<Rightarrow> barsPerDayFromTimeframe timeframe))"

definition firstSymbol :: "string list \<Rightarrow> string" where
  "firstSymbol symbols = (case symbols of [] \<Rightarrow> '''' | s # ss \<Rightarrow> s)"

definition effectiveBarsPerDay :: "Candle list \<Rightarrow> f64 \<Rightarrow> f64" where
  "effectiveBarsPerDay candles declaredBarsPerDay =
     (let weekdays = filter (\<lambda>c. \<not> weekend (ca_Time c)) candles;
          n = int (length weekdays);
          tradingDays = int (length (remdups (map (day_of \<circ> ca_Time) weekdays)))
      in if candles = [] \<or> n = 0 \<or> tradingDays = 0 then declaredBarsPerDay else
      let effective = float_of_int n / float_of_int tradingDays;
          tolerance = declaredBarsPerDay * lit (3/10)
      in if declaredBarsPerDay > 0 \<and> \<bar>effective - declaredBarsPerDay\<bar> > tolerance then effective
         else declaredBarsPerDay)"

text \<open>The sort of Go leaves the order of candles of the same time open; here it is stable.\<close>

definition mergeCandlesByTime :: "Candle list list \<Rightarrow> Candle list" where
  "mergeCandlesByTime candlesBySymbol = sort_key ca_Time (concat candlesBySymbol)"

definition generation_counts :: "Candle list \<Rightarrow> (string, int) gomap" where
  "generation_counts candles = foldl (\<lambda>m c. if ca_GenerationID c = '''' then m
     else mput m (ca_GenerationID c) (mget 0 m (ca_GenerationID c) + 1)) [] candles"

definition representativeGenerationID :: "Candle list \<Rightarrow> string" where
  "representativeGenerationID candles = fst (foldl (\<lambda>(best, bestCount) (i, n).
     if n > bestCount \<or> n = bestCount \<and> i < best
     then (i, n) else (best, bestCount)) ('''', 0) (generation_counts candles))"

text \<open>The warning of the data check, its figure without the text.\<close>

datatype quality = QualityOK | TooFewCandles int | ZeroVariance | NearZeroVariance | NoSerialCorrelation
  | StrongMeanReversion f64 | StrongMomentum f64 | BadPath | SingleRegime

definition serial_correlation :: "f64 \<Rightarrow> f64 list \<Rightarrow> f64 \<times> f64" where
  "serial_correlation m returns = foldl (\<lambda>(cov, denom) (prev, cur).
     (cov + (cur - m) * (prev - m), denom + (cur - m) * (cur - m))) (0, 0) (zip returns (tl returns))"

definition variance_ratio :: "f64 \<Rightarrow> f64 list \<Rightarrow> f64 list \<Rightarrow> f64 option" where
  "variance_ratio m closes returns =
     (let var1 = squares m returns / float_of_int (int (length returns)) in
      if \<not> var1 > 0 then None else
      let r5 = map (\<lambda>(a, b). (b - a) / a) (take (length returns - 5) (zip closes (drop 5 closes)));
          var5 = foldl (\<lambda>v r. v + r * r) 0 r5; n = float_of_int (int (length returns) - 5)
      in if n > 0 then Some (var5 / n / (lit 5 * var1)) else None)"

definition preflight_path :: "f64 list \<Rightarrow> f64 list \<Rightarrow> quality" where
  "preflight_path closes returns =
     (let totalRet = (last closes - hd closes) / hd closes in
      if hd closes > 0 \<and> not_finite totalRet then BadPath
      else if length returns \<ge> 60 then
        (let absReturns = sort_Float64s (map (\<lambda>r. if r < 0 then - r else r) returns);
             p75 = absReturns ! (length returns * 75 div 100); p95 = absReturns ! (length returns * 95 div 100)
         in if p95 > 0 \<and> p75 > 0 \<and> p95 / p75 < lit 2 then SingleRegime else QualityOK)
      else QualityOK)"

definition preflightDataQuality :: "Candle list \<Rightarrow> quality" where
  "preflightDataQuality candles =
     (if length candles < 20 then TooFewCandles (int (length candles)) else
      let closes = map (\<lambda>c. Price_Float64 (ca_Close c)) candles;
          returns = step_returns closes; n = float_of_int (int (length returns));
          meanRet = fsum returns / n;
          variance = fsum (map (\<lambda>r. r * r) returns) / n - meanRet * meanRet
      in if variance \<le> 0 then ZeroVariance
         else if variance < lit (1 / 10 ^ 12) then NearZeroVariance else
      let (cov, denom) = serial_correlation meanRet returns
      in if length returns \<ge> 10 \<and> denom > 0 \<and> \<bar>cov / denom\<bar> < lit (1/100) then NoSerialCorrelation else
      (case (if length returns \<ge> 25 then variance_ratio meanRet closes returns else None) of
         Some vr \<Rightarrow> if vr < lit (4/10) then StrongMeanReversion vr
                    else if vr > lit (25/10) then StrongMomentum vr
                    else preflight_path closes returns
       | None \<Rightarrow> preflight_path closes returns))"

section \<open>The counts of a report agree\<close>

lemma countWinsLosses_eq:
  "countWinsLosses trades = (count_trades winning trades, int (length trades) - count_trades winning trades)"
proof -
  have "foldl (\<lambda>(wins, losses) t. if tr_PnL t > 0 then (wins + 1, losses) else (wins, losses + 1)) (a, b) trades
      = (a + count_trades winning trades, b + (int (length trades) - count_trades winning trades))" for a b
    by (induction trades arbitrary: a b) (simp_all add: count_trades_def winning_def)
  then show ?thesis by (simp add: countWinsLosses_def)
qed

lemma sum_by_class:
  assumes "distinct rs" "g ` set ts \<subseteq> set rs"
  shows "sum_list (map (\<lambda>r. int (length (filter (\<lambda>t. g t = r) ts))) rs) = int (length ts)"
  using assms(2)
proof (induction ts)
  case (Cons t ts)
  have "sum_list (map (\<lambda>r. int (length (filter (\<lambda>u. g u = r) (t # ts)))) rs) =
      sum_list (map (\<lambda>r. (if r = g t then 1 else 0) + int (length (filter (\<lambda>u. g u = r) ts))) rs)"
    by (intro arg_cong [of _ _ sum_list] map_cong) auto
  also have "\<dots> = sum_list (map (\<lambda>r. if r = g t then 1 else 0) rs) + int (length ts)"
    using Cons by (simp add: sum_list_addf)
  also have "sum_list (map (\<lambda>r. if r = g t then 1 else (0::int)) rs) = 1"
    using assms(1) Cons.prems by (simp add: sum_list_distinct_conv_sum_set)
  finally show ?case by simp
qed (induction rs; simp)

lemma regime_counts: "sum_list (map rg_NumTrades (calculateRegimeStats trades)) = int (length trades)"
  using sum_by_class [of "sort (remdups (map tr_HMMRegime trades))" tr_HMMRegime trades]
  by (simp add: calculateRegimeStats_def comp_def regime_stat_def Let_def)

lemma sortedPeriods_sum: "sum_list (map pe_NumTrades (sortedPeriods m)) = msum pe_NumTrades m"
proof -
  have "sum_list (map pe_NumTrades (sort_key pe_Period ps)) = sum_list (map pe_NumTrades ps)" for ps :: "PeriodStat list"
    by (metis mset_map mset_sort sum_mset_sum_list)
  then show ?thesis by (simp add: sortedPeriods_def msum_def comp_def)
qed

lemma addToPeriod_sum: "msum pe_NumTrades (addToPeriod m k t) = msum pe_NumTrades m + 1"
  by (simp add: addToPeriod_def msum_mput mget_def period_add_def Let_def new_period_def split: option.split)

lemma periods_counts: "sum_list (map pe_NumTrades (periods key trades)) = int (length trades)"
proof -
  have "msum pe_NumTrades (foldl (\<lambda>m t. addToPeriod m (key (tr_ExitTime t)) t) m trades) =
      msum pe_NumTrades m + int (length trades)" for m
    by (induction trades arbitrary: m) (simp_all add: addToPeriod_sum)
  then show ?thesis by (simp add: periods_def sortedPeriods_sum msum_def)
qed

text \<open>The figures of a report count every trade once: wins and losses, the regimes, and the years,
  months, weeks and days each add up to the number of trades.\<close>

lemma report_counts_agree:
  "fst (countWinsLosses trades) + snd (countWinsLosses trades) = int (length trades) \<and>
   fst (countWinsLosses trades) = int (length (filter (\<lambda>t. 0 < tr_PnL t) trades)) \<and>
   sum_list (map rg_NumTrades (calculateRegimeStats trades)) = int (length trades) \<and>
   (let tb = calculateTemporalBreakdown trades in
      sum_list (map pe_NumTrades (tb_Yearly tb)) = int (length trades) \<and>
      sum_list (map pe_NumTrades (tb_Monthly tb)) = int (length trades) \<and>
      sum_list (map pe_NumTrades (tb_Weekly tb)) = int (length trades) \<and>
      sum_list (map pe_NumTrades (tb_Daily tb)) = int (length trades))"
proof -
  have "winning = (\<lambda>t. 0 < tr_PnL t)" by (simp add: winning_def fun_eq_iff)
  then show ?thesis
    by (simp add: countWinsLosses_eq regime_counts calculateTemporalBreakdown_def periods_counts count_trades_def)
qed

section \<open>The longest drawdown\<close>

text \<open>Which points lie below the highest value before them, starting from a peak.\<close>

fun below :: "f64 \<Rightarrow> f64 list \<Rightarrow> bool list" where
  "below peak [] = []"
| "below peak (v # vs) = (\<not> peak \<le> v) # below (if peak \<le> v then v else peak) vs"

definition runs_in :: "bool list \<Rightarrow> nat set" where
  "runs_in bs = {n. \<exists>xs ys. bs = xs @ replicate n True @ ys}"

definition trailing :: "bool list \<Rightarrow> nat" where
  "trailing bs = length (takeWhile id (rev bs))"

lemma trailing_snoc: "trailing (bs @ [b]) = (if b then Suc (trailing bs) else 0)"
  by (simp add: trailing_def)

lemma trailing_split: "\<exists>xs. bs = xs @ replicate (trailing bs) True"
proof -
  have "takeWhile id (rev bs) = replicate (trailing bs) True"
    unfolding trailing_def by (rule replicate_eqI) (auto dest: set_takeWhileD)
  then have "rev bs = replicate (trailing bs) True @ dropWhile id (rev bs)" by (metis takeWhile_dropWhile_id)
  then have "bs = rev (dropWhile id (rev bs)) @ replicate (trailing bs) True"
    by (metis rev_append rev_replicate rev_rev_ident)
  then show ?thesis by blast
qed

lemma trailing_max: "bs = xs @ replicate n True \<Longrightarrow> n \<le> trailing bs"
  by (simp add: trailing_def takeWhile_append)

lemma runs_in_bounded: "n \<in> runs_in bs \<Longrightarrow> n \<le> length bs"
  by (auto simp: runs_in_def)

lemma finite_runs_in [simp]: "finite (runs_in bs)"
  by (rule finite_subset [of _ "{.. length bs}"]) (auto dest: runs_in_bounded)

lemma zero_in_runs [simp]: "0 \<in> runs_in bs"
  by (auto simp: runs_in_def)

lemma runs_in_nonempty [simp]: "runs_in bs \<noteq> {}"
  using zero_in_runs by blast

lemma runs_in_snoc: "runs_in (bs @ [b]) = runs_in bs \<union> {.. (if b then Suc (trailing bs) else 0)}"
proof (rule set_eqI)
  fix n
  show "n \<in> runs_in (bs @ [b]) \<longleftrightarrow> n \<in> runs_in bs \<union> {.. (if b then Suc (trailing bs) else 0)}"
  proof
    assume "n \<in> runs_in (bs @ [b])"
    then obtain xs ys where e: "bs @ [b] = xs @ replicate n True @ ys" by (auto simp: runs_in_def)
    show "n \<in> runs_in bs \<union> {.. (if b then Suc (trailing bs) else 0)}"
    proof (cases ys rule: rev_cases)
      case Nil
      with e have "n \<le> trailing (bs @ [b])" by (intro trailing_max) simp
      then show ?thesis by (simp add: trailing_snoc)
    next
      case (snoc zs z)
      with e have "bs = xs @ replicate n True @ zs" by simp
      then show ?thesis by (auto simp: runs_in_def)
    qed
  next
    assume "n \<in> runs_in bs \<union> {.. (if b then Suc (trailing bs) else 0)}"
    then show "n \<in> runs_in (bs @ [b])"
    proof
      assume "n \<in> runs_in bs"
      then show ?thesis by (fastforce simp: runs_in_def)
    next
      assume n: "n \<in> {.. (if b then Suc (trailing bs) else 0)}"
      obtain xs where "bs @ [b] = xs @ replicate (trailing (bs @ [b])) True" using trailing_split by blast
      moreover have "n \<le> trailing (bs @ [b])" using n by (simp add: trailing_snoc)
      then have "replicate (trailing (bs @ [b])) True = replicate (trailing (bs @ [b]) - n) True @ replicate n True"
        by (simp flip: replicate_add)
      ultimately have "bs @ [b] = (xs @ replicate (trailing (bs @ [b]) - n) True) @ replicate n True @ []" by simp
      then show ?thesis unfolding runs_in_def by blast
    qed
  qed
qed

lemma Max_runs_snoc:
  "Max (runs_in (bs @ [b])) = max (Max (runs_in bs)) (if b then Suc (trailing bs) else 0)"
proof -
  have "Max (runs_in bs \<union> {.. k}) = max (Max (runs_in bs)) k" for k :: nat
    using runs_in_nonempty [of bs] by (subst Max_Un) (auto intro!: arg_cong2 [of _ _ _ _ max] Max_eqI)
  then show ?thesis by (simp only: runs_in_snoc)
qed

text \<open>The state of the loop: the longest run so far is the current one or the stored one.\<close>

definition duration_ok :: "bool list \<Rightarrow> f64 \<times> int \<times> int \<times> bool \<Rightarrow> bool" where
  "duration_ok bs = (\<lambda>(peak, current, longest, inDrawdown). current = int (trailing bs) \<and>
     inDrawdown = (current > 0) \<and> 0 \<le> longest \<and> max current longest = int (Max (runs_in bs)))"

lemma duration_step_ok:
  assumes "duration_ok bs (peak, current, longest, inDrawdown)"
  shows "duration_ok (bs @ [\<not> peak \<le> eq_Value p]) (duration_step (peak, current, longest, inDrawdown) p)"
proof -
  have c: "current = int (trailing bs)" and m: "max current longest = int (Max (runs_in bs))" and l: "0 \<le> longest"
    and d: "inDrawdown = (current > 0)" using assms unfolding duration_ok_def by blast+
  show ?thesis
  proof (cases "peak \<le> eq_Value p")
    case True
    have "int (Max (runs_in (bs @ [False]))) = max current longest" by (simp add: Max_runs_snoc m)
    with True c l d show ?thesis by (auto simp: duration_ok_def duration_step_def trailing_snoc max_def)
  next
    case False
    have "int (Max (runs_in (bs @ [True]))) = max (max current longest) (current + 1)"
      unfolding m by (simp add: Max_runs_snoc c)
    with False c l show ?thesis by (auto simp: duration_ok_def duration_step_def trailing_snoc max_def)
  qed
qed

lemma duration_loop:
  assumes "duration_ok bs s"
  shows "duration_ok (bs @ below (fst s) (map eq_Value equity)) (foldl duration_step s equity)"
  using assms
proof (induction equity arbitrary: bs s)
  case (Cons p ps)
  obtain peak current longest inDrawdown where s: "s = (peak, current, longest, inDrawdown)" by (cases s)
  have f: "fst (duration_step s p) = (if peak \<le> eq_Value p then eq_Value p else peak)"
    by (simp add: s duration_step_def)
  from Cons.IH [OF duration_step_ok [OF Cons.prems [unfolded s]], of p] show ?case
    by (simp add: s f [unfolded s])
qed simp

text \<open>C33: The longest drawdown is the length of the longest run of points that lie below the highest
  value before them.\<close>

theorem drawdown_duration_is_longest_run:
  "calculateMaxDrawdownDuration equity = int (Max {n. \<exists>xs ys. below 0 (map eq_Value equity) = xs @ replicate n True @ ys})"
proof -
  have "duration_ok [] (0, 0, 0, False)" by (simp add: duration_ok_def trailing_def runs_in_def)
  from duration_loop [OF this, of equity]
  have ok: "duration_ok (below 0 (map eq_Value equity)) (foldl duration_step (0, 0, 0, False) equity)" by simp
  obtain peak current longest inDrawdown
    where f: "foldl duration_step (0, 0, 0, False) equity = (peak, current, longest, inDrawdown)" by (metis surj_pair)
  have "calculateMaxDrawdownDuration equity = max current longest"
    by (auto simp: calculateMaxDrawdownDuration_def f max_def)
  also have "\<dots> = int (Max (runs_in (below 0 (map eq_Value equity))))"
    using ok unfolding f duration_ok_def by blast
  finally show ?thesis by (simp only: runs_in_def)
qed

section \<open>Drawdowns and rates\<close>

text \<open>The two drawdowns agree on a curve that starts above zero.\<close>

lemma drawdowns_agree:
  assumes "0 < eq_Value p"
  shows "calculateMaxDrawdown (p # ps) = computeMaxDrawdown (p # ps)"
proof -
  have "\<not> eq_Value p < eq_Value p" by (simp add: less_f64_def)
  with assms have "drawdown_step (0, 0) p = drawdown_step (eq_Value p, 0) p"
    by (simp add: drawdown_step_def Let_def)
  then show ?thesis by (simp add: calculateMaxDrawdown_def computeMaxDrawdown_def)
qed

lemma win_rates_agree: "computeWinRate trades = calculateWinRate trades"
  by (simp add: computeWinRate_def calculateWinRate_def)

text \<open>A profit factor without losses is reported as 999 by the engine, as infinity by the registry.\<close>

lemma profit_factor_sentinels:
  "calculateProfitFactor [zero_trade\<lparr>tr_PnL := 1\<rparr>] = lit 999" "computeProfitFactor [zero_trade\<lparr>tr_PnL := 1\<rparr>] = FPosInf"
  by (simp_all add: calculateProfitFactor_def computeProfitFactor_def gross_def fsum_def winning_def feq_def f64_eval)

text \<open>Forex and crypto trade around the clock, but a bar per minute counts the minutes of a stock session.\<close>

lemma minute_bars_of_a_day: "barsPerDay24h ''1m'' = lit 390"
  by (simp add: barsPerDay24h_def barsPerDayFromTimeframe_def)

end
