(* ===== verification/Report.thy ===== *)
theory Report
  imports Backtest Metrics
begin

text \<open>
  The result of a run and the gate on it: the second half of \<open>Engine.Run\<close>
  (\<open>internal/backtest/engine.go\<close>), which computes the figures of the trades and the curve, and
  \<open>internal/backtest/multi_metric_gate.go\<close>. The warnings and the time stamps are left out. A verdict is on a named metric; its text form is left out.
\<close>

record BacktestResult =
  br_NumTrades :: int
  br_AvgMAE :: f64
  br_AvgMFE :: f64
  br_TotalFees :: f64
  br_AvgSlippageBps :: f64
  br_TotalReturn :: f64
  br_TotalReturnPct :: f64
  br_ComplianceReport :: "ComplianceReport option"
  br_EffectiveBarsPerDay :: f64
  br_WinRate :: f64
  br_MaxDrawdown :: f64
  br_MaxDrawdownDuration :: int
  br_AvgTrade :: f64
  br_AvgWin :: f64
  br_AvgLoss :: f64
  br_NumWins :: int
  br_NumLosses :: int
  br_SharpeRatio :: f64
  br_SortinoRatio :: f64
  br_CalmarRatio :: f64
  br_MtmMaxDrawdown :: f64
  br_MtmSharpeRatio :: f64
  br_ProfitFactor :: f64
  br_AdverseSelectionRate :: f64
  br_DailyReturns :: "DailyReturn list"
  br_RegimeStats :: "RegimeStat list"
  br_TemporalBreakdown :: TemporalBreakdown
  br_LongShort :: LongShortBreakdown
  br_ExitReasons :: "(string, int) gomap"
  br_StrategyParams :: "(string, f64) gomap"

definition empty_result :: BacktestResult where
  "empty_result = \<lparr>br_NumTrades = 0, br_AvgMAE = 0, br_AvgMFE = 0, br_TotalFees = 0, br_AvgSlippageBps = 0,
     br_TotalReturn = 0, br_TotalReturnPct = 0, br_ComplianceReport = None, br_EffectiveBarsPerDay = 0,
     br_WinRate = 0, br_MaxDrawdown = 0, br_MaxDrawdownDuration = 0, br_AvgTrade = 0, br_AvgWin = 0,
     br_AvgLoss = 0, br_NumWins = 0, br_NumLosses = 0, br_SharpeRatio = 0, br_SortinoRatio = 0,
     br_CalmarRatio = 0, br_MtmMaxDrawdown = 0, br_MtmSharpeRatio = 0, br_ProfitFactor = 0,
     br_AdverseSelectionRate = 0, br_DailyReturns = [], br_RegimeStats = [],
     br_TemporalBreakdown = \<lparr>tb_Yearly = [], tb_Monthly = [], tb_Weekly = [], tb_Daily = []\<rparr>,
     br_LongShort = calculateLongShortBreakdown [], br_ExitReasons = [], br_StrategyParams = []\<rparr>"

section \<open>The figures of a run\<close>

text \<open>Averages of the excursions, fees and slippage over the trades.\<close>

definition report_averages :: "Trade list \<Rightarrow> BacktestResult \<Rightarrow> BacktestResult" where
  "report_averages trades r =
     (let n = float_of_int (int (length trades));
          filled = filter (\<lambda>t. tr_SlippageFillCount t > 0) trades;
          slippageCount = sum_list (map tr_SlippageFillCount filled);
          r = (if trades \<noteq> [] then r\<lparr>br_AvgMAE := fsum (map tr_MAE trades) / n, br_AvgMFE := fsum (map tr_MFE trades) / n,
                 br_TotalFees := fsum (map tr_BrokerFee trades)\<rparr> else r)
      in if slippageCount > 0
         then r\<lparr>br_AvgSlippageBps := fsum (map tr_SlippageBps filled) / float_of_int slippageCount\<rparr> else r)"

text \<open>The return: the reset of a capital that is not finite is overwritten by the difference.\<close>

definition report_return :: "BacktestConfig \<Rightarrow> f64 \<Rightarrow> BacktestResult \<Rightarrow> BacktestResult" where
  "report_return cfg capital r =
     (let r = r\<lparr>br_TotalReturnPct := (capital - bc_InitialCapital cfg) / bc_InitialCapital cfg * lit 100\<rparr>;
          r = (if not_finite capital then r\<lparr>br_TotalReturn := 0, br_TotalReturnPct := 0\<rparr> else r)
      in r\<lparr>br_TotalReturn := capital - bc_InitialCapital cfg\<rparr>)"

definition minTradesForMetrics :: int where "minTradesForMetrics = 5"

definition minTradesForReliable :: int where "minTradesForReliable = 20"

definition report_metrics :: "(f64 \<Rightarrow> f64 \<Rightarrow> f64) \<Rightarrow> Trade list \<Rightarrow> EquityPoint list \<Rightarrow> EquityPoint list \<Rightarrow>
  BacktestResult \<Rightarrow> BacktestResult" where
  "report_metrics powf trades equity mtmEquity r =
     (let n = br_NumTrades r; b = br_EffectiveBarsPerDay r in
      if \<not> n > 0 then r else
      let r = r\<lparr>br_WinRate := calculateWinRate trades, br_MaxDrawdown := calculateMaxDrawdown equity,
                br_MaxDrawdownDuration := calculateMaxDrawdownDuration equity,
                br_AvgTrade := br_TotalReturn r / float_of_int n,
                br_AvgWin := fst (calculateAvgWinLoss trades), br_AvgLoss := snd (calculateAvgWinLoss trades),
                br_NumWins := fst (countWinsLosses trades), br_NumLosses := snd (countWinsLosses trades)\<rparr>;
          r = (if n \<ge> minTradesForMetrics then r\<lparr>br_SharpeRatio := calculateSharpe equity b\<rparr> else r);
          r = (if n \<ge> minTradesForReliable
               then r\<lparr>br_SortinoRatio := calculateSortino equity b, br_CalmarRatio := calculateCalmar powf equity b\<rparr> else r);
          r = (if length mtmEquity \<ge> 2 then r\<lparr>br_MtmMaxDrawdown := calculateMaxDrawdown mtmEquity\<rparr> else r);
          r = (if length mtmEquity \<ge> 2 \<and> n \<ge> minTradesForMetrics
               then r\<lparr>br_MtmSharpeRatio := calculateMtmSharpe mtmEquity b\<rparr> else r)
      in r\<lparr>br_ProfitFactor := calculateProfitFactor trades,
           br_AdverseSelectionRate := calculateAdverseSelectionRate trades,
           br_DailyReturns := calculateDailyReturns equity, br_RegimeStats := calculateRegimeStats trades,
           br_TemporalBreakdown := calculateTemporalBreakdown trades,
           br_LongShort := calculateLongShortBreakdown trades\<rparr>)"

definition exit_reasons :: "Trade list \<Rightarrow> (string, int) gomap" where
  "exit_reasons trades = foldl (\<lambda>m t.
     let reason = (if tr_ExitReason t = '''' then ''unknown'' else tr_ExitReason t)
     in mput m reason (mget 0 m reason + 1)) [] trades"

text \<open>The parameters reported back: those of the runner, if there is one, under those of the
  configuration, and the effective fraction and percentage.\<close>

definition put_all :: "(string, f64) gomap \<Rightarrow> (string, f64) gomap \<Rightarrow> (string, f64) gomap" where
  "put_all m kvs = foldl (\<lambda>m (k, v). mput m k v) m kvs"

definition report_params :: "(string, f64) gomap option \<Rightarrow> BacktestConfig \<Rightarrow> (string, f64) gomap" where
  "report_params runnerParams cfg =
     (let m = (case runnerParams of None \<Rightarrow> [] | Some ps \<Rightarrow> put_all [] ps);
          m = put_all m (bc_StrategyParams cfg);
          m = mput m ''kelly_fraction'' (resolveKellyFraction (bc_StrategyParams cfg) (bc_KellyFraction cfg))
      in mput m ''sizing_percent'' (resolveSizingPercent (bc_StrategyParams cfg) (bc_SizingPercent cfg)))"

definition Engine_report :: "(f64 \<Rightarrow> f64 \<Rightarrow> f64) \<Rightarrow> (string, f64) gomap option \<Rightarrow> BacktestConfig \<Rightarrow> f64 \<Rightarrow> Candle list \<Rightarrow> ('r, 'g, 'm) Engine \<Rightarrow> BacktestResult" where
  "Engine_report powf runnerParams cfg declaredBarsPerDay candles s =
     (if candles = [] then empty_result else
      let r = empty_result\<lparr>br_NumTrades := int (length (ru_trades s))\<rparr>;
          r = report_return cfg (ru_capital s) (report_averages (ru_trades s) r);
          r = r\<lparr>br_ComplianceReport := map_option PropFirmEnforcer_Summary (be_ftmo s),
                br_EffectiveBarsPerDay := effectiveBarsPerDay candles declaredBarsPerDay\<rparr>;
          r = report_metrics powf (ru_trades s) (ru_equity s) (ru_mtmEquity s) r
      in r\<lparr>br_ExitReasons := exit_reasons (ru_trades s), br_StrategyParams := report_params runnerParams cfg\<rparr>)"

section \<open>The gate\<close>

record MultiMetricStandard =
  mm_MinSharpeRatio :: f64
  mm_MaxDrawdownPct :: f64
  mm_MinPassProbPct :: f64
  mm_MinProfitFactor :: f64
  mm_MinNumTrades :: int
  mm_MinSortinoRatio :: f64
  mm_MaxSharpeDegradation :: f64
  mm_MinInformationRatio :: f64

record MetricVerdict =
  mv_Metric :: string
  mv_Required :: f64
  mv_Actual :: f64
  mv_Passed :: bool

record MultiMetricVerdict =
  mu_Passed :: bool
  mu_Verdicts :: "MetricVerdict list"
  mu_PassedCount :: int
  mu_TotalCount :: int

definition DefaultMultiMetricStandard :: MultiMetricStandard where
  "DefaultMultiMetricStandard = \<lparr>mm_MinSharpeRatio = lit 1, mm_MaxDrawdownPct = lit 8, mm_MinPassProbPct = lit 80,
     mm_MinProfitFactor = lit (15/10), mm_MinNumTrades = 30, mm_MinSortinoRatio = 0,
     mm_MaxSharpeDegradation = lit 50, mm_MinInformationRatio = 0\<rparr>"

definition LenientMultiMetricStandard :: MultiMetricStandard where
  "LenientMultiMetricStandard = \<lparr>mm_MinSharpeRatio = lit (5/10), mm_MaxDrawdownPct = lit 15, mm_MinPassProbPct = lit 60,
     mm_MinProfitFactor = lit (12/10), mm_MinNumTrades = 15, mm_MinSortinoRatio = 0,
     mm_MaxSharpeDegradation = lit 70, mm_MinInformationRatio = 0\<rparr>"

definition StrictMultiMetricStandard :: MultiMetricStandard where
  "StrictMultiMetricStandard = \<lparr>mm_MinSharpeRatio = lit (15/10), mm_MaxDrawdownPct = lit 5, mm_MinPassProbPct = lit 90,
     mm_MinProfitFactor = lit 2, mm_MinNumTrades = 50, mm_MinSortinoRatio = lit (12/10),
     mm_MaxSharpeDegradation = lit 30, mm_MinInformationRatio = 0\<rparr>"

definition gate_standard :: "string \<Rightarrow> MultiMetricStandard" where
  "gate_standard gateProfile =
     (if gateProfile \<in> {''lenient'', ''research''} then LenientMultiMetricStandard
      else if gateProfile \<in> {''strict'', ''pretrade'', ''production_guarded'', ''production''}
      then StrictMultiMetricStandard else DefaultMultiMetricStandard)"

definition at_least :: "string \<Rightarrow> f64 \<Rightarrow> f64 \<Rightarrow> MetricVerdict" where
  "at_least metric required actual =
     \<lparr>mv_Metric = metric, mv_Required = required, mv_Actual = actual, mv_Passed = (actual \<ge> required)\<rparr>"

definition at_most :: "string \<Rightarrow> f64 \<Rightarrow> f64 \<Rightarrow> MetricVerdict" where
  "at_most metric required actual =
     \<lparr>mv_Metric = metric, mv_Required = required, mv_Actual = actual, mv_Passed = (actual \<le> required)\<rparr>"

definition enough_trades :: "int \<Rightarrow> int \<Rightarrow> MetricVerdict" where
  "enough_trades required actual = \<lparr>mv_Metric = ''min_trades'', mv_Required = float_of_int required,
     mv_Actual = float_of_int actual, mv_Passed = (actual \<ge> required)\<rparr>"

definition conclude :: "MetricVerdict list \<Rightarrow> MultiMetricVerdict" where
  "conclude verdicts = \<lparr>mu_Passed = list_all mv_Passed verdicts, mu_Verdicts = verdicts,
     mu_PassedCount = int (length (filter mv_Passed verdicts)), mu_TotalCount = int (length verdicts)\<rparr>"

definition missing :: "string \<Rightarrow> MultiMetricVerdict" where
  "missing metric = \<lparr>mu_Passed = False, mu_Verdicts = [\<lparr>mv_Metric = metric, mv_Required = lit 1, mv_Actual = 0,
     mv_Passed = False\<rparr>], mu_PassedCount = 0, mu_TotalCount = 0\<rparr>"

definition EvaluateBacktestMultiMetric :: "BacktestResult option \<Rightarrow> MultiMetricStandard \<Rightarrow> MultiMetricVerdict" where
  "EvaluateBacktestMultiMetric result std = (case result of None \<Rightarrow> missing ''backtest_result'' | Some r \<Rightarrow>
     conclude ([at_least ''sharpe_ratio'' (mm_MinSharpeRatio std) (br_SharpeRatio r),
       at_most ''max_drawdown_pct'' (mm_MaxDrawdownPct std) (br_MaxDrawdown r),
       at_least ''profit_factor'' (mm_MinProfitFactor std) (br_ProfitFactor r),
       enough_trades (mm_MinNumTrades std) (br_NumTrades r),
       \<lparr>mv_Metric = ''win_rate'', mv_Required = 0, mv_Actual = br_WinRate r, mv_Passed = True\<rparr>] @
      (if mm_MinSortinoRatio std > 0
       then [at_least ''sortino_ratio'' (mm_MinSortinoRatio std) (br_SortinoRatio r)] else [])))"

definition EvaluateBacktestMultiMetricWithBenchmark :: "BacktestResult option \<Rightarrow> MultiMetricStandard \<Rightarrow> f64 option \<Rightarrow>
  MultiMetricVerdict" where
  "EvaluateBacktestMultiMetricWithBenchmark result std benchmarkIR =
     (let verdict = EvaluateBacktestMultiMetric result std in
      case benchmarkIR of None \<Rightarrow> verdict | Some ir \<Rightarrow>
        if mm_MinInformationRatio std > 0
        then conclude (mu_Verdicts verdict @ [at_least ''benchmark_information_ratio'' (mm_MinInformationRatio std) ir])
        else verdict)"

definition report_gate :: "string \<Rightarrow> BacktestResult \<Rightarrow> MultiMetricVerdict" where
  "report_gate gateProfile result = EvaluateBacktestMultiMetric (Some result)
     (gate_standard (if gateProfile = '''' then ''default'' else gateProfile))"

section \<open>The report and the run\<close>

lemma report_metrics_counts:
  assumes "br_NumTrades r = int (length trades)" "trades = [] \<Longrightarrow> br_NumWins r + br_NumLosses r = 0"
    "trades = [] \<Longrightarrow> br_RegimeStats r = [] \<and> br_TemporalBreakdown r = br_TemporalBreakdown empty_result"
  shows "let q = report_metrics powf trades equity mtm r in br_NumTrades q = int (length trades) \<and>
    br_NumWins q + br_NumLosses q = int (length trades) \<and>
    sum_list (map rg_NumTrades (br_RegimeStats q)) = int (length trades) \<and>
    sum_list (map pe_NumTrades (tb_Daily (br_TemporalBreakdown q))) = int (length trades) \<and>
    sum_list (map pe_NumTrades (tb_Yearly (br_TemporalBreakdown q))) = int (length trades)"
  using assms report_counts_agree [of trades]
  by (cases "trades = []") (simp_all add: report_metrics_def empty_result_def Let_def)

lemma report_base:
  "br_NumTrades (report_return cfg c (report_averages ts (empty_result\<lparr>br_NumTrades := n\<rparr>))) = n"
  "br_NumWins (report_return cfg c (report_averages ts (empty_result\<lparr>br_NumTrades := n\<rparr>))) = 0"
  "br_NumLosses (report_return cfg c (report_averages ts (empty_result\<lparr>br_NumTrades := n\<rparr>))) = 0"
  "br_RegimeStats (report_return cfg c (report_averages ts (empty_result\<lparr>br_NumTrades := n\<rparr>))) = []"
  "br_TemporalBreakdown (report_return cfg c (report_averages ts (empty_result\<lparr>br_NumTrades := n\<rparr>)))
     = br_TemporalBreakdown empty_result"
  by (simp_all add: report_return_def report_averages_def Let_def empty_result_def)

lemma report_counts:
  assumes "candles \<noteq> []"
  shows "let r = Engine_report powf ps cfg declared candles s; n = int (length (ru_trades s)) in br_NumTrades r = n \<and>
    br_NumWins r + br_NumLosses r = n \<and> sum_list (map rg_NumTrades (br_RegimeStats r)) = n \<and>
    sum_list (map pe_NumTrades (tb_Daily (br_TemporalBreakdown r))) = n \<and>
    sum_list (map pe_NumTrades (tb_Yearly (br_TemporalBreakdown r))) = n"
proof -
  define r where "r = (report_return cfg (ru_capital s) (report_averages (ru_trades s)
      (empty_result\<lparr>br_NumTrades := int (length (ru_trades s))\<rparr>)))
    \<lparr>br_ComplianceReport := map_option PropFirmEnforcer_Summary (be_ftmo s),
     br_EffectiveBarsPerDay := effectiveBarsPerDay candles declared\<rparr>"
  have "br_NumTrades r = int (length (ru_trades s))" "br_NumWins r + br_NumLosses r = 0" "br_RegimeStats r = []"
    "br_TemporalBreakdown r = br_TemporalBreakdown empty_result"
    by (simp_all add: r_def report_base)
  then have "let q = report_metrics powf (ru_trades s) (ru_equity s) (ru_mtmEquity s) r;
      n = int (length (ru_trades s)) in br_NumTrades q = n \<and>
      br_NumWins q + br_NumLosses q = n \<and> sum_list (map rg_NumTrades (br_RegimeStats q)) = n \<and>
      sum_list (map pe_NumTrades (tb_Daily (br_TemporalBreakdown q))) = n \<and>
      sum_list (map pe_NumTrades (tb_Yearly (br_TemporalBreakdown q))) = n"
    using report_metrics_counts [of r "ru_trades s"] by (simp add: Let_def)
  then show ?thesis using assms by (simp add: Engine_report_def Let_def r_def)
qed

text \<open>The report of a run counts what the run did. On a new engine and with an evaluation that never
  panics the number of trades is the number of signals passed; wins and losses, the regimes, the days
  and the years each add up to it.\<close>

theorem report_counts_signals:
  assumes "never_panics env"
  shows "\<exists>s'. Engine_Run env cfg candles (EngineBuilder_Build slippage rng ml) = Some s' \<and>
    (let r = Engine_report powf ps cfg declared candles s' in
       br_NumTrades r = sd_SignalsPassed (be_signalDiag s') \<and> br_NumWins r + br_NumLosses r = br_NumTrades r \<and>
       sum_list (map rg_NumTrades (br_RegimeStats r)) = br_NumTrades r \<and>
       sum_list (map pe_NumTrades (tb_Daily (br_TemporalBreakdown r))) = br_NumTrades r \<and>
       sum_list (map pe_NumTrades (tb_Yearly (br_TemporalBreakdown r))) = br_NumTrades r)"
proof -
  obtain s' where s': "Engine_Run env cfg candles (EngineBuilder_Build slippage rng ml) = Some s'"
    using run_returns [OF assms] by blast
  have "be_signalDiag (EngineBuilder_Build slippage rng ml :: ('a, 'b, 'c) Engine) = zero_diag"
    by (simp add: EngineBuilder_Build_def)
  with run_balanced [OF s'] have b: "sd_SignalsPassed (be_signalDiag s') = int (length (ru_trades s'))"
    by (simp add: balanced_def zero_diag_def)
  have e: "ru_trades s' = []" if "candles = []"
    using s' that by (auto simp: Engine_Run_def Engine_start_def Engine_finish_def Let_def)
  show ?thesis
  proof (cases "candles = []")
    case True
    then show ?thesis
      using e b s' by (intro exI [of _ s']) (simp add: Engine_report_def empty_result_def)
  next
    case False
    then show ?thesis
      using report_counts [OF False, of powf ps cfg declared s'] b by (intro exI [of _ s']) (simp add: s' Let_def)
  qed
qed

lemma report_counts_signals_witness:
  "\<exists>s'. Engine_Run buy_env run_cfg rising_bars new_engine = Some s' \<and>
    br_NumWins (Engine_report (\<lambda>x y. x) None run_cfg 1 rising_bars s') +
    br_NumLosses (Engine_report (\<lambda>x y. x) None run_cfg 1 rising_bars s') = sd_SignalsPassed (be_signalDiag s')"
proof -
  have np: "never_panics buy_env" by (simp add: never_panics_def buy_env_def)
  show ?thesis
    unfolding new_engine_def
    using report_counts_signals [OF np, of run_cfg rising_bars "\<lparr>sm_Type = ''FIXED'', sm_SpreadBps = 0,
        sm_MaxSlippage = 0, sm_LatencyMs = 0, sm_VolumeImpactFactor = 0, sm_AdverseSelectBps = 0\<rparr>" 0 "()"
        "\<lambda>x y. x" None 1]
    by (auto simp: Let_def)
qed

section \<open>The gate profiles\<close>

lemma conclude_passed: "mu_Passed (conclude vs) \<longleftrightarrow> mu_PassedCount (conclude vs) = mu_TotalCount (conclude vs)"
proof -
  have "list_all mv_Passed vs \<longleftrightarrow> length (filter mv_Passed vs) = length vs"
    by (metis filter_True length_filter_less less_irrefl list_all_iff)
  then show ?thesis by (simp add: conclude_def)
qed

lemma standard_lits:
  "(lit (5/10) :: f64) \<le> lit 1" "(lit 1 :: f64) \<le> lit (15/10)" "(lit 5 :: f64) \<le> lit 8" "(lit 8 :: f64) \<le> lit 15"
  "(lit (12/10) :: f64) \<le> lit (15/10)" "(lit (15/10) :: f64) \<le> lit 2"
  unfolding lit_def by (rule rnd_mono; simp)+

text \<open>The gate profiles are ordered: a result that passes the strict standard passes the default
  one, and one that passes the default passes the lenient one.\<close>

theorem gate_profiles_ordered:
  assumes "mu_Passed (EvaluateBacktestMultiMetric (Some r) StrictMultiMetricStandard)"
  shows "mu_Passed (EvaluateBacktestMultiMetric (Some r) DefaultMultiMetricStandard) \<and>
    mu_Passed (EvaluateBacktestMultiMetric (Some r) LenientMultiMetricStandard)"
proof -
  have "\<not> (0 :: f64) < 0" by (simp add: less_f64_def)
  with assms show ?thesis
    using standard_lits
    by (auto simp: EvaluateBacktestMultiMetric_def conclude_def at_least_def at_most_def enough_trades_def
        StrictMultiMetricStandard_def DefaultMultiMetricStandard_def LenientMultiMetricStandard_def
        intro: f64_le_trans)
qed

lemma gate_profiles_ordered_witness:
  "mu_Passed (EvaluateBacktestMultiMetric (Some (empty_result\<lparr>br_SharpeRatio := lit 2, br_ProfitFactor := lit 3,
     br_NumTrades := 60, br_SortinoRatio := lit 2\<rparr>)) LenientMultiMetricStandard)"
  by (rule gate_profiles_ordered [THEN conjunct2])
    (simp add: EvaluateBacktestMultiMetric_def conclude_def at_least_def at_most_def enough_trades_def
      StrictMultiMetricStandard_def empty_result_def f64_eval)

text \<open>The reset of the return for a capital that is not finite has no effect.\<close>

lemma nan_capital_is_reported:
  "br_TotalReturn (report_return cfg FNaN r) = FNaN" "br_TotalReturnPct (report_return cfg FNaN r) = 0"
  by (simp_all add: report_return_def not_finite_def is_nan_def Let_def minus_f64_def plus_f64_def)

end
