(* ===== verification/Optimizer.thy ===== *)
theory Optimizer
  imports Report
begin

text \<open>
  The parameter search, \<open>internal/backtest/optimizer.go\<close>, and the choice of a robust parameter
  set in \<open>internal/backtest/optimized_walk_forward.go\<close>. A search space is a Go map from names to
  constraints; the enumeration sorts the names. The parameters of a strategy's runner and the
  random numbers are parameters of the model, as is the text of a number in a key
  (\<open>fmt.Sprintf\<close>). \<open>None\<close> is a loop that does not end or an index out of range; the ties of
  \<open>sort.Slice\<close>, which the library leaves open, keep their order here.
\<close>

section \<open>Search spaces\<close>

record ConditionalRule =
  cr_LeftParam :: string
  cr_Operator :: string
  cr_RightParam :: string

record ParamConstraint =
  pc_Name :: string
  pc_Type :: string
  pc_Min :: f64
  pc_Max :: f64
  pc_Step :: f64
  pc_CategoricalValues :: "string list"
  pc_Condition :: "ConditionalRule option"

type_synonym SearchSpace = "(string, ParamConstraint) gomap"
type_synonym combo = "(string, f64) gomap"

text \<open>The values of a parameter: \<open>for v := Min; v <= Max+1e-9; v += Step\<close>, rounded to six digits.\<close>

partial_function (option) grid_loop :: "f64 \<Rightarrow> f64 \<Rightarrow> f64 \<Rightarrow> f64 list \<Rightarrow> f64 list option" where
  "grid_loop v limit step vals =
     (if v \<le> limit
      then grid_loop (v + step) limit step (vals @ [math_round (v * lit 1000000) / lit 1000000])
      else Some vals)"

declare grid_loop.simps [code]

definition ParamConstraint_Grid :: "ParamConstraint \<Rightarrow> f64 list option" where
  "ParamConstraint_Grid c =
     (if pc_Type c = ''categorical''
      then Some (map (\<lambda>i. float_of_int (int i)) [0..<length (pc_CategoricalValues c)])
      else grid_loop (pc_Min c) (pc_Max c + lit (1 / 10 ^ 9)) (if pc_Step c \<le> 0 then 1 else pc_Step c) [])"

definition compareCondition :: "string \<Rightarrow> f64 \<Rightarrow> f64 \<Rightarrow> bool" where
  "compareCondition op left right =
     (if op = ''lt'' then left < right else if op = ''gt'' then left > right
      else if op = ''lte'' then left \<le> right else if op = ''gte'' then left \<ge> right
      else if op = ''eq'' then feq left right else if op = ''neq'' then \<not> feq left right else True)"

definition SearchSpace_checkCondition :: "SearchSpace \<Rightarrow> combo \<Rightarrow> bool" where
  "SearchSpace_checkCondition s m = list_all (\<lambda>(name, c). case pc_Condition c of None \<Rightarrow> True | Some r \<Rightarrow>
     (case (mlookup m (cr_LeftParam r), mlookup m (cr_RightParam r)) of
        (Some l, Some x) \<Rightarrow> compareCondition (cr_Operator r) l x | _ \<Rightarrow> True)) s"

definition param_names :: "SearchSpace \<Rightarrow> string list" where
  "param_names s = sort (map fst s)"

fun all_some :: "'a option list \<Rightarrow> 'a list option" where
  "all_some [] = Some []"
| "all_some (x # xs) = (case (x, all_some xs) of (Some y, Some ys) \<Rightarrow> Some (y # ys) | _ \<Rightarrow> None)"

definition space_grids :: "SearchSpace \<Rightarrow> f64 list list option" where
  "space_grids s = all_some (map (\<lambda>n. case mlookup s n of None \<Rightarrow> None | Some c \<Rightarrow> ParamConstraint_Grid c) (param_names s))"

definition SearchSpace_TotalCombinations :: "SearchSpace \<Rightarrow> int option" where
  "SearchSpace_TotalCombinations s =
     map_option (foldl (\<lambda>total g. wrap64 (total * int (length g))) 1) (space_grids s)"

section \<open>The enumeration\<close>

text \<open>Go's loop \<open>for pos >= 0\<close> from the position below \<open>p\<close>: the next indices, none after the last.\<close>

fun advance :: "nat list \<Rightarrow> nat list \<Rightarrow> nat \<Rightarrow> nat list option" where
  "advance lens indices 0 = None"
| "advance lens indices (Suc pos) =
     (let indices = indices[pos := indices ! pos + 1] in
      if indices ! pos < lens ! pos then Some indices else advance lens (indices[pos := 0]) pos)"

definition combo_of :: "SearchSpace \<Rightarrow> string list \<Rightarrow> f64 list list \<Rightarrow> nat list \<Rightarrow> combo" where
  "combo_of s names grids indices = map (\<lambda>(name, grid, i).
     (name, if (case mlookup s name of None \<Rightarrow> False | Some c \<Rightarrow> pc_Type c = ''integer'')
            then float_of_int (int64_of_float (grid ! i)) else grid ! i)) (zip names (zip grids indices))"

text \<open>The conditions by position; an unknown name has position zero.\<close>

fun index_of :: "string list \<Rightarrow> string \<Rightarrow> nat" where
  "index_of [] n = 0"
| "index_of (x # xs) n = (if x = n then 0 else if n \<in> set xs then Suc (index_of xs n) else 0)"

definition space_conds :: "SearchSpace \<Rightarrow> string list \<Rightarrow> (nat \<times> nat \<times> string) list" where
  "space_conds s names = map (\<lambda>r. (index_of names (cr_LeftParam r), index_of names (cr_RightParam r), cr_Operator r))
     (concat (map (\<lambda>(name, c). case pc_Condition c of None \<Rightarrow> [] | Some r \<Rightarrow> [r]) s))"

text \<open>Whether a combination is valid, and the position from which to go on.\<close>

definition check_conds :: "(nat \<times> nat \<times> string) list \<Rightarrow> string list \<Rightarrow> combo \<Rightarrow> bool \<times> int" where
  "check_conds conds names m = foldl (\<lambda>(valid, prunePos) (l, r, op).
     case (mlookup m (names ! l), mlookup m (names ! r)) of
       (Some x, Some y) \<Rightarrow> if compareCondition op x y then (valid, prunePos)
          else (False, max (max prunePos (int l)) (int r))
     | _ \<Rightarrow> (valid, prunePos)) (True, int (length names) - 1) conds"

partial_function (option) combos_loop :: "SearchSpace \<Rightarrow> string list \<Rightarrow> f64 list list \<Rightarrow> (nat \<times> nat \<times> string) list \<Rightarrow>
  nat list \<Rightarrow> combo list \<Rightarrow> combo list option" where
  "combos_loop s names grids conds indices results =
     (if \<not> list_all2 (\<lambda>i g. i < length g) indices grids then None else
      let m = combo_of s names grids indices; (valid, prunePos) = check_conds conds names m;
          results = (if valid then results @ [m] else results);
          indices = (if valid then indices
             else take (nat (prunePos + 1)) indices @ replicate (length indices - nat (prunePos + 1)) 0)
      in (case advance (map length grids) indices (nat (prunePos + 1)) of
            None \<Rightarrow> Some results
          | Some indices \<Rightarrow> combos_loop s names grids conds indices results))"

declare combos_loop.simps [code]

definition SearchSpace_GenerateAllCombinations :: "SearchSpace \<Rightarrow> combo list option" where
  "SearchSpace_GenerateAllCombinations s = (case space_grids s of None \<Rightarrow> None | Some grids \<Rightarrow>
     combos_loop s (param_names s) grids (space_conds s (param_names s)) (replicate (length grids) 0) [])"

definition SearchSpace_generateAllRaw :: "SearchSpace \<Rightarrow> combo list option" where
  "SearchSpace_generateAllRaw s = (case space_grids s of None \<Rightarrow> None | Some grids \<Rightarrow>
     combos_loop s (param_names s) grids [] (replicate (length grids) 0) [])"

text \<open>A random combination: an index into every grid; an empty grid panics.\<close>

fun random_indices :: "('g \<Rightarrow> nat \<Rightarrow> nat \<times> 'g) \<Rightarrow> f64 list list \<Rightarrow> 'g \<Rightarrow> (nat list \<times> 'g) option" where
  "random_indices intn [] g = Some ([], g)"
| "random_indices intn (xs # xss) g = (if xs = [] then None else
     let (i, g) = intn g (length xs) in map_option (\<lambda>(is, g). (i # is, g)) (random_indices intn xss g))"

definition combo_key :: "(f64 \<Rightarrow> string) \<Rightarrow> combo \<Rightarrow> (string \<times> string) list" where
  "combo_key fmt4 m = map (\<lambda>(n, v). (n, fmt4 v)) m"

fun random_loop :: "('g \<Rightarrow> nat \<Rightarrow> nat \<times> 'g) \<Rightarrow> (f64 \<Rightarrow> string) \<Rightarrow> SearchSpace \<Rightarrow> f64 list list \<Rightarrow> int \<Rightarrow> nat \<Rightarrow>
  (string \<times> string) list list \<Rightarrow> combo list \<Rightarrow> 'g \<Rightarrow> combo list option" where
  "random_loop intn fmt4 s grids wanted 0 seen results g = Some results"
| "random_loop intn fmt4 s grids wanted (Suc attempts) seen results g =
     (if \<not> int (length results) < wanted then Some results else
      (case random_indices intn grids g of None \<Rightarrow> None | Some (indices, g) \<Rightarrow>
        let m = combo_of s (param_names s) grids indices; key = combo_key fmt4 m
        in if key \<in> set seen \<or> \<not> SearchSpace_checkCondition s m
           then random_loop intn fmt4 s grids wanted attempts seen results g
           else random_loop intn fmt4 s grids wanted attempts (key # seen) (results @ [m]) g))"

definition SearchSpace_GenerateRandomCombinations :: "('g \<Rightarrow> nat \<Rightarrow> nat \<times> 'g) \<Rightarrow> (f64 \<Rightarrow> string) \<Rightarrow> (int \<Rightarrow> 'g) \<Rightarrow>
  SearchSpace \<Rightarrow> int \<Rightarrow> int \<Rightarrow> combo list option" where
  "SearchSpace_GenerateRandomCombinations intn fmt4 source s wanted seed = (case space_grids s of None \<Rightarrow> None
     | Some grids \<Rightarrow> if wanted < 0 then None
         else random_loop intn fmt4 s grids wanted (nat (wanted * 10)) [] [] (source seed))"

definition SearchSpace_GenerateCombinations :: "('g \<Rightarrow> nat \<Rightarrow> nat \<times> 'g) \<Rightarrow> (f64 \<Rightarrow> string) \<Rightarrow> (int \<Rightarrow> 'g) \<Rightarrow>
  SearchSpace \<Rightarrow> string \<Rightarrow> int \<Rightarrow> int \<Rightarrow> combo list option" where
  "SearchSpace_GenerateCombinations intn fmt4 source s search budget seed =
     (if search = ''random'' then SearchSpace_GenerateRandomCombinations intn fmt4 source s budget seed
      else if search = ''grid'' then map_option (\<lambda>xs. if budget > 0 \<and> int (length xs) > budget then take (nat budget) xs else xs)
        (SearchSpace_GenerateAllCombinations s)
      else SearchSpace_GenerateAllCombinations s)"

section \<open>Parameters of every strategy\<close>

definition constraint_of :: "string \<Rightarrow> ParamDef \<Rightarrow> ParamConstraint" where
  "constraint_of ptype d = \<lparr>pc_Name = pd_Name d, pc_Type = ptype, pc_Min = pd_Min d, pc_Max = pd_Max d,
     pc_Step = pd_Step d, pc_CategoricalValues = [], pc_Condition = None\<rparr>"

definition SearchSpaceFromParamDefs :: "ParamDef list \<Rightarrow> SearchSpace" where
  "SearchSpaceFromParamDefs defs = foldl (\<lambda>s d. mput s (pd_Name d)
     (constraint_of (if pd_Type d \<in> {''integer'', ''categorical''} then pd_Type d else ''continuous'') d)) [] defs"

definition UniversalParamDefs :: "ParamDef list" where
  "UniversalParamDefs =
     [\<lparr>pd_Name = ''sizing_percent'', pd_Type = ''continuous'', pd_Default = lit (2/100), pd_Min = lit (5/1000),
        pd_Max = lit (10/100), pd_Step = lit (5/1000)\<rparr>,
      \<lparr>pd_Name = ''kelly_fraction'', pd_Type = ''continuous'', pd_Default = lit (25/100), pd_Min = lit (10/100),
        pd_Max = lit (25/100), pd_Step = lit (5/100)\<rparr>]"

text \<open>Parameters a space already has stay as they are.\<close>

definition add_params :: "SearchSpace \<Rightarrow> ParamDef list \<Rightarrow> SearchSpace" where
  "add_params space defs = foldl (\<lambda>s d. if mlookup s (pd_Name d) \<noteq> None then s
     else mput s (pd_Name d) (constraint_of ''continuous'' d)) space defs"

definition addUniversalParams :: "SearchSpace \<Rightarrow> SearchSpace" where
  "addUniversalParams space = add_params space UniversalParamDefs"

definition RegimeParamDefs :: "string \<Rightarrow> ParamDef list" where
  "RegimeParamDefs strategyID =
     (let entry = RegimeActivationMatrix_Get NewRegimeActivationMatrix strategyID;
          weights = map (\<lambda>(n, i). \<lparr>pd_Name = n, pd_Type = ''continuous'',
             pd_Default = (if re_Allowed entry ! i then 1 else 0), pd_Min = 0, pd_Max = 1, pd_Step = lit (25/100)\<rparr>)
             [(''regime_w_calm'', 0), (''regime_w_trending'', 1), (''regime_w_highvol'', 2), (''regime_w_crisis'', 3)];
          mults = map (\<lambda>n. \<lparr>pd_Name = n, pd_Type = ''continuous'', pd_Default = 1, pd_Min = lit (5/10),
             pd_Max = lit 3, pd_Step = lit (25/100)\<rparr>)
             [''stop_mult_highvol'', ''stop_mult_crisis'', ''profit_mult_trending'']
      in weights @ mults)"

definition addRegimeParams :: "SearchSpace \<Rightarrow> string \<Rightarrow> SearchSpace" where
  "addRegimeParams space strategyID = add_params space (RegimeParamDefs strategyID)"

text \<open>The ranges a strategy narrows. The parameter definitions of a runner are an argument, none for
  a strategy the registry does not have; \<open>ParamDefsForStrategy\<close> then falls back to the runner of
  mean reversion.\<close>

definition ranged :: "string \<Rightarrow> string \<Rightarrow> f64 \<Rightarrow> f64 \<Rightarrow> f64 \<Rightarrow> ConditionalRule option \<Rightarrow> SearchSpace \<Rightarrow> SearchSpace" where
  "ranged name ptype lo hi step cond s = mput s name \<lparr>pc_Name = name, pc_Type = ptype, pc_Min = lo, pc_Max = hi,
     pc_Step = step, pc_CategoricalValues = [], pc_Condition = cond\<rparr>"

abbreviation below_param :: "string \<Rightarrow> string \<Rightarrow> ConditionalRule option" where
  "below_param a b \<equiv> Some \<lparr>cr_LeftParam = a, cr_Operator = ''lt'', cr_RightParam = b\<rparr>"

definition defaultStrategySearchSpace :: "(string \<Rightarrow> ParamDef list option) \<Rightarrow> ParamDef list \<Rightarrow> string \<Rightarrow> SearchSpace option" where
  "defaultStrategySearchSpace registry fallback strategyID =
     (let defs = (\<lambda>n. SearchSpaceFromParamDefs (case registry n of Some ds \<Rightarrow> ds | None \<Rightarrow> fallback));
          num = ''continuous''
      in if strategyID = ''trend_following'' then Some (ranged ''fast_period'' ''integer'' (lit 5) (lit 40) (lit 5)
           (below_param ''fast_period'' ''slow_period'') (defs ''trend_following''))
      else if strategyID \<in> {''intraday_mr'', ''mean_reversion''} then
        Some (ranged ''entry_z'' num (lit (75/100)) (lit (25/10)) (lit (25/100)) (below_param ''exit_z'' ''entry_z'') (defs strategyID))
      else if strategyID = ''opening_range_breakout'' then
        Some (ranged ''range_minutes'' ''integer'' (lit 2) (lit 15) (lit 1) None
          (ranged ''atr_multiplier'' num (lit 1) (lit 3) (lit (5/10)) None (defs strategyID)))
      else if strategyID = ''session_scalp'' then
        Some (ranged ''stop_loss_atr_mult'' num (lit (25/100)) (lit 2) (lit (25/100))
          (below_param ''stop_loss_atr_mult'' ''take_profit_atr_mult'') (defs strategyID))
      else if strategyID \<in> {''pairs_trading'', ''stat_arb''} then
        Some (ranged ''entry_z'' num (lit (15/10)) (lit (25/10)) (lit (25/100)) (below_param ''exit_z'' ''entry_z'') (defs ''pairs_trading''))
      else if strategyID \<in> {''volatility_harvesting'', ''vol_arb''} then
        Some (ranged ''mean_rev_entry_z'' num (lit 1) (lit (25/10)) (lit (25/100)) (below_param ''mean_rev_exit_z'' ''mean_rev_entry_z'')
          (ranged ''vix_threshold'' num (lit 15) (lit 35) (lit 2) None (defs ''volatility_harvesting'')))
      else if strategyID = ''dragon_trend'' then
        Some (ranged ''atr_multiplier'' num (lit (15/10)) (lit (35/10)) (lit (5/10)) None
          (ranged ''adx_threshold'' num (lit 15) (lit 30) (lit 2) None (defs strategyID)))
      else if strategyID = ''volume_scalp'' then
        Some (ranged ''volume_multiplier'' num (lit 1) (lit (35/10)) (lit (5/10)) None (defs strategyID))
      else map_option SearchSpaceFromParamDefs (registry strategyID))"

definition DefaultSearchSpace :: "(string \<Rightarrow> ParamDef list option) \<Rightarrow> ParamDef list \<Rightarrow> string \<Rightarrow> SearchSpace option" where
  "DefaultSearchSpace registry fallback strategyID =
     map_option (\<lambda>s. addRegimeParams (addUniversalParams s) strategyID)
       (defaultStrategySearchSpace registry fallback strategyID)"

definition ApplyOptimizationParams :: "BacktestConfig \<Rightarrow> combo option \<Rightarrow> BacktestConfig" where
  "ApplyOptimizationParams cfg params = (case params of None \<Rightarrow> cfg | Some m \<Rightarrow>
     let cfg = (case mlookup m ''sizing_percent'' of None \<Rightarrow> cfg | Some v \<Rightarrow> cfg\<lparr>bc_SizingPercent := v\<rparr>);
         cfg = (case mlookup m ''kelly_fraction'' of None \<Rightarrow> cfg | Some v \<Rightarrow> cfg\<lparr>bc_KellyFraction := v\<rparr>)
     in cfg\<lparr>bc_StrategyParams := m\<rparr>)"

section \<open>Objectives\<close>

definition objective_term :: "(string, f64) gomap \<Rightarrow> string \<Rightarrow> f64 \<Rightarrow> f64 \<Rightarrow> f64" where
  "objective_term weights name x score = (case mlookup weights name of None \<Rightarrow> score | Some w \<Rightarrow> score + w * x)"

definition composite_objective :: "BacktestResult \<Rightarrow> (string, f64) gomap \<Rightarrow> f64" where
  "composite_objective r weights =
     (let score = objective_term weights ''sharpe'' (br_SharpeRatio r / lit 2) 0;
          score = objective_term weights ''profit_factor'' (math_min (br_ProfitFactor r / lit 2) 1) score;
          score = objective_term weights ''win_rate'' (br_WinRate r / lit 100) score
      in objective_term weights ''min_drawdown''
           (if br_MaxDrawdown r > 0 then math_max 0 (1 - br_MaxDrawdown r / lit 20) else 1) score)"

definition ComputeObjective :: "BacktestResult \<Rightarrow> string \<Rightarrow> (string, f64) gomap \<Rightarrow> f64" where
  "ComputeObjective r objType weights =
     (if br_NumTrades r < 30 then lit (- 1000000)
      else if objType = ''sharpe'' then br_SharpeRatio r
      else if objType = ''sortino'' then br_SortinoRatio r
      else if objType = ''profit_factor'' then br_ProfitFactor r
      else if objType = ''win_rate'' then br_WinRate r
      else if objType = ''min_drawdown'' then - br_MaxDrawdown r
      else if objType = ''sharpe_over_dd'' then
        (if br_MaxDrawdown r > 0 then br_SharpeRatio r / br_MaxDrawdown r * lit 100 else br_SharpeRatio r)
      else if objType = ''composite'' then composite_objective r weights
      else br_SharpeRatio r)"

section \<open>The robust choice\<close>

record IVSConfig =
  iv_Enabled :: bool
  iv_NeighborRadius :: f64
  iv_PlateauThreshold :: f64
  iv_ScoreThresholdPct :: f64

definition DefaultIVSConfig :: IVSConfig where
  "DefaultIVSConfig = \<lparr>iv_Enabled = True, iv_NeighborRadius = lit (15/100), iv_PlateauThreshold = lit (50/100),
     iv_ScoreThresholdPct = lit (80/100)\<rparr>"

record ParamScore =
  ps_Params :: combo
  ps_Score :: f64

definition param_term :: "SearchSpace \<Rightarrow> combo \<Rightarrow> combo \<Rightarrow> string \<Rightarrow> f64 option" where
  "param_term space a b name = (case (mlookup a name, mlookup b name, mlookup space name) of
     (Some va, Some vb, Some c) \<Rightarrow>
       let span = pc_Max c - pc_Min c; normalized = (va - vb) / span
       in if span \<le> 0 then None else Some (normalized * normalized)
   | _ \<Rightarrow> None)"

definition paramDistance :: "combo \<Rightarrow> combo \<Rightarrow> SearchSpace \<Rightarrow> string list \<Rightarrow> f64" where
  "paramDistance a b space paramNames =
     (let terms = concat (map (\<lambda>n. case param_term space a b n of None \<Rightarrow> [] | Some x \<Rightarrow> [x]) paramNames)
      in if terms = [] then 0 else math_sqrt (fsum terms / float_of_int (int (length terms))))"

record ivsCandidate =
  iv_params :: combo
  iv_score :: f64
  iv_plateauRatio :: f64

text \<open>The distance of two parameter sets is computed once, from the earlier to the later one.\<close>

definition ivs_candidate :: "SearchSpace \<Rightarrow> string list \<Rightarrow> IVSConfig \<Rightarrow> f64 \<Rightarrow> ParamScore list \<Rightarrow> nat \<Rightarrow> ivsCandidate" where
  "ivs_candidate space names cfg scoreThreshold scored i =
     (let near = filter (\<lambda>j. j \<noteq> i \<and> paramDistance (ps_Params (scored ! min i j)) (ps_Params (scored ! max i j)) space names
             \<le> iv_NeighborRadius cfg) [0..<length scored];
          above = filter (\<lambda>j. ps_Score (scored ! j) \<ge> scoreThreshold) near
      in \<lparr>iv_params = ps_Params (scored ! i), iv_score = ps_Score (scored ! i),
          iv_plateauRatio = (if near \<noteq> [] then float_of_int (int (length above)) / float_of_int (int (length near)) else 0)\<rparr>)"

definition ivs_before :: "ivsCandidate \<Rightarrow> ivsCandidate \<Rightarrow> bool" where
  "ivs_before a b = (if \<not> feq (iv_plateauRatio a) (iv_plateauRatio b) then iv_plateauRatio a > iv_plateauRatio b
     else iv_score a > iv_score b)"

fun ivs_insert :: "ivsCandidate \<Rightarrow> ivsCandidate list \<Rightarrow> ivsCandidate list" where
  "ivs_insert x [] = [x]"
| "ivs_insert x (y # ys) = (if ivs_before y x then y # ivs_insert x ys else x # y # ys)"

definition best_score :: "f64 \<Rightarrow> ParamScore list \<Rightarrow> f64" where
  "best_score s scored = foldl (\<lambda>b p. if ps_Score p > b then ps_Score p else b) s scored"

definition RunIVS :: "ParamScore list \<Rightarrow> SearchSpace \<Rightarrow> IVSConfig \<Rightarrow> combo option \<times> bool" where
  "RunIVS scored space cfg = (case scored of [] \<Rightarrow> (None, False) | first # rest \<Rightarrow>
     let names = param_names space;
         maxScore = (if ps_Score first \<le> 0 then best_score (ps_Score first) scored else ps_Score first)
     in if names = [] \<or> maxScore \<le> 0 then (Some (ps_Params first), False) else
     let scoreThreshold = maxScore * iv_ScoreThresholdPct cfg;
         candidates = foldr ivs_insert (map (ivs_candidate space names cfg scoreThreshold scored) [0..<length scored]) []
     in (case candidates of [] \<Rightarrow> (None, False) | c # cs \<Rightarrow>
        if iv_plateauRatio c < iv_PlateauThreshold cfg
        then (Some (iv_params (foldl (\<lambda>b d. if iv_score d > iv_score b then d else b) c candidates)), False)
        else (Some (iv_params (foldl (\<lambda>b d. if iv_plateauRatio d \<ge> iv_PlateauThreshold cfg \<and> iv_score d > iv_score b
                then d else b) c cs)), True)))"

section \<open>The enumeration is the filtered product\<close>

text \<open>The successor of a tuple of indices in the lexicographic order, and all tuples in that order.\<close>

fun next_index :: "nat list \<Rightarrow> nat list \<Rightarrow> nat list option" where
  "next_index (l # ls) (i # is) = (case next_index ls is of Some js \<Rightarrow> Some (i # js)
     | None \<Rightarrow> if Suc i < l then Some (Suc i # replicate (length is) 0) else None)"
| "next_index _ _ = None"

definition all_indices :: "nat list \<Rightarrow> nat list list" where
  "all_indices lens = product_lists (map (\<lambda>l. [0..<l]) lens)"

lemma all_indices_Nil [simp]: "all_indices [] = [[]]"
  by (simp add: all_indices_def)

lemma all_indices_Cons: "all_indices (l # ls) = map (\<lambda>(i, is). i # is) (List.product [0..<l] (all_indices ls))"
  by (simp add: all_indices_def product_concat_map map_concat comp_def)

lemma all_indices_length: "is \<in> set (all_indices lens) \<Longrightarrow> length is = length lens"
  by (auto simp: all_indices_def dest: in_set_product_lists_length)

lemma length_all_indices: "length (all_indices (l # ls)) = l * length (all_indices ls)"
  by (simp add: all_indices_Cons)

lemma all_indices_nth:
  assumes "k < length (all_indices (l # ls))"
  shows "all_indices (l # ls) ! k = (k div length (all_indices ls)) # all_indices ls ! (k mod length (all_indices ls))"
proof -
  let ?m = "length (all_indices ls)"
  have k: "k < l * ?m" using assms by (simp add: length_all_indices)
  then have "0 < ?m" by (cases "?m = 0") auto
  then have "k div ?m < l" using k by (simp add: less_mult_imp_div_less)
  with k show ?thesis by (simp add: all_indices_Cons product_nth)
qed

lemma all_indices_first:
  "list_all (\<lambda>l. 0 < l) lens \<Longrightarrow> all_indices lens \<noteq> [] \<and> all_indices lens ! 0 = replicate (length lens) 0"
proof (induction lens)
  case (Cons l ls)
  then have "0 < length (all_indices (l # ls))" by (simp add: length_all_indices)
  with Cons all_indices_nth [of 0 l ls] show ?case by fastforce
qed simp

lemma next_index_nth:
  assumes "list_all (\<lambda>l. 0 < l) lens" "k < length (all_indices lens)"
  shows "next_index lens (all_indices lens ! k) =
    (if Suc k < length (all_indices lens) then Some (all_indices lens ! Suc k) else None)"
  using assms
proof (induction lens arbitrary: k)
  case (Cons l ls)
  define m where "m = length (all_indices ls)"
  have pos: "list_all (\<lambda>l. 0 < l) ls" using Cons.prems by simp
  have m: "0 < m" using all_indices_first [OF pos] by (simp add: m_def)
  have k: "k < l * m" using Cons.prems by (simp add: length_all_indices m_def)
  have mod: "k mod m < m" using m by simp
  note IH = Cons.IH [OF pos, of "k mod m", folded m_def, OF mod]
  have nth: "all_indices (l # ls) ! k = k div m # all_indices ls ! (k mod m)"
    using all_indices_nth [OF Cons.prems(2)] by (simp add: m_def)
  show ?case
  proof (cases "Suc (k mod m) < m")
    case True
    then have d: "Suc k mod m = Suc (k mod m)" "Suc k div m = k div m"
      by (simp_all add: mod_Suc div_Suc)
    have "Suc k < l * m"
    proof -
      have "k div m < l" using k m by (simp add: less_mult_imp_div_less)
      then have "Suc k div m < l" by (simp add: d)
      then show ?thesis using m by (simp add: div_less_iff_less_mult)
    qed
    then have "all_indices (l # ls) ! Suc k = k div m # all_indices ls ! Suc (k mod m)"
      using all_indices_nth [of "Suc k" l ls] d by (simp add: length_all_indices m_def)
    with IH True nth \<open>Suc k < l * m\<close> show ?thesis by (simp add: length_all_indices m_def)
  next
    case False
    with mod have e: "Suc (k mod m) = m" by simp
    then have d: "Suc k mod m = 0" "Suc k div m = Suc (k div m)" by (simp_all add: mod_Suc div_Suc)
    have iff: "Suc k < l * m \<longleftrightarrow> Suc (k div m) < l"
      using m d(2) by (metis div_less_iff_less_mult)
    have len: "length (all_indices ls ! (k mod m)) = length ls"
      using mod by (intro all_indices_length) (simp add: m_def)
    have "next_index ls (all_indices ls ! (k mod m)) = None" using IH e by simp
    moreover have "all_indices (l # ls) ! Suc k = Suc (k div m) # replicate (length ls) 0" if "Suc k < l * m"
      using all_indices_nth [of "Suc k" l ls] that d all_indices_first [OF pos] by (simp add: length_all_indices m_def)
    ultimately show ?thesis using nth iff len by (simp add: length_all_indices m_def)
  qed
qed simp

lemma next_index_snoc:
  "length ls = length is \<Longrightarrow> next_index (ls @ [l]) (is @ [i]) =
    (if Suc i < l then Some (is @ [Suc i]) else map_option (\<lambda>js. js @ [0]) (next_index ls is))"
proof (induction ls "is" rule: list_induct2)
  case (Cons x xs y ys)
  then show ?case by (auto split: option.split simp: replicate_append_same simp flip: replicate_Suc)
qed simp

text \<open>The loop over the array is that successor.\<close>

lemma advance_next:
  assumes "length ls = length is"
  shows "advance (ls @ ms) (is @ zs) (length is) = map_option (\<lambda>js. js @ zs) (next_index ls is)"
  using assms
proof (induction "is" arbitrary: ls ms zs rule: rev_induct)
  case (snoc i "is")
  then obtain ls' l where ls: "ls = ls' @ [l]" "length ls' = length is" by (cases ls rule: rev_cases) auto
  show ?case
  proof (cases "Suc i < l")
    case True
    then show ?thesis using ls by (simp add: nth_append list_update_append next_index_snoc)
  next
    case False
    have "advance (ls' @ l # ms) (is @ 0 # zs) (length is) = map_option (\<lambda>js. js @ 0 # zs) (next_index ls' is)"
      using snoc.IH [of ls' "l # ms" "0 # zs"] ls by simp
    with False ls show ?thesis
      by (simp add: nth_append list_update_append next_index_snoc option.map_comp comp_def)
  qed
qed simp

text \<open>A combination is valid if every condition holds; the position to go on from is always the last.\<close>

definition cond_holds :: "string list \<Rightarrow> combo \<Rightarrow> nat \<times> nat \<times> string \<Rightarrow> bool" where
  "cond_holds names m = (\<lambda>(l, r, op). case (mlookup m (names ! l), mlookup m (names ! r)) of
     (Some x, Some y) \<Rightarrow> compareCondition op x y | _ \<Rightarrow> True)"

lemma check_conds_eq:
  assumes "list_all (\<lambda>(l, r, op). l < length names \<and> r < length names) conds"
  shows "check_conds conds names m = (list_all (cond_holds names m) conds, int (length names) - 1)"
proof -
  have "foldl (\<lambda>(valid, prunePos) (l, r, op). case (mlookup m (names ! l), mlookup m (names ! r)) of
       (Some x, Some y) \<Rightarrow> if compareCondition op x y then (valid, prunePos)
          else (False, max (max prunePos (int l)) (int r))
     | _ \<Rightarrow> (valid, prunePos)) (b, int (length names) - 1) conds
    = (b \<and> list_all (cond_holds names m) conds, int (length names) - 1)" for b
  proof -
    have mx: "max (max (int (length names) - 1) (int l)) (int r) = int (length names) - 1"
      if "l < length names" "r < length names" for l r using that by simp
    show ?thesis
      using assms by (induction conds arbitrary: b) (auto simp: cond_holds_def mx split: option.split)
  qed
  from this [of True] show ?thesis by (simp add: check_conds_def)
qed

lemma all_indices_bounded:
  "is \<in> set (all_indices (map length grids)) \<Longrightarrow> list_all2 (\<lambda>i g. i < length g) is grids"
proof (induction grids arbitrary: "is")
  case (Cons g gs)
  then show ?case by (auto simp: all_indices_Cons)
qed simp

lemma combos_loop_from:
  assumes grids: "[] \<notin> set grids" "length names = length grids"
    and conds: "list_all (\<lambda>(l, r, op). l < length names \<and> r < length names) conds"
    and k: "k < length (all_indices (map length grids))"
  shows "combos_loop s names grids conds (all_indices (map length grids) ! k) results =
    Some (results @ filter (\<lambda>m. list_all (cond_holds names m) conds)
      (map (combo_of s names grids) (drop k (all_indices (map length grids)))))"
  using k
proof (induction "length (all_indices (map length grids)) - k" arbitrary: k results)
  case (Suc d)
  define A where "A = all_indices (map length grids)"
  have k: "k < length A" using Suc.prems by (simp add: A_def)
  have mem: "A ! k \<in> set A" using k by simp
  have len: "length (A ! k) = length names"
    using mem all_indices_length grids(2) by (fastforce simp: A_def)
  have b: "list_all2 (\<lambda>i g. i < length g) (A ! k) grids"
    using mem all_indices_bounded by (simp add: A_def)
  have pos: "list_all (\<lambda>l. 0 < l) (map length grids)" using grids(1) by (auto simp: list_all_iff)
  have adv: "advance (map length grids) (A ! k) (length names) = (if Suc k < length A then Some (A ! Suc k) else None)"
    using advance_next [of "map length grids" "A ! k" "[]" "[]"] next_index_nth [OF pos, of k] k len grids(2)
    by (simp add: A_def)
  let ?m = "combo_of s names grids (A ! k)"
  let ?r = "if list_all (cond_holds names ?m) conds then results @ [?m] else results"
  have n: "nat (int (length names) - 1 + 1) = length names" by simp
  have step: "combos_loop s names grids conds (A ! k) results = (case advance (map length grids) (A ! k) (length names) of
      None \<Rightarrow> Some ?r | Some j \<Rightarrow> combos_loop s names grids conds j ?r)"
    by (subst combos_loop.simps) (simp add: b check_conds_eq [OF conds] Let_def len)
  have drop: "drop k A = A ! k # drop (Suc k) A" using k by (simp add: Cons_nth_drop_Suc)
  show ?case
  proof (cases "Suc k < length A")
    case True
    have "combos_loop s names grids conds (A ! Suc k) ?r = Some (?r @ filter (\<lambda>m. list_all (cond_holds names m) conds)
        (map (combo_of s names grids) (drop (Suc k) A)))"
      using Suc.hyps(1) [of "Suc k" ?r] Suc.hyps(2) True by (simp add: A_def)
    with True show ?thesis unfolding A_def [symmetric] step adv drop by simp
  next
    case False
    with k have "drop (Suc k) A = []" by simp
    with False show ?thesis unfolding A_def [symmetric] step adv drop by simp
  qed
qed simp

lemma combos_loop_all:
  assumes "[] \<notin> set grids" "length names = length grids"
    "list_all (\<lambda>(l, r, op). l < length names \<and> r < length names) conds"
  shows "combos_loop s names grids conds (replicate (length grids) 0) [] =
    Some (filter (\<lambda>m. list_all (cond_holds names m) conds)
      (map (combo_of s names grids) (all_indices (map length grids))))"
proof -
  have "list_all (\<lambda>l. 0 < l) (map length grids)" using assms(1) by (auto simp: list_all_iff)
  from all_indices_first [OF this] combos_loop_from [OF assms, of 0 s "[]"] show ?thesis by auto
qed

text \<open>The conditions by position are those by name if they name parameters of the space.\<close>

definition conditions_known :: "SearchSpace \<Rightarrow> bool" where
  "conditions_known s \<longleftrightarrow> list_all (\<lambda>(n, c). case pc_Condition c of None \<Rightarrow> True
     | Some r \<Rightarrow> cr_LeftParam r \<in> fst ` set s \<and> cr_RightParam r \<in> fst ` set s) s"

lemma index_of: "n \<in> set names \<Longrightarrow> index_of names n < length names \<and> names ! index_of names n = n"
  by (induction names) auto

lemma set_param_names: "set (param_names s) = fst ` set s"
  by (simp add: param_names_def)

lemma space_conds_ok:
  assumes "conditions_known s"
  shows "list_all (\<lambda>(l, r, op). l < length (param_names s) \<and> r < length (param_names s)) (space_conds s (param_names s))"
    and "list_all (cond_holds (param_names s) m) (space_conds s (param_names s)) = SearchSpace_checkCondition s m"
proof -
  have names: "list_all (\<lambda>r. cr_LeftParam r \<in> set (param_names s) \<and> cr_RightParam r \<in> set (param_names s))
      (concat (map (\<lambda>(name, c). case pc_Condition c of None \<Rightarrow> [] | Some r \<Rightarrow> [r]) t))"
    if "set t \<subseteq> set s" for t
    using assms that unfolding set_param_names conditions_known_def
    by (fastforce simp: list_all_iff split: option.splits)
  show "list_all (\<lambda>(l, r, op). l < length (param_names s) \<and> r < length (param_names s)) (space_conds s (param_names s))"
    using names [OF subset_refl] index_of by (simp add: space_conds_def list_all_iff)
  have "list_all (cond_holds (param_names s) m) (map (\<lambda>r. (index_of (param_names s) (cr_LeftParam r),
        index_of (param_names s) (cr_RightParam r), cr_Operator r))
      (concat (map (\<lambda>(name, c). case pc_Condition c of None \<Rightarrow> [] | Some r \<Rightarrow> [r]) t))) = SearchSpace_checkCondition t m"
    if "set t \<subseteq> set s" for t
    using names [OF that] index_of
    by (induction t) (auto simp: SearchSpace_checkCondition_def cond_holds_def split: option.splits)
  from this [OF subset_refl]
  show "list_all (cond_holds (param_names s) m) (space_conds s (param_names s)) = SearchSpace_checkCondition s m"
    by (simp add: space_conds_def)
qed

lemma all_some_length: "all_some xs = Some ys \<Longrightarrow> length ys = length xs"
  by (induction xs arbitrary: ys) (auto split: option.splits)

text \<open>C7: The enumeration of a search space is complete and sound. If every parameter has a value and
  the conditions name parameters of the space, the loop over the array of indices ends, without its
  conditions it yields every combination of the grids once in lexicographic order, and with them
  exactly the combinations that satisfy the conditions, in that order.\<close>

theorem combinations_are_filtered_product:
  assumes "space_grids s = Some grids" "[] \<notin> set grids" "conditions_known s"
  shows "SearchSpace_generateAllRaw s =
      Some (map (combo_of s (param_names s) grids) (product_lists (map (\<lambda>g. [0..<length g]) grids))) \<and>
    SearchSpace_GenerateAllCombinations s =
      map_option (filter (SearchSpace_checkCondition s)) (SearchSpace_generateAllRaw s)"
proof -
  have len: "length (param_names s) = length grids"
    using all_some_length assms(1) by (fastforce simp: space_grids_def)
  have all: "all_indices (map length grids) = product_lists (map (\<lambda>g. [0..<length g]) grids)"
    by (simp add: all_indices_def comp_def)
  show ?thesis
    using combos_loop_all [OF assms(2) len, of "[]" s] combos_loop_all [OF assms(2) len space_conds_ok(1) [OF assms(3)], of s]
    by (simp add: SearchSpace_generateAllRaw_def SearchSpace_GenerateAllCombinations_def assms(1) all
        space_conds_ok(2) [OF assms(3)])
qed

definition sample_space :: SearchSpace where
  "sample_space = [(''b'', \<lparr>pc_Name = ''b'', pc_Type = ''categorical'', pc_Min = 0, pc_Max = 0, pc_Step = 0,
       pc_CategoricalValues = [''x'', ''y''], pc_Condition = None\<rparr>),
     (''a'', \<lparr>pc_Name = ''a'', pc_Type = ''categorical'', pc_Min = 0, pc_Max = 0, pc_Step = 0,
       pc_CategoricalValues = [''x'', ''y''], pc_Condition = below_param ''a'' ''b''\<rparr>)]"

lemma sample_names: "param_names sample_space = [''a'', ''b'']"
  by (simp add: param_names_def sample_space_def)

lemma sample_grids: "space_grids sample_space = Some [[0, 1], [0, 1]]" "param_names sample_space = [''a'', ''b'']"
proof -
  show "space_grids sample_space = Some [[0, 1], [0, 1]]"
    by (simp add: space_grids_def sample_names) (simp add: sample_space_def ParamConstraint_Grid_def upt_rec f64_eval)
qed (rule sample_names)

lemma sample_combos:
  "map (combo_of sample_space (param_names sample_space) [[0, 1], [0, 1]])
      (product_lists (map (\<lambda>g. [0..<length g]) [[0 :: f64, 1], [0, 1]])) =
     [[(''a'', 0), (''b'', 0)], [(''a'', 0), (''b'', 1)], [(''a'', 1), (''b'', 0)], [(''a'', 1), (''b'', 1)]]"
  by (simp add: sample_grids(2)) (simp add: upt_rec combo_of_def sample_space_def)

lemma sample_check:
  "SearchSpace_checkCondition sample_space [(''a'', x), (''b'', y)] \<longleftrightarrow> x < y"
  by (simp add: SearchSpace_checkCondition_def sample_space_def compareCondition_def)

lemma sample_order: "\<not> (0 :: f64) < 0" "(0 :: f64) < 1" "\<not> (1 :: f64) < 0" "\<not> (1 :: f64) < 1"
  by code_simp+

lemma sample_known: "conditions_known sample_space"
  by (simp add: conditions_known_def sample_space_def)

lemma combinations_are_filtered_product_witness:
  "SearchSpace_GenerateAllCombinations sample_space = Some [[(''a'', 0), (''b'', 1)]]"
proof -
  have t: "SearchSpace_generateAllRaw sample_space = Some (map (combo_of sample_space (param_names sample_space)
        [[0, 1], [0, 1]]) (product_lists (map (\<lambda>g. [0..<length g]) [[0 :: f64, 1], [0, 1]]))) \<and>
      SearchSpace_GenerateAllCombinations sample_space =
        map_option (filter (SearchSpace_checkCondition sample_space)) (SearchSpace_generateAllRaw sample_space)"
    by (rule combinations_are_filtered_product [OF sample_grids(1) _ sample_known]) simp
  show ?thesis using t [unfolded sample_combos] by (auto simp: sample_check sample_order)
qed

text \<open>An unknown name in a condition stands for the first parameter, while the check by name skips it.\<close>

lemma unknown_condition_name:
  "space_conds [(''a'', \<lparr>pc_Name = ''a'', pc_Type = '''', pc_Min = 0, pc_Max = 0, pc_Step = 0,
     pc_CategoricalValues = [], pc_Condition = below_param ''zz'' ''a''\<rparr>)] [''a''] = [(0, 0, ''lt'')]"
  by (simp add: space_conds_def)

section \<open>The robust choice is one of the scored sets\<close>

lemma set_ivs_insert [simp]: "set (ivs_insert x xs) = insert x (set xs)"
  by (induction xs) auto

lemma set_ivs_sort: "set (foldr ivs_insert xs []) = set xs"
  by (induction xs) auto

lemma foldl_pick: "foldl (\<lambda>b d. if P b d then d else b) c ds \<in> insert c (set ds)"
proof (induction ds arbitrary: c)
  case (Cons d ds)
  show ?case using Cons.IH [of "if P c d then d else c"] by (auto split: if_splits)
qed simp

lemma foldl_pick_if:
  "(\<And>b d. P b d \<Longrightarrow> Q d) \<Longrightarrow> Q c \<Longrightarrow> Q (foldl (\<lambda>b d. if P b d then d else b) c ds)"
  by (induction ds arbitrary: c) auto

section \<open>The size of a default search space\<close>

text \<open>A product of sizes in any order.\<close>

definition size_product :: "nat option list \<Rightarrow> nat option" where
  "size_product xs = (if None \<in> set xs then None else Some (prod_list (map the xs)))"

lemma size_product_all_some:
  "map_option (\<lambda>gs. prod_list (map length gs)) (all_some xs) = size_product (map (map_option length) xs)"
  by (induction xs) (auto simp: size_product_def split: option.splits if_splits)

lemma size_product_perm:
  assumes "mset xs = mset ys"
  shows "size_product xs = size_product ys"
proof -
  have "prod_list (map the xs) = prod_list (map the ys)"
    using assms by (metis mset_map prod_mset_prod_list)
  then show ?thesis using mset_eq_setD [OF assms] by (simp add: size_product_def)
qed

lemma size_product_append:
  "size_product (xs @ ys) = (case (size_product xs, size_product ys) of (Some a, Some b) \<Rightarrow> Some (a * b) | _ \<Rightarrow> None)"
  by (auto simp: size_product_def)

definition grid_size :: "ParamConstraint \<Rightarrow> nat option" where
  "grid_size c = map_option length (ParamConstraint_Grid c)"

text \<open>The number of combinations, and what the \<open>int\<close> of the code holds of it.\<close>

definition combination_count :: "SearchSpace \<Rightarrow> nat option" where
  "combination_count s = map_option (\<lambda>gs. prod_list (map length gs)) (space_grids s)"

lemma wrap64_mult_left: "wrap64 (wrap64 x * y) = wrap64 (x * y)"
proof -
  define k where "k = (x + 2 ^ 63) div 2 ^ 64"
  have "wrap64 x = x - 2 ^ 64 * k"
    using mult_div_mod_eq [of "2 ^ 64" "x + 2 ^ 63"] unfolding wrap64_def k_def by linarith
  then have "wrap64 x * y + 2 ^ 63 = (x * y + 2 ^ 63) + 2 ^ 64 * (- k * y)"
    by (simp only:) (simp add: algebra_simps)
  then show ?thesis unfolding wrap64_def [of "wrap64 x * y"] wrap64_def [of "x * y"] by (simp only: mod_mult_self2)
qed

lemma wrapped_product:
  "foldl (\<lambda>total g. wrap64 (total * int (length g))) (wrap64 a) gs = wrap64 (a * int (prod_list (map length gs)))"
  by (induction gs arbitrary: a) (simp_all add: wrap64_mult_left mult.assoc)

lemma TotalCombinations_count:
  "SearchSpace_TotalCombinations s = map_option (\<lambda>n. wrap64 (int n)) (combination_count s)"
  using wrapped_product [of 1]
  by (cases "space_grids s") (simp_all add: SearchSpace_TotalCombinations_def combination_count_def is_int64_def)

lemma total_product:
  assumes "mkeys_ok s"
  shows "combination_count s = size_product (map (grid_size \<circ> snd) s)"
proof -
  let ?f = "\<lambda>n. case mlookup s n of None \<Rightarrow> None | Some c \<Rightarrow> grid_size c"
  have "map_option length \<circ> (\<lambda>n. case mlookup s n of None \<Rightarrow> None | Some c \<Rightarrow> ParamConstraint_Grid c) = ?f"
    by (auto simp: fun_eq_iff grid_size_def split: option.split)
  then have "combination_count s = size_product (map ?f (param_names s))"
    by (simp add: combination_count_def space_grids_def size_product_all_some)
  also have "\<dots> = size_product (map ?f (map fst s))"
    by (intro size_product_perm) (simp add: param_names_def multiset.map_comp)
  also have "map ?f (map fst s) = map (grid_size \<circ> snd) s"
    using assms by (auto simp: mlookup_of_mem)
  finally show ?thesis .
qed

lemma universal_grids:
  "map (grid_size \<circ> constraint_of ''continuous'') UniversalParamDefs = [Some 20, Some 4]"
  by (simp add: UniversalParamDefs_def grid_size_def ParamConstraint_Grid_def constraint_of_def grid_loop.simps f64_eval)

lemma regime_grids:
  "map (grid_size \<circ> constraint_of ''continuous'') (RegimeParamDefs strategyID) =
     [Some 5, Some 5, Some 5, Some 5, Some 11, Some 11, Some 11]"
  by (simp add: RegimeParamDefs_def Let_def grid_size_def ParamConstraint_Grid_def constraint_of_def grid_loop.simps f64_eval)

lemma mput_new: "mlookup m k = None \<Longrightarrow> mput m k v = m @ [(k, v)]"
  unfolding mput_def by (induction m) (auto split: if_splits)

lemma add_params_new:
  "distinct (map pd_Name defs) \<Longrightarrow> set (map pd_Name defs) \<inter> fst ` set s = {} \<Longrightarrow>
    add_params s defs = s @ map (\<lambda>d. (pd_Name d, constraint_of ''continuous'' d)) defs"
proof (induction defs arbitrary: s)
  case (Cons d defs)
  have "mlookup s (pd_Name d) = None" using Cons.prems(2) by (simp add: map_of_eq_None_iff)
  then have "add_params s (d # defs) = add_params (s @ [(pd_Name d, constraint_of ''continuous'' d)]) defs"
    by (simp add: add_params_def mput_new)
  also have "\<dots> = (s @ [(pd_Name d, constraint_of ''continuous'' d)]) @
      map (\<lambda>d. (pd_Name d, constraint_of ''continuous'' d)) defs"
    using Cons.prems by (intro Cons.IH) auto
  finally show ?case by simp
qed (simp add: add_params_def)

definition added_params :: "string \<Rightarrow> ParamDef list" where
  "added_params strategyID = UniversalParamDefs @ RegimeParamDefs strategyID"

lemma added_names: "map pd_Name (added_params strategyID) = [''sizing_percent'', ''kelly_fraction'',
    ''regime_w_calm'', ''regime_w_trending'', ''regime_w_highvol'', ''regime_w_crisis'',
    ''stop_mult_highvol'', ''stop_mult_crisis'', ''profit_mult_trending'']"
  by (simp add: added_params_def UniversalParamDefs_def RegimeParamDefs_def Let_def)

lemma add_params_append: "add_params (add_params s xs) ys = add_params s (xs @ ys)"
  by (simp add: add_params_def)

text \<open>The parameters every search space gets multiply it by 66,550,000: the universal sizing parameters
  have 20 and 4 values, the four regime weights 5 each and the three exit multipliers 11 each. The
  space must not name one of them already; \<open>TotalCombinations\<close> holds the product as an \<open>int\<close>, which
  wraps.\<close>

theorem default_space_multiplies:
  assumes "mkeys_ok s" "set (map pd_Name (added_params strategyID)) \<inter> fst ` set s = {}"
    "SearchSpace_TotalCombinations s = Some n"
  shows "SearchSpace_TotalCombinations (addRegimeParams (addUniversalParams s) strategyID) = Some (wrap64 (n * 66550000))"
proof -
  let ?new = "map (\<lambda>d. (pd_Name d, constraint_of ''continuous'' d)) (added_params strategyID)"
  have d: "distinct (map pd_Name (added_params strategyID))" unfolding added_names by simp
  have eq: "addRegimeParams (addUniversalParams s) strategyID = s @ ?new"
    using add_params_new [OF d assms(2)]
    by (simp add: addRegimeParams_def addUniversalParams_def add_params_append added_params_def)
  have names: "fst \<circ> (\<lambda>d. (pd_Name d, constraint_of ''continuous'' d)) = pd_Name" by (simp add: fun_eq_iff)
  have keys: "mkeys_ok (s @ ?new)" using assms(1,2) d unfolding mkeys_ok_def by (auto simp: names)
  obtain N where N: "combination_count s = Some N" "n = wrap64 (int N)"
    using assms(3) by (auto simp: TotalCombinations_count)
  have "size_product (map (grid_size \<circ> snd) ?new) = Some 66550000"
    using universal_grids regime_grids [of strategyID] by (simp add: comp_def added_params_def size_product_def)
  moreover have "size_product (map (grid_size \<circ> snd) s) = Some N" using total_product [OF assms(1)] N(1) by simp
  ultimately have "combination_count (addRegimeParams (addUniversalParams s) strategyID) = Some (N * 66550000)"
    unfolding eq total_product [OF keys] map_append size_product_append by simp
  then show ?thesis by (simp add: TotalCombinations_count N(2) wrap64_mult_left)
qed

lemma default_space_multiplies_witness:
  "SearchSpace_TotalCombinations (addRegimeParams (addUniversalParams sample_space) ''orb'') = Some 266200000"
proof -
  have "SearchSpace_TotalCombinations sample_space = Some 4"
    using sample_grids(1) by (simp add: SearchSpace_TotalCombinations_def is_int64_def)
  moreover have "set (map pd_Name (added_params ''orb'')) \<inter> fst ` set sample_space = {}"
    unfolding added_names by (simp add: sample_space_def)
  moreover have "mkeys_ok sample_space" by (simp add: mkeys_ok_def sample_space_def)
  ultimately show ?thesis using default_space_multiplies [of sample_space "''orb''" 4] by (simp add: is_int64_def)
qed

end
