(* ===== verification/WalkForward.thy ===== *)
theory WalkForward
  imports Optimizer
begin

text \<open>
  Walk forward runs: \<open>internal/backtest/walk_forward.go\<close> and the run of
  \<open>internal/backtest/optimized_walk_forward.go\<close>. A backtest is a parameter: a run on the receiving
  engine changes its state, a run on a fresh engine does not; no result is an error. Times are
  nanoseconds. The dates of a configuration, which only the reads of the database use, stand beside
  it. \<open>None\<close> is a loop that does not end, or an index out of range.
\<close>

section \<open>Windows\<close>

record WalkForwardConfig =
  wc_Config :: BacktestConfig
  wc_StartDate :: int
  wc_EndDate :: int
  wc_TrainWindows :: int
  wc_TrainYears :: int
  wc_TestYears :: int
  wc_StepMonths :: int
  wc_PurgeTradingDays :: int
  wc_EmbargoTradingDays :: int

record WalkForwardWindow =
  ww_TrainStart :: int
  ww_TrainEnd :: int
  ww_TestStart :: int
  ww_TestEnd :: int

definition days :: "int \<Rightarrow> int" where
  "days n = wrap64 (n * 86400000000000)"

definition train_duration :: "WalkForwardConfig \<Rightarrow> int" where
  "train_duration config = days (wc_TrainYears config * 252)"

definition step_duration :: "WalkForwardConfig \<Rightarrow> int" where
  "step_duration config = days (wc_StepMonths config * 21)"

definition window_at :: "WalkForwardConfig \<Rightarrow> int \<Rightarrow> WalkForwardWindow" where
  "window_at config currentStart =
     (let testStart = currentStart + train_duration config;
          testEnd = testStart + days (wc_TestYears config * 252);
          testEnd = (if testEnd > wc_EndDate config then wc_EndDate config else testEnd)
      in \<lparr>ww_TrainStart = currentStart,
          ww_TrainEnd = testStart + days (- (1 + wc_PurgeTradingDays config + wc_EmbargoTradingDays config)),
          ww_TestStart = testStart, ww_TestEnd = testEnd\<rparr>)"

partial_function (option) windows_loop :: "WalkForwardConfig \<Rightarrow> int \<Rightarrow> WalkForwardWindow list \<Rightarrow> WalkForwardWindow list option" where
  "windows_loop config currentStart windows =
     (if currentStart + train_duration config < wc_EndDate config then
        let windows = windows @ [window_at config currentStart];
            currentStart = currentStart + step_duration config
        in if int (length windows) \<ge> wc_TrainWindows config \<and> wc_TrainWindows config > 0 then Some windows
           else windows_loop config currentStart windows
      else Some windows)"

declare windows_loop.simps [code]

definition GenerateWalkForwardWindows :: "WalkForwardConfig \<Rightarrow> WalkForwardWindow list option" where
  "GenerateWalkForwardWindows config = windows_loop config (wc_StartDate config) []"

section \<open>The fixed walk forward\<close>

record WindowResult =
  wr_Window :: int
  wr_TrainStart :: int
  wr_TestStart :: int
  wr_TestEnd :: int
  wr_InSampleSharpe :: f64
  wr_OutSampleSharpe :: f64
  wr_OutSampleSortino :: f64
  wr_OOSWinRate :: f64
  wr_OOSReturnPct :: f64
  wr_OOSMaxDD :: f64
  wr_OOSProfitFactor :: f64
  wr_OOSTrades :: int
  wr_PassedCompliance :: bool
  wr_MultiplicityWarning :: bool
  wr_AnchorOOSSharpe :: f64
  wr_AnchorPassedCompliance :: bool

record WalkForwardResult =
  wf_Windows :: "WindowResult list"
  wf_OverallSharpe :: f64
  wf_OverallWinRate :: f64
  wf_ProfitFactor :: f64
  wf_TotalReturnPct :: f64
  wf_PassedWindows :: int
  wf_TotalWindows :: int
  wf_AvgOOSSharpe :: f64
  wf_SharpeDegradation :: f64
  wf_AvgAnchorOOSSharpe :: f64

type_synonym 'e engine_run = "BacktestConfig \<Rightarrow> int \<Rightarrow> int \<Rightarrow> 'e \<Rightarrow> BacktestResult option \<times> 'e"

definition zero_wf :: "int \<Rightarrow> WalkForwardResult" where
  "zero_wf n = \<lparr>wf_Windows = [], wf_OverallSharpe = 0, wf_OverallWinRate = 0, wf_ProfitFactor = 0,
     wf_TotalReturnPct = 0, wf_PassedWindows = 0, wf_TotalWindows = n, wf_AvgOOSSharpe = 0,
     wf_SharpeDegradation = 0, wf_AvgAnchorOOSSharpe = 0\<rparr>"

definition compliant :: "BacktestResult \<Rightarrow> bool" where
  "compliant r \<longleftrightarrow> (case br_ComplianceReport r of None \<Rightarrow> False | Some c \<Rightarrow> co_Passed c)"

text \<open>The sums of the loop: Sharpe ratios in and out of sample, wins, trades and returns.\<close>

record wf_sums =
  wu_Sharpe :: f64
  wu_OOSSharpe :: f64
  wu_Wins :: int
  wu_Trades :: int
  wu_Return :: f64

definition fixed_window :: "'e engine_run \<Rightarrow> WalkForwardConfig \<Rightarrow> nat \<times> WalkForwardWindow \<Rightarrow>
  WalkForwardResult \<times> wf_sums \<times> 'e \<Rightarrow> WalkForwardResult \<times> wf_sums \<times> 'e" where
  "fixed_window run config = (\<lambda>(i, w) (result, acc, e).
     (case run (wc_Config config) (ww_TrainStart w) (ww_TrainEnd w) e of
        (None, e) \<Rightarrow> (result, acc, e)
      | (Some trainResult, e) \<Rightarrow>
        let testCfg = (if br_StrategyParams trainResult \<noteq> []
              then (wc_Config config)\<lparr>bc_StrategyParams := br_StrategyParams trainResult\<rparr> else wc_Config config)
        in (case run testCfg (ww_TestStart w) (ww_TestEnd w) e of
              (None, e) \<Rightarrow> (result, acc, e)
            | (Some testResult, e) \<Rightarrow>
              let wr = \<lparr>wr_Window = int i + 1, wr_TrainStart = ww_TrainStart w, wr_TestStart = ww_TestStart w,
                    wr_TestEnd = ww_TestEnd w, wr_InSampleSharpe = br_SharpeRatio trainResult,
                    wr_OutSampleSharpe = br_SharpeRatio testResult, wr_OutSampleSortino = br_SortinoRatio testResult,
                    wr_OOSWinRate = br_WinRate testResult, wr_OOSReturnPct = br_TotalReturnPct testResult,
                    wr_OOSMaxDD = br_MaxDrawdown testResult, wr_OOSProfitFactor = 0,
                    wr_OOSTrades = br_NumTrades testResult, wr_PassedCompliance = compliant testResult,
                    wr_MultiplicityWarning = False, wr_AnchorOOSSharpe = 0, wr_AnchorPassedCompliance = False\<rparr>
              in (result\<lparr>wf_PassedWindows := wf_PassedWindows result + (if wr_PassedCompliance wr then 1 else 0),
                         wf_Windows := wf_Windows result @ [wr]\<rparr>,
                  \<lparr>wu_Sharpe = wu_Sharpe acc + br_SharpeRatio trainResult,
                   wu_OOSSharpe = wu_OOSSharpe acc + br_SharpeRatio testResult,
                   wu_Wins = wu_Wins acc + br_NumWins testResult, wu_Trades = wu_Trades acc + br_NumTrades testResult,
                   wu_Return = wu_Return acc + br_TotalReturnPct testResult\<rparr>, e))))"

definition fixed_figures :: "wf_sums \<Rightarrow> WalkForwardResult \<Rightarrow> WalkForwardResult" where
  "fixed_figures acc result =
     (let completed = float_of_int (int (length (wf_Windows result))) in
      if wf_Windows result = [] then result else
      let result = result\<lparr>wf_AvgOOSSharpe := wu_OOSSharpe acc / completed,
                     wf_OverallSharpe := wu_Sharpe acc / completed, wf_TotalReturnPct := wu_Return acc / completed\<rparr>;
          result = (if wu_Trades acc > 0 then result\<lparr>wf_OverallWinRate :=
                     float_of_int (wu_Wins acc) / float_of_int (wu_Trades acc) * lit 100\<rparr> else result)
      in if wu_Sharpe acc > 0
         then result\<lparr>wf_SharpeDegradation := (wu_Sharpe acc - wu_OOSSharpe acc) / wu_Sharpe acc * lit 100\<rparr>
         else result)"

definition Engine_RunWalkForward :: "'e engine_run \<Rightarrow> WalkForwardConfig \<Rightarrow> 'e \<Rightarrow> (WalkForwardResult \<times> 'e) option" where
  "Engine_RunWalkForward run config e = (case GenerateWalkForwardWindows config of None \<Rightarrow> None | Some windows \<Rightarrow>
     let (result, acc, e) = fold (fixed_window run config) (enumerate 0 windows)
           (zero_wf (int (length windows)), \<lparr>wu_Sharpe = 0, wu_OOSSharpe = 0, wu_Wins = 0, wu_Trades = 0, wu_Return = 0\<rparr>, e)
     in Some (fixed_figures acc result, e))"

section \<open>The optimized walk forward\<close>

record OptimizationConfig =
  oc_StrategyID :: string
  oc_SearchSpace :: "SearchSpace option"
  oc_ObjectiveType :: string
  oc_MaxCombinations :: int
  oc_ObjectiveWeights :: "(string, f64) gomap"

record OptimizedWalkForwardConfig =
  ow_WalkForward :: WalkForwardConfig
  ow_Optimization :: OptimizationConfig
  ow_IVS :: IVSConfig

record OptimizedWalkForwardResult =
  or_WalkForward :: WalkForwardResult
  or_BestParamsPerWindow :: "combo option list"
  or_IVSRobustParamsPerWindow :: "combo option list"
  or_IVSActive :: bool

text \<open>The parameter sets of a train window and their scores. With a database the runs are on fresh
  engines in parallel, one cell of an array each; the cells of failed runs are dropped.\<close>

definition Engine_evaluateISCombinations :: "'e engine_run \<Rightarrow> (BacktestConfig \<Rightarrow> int \<Rightarrow> int \<Rightarrow> BacktestResult option) \<Rightarrow>
  bool \<Rightarrow> OptimizedWalkForwardConfig \<Rightarrow> WalkForwardWindow \<Rightarrow> combo list \<Rightarrow> 'e \<Rightarrow> ParamScore list \<times> 'e" where
  "Engine_evaluateISCombinations run fresh hasDB config w combinations e =
     (let cfg = wc_Config (ow_WalkForward config); oc = ow_Optimization config;
          score = (\<lambda>params r. \<lparr>ps_Params = params, ps_Score = ComputeObjective r (oc_ObjectiveType oc) (oc_ObjectiveWeights oc)\<rparr>)
      in if \<not> hasDB \<or> length combinations < 2
         then foldl (\<lambda>(scores, e) params.
           (case run (ApplyOptimizationParams cfg (Some params)) (ww_TrainStart w) (ww_TrainEnd w) e of
              (None, e) \<Rightarrow> (scores, e) | (Some r, e) \<Rightarrow> (scores @ [score params r], e))) ([], e) combinations
         else (List.map_filter (\<lambda>params. map_option (score params)
           (fresh (ApplyOptimizationParams cfg (Some params)) (ww_TrainStart w) (ww_TrainEnd w))) combinations, e))"

fun score_insert :: "ParamScore \<Rightarrow> ParamScore list \<Rightarrow> ParamScore list" where
  "score_insert x [] = [x]"
| "score_insert x (y # ys) = (if ps_Score y > ps_Score x then y # score_insert x ys else x # y # ys)"

definition score_threshold :: "ParamScore list \<Rightarrow> f64" where
  "score_threshold allScores =
     (let scores = sort_Float64s (map ps_Score allScores); median = scores ! (length scores div 2);
          std = math_sqrt (fsum (map (\<lambda>v. (v - median) * (v - median)) scores) / float_of_int (int (length scores)))
      in median + lit 2 * std)"

definition selected_params :: "IVSConfig \<Rightarrow> SearchSpace \<Rightarrow> ParamScore list \<Rightarrow> combo option \<times> combo option" where
  "selected_params ivs space allScores =
     (let best = Some (ps_Params (hd allScores)) in
      if iv_Enabled ivs then
        (case RunIVS allScores space ivs of (Some robust, True) \<Rightarrow> (Some robust, Some robust) | _ \<Rightarrow> (best, None))
      else (best, None))"

definition evaluateCandidates :: "'e engine_run \<Rightarrow> OptimizedWalkForwardConfig \<Rightarrow> BacktestConfig \<Rightarrow> WalkForwardWindow \<Rightarrow>
  combo option list \<Rightarrow> 'e \<Rightarrow> BacktestResult option \<times> 'e" where
  "evaluateCandidates run config testCfg w paramsList e =
     (let oc = ow_Optimization config;
          (bestScore, best, e) = foldl (\<lambda>(bestScore, best, e) params. case params of None \<Rightarrow> (bestScore, best, e) | Some _ \<Rightarrow>
             (case run (ApplyOptimizationParams testCfg params) (ww_TestStart w) (ww_TestEnd w) e of
                (None, e) \<Rightarrow> (bestScore, best, e)
              | (Some r, e) \<Rightarrow> let score = ComputeObjective r (oc_ObjectiveType oc) (oc_ObjectiveWeights oc)
                  in if score > bestScore then (score, Some r, e) else (bestScore, best, e)))
             (lit (- 1000000000), None, e) paramsList
      in (best, e))"

definition optimized_row :: "nat \<Rightarrow> WalkForwardWindow \<Rightarrow> ParamScore list \<Rightarrow> BacktestResult \<Rightarrow> f64 \<Rightarrow> bool \<Rightarrow> WindowResult" where
  "optimized_row wi w allScores best anchorOOSSharpe anchorPassed =
     \<lparr>wr_Window = int wi + 1, wr_TrainStart = ww_TrainStart w, wr_TestStart = ww_TestStart w, wr_TestEnd = ww_TestEnd w,
      wr_InSampleSharpe = ps_Score (hd allScores), wr_OutSampleSharpe = br_SharpeRatio best, wr_OutSampleSortino = 0,
      wr_OOSWinRate = br_WinRate best, wr_OOSReturnPct = br_TotalReturnPct best, wr_OOSMaxDD = br_MaxDrawdown best,
      wr_OOSProfitFactor = 0, wr_OOSTrades = br_NumTrades best, wr_PassedCompliance = compliant best,
      wr_MultiplicityWarning = (ps_Score (hd allScores) \<le> score_threshold allScores),
      wr_AnchorOOSSharpe = anchorOOSSharpe, wr_AnchorPassedCompliance = anchorPassed\<rparr>"

definition optimized_window :: "'e engine_run \<Rightarrow> (BacktestConfig \<Rightarrow> int \<Rightarrow> int \<Rightarrow> BacktestResult option) \<Rightarrow> bool \<Rightarrow>
  OptimizedWalkForwardConfig \<Rightarrow> SearchSpace \<Rightarrow> combo list \<Rightarrow> nat \<times> WalkForwardWindow \<Rightarrow>
  OptimizedWalkForwardResult \<times> 'e \<Rightarrow> OptimizedWalkForwardResult \<times> 'e" where
  "optimized_window run fresh hasDB config space combinations = (\<lambda>(wi, w) (result, e).
     (let cfg = wc_Config (ow_WalkForward config);
          (anchorResult, e) = run cfg (ww_TestStart w) (ww_TestEnd w) e;
          anchorOOSSharpe = (case anchorResult of None \<Rightarrow> lit (- 1000000000) | Some r \<Rightarrow> br_SharpeRatio r);
          anchorPassed = (case anchorResult of None \<Rightarrow> False | Some r \<Rightarrow> compliant r);
          (allScores, e) = Engine_evaluateISCombinations run fresh hasDB config w combinations e
      in if allScores = [] then (result, e) else
      let allScores = foldr score_insert allScores [];
          bestParams = Some (ps_Params (hd allScores));
          (selected, robust) = selected_params (ow_IVS config) space allScores;
          result = result\<lparr>or_BestParamsPerWindow := (or_BestParamsPerWindow result)[wi := bestParams],
                     or_IVSRobustParamsPerWindow := (or_IVSRobustParamsPerWindow result)[wi := robust]\<rparr>;
          (best, e) = evaluateCandidates run config (ApplyOptimizationParams cfg selected) w [bestParams, robust] e;
          (best, e) = (case best of Some r \<Rightarrow> (Some r, e) | None \<Rightarrow> run cfg (ww_TestStart w) (ww_TestEnd w) e)
      in (case best of None \<Rightarrow> (result, e) | Some r \<Rightarrow>
        (result\<lparr>or_WalkForward := (or_WalkForward result)\<lparr>wf_Windows := wf_Windows (or_WalkForward result) @
            [optimized_row wi w allScores r anchorOOSSharpe anchorPassed]\<rparr>\<rparr>, e))))"

definition optimized_figures :: "WalkForwardResult \<Rightarrow> WalkForwardResult" where
  "optimized_figures r =
     (let ws = wf_Windows r; n = float_of_int (int (length ws));
          r = r\<lparr>wf_PassedWindows := int (length (filter wr_PassedCompliance ws))\<rparr>;
          totalAnchor = fsum (map wr_AnchorOOSSharpe (filter (\<lambda>w. wr_AnchorOOSSharpe w > lit (- 100000000)) ws))
      in if ws = [] then r else
      let r = r\<lparr>wf_OverallSharpe := fsum (map wr_InSampleSharpe ws) / n, wf_AvgOOSSharpe := fsum (map wr_OutSampleSharpe ws) / n\<rparr>;
          r = (if wf_OverallSharpe r > 0 then r\<lparr>wf_SharpeDegradation :=
                 (wf_OverallSharpe r - wf_AvgOOSSharpe r) / wf_OverallSharpe r * lit 100\<rparr> else r)
      in r\<lparr>wf_AvgAnchorOOSSharpe := totalAnchor / n\<rparr>)"

text \<open>The search space and its combinations are the same for every window.\<close>

definition limit_combinations :: "int \<Rightarrow> combo list \<Rightarrow> combo list" where
  "limit_combinations maxCombinations combinations =
     (if maxCombinations > 0 \<and> int (length combinations) > maxCombinations
      then take (nat maxCombinations) combinations else combinations)"

definition Engine_RunOptimizedWalkForward :: "(string \<Rightarrow> SearchSpace option) \<Rightarrow> 'e engine_run \<Rightarrow>
  (BacktestConfig \<Rightarrow> int \<Rightarrow> int \<Rightarrow> BacktestResult option) \<Rightarrow> bool \<Rightarrow> OptimizedWalkForwardConfig \<Rightarrow> 'e \<Rightarrow>
  (OptimizedWalkForwardResult \<times> 'e) option" where
  "Engine_RunOptimizedWalkForward defaultSpace run fresh hasDB config e =
     (case GenerateWalkForwardWindows (ow_WalkForward config) of None \<Rightarrow> None
      | Some [] \<Rightarrow> Some (\<lparr>or_WalkForward = zero_wf 0, or_BestParamsPerWindow = [], or_IVSRobustParamsPerWindow = [],
           or_IVSActive = False\<rparr>, e)
      | Some windows \<Rightarrow>
        let n = length windows; oc = ow_Optimization config;
            space = (case oc_SearchSpace oc of Some s \<Rightarrow> s
              | None \<Rightarrow> (case defaultSpace (oc_StrategyID oc) of None \<Rightarrow> [] | Some s \<Rightarrow> s))
        in (case SearchSpace_GenerateAllCombinations space of None \<Rightarrow> None | Some combinations \<Rightarrow>
          let (result, e) = fold (optimized_window run fresh hasDB config space
                  (limit_combinations (oc_MaxCombinations oc) combinations)) (enumerate 0 windows)
                (\<lparr>or_WalkForward = zero_wf (int n), or_BestParamsPerWindow = replicate n None,
                  or_IVSRobustParamsPerWindow = replicate n None, or_IVSActive = iv_Enabled (ow_IVS config)\<rparr>, e)
          in Some (result\<lparr>or_WalkForward := optimized_figures (or_WalkForward result)\<rparr>, e)))"

definition OptimizedWalkForwardResult_hasMultiplicityWarning :: "OptimizedWalkForwardResult \<Rightarrow> bool" where
  "OptimizedWalkForwardResult_hasMultiplicityWarning r = list_ex wr_MultiplicityWarning (wf_Windows (or_WalkForward r))"

text \<open>The parameters kept for promotion; their JSON text is left out.\<close>

definition best_window :: "WindowResult list \<Rightarrow> nat" where
  "best_window ws = foldl (\<lambda>best i. if wr_OutSampleSharpe (ws ! i) > wr_OutSampleSharpe (ws ! best) then i else best)
     0 [1..<length ws]"

definition encodeWfBestParams :: "OptimizedWalkForwardResult option \<Rightarrow> combo option" where
  "encodeWfBestParams result = (case result of None \<Rightarrow> None | Some r \<Rightarrow>
     let ws = wf_Windows (or_WalkForward r); best = best_window ws;
         robust = or_IVSRobustParamsPerWindow r; params = or_BestParamsPerWindow r
     in if ws = [] then None
        else if best < length robust \<and> robust ! best \<noteq> None then robust ! best
        else if best < length params then params ! best else None)"

text \<open>The canonical configurations.\<close>

definition base_config :: "string \<Rightarrow> f64 \<Rightarrow> BacktestConfig" where
  "base_config strategyID initialCapital = \<lparr>bc_StrategyID = strategyID, bc_InitialCapital = initialCapital,
     bc_RegimeFilter = None, bc_CommissionBps = 0, bc_BrokerFee = \<lparr>bf_PerTradeFixed = 0, bf_PerShare = 0, bf_MinFee = 0,
       bf_SECTxnFee = 0, bf_MakerFeeBps = 0, bf_TakerFeeBps = 0, bf_Enabled = False\<rparr>,
     bc_PropFirmEnabled = False, bc_StopLoss = None, bc_TakeProfit = None, bc_UseSeasonalityOverlay = False,
     bc_StrategyParams = [], bc_FixedSeed = 0, bc_SizingPercent = 0, bc_KellyFraction = 0, bc_WarmUpBars = 0,
     bc_SecondarySymbols = [], bc_SkipEarningsDays = False, bc_DisableRegimeGate = False\<rparr>"

definition NewOptimizedWalkForwardConfig :: "(string \<Rightarrow> SearchSpace option) \<Rightarrow> BacktestConfig \<Rightarrow> int \<Rightarrow> int \<Rightarrow> string \<Rightarrow>
  OptimizedWalkForwardConfig" where
  "NewOptimizedWalkForwardConfig defaultSpace base startDate endDate strategyID =
     \<lparr>ow_WalkForward = \<lparr>wc_Config = base, wc_StartDate = startDate, wc_EndDate = endDate, wc_TrainWindows = 3,
        wc_TrainYears = 1, wc_TestYears = 1, wc_StepMonths = 6, wc_PurgeTradingDays = 5, wc_EmbargoTradingDays = 2\<rparr>,
      ow_Optimization = \<lparr>oc_StrategyID = strategyID, oc_SearchSpace = defaultSpace strategyID,
        oc_ObjectiveType = ''composite'', oc_MaxCombinations = 200,
        oc_ObjectiveWeights = [(''sharpe'', lit (5/10)), (''min_drawdown'', lit (3/10)), (''profit_factor'', lit (2/10))]\<rparr>,
      ow_IVS = DefaultIVSConfig\<rparr>"

definition DefaultOptimizedWalkForwardConfig :: "(string \<Rightarrow> SearchSpace option) \<Rightarrow> string \<Rightarrow> int \<Rightarrow> int \<Rightarrow> f64 \<Rightarrow>
  OptimizedWalkForwardConfig" where
  "DefaultOptimizedWalkForwardConfig defaultSpace strategyID startDate endDate initialCapital =
     (let cfg = NewOptimizedWalkForwardConfig defaultSpace (base_config strategyID initialCapital) startDate endDate strategyID
      in cfg\<lparr>ow_WalkForward := (ow_WalkForward cfg)\<lparr>wc_TrainWindows := 5, wc_StepMonths := 3\<rparr>\<rparr>)"

section \<open>The windows\<close>

text \<open>Whether the loop goes on at a start, and whether it stops after so many windows.\<close>

definition fits :: "WalkForwardConfig \<Rightarrow> int \<Rightarrow> bool" where
  "fits config currentStart \<longleftrightarrow> currentStart + train_duration config < wc_EndDate config"

definition full :: "WalkForwardConfig \<Rightarrow> nat \<Rightarrow> bool" where
  "full config n \<longleftrightarrow> int n \<ge> wc_TrainWindows config \<and> wc_TrainWindows config > 0"

definition nth_start :: "WalkForwardConfig \<Rightarrow> nat \<Rightarrow> int" where
  "nth_start config i = wc_StartDate config + int i * step_duration config"

definition first_windows :: "WalkForwardConfig \<Rightarrow> nat \<Rightarrow> WalkForwardWindow list" where
  "first_windows config n = map (\<lambda>i. window_at config (nth_start config i)) [0..<n]"

lemma windows_loop_step:
  "windows_loop config (nth_start config i) (first_windows config i) =
     (if fits config (nth_start config i)
      then if full config (i + 1) then Some (first_windows config (i + 1))
           else windows_loop config (nth_start config (i + 1)) (first_windows config (i + 1))
      else Some (first_windows config i))"
proof -
  have "nth_start config i + step_duration config = nth_start config (i + 1)"
    by (simp add: nth_start_def algebra_simps)
  then show ?thesis
    by (subst windows_loop.simps) (simp add: fits_def full_def first_windows_def Let_def)
qed

text \<open>The loop ends at the first start that does not fit, or once enough windows are made.\<close>

definition stops :: "WalkForwardConfig \<Rightarrow> nat \<Rightarrow> bool" where
  "stops config n \<longleftrightarrow> \<not> fits config (nth_start config n) \<or> n > 0 \<and> full config n"

lemma windows_loop_runs:
  assumes "\<not> (i > 0 \<and> full config i)" "i \<le> n" "stops config n" "\<forall>k. i \<le> k \<and> k < n \<longrightarrow> \<not> stops config k"
  shows "windows_loop config (nth_start config i) (first_windows config i) = Some (first_windows config n)"
  using assms
proof (induction "n - i" arbitrary: i)
  case 0
  then show ?case by (subst windows_loop_step) (auto simp: stops_def)
next
  case (Suc d)
  then have "i < n" "fits config (nth_start config i)" by (auto simp: stops_def)
  show ?case
  proof (cases "full config (i + 1)")
    case True
    then have "stops config (i + 1)" by (simp add: stops_def)
    then have "i + 1 = n" using Suc.prems(4) \<open>i < n\<close> by (metis Suc_eq_plus1 le_add1 less_SucE linorder_neqE_nat not_less_eq)
    then show ?thesis using True \<open>fits config (nth_start config i)\<close> by (subst windows_loop_step) simp
  next
    case False
    then show ?thesis
      using Suc.hyps(1) [of "i + 1"] Suc.hyps(2) Suc.prems \<open>i < n\<close> \<open>fits config (nth_start config i)\<close>
      by (subst windows_loop_step) simp
  qed
qed

lemma windows_of_stop:
  assumes "stops config n" "\<forall>k<n. \<not> stops config k"
  shows "GenerateWalkForwardWindows config = Some (first_windows config n)"
  using windows_loop_runs [of 0 config n] assms
  by (simp add: GenerateWalkForwardWindows_def first_windows_def nth_start_def)

lemma windows_loop_endless:
  assumes "windows_loop config s ws = Some vs"
  shows "wc_TrainWindows config \<le> 0 \<longrightarrow> step_duration config \<le> 0 \<longrightarrow> \<not> fits config s"
proof (rule windows_loop.raw_induct [OF _ assms, of "\<lambda>config s ws vs. wc_TrainWindows config \<le> 0 \<longrightarrow>
    step_duration config \<le> 0 \<longrightarrow> \<not> fits config s"], intro impI notI)
  fix loop config s ws vs
  assume ih: "\<And>config s ws vs. loop config s ws = Some vs \<Longrightarrow> wc_TrainWindows config \<le> 0 \<longrightarrow>
      step_duration config \<le> 0 \<longrightarrow> \<not> fits config s"
    and step: "(if s + train_duration config < wc_EndDate config
       then let windows = ws @ [window_at config s]; currentStart = s + step_duration config
         in if wc_TrainWindows config \<le> int (length windows) \<and> 0 < wc_TrainWindows config then Some windows
            else loop config currentStart windows
       else Some ws) = Some vs"
    and c: "wc_TrainWindows config \<le> 0" "step_duration config \<le> 0" "fits config s"
  have "loop config (s + step_duration config) (ws @ [window_at config s]) = Some vs"
    using step c by (simp add: fits_def Let_def)
  then have "\<not> fits config (s + step_duration config)" using ih c by blast
  then show False using c by (simp add: fits_def)
qed

lemma windows_return_iff:
  "GenerateWalkForwardWindows config \<noteq> None \<longleftrightarrow>
     wc_EndDate config \<le> wc_StartDate config + train_duration config \<or> 0 < wc_TrainWindows config \<or>
     0 < step_duration config"
proof
  assume "GenerateWalkForwardWindows config \<noteq> None"
  then show "wc_EndDate config \<le> wc_StartDate config + train_duration config \<or> 0 < wc_TrainWindows config \<or>
      0 < step_duration config"
    using windows_loop_endless [of config "wc_StartDate config" "[]"]
    by (force simp: GenerateWalkForwardWindows_def fits_def not_less)
next
  assume c: "wc_EndDate config \<le> wc_StartDate config + train_duration config \<or> 0 < wc_TrainWindows config \<or>
      0 < step_duration config"
  have "\<exists>n. stops config n"
  proof -
    consider "wc_EndDate config \<le> wc_StartDate config + train_duration config" | "0 < wc_TrainWindows config"
      | "0 < step_duration config" using c by blast
    then show ?thesis
    proof cases
      case 1
      then have "stops config 0" by (simp add: stops_def fits_def nth_start_def)
      then show ?thesis ..
    next
      case 2
      then have "stops config (nat (wc_TrainWindows config))" by (simp add: stops_def full_def)
      then show ?thesis ..
    next
      case 3
      define d where "d = wc_EndDate config - wc_StartDate config - train_duration config"
      have "\<bar>d\<bar> * 1 \<le> \<bar>d\<bar> * step_duration config" using 3 by (intro mult_left_mono) auto
      then have "d \<le> int (nat \<bar>d\<bar>) * step_duration config" by simp
      then have "stops config (nat \<bar>d\<bar>)" by (simp add: stops_def fits_def nth_start_def d_def)
      then show ?thesis ..
    qed
  qed
  then obtain n where "stops config n" "\<forall>k<n. \<not> stops config k" using exists_least_iff [of "stops config"] by blast
  then show "GenerateWalkForwardWindows config \<noteq> None" by (simp add: windows_of_stop)
qed

text \<open>C12: The generation of the windows returns exactly if there is no window at all, the number of
  windows is limited, or the step is positive. With a step of zero months (or one that wraps to a
  negative duration) and no limit it appends windows for ever.\<close>

theorem walk_forward_windows_return:
  "GenerateWalkForwardWindows config \<noteq> None \<longleftrightarrow>
     wc_EndDate config \<le> wc_StartDate config + train_duration config \<or> 0 < wc_TrainWindows config \<or>
     0 < step_duration config"
  by (rule windows_return_iff)

text \<open>How many windows there are for a positive step.\<close>

definition window_count :: "WalkForwardConfig \<Rightarrow> int" where
  "window_count config =
     (let room = wc_EndDate config - wc_StartDate config - train_duration config;
          n = (if room \<le> 0 then 0 else (room + step_duration config - 1) div step_duration config)
      in if wc_TrainWindows config > 0 then min n (wc_TrainWindows config) else n)"

lemma fits_nth_start:
  assumes "0 < step_duration config"
  shows "fits config (nth_start config i) \<longleftrightarrow>
    int i < (wc_EndDate config - wc_StartDate config - train_duration config + step_duration config - 1) div step_duration config"
proof -
  define s d where "s = step_duration config" "d = wc_EndDate config - wc_StartDate config - train_duration config"
  have s: "0 < s" using assms by (simp add: s_d_def)
  have "int i + 1 \<le> q div s \<longleftrightarrow> (int i + 1) * s \<le> q" for q
  proof
    assume "int i + 1 \<le> q div s"
    then have "(int i + 1) * s \<le> q div s * s" using s by (intro mult_right_mono) simp_all
    also have "\<dots> \<le> q" using s by (metis add.right_neutral add_left_mono div_mult_mod_eq pos_mod_sign)
    finally show "(int i + 1) * s \<le> q" .
  next
    assume "(int i + 1) * s \<le> q"
    then have "(int i + 1) * s div s \<le> q div s" using s by (intro zdiv_mono1)
    then show "int i + 1 \<le> q div s" using s by simp
  qed
  then have "int i < (d + s - 1) div s \<longleftrightarrow> (int i + 1) * s \<le> d + s - 1" by (metis zless_iff_Suc_zadd add1_zle_eq)
  also have "\<dots> \<longleftrightarrow> int i * s < d" by (auto simp: algebra_simps)
  finally show ?thesis by (simp add: fits_def nth_start_def s_d_def algebra_simps)
qed

lemma count_room:
  assumes "0 < step_duration config"
  shows "room \<le> 0 \<longleftrightarrow> (room + step_duration config - 1) div step_duration config \<le> 0"
proof -
  have "0 < (room + step_duration config - 1) div step_duration config \<longleftrightarrow> step_duration config \<le> room + step_duration config - 1"
    using assms by (metis pos_imp_zdiv_pos_iff)
  then show ?thesis by auto
qed

lemma nat_window_count:
  assumes "0 < step_duration config"
  shows "\<exists>m. (\<forall>i. fits config (nth_start config i) \<longleftrightarrow> i < m) \<and> nat (window_count config) =
    (if wc_TrainWindows config > 0 then min m (nat (wc_TrainWindows config)) else m)"
proof -
  define room where "room = wc_EndDate config - wc_StartDate config - train_duration config"
  define q where "q = (room + step_duration config - 1) div step_duration config"
  have "room \<le> 0 \<longleftrightarrow> q \<le> 0" using count_room [OF assms, of room] by (simp add: q_def)
  then have "window_count config = (if wc_TrainWindows config > 0 then min (max 0 q) (wc_TrainWindows config) else max 0 q)"
    by (simp add: window_count_def Let_def max_def flip: room_def q_def)
  then have "nat (window_count config) =
      (if wc_TrainWindows config > 0 then min (nat q) (nat (wc_TrainWindows config)) else nat q)"
    by (simp add: min_def max_def nat_le_eq_zle)
  moreover have "fits config (nth_start config i) \<longleftrightarrow> i < nat q" for i
    using fits_nth_start [OF assms, of i] by (auto simp flip: room_def q_def)
  ultimately show ?thesis by blast
qed

lemma stops_count:
  assumes "0 < step_duration config"
  shows "stops config (nat (window_count config))" "\<forall>k<nat (window_count config). \<not> stops config k"
proof -
  obtain m where m: "\<And>i. fits config (nth_start config i) \<longleftrightarrow> i < m" "nat (window_count config) =
      (if wc_TrainWindows config > 0 then min m (nat (wc_TrainWindows config)) else m)"
    using nat_window_count [OF assms] by blast
  have f: "full config n \<longleftrightarrow> nat (wc_TrainWindows config) \<le> n \<and> wc_TrainWindows config > 0" for n
    by (auto simp: full_def)
  show "stops config (nat (window_count config))" "\<forall>k<nat (window_count config). \<not> stops config k"
    unfolding stops_def m f by (auto simp: min_def)
qed

lemma days_negative: "0 \<le> n \<Longrightarrow> n \<le> 100000 \<Longrightarrow> days (- (1 + n)) = - ((1 + n) * 86400000000000)"
  by (simp add: days_def is_int64_def)

text \<open>C13: For a positive step, and purge and embargo days that add up to between 0 and 100000, the
  windows start one step apart from the start date on, as many as fit before the end date and the
  limit allows. A test starts one training duration after its training starts and before the end
  date, and no test goes beyond the end date. The training of each window ends one day and the
  purge and embargo days before its test starts, so at least a day lies between them.\<close>

theorem walk_forward_windows_spec:
  assumes "0 < step_duration config" "0 \<le> wc_PurgeTradingDays config + wc_EmbargoTradingDays config"
    "wc_PurgeTradingDays config + wc_EmbargoTradingDays config \<le> 100000"
  shows "\<exists>ws. GenerateWalkForwardWindows config = Some ws \<and>
    ws = map (\<lambda>i. window_at config (wc_StartDate config + int i * step_duration config)) [0..<nat (window_count config)] \<and>
    list_all (\<lambda>w. ww_TestStart w = ww_TrainStart w + train_duration config \<and>
      ww_TestStart w < wc_EndDate config \<and> ww_TestEnd w \<le> wc_EndDate config \<and>
      ww_TrainEnd w = ww_TestStart w -
        (1 + (wc_PurgeTradingDays config + wc_EmbargoTradingDays config)) * 86400000000000 \<and>
      ww_TrainEnd w + days 1 \<le> ww_TestStart w) ws"
proof -
  let ?n = "nat (window_count config)"
  have "fits config (nth_start config i)" if "i < ?n" for i
    using stops_count(2) [OF assms(1)] that by (auto simp: stops_def)
  then have fit: "nth_start config i + train_duration config < wc_EndDate config" if "i < ?n" for i
    using that by (simp add: fits_def)
  define k where "k = wc_PurgeTradingDays config + wc_EmbargoTradingDays config"
  have k: "days (- (1 + k)) = - ((1 + k) * 86400000000000)" "0 \<le> k"
    using days_negative[of k] assms(2,3) by (simp_all add: k_def)
  have "GenerateWalkForwardWindows config = Some (first_windows config ?n)"
    using stops_count [OF assms(1)] by (rule windows_of_stop)
  moreover have "list_all (\<lambda>w. ww_TestStart w = ww_TrainStart w + train_duration config \<and>
      ww_TestStart w < wc_EndDate config \<and> ww_TestEnd w \<le> wc_EndDate config \<and>
      ww_TrainEnd w = ww_TestStart w - (1 + k) * 86400000000000 \<and>
      ww_TrainEnd w + days 1 \<le> ww_TestStart w) (first_windows config ?n)"
    using fit k by (auto simp: list_all_iff first_windows_def window_at_def Let_def algebra_simps k_def days_def is_int64_def)
  ultimately show ?thesis by (simp add: first_windows_def nth_start_def k_def)
qed

definition sample_walk :: WalkForwardConfig where
  "sample_walk = \<lparr>wc_Config = base_config ''trend_following'' (lit 100000), wc_StartDate = 0, wc_EndDate = days 300,
     wc_TrainWindows = 0, wc_TrainYears = 1, wc_TestYears = 1, wc_StepMonths = 1, wc_PurgeTradingDays = 5,
     wc_EmbargoTradingDays = 2\<rparr>"

lemma walk_forward_windows_spec_witness:
  "map_option length (GenerateWalkForwardWindows sample_walk) = Some 3"
proof -
  have "step_duration sample_walk = 1814400000000000" "train_duration sample_walk = 21772800000000000"
    by (simp_all add: step_duration_def train_duration_def days_def sample_walk_def is_int64_def)
  moreover from this have "window_count sample_walk = 3"
    by (simp add: window_count_def sample_walk_def days_def is_int64_def)
  ultimately show ?thesis
    using walk_forward_windows_spec [of sample_walk] by (auto simp: sample_walk_def)
qed

section \<open>What the optimized run reports\<close>

lemma optimized_window_pf:
  "wf_ProfitFactor (or_WalkForward (fst (optimized_window run fresh hasDB config space combinations iw re))) =
     wf_ProfitFactor (or_WalkForward (fst re))"
  by (cases iw; cases re) (simp add: optimized_window_def Let_def split: prod.split option.split)

lemma optimized_figures_pf [simp]: "wf_ProfitFactor (optimized_figures r) = wf_ProfitFactor r"
  by (simp add: optimized_figures_def Let_def)

text \<open>Nothing sets the profit factor of a walk forward.\<close>

lemma optimized_profit_factor:
  assumes "Engine_RunOptimizedWalkForward defaultSpace run fresh hasDB config e = Some (r, e')"
  shows "wf_ProfitFactor (or_WalkForward r) = 0"
proof -
  have f: "wf_ProfitFactor (or_WalkForward (fst (fold (optimized_window run fresh hasDB config space cs) iws re))) =
      wf_ProfitFactor (or_WalkForward (fst re))" for space cs iws re
    by (induction iws arbitrary: re) (simp_all add: optimized_window_pf)
  have f': "wf_ProfitFactor (or_WalkForward q) = wf_ProfitFactor (or_WalkForward (fst re))"
    if "fold (optimized_window run fresh hasDB config space cs) iws re = (q, e'')" for space cs iws re q e''
    using f [of space cs iws re] that by simp
  show ?thesis
    using assms
    by (auto simp: Engine_RunOptimizedWalkForward_def Let_def zero_wf_def optimized_window_pf dest!: f'
        split: option.splits list.splits prod.splits)
qed

text \<open>The index of a reported window is taken for an index of all windows: after a skipped window the
  parameters kept for promotion are those of another window.\<close>

lemma promoted_params_of_other_window:
  assumes "wf_Windows (or_WalkForward r) = [w]" "wr_Window w = 2" "or_IVSRobustParamsPerWindow r = [None, None]"
    "or_BestParamsPerWindow r = [first, second]"
  shows "encodeWfBestParams (Some r) = first"
  using assms by (simp add: encodeWfBestParams_def best_window_def Let_def)

end
