(* ===== verification/MonteCarlo.thy ===== *)
theory MonteCarlo
  imports Metrics
begin

text \<open>
  The Monte Carlo runs of \<open>internal/backtest/monte_carlo.go\<close>. Go's generator is a parameter: a new
  one from two seeds, a number below a bound, a number of the unit interval. The four workers of
  a run write disjoint parts of one array; a worker is the list of its writes. A seed from the
  clock and the time stamp of a result are left out.
\<close>

record MCConfig =
  mc_Iterations :: int
  mc_BarsPerSim :: int
  mc_Seed :: int

record MCIterationResult =
  mi_PnlPct :: f64
  mi_MaxDDPct :: f64

record MCSummary =
  mx_NumSimulations :: int
  mx_NumDays :: int
  mx_AvgPnlPct :: f64
  mx_MedianPnlPct :: f64
  mx_P5PnlPct :: f64
  mx_P10PnlPct :: f64
  mx_AvgMaxDDPct :: f64
  mx_MedianMaxDDPct :: f64
  mx_P95MaxDDPct :: f64
  mx_BustProbability :: f64

record MCResult =
  mr_Config :: MCConfig
  mr_Iterations :: "MCIterationResult list"
  mr_Summary :: MCSummary
  mr_PassProbability :: f64

section \<open>The summary\<close>

text \<open>The order of equal values, which Go leaves open, is the order of the iterations.\<close>

fun pnl_insert :: "MCIterationResult \<Rightarrow> MCIterationResult list \<Rightarrow> MCIterationResult list" where
  "pnl_insert x [] = [x]"
| "pnl_insert x (y # ys) = (if mi_PnlPct y < mi_PnlPct x then y # pnl_insert x ys else x # y # ys)"

definition busts :: "MCIterationResult \<Rightarrow> bool" where
  "busts it \<longleftrightarrow> mi_PnlPct it < 0 \<or> mi_MaxDDPct it > lit 20"

definition zero_summary :: "MCConfig \<Rightarrow> MCSummary" where
  "zero_summary cfg = \<lparr>mx_NumSimulations = mc_Iterations cfg, mx_NumDays = mc_BarsPerSim cfg, mx_AvgPnlPct = 0,
     mx_MedianPnlPct = 0, mx_P5PnlPct = 0, mx_P10PnlPct = 0, mx_AvgMaxDDPct = 0, mx_MedianMaxDDPct = 0,
     mx_P95MaxDDPct = 0, mx_BustProbability = 0\<rparr>"

definition drawdown_figures :: "MCIterationResult list \<Rightarrow> MCSummary \<Rightarrow> MCSummary" where
  "drawdown_figures iterations s =
     (let sortedDD = sort_Float64s (map mi_MaxDDPct (filter (\<lambda>it. mi_MaxDDPct it < lit 100) iterations));
          nd = length sortedDD
      in if sortedDD = [] then s
         else s\<lparr>mx_AvgMaxDDPct := fsum sortedDD / float_of_int (int nd), mx_MedianMaxDDPct := sortedDD ! (nd div 2),
                mx_P95MaxDDPct := sortedDD ! (nd * 95 div 100)\<rparr>)"

definition computeMCSummary :: "MCIterationResult list \<Rightarrow> MCConfig \<Rightarrow> MCSummary" where
  "computeMCSummary iterations cfg =
     (if iterations = [] then zero_summary cfg else
      let sorted = foldr pnl_insert iterations []; n = length sorted;
          pnl = (\<lambda>i. mi_PnlPct (sorted ! i));
          s = (zero_summary cfg)\<lparr>mx_AvgPnlPct := fsum (map mi_PnlPct sorted) / float_of_int (int n),
            mx_MedianPnlPct := pnl (n div 2), mx_P5PnlPct := pnl (n * 5 div 100), mx_P10PnlPct := pnl (n * 10 div 100),
            mx_BustProbability := float_of_int (int (length (filter busts sorted))) / float_of_int (int n)\<rparr>
      in drawdown_figures iterations s)"

definition newMCResult :: "MCConfig \<Rightarrow> MCIterationResult list \<Rightarrow> MCResult" where
  "newMCResult cfg iters =
     (let summary = computeMCSummary iters cfg;
          passProb = (if mx_BustProbability summary > 0 then (1 - mx_BustProbability summary) * lit 100 else lit 100)
      in \<lparr>mr_Config = cfg, mr_Iterations = iters, mr_Summary = summary, mr_PassProbability = passProb\<rparr>)"

section \<open>Paths\<close>

text \<open>One step of a path: the equity, and whether it was ever lost.\<close>

definition compound :: "f64 \<Rightarrow> f64 \<times> bool \<Rightarrow> f64 \<times> bool" where
  "compound r = (\<lambda>(equity, busted).
     let equity = equity * (1 + r); busted = (busted \<or> equity \<le> 0)
     in (if busted then lit (1 / 10000) else equity, busted))"

fun block_steps :: "f64 list \<Rightarrow> nat \<Rightarrow> nat \<Rightarrow> f64 \<times> bool \<Rightarrow> f64 list \<times> f64 \<times> bool" where
  "block_steps returns idx 0 st = ([], st)"
| "block_steps returns idx (Suc k) st =
     (let st = compound (returns ! (idx mod length returns)) st;
          (path, st') = block_steps returns (idx + 1) k st
      in (fst st # path, st'))"

function block_path :: "('g \<Rightarrow> nat \<Rightarrow> nat \<times> 'g) \<Rightarrow> f64 list \<Rightarrow> nat \<Rightarrow> nat \<Rightarrow> f64 \<times> bool \<Rightarrow> 'g \<Rightarrow> f64 list \<times> 'g" where
  "block_path intn returns blockLen bars st g =
     (if bars = 0 \<or> blockLen = 0 then ([], g) else
      let (start, g) = intn g (length returns);
          (path, st) = block_steps returns start (min blockLen bars) st;
          (rest, g) = block_path intn returns blockLen (bars - min blockLen bars) st g
      in (path @ rest, g))"
  by pat_completeness auto
termination by (relation "measure (\<lambda>(_, _, _, bars, _, _). bars)") auto

declare block_path.simps [simp del]

definition bootstrapBlockPath :: "('g \<Rightarrow> nat \<Rightarrow> nat \<times> 'g) \<Rightarrow> f64 list \<Rightarrow> nat \<Rightarrow> nat \<Rightarrow> 'g \<Rightarrow> f64 list \<times> 'g" where
  "bootstrapBlockPath intn returns bars blockLen g =
     (let blockLen = (if blockLen \<le> 1 \<or> blockLen > length returns div 4 then 1 else blockLen)
      in block_path intn returns blockLen bars (1, False) g)"

definition bootstrapPath :: "('g \<Rightarrow> nat \<Rightarrow> nat \<times> 'g) \<Rightarrow> f64 list \<Rightarrow> nat \<Rightarrow> 'g \<Rightarrow> f64 list \<times> 'g" where
  "bootstrapPath intn returns bars g = bootstrapBlockPath intn returns bars 7 g"

fun random_walk :: "('g \<Rightarrow> f64 \<times> 'g) \<Rightarrow> nat \<Rightarrow> f64 \<Rightarrow> 'g \<Rightarrow> f64 list \<times> 'g" where
  "random_walk unif 0 equity g = ([], g)"
| "random_walk unif (Suc bars) equity g =
     (let (u, g) = unif g; equity = equity * (1 + (u - lit (1/2)) * lit (2/100));
          equity = (if equity \<le> 0 then lit (1 / 10000) else equity);
          (path, g) = random_walk unif bars equity g
      in (equity # path, g))"

definition randomWalkPath :: "('g \<Rightarrow> f64 \<times> 'g) \<Rightarrow> nat \<Rightarrow> 'g \<Rightarrow> f64 list \<times> 'g" where
  "randomWalkPath unif bars g = random_walk unif bars 1 g"

definition path_drawdown :: "f64 \<times> f64 \<Rightarrow> f64 \<Rightarrow> f64 \<times> f64" where
  "path_drawdown = (\<lambda>(peak, maxDD) e.
     let peak = (if e > peak then e else peak);
         dd = (if peak > 0 then (peak - e) / peak * lit 100 else 0)
     in (peak, if dd > maxDD then dd else maxDD))"

definition computePathMetrics :: "f64 list \<Rightarrow> f64 \<times> f64" where
  "computePathMetrics path =
     (if path = [] then (0, 0)
      else if \<exists>e\<in>set path. feq e (lit (1 / 10000)) then (- lit 100, lit 100)
      else ((last path - 1) / 1 * lit 100, snd (foldl path_drawdown (1, 0) path)))"

section \<open>Workers\<close>

fun worker_run :: "('g \<Rightarrow> f64 list \<times> 'g) \<Rightarrow> nat \<Rightarrow> 'g \<Rightarrow> MCIterationResult list" where
  "worker_run path 0 g = []"
| "worker_run path (Suc k) g =
     (let (p, g) = path g; (pnlPct, maxDD) = computePathMetrics p
      in \<lparr>mi_PnlPct = pnlPct, mi_MaxDDPct = maxDD\<rparr> # worker_run path k g)"

definition worker_writes :: "('g \<Rightarrow> f64 list \<times> 'g) \<Rightarrow> (nat \<Rightarrow> 'g) \<Rightarrow> nat \<Rightarrow> nat \<Rightarrow> (nat \<times> MCIterationResult) list" where
  "worker_writes path newPCG n w =
     (let numWorkers = 4; chunkSize = (n + numWorkers - 1) div numWorkers;
          start = w * chunkSize; stop = min (start + chunkSize) n
      in if start \<ge> stop then []
         else zip [start..<stop] (worker_run path (stop - start) (newPCG start)))"

definition apply_writes :: "MCIterationResult list \<Rightarrow> (nat \<times> MCIterationResult) list \<Rightarrow> MCIterationResult list" where
  "apply_writes iters writes = foldl (\<lambda>xs (i, r). xs[i := r]) iters writes"

definition run_workers :: "('g \<Rightarrow> f64 list \<times> 'g) \<Rightarrow> (nat \<Rightarrow> 'g) \<Rightarrow> nat \<Rightarrow> MCIterationResult list" where
  "run_workers path newPCG n = apply_writes (replicate n \<lparr>mi_PnlPct = 0, mi_MaxDDPct = 0\<rparr>)
     (concat (map (worker_writes path newPCG n) [0..<4]))"

section \<open>The three runs\<close>

definition mc_defaults :: "MCConfig \<Rightarrow> MCConfig" where
  "mc_defaults cfg = cfg\<lparr>mc_Iterations := (if mc_Iterations cfg \<le> 0 then 500 else mc_Iterations cfg),
     mc_BarsPerSim := (if mc_BarsPerSim cfg \<le> 0 then 252 else mc_BarsPerSim cfg)\<rparr>"

text \<open>The generator of Go: \<open>NewPCG\<close>, \<open>IntN\<close> and \<open>Float64\<close>.\<close>

record 'g Rng =
  rn_NewPCG :: "nat \<Rightarrow> int \<Rightarrow> 'g"
  rn_IntN :: "'g \<Rightarrow> nat \<Rightarrow> nat \<times> 'g"
  rn_Float64 :: "'g \<Rightarrow> f64 \<times> 'g"

definition bootstrap_result :: "'g Rng \<Rightarrow> f64 list \<Rightarrow> MCConfig \<Rightarrow> MCResult" where
  "bootstrap_result rng returns cfg = newMCResult cfg (run_workers
     (bootstrapPath (rn_IntN rng) returns (nat (mc_BarsPerSim cfg)))
     (\<lambda>start. rn_NewPCG rng start (mc_Seed cfg)) (nat (mc_Iterations cfg)))"

definition extractReturns :: "DailyReturn list \<Rightarrow> f64 list" where
  "extractReturns daily = filter (\<lambda>r. \<not> not_finite r) (map dr_Return daily)"

text \<open>\<open>None\<close> is the error \<open>ErrInsufficientReturns\<close>.\<close>

definition RunMonteCarlo :: "'g Rng \<Rightarrow> DailyReturn list \<Rightarrow> MCConfig \<Rightarrow> MCResult option" where
  "RunMonteCarlo rng daily cfg =
     (let dailyReturns = extractReturns daily
      in if length dailyReturns < 2 then None else Some (bootstrap_result rng dailyReturns (mc_defaults cfg)))"

definition MonteCarloFromTrades :: "Trade list \<Rightarrow> int \<Rightarrow> int \<Rightarrow> MCConfig" where
  "MonteCarloFromTrades trades simulations seed =
     \<lparr>mc_Iterations = (if simulations \<le> 0 then 500 else simulations),
      mc_BarsPerSim = (if trades \<noteq> [] then int (length trades) else 252), mc_Seed = seed\<rparr>"

definition trade_return :: "f64 \<Rightarrow> Trade \<Rightarrow> f64" where
  "trade_return initialCapital t = (if feq (tr_PnLPct t) 0 \<and> \<not> feq (tr_PnL t) 0
     then tr_PnL t / initialCapital * lit 100 else tr_PnLPct t)"

definition RunMonteCarloFromTrades :: "'g Rng \<Rightarrow> Trade list \<Rightarrow> int \<Rightarrow> f64 \<Rightarrow> int \<Rightarrow> MCResult option" where
  "RunMonteCarloFromTrades rng trades simulations initialCapital seed =
     (let returns = map (\<lambda>p. p / lit 100) (filter (\<lambda>p. \<not> not_finite p) (map (trade_return initialCapital) trades))
      in if length trades < 2 \<or> length returns < 2 then None
         else Some (bootstrap_result rng returns \<lparr>mc_Iterations = (if simulations \<le> 0 then 500 else simulations),
                mc_BarsPerSim = int (length returns), mc_Seed = seed\<rparr>))"

definition RunMonteCarloWithContext :: "'g Rng \<Rightarrow> MCConfig \<Rightarrow> MCResult" where
  "RunMonteCarloWithContext rng cfg =
     (let cfg = mc_defaults cfg in newMCResult cfg (run_workers
        (randomWalkPath (rn_Float64 rng) (nat (mc_BarsPerSim cfg)))
        (\<lambda>start. rn_NewPCG rng start (mc_Seed cfg)) (nat (mc_Iterations cfg))))"

section \<open>The workers cover the iterations once\<close>

lemma length_worker_run [simp]: "length (worker_run path k g) = k"
  by (induction k arbitrary: g) (simp_all split: prod.split)

lemma map_fst_worker_writes:
  "map fst (worker_writes path newPCG n w) = [w * ((n + 3) div 4)..<min ((w + 1) * ((n + 3) div 4)) n]"
  by (simp add: worker_writes_def Let_def add.commute)

lemma chunks_join:
  fixes c :: nat
  shows "[0..<min (w * c) n] @ [w * c..<min ((w + 1) * c) n] = [0..<min ((w + 1) * c) n]"
proof (cases "w * c \<le> n")
  case True
  then have "w * c \<le> min ((w + 1) * c) n" by simp
  then show ?thesis using True by (metis min.absorb1 upt_add_eq_append zero_le le_add_diff_inverse add_0)
qed simp

lemma worker_indices: "map fst (concat (map (worker_writes path newPCG n) [0..<k])) = [0..<min (k * ((n + 3) div 4)) n]"
  by (induction k) (simp_all add: map_fst_worker_writes chunks_join [simplified])

lemma all_worker_indices: "map fst (concat (map (worker_writes path newPCG n) [0..<4])) = [0..<n]"
proof -
  have "n \<le> 4 * ((n + 3) div 4)" by presburger
  then show ?thesis by (simp only: worker_indices min.absorb2)
qed

lemma length_apply_writes [simp]: "length (apply_writes xs ws) = length xs"
  by (induction ws arbitrary: xs) (auto simp: apply_writes_def split: prod.split)

lemma nth_apply_writes:
  "distinct (map fst ws) \<Longrightarrow> i < length xs \<Longrightarrow>
    apply_writes xs ws ! i = (case map_of ws i of None \<Rightarrow> xs ! i | Some r \<Rightarrow> r)"
proof (induction ws arbitrary: xs)
  case (Cons w ws)
  obtain j r where w: "w = (j, r)" by (cases w)
  have "apply_writes xs (w # ws) ! i = apply_writes (xs[j := r]) ws ! i" by (simp add: apply_writes_def w)
  also have "\<dots> = (case map_of ws i of None \<Rightarrow> xs[j := r] ! i | Some r \<Rightarrow> r)" using Cons by (simp add: w)
  also have "\<dots> = (case map_of (w # ws) i of None \<Rightarrow> xs ! i | Some r \<Rightarrow> r)"
  proof (cases "i = j")
    case True
    then have "map_of ws i = None" using Cons.prems by (simp add: w map_of_eq_None_iff)
    then show ?thesis using True Cons.prems by (simp add: w)
  next
    case False
    then show ?thesis by (simp add: w split: option.split)
  qed
  finally show ?case .
qed (simp add: apply_writes_def)

lemma apply_writes_perm:
  assumes "mset ws = mset vs" "distinct (map fst vs)"
  shows "apply_writes xs ws = apply_writes xs vs"
proof -
  have d: "distinct (map fst ws)" using assms by (metis mset_eq_imp_distinct_iff mset_map)
  have "map_of ws = map_of vs"
    using assms d by (intro map_of_inject_set [THEN iffD2]) (auto dest: mset_eq_setD)
  then show ?thesis using assms(2) d by (intro nth_equalityI) (simp_all add: nth_apply_writes)
qed

lemma apply_writes_all:
  assumes "map fst ws = [0..<length xs]"
  shows "apply_writes xs ws = map snd ws"
proof (rule nth_equalityI)
  have len: "length ws = length xs" using arg_cong [OF assms, of length] by simp
  then show "length (apply_writes xs ws) = length (map snd ws)" by simp
  fix i assume "i < length (apply_writes xs ws)"
  then have i: "i < length xs" by simp
  have d: "distinct (map fst ws)" by (simp add: assms)
  have "fst (ws ! i) = i" using i len assms by (metis add_0 nth_map nth_upt)
  then have "map_of ws i = Some (snd (ws ! i))" using d i len by (metis map_of_is_SomeI nth_mem prod.collapse)
  then show "apply_writes xs ws ! i = map snd ws ! i" using d i len by (simp add: nth_apply_writes)
qed

text \<open>C14: The workers of a Monte Carlo run write every iteration exactly once, so the result does not
  depend on how their writes are interleaved: any order of the writes of the four workers leaves the
  array that the workers make one after the other, the iterations in their order.\<close>

theorem monte_carlo_schedule_independent:
  assumes "mset schedule = mset (concat (map (worker_writes path newPCG n) [0..<4]))"
  shows "map fst (concat (map (worker_writes path newPCG n) [0..<4])) = [0..<n] \<and>
    run_workers path newPCG n = map snd (concat (map (worker_writes path newPCG n) [0..<4])) \<and>
    apply_writes (replicate n \<lparr>mi_PnlPct = 0, mi_MaxDDPct = 0\<rparr>) schedule = run_workers path newPCG n"
  using apply_writes_perm [OF assms] apply_writes_all [of "concat (map (worker_writes path newPCG n) [0..<4])"]
  by (simp add: all_worker_indices run_workers_def del: map_concat)

lemma monte_carlo_schedule_independent_witness:
  "apply_writes (replicate 2 \<lparr>mi_PnlPct = 0, mi_MaxDDPct = 0\<rparr>)
     [(1, \<lparr>mi_PnlPct = 0, mi_MaxDDPct = 0\<rparr>), (0, \<lparr>mi_PnlPct = 0, mi_MaxDDPct = 0\<rparr>)] =
   run_workers (\<lambda>g :: unit. ([], g)) (\<lambda>s. ()) 2"
proof -
  have w: "concat (map (worker_writes (\<lambda>g :: unit. ([], g)) (\<lambda>s. ()) 2) [0..<4]) =
      [(0, \<lparr>mi_PnlPct = 0, mi_MaxDDPct = 0\<rparr>), (1, \<lparr>mi_PnlPct = 0, mi_MaxDDPct = 0\<rparr>)]"
    by (simp add: worker_writes_def upt_rec computePathMetrics_def Let_def)
  show ?thesis
    by (rule monte_carlo_schedule_independent [THEN conjunct2, THEN conjunct2]) (simp add: w add_mset_commute)
qed

section \<open>Probabilities\<close>

lemma float_of_int_nonneg: "0 \<le> n \<Longrightarrow> 0 \<le> float_of_int n"
  unfolding float_of_int_def by (rule rnd_nonneg) simp

lemma float_of_int_mono: "m \<le> n \<Longrightarrow> float_of_int m \<le> float_of_int n"
  unfolding float_of_int_def by (rule rnd_mono) simp

lemma ratio_unit:
  assumes "0 \<le> k" "k \<le> n" "0 < float_of_int k / float_of_int n"
  shows "float_of_int k / float_of_int n \<le> 1"
proof -
  have kn: "float_of_int k \<le> float_of_int n" using assms(2) by (rule float_of_int_mono)
  have n: "float_of_int n \<noteq> FNegInf" "float_of_int n \<noteq> FNegZero" "float_of_int n \<noteq> FNaN"
    using assms(1,2) by (auto simp: float_of_int_def rnd_def Let_def)
  show ?thesis
  proof (cases "float_of_int n")
    case (Fin q)
    have "0 \<le> q" using float_of_int_nonneg [of n] assms(1,2) Fin by (simp add: less_eq_f64_def)
    moreover have "q \<noteq> 0"
    proof
      assume "q = 0"
      moreover have "0 \<le> float_of_int k" using assms(1) by (rule float_of_int_nonneg)
      ultimately have "is_zero (float_of_int k)" using kn Fin
        by (cases "float_of_int k") (auto simp: less_eq_f64_def is_zero_def)
      then have "float_of_int k / float_of_int n = FNaN"
        using Fin \<open>q = 0\<close> by (auto simp: divide_f64_def is_zero_def is_inf_def)
      then show False using assms(3) by simp
    qed
    ultimately have q: "0 < q" by simp
    have "float_of_int k / float_of_int n \<le> float_of_int n / float_of_int n"
      using kn Fin q by (intro f64_div_mono) simp_all
    also have "float_of_int n / float_of_int n = 1"
      using Fin q lit_1 by (simp add: divide_f64_def is_zero_def is_inf_def lit_def)
    finally show ?thesis .
  next
    case FPosInf
    then have "\<exists>b. float_of_int k / float_of_int n = FNaN \<or> float_of_int k / float_of_int n = fzero b"
      by (auto simp: divide_f64_def is_inf_def)
    then show ?thesis using assms(3) by (auto simp: fzero_def less_f64_def)
  qed (use n in auto)
qed

lemma length_pnl_insert [simp]: "length (pnl_insert x xs) = Suc (length xs)"
  by (induction xs) simp_all

lemma mset_pnl_insert: "mset (pnl_insert x xs) = add_mset x (mset xs)"
  by (induction xs) simp_all

lemma mset_pnl_sort: "mset (foldr pnl_insert xs []) = mset xs"
  by (induction xs) (simp_all add: mset_pnl_insert)

lemma drawdown_figures_bust [simp]: "mx_BustProbability (drawdown_figures it s) = mx_BustProbability s"
  by (simp add: drawdown_figures_def Let_def)

lemma bust_probability:
  "mx_BustProbability (computeMCSummary iters cfg) = (if iters = [] then 0
     else float_of_int (int (length (filter busts iters))) / float_of_int (int (length iters)))"
proof -
  have len: "length (foldr pnl_insert iters []) = length iters"
    by (metis mset_eq_length mset_pnl_sort)
  have "mset (filter busts (foldr pnl_insert iters [])) = mset (filter busts iters)"
    by (simp add: mset_pnl_sort)
  then have "length (filter busts (foldr pnl_insert iters [])) = length (filter busts iters)"
    by (metis size_mset)
  then show ?thesis by (simp add: computeMCSummary_def len zero_summary_def Let_def)
qed

text \<open>The pass probability of every Monte Carlo result lies between 0 and 100, under IEEE rounding and
  for every list of iterations: the summary's bust probability is the share of the iterations that
  end with a loss or a drawdown above twenty percent, whatever the order of the iterations.\<close>

theorem pass_probability_bounds:
  "0 \<le> mr_PassProbability (newMCResult cfg iters) \<and> mr_PassProbability (newMCResult cfg iters) \<le> lit 100 \<and>
   mx_BustProbability (computeMCSummary iters cfg) = (if iters = [] then 0
     else float_of_int (int (length (filter busts iters))) / float_of_int (int (length iters)))"
proof -
  define b where "b = mx_BustProbability (computeMCSummary iters cfg)"
  define p where "p = mr_PassProbability (newMCResult cfg iters)"
  have p: "p = (if b > 0 then (1 - b) * lit 100 else lit 100)"
    by (simp add: p_def b_def newMCResult_def Let_def)
  have hundred: "is_fin (lit 100)" "0 < fval (lit 100)" "0 \<le> lit 100" "lit 100 \<le> lit 100"
    "0 * lit 100 = (0 :: f64)" "1 * lit 100 = lit 100"
    by (simp_all add: f64_eval less_eq_f64_def is_fin_def)
  have one: "(1 :: f64) - 1 = 0" "(1 :: f64) - 0 = 1" by (simp_all add: f64_eval)
  have "0 \<le> p \<and> p \<le> lit 100"
  proof (cases "b > 0")
    case True
    then have "b \<le> 1"
      using ratio_unit [of "int (length (filter busts iters))" "int (length iters)"]
      by (cases "iters = []") (simp_all add: b_def bust_probability)
    then have "0 \<le> 1 - b" "1 - b \<le> 1"
      using f64_sub_antimono [of b 1 1] f64_sub_antimono [of 0 b 1] f64_less_imp_le [OF True] one by simp_all
    then have "0 * lit 100 \<le> (1 - b) * lit 100" "(1 - b) * lit 100 \<le> 1 * lit 100"
      using hundred(1,2) by (auto intro: f64_mul_mono)
    then show ?thesis using True p hundred(5,6) by simp
  qed (use p hundred in simp)
  then show ?thesis by (simp add: p_def bust_probability)
qed

end
