(* ===== verification/Jobs.thy ===== *)
theory Jobs
  imports WalkForward MonteCarlo
begin

text \<open>
  The research job: \<open>EvaluateOOSMultiMetric\<close> of \<open>internal/backtest/multi_metric_gate.go\<close> and
  \<open>internal/backtest/job_runner.go\<close>, which puts every strategy of a job through the optimized walk
  forward, a Monte Carlo run and the gate. The counts of the database, the seed of a run and the
  default search spaces are parameters; the pauses, the time stamps and the texts of errors are left
  out. A job runs in a thread of its own; what it reports is the list of its callbacks.
\<close>

section \<open>The out of sample gate\<close>

definition worst_drawdown :: "WindowResult list \<Rightarrow> f64" where
  "worst_drawdown ws = foldl (\<lambda>worst w. if wr_OOSMaxDD w > worst then wr_OOSMaxDD w else worst) 0 ws"

definition EvaluateOOSMultiMetric :: "OptimizedWalkForwardResult option \<Rightarrow> MCResult option \<Rightarrow> MultiMetricStandard \<Rightarrow>
  MultiMetricVerdict" where
  "EvaluateOOSMultiMetric owr mcResult std =
     (case owr of None \<Rightarrow> missing ''walk_forward_data'' | Some r \<Rightarrow>
      let wf = or_WalkForward r; ws = wf_Windows wf; n = float_of_int (int (length ws));
          passProb = (case mcResult of None \<Rightarrow> 0 | Some m \<Rightarrow> mr_PassProbability m)
      in if ws = [] then missing ''walk_forward_data'' else
         conclude ([at_least ''oos_sharpe_ratio'' (mm_MinSharpeRatio std) (fsum (map wr_OutSampleSharpe ws) / n),
            at_most ''max_drawdown_pct'' (mm_MaxDrawdownPct std) (worst_drawdown ws),
            at_least ''pass_probability_pct'' (mm_MinPassProbPct std) passProb,
            at_least ''profit_factor'' (mm_MinProfitFactor std) (wf_ProfitFactor wf),
            enough_trades (mm_MinNumTrades std) (sum_list (map wr_OOSTrades ws))] @
           (if mm_MinSortinoRatio std > 0
            then [at_least ''sortino_ratio'' (mm_MinSortinoRatio std) (fsum (map wr_OutSampleSortino ws) / n)] else []) @
           (if mm_MaxSharpeDegradation std > 0 \<and> wf_SharpeDegradation wf > 0
            then [at_most ''sharpe_degradation_pct'' (mm_MaxSharpeDegradation std) (wf_SharpeDegradation wf)] else [])))"

section \<open>Jobs\<close>

record ValidationJobConfig =
  vj_JobID :: string
  vj_StrategyIDs :: "string list"
  vj_StartDate :: int
  vj_EndDate :: int
  vj_InitialCapital :: f64
  vj_IVSEnabled :: bool
  vj_Simulations :: int

datatype preflight_error = NotConnected | NoEngine | NoCandles | SyntheticCandles int

record PreflightResult =
  pr_DBConnected :: bool
  pr_EngineReady :: bool
  pr_DataCandles :: int
  pr_SyntheticCount :: int
  pr_DataRegimes :: int
  pr_Passed :: bool
  pr_Errors :: "preflight_error list"

record JobProgress =
  jp_JobID :: string
  jp_Progress :: int
  jp_Stage :: string
  jp_Status :: string
  jp_Error :: "preflight_error list option"

record StrategyPipelineResult =
  sr_StrategyID :: string
  sr_WalkForward :: "WalkForwardResult option"
  sr_MonteCarlo :: "MCResult option"
  sr_MultiMetric :: "MultiMetricVerdict option"
  sr_BestParams :: "combo option"
  sr_Error :: string

record PipelineSummary =
  pv_Passed :: int
  pv_Failed :: int
  pv_Total :: int

record PipelineResult =
  pl_JobID :: string
  pl_Status :: string
  pl_Strategies :: "StrategyPipelineResult list"
  pl_Summary :: PipelineSummary

record RunningJob =
  rj_Config :: ValidationJobConfig
  rj_Progress :: JobProgress
  rj_Result :: "PipelineResult option"

definition NewValidationJobConfig :: "string \<Rightarrow> string list \<Rightarrow> int \<Rightarrow> int \<Rightarrow> f64 \<Rightarrow> ValidationJobConfig" where
  "NewValidationJobConfig uuid strategyIDs startDate endDate initialCapital =
     \<lparr>vj_JobID = take 8 uuid, vj_StrategyIDs = strategyIDs, vj_StartDate = startDate, vj_EndDate = endDate,
      vj_InitialCapital = initialCapital, vj_IVSEnabled = True, vj_Simulations = 5000\<rparr>"

text \<open>The checks before a job. A count of the database fails with \<open>None\<close>; without an engine or without a
  database nothing is counted.\<close>

record db_counts =
  db_Candles :: "int option"
  db_Synthetic :: "int option"
  db_Regimes :: "int option"

definition count_or_zero :: "int option \<Rightarrow> int" where
  "count_or_zero c = (case c of None \<Rightarrow> 0 | Some n \<Rightarrow> n)"

definition job_preflight :: "bool \<Rightarrow> db_counts option \<Rightarrow> PreflightResult" where
  "job_preflight engineReady db =
     (let counts = (if engineReady then db else None);
          connected = (case counts of None \<Rightarrow> False | Some d \<Rightarrow> db_Candles d \<noteq> None);
          candles = (case counts of None \<Rightarrow> 0 | Some d \<Rightarrow> count_or_zero (db_Candles d));
          synthetic = (case counts of None \<Rightarrow> 0 | Some d \<Rightarrow> count_or_zero (db_Synthetic d));
          regimes = (case counts of None \<Rightarrow> 0 | Some d \<Rightarrow> count_or_zero (db_Regimes d))
      in \<lparr>pr_DBConnected = connected, pr_EngineReady = engineReady, pr_DataCandles = candles,
          pr_SyntheticCount = synthetic, pr_DataRegimes = regimes,
          pr_Passed = (connected \<and> engineReady \<and> candles > 0 \<and> synthetic = 0),
          pr_Errors = (if counts \<noteq> None \<and> \<not> connected then [NotConnected] else []) @
            (if \<not> engineReady then [NoEngine] else []) @ (if connected \<and> candles = 0 then [NoCandles] else []) @
            (if synthetic > 0 then [SyntheticCandles synthetic] else [])\<rparr>)"

section \<open>The pipeline of a strategy\<close>

text \<open>What a job uses of code outside: the default search spaces, the runs of the engine, Go's generator
  and the clock that seeds a Monte Carlo run.\<close>

record ('e, 'g) job_env =
  je_defaultSpace :: "string \<Rightarrow> SearchSpace option"
  je_run :: "'e engine_run"
  je_fresh :: "BacktestConfig \<Rightarrow> int \<Rightarrow> int \<Rightarrow> BacktestResult option"
  je_rng :: "'g Rng"
  je_seed :: "string \<Rightarrow> int"

definition pipeline_config :: "('e, 'g) job_env \<Rightarrow> ValidationJobConfig \<Rightarrow> string \<Rightarrow> OptimizedWalkForwardConfig" where
  "pipeline_config env cfg strategyID =
     (DefaultOptimizedWalkForwardConfig (je_defaultSpace env) strategyID (vj_StartDate cfg) (vj_EndDate cfg)
        (vj_InitialCapital cfg))\<lparr>ow_IVS := DefaultIVSConfig\<lparr>iv_Enabled := vj_IVSEnabled cfg\<rparr>\<rparr>"

definition last_params :: "OptimizedWalkForwardResult \<Rightarrow> combo option" where
  "last_params r = (if or_IVSRobustParamsPerWindow r \<noteq> [] then last (or_IVSRobustParamsPerWindow r)
     else if or_BestParamsPerWindow r \<noteq> [] then last (or_BestParamsPerWindow r) else None)"

text \<open>The result and the progress reported, in percent of the strategy.\<close>

definition JobRunner_executeStrategyPipeline :: "('e, 'g) job_env \<Rightarrow> ValidationJobConfig \<Rightarrow> string \<Rightarrow> 'e \<Rightarrow>
  (StrategyPipelineResult \<times> (int \<times> string) list \<times> 'e) option" where
  "JobRunner_executeStrategyPipeline env cfg strategyID e =
     (case Engine_RunOptimizedWalkForward (je_defaultSpace env) (je_run env) (je_fresh env) True
             (pipeline_config env cfg strategyID) e of
        None \<Rightarrow> None
      | Some (owfResult, e) \<Rightarrow>
        let sr = \<lparr>sr_StrategyID = strategyID, sr_WalkForward = Some (or_WalkForward owfResult), sr_MonteCarlo = None,
               sr_MultiMetric = None, sr_BestParams = last_params owfResult, sr_Error = ''''\<rparr>;
            trades = map (\<lambda>w. zero_trade\<lparr>tr_PnL := wr_OOSReturnPct w\<rparr>) (wf_Windows (or_WalkForward owfResult))
        in (case RunMonteCarloFromTrades (je_rng env) trades (vj_Simulations cfg) (vj_InitialCapital cfg)
                   (je_seed env strategyID) of
              None \<Rightarrow> Some (sr\<lparr>sr_Error := ''monte carlo''\<rparr>, [(25, ''backtest''), (50, ''montecarlo'')], e)
            | Some mcResult \<Rightarrow>
              let verdict = EvaluateOOSMultiMetric (Some owfResult) (Some mcResult) DefaultMultiMetricStandard
              in Some (sr\<lparr>sr_MonteCarlo := Some mcResult, sr_MultiMetric := Some verdict\<rparr>,
                   [(25, ''backtest''), (50, ''montecarlo''), (75, ''verdict''), (100, ''complete'')], e)))"

section \<open>The run of a job\<close>

definition strategy_progress :: "int \<Rightarrow> int \<Rightarrow> int \<Rightarrow> int" where
  "strategy_progress stratProgress perStrat p =
     (let q = stratProgress + go_div (p * perStrat) 400
      in if q > stratProgress + perStrat then stratProgress + perStrat - 1 else q)"

fun execute_strategies :: "('e, 'g) job_env \<Rightarrow> ValidationJobConfig \<Rightarrow> int \<Rightarrow> nat \<Rightarrow> string list \<Rightarrow> JobProgress \<Rightarrow> 'e \<Rightarrow>
  (StrategyPipelineResult list \<times> JobProgress \<times> JobProgress list \<times> 'e) option" where
  "execute_strategies env cfg perStrat i [] prog e = Some ([], prog, [], e)"
| "execute_strategies env cfg perStrat i (strategyID # ids) prog e =
     (let stratProgress = 10 + int i * perStrat;
          prog = prog\<lparr>jp_Progress := stratProgress, jp_Stage := ''backtest''\<rparr>
      in (case JobRunner_executeStrategyPipeline env cfg strategyID e of
            None \<Rightarrow> None
          | Some (sr, ps, e) \<Rightarrow>
            let shown = map (\<lambda>(p, stage). prog\<lparr>jp_Progress := strategy_progress stratProgress perStrat p,
                    jp_Stage := stage\<rparr>) ps
            in (case execute_strategies env cfg perStrat (i + 1) ids (last (prog # shown)) e of
                  None \<Rightarrow> None
                | Some (srs, prog', rest, e) \<Rightarrow> Some (sr # srs, prog', prog # shown @ rest, e))))"

definition pipeline_summary :: "StrategyPipelineResult list \<Rightarrow> int \<Rightarrow> PipelineSummary" where
  "pipeline_summary results totalStrategies =
     (let good = (\<lambda>s. case sr_MultiMetric s of None \<Rightarrow> False | Some v \<Rightarrow> mu_Passed v)
      in \<lparr>pv_Passed = int (length (filter good results)), pv_Failed = int (length (filter (\<lambda>s. \<not> good s) results)),
          pv_Total = totalStrategies\<rparr>)"

definition new_job :: "ValidationJobConfig \<Rightarrow> RunningJob" where
  "new_job config = \<lparr>rj_Config = config, rj_Progress = \<lparr>jp_JobID = vj_JobID config, jp_Progress = 0,
     jp_Stage = ''preflight'', jp_Status = ''running'', jp_Error = None\<rparr>, rj_Result = None\<rparr>"

definition JobRunner_executeJob :: "('e, 'g) job_env \<Rightarrow> bool \<Rightarrow> db_counts option \<Rightarrow> RunningJob \<Rightarrow> 'e \<Rightarrow>
  (RunningJob \<times> JobProgress list \<times> 'e) option" where
  "JobRunner_executeJob env engineReady db job e =
     (let cfg = rj_Config job;
          p2 = (rj_Progress job)\<lparr>jp_Progress := 2, jp_Stage := ''preflight''\<rparr>;
          preflight = job_preflight engineReady db
      in if \<not> pr_Passed preflight then
           let failed = p2\<lparr>jp_Status := ''failed'', jp_Stage := ''preflight'', jp_Error := Some (pr_Errors preflight),
                 jp_Progress := 100\<rparr>
           in Some (job\<lparr>rj_Progress := failed\<rparr>, [p2, failed], e)
         else
      let p10 = p2\<lparr>jp_Progress := 10, jp_Stage := ''preflight''\<rparr>;
          totalStrategies = int (length (vj_StrategyIDs cfg));
          finished = (\<lambda>p. p\<lparr>jp_Status := ''completed'', jp_Stage := ''complete'', jp_Progress := 100\<rparr>)
      in if totalStrategies = 0 then Some (job\<lparr>rj_Progress := finished p10\<rparr>, [p2, p10, finished p10], e)
         else (case execute_strategies env cfg (80 div totalStrategies) 0 (vj_StrategyIDs cfg) p10 e of
             None \<Rightarrow> None
           | Some (results, prog, shown, e) \<Rightarrow>
             Some (job\<lparr>rj_Progress := finished prog, rj_Result := Some \<lparr>pl_JobID = vj_JobID cfg,
                     pl_Status = ''completed'', pl_Strategies = results, pl_Summary = pipeline_summary results totalStrategies\<rparr>\<rparr>,
                   [p2, p10] @ shown @ [finished prog], e)))"

text \<open>The table of jobs. Cancelling marks the job; the context it cancels was given to nobody.\<close>

type_synonym JobRunner = "(string, RunningJob) gomap"

definition JobRunner_StartJob :: "JobRunner \<Rightarrow> ValidationJobConfig \<Rightarrow> JobRunner" where
  "JobRunner_StartJob jobs config = mput jobs (vj_JobID config) (new_job config)"

definition JobRunner_GetJob :: "JobRunner \<Rightarrow> string \<Rightarrow> RunningJob option" where
  "JobRunner_GetJob jobs jobID = mlookup jobs jobID"

definition JobRunner_GetJobStatus :: "JobRunner \<Rightarrow> string \<Rightarrow> JobProgress" where
  "JobRunner_GetJobStatus jobs jobID = (case mlookup jobs jobID of Some job \<Rightarrow> rj_Progress job
     | None \<Rightarrow> \<lparr>jp_JobID = jobID, jp_Progress = 0, jp_Stage = '''', jp_Status = ''not_found'', jp_Error = None\<rparr>)"

definition JobRunner_GetJobResult :: "JobRunner \<Rightarrow> string \<Rightarrow> PipelineResult option" where
  "JobRunner_GetJobResult jobs jobID = (case mlookup jobs jobID of Some job \<Rightarrow> rj_Result job | None \<Rightarrow> None)"

definition JobRunner_ListJobs :: "JobRunner \<Rightarrow> JobProgress list" where
  "JobRunner_ListJobs jobs = map (rj_Progress \<circ> snd) jobs"

definition JobRunner_CancelJob :: "JobRunner \<Rightarrow> string \<Rightarrow> bool \<times> JobRunner" where
  "JobRunner_CancelJob jobs jobID = (case mlookup jobs jobID of None \<Rightarrow> (False, jobs)
     | Some job \<Rightarrow> (True, mput jobs jobID (job\<lparr>rj_Progress := (rj_Progress job)\<lparr>jp_Status := ''cancelled'',
         jp_Stage := ''complete''\<rparr>\<rparr>)))"

section \<open>No strategy passes a job\<close>

lemma profiles_need_profit: "\<not> 0 \<ge> mm_MinProfitFactor (gate_standard p)"
proof -
  have "\<not> 0 \<ge> (lit (15/10) :: f64)" "\<not> 0 \<ge> (lit (12/10) :: f64)" "\<not> 0 \<ge> (lit 2 :: f64)"
    by (simp_all add: f64_eval)
  then show ?thesis
    by (simp add: gate_standard_def DefaultMultiMetricStandard_def LenientMultiMetricStandard_def
        StrictMultiMetricStandard_def)
qed

lemma gate_needs_profit:
  assumes "wf_ProfitFactor (or_WalkForward r) = 0"
  shows "\<not> mu_Passed (EvaluateOOSMultiMetric (Some r) mc (gate_standard p))"
  using profiles_need_profit [of p] assms
  by (simp add: EvaluateOOSMultiMetric_def missing_def conclude_def at_least_def Let_def)

lemma default_profile: "DefaultMultiMetricStandard = gate_standard ''default''"
  by (simp add: gate_standard_def)

text \<open>The configuration of a job limits the windows, so only the search space can keep a run from returning.\<close>

definition space_enumerable :: "SearchSpace option \<Rightarrow> bool" where
  "space_enumerable s \<longleftrightarrow> SearchSpace_GenerateAllCombinations (case s of None \<Rightarrow> [] | Some s \<Rightarrow> s) \<noteq> None"

lemma pipeline_windows: "GenerateWalkForwardWindows (ow_WalkForward (pipeline_config env cfg strategyID)) \<noteq> None"
proof -
  define wf where "wf = ow_WalkForward (pipeline_config env cfg strategyID)"
  have "0 < wc_TrainWindows wf"
    by (simp add: wf_def pipeline_config_def DefaultOptimizedWalkForwardConfig_def NewOptimizedWalkForwardConfig_def Let_def)
  then show ?thesis
    using windows_return_iff [of wf] by (simp flip: wf_def)
qed

lemma pipeline_space: "oc_SearchSpace (ow_Optimization (pipeline_config env cfg i)) = je_defaultSpace env i"
  "oc_StrategyID (ow_Optimization (pipeline_config env cfg i)) = i"
  by (simp_all add: pipeline_config_def DefaultOptimizedWalkForwardConfig_def NewOptimizedWalkForwardConfig_def Let_def)

lemma optimized_run_returns:
  assumes "space_enumerable (je_defaultSpace env i)"
  shows "\<exists>r e'. Engine_RunOptimizedWalkForward (je_defaultSpace env) run fresh hasDB (pipeline_config env cfg i) e = Some (r, e')"
proof -
  obtain ws where "GenerateWalkForwardWindows (ow_WalkForward (pipeline_config env cfg i)) = Some ws"
    using pipeline_windows [of env cfg i] by blast
  then show ?thesis
    using assms
    by (auto simp: Engine_RunOptimizedWalkForward_def pipeline_space space_enumerable_def Let_def
        split: list.split option.splits prod.split)
qed

definition failed_strategy :: "StrategyPipelineResult \<Rightarrow> bool" where
  "failed_strategy s \<longleftrightarrow> (case sr_MultiMetric s of None \<Rightarrow> True | Some v \<Rightarrow> \<not> mu_Passed v)"

text \<open>The percentages a strategy reports, in their order.\<close>

lemma strategy_pipeline:
  assumes "space_enumerable (je_defaultSpace env i)"
  obtains sr ps e' where "JobRunner_executeStrategyPipeline env cfg i e = Some (sr, ps, e')" "failed_strategy sr"
    "sr_StrategyID sr = i" "map fst ps = [25, 50] \<or> map fst ps = [25, 50, 75, 100]"
proof -
  obtain r e' where r: "Engine_RunOptimizedWalkForward (je_defaultSpace env) (je_run env) (je_fresh env) True
      (pipeline_config env cfg i) e = Some (r, e')"
    using optimized_run_returns [OF assms] by meson
  have "\<not> mu_Passed (EvaluateOOSMultiMetric (Some r) mc DefaultMultiMetricStandard)" for mc
    using gate_needs_profit [OF optimized_profit_factor [OF r]] by (simp add: default_profile)
  then show ?thesis
    using r by (cases "RunMonteCarloFromTrades (je_rng env) (map (\<lambda>w. zero_trade\<lparr>tr_PnL := wr_OOSReturnPct w\<rparr>)
        (wf_Windows (or_WalkForward r))) (vj_Simulations cfg) (vj_InitialCapital cfg) (je_seed env i)")
      (auto intro!: that simp: JobRunner_executeStrategyPipeline_def failed_strategy_def Let_def)
qed

lemma strategy_progress_quarter:
  assumes "0 \<le> perStrat" "0 \<le> p" "p \<le> 100"
  shows "strategy_progress s perStrat p = s + p * perStrat div 400" "0 \<le> p * perStrat div 400" "p * perStrat div 400 \<le> perStrat"
proof -
  have "p * perStrat \<le> 400 * perStrat" using assms by (intro mult_right_mono) auto
  then have q: "p * perStrat div 400 \<le> perStrat" using zdiv_mono1 [of "p * perStrat" "400 * perStrat" 400] by simp
  then show "p * perStrat div 400 \<le> perStrat" .
  have "0 \<le> p * perStrat" using assms by simp
  then show "0 \<le> p * perStrat div 400" "strategy_progress s perStrat p = s + p * perStrat div 400"
    using q by (simp_all add: strategy_progress_def Let_def pos_imp_zdiv_nonneg_iff)
qed

lemma strategy_progress_sorted:
  assumes "0 \<le> perStrat" "sorted qs" "\<forall>p\<in>set qs. 0 \<le> p \<and> p \<le> 100"
  shows "sorted (map (strategy_progress s perStrat) qs)"
    "\<forall>x\<in>set (map (strategy_progress s perStrat) qs). s \<le> x \<and> x \<le> s + perStrat"
proof -
  have "a * perStrat div 400 \<le> b * perStrat div 400" if "a \<le> b" for a b :: int
    using assms(1) that by (intro zdiv_mono1 mult_right_mono) auto
  then have "strategy_progress s perStrat a \<le> strategy_progress s perStrat b"
    if "a \<in> set qs" "b \<in> set qs" "a \<le> b" for a b
    using that assms(3) by (simp add: strategy_progress_quarter(1) [OF assms(1)])
  then show "sorted (map (strategy_progress s perStrat) qs)"
    unfolding sorted_map by (rule sorted_wrt_mono_rel [OF _ assms(2)])
  show "\<forall>x\<in>set (map (strategy_progress s perStrat) qs). s \<le> x \<and> x \<le> s + perStrat"
    using assms(3) strategy_progress_quarter [OF assms(1)] by auto
qed

text \<open>The strategies of a job: all fail the gate, and the progress they report never falls.\<close>

lemma execute_strategies_run:
  assumes "list_all (\<lambda>i. space_enumerable (je_defaultSpace env i)) ids" "0 \<le> perStrat"
  shows "\<exists>srs prog' shown e'. execute_strategies env cfg perStrat i ids prog e = Some (srs, prog', shown, e') \<and>
    map sr_StrategyID srs = ids \<and> list_all failed_strategy srs \<and> sorted (map jp_Progress shown) \<and>
    (\<forall>x\<in>set shown. 10 + int i * perStrat \<le> jp_Progress x \<and> jp_Progress x \<le> 10 + int (i + length ids) * perStrat)"
  using assms(1)
proof (induction ids arbitrary: i prog e)
  case (Cons sid ids)
  define s where "s = 10 + int i * perStrat"
  obtain sr ps e1 where 1: "JobRunner_executeStrategyPipeline env cfg sid e = Some (sr, ps, e1)" "failed_strategy sr"
      "sr_StrategyID sr = sid" "map fst ps = [25, 50] \<or> map fst ps = [25, 50, 75, 100]"
    using strategy_pipeline [of env sid cfg e] Cons.prems by auto
  have qs: "sorted (map fst ps)" "\<forall>p\<in>set (map fst ps). 0 \<le> p \<and> p \<le> 100" using 1(4) by auto
  define q where "q = prog\<lparr>jp_Progress := s, jp_Stage := ''backtest''\<rparr>"
  define shown1 where "shown1 = map (\<lambda>(p, stage). q\<lparr>jp_Progress := strategy_progress s perStrat p, jp_Stage := stage\<rparr>) ps"
  have shown1: "map jp_Progress shown1 = map (strategy_progress s perStrat) (map fst ps)"
    by (simp add: shown1_def case_prod_beta)
  obtain srs prog' rest e' where 2: "execute_strategies env cfg perStrat (i + 1) ids (last (q # shown1)) e1 = Some (srs, prog', rest, e')"
      "map sr_StrategyID srs = ids" "list_all failed_strategy srs" "sorted (map jp_Progress rest)"
      "\<forall>x\<in>set rest. 10 + int (i + 1) * perStrat \<le> jp_Progress x \<and> jp_Progress x \<le> 10 + int (i + 1 + length ids) * perStrat"
    using Cons.IH [of "i + 1" "last (q # shown1)" e1] Cons.prems by auto
  have run: "execute_strategies env cfg perStrat i (sid # ids) prog e = Some (sr # srs, prog', q # shown1 @ rest, e')"
    unfolding execute_strategies.simps(2) Let_def s_def [symmetric] q_def [symmetric] 1(1) option.case prod.case
      shown1_def [symmetric] 2(1) ..
  have b: "\<forall>x\<in>set shown1. s \<le> jp_Progress x \<and> jp_Progress x \<le> s + perStrat"
    using strategy_progress_sorted(2) [OF assms(2) qs, of s] unfolding shown1 [symmetric] by simp
  have so: "sorted (map jp_Progress shown1)"
    using strategy_progress_sorted(1) [OF assms(2) qs] by (simp add: shown1)
  have s1: "10 + int (i + 1) * perStrat = s + perStrat" by (simp add: s_def algebra_simps)
  have "0 \<le> int (length ids) * perStrat" using assms(2) by simp
  then have top: "10 + int (i + length (sid # ids)) * perStrat = s + perStrat + int (length ids) * perStrat"
    "s + perStrat \<le> s + perStrat + int (length ids) * perStrat"
    by (simp_all add: s_def algebra_simps)
  have rest: "\<forall>x\<in>set rest. s + perStrat \<le> jp_Progress x \<and> jp_Progress x \<le> s + perStrat + int (length ids) * perStrat"
    using 2(5) by (simp add: s_def algebra_simps)
  have q: "jp_Progress q = s" by (simp add: q_def)
  have low: "s \<le> s + perStrat" using assms(2) by simp
  have cross: "\<forall>x\<in>set shown1. \<forall>y\<in>set rest. jp_Progress x \<le> jp_Progress y" using b rest by (meson order_trans)
  have lower: "\<forall>x\<in>set (shown1 @ rest). s \<le> jp_Progress x" using b rest low by (auto intro: order_trans)
  have upper: "\<forall>x\<in>set (shown1 @ rest). jp_Progress x \<le> s + perStrat + int (length ids) * perStrat"
    using b rest top(2) by (auto intro: order_trans)
  have "sorted (map jp_Progress (q # shown1 @ rest))"
    using so 2(4) cross lower by (auto simp: sorted_append q)
  moreover have "\<forall>x\<in>set (q # shown1 @ rest). s \<le> jp_Progress x \<and> jp_Progress x \<le> s + perStrat + int (length ids) * perStrat"
    using lower upper order_trans [OF low top(2)] by (simp add: q)
  moreover have "map sr_StrategyID (sr # srs) = sid # ids" "list_all failed_strategy (sr # srs)"
    using 1(2,3) 2(2,3) by simp_all
  ultimately show ?case unfolding top(1) s_def [symmetric] using run by (intro exI conjI)
qed simp

lemma failed_summary:
  "list_all failed_strategy srs \<Longrightarrow> pv_Passed (pipeline_summary srs n) = 0 \<and> pv_Failed (pipeline_summary srs n) = int (length srs)"
  by (induction srs) (auto simp: pipeline_summary_def failed_strategy_def Let_def split: option.splits)

text \<open>Jobs end, in one of three ways; the conditions of a job name them.\<close>

lemma executeJob_run:
  assumes "list_all (\<lambda>i. space_enumerable (je_defaultSpace env i)) (vj_StrategyIDs (rj_Config job))"
  shows "\<exists>job' shown e'. JobRunner_executeJob env engineReady db job e = Some (job', shown, e') \<and>
    sorted (map jp_Progress shown) \<and> list_all (\<lambda>p. 2 \<le> jp_Progress p \<and> jp_Progress p \<le> 100) shown \<and>
    jp_Progress (last shown) = 100 \<and> rj_Progress job' = last shown \<and>
    (pr_Passed (job_preflight engineReady db) \<and> vj_StrategyIDs (rj_Config job) \<noteq> [] \<longrightarrow>
      (\<exists>r. rj_Result job' = Some r \<and> map sr_StrategyID (pl_Strategies r) = vj_StrategyIDs (rj_Config job) \<and>
        pv_Passed (pl_Summary r) = 0 \<and> pv_Failed (pl_Summary r) = int (length (vj_StrategyIDs (rj_Config job)))))"
proof -
  define ids where "ids = vj_StrategyIDs (rj_Config job)"
  define per where "per = 80 div int (length ids)"
  define p10 where "p10 = (rj_Progress job)\<lparr>jp_Progress := 10, jp_Stage := ''preflight''\<rparr>"
  show ?thesis
  proof (cases "pr_Passed (job_preflight engineReady db) \<and> ids \<noteq> []")
    case False
    then show ?thesis by (auto simp: JobRunner_executeJob_def Let_def simp flip: ids_def)
  next
    case True
    then have n: "0 < int (length ids)" by simp
    have per: "0 \<le> per" using n by (simp add: per_def pos_imp_zdiv_nonneg_iff del: of_nat_0_less_iff)
    have top: "int (length ids) * per \<le> 80"
      by (simp add: per_def n mult.commute [of "int (length ids)"]) (metis add.right_neutral add_left_mono div_mult_mod_eq n pos_mod_sign)
    obtain srs prog' shown e' where run: "execute_strategies env (rj_Config job) per 0 ids p10 e = Some (srs, prog', shown, e')"
        "map sr_StrategyID srs = ids" "list_all failed_strategy srs" "sorted (map jp_Progress shown)"
        "\<forall>x\<in>set shown. 10 + int 0 * per \<le> jp_Progress x \<and> jp_Progress x \<le> 10 + int (0 + length ids) * per"
      using execute_strategies_run [OF assms [folded ids_def] per, of "rj_Config job" 0 p10 e] by blast
    have len: "length srs = length ids" using run(2) by (metis length_map)
    have b: "\<forall>x\<in>set shown. 10 \<le> jp_Progress x \<and> jp_Progress x \<le> 100" using run(5) top by force
    define fin where "fin = prog'\<lparr>jp_Status := ''completed'', jp_Stage := ''complete'', jp_Progress := 100\<rparr>"
    define p2 where "p2 = (rj_Progress job)\<lparr>jp_Progress := 2, jp_Stage := ''preflight''\<rparr>"
    have "JobRunner_executeJob env engineReady db job e = Some (job\<lparr>rj_Progress := fin, rj_Result := Some
        \<lparr>pl_JobID = vj_JobID (rj_Config job), pl_Status = ''completed'', pl_Strategies = srs,
         pl_Summary = pipeline_summary srs (int (length ids))\<rparr>\<rparr>, [p2, p10] @ shown @ [fin], e')"
      using run(1) True by (simp add: JobRunner_executeJob_def Let_def p10_def p2_def fin_def per_def ids_def)
    moreover have "sorted (map jp_Progress ([p2, p10] @ shown @ [fin]))"
      using run(4) b by (auto simp: sorted_append p2_def p10_def fin_def)
    moreover have "list_all (\<lambda>p. 2 \<le> jp_Progress p \<and> jp_Progress p \<le> 100) ([p2, p10] @ shown @ [fin])"
      using b by (force simp: list_all_iff p2_def p10_def fin_def)
    ultimately show ?thesis
      using failed_summary [OF run(3)] run(2) len by (simp add: fin_def flip: ids_def)
  qed
qed

text \<open>C6: A research job never passes a strategy. When the checks before the job pass and the search
  spaces can be enumerated, the job returns, with a verdict for each of its strategies in their order,
  and its summary counts all of them as failed, whatever the backtests and the Monte Carlo runs
  return: the gate asks for a profit factor that nothing sets.\<close>

theorem research_job_passes_nothing:
  assumes "list_all (\<lambda>i. space_enumerable (je_defaultSpace env i)) (vj_StrategyIDs (rj_Config job))"
    "pr_Passed (job_preflight engineReady db)" "vj_StrategyIDs (rj_Config job) \<noteq> []"
  shows "\<exists>job' shown e' r. JobRunner_executeJob env engineReady db job e = Some (job', shown, e') \<and>
    rj_Result job' = Some r \<and> map sr_StrategyID (pl_Strategies r) = vj_StrategyIDs (rj_Config job) \<and>
    pv_Passed (pl_Summary r) = 0 \<and> pv_Failed (pl_Summary r) = int (length (vj_StrategyIDs (rj_Config job)))"
  using executeJob_run [OF assms(1), of engineReady db e] assms(2,3) by blast

text \<open>C34: The progress of a job never falls, stays between 2 and 100 percent, and ends at 100, for every number of
  strategies and every way a job ends.\<close>

theorem job_progress_never_falls:
  assumes "list_all (\<lambda>i. space_enumerable (je_defaultSpace env i)) (vj_StrategyIDs (rj_Config job))"
  shows "\<exists>job' shown e'. JobRunner_executeJob env engineReady db job e = Some (job', shown, e') \<and>
    sorted (map jp_Progress shown) \<and> list_all (\<lambda>p. 2 \<le> jp_Progress p \<and> jp_Progress p \<le> 100) shown \<and>
    jp_Progress (last shown) = 100 \<and> rj_Progress job' = last shown"
  using executeJob_run [OF assms, of engineReady db e] by blast

text \<open>A job with excellent backtests.\<close>

definition sample_env :: "(nat, nat) job_env" where
  "sample_env = \<lparr>je_defaultSpace = (\<lambda>s. None),
     je_run = (\<lambda>cfg a b n. (Some (empty_result\<lparr>br_SharpeRatio := lit 3, br_NumTrades := 100, br_TotalReturnPct := lit 20\<rparr>), n + 1)),
     je_fresh = (\<lambda>cfg a b. None), je_rng = \<lparr>rn_NewPCG = (\<lambda>a b. a), rn_IntN = (\<lambda>g n. (0, g)), rn_Float64 = (\<lambda>g. (0, g))\<rparr>,
     je_seed = (\<lambda>s. 0)\<rparr>"

definition sample_job :: RunningJob where
  "sample_job = new_job (NewValidationJobConfig ''0123456789'' [''momentum'', ''orb''] 0 (days 700) (lit 100000))"

lemma sample_enumerable:
  "list_all (\<lambda>i. space_enumerable (je_defaultSpace sample_env i)) (vj_StrategyIDs (rj_Config sample_job))"
proof -
  have "SearchSpace_GenerateAllCombinations [] = Some [[]]" by code_simp
  then show ?thesis
    by (simp add: space_enumerable_def sample_env_def sample_job_def new_job_def NewValidationJobConfig_def)
qed

definition sample_counts :: db_counts where
  "sample_counts = \<lparr>db_Candles = Some 1000, db_Synthetic = Some 0, db_Regimes = None\<rparr>"

lemma research_job_passes_nothing_witness:
  "\<exists>job' shown e' r. JobRunner_executeJob sample_env True (Some sample_counts) sample_job 0 = Some (job', shown, e') \<and>
    rj_Result job' = Some r \<and> map sr_StrategyID (pl_Strategies r) = [''momentum'', ''orb''] \<and> pv_Passed (pl_Summary r) = 0"
  using research_job_passes_nothing [OF sample_enumerable, of True "Some sample_counts" 0]
  by (auto simp: job_preflight_def sample_counts_def count_or_zero_def sample_job_def new_job_def NewValidationJobConfig_def Let_def)

lemma job_progress_never_falls_witness:
  "\<exists>job' shown e'. JobRunner_executeJob sample_env True (Some sample_counts) sample_job 0 = Some (job', shown, e') \<and>
    sorted (map jp_Progress shown) \<and> jp_Progress (last shown) = 100"
  using job_progress_never_falls [OF sample_enumerable, of True "Some sample_counts" 0] by blast

text \<open>Whatever the out of sample windows achieved, none of the three profiles passes them.\<close>

lemma oos_gate_never_passes:
  assumes "Engine_RunOptimizedWalkForward defaultSpace run fresh hasDB config e = Some (r, e')"
  shows "\<not> mu_Passed (EvaluateOOSMultiMetric (Some r) mc (gate_standard profile))"
  using gate_needs_profit [OF optimized_profit_factor [OF assms]] .

end
