(* ===== verification/Retention.thy ===== *)
theory Retention
  imports Metrics
begin

text \<open>
  The retention of matrix results, \<open>internal/backtest/retention.go\<close>: which of the results of a batch
  are kept in full, and the summary that stays when the rest is pruned. A result holds the fields
  that are read here. The environment that overrides the defaults is a parameter. A Go map from
  keys is an association list; the order of equal Sharpe ratios is that of the results, as Go's
  stable sort has it. Ratios that are not numbers have no order and may be placed differently.
\<close>

record ComboResult =
  cb_StrategyID :: string
  cb_Symbol :: string
  cb_Timeframe :: string
  cb_SharpeRatio :: f64
  cb_MaxDrawdown :: f64
  cb_ProfitFactor :: f64
  cb_NumTrades :: int
  cb_Error :: string

record RetentionConfig =
  rt_TopK :: int
  rt_PlateauBand :: f64
  rt_T2SampleCap :: int
  rt_MinTradesViable :: int
  rt_T1RetentionDays :: int
  rt_T2RetentionDays :: int

definition RetentionT0 :: int where "RetentionT0 = 0"

definition RetentionT1 :: int where "RetentionT1 = 1"

definition RetentionT2 :: int where "RetentionT2 = 2"

definition RetentionT3 :: int where "RetentionT3 = 3"

definition DefaultRetentionConfig :: "(string \<Rightarrow> int \<Rightarrow> int) \<Rightarrow> (string \<Rightarrow> f64 \<Rightarrow> f64) \<Rightarrow> RetentionConfig" where
  "DefaultRetentionConfig envInt envFloat =
     \<lparr>rt_TopK = envInt ''ORCA_RETENTION_TOPK'' 25,
      rt_PlateauBand = envFloat ''ORCA_RETENTION_PLATEAU_BAND'' (lit (5/10)),
      rt_T2SampleCap = envInt ''ORCA_RETENTION_T2_CAP'' 200,
      rt_MinTradesViable = envInt ''ORCA_RETENTION_MIN_TRADES'' 1,
      rt_T1RetentionDays = envInt ''ORCA_RETENTION_T1_DAYS'' 365,
      rt_T2RetentionDays = envInt ''ORCA_RETENTION_T2_DAYS'' 90\<rparr>"

definition ComboKey :: "ComboResult \<Rightarrow> string" where
  "ComboKey r = cb_StrategyID r @ ''|'' @ cb_Symbol r @ ''|'' @ cb_Timeframe r"

definition isViable :: "RetentionConfig \<Rightarrow> ComboResult \<Rightarrow> bool" where
  "isViable cfg r \<longleftrightarrow> cb_Error r = '''' \<and> cb_NumTrades r \<ge> rt_MinTradesViable cfg"

definition dominates :: "ComboResult \<Rightarrow> ComboResult \<Rightarrow> bool" where
  "dominates a b \<longleftrightarrow>
     (cb_SharpeRatio a \<ge> cb_SharpeRatio b \<and> cb_MaxDrawdown a \<le> cb_MaxDrawdown b \<and> cb_ProfitFactor a \<ge> cb_ProfitFactor b) \<and>
     (cb_SharpeRatio a > cb_SharpeRatio b \<or> cb_MaxDrawdown a < cb_MaxDrawdown b \<or> cb_ProfitFactor a > cb_ProfitFactor b)"

section \<open>The classes\<close>

definition front :: "ComboResult list \<Rightarrow> ComboResult list" where
  "front viable = map (\<lambda>i. viable ! i) (filter (\<lambda>i. \<not> list_ex (\<lambda>j. i \<noteq> j \<and> dominates (viable ! j) (viable ! i))
     [0..<length viable]) [0..<length viable])"

fun sharpe_insert :: "ComboResult \<Rightarrow> ComboResult list \<Rightarrow> ComboResult list" where
  "sharpe_insert x [] = [x]"
| "sharpe_insert x (y # ys) = (if cb_SharpeRatio y > cb_SharpeRatio x then y # sharpe_insert x ys else x # y # ys)"

text \<open>The keys of the island: the Pareto front and the best by Sharpe ratio.\<close>

definition island :: "RetentionConfig \<Rightarrow> ComboResult list \<Rightarrow> string list" where
  "island cfg viable = map ComboKey (front viable) @
     map ComboKey (take (nat (rt_TopK cfg)) (foldr sharpe_insert viable []))"

definition plateau_threshold :: "RetentionConfig \<Rightarrow> ComboResult list \<Rightarrow> f64" where
  "plateau_threshold cfg viable = foldl (\<lambda>m r. if ComboKey r \<in> set (island cfg viable) \<and> cb_SharpeRatio r < m
     then cb_SharpeRatio r else m) FPosInf viable - rt_PlateauBand cfg"

text \<open>The positions of the candidates that are sampled, a stride apart.\<close>

definition sampled :: "int \<Rightarrow> nat \<Rightarrow> int list" where
  "sampled cap n = (let stride = float_of_int (int n) / float_of_int cap
     in map (\<lambda>i. int64_of_float (float_of_int (int i) * stride)) [0..<nat cap])"

definition sample_class :: "int \<Rightarrow> nat \<Rightarrow> nat \<Rightarrow> int" where
  "sample_class cap n i = (if int n \<le> cap \<or> cap \<le> 0 then RetentionT2
     else if int i \<in> set (sampled cap n) then RetentionT2 else RetentionT3)"

text \<open>Writes a class for every item that has one.\<close>

definition assign :: "('a \<Rightarrow> string) \<Rightarrow> ('a \<Rightarrow> int option) \<Rightarrow> (string, int) gomap \<Rightarrow> 'a list \<Rightarrow> (string, int) gomap" where
  "assign key f m xs = foldl (\<lambda>m x. case f x of None \<Rightarrow> m | Some c \<Rightarrow> mput m (key x) c) m xs"

definition upper_class :: "RetentionConfig \<Rightarrow> ComboResult list \<Rightarrow> ComboResult \<Rightarrow> int option" where
  "upper_class cfg viable r = (if ComboKey r \<in> set (island cfg viable) then Some RetentionT0
     else if cb_SharpeRatio r \<ge> plateau_threshold cfg viable then Some RetentionT1 else None)"

definition ClassifyResults :: "RetentionConfig \<Rightarrow> ComboResult list \<Rightarrow> (string, int) gomap" where
  "ClassifyResults cfg results =
     (let m = assign ComboKey (\<lambda>r. if isViable cfg r then None else Some RetentionT3) [] results;
          viable = filter (isViable cfg) results
      in if viable = [] then m else
      let m = assign ComboKey (upper_class cfg viable) m viable;
          t2 = filter (\<lambda>r. upper_class cfg viable r = None) viable
      in assign (ComboKey \<circ> snd) (\<lambda>(i, r). Some (sample_class (rt_T2SampleCap cfg) (length t2) i)) m (enumerate 0 t2))"

section \<open>The summary\<close>

record RunSummary =
  rz_TotalCombos :: int
  rz_TradedCombos :: int
  rz_ZeroTrade :: int
  rz_Errored :: int
  rz_EffectiveTrials :: int
  rz_ScoreHistogram :: "(string, int) gomap"
  rz_Viability :: "(string, int) gomap"
  rz_FailureReasons :: "(string, int) gomap"
  rz_ParetoFront :: "string list"
  rz_BestSharpe :: f64
  rz_BestCombo :: string

definition sharpeBucket :: "f64 \<Rightarrow> string" where
  "sharpeBucket s =
     (if not_finite s then ''nan'' else if s < lit (- 2) then ''<-2'' else if s < lit (- 1) then ''-2..-1''
      else if s < 0 then ''-1..0'' else if s < lit (5/10) then ''0..0.5'' else if s < 1 then ''0.5..1''
      else if s < lit (15/10) then ''1..1.5'' else if s < lit 2 then ''1.5..2'' else ''>=2'')"

definition lower_char :: "char \<Rightarrow> char" where
  "lower_char c = (let n = (of_char c :: nat) in if 65 \<le> n \<and> n \<le> 90 then char_of (n + 32) else c)"

fun contains_string :: "string \<Rightarrow> string \<Rightarrow> bool" where
  "contains_string [] sub = (sub = [])"
| "contains_string (c # cs) sub = (take (length sub) (c # cs) = sub \<or> contains_string cs sub)"

definition containsAny :: "string \<Rightarrow> string list \<Rightarrow> bool" where
  "containsAny s subs = list_ex (\<lambda>sub. sub \<noteq> '''' \<and> contains_string (map lower_char s) (map lower_char sub)) subs"

definition normalizeReason :: "string \<Rightarrow> string" where
  "normalizeReason err =
     (if err = '''' then ''none'' else if containsAny err [''no candle data'', ''no data''] then ''no_data''
      else if containsAny err [''context'', ''deadline'', ''timeout''] then ''timeout''
      else if containsAny err [''hash''] then ''hash_mismatch'' else ''other'')"

definition bump :: "(string, int) gomap \<Rightarrow> string \<Rightarrow> (string, int) gomap" where
  "bump m k = mput m k (mget 0 m k + 1)"

definition summary_add :: "RetentionConfig \<Rightarrow> RunSummary \<Rightarrow> ComboResult \<Rightarrow> RunSummary" where
  "summary_add cfg s r =
     (let s = s\<lparr>rz_ScoreHistogram := bump (rz_ScoreHistogram s) (sharpeBucket (cb_SharpeRatio r))\<rparr> in
      if cb_Error r \<noteq> '''' then s\<lparr>rz_Errored := rz_Errored s + 1, rz_Viability := bump (rz_Viability s) ''errored'',
        rz_FailureReasons := bump (rz_FailureReasons s) (normalizeReason (cb_Error r))\<rparr>
      else if cb_NumTrades r < rt_MinTradesViable cfg
      then s\<lparr>rz_ZeroTrade := rz_ZeroTrade s + 1, rz_Viability := bump (rz_Viability s) ''zero_trade'',
             rz_FailureReasons := bump (rz_FailureReasons s) ''zero_trades''\<rparr>
      else let s = s\<lparr>rz_TradedCombos := rz_TradedCombos s + 1, rz_Viability := bump (rz_Viability s) ''traded''\<rparr>
        in if cb_SharpeRatio r > rz_BestSharpe s
           then s\<lparr>rz_BestSharpe := cb_SharpeRatio r, rz_BestCombo := ComboKey r\<rparr> else s)"

definition BuildRunSummary :: "RetentionConfig \<Rightarrow> ComboResult list \<Rightarrow> RunSummary" where
  "BuildRunSummary cfg results =
     (let s = foldl (summary_add cfg) \<lparr>rz_TotalCombos = int (length results), rz_TradedCombos = 0, rz_ZeroTrade = 0,
            rz_Errored = 0, rz_EffectiveTrials = 0, rz_ScoreHistogram = [], rz_Viability = [], rz_FailureReasons = [],
            rz_ParetoFront = [], rz_BestSharpe = FNegInf, rz_BestCombo = ''''\<rparr> results;
          viable = filter (isViable cfg) results
      in s\<lparr>rz_EffectiveTrials := rz_TradedCombos s, rz_ParetoFront := sort (map ComboKey (front viable)),
           rz_BestSharpe := (if rz_BestSharpe s = FNegInf then 0 else rz_BestSharpe s)\<rparr>)"

section \<open>What is kept\<close>

lemma assign_other: "k \<notin> key ` set xs \<Longrightarrow> mlookup (assign key f m xs) k = mlookup m k"
  by (induction xs arbitrary: m) (auto simp: assign_def split: option.split)

lemma assign_mem:
  "distinct (map key xs) \<Longrightarrow> x \<in> set xs \<Longrightarrow>
    mlookup (assign key f m xs) (key x) = (case f x of None \<Rightarrow> mlookup m (key x) | Some c \<Rightarrow> Some c)"
proof (induction xs arbitrary: m)
  case (Cons y ys)
  have step: "assign key f m (y # ys) = assign key f (case f y of None \<Rightarrow> m | Some c \<Rightarrow> mput m (key y) c) ys"
    by (simp add: assign_def)
  show ?case
  proof (cases "x = y")
    case True
    then have "key x \<notin> key ` set ys" using Cons.prems by auto
    then show ?thesis unfolding step by (simp add: assign_other True split: option.split)
  next
    case False
    then have x: "x \<in> set ys" using Cons.prems by simp
    then have "key x \<noteq> key y" using Cons.prems(1) by (metis distinct.simps(2) image_eqI list.set_map list.simps(9))
    note x this
    then show ?thesis unfolding step using Cons.IH Cons.prems(1) by (auto split: option.splits)
  qed
qed simp

lemma distinct_key_filter: "distinct (map key xs) \<Longrightarrow> distinct (map key (filter P xs))"
  by (induction xs) auto

lemma in_front:
  assumes "r \<in> set viable" "\<forall>q\<in>set viable. \<not> dominates q r"
  shows "r \<in> set (front viable)"
proof -
  obtain i where "i < length viable" "r = viable ! i" using assms(1) by (metis in_set_conv_nth)
  then show ?thesis using assms(2) by (auto simp: front_def list_ex_iff intro!: image_eqI [of _ _ i])
qed

lemma count_sampled: "card (set (sampled cap n)) \<le> nat cap"
  by (metis card_length diff_zero length_map length_upt sampled_def)

lemma count_sample_class:
  assumes "0 < cap"
  shows "card {i. i < n \<and> sample_class cap n i = RetentionT2} \<le> nat cap"
proof (cases "int n \<le> cap")
  case True
  have "card {i. i < n \<and> sample_class cap n i = RetentionT2} \<le> card {..<n}" by (rule card_mono) auto
  then show ?thesis using True by simp
next
  case False
  then have "int ` {i. i < n \<and> sample_class cap n i = RetentionT2} \<subseteq> set (sampled cap n)"
    using assms by (auto simp: sample_class_def RetentionT2_def RetentionT3_def split: if_splits)
  then have "card (int ` {i. i < n \<and> sample_class cap n i = RetentionT2}) \<le> card (set (sampled cap n))"
    by (rule card_mono [rotated]) simp
  then show ?thesis using count_sampled [of cap n] by (simp add: card_image)
qed

text \<open>The class of every result, for results with distinct keys.\<close>

lemma class_of:
  fixes cfg :: RetentionConfig
  assumes "distinct (map ComboKey results)" "r \<in> set results"
  defines "viable \<equiv> filter (isViable cfg) results"
  defines "t2 \<equiv> filter (\<lambda>q. upper_class cfg viable q = None) viable"
  shows "\<not> isViable cfg r \<Longrightarrow> mlookup (ClassifyResults cfg results) (ComboKey r) = Some RetentionT3"
    "isViable cfg r \<Longrightarrow> upper_class cfg viable r = Some c \<Longrightarrow> mlookup (ClassifyResults cfg results) (ComboKey r) = Some c"
    "i < length t2 \<Longrightarrow> mlookup (ClassifyResults cfg results) (ComboKey (t2 ! i)) =
      Some (sample_class (rt_T2SampleCap cfg) (length t2) i)"
proof -
  define m0 where "m0 = assign ComboKey (\<lambda>r. if isViable cfg r then None else Some RetentionT3) [] results"
  define m1 where "m1 = assign ComboKey (upper_class cfg viable) m0 viable"
  define f where "f = (\<lambda>(i :: nat, q :: ComboResult). Some (sample_class (rt_T2SampleCap cfg) (length t2) i))"
  have inj: "inj_on ComboKey (set results)" using assms(1) by (simp add: distinct_map)
  have dv: "distinct (map ComboKey viable)" unfolding viable_def using assms(1) by (rule distinct_key_filter)
  have dt: "distinct (map (ComboKey \<circ> snd) (enumerate 0 t2))"
    using distinct_key_filter [OF dv] by (simp flip: map_map add: t2_def)
  have keys: "ComboKey q \<in> ComboKey ` set xs \<longleftrightarrow> q \<in> set xs" if "q \<in> set results" "set xs \<subseteq> set results" for q xs
    using inj that by (auto dest: inj_onD)
  have cl: "mlookup (ClassifyResults cfg results) k =
      mlookup (if viable = [] then m0 else assign (ComboKey \<circ> snd) f m1 (enumerate 0 t2)) k" for k
    by (simp add: ClassifyResults_def Let_def m0_def m1_def f_def t2_def viable_def)
  have et: "(ComboKey \<circ> snd) ` set (enumerate 0 t2) = ComboKey ` set t2"
    by (metis image_comp list.set_map map_snd_enumerate)
  have eo: "mlookup (assign (ComboKey \<circ> snd) f m (enumerate 0 t2)) k = mlookup m k" if "k \<notin> ComboKey ` set t2" for m k
    using that by (intro assign_other) (simp only: et not_False_eq_True)
  have sub: "set viable \<subseteq> set results" "set t2 \<subseteq> set results" by (auto simp: viable_def t2_def)
  show "mlookup (ClassifyResults cfg results) (ComboKey r) = Some RetentionT3" if "\<not> isViable cfg r"
  proof -
    have "r \<notin> set viable" "r \<notin> set t2" using that by (auto simp: viable_def t2_def)
    then have "ComboKey r \<notin> ComboKey ` set viable" "ComboKey r \<notin> ComboKey ` set t2"
      using keys [OF assms(2)] sub by blast+
    moreover have "mlookup m0 (ComboKey r) = Some RetentionT3"
      using assign_mem [OF assms(1,2), of "\<lambda>r. if isViable cfg r then None else Some RetentionT3" "[]"] that
      by (simp add: m0_def)
    ultimately show ?thesis by (simp add: cl assign_other eo m1_def)
  qed
  show "mlookup (ClassifyResults cfg results) (ComboKey r) = Some c" if "isViable cfg r" "upper_class cfg viable r = Some c"
  proof -
    have v: "r \<in> set viable" "r \<notin> set t2" using that assms(2) by (auto simp: viable_def t2_def)
    then have "ComboKey r \<notin> ComboKey ` set t2" using keys [OF assms(2)] sub by blast
    moreover have "mlookup m1 (ComboKey r) = Some c" using assign_mem [OF dv v(1)] that(2) by (simp add: m1_def)
    ultimately show ?thesis using v by (auto simp: cl eo)
  qed
  show "mlookup (ClassifyResults cfg results) (ComboKey (t2 ! i)) = Some (sample_class (rt_T2SampleCap cfg) (length t2) i)"
    if "i < length t2"
  proof -
    have m: "(i, t2 ! i) \<in> set (enumerate 0 t2)" using that by (simp add: in_set_enumerate_eq)
    have "t2 ! i \<in> set viable" using that nth_mem [OF that] unfolding t2_def by simp
    then have "viable \<noteq> []" by auto
    then show ?thesis using assign_mem [OF dt m, of f m1] by (simp add: cl f_def)
  qed
qed

text \<open>C32: Retention keeps the Pareto front. For results with distinct keys, a result that failed or did not
  trade enough is of the lowest class, a viable result that no viable result dominates is kept in
  full, and with a positive cap at most that many results are of the sampled class.\<close>

theorem retention_keeps_the_front:
  assumes "distinct (map ComboKey results)" "r \<in> set results"
  shows "(\<not> isViable cfg r \<longrightarrow> mlookup (ClassifyResults cfg results) (ComboKey r) = Some RetentionT3) \<and>
    (isViable cfg r \<and> list_all (\<lambda>q. \<not> dominates q r) (filter (isViable cfg) results) \<longrightarrow>
      mlookup (ClassifyResults cfg results) (ComboKey r) = Some RetentionT0) \<and>
    (0 < rt_T2SampleCap cfg \<longrightarrow> length (filter (\<lambda>q. mlookup (ClassifyResults cfg results) (ComboKey q) = Some RetentionT2)
      results) \<le> nat (rt_T2SampleCap cfg))"
proof (intro conjI impI)
  define viable where "viable = filter (isViable cfg) results"
  define t2 where "t2 = filter (\<lambda>q. upper_class cfg viable q = None) viable"
  note cls = class_of [OF assms(1), where cfg = cfg, folded viable_def, folded t2_def]
  show "mlookup (ClassifyResults cfg results) (ComboKey r) = Some RetentionT3" if "\<not> isViable cfg r"
    using cls(1) [OF assms(2)] that by blast
  show "mlookup (ClassifyResults cfg results) (ComboKey r) = Some RetentionT0"
    if "isViable cfg r \<and> list_all (\<lambda>q. \<not> dominates q r) (filter (isViable cfg) results)"
  proof -
    have "r \<in> set (front viable)" using that assms(2) by (intro in_front) (auto simp: viable_def list_all_iff)
    then have "upper_class cfg viable r = Some RetentionT0" by (simp add: upper_class_def island_def)
    then show ?thesis using cls(2) [OF assms(2)] that by blast
  qed
  assume cap: "0 < rt_T2SampleCap cfg"
  let ?P = "\<lambda>q. mlookup (ClassifyResults cfg results) (ComboKey q) = Some RetentionT2"
  let ?I = "{i. i < length t2 \<and> sample_class (rt_T2SampleCap cfg) (length t2) i = RetentionT2}"
  have "q \<in> (!) t2 ` ?I" if "q \<in> set results" "?P q" for q
  proof -
    have "isViable cfg q" using cls(1) [OF that(1)] that(2) by (auto simp: RetentionT2_def RetentionT3_def)
    moreover have "upper_class cfg viable q = None"
    proof (cases "upper_class cfg viable q")
      case (Some c)
      then have "c = RetentionT2" using cls(2) [OF that(1) \<open>isViable cfg q\<close> Some] that(2) by simp
      then show ?thesis using Some
        by (auto simp: upper_class_def RetentionT0_def RetentionT1_def RetentionT2_def split: if_splits)
    qed
    ultimately have "q \<in> set t2" using that(1) by (simp add: t2_def viable_def)
    then obtain i where i: "i < length t2" "q = t2 ! i" by (metis in_set_conv_nth)
    then have "sample_class (rt_T2SampleCap cfg) (length t2) i = RetentionT2"
      using cls(3) [OF that(1) i(1)] that(2) by simp
    then show ?thesis using i by blast
  qed
  then have "set (filter ?P results) \<subseteq> (!) t2 ` ?I" by auto
  then have "card (set (filter ?P results)) \<le> card ((!) t2 ` ?I)" by (rule card_mono [rotated]) simp
  also have "\<dots> \<le> card ?I" by (rule card_image_le) simp
  also have "\<dots> \<le> nat (rt_T2SampleCap cfg)" using cap by (rule count_sample_class)
  finally show "length (filter ?P results) \<le> nat (rt_T2SampleCap cfg)"
    using assms(1) by (metis distinct_card distinct_filter distinct_map)
qed

definition sample_combo :: "string \<Rightarrow> f64 \<Rightarrow> int \<Rightarrow> ComboResult" where
  "sample_combo symb sharpe n = \<lparr>cb_StrategyID = ''orb'', cb_Symbol = symb, cb_Timeframe = ''1d'', cb_SharpeRatio = sharpe,
     cb_MaxDrawdown = 1, cb_ProfitFactor = 1, cb_NumTrades = n, cb_Error = ''''\<rparr>"

lemma retention_keeps_the_front_witness:
  "mlookup (ClassifyResults (DefaultRetentionConfig (\<lambda>s d. d) (\<lambda>s d. d)) [sample_combo ''A'' 1 10, sample_combo ''B'' 0 10,
     sample_combo ''C'' 0 0]) (ComboKey (sample_combo ''A'' 1 10)) = Some RetentionT0"
proof -
  let ?cfg = "DefaultRetentionConfig (\<lambda>s d. d) (\<lambda>s d. d)"
  have "\<not> (1 :: f64) < 1" "\<not> (0 :: f64) \<ge> 1" by (simp_all add: f64_eval)
  then show ?thesis
    using retention_keeps_the_front [of "[sample_combo ''A'' 1 10, sample_combo ''B'' 0 10, sample_combo ''C'' 0 0]"
        "sample_combo ''A'' 1 10" ?cfg]
    by (simp add: ComboKey_def sample_combo_def isViable_def DefaultRetentionConfig_def dominates_def)
qed

section \<open>The summary counts every result once\<close>

lemma msum_bump: "msum id (bump m k) = msum id m + 1"
  by (simp add: bump_def msum_mput mget_def split: option.split)

text \<open>The counts of a summary add up to the number of results.\<close>

lemma run_summary_counts:
  "rz_TotalCombos (BuildRunSummary cfg results) = int (length results) \<and>
   rz_TradedCombos (BuildRunSummary cfg results) + rz_ZeroTrade (BuildRunSummary cfg results) +
     rz_Errored (BuildRunSummary cfg results) = int (length results) \<and>
   msum id (rz_ScoreHistogram (BuildRunSummary cfg results)) = int (length results) \<and>
   msum id (rz_Viability (BuildRunSummary cfg results)) = int (length results)"
proof -
  have "rz_TotalCombos (foldl (summary_add cfg) s results) = rz_TotalCombos s \<and>
     rz_TradedCombos (foldl (summary_add cfg) s results) + rz_ZeroTrade (foldl (summary_add cfg) s results) +
       rz_Errored (foldl (summary_add cfg) s results) = rz_TradedCombos s + rz_ZeroTrade s + rz_Errored s + int (length results) \<and>
     msum id (rz_ScoreHistogram (foldl (summary_add cfg) s results)) = msum id (rz_ScoreHistogram s) + int (length results) \<and>
     msum id (rz_Viability (foldl (summary_add cfg) s results)) = msum id (rz_Viability s) + int (length results)" for s
    by (induction results arbitrary: s) (simp_all add: summary_add_def Let_def msum_bump)
  then show ?thesis by (simp add: BuildRunSummary_def Let_def msum_def)
qed

text \<open>A result whose Sharpe ratio is not a number is dominated by nothing, so it is kept in full.\<close>

lemma nan_never_dominated: "cb_SharpeRatio r = FNaN \<Longrightarrow> \<not> dominates q r"
  by (simp add: dominates_def)

end
