(* ===== verification/KillSwitch.thy ===== *)
theory KillSwitch
  imports Prelude
begin

text \<open>
  The kill switch of \<open>internal/risk/kill_switch.go\<close>: a step relation over threads that each
  run one call of \<open>Trigger\<close> or \<open>Resume\<close>, interleaved at every atomic operation and every
  critical section of the mutex, and the loop of \<open>MonitorRejectRate\<close> as a function of its
  events. The broker, the account canceller and the callbacks are outside the file: what
  is called is recorded in a log; their errors are only printed by the code.
\<close>

section \<open>State\<close>

datatype ks_error = ErrAlreadyHalted | ErrLocked | ErrAlreadyInFlight

datatype ks_event =
    CancelAllOrders bool
  | CloseAllPositions bool
  | Callback nat string int

text \<open>
  \<open>ks_accounts\<close> says whether an account canceller is set (then it is called instead of the
  broker: the argument of the two first events); a callback is named by a number.
\<close>

record KillSwitch =
  ks_halted :: bool
  ks_isLocked :: bool
  ks_killSwitchReady :: bool
  ks_lastTrigger :: int
  ks_reason :: string
  ks_onTrigger :: "nat list"
  ks_accounts :: bool
  ks_log :: "ks_event list"

definition NewKillSwitch :: KillSwitch where
  "NewKillSwitch = \<lparr>ks_halted = False, ks_isLocked = False, ks_killSwitchReady = True,
     ks_lastTrigger = 0, ks_reason = '''', ks_onTrigger = [], ks_accounts = False, ks_log = []\<rparr>"

definition KillSwitch_SetAccountCanceller :: "KillSwitch \<Rightarrow> bool \<Rightarrow> KillSwitch" where
  "KillSwitch_SetAccountCanceller k ac = k\<lparr>ks_accounts := ac\<rparr>"

definition KillSwitch_OnTrigger :: "KillSwitch \<Rightarrow> nat \<Rightarrow> KillSwitch" where
  "KillSwitch_OnTrigger k fn = k\<lparr>ks_onTrigger := ks_onTrigger k @ [fn]\<rparr>"

definition KillSwitch_IsHalted :: "KillSwitch \<Rightarrow> bool" where
  "KillSwitch_IsHalted k = ks_halted k"

definition KillSwitch_IsInFlight :: "KillSwitch \<Rightarrow> bool" where
  "KillSwitch_IsInFlight k = (\<not> ks_killSwitchReady k)"

definition KillSwitch_IsFlightReady :: "KillSwitch \<Rightarrow> bool" where
  "KillSwitch_IsFlightReady k = ks_killSwitchReady k"

definition KillSwitch_IsLocked :: "KillSwitch \<Rightarrow> bool" where
  "KillSwitch_IsLocked k = ks_isLocked k"

definition KillSwitch_Status :: "KillSwitch \<Rightarrow> bool \<times> string \<times> int" where
  "KillSwitch_Status k = (KillSwitch_IsHalted k, ks_reason k, ks_lastTrigger k)"

section \<open>Threads\<close>

text \<open>
  The program points of \<open>Trigger\<close>, in its order, then those of \<open>Resume\<close>. \<open>TUnlock\<close> is the
  deferred release of the lock, with the result that is returned. \<open>TClose\<close> carries the branch that
  was chosen before: whether the account canceller or the broker is called. The mutex and the
  calls out of the file always return here, there is a broker, and callbacks do not panic.
\<close>

datatype ks_pc =
    TStart string | TLock string | TReady string | TNotReady string | TReason string
  | THalt string | TCancel string | TClose string bool | TCopy string | TCalls string int "nat list"
  | TSetReady | TUnlock "ks_error option" | TDone "ks_error option"
  | RStart | RReason | RDone

fun Trigger_step :: "int \<Rightarrow> KillSwitch \<Rightarrow> ks_pc \<Rightarrow> KillSwitch \<times> ks_pc" where
  "Trigger_step now k (TStart r) = (if ks_halted k then (k, TDone (Some ErrAlreadyHalted)) else (k, TLock r))"
| "Trigger_step now k (TLock r) = (if ks_isLocked k then (k, TDone (Some ErrLocked))
     else (k\<lparr>ks_isLocked := True\<rparr>, TReady r))"
| "Trigger_step now k (TReady r) = (if \<not> ks_killSwitchReady k then (k, TUnlock (Some ErrAlreadyInFlight))
     else (k, TNotReady r))"
| "Trigger_step now k (TNotReady r) = (k\<lparr>ks_killSwitchReady := False\<rparr>, TReason r)"
| "Trigger_step now k (TReason r) = (k\<lparr>ks_reason := r, ks_lastTrigger := now\<rparr>, THalt r)"
| "Trigger_step now k (THalt r) = (k\<lparr>ks_halted := True\<rparr>, TCancel r)"
| "Trigger_step now k (TCancel r) =
     (k\<lparr>ks_log := ks_log k @ [CancelAllOrders (ks_accounts k)]\<rparr>, TClose r (ks_accounts k))"
| "Trigger_step now k (TClose r ac) = (k\<lparr>ks_log := ks_log k @ [CloseAllPositions ac]\<rparr>, TCopy r)"
| "Trigger_step now k (TCopy r) = (k, TCalls r (ks_lastTrigger k) (ks_onTrigger k))"
| "Trigger_step now k (TCalls r t (fn # fns)) = (k\<lparr>ks_log := ks_log k @ [Callback fn r t]\<rparr>, TCalls r t fns)"
| "Trigger_step now k (TCalls r t []) = (k, TSetReady)"
| "Trigger_step now k TSetReady = (k\<lparr>ks_killSwitchReady := True\<rparr>, TUnlock None)"
| "Trigger_step now k (TUnlock res) = (k\<lparr>ks_isLocked := False\<rparr>, TDone res)"
| "Trigger_step now k RStart = (k\<lparr>ks_halted := False\<rparr>, RReason)"
| "Trigger_step now k RReason = (k\<lparr>ks_reason := ''''\<rparr>, RDone)"
| "Trigger_step now k (TDone res) = (k, TDone res)"
| "Trigger_step now k RDone = (k, RDone)"

fun ks_initial :: "ks_pc \<Rightarrow> bool" where
  "ks_initial (TStart r) = True"
| "ks_initial RStart = True"
| "ks_initial _ = False"

fun ks_final :: "ks_pc \<Rightarrow> bool" where
  "ks_final (TDone res) = True"
| "ks_final RDone = True"
| "ks_final _ = False"

inductive ks_step :: "KillSwitch \<times> ks_pc list \<Rightarrow> KillSwitch \<times> ks_pc list \<Rightarrow> bool" where
  run: "i < length pcs \<Longrightarrow> \<not> ks_final (pcs ! i) \<Longrightarrow> Trigger_step now k (pcs ! i) = (k', pc') \<Longrightarrow>
    ks_step (k, pcs) (k', pcs[i := pc'])"
| call: "ks_initial pc \<Longrightarrow> ks_step (k, pcs) (k, pcs @ [pc])"
| register: "ks_step (k, pcs) (KillSwitch_OnTrigger k fn, pcs)"
| accounts: "ks_step (k, pcs) (KillSwitch_SetAccountCanceller k ac, pcs)"

inductive_cases ks_stepE: "ks_step (k, pcs) (k', pcs')"
inductive_simps ks_step_iff: "ks_step (k, pcs) (k', pcs')"

inductive ks_reach :: "KillSwitch \<times> ks_pc list \<Rightarrow> bool" where
  init: "ks_reach (NewKillSwitch, [])"
| step: "ks_reach s \<Longrightarrow> ks_step s t \<Longrightarrow> ks_reach t"

text \<open>Between the swap of \<open>isLocked\<close> and its release, and while \<open>killSwitchReady\<close> is off.\<close>

fun in_lock :: "ks_pc \<Rightarrow> bool" where
  "in_lock (TStart r) = False"
| "in_lock (TLock r) = False"
| "in_lock (TDone res) = False"
| "in_lock RStart = False"
| "in_lock RReason = False"
| "in_lock RDone = False"
| "in_lock _ = True"

fun in_flight :: "ks_pc \<Rightarrow> bool" where
  "in_flight (TReason r) = True"
| "in_flight (THalt r) = True"
| "in_flight (TCancel r) = True"
| "in_flight (TClose r ac) = True"
| "in_flight (TCopy r) = True"
| "in_flight (TCalls r t fns) = True"
| "in_flight TSetReady = True"
| "in_flight _ = False"

section \<open>Mutual exclusion\<close>

definition how_many :: "(ks_pc \<Rightarrow> bool) \<Rightarrow> ks_pc list \<Rightarrow> nat" where
  "how_many P pcs = length (filter P pcs)"

lemma how_many_update:
  "i < length pcs \<Longrightarrow> how_many P (pcs[i := pc]) + (if P (pcs ! i) then 1 else 0) =
    how_many P pcs + (if P pc then 1 else 0)"
  unfolding how_many_def
proof (induction pcs arbitrary: i)
  case (Cons q pcs)
  then show ?case by (cases i) fastforce+
qed simp

lemma how_many_simps [simp]:
  "how_many P [] = 0" "how_many P (pcs @ [pc]) = how_many P pcs + (if P pc then 1 else 0)"
  by (simp_all add: how_many_def)

lemma how_many_pos: "i < length pcs \<Longrightarrow> P (pcs ! i) \<Longrightarrow> 0 < how_many P pcs"
  unfolding how_many_def by (simp add: filter_empty_conv) (metis nth_mem)

lemma how_many_split: "how_many P pcs = how_many (\<lambda>pc. P pc \<and> Q pc) pcs + how_many (\<lambda>pc. P pc \<and> \<not> Q pc) pcs"
  unfolding how_many_def by (induction pcs) auto

lemma in_flight_in_lock: "in_flight pc \<Longrightarrow> in_lock pc"
  by (cases pc) simp_all

lemma in_flight_lock: "how_many in_lock pcs = how_many in_flight pcs + how_many (\<lambda>pc. in_lock pc \<and> \<not> in_flight pc) pcs"
proof -
  have "(\<lambda>pc. in_lock pc \<and> in_flight pc) = in_flight" using in_flight_in_lock by auto
  then show ?thesis using how_many_split[of in_lock pcs in_flight] by simp
qed

fun ks_inv :: "KillSwitch \<times> ks_pc list \<Rightarrow> bool" where
  "ks_inv (k, pcs) \<longleftrightarrow>
     how_many in_lock pcs = (if ks_isLocked k then 1 else 0) \<and>
     how_many in_flight pcs = (if ks_killSwitchReady k then 0 else 1) \<and>
     how_many (\<lambda>pc. pc \<in> {TUnlock (Some ErrAlreadyInFlight), TDone (Some ErrAlreadyInFlight)}) pcs = 0"

lemma initial_points: "ks_initial pc \<Longrightarrow> \<not> in_lock pc \<and> \<not> in_flight pc \<and> \<not> ks_final pc"
  by (cases pc) simp_all

lemma ks_step_inv:
  assumes "ks_step s t" "ks_inv s"
  shows "ks_inv t"
  using assms
proof (induction rule: ks_step.induct)
  case (run i pcs now k k' pc')
  note up = how_many_update[OF run(1), of _ pc']
  note pos = how_many_pos[OF run(1)]
  have "ks_killSwitchReady k" if "pcs ! i = TReady r \<or> pcs ! i = TNotReady r" for r
    using run(4) pos[of "\<lambda>pc. in_lock pc \<and> \<not> in_flight pc"] in_flight_lock[of pcs] that
    by (auto split: if_splits)
  then show ?case
    using run(2-4) up[of in_lock] up[of in_flight] pos[of in_lock] pos[of in_flight]
      up[of "\<lambda>pc. pc \<in> {TUnlock (Some ErrAlreadyInFlight), TDone (Some ErrAlreadyInFlight)}"]
      pos[of "\<lambda>pc. pc \<in> {TUnlock (Some ErrAlreadyInFlight), TDone (Some ErrAlreadyInFlight)}"]
    by (cases "(now, k, pcs ! i)" rule: Trigger_step.cases) (auto split: if_splits)
next
  case (call pc k pcs)
  then show ?case using initial_points[of pc] by (cases pc) auto
qed (simp_all add: KillSwitch_OnTrigger_def KillSwitch_SetAccountCanceller_def)

lemma ks_reach_inv: "ks_reach s \<Longrightarrow> ks_inv s"
  by (induction rule: ks_reach.induct) (auto simp: NewKillSwitch_def ks_step_inv)

text \<open>C24: Mutual exclusion. In every state that any interleaving of any number of calls of
  \<open>Trigger\<close> and \<open>Resume\<close> reaches, the number of threads between the taking and the release of the
  lock is one if the lock bit is set and zero if it is not.\<close>

theorem kill_switch_exclusive:
  assumes "ks_reach (k, pcs)"
  shows "length (filter in_lock pcs) = (if KillSwitch_IsLocked k then 1 else 0)"
  using ks_reach_inv[OF assms] by (simp add: how_many_def KillSwitch_IsLocked_def)

text \<open>The second guard is dead. The lock already excludes a second call while one is in flight,
  so no interleaving makes \<open>Trigger\<close> return \<open>ErrAlreadyInFlight\<close>.\<close>

theorem already_in_flight_unreachable:
  assumes "ks_reach (k, pcs)"
  shows "TDone (Some ErrAlreadyInFlight) \<notin> set pcs"
proof
  assume "TDone (Some ErrAlreadyInFlight) \<in> set pcs"
  then obtain i where "i < length pcs" "pcs ! i = TDone (Some ErrAlreadyInFlight)" by (auto simp: in_set_conv_nth)
  then show False
    using ks_reach_inv[OF assms] how_many_pos[of i pcs "\<lambda>pc. pc \<in> {TUnlock (Some ErrAlreadyInFlight),
      TDone (Some ErrAlreadyInFlight)}"] by simp
qed

section \<open>A call on its own\<close>

text \<open>The steps of one thread without interference; a finished thread stays as it is.\<close>

fun solo :: "nat \<Rightarrow> int \<Rightarrow> KillSwitch \<times> ks_pc \<Rightarrow> KillSwitch \<times> ks_pc" where
  "solo 0 now s = s"
| "solo (Suc n) now s = solo n now (Trigger_step now (fst s) (snd s))"

lemma solo_add: "solo (m + n) now s = solo n now (solo m now s)"
  by (induction m now s rule: solo.induct) simp_all

lemma solo_calls: "solo (length fns) now (k, TCalls r t fns) =
    (k\<lparr>ks_log := ks_log k @ map (\<lambda>fn. Callback fn r t) fns\<rparr>, TCalls r t [])"
  by (induction fns arbitrary: k) simp_all

definition triggered :: "int \<Rightarrow> string \<Rightarrow> KillSwitch \<Rightarrow> KillSwitch" where
  "triggered now reason k = k\<lparr>ks_halted := True, ks_reason := reason, ks_lastTrigger := now,
     ks_log := ks_log k @ [CancelAllOrders (ks_accounts k), CloseAllPositions (ks_accounts k)] @
       map (\<lambda>fn. Callback fn reason now) (ks_onTrigger k)\<rparr>"

lemma solo_trigger:
  assumes "\<not> ks_halted k" "\<not> ks_isLocked k" "ks_killSwitchReady k"
  shows "solo (12 + length (ks_onTrigger k)) now (k, TStart reason) = (triggered now reason k, TDone None)"
proof -
  have "12 + length (ks_onTrigger k) = 9 + (length (ks_onTrigger k) + 3)" by simp
  then show ?thesis using assms
    by (simp only: solo_add) (simp add: eval_nat_numeral solo_calls triggered_def)
qed

text \<open>C27: A call of \<open>Trigger\<close> on a switch that is idle and not halted returns after 12 steps and one
  for each callback: it halts, cancels all orders, then closes all positions, then runs every
  registered callback once, in order, with the reason and the time, and frees the lock.\<close>

theorem Trigger_alone_completes:
  assumes "\<not> ks_halted k" "\<not> ks_isLocked k" "ks_killSwitchReady k"
  shows "solo (12 + length (ks_onTrigger k)) now (k, TStart reason) = (triggered now reason k, TDone None) \<and>
    KillSwitch_Status (triggered now reason k) = (True, reason, now) \<and>
    \<not> KillSwitch_IsLocked (triggered now reason k) \<and> KillSwitch_IsFlightReady (triggered now reason k)"
  using assms solo_trigger[OF assms]
  by (simp_all add: KillSwitch_Status_def KillSwitch_IsHalted_def triggered_def KillSwitch_IsLocked_def
      KillSwitch_IsFlightReady_def)

theorem Trigger_alone_completes_witness:
  "solo 13 5 (KillSwitch_OnTrigger NewKillSwitch 7, TStart ''reject_spike'') =
     (triggered 5 ''reject_spike'' (KillSwitch_OnTrigger NewKillSwitch 7), TDone None) \<and>
   ks_log (triggered 5 ''reject_spike'' (KillSwitch_OnTrigger NewKillSwitch 7)) =
     [CancelAllOrders False, CloseAllPositions False, Callback 7 ''reject_spike'' 5]"
  using Trigger_alone_completes[of "KillSwitch_OnTrigger NewKillSwitch 7" 5 "''reject_spike''"]
  by (simp add: KillSwitch_OnTrigger_def NewKillSwitch_def triggered_def)

section \<open>Every schedule ends\<close>

text \<open>A turn lets one thread that has not returned take its next step. The work left for a
  thread counts its steps to the end; the callbacks are fixed while no one registers more.\<close>

inductive ks_turn :: "KillSwitch \<times> ks_pc list \<Rightarrow> KillSwitch \<times> ks_pc list \<Rightarrow> bool" where
  "i < length pcs \<Longrightarrow> \<not> ks_final (pcs ! i) \<Longrightarrow> Trigger_step now k (pcs ! i) = (k', pc') \<Longrightarrow>
    ks_turn (k, pcs) (k', pcs[i := pc'])"

fun work_left :: "nat \<Rightarrow> ks_pc \<Rightarrow> nat" where
  "work_left m (TStart r) = 12 + m"
| "work_left m (TLock r) = 11 + m"
| "work_left m (TReady r) = 10 + m"
| "work_left m (TNotReady r) = 9 + m"
| "work_left m (TReason r) = 8 + m"
| "work_left m (THalt r) = 7 + m"
| "work_left m (TCancel r) = 6 + m"
| "work_left m (TClose r ac) = 5 + m"
| "work_left m (TCopy r) = 4 + m"
| "work_left m (TCalls r t fns) = 3 + length fns"
| "work_left m TSetReady = 2"
| "work_left m (TUnlock res) = 1"
| "work_left m (TDone res) = 0"
| "work_left m RStart = 2"
| "work_left m RReason = 1"
| "work_left m RDone = 0"

fun ks_work :: "KillSwitch \<times> ks_pc list \<Rightarrow> nat" where
  "ks_work (k, pcs) = sum_list (map (work_left (length (ks_onTrigger k))) pcs)"

lemma Trigger_step_work:
  "Trigger_step now k pc = (k', pc') \<Longrightarrow> \<not> ks_final pc \<Longrightarrow> ks_onTrigger k' = ks_onTrigger k \<and>
    work_left (length (ks_onTrigger k)) pc' < work_left (length (ks_onTrigger k)) pc"
  by (cases "(now, k, pc)" rule: Trigger_step.cases) (auto split: if_splits)

lemma sum_list_update_less:
  fixes f :: "'a \<Rightarrow> nat"
  shows "i < length xs \<Longrightarrow> f y < f (xs ! i) \<Longrightarrow> sum_list (map f (xs[i := y])) < sum_list (map f xs)"
  by (induction xs arbitrary: i) (auto split: nat.split)

lemma ks_turn_work: "ks_turn s t \<Longrightarrow> ks_work t < ks_work s"
  by (induction rule: ks_turn.induct) (auto dest!: Trigger_step_work intro: sum_list_update_less)

lemma ks_turns_reach: "ks_turn\<^sup>*\<^sup>* s t \<Longrightarrow> ks_reach s \<Longrightarrow> ks_reach t"
  by (induction rule: rtranclp_induct)
    (auto elim!: ks_turn.cases intro: ks_reach.step ks_step.run)

text \<open>No schedule of the calls of a reachable state runs forever. Where one can go no further every
  call has returned, the lock is free and the switch is ready to fire again.\<close>

theorem every_schedule_returns:
  assumes "ks_reach s"
  shows "wfP (\<lambda>t s. ks_turn s t) \<and> (\<forall>k pcs. ks_turn\<^sup>*\<^sup>* s (k, pcs) \<and> (\<nexists>t. ks_turn (k, pcs) t) \<longrightarrow>
    list_all ks_final pcs \<and> \<not> KillSwitch_IsLocked k \<and> KillSwitch_IsFlightReady k)"
proof (intro conjI allI impI; (elim conjE)?)
  show "wfP (\<lambda>t s. ks_turn s t)"
    by (rule wfp_if_convertible_to_nat[of _ ks_work]) (rule ks_turn_work)
  fix k pcs assume t: "ks_turn\<^sup>*\<^sup>* s (k, pcs)" and stuck: "\<nexists>t. ks_turn (k, pcs) t"
  have "\<exists>t. ks_turn (k, pcs) t" if "i < length pcs" "\<not> ks_final (pcs ! i)" for i
    using that ks_turn.intros[of i pcs 0 k] by (metis prod.exhaust)
  then show fin: "list_all ks_final pcs" using stuck unfolding list_all_length by blast
  have "\<not> in_lock pc" if "ks_final pc" for pc using that by (cases pc) simp_all
  then have "how_many in_lock pcs = 0" "how_many in_flight pcs = 0"
    using fin in_flight_lock[of pcs] by (auto simp: how_many_def filter_empty_conv list_all_iff)
  then show "\<not> KillSwitch_IsLocked k" "KillSwitch_IsFlightReady k"
    using ks_reach_inv[OF ks_turns_reach[OF t assms]]
    by (auto simp: KillSwitch_IsLocked_def KillSwitch_IsFlightReady_def split: if_splits)
qed

section \<open>What a returned call guarantees\<close>

fun past_halt :: "ks_pc \<Rightarrow> bool" where
  "past_halt (TCancel r) = True"
| "past_halt (TClose r ac) = True"
| "past_halt (TCopy r) = True"
| "past_halt (TCalls r t fns) = True"
| "past_halt TSetReady = True"
| "past_halt (TUnlock res) = (res = None)"
| "past_halt (TDone res) = (res = None)"
| "past_halt _ = False"

fun resume_point :: "ks_pc \<Rightarrow> bool" where
  "resume_point RStart = True"
| "resume_point RReason = True"
| "resume_point RDone = True"
| "resume_point _ = False"

lemma resume_point_step: "Trigger_step now k pc = (k', pc') \<Longrightarrow> resume_point pc' = resume_point pc"
  by (cases "(now, k, pc)" rule: Trigger_step.cases) (auto split: if_splits)

fun halted_inv :: "KillSwitch \<times> ks_pc list \<Rightarrow> bool" where
  "halted_inv (k, pcs) \<longleftrightarrow> how_many resume_point pcs = 0 \<longrightarrow> 0 < how_many past_halt pcs \<longrightarrow> ks_halted k"

lemma ks_step_halted:
  assumes "ks_step s t" "halted_inv s"
  shows "halted_inv t"
  using assms
proof (induction rule: ks_step.induct)
  case (run i pcs now k k' pc')
  note up = how_many_update[OF run(1), of _ pc']
  have r: "how_many resume_point (pcs[i := pc']) = how_many resume_point pcs"
    using up[of resume_point] resume_point_step[OF run(3)] by simp
  have "ks_halted k'" if "how_many resume_point pcs = 0" "0 < how_many past_halt (pcs[i := pc'])"
  proof -
    have nr: "\<not> resume_point (pcs ! i)" using how_many_pos[OF run(1), of resume_point] that(1) by auto
    have old: "past_halt (pcs ! i) \<or> \<not> past_halt pc' \<Longrightarrow> ks_halted k"
      using run(4) that how_many_pos[OF run(1), of past_halt] up[of past_halt] by auto
    show ?thesis using run(2,3) nr old
      by (cases "(now, k, pcs ! i)" rule: Trigger_step.cases) (auto split: if_splits simp del: not_None_eq)
  qed
  then show ?case by (simp add: r)
next
  case (call pc k pcs)
  then show ?case by (cases pc) auto
qed (simp_all add: KillSwitch_OnTrigger_def KillSwitch_SetAccountCanceller_def)

lemma ks_reach_halted: "ks_reach s \<Longrightarrow> halted_inv s"
  by (induction rule: ks_reach.induct) (auto simp: ks_step_halted)

text \<open>In every interleaving without a call of \<open>Resume\<close>, once a \<open>Trigger\<close> has returned without
  an error the switch is halted, and stays so.\<close>

theorem trigger_returned_halted:
  assumes "ks_reach (k, pcs)" "\<forall>pc\<in>set pcs. \<not> resume_point pc" "TDone None \<in> set pcs"
  shows "KillSwitch_IsHalted k"
proof -
  have "how_many resume_point pcs = 0" using assms(2) by (simp add: how_many_def filter_empty_conv)
  moreover obtain i where "i < length pcs" "past_halt (pcs ! i)" using assms(3) by (auto simp: in_set_conv_nth)
  ultimately show ?thesis using ks_reach_halted[OF assms(1)] how_many_pos[of i pcs past_halt]
    by (simp add: KillSwitch_IsHalted_def)
qed

section \<open>Two triggers\<close>

lemma ks_reach_solo:
  "ks_reach (k, pcs) \<Longrightarrow> i < length pcs \<Longrightarrow> solo n now (k, pcs ! i) = (k', pc') \<Longrightarrow> ks_reach (k', pcs[i := pc'])"
proof (induction n arbitrary: k pcs)
  case (Suc n)
  obtain k1 pc1 where s: "Trigger_step now k (pcs ! i) = (k1, pc1)" by force
  have "ks_reach (k1, pcs[i := pc1])"
  proof (cases "ks_final (pcs ! i)")
    case True
    then have "k1 = k \<and> pc1 = pcs ! i" using s by (cases "pcs ! i") auto
    then show ?thesis using Suc.prems(1) by simp
  next
    case False
    then show ?thesis using ks_reach.step[OF Suc.prems(1) ks_step.run[OF Suc.prems(2) False s]] by simp
  qed
  then show ?case using Suc.IH[of k1 "pcs[i := pc1]"] Suc.prems(2,3) s by simp
qed auto

lemma ks_reach_call: "ks_reach (k, pcs) \<Longrightarrow> ks_initial pc \<Longrightarrow> ks_reach (k, pcs @ [pc])"
  by (blast intro: ks_reach.step ks_step.call)

text \<open>The test of \<open>halted\<close> is not repeated under the lock. Two calls of \<open>Trigger\<close>, with no
  \<open>Resume\<close>, can both succeed: the second has tested \<open>halted\<close> before the first starts, takes the
  lock after it, and cancels the orders and closes the positions a second time.\<close>

theorem kill_switch_fires_twice:
  "\<exists>k. ks_reach (k, [TDone None, TDone None]) \<and>
     ks_log k = [CancelAllOrders False, CloseAllPositions False, CancelAllOrders False, CloseAllPositions False]"
proof -
  note d = NewKillSwitch_def triggered_def
  have "ks_reach (NewKillSwitch, [TStart ''a'', TStart ''b''])"
    using ks_reach_call[OF ks_reach_call[OF ks_reach.init], of "TStart ''a''" "TStart ''b''"] by simp
  then have "ks_reach (NewKillSwitch, [TStart ''a'', TLock ''b''])"
    using ks_reach_solo[of NewKillSwitch "[TStart ''a'', TStart ''b'']" 1 1 0] by (simp add: d)
  then have "ks_reach (triggered 0 ''a'' NewKillSwitch, [TDone None, TLock ''b''])"
    using ks_reach_solo[of NewKillSwitch "[TStart ''a'', TLock ''b'']" 0 12 0] solo_trigger[of NewKillSwitch 0 "''a''"]
    by (simp add: d)
  then have "ks_reach ((triggered 0 ''a'' NewKillSwitch)\<lparr>ks_reason := ''b'', ks_log := ks_log (triggered 0 ''a'' NewKillSwitch) @
      [CancelAllOrders False, CloseAllPositions False]\<rparr>, [TDone None, TDone None])"
    using ks_reach_solo[of "triggered 0 ''a'' NewKillSwitch" "[TDone None, TLock ''b'']" 1 11 0]
    by (simp add: d eval_nat_numeral)
  then show ?thesis by (force simp: d)
qed

lemma reach_one_trigger: "ks_reach (triggered 3 ''a'' NewKillSwitch, [TDone None])"
  using ks_reach_solo[OF ks_reach_call[OF ks_reach.init, of "TStart ''a''"], of 0 12 3]
    solo_trigger[of NewKillSwitch 3 "''a''"] by (simp add: NewKillSwitch_def)

theorem trigger_returned_halted_witness: "KillSwitch_IsHalted (triggered 3 ''a'' NewKillSwitch)"
  using trigger_returned_halted[OF reach_one_trigger] by simp

theorem already_in_flight_unreachable_witness: "TDone (Some ErrAlreadyInFlight) \<notin> set [TDone None]"
  by (rule already_in_flight_unreachable[OF reach_one_trigger])

theorem kill_switch_exclusive_witness:
  "ks_reach (NewKillSwitch\<lparr>ks_isLocked := True\<rparr>, [TStart ''b'', TReady ''a'']) \<and>
   length (filter in_lock [TStart ''b'', TReady ''a'']) = 1"
proof -
  have "ks_reach (NewKillSwitch, [TStart ''b'', TStart ''a''])"
    using ks_reach_call[OF ks_reach_call[OF ks_reach.init], of "TStart ''b''" "TStart ''a''"] by simp
  then have r: "ks_reach (NewKillSwitch\<lparr>ks_isLocked := True\<rparr>, [TStart ''b'', TReady ''a''])"
    using ks_reach_solo[of NewKillSwitch "[TStart ''b'', TStart ''a'']" 1 2 0]
    by (simp add: NewKillSwitch_def eval_nat_numeral)
  then show ?thesis using kill_switch_exclusive[OF r] by (simp add: KillSwitch_IsLocked_def)
qed

theorem every_schedule_returns_witness:
  "wfP (\<lambda>t s. ks_turn s t) \<and> (\<forall>k pcs. ks_turn\<^sup>*\<^sup>* (NewKillSwitch, [TStart ''a'']) (k, pcs) \<and>
    (\<nexists>t. ks_turn (k, pcs) t) \<longrightarrow>
    list_all ks_final pcs \<and> \<not> KillSwitch_IsLocked k \<and> KillSwitch_IsFlightReady k)"
  using every_schedule_returns ks_reach_call[OF ks_reach.init, of "TStart ''a''"] by fastforce

section \<open>The reject monitor\<close>

text \<open>
  The loop of \<open>MonitorRejectRate\<close>: a batch of rejects or a tick of the timer, with the clock
  in nanoseconds. A step says whether \<open>Trigger\<close> is called. The loop ends with its context.
\<close>

record reject_monitor =
  rm_rejectCount :: int
  rm_windowStart :: int

datatype monitor_event = Rejects int int | Tick int

definition monitor_window :: "reject_monitor \<Rightarrow> int \<Rightarrow> reject_monitor" where
  "monitor_window m now = (if now - rm_windowStart m > 300000000000
     then \<lparr>rm_rejectCount = 0, rm_windowStart = now\<rparr> else m)"

fun MonitorRejectRate_step :: "reject_monitor \<Rightarrow> monitor_event \<Rightarrow> bool \<times> reject_monitor" where
  "MonitorRejectRate_step m (Rejects count now) =
     (let m = monitor_window m now; m = m\<lparr>rm_rejectCount := rm_rejectCount m + count\<rparr>
      in (rm_rejectCount m > 3, m))"
| "MonitorRejectRate_step m (Tick now) = (False, monitor_window m now)"

fun MonitorRejectRate :: "reject_monitor \<Rightarrow> monitor_event list \<Rightarrow> bool list" where
  "MonitorRejectRate m [] = []"
| "MonitorRejectRate m (e # es) =
     (let (fire, m) = MonitorRejectRate_step m e in fire # MonitorRejectRate m es)"

fun event_time :: "monitor_event \<Rightarrow> int" where
  "event_time (Rejects count now) = now"
| "event_time (Tick now) = now"

lemma monitor_fires:
  assumes "\<forall>e\<in>set es. event_time e \<le> rm_windowStart m + 300000000000"
    and "\<forall>count now. Rejects count now \<in> set es \<longrightarrow> 0 \<le> count"
    and "i < length es" "es ! i = Rejects count now" "3 < rm_rejectCount m + count"
  shows "MonitorRejectRate m es ! i"
  using assms
proof (induction es arbitrary: m i)
  case (Cons e es)
  have w: "monitor_window m (event_time e) = m" using Cons.prems(1) by (simp add: monitor_window_def)
  obtain fire m' where s: "MonitorRejectRate_step m e = (fire, m')" by force
  have m': "rm_windowStart m' = rm_windowStart m \<and> rm_rejectCount m \<le> rm_rejectCount m'"
    using s w Cons.prems(2) by (cases e) (auto simp: Let_def)
  show ?case
  proof (cases i)
    case 0
    then show ?thesis using Cons.prems(4,5) s w by (auto simp: Let_def)
  next
    case (Suc j)
    have "MonitorRejectRate m' es ! j"
      using Cons.prems m' Suc by (intro Cons.IH) auto
    then show ?thesis by (simp add: s Suc)
  qed
qed simp

text \<open>Once more than three rejects are counted, every later reject of the same five minutes
  triggers the kill switch again: the count is not reset by a trigger, so after a \<open>Resume\<close>
  one more reject is enough.\<close>

theorem monitor_fires_again:
  assumes "3 < rm_rejectCount m" "\<forall>e\<in>set es. event_time e \<le> rm_windowStart m + 300000000000"
    and "\<forall>count now. Rejects count now \<in> set es \<longrightarrow> 0 \<le> count"
    and "i < length es" "es ! i = Rejects count now"
  shows "MonitorRejectRate m es ! i"
proof -
  have "0 \<le> count" using assms(3-5) by (metis nth_mem)
  then show ?thesis using assms by (intro monitor_fires[of es m i count now]) simp_all
qed

theorem monitor_fires_again_witness:
  "MonitorRejectRate \<lparr>rm_rejectCount = 4, rm_windowStart = 0\<rparr> [Tick 7, Rejects 1 9] = [False, True]"
  using monitor_fires_again[of "\<lparr>rm_rejectCount = 4, rm_windowStart = 0\<rparr>" "[Tick 7, Rejects 1 9]" 1 1 9]
  by (auto simp: Let_def monitor_window_def)

end
