(* ===== verification/Breaker.thy ===== *)
theory Breaker
  imports Prelude
begin

text \<open>
  The circuit breaker of \<open>internal/breaker/circuit_breaker.go\<close>. Every method changes the state
  inside one critical section and calls the observer after it, so a method is a function
  that returns the event it emits. Time is in nanoseconds; the counters are Go's \<open>int\<close>.
\<close>

datatype CircuitState = CircuitClosed | CircuitOpen | CircuitHalfOpen

record BreakerEvent =
  be_From :: CircuitState
  be_To :: CircuitState
  be_Warn :: bool
  be_Reason :: string

record CircuitBreaker =
  cb_state :: CircuitState
  cb_failureThreshold :: int
  cb_warnThreshold :: int
  cb_resetTimeout :: int
  cb_halfOpenMaxSuccess :: int
  cb_failureCount :: int
  cb_successCount :: int
  cb_lastFailureTime :: int
  cb_warnEmitted :: bool

definition NewCircuitBreaker :: "int \<Rightarrow> int \<Rightarrow> CircuitBreaker" where
  "NewCircuitBreaker failureThreshold resetTimeout = \<lparr>cb_state = CircuitClosed,
     cb_failureThreshold = failureThreshold, cb_warnThreshold = 0, cb_resetTimeout = resetTimeout,
     cb_halfOpenMaxSuccess = 1, cb_failureCount = 0, cb_successCount = 0, cb_lastFailureTime = 0,
     cb_warnEmitted = False\<rparr>"

definition CircuitBreaker_SetWarnThreshold :: "CircuitBreaker \<Rightarrow> int \<Rightarrow> CircuitBreaker" where
  "CircuitBreaker_SetWarnThreshold cb threshold = cb\<lparr>cb_warnThreshold := threshold\<rparr>"

definition CircuitBreaker_State :: "CircuitBreaker \<Rightarrow> CircuitState" where
  "CircuitBreaker_State cb = cb_state cb"

text \<open>\<open>Allow\<close>: the answer, the event, the new state.\<close>

definition CircuitBreaker_Allow :: "CircuitBreaker \<Rightarrow> int \<Rightarrow> (bool \<times> BreakerEvent option) \<times> CircuitBreaker" where
  "CircuitBreaker_Allow cb now = (case cb_state cb of
       CircuitClosed \<Rightarrow> ((True, None), cb)
     | CircuitOpen \<Rightarrow>
         if now - cb_lastFailureTime cb \<ge> cb_resetTimeout cb
         then ((True, Some \<lparr>be_From = CircuitOpen, be_To = CircuitHalfOpen, be_Warn = False,
                  be_Reason = ''reset_timeout''\<rparr>),
               cb\<lparr>cb_state := CircuitHalfOpen, cb_successCount := 0\<rparr>)
         else ((False, None), cb)
     | CircuitHalfOpen \<Rightarrow> ((cb_successCount cb < cb_halfOpenMaxSuccess cb, None), cb))"

definition CircuitBreaker_RecordSuccess :: "CircuitBreaker \<Rightarrow> BreakerEvent option \<times> CircuitBreaker" where
  "CircuitBreaker_RecordSuccess cb =
     (let from = cb_state cb;
          cb = cb\<lparr>cb_failureCount := 0, cb_warnEmitted := False\<rparr>;
          cb = (if cb_state cb = CircuitHalfOpen
                then (let cb = cb\<lparr>cb_successCount := cb_successCount cb + 1\<rparr>
                      in if cb_successCount cb \<ge> cb_halfOpenMaxSuccess cb
                         then cb\<lparr>cb_state := CircuitClosed\<rparr> else cb)
                else cb);
          to = cb_state cb
      in (if from = CircuitHalfOpen \<and> to = CircuitClosed
          then Some \<lparr>be_From = from, be_To = to, be_Warn = False, be_Reason = ''recovered''\<rparr> else None, cb))"

definition CircuitBreaker_RecordFailure :: "CircuitBreaker \<Rightarrow> int \<Rightarrow> BreakerEvent option \<times> CircuitBreaker" where
  "CircuitBreaker_RecordFailure cb now =
     (let from = cb_state cb;
          cb = cb\<lparr>cb_failureCount := cb_failureCount cb + 1, cb_lastFailureTime := now\<rparr>
      in if cb_state cb = CircuitHalfOpen \<or> cb_failureCount cb \<ge> cb_failureThreshold cb
         then (Some \<lparr>be_From = from, be_To = CircuitOpen, be_Warn = False, be_Reason = ''failure_threshold''\<rparr>,
               cb\<lparr>cb_state := CircuitOpen\<rparr>)
         else if cb_warnThreshold cb > 0 \<and> cb_failureCount cb \<ge> cb_warnThreshold cb \<and> \<not> cb_warnEmitted cb
         then (Some \<lparr>be_From = from, be_To = from, be_Warn = True, be_Reason = ''warn_threshold''\<rparr>,
               cb\<lparr>cb_warnEmitted := True\<rparr>)
         else (None, cb))"

section \<open>Runs\<close>

datatype breaker_op = BrAllow int | BrSuccess | BrFailure int | BrWarn int

fun breaker_step :: "CircuitBreaker \<Rightarrow> breaker_op \<Rightarrow> BreakerEvent option \<times> CircuitBreaker" where
  "breaker_step cb (BrAllow now) = (let ((ok, e), cb) = CircuitBreaker_Allow cb now in (e, cb))"
| "breaker_step cb BrSuccess = CircuitBreaker_RecordSuccess cb"
| "breaker_step cb (BrFailure now) = CircuitBreaker_RecordFailure cb now"
| "breaker_step cb (BrWarn n) = (None, CircuitBreaker_SetWarnThreshold cb n)"

fun breaker_run :: "CircuitBreaker \<Rightarrow> breaker_op list \<Rightarrow> BreakerEvent list \<times> CircuitBreaker" where
  "breaker_run cb [] = ([], cb)"
| "breaker_run cb (op # ops) =
     (let (e, cb) = breaker_step cb op; (es, cb) = breaker_run cb ops
      in (case e of None \<Rightarrow> es | Some ev \<Rightarrow> ev # es, cb))"

lemma breaker_run_append: "breaker_run cb (ops @ ops') =
    (let (es, cb) = breaker_run cb ops; (es', cb) = breaker_run cb ops' in (es @ es', cb))"
  by (induction ops arbitrary: cb) (simp_all add: Let_def case_prod_beta split: option.split)

lemma breaker_step_simps: "snd (breaker_step cb (BrAllow now)) = snd (CircuitBreaker_Allow cb now)"
  by (simp add: Let_def case_prod_beta)

lemmas breaker_defs = CircuitBreaker_Allow_def CircuitBreaker_RecordSuccess_def CircuitBreaker_RecordFailure_def
  CircuitBreaker_SetWarnThreshold_def Let_def

text \<open>The failures since the last success, newest operation last.\<close>

fun failures_since :: "nat \<Rightarrow> breaker_op list \<Rightarrow> nat" where
  "failures_since n [] = n"
| "failures_since n (BrFailure now # ops) = failures_since (Suc n) ops"
| "failures_since n (BrSuccess # ops) = failures_since 0 ops"
| "failures_since n (BrAllow now # ops) = failures_since n ops"
| "failures_since n (BrWarn w # ops) = failures_since n ops"

definition breaker_ok :: "CircuitBreaker \<Rightarrow> bool" where
  "breaker_ok cb \<longleftrightarrow> 1 \<le> cb_failureThreshold cb \<and> cb_halfOpenMaxSuccess cb = 1 \<and>
     (cb_state cb = CircuitClosed \<longrightarrow> cb_failureCount cb < cb_failureThreshold cb) \<and>
     (cb_state cb = CircuitHalfOpen \<longrightarrow> cb_successCount cb = 0)"

lemma breaker_ok_New: "1 \<le> th \<Longrightarrow> breaker_ok (NewCircuitBreaker th timeout)"
  by (simp add: breaker_ok_def NewCircuitBreaker_def)

lemma breaker_step_ok: "breaker_ok cb \<Longrightarrow> breaker_ok (snd (breaker_step cb op))"
  by (cases op) (auto simp: breaker_ok_def breaker_defs split: CircuitState.splits)

lemma breaker_step_frame:
  "cb_failureThreshold (snd (breaker_step cb op)) = cb_failureThreshold cb"
  "cb_resetTimeout (snd (breaker_step cb op)) = cb_resetTimeout cb"
  by (cases op; auto simp: breaker_defs split: CircuitState.splits)+

lemma breaker_step_count:
  "cb_failureCount cb = int n \<Longrightarrow> cb_failureCount (snd (breaker_step cb op)) = int (failures_since n [op])"
  by (cases op) (auto simp: breaker_defs split: CircuitState.splits)

lemma failures_since_Cons: "failures_since n (op # ops) = failures_since (failures_since n [op]) ops"
  by (cases op) simp_all

lemma breaker_run_inv:
  assumes "breaker_ok cb" "cb_failureCount cb = int n"
  shows "breaker_ok (snd (breaker_run cb ops)) \<and> cb_failureCount (snd (breaker_run cb ops)) = int (failures_since n ops) \<and>
    cb_failureThreshold (snd (breaker_run cb ops)) = cb_failureThreshold cb"
  using assms
proof (induction ops arbitrary: cb n)
  case (Cons op ops)
  obtain e cb' where s: "breaker_step cb op = (e, cb')" by force
  have "breaker_ok cb'" "cb_failureCount cb' = int (failures_since n [op])"
    "cb_failureThreshold cb' = cb_failureThreshold cb"
    using breaker_step_ok[OF Cons.prems(1), of op] breaker_step_count[OF Cons.prems(2), of op]
      breaker_step_frame(1)[of cb op] by (simp_all add: s)
  with Cons.IH[of cb' "failures_since n [op]"] show ?case
    by (simp add: s Let_def case_prod_beta failures_since_Cons[of n op ops] del: failures_since.simps)
qed simp

text \<open>C37: The breaker counts consecutive failures. After any run of calls on a new breaker the
  failure count is the number of failures since the last success, a closed breaker has seen
  fewer of them than the threshold, and a half-open one has had no success yet.\<close>

theorem breaker_counts_failures:
  fixes threshold timeout :: int and ops :: "breaker_op list"
  assumes "1 \<le> threshold"
  defines "cb \<equiv> snd (breaker_run (NewCircuitBreaker threshold timeout) ops)"
  shows "cb_failureCount cb = int (failures_since 0 ops) \<and>
    (CircuitBreaker_State cb = CircuitClosed \<longrightarrow> int (failures_since 0 ops) < threshold) \<and>
    (CircuitBreaker_State cb = CircuitHalfOpen \<longrightarrow> cb_successCount cb = 0)"
proof -
  have new: "cb_failureCount (NewCircuitBreaker threshold timeout) = int 0"
    "cb_failureThreshold (NewCircuitBreaker threshold timeout) = threshold" by (simp_all add: NewCircuitBreaker_def)
  show ?thesis using breaker_run_inv[OF breaker_ok_New[OF assms(1)] new(1), of ops]
    by (auto simp: new(2) breaker_ok_def CircuitBreaker_State_def simp flip: cb_def)
qed

theorem breaker_counts_failures_witness:
  "CircuitBreaker_State (snd (breaker_run (NewCircuitBreaker 2 50) [BrFailure 1, BrSuccess, BrFailure 2])) = CircuitClosed \<and>
   int (failures_since 0 [BrFailure 1, BrSuccess, BrFailure 2]) < 2"
  using breaker_counts_failures[of 2 50 "[BrFailure 1, BrSuccess, BrFailure 2]"]
  by (simp add: breaker_defs NewCircuitBreaker_def CircuitBreaker_State_def)

section \<open>The audit trail\<close>

fun replay :: "CircuitState \<Rightarrow> BreakerEvent list \<Rightarrow> CircuitState option" where
  "replay s [] = Some s"
| "replay s (e # es) = (if be_From e = s then replay (if be_Warn e then s else be_To e) es else None)"

lemma breaker_step_event:
  "breaker_step cb op = (e, cb') \<Longrightarrow>
   (case e of None \<Rightarrow> cb_state cb' = cb_state cb
    | Some ev \<Rightarrow> be_From ev = cb_state cb \<and> cb_state cb' = (if be_Warn ev then cb_state cb else be_To ev))
   \<or> (e = None \<and> op = BrSuccess \<and> cb_state cb' = cb_state cb)"
  by (cases op) (auto simp: breaker_defs split: CircuitState.splits if_splits)

text \<open>The audit trail is complete. The events of a run chain: each starts in the state the one
  before left, and replaying them from the closed state ends in the breaker's state.\<close>

theorem breaker_events_replay:
  "replay CircuitClosed (fst (breaker_run (NewCircuitBreaker threshold timeout) ops)) =
   Some (CircuitBreaker_State (snd (breaker_run (NewCircuitBreaker threshold timeout) ops)))"
proof -
  have r: "replay (cb_state cb) (fst (breaker_run cb ops)) = Some (cb_state (snd (breaker_run cb ops)))" for cb
  proof (induction ops arbitrary: cb)
    case (Cons op ops)
    obtain e cb' where s: "breaker_step cb op = (e, cb')" by force
    show ?case using Cons[of cb'] breaker_step_event[OF s]
      by (cases e) (auto simp: s Let_def case_prod_beta)
  qed simp
  show ?thesis using r[of "NewCircuitBreaker threshold timeout"]
    by (simp add: CircuitBreaker_State_def NewCircuitBreaker_def)
qed

section \<open>Open and half-open\<close>

lemma open_allows:
  assumes "cb_state cb = CircuitOpen" "\<forall>t\<in>set ts. t - cb_lastFailureTime cb < cb_resetTimeout cb"
  shows "breaker_run cb (map BrAllow ts) = ([], cb)"
  using assms by (induction ts) (simp_all add: CircuitBreaker_Allow_def)

text \<open>No trial limit. The comments promise a limited number of trial requests in the half-open
  state. But a request is admitted as long as no success has been recorded, so until the first
  trial reports, every request of any number is let through.\<close>

theorem half_open_admits_all:
  assumes "1 \<le> threshold"
    and "CircuitBreaker_State (snd (breaker_run (NewCircuitBreaker threshold timeout) ops)) = CircuitHalfOpen"
  shows "fst (fst (CircuitBreaker_Allow (snd (breaker_run (NewCircuitBreaker threshold timeout)
     (ops @ map BrAllow ts))) now))"
proof -
  define cb where "cb = snd (breaker_run (NewCircuitBreaker threshold timeout) ops)"
  have ok: "breaker_ok cb" unfolding cb_def
    using breaker_run_inv[OF breaker_ok_New[OF assms(1), of timeout], of 0 ops] by (simp add: NewCircuitBreaker_def)
  have h: "cb_state cb = CircuitHalfOpen" using assms(2) by (simp add: cb_def CircuitBreaker_State_def)
  have "snd (breaker_run cb (map BrAllow ts)) = cb"
    using h by (induction ts) (simp_all add: CircuitBreaker_Allow_def Let_def case_prod_beta)
  then have "snd (breaker_run (NewCircuitBreaker threshold timeout) (ops @ map BrAllow ts)) = cb"
    by (simp add: breaker_run_append Let_def case_prod_beta flip: cb_def)
  then show ?thesis using ok h by (simp add: CircuitBreaker_Allow_def breaker_ok_def)
qed

theorem half_open_admits_all_witness:
  "fst (fst (CircuitBreaker_Allow (snd (breaker_run (NewCircuitBreaker 1 50)
     ([BrFailure 0, BrAllow 60] @ map BrAllow [61, 62, 63]))) 64))"
  using half_open_admits_all[of 1 50 "[BrFailure 0, BrAllow 60]" "[61, 62, 63]" 64]
  by (simp add: breaker_defs NewCircuitBreaker_def CircuitBreaker_State_def)

text \<open>An open breaker lets nothing through before the timeout: after a failure that opened it,
  every request is refused until the timeout has passed since that failure.\<close>

theorem open_breaker_refuses:
  assumes "CircuitBreaker_RecordFailure cb t = (e, cb')" "CircuitBreaker_State cb' = CircuitOpen"
    and "\<forall>u\<in>set us. u - t < cb_resetTimeout cb" "now - t < cb_resetTimeout cb"
  shows "\<not> fst (fst (CircuitBreaker_Allow (snd (breaker_run cb' (map BrAllow us))) now))"
proof -
  have cb': "cb_lastFailureTime cb' = t \<and> cb_resetTimeout cb' = cb_resetTimeout cb \<and> cb_state cb' = CircuitOpen"
    using assms(1,2) by (auto simp: CircuitBreaker_RecordFailure_def CircuitBreaker_State_def Let_def split: if_splits)
  then have "breaker_run cb' (map BrAllow us) = ([], cb')" using assms(3) by (intro open_allows) simp_all
  then show ?thesis using cb' assms(4) by (simp add: CircuitBreaker_Allow_def)
qed

theorem open_breaker_refuses_witness:
  "\<not> fst (fst (CircuitBreaker_Allow (snd (breaker_run
     (snd (CircuitBreaker_RecordFailure (NewCircuitBreaker 1 50) 7)) (map BrAllow [10, 20]))) 30))"
  using open_breaker_refuses[of "NewCircuitBreaker 1 50" 7 _ _ "[10, 20]" 30]
  by (simp add: breaker_defs NewCircuitBreaker_def CircuitBreaker_State_def)

end
