(* ===== verification/RingBuffer.thy ===== *)
theory RingBuffer
  imports Prelude "HOL-Library.Word"
begin

unbundle bit_operations_syntax

text \<open>
  The tick buffer between the feed and the engine, \<open>internal/ingest/ring_buffer.go\<close>: one
  producer calls \<open>Push\<close>, one consumer calls \<open>Pop\<close>. The tick array is a list of
  \<open>MaxTickBuffer\<close> slots; \<open>Pop\<close> returns a pointer into it, here the index. The indices and the
  capacity are \<open>int32\<close> values from 0 to \<open>MaxTickBuffer\<close> (lemma \<open>capacity_range\<close>), so they are
  natural numbers; the \<open>int\<close> arithmetic of \<open>nextPowerOfTwo\<close> and the conversion to \<open>int32\<close> wrap
  as in Go. First comes the contract of a bounded queue as a locale.
\<close>

section \<open>Bounded queues\<close>

locale bounded_queue =
  fixes contents :: "'q \<Rightarrow> 'a list" and inv :: "'q \<Rightarrow> bool" and room :: "'q \<Rightarrow> nat"
    and enq :: "'q \<Rightarrow> 'a \<Rightarrow> bool \<times> 'q" and deq :: "'q \<Rightarrow> 'a option \<times> 'q"
  assumes enq_inv: "inv q \<Longrightarrow> inv (snd (enq q x))"
    and deq_inv: "inv q \<Longrightarrow> inv (snd (deq q))"
    and enq_room: "inv q \<Longrightarrow> room (snd (enq q x)) = room q"
    and deq_room: "inv q \<Longrightarrow> room (snd (deq q)) = room q"
    and enq_spec: "inv q \<Longrightarrow> (if length (contents q) < room q
        then fst (enq q x) \<and> contents (snd (enq q x)) = contents q @ [x]
        else \<not> fst (enq q x) \<and> contents (snd (enq q x)) = contents q)"
    and deq_spec: "inv q \<Longrightarrow> (case contents q of
        [] \<Rightarrow> fst (deq q) = None \<and> contents (snd (deq q)) = []
      | x # xs \<Rightarrow> fst (deq q) = Some x \<and> contents (snd (deq q)) = xs)"
begin

text \<open>A run: \<open>Some x\<close> puts, \<open>None\<close> takes. What was accepted and what was taken, in order.\<close>

fun run :: "'q \<Rightarrow> 'a option list \<Rightarrow> 'a list \<times> 'a list \<times> 'q" where
  "run q [] = ([], [], q)"
| "run q (Some x # ops) = (let (ok, q) = enq q x; (ins, outs, q) = run q ops
     in (if ok then x # ins else ins, outs, q))"
| "run q (None # ops) = (let (r, q) = deq q; (ins, outs, q) = run q ops
     in (ins, case r of None \<Rightarrow> outs | Some x \<Rightarrow> x # outs, q))"

lemma run_fifo:
  "inv q \<Longrightarrow> run q ops = (ins, outs, q') \<Longrightarrow>
    inv q' \<and> room q' = room q \<and> contents q @ ins = outs @ contents q'"
proof (induction q ops arbitrary: ins outs q' rule: run.induct)
  case (2 q x ops)
  obtain ok q1 where e: "enq q x = (ok, q1)" by force
  obtain ins1 outs1 q2 where r: "run q1 ops = (ins1, outs1, q2)" by (metis prod_cases3)
  have i: "inv q1" "room q1 = room q" using enq_inv[OF 2(2), of x] enq_room[OF 2(2), of x] by (simp_all add: e)
  have "inv q2 \<and> room q2 = room q1 \<and> contents q1 @ ins1 = outs1 @ contents q2"
    using 2(1) e r i(1) by simp
  then show ?case using 2(3) enq_spec[OF 2(2), of x] i by (auto simp: e r Let_def split: if_splits)
next
  case (3 q ops)
  obtain x q1 where d: "deq q = (x, q1)" by force
  obtain ins1 outs1 q2 where r: "run q1 ops = (ins1, outs1, q2)" by (metis prod_cases3)
  have i: "inv q1" "room q1 = room q" using deq_inv[OF 3(2)] deq_room[OF 3(2)] by (simp_all add: d)
  have "inv q2 \<and> room q2 = room q1 \<and> contents q1 @ ins1 = outs1 @ contents q2"
    using 3(1) d r i(1) by simp
  then show ?case using 3(3) deq_spec[OF 3(2)] i by (auto simp: d r Let_def split: list.splits)
qed simp

end

section \<open>The buffer\<close>

definition MaxTickBuffer :: int where "MaxTickBuffer = 16384"

record GoMarketTick =
  tk_Timestamp :: int
  tk_PriceRaw :: int
  tk_BidPrice :: int
  tk_AskPrice :: int
  tk_VolumeRaw :: "64 word"
  tk_BidSize :: "64 word"
  tk_AskSize :: "64 word"
  tk_SymbolID :: "32 word"
  tk_Side :: "8 word"

definition zero_tick :: GoMarketTick where
  "zero_tick = \<lparr>tk_Timestamp = 0, tk_PriceRaw = 0, tk_BidPrice = 0, tk_AskPrice = 0, tk_VolumeRaw = 0,
     tk_BidSize = 0, tk_AskSize = 0, tk_SymbolID = 0, tk_Side = 0\<rparr>"

record RingBuffer =
  rb_head :: nat
  rb_tail :: nat
  rb_capacity :: nat
  rb_overflowCount :: int
  rb_ticks :: "GoMarketTick list"

definition nextPowerOfTwo :: "int \<Rightarrow> int" where
  "nextPowerOfTwo n = (if n \<le> 0 then 1 else
     let n = n - 1;
         n = n OR drop_bit 1 n;
         n = n OR drop_bit 2 n;
         n = n OR drop_bit 4 n;
         n = n OR drop_bit 8 n;
         n = n OR drop_bit 16 n
     in wrap64 (n + 1))"

definition NewRingBuffer :: "int \<Rightarrow> RingBuffer" where
  "NewRingBuffer capacity =
     (let capacity = (if capacity \<le> 0 then MaxTickBuffer else capacity);
          cap = nextPowerOfTwo capacity;
          cap = (if cap > MaxTickBuffer then MaxTickBuffer else cap)
      in \<lparr>rb_head = 0, rb_tail = 0, rb_capacity = nat (wrap32 cap), rb_overflowCount = 0,
          rb_ticks = replicate (nat MaxTickBuffer) zero_tick\<rparr>)"

text \<open>\<open>Push\<close> panics, here \<open>None\<close>, when it divides by a capacity of zero.\<close>

definition RingBuffer_Push :: "RingBuffer \<Rightarrow> GoMarketTick \<Rightarrow> (bool \<times> RingBuffer) option" where
  "RingBuffer_Push rb tick =
     (if rb_capacity rb = 0 then None else
      let nxt = (rb_tail rb + 1) mod rb_capacity rb
      in if nxt = rb_head rb then Some (False, rb\<lparr>rb_overflowCount := wrap64 (rb_overflowCount rb + 1)\<rparr>)
         else Some (True, rb\<lparr>rb_ticks := (rb_ticks rb)[rb_tail rb := tick], rb_tail := nxt\<rparr>))"

text \<open>\<open>Pop\<close> returns the index of the slot; \<open>RingBuffer_get\<close> reads through the pointer. It cannot
  divide by zero: in a buffer of capacity zero every \<open>Push\<close> panics, so head and tail stay equal.\<close>

definition RingBuffer_Pop :: "RingBuffer \<Rightarrow> nat option \<times> RingBuffer" where
  "RingBuffer_Pop rb = (if rb_head rb = rb_tail rb then (None, rb)
     else (Some (rb_head rb), rb\<lparr>rb_head := (rb_head rb + 1) mod rb_capacity rb\<rparr>))"

definition RingBuffer_get :: "RingBuffer \<Rightarrow> nat \<Rightarrow> GoMarketTick" where
  "RingBuffer_get rb i = rb_ticks rb ! i"

definition RingBuffer_Capacity :: "RingBuffer \<Rightarrow> int" where
  "RingBuffer_Capacity rb = int (rb_capacity rb)"

definition RingBuffer_OverflowCount :: "RingBuffer \<Rightarrow> int" where
  "RingBuffer_OverflowCount rb =
     (let delta = int (rb_tail rb) - int (rb_head rb);
          delta = (if delta < 0 then delta + int (rb_capacity rb) else delta)
      in int (rb_capacity rb) - delta)"

section \<open>The next power of two\<close>

lemma bit_smear:
  fixes n m :: int
  assumes "\<And>i. bit n i \<longleftrightarrow> (\<exists>j<k. bit m (i + j))"
  shows "bit (n OR drop_bit k n) i \<longleftrightarrow> (\<exists>j<k + k. bit m (i + j))"
proof -
  have "(\<exists>j<k + k. bit m (i + j)) \<longleftrightarrow> (\<exists>j<k. bit m (i + j)) \<or> (\<exists>j<k. bit m (i + k + j))"
  proof (intro iffI; elim exE conjE disjE)
    fix j assume j: "j < k + k" "bit m (i + j)"
    show "(\<exists>j<k. bit m (i + j)) \<or> (\<exists>j<k. bit m (i + k + j))"
    proof (cases "j < k")
      case False
      then have "j - k < k" "bit m (i + k + (j - k))" using j by simp_all
      then show ?thesis by blast
    qed (use j in blast)
  next
    fix j assume "j < k" "bit m (i + j)"
    then show "\<exists>j<k + k. bit m (i + j)" by (intro exI[of _ j]) simp
  next
    fix j assume "j < k" "bit m (i + k + j)"
    then show "\<exists>j<k + k. bit m (i + j)" by (intro exI[of _ "k + j"]) (simp add: add.assoc)
  qed
  then show ?thesis by (simp add: bit_or_iff bit_drop_bit_eq assms add.commute[of k i])
qed

lemma smeared_bits:
  fixes m :: int
  defines "n1 \<equiv> m OR drop_bit 1 m"
  defines "n2 \<equiv> n1 OR drop_bit 2 n1"
  defines "n3 \<equiv> n2 OR drop_bit 4 n2"
  defines "n4 \<equiv> n3 OR drop_bit 8 n3"
  shows "bit (n4 OR drop_bit 16 n4) i \<longleftrightarrow> (\<exists>j<32. bit m (i + j))"
proof -
  have 0: "bit m i \<longleftrightarrow> (\<exists>j<1. bit m (i + j))" for i by auto
  have 1: "bit n1 i \<longleftrightarrow> (\<exists>j<2. bit m (i + j))" for i using bit_smear[of m 1 m, OF 0, unfolded one_add_one] by (simp only: n1_def)
  have 2: "bit n2 i \<longleftrightarrow> (\<exists>j<4. bit m (i + j))" for i using bit_smear[of n1 2 m, OF 1] by (simp add: n2_def)
  have 3: "bit n3 i \<longleftrightarrow> (\<exists>j<8. bit m (i + j))" for i using bit_smear[of n2 4 m, OF 2] by (simp add: n3_def)
  have 4: "bit n4 i \<longleftrightarrow> (\<exists>j<16. bit m (i + j))" for i using bit_smear[of n3 8 m, OF 3] by (simp add: n4_def)
  show ?thesis using bit_smear[of n4 16 m i, OF 4] by simp
qed

lemma smear_mask:
  fixes m :: int
  assumes "0 \<le> m" "m < 2 ^ b" "0 < b \<Longrightarrow> 2 ^ (b - 1) \<le> m" "b \<le> 32"
  shows "(\<exists>j<32. bit m (i + j)) \<longleftrightarrow> i < b"
proof
  have low: "\<not> bit m k" if "b \<le> k" for k
  proof -
    have "(2 :: int) ^ b \<le> 2 ^ k" using that by (intro power_increasing) simp_all
    then have "m < 2 ^ k" using assms(2) by linarith
    then show ?thesis using assms(1) by (simp add: bit_iff_odd)
  qed
  then show "\<exists>j<32. bit m (i + j) \<Longrightarrow> i < b" by (meson le_add1 le_trans linorder_not_less)
  assume i: "i < b"
  have "m div 2 ^ (b - 1) = 1"
  proof -
    have "m < 2 * 2 ^ (b - 1)" using assms(2) i by (cases b) simp_all
    then show ?thesis using assms(3) i by (intro int_div_pos_eq[of m "2 ^ (b - 1)" 1 "m - 2 ^ (b - 1)"]) simp_all
  qed
  then have "bit m (i + (b - 1 - i))" using i by (simp add: bit_iff_odd)
  moreover have "b - 1 - i < 32" using assms(4) i by simp
  ultimately show "\<exists>j<32. bit m (i + j)" by blast
qed

lemma log_bound: "0 \<le> (m :: int) \<Longrightarrow> m < 2 ^ n \<Longrightarrow> \<exists>b\<le>n. m < 2 ^ b \<and> (0 < b \<longrightarrow> 2 ^ (b - 1) \<le> m)"
proof (induction n)
  case (Suc n)
  then show ?case by (cases "m < 2 ^ n") (auto intro: le_SucI)
qed auto

text \<open>The value before the last addition, and its bounds.\<close>

definition smear :: "int \<Rightarrow> int" where
  "smear m = (let n = m; n = n OR drop_bit 1 n; n = n OR drop_bit 2 n; n = n OR drop_bit 4 n;
     n = n OR drop_bit 8 n in n OR drop_bit 16 n)"

lemma nextPowerOfTwo_smear: "0 < n \<Longrightarrow> nextPowerOfTwo n = wrap64 (smear (n - 1) + 1)"
  unfolding nextPowerOfTwo_def smear_def Let_def by (simp only: if_not_P not_le)

lemma bit_smear_iff: "bit (smear m) i \<longleftrightarrow> (\<exists>j<32. bit m (i + j))"
  using smeared_bits[of m i] by (simp only: smear_def Let_def)

lemma or_shift_bounds:
  fixes a :: int
  assumes "m \<le> a" "a < 2 ^ b" "0 \<le> m"
  shows "m \<le> a OR drop_bit d a \<and> a OR drop_bit d a < 2 ^ b"
proof -
  have "drop_bit d a \<le> a" "0 \<le> drop_bit d a"
    using assms zdiv_mono2[of a 1 "2 ^ d"] by (simp_all add: drop_bit_eq_div pos_imp_zdiv_nonneg_iff)
  then show ?thesis using assms or_greater_eq[of "drop_bit d a" a] OR_upper[of a b "drop_bit d a"] by linarith
qed

lemma smear_bounds: "0 \<le> m \<Longrightarrow> m < 2 ^ b \<Longrightarrow> m \<le> smear m \<and> smear m < 2 ^ b"
  unfolding smear_def Let_def by (intro or_shift_bounds conjunct1[OF or_shift_bounds] conjunct2[OF or_shift_bounds]) auto

lemma nextPowerOfTwo_no_wrap:
  assumes "0 < n" "n \<le> 2 ^ 62"
  shows "nextPowerOfTwo n = smear (n - 1) + 1"
proof -
  have "0 \<le> n - 1" "n - 1 < 2 ^ 62" using assms by simp_all
  then have "n - 1 \<le> smear (n - 1)" "smear (n - 1) < 2 ^ 62" using smear_bounds by blast+
  then have "is_int64 (smear (n - 1) + 1)" using assms(1) by (simp add: is_int64_def)
  then show ?thesis using assms(1) by (simp add: nextPowerOfTwo_smear)
qed

text \<open>For every positive argument up to \<open>2 ^ 32\<close> \<open>nextPowerOfTwo\<close> returns the smallest power of
  two that is not below it.\<close>

theorem nextPowerOfTwo_least:
  assumes "0 < n" "n \<le> 2 ^ 32"
  shows "\<exists>b. nextPowerOfTwo n = 2 ^ b \<and> n \<le> 2 ^ b \<and> (\<forall>c. n \<le> 2 ^ c \<longrightarrow> b \<le> c)"
proof -
  obtain b where b: "b \<le> 32" "n - 1 < 2 ^ b" "0 < b \<Longrightarrow> 2 ^ (b - 1) \<le> n - 1"
    using log_bound[of "n - 1" 32] assms by auto
  have "bit (smear (n - 1)) i \<longleftrightarrow> i < b" for i
    unfolding bit_smear_iff using smear_mask[of "n - 1" b i] b assms(1) by simp
  then have "smear (n - 1) = mask b" by (intro bit_eqI) (simp add: bit_mask_iff)
  moreover have "nextPowerOfTwo n = smear (n - 1) + 1" using assms by (intro nextPowerOfTwo_no_wrap) simp_all
  ultimately have v: "nextPowerOfTwo n = 2 ^ b" by (simp add: mask_eq_exp_minus_1)
  have "b \<le> c" if "n \<le> 2 ^ c" for c
  proof (rule ccontr)
    assume "\<not> b \<le> c"
    then have "c \<le> b - 1" "0 < b" by simp_all
    then have "(2 :: int) ^ c \<le> 2 ^ (b - 1)" "2 ^ (b - 1) \<le> n - 1" using b(3) by (simp_all add: power_increasing)
    then show False using that by linarith
  qed
  then show ?thesis using v b(2) by (intro exI[of _ b]) auto
qed

theorem nextPowerOfTwo_least_witness:
  "\<exists>b. nextPowerOfTwo 1000 = 2 ^ b \<and> 1000 \<le> (2 :: int) ^ b \<and> (\<forall>c. 1000 \<le> (2 :: int) ^ c \<longrightarrow> b \<le> c)"
  by (rule nextPowerOfTwo_least) simp_all

section \<open>The buffer is a queue\<close>

definition rb_inv :: "RingBuffer \<Rightarrow> bool" where
  "rb_inv rb \<longleftrightarrow> rb_head rb < rb_capacity rb \<and> rb_tail rb < rb_capacity rb \<and>
     rb_capacity rb \<le> length (rb_ticks rb)"

definition rb_room :: "RingBuffer \<Rightarrow> nat" where
  "rb_room rb = rb_capacity rb - 1"

definition rb_used :: "RingBuffer \<Rightarrow> nat" where
  "rb_used rb = (if rb_head rb \<le> rb_tail rb then rb_tail rb - rb_head rb
     else rb_tail rb + rb_capacity rb - rb_head rb)"

definition wrap :: "RingBuffer \<Rightarrow> nat \<Rightarrow> nat" where
  "wrap rb i = (if i < rb_capacity rb then i else i - rb_capacity rb)"

definition rb_contents :: "RingBuffer \<Rightarrow> GoMarketTick list" where
  "rb_contents rb = map (\<lambda>k. rb_ticks rb ! wrap rb (rb_head rb + k)) [0..<rb_used rb]"

definition rb_deq :: "RingBuffer \<Rightarrow> GoMarketTick option \<times> RingBuffer" where
  "rb_deq rb = (case RingBuffer_Pop rb of
     (None, rb) \<Rightarrow> (None, rb) | (Some i, rb) \<Rightarrow> (Some (RingBuffer_get rb i), rb))"

lemma suc_mod: "t < (c :: nat) \<Longrightarrow> Suc t mod c = (if Suc t = c then 0 else Suc t)"
  by simp

lemma nextPowerOfTwo_ge:
  assumes "0 < k" "k \<le> 2 ^ 62"
  shows "k \<le> nextPowerOfTwo k"
proof -
  have "0 \<le> k - 1" "k - 1 < 2 ^ 62" using assms by simp_all
  then show ?thesis using smear_bounds[of "k - 1" 62] nextPowerOfTwo_no_wrap[OF assms] by simp
qed

lemma rb_inv_New: 
  assumes "n \<le> 2 ^ 62"
  shows "rb_inv (NewRingBuffer n)"
proof -
  define k where "k = (if n \<le> 0 then MaxTickBuffer else n)"
  have "1 \<le> nextPowerOfTwo k"
    using nextPowerOfTwo_ge[of k] assms by (auto simp: k_def MaxTickBuffer_def split: if_splits)
  then show ?thesis
    by (auto simp: rb_inv_def NewRingBuffer_def Let_def MaxTickBuffer_def k_def is_int32_def split: if_splits)
qed

definition rb_enq :: "RingBuffer \<Rightarrow> GoMarketTick \<Rightarrow> bool \<times> RingBuffer" where
  "rb_enq rb x = (case RingBuffer_Push rb x of None \<Rightarrow> (False, rb) | Some r \<Rightarrow> r)"

lemma Push_returns: "rb_inv rb \<Longrightarrow> RingBuffer_Push rb x = Some (rb_enq rb x)"
  by (auto simp: rb_inv_def rb_enq_def RingBuffer_Push_def Let_def)

lemma rb_enq_eq: "rb_inv rb \<Longrightarrow> rb_enq rb x =
    (if Suc (rb_tail rb) mod rb_capacity rb = rb_head rb
     then (False, rb\<lparr>rb_overflowCount := wrap64 (rb_overflowCount rb + 1)\<rparr>)
     else (True, rb\<lparr>rb_ticks := (rb_ticks rb)[rb_tail rb := x],
       rb_tail := Suc (rb_tail rb) mod rb_capacity rb\<rparr>))"
  by (auto simp: rb_inv_def rb_enq_def RingBuffer_Push_def Let_def)

lemma Push_full: "rb_inv rb \<Longrightarrow> (rb_tail rb + 1) mod rb_capacity rb = rb_head rb \<longleftrightarrow> rb_used rb = rb_room rb"
  by (auto simp: rb_inv_def rb_used_def rb_room_def suc_mod split: if_splits)

lemma rb_used_room: "rb_inv rb \<Longrightarrow> rb_used rb \<le> rb_room rb"
  by (auto simp: rb_inv_def rb_used_def rb_room_def)

lemma Push_spec:
  assumes "rb_inv rb"
  shows "if length (rb_contents rb) < rb_room rb
    then fst (rb_enq rb x) \<and> rb_contents (snd (rb_enq rb x)) = rb_contents rb @ [x]
    else \<not> fst (rb_enq rb x) \<and> rb_contents (snd (rb_enq rb x)) = rb_contents rb"
proof (cases "rb_used rb < rb_room rb")
  case True
  define t where "t = Suc (rb_tail rb) mod rb_capacity rb"
  have t: "t \<noteq> rb_head rb" using Push_full[OF assms] True by (simp add: t_def)
  define q where "q = rb\<lparr>rb_ticks := (rb_ticks rb)[rb_tail rb := x], rb_tail := t\<rparr>"
  have i: "rb_head rb < rb_capacity rb" "rb_tail rb < rb_capacity rb" "rb_capacity rb \<le> length (rb_ticks rb)"
    using assms by (simp_all add: rb_inv_def)
  have u: "rb_used q = Suc (rb_used rb)" using i t
    by (auto simp: rb_used_def q_def t_def suc_mod split: if_splits)
  have w: "wrap (rb\<lparr>rb_ticks := ts, rb_tail := u\<rparr>) k = wrap rb k" for ts u k by (simp add: wrap_def)
  have last: "wrap rb (rb_head rb + rb_used rb) = rb_tail rb" using i by (auto simp: wrap_def rb_used_def)
  have old: "rb_tail rb \<noteq> wrap rb (rb_head rb + k)" if "k < rb_used rb" for k
    using that i by (auto simp: wrap_def rb_used_def split: if_splits)
  have "rb_contents q = rb_contents rb @ [x]"
    unfolding rb_contents_def u using old i(2,3) by (simp add: w last q_def)
  then show ?thesis using True t
    by (simp add: rb_enq_eq[OF assms] rb_contents_def[of rb] flip: t_def q_def)
next
  case False
  then have "(rb_tail rb + 1) mod rb_capacity rb = rb_head rb"
    using Push_full[OF assms] rb_used_room[OF assms] by simp
  then show ?thesis using False
    by (simp add: rb_enq_eq[OF assms] rb_contents_def rb_used_def wrap_def)
qed

lemma Pop_spec:
  assumes "rb_inv rb"
  shows "case rb_contents rb of [] \<Rightarrow> fst (rb_deq rb) = None \<and> rb_contents (snd (rb_deq rb)) = []
    | x # xs \<Rightarrow> fst (rb_deq rb) = Some x \<and> rb_contents (snd (rb_deq rb)) = xs"
proof (cases "rb_head rb = rb_tail rb")
  case True
  then show ?thesis by (simp add: rb_contents_def rb_used_def rb_deq_def RingBuffer_Pop_def)
next
  case False
  define q where "q = rb\<lparr>rb_head := (rb_head rb + 1) mod rb_capacity rb\<rparr>"
  have i: "rb_head rb < rb_capacity rb" "rb_tail rb < rb_capacity rb" using assms by (simp_all add: rb_inv_def)
  have u: "rb_used rb = Suc (rb_used q)" using i False
    by (auto simp: rb_used_def q_def suc_mod split: if_splits)
  have w: "wrap q (rb_head q + k) = wrap rb (rb_head rb + Suc k)" if "k < rb_used q" for k
    using i that u by (auto simp: wrap_def q_def suc_mod rb_used_def split: if_splits)
  have "rb_contents rb = rb_ticks rb ! rb_head rb # map (\<lambda>k. rb_ticks rb ! wrap rb (rb_head rb + Suc k)) [0..<rb_used q]"
    unfolding rb_contents_def u using i(1) by (simp add: upt_conv_Cons map_Suc_upt[symmetric] wrap_def del: upt_Suc)
  moreover have "rb_contents q = map (\<lambda>k. rb_ticks rb ! wrap rb (rb_head rb + Suc k)) [0..<rb_used q]"
    unfolding rb_contents_def using w by (simp add: q_def)
  ultimately show ?thesis using False
    by (simp add: rb_deq_def RingBuffer_Pop_def RingBuffer_get_def flip: q_def) (simp add: q_def)
qed

lemma rb_inv_ops:
  "rb_inv rb \<Longrightarrow> rb_inv (snd (rb_enq rb x))" "rb_inv rb \<Longrightarrow> rb_inv (snd (rb_deq rb))"
  by (auto simp: rb_inv_def rb_enq_def RingBuffer_Push_def rb_deq_def RingBuffer_Pop_def Let_def split: option.splits)

lemma rb_room_ops [simp]:
  "rb_room (snd (rb_enq rb x)) = rb_room rb" "rb_room (snd (rb_deq rb)) = rb_room rb"
  by (auto simp: rb_room_def rb_enq_def RingBuffer_Push_def rb_deq_def RingBuffer_Pop_def Let_def split: option.splits)

interpretation ring: bounded_queue rb_contents rb_inv rb_room rb_enq rb_deq
  using Push_spec Pop_spec by unfold_locales (simp_all add: rb_inv_ops)

text \<open>A run of the producer (\<open>Some tick\<close>) and the consumer (\<open>None\<close>), with what was accepted and
  taken; \<open>None\<close> if a call panics.\<close>

fun ring_run :: "RingBuffer \<Rightarrow> GoMarketTick option list \<Rightarrow>
  (GoMarketTick list \<times> GoMarketTick list \<times> RingBuffer) option" where
  "ring_run q [] = Some ([], [], q)"
| "ring_run q (Some x # ops) = (case RingBuffer_Push q x of None \<Rightarrow> None | Some (ok, q) \<Rightarrow>
     map_option (\<lambda>(ins, outs, q). (if ok then x # ins else ins, outs, q)) (ring_run q ops))"
| "ring_run q (None # ops) = (let (r, q) = rb_deq q in
     map_option (\<lambda>(ins, outs, q). (ins, case r of None \<Rightarrow> outs | Some x \<Rightarrow> x # outs, q)) (ring_run q ops))"

lemma ring_run_returns: "rb_inv q \<Longrightarrow> ring_run q ops = Some (ring.run q ops)"
proof (induction q ops rule: ring_run.induct)
  case (2 q x ops)
  then show ?case using rb_inv_ops(1)[of q x] by (auto simp: Push_returns Let_def split: prod.splits)
next
  case (3 q ops)
  then show ?case using rb_inv_ops(2)[of q] by (auto simp: Let_def split: prod.splits)
qed simp

lemma new_contents: "rb_contents (NewRingBuffer n) = []"
  by (simp add: rb_contents_def rb_used_def NewRingBuffer_def Let_def)

lemma ring_run_fifo: "n \<le> 2 ^ 62 \<Longrightarrow> ring_run (NewRingBuffer n) ops = Some (ins, outs, q) \<Longrightarrow>
    rb_inv q \<and> rb_room q = rb_room (NewRingBuffer n) \<and> ins = outs @ rb_contents q"
  using ring.run_fifo[OF rb_inv_New, of n ops ins outs q] ring_run_returns[OF rb_inv_New, of n ops]
  by (simp add: new_contents)

text \<open>C23: The buffer is a first-in first-out queue that loses nothing it accepted. For a requested
  capacity of at most \<open>2 ^ 62\<close> every run of pushes and pops on a new buffer returns without a panic;
  the ticks taken are, in order, the first of the accepted ones; at most capacity minus one ticks
  wait, and the next push is accepted exactly when fewer than that many do.\<close>

theorem ring_buffer_fifo:
  assumes "n \<le> 2 ^ 62"
  shows "\<exists>ins outs q waiting rest. ring_run (NewRingBuffer n) ops = Some (ins, outs, q) \<and>
    ins = outs @ waiting \<and> int (length waiting) \<le> RingBuffer_Capacity q - 1 \<and>
    RingBuffer_Push q x = Some (int (length waiting) < RingBuffer_Capacity q - 1, rest)"
proof -
  obtain ins outs q where r: "ring_run (NewRingBuffer n) ops = Some (ins, outs, q)"
    using ring_run_returns[OF rb_inv_New[OF assms], of ops] by (metis prod_cases3)
  note f = ring_run_fifo[OF assms r]
  have "length (rb_contents q) \<le> rb_room q" using rb_used_room[of q] f by (simp add: rb_contents_def)
  moreover have "fst (rb_enq q x) \<longleftrightarrow> length (rb_contents q) < rb_room q"
    using Push_spec[of q x] f by (auto split: if_splits)
  moreover have "int (rb_room q) = RingBuffer_Capacity q - 1"
    using f by (auto simp: rb_room_def RingBuffer_Capacity_def rb_inv_def)
  ultimately show ?thesis using f r Push_returns[of q x]
    by (intro exI[of _ ins] exI[of _ outs] exI[of _ q] exI[of _ "rb_contents q"] exI[of _ "snd (rb_enq q x)"])
      (auto simp: prod_eq_iff)
qed

definition tick_at :: "int \<Rightarrow> GoMarketTick" where
  "tick_at t = zero_tick\<lparr>tk_Timestamp := t\<rparr>"

lemma small_ring: "nextPowerOfTwo 2 = 2" "nextPowerOfTwo 1 = 1"
  by (simp_all add: nextPowerOfTwo_def Let_def is_int64_def)

lemmas small_steps = NewRingBuffer_def small_ring RingBuffer_Push_def rb_deq_def RingBuffer_Pop_def
  RingBuffer_get_def MaxTickBuffer_def Let_def is_int32_def is_int64_def

theorem ring_buffer_fifo_witness:
  "ring_run (NewRingBuffer 2) [Some (tick_at 1), Some (tick_at 2), None, Some (tick_at 3)] =
     Some ([tick_at 1, tick_at 3], [tick_at 1], \<lparr>rb_head = 1, rb_tail = 0, rb_capacity = 2, rb_overflowCount = 1,
       rb_ticks = (replicate 16384 zero_tick)[0 := tick_at 1, 1 := tick_at 3]\<rparr>) \<and>
   (\<exists>waiting. [tick_at 1, tick_at 3] = [tick_at 1] @ waiting \<and> length waiting = 1)"
proof -
  have r: "ring_run (NewRingBuffer 2) [Some (tick_at 1), Some (tick_at 2), None, Some (tick_at 3)] =
     Some ([tick_at 1, tick_at 3], [tick_at 1], \<lparr>rb_head = 1, rb_tail = 0, rb_capacity = 2, rb_overflowCount = 1,
       rb_ticks = (replicate 16384 zero_tick)[0 := tick_at 1, 1 := tick_at 3]\<rparr>)"
    by (simp add: small_steps)
  show ?thesis using r ring_buffer_fifo[of 2 "[Some (tick_at 1), Some (tick_at 2), None, Some (tick_at 3)]" zero_tick]
    by auto
qed

section \<open>The pointer that is returned\<close>

fun push_all :: "RingBuffer \<Rightarrow> GoMarketTick list \<Rightarrow> RingBuffer" where
  "push_all rb [] = rb"
| "push_all rb (t # ts) = push_all (snd (rb_enq rb t)) ts"

lemma push_all_slot:
  assumes "rb_inv rb" "i < rb_capacity rb" "Suc i mod rb_capacity rb = rb_head rb"
  shows "rb_ticks (push_all rb ts) ! i = rb_ticks rb ! i"
  using assms
proof (induction ts arbitrary: rb)
  case (Cons t ts)
  define q where "q = snd (rb_enq rb t)"
  have q: "rb_inv q" "rb_capacity q = rb_capacity rb" "rb_head q = rb_head rb"
    using rb_inv_ops(1)[OF Cons.prems(1), of t] by (auto simp: q_def rb_enq_eq[OF Cons.prems(1)])
  have "rb_ticks q ! i = rb_ticks rb ! i"
    using Cons.prems by (cases "rb_tail rb = i") (auto simp: q_def rb_enq_eq[OF Cons.prems(1)])
  then show ?case using Cons.IH[of q] q Cons.prems(2,3) by (simp flip: q_def)
qed simp

text \<open>\<open>Pop\<close> hands out a pointer into the array and frees the slot at once. The tick behind it
  still stays what it was through any number of pushes: the slot that is always left empty is
  the one just popped, until the next pop.\<close>

theorem popped_tick_stable:
  assumes "n \<le> 2 ^ 62" "ring_run (NewRingBuffer n) ops = Some (ins, outs, q)" "RingBuffer_Pop q = (Some i, q')"
  shows "RingBuffer_get (push_all q' ts) i = RingBuffer_get q i"
proof -
  have inv: "rb_inv q" using ring_run_fifo[OF assms(1,2)] by simp
  have "i = rb_head q" "q' = q\<lparr>rb_head := (rb_head q + 1) mod rb_capacity q\<rparr>"
    using assms(3) by (auto simp: RingBuffer_Pop_def split: if_splits)
  then show ?thesis using push_all_slot[of q' i ts] inv by (auto simp: rb_inv_def RingBuffer_get_def)
qed

theorem popped_tick_stable_witness:
  "RingBuffer_get (push_all (snd (RingBuffer_Pop (snd (the (RingBuffer_Push (NewRingBuffer 2) (tick_at 1))))))
     [tick_at 2, tick_at 3]) 0 = tick_at 1"
proof -
  define q where "q = snd (the (RingBuffer_Push (NewRingBuffer 2) (tick_at 1)))"
  have r: "ring_run (NewRingBuffer 2) [Some (tick_at 1)] = Some ([tick_at 1], [], q)"
    by (simp add: q_def small_steps)
  have p: "RingBuffer_Pop q = (Some 0, snd (RingBuffer_Pop q))"
    by (simp add: q_def small_steps)
  have "RingBuffer_get q 0 = tick_at 1"
    by (simp add: q_def small_steps)
  then show ?thesis using popped_tick_stable[OF _ r p, of "[tick_at 2, tick_at 3]"] by (simp flip: q_def)
qed

text \<open>\<open>OverflowCount\<close> does not count overflows: in every state of every run it is the capacity
  minus the number of waiting ticks, so an idle buffer reports its capacity.\<close>

theorem overflow_count_is_free_space:
  assumes "n \<le> 2 ^ 62" "ring_run (NewRingBuffer n) ops = Some (ins, outs, q)"
  shows "RingBuffer_OverflowCount q = RingBuffer_Capacity q - int (length ins - length outs)"
proof -
  have "length ins - length outs = rb_used q" "rb_inv q"
    using ring_run_fifo[OF assms] by (simp_all add: rb_contents_def)
  then show ?thesis
    by (auto simp: RingBuffer_OverflowCount_def RingBuffer_Capacity_def rb_used_def rb_inv_def Let_def of_nat_diff)
qed

theorem overflow_count_is_free_space_witness: "RingBuffer_OverflowCount (NewRingBuffer 2) = 2"
  using overflow_count_is_free_space[of 2 "[]"] by (simp add: RingBuffer_Capacity_def small_steps)

lemma one_slot_ring_refuses: "\<exists>q. RingBuffer_Push (NewRingBuffer 1) x = Some (False, q)"
  by (simp add: small_steps)

text \<open>A capacity near the top of the range wraps: \<open>nextPowerOfTwo\<close> returns the least integer,
  which is 0 as \<open>int32\<close>, and the first push divides by zero.\<close>

lemma huge_ring_panics:
  "nextPowerOfTwo (2 ^ 63 - 1) = - (2 ^ 63) \<and> RingBuffer_Push (NewRingBuffer (2 ^ 63 - 1)) x = None"
  by (simp add: NewRingBuffer_def nextPowerOfTwo_def RingBuffer_Push_def MaxTickBuffer_def Let_def wrap64_def wrap32_def)

end
