(* ===== verification/Runners.thy ===== *)
theory Runners
  imports Trades PriceExact
begin

text \<open>
  What the strategies share, \<open>internal/strategy/history.go\<close>, \<open>base_runner.go\<close>,
  \<open>trend_filter.go\<close>, \<open>stop_model.go\<close>, \<open>stop_profit.go\<close>, \<open>session.go\<close> and \<open>regime.go\<close>: the ring
  buffers of recent prices, the state of a position, trailing stops, sessions. First come the
  contract of a price history and of a strategy that holds one position, as locales. Indices
  and counters of a buffer are natural numbers; a time is an instant of UTC, the date strings
  Go compares are day numbers.
\<close>

section \<open>Price histories\<close>

text \<open>A history keeps the last \<open>capacity\<close> of the values it accepts, oldest first.\<close>

definition last_n :: "nat \<Rightarrow> 'a list \<Rightarrow> 'a list" where
  "last_n n xs = drop (length xs - n) xs"

locale price_history =
  fixes push :: "'h \<Rightarrow> 'x \<Rightarrow> 'h" and accepted :: "'x \<Rightarrow> 'a option"
    and window :: "'h \<Rightarrow> int \<Rightarrow> 'a list" and holds :: "'h \<Rightarrow> 'a list \<Rightarrow> bool" and capacity :: "'h \<Rightarrow> nat"
  assumes push_holds: "holds h xs \<Longrightarrow> holds (push h x) (case accepted x of None \<Rightarrow> xs | Some v \<Rightarrow> xs @ [v])"
    and push_capacity: "holds h xs \<Longrightarrow> capacity (push h x) = capacity h"
    and window_spec: "holds h xs \<Longrightarrow> window h n = last_n (min (nat n) (capacity h)) xs"
begin

lemma run_holds:
  "holds h xs \<Longrightarrow> holds (foldl push h ys) (xs @ List.map_filter accepted ys) \<and> capacity (foldl push h ys) = capacity h"
proof (induction ys arbitrary: h xs)
  case Nil
  then show ?case by (simp add: map_filter_simps)
next
  case (Cons y ys)
  from Cons.IH[OF push_holds[OF Cons.prems, of y]] push_capacity[OF Cons.prems, of y] show ?case
    by (simp add: map_filter_simps split: option.splits)
qed

lemma run_window:
  assumes "holds h []"
  shows "window (foldl push h ys) n = last_n (min (nat n) (capacity h)) (List.map_filter accepted ys)"
  using run_holds[OF assms, of ys] window_spec[of "foldl push h ys" "List.map_filter accepted ys" n] by simp

end

section \<open>Strategies with one position\<close>

text \<open>
  The side of the open position before a bar, the signal of the bar and the side after it: an
  entry opens a position of its side from flat, an exit closes the position with the opposite
  side, no signal leaves it alone.
\<close>

definition side_ok :: "string option \<Rightarrow> bool" where
  "side_ok p \<longleftrightarrow> p \<in> {None, Some ''BUY'', Some ''SELL''}"

definition signal_fits :: "string option \<Rightarrow> Signal option \<Rightarrow> string option \<Rightarrow> bool" where
  "signal_fits p s p' = (case s of None \<Rightarrow> p' = p
     | Some g \<Rightarrow> if sl_Action g = SignalEntry then p = None \<and> p' = Some (sl_Side g) \<and> feq (sl_Quantity g) 1
         else sl_Action g = SignalExit \<and> p \<noteq> None \<and> p' = None \<and> sl_Side g = invertSide (the p) \<and> feq (sl_Quantity g) 0)"

text \<open>What a list of signals does from a position: entries and exits take turns.\<close>

fun alternates :: "string option \<Rightarrow> Signal list \<Rightarrow> bool" where
  "alternates p [] = True"
| "alternates None (g # gs) = (sl_Action g = SignalEntry \<and> sl_Side g \<in> {''BUY'', ''SELL''} \<and>
     alternates (Some (sl_Side g)) gs)"
| "alternates (Some side) (g # gs) = (sl_Action g = SignalExit \<and> sl_Side g = invertSide side \<and> alternates None gs)"

locale position_machine =
  fixes evaluate :: "'s \<Rightarrow> Candle \<Rightarrow> int \<Rightarrow> Signal option \<times> 's" and pos :: "'s \<Rightarrow> string option"
  assumes step: "side_ok (pos s) \<Longrightarrow> signal_fits (pos s) (fst (evaluate s c r)) (pos (snd (evaluate s c r)))
    \<and> side_ok (pos (snd (evaluate s c r)))"
begin

fun signals :: "'s \<Rightarrow> (Candle \<times> int) list \<Rightarrow> Signal list \<times> 's" where
  "signals s [] = ([], s)"
| "signals s ((c, r) # bars) = (let (g, s) = evaluate s c r; (gs, s) = signals s bars
     in (case g of None \<Rightarrow> gs | Some g \<Rightarrow> g # gs, s))"

lemma signals_alternate: "side_ok (pos s) \<Longrightarrow> alternates (pos s) (fst (signals s bars)) \<and> side_ok (pos (snd (signals s bars)))"
proof (induction s bars rule: signals.induct)
  case (2 s c r bars)
  obtain g s1 where e: "evaluate s c r = (g, s1)" by force
  obtain gs s2 where b: "signals s1 bars = (gs, s2)" by force
  have st: "signal_fits (pos s) g (pos s1)" "side_ok (pos s1)" using step[OF 2(2), of c r] by (simp_all add: e)
  have ih: "alternates (pos s1) gs" "side_ok (pos s2)" using 2(1)[OF e[symmetric] refl st(2)] by (simp_all add: b)
  have "alternates (pos s) (case g of None \<Rightarrow> gs | Some g \<Rightarrow> g # gs)"
    using st ih by (cases "pos s"; cases g) (auto simp: signal_fits_def side_ok_def split: if_splits)
  then show ?case using ih by (simp add: e b)
qed simp

end

section \<open>The window of a ring buffer\<close>

definition linearWindow :: "f64 list \<Rightarrow> int \<Rightarrow> int \<Rightarrow> int \<Rightarrow> int \<Rightarrow> f64 list" where
  "linearWindow buf cnt idx sz n =
     (if n \<le> 0 \<or> cnt \<le> 0 \<or> sz \<le> 0 \<or> buf = [] then []
      else let n = (if n > cnt then cnt else n);
               start = go_rem (idx - n) sz;
               start = (if start < 0 then start + sz else start)
           in map (\<lambda>i. buf ! nat (go_rem (start + int i) sz)) [0..<nat n])"

text \<open>A ring of \<open>sz\<close> slots after the values \<open>xs\<close>: slot \<open>j mod sz\<close> holds the recent \<open>xs ! j\<close>.\<close>

definition ring_holds :: "nat \<Rightarrow> 'a list \<Rightarrow> nat \<Rightarrow> nat \<Rightarrow> 'a list \<Rightarrow> bool" where
  "ring_holds sz buf idx cnt xs \<longleftrightarrow> 0 < sz \<and> length buf = sz \<and> idx = length xs \<and> cnt = min idx sz \<and>
     (\<forall>j < length xs. length xs \<le> j + sz \<longrightarrow> buf ! (j mod sz) = xs ! j)"

lemma ring_holds_Nil: "0 < sz \<Longrightarrow> length buf = sz \<Longrightarrow> ring_holds sz buf 0 0 []"
  by (simp add: ring_holds_def)

lemma mod_apart:
  fixes i j :: nat
  assumes "j < i" "i < j + m"
  shows "j mod m \<noteq> i mod m"
proof
  assume "j mod m = i mod m"
  then have "m dvd i - j" using assms(1) by (metis mod_eq_dvd_iff_nat less_imp_le)
  then show False using assms by (auto dest: dvd_imp_le)
qed

lemma ring_holds_push:
  assumes "ring_holds sz buf idx cnt xs"
  shows "ring_holds sz (buf[idx mod sz := v]) (idx + 1) (if cnt < sz then cnt + 1 else cnt) (xs @ [v])"
proof -
  have s: "0 < sz" "length buf = sz" "idx = length xs" "cnt = min idx sz"
    and nth: "\<And>j. j < length xs \<Longrightarrow> length xs \<le> j + sz \<Longrightarrow> buf ! (j mod sz) = xs ! j"
    using assms by (auto simp: ring_holds_def)
  have "buf[idx mod sz := v] ! (j mod sz) = (xs @ [v]) ! j"
    if "j < length (xs @ [v])" "length (xs @ [v]) \<le> j + sz" for j
  proof (cases "j = idx")
    case True
    then show ?thesis using s by (simp add: nth_append)
  next
    case False
    then have "j < idx" "idx < j + sz" using that s(3) by auto
    then have "j mod sz \<noteq> idx mod sz" by (rule mod_apart)
    then show ?thesis using nth[of j] that s False by (simp add: nth_append)
  qed
  then have "\<forall>j < length (xs @ [v]). length (xs @ [v]) \<le> j + sz \<longrightarrow> buf[idx mod sz := v] ! (j mod sz) = (xs @ [v]) ! j"
    by blast
  moreover have "(if cnt < sz then cnt + 1 else cnt) = min (idx + 1) sz" using s(4) by (simp add: min_def)
  ultimately show ?thesis unfolding ring_holds_def using s(1,2,3) by simp
qed

lemma ring_holds_window:
  assumes "ring_holds sz buf idx cnt xs"
  shows "linearWindow buf (int cnt) (int idx) (int sz) n = last_n (min (nat n) sz) xs"
proof -
  have s: "0 < sz" "length buf = sz" "idx = length xs" "cnt = min idx sz"
    and nth: "\<And>j. j < length xs \<Longrightarrow> length xs \<le> j + sz \<Longrightarrow> buf ! (j mod sz) = xs ! j"
    using assms by (auto simp: ring_holds_def)
  show ?thesis
  proof (cases "n \<le> 0 \<or> xs = []")
    case True
    then have "last_n (min (nat n) sz) xs = []" by (auto simp: last_n_def)
    moreover have "n \<le> 0 \<or> int cnt \<le> 0" using True s(3,4) by auto
    then have "linearWindow buf (int cnt) (int idx) (int sz) n = []" unfolding linearWindow_def by (elim disjE) simp_all
    ultimately show ?thesis by simp
  next
    case False
    define m where "m = min (nat n) cnt"
    have m: "(if int cnt < n then int cnt else n) = int m" "m \<le> idx" "m \<le> sz" "m \<le> cnt" "buf \<noteq> []"
      using False s unfolding m_def by auto
    have st: "go_rem (int idx - int m) (int sz) = int ((idx - m) mod sz)"
      using m s by (simp add: of_nat_diff zmod_int)
    have el: "nat (go_rem (int ((idx - m) mod sz) + int i) (int sz)) = (idx - m + i) mod sz" for i
    proof -
      have "go_rem (int ((idx - m) mod sz) + int i) (int sz) = int (((idx - m) mod sz + i) mod sz)"
        using s(1) by (simp add: zmod_int)
      then show ?thesis by (simp add: mod_add_left_eq)
    qed
    have "linearWindow buf (int cnt) (int idx) (int sz) n = map (\<lambda>i. buf ! ((idx - m + i) mod sz)) [0..<m]"
    proof -
      have g: "\<not> (n \<le> 0 \<or> int cnt \<le> 0 \<or> int sz \<le> 0 \<or> buf = [])" using False s m(5) by (auto simp: min_def)
      have "\<not> go_rem (int idx - int m) (int sz) < 0" unfolding st by simp
      then show ?thesis
        unfolding linearWindow_def if_not_P[OF g] m(1) Let_def by (simp only: st el if_False nat_int of_nat_less_0_iff)
    qed
    also have "\<dots> = map (\<lambda>i. xs ! (idx - m + i)) [0..<m]"
    proof (rule map_cong[OF refl])
      fix i assume "i \<in> set [0..<m]"
      then have "idx - m + i < length xs" "length xs \<le> idx - m + i + sz" using m(2,3) s(3) by simp_all
      then show "buf ! ((idx - m + i) mod sz) = xs ! (idx - m + i)" by (rule nth)
    qed
    also have "\<dots> = last_n m xs"
      unfolding last_n_def s(3) by (rule nth_equalityI) (use m(2) s(3) in simp_all)
    also have "\<dots> = last_n (min (nat n) sz) xs"
    proof -
      have "length xs - m = length xs - min (nat n) sz" unfolding m_def s(4) s(3) by (simp add: min_def)
      then show ?thesis by (simp add: last_n_def)
    qed
    finally show ?thesis .
  qed
qed

lemma ring_holds_length: "ring_holds sz buf idx cnt xs \<Longrightarrow> length buf = sz"
  by (simp add: ring_holds_def)

section \<open>HistoryBuffer\<close>

text \<open>\<open>finite\<close> of \<open>indicators.go\<close>: neither NaN nor infinite.\<close>

definition go_finite :: "f64 \<Rightarrow> bool" where
  "go_finite x \<longleftrightarrow> \<not> is_nan x \<and> \<not> is_inf x"

record HistoryBuffer =
  hb_prices :: "f64 list"
  hb_highs :: "f64 list"
  hb_lows :: "f64 list"
  hb_vols :: "f64 list"
  hb_size :: nat
  hb_count :: nat
  hb_idx :: nat

definition NewHistoryBuffer :: "nat \<Rightarrow> HistoryBuffer" where
  "NewHistoryBuffer sz = \<lparr>hb_prices = replicate sz 0, hb_highs = replicate sz 0, hb_lows = replicate sz 0,
     hb_vols = replicate sz 0, hb_size = sz, hb_count = 0, hb_idx = 0\<rparr>"

definition HistoryBuffer_Push :: "HistoryBuffer \<Rightarrow> price \<Rightarrow> price \<Rightarrow> price \<Rightarrow> f64 \<Rightarrow> HistoryBuffer" where
  "HistoryBuffer_Push h p high low vol =
     (if \<not> go_finite (Price_Float64 p) then h
      else let i = hb_idx h mod hb_size h
           in h\<lparr>hb_prices := (hb_prices h)[i := Price_Float64 p], hb_highs := (hb_highs h)[i := Price_Float64 high],
                hb_lows := (hb_lows h)[i := Price_Float64 low], hb_vols := (hb_vols h)[i := vol],
                hb_idx := hb_idx h + 1,
                hb_count := (if hb_count h < hb_size h then hb_count h + 1 else hb_count h)\<rparr>)"

definition HistoryBuffer_LastPrices :: "HistoryBuffer \<Rightarrow> int \<Rightarrow> f64 list" where
  "HistoryBuffer_LastPrices h n = linearWindow (hb_prices h) (int (hb_count h)) (int (hb_idx h)) (int (hb_size h)) n"

definition HistoryBuffer_LastHighs :: "HistoryBuffer \<Rightarrow> int \<Rightarrow> f64 list" where
  "HistoryBuffer_LastHighs h n = linearWindow (hb_highs h) (int (hb_count h)) (int (hb_idx h)) (int (hb_size h)) n"

definition HistoryBuffer_LastLows :: "HistoryBuffer \<Rightarrow> int \<Rightarrow> f64 list" where
  "HistoryBuffer_LastLows h n = linearWindow (hb_lows h) (int (hb_count h)) (int (hb_idx h)) (int (hb_size h)) n"

definition HistoryBuffer_LastVolumes :: "HistoryBuffer \<Rightarrow> int \<Rightarrow> f64 list" where
  "HistoryBuffer_LastVolumes h n = linearWindow (hb_vols h) (int (hb_count h)) (int (hb_idx h)) (int (hb_size h)) n"

definition HistoryBuffer_Reset :: "HistoryBuffer \<Rightarrow> HistoryBuffer" where
  "HistoryBuffer_Reset h = h\<lparr>hb_count := 0, hb_idx := 0, hb_prices := map (\<lambda>_. 0) (hb_prices h),
     hb_highs := map (\<lambda>_. 0) (hb_highs h), hb_lows := map (\<lambda>_. 0) (hb_lows h), hb_vols := map (\<lambda>_. 0) (hb_vols h)\<rparr>"

text \<open>A bar as the buffers see it, and the four values of an accepted one.\<close>

type_synonym pushed = "price \<times> price \<times> price \<times> f64"
type_synonym stored = "f64 \<times> f64 \<times> f64 \<times> f64"

definition stored_of :: "pushed \<Rightarrow> stored option" where
  "stored_of x = (case x of (p, high, low, vol) \<Rightarrow>
     if go_finite (Price_Float64 p) then Some (Price_Float64 p, Price_Float64 high, Price_Float64 low, vol) else None)"

definition st_price :: "stored \<Rightarrow> f64" where "st_price x = fst x"
definition st_high :: "stored \<Rightarrow> f64" where "st_high x = fst (snd x)"
definition st_low :: "stored \<Rightarrow> f64" where "st_low x = fst (snd (snd x))"
definition st_vol :: "stored \<Rightarrow> f64" where "st_vol x = snd (snd (snd x))"

lemmas st_defs = st_price_def st_high_def st_low_def st_vol_def

lemma last_n_map: "last_n n (map f xs) = map f (last_n n xs)"
  by (simp add: last_n_def drop_map)



definition hb_holds :: "HistoryBuffer \<Rightarrow> stored list \<Rightarrow> bool" where
  "hb_holds h xs \<longleftrightarrow>
     ring_holds (hb_size h) (hb_prices h) (hb_idx h) (hb_count h) (map st_price xs) \<and>
     ring_holds (hb_size h) (hb_highs h) (hb_idx h) (hb_count h) (map st_high xs) \<and>
     ring_holds (hb_size h) (hb_lows h) (hb_idx h) (hb_count h) (map st_low xs) \<and>
     ring_holds (hb_size h) (hb_vols h) (hb_idx h) (hb_count h) (map st_vol xs)"

lemma hb_holds_New: "0 < sz \<Longrightarrow> hb_holds (NewHistoryBuffer sz) []"
  by (simp add: hb_holds_def NewHistoryBuffer_def ring_holds_Nil)

lemma hb_holds_Reset: "hb_holds h xs \<Longrightarrow> hb_holds (HistoryBuffer_Reset h) []"
  by (auto simp: hb_holds_def HistoryBuffer_Reset_def ring_holds_def)

lemma hb_holds_Push:
  assumes "hb_holds h xs"
  shows "hb_holds (case x of (p, high, low, vol) \<Rightarrow> HistoryBuffer_Push h p high low vol)
           (case stored_of x of None \<Rightarrow> xs | Some v \<Rightarrow> xs @ [v])"
proof -
  obtain p high low vol where x: "x = (p, high, low, vol)" by (cases x) auto
  show ?thesis
  proof (cases "go_finite (Price_Float64 p)")
    case True
    then show ?thesis using assms
      by (simp add: x stored_of_def hb_holds_def HistoryBuffer_Push_def Let_def st_defs ring_holds_push [simplified]
          split del: if_split)
  qed (use assms in \<open>simp add: x stored_of_def HistoryBuffer_Push_def\<close>)
qed

lemma ring_windows:
  "ring_holds sz b1 idx cnt xs1 \<Longrightarrow> ring_holds sz b2 idx cnt xs2 \<Longrightarrow> ring_holds sz b3 idx cnt xs3 \<Longrightarrow>
    ring_holds sz b4 idx cnt xs4 \<Longrightarrow>
    zip (linearWindow b1 cnt idx sz n) (zip (linearWindow b2 cnt idx sz n)
      (zip (linearWindow b3 cnt idx sz n) (linearWindow b4 cnt idx sz n))) =
    zip (last_n (min (nat n) sz) xs1) (zip (last_n (min (nat n) sz) xs2)
      (zip (last_n (min (nat n) sz) xs3) (last_n (min (nat n) sz) xs4)))"
  by (simp only: ring_holds_window)

definition hb_window :: "HistoryBuffer \<Rightarrow> int \<Rightarrow> stored list" where
  "hb_window h n = zip (HistoryBuffer_LastPrices h n) (zip (HistoryBuffer_LastHighs h n)
     (zip (HistoryBuffer_LastLows h n) (HistoryBuffer_LastVolumes h n)))"

lemma zip_stored: "zip (map st_price xs) (zip (map st_high xs) (zip (map st_low xs) (map st_vol xs))) = xs"
  by (induction xs) (auto simp: st_defs)

lemma hb_window_spec: "hb_holds h xs \<Longrightarrow> hb_window h n = last_n (min (nat n) (hb_size h)) xs"
  unfolding hb_holds_def hb_window_def HistoryBuffer_LastPrices_def HistoryBuffer_LastHighs_def
    HistoryBuffer_LastLows_def HistoryBuffer_LastVolumes_def
  by (elim conjE, drule (3) ring_windows) (simp add: last_n_map zip_stored)

interpretation hb: price_history "\<lambda>h (p, high, low, vol). HistoryBuffer_Push h p high low vol" stored_of hb_window
    hb_holds hb_size
proof (unfold_locales, goal_cases)
  case (1 h xs x)
  then show ?case using hb_holds_Push[of h xs x] by simp
next
  case (2 h xs x)
  then show ?case by (cases x) (simp add: HistoryBuffer_Push_def Let_def)
qed (rule hb_window_spec)

section \<open>BaseRunner\<close>

text \<open>\<open>tradeDay\<close> is the day of the last counted trade, \<open>None\<close> the empty string.\<close>

record BaseRunner =
  br_PriceHistory :: "f64 list"
  br_HighHistory :: "f64 list"
  br_LowHistory :: "f64 list"
  br_VolumeHistory :: "f64 list"
  br_HistIdx :: nat
  br_HistCount :: nat
  br_BufferSize :: nat
  br_PositionOpen :: bool
  br_EntryPrice :: price
  br_StopLoss :: price
  br_TakeProfit :: price
  br_CurrentSide :: string
  br_EntryTime :: int
  br_tradeDay :: "int option"
  br_tradesToday :: int
  br_StopMultHighVol :: f64
  br_StopMultCrisis :: f64
  br_ProfitMultTrending :: f64
  br_irVersion :: string
  br_canonicalVersion :: string
  br_instanceHash :: string

definition NewBaseRunner :: "nat \<Rightarrow> BaseRunner" where
  "NewBaseRunner bufferSize = \<lparr>br_PriceHistory = replicate bufferSize 0, br_HighHistory = replicate bufferSize 0,
     br_LowHistory = replicate bufferSize 0, br_VolumeHistory = replicate bufferSize 0, br_HistIdx = 0,
     br_HistCount = 0, br_BufferSize = bufferSize, br_PositionOpen = False, br_EntryPrice = 0, br_StopLoss = 0,
     br_TakeProfit = 0, br_CurrentSide = '''', br_EntryTime = zero_time, br_tradeDay = None, br_tradesToday = 0,
     br_StopMultHighVol = 1, br_StopMultCrisis = 1, br_ProfitMultTrending = 1, br_irVersion = ''qst-ir/0.4'',
     br_canonicalVersion = ''qst-canonical/0.4'', br_instanceHash = ''''\<rparr>"

definition BaseRunner_SetVersion :: "BaseRunner \<Rightarrow> string \<Rightarrow> string \<Rightarrow> BaseRunner" where
  "BaseRunner_SetVersion b ir canonical = b\<lparr>br_irVersion := ir, br_canonicalVersion := canonical\<rparr>"

definition BaseRunner_Version :: "BaseRunner \<Rightarrow> string \<times> string" where
  "BaseRunner_Version b = (br_irVersion b, br_canonicalVersion b)"

definition BaseRunner_SetInstanceHash :: "BaseRunner \<Rightarrow> string \<Rightarrow> BaseRunner" where
  "BaseRunner_SetInstanceHash b h = b\<lparr>br_instanceHash := h\<rparr>"

definition BaseRunner_PushPrice :: "BaseRunner \<Rightarrow> price \<Rightarrow> price \<Rightarrow> price \<Rightarrow> f64 \<Rightarrow> BaseRunner" where
  "BaseRunner_PushPrice b price high low volume =
     (if \<not> go_finite (Price_Float64 price) then b
      else let idx = br_HistIdx b mod br_BufferSize b
           in b\<lparr>br_PriceHistory := (br_PriceHistory b)[idx := Price_Float64 price],
                br_HighHistory := (br_HighHistory b)[idx := Price_Float64 high],
                br_LowHistory := (br_LowHistory b)[idx := Price_Float64 low],
                br_VolumeHistory := (br_VolumeHistory b)[idx := volume],
                br_HistIdx := br_HistIdx b + 1,
                br_HistCount := (if br_HistCount b < br_BufferSize b then br_HistCount b + 1 else br_HistCount b)\<rparr>)"

definition BaseRunner_PushPriceOnly :: "BaseRunner \<Rightarrow> price \<Rightarrow> BaseRunner" where
  "BaseRunner_PushPriceOnly b price = BaseRunner_PushPrice b price 0 0 0"

definition BaseRunner_LinearPrices :: "BaseRunner \<Rightarrow> int \<Rightarrow> f64 list" where
  "BaseRunner_LinearPrices b n = linearWindow (br_PriceHistory b) (int (br_HistCount b)) (int (br_HistIdx b)) (int (br_BufferSize b)) n"

definition BaseRunner_LinearHighs :: "BaseRunner \<Rightarrow> int \<Rightarrow> f64 list" where
  "BaseRunner_LinearHighs b n = linearWindow (br_HighHistory b) (int (br_HistCount b)) (int (br_HistIdx b)) (int (br_BufferSize b)) n"

definition BaseRunner_LinearLows :: "BaseRunner \<Rightarrow> int \<Rightarrow> f64 list" where
  "BaseRunner_LinearLows b n = linearWindow (br_LowHistory b) (int (br_HistCount b)) (int (br_HistIdx b)) (int (br_BufferSize b)) n"

definition BaseRunner_LinearVolumes :: "BaseRunner \<Rightarrow> int \<Rightarrow> f64 list" where
  "BaseRunner_LinearVolumes b n = linearWindow (br_VolumeHistory b) (int (br_HistCount b)) (int (br_HistIdx b)) (int (br_BufferSize b)) n"

definition BaseRunner_Reset :: "BaseRunner \<Rightarrow> BaseRunner" where
  "BaseRunner_Reset b = b\<lparr>br_HistIdx := 0, br_HistCount := 0, br_PositionOpen := False, br_EntryPrice := 0,
     br_StopLoss := 0, br_TakeProfit := 0, br_CurrentSide := '''', br_tradeDay := None, br_tradesToday := 0,
     br_PriceHistory := map (\<lambda>_. 0) (br_PriceHistory b), br_HighHistory := map (\<lambda>_. 0) (br_HighHistory b),
     br_LowHistory := map (\<lambda>_. 0) (br_LowHistory b), br_VolumeHistory := map (\<lambda>_. 0) (br_VolumeHistory b)\<rparr>"

definition BaseRunner_ResetPosition :: "BaseRunner \<Rightarrow> BaseRunner" where
  "BaseRunner_ResetPosition b = b\<lparr>br_PositionOpen := False, br_EntryPrice := 0, br_StopLoss := 0,
     br_TakeProfit := 0, br_CurrentSide := ''''\<rparr>"

definition BaseRunner_OpenPosition :: "BaseRunner \<Rightarrow> string \<Rightarrow> price \<Rightarrow> price \<Rightarrow> price \<Rightarrow> int \<Rightarrow> BaseRunner" where
  "BaseRunner_OpenPosition b side entryPrice stopLoss takeProfit entryTime =
     b\<lparr>br_PositionOpen := True, br_CurrentSide := side, br_EntryPrice := entryPrice, br_StopLoss := stopLoss,
       br_TakeProfit := takeProfit, br_EntryTime := entryTime\<rparr>"

definition BaseRunner_ClosePosition :: "BaseRunner \<Rightarrow> BaseRunner" where
  "BaseRunner_ClosePosition b = b\<lparr>br_PositionOpen := False\<rparr>"

definition IsStopLossHit :: "price \<Rightarrow> price \<Rightarrow> string \<Rightarrow> bool" where
  "IsStopLossHit price stopLoss side =
     (if side = ''BUY'' then Price_Compare price stopLoss \<le> 0 else Price_Compare price stopLoss \<ge> 0)"

definition IsTakeProfitHit :: "price \<Rightarrow> price \<Rightarrow> string \<Rightarrow> bool" where
  "IsTakeProfitHit price takeProfit side =
     (if side = ''BUY'' then Price_Compare price takeProfit \<ge> 0 else Price_Compare price takeProfit \<le> 0)"

definition BaseRunner_IsStopLossHit :: "BaseRunner \<Rightarrow> price \<Rightarrow> bool" where
  "BaseRunner_IsStopLossHit b price =
     (if \<not> br_PositionOpen b then False
      else if br_CurrentSide b = ''BUY'' then Price_Compare price (br_StopLoss b) \<le> 0
      else Price_Compare price (br_StopLoss b) \<ge> 0)"

definition BaseRunner_IsTakeProfitHit :: "BaseRunner \<Rightarrow> price \<Rightarrow> bool" where
  "BaseRunner_IsTakeProfitHit b price =
     (if \<not> br_PositionOpen b then False
      else if br_CurrentSide b = ''BUY'' then Price_Compare price (br_TakeProfit b) \<ge> 0
      else Price_Compare price (br_TakeProfit b) \<le> 0)"

text \<open>\<open>t.Sub(u).Minutes()\<close> for \<open>duration_between u t\<close>.\<close>

definition duration_minutes :: "int \<Rightarrow> f64" where
  "duration_minutes d = float_of_int (go_div d 60000000000) + float_of_int (go_rem d 60000000000) / lit 60000000000"

definition BaseRunner_IsTimeExit :: "BaseRunner \<Rightarrow> f64 \<Rightarrow> int \<Rightarrow> bool" where
  "BaseRunner_IsTimeExit b maxMinutes currentTime =
     (if \<not> br_PositionOpen b then False
      else duration_minutes (duration_between (br_EntryTime b) currentTime) \<ge> maxMinutes)"

definition new_trade_day :: "BaseRunner \<Rightarrow> int \<Rightarrow> BaseRunner" where
  "new_trade_day b t = (if br_tradeDay b \<noteq> Some (day_of t)
     then b\<lparr>br_tradeDay := Some (day_of t), br_tradesToday := 0\<rparr> else b)"

definition BaseRunner_CanTrade :: "BaseRunner \<Rightarrow> int \<Rightarrow> int \<Rightarrow> bool \<times> BaseRunner" where
  "BaseRunner_CanTrade b t maxPerDay =
     (let b = new_trade_day b t in (if maxPerDay \<le> 0 then True else br_tradesToday b < maxPerDay, b))"

definition BaseRunner_RecordTrade :: "BaseRunner \<Rightarrow> int \<Rightarrow> BaseRunner" where
  "BaseRunner_RecordTrade b t = (let b = new_trade_day b t in b\<lparr>br_tradesToday := br_tradesToday b + 1\<rparr>)"

text \<open>\<open>if v, ok := params[name]; ok\<close>: an assignment per parameter that is present.\<close>

definition on_param :: "(string, f64) gomap \<Rightarrow> string \<Rightarrow> (f64 \<Rightarrow> 'r \<Rightarrow> 'r) \<Rightarrow> 'r \<Rightarrow> 'r" where
  "on_param params name upd r = (case mlookup params name of None \<Rightarrow> r | Some v \<Rightarrow> upd v r)"

definition BaseRunner_SetRegimeExitParams :: "BaseRunner \<Rightarrow> (string, f64) gomap \<Rightarrow> BaseRunner" where
  "BaseRunner_SetRegimeExitParams b params =
     on_param params ''profit_mult_trending'' (\<lambda>v b. b\<lparr>br_ProfitMultTrending := v\<rparr>)
      (on_param params ''stop_mult_crisis'' (\<lambda>v b. b\<lparr>br_StopMultCrisis := v\<rparr>)
        (on_param params ''stop_mult_highvol'' (\<lambda>v b. b\<lparr>br_StopMultHighVol := v\<rparr>) b))"

definition RegimeCalm :: int where "RegimeCalm = 0"
definition RegimeTrending :: int where "RegimeTrending = 1"
definition RegimeHighVol :: int where "RegimeHighVol = 2"
definition RegimeCrisis :: int where "RegimeCrisis = 3"

definition BaseRunner_RegimeExitMults :: "BaseRunner \<Rightarrow> int \<Rightarrow> f64 \<times> f64" where
  "BaseRunner_RegimeExitMults b regime =
     (if regime = RegimeHighVol then (br_StopMultHighVol b, 1)
      else if regime = RegimeCrisis then (br_StopMultCrisis b, 1)
      else if regime = RegimeTrending then (1, br_ProfitMultTrending b)
      else (1, 1))"

definition regimeNames :: "string list" where
  "regimeNames = [''Calm'', ''Trending'', ''HighVol'', ''Crisis'']"

definition RegimeName :: "int \<Rightarrow> string" where
  "RegimeName regime = (if 0 \<le> regime \<and> regime < int (length regimeNames) then regimeNames ! nat regime else ''Unknown'')"

section \<open>Stops and sessions\<close>

definition StopPrice :: "price \<Rightarrow> f64 \<Rightarrow> string \<Rightarrow> price" where
  "StopPrice entry distance side = (if side = ''SELL'' then PriceFromFloat (Price_Float64 entry + distance)
     else PriceFromFloat (Price_Float64 entry - distance))"

definition TargetPrice :: "price \<Rightarrow> f64 \<Rightarrow> string \<Rightarrow> price" where
  "TargetPrice entry distance side = (if side = ''SELL'' then PriceFromFloat (Price_Float64 entry - distance)
     else PriceFromFloat (Price_Float64 entry + distance))"

definition TrailingStop :: "price \<Rightarrow> f64 \<Rightarrow> string \<Rightarrow> price" where
  "TrailingStop peak distance side = (if side = ''SELL'' then PriceFromFloat (Price_Float64 peak + distance)
     else PriceFromFloat (Price_Float64 peak - distance))"

record Session =
  ss_StartHour :: int
  ss_StartMin :: int
  ss_EndHour :: int
  ss_EndMin :: int
  ss_TimezoneOffset :: int

definition NewETSession :: Session where
  "NewETSession = \<lparr>ss_StartHour = 9, ss_StartMin = 30, ss_EndHour = 16, ss_EndMin = 0, ss_TimezoneOffset = -4\<rparr>"

text \<open>\<open>t.Hour()*60 + t.Minute()\<close>.\<close>

definition minute_of_day :: "int \<Rightarrow> int" where
  "minute_of_day t = (t div 60000000000) mod 1440"

definition Session_InWindow :: "Session \<Rightarrow> int \<Rightarrow> bool" where
  "Session_InWindow s t =
     (let total = minute_of_day (t + ss_TimezoneOffset s * 3600000000000);
          start = ss_StartHour s * 60 + ss_StartMin s;
          stop = ss_EndHour s * 60 + ss_EndMin s
      in total \<ge> start \<and> total < stop)"

definition Session_DayKey :: "Session \<Rightarrow> int \<Rightarrow> int" where
  "Session_DayKey s t = day_of (t + ss_TimezoneOffset s * 3600000000000)"

section \<open>TrendFilter\<close>

record TrendFilter =
  tf_Period :: nat
  tf_prices :: "f64 list"
  tf_idx :: nat
  tf_count :: nat

definition NewTrendFilter :: "nat \<Rightarrow> TrendFilter" where
  "NewTrendFilter period = \<lparr>tf_Period = period, tf_prices = replicate (period * 2) 0, tf_idx = 0, tf_count = 0\<rparr>"

definition TrendFilter_Push :: "TrendFilter \<Rightarrow> price \<Rightarrow> TrendFilter" where
  "TrendFilter_Push f price =
     f\<lparr>tf_prices := (tf_prices f)[tf_idx f mod length (tf_prices f) := Price_Float64 price], tf_idx := tf_idx f + 1,
       tf_count := (if tf_count f < length (tf_prices f) then tf_count f + 1 else tf_count f)\<rparr>"

definition TrendFilter_MA :: "TrendFilter \<Rightarrow> f64" where
  "TrendFilter_MA f =
     (if tf_count f < tf_Period f then 0
      else let n = (if tf_count f > tf_Period f then tf_Period f else tf_count f);
               start = int (tf_idx f) - int n;
               start = (if start < 0 then start + int (length (tf_prices f)) else start)
           in foldl (\<lambda>s i. s + tf_prices f ! nat ((start + int i) mod int (length (tf_prices f)))) 0 [0..<n]
              / float_of_int (int n))"

definition TrendFilter_IsTrendAligned :: "TrendFilter \<Rightarrow> string \<Rightarrow> f64 \<Rightarrow> bool" where
  "TrendFilter_IsTrendAligned f side price =
     (let ma = TrendFilter_MA f
      in if feq ma 0 then True
         else if side = ''BUY'' then price \<ge> ma
         else if side = ''SELL'' then price \<le> ma else True)"

definition TrendFilter_Ready :: "TrendFilter \<Rightarrow> bool" where
  "TrendFilter_Ready f \<longleftrightarrow> tf_count f \<ge> tf_Period f"

section \<open>Lemmas\<close>

lemmas br_simps = NewBaseRunner_def BaseRunner_PushPrice_def BaseRunner_OpenPosition_def BaseRunner_ClosePosition_def
  BaseRunner_Reset_def new_trade_day_def BaseRunner_CanTrade_def BaseRunner_RecordTrade_def Let_def

text \<open>The position of a runner, as the contract of a strategy sees it.\<close>

definition br_pos :: "BaseRunner \<Rightarrow> string option" where
  "br_pos b = (if br_PositionOpen b then Some (br_CurrentSide b) else None)"

lemma br_pos_frame [simp]:
  "br_pos (BaseRunner_PushPrice b p h l v) = br_pos b"
  "br_pos (new_trade_day b t) = br_pos b"
  "br_pos (snd (BaseRunner_CanTrade b t n)) = br_pos b"
  "br_pos (BaseRunner_RecordTrade b t) = br_pos b"
  "br_pos (BaseRunner_OpenPosition b side p1 p2 p3 t) = Some side"
  "br_pos (BaseRunner_ClosePosition b) = None"
  by (simp_all add: br_pos_def br_simps)

text \<open>Pushing a price and moving the trade counter touch nothing else of the state.\<close>

lemma PushPrice_frame [simp]:
  "br_PositionOpen (BaseRunner_PushPrice b p h l v) = br_PositionOpen b"
  "br_CurrentSide (BaseRunner_PushPrice b p h l v) = br_CurrentSide b"
  "br_EntryPrice (BaseRunner_PushPrice b p h l v) = br_EntryPrice b"
  "br_StopLoss (BaseRunner_PushPrice b p h l v) = br_StopLoss b"
  "br_TakeProfit (BaseRunner_PushPrice b p h l v) = br_TakeProfit b"
  "br_EntryTime (BaseRunner_PushPrice b p h l v) = br_EntryTime b"
  "br_BufferSize (BaseRunner_PushPrice b p h l v) = br_BufferSize b"
  "br_tradeDay (BaseRunner_PushPrice b p h l v) = br_tradeDay b"
  "br_tradesToday (BaseRunner_PushPrice b p h l v) = br_tradesToday b"
  by (simp_all add: br_simps)

lemma trade_day_frame [simp]:
  "br_PositionOpen (new_trade_day b t) = br_PositionOpen b" "br_CurrentSide (new_trade_day b t) = br_CurrentSide b"
  "br_PositionOpen (BaseRunner_RecordTrade b t) = br_PositionOpen b"
  "br_CurrentSide (BaseRunner_RecordTrade b t) = br_CurrentSide b"
  "br_PositionOpen (BaseRunner_OpenPosition b side p1 p2 p3 t) = True"
  "br_CurrentSide (BaseRunner_OpenPosition b side p1 p2 p3 t) = side"
  "br_PositionOpen (BaseRunner_ClosePosition b) = False"
  by (simp_all add: br_simps)

definition br_holds :: "BaseRunner \<Rightarrow> stored list \<Rightarrow> bool" where
  "br_holds b xs \<longleftrightarrow>
     ring_holds (br_BufferSize b) (br_PriceHistory b) (br_HistIdx b) (br_HistCount b) (map st_price xs) \<and>
     ring_holds (br_BufferSize b) (br_HighHistory b) (br_HistIdx b) (br_HistCount b) (map st_high xs) \<and>
     ring_holds (br_BufferSize b) (br_LowHistory b) (br_HistIdx b) (br_HistCount b) (map st_low xs) \<and>
     ring_holds (br_BufferSize b) (br_VolumeHistory b) (br_HistIdx b) (br_HistCount b) (map st_vol xs)"

definition br_push :: "BaseRunner \<Rightarrow> pushed \<Rightarrow> BaseRunner" where
  "br_push b x = (case x of (p, high, low, vol) \<Rightarrow> BaseRunner_PushPrice b p high low vol)"

definition br_window :: "BaseRunner \<Rightarrow> int \<Rightarrow> stored list" where
  "br_window b n = zip (BaseRunner_LinearPrices b n) (zip (BaseRunner_LinearHighs b n)
     (zip (BaseRunner_LinearLows b n) (BaseRunner_LinearVolumes b n)))"

lemma br_holds_New: "0 < n \<Longrightarrow> br_holds (NewBaseRunner n) []"
  by (simp add: br_holds_def NewBaseRunner_def ring_holds_Nil)

lemma br_holds_Reset: "br_holds b xs \<Longrightarrow> br_holds (BaseRunner_Reset b) []"
  by (auto simp: br_holds_def BaseRunner_Reset_def ring_holds_def)

lemma br_holds_push:
  assumes "br_holds b xs"
  shows "br_holds (br_push b x) (case stored_of x of None \<Rightarrow> xs | Some v \<Rightarrow> xs @ [v])"
proof -
  obtain p high low vol where x: "x = (p, high, low, vol)" by (cases x) auto
  show ?thesis
  proof (cases "go_finite (Price_Float64 p)")
    case True
    then show ?thesis using assms
      by (simp add: x br_push_def stored_of_def br_holds_def BaseRunner_PushPrice_def Let_def st_defs
          ring_holds_push [simplified] split del: if_split)
  qed (use assms in \<open>simp add: x br_push_def stored_of_def BaseRunner_PushPrice_def\<close>)
qed

lemma br_window_spec: "br_holds b xs \<Longrightarrow> br_window b n = last_n (min (nat n) (br_BufferSize b)) xs"
  unfolding br_holds_def br_window_def BaseRunner_LinearPrices_def BaseRunner_LinearHighs_def
    BaseRunner_LinearLows_def BaseRunner_LinearVolumes_def
  by (elim conjE, drule (3) ring_windows) (simp add: last_n_map zip_stored)

interpretation br: price_history br_push stored_of br_window br_holds br_BufferSize
proof (unfold_locales, goal_cases)
  case (2 b xs x)
  then show ?case by (cases x) (simp add: br_push_def)
qed (simp_all add: br_holds_push br_window_spec)

text \<open>The windows every indicator is computed from are right: whatever bars a runner is fed
  after its construction, the last \<open>n\<close> entries of its history are the last \<open>n\<close> accepted bars
  in the order they came, up to the size of the buffer.
\<close>

theorem runner_window_is_recent:
  assumes "0 < sz"
  shows "br_window (foldl br_push (NewBaseRunner sz) bars) n = last_n (min (nat n) sz) (List.map_filter stored_of bars)"
  using br.run_window[OF br_holds_New[OF assms], of bars n] by (simp add: NewBaseRunner_def)

definition three_bars :: "pushed list" where
  "three_bars = [(100000, 200000, 100000, 1), (200000, 300000, 200000, 1), (300000, 400000, 200000, 1)]"

lemma runner_window_is_recent_witness:
  "map st_price (br_window (foldl br_push (NewBaseRunner 2) three_bars) 5) = [Fin 2, Fin 3]"
  using runner_window_is_recent[of 2 three_bars 5]
  by (simp add: three_bars_def map_filter_simps stored_of_def go_finite_def Price_Float64_def ToFloat64_def
      PriceScaleFactor_def last_n_def st_price_def f64_eval)

end
