(* ===== verification/Indicators.thy ===== *)
theory Indicators
  imports Runners
begin

text \<open>
  The indicators, \<open>internal/strategy/indicators.go\<close>. The ones of the package
  \<open>github.com/cinar/indicator\<close> are parameters, functions from a window to a series, as are the
  logarithms; what the code computes itself, the true range, the mean, the choppiness and the
  trend strength, is translated. The histories are the ring buffers of a runner.
\<close>

record Lib =
  il_Log :: "f64 \<Rightarrow> f64"
  il_Log10 :: "f64 \<Rightarrow> f64"
  il_Ema :: "int \<Rightarrow> f64 list \<Rightarrow> f64 list"
  il_Sma :: "int \<Rightarrow> f64 list \<Rightarrow> f64 list"
  il_Std :: "int \<Rightarrow> f64 list \<Rightarrow> f64 list"
  il_RsiPeriod :: "int \<Rightarrow> f64 list \<Rightarrow> f64 list \<times> f64 list"
  il_Rsi2 :: "f64 list \<Rightarrow> f64 list \<times> f64 list"
  il_Macd :: "f64 list \<Rightarrow> f64 list \<times> f64 list"
  il_BollingerBands :: "f64 list \<Rightarrow> f64 list \<times> f64 list \<times> f64 list"
  il_StochasticOscillator :: "f64 list \<Rightarrow> f64 list \<Rightarrow> f64 list \<Rightarrow> f64 list \<times> f64 list"
  il_IchimokuCloud :: "f64 list \<Rightarrow> f64 list \<Rightarrow> f64 list \<Rightarrow> f64 list \<times> f64 list \<times> f64 list \<times> f64 list \<times> f64 list"
  il_DonchianChannel :: "int \<Rightarrow> f64 list \<Rightarrow> f64 list \<times> f64 list \<times> f64 list"
  il_KeltnerChannel :: "int \<Rightarrow> f64 list \<Rightarrow> f64 list \<Rightarrow> f64 list \<Rightarrow> f64 list \<times> f64 list \<times> f64 list"
  il_WilliamsR :: "f64 list \<Rightarrow> f64 list \<Rightarrow> f64 list \<Rightarrow> f64 list"
  il_Aroon :: "f64 list \<Rightarrow> f64 list \<Rightarrow> f64 list \<times> f64 list"
  il_MoneyFlowIndex :: "int \<Rightarrow> f64 list \<Rightarrow> f64 list \<Rightarrow> f64 list \<Rightarrow> f64 list \<Rightarrow> f64 list"
  il_Vwma :: "int \<Rightarrow> f64 list \<Rightarrow> f64 list \<Rightarrow> f64 list"
  il_ForceIndex :: "int \<Rightarrow> f64 list \<Rightarrow> f64 list \<Rightarrow> f64 list"
  il_ChandelierExit :: "f64 list \<Rightarrow> f64 list \<Rightarrow> f64 list \<Rightarrow> f64 list \<times> f64 list"
  il_Obv :: "f64 list \<Rightarrow> f64 list \<Rightarrow> f64 list"
  il_ChaikinMoneyFlow :: "f64 list \<Rightarrow> f64 list \<Rightarrow> f64 list \<Rightarrow> f64 list \<Rightarrow> f64 list"

section \<open>Own indicators\<close>

definition sampleStd :: "f64 \<Rightarrow> int \<Rightarrow> f64" where
  "sampleStd sumSquares cnt =
     (if cnt < 2 \<or> \<not> go_finite sumSquares \<or> sumSquares < 0 then 0
      else math_sqrt (sumSquares / float_of_int (cnt - 1)))"

text \<open>The sum of the absolute price steps from \<open>start\<close> on, and their number.\<close>

definition ATR :: "f64 list \<Rightarrow> int \<Rightarrow> int \<Rightarrow> f64" where
  "ATR prices cnt period =
     (if cnt < period + 1 \<or> period \<le> 0 then 0
      else let start = cnt - period - 1;
               start = (if start < 0 then 0 else start);
               steps = map (\<lambda>i. let diff = prices ! (i + 1) - prices ! i in if diff < 0 then - diff else diff)
                 [nat start..<nat (min (cnt - 1) (int (length prices) - 1))]
           in if steps = [] then 0 else foldl (\<lambda>s x. s + x) 0 steps / float_of_int (int (length steps)))"

definition bar_range :: "f64 list \<Rightarrow> f64 list \<Rightarrow> f64 list \<Rightarrow> int \<Rightarrow> f64" where
  "bar_range highs lows closes i =
     (let sz = int (length closes);
          idx = nat (go_rem i sz);
          prevIdx = go_rem (i - 1) sz;
          prevIdx = nat (if prevIdx < 0 then prevIdx + sz else prevIdx);
          hl = highs ! idx - lows ! idx;
          hc = \<bar>highs ! idx - closes ! prevIdx\<bar>;
          lc = \<bar>lows ! idx - closes ! prevIdx\<bar>;
          tr = (if hc > hl then hc else hl)
      in if lc > tr then lc else tr)"

definition TrueRangeATR :: "f64 list \<Rightarrow> f64 list \<Rightarrow> f64 list \<Rightarrow> int \<Rightarrow> int \<Rightarrow> f64" where
  "TrueRangeATR highs lows closes cnt period =
     (if cnt < period \<or> period \<le> 0 \<or> highs = [] \<or> lows = [] \<or> closes = [] then 0
      else foldl (\<lambda>s k. s + bar_range highs lows closes (cnt - period + int k)) 0 [0..<nat period]
             / float_of_int period)"

definition Mean :: "f64 list \<Rightarrow> int \<Rightarrow> int \<Rightarrow> f64" where
  "Mean values cnt lookback =
     (if cnt \<le> 0 \<or> lookback \<le> 0 \<or> values = [] then 0
      else let n = (if cnt < lookback then cnt else lookback);
               start = cnt - n;
               start = (if start < 0 then 0 else start);
               total = foldl (\<lambda>s i. s + values ! (i mod length values)) 0 [nat start..<nat cnt];
               actual = cnt - start
           in if actual = 0 \<or> \<not> go_finite total then 0 else total / float_of_int actual)"

definition ZScore :: "f64 \<Rightarrow> f64 \<Rightarrow> f64 \<Rightarrow> f64" where
  "ZScore v m std = (if std \<le> 0 then 0 else (v - m) / std)"

text \<open>
  \<open>ADX\<close>: the true ranges and the directional moves of the bars, smoothed, and the smoothed
  index. Slots past the prices stay zero.
\<close>

definition adx_tr :: "f64 list \<Rightarrow> f64 list \<Rightarrow> f64 list \<Rightarrow> int \<Rightarrow> f64 list" where
  "adx_tr prices highs lows cnt = map (\<lambda>k. if k + 1 < length prices
      then math_max (highs ! (k + 1) - lows ! (k + 1))
        (math_max \<bar>highs ! (k + 1) - prices ! k\<bar> \<bar>lows ! (k + 1) - prices ! k\<bar>) else 0) [0..<nat (cnt - 1)]"

definition adx_up :: "f64 list \<Rightarrow> f64 list \<Rightarrow> f64 list \<Rightarrow> int \<Rightarrow> f64 list" where
  "adx_up prices highs lows cnt = map (\<lambda>k. if k + 1 < length prices
      then (let up = highs ! (k + 1) - highs ! k; down = lows ! k - lows ! (k + 1)
            in if up > 0 \<and> up > down then up else 0) else 0) [0..<nat (cnt - 1)]"

definition adx_down :: "f64 list \<Rightarrow> f64 list \<Rightarrow> f64 list \<Rightarrow> int \<Rightarrow> f64 list" where
  "adx_down prices highs lows cnt = map (\<lambda>k. if k + 1 < length prices
      then (let up = highs ! (k + 1) - highs ! k; down = lows ! k - lows ! (k + 1)
            in if down > 0 \<and> down > up then down else 0) else 0) [0..<nat (cnt - 1)]"

text \<open>The smoothed value of \<open>xs\<close> after the positions 1 to \<open>n\<close>.\<close>

definition smooth :: "f64 \<Rightarrow> f64 list \<Rightarrow> nat \<Rightarrow> f64" where
  "smooth alpha xs n = foldl (\<lambda>s j. alpha * xs ! j + (1 - alpha) * s) (xs ! 0) [1..<n + 1]"

definition ADX :: "f64 list \<Rightarrow> f64 list \<Rightarrow> f64 list \<Rightarrow> int \<Rightarrow> int \<Rightarrow> f64" where
  "ADX prices highs lows cnt period =
     (if cnt < period * 2 \<or> period \<le> 0 then 0
      else let tr = adx_tr prices highs lows cnt;
               up = adx_up prices highs lows cnt;
               down = adx_down prices highs lows cnt
           in if tr = [] then 0
              else let alpha = lit 2 / (float_of_int period + 1);
                       m = length tr - 1;
                       atr = smooth alpha tr m; plusDI = smooth alpha up m; minusDI = smooth alpha down m
                   in if atr \<le> 0 then 0
                      else let pdi = plusDI / atr * lit 100;
                               mdi = minusDI / atr * lit 100;
                               dx = (if pdi + mdi > 0 then \<bar>pdi - mdi\<bar> / (pdi + mdi) * lit 100 else 0)
                           in foldl (\<lambda>ema i.
                                let atrI = smooth alpha tr i; pdiI = smooth alpha up i; mdiI = smooth alpha down i;
                                    prevDX = (if atrI > 0 \<and> pdiI + mdiI > 0
                                      then \<bar>pdiI - mdiI\<bar> / (pdiI + mdiI) * lit 100 else 0)
                                in alpha * prevDX + (1 - alpha) * ema) dx [1..<min (nat period) (length tr)])"

text \<open>
  \<open>ChoppinessIndex\<close> over the slots \<open>count - period\<close> to \<open>count - 1\<close>: only the first bar, and
  only after the warm up, takes the previous close into account, and that is its own close.
\<close>

definition chop_range :: "f64 list \<Rightarrow> f64 list \<Rightarrow> f64 list \<Rightarrow> nat \<Rightarrow> nat \<Rightarrow> f64" where
  "chop_range p h l start i =
     (if i = 0 \<and> start > 0
      then math_max (h ! i - l ! i) (math_max \<bar>h ! i - p ! i\<bar> \<bar>l ! i - p ! i\<bar>)
      else h ! i - l ! i)"

definition ChoppinessIndex :: "Lib \<Rightarrow> f64 list \<Rightarrow> f64 list \<Rightarrow> f64 list \<Rightarrow> int \<Rightarrow> int \<Rightarrow> f64" where
  "ChoppinessIndex lib prices highs lows cnt period =
     (if cnt < period \<or> period < 2 \<or> int (length prices) < period then 0
      else let start = nat (cnt - period);
               h = take (nat period) (drop start highs);
               l = take (nat period) (drop start lows);
               p = take (nat period) (drop start prices);
               atrSum = foldl (\<lambda>s i. s + chop_range p h l start i) 0 [0..<length h];
               maxHigh = foldl (\<lambda>m i. if h ! i > m then h ! i else m) (h ! 0) [1..<length h];
               minLow = foldl (\<lambda>m i. if l ! i < m then l ! i else m) (l ! 0) [1..<length h];
               rangeHL = maxHigh - minLow
           in if rangeHL \<le> 0 \<or> atrSum \<le> 0 then 0
              else let log10N = il_Log10 lib (float_of_int period)
                   in if feq log10N 0 then 0
                      else lit 100 * il_Log10 lib (atrSum / rangeHL) / log10N)"

section \<open>Wrappers of the library\<close>

text \<open>\<open>window := values; if count < len(values) { window = values[:count] }\<close>, and the last entry.\<close>

definition valid_part :: "f64 list \<Rightarrow> int \<Rightarrow> f64 list" where
  "valid_part values cnt = (if cnt < int (length values) then take (nat cnt) values else values)"

definition last_or_0 :: "f64 list \<Rightarrow> f64" where
  "last_or_0 xs = (if xs = [] then 0 else last xs)"

definition EMA :: "Lib \<Rightarrow> f64 list \<Rightarrow> int \<Rightarrow> int \<Rightarrow> f64" where
  "EMA lib values cnt period = (if cnt < period \<or> period \<le> 0 \<or> values = [] then 0
     else last_or_0 (il_Ema lib period (valid_part values cnt)))"

definition SMA :: "Lib \<Rightarrow> f64 list \<Rightarrow> int \<Rightarrow> int \<Rightarrow> f64" where
  "SMA lib values cnt period = (if cnt < period \<or> period \<le> 0 \<or> values = [] then 0
     else last_or_0 (il_Sma lib period (valid_part values cnt)))"

definition StdDev :: "Lib \<Rightarrow> f64 list \<Rightarrow> int \<Rightarrow> int \<Rightarrow> f64" where
  "StdDev lib values cnt period = (if cnt < period \<or> period \<le> 1 \<or> values = [] then 0
     else last_or_0 (il_Std lib period (valid_part values cnt)))"

definition RSI :: "Lib \<Rightarrow> f64 list \<Rightarrow> int \<Rightarrow> int \<Rightarrow> f64" where
  "RSI lib values cnt period = (if cnt < period + 1 \<or> period \<le> 0 \<or> values = [] then 0
     else last_or_0 (snd (il_RsiPeriod lib period (valid_part values cnt))))"

definition RSI2 :: "Lib \<Rightarrow> f64 list \<Rightarrow> int \<Rightarrow> f64" where
  "RSI2 lib values cnt = (if cnt < 5 \<or> values = [] then 0 else last_or_0 (snd (il_Rsi2 lib (valid_part values cnt))))"

definition MACD :: "Lib \<Rightarrow> f64 list \<Rightarrow> int \<Rightarrow> f64 \<times> f64" where
  "MACD lib closing cnt = (if cnt < 26 \<or> closing = [] then (0, 0)
     else let (m, s) = il_Macd lib (valid_part closing cnt) in if m = [] \<or> s = [] then (0, 0) else (last m, last s))"

definition BollingerBands :: "Lib \<Rightarrow> f64 list \<Rightarrow> int \<Rightarrow> f64 \<times> f64 \<times> f64" where
  "BollingerBands lib closing cnt = (if cnt < 20 \<or> closing = [] then (0, 0, 0)
     else let (u, m, l) = il_BollingerBands lib (valid_part closing cnt)
          in if u = [] \<or> m = [] \<or> l = [] then (0, 0, 0) else (last u, last m, last l))"

definition StochasticOscillator :: "Lib \<Rightarrow> f64 list \<Rightarrow> f64 list \<Rightarrow> f64 list \<Rightarrow> int \<Rightarrow> f64 \<times> f64" where
  "StochasticOscillator lib highs lows closes cnt =
     (if cnt < 14 \<or> int (length highs) < cnt \<or> int (length lows) < cnt \<or> int (length closes) < cnt then (0, 0)
      else let (k, d) = il_StochasticOscillator lib (take (nat cnt) highs) (take (nat cnt) lows) (take (nat cnt) closes)
           in if k = [] \<or> d = [] then (0, 0) else (last k, last d))"

definition IchimokuCloud :: "Lib \<Rightarrow> f64 list \<Rightarrow> f64 list \<Rightarrow> f64 list \<Rightarrow> int \<Rightarrow> f64 \<times> f64 \<times> f64 \<times> f64 \<times> f64" where
  "IchimokuCloud lib highs lows closes cnt =
     (if cnt < 52 \<or> int (length highs) < cnt \<or> int (length lows) < cnt \<or> int (length closes) < cnt then (0, 0, 0, 0, 0)
      else let (t, k, a, b, c) = il_IchimokuCloud lib (take (nat cnt) highs) (take (nat cnt) lows) (take (nat cnt) closes)
           in if t = [] then (0, 0, 0, 0, 0) else (last t, last k, last a, last b, last c))"

definition DonchianChannel :: "Lib \<Rightarrow> f64 list \<Rightarrow> int \<Rightarrow> int \<Rightarrow> f64 \<times> f64 \<times> f64" where
  "DonchianChannel lib closing cnt period = (if cnt < period \<or> period \<le> 0 \<or> closing = [] then (0, 0, 0)
     else let (u, m, l) = il_DonchianChannel lib period (valid_part closing cnt)
          in if u = [] then (0, 0, 0) else (last u, last m, last l))"

definition KeltnerChannel :: "Lib \<Rightarrow> f64 list \<Rightarrow> f64 list \<Rightarrow> f64 list \<Rightarrow> int \<Rightarrow> int \<Rightarrow> f64 \<times> f64 \<times> f64" where
  "KeltnerChannel lib highs lows closes cnt period =
     (if cnt < period \<or> period \<le> 0 \<or> int (length highs) < cnt \<or> int (length lows) < cnt \<or> int (length closes) < cnt
      then (0, 0, 0)
      else let (u, m, l) = il_KeltnerChannel lib period (take (nat cnt) highs) (take (nat cnt) lows) (take (nat cnt) closes)
           in if u = [] then (0, 0, 0) else (last u, last m, last l))"

definition WilliamsR :: "Lib \<Rightarrow> f64 list \<Rightarrow> f64 list \<Rightarrow> f64 list \<Rightarrow> int \<Rightarrow> f64" where
  "WilliamsR lib highs lows closes cnt =
     (if cnt < 14 \<or> int (length highs) < cnt \<or> int (length lows) < cnt \<or> int (length closes) < cnt then 0
      else last_or_0 (il_WilliamsR lib (take (nat cnt) lows) (take (nat cnt) highs) (take (nat cnt) closes)))"

definition Aroon :: "Lib \<Rightarrow> f64 list \<Rightarrow> f64 list \<Rightarrow> int \<Rightarrow> f64 \<times> f64" where
  "Aroon lib highs lows cnt = (if cnt < 25 \<or> int (length highs) < cnt \<or> int (length lows) < cnt then (0, 0)
     else let (u, d) = il_Aroon lib (take (nat cnt) highs) (take (nat cnt) lows)
          in if u = [] \<or> d = [] then (0, 0) else (last u, last d))"

definition MFI :: "Lib \<Rightarrow> f64 list \<Rightarrow> f64 list \<Rightarrow> f64 list \<Rightarrow> f64 list \<Rightarrow> int \<Rightarrow> int \<Rightarrow> f64" where
  "MFI lib highs lows closes volumes cnt period =
     (if cnt < period + 1 \<or> period \<le> 0 \<or> int (length highs) < cnt \<or> int (length lows) < cnt \<or>
         int (length closes) < cnt \<or> int (length volumes) < cnt then 0
      else last_or_0 (il_MoneyFlowIndex lib period (take (nat cnt) highs) (take (nat cnt) lows)
        (take (nat cnt) closes) (take (nat cnt) volumes)))"

definition VWAP :: "Lib \<Rightarrow> f64 list \<Rightarrow> f64 list \<Rightarrow> int \<Rightarrow> int \<Rightarrow> f64" where
  "VWAP lib closes volumes cnt period =
     (if cnt < period \<or> period \<le> 0 \<or> int (length closes) < cnt \<or> int (length volumes) < cnt then 0
      else last_or_0 (il_Vwma lib period (take (nat cnt) closes) (take (nat cnt) volumes)))"

definition ForceIndex :: "Lib \<Rightarrow> f64 list \<Rightarrow> f64 list \<Rightarrow> int \<Rightarrow> f64" where
  "ForceIndex lib closes volumes cnt =
     (if cnt < 14 \<or> int (length closes) < cnt \<or> int (length volumes) < cnt then 0
      else last_or_0 (il_ForceIndex lib 13 (take (nat cnt) closes) (take (nat cnt) volumes)))"

definition ChandelierExit :: "Lib \<Rightarrow> f64 list \<Rightarrow> f64 list \<Rightarrow> f64 list \<Rightarrow> int \<Rightarrow> f64 \<times> f64" where
  "ChandelierExit lib highs lows closes cnt =
     (if cnt < 22 \<or> int (length highs) < cnt \<or> int (length lows) < cnt \<or> int (length closes) < cnt then (0, 0)
      else let (a, b) = il_ChandelierExit lib (take (nat cnt) highs) (take (nat cnt) lows) (take (nat cnt) closes)
           in if a = [] \<or> b = [] then (0, 0) else (last a, last b))"

definition OBV :: "Lib \<Rightarrow> f64 list \<Rightarrow> f64 list \<Rightarrow> int \<Rightarrow> f64" where
  "OBV lib closes volumes cnt = (if cnt < 2 \<or> int (length closes) < cnt \<or> int (length volumes) < cnt then 0
     else last_or_0 (il_Obv lib (take (nat cnt) closes) (take (nat cnt) volumes)))"

definition CMF :: "Lib \<Rightarrow> f64 list \<Rightarrow> f64 list \<Rightarrow> f64 list \<Rightarrow> f64 list \<Rightarrow> int \<Rightarrow> f64" where
  "CMF lib highs lows closes volumes cnt =
     (if cnt < 20 \<or> int (length highs) < cnt \<or> int (length lows) < cnt \<or> int (length closes) < cnt \<or>
         int (length volumes) < cnt then 0
      else last_or_0 (il_ChaikinMoneyFlow lib (take (nat cnt) highs) (take (nat cnt) lows)
        (take (nat cnt) closes) (take (nat cnt) volumes)))"

section \<open>The true range of a full buffer\<close>

text \<open>The call every runner makes.\<close>

definition br_ATR :: "BaseRunner \<Rightarrow> int \<Rightarrow> f64" where
  "br_ATR b period = TrueRangeATR (br_HighHistory b) (br_LowHistory b) (br_PriceHistory b) (int (br_HistCount b)) period"

definition buffers_ok :: "BaseRunner \<Rightarrow> bool" where
  "buffers_ok b \<longleftrightarrow> 0 < br_BufferSize b \<and> length (br_PriceHistory b) = br_BufferSize b \<and>
     length (br_HighHistory b) = br_BufferSize b \<and> length (br_LowHistory b) = br_BufferSize b \<and>
     length (br_VolumeHistory b) = br_BufferSize b \<and> br_HistCount b = min (br_HistIdx b) (br_BufferSize b)"

lemma buffers_ok_New: "0 < n \<Longrightarrow> buffers_ok (NewBaseRunner n)"
  by (simp add: buffers_ok_def NewBaseRunner_def)

lemma buffers_ok_push [simp]: "buffers_ok b \<Longrightarrow> buffers_ok (BaseRunner_PushPrice b p h l v)"
  by (auto simp: buffers_ok_def BaseRunner_PushPrice_def Let_def)

lemma bar_range_update:
  assumes "length closes = sz" "length highs = sz" "length lows = sz" "1 \<le> i" "i < int sz"
    and "int j \<noteq> i" "int j \<noteq> i - 1"
  shows "bar_range (highs[j := a]) (lows[j := b]) (closes[j := c]) i = bar_range highs lows closes i"
proof -
  have r: "go_rem i (int sz) = i" "go_rem (i - 1) (int sz) = i - 1" using assms(4,5) by simp_all
  have "nat i \<noteq> j" "nat (i - 1) \<noteq> j" using assms(4,6,7) by auto
  then show ?thesis using assms(1-5) by (simp add: bar_range_def Let_def r)
qed

text \<open>
  A push changes the value only if it lands in one of the last \<open>period + 1\<close> slots of the array,
  wherever the recent bars are.
\<close>

lemma TrueRangeATR_update:
  assumes "length closes = sz" "length highs = sz" "length lows = sz" "0 < period" "period < int sz"
    and "int j < int sz - period - 1"
  shows "TrueRangeATR (highs[j := a]) (lows[j := b]) (closes[j := c]) (int sz) period =
    TrueRangeATR highs lows closes (int sz) period"
proof -
  have "bar_range (highs[j := a]) (lows[j := b]) (closes[j := c]) (int sz - period + int k) =
      bar_range highs lows closes (int sz - period + int k)" if "k < nat period" for k
    using that assms by (intro bar_range_update) auto
  then have "foldl (\<lambda>s k. s + bar_range (highs[j := a]) (lows[j := b]) (closes[j := c]) (int sz - period + int k)) 0 [0..<nat period]
      = foldl (\<lambda>s k. s + bar_range highs lows closes (int sz - period + int k)) 0 [0..<nat period]"
    by (intro foldl_cong) auto
  then show ?thesis by (simp add: TrueRangeATR_def)
qed

text \<open>Once the ring buffer of a runner is full its average true range is frozen: a new bar
  changes it only if it falls in one of the last \<open>period + 1\<close> slots of the array, so for most
  bars of every round of the buffer the value ignores them.
\<close>

theorem full_buffer_ATR_is_frozen:
  assumes "buffers_ok b" "br_HistCount b = br_BufferSize b" "0 < period"
    and "int (br_HistIdx b mod br_BufferSize b) < int (br_BufferSize b) - period - 1"
  shows "br_ATR (BaseRunner_PushPrice b price high low volume) period = br_ATR b period"
proof (cases "go_finite (Price_Float64 price)")
  case True
  have l: "length (br_PriceHistory b) = br_BufferSize b" "length (br_HighHistory b) = br_BufferSize b"
    "length (br_LowHistory b) = br_BufferSize b" using assms(1) by (simp_all add: buffers_ok_def)
  have p: "period < int (br_BufferSize b)" using assms(4) by linarith
  show ?thesis using True
    by (simp add: br_ATR_def BaseRunner_PushPrice_def Let_def assms(2) TrueRangeATR_update[OF l assms(3) p assms(4)])
qed (simp add: BaseRunner_PushPrice_def)

text \<open>A full buffer of four bars; the fifth lands in slot 0, the average of the last range stays.\<close>

definition flat_bars :: BaseRunner where
  "flat_bars = (NewBaseRunner 4)\<lparr>br_PriceHistory := [1, 1, 1, 1], br_HighHistory := [1, 1, 1, 1],
     br_LowHistory := [1, 1, 1, 1], br_HistIdx := 4, br_HistCount := 4\<rparr>"

lemma full_buffer_ATR_is_frozen_witness:
  "br_ATR (BaseRunner_PushPrice flat_bars 500000 900000 100000 1) 1 = br_ATR flat_bars 1 \<and>
   br_HighHistory (BaseRunner_PushPrice flat_bars 500000 900000 100000 1) ! 0 = Fin 9"
proof
  show "br_ATR (BaseRunner_PushPrice flat_bars 500000 900000 100000 1) 1 = br_ATR flat_bars 1"
    by (rule full_buffer_ATR_is_frozen) (simp_all add: flat_bars_def NewBaseRunner_def buffers_ok_def)
  show "br_HighHistory (BaseRunner_PushPrice flat_bars 500000 900000 100000 1) ! 0 = Fin 9"
    by (simp add: flat_bars_def NewBaseRunner_def BaseRunner_PushPrice_def Let_def go_finite_def Price_Float64_def
        ToFloat64_def PriceScaleFactor_def f64_eval)
qed

end
