(* ===== verification/StrategyKit.thy ===== *)
theory StrategyKit
  imports Indicators
begin

text \<open>
  The signals and parameter declarations the strategies build, \<open>ApplyParams\<close> and
  \<open>ClampParam\<close> of \<open>internal/strategy/param_registry.go\<close>, and the facts with which each
  strategy shows that it keeps the contract of one position. The composite literals
  \<open>&Signal{Symbol: .., Side: .., Action: .., Quantity: ..}\<close> of the strategies are
  \<open>enter_signal\<close> and \<open>exit_signal\<close>.
\<close>

definition enter_signal :: "Candle \<Rightarrow> string \<Rightarrow> Signal" where
  "enter_signal c side = \<lparr>sl_Symbol = ca_Symbol c, sl_Side = side, sl_Quantity = 1, sl_Action = SignalEntry,
     sl_PWin = 0, sl_StrategyID = '''', sl_StopLoss = 0, sl_TakeProfit = 0\<rparr>"

definition exit_signal :: "Candle \<Rightarrow> string \<Rightarrow> Signal" where
  "exit_signal c side = \<lparr>sl_Symbol = ca_Symbol c, sl_Side = side, sl_Quantity = 0, sl_Action = SignalExit,
     sl_PWin = 0, sl_StrategyID = '''', sl_StopLoss = 0, sl_TakeProfit = 0\<rparr>"

definition param_def :: "string \<Rightarrow> string \<Rightarrow> f64 \<Rightarrow> f64 \<Rightarrow> f64 \<Rightarrow> f64 \<Rightarrow> ParamDef" where
  "param_def name ptype dflt lo hi step = \<lparr>pd_Name = name, pd_Type = ptype, pd_Default = dflt,
     pd_Min = lo, pd_Max = hi, pd_Step = step\<rparr>"

abbreviation int_param :: "string \<Rightarrow> f64 \<Rightarrow> f64 \<Rightarrow> f64 \<Rightarrow> f64 \<Rightarrow> ParamDef" where
  "int_param name \<equiv> param_def name ''integer''"

abbreviation real_param :: "string \<Rightarrow> f64 \<Rightarrow> f64 \<Rightarrow> f64 \<Rightarrow> f64 \<Rightarrow> ParamDef" where
  "real_param name \<equiv> param_def name ''continuous''"

type_synonym params = "(string, f64) gomap"

definition boolToFloat :: "bool \<Rightarrow> f64" where
  "boolToFloat b = (if b then 1 else 0)"

definition ApplyParams :: "params \<Rightarrow> params \<Rightarrow> params" where
  "ApplyParams target updates =
     foldl (\<lambda>t (k, v). case mlookup t k of None \<Rightarrow> t | Some _ \<Rightarrow> mput t k v) target updates"

definition ClampParam :: "f64 \<Rightarrow> f64 \<Rightarrow> f64 \<Rightarrow> f64" where
  "ClampParam v lo hi = (if v < lo then lo else if v > hi then hi else v)"

text \<open>The side that closes the position of a runner: \<open>"SELL"\<close> unless it is short.\<close>

definition closing_side :: "string \<Rightarrow> string" where
  "closing_side side = (if side = ''SELL'' then ''BUY'' else ''SELL'')"

text \<open>\<open>invertSideForClose\<close> and \<open>exitSide\<close> of two of the runners.\<close>

definition exitSide :: "string \<Rightarrow> string" where
  "exitSide side = (if side = ''BUY'' then ''SELL'' else ''BUY'')"

lemma entry_fields [simp]:
  "sl_Action (enter_signal c side) = SignalEntry" "sl_Side (enter_signal c side) = side"
  "sl_Quantity (enter_signal c side) = 1" "sl_Symbol (enter_signal c side) = ca_Symbol c"
  by (simp_all add: enter_signal_def)

lemma exit_fields [simp]:
  "sl_Action (exit_signal c side) = SignalExit" "sl_Side (exit_signal c side) = side"
  "sl_Quantity (exit_signal c side) = 0" "sl_Symbol (exit_signal c side) = ca_Symbol c"
  by (simp_all add: exit_signal_def)

lemma SignalEntry_neq_Exit [simp]: "SignalEntry \<noteq> SignalExit" "SignalExit \<noteq> SignalEntry"
  by (simp_all add: SignalEntry_def SignalExit_def)

text \<open>
  The three ways a bar can end keep the contract; the rest of a proof that a strategy does is
  which of them each of its branches takes.
\<close>

definition step_fits :: "string option \<Rightarrow> Signal option \<times> string option \<Rightarrow> bool" where
  "step_fits p out \<longleftrightarrow> (side_ok p \<longrightarrow> signal_fits p (fst out) (snd out) \<and> side_ok (snd out))"

lemma feq_self [simp]: "feq (1 :: f64) 1" "feq (0 :: f64) 0"
  by (simp_all add: feq_def one_f64_def zero_f64_def)

lemma step_fits_none [simp]: "step_fits p (None, p)"
  by (simp add: step_fits_def signal_fits_def)

lemma step_fits_entry [simp]: "side = ''BUY'' \<or> side = ''SELL'' \<Longrightarrow> step_fits None (Some (enter_signal c side), Some side)"
  by (auto simp: step_fits_def signal_fits_def side_ok_def)

lemma step_fits_exit [simp]:
  "step_fits (Some ''BUY'') (Some (exit_signal c ''SELL''), None)"
  "p \<noteq> ''BUY'' \<Longrightarrow> step_fits (Some p) (Some (exit_signal c ''BUY''), None)"
  "step_fits (Some p) (Some (exit_signal c (closing_side p)), None)"
  "step_fits (Some p) (Some (exit_signal c (exitSide p)), None)"
  by (auto simp: step_fits_def signal_fits_def side_ok_def invertSide_def closing_side_def exitSide_def)

lemma step_fits_step: "step_fits (pos s) (fst (f s), pos (snd (f s))) \<Longrightarrow> side_ok (pos s) \<Longrightarrow>
    signal_fits (pos s) (fst (f s)) (pos (snd (f s))) \<and> side_ok (pos (snd (f s)))"
  by (simp add: step_fits_def)

lemma on_param_keeps: "(\<And>v r. f (upd v r) = f r) \<Longrightarrow> f (on_param ps name upd r) = f r"
  by (simp add: on_param_def split: option.split)

text \<open>A library without series and a bar of one price, for the witnesses.\<close>

definition no_lib :: Lib where
  "no_lib = \<lparr>il_Log = \<lambda>x. x, il_Log10 = \<lambda>x. x, il_Ema = \<lambda>_ _. [], il_Sma = \<lambda>_ _. [], il_Std = \<lambda>_ _. [],
     il_RsiPeriod = \<lambda>_ _. ([], []), il_Rsi2 = \<lambda>_. ([], []), il_Macd = \<lambda>_. ([], []),
     il_BollingerBands = \<lambda>_. ([], [], []), il_StochasticOscillator = \<lambda>_ _ _. ([], []),
     il_IchimokuCloud = \<lambda>_ _ _. ([], [], [], [], []), il_DonchianChannel = \<lambda>_ _. ([], [], []),
     il_KeltnerChannel = \<lambda>_ _ _ _. ([], [], []), il_WilliamsR = \<lambda>_ _ _. [], il_Aroon = \<lambda>_ _. ([], []),
     il_MoneyFlowIndex = \<lambda>_ _ _ _ _. [], il_Vwma = \<lambda>_ _ _. [], il_ForceIndex = \<lambda>_ _ _. [],
     il_ChandelierExit = \<lambda>_ _ _. ([], []), il_Obv = \<lambda>_ _. [], il_ChaikinMoneyFlow = \<lambda>_ _ _ _. []\<rparr>"

definition dollar_bar :: "int \<Rightarrow> int \<Rightarrow> Candle" where
  "dollar_bar t p = \<lparr>ca_Time = t, ca_Open = p * 100000, ca_High = (p + 1) * 100000, ca_Low = (p - 1) * 100000,
     ca_Close = p * 100000, ca_Volume = 1, ca_Symbol = ''SPY'', ca_AdjustmentFactor = 1, ca_Source = '''',
     ca_GenerationID = ''''\<rparr>"

lemma f64_le_fin: "Fin a \<le> x \<Longrightarrow> x \<le> Fin b \<Longrightarrow> is_fin x \<and> a \<le> fval x \<and> fval x \<le> b"
  using fin_between[of "Fin a" x "Fin b"] fin_le[of "Fin a" x] fin_le[of x "Fin b"] by simp

text \<open>An entry with its own levels.\<close>

definition entry_with :: "Candle \<Rightarrow> string \<Rightarrow> price \<Rightarrow> price \<Rightarrow> Signal" where
  "entry_with c side stop target = (enter_signal c side)\<lparr>sl_StopLoss := stop, sl_TakeProfit := target\<rparr>"

lemma entry_with_fields [simp]:
  "sl_Action (entry_with c side p q) = SignalEntry" "sl_Side (entry_with c side p q) = side"
  "sl_Quantity (entry_with c side p q) = 1" "sl_Symbol (entry_with c side p q) = ca_Symbol c"
  by (simp_all add: entry_with_def)

lemma fits_entry_with [simp]:
  "side = ''BUY'' \<or> side = ''SELL'' \<Longrightarrow> step_fits None (Some (entry_with c side p q), Some side)"
  by (auto simp: step_fits_def signal_fits_def side_ok_def)

definition MaxFloat64 :: f64 where
  "MaxFloat64 = Fin ((2 ^ 53 - 1) * 2 ^ 971)"

section \<open>Daily limits\<close>

text \<open>
  A strategy that counts its entries per day: the day of the counter and its value, and the
  limit, where a limit of at most zero is none.
\<close>

definition is_entry :: "Signal option \<Rightarrow> bool" where
  "is_entry s \<longleftrightarrow> (case s of None \<Rightarrow> False | Some g \<Rightarrow> sl_Action g = SignalEntry)"

definition used_on :: "int option \<times> int \<Rightarrow> int \<Rightarrow> int" where
  "used_on k d = (if fst k = Some d then snd k else 0)"

locale daily_limit =
  fixes evaluate :: "'s \<Rightarrow> Candle \<Rightarrow> int \<Rightarrow> Signal option \<times> 's"
    and counted :: "'s \<Rightarrow> int option \<times> int" and limit :: "'s \<Rightarrow> int"
  assumes entry_step: "is_entry (fst (evaluate s c r)) \<Longrightarrow>
      (0 < limit s \<longrightarrow> used_on (counted s) (day_of (ca_Time c)) < limit s) \<and>
      counted (snd (evaluate s c r)) = (Some (day_of (ca_Time c)), used_on (counted s) (day_of (ca_Time c)) + 1)"
    and other_step: "\<not> is_entry (fst (evaluate s c r)) \<Longrightarrow>
      counted (snd (evaluate s c r)) = counted s \<or>
      counted (snd (evaluate s c r)) = (Some (day_of (ca_Time c)), used_on (counted s) (day_of (ca_Time c)))"
    and limit_step: "limit (snd (evaluate s c r)) = limit s"
begin

fun entries_on :: "int \<Rightarrow> 's \<Rightarrow> (Candle \<times> int) list \<Rightarrow> int" where
  "entries_on d s [] = 0"
| "entries_on d s ((c, r) # bars) = (let (g, s') = evaluate s c r
     in (if is_entry g \<and> day_of (ca_Time c) = d then 1 else 0) + entries_on d s' bars)"

lemma entries_later: "\<forall>(c, r) \<in> set bars. d < day_of (ca_Time c) \<Longrightarrow> entries_on d s bars = 0"
  by (induction bars arbitrary: s) (auto simp: case_prod_beta)

lemma entries_limited:
  "sorted (map (\<lambda>(c, r). day_of (ca_Time c)) bars) \<Longrightarrow> 0 < limit s \<Longrightarrow>
    \<forall>d0. fst (counted s) = Some d0 \<longrightarrow> (\<forall>(c, r) \<in> set bars. d0 \<le> day_of (ca_Time c)) \<Longrightarrow>
    entries_on d s bars \<le> max 0 (limit s - used_on (counted s) d)"
proof (induction d s bars rule: entries_on.induct)
  case (2 d s c r bars)
  obtain g s' where e: "evaluate s c r = (g, s')" by force
  have sorted: "sorted (map (\<lambda>(c, r). day_of (ca_Time c)) bars)" using 2(2) by simp
  have lim: "limit s' = limit s" using limit_step[of s c r] by (simp add: e)
  have later: "\<forall>(c', r') \<in> set bars. day_of (ca_Time c) \<le> day_of (ca_Time c')" using 2(2) by (auto simp: case_prod_beta)
  have "fst (counted s') \<in> {fst (counted s), Some (day_of (ca_Time c))}"
    using entry_step[of s c r] other_step[of s c r] by (cases "is_entry g") (auto simp: e)
  then have "\<forall>d0. fst (counted s') = Some d0 \<longrightarrow> (\<forall>(c, r) \<in> set bars. d0 \<le> day_of (ca_Time c))"
    using later 2(4) by auto
  then have ih: "entries_on d s' bars \<le> max 0 (limit s - used_on (counted s') d)"
    using 2(1)[OF e[symmetric] refl sorted] 2(3) lim by simp
  have first: "fst (counted s) = Some d \<Longrightarrow> d \<le> day_of (ca_Time c)" using 2(4) by simp
  show ?case
  proof (cases "d < day_of (ca_Time c)")
    case True
    then have "entries_on d s' bars = 0" using 2(2) by (intro entries_later) (auto simp: case_prod_beta)
    then show ?thesis using True by (simp add: e)
  next
    case False
    show ?thesis
    proof (cases "is_entry g")
      case True
      then have "used_on (counted s) (day_of (ca_Time c)) < limit s"
        "counted s' = (Some (day_of (ca_Time c)), used_on (counted s) (day_of (ca_Time c)) + 1)"
        using entry_step[of s c r] 2(3) by (simp_all add: e)
      then show ?thesis using ih True first False by (auto simp: e used_on_def split: if_splits)
    next
      case no: False
      then have "counted s' = counted s \<or> counted s' = (Some (day_of (ca_Time c)), used_on (counted s) (day_of (ca_Time c)))"
        using other_step[of s c r] by (simp add: e)
      then show ?thesis using ih no first False by (auto simp: e used_on_def split: if_splits)
    qed
  qed
qed simp

end

end
