(* ===== verification/Trends.thy ===== *)
theory Trends
  imports StrategyKit
begin

text \<open>
  The trend follower, \<open>internal/strategy/trend_runner.go\<close>. \<open>Evaluate\<close> is cut where the code has
  a comment or a blank line: the update of the averages, the management of an open position,
  the entry. The library's indicators are the parameter \<open>lib\<close>. The second half shows on which
  side of a cross of its averages the runner enters.
\<close>

section \<open>TrendRunner\<close>

record TrendRunner =
  tn_base :: BaseRunner
  tn_FastPeriod :: f64
  tn_SlowPeriod :: f64
  tn_AtrPeriod :: f64
  tn_AtrMultiplier :: f64
  tn_ProfitATRMult :: f64
  tn_AdxPeriod :: f64
  tn_AdxThreshold :: f64
  tn_ChopThreshold :: f64
  tn_fastEMA :: f64
  tn_slowEMA :: f64
  tn_prevFastEMA :: f64
  tn_prevSlowEMA :: f64
  tn_peakPrice :: price
  tn_stopDistance :: f64
  tn_signalPending :: bool
  tn_pendingSide :: string

definition NewTrendRunner :: TrendRunner where
  "NewTrendRunner = \<lparr>tn_base = NewBaseRunner 128, tn_FastPeriod = lit 20, tn_SlowPeriod = lit 50,
     tn_AtrPeriod = lit 14, tn_AtrMultiplier = lit 3, tn_ProfitATRMult = lit 2, tn_AdxPeriod = lit 14,
     tn_AdxThreshold = lit 20, tn_ChopThreshold = lit (618/10), tn_fastEMA = 0, tn_slowEMA = 0,
     tn_prevFastEMA = 0, tn_prevSlowEMA = 0, tn_peakPrice = 0, tn_stopDistance = 0, tn_signalPending = False,
     tn_pendingSide = ''''\<rparr>"

definition TrendRunner_Reset :: "TrendRunner \<Rightarrow> TrendRunner" where
  "TrendRunner_Reset r = r\<lparr>tn_base := BaseRunner_Reset (tn_base r), tn_fastEMA := 0, tn_slowEMA := 0,
     tn_prevFastEMA := 0, tn_prevSlowEMA := 0, tn_signalPending := False, tn_peakPrice := 0, tn_stopDistance := 0\<rparr>"

definition TrendRunner_Params :: "TrendRunner \<Rightarrow> params" where
  "TrendRunner_Params r = [(''fast_period'', tn_FastPeriod r), (''slow_period'', tn_SlowPeriod r),
     (''atr_period'', tn_AtrPeriod r), (''atr_multiplier'', tn_AtrMultiplier r),
     (''profit_atr_mult'', tn_ProfitATRMult r), (''adx_period'', tn_AdxPeriod r),
     (''adx_threshold'', tn_AdxThreshold r), (''chop_threshold'', tn_ChopThreshold r)]"

definition TrendRunner_SetParams :: "TrendRunner \<Rightarrow> params \<Rightarrow> TrendRunner" where
  "TrendRunner_SetParams r ps =
     (let r = on_param ps ''fast_period'' (\<lambda>v r. r\<lparr>tn_FastPeriod := v\<rparr>) r;
          r = on_param ps ''slow_period'' (\<lambda>v r. r\<lparr>tn_SlowPeriod := v\<rparr>) r;
          r = on_param ps ''atr_period'' (\<lambda>v r. r\<lparr>tn_AtrPeriod := v\<rparr>) r;
          r = on_param ps ''atr_multiplier'' (\<lambda>v r. r\<lparr>tn_AtrMultiplier := v\<rparr>) r;
          r = on_param ps ''profit_atr_mult'' (\<lambda>v r. r\<lparr>tn_ProfitATRMult := v\<rparr>) r;
          r = on_param ps ''adx_period'' (\<lambda>v r. r\<lparr>tn_AdxPeriod := v\<rparr>) r;
          r = on_param ps ''adx_threshold'' (\<lambda>v r. r\<lparr>tn_AdxThreshold := v\<rparr>) r
      in on_param ps ''chop_threshold'' (\<lambda>v r. r\<lparr>tn_ChopThreshold := v\<rparr>) r)"

definition TrendRunner_ParamDefs :: "ParamDef list" where
  "TrendRunner_ParamDefs =
     [int_param ''fast_period'' (lit 20) (lit 5) (lit 40) (lit 5),
      int_param ''slow_period'' (lit 50) (lit 20) (lit 120) (lit 10),
      int_param ''atr_period'' (lit 14) (lit 7) (lit 28) (lit 7),
      real_param ''atr_multiplier'' (lit 2) (lit 1) (lit 4) (lit (5/10)),
      real_param ''profit_atr_mult'' (lit 2) (lit 1) (lit 5) (lit (5/10)),
      int_param ''adx_period'' (lit 14) (lit 7) (lit 28) (lit 7),
      real_param ''adx_threshold'' (lit 20) (lit 5) (lit 35) (lit 5),
      real_param ''chop_threshold'' (lit (618/10)) (lit 50) (lit 70) (lit 2)]"

definition TrendRunner_trailingStopPrice :: "TrendRunner \<Rightarrow> price \<Rightarrow> string \<Rightarrow> price" where
  "TrendRunner_trailingStopPrice r peak side = TrailingStop peak (tn_stopDistance r) side"

definition TrendRunner_update :: "TrendRunner \<Rightarrow> Candle \<Rightarrow> TrendRunner" where
  "TrendRunner_update r c =
     (let price = Price_Float64 (ca_Close c);
          r = r\<lparr>tn_prevFastEMA := tn_fastEMA r, tn_prevSlowEMA := tn_slowEMA r\<rparr>;
          r = (if tn_fastEMA r \<le> 0 \<and> tn_slowEMA r \<le> 0 then r\<lparr>tn_fastEMA := price, tn_slowEMA := price\<rparr>
            else let fastAlpha = lit 2 / (tn_FastPeriod r + 1);
                     slowAlpha = lit 2 / (tn_SlowPeriod r + 1)
                 in r\<lparr>tn_fastEMA := price * fastAlpha + tn_fastEMA r * (1 - fastAlpha),
                      tn_slowEMA := price * slowAlpha + tn_slowEMA r * (1 - slowAlpha)\<rparr>)
      in r\<lparr>tn_base := BaseRunner_PushPrice (tn_base r) (ca_Close c) (ca_High c) (ca_Low c) 0\<rparr>)"

definition TrendRunner_close :: "TrendRunner \<Rightarrow> Candle \<Rightarrow> string \<Rightarrow> Signal option \<times> TrendRunner" where
  "TrendRunner_close r c side = (Some (exit_signal c side),
     r\<lparr>tn_base := BaseRunner_ClosePosition (tn_base r), tn_signalPending := False\<rparr>)"

definition TrendRunner_manage :: "TrendRunner \<Rightarrow> Candle \<Rightarrow> Signal option \<times> TrendRunner" where
  "TrendRunner_manage r c =
     (let price = ca_Close c in
      if br_CurrentSide (tn_base r) = ''BUY''
      then let r = (if Price_Compare price (tn_peakPrice r) > 0 then r\<lparr>tn_peakPrice := price\<rparr> else r);
               trailingStop = TrendRunner_trailingStopPrice r (tn_peakPrice r) ''BUY'';
               crossDown = tn_fastEMA r < tn_slowEMA r \<and> tn_prevFastEMA r \<ge> tn_prevSlowEMA r
           in if IsTakeProfitHit price (br_TakeProfit (tn_base r)) ''BUY'' \<or> Price_Compare price trailingStop \<le> 0 \<or> crossDown
              then TrendRunner_close r c ''SELL'' else (None, r)
      else let r = (if Price_Compare price (tn_peakPrice r) < 0 then r\<lparr>tn_peakPrice := price\<rparr> else r);
               trailingStop = TrendRunner_trailingStopPrice r (tn_peakPrice r) ''SELL'';
               crossUp = tn_fastEMA r > tn_slowEMA r \<and> tn_prevFastEMA r \<le> tn_prevSlowEMA r
           in if IsTakeProfitHit price (br_TakeProfit (tn_base r)) ''SELL'' \<or> Price_Compare price trailingStop \<ge> 0 \<or> crossUp
              then TrendRunner_close r c ''BUY'' else (None, r))"

definition TrendRunner_open :: "Lib \<Rightarrow> TrendRunner \<Rightarrow> Candle \<Rightarrow> int \<Rightarrow> f64 \<Rightarrow> f64 \<Rightarrow> Signal option \<times> TrendRunner" where
  "TrendRunner_open lib r c regime adx chop =
     (let b = tn_base r; calm = r\<lparr>tn_signalPending := False\<rparr> in
      if adx < tn_AdxThreshold r then (None, calm)
      else if tn_ChopThreshold r > 0 \<and> chop > tn_ChopThreshold r then (None, calm)
      else let atr = br_ATR b (int64_of_float (tn_AtrPeriod r)) in
        if atr \<le> 0 then (None, calm)
        else let (stopMult, profitMult) = BaseRunner_RegimeExitMults b regime;
                 price = ca_Close c;
                 stopDist = atr * tn_AtrMultiplier r * stopMult;
                 profitDist = atr * tn_ProfitATRMult r * profitMult;
                 side = (if tn_pendingSide r = ''BUY'' then ''BUY'' else ''SELL'')
             in (Some (enter_signal c side),
                 r\<lparr>tn_peakPrice := price, tn_stopDistance := stopDist, tn_signalPending := False,
                   tn_base := BaseRunner_OpenPosition b side price (StopPrice price stopDist side)
                     (TargetPrice price profitDist side) (ca_Time c)\<rparr>))"

definition TrendRunner_enter :: "Lib \<Rightarrow> TrendRunner \<Rightarrow> Candle \<Rightarrow> int \<Rightarrow> f64 \<Rightarrow> f64 \<Rightarrow> Signal option \<times> TrendRunner" where
  "TrendRunner_enter lib r c regime adx chop =
     (if tn_prevFastEMA r > 0 \<and> tn_prevSlowEMA r > 0
      then let crossUp = tn_prevFastEMA r \<le> tn_prevSlowEMA r \<and> tn_fastEMA r > tn_slowEMA r;
               crossDown = tn_prevFastEMA r \<ge> tn_prevSlowEMA r \<and> tn_fastEMA r < tn_slowEMA r
           in if \<not> crossUp \<and> \<not> crossDown then (None, r\<lparr>tn_signalPending := False\<rparr>)
              else if tn_signalPending r then TrendRunner_open lib r c regime adx chop
              else (None, r\<lparr>tn_signalPending := True, tn_pendingSide := (if crossUp then ''BUY'' else ''SELL'')\<rparr>)
      else (None, r))"

definition TrendRunner_Evaluate :: "Lib \<Rightarrow> TrendRunner \<Rightarrow> Candle \<Rightarrow> int \<Rightarrow> Signal option \<times> TrendRunner" where
  "TrendRunner_Evaluate lib r c regime =
     (if Price_IsZero (ca_Close c) then (None, r)
      else let r = TrendRunner_update r c;
               b = tn_base r;
               adx = ADX (br_PriceHistory b) (br_HighHistory b) (br_LowHistory b) (int (br_HistCount b))
                 (int64_of_float (tn_AdxPeriod r));
               chop = ChoppinessIndex lib (br_PriceHistory b) (br_HighHistory b) (br_LowHistory b) (int (br_HistCount b))
                 (int64_of_float (tn_AtrPeriod r))
           in if br_PositionOpen b then TrendRunner_manage r c else TrendRunner_enter lib r c regime adx chop)"

abbreviation trend_pos :: "TrendRunner \<Rightarrow> string option" where
  "trend_pos r \<equiv> br_pos (tn_base r)"

lemma trend_update_pos [simp]: "trend_pos (TrendRunner_update r c) = trend_pos r"
  by (simp add: TrendRunner_update_def Let_def)

lemma trend_manage_fits:
  "br_PositionOpen (tn_base r) \<Longrightarrow> step_fits (trend_pos r) (fst (TrendRunner_manage r c), trend_pos (snd (TrendRunner_manage r c)))"
  by (simp add: TrendRunner_manage_def TrendRunner_close_def Let_def br_pos_def[of "tn_base r"])

lemma trend_enter_fits:
  "\<not> br_PositionOpen (tn_base r) \<Longrightarrow>
    step_fits (trend_pos r) (fst (TrendRunner_enter lib r c regime adx chop), trend_pos (snd (TrendRunner_enter lib r c regime adx chop)))"
  by (simp add: TrendRunner_enter_def TrendRunner_open_def Let_def br_pos_def[of "tn_base r"] case_prod_beta)

lemma trend_fits:
  "step_fits (trend_pos r) (fst (TrendRunner_Evaluate lib r c regime), trend_pos (snd (TrendRunner_Evaluate lib r c regime)))"
  unfolding TrendRunner_Evaluate_def Let_def
  using trend_manage_fits[of "TrendRunner_update r c"] trend_enter_fits[of "TrendRunner_update r c"]
  by simp

interpretation trend: position_machine "TrendRunner_Evaluate lib" trend_pos for lib
  using trend_fits by unfold_locales (simp add: step_fits_def)

text \<open>The life of a runner: bars, resets and new parameters.\<close>

datatype runner_op = RnBar Candle int | RnReset | RnParams params | RnRegimeParams params

fun trend_step :: "Lib \<Rightarrow> TrendRunner \<Rightarrow> runner_op \<Rightarrow> TrendRunner" where
  "trend_step lib r (RnBar c regime) = snd (TrendRunner_Evaluate lib r c regime)"
| "trend_step lib r RnReset = TrendRunner_Reset r"
| "trend_step lib r (RnParams ps) = TrendRunner_SetParams r ps"
| "trend_step lib r (RnRegimeParams ps) = r\<lparr>tn_base := BaseRunner_SetRegimeExitParams (tn_base r) ps\<rparr>"

text \<open>While a cross is pending the averages are still on its side.\<close>

definition pending_ok :: "TrendRunner \<Rightarrow> bool" where
  "pending_ok r \<longleftrightarrow> (tn_signalPending r \<longrightarrow>
     (if tn_pendingSide r = ''BUY'' then tn_slowEMA r < tn_fastEMA r else tn_fastEMA r < tn_slowEMA r))"

lemma trend_params_frame:
  "tn_fastEMA (TrendRunner_SetParams r ps) = tn_fastEMA r" "tn_slowEMA (TrendRunner_SetParams r ps) = tn_slowEMA r"
  "tn_signalPending (TrendRunner_SetParams r ps) = tn_signalPending r"
  "tn_pendingSide (TrendRunner_SetParams r ps) = tn_pendingSide r" "tn_base (TrendRunner_SetParams r ps) = tn_base r"
  by (simp_all add: TrendRunner_SetParams_def Let_def on_param_keeps[of tn_fastEMA] on_param_keeps[of tn_slowEMA]
      on_param_keeps[of tn_signalPending] on_param_keeps[of tn_pendingSide] on_param_keeps[of tn_base])

lemma pending_ok_params: "pending_ok (TrendRunner_SetParams r ps) = pending_ok r"
  by (simp add: pending_ok_def trend_params_frame)

lemma pending_ok_manage: "pending_ok r \<Longrightarrow> pending_ok (snd (TrendRunner_manage r c))"
  by (simp add: TrendRunner_manage_def TrendRunner_close_def Let_def pending_ok_def)

lemma pending_ok_enter:
  assumes "tn_prevFastEMA r > 0 \<and> tn_prevSlowEMA r > 0 \<or> \<not> tn_signalPending r"
  shows "pending_ok (snd (TrendRunner_enter lib r c regime adx chop))"
proof -
  have "\<not> tn_signalPending (snd (TrendRunner_open lib r c regime adx chop))"
    by (simp add: TrendRunner_open_def Let_def case_prod_beta)
  then have "pending_ok (snd (TrendRunner_open lib r c regime adx chop))" by (simp add: pending_ok_def)
  then show ?thesis using assms by (auto simp: TrendRunner_enter_def Let_def pending_ok_def)
qed

text \<open>An average of positive prices is positive, for periods between 2 and a million.\<close>

definition usual_period :: "f64 \<Rightarrow> bool" where
  "usual_period p \<longleftrightarrow> lit 2 \<le> p \<and> p \<le> lit 1000000"

lemma alpha_bounds:
  assumes "usual_period p"
  shows "is_fin (lit 2 / (p + 1)) \<and> 1 / 2 ^ 20 \<le> fval (lit 2 / (p + 1)) \<and> fval (lit 2 / (p + 1)) \<le> 3 / 4"
proof -
  have e: "lit 2 + 1 = Fin 3" "lit 1000000 + 1 = Fin 1000001" "lit 2 = Fin 2" by (simp_all add: f64_eval)
  have "lit 2 + 1 \<le> p + 1" "p + 1 \<le> lit 1000000 + 1"
    using assms by (simp_all add: usual_period_def f64_add_mono)
  then have "Fin 3 \<le> p + 1" "p + 1 \<le> Fin 1000001" unfolding e(1,2) by blast+
  then have d: "is_fin (p + 1)" "3 \<le> fval (p + 1)" "fval (p + 1) \<le> 1000001" using f64_le_fin by blast+
  have "feqv (lit 2 / (p + 1)) (rnd (2 / fval (p + 1)))"
    using div_feqv[of "lit 2" "p + 1"] d by (simp add: e)
  moreover have "rnd (1 / 2 ^ 20) \<le> rnd (2 / fval (p + 1))" "rnd (2 / fval (p + 1)) \<le> rnd (3 / 4)"
    using d by (auto intro!: rnd_mono simp: field_simps)
  ultimately have "Fin (1 / 2 ^ 20) \<le> lit 2 / (p + 1)" "lit 2 / (p + 1) \<le> Fin (3 / 4)"
    by (simp_all add: feqv_le f64_eval)
  then show ?thesis using f64_le_fin by blast
qed

lemma tiny_plus_positive:
  assumes "Fin (1 / 2 ^ 40) \<le> x" "0 \<le> y"
  shows "0 < x + y"
proof (cases "is_fin y")
  case True
  have "0 + Fin (1 / 2 ^ 40) \<le> y + Fin (1 / 2 ^ 40)" using assms(2) by (rule f64_add_mono) simp
  then have "Fin (1 / 2 ^ 40) \<le> Fin (1 / 2 ^ 40) + y" by (simp add: f64_add_commute f64_eval)
  moreover have "Fin (1 / 2 ^ 40) + y \<le> x + y" using assms(1) True by (rule f64_add_mono)
  ultimately have "Fin (1 / 2 ^ 40) \<le> x + y" by (rule f64_le_trans)
  then show ?thesis by (rule f64_less_le_trans[rotated]) (simp add: f64_eval)
next
  case False
  then have "y = FPosInf" using assms(2) by (cases y) (auto simp: is_fin_def less_eq_f64_def)
  then show ?thesis using assms(1) by (cases x) (auto simp: plus_f64_def less_eq_f64_def less_f64_def is_nan_def is_inf_def)
qed

lemma ema_positive:
  assumes "usual_period p" "1 \<le> q" "0 < e"
  shows "0 < Price_Float64 q * (lit 2 / (p + 1)) + e * (1 - lit 2 / (p + 1))"
proof -
  define a where "a = lit 2 / (p + 1)"
  have a: "is_fin a" "1 / 2 ^ 20 \<le> fval a" "fval a \<le> 3 / 4" using alpha_bounds[OF assms(1)] by (simp_all add: a_def)
  have "feqv (1 - a) (rnd (1 - fval a))" using sub_feqv[of 1 a] a(1) by simp
  moreover have "rnd (1 / 4) \<le> rnd (1 - fval a)" "rnd (1 - fval a) \<le> rnd 1" using a by (intro rnd_mono; simp)+
  ultimately have "Fin (1 / 4) \<le> 1 - a" "1 - a \<le> Fin 1" by (simp_all add: feqv_le f64_eval)
  then have b: "is_fin (1 - a)" "1 / 4 \<le> fval (1 - a)" using f64_le_fin by blast+
  have "0 * (1 - a) \<le> e * (1 - a)" using assms(3) b by (intro f64_mul_mono) (simp_all add: f64_less_imp_le)
  moreover have "feqv (0 * (1 - a)) 0" using mul_feqv[of 0 "1 - a"] b by (simp add: zero_f64_def)
  ultimately have y: "0 \<le> e * (1 - a)" using feqv_le(2) by blast
  have c: "Fin (1 / 2 ^ 17) \<le> Price_Float64 1"
    by (simp add: Price_Float64_def ToFloat64_def PriceScaleFactor_def f64_eval)
  have "rnd (1 / 2 ^ 40) \<le> rnd (1 / 2 ^ 17 * fval a)" using a by (intro rnd_mono) simp
  moreover have "feqv (Fin (1 / 2 ^ 17) * a) (rnd (1 / 2 ^ 17 * fval a))"
    using mul_feqv[of "Fin (1 / 2 ^ 17)" a] a by simp
  ultimately have "Fin (1 / 2 ^ 40) \<le> Fin (1 / 2 ^ 17) * a" by (simp add: feqv_le f64_eval)
  moreover have "Fin (1 / 2 ^ 17) * a \<le> Price_Float64 q * a"
    using a f64_le_trans[OF c Price_Float64_mono[OF assms(2)]] by (intro f64_mul_mono) simp_all
  ultimately have x: "Fin (1 / 2 ^ 40) \<le> Price_Float64 q * a" by (rule f64_le_trans)
  show ?thesis using tiny_plus_positive[OF x y] by (simp only: a_def)
qed

text \<open>A run of candles with positive prices and periods between 2 and a million.\<close>

definition usual_params :: "params \<Rightarrow> bool" where
  "usual_params ps \<longleftrightarrow> (\<forall>n \<in> {''fast_period'', ''slow_period''}. case mlookup ps n of None \<Rightarrow> True | Some v \<Rightarrow> usual_period v)"

fun trend_op_ok :: "runner_op \<Rightarrow> bool" where
  "trend_op_ok (RnBar c regime) = (1 \<le> ca_Close c)"
| "trend_op_ok (RnParams ps) = usual_params ps"
| "trend_op_ok _ = True"

definition trend_inv :: "TrendRunner \<Rightarrow> bool" where
  "trend_inv r \<longleftrightarrow> usual_period (tn_FastPeriod r) \<and> usual_period (tn_SlowPeriod r) \<and> pending_ok r \<and>
     (br_PositionOpen (tn_base r) \<longrightarrow> \<not> tn_signalPending r) \<and>
     (0 < tn_fastEMA r \<and> 0 < tn_slowEMA r \<or>
      tn_fastEMA r \<le> 0 \<and> tn_slowEMA r \<le> 0 \<and> \<not> tn_signalPending r)"

lemma trend_inv_New: "trend_inv NewTrendRunner"
  by (simp add: trend_inv_def NewTrendRunner_def NewBaseRunner_def usual_period_def pending_ok_def f64_eval)

lemma trend_periods_frame:
  "usual_params ps \<Longrightarrow> usual_period (tn_FastPeriod r) \<Longrightarrow> usual_period (tn_FastPeriod (TrendRunner_SetParams r ps))"
  "usual_params ps \<Longrightarrow> usual_period (tn_SlowPeriod r) \<Longrightarrow> usual_period (tn_SlowPeriod (TrendRunner_SetParams r ps))"
  by (simp_all add: TrendRunner_SetParams_def Let_def on_param_keeps[of tn_FastPeriod] on_param_keeps[of tn_SlowPeriod])
    (simp_all add: on_param_def usual_params_def split: option.splits)

lemma trend_update_fields:
  assumes "trend_inv r" "1 \<le> ca_Close c"
  shows "0 < tn_fastEMA (TrendRunner_update r c) \<and> 0 < tn_slowEMA (TrendRunner_update r c)"
proof -
  have p: "0 < Price_Float64 (ca_Close c)"
    using Price_Float64_mono[OF assms(2)]
    by (rule f64_less_le_trans[rotated]) (simp add: Price_Float64_def ToFloat64_def PriceScaleFactor_def f64_eval)
  show ?thesis using assms p f64_less_not_le[of 0]
    by (auto simp: trend_inv_def TrendRunner_update_def Let_def ema_positive)
qed

lemma trend_update_frame:
  "tn_prevFastEMA (TrendRunner_update r c) = tn_fastEMA r" "tn_prevSlowEMA (TrendRunner_update r c) = tn_slowEMA r"
  "tn_signalPending (TrendRunner_update r c) = tn_signalPending r" "tn_pendingSide (TrendRunner_update r c) = tn_pendingSide r"
  "tn_FastPeriod (TrendRunner_update r c) = tn_FastPeriod r" "tn_SlowPeriod (TrendRunner_update r c) = tn_SlowPeriod r"
  by (simp_all add: TrendRunner_update_def Let_def)

lemma trend_out_frame:
  "tn_fastEMA (snd (TrendRunner_manage r c)) = tn_fastEMA r" "tn_slowEMA (snd (TrendRunner_manage r c)) = tn_slowEMA r"
  "tn_FastPeriod (snd (TrendRunner_manage r c)) = tn_FastPeriod r" "tn_SlowPeriod (snd (TrendRunner_manage r c)) = tn_SlowPeriod r"
  "tn_fastEMA (snd (TrendRunner_enter lib r c g adx chop)) = tn_fastEMA r"
  "tn_slowEMA (snd (TrendRunner_enter lib r c g adx chop)) = tn_slowEMA r"
  "tn_FastPeriod (snd (TrendRunner_enter lib r c g adx chop)) = tn_FastPeriod r"
  "tn_SlowPeriod (snd (TrendRunner_enter lib r c g adx chop)) = tn_SlowPeriod r"
  by (simp_all add: TrendRunner_manage_def TrendRunner_close_def TrendRunner_enter_def TrendRunner_open_def Let_def
      case_prod_beta)

lemma trend_pending_frame:
  "tn_signalPending (snd (TrendRunner_manage r c)) \<Longrightarrow> tn_signalPending r"
  "\<not> br_PositionOpen (tn_base r) \<Longrightarrow> br_PositionOpen (tn_base (snd (TrendRunner_enter lib r c g adx chop)))
    \<Longrightarrow> \<not> tn_signalPending (snd (TrendRunner_enter lib r c g adx chop))"
  by (simp_all add: TrendRunner_manage_def TrendRunner_close_def TrendRunner_enter_def TrendRunner_open_def Let_def
      case_prod_beta split: if_splits)

lemma trend_inv_Evaluate:
  assumes "trend_inv r" "1 \<le> ca_Close c"
  shows "trend_inv (snd (TrendRunner_Evaluate lib r c g))"
proof -
  define u where "u = TrendRunner_update r c"
  note f = trend_update_frame[of r c, folded u_def]
  have pos: "0 < tn_fastEMA u" "0 < tn_slowEMA u" using trend_update_fields[OF assms] by (simp_all add: u_def)
  have per: "usual_period (tn_FastPeriod u)" "usual_period (tn_SlowPeriod u)" using assms(1) by (simp_all add: f trend_inv_def)
  have open_eq: "br_PositionOpen (tn_base u) = br_PositionOpen (tn_base r)"
    by (simp add: u_def TrendRunner_update_def Let_def)
  have old: "tn_signalPending u \<Longrightarrow> \<not> br_PositionOpen (tn_base u) \<and> tn_prevFastEMA u > 0 \<and> tn_prevSlowEMA u > 0"
    using assms(1) f64_less_not_le by (auto simp: trend_inv_def f open_eq)
  have "trend_inv (snd (TrendRunner_manage u c))" if "br_PositionOpen (tn_base u)"
    using that old trend_pending_frame(1)[of u c] pos per by (auto simp: trend_inv_def trend_out_frame pending_ok_def)
  moreover have "trend_inv (snd (TrendRunner_enter lib u c g adx chop))" if "\<not> br_PositionOpen (tn_base u)" for adx chop
    using that old pos per pending_ok_enter[of u lib c g adx chop] trend_pending_frame(2)[OF that, of lib c g adx chop]
    by (auto simp: trend_inv_def trend_out_frame)
  ultimately show ?thesis using assms(1) by (simp add: TrendRunner_Evaluate_def Let_def u_def[symmetric])
qed

lemma trend_inv_step: "trend_inv r \<Longrightarrow> trend_op_ok op \<Longrightarrow> trend_inv (trend_step lib r op)"
proof (cases op)
  case RnReset
  assume "trend_inv r"
  with RnReset show ?thesis by (simp add: trend_inv_def TrendRunner_Reset_def BaseRunner_Reset_def pending_ok_def)
next
  case (RnParams ps)
  assume "trend_inv r" "trend_op_ok op"
  with RnParams show ?thesis
    by (simp add: trend_inv_def trend_params_frame pending_ok_params trend_periods_frame)
next
  case (RnRegimeParams ps)
  assume "trend_inv r"
  moreover have "br_PositionOpen (BaseRunner_SetRegimeExitParams (tn_base r) ps) = br_PositionOpen (tn_base r)"
    by (simp add: BaseRunner_SetRegimeExitParams_def on_param_keeps[of br_PositionOpen])
  ultimately show ?thesis using RnRegimeParams by (simp add: trend_inv_def pending_ok_def)
qed (simp add: trend_inv_Evaluate)

lemma trend_inv_run: "list_all trend_op_ok ops \<Longrightarrow> trend_inv r \<Longrightarrow> trend_inv (foldl (trend_step lib) r ops)"
  by (induction ops arbitrary: r) (simp_all add: trend_inv_step)

lemma trend_entry_crossing:
  assumes "trend_inv r" "1 \<le> ca_Close c" "TrendRunner_Evaluate lib r c g = (Some sig, r')" "sl_Action sig = SignalEntry"
  shows "(if sl_Side sig = ''BUY'' then tn_fastEMA r' < tn_slowEMA r' \<and> tn_slowEMA r < tn_fastEMA r
     else tn_slowEMA r' < tn_fastEMA r' \<and> tn_fastEMA r < tn_slowEMA r)"
proof -
  define u where "u = TrendRunner_update r c"
  note f = trend_update_frame[of r c, folded u_def]
  have z: "\<not> Price_IsZero (ca_Close c)" using assms(2) by (simp add: Price_IsZero_def)
  have "\<not> br_PositionOpen (tn_base u)"
    using assms(3,4) z by (auto simp: TrendRunner_Evaluate_def TrendRunner_manage_def TrendRunner_close_def Let_def
        u_def[symmetric] split: if_splits)
  then obtain adx chop where e: "TrendRunner_enter lib u c g adx chop = (Some sig, r')"
    using assms(3) z by (auto simp: TrendRunner_Evaluate_def Let_def u_def[symmetric])
  then have p: "tn_signalPending u" and x: "tn_prevFastEMA u \<le> tn_prevSlowEMA u \<and> tn_slowEMA u < tn_fastEMA u \<or>
      tn_prevSlowEMA u \<le> tn_prevFastEMA u \<and> tn_fastEMA u < tn_slowEMA u"
    by (auto simp: TrendRunner_enter_def Let_def split: if_splits)
  have s: "sl_Side sig = (if tn_pendingSide u = ''BUY'' then ''BUY'' else ''SELL'')"
    using e by (auto simp: TrendRunner_enter_def TrendRunner_open_def Let_def case_prod_beta split: if_splits)
  have r': "tn_fastEMA r' = tn_fastEMA u" "tn_slowEMA r' = tn_slowEMA u"
    using trend_out_frame(5,6)[of lib u c g adx chop] by (simp_all add: e)
  have "if tn_pendingSide r = ''BUY'' then tn_slowEMA r < tn_fastEMA r else tn_fastEMA r < tn_slowEMA r"
    using assms(1) p by (simp add: trend_inv_def pending_ok_def f)
  then show ?thesis using x f64_less_not_le by (auto simp: s r' f split: if_splits)
qed

text \<open>The trend follower enters against the cross of its bar: the first cross only arms a
  pending entry, which is dropped by the next bar unless the averages cross back on it. So
  whatever the history of candles with positive prices, a buy happens on a bar whose fast
  average is below the slow one, a sale on a bar whose fast average is above it.
\<close>

theorem trend_enters_against_the_cross:
  assumes "list_all trend_op_ok ops" "1 \<le> ca_Close c"
    and "TrendRunner_Evaluate lib (foldl (trend_step lib) NewTrendRunner ops) c g = (Some sig, r)"
    and "sl_Action sig = SignalEntry"
  shows "if sl_Side sig = ''BUY'' then tn_fastEMA r < tn_slowEMA r else tn_slowEMA r < tn_fastEMA r"
  using trend_entry_crossing[OF trend_inv_run[OF assms(1) trend_inv_New] assms(2,3,4)] by (simp split: if_splits)

text \<open>Averages over 3 and 7 bars, prices 100, 140 and 60: the runner buys at 60.\<close>

definition trend_sample :: "runner_op list" where
  "trend_sample = [RnParams [(''fast_period'', lit 3), (''slow_period'', lit 7), (''atr_period'', 1),
     (''adx_threshold'', 0), (''chop_threshold'', 0)], RnBar (dollar_bar 0 100) 0, RnBar (dollar_bar 60 140) 0]"

lemma trend_sample_buys:
  "fst (TrendRunner_Evaluate no_lib (foldl (trend_step no_lib) NewTrendRunner trend_sample) (dollar_bar 120 60) 0)
     = Some (enter_signal (dollar_bar 120 60) ''BUY'')"
  by (simp add: trend_sample_def TrendRunner_Evaluate_def TrendRunner_update_def TrendRunner_enter_def TrendRunner_open_def
      NewTrendRunner_def TrendRunner_SetParams_def on_param_def dollar_bar_def Let_def Price_IsZero_def
      BaseRunner_PushPrice_def NewBaseRunner_def go_finite_def Price_Float64_def ToFloat64_def PriceScaleFactor_def
      BaseRunner_RegimeExitMults_def RegimeHighVol_def RegimeCrisis_def RegimeTrending_def
      br_ATR_def TrueRangeATR_def bar_range_def ADX_def ChoppinessIndex_def int64_of_float_def is_int64_def
      nth_list_update f64_eval)

lemma trend_enters_against_the_cross_witness:
  "let out = TrendRunner_Evaluate no_lib (foldl (trend_step no_lib) NewTrendRunner trend_sample) (dollar_bar 120 60) 0
   in fst out = Some (enter_signal (dollar_bar 120 60) ''BUY'') \<and> tn_fastEMA (snd out) < tn_slowEMA (snd out)"
proof -
  define out where "out = TrendRunner_Evaluate no_lib (foldl (trend_step no_lib) NewTrendRunner trend_sample) (dollar_bar 120 60) 0"
  have s: "fst out = Some (enter_signal (dollar_bar 120 60) ''BUY'')" using trend_sample_buys by (simp add: out_def)
  have "list_all trend_op_ok trend_sample"
    by (simp add: trend_sample_def dollar_bar_def usual_params_def usual_period_def f64_eval)
  then have "if sl_Side (enter_signal (dollar_bar 120 60) ''BUY'') = ''BUY'' then tn_fastEMA (snd out) < tn_slowEMA (snd out)
      else tn_slowEMA (snd out) < tn_fastEMA (snd out)"
  proof (rule trend_enters_against_the_cross)
    show "TrendRunner_Evaluate no_lib (foldl (trend_step no_lib) NewTrendRunner trend_sample) (dollar_bar 120 60) 0 =
        (Some (enter_signal (dollar_bar 120 60) ''BUY''), snd out)"
      unfolding out_def[symmetric] by (rule prod_eqI) (simp_all add: s)
  qed (simp_all add: dollar_bar_def)
  then show ?thesis using s by (simp add: out_def[symmetric])
qed

end
