(* ===== verification/Momentum.thy ===== *)
theory Momentum
  imports StrategyKit
begin

text \<open>
  The strategies on momentum and channels, \<open>internal/strategy/momentum_runner.go\<close>,
  \<open>carry_runner.go\<close>, \<open>donchian_breakout_runner.go\<close> and \<open>keltner_macd_runner.go\<close>. Each is its
  state, its parameters, \<open>Evaluate\<close> with the library's indicators as \<open>lib\<close>, and the proof that it
  keeps the contract of one position. The position of the newest bar before the first push,
  a negative index, is not reached: \<open>Evaluate\<close> pushes first.
\<close>

section \<open>MomentumRunner\<close>

record MomentumRunner =
  mo_base :: BaseRunner
  mo_Lookback :: f64
  mo_SkipRecent :: f64
  mo_TrendPeriod :: f64
  mo_AtrPeriod :: f64
  mo_AtrMultiplier :: f64
  mo_ProfitATRMult :: f64
  mo_peakPrice :: price

definition NewMomentumRunner :: MomentumRunner where
  "NewMomentumRunner = \<lparr>mo_base = NewBaseRunner 2048, mo_Lookback = lit 252, mo_SkipRecent = lit 21,
     mo_TrendPeriod = lit 50, mo_AtrPeriod = lit 20, mo_AtrMultiplier = lit 3, mo_ProfitATRMult = 0, mo_peakPrice = 0\<rparr>"

definition MomentumRunner_Reset :: "MomentumRunner \<Rightarrow> MomentumRunner" where
  "MomentumRunner_Reset r = r\<lparr>mo_base := BaseRunner_Reset (mo_base r), mo_peakPrice := 0\<rparr>"

definition MomentumRunner_Params :: "MomentumRunner \<Rightarrow> params" where
  "MomentumRunner_Params r = [(''lookback'', mo_Lookback r), (''skip_recent'', mo_SkipRecent r),
     (''trend_period'', mo_TrendPeriod r), (''atr_period'', mo_AtrPeriod r),
     (''atr_multiplier'', mo_AtrMultiplier r), (''profit_atr_mult'', mo_ProfitATRMult r)]"

definition MomentumRunner_SetParams :: "MomentumRunner \<Rightarrow> params \<Rightarrow> MomentumRunner" where
  "MomentumRunner_SetParams r ps =
     (let r = on_param ps ''lookback'' (\<lambda>v r. r\<lparr>mo_Lookback := v\<rparr>) r;
          r = on_param ps ''skip_recent'' (\<lambda>v r. r\<lparr>mo_SkipRecent := v\<rparr>) r;
          r = on_param ps ''trend_period'' (\<lambda>v r. r\<lparr>mo_TrendPeriod := v\<rparr>) r;
          r = on_param ps ''atr_period'' (\<lambda>v r. r\<lparr>mo_AtrPeriod := v\<rparr>) r;
          r = on_param ps ''atr_multiplier'' (\<lambda>v r. r\<lparr>mo_AtrMultiplier := v\<rparr>) r
      in on_param ps ''profit_atr_mult'' (\<lambda>v r. r\<lparr>mo_ProfitATRMult := v\<rparr>) r)"

definition MomentumRunner_ParamDefs :: "ParamDef list" where
  "MomentumRunner_ParamDefs =
     [int_param ''lookback'' (lit 252) (lit 63) (lit 504) (lit 21),
      int_param ''skip_recent'' (lit 21) (lit 0) (lit 63) (lit 7),
      int_param ''trend_period'' (lit 50) (lit 20) (lit 200) (lit 10),
      int_param ''atr_period'' (lit 20) (lit 7) (lit 60) (lit 7),
      real_param ''atr_multiplier'' (lit 3) (lit 1) (lit 6) (lit (5/10)),
      real_param ''profit_atr_mult'' (lit 0) (lit 0) (lit 10) (lit 1)]"

definition MomentumRunner_priceAt :: "MomentumRunner \<Rightarrow> int \<Rightarrow> f64" where
  "MomentumRunner_priceAt r n =
     (let b = mo_base r;
          idx = go_rem (int (br_HistIdx b) - 1 - n) (int (br_BufferSize b));
          idx = (if idx < 0 then idx + int (br_BufferSize b) else idx)
      in br_PriceHistory b ! nat idx)"

definition MomentumRunner_momentum :: "MomentumRunner \<Rightarrow> f64" where
  "MomentumRunner_momentum r =
     (let recent = MomentumRunner_priceAt r (int64_of_float (mo_SkipRecent r));
          past = MomentumRunner_priceAt r (int64_of_float (mo_Lookback r))
      in if past \<le> 0 then 0 else (recent - past) / past)"

definition MomentumRunner_Evaluate :: "Lib \<Rightarrow> MomentumRunner \<Rightarrow> Candle \<Rightarrow> int \<Rightarrow> Signal option \<times> MomentumRunner" where
  "MomentumRunner_Evaluate lib r c regime =
     (let price = ca_Close c in
      if Price_IsZero price then (None, r)
      else let b = BaseRunner_PushPrice (mo_base r) price (ca_High c) (ca_Low c) (ca_Volume c);
               r = r\<lparr>mo_base := b\<rparr>;
               n = int (br_HistCount b)
           in if n < int64_of_float (mo_Lookback r) + 2 then (None, r)
              else let mom = MomentumRunner_momentum r;
                       sma = SMA lib (BaseRunner_LinearPrices b n) n (int64_of_float (mo_TrendPeriod r));
                       atr = br_ATR b (int64_of_float (mo_AtrPeriod r));
                       (stopMult, profitMult) = BaseRunner_RegimeExitMults b regime
                   in if br_PositionOpen b
                      then (if br_CurrentSide b = ''BUY''
                        then let r = (if Price_Compare price (mo_peakPrice r) > 0 then r\<lparr>mo_peakPrice := price\<rparr> else r);
                                 trailingStop = PriceFromFloat (Price_Float64 (mo_peakPrice r) - atr * mo_AtrMultiplier r * stopMult)
                             in if IsStopLossHit price trailingStop ''BUY'' \<or> mom < 0
                                then (Some (exit_signal c ''SELL''), r\<lparr>mo_base := BaseRunner_ClosePosition b\<rparr>)
                                else (None, r)
                        else (None, r))
                      else if mom > 0 \<and> sma > 0 \<and> Price_Float64 price > sma
                      then let stopDist = atr * mo_AtrMultiplier r * stopMult;
                               tp = (if mo_ProfitATRMult r > 0
                                 then PriceFromFloat (Price_Float64 price + stopDist * mo_ProfitATRMult r * profitMult) else 0)
                           in (Some (enter_signal c ''BUY''), r\<lparr>mo_peakPrice := price,
                                 mo_base := BaseRunner_OpenPosition b ''BUY'' price
                                   (PriceFromFloat (Price_Float64 price - stopDist)) tp (ca_Time c)\<rparr>)
                      else (None, r))"

abbreviation momentum_pos :: "MomentumRunner \<Rightarrow> string option" where
  "momentum_pos r \<equiv> br_pos (mo_base r)"

lemma momentum_fits:
  "step_fits (momentum_pos r) (fst (MomentumRunner_Evaluate lib r c g), momentum_pos (snd (MomentumRunner_Evaluate lib r c g)))"
  by (simp add: MomentumRunner_Evaluate_def Let_def br_pos_def[of "mo_base r"] case_prod_beta)

interpretation momentum: position_machine "MomentumRunner_Evaluate lib" momentum_pos for lib
  using momentum_fits by unfold_locales (simp add: step_fits_def)

section \<open>CarryRunner\<close>

definition fxCarryBps :: "(string, f64) gomap" where
  "fxCarryBps = [(''AUDUSD'', lit 35), (''GBPUSD'', lit 50), (''USDJPY'', lit 350), (''USDCAD'', lit 100), (''EURUSD'', lit (-150))]"

record CarryRunner =
  cy_base :: BaseRunner
  cy_TrendPeriod :: f64
  cy_AtrPeriod :: f64
  cy_AtrMultiplier :: f64
  cy_ProfitATRMult :: f64
  cy_MinCarryBps :: f64
  cy_peakPrice :: price

definition NewCarryRunner :: CarryRunner where
  "NewCarryRunner = \<lparr>cy_base = NewBaseRunner 512, cy_TrendPeriod = lit 100, cy_AtrPeriod = lit 20,
     cy_AtrMultiplier = lit 2, cy_ProfitATRMult = 0, cy_MinCarryBps = 0, cy_peakPrice = 0\<rparr>"

definition CarryRunner_Reset :: "CarryRunner \<Rightarrow> CarryRunner" where
  "CarryRunner_Reset r = r\<lparr>cy_base := BaseRunner_Reset (cy_base r), cy_peakPrice := 0\<rparr>"

definition CarryRunner_Params :: "CarryRunner \<Rightarrow> params" where
  "CarryRunner_Params r = [(''trend_period'', cy_TrendPeriod r), (''atr_period'', cy_AtrPeriod r),
     (''atr_multiplier'', cy_AtrMultiplier r), (''profit_atr_mult'', cy_ProfitATRMult r),
     (''min_carry_bps'', cy_MinCarryBps r)]"

definition CarryRunner_SetParams :: "CarryRunner \<Rightarrow> params \<Rightarrow> CarryRunner" where
  "CarryRunner_SetParams r ps =
     (let r = on_param ps ''trend_period'' (\<lambda>v r. r\<lparr>cy_TrendPeriod := v\<rparr>) r;
          r = on_param ps ''atr_period'' (\<lambda>v r. r\<lparr>cy_AtrPeriod := v\<rparr>) r;
          r = on_param ps ''atr_multiplier'' (\<lambda>v r. r\<lparr>cy_AtrMultiplier := v\<rparr>) r;
          r = on_param ps ''profit_atr_mult'' (\<lambda>v r. r\<lparr>cy_ProfitATRMult := v\<rparr>) r
      in on_param ps ''min_carry_bps'' (\<lambda>v r. r\<lparr>cy_MinCarryBps := v\<rparr>) r)"

definition CarryRunner_ParamDefs :: "ParamDef list" where
  "CarryRunner_ParamDefs =
     [int_param ''trend_period'' (lit 100) (lit 40) (lit 240) (lit 20),
      int_param ''atr_period'' (lit 20) (lit 7) (lit 60) (lit 7),
      real_param ''atr_multiplier'' (lit 2) (lit 1) (lit 4) (lit (5/10)),
      real_param ''profit_atr_mult'' (lit 0) (lit 0) (lit 10) (lit 1),
      real_param ''min_carry_bps'' (lit 0) (lit 0) (lit 200) (lit 25)]"

definition CarryRunner_manage :: "CarryRunner \<Rightarrow> Candle \<Rightarrow> f64 \<Rightarrow> Signal option \<times> CarryRunner" where
  "CarryRunner_manage r c stopDist =
     (let price = ca_Close c; b = cy_base r in
      if br_CurrentSide b = ''BUY''
      then let r = (if Price_Compare price (cy_peakPrice r) > 0 then r\<lparr>cy_peakPrice := price\<rparr> else r)
           in if IsStopLossHit price (PriceFromFloat (Price_Float64 (cy_peakPrice r) - stopDist)) ''BUY''
              then (Some (exit_signal c ''SELL''), r\<lparr>cy_base := BaseRunner_ClosePosition b\<rparr>) else (None, r)
      else if br_CurrentSide b = ''SELL''
      then let r = (if Price_Compare price (cy_peakPrice r) < 0 then r\<lparr>cy_peakPrice := price\<rparr> else r)
           in if IsStopLossHit price (PriceFromFloat (Price_Float64 (cy_peakPrice r) + stopDist)) ''SELL''
              then (Some (exit_signal c ''BUY''), r\<lparr>cy_base := BaseRunner_ClosePosition b\<rparr>) else (None, r)
      else (None, r))"

definition CarryRunner_Evaluate :: "Lib \<Rightarrow> CarryRunner \<Rightarrow> Candle \<Rightarrow> int \<Rightarrow> Signal option \<times> CarryRunner" where
  "CarryRunner_Evaluate lib r c regime =
     (case mlookup fxCarryBps (ca_Symbol c) of None \<Rightarrow> (None, r)
      | Some carry \<Rightarrow>
        if carry > 0 \<and> carry < cy_MinCarryBps r then (None, r)
        else if carry < 0 \<and> - carry < cy_MinCarryBps r then (None, r)
        else let price = ca_Close c in
          if Price_IsZero price then (None, r)
          else let b = BaseRunner_PushPrice (cy_base r) price (ca_High c) (ca_Low c) (ca_Volume c);
                   r = r\<lparr>cy_base := b\<rparr>;
                   n = int (br_HistCount b)
               in if n < int64_of_float (cy_TrendPeriod r) + 2 then (None, r)
                  else let sma = SMA lib (BaseRunner_LinearPrices b n) n (int64_of_float (cy_TrendPeriod r));
                           atr = br_ATR b (int64_of_float (cy_AtrPeriod r));
                           (stopMult, profitMult) = BaseRunner_RegimeExitMults b regime;
                           stopDist = atr * cy_AtrMultiplier r * stopMult;
                           p = Price_Float64 price
                       in if br_PositionOpen b then CarryRunner_manage r c stopDist
                          else let r = r\<lparr>cy_peakPrice := price\<rparr>;
                                   target = stopDist * cy_ProfitATRMult r * profitMult
                               in if carry > 0 \<and> sma > 0 \<and> p > sma
                                  then (Some (enter_signal c ''BUY''), r\<lparr>cy_base := BaseRunner_OpenPosition b ''BUY'' price
                                    (PriceFromFloat (p - stopDist))
                                    (if cy_ProfitATRMult r > 0 then PriceFromFloat (p + target) else 0) (ca_Time c)\<rparr>)
                                  else if carry < 0 \<and> sma > 0 \<and> p < sma
                                  then (Some (enter_signal c ''SELL''), r\<lparr>cy_base := BaseRunner_OpenPosition b ''SELL'' price
                                    (PriceFromFloat (p + stopDist))
                                    (if cy_ProfitATRMult r > 0 then PriceFromFloat (p - target) else 0) (ca_Time c)\<rparr>)
                                  else (None, r))"

abbreviation carry_pos :: "CarryRunner \<Rightarrow> string option" where
  "carry_pos r \<equiv> br_pos (cy_base r)"

lemma carry_fits:
  "step_fits (carry_pos r) (fst (CarryRunner_Evaluate lib r c g), carry_pos (snd (CarryRunner_Evaluate lib r c g)))"
  by (cases "mlookup fxCarryBps (ca_Symbol c)")
    (simp_all add: CarryRunner_Evaluate_def CarryRunner_manage_def Let_def br_pos_def[of "cy_base r"] case_prod_beta)

interpretation carry: position_machine "CarryRunner_Evaluate lib" carry_pos for lib
  using carry_fits by unfold_locales (simp add: step_fits_def)

section \<open>DonchianBreakoutRunner\<close>

record DonchianBreakoutRunner =
  dc_base :: BaseRunner
  dc_ChannelPeriod :: f64
  dc_EntryBufferPct :: f64
  dc_AtrPeriod :: f64
  dc_AtrMultiplier :: f64
  dc_ProfitATRMult :: f64
  dc_MinRangePct :: f64
  dc_peakPrice :: price

definition NewDonchianBreakoutRunner :: DonchianBreakoutRunner where
  "NewDonchianBreakoutRunner = \<lparr>dc_base = NewBaseRunner 256, dc_ChannelPeriod = lit 20, dc_EntryBufferPct = lit (5/100),
     dc_AtrPeriod = lit 14, dc_AtrMultiplier = lit 2, dc_ProfitATRMult = lit 2, dc_MinRangePct = lit (5/10), dc_peakPrice = 0\<rparr>"

definition DonchianBreakoutRunner_Reset :: "DonchianBreakoutRunner \<Rightarrow> DonchianBreakoutRunner" where
  "DonchianBreakoutRunner_Reset r = r\<lparr>dc_base := BaseRunner_Reset (dc_base r), dc_peakPrice := 0\<rparr>"

definition DonchianBreakoutRunner_Params :: "DonchianBreakoutRunner \<Rightarrow> params" where
  "DonchianBreakoutRunner_Params r = [(''channel_period'', dc_ChannelPeriod r), (''entry_buffer_pct'', dc_EntryBufferPct r),
     (''atr_period'', dc_AtrPeriod r), (''atr_multiplier'', dc_AtrMultiplier r),
     (''profit_atr_mult'', dc_ProfitATRMult r), (''min_range_pct'', dc_MinRangePct r)]"

definition DonchianBreakoutRunner_SetParams :: "DonchianBreakoutRunner \<Rightarrow> params \<Rightarrow> DonchianBreakoutRunner" where
  "DonchianBreakoutRunner_SetParams r ps =
     (let r = on_param ps ''channel_period'' (\<lambda>v r. r\<lparr>dc_ChannelPeriod := v\<rparr>) r;
          r = on_param ps ''entry_buffer_pct'' (\<lambda>v r. r\<lparr>dc_EntryBufferPct := v\<rparr>) r;
          r = on_param ps ''atr_period'' (\<lambda>v r. r\<lparr>dc_AtrPeriod := v\<rparr>) r;
          r = on_param ps ''atr_multiplier'' (\<lambda>v r. r\<lparr>dc_AtrMultiplier := v\<rparr>) r;
          r = on_param ps ''profit_atr_mult'' (\<lambda>v r. r\<lparr>dc_ProfitATRMult := v\<rparr>) r
      in on_param ps ''min_range_pct'' (\<lambda>v r. r\<lparr>dc_MinRangePct := v\<rparr>) r)"

definition DonchianBreakoutRunner_ParamDefs :: "ParamDef list" where
  "DonchianBreakoutRunner_ParamDefs =
     [int_param ''channel_period'' (lit 20) (lit 10) (lit 60) (lit 5),
      real_param ''entry_buffer_pct'' (lit (5/100)) (lit 0) (lit (5/10)) (lit (5/100)),
      int_param ''atr_period'' (lit 14) (lit 7) (lit 28) (lit 7),
      real_param ''atr_multiplier'' (lit 2) (lit 1) (lit 4) (lit (5/10)),
      real_param ''profit_atr_mult'' (lit 2) (lit 1) (lit 5) (lit (5/10)),
      real_param ''min_range_pct'' (lit (2/10)) (lit (1/10)) (lit 3) (lit (1/10))]"

text \<open>The trailing stop and the exit of an open position of a channel strategy.\<close>

definition DonchianBreakoutRunner_manage ::
  "DonchianBreakoutRunner \<Rightarrow> Candle \<Rightarrow> f64 \<Rightarrow> f64 \<Rightarrow> f64 \<Rightarrow> Signal option \<times> DonchianBreakoutRunner" where
  "DonchianBreakoutRunner_manage r c atr upperDC lowerDC =
     (let price = ca_Close c; b = dc_base r; stopDist = atr * dc_AtrMultiplier r in
      if br_CurrentSide b = ''BUY''
      then let r = (if Price_Compare price (dc_peakPrice r) > 0 then r\<lparr>dc_peakPrice := price\<rparr> else r);
               trailingStop = PriceFromFloat (Price_Float64 (dc_peakPrice r) - stopDist);
               reversal = Price_Float64 price < lowerDC
           in if IsStopLossHit price trailingStop ''BUY'' \<or> reversal
              then (Some (exit_signal c ''SELL''), r\<lparr>dc_base := BaseRunner_ClosePosition b\<rparr>) else (None, r)
      else let r = (if Price_Compare price (dc_peakPrice r) < 0 then r\<lparr>dc_peakPrice := price\<rparr> else r);
               trailingStop = PriceFromFloat (Price_Float64 (dc_peakPrice r) + stopDist);
               reversal = Price_Float64 price > upperDC
           in if IsStopLossHit price trailingStop ''SELL'' \<or> reversal
              then (Some (exit_signal c ''BUY''), r\<lparr>dc_base := BaseRunner_ClosePosition b\<rparr>) else (None, r))"

definition DonchianBreakoutRunner_Evaluate ::
  "Lib \<Rightarrow> DonchianBreakoutRunner \<Rightarrow> Candle \<Rightarrow> int \<Rightarrow> Signal option \<times> DonchianBreakoutRunner" where
  "DonchianBreakoutRunner_Evaluate lib r c regime =
     (let price = ca_Close c in
      if Price_IsZero price then (None, r)
      else let b = BaseRunner_PushPrice (dc_base r) price (ca_High c) (ca_Low c) (ca_Volume c);
               r = r\<lparr>dc_base := b\<rparr>;
               n = int (br_HistCount b);
               period = int64_of_float (dc_ChannelPeriod r)
           in if n < period + 2 then (None, r)
              else let (upperDC, _, lowerDC) = DonchianChannel lib (BaseRunner_LinearPrices b n) n period
                   in if upperDC \<le> 0 \<or> lowerDC \<le> 0 then (None, r)
                      else let atr = br_ATR b (int64_of_float (dc_AtrPeriod r));
                               channelRange = (upperDC - lowerDC) / upperDC * lit 100
                           in if channelRange < dc_MinRangePct r then (None, r)
                              else if br_PositionOpen b then DonchianBreakoutRunner_manage r c atr upperDC lowerDC
                              else let entryBuffer = dc_EntryBufferPct r / lit 100;
                                       r = r\<lparr>dc_peakPrice := price\<rparr>;
                                       (stopMult, profitMult) = BaseRunner_RegimeExitMults b regime;
                                       stopDist = atr * dc_AtrMultiplier r * stopMult;
                                       profitDist = stopDist * dc_ProfitATRMult r * profitMult;
                                       p = Price_Float64 price
                                   in if p \<ge> upperDC * (1 + entryBuffer)
                                      then (Some (enter_signal c ''BUY''), r\<lparr>dc_base := BaseRunner_OpenPosition b ''BUY'' price
                                        (PriceFromFloat (p - stopDist)) (PriceFromFloat (p + profitDist)) (ca_Time c)\<rparr>)
                                      else if p \<le> lowerDC * (1 - entryBuffer)
                                      then (Some (enter_signal c ''SELL''), r\<lparr>dc_base := BaseRunner_OpenPosition b ''SELL'' price
                                        (PriceFromFloat (p + stopDist)) (PriceFromFloat (p - profitDist)) (ca_Time c)\<rparr>)
                                      else (None, r))"

abbreviation donchian_pos :: "DonchianBreakoutRunner \<Rightarrow> string option" where
  "donchian_pos r \<equiv> br_pos (dc_base r)"

lemma donchian_fits:
  "step_fits (donchian_pos r) (fst (DonchianBreakoutRunner_Evaluate lib r c g), donchian_pos (snd (DonchianBreakoutRunner_Evaluate lib r c g)))"
  by (simp add: DonchianBreakoutRunner_Evaluate_def DonchianBreakoutRunner_manage_def Let_def
      br_pos_def[of "dc_base r"] case_prod_beta)

interpretation donchian: position_machine "DonchianBreakoutRunner_Evaluate lib" donchian_pos for lib
  using donchian_fits by unfold_locales (simp add: step_fits_def)

section \<open>KeltnerMACDRunner\<close>

record KeltnerMACDRunner =
  kl_base :: BaseRunner
  kl_KeltnerPeriod :: f64
  kl_MacdRequirement :: bool
  kl_AtrMultiplier :: f64
  kl_ProfitATRMult :: f64
  kl_peakPrice :: price

definition NewKeltnerMACDRunner :: KeltnerMACDRunner where
  "NewKeltnerMACDRunner = \<lparr>kl_base = NewBaseRunner 256, kl_KeltnerPeriod = lit 20, kl_MacdRequirement = True,
     kl_AtrMultiplier = lit 2, kl_ProfitATRMult = lit 2, kl_peakPrice = 0\<rparr>"

definition KeltnerMACDRunner_Reset :: "KeltnerMACDRunner \<Rightarrow> KeltnerMACDRunner" where
  "KeltnerMACDRunner_Reset r = r\<lparr>kl_base := BaseRunner_Reset (kl_base r), kl_peakPrice := 0\<rparr>"

definition KeltnerMACDRunner_Params :: "KeltnerMACDRunner \<Rightarrow> params" where
  "KeltnerMACDRunner_Params r = [(''keltner_period'', kl_KeltnerPeriod r),
     (''macd_requirement'', boolToFloat (kl_MacdRequirement r)), (''atr_multiplier'', kl_AtrMultiplier r),
     (''profit_atr_mult'', kl_ProfitATRMult r)]"

definition KeltnerMACDRunner_SetParams :: "KeltnerMACDRunner \<Rightarrow> params \<Rightarrow> KeltnerMACDRunner" where
  "KeltnerMACDRunner_SetParams r ps =
     (let r = on_param ps ''keltner_period'' (\<lambda>v r. r\<lparr>kl_KeltnerPeriod := v\<rparr>) r;
          r = on_param ps ''macd_requirement'' (\<lambda>v r. r\<lparr>kl_MacdRequirement := (v \<ge> lit (5/10))\<rparr>) r;
          r = on_param ps ''atr_multiplier'' (\<lambda>v r. r\<lparr>kl_AtrMultiplier := v\<rparr>) r
      in on_param ps ''profit_atr_mult'' (\<lambda>v r. r\<lparr>kl_ProfitATRMult := v\<rparr>) r)"

definition KeltnerMACDRunner_ParamDefs :: "ParamDef list" where
  "KeltnerMACDRunner_ParamDefs =
     [int_param ''keltner_period'' (lit 20) (lit 10) (lit 50) (lit 5),
      int_param ''macd_requirement'' (lit 1) (lit 0) (lit 1) (lit 1),
      real_param ''atr_multiplier'' (lit 2) (lit 1) (lit 4) (lit (5/10)),
      real_param ''profit_atr_mult'' (lit 2) (lit 1) (lit 5) (lit (5/10))]"

definition KeltnerMACDRunner_manage ::
  "KeltnerMACDRunner \<Rightarrow> Candle \<Rightarrow> f64 \<Rightarrow> bool \<Rightarrow> Signal option \<times> KeltnerMACDRunner" where
  "KeltnerMACDRunner_manage r c atr macdBullish =
     (let price = ca_Close c; b = kl_base r; stopDist = atr * kl_AtrMultiplier r in
      if br_CurrentSide b = ''BUY''
      then let r = (if Price_Compare price (kl_peakPrice r) > 0 then r\<lparr>kl_peakPrice := price\<rparr> else r);
               trailingStop = PriceFromFloat (Price_Float64 (kl_peakPrice r) - stopDist);
               macdFlip = kl_MacdRequirement r \<and> \<not> macdBullish
           in if IsStopLossHit price trailingStop ''BUY'' \<or> macdFlip
              then (Some (exit_signal c ''SELL''), r\<lparr>kl_base := BaseRunner_ClosePosition b\<rparr>) else (None, r)
      else let r = (if Price_Compare price (kl_peakPrice r) < 0 then r\<lparr>kl_peakPrice := price\<rparr> else r);
               trailingStop = PriceFromFloat (Price_Float64 (kl_peakPrice r) + stopDist);
               macdFlip = kl_MacdRequirement r \<and> macdBullish
           in if IsStopLossHit price trailingStop ''SELL'' \<or> macdFlip
              then (Some (exit_signal c ''BUY''), r\<lparr>kl_base := BaseRunner_ClosePosition b\<rparr>) else (None, r))"

definition KeltnerMACDRunner_Evaluate ::
  "Lib \<Rightarrow> KeltnerMACDRunner \<Rightarrow> Candle \<Rightarrow> int \<Rightarrow> Signal option \<times> KeltnerMACDRunner" where
  "KeltnerMACDRunner_Evaluate lib r c regime =
     (let price = ca_Close c in
      if Price_IsZero price then (None, r)
      else let b = BaseRunner_PushPrice (kl_base r) price (ca_High c) (ca_Low c) (ca_Volume c);
               r = r\<lparr>kl_base := b\<rparr>;
               n = int (br_HistCount b);
               period = int64_of_float (kl_KeltnerPeriod r)
           in if n < period + 5 then (None, r)
              else let (upperKC, middleKC, lowerKC) = KeltnerChannel lib (BaseRunner_LinearHighs b n)
                         (BaseRunner_LinearLows b n) (BaseRunner_LinearPrices b n) n period
                   in if upperKC \<le> 0 \<or> middleKC \<le> 0 \<or> lowerKC \<le> 0 then (None, r)
                      else let atr = br_ATR b period;
                               (macdLine, signalLine) = MACD lib (BaseRunner_LinearPrices b n) n;
                               macdBullish = macdLine > signalLine
                           in if br_PositionOpen b then KeltnerMACDRunner_manage r c atr macdBullish
                              else let r = r\<lparr>kl_peakPrice := price\<rparr>;
                                       (stopMult, profitMult) = BaseRunner_RegimeExitMults b regime;
                                       stopDist = atr * kl_AtrMultiplier r * stopMult;
                                       profitDist = stopDist * kl_ProfitATRMult r * profitMult;
                                       p = Price_Float64 price
                                   in if p > upperKC
                                      then (if kl_MacdRequirement r \<and> \<not> macdBullish then (None, r)
                                        else (Some (enter_signal c ''BUY''), r\<lparr>kl_base := BaseRunner_OpenPosition b ''BUY'' price
                                          (PriceFromFloat (p - stopDist)) (PriceFromFloat (p + profitDist)) (ca_Time c)\<rparr>))
                                      else if p < lowerKC
                                      then (if kl_MacdRequirement r \<and> macdBullish then (None, r)
                                        else (Some (enter_signal c ''SELL''), r\<lparr>kl_base := BaseRunner_OpenPosition b ''SELL'' price
                                          (PriceFromFloat (p + stopDist)) (PriceFromFloat (p - profitDist)) (ca_Time c)\<rparr>))
                                      else (None, r))"

abbreviation keltner_pos :: "KeltnerMACDRunner \<Rightarrow> string option" where
  "keltner_pos r \<equiv> br_pos (kl_base r)"

lemma keltner_fits:
  "step_fits (keltner_pos r) (fst (KeltnerMACDRunner_Evaluate lib r c g), keltner_pos (snd (KeltnerMACDRunner_Evaluate lib r c g)))"
  by (simp add: KeltnerMACDRunner_Evaluate_def KeltnerMACDRunner_manage_def Let_def
      br_pos_def[of "kl_base r"] case_prod_beta)

interpretation keltner: position_machine "KeltnerMACDRunner_Evaluate lib" keltner_pos for lib
  using keltner_fits by unfold_locales (simp add: step_fits_def)

section \<open>The breakout that cannot happen\<close>

text \<open>
  What the package documents of its Donchian channel: the upper and the lower band of a bar are
  the greatest and the least of the last \<open>period\<close> closing prices, that of the bar included.
\<close>

definition channel_bounds :: "Lib \<Rightarrow> bool" where
  "channel_bounds lib \<longleftrightarrow> (\<forall>period xs. 0 < period \<and> period \<le> int (length xs) \<and> FNaN \<notin> set xs \<longrightarrow>
     (case il_DonchianChannel lib period xs of (u, m, l) \<Rightarrow> u \<noteq> [] \<longrightarrow>
        (\<forall>x \<in> set (last_n (nat period) xs). x \<le> last u \<and> last l \<le> x)))"

lemma last_in_last_n: "xs \<noteq> [] \<Longrightarrow> 0 < n \<Longrightarrow> last xs \<in> set (last_n n xs)"
  unfolding last_n_def by (metis diff_less last_drop last_in_set drop_eq_Nil length_greater_0_conv not_le)

lemma channel_around_price:
  assumes "channel_bounds lib" "br_holds b xs" "xs \<noteq> []" "period \<le> int (br_HistCount b)"
    and "DonchianChannel lib (BaseRunner_LinearPrices b (int (br_HistCount b))) (int (br_HistCount b)) period = (u, m, l)"
    and "\<not> u \<le> 0" "\<forall>x \<in> set xs. st_price x \<noteq> FNaN"
  shows "st_price (last xs) \<le> u \<and> l \<le> st_price (last xs)"
proof -
  define ys where "ys = BaseRunner_LinearPrices b (int (br_HistCount b))"
  have h: "br_HistCount b = min (length xs) (br_BufferSize b)" "0 < br_BufferSize b"
    using assms(2) by (auto simp: br_holds_def ring_holds_def)
  have ys: "ys = map st_price (last_n (br_HistCount b) xs)"
    using ring_holds_window[of _ _ _ _ "map st_price xs"] assms(2) h
    by (simp add: ys_def BaseRunner_LinearPrices_def br_holds_def last_n_map)
  have len: "length ys = br_HistCount b" using h by (simp add: ys last_n_def)
  have pos: "0 < br_HistCount b" using h assms(3) by simp
  have last: "last ys = st_price (last xs)"
  proof -
    have "length (last_n (br_HistCount b) xs) = br_HistCount b" using h by (simp add: last_n_def)
    then have "last_n (br_HistCount b) xs \<noteq> []" using pos by force
    moreover have "last (last_n (br_HistCount b) xs) = last xs" using calculation by (simp add: last_n_def)
    ultimately show ?thesis by (simp add: ys last_map)
  qed
  have p: "0 < period" and d: "valid_part ys (int (br_HistCount b)) = ys"
    using assms(5,6) len by (auto simp: DonchianChannel_def ys_def[symmetric] valid_part_def split: if_splits)
  obtain us ms ls where c: "il_DonchianChannel lib period ys = (us, ms, ls)" by (metis prod_cases3)
  have uls: "us \<noteq> []" "u = last us" "l = last ls"
    using assms(5,6) by (auto simp: DonchianChannel_def ys_def[symmetric] d c split: if_splits)
  have "last ys \<in> set (last_n (nat period) ys)" using last_in_last_n[of ys "nat period"] p pos len by force
  moreover have "set (last_n (br_HistCount b) xs) \<subseteq> set xs" by (simp add: last_n_def set_drop_subset)
  then have "\<forall>x \<in> set (last_n (br_HistCount b) xs). st_price x \<noteq> FNaN" using assms(7) by blast
  then have "FNaN \<notin> set ys" unfolding ys by (metis imageE list.set_map)
  then have q: "0 < period \<and> period \<le> int (length ys) \<and> FNaN \<notin> set ys" using p assms(4) len by simp
  have "case il_DonchianChannel lib period ys of (u, m, l) \<Rightarrow> u \<noteq> [] \<longrightarrow>
      (\<forall>x \<in> set (last_n (nat period) ys). x \<le> last u \<and> last l \<le> x)"
    using assms(1)[unfolded channel_bounds_def, THEN spec, THEN spec, THEN mp, OF q] .
  then have "\<forall>x \<in> set (last_n (nat period) ys). x \<le> last us \<and> last ls \<le> x" using uls(1) by (simp add: c)
  ultimately show ?thesis unfolding uls(2,3) last[symmetric] by blast
qed

text \<open>Scaling a price by more than a twentieth of a percent moves it beyond rounding.\<close>

lemma rnd_within:
  assumes "0 < y" "y \<le> 1125899906842624"
  shows "y - y / 1000000000 - 1 / 1000000000000000 \<le> fval (rnd y)" "fval (rnd y) \<le> y + y / 1000000000 + 1 / 1000000000000000" "is_fin (rnd y)"
proof -
  have n: "near (rnd y) y (y / 2 ^ 53 + 1 / 2 ^ 60)" using assms by (intro rnd_error_pos) simp_all
  have "y / 2 ^ 53 + 1 / 2 ^ 60 \<le> y / 1000000000 + 1 / 1000000000000000"
    using assms(1) by (intro add_mono divide_left_mono) simp_all
  then show "y - y / 1000000000 - 1 / 1000000000000000 \<le> fval (rnd y)" "fval (rnd y) \<le> y + y / 1000000000 + 1 / 1000000000000000"
    using near_bounds(1)[OF n] near_bounds(2)[OF n] by linarith+
  show "is_fin (rnd y)" by (rule near_fin[OF n])
qed

lemma price_scaled:
  assumes "1 \<le> q" "q \<le> 2 ^ 47" "is_fin c"
  shows "1 + 1 / 20000 \<le> fval c \<Longrightarrow> fval c \<le> 2 \<Longrightarrow> Price_Float64 q < Price_Float64 q * c"
    and "fval c \<le> 1 - 1 / 20000 \<Longrightarrow> 1 / 4 \<le> fval c \<Longrightarrow> Price_Float64 q * c < Price_Float64 q"
proof -
  have w: "wide_price q" "is_fin (Price_Float64 q)" using assms(1,2) by (simp_all add: wide_price_def)
  define x where "x = fval (Price_Float64 q)"
  have "rat_of_int q \<le> of_int (2 ^ 47)" using assms(2) by (simp only: of_int_le_iff)
  moreover have "1 \<le> rat_of_int q" using assms(1) by simp
  ultimately have x: "1 / 200000 \<le> x" "x \<le> 1099511627776"
    using near_bounds[OF near_price[OF w(1)]] price_err_small unfolding x_def by (simp_all add: field_simps)
  have m: "feqv (Price_Float64 q * c) (rnd (x * fval c))" using mul_feqv[OF w(2) assms(3)] by (simp add: x_def)

  have less: "Price_Float64 q < Price_Float64 q * c \<longleftrightarrow> x < fval (rnd (x * fval c))"
    "Price_Float64 q * c < Price_Float64 q \<longleftrightarrow> fval (rnd (x * fval c)) < x"
    if "is_fin (rnd (x * fval c))"
    using that w(2) m by (simp_all add: fin_less feqv_is_fin feqv_fval x_def)
  show "Price_Float64 q < Price_Float64 q * c" if c: "1 + 1 / 20000 \<le> fval c" "fval c \<le> 2"
  proof -
    have y: "x + x / 20000 \<le> x * fval c" "x * fval c \<le> 2 * x"
      using c x mult_left_mono[of "1 + 1 / 20000" "fval c" x] mult_left_mono[of "fval c" 2 x] by (simp_all add: algebra_simps)
    have yb: "0 < x * fval c" "x * fval c \<le> 1125899906842624" using y x by linarith+
    note r = rnd_within(1,3)[OF yb]
    have "x < fval (rnd (x * fval c))" using r(1) y x by linarith
    then show ?thesis using less(1)[OF r(2)] by simp
  qed
  show "Price_Float64 q * c < Price_Float64 q" if c: "fval c \<le> 1 - 1 / 20000" "1 / 4 \<le> fval c"
  proof -
    have y: "x * fval c \<le> x - x / 20000" "x / 4 \<le> x * fval c"
      using c x mult_left_mono[of "fval c" "1 - 1 / 20000" x] mult_left_mono[of "1 / 4" "fval c" x]
      by (simp_all add: algebra_simps)
    have yb: "0 < x * fval c" "x * fval c \<le> 1125899906842624" using y x by linarith+
    note r = rnd_within(2,3)[OF yb]
    have "fval (rnd (x * fval c)) < x" using r(1) y x by linarith
    then show ?thesis using less(2)[OF r(2)] by simp
  qed
qed

lemma buffer_bounds:
  assumes "lit (1 / 100) \<le> pct" "pct \<le> lit 50"
  shows "is_fin (1 + pct / lit 100) \<and> 1 + 1 / 20000 \<le> fval (1 + pct / lit 100) \<and> fval (1 + pct / lit 100) \<le> 2"
    and "is_fin (1 - pct / lit 100) \<and> fval (1 - pct / lit 100) \<le> 1 - 1 / 20000 \<and> 1 / 4 \<le> fval (1 - pct / lit 100)"
proof -
  have h: "lit 100 = Fin 100" by (simp add: f64_eval)
  have "lit (1 / 100) / Fin 100 \<le> pct / Fin 100" "pct / Fin 100 \<le> lit 50 / Fin 100"
    using assms by (auto intro!: f64_div_mono)
  moreover have "Fin (1 / 11000) \<le> lit (1 / 100) / Fin 100" "lit 50 / Fin 100 \<le> Fin (1 / 2)" by (simp_all add: f64_eval)
  ultimately have "Fin (1 / 11000) \<le> pct / Fin 100" "pct / Fin 100 \<le> Fin (1 / 2)" using f64_le_trans by blast+
  then have d: "is_fin (pct / Fin 100)" "1 / 11000 \<le> fval (pct / Fin 100)" "fval (pct / Fin 100) \<le> 1 / 2"
    using f64_le_fin by blast+
  define z where "z = fval (pct / Fin 100)"

  have a: "feqv (1 + pct / Fin 100) (rnd (1 + z))" using add_feqv[of 1 "pct / Fin 100"] d(1) by (simp add: z_def)
  have b: "feqv (1 - pct / Fin 100) (rnd (1 - z))" using sub_feqv[of 1 "pct / Fin 100"] d(1) by (simp add: z_def)
  have z: "1 / 11000 \<le> z" "z \<le> 1 / 2" using d(2,3) by (simp_all add: z_def)
  have r: "1 + z - (1 + z) / 1000000000 - 1 / 1000000000000000 \<le> fval (rnd (1 + z))"
      "fval (rnd (1 + z)) \<le> 1 + z + (1 + z) / 1000000000 + 1 / 1000000000000000" "is_fin (rnd (1 + z))"
    using rnd_within[of "1 + z"] z by linarith+
  show "is_fin (1 + pct / lit 100) \<and> 1 + 1 / 20000 \<le> fval (1 + pct / lit 100) \<and> fval (1 + pct / lit 100) \<le> 2"
    unfolding h feqv_fval[OF a] using feqv_is_fin[OF a] r z by (auto simp: field_simps)
  show "is_fin (1 - pct / lit 100) \<and> fval (1 - pct / lit 100) \<le> 1 - 1 / 20000 \<and> 1 / 4 \<le> fval (1 - pct / lit 100)"
  proof -
    have s: "1 - z - (1 - z) / 1000000000 - 1 / 1000000000000000 \<le> fval (rnd (1 - z))"
        "fval (rnd (1 - z)) \<le> 1 - z + (1 - z) / 1000000000 + 1 / 1000000000000000" "is_fin (rnd (1 - z))"
      using rnd_within[of "1 - z"] z by linarith+
    show ?thesis unfolding h feqv_fval[OF b] using feqv_is_fin[OF b] s z by (auto simp: field_simps)
  qed
qed

definition donchian_flat :: "DonchianBreakoutRunner \<Rightarrow> bool" where
  "donchian_flat r \<longleftrightarrow> (\<exists>xs. br_holds (dc_base r) xs \<and> (\<forall>x \<in> set xs. st_price x \<noteq> FNaN)) \<and> donchian_pos r = None \<and>
     lit (1 / 100) \<le> dc_EntryBufferPct r \<and> dc_EntryBufferPct r \<le> lit 50"

lemma no_breakout:
  assumes "1 \<le> q" "q \<le> 2 ^ 47" "lit (1 / 100) \<le> pct" "pct \<le> lit 50"
  shows "Price_Float64 q \<le> u \<Longrightarrow> \<not> u * (1 + pct / lit 100) \<le> Price_Float64 q"
    and "l \<le> Price_Float64 q \<Longrightarrow> \<not> Price_Float64 q \<le> l * (1 - pct / lit 100)"
proof -
  note b = buffer_bounds[OF assms(3,4)]
  show "\<not> u * (1 + pct / lit 100) \<le> Price_Float64 q" if "Price_Float64 q \<le> u"
  proof -
    have "Price_Float64 q * (1 + pct / lit 100) \<le> u * (1 + pct / lit 100)" using that b(1) by (intro f64_mul_mono) simp_all
    moreover have "Price_Float64 q < Price_Float64 q * (1 + pct / lit 100)"
      using price_scaled(1)[OF assms(1,2)] b(1) by blast
    ultimately show ?thesis using f64_less_le_trans f64_less_not_le by blast
  qed
  show "\<not> Price_Float64 q \<le> l * (1 - pct / lit 100)" if "l \<le> Price_Float64 q"
  proof -
    have "l * (1 - pct / lit 100) \<le> Price_Float64 q * (1 - pct / lit 100)" using that b(2) by (intro f64_mul_mono) simp_all
    moreover have "Price_Float64 q * (1 - pct / lit 100) < Price_Float64 q"
      using price_scaled(2)[OF assms(1,2)] b(2) by blast
    ultimately show ?thesis using f64_le_less_trans f64_less_not_le by blast
  qed
qed

lemma donchian_flat_step:
  assumes "donchian_flat r" "channel_bounds lib" "1 \<le> ca_Close c" "ca_Close c \<le> 2 ^ 47"
  shows "fst (DonchianBreakoutRunner_Evaluate lib r c g) = None \<and> donchian_flat (snd (DonchianBreakoutRunner_Evaluate lib r c g))"
proof -
  define q where "q = ca_Close c"
  define b where "b = BaseRunner_PushPrice (dc_base r) q (ca_High c) (ca_Low c) (ca_Volume c)"
  define v where "v = (Price_Float64 q, Price_Float64 (ca_High c), Price_Float64 (ca_Low c), ca_Volume c)"
  obtain xs where xs: "br_holds (dc_base r) xs" and fin: "\<forall>x \<in> set xs. st_price x \<noteq> FNaN" using assms(1) by (auto simp: donchian_flat_def)
  have "go_finite (Price_Float64 q)"
    using assms(3,4) by (simp add: go_finite_def wide_price_def is_nan_def q_def)
  then have b: "br_holds b (xs @ [v])"
    using br_holds_push[OF xs, of "(q, ca_High c, ca_Low c, ca_Volume c)"]
    by (simp add: br_push_def stored_of_def b_def v_def)
  have flat: "\<not> br_PositionOpen b" using assms(1) by (simp add: b_def donchian_flat_def br_pos_def split: if_splits)
  have keep: "donchian_flat (r\<lparr>dc_base := b\<rparr>)" "donchian_flat (r\<lparr>dc_base := b, dc_peakPrice := q\<rparr>)"
    using assms(1) b flat fin by (auto simp: donchian_flat_def br_pos_def v_def st_price_def intro!: exI[of _ "xs @ [v]"])
  have pct: "lit (1 / 100) \<le> dc_EntryBufferPct r" "dc_EntryBufferPct r \<le> lit 50"
    using assms(1) by (simp_all add: donchian_flat_def)
  have no: "\<not> u * (1 + dc_EntryBufferPct r / lit 100) \<le> Price_Float64 q \<and> \<not> Price_Float64 q \<le> l * (1 - dc_EntryBufferPct r / lit 100)"
    if "DonchianChannel lib (BaseRunner_LinearPrices b (int (br_HistCount b))) (int (br_HistCount b))
        (int64_of_float (dc_ChannelPeriod r)) = (u, m, l)" "\<not> u \<le> 0"
      "\<not> int (br_HistCount b) < int64_of_float (dc_ChannelPeriod r) + 2" for u m l
    using channel_around_price[OF assms(2) b, of "int64_of_float (dc_ChannelPeriod r)" u m l] that
      no_breakout(1)[OF assms(3,4) pct, folded q_def, of u] no_breakout(2)[OF assms(3,4) pct, folded q_def, of l] fin
    by (simp add: v_def st_price_def)
  have z: "\<not> Price_IsZero q" using assms(3) by (simp add: Price_IsZero_def q_def)
  obtain u m l where ch: "DonchianChannel lib (BaseRunner_LinearPrices b (int (br_HistCount b))) (int (br_HistCount b))
      (int64_of_float (dc_ChannelPeriod r)) = (u, m, l)" by (metis prod_cases3)
  show ?thesis
    using keep no[OF ch] flat z
    by (simp add: DonchianBreakoutRunner_Evaluate_def Let_def q_def[symmetric] b_def[symmetric] ch case_prod_beta)
qed

lemma donchian_flat_run:
  "donchian_flat r \<Longrightarrow> channel_bounds lib \<Longrightarrow> \<forall>(c, g) \<in> set bars. 1 \<le> ca_Close c \<and> ca_Close c \<le> 2 ^ 47 \<Longrightarrow>
    fst (donchian.signals lib r bars) = []"
proof (induction bars arbitrary: r)
  case (Cons x bars)
  obtain c g where x: "x = (c, g)" by force
  obtain o' r' where e: "DonchianBreakoutRunner_Evaluate lib r c g = (o', r')" by force
  have "o' = None" "donchian_flat r'" using donchian_flat_step[OF Cons.prems(1,2), of c g] Cons.prems(3) by (auto simp: x e)
  then show ?case using Cons.IH[of r'] Cons.prems(2,3) by (simp add: x e case_prod_beta)
qed simp

text \<open>The channel breakout never trades. The library documents that the channel of a bar contains
  the close of that bar (\<open>channel_bounds\<close>), so the close is never beyond it by the entry buffer: a new
  runner, with its default parameters, emits no signal whatever the candles and regimes are, for
  closes from 1 to \<open>2^47\<close> raw units.\<close>

theorem donchian_never_trades:
  assumes "channel_bounds lib" "\<forall>(c, g) \<in> set bars. 1 \<le> ca_Close c \<and> ca_Close c \<le> 2 ^ 47"
  shows "fst (donchian.signals lib NewDonchianBreakoutRunner bars) = []"
proof -
  have "donchian_flat NewDonchianBreakoutRunner"
    using br_holds_New[of 256]
    by (auto simp: donchian_flat_def NewDonchianBreakoutRunner_def br_pos_def NewBaseRunner_def f64_eval intro!: exI[of _ "[]"])
  then show ?thesis using assms by (rule donchian_flat_run)
qed

text \<open>A library with the documented channel, and a price that doubles every bar.\<close>

definition max_list :: "f64 list \<Rightarrow> f64" where "max_list xs = foldl (\<lambda>m x. if m < x then x else m) FNegInf xs"
definition min_list :: "f64 list \<Rightarrow> f64" where "min_list xs = foldl (\<lambda>m x. if x < m then x else m) FPosInf xs"

lemma max_list_aux:
  "m \<noteq> FNaN \<Longrightarrow> FNaN \<notin> set xs \<Longrightarrow>
    (\<forall>x \<in> insert m (set xs). x \<le> foldl (\<lambda>m x. if m < x then x else m) m xs) \<and>
    foldl (\<lambda>m x. if m < x then x else m) m xs \<noteq> FNaN"
proof (induction xs arbitrary: m)
  case (Cons y xs)
  have "(if m < y then y else m) \<noteq> FNaN" "m \<le> (if m < y then y else m)" "y \<le> (if m < y then y else m)"
    using Cons.prems f64_not_less[of m y] by (auto simp: f64_less_imp_le)
  with Cons.IH[of "if m < y then y else m"] Cons.prems show ?case by (auto intro: f64_le_trans)
qed simp

lemma min_list_aux:
  "m \<noteq> FNaN \<Longrightarrow> FNaN \<notin> set xs \<Longrightarrow>
    (\<forall>x \<in> insert m (set xs). foldl (\<lambda>m x. if x < m then x else m) m xs \<le> x) \<and>
    foldl (\<lambda>m x. if x < m then x else m) m xs \<noteq> FNaN"
proof (induction xs arbitrary: m)
  case (Cons y xs)
  have "(if y < m then y else m) \<noteq> FNaN" "(if y < m then y else m) \<le> m" "(if y < m then y else m) \<le> y"
    using Cons.prems f64_not_less[of y m] by (auto simp: f64_less_imp_le)
  with Cons.IH[of "if y < m then y else m"] Cons.prems show ?case by (auto intro: f64_le_trans)
qed simp

definition channel_lib :: Lib where
  "channel_lib = no_lib\<lparr>il_DonchianChannel := \<lambda>period xs.
     ([max_list (last_n (nat period) xs)], [0], [min_list (last_n (nat period) xs)])\<rparr>"

lemma channel_lib_bounds: "channel_bounds channel_lib"
proof -
  have "set (last_n n xs) \<subseteq> set xs" for n and xs :: "f64 list" by (simp add: last_n_def set_drop_subset)
  then have "FNaN \<notin> set (last_n n xs)" if "FNaN \<notin> set xs" for n xs using that by blast
  then show ?thesis
    using max_list_aux[of FNegInf] min_list_aux[of FPosInf]
    by (auto simp: channel_bounds_def channel_lib_def max_list_def min_list_def)
qed

definition rising :: "(Candle \<times> int) list" where
  "rising = map (\<lambda>k. (dollar_bar (int k) (2 ^ k), 1)) [0..<25]"

lemma donchian_never_trades_witness:
  "channel_bounds channel_lib \<and> fst (donchian.signals channel_lib NewDonchianBreakoutRunner rising) = []"
proof
  show "channel_bounds channel_lib" by (rule channel_lib_bounds)
  show "fst (donchian.signals channel_lib NewDonchianBreakoutRunner rising) = []"
    by (rule donchian_never_trades[OF channel_lib_bounds]) (simp add: rising_def dollar_bar_def upt_rec)
qed

end
