(* ===== verification/Crossings.thy ===== *)
theory Crossings
  imports StrategyKit
begin

text \<open>
  The strategies on crossing lines, \<open>internal/strategy/ma_crossover_runner.go\<close>,
  \<open>ichimoku_runner.go\<close> and \<open>dragon_trend_runner.go\<close>: state, parameters, \<open>Evaluate\<close> and the proof
  that each keeps the contract of one position.
\<close>

section \<open>MACrossoverRunner\<close>

record MACrossoverRunner =
  mc_base :: BaseRunner
  mc_FastPeriod :: f64
  mc_SlowPeriod :: f64
  mc_RsiPeriod :: f64
  mc_RsiOverbought :: f64
  mc_RsiOversold :: f64
  mc_UseRsiFilter :: bool
  mc_UseMacdFilter :: bool
  mc_UseBollExit :: bool
  mc_AtrPeriod :: f64
  mc_AtrMultiplier :: f64
  mc_prevFast :: f64
  mc_prevSlow :: f64

definition NewMACrossoverRunner :: MACrossoverRunner where
  "NewMACrossoverRunner = \<lparr>mc_base = NewBaseRunner 256, mc_FastPeriod = lit 9, mc_SlowPeriod = lit 21,
     mc_RsiPeriod = lit 14, mc_RsiOverbought = lit 70, mc_RsiOversold = lit 30, mc_UseRsiFilter = True,
     mc_UseMacdFilter = True, mc_UseBollExit = True, mc_AtrPeriod = lit 14, mc_AtrMultiplier = lit 2,
     mc_prevFast = 0, mc_prevSlow = 0\<rparr>"

definition MACrossoverRunner_Reset :: "MACrossoverRunner \<Rightarrow> MACrossoverRunner" where
  "MACrossoverRunner_Reset r = r\<lparr>mc_base := BaseRunner_Reset (mc_base r), mc_prevFast := 0, mc_prevSlow := 0\<rparr>"

definition MACrossoverRunner_Params :: "MACrossoverRunner \<Rightarrow> params" where
  "MACrossoverRunner_Params r = [(''fast_period'', mc_FastPeriod r), (''slow_period'', mc_SlowPeriod r),
     (''rsi_period'', mc_RsiPeriod r), (''rsi_overbought'', mc_RsiOverbought r), (''rsi_oversold'', mc_RsiOversold r),
     (''atr_period'', mc_AtrPeriod r), (''atr_multiplier'', mc_AtrMultiplier r),
     (''use_rsi_filter'', boolToFloat (mc_UseRsiFilter r)), (''use_macd_filter'', boolToFloat (mc_UseMacdFilter r)),
     (''use_boll_exit'', boolToFloat (mc_UseBollExit r))]"

definition MACrossoverRunner_SetParams :: "MACrossoverRunner \<Rightarrow> params \<Rightarrow> MACrossoverRunner" where
  "MACrossoverRunner_SetParams r ps =
     (let r = on_param ps ''fast_period'' (\<lambda>v r. r\<lparr>mc_FastPeriod := v\<rparr>) r;
          r = on_param ps ''slow_period'' (\<lambda>v r. r\<lparr>mc_SlowPeriod := v\<rparr>) r;
          r = on_param ps ''rsi_period'' (\<lambda>v r. r\<lparr>mc_RsiPeriod := v\<rparr>) r;
          r = on_param ps ''rsi_overbought'' (\<lambda>v r. r\<lparr>mc_RsiOverbought := v\<rparr>) r;
          r = on_param ps ''rsi_oversold'' (\<lambda>v r. r\<lparr>mc_RsiOversold := v\<rparr>) r;
          r = on_param ps ''atr_period'' (\<lambda>v r. r\<lparr>mc_AtrPeriod := v\<rparr>) r;
          r = on_param ps ''atr_multiplier'' (\<lambda>v r. r\<lparr>mc_AtrMultiplier := v\<rparr>) r;
          r = on_param ps ''use_rsi_filter'' (\<lambda>v r. r\<lparr>mc_UseRsiFilter := (v \<ge> lit (5/10))\<rparr>) r;
          r = on_param ps ''use_macd_filter'' (\<lambda>v r. r\<lparr>mc_UseMacdFilter := (v \<ge> lit (5/10))\<rparr>) r
      in on_param ps ''use_boll_exit'' (\<lambda>v r. r\<lparr>mc_UseBollExit := (v \<ge> lit (5/10))\<rparr>) r)"

definition MACrossoverRunner_ParamDefs :: "ParamDef list" where
  "MACrossoverRunner_ParamDefs =
     [int_param ''fast_period'' (lit 9) (lit 3) (lit 30) (lit 3),
      int_param ''slow_period'' (lit 21) (lit 10) (lit 100) (lit 5),
      int_param ''rsi_period'' (lit 14) (lit 5) (lit 30) (lit 1),
      real_param ''rsi_overbought'' (lit 70) (lit 60) (lit 85) (lit 5),
      real_param ''rsi_oversold'' (lit 30) (lit 15) (lit 40) (lit 5),
      int_param ''atr_period'' (lit 14) (lit 7) (lit 28) (lit 7),
      real_param ''atr_multiplier'' (lit 2) (lit 1) (lit 4) (lit (5/10)),
      int_param ''use_rsi_filter'' (lit 1) (lit 0) (lit 1) (lit 1),
      int_param ''use_macd_filter'' (lit 1) (lit 0) (lit 1) (lit 1),
      int_param ''use_boll_exit'' (lit 1) (lit 0) (lit 1) (lit 1)]"

definition MACrossoverRunner_fastPeriod :: "MACrossoverRunner \<Rightarrow> int" where
  "MACrossoverRunner_fastPeriod r = (let p = int64_of_float (mc_FastPeriod r) in if p \<le> 0 then 9 else p)"

definition MACrossoverRunner_slowPeriod :: "MACrossoverRunner \<Rightarrow> int" where
  "MACrossoverRunner_slowPeriod r = (let p = int64_of_float (mc_SlowPeriod r) in if p \<le> 0 then 21 else p)"

definition MACrossoverRunner_update :: "Lib \<Rightarrow> MACrossoverRunner \<Rightarrow> BaseRunner \<Rightarrow> MACrossoverRunner" where
  "MACrossoverRunner_update lib r b =
     (let n = int (br_HistCount b) in
      r\<lparr>mc_base := b, mc_prevFast := EMA lib (BaseRunner_LinearPrices b n) n (MACrossoverRunner_fastPeriod r),
        mc_prevSlow := EMA lib (BaseRunner_LinearPrices b n) n (MACrossoverRunner_slowPeriod r)\<rparr>)"

definition MACrossoverRunner_manage ::
  "Lib \<Rightarrow> MACrossoverRunner \<Rightarrow> Candle \<Rightarrow> f64 \<Rightarrow> f64 \<Rightarrow> Signal option \<times> MACrossoverRunner" where
  "MACrossoverRunner_manage lib r c fast slow =
     (let price = ca_Close c; b = mc_base r; n = int (br_HistCount b); p = Price_Float64 price;
          atr = br_ATR b (int64_of_float (mc_AtrPeriod r));
          stopDist = atr * mc_AtrMultiplier r;
          (upperBB, _, lowerBB) = BollingerBands lib (BaseRunner_LinearPrices b n) n
      in if br_CurrentSide b = ''BUY''
         then let trailingStop = PriceFromFloat (p - stopDist);
                  exhaustion = (mc_UseBollExit r \<and> p < lowerBB \<and> lowerBB > 0);
                  crossDown = (fast > 0 \<and> slow > 0 \<and> fast < slow)
              in if IsStopLossHit price trailingStop ''BUY'' \<or> crossDown \<or> exhaustion
                 then (Some (exit_signal c ''SELL''), r\<lparr>mc_base := BaseRunner_ClosePosition b\<rparr>) else (None, r)
         else let trailingStop = PriceFromFloat (p + stopDist);
                  exhaustion = (mc_UseBollExit r \<and> p > upperBB \<and> upperBB > 0);
                  crossUp = (fast > 0 \<and> slow > 0 \<and> fast > slow)
              in if IsStopLossHit price trailingStop ''SELL'' \<or> crossUp \<or> exhaustion
                 then (Some (exit_signal c ''BUY''), r\<lparr>mc_base := BaseRunner_ClosePosition b\<rparr>) else (None, r))"

definition MACrossoverRunner_enter ::
  "Lib \<Rightarrow> MACrossoverRunner \<Rightarrow> Candle \<Rightarrow> f64 \<Rightarrow> f64 \<Rightarrow> Signal option \<times> MACrossoverRunner" where
  "MACrossoverRunner_enter lib r c fast slow =
     (let price = ca_Close c; b = mc_base r; n = int (br_HistCount b); p = Price_Float64 price;
          fastPeriod = MACrossoverRunner_fastPeriod r; slowPeriod = MACrossoverRunner_slowPeriod r;
          xs = BaseRunner_LinearPrices b n
      in if n < slowPeriod + 5 then (None, r)
         else let prevFast = EMA lib (BaseRunner_LinearPrices b (n - 1)) (n - 1) fastPeriod;
                  prevSlow = EMA lib (BaseRunner_LinearPrices b (n - 1)) (n - 1) slowPeriod;
                  crossUp = (prevFast > 0 \<and> prevSlow > 0 \<and> prevFast \<le> prevSlow \<and> fast > slow);
                  crossDown = (prevFast > 0 \<and> prevSlow > 0 \<and> prevFast \<ge> prevSlow \<and> fast < slow);
                  rsiVal = RSI lib xs n (int64_of_float (mc_RsiPeriod r));
                  (macdLine, signalLine) = MACD lib xs n;
                  stopDist = br_ATR b (int64_of_float (mc_AtrPeriod r)) * mc_AtrMultiplier r
              in if crossUp
                 then (if mc_UseRsiFilter r \<and> rsiVal > mc_RsiOverbought r then (None, r)
                   else if mc_UseMacdFilter r \<and> macdLine \<le> signalLine then (None, r)
                   else (Some (enter_signal c ''BUY''), r\<lparr>mc_base := BaseRunner_OpenPosition b ''BUY'' price
                     (PriceFromFloat (p - stopDist)) (PriceFromFloat (p + stopDist * lit 2)) (ca_Time c)\<rparr>))
                 else if crossDown
                 then (if mc_UseRsiFilter r \<and> rsiVal < mc_RsiOversold r then (None, r)
                   else if mc_UseMacdFilter r \<and> macdLine \<ge> signalLine then (None, r)
                   else (Some (enter_signal c ''SELL''), r\<lparr>mc_base := BaseRunner_OpenPosition b ''SELL'' price
                     (PriceFromFloat (p + stopDist)) (PriceFromFloat (p - stopDist * lit 2)) (ca_Time c)\<rparr>))
                 else (None, r))"

definition MACrossoverRunner_Evaluate ::
  "Lib \<Rightarrow> MACrossoverRunner \<Rightarrow> Candle \<Rightarrow> int \<Rightarrow> Signal option \<times> MACrossoverRunner" where
  "MACrossoverRunner_Evaluate lib r c regime =
     (let price = ca_Close c in
      if Price_IsZero price then (None, r)
      else let b = BaseRunner_PushPrice (mc_base r) price (ca_High c) (ca_Low c) (ca_Volume c);
               r = MACrossoverRunner_update lib r b
           in if br_PositionOpen b then MACrossoverRunner_manage lib r c (mc_prevFast r) (mc_prevSlow r)
              else MACrossoverRunner_enter lib r c (mc_prevFast r) (mc_prevSlow r))"

abbreviation crossover_pos :: "MACrossoverRunner \<Rightarrow> string option" where
  "crossover_pos r \<equiv> br_pos (mc_base r)"

lemma crossover_manage_fits:
  "br_PositionOpen (mc_base r) \<Longrightarrow>
    step_fits (Some (br_CurrentSide (mc_base r))) (fst (MACrossoverRunner_manage lib r c fast slow), crossover_pos (snd (MACrossoverRunner_manage lib r c fast slow)))"
  unfolding MACrossoverRunner_manage_def Let_def
  by (cases "BollingerBands lib (BaseRunner_LinearPrices (mc_base r) (int (br_HistCount (mc_base r)))) (int (br_HistCount (mc_base r)))")
    (simp add: br_pos_def[of "mc_base r"])

lemma crossover_enter_fits:
  "\<not> br_PositionOpen (mc_base r) \<Longrightarrow>
    step_fits None (fst (MACrossoverRunner_enter lib r c fast slow), crossover_pos (snd (MACrossoverRunner_enter lib r c fast slow)))"
  unfolding MACrossoverRunner_enter_def Let_def
  by (cases "MACD lib (BaseRunner_LinearPrices (mc_base r) (int (br_HistCount (mc_base r)))) (int (br_HistCount (mc_base r)))")
    (simp add: br_pos_def[of "mc_base r"])

lemma crossover_fits:
  "step_fits (crossover_pos r) (fst (MACrossoverRunner_Evaluate lib r c g), crossover_pos (snd (MACrossoverRunner_Evaluate lib r c g)))"
proof -
  define b where "b = BaseRunner_PushPrice (mc_base r) (ca_Close c) (ca_High c) (ca_Low c) (ca_Volume c)"
  define u where "u = MACrossoverRunner_update lib r b"
  have u: "mc_base u = b" by (simp add: u_def MACrossoverRunner_update_def Let_def)
  have p: "crossover_pos r = (if br_PositionOpen b then Some (br_CurrentSide b) else None)" by (simp add: b_def br_pos_def)
  show ?thesis
    using crossover_manage_fits[of u lib c] crossover_enter_fits[of u lib c]
    by (simp add: MACrossoverRunner_Evaluate_def Let_def b_def[symmetric] u_def[symmetric] u p)
qed

interpretation crossover: position_machine "MACrossoverRunner_Evaluate lib" crossover_pos for lib
  using crossover_fits by unfold_locales (simp add: step_fits_def)

section \<open>IchimokuRunner\<close>

record IchimokuRunner =
  ic_base :: BaseRunner
  ic_CloudConfirm :: bool
  ic_UseChandelier :: bool
  ic_AtrMultiplier :: f64
  ic_peakPrice :: price
  ic_prevTenkan :: f64
  ic_prevKijun :: f64

definition NewIchimokuRunner :: IchimokuRunner where
  "NewIchimokuRunner = \<lparr>ic_base = NewBaseRunner 256, ic_CloudConfirm = True, ic_UseChandelier = True,
     ic_AtrMultiplier = lit 2, ic_peakPrice = 0, ic_prevTenkan = 0, ic_prevKijun = 0\<rparr>"

definition IchimokuRunner_Reset :: "IchimokuRunner \<Rightarrow> IchimokuRunner" where
  "IchimokuRunner_Reset r = r\<lparr>ic_base := BaseRunner_Reset (ic_base r), ic_prevTenkan := 0, ic_prevKijun := 0\<rparr>"

definition IchimokuRunner_Params :: "IchimokuRunner \<Rightarrow> params" where
  "IchimokuRunner_Params r = [(''cloud_confirm'', boolToFloat (ic_CloudConfirm r)),
     (''use_chandelier'', boolToFloat (ic_UseChandelier r)), (''atr_multiplier'', ic_AtrMultiplier r)]"

definition IchimokuRunner_SetParams :: "IchimokuRunner \<Rightarrow> params \<Rightarrow> IchimokuRunner" where
  "IchimokuRunner_SetParams r ps =
     (let r = on_param ps ''cloud_confirm'' (\<lambda>v r. r\<lparr>ic_CloudConfirm := (v \<ge> lit (5/10))\<rparr>) r;
          r = on_param ps ''use_chandelier'' (\<lambda>v r. r\<lparr>ic_UseChandelier := (v \<ge> lit (5/10))\<rparr>) r
      in on_param ps ''atr_multiplier'' (\<lambda>v r. r\<lparr>ic_AtrMultiplier := v\<rparr>) r)"

definition IchimokuRunner_ParamDefs :: "ParamDef list" where
  "IchimokuRunner_ParamDefs =
     [int_param ''cloud_confirm'' (lit 1) (lit 0) (lit 1) (lit 1),
      int_param ''use_chandelier'' (lit 1) (lit 0) (lit 1) (lit 1),
      real_param ''atr_multiplier'' (lit 2) (lit 1) (lit 4) (lit (5/10))]"

definition IchimokuRunner_manage :: "IchimokuRunner \<Rightarrow> Candle \<Rightarrow> f64 \<Rightarrow> f64 \<Rightarrow> f64 \<Rightarrow> Signal option \<times> IchimokuRunner" where
  "IchimokuRunner_manage r c tenkan kijun atr =
     (let price = ca_Close c; b = ic_base r; stopDist = atr * ic_AtrMultiplier r in
      if br_CurrentSide b = ''BUY''
      then let r = (if Price_Compare price (ic_peakPrice r) > 0 then r\<lparr>ic_peakPrice := price\<rparr> else r);
               trailingStop = PriceFromFloat (Price_Float64 (ic_peakPrice r) - stopDist)
           in if tenkan < kijun \<and> ic_prevTenkan r \<ge> ic_prevKijun r \<or> IsStopLossHit price trailingStop ''BUY''
              then (Some (exit_signal c ''SELL''), r\<lparr>ic_base := BaseRunner_ClosePosition b\<rparr>)
              else (None, r\<lparr>ic_prevTenkan := tenkan, ic_prevKijun := kijun\<rparr>)
      else let r = (if Price_Compare price (ic_peakPrice r) < 0 then r\<lparr>ic_peakPrice := price\<rparr> else r);
               trailingStop = PriceFromFloat (Price_Float64 (ic_peakPrice r) + stopDist)
           in if tenkan > kijun \<and> ic_prevTenkan r \<le> ic_prevKijun r \<or> IsStopLossHit price trailingStop ''SELL''
              then (Some (exit_signal c ''BUY''), r\<lparr>ic_base := BaseRunner_ClosePosition b\<rparr>)
              else (None, r\<lparr>ic_prevTenkan := tenkan, ic_prevKijun := kijun\<rparr>))"

definition IchimokuRunner_enter ::
  "Lib \<Rightarrow> IchimokuRunner \<Rightarrow> Candle \<Rightarrow> f64 \<Rightarrow> f64 \<Rightarrow> f64 \<Rightarrow> f64 \<Rightarrow> f64 \<Rightarrow> Signal option \<times> IchimokuRunner" where
  "IchimokuRunner_enter lib r c tenkan kijun senkouA senkouB atr =
     (let price = ca_Close c; b = ic_base r; n = int (br_HistCount b) - 1; p = Price_Float64 price;
          r = r\<lparr>ic_prevTenkan := tenkan, ic_prevKijun := kijun, ic_peakPrice := price\<rparr>;
          (prevTenkan, prevKijun, _, _, _) = IchimokuCloud lib (BaseRunner_LinearHighs b n)
            (BaseRunner_LinearLows b n) (BaseRunner_LinearPrices b n) n
      in if prevTenkan \<le> 0 \<or> prevKijun \<le> 0 then (None, r)
         else let (cloudTop, cloudBottom) = (if senkouA < senkouB then (senkouB, senkouA) else (senkouA, senkouB));
                  crossUp = (prevTenkan \<le> prevKijun \<and> tenkan > kijun);
                  crossDown = (prevTenkan \<ge> prevKijun \<and> tenkan < kijun);
                  stopDist = atr * ic_AtrMultiplier r
              in if crossUp
                 then (if ic_CloudConfirm r \<and> p < cloudTop then (None, r)
                   else (Some (enter_signal c ''BUY''), r\<lparr>ic_base := BaseRunner_OpenPosition b ''BUY'' price
                     (PriceFromFloat (p - stopDist)) (PriceFromFloat (p + stopDist * lit 2)) (ca_Time c)\<rparr>))
                 else if crossDown
                 then (if ic_CloudConfirm r \<and> p > cloudBottom then (None, r)
                   else (Some (enter_signal c ''SELL''), r\<lparr>ic_base := BaseRunner_OpenPosition b ''SELL'' price
                     (PriceFromFloat (p + stopDist)) (PriceFromFloat (p - stopDist * lit 2)) (ca_Time c)\<rparr>))
                 else (None, r))"

definition IchimokuRunner_Evaluate :: "Lib \<Rightarrow> IchimokuRunner \<Rightarrow> Candle \<Rightarrow> int \<Rightarrow> Signal option \<times> IchimokuRunner" where
  "IchimokuRunner_Evaluate lib r c regime =
     (let price = ca_Close c in
      if Price_IsZero price then (None, r)
      else let b = BaseRunner_PushPrice (ic_base r) price (ca_High c) (ca_Low c) (ca_Volume c);
               r = r\<lparr>ic_base := b\<rparr>;
               n = int (br_HistCount b)
           in if n < 52 then (None, r)
              else let (tenkan, kijun, senkouA, senkouB, _) = IchimokuCloud lib (BaseRunner_LinearHighs b n)
                         (BaseRunner_LinearLows b n) (BaseRunner_LinearPrices b n) n
                   in if tenkan \<le> 0 \<or> kijun \<le> 0 \<or> senkouA \<le> 0 \<or> senkouB \<le> 0 then (None, r)
                      else let atr = br_ATR b 14
                           in if br_PositionOpen b then IchimokuRunner_manage r c tenkan kijun atr
                              else IchimokuRunner_enter lib r c tenkan kijun senkouA senkouB atr)"

abbreviation ichimoku_pos :: "IchimokuRunner \<Rightarrow> string option" where
  "ichimoku_pos r \<equiv> br_pos (ic_base r)"

lemma ichimoku_manage_fits:
  "br_PositionOpen (ic_base r) \<Longrightarrow>
    step_fits (Some (br_CurrentSide (ic_base r))) (fst (IchimokuRunner_manage r c t k atr), ichimoku_pos (snd (IchimokuRunner_manage r c t k atr)))"
  unfolding IchimokuRunner_manage_def Let_def by (simp add: br_pos_def[of "ic_base r"])

lemma ichimoku_enter_fits:
  "\<not> br_PositionOpen (ic_base r) \<Longrightarrow>
    step_fits None (fst (IchimokuRunner_enter lib r c t k a b atr), ichimoku_pos (snd (IchimokuRunner_enter lib r c t k a b atr)))"
  unfolding IchimokuRunner_enter_def Let_def
  by (simp add: br_pos_def[of "ic_base r"] split: prod.split)

lemma ichimoku_fits:
  "step_fits (ichimoku_pos r) (fst (IchimokuRunner_Evaluate lib r c g), ichimoku_pos (snd (IchimokuRunner_Evaluate lib r c g)))"
proof -
  define b where "b = BaseRunner_PushPrice (ic_base r) (ca_Close c) (ca_High c) (ca_Low c) (ca_Volume c)"
  define u where "u = r\<lparr>ic_base := b\<rparr>"
  have u: "ic_base u = b" "ichimoku_pos u = ichimoku_pos r" by (simp_all add: u_def b_def)
  have p: "ichimoku_pos r = (if br_PositionOpen b then Some (br_CurrentSide b) else None)" by (simp add: b_def br_pos_def)
  have m: "br_PositionOpen b \<Longrightarrow> step_fits (ichimoku_pos r) (fst (IchimokuRunner_manage u c t k atr), ichimoku_pos (snd (IchimokuRunner_manage u c t k atr)))"
    "\<not> br_PositionOpen b \<Longrightarrow> step_fits (ichimoku_pos r) (fst (IchimokuRunner_enter lib u c t k x y atr), ichimoku_pos (snd (IchimokuRunner_enter lib u c t k x y atr)))"
    for t k x y atr
    using ichimoku_manage_fits[of u c t k atr] ichimoku_enter_fits[of u lib c t k x y atr] by (simp_all add: u p)
  show ?thesis unfolding IchimokuRunner_Evaluate_def Let_def b_def[symmetric] u_def[symmetric]
    by (simp add: m u(2) del: br_pos_frame split: prod.split)
qed

interpretation ichimoku: position_machine "IchimokuRunner_Evaluate lib" ichimoku_pos for lib
  using ichimoku_fits by unfold_locales (simp add: step_fits_def)

section \<open>DragonTrendRunner\<close>

record DragonTrendRunner =
  dg_base :: BaseRunner
  dg_EMAPeriods :: "int list"
  dg_MinAligned :: int
  dg_ADXPeriod :: int
  dg_ADXThreshold :: f64
  dg_ATRPeriod :: int
  dg_ATRMultiplier :: f64
  dg_ProfitATRMult :: f64
  dg_emaValues :: "f64 list"
  dg_prevEMAValues :: "f64 list"
  dg_peakPrice :: price
  dg_signalPending :: bool
  dg_pendingSide :: string

definition NewDragonTrendRunner :: DragonTrendRunner where
  "NewDragonTrendRunner = \<lparr>dg_base = NewBaseRunner 256, dg_EMAPeriods = [8, 21, 50, 200], dg_MinAligned = 3,
     dg_ADXPeriod = 14, dg_ADXThreshold = lit 25, dg_ATRPeriod = 14, dg_ATRMultiplier = lit 3,
     dg_ProfitATRMult = lit 3, dg_emaValues = replicate 4 0, dg_prevEMAValues = replicate 4 0, dg_peakPrice = 0,
     dg_signalPending = False, dg_pendingSide = ''''\<rparr>"

definition DragonTrendRunner_Reset :: "DragonTrendRunner \<Rightarrow> DragonTrendRunner" where
  "DragonTrendRunner_Reset r = r\<lparr>dg_base := BaseRunner_Reset (dg_base r), dg_emaValues := map (\<lambda>_. 0) (dg_emaValues r),
     dg_prevEMAValues := map (\<lambda>_. 0) (dg_prevEMAValues r), dg_signalPending := False, dg_peakPrice := 0\<rparr>"

definition DragonTrendRunner_Params :: "DragonTrendRunner \<Rightarrow> params" where
  "DragonTrendRunner_Params r = [(''min_aligned'', float_of_int (dg_MinAligned r)),
     (''adx_period'', float_of_int (dg_ADXPeriod r)), (''adx_threshold'', dg_ADXThreshold r),
     (''atr_period'', float_of_int (dg_ATRPeriod r)), (''atr_multiplier'', dg_ATRMultiplier r),
     (''profit_atr_mult'', dg_ProfitATRMult r)]"

definition DragonTrendRunner_SetParams :: "DragonTrendRunner \<Rightarrow> params \<Rightarrow> DragonTrendRunner" where
  "DragonTrendRunner_SetParams r ps =
     (let r = on_param ps ''min_aligned'' (\<lambda>v r. r\<lparr>dg_MinAligned := int64_of_float v\<rparr>) r;
          r = on_param ps ''adx_period'' (\<lambda>v r. r\<lparr>dg_ADXPeriod := int64_of_float v\<rparr>) r;
          r = on_param ps ''adx_threshold'' (\<lambda>v r. r\<lparr>dg_ADXThreshold := v\<rparr>) r;
          r = on_param ps ''atr_period'' (\<lambda>v r. r\<lparr>dg_ATRPeriod := int64_of_float v\<rparr>) r;
          r = on_param ps ''atr_multiplier'' (\<lambda>v r. r\<lparr>dg_ATRMultiplier := v\<rparr>) r
      in on_param ps ''profit_atr_mult'' (\<lambda>v r. r\<lparr>dg_ProfitATRMult := v\<rparr>) r)"

definition DragonTrendRunner_ParamDefs :: "ParamDef list" where
  "DragonTrendRunner_ParamDefs =
     [int_param ''min_aligned'' (lit 3) (lit 2) (lit 4) (lit 1),
      int_param ''adx_period'' (lit 14) (lit 7) (lit 28) (lit 7),
      real_param ''adx_threshold'' (lit 20) (lit 10) (lit 35) (lit 5),
      int_param ''atr_period'' (lit 14) (lit 7) (lit 28) (lit 7),
      real_param ''atr_multiplier'' (lit 2) (lit 1) (lit 4) (lit (5/10)),
      real_param ''profit_atr_mult'' (lit 3) (lit (15/10)) (lit 5) (lit (5/10))]"

text \<open>\<open>EMAPeriods\<close> and \<open>emaValues\<close> have the same length; the averages that rose, and those that fell.\<close>

definition dragon_emas :: "DragonTrendRunner \<Rightarrow> f64 \<Rightarrow> f64 list" where
  "dragon_emas r pf = map (\<lambda>(period, e). let alpha = lit 2 / (float_of_int period + 1) in pf * alpha + e * (1 - alpha))
     (zip (dg_EMAPeriods r) (dg_emaValues r))"

definition aligned_bull :: "f64 list \<Rightarrow> f64 list \<Rightarrow> int" where
  "aligned_bull es ps = int (length (filter (\<lambda>(e, p). e > p) (zip es ps)))"

definition aligned_bear :: "f64 list \<Rightarrow> f64 list \<Rightarrow> int" where
  "aligned_bear es ps = int (length (filter (\<lambda>(e, p). \<not> e > p \<and> e < p) (zip es ps)))"

definition DragonTrendRunner_manage ::
  "DragonTrendRunner \<Rightarrow> Candle \<Rightarrow> int \<Rightarrow> int \<Rightarrow> Signal option \<times> DragonTrendRunner" where
  "DragonTrendRunner_manage r c bull bear =
     (let price = ca_Close c; pf = Price_Float64 price; b = dg_base r; atr = br_ATR b (dg_ATRPeriod r) in
      if br_CurrentSide b = ''BUY''
      then let r = (if pf > Price_Float64 (dg_peakPrice r) then r\<lparr>dg_peakPrice := price\<rparr> else r);
               trailStop = Price_Float64 (dg_peakPrice r) - atr * dg_ATRMultiplier r
           in if pf \<le> trailStop \<or> IsTakeProfitHit price (br_TakeProfit b) ''BUY'' \<or> bear \<ge> dg_MinAligned r
              then (Some (exit_signal c ''SELL''), r\<lparr>dg_base := BaseRunner_ClosePosition b\<rparr>) else (None, r)
      else let r = (if pf < Price_Float64 (dg_peakPrice r) then r\<lparr>dg_peakPrice := price\<rparr> else r);
               trailStop = Price_Float64 (dg_peakPrice r) + atr * dg_ATRMultiplier r
           in if pf \<ge> trailStop \<or> IsTakeProfitHit price (br_TakeProfit b) ''SELL'' \<or> bull \<ge> dg_MinAligned r
              then (Some (exit_signal c ''BUY''), r\<lparr>dg_base := BaseRunner_ClosePosition b\<rparr>) else (None, r))"

definition DragonTrendRunner_enter ::
  "DragonTrendRunner \<Rightarrow> Candle \<Rightarrow> int \<Rightarrow> int \<Rightarrow> int \<Rightarrow> Signal option \<times> DragonTrendRunner" where
  "DragonTrendRunner_enter r c regime bull bear =
     (let price = ca_Close c; pf = Price_Float64 price; b = dg_base r; atr = br_ATR b (dg_ATRPeriod r);
          (stopMult, profitMult) = BaseRunner_RegimeExitMults b regime;
          stopDist = atr * dg_ATRMultiplier r * stopMult;
          profitDist = atr * dg_ProfitATRMult r * profitMult
      in if bull \<ge> dg_MinAligned r
         then (if atr \<le> 0 then (None, r)
           else (Some (enter_signal c ''BUY''), r\<lparr>dg_peakPrice := price, dg_base := BaseRunner_OpenPosition b ''BUY'' price
             (PriceFromFloat (pf - stopDist)) (PriceFromFloat (pf + profitDist)) (ca_Time c)\<rparr>))
         else if bear \<ge> dg_MinAligned r
         then (if atr \<le> 0 then (None, r)
           else (Some (enter_signal c ''SELL''), r\<lparr>dg_peakPrice := price, dg_base := BaseRunner_OpenPosition b ''SELL'' price
             (PriceFromFloat (pf + stopDist)) (PriceFromFloat (pf - profitDist)) (ca_Time c)\<rparr>))
         else (None, r))"

definition DragonTrendRunner_Evaluate :: "DragonTrendRunner \<Rightarrow> Candle \<Rightarrow> int \<Rightarrow> Signal option \<times> DragonTrendRunner" where
  "DragonTrendRunner_Evaluate r c regime =
     (let price = ca_Close c in
      if Price_IsZero price then (None, r)
      else let pf = Price_Float64 price;
               b = BaseRunner_PushPrice (dg_base r) price (ca_High c) (ca_Low c) (ca_Volume c);
               r = r\<lparr>dg_base := b\<rparr>
           in if feq (dg_emaValues r ! 0) 0
              then (None, r\<lparr>dg_emaValues := map (\<lambda>_. pf) (dg_emaValues r),
                dg_prevEMAValues := map (\<lambda>_. pf) (dg_prevEMAValues r)\<rparr>)
              else let r = r\<lparr>dg_prevEMAValues := dg_emaValues r, dg_emaValues := dragon_emas r pf\<rparr>
                   in if int (br_HistCount b) < last (dg_EMAPeriods r) + dg_ADXPeriod r then (None, r)
                      else let bull = aligned_bull (dg_emaValues r) (dg_prevEMAValues r);
                               bear = aligned_bear (dg_emaValues r) (dg_prevEMAValues r);
                               adx = ADX (br_PriceHistory b) (br_HighHistory b) (br_LowHistory b)
                                 (int (br_HistCount b)) (dg_ADXPeriod r)
                           in if adx < dg_ADXThreshold r then (None, r)
                              else if br_PositionOpen b then DragonTrendRunner_manage r c bull bear
                              else DragonTrendRunner_enter r c regime bull bear)"

abbreviation dragon_pos :: "DragonTrendRunner \<Rightarrow> string option" where
  "dragon_pos r \<equiv> br_pos (dg_base r)"

lemma dragon_manage_fits:
  "br_PositionOpen (dg_base r) \<Longrightarrow>
    step_fits (Some (br_CurrentSide (dg_base r))) (fst (DragonTrendRunner_manage r c x y), dragon_pos (snd (DragonTrendRunner_manage r c x y)))"
  unfolding DragonTrendRunner_manage_def Let_def by (simp add: br_pos_def[of "dg_base r"])

lemma dragon_enter_fits:
  "\<not> br_PositionOpen (dg_base r) \<Longrightarrow>
    step_fits None (fst (DragonTrendRunner_enter r c g x y), dragon_pos (snd (DragonTrendRunner_enter r c g x y)))"
  unfolding DragonTrendRunner_enter_def Let_def by (simp add: br_pos_def[of "dg_base r"] split: prod.split)

lemma dragon_fits:
  "step_fits (dragon_pos r) (fst (DragonTrendRunner_Evaluate r c g), dragon_pos (snd (DragonTrendRunner_Evaluate r c g)))"
proof -
  define b where "b = BaseRunner_PushPrice (dg_base r) (ca_Close c) (ca_High c) (ca_Low c) (ca_Volume c)"
  have p: "dragon_pos r = (if br_PositionOpen b then Some (br_CurrentSide b) else None)" by (simp add: b_def br_pos_def)
  have k: "br_pos b = dragon_pos r" by (simp add: b_def)
  have m: "br_PositionOpen b \<Longrightarrow> step_fits (dragon_pos r) (fst (DragonTrendRunner_manage u c x y), dragon_pos (snd (DragonTrendRunner_manage u c x y)))"
    "\<not> br_PositionOpen b \<Longrightarrow> step_fits (dragon_pos r) (fst (DragonTrendRunner_enter u c g x y), dragon_pos (snd (DragonTrendRunner_enter u c g x y)))"
    if "dg_base u = b" for u x y
    using dragon_manage_fits[of u c x y] dragon_enter_fits[of u c g x y] that by (simp_all add: p)
  show ?thesis unfolding DragonTrendRunner_Evaluate_def Let_def b_def[symmetric]
    by (simp add: k m del: br_pos_frame)
qed

interpretation dragon: position_machine DragonTrendRunner_Evaluate dragon_pos
  using dragon_fits by unfold_locales (simp add: step_fits_def)

end
