(* ===== verification/Breakouts.thy ===== *)
theory Breakouts
  imports StrategyKit
begin

text \<open>
  The strategies of the trading day, \<open>internal/strategy/orb_runner.go\<close>,
  \<open>session_scalp_runner.go\<close>, \<open>volume_scalp_runner.go\<close> and \<open>session_momentum_runner.go\<close>: state,
  parameters, \<open>Evaluate\<close>, the contract of one position, and the number of entries of a day as a
  \<open>daily_limit\<close>. None of them uses the indicator library.
\<close>

section \<open>OrbRunner\<close>

record OrbRunner =
  ob_base :: BaseRunner
  ob_RangeMinutes :: f64
  ob_EntryBufferPct :: f64
  ob_AtrPeriod :: f64
  ob_AtrMultiplier :: f64
  ob_TargetMultiplier :: f64
  ob_CloseExitMinutes :: f64
  ob_MinRangePct :: f64
  ob_openingHigh :: f64
  ob_openingLow :: f64
  ob_rangeSet :: bool
  ob_barsInRange :: int
  ob_skipDay :: bool
  ob_lastDay :: int

definition NewOrbRunner :: OrbRunner where
  "NewOrbRunner = \<lparr>ob_base = NewBaseRunner 128, ob_RangeMinutes = lit 5, ob_EntryBufferPct = lit (1/10),
     ob_AtrPeriod = lit 14, ob_AtrMultiplier = lit 2, ob_TargetMultiplier = lit 2, ob_CloseExitMinutes = lit 390,
     ob_MinRangePct = lit (1/10), ob_openingHigh = 0, ob_openingLow = MaxFloat64, ob_rangeSet = False,
     ob_barsInRange = 0, ob_skipDay = False, ob_lastDay = zero_time\<rparr>"

definition OrbRunner_resetOpeningRange :: "OrbRunner \<Rightarrow> OrbRunner" where
  "OrbRunner_resetOpeningRange r = r\<lparr>ob_openingHigh := 0, ob_openingLow := MaxFloat64, ob_rangeSet := False,
     ob_barsInRange := 0, ob_skipDay := False\<rparr>"

definition OrbRunner_Reset :: "OrbRunner \<Rightarrow> OrbRunner" where
  "OrbRunner_Reset r = (OrbRunner_resetOpeningRange (r\<lparr>ob_base := BaseRunner_Reset (ob_base r)\<rparr>))\<lparr>ob_lastDay := zero_time\<rparr>"

definition OrbRunner_Params :: "OrbRunner \<Rightarrow> params" where
  "OrbRunner_Params r = [(''range_minutes'', ob_RangeMinutes r), (''entry_buffer_pct'', ob_EntryBufferPct r),
     (''atr_period'', ob_AtrPeriod r), (''atr_multiplier'', ob_AtrMultiplier r),
     (''target_multiplier'', ob_TargetMultiplier r)]"

definition OrbRunner_SetParams :: "OrbRunner \<Rightarrow> params \<Rightarrow> OrbRunner" where
  "OrbRunner_SetParams r ps =
     (let r = on_param ps ''range_minutes'' (\<lambda>v r. r\<lparr>ob_RangeMinutes := v\<rparr>) r;
          r = on_param ps ''entry_buffer_pct'' (\<lambda>v r. r\<lparr>ob_EntryBufferPct := v\<rparr>) r;
          r = on_param ps ''atr_period'' (\<lambda>v r. r\<lparr>ob_AtrPeriod := v\<rparr>) r;
          r = on_param ps ''atr_multiplier'' (\<lambda>v r. r\<lparr>ob_AtrMultiplier := v\<rparr>) r
      in on_param ps ''target_multiplier'' (\<lambda>v r. r\<lparr>ob_TargetMultiplier := v\<rparr>) r)"

definition OrbRunner_ParamDefs :: "ParamDef list" where
  "OrbRunner_ParamDefs =
     [int_param ''range_minutes'' (lit 5) (lit 1) (lit 15) (lit 1),
      real_param ''entry_buffer_pct'' (lit (1/10)) (lit (1/100)) (lit 1) (lit (5/100)),
      int_param ''atr_period'' (lit 14) (lit 7) (lit 28) (lit 7),
      real_param ''atr_multiplier'' (lit 2) (lit 1) (lit 4) (lit (5/10)),
      real_param ''target_multiplier'' (lit 2) (lit 1) (lit 5) (lit (5/10))]"

text \<open>A bar of the opening range; the last one may mark the day as too quiet.\<close>

definition widen_range :: "Candle \<Rightarrow> f64 \<Rightarrow> f64 \<Rightarrow> f64 \<times> f64" where
  "widen_range c hi lo =
     (if Price_Float64 (ca_High c) > hi then Price_Float64 (ca_High c) else hi,
      if Price_Float64 (ca_Low c) < lo then Price_Float64 (ca_Low c) else lo)"

definition OrbRunner_accumulate :: "OrbRunner \<Rightarrow> Candle \<Rightarrow> OrbRunner" where
  "OrbRunner_accumulate r c =
     (let (hi, lo) = widen_range c (ob_openingHigh r) (ob_openingLow r);
          r = r\<lparr>ob_barsInRange := ob_barsInRange r + 1, ob_openingHigh := hi, ob_openingLow := lo\<rparr>
      in if float_of_int (ob_barsInRange r) \<ge> ob_RangeMinutes r
         then let r = r\<lparr>ob_rangeSet := True\<rparr>;
                  rangePct = (hi - lo) / Price_Float64 (ca_Close c) * lit 100
              in if ob_MinRangePct r > 0 \<and> rangePct < ob_MinRangePct r then r\<lparr>ob_skipDay := True\<rparr> else r
         else r)"

text \<open>A hit of the target or the stop at the price of the bar, for the side of the position.\<close>

definition level_hit :: "BaseRunner \<Rightarrow> price \<Rightarrow> price \<Rightarrow> bool" where
  "level_hit b take_at stop_at =
     (let side = (if br_CurrentSide b = ''BUY'' then ''BUY'' else ''SELL'')
      in IsTakeProfitHit take_at (br_TakeProfit b) side \<or> IsStopLossHit stop_at (br_StopLoss b) side)"

definition OrbRunner_enter :: "OrbRunner \<Rightarrow> Candle \<Rightarrow> int \<Rightarrow> Signal option \<times> OrbRunner" where
  "OrbRunner_enter r c regime =
     (let rangeHeight = ob_openingHigh r - ob_openingLow r in
      if rangeHeight \<le> 0 then (None, r)
      else let b = ob_base r;
               bufferPct = ob_EntryBufferPct r / lit 100;
               atr = br_ATR b (int64_of_float (ob_AtrPeriod r));
               (stopMult, profitMult) = BaseRunner_RegimeExitMults b regime;
               stopDist = atr * ob_AtrMultiplier r * stopMult;
               stopDist = (if stopDist < rangeHeight / lit 2 then rangeHeight / lit 2 else stopDist);
               profitDist = stopDist * ob_TargetMultiplier r * profitMult;
               (allowed, b) = BaseRunner_CanTrade b (ca_Time c) 1;
               r = r\<lparr>ob_base := b\<rparr>;
               p = Price_Float64 (ca_Close c);
               open_at = (\<lambda>side stop target. (Some (entry_with c side stop target),
                 r\<lparr>ob_base := BaseRunner_RecordTrade
                   (BaseRunner_OpenPosition b side (ca_Close c) stop target (ca_Time c)) (ca_Time c)\<rparr>))
           in if \<not> allowed then (None, r)
              else if p \<ge> ob_openingHigh r * (1 + bufferPct)
              then open_at ''BUY'' (PriceFromFloat (p - stopDist)) (PriceFromFloat (p + profitDist))
              else if p \<le> ob_openingLow r * (1 - bufferPct)
              then open_at ''SELL'' (PriceFromFloat (p + stopDist)) (PriceFromFloat (p - profitDist))
              else (None, r))"

definition OrbRunner_trade :: "OrbRunner \<Rightarrow> Candle \<Rightarrow> int \<Rightarrow> Signal option \<times> OrbRunner" where
  "OrbRunner_trade r c regime =
     (if \<not> ob_rangeSet r then (None, OrbRunner_accumulate r c)
      else if ob_skipDay r then (None, r)
      else let b = BaseRunner_PushPrice (ob_base r) (ca_Close c) (ca_High c) (ca_Low c) (ca_Volume c);
               r = r\<lparr>ob_base := b\<rparr>
           in if br_PositionOpen b
              then (if level_hit b (ca_Close c) (ca_Close c)
                then (Some (exit_signal c (exitSide (br_CurrentSide b))), r\<lparr>ob_base := BaseRunner_ClosePosition b\<rparr>)
                else (None, r))
              else OrbRunner_enter r c regime)"

definition OrbRunner_Evaluate :: "OrbRunner \<Rightarrow> Candle \<Rightarrow> int \<Rightarrow> Signal option \<times> OrbRunner" where
  "OrbRunner_Evaluate r c regime =
     (if ob_lastDay r \<noteq> zero_time \<and> day_of (ob_lastDay r) \<noteq> day_of (ca_Time c)
      then (if br_PositionOpen (ob_base r)
        then (Some (exit_signal c (closing_side (br_CurrentSide (ob_base r)))),
              (OrbRunner_resetOpeningRange (r\<lparr>ob_base := BaseRunner_ClosePosition (ob_base r)\<rparr>))\<lparr>ob_lastDay := ca_Time c\<rparr>)
        else OrbRunner_trade ((OrbRunner_resetOpeningRange r)\<lparr>ob_lastDay := ca_Time c\<rparr>) c regime)
      else OrbRunner_trade (r\<lparr>ob_lastDay := ca_Time c\<rparr>) c regime)"

abbreviation orb_pos :: "OrbRunner \<Rightarrow> string option" where
  "orb_pos r \<equiv> br_pos (ob_base r)"

lemma orb_frame [simp]:
  "ob_base (OrbRunner_accumulate r c) = ob_base r" "ob_base (OrbRunner_resetOpeningRange r) = ob_base r"
  by (simp_all add: OrbRunner_accumulate_def OrbRunner_resetOpeningRange_def Let_def case_prod_beta)

lemma CanTrade_open [simp]:
  "br_PositionOpen (snd (BaseRunner_CanTrade b t n)) = br_PositionOpen b"
  "br_CurrentSide (snd (BaseRunner_CanTrade b t n)) = br_CurrentSide b"
  by (simp_all add: BaseRunner_CanTrade_def Let_def)

lemma orb_enter_fits:
  "\<not> br_PositionOpen (ob_base r) \<Longrightarrow> step_fits None (fst (OrbRunner_enter r c g), orb_pos (snd (OrbRunner_enter r c g)))"
  unfolding OrbRunner_enter_def Let_def by (simp add: br_pos_def[of "ob_base r"] case_prod_beta)

lemma orb_trade_fits: "step_fits (orb_pos r) (fst (OrbRunner_trade r c g), orb_pos (snd (OrbRunner_trade r c g)))"
proof -
  define b where "b = BaseRunner_PushPrice (ob_base r) (ca_Close c) (ca_High c) (ca_Low c) (ca_Volume c)"
  have k: "br_pos b = orb_pos r" by (simp add: b_def)
  have p: "orb_pos r = (if br_PositionOpen b then Some (br_CurrentSide b) else None)" by (simp add: b_def br_pos_def)
  show ?thesis unfolding OrbRunner_trade_def Let_def b_def[symmetric]
    using orb_enter_fits[of "r\<lparr>ob_base := b\<rparr>" c g] by (simp add: k p)
qed

lemma orb_fits: "step_fits (orb_pos r) (fst (OrbRunner_Evaluate r c g), orb_pos (snd (OrbRunner_Evaluate r c g)))"
  using orb_trade_fits[of "r\<lparr>ob_lastDay := ca_Time c\<rparr>" c g]
    orb_trade_fits[of "(OrbRunner_resetOpeningRange r)\<lparr>ob_lastDay := ca_Time c\<rparr>" c g]
  by (auto simp: OrbRunner_Evaluate_def br_pos_def[of "ob_base r"])

interpretation orb: position_machine OrbRunner_Evaluate orb_pos
  using orb_fits by unfold_locales (simp add: step_fits_def)

text \<open>The counter of the trades of a day.\<close>

definition br_counted :: "BaseRunner \<Rightarrow> int option \<times> int" where
  "br_counted b = (br_tradeDay b, br_tradesToday b)"

lemma br_counted_frame [simp]:
  "br_counted (BaseRunner_PushPrice b p h l v) = br_counted b"
  "br_counted (BaseRunner_OpenPosition b side p1 p2 p3 t) = br_counted b"
  "br_counted (BaseRunner_ClosePosition b) = br_counted b"
  "br_counted (new_trade_day b t) = (Some (day_of t), used_on (br_counted b) (day_of t))"
  "br_counted (snd (BaseRunner_CanTrade b t n)) = (Some (day_of t), used_on (br_counted b) (day_of t))"
  "br_counted (BaseRunner_RecordTrade b t) = (Some (day_of t), used_on (br_counted b) (day_of t) + 1)"
  by (auto simp: br_counted_def BaseRunner_OpenPosition_def BaseRunner_ClosePosition_def BaseRunner_CanTrade_def
      BaseRunner_RecordTrade_def new_trade_day_def used_on_def Let_def)

lemma br_counted_New [simp]: "br_counted (NewBaseRunner n) = (None, 0)"
  by (simp add: br_counted_def NewBaseRunner_def)

lemma CanTrade_iff: "fst (BaseRunner_CanTrade b t n) \<longleftrightarrow> (0 < n \<longrightarrow> used_on (br_counted b) (day_of t) < n)"
  by (auto simp: BaseRunner_CanTrade_def Let_def br_counted_def used_on_def new_trade_day_def)

lemma used_on_same [simp]: "used_on (Some d, k) d = k"
  by (simp add: used_on_def)

lemma is_entry_simps [simp]:
  "\<not> is_entry None" "is_entry (Some (enter_signal c side))" "\<not> is_entry (Some (exit_signal c side))"
  "is_entry (Some (entry_with c side p q))"
  by (simp_all add: is_entry_def)

abbreviation orb_counted :: "OrbRunner \<Rightarrow> int option \<times> int" where
  "orb_counted r \<equiv> br_counted (ob_base r)"

lemma orb_enter_counted:
  "is_entry (fst (OrbRunner_enter r c g)) \<Longrightarrow>
    used_on (orb_counted r) (day_of (ca_Time c)) < 1 \<and>
    orb_counted (snd (OrbRunner_enter r c g)) = (Some (day_of (ca_Time c)), used_on (orb_counted r) (day_of (ca_Time c)) + 1)"
  "\<not> is_entry (fst (OrbRunner_enter r c g)) \<Longrightarrow>
    orb_counted (snd (OrbRunner_enter r c g)) = orb_counted r \<or>
    orb_counted (snd (OrbRunner_enter r c g)) = (Some (day_of (ca_Time c)), used_on (orb_counted r) (day_of (ca_Time c)))"
  unfolding OrbRunner_enter_def Let_def
  by (auto simp: case_prod_beta CanTrade_iff split: if_splits)

lemma orb_trade_counted:
  "is_entry (fst (OrbRunner_trade r c g)) \<Longrightarrow>
    used_on (orb_counted r) (day_of (ca_Time c)) < 1 \<and>
    orb_counted (snd (OrbRunner_trade r c g)) = (Some (day_of (ca_Time c)), used_on (orb_counted r) (day_of (ca_Time c)) + 1)"
  "\<not> is_entry (fst (OrbRunner_trade r c g)) \<Longrightarrow>
    orb_counted (snd (OrbRunner_trade r c g)) = orb_counted r \<or>
    orb_counted (snd (OrbRunner_trade r c g)) = (Some (day_of (ca_Time c)), used_on (orb_counted r) (day_of (ca_Time c)))"
  unfolding OrbRunner_trade_def Let_def
  using orb_enter_counted[of "r\<lparr>ob_base := BaseRunner_PushPrice (ob_base r) (ca_Close c) (ca_High c) (ca_Low c) (ca_Volume c)\<rparr>" c g]
  by (auto split: if_splits)

interpretation orb_daily: daily_limit OrbRunner_Evaluate orb_counted "\<lambda>_. 1"
proof (unfold_locales, goal_cases)
  case (1 r c g)
  then show ?case
    using orb_trade_counted(1)[of "r\<lparr>ob_lastDay := ca_Time c\<rparr>" c g]
      orb_trade_counted(1)[of "(OrbRunner_resetOpeningRange r)\<lparr>ob_lastDay := ca_Time c\<rparr>" c g]
    by (auto simp: OrbRunner_Evaluate_def split: if_splits)
next
  case (2 r c g)
  then show ?case
    using orb_trade_counted(2)[of "r\<lparr>ob_lastDay := ca_Time c\<rparr>" c g]
      orb_trade_counted(2)[of "(OrbRunner_resetOpeningRange r)\<lparr>ob_lastDay := ca_Time c\<rparr>" c g]
    by (auto simp: OrbRunner_Evaluate_def split: if_splits)
qed simp

section \<open>SessionScalpRunner\<close>

record SessionScalpRunner =
  sc_base :: BaseRunner
  sc_SessionStartHour :: int
  sc_SessionStartMin :: int
  sc_SessionEndHour :: int
  sc_SessionEndMin :: int
  sc_RangeMinutes :: f64
  sc_EntryBufferPct :: f64
  sc_VolumeMultiplier :: f64
  sc_AtrPeriod :: f64
  sc_TakeProfitAtrMult :: f64
  sc_StopLossAtrMult :: f64
  sc_TimeExitMinutes :: f64
  sc_TimezoneOffset :: int
  sc_MaxTradesPerDay :: int
  sc_openingHigh :: f64
  sc_openingLow :: f64
  sc_rangeSet :: bool
  sc_barsInRange :: int
  sc_volumeBuffer :: "f64 list"

definition NewSessionScalpRunner :: SessionScalpRunner where
  "NewSessionScalpRunner = \<lparr>sc_base = NewBaseRunner 128, sc_SessionStartHour = 9, sc_SessionStartMin = 30,
     sc_SessionEndHour = 11, sc_SessionEndMin = 0, sc_RangeMinutes = lit 5, sc_EntryBufferPct = lit (1/10),
     sc_VolumeMultiplier = lit (15/10), sc_AtrPeriod = lit 14, sc_TakeProfitAtrMult = lit (15/10),
     sc_StopLossAtrMult = lit 1, sc_TimeExitMinutes = lit 60, sc_TimezoneOffset = -4, sc_MaxTradesPerDay = 3,
     sc_openingHigh = 0, sc_openingLow = MaxFloat64, sc_rangeSet = False, sc_barsInRange = 0,
     sc_volumeBuffer = replicate 128 0\<rparr>"

definition SessionScalpRunner_Reset :: "SessionScalpRunner \<Rightarrow> SessionScalpRunner" where
  "SessionScalpRunner_Reset r = r\<lparr>sc_base := BaseRunner_Reset (sc_base r), sc_openingHigh := 0,
     sc_openingLow := MaxFloat64, sc_rangeSet := False, sc_barsInRange := 0,
     sc_volumeBuffer := map (\<lambda>_. 0) (sc_volumeBuffer r)\<rparr>"

definition SessionScalpRunner_Params :: "SessionScalpRunner \<Rightarrow> params" where
  "SessionScalpRunner_Params r = [(''range_minutes'', sc_RangeMinutes r), (''entry_buffer_pct'', sc_EntryBufferPct r),
     (''volume_multiplier'', sc_VolumeMultiplier r), (''atr_period'', sc_AtrPeriod r),
     (''take_profit_atr_mult'', sc_TakeProfitAtrMult r), (''stop_loss_atr_mult'', sc_StopLossAtrMult r),
     (''time_exit_minutes'', sc_TimeExitMinutes r), (''timezone_offset'', float_of_int (sc_TimezoneOffset r))]"

definition SessionScalpRunner_SetParams :: "SessionScalpRunner \<Rightarrow> params \<Rightarrow> SessionScalpRunner" where
  "SessionScalpRunner_SetParams r ps =
     (let r = on_param ps ''range_minutes'' (\<lambda>v r. r\<lparr>sc_RangeMinutes := v\<rparr>) r;
          r = on_param ps ''entry_buffer_pct'' (\<lambda>v r. r\<lparr>sc_EntryBufferPct := v\<rparr>) r;
          r = on_param ps ''volume_multiplier'' (\<lambda>v r. r\<lparr>sc_VolumeMultiplier := v\<rparr>) r;
          r = on_param ps ''atr_period'' (\<lambda>v r. r\<lparr>sc_AtrPeriod := v\<rparr>) r;
          r = on_param ps ''take_profit_atr_mult'' (\<lambda>v r. r\<lparr>sc_TakeProfitAtrMult := v\<rparr>) r;
          r = on_param ps ''stop_loss_atr_mult'' (\<lambda>v r. r\<lparr>sc_StopLossAtrMult := v\<rparr>) r;
          r = on_param ps ''time_exit_minutes'' (\<lambda>v r. r\<lparr>sc_TimeExitMinutes := v\<rparr>) r
      in on_param ps ''timezone_offset'' (\<lambda>v r. r\<lparr>sc_TimezoneOffset := int64_of_float v\<rparr>) r)"

definition SessionScalpRunner_ParamDefs :: "ParamDef list" where
  "SessionScalpRunner_ParamDefs =
     [int_param ''range_minutes'' (lit 5) (lit 1) (lit 15) (lit 1),
      real_param ''entry_buffer_pct'' (lit (1/10)) (lit (1/100)) (lit (5/10)) (lit (5/100)),
      real_param ''volume_multiplier'' (lit (15/10)) (lit (5/10)) (lit 3) (lit (25/100)),
      int_param ''atr_period'' (lit 14) (lit 7) (lit 28) (lit 7),
      real_param ''take_profit_atr_mult'' (lit (15/10)) (lit 1) (lit 4) (lit (5/10)),
      real_param ''stop_loss_atr_mult'' (lit 1) (lit (25/100)) (lit 2) (lit (25/100)),
      int_param ''time_exit_minutes'' (lit 60) (lit 15) (lit 180) (lit 15),
      int_param ''timezone_offset'' (lit 0) (lit (-12)) (lit 14) (lit 1)]"

definition SessionScalpRunner_window :: "SessionScalpRunner \<Rightarrow> Session" where
  "SessionScalpRunner_window r = \<lparr>ss_StartHour = sc_SessionStartHour r, ss_StartMin = sc_SessionStartMin r,
     ss_EndHour = sc_SessionEndHour r, ss_EndMin = sc_SessionEndMin r, ss_TimezoneOffset = sc_TimezoneOffset r\<rparr>"

text \<open>It writes the histories itself, the volumes to a buffer of its own.\<close>

definition SessionScalpRunner_push :: "SessionScalpRunner \<Rightarrow> Candle \<Rightarrow> SessionScalpRunner" where
  "SessionScalpRunner_push r c =
     (let b = sc_base r; idx = br_HistIdx b mod br_BufferSize b
      in r\<lparr>sc_base := b\<lparr>br_PriceHistory := (br_PriceHistory b)[idx := Price_Float64 (ca_Close c)],
             br_HighHistory := (br_HighHistory b)[idx := Price_Float64 (ca_High c)],
             br_LowHistory := (br_LowHistory b)[idx := Price_Float64 (ca_Low c)],
             br_HistIdx := br_HistIdx b + 1,
             br_HistCount := (if br_HistCount b < br_BufferSize b then br_HistCount b + 1 else br_HistCount b)\<rparr>,
           sc_volumeBuffer := (sc_volumeBuffer r)[idx := ca_Volume c]\<rparr>)"

definition SessionScalpRunner_manage :: "SessionScalpRunner \<Rightarrow> Candle \<Rightarrow> Signal option \<times> SessionScalpRunner" where
  "SessionScalpRunner_manage r c =
     (let b = sc_base r; closed = r\<lparr>sc_base := BaseRunner_ClosePosition b\<rparr> in
      if duration_minutes (duration_between (br_EntryTime b) (ca_Time c)) \<ge> sc_TimeExitMinutes r
      then (Some (exit_signal c (closing_side (br_CurrentSide b))), closed)
      else if br_CurrentSide b = ''BUY''
      then (if IsStopLossHit (ca_Low c) (br_StopLoss b) ''BUY'' \<or> IsTakeProfitHit (ca_High c) (br_TakeProfit b) ''BUY''
        then (Some (exit_signal c ''SELL''), closed) else (None, r))
      else (if IsStopLossHit (ca_High c) (br_StopLoss b) ''SELL'' \<or> IsTakeProfitHit (ca_Low c) (br_TakeProfit b) ''SELL''
        then (Some (exit_signal c ''BUY''), closed) else (None, r)))"

definition SessionScalpRunner_enter :: "SessionScalpRunner \<Rightarrow> Candle \<Rightarrow> int \<Rightarrow> Signal option \<times> SessionScalpRunner" where
  "SessionScalpRunner_enter r c regime =
     (let b = sc_base r;
          avgVol = Mean (sc_volumeBuffer r) (int (br_HistCount b)) (int64_of_float (sc_AtrPeriod r));
          atr = br_ATR b (int64_of_float (sc_AtrPeriod r));
          rangeHeight = sc_openingHigh r - sc_openingLow r;
          bufferPct = sc_EntryBufferPct r / lit 100;
          (stopMult, profitMult) = BaseRunner_RegimeExitMults b regime;
          p = Price_Float64 (ca_Close c);
          open_at = (\<lambda>side stop target. (Some (enter_signal c side),
            r\<lparr>sc_base := BaseRunner_RecordTrade
              (BaseRunner_OpenPosition b side (ca_Close c) (PriceFromFloat stop) (PriceFromFloat target) (ca_Time c)) (ca_Time c)\<rparr>))
      in if avgVol > 0 \<and> ca_Volume c < avgVol * sc_VolumeMultiplier r then (None, r)
         else if atr \<le> 0 then (None, r)
         else if rangeHeight \<le> 0 then (None, r)
         else if p \<ge> sc_openingHigh r * (1 + bufferPct)
         then open_at ''BUY'' (p - atr * sc_StopLossAtrMult r * stopMult) (p + atr * sc_TakeProfitAtrMult r * profitMult)
         else if p \<le> sc_openingLow r * (1 - bufferPct)
         then open_at ''SELL'' (p + atr * sc_StopLossAtrMult r * stopMult) (p - atr * sc_TakeProfitAtrMult r * profitMult)
         else (None, r))"

definition SessionScalpRunner_Evaluate :: "SessionScalpRunner \<Rightarrow> Candle \<Rightarrow> int \<Rightarrow> Signal option \<times> SessionScalpRunner" where
  "SessionScalpRunner_Evaluate r c regime =
     (let (allowed, b) = BaseRunner_CanTrade (sc_base r) (ca_Time c) (sc_MaxTradesPerDay r);
          r = r\<lparr>sc_base := b\<rparr>
      in if \<not> allowed then (None, r)
         else if \<not> Session_InWindow (SessionScalpRunner_window r) (ca_Time c) then (None, r)
         else let r = SessionScalpRunner_push r c
              in if br_PositionOpen b then SessionScalpRunner_manage r c
                 else if \<not> sc_rangeSet r
                 then let (hi, lo) = widen_range c (sc_openingHigh r) (sc_openingLow r);
                          r = r\<lparr>sc_barsInRange := sc_barsInRange r + 1, sc_openingHigh := hi, sc_openingLow := lo\<rparr>
                      in (None, if float_of_int (sc_barsInRange r) \<ge> sc_RangeMinutes r then r\<lparr>sc_rangeSet := True\<rparr> else r)
                 else SessionScalpRunner_enter r c regime)"

abbreviation scalp_pos :: "SessionScalpRunner \<Rightarrow> string option" where
  "scalp_pos r \<equiv> br_pos (sc_base r)"

abbreviation scalp_counted :: "SessionScalpRunner \<Rightarrow> int option \<times> int" where
  "scalp_counted r \<equiv> br_counted (sc_base r)"

lemma scalp_push_frame [simp]:
  "br_PositionOpen (sc_base (SessionScalpRunner_push r c)) = br_PositionOpen (sc_base r)"
  "br_CurrentSide (sc_base (SessionScalpRunner_push r c)) = br_CurrentSide (sc_base r)"
  "scalp_pos (SessionScalpRunner_push r c) = scalp_pos r"
  "scalp_counted (SessionScalpRunner_push r c) = scalp_counted r"
  "sc_MaxTradesPerDay (SessionScalpRunner_push r c) = sc_MaxTradesPerDay r"
  by (simp_all add: SessionScalpRunner_push_def Let_def br_pos_def br_counted_def)

lemma scalp_manage_fits:
  "br_PositionOpen (sc_base r) \<Longrightarrow>
    step_fits (Some (br_CurrentSide (sc_base r))) (fst (SessionScalpRunner_manage r c), scalp_pos (snd (SessionScalpRunner_manage r c)))"
  unfolding SessionScalpRunner_manage_def Let_def by (simp add: br_pos_def[of "sc_base r"])

lemma scalp_enter_fits:
  "\<not> br_PositionOpen (sc_base r) \<Longrightarrow>
    step_fits None (fst (SessionScalpRunner_enter r c g), scalp_pos (snd (SessionScalpRunner_enter r c g)))"
  unfolding SessionScalpRunner_enter_def Let_def by (simp add: br_pos_def[of "sc_base r"] case_prod_beta)

lemma scalp_fits:
  "step_fits (scalp_pos r) (fst (SessionScalpRunner_Evaluate r c g), scalp_pos (snd (SessionScalpRunner_Evaluate r c g)))"
proof -
  obtain ok b where t: "BaseRunner_CanTrade (sc_base r) (ca_Time c) (sc_MaxTradesPerDay r) = (ok, b)" by force
  have b: "b = snd (BaseRunner_CanTrade (sc_base r) (ca_Time c) (sc_MaxTradesPerDay r))" by (simp add: t)
  define u where "u = SessionScalpRunner_push (r\<lparr>sc_base := b\<rparr>) c"
  have k: "br_pos b = scalp_pos r" "scalp_pos u = scalp_pos r" by (simp_all add: b u_def)
  have p: "br_PositionOpen (sc_base u) = br_PositionOpen b" "br_CurrentSide (sc_base u) = br_CurrentSide b"
    by (simp_all add: u_def)
  have "scalp_pos r = (if br_PositionOpen b then Some (br_CurrentSide b) else None)" by (simp add: br_pos_def b)
  then show ?thesis unfolding SessionScalpRunner_Evaluate_def Let_def t prod.case u_def[symmetric]
    using scalp_manage_fits[of u c] scalp_enter_fits[of u c g] by (simp add: k p case_prod_beta)
qed

interpretation scalp: position_machine SessionScalpRunner_Evaluate scalp_pos
  using scalp_fits by unfold_locales (simp add: step_fits_def)

lemma scalp_manage_counted:
  "scalp_counted (snd (SessionScalpRunner_manage r c)) = scalp_counted r"
  "sc_MaxTradesPerDay (snd (SessionScalpRunner_manage r c)) = sc_MaxTradesPerDay r"
  "\<not> is_entry (fst (SessionScalpRunner_manage r c))"
  by (simp_all add: SessionScalpRunner_manage_def Let_def)

lemma scalp_enter_counted:
  "is_entry (fst (SessionScalpRunner_enter r c g)) \<Longrightarrow> scalp_counted (snd (SessionScalpRunner_enter r c g)) =
    (Some (day_of (ca_Time c)), used_on (scalp_counted r) (day_of (ca_Time c)) + 1)"
  "\<not> is_entry (fst (SessionScalpRunner_enter r c g)) \<Longrightarrow> scalp_counted (snd (SessionScalpRunner_enter r c g)) = scalp_counted r"
  "sc_MaxTradesPerDay (snd (SessionScalpRunner_enter r c g)) = sc_MaxTradesPerDay r"
  unfolding SessionScalpRunner_enter_def Let_def by (auto simp: case_prod_beta split: if_splits)

lemma scalp_counts:
  "scalp_counted (snd (SessionScalpRunner_Evaluate r c g)) = (Some (day_of (ca_Time c)), used_on (scalp_counted r) (day_of (ca_Time c)) +
    (if is_entry (fst (SessionScalpRunner_Evaluate r c g)) then 1 else 0))"
  "is_entry (fst (SessionScalpRunner_Evaluate r c g)) \<Longrightarrow> 0 < sc_MaxTradesPerDay r \<Longrightarrow>
    used_on (scalp_counted r) (day_of (ca_Time c)) < sc_MaxTradesPerDay r"
  "sc_MaxTradesPerDay (snd (SessionScalpRunner_Evaluate r c g)) = sc_MaxTradesPerDay r"
  unfolding SessionScalpRunner_Evaluate_def Let_def
  by (auto simp: case_prod_beta CanTrade_iff scalp_manage_counted scalp_enter_counted split: if_splits)

interpretation scalp_daily: daily_limit SessionScalpRunner_Evaluate scalp_counted sc_MaxTradesPerDay
  by unfold_locales (simp_all add: scalp_counts)

section \<open>VolumeScalpRunner\<close>

record VolumeScalpRunner =
  vs_base :: BaseRunner
  vs_SessionStartHour :: int
  vs_SessionStartMin :: int
  vs_SessionEndHour :: int
  vs_SessionEndMin :: int
  vs_RangeMinutes :: f64
  vs_EntryBufferPct :: f64
  vs_VolumeMultiplier :: f64
  vs_AtrPeriod :: f64
  vs_TakeProfitAtrMult :: f64
  vs_StopLossAtrMult :: f64
  vs_TimeExitMinutes :: f64
  vs_MaxTradesPerDay :: int
  vs_dailyTradeCount :: int
  vs_currentDay :: "int option"
  vs_openingHigh :: f64
  vs_openingLow :: f64
  vs_rangeSet :: bool
  vs_barsInRange :: int
  vs_avgVolume :: f64
  vs_volumeCount :: int

definition NewVolumeScalpRunner :: VolumeScalpRunner where
  "NewVolumeScalpRunner = \<lparr>vs_base = NewBaseRunner 128, vs_SessionStartHour = 9, vs_SessionStartMin = 30,
     vs_SessionEndHour = 11, vs_SessionEndMin = 0, vs_RangeMinutes = lit 5, vs_EntryBufferPct = lit (1/10),
     vs_VolumeMultiplier = lit (125/100), vs_AtrPeriod = lit 14, vs_TakeProfitAtrMult = lit (15/10),
     vs_StopLossAtrMult = lit 1, vs_TimeExitMinutes = lit 60, vs_MaxTradesPerDay = 10, vs_dailyTradeCount = 0,
     vs_currentDay = None, vs_openingHigh = 0, vs_openingLow = MaxFloat64, vs_rangeSet = False, vs_barsInRange = 0,
     vs_avgVolume = 0, vs_volumeCount = 0\<rparr>"

definition VolumeScalpRunner_Params :: "VolumeScalpRunner \<Rightarrow> params" where
  "VolumeScalpRunner_Params r = [(''volume_multiplier'', vs_VolumeMultiplier r), (''atr_period'', vs_AtrPeriod r),
     (''take_profit_atr_mult'', vs_TakeProfitAtrMult r), (''stop_loss_atr_mult'', vs_StopLossAtrMult r),
     (''max_trades_per_day'', float_of_int (vs_MaxTradesPerDay r))]"

definition VolumeScalpRunner_SetParams :: "VolumeScalpRunner \<Rightarrow> params \<Rightarrow> VolumeScalpRunner" where
  "VolumeScalpRunner_SetParams r ps =
     (let r = on_param ps ''volume_multiplier'' (\<lambda>v r. r\<lparr>vs_VolumeMultiplier := v\<rparr>) r;
          r = on_param ps ''atr_period'' (\<lambda>v r. r\<lparr>vs_AtrPeriod := v\<rparr>) r;
          r = on_param ps ''take_profit_atr_mult'' (\<lambda>v r. r\<lparr>vs_TakeProfitAtrMult := v\<rparr>) r;
          r = on_param ps ''stop_loss_atr_mult'' (\<lambda>v r. r\<lparr>vs_StopLossAtrMult := v\<rparr>) r
      in on_param ps ''max_trades_per_day'' (\<lambda>v r. r\<lparr>vs_MaxTradesPerDay := int64_of_float v\<rparr>) r)"

definition VolumeScalpRunner_ParamDefs :: "ParamDef list" where
  "VolumeScalpRunner_ParamDefs =
     [real_param ''volume_multiplier'' (lit (125/100)) (lit 1) (lit 4) (lit (25/100)),
      real_param ''take_profit_atr_mult'' (lit (15/10)) (lit (5/10)) (lit 3) (lit (25/100)),
      real_param ''stop_loss_atr_mult'' (lit 1) (lit (25/100)) (lit 2) (lit (25/100)),
      int_param ''max_trades_per_day'' (lit 10) (lit 1) (lit 30) (lit 1)]"

definition VolumeScalpRunner_barsHeld :: "VolumeScalpRunner \<Rightarrow> int \<Rightarrow> int" where
  "VolumeScalpRunner_barsHeld r now =
     (if \<not> br_PositionOpen (vs_base r) \<or> br_EntryTime (vs_base r) = zero_time then 0
      else let mins = duration_minutes (duration_between (br_EntryTime (vs_base r)) now)
           in if mins < 0 then 0 else int64_of_float mins)"

text \<open>The head of \<open>Evaluate\<close>: the counter of the day and the running average of the volume.\<close>

definition VolumeScalpRunner_day :: "VolumeScalpRunner \<Rightarrow> Candle \<Rightarrow> VolumeScalpRunner" where
  "VolumeScalpRunner_day r c = (if vs_currentDay r \<noteq> Some (day_of (ca_Time c))
     then r\<lparr>vs_currentDay := Some (day_of (ca_Time c)), vs_dailyTradeCount := 0\<rparr> else r)"

definition VolumeScalpRunner_average :: "VolumeScalpRunner \<Rightarrow> Candle \<Rightarrow> VolumeScalpRunner" where
  "VolumeScalpRunner_average r c = (let alpha = lit (2/21) in
     r\<lparr>vs_volumeCount := vs_volumeCount r + 1,
       vs_avgVolume := (if vs_avgVolume r \<le> 0 then ca_Volume c else ca_Volume c * alpha + vs_avgVolume r * (1 - alpha))\<rparr>)"

definition VolumeScalpRunner_accumulate :: "VolumeScalpRunner \<Rightarrow> Candle \<Rightarrow> VolumeScalpRunner" where
  "VolumeScalpRunner_accumulate r c =
     (let totalMin = minute_of_day (ca_Time c); start = vs_SessionStartHour r * 60 + vs_SessionStartMin r in
      if totalMin \<ge> start \<and> totalMin < start + int64_of_float (vs_RangeMinutes r)
      then let (hi, lo) = widen_range c (vs_openingHigh r) (vs_openingLow r);
               r = r\<lparr>vs_openingHigh := hi, vs_openingLow := lo, vs_barsInRange := vs_barsInRange r + 1\<rparr>
           in if float_of_int (vs_barsInRange r) \<ge> vs_RangeMinutes r then r\<lparr>vs_rangeSet := True\<rparr> else r
      else r)"

definition VolumeScalpRunner_enter :: "VolumeScalpRunner \<Rightarrow> Candle \<Rightarrow> int \<Rightarrow> Signal option \<times> VolumeScalpRunner" where
  "VolumeScalpRunner_enter r c regime =
     (let b = vs_base r;
          atr = br_ATR b (int64_of_float (vs_AtrPeriod r));
          entryBuf = vs_EntryBufferPct r / lit 100;
          (stopMult, profitMult) = BaseRunner_RegimeExitMults b regime;
          p = Price_Float64 (ca_Close c);
          open_at = (\<lambda>side stop target. (Some (enter_signal c side),
            r\<lparr>vs_base := BaseRunner_OpenPosition b side (ca_Close c) (PriceFromFloat stop) (PriceFromFloat target) (ca_Time c),
              vs_dailyTradeCount := vs_dailyTradeCount r + 1\<rparr>))
      in if atr \<le> 0 then (None, r)
         else if p \<ge> vs_openingHigh r * (1 + entryBuf)
         then open_at ''BUY'' (p - atr * vs_StopLossAtrMult r * stopMult) (p + atr * vs_TakeProfitAtrMult r * profitMult)
         else if p \<le> vs_openingLow r * (1 - entryBuf)
         then open_at ''SELL'' (p + atr * vs_StopLossAtrMult r * stopMult) (p - atr * vs_TakeProfitAtrMult r * profitMult)
         else (None, r))"

definition VolumeScalpRunner_trade :: "VolumeScalpRunner \<Rightarrow> Candle \<Rightarrow> int \<Rightarrow> Signal option \<times> VolumeScalpRunner" where
  "VolumeScalpRunner_trade r c regime =
     (if br_PositionOpen (vs_base r)
      then (if VolumeScalpRunner_barsHeld r (ca_Time c) \<ge> int64_of_float (vs_TimeExitMinutes r)
        then (Some (exit_signal c (closing_side (br_CurrentSide (vs_base r)))), r\<lparr>vs_base := BaseRunner_ClosePosition (vs_base r)\<rparr>)
        else (None, r))
      else if minute_of_day (ca_Time c) < vs_SessionStartHour r * 60 + vs_SessionStartMin r then (None, r)
      else if \<not> vs_rangeSet r then (None, VolumeScalpRunner_accumulate r c)
      else if minute_of_day (ca_Time c) > vs_SessionEndHour r * 60 + vs_SessionEndMin r then (None, r)
      else VolumeScalpRunner_enter r c regime)"

definition VolumeScalpRunner_Evaluate :: "VolumeScalpRunner \<Rightarrow> Candle \<Rightarrow> int \<Rightarrow> Signal option \<times> VolumeScalpRunner" where
  "VolumeScalpRunner_Evaluate r c regime =
     (let r = VolumeScalpRunner_day r c in
      if vs_MaxTradesPerDay r > 0 \<and> vs_dailyTradeCount r \<ge> vs_MaxTradesPerDay r then (None, r)
      else let r = VolumeScalpRunner_average r c
           in if vs_volumeCount r > 5 \<and> vs_avgVolume r > 0 \<and> ca_Volume c < vs_avgVolume r * vs_VolumeMultiplier r then (None, r)
              else if Price_IsZero (ca_Close c) then (None, r)
              else VolumeScalpRunner_trade
                (r\<lparr>vs_base := BaseRunner_PushPrice (vs_base r) (ca_Close c) (ca_High c) (ca_Low c) (ca_Volume c)\<rparr>) c regime)"

abbreviation volume_pos :: "VolumeScalpRunner \<Rightarrow> string option" where
  "volume_pos r \<equiv> br_pos (vs_base r)"

definition volume_counted :: "VolumeScalpRunner \<Rightarrow> int option \<times> int" where
  "volume_counted r = (vs_currentDay r, vs_dailyTradeCount r)"

lemma volume_frame [simp]:
  "vs_base (VolumeScalpRunner_day r c) = vs_base r" "vs_base (VolumeScalpRunner_average r c) = vs_base r"
  "vs_base (VolumeScalpRunner_accumulate r c) = vs_base r"
  "volume_counted (VolumeScalpRunner_average r c) = volume_counted r"
  "volume_counted (VolumeScalpRunner_accumulate r c) = volume_counted r"
  "volume_counted (r\<lparr>vs_base := b\<rparr>) = volume_counted r"
  "vs_MaxTradesPerDay (VolumeScalpRunner_day r c) = vs_MaxTradesPerDay r"
  "vs_MaxTradesPerDay (VolumeScalpRunner_average r c) = vs_MaxTradesPerDay r"
  "vs_MaxTradesPerDay (VolumeScalpRunner_accumulate r c) = vs_MaxTradesPerDay r"
  by (simp_all add: VolumeScalpRunner_day_def VolumeScalpRunner_average_def VolumeScalpRunner_accumulate_def
      volume_counted_def Let_def case_prod_beta)

lemma volume_day_counted [simp]:
  "volume_counted (VolumeScalpRunner_day r c) = (Some (day_of (ca_Time c)), used_on (volume_counted r) (day_of (ca_Time c)))"
  "vs_dailyTradeCount (VolumeScalpRunner_day r c) = used_on (volume_counted r) (day_of (ca_Time c))"
  by (auto simp: VolumeScalpRunner_day_def volume_counted_def used_on_def)

lemma volume_enter_fits:
  "\<not> br_PositionOpen (vs_base r) \<Longrightarrow> step_fits None (fst (VolumeScalpRunner_enter r c g), volume_pos (snd (VolumeScalpRunner_enter r c g)))"
  unfolding VolumeScalpRunner_enter_def Let_def by (simp add: br_pos_def[of "vs_base r"] case_prod_beta)

lemma volume_trade_fits: "step_fits (volume_pos r) (fst (VolumeScalpRunner_trade r c g), volume_pos (snd (VolumeScalpRunner_trade r c g)))"
  unfolding VolumeScalpRunner_trade_def
  using volume_enter_fits[of r c g] by (simp add: br_pos_def[of "vs_base r"])

lemma volume_fits: "step_fits (volume_pos r) (fst (VolumeScalpRunner_Evaluate r c g), volume_pos (snd (VolumeScalpRunner_Evaluate r c g)))"
proof -
  define q where "q = VolumeScalpRunner_average (VolumeScalpRunner_day r c) c"
  have q: "vs_base q = vs_base r" by (simp add: q_def)
  show ?thesis unfolding VolumeScalpRunner_Evaluate_def Let_def q_def[symmetric]
    using volume_trade_fits[of "q\<lparr>vs_base := BaseRunner_PushPrice (vs_base r) (ca_Close c) (ca_High c) (ca_Low c) (ca_Volume c)\<rparr>" c g]
    by (simp add: q)
qed

interpretation volume: position_machine VolumeScalpRunner_Evaluate volume_pos
  using volume_fits by unfold_locales (simp add: step_fits_def)

lemma volume_trade_counted:
  "volume_counted r = (Some d, k) \<Longrightarrow> volume_counted (snd (VolumeScalpRunner_trade r c g)) =
    (Some d, if is_entry (fst (VolumeScalpRunner_trade r c g)) then k + 1 else k)"
  "vs_MaxTradesPerDay (snd (VolumeScalpRunner_trade r c g)) = vs_MaxTradesPerDay r"
  unfolding VolumeScalpRunner_trade_def VolumeScalpRunner_enter_def Let_def
  by (simp_all add: case_prod_beta, simp add: volume_counted_def)

lemma volume_counts:
  "volume_counted (snd (VolumeScalpRunner_Evaluate r c g)) = (Some (day_of (ca_Time c)), used_on (volume_counted r) (day_of (ca_Time c)) +
    (if is_entry (fst (VolumeScalpRunner_Evaluate r c g)) then 1 else 0))"
  "is_entry (fst (VolumeScalpRunner_Evaluate r c g)) \<Longrightarrow> 0 < vs_MaxTradesPerDay r \<Longrightarrow>
    used_on (volume_counted r) (day_of (ca_Time c)) < vs_MaxTradesPerDay r"
  "vs_MaxTradesPerDay (snd (VolumeScalpRunner_Evaluate r c g)) = vs_MaxTradesPerDay r"
  unfolding VolumeScalpRunner_Evaluate_def Let_def
  by (simp_all add: volume_trade_counted(1)[OF volume_frame(6)[THEN trans]] volume_trade_counted(2) split: if_splits)

interpretation volume_daily: daily_limit VolumeScalpRunner_Evaluate volume_counted vs_MaxTradesPerDay
  by unfold_locales (simp_all add: volume_counts)

section \<open>SessionMomentumRunner\<close>

record SessionMomentumRunner =
  sm_base :: BaseRunner
  sm_SessionMinutes :: f64
  sm_DriftThresholdPct :: f64
  sm_VolumeMultiplier :: f64
  sm_AtrPeriod :: f64
  sm_AtrMultiplier :: f64
  sm_ProfitATRMult :: f64
  sm_TimeExitMinutes :: f64
  sm_currentDay :: "int option"
  sm_dayOpenPrice :: f64
  sm_sessionOpenTime :: int
  sm_peakPrice :: price

definition NewSessionMomentumRunner :: SessionMomentumRunner where
  "NewSessionMomentumRunner = \<lparr>sm_base = NewBaseRunner 256, sm_SessionMinutes = lit 30,
     sm_DriftThresholdPct = lit (15/100), sm_VolumeMultiplier = lit (15/10), sm_AtrPeriod = lit 14,
     sm_AtrMultiplier = lit 2, sm_ProfitATRMult = 0, sm_TimeExitMinutes = lit 120, sm_currentDay = None,
     sm_dayOpenPrice = 0, sm_sessionOpenTime = zero_time, sm_peakPrice = 0\<rparr>"

definition SessionMomentumRunner_Reset :: "SessionMomentumRunner \<Rightarrow> SessionMomentumRunner" where
  "SessionMomentumRunner_Reset r = r\<lparr>sm_base := BaseRunner_Reset (sm_base r), sm_currentDay := None,
     sm_dayOpenPrice := 0, sm_sessionOpenTime := zero_time, sm_peakPrice := 0\<rparr>"

definition SessionMomentumRunner_Params :: "SessionMomentumRunner \<Rightarrow> params" where
  "SessionMomentumRunner_Params r = [(''session_minutes'', sm_SessionMinutes r),
     (''drift_threshold_pct'', sm_DriftThresholdPct r), (''volume_multiplier'', sm_VolumeMultiplier r),
     (''atr_period'', sm_AtrPeriod r), (''atr_multiplier'', sm_AtrMultiplier r),
     (''profit_atr_mult'', sm_ProfitATRMult r), (''time_exit_minutes'', sm_TimeExitMinutes r)]"

definition SessionMomentumRunner_SetParams :: "SessionMomentumRunner \<Rightarrow> params \<Rightarrow> SessionMomentumRunner" where
  "SessionMomentumRunner_SetParams r ps =
     (let r = on_param ps ''session_minutes'' (\<lambda>v r. r\<lparr>sm_SessionMinutes := v\<rparr>) r;
          r = on_param ps ''drift_threshold_pct'' (\<lambda>v r. r\<lparr>sm_DriftThresholdPct := v\<rparr>) r;
          r = on_param ps ''volume_multiplier'' (\<lambda>v r. r\<lparr>sm_VolumeMultiplier := v\<rparr>) r;
          r = on_param ps ''atr_period'' (\<lambda>v r. r\<lparr>sm_AtrPeriod := v\<rparr>) r;
          r = on_param ps ''atr_multiplier'' (\<lambda>v r. r\<lparr>sm_AtrMultiplier := v\<rparr>) r;
          r = on_param ps ''profit_atr_mult'' (\<lambda>v r. r\<lparr>sm_ProfitATRMult := v\<rparr>) r
      in on_param ps ''time_exit_minutes'' (\<lambda>v r. r\<lparr>sm_TimeExitMinutes := v\<rparr>) r)"

definition SessionMomentumRunner_ParamDefs :: "ParamDef list" where
  "SessionMomentumRunner_ParamDefs =
     [int_param ''session_minutes'' (lit 30) (lit 5) (lit 120) (lit 5),
      real_param ''drift_threshold_pct'' (lit (1/10)) (lit (2/100)) (lit 1) (lit (2/100)),
      real_param ''volume_multiplier'' (lit (15/10)) (lit (5/10)) (lit 3) (lit (25/100)),
      int_param ''atr_period'' (lit 14) (lit 7) (lit 28) (lit 7),
      real_param ''atr_multiplier'' (lit 2) (lit 1) (lit 4) (lit (5/10)),
      real_param ''profit_atr_mult'' (lit 0) (lit 0) (lit 10) (lit 1),
      int_param ''time_exit_minutes'' (lit 120) (lit 30) (lit 390) (lit 30)]"

definition SessionMomentumRunner_manage ::
  "SessionMomentumRunner \<Rightarrow> Candle \<Rightarrow> int \<Rightarrow> Signal option \<times> SessionMomentumRunner" where
  "SessionMomentumRunner_manage r c regime =
     (let price = ca_Close c; b = sm_base r;
          closed = (\<lambda>r. r\<lparr>sm_base := BaseRunner_ClosePosition b\<rparr>) in
      if duration_minutes (duration_between (br_EntryTime b) (ca_Time c)) \<ge> sm_TimeExitMinutes r
      then (Some (exit_signal c (closing_side (br_CurrentSide b))), closed r)
      else let stopMult = fst (BaseRunner_RegimeExitMults b regime);
               stopDist = br_ATR b (int64_of_float (sm_AtrPeriod r)) * sm_AtrMultiplier r * stopMult
           in if br_CurrentSide b = ''BUY''
              then let r = (if Price_Compare price (sm_peakPrice r) > 0 then r\<lparr>sm_peakPrice := price\<rparr> else r)
                   in if IsStopLossHit price (PriceFromFloat (Price_Float64 (sm_peakPrice r) - stopDist)) ''BUY''
                      then (Some (exit_signal c ''SELL''), closed r) else (None, r)
              else let r = (if Price_Compare price (sm_peakPrice r) < 0 then r\<lparr>sm_peakPrice := price\<rparr> else r)
                   in if IsStopLossHit price (PriceFromFloat (Price_Float64 (sm_peakPrice r) + stopDist)) ''SELL''
                      then (Some (exit_signal c ''BUY''), closed r) else (None, r))"

definition SessionMomentumRunner_enter ::
  "SessionMomentumRunner \<Rightarrow> Candle \<Rightarrow> int \<Rightarrow> Signal option \<times> SessionMomentumRunner" where
  "SessionMomentumRunner_enter r c regime =
     (if sm_sessionOpenTime r = zero_time \<or> sm_dayOpenPrice r \<le> 0 then (None, r)
      else let price = ca_Close c; pf = Price_Float64 price; b = sm_base r;
               elapsed = duration_minutes (duration_between (sm_sessionOpenTime r) (ca_Time c))
           in if elapsed < sm_SessionMinutes r \<or> elapsed > sm_SessionMinutes r + lit 30 then (None, r)
              else let drift = (pf - sm_dayOpenPrice r) / sm_dayOpenPrice r * lit 100
                   in if drift > - sm_DriftThresholdPct r \<and> drift < sm_DriftThresholdPct r then (None, r)
                      else let avgVol = Mean (br_VolumeHistory b) (int (br_HistCount b)) (int64_of_float (sm_AtrPeriod r));
                               atr = br_ATR b (int64_of_float (sm_AtrPeriod r));
                               (stopMult, profitMult) = BaseRunner_RegimeExitMults b regime;
                               stopDist = atr * sm_AtrMultiplier r * stopMult;
                               profitDist = stopDist * sm_ProfitATRMult r * profitMult;
                               target = (\<lambda>level. if sm_ProfitATRMult r > 0 then PriceFromFloat level else 0);
                               open_at = (\<lambda>side stop tp. (Some (enter_signal c side), r\<lparr>sm_peakPrice := price,
                                 sm_base := BaseRunner_OpenPosition b side price (PriceFromFloat stop) tp (ca_Time c)\<rparr>))
                           in if sm_VolumeMultiplier r > 0 \<and> avgVol > 0 \<and> ca_Volume c < avgVol * sm_VolumeMultiplier r then (None, r)
                              else if atr \<le> 0 then (None, r)
                              else if drift > 0 then open_at ''BUY'' (pf - stopDist) (target (pf + profitDist))
                              else open_at ''SELL'' (pf + stopDist) (target (pf - profitDist)))"

definition SessionMomentumRunner_Evaluate ::
  "SessionMomentumRunner \<Rightarrow> Candle \<Rightarrow> int \<Rightarrow> Signal option \<times> SessionMomentumRunner" where
  "SessionMomentumRunner_Evaluate r c regime =
     (if Price_IsZero (ca_Close c) then (None, r)
      else let r = (if sm_currentDay r \<noteq> Some (day_of (ca_Time c))
                    then r\<lparr>sm_currentDay := Some (day_of (ca_Time c)), sm_dayOpenPrice := Price_Float64 (ca_Open c),
                           sm_sessionOpenTime := ca_Time c\<rparr> else r);
               b = BaseRunner_PushPrice (sm_base r) (ca_Close c) (ca_High c) (ca_Low c) (ca_Volume c);
               r = r\<lparr>sm_base := b\<rparr>
           in if br_PositionOpen b then SessionMomentumRunner_manage r c regime
              else SessionMomentumRunner_enter r c regime)"

abbreviation session_pos :: "SessionMomentumRunner \<Rightarrow> string option" where
  "session_pos r \<equiv> br_pos (sm_base r)"

lemma session_manage_fits:
  "br_PositionOpen (sm_base r) \<Longrightarrow>
    step_fits (Some (br_CurrentSide (sm_base r))) (fst (SessionMomentumRunner_manage r c g), session_pos (snd (SessionMomentumRunner_manage r c g)))"
  unfolding SessionMomentumRunner_manage_def Let_def by (simp add: br_pos_def[of "sm_base r"])

lemma session_enter_fits:
  "\<not> br_PositionOpen (sm_base r) \<Longrightarrow>
    step_fits None (fst (SessionMomentumRunner_enter r c g), session_pos (snd (SessionMomentumRunner_enter r c g)))"
  unfolding SessionMomentumRunner_enter_def Let_def by (simp add: br_pos_def[of "sm_base r"] case_prod_beta)

lemma session_fits:
  "step_fits (session_pos r) (fst (SessionMomentumRunner_Evaluate r c g), session_pos (snd (SessionMomentumRunner_Evaluate r c g)))"
proof -
  define q where "q = (if sm_currentDay r \<noteq> Some (day_of (ca_Time c))
    then r\<lparr>sm_currentDay := Some (day_of (ca_Time c)), sm_dayOpenPrice := Price_Float64 (ca_Open c),
           sm_sessionOpenTime := ca_Time c\<rparr> else r)"
  have q: "sm_base q = sm_base r" by (simp add: q_def)
  define b where "b = BaseRunner_PushPrice (sm_base r) (ca_Close c) (ca_High c) (ca_Low c) (ca_Volume c)"
  have p: "session_pos r = (if br_PositionOpen b then Some (br_CurrentSide b) else None)" by (simp add: b_def br_pos_def)
  show ?thesis unfolding SessionMomentumRunner_Evaluate_def Let_def q_def[symmetric] q b_def[symmetric]
    using session_manage_fits[of "q\<lparr>sm_base := b\<rparr>" c g] session_enter_fits[of "q\<lparr>sm_base := b\<rparr>" c g] by (simp add: p)
qed

interpretation session: position_machine SessionMomentumRunner_Evaluate session_pos
  using session_fits by unfold_locales (simp add: step_fits_def)

section \<open>Entries of a day\<close>

text \<open>The opening range strategy enters at most once a day: over any bars in the order of
  their days, a new or reset \<open>OrbRunner\<close>, whatever its parameters, gives at most one entry
  signal per calendar day.
\<close>

theorem orb_one_entry_per_day:
  assumes "sorted (map (\<lambda>(c, g). day_of (ca_Time c)) bars)" and "br_tradeDay (ob_base r) = None"
  shows "orb_daily.entries_on d r bars \<le> 1"
  using orb_daily.entries_limited[of bars r d] assms by (simp add: br_counted_def used_on_def)

definition two_days :: "(Candle \<times> int) list" where
  "two_days = [(dollar_bar 1 100, 0), (dollar_bar 90000000000000 101, 0)]"

lemma orb_one_entry_per_day_witness: "orb_daily.entries_on 0 NewOrbRunner two_days \<le> 1"
  by (rule orb_one_entry_per_day)
    (simp_all add: two_days_def dollar_bar_def day_of_def NewOrbRunner_def NewBaseRunner_def)

text \<open>Used up for the day: neither scalper gives a signal or moves its position any more.\<close>

lemma scalp_used_up:
  "0 < sc_MaxTradesPerDay r \<Longrightarrow> sc_MaxTradesPerDay r \<le> used_on (scalp_counted r) (day_of (ca_Time c)) \<Longrightarrow>
    fst (SessionScalpRunner_Evaluate r c g) = None \<and> scalp_pos (snd (SessionScalpRunner_Evaluate r c g)) = scalp_pos r"
  by (simp add: SessionScalpRunner_Evaluate_def case_prod_beta CanTrade_iff Let_def)

lemma volume_used_up:
  "0 < vs_MaxTradesPerDay r \<Longrightarrow> vs_MaxTradesPerDay r \<le> used_on (volume_counted r) (day_of (ca_Time c)) \<Longrightarrow>
    fst (VolumeScalpRunner_Evaluate r c g) = None \<and> volume_pos (snd (VolumeScalpRunner_Evaluate r c g)) = volume_pos r"
  by (simp add: VolumeScalpRunner_Evaluate_def Let_def)

lemma scalp_used_up_run:
  "0 < sc_MaxTradesPerDay r \<Longrightarrow> sc_MaxTradesPerDay r \<le> used_on (scalp_counted r) d \<Longrightarrow>
    \<forall>(c, g) \<in> set bars. day_of (ca_Time c) = d \<Longrightarrow>
    fst (scalp.signals r bars) = [] \<and> scalp_pos (snd (scalp.signals r bars)) = scalp_pos r"
proof (induction bars arbitrary: r)
  case (Cons x bars)
  obtain c g where x: "x = (c, g)" by force
  have d: "day_of (ca_Time c) = d" using Cons.prems(3) by (simp add: x)
  note u = scalp_used_up[OF Cons.prems(1), of c g, unfolded d, OF Cons.prems(2)]
  have k: "sc_MaxTradesPerDay (snd (SessionScalpRunner_Evaluate r c g)) = sc_MaxTradesPerDay r"
    "used_on (scalp_counted (snd (SessionScalpRunner_Evaluate r c g))) d = used_on (scalp_counted r) d"
    using u by (simp_all add: scalp_counts d)
  show ?case using Cons.IH[of "snd (SessionScalpRunner_Evaluate r c g)"] Cons.prems u k
    by (simp add: x case_prod_beta)
qed simp

lemma volume_used_up_run:
  "0 < vs_MaxTradesPerDay r \<Longrightarrow> vs_MaxTradesPerDay r \<le> used_on (volume_counted r) d \<Longrightarrow>
    \<forall>(c, g) \<in> set bars. day_of (ca_Time c) = d \<Longrightarrow>
    fst (volume.signals r bars) = [] \<and> volume_pos (snd (volume.signals r bars)) = volume_pos r"
proof (induction bars arbitrary: r)
  case (Cons x bars)
  obtain c g where x: "x = (c, g)" by force
  have d: "day_of (ca_Time c) = d" using Cons.prems(3) by (simp add: x)
  note u = volume_used_up[OF Cons.prems(1), of c g, unfolded d, OF Cons.prems(2)]
  have k: "vs_MaxTradesPerDay (snd (VolumeScalpRunner_Evaluate r c g)) = vs_MaxTradesPerDay r"
    "used_on (volume_counted (snd (VolumeScalpRunner_Evaluate r c g))) d = used_on (volume_counted r) d"
    using u by (simp_all add: volume_counts d)
  show ?case using Cons.IH[of "snd (VolumeScalpRunner_Evaluate r c g)"] Cons.prems u k
    by (simp add: x case_prod_beta)
qed simp

text \<open>The trade limit of the scalpers stops their exits too. Once the entries of a day have
  reached \<open>MaxTradesPerDay\<close>, the session scalper and the volume scalper give no signal on any
  later bar of that day, whatever its prices, and an open position stays open: neither the stop,
  nor the target, nor the time exit closes it before the next day.
\<close>

theorem used_up_limit_blocks_exits:
  assumes "0 < sc_MaxTradesPerDay r" "sc_MaxTradesPerDay r \<le> used_on (scalp_counted r) d"
    and "0 < vs_MaxTradesPerDay v" "vs_MaxTradesPerDay v \<le> used_on (volume_counted v) d"
    and "\<forall>(c, g) \<in> set bars. day_of (ca_Time c) = d"
  shows "fst (scalp.signals r bars) = [] \<and> scalp_pos (snd (scalp.signals r bars)) = scalp_pos r \<and>
    fst (volume.signals v bars) = [] \<and> volume_pos (snd (volume.signals v bars)) = volume_pos v"
  using scalp_used_up_run[of r d bars] volume_used_up_run[of v d bars] assms by simp_all

definition open_scalp :: SessionScalpRunner where
  "open_scalp = NewSessionScalpRunner\<lparr>sc_MaxTradesPerDay := 1, sc_base := BaseRunner_RecordTrade
     (BaseRunner_OpenPosition (NewBaseRunner 128) ''BUY'' 10000000 9000000 11000000 1) 1\<rparr>"

definition open_volume :: VolumeScalpRunner where
  "open_volume = NewVolumeScalpRunner\<lparr>vs_MaxTradesPerDay := 1, vs_dailyTradeCount := 1, vs_currentDay := Some 0,
     vs_base := BaseRunner_OpenPosition (NewBaseRunner 128) ''BUY'' 10000000 9000000 11000000 1\<rparr>"

lemma used_up_limit_blocks_exits_witness:
  "scalp_pos (snd (scalp.signals open_scalp [(dollar_bar 2 1, 0)])) = Some ''BUY'' \<and>
    volume_pos (snd (volume.signals open_volume [(dollar_bar 2 1, 0)])) = Some ''BUY''"
proof -
  have "0 < sc_MaxTradesPerDay open_scalp" "sc_MaxTradesPerDay open_scalp \<le> used_on (scalp_counted open_scalp) 0"
    "0 < vs_MaxTradesPerDay open_volume" "vs_MaxTradesPerDay open_volume \<le> used_on (volume_counted open_volume) 0"
    "\<forall>(c, g) \<in> set [(dollar_bar 2 1, 0 :: int)]. day_of (ca_Time c) = 0"
    by (simp_all add: open_scalp_def open_volume_def volume_counted_def used_on_def dollar_bar_def day_of_def)
  from used_up_limit_blocks_exits[OF this] show ?thesis
    by (simp add: open_scalp_def open_volume_def br_pos_def br_simps BaseRunner_RecordTrade_def new_trade_day_def del: br_pos_frame)
qed

end
