(* ===== verification/Reversion.thy ===== *)
theory Reversion
  imports StrategyKit "HOL-Library.Monad_Syntax"
begin

text \<open>
  The strategies that trade against a move: \<open>internal/strategy/rsi2_reversion_runner.go\<close>,
  \<open>vol_harvesting_runner.go\<close>, \<open>vix_futures_carry_runner.go\<close>, \<open>pairs_runner.go\<close> and
  \<open>mean_reversion.go\<close>. The last two index slices with values that parameters can move out of
  range; their \<open>Evaluate\<close> returns an option, where \<open>None\<close> is the index-out-of-range panic.
\<close>

section \<open>Strategies that may panic\<close>

locale partial_machine =
  fixes evaluate :: "'s \<Rightarrow> Candle \<Rightarrow> int \<Rightarrow> (Signal option \<times> 's) option" and pos :: "'s \<Rightarrow> string option"
    and ok :: "'s \<Rightarrow> bool"
  assumes step: "evaluate s c r = Some (g, s') \<Longrightarrow> ok s \<Longrightarrow> side_ok (pos s) \<Longrightarrow>
    signal_fits (pos s) g (pos s') \<and> side_ok (pos s')"
    and ok_step: "evaluate s c r = Some (g, s') \<Longrightarrow> ok s \<Longrightarrow> ok s'"
begin

fun run_bars :: "'s \<Rightarrow> (Candle \<times> int) list \<Rightarrow> (Signal list \<times> 's) option" where
  "run_bars s [] = Some ([], s)"
| "run_bars s ((c, r) # bars) = (case evaluate s c r of None \<Rightarrow> None
     | Some (g, s') \<Rightarrow> (case run_bars s' bars of None \<Rightarrow> None
        | Some (gs, s'') \<Rightarrow> Some ((case g of None \<Rightarrow> gs | Some g \<Rightarrow> g # gs), s'')))"

lemma run_bars_alternate:
  "run_bars s bars = Some (gs, s') \<Longrightarrow> ok s \<Longrightarrow> side_ok (pos s) \<Longrightarrow> alternates (pos s) gs \<and> side_ok (pos s')"
proof (induction s bars arbitrary: gs rule: run_bars.induct)
  case (2 s c r bars)
  obtain g s1 gs1 where e: "evaluate s c r = Some (g, s1)" "run_bars s1 bars = Some (gs1, s')"
    "gs = (case g of None \<Rightarrow> gs1 | Some g \<Rightarrow> g # gs1)"
    using 2(2) by (auto split: option.splits prod.splits)
  have st: "signal_fits (pos s) g (pos s1)" "side_ok (pos s1)" using step[OF e(1) 2(3,4)] by simp_all
  have ih: "alternates (pos s1) gs1" "side_ok (pos s')"
    using 2(1)[OF e(1) refl e(2) ok_step[OF e(1) 2(3)] st(2)] by simp_all
  then show ?case using st e(3) by (cases "pos s"; cases g) (auto simp: signal_fits_def side_ok_def split: if_splits)
qed simp

end

sublocale position_machine \<subseteq> total: partial_machine "\<lambda>s c r. Some (evaluate s c r)" pos "\<lambda>_. True"
proof (unfold_locales, goal_cases)
  case (1 s c r g s')
  then show ?case using step[of s c r] by simp
qed simp

section \<open>RSI2MeanReversionRunner\<close>

record RSI2MeanReversionRunner =
  rs_base :: BaseRunner
  rs_Oversold :: f64
  rs_Overbought :: f64
  rs_ExitNeutral :: f64
  rs_AtrPeriod :: f64
  rs_AtrMultiplier :: f64
  rs_ProfitATRMult :: f64
  rs_MaxHoldBars :: f64
  rs_barsInTrade :: int

definition NewRSI2MeanReversionRunner :: RSI2MeanReversionRunner where
  "NewRSI2MeanReversionRunner = \<lparr>rs_base = NewBaseRunner 256, rs_Oversold = lit 5, rs_Overbought = lit 95,
     rs_ExitNeutral = lit 50, rs_AtrPeriod = lit 14, rs_AtrMultiplier = lit (15/10), rs_ProfitATRMult = lit 2,
     rs_MaxHoldBars = lit 20, rs_barsInTrade = 0\<rparr>"

definition RSI2MeanReversionRunner_Reset :: "RSI2MeanReversionRunner \<Rightarrow> RSI2MeanReversionRunner" where
  "RSI2MeanReversionRunner_Reset r = r\<lparr>rs_base := BaseRunner_Reset (rs_base r), rs_barsInTrade := 0\<rparr>"

definition RSI2MeanReversionRunner_Params :: "RSI2MeanReversionRunner \<Rightarrow> params" where
  "RSI2MeanReversionRunner_Params r = [(''oversold'', rs_Oversold r), (''overbought'', rs_Overbought r),
     (''exit_neutral'', rs_ExitNeutral r), (''atr_period'', rs_AtrPeriod r), (''atr_multiplier'', rs_AtrMultiplier r),
     (''profit_atr_mult'', rs_ProfitATRMult r), (''max_hold_bars'', rs_MaxHoldBars r)]"

definition RSI2MeanReversionRunner_SetParams :: "RSI2MeanReversionRunner \<Rightarrow> params \<Rightarrow> RSI2MeanReversionRunner" where
  "RSI2MeanReversionRunner_SetParams r ps =
     (let r = on_param ps ''oversold'' (\<lambda>v r. r\<lparr>rs_Oversold := v\<rparr>) r;
          r = on_param ps ''overbought'' (\<lambda>v r. r\<lparr>rs_Overbought := v\<rparr>) r;
          r = on_param ps ''exit_neutral'' (\<lambda>v r. r\<lparr>rs_ExitNeutral := v\<rparr>) r;
          r = on_param ps ''atr_period'' (\<lambda>v r. r\<lparr>rs_AtrPeriod := v\<rparr>) r;
          r = on_param ps ''atr_multiplier'' (\<lambda>v r. r\<lparr>rs_AtrMultiplier := v\<rparr>) r;
          r = on_param ps ''profit_atr_mult'' (\<lambda>v r. r\<lparr>rs_ProfitATRMult := v\<rparr>) r
      in on_param ps ''max_hold_bars'' (\<lambda>v r. r\<lparr>rs_MaxHoldBars := v\<rparr>) r)"

definition RSI2MeanReversionRunner_ParamDefs :: "ParamDef list" where
  "RSI2MeanReversionRunner_ParamDefs =
     [real_param ''oversold'' (lit 5) (lit 1) (lit 15) (lit 1),
      real_param ''overbought'' (lit 95) (lit 85) (lit 99) (lit 1),
      real_param ''exit_neutral'' (lit 50) (lit 40) (lit 60) (lit 5),
      int_param ''atr_period'' (lit 14) (lit 7) (lit 28) (lit 7),
      real_param ''atr_multiplier'' (lit (15/10)) (lit (5/10)) (lit 3) (lit (25/100)),
      real_param ''profit_atr_mult'' (lit 2) (lit 1) (lit 5) (lit (5/10)),
      int_param ''max_hold_bars'' (lit 20) (lit 5) (lit 60) (lit 5)]"

definition RSI2MeanReversionRunner_rsi2 :: "Lib \<Rightarrow> RSI2MeanReversionRunner \<Rightarrow> f64" where
  "RSI2MeanReversionRunner_rsi2 lib r = (let n = int (br_HistCount (rs_base r))
     in RSI2 lib (BaseRunner_LinearPrices (rs_base r) n) n)"

definition RSI2MeanReversionRunner_manage ::
  "Lib \<Rightarrow> RSI2MeanReversionRunner \<Rightarrow> Candle \<Rightarrow> Signal option \<times> RSI2MeanReversionRunner" where
  "RSI2MeanReversionRunner_manage lib r c =
     (let r = r\<lparr>rs_barsInTrade := rs_barsInTrade r + 1\<rparr>; b = rs_base r; price = ca_Close c;
          stopDist = br_ATR b (int64_of_float (rs_AtrPeriod r)) * rs_AtrMultiplier r;
          rsi2 = RSI2MeanReversionRunner_rsi2 lib r;
          entry = Price_Float64 (br_EntryPrice b);
          held = rs_barsInTrade r \<ge> int64_of_float (rs_MaxHoldBars r);
          closed = r\<lparr>rs_base := BaseRunner_ClosePosition b\<rparr>
      in if br_CurrentSide b = ''BUY''
         then (if IsStopLossHit price (PriceFromFloat (entry - stopDist)) ''BUY'' \<or> held
           then (Some (exit_signal c ''SELL''), closed)
           else if rsi2 > rs_ExitNeutral r \<and> rsi2 > 0 then (Some (exit_signal c ''SELL''), closed) else (None, r))
         else (if IsStopLossHit price (PriceFromFloat (entry + stopDist)) ''SELL'' \<or> held
           then (Some (exit_signal c ''BUY''), closed)
           else if rsi2 < rs_ExitNeutral r \<and> rsi2 > 0 then (Some (exit_signal c ''BUY''), closed) else (None, r)))"

definition RSI2MeanReversionRunner_enter ::
  "Lib \<Rightarrow> RSI2MeanReversionRunner \<Rightarrow> Candle \<Rightarrow> int \<Rightarrow> Signal option \<times> RSI2MeanReversionRunner" where
  "RSI2MeanReversionRunner_enter lib r c regime =
     (if br_HistCount (rs_base r) < 20 then (None, r)
      else let b = rs_base r; pf = Price_Float64 (ca_Close c);
               rsi2 = RSI2MeanReversionRunner_rsi2 lib r;
               (stopMult, profitMult) = BaseRunner_RegimeExitMults b regime;
               stopDist = br_ATR b (int64_of_float (rs_AtrPeriod r)) * rs_AtrMultiplier r * stopMult;
               profitDist = stopDist * rs_ProfitATRMult r * profitMult;
               open_at = (\<lambda>side stop target. (Some (enter_signal c side), r\<lparr>rs_barsInTrade := 0,
                 rs_base := BaseRunner_OpenPosition b side (ca_Close c) (PriceFromFloat stop) (PriceFromFloat target) (ca_Time c)\<rparr>))
           in if rsi2 \<le> 0 then (None, r)
              else if rsi2 < rs_Oversold r then open_at ''BUY'' (pf - stopDist) (pf + profitDist)
              else if rsi2 > rs_Overbought r then open_at ''SELL'' (pf + stopDist) (pf - profitDist)
              else (None, r))"

definition RSI2MeanReversionRunner_Evaluate ::
  "Lib \<Rightarrow> RSI2MeanReversionRunner \<Rightarrow> Candle \<Rightarrow> int \<Rightarrow> Signal option \<times> RSI2MeanReversionRunner" where
  "RSI2MeanReversionRunner_Evaluate lib r c regime =
     (if Price_IsZero (ca_Close c) then (None, r)
      else let b = BaseRunner_PushPrice (rs_base r) (ca_Close c) (ca_High c) (ca_Low c) (ca_Volume c); r = r\<lparr>rs_base := b\<rparr>
           in if br_PositionOpen b then RSI2MeanReversionRunner_manage lib r c
              else RSI2MeanReversionRunner_enter lib r c regime)"

abbreviation rsi2_pos :: "RSI2MeanReversionRunner \<Rightarrow> string option" where
  "rsi2_pos r \<equiv> br_pos (rs_base r)"

text \<open>Every strategy on a \<open>BaseRunner\<close> pushes the bar first; what it holds is not touched by that.\<close>

lemma push_pos:
  "br_pos b = (if br_PositionOpen (BaseRunner_PushPrice b p h l v)
     then Some (br_CurrentSide (BaseRunner_PushPrice b p h l v)) else None)"
  by (simp add: br_pos_def)

lemma rsi2_manage_fits:
  "br_PositionOpen (rs_base r) \<Longrightarrow> step_fits (Some (br_CurrentSide (rs_base r)))
    (fst (RSI2MeanReversionRunner_manage lib r c), rsi2_pos (snd (RSI2MeanReversionRunner_manage lib r c)))"
  unfolding RSI2MeanReversionRunner_manage_def Let_def by (simp add: br_pos_def[of "rs_base r"])

lemma rsi2_enter_fits:
  "\<not> br_PositionOpen (rs_base r) \<Longrightarrow>
    step_fits None (fst (RSI2MeanReversionRunner_enter lib r c g), rsi2_pos (snd (RSI2MeanReversionRunner_enter lib r c g)))"
  unfolding RSI2MeanReversionRunner_enter_def Let_def by (simp add: br_pos_def[of "rs_base r"] case_prod_beta)

lemma rsi2_fits:
  "step_fits (rsi2_pos r) (fst (RSI2MeanReversionRunner_Evaluate lib r c g), rsi2_pos (snd (RSI2MeanReversionRunner_Evaluate lib r c g)))"
proof -
  define b where "b = BaseRunner_PushPrice (rs_base r) (ca_Close c) (ca_High c) (ca_Low c) (ca_Volume c)"
  have p: "rsi2_pos r = (if br_PositionOpen b then Some (br_CurrentSide b) else None)" unfolding b_def by (rule push_pos)
  show ?thesis unfolding RSI2MeanReversionRunner_Evaluate_def Let_def b_def[symmetric]
    using rsi2_manage_fits[of "r\<lparr>rs_base := b\<rparr>" lib c] rsi2_enter_fits[of "r\<lparr>rs_base := b\<rparr>" lib c g] by (simp add: p)
qed

interpretation rsi2: position_machine "RSI2MeanReversionRunner_Evaluate lib" rsi2_pos for lib
  using rsi2_fits by unfold_locales (simp add: step_fits_def)

section \<open>The statistics of the volatility strategies\<close>

text \<open>
  \<open>computeStats\<close> and \<open>computeFadeStats\<close> have the same body: mean, deviation and average true
  range over the slots \<open>HistCount - lookback\<close> to \<open>HistCount - 1\<close> of the ring buffer.
\<close>

definition fade_values :: "BaseRunner \<Rightarrow> int \<Rightarrow> f64 list" where
  "fade_values b lookback = filter (\<lambda>v. v > 0) (map (\<lambda>i. br_PriceHistory b ! (i mod br_BufferSize b))
     [nat (max 0 (int (br_HistCount b) - lookback))..<br_HistCount b])"

definition fade_stats :: "BaseRunner \<Rightarrow> int \<Rightarrow> f64 \<times> f64 \<times> f64" where
  "fade_stats b lookback =
     (if int (br_HistCount b) < lookback then (0, 0, 0)
      else let vals = fade_values b lookback in
        if length vals < 2 then (0, 0, 0)
        else let mean = foldl (\<lambda>s v. s + v) 0 vals / float_of_int (int (length vals));
                 variance = foldl (\<lambda>s v. s + (v - mean) * (v - mean)) 0 vals
             in (mean, sampleStd variance (int (length vals)), br_ATR b 14))"

section \<open>VolHarvestingRunner\<close>

record VolHarvestingRunner =
  vh_base :: BaseRunner
  vh_VIXThreshold :: f64
  vh_MaxVega :: f64
  vh_StopATRMult :: f64
  vh_ProfitATRMult :: f64
  vh_MeanRevLookback :: int
  vh_MeanRevEntryZ :: f64
  vh_MeanRevExitZ :: f64
  vh_CurrentVIX :: f64

definition NewVolHarvestingRunner :: VolHarvestingRunner where
  "NewVolHarvestingRunner = \<lparr>vh_base = NewBaseRunner 128, vh_VIXThreshold = lit 20, vh_MaxVega = lit (2/100),
     vh_StopATRMult = lit 2, vh_ProfitATRMult = lit 3, vh_MeanRevLookback = 10, vh_MeanRevEntryZ = lit (15/10),
     vh_MeanRevExitZ = lit (5/10), vh_CurrentVIX = 0\<rparr>"

definition VolHarvestingRunner_Reset :: "VolHarvestingRunner \<Rightarrow> VolHarvestingRunner" where
  "VolHarvestingRunner_Reset r = r\<lparr>vh_base := BaseRunner_Reset (vh_base r)\<rparr>"

definition VolHarvestingRunner_Params :: "VolHarvestingRunner \<Rightarrow> params" where
  "VolHarvestingRunner_Params r = [(''vix_threshold'', vh_VIXThreshold r), (''max_vega'', vh_MaxVega r),
     (''stop_atr_mult'', vh_StopATRMult r), (''profit_atr_mult'', vh_ProfitATRMult r),
     (''mean_rev_lookback'', float_of_int (vh_MeanRevLookback r)), (''mean_rev_entry_z'', vh_MeanRevEntryZ r),
     (''mean_rev_exit_z'', vh_MeanRevExitZ r)]"

definition VolHarvestingRunner_SetParams :: "VolHarvestingRunner \<Rightarrow> params \<Rightarrow> VolHarvestingRunner" where
  "VolHarvestingRunner_SetParams r ps =
     (let r = on_param ps ''vix_threshold'' (\<lambda>v r. r\<lparr>vh_VIXThreshold := v\<rparr>) r;
          r = on_param ps ''max_vega'' (\<lambda>v r. r\<lparr>vh_MaxVega := v\<rparr>) r;
          r = on_param ps ''stop_atr_mult'' (\<lambda>v r. r\<lparr>vh_StopATRMult := v\<rparr>) r;
          r = on_param ps ''profit_atr_mult'' (\<lambda>v r. r\<lparr>vh_ProfitATRMult := v\<rparr>) r;
          r = on_param ps ''mean_rev_lookback'' (\<lambda>v r. r\<lparr>vh_MeanRevLookback := int64_of_float v\<rparr>) r;
          r = on_param ps ''mean_rev_entry_z'' (\<lambda>v r. r\<lparr>vh_MeanRevEntryZ := v\<rparr>) r
      in on_param ps ''mean_rev_exit_z'' (\<lambda>v r. r\<lparr>vh_MeanRevExitZ := v\<rparr>) r)"

definition VolHarvestingRunner_ParamDefs :: "ParamDef list" where
  "VolHarvestingRunner_ParamDefs =
     [real_param ''vix_threshold'' (lit 20) (lit 15) (lit 40) (lit 1),
      real_param ''max_vega'' (lit (2/100)) (lit (5/1000)) (lit (5/100)) (lit (5/1000)),
      real_param ''stop_atr_mult'' (lit 2) (lit 1) (lit 4) (lit (5/10)),
      real_param ''profit_atr_mult'' (lit 3) (lit (15/10)) (lit 5) (lit (5/10)),
      int_param ''mean_rev_lookback'' (lit 10) (lit 5) (lit 30) (lit 5),
      real_param ''mean_rev_entry_z'' (lit (15/10)) (lit (75/100)) (lit 3) (lit (25/100)),
      real_param ''mean_rev_exit_z'' (lit (5/10)) (lit 0) (lit (15/10)) (lit (25/100))]"

definition VolHarvestingRunner_SetVIX :: "VolHarvestingRunner \<Rightarrow> f64 \<Rightarrow> VolHarvestingRunner" where
  "VolHarvestingRunner_SetVIX r vix = r\<lparr>vh_CurrentVIX := vix\<rparr>"

definition VolHarvestingRunner_computeStats :: "VolHarvestingRunner \<Rightarrow> f64 \<times> f64 \<times> f64" where
  "VolHarvestingRunner_computeStats r = fade_stats (vh_base r) (vh_MeanRevLookback r)"

definition VolHarvestingRunner_manage ::
  "VolHarvestingRunner \<Rightarrow> Candle \<Rightarrow> f64 \<Rightarrow> f64 \<Rightarrow> Signal option \<times> VolHarvestingRunner" where
  "VolHarvestingRunner_manage r c zScore atr =
     (let b = vh_base r; price = ca_Close c; p = Price_Float64 price; entry = Price_Float64 (br_EntryPrice b);
          closed = r\<lparr>vh_base := BaseRunner_ClosePosition b\<rparr> in
      if br_CurrentSide b = ''BUY''
      then (if p \<le> entry - atr * vh_StopATRMult r \<or> IsTakeProfitHit price (br_TakeProfit b) ''BUY'' \<or> zScore \<ge> vh_MeanRevExitZ r
        then (Some (exit_signal c ''SELL''), closed) else (None, r))
      else (if p \<ge> entry + atr * vh_StopATRMult r \<or> IsTakeProfitHit price (br_TakeProfit b) ''SELL'' \<or> zScore \<le> - vh_MeanRevExitZ r
        then (Some (exit_signal c ''BUY''), closed) else (None, r)))"

definition VolHarvestingRunner_enter ::
  "VolHarvestingRunner \<Rightarrow> Candle \<Rightarrow> int \<Rightarrow> f64 \<Rightarrow> f64 \<Rightarrow> Signal option \<times> VolHarvestingRunner" where
  "VolHarvestingRunner_enter r c regime zScore atr =
     (let b = vh_base r; p = Price_Float64 (ca_Close c);
          (stopMult, profitMult) = BaseRunner_RegimeExitMults b regime;
          stopDist = atr * vh_StopATRMult r * stopMult;
          profitDist = atr * vh_ProfitATRMult r * profitMult;
          open_at = (\<lambda>side stop target. (Some (enter_signal c side), r\<lparr>vh_base :=
            BaseRunner_OpenPosition b side (ca_Close c) (PriceFromFloat stop) (PriceFromFloat target) (ca_Time c)\<rparr>))
      in if zScore \<le> - vh_MeanRevEntryZ r then open_at ''BUY'' (p - stopDist) (p + profitDist)
         else if zScore \<ge> vh_MeanRevEntryZ r then open_at ''SELL'' (p + stopDist) (p - profitDist)
         else (None, r))"

definition VolHarvestingRunner_Evaluate ::
  "VolHarvestingRunner \<Rightarrow> Candle \<Rightarrow> int \<Rightarrow> Signal option \<times> VolHarvestingRunner" where
  "VolHarvestingRunner_Evaluate r c regime =
     (if Price_IsZero (ca_Close c) then (None, r)
      else let b = BaseRunner_PushPrice (vh_base r) (ca_Close c) (ca_High c) (ca_Low c) (ca_Volume c); r = r\<lparr>vh_base := b\<rparr>
           in if vh_CurrentVIX r < vh_VIXThreshold r then (None, r)
              else let (mean, stdDev, atr) = VolHarvestingRunner_computeStats r
                   in if stdDev \<le> 0 \<or> atr \<le> 0 then (None, r)
                      else let zScore = (Price_Float64 (ca_Close c) - mean) / stdDev
                           in if br_PositionOpen b then VolHarvestingRunner_manage r c zScore atr
                              else VolHarvestingRunner_enter r c regime zScore atr)"

abbreviation harvest_pos :: "VolHarvestingRunner \<Rightarrow> string option" where
  "harvest_pos r \<equiv> br_pos (vh_base r)"

lemma harvest_manage_fits:
  "br_PositionOpen (vh_base r) \<Longrightarrow> step_fits (Some (br_CurrentSide (vh_base r)))
    (fst (VolHarvestingRunner_manage r c z a), harvest_pos (snd (VolHarvestingRunner_manage r c z a)))"
  unfolding VolHarvestingRunner_manage_def Let_def by (simp add: br_pos_def[of "vh_base r"])

lemma harvest_enter_fits:
  "\<not> br_PositionOpen (vh_base r) \<Longrightarrow>
    step_fits None (fst (VolHarvestingRunner_enter r c g z a), harvest_pos (snd (VolHarvestingRunner_enter r c g z a)))"
  unfolding VolHarvestingRunner_enter_def Let_def by (simp add: br_pos_def[of "vh_base r"] case_prod_beta)

lemma harvest_fits:
  "step_fits (harvest_pos r) (fst (VolHarvestingRunner_Evaluate r c g), harvest_pos (snd (VolHarvestingRunner_Evaluate r c g)))"
proof -
  define b where "b = BaseRunner_PushPrice (vh_base r) (ca_Close c) (ca_High c) (ca_Low c) (ca_Volume c)"
  have p: "harvest_pos r = (if br_PositionOpen b then Some (br_CurrentSide b) else None)" unfolding b_def by (rule push_pos)
  have k: "br_pos b = harvest_pos r" by (simp add: b_def)
  show ?thesis unfolding VolHarvestingRunner_Evaluate_def Let_def b_def[symmetric]
    using harvest_manage_fits[of "r\<lparr>vh_base := b\<rparr>" c] harvest_enter_fits[of "r\<lparr>vh_base := b\<rparr>" c g]
    by (simp add: k p case_prod_beta)
qed

interpretation harvest: position_machine VolHarvestingRunner_Evaluate harvest_pos
  using harvest_fits by unfold_locales (simp add: step_fits_def)

section \<open>VIXFuturesCarryRunner\<close>

record VIXFuturesCarryRunner =
  vx_base :: BaseRunner
  vx_VIXSpot :: f64
  vx_ContangoThreshold :: f64
  vx_FadeLookback :: int
  vx_FadeEntryZ :: f64
  vx_FadeExitZ :: f64
  vx_StopATRMult :: f64
  vx_ProfitATRMult :: f64
  vx_MaxHold :: int
  vx_barsHeld :: int

definition NewVIXFuturesCarryRunner :: VIXFuturesCarryRunner where
  "NewVIXFuturesCarryRunner = \<lparr>vx_base = NewBaseRunner 128, vx_VIXSpot = 0, vx_ContangoThreshold = lit 22,
     vx_FadeLookback = 10, vx_FadeEntryZ = lit (15/10), vx_FadeExitZ = lit (3/10), vx_StopATRMult = lit 2,
     vx_ProfitATRMult = lit 3, vx_MaxHold = 30, vx_barsHeld = 0\<rparr>"

definition VIXFuturesCarryRunner_Reset :: "VIXFuturesCarryRunner \<Rightarrow> VIXFuturesCarryRunner" where
  "VIXFuturesCarryRunner_Reset r = r\<lparr>vx_base := BaseRunner_Reset (vx_base r), vx_barsHeld := 0\<rparr>"

definition VIXFuturesCarryRunner_Params :: "VIXFuturesCarryRunner \<Rightarrow> params" where
  "VIXFuturesCarryRunner_Params r = [(''contango_threshold'', vx_ContangoThreshold r),
     (''fade_lookback'', float_of_int (vx_FadeLookback r)), (''fade_entry_z'', vx_FadeEntryZ r),
     (''fade_exit_z'', vx_FadeExitZ r), (''stop_atr_mult'', vx_StopATRMult r),
     (''profit_atr_mult'', vx_ProfitATRMult r), (''max_hold'', float_of_int (vx_MaxHold r))]"

definition VIXFuturesCarryRunner_SetParams :: "VIXFuturesCarryRunner \<Rightarrow> params \<Rightarrow> VIXFuturesCarryRunner" where
  "VIXFuturesCarryRunner_SetParams r ps =
     (let r = on_param ps ''contango_threshold'' (\<lambda>v r. r\<lparr>vx_ContangoThreshold := v\<rparr>) r;
          r = on_param ps ''fade_lookback'' (\<lambda>v r. r\<lparr>vx_FadeLookback := int64_of_float v\<rparr>) r;
          r = on_param ps ''fade_entry_z'' (\<lambda>v r. r\<lparr>vx_FadeEntryZ := v\<rparr>) r;
          r = on_param ps ''fade_exit_z'' (\<lambda>v r. r\<lparr>vx_FadeExitZ := v\<rparr>) r;
          r = on_param ps ''stop_atr_mult'' (\<lambda>v r. r\<lparr>vx_StopATRMult := v\<rparr>) r;
          r = on_param ps ''profit_atr_mult'' (\<lambda>v r. r\<lparr>vx_ProfitATRMult := v\<rparr>) r
      in on_param ps ''max_hold'' (\<lambda>v r. r\<lparr>vx_MaxHold := int64_of_float v\<rparr>) r)"

definition VIXFuturesCarryRunner_ParamDefs :: "ParamDef list" where
  "VIXFuturesCarryRunner_ParamDefs =
     [real_param ''contango_threshold'' (lit 22) (lit 15) (lit 35) (lit 1),
      int_param ''fade_lookback'' (lit 10) (lit 5) (lit 30) (lit 5),
      real_param ''fade_entry_z'' (lit (15/10)) (lit 1) (lit 3) (lit (25/100)),
      real_param ''fade_exit_z'' (lit (3/10)) (lit 0) (lit 1) (lit (1/10)),
      real_param ''stop_atr_mult'' (lit 2) (lit 1) (lit 4) (lit (5/10)),
      real_param ''profit_atr_mult'' (lit 3) (lit (15/10)) (lit 5) (lit (5/10)),
      int_param ''max_hold'' (lit 30) (lit 10) (lit 60) (lit 5)]"

definition VIXFuturesCarryRunner_SetVIX :: "VIXFuturesCarryRunner \<Rightarrow> f64 \<Rightarrow> VIXFuturesCarryRunner" where
  "VIXFuturesCarryRunner_SetVIX r vix = r\<lparr>vx_VIXSpot := vix\<rparr>"

definition VIXFuturesCarryRunner_computeFadeStats :: "VIXFuturesCarryRunner \<Rightarrow> f64 \<times> f64 \<times> f64" where
  "VIXFuturesCarryRunner_computeFadeStats r = fade_stats (vx_base r) (vx_FadeLookback r)"

definition VIXFuturesCarryRunner_manage ::
  "VIXFuturesCarryRunner \<Rightarrow> Candle \<Rightarrow> f64 \<Rightarrow> f64 \<Rightarrow> Signal option \<times> VIXFuturesCarryRunner" where
  "VIXFuturesCarryRunner_manage r c zScore atr =
     (let r = r\<lparr>vx_barsHeld := vx_barsHeld r + 1\<rparr>; b = vx_base r; p = Price_Float64 (ca_Close c);
          entry = Price_Float64 (br_EntryPrice b); closed = r\<lparr>vx_base := BaseRunner_ClosePosition b\<rparr> in
      if vx_barsHeld r \<ge> vx_MaxHold r then (Some (exit_signal c (exitSide (br_CurrentSide b))), closed)
      else if br_CurrentSide b = ''BUY''
      then (if p \<le> entry - atr * vx_StopATRMult r \<or> zScore \<ge> vx_FadeExitZ r
        then (Some (exit_signal c ''SELL''), closed) else (None, r))
      else (if p \<ge> entry + atr * vx_StopATRMult r \<or> zScore \<le> - vx_FadeExitZ r
        then (Some (exit_signal c ''BUY''), closed) else (None, r)))"

definition VIXFuturesCarryRunner_enter ::
  "VIXFuturesCarryRunner \<Rightarrow> Candle \<Rightarrow> int \<Rightarrow> f64 \<Rightarrow> f64 \<Rightarrow> Signal option \<times> VIXFuturesCarryRunner" where
  "VIXFuturesCarryRunner_enter r c regime zScore atr =
     (let b = vx_base r; p = Price_Float64 (ca_Close c);
          (stopMult, profitMult) = BaseRunner_RegimeExitMults b regime;
          stopDist = atr * vx_StopATRMult r * stopMult;
          profitDist = atr * vx_ProfitATRMult r * profitMult;
          open_at = (\<lambda>side stop target. (Some (enter_signal c side), r\<lparr>vx_barsHeld := 0, vx_base :=
            BaseRunner_OpenPosition b side (ca_Close c) (PriceFromFloat stop) (PriceFromFloat target) (ca_Time c)\<rparr>))
      in if zScore \<le> - vx_FadeEntryZ r then open_at ''BUY'' (p - stopDist) (p + profitDist)
         else if zScore \<ge> vx_FadeEntryZ r then open_at ''SELL'' (p + stopDist) (p - profitDist)
         else (None, r))"

definition VIXFuturesCarryRunner_Evaluate ::
  "VIXFuturesCarryRunner \<Rightarrow> Candle \<Rightarrow> int \<Rightarrow> Signal option \<times> VIXFuturesCarryRunner" where
  "VIXFuturesCarryRunner_Evaluate r c regime =
     (if Price_IsZero (ca_Close c) then (None, r)
      else let b = BaseRunner_PushPrice (vx_base r) (ca_Close c) (ca_High c) (ca_Low c) (ca_Volume c); r = r\<lparr>vx_base := b\<rparr>
           in if vx_VIXSpot r < vx_ContangoThreshold r then (None, r)
              else let (mean, stdDev, atr) = VIXFuturesCarryRunner_computeFadeStats r
                   in if stdDev \<le> 0 \<or> atr \<le> 0 then (None, r)
                      else let zScore = (Price_Float64 (ca_Close c) - mean) / stdDev
                           in if br_PositionOpen b then VIXFuturesCarryRunner_manage r c zScore atr
                              else VIXFuturesCarryRunner_enter r c regime zScore atr)"

abbreviation vix_pos :: "VIXFuturesCarryRunner \<Rightarrow> string option" where
  "vix_pos r \<equiv> br_pos (vx_base r)"

lemma vix_manage_fits:
  "br_PositionOpen (vx_base r) \<Longrightarrow> step_fits (Some (br_CurrentSide (vx_base r)))
    (fst (VIXFuturesCarryRunner_manage r c z a), vix_pos (snd (VIXFuturesCarryRunner_manage r c z a)))"
  unfolding VIXFuturesCarryRunner_manage_def Let_def by (simp add: br_pos_def[of "vx_base r"])

lemma vix_enter_fits:
  "\<not> br_PositionOpen (vx_base r) \<Longrightarrow>
    step_fits None (fst (VIXFuturesCarryRunner_enter r c g z a), vix_pos (snd (VIXFuturesCarryRunner_enter r c g z a)))"
  unfolding VIXFuturesCarryRunner_enter_def Let_def by (simp add: br_pos_def[of "vx_base r"] case_prod_beta)

lemma vix_fits:
  "step_fits (vix_pos r) (fst (VIXFuturesCarryRunner_Evaluate r c g), vix_pos (snd (VIXFuturesCarryRunner_Evaluate r c g)))"
proof -
  define b where "b = BaseRunner_PushPrice (vx_base r) (ca_Close c) (ca_High c) (ca_Low c) (ca_Volume c)"
  have p: "vix_pos r = (if br_PositionOpen b then Some (br_CurrentSide b) else None)" unfolding b_def by (rule push_pos)
  have k: "br_pos b = vix_pos r" by (simp add: b_def)
  show ?thesis unfolding VIXFuturesCarryRunner_Evaluate_def Let_def b_def[symmetric]
    using vix_manage_fits[of "r\<lparr>vx_base := b\<rparr>" c] vix_enter_fits[of "r\<lparr>vx_base := b\<rparr>" c g]
    by (simp add: k p case_prod_beta)
qed

interpretation vix: position_machine VIXFuturesCarryRunner_Evaluate vix_pos
  using vix_fits by unfold_locales (simp add: step_fits_def)

text \<open>
  Below the threshold of the VIX neither of them does anything, an open position included.
\<close>

lemma harvest_gated:
  "vh_CurrentVIX r < vh_VIXThreshold r \<Longrightarrow> fst (VolHarvestingRunner_Evaluate r c g) = None \<and>
    harvest_pos (snd (VolHarvestingRunner_Evaluate r c g)) = harvest_pos r"
  by (simp add: VolHarvestingRunner_Evaluate_def Let_def)

lemma vix_gated:
  "vx_VIXSpot r < vx_ContangoThreshold r \<Longrightarrow> fst (VIXFuturesCarryRunner_Evaluate r c g) = None \<and>
    vix_pos (snd (VIXFuturesCarryRunner_Evaluate r c g)) = vix_pos r"
  by (simp add: VIXFuturesCarryRunner_Evaluate_def Let_def)

lemma gate_keeps [simp]:
  "vh_CurrentVIX (snd (VolHarvestingRunner_Evaluate r c g)) = vh_CurrentVIX r"
  "vh_VIXThreshold (snd (VolHarvestingRunner_Evaluate r c g)) = vh_VIXThreshold r"
  "vx_VIXSpot (snd (VIXFuturesCarryRunner_Evaluate x c g)) = vx_VIXSpot x"
  "vx_ContangoThreshold (snd (VIXFuturesCarryRunner_Evaluate x c g)) = vx_ContangoThreshold x"
  by (simp_all add: VolHarvestingRunner_Evaluate_def VolHarvestingRunner_manage_def VolHarvestingRunner_enter_def
      VIXFuturesCarryRunner_Evaluate_def VIXFuturesCarryRunner_manage_def VIXFuturesCarryRunner_enter_def
      Let_def case_prod_beta)

text \<open>While the VIX is below their threshold the two volatility strategies hold what they have.
  For any number of bars, whatever the prices, \<open>VolHarvestingRunner\<close> and
  \<open>VIXFuturesCarryRunner\<close> give no signal and keep an open position: stop loss, take profit and
  the longest holding time are behind the same early return as the entries.
\<close>

theorem low_vix_keeps_positions:
  assumes "vh_CurrentVIX r < vh_VIXThreshold r" and "vx_VIXSpot x < vx_ContangoThreshold x"
  shows "fst (harvest.signals r bars) = [] \<and> harvest_pos (snd (harvest.signals r bars)) = harvest_pos r \<and>
    fst (vix.signals x bars) = [] \<and> vix_pos (snd (vix.signals x bars)) = vix_pos x"
  using assms
proof (induction bars arbitrary: r x)
  case (Cons b bars)
  obtain c g where b: "b = (c, g)" by force
  show ?case
    using Cons.IH[of "snd (VolHarvestingRunner_Evaluate r c g)" "snd (VIXFuturesCarryRunner_Evaluate x c g)"]
      harvest_gated[OF Cons.prems(1), of c g] vix_gated[OF Cons.prems(2), of c g] Cons.prems
    by (simp add: b case_prod_beta)
qed simp

definition held_harvest :: VolHarvestingRunner where
  "held_harvest = NewVolHarvestingRunner\<lparr>vh_base :=
     BaseRunner_OpenPosition (NewBaseRunner 128) ''BUY'' 10000000 9000000 11000000 1\<rparr>"

definition held_vix :: VIXFuturesCarryRunner where
  "held_vix = NewVIXFuturesCarryRunner\<lparr>vx_base :=
     BaseRunner_OpenPosition (NewBaseRunner 128) ''SELL'' 10000000 11000000 9000000 1\<rparr>"

lemma low_vix_keeps_positions_witness:
  "harvest_pos (snd (harvest.signals held_harvest [(dollar_bar 2 1, 2)])) = Some ''BUY'' \<and>
    vix_pos (snd (vix.signals held_vix [(dollar_bar 2 1000, 2)])) = Some ''SELL''"
proof -
  have "vh_CurrentVIX held_harvest < vh_VIXThreshold held_harvest" "vx_VIXSpot held_vix < vx_ContangoThreshold held_vix"
    by (simp_all add: held_harvest_def held_vix_def NewVolHarvestingRunner_def NewVIXFuturesCarryRunner_def f64_eval)
  moreover have "harvest_pos held_harvest = Some ''BUY''" "vix_pos held_vix = Some ''SELL''"
    by (simp_all add: held_harvest_def held_vix_def)
  ultimately show ?thesis by (simp only: low_vix_keeps_positions)
qed

section \<open>PairsRunner\<close>

text \<open>\<open>pairMu\<close> only guards \<open>pairStatus\<close>; each method is one step here.\<close>

record PairStatus =
  ps_Primary :: string
  ps_Secondary :: string
  ps_HedgeRatio :: f64
  ps_PValue :: f64
  ps_HalfLife :: f64
  ps_LastCheck :: int
  ps_Valid :: bool

record PairsRunner =
  pa_base :: BaseRunner
  pa_SecondarySymbol :: string
  pa_pairStatus :: PairStatus
  pa_EntryZ :: f64
  pa_ExitZ :: f64
  pa_MaxHold :: int
  pa_MinPairCorrelation :: f64
  pa_SpreadLookback :: int
  pa_spreadHistory :: "f64 list"
  pa_spreadHistIdx :: nat
  pa_spreadHistCount :: nat
  pa_secPriceHistory :: "f64 list"
  pa_secHistIdx :: nat
  pa_secHistCount :: nat
  pa_barsHeld :: int

definition NewPairsRunner :: "string \<Rightarrow> string \<Rightarrow> PairsRunner" where
  "NewPairsRunner primary secondary = \<lparr>pa_base = NewBaseRunner 256, pa_SecondarySymbol = secondary,
     pa_pairStatus = \<lparr>ps_Primary = primary, ps_Secondary = secondary, ps_HedgeRatio = 0, ps_PValue = 0,
       ps_HalfLife = 0, ps_LastCheck = zero_time, ps_Valid = False\<rparr>,
     pa_EntryZ = lit 2, pa_ExitZ = lit (5/10), pa_MaxHold = 60, pa_MinPairCorrelation = lit (5/10),
     pa_SpreadLookback = 60, pa_spreadHistory = replicate 256 0, pa_spreadHistIdx = 0, pa_spreadHistCount = 0,
     pa_secPriceHistory = replicate 256 0, pa_secHistIdx = 0, pa_secHistCount = 0, pa_barsHeld = 0\<rparr>"

definition PairsRunner_Reset :: "PairsRunner \<Rightarrow> PairsRunner" where
  "PairsRunner_Reset r = r\<lparr>pa_base := BaseRunner_Reset (pa_base r), pa_spreadHistIdx := 0, pa_spreadHistCount := 0,
     pa_secHistIdx := 0, pa_secHistCount := 0, pa_barsHeld := 0\<rparr>"

definition PairsRunner_Params :: "PairsRunner \<Rightarrow> params" where
  "PairsRunner_Params r = [(''entry_z'', pa_EntryZ r), (''exit_z'', pa_ExitZ r),
     (''max_hold'', float_of_int (pa_MaxHold r)), (''spread_lookback'', float_of_int (pa_SpreadLookback r)),
     (''min_pair_correlation'', pa_MinPairCorrelation r)]"

definition PairsRunner_SetParams :: "PairsRunner \<Rightarrow> params \<Rightarrow> PairsRunner" where
  "PairsRunner_SetParams r ps =
     (let r = on_param ps ''entry_z'' (\<lambda>v r. r\<lparr>pa_EntryZ := v\<rparr>) r;
          r = on_param ps ''exit_z'' (\<lambda>v r. r\<lparr>pa_ExitZ := v\<rparr>) r;
          r = on_param ps ''max_hold'' (\<lambda>v r. r\<lparr>pa_MaxHold := int64_of_float v\<rparr>) r;
          r = on_param ps ''spread_lookback'' (\<lambda>v r. r\<lparr>pa_SpreadLookback := int64_of_float v\<rparr>) r
      in on_param ps ''min_pair_correlation'' (\<lambda>v r. r\<lparr>pa_MinPairCorrelation := v\<rparr>) r)"

definition PairsRunner_ParamDefs :: "ParamDef list" where
  "PairsRunner_ParamDefs =
     [real_param ''entry_z'' (lit 2) (lit 1) (lit 3) (lit (25/100)),
      real_param ''exit_z'' (lit (5/10)) (lit 0) (lit (15/10)) (lit (25/100)),
      int_param ''max_hold'' (lit 60) (lit 10) (lit 200) (lit 10),
      int_param ''spread_lookback'' (lit 60) (lit 20) (lit 120) (lit 10),
      real_param ''min_pair_correlation'' (lit (5/10)) (lit 0) (lit 1) (lit (5/100))]"

definition PairsRunner_SetPairStatus :: "PairsRunner \<Rightarrow> PairStatus \<Rightarrow> PairsRunner" where
  "PairsRunner_SetPairStatus r status = r\<lparr>pa_pairStatus := status\<rparr>"

definition PairsRunner_PairStatus :: "PairsRunner \<Rightarrow> PairStatus" where
  "PairsRunner_PairStatus r = pa_pairStatus r"

definition PairsRunner_PushSecondaryPrice :: "PairsRunner \<Rightarrow> price \<Rightarrow> PairsRunner" where
  "PairsRunner_PushSecondaryPrice r price =
     r\<lparr>pa_secPriceHistory := (pa_secPriceHistory r)[pa_secHistIdx r mod 256 := Price_Float64 price],
       pa_secHistIdx := pa_secHistIdx r + 1,
       pa_secHistCount := (if pa_secHistCount r < 256 then pa_secHistCount r + 1 else pa_secHistCount r)\<rparr>"

text \<open>The pairs \<open>(log secondary, log primary)\<close> of the slots both buffers have a price in.\<close>

definition log_pairs :: "Lib \<Rightarrow> PairsRunner \<Rightarrow> (f64 \<times> f64) list" where
  "log_pairs lib r = (let b = pa_base r; minN = min (br_HistCount b) (pa_secHistCount r) in
     map (\<lambda>(p, q). (il_Log lib q, il_Log lib p))
       (filter (\<lambda>(p, q). p > 0 \<and> q > 0)
         (map (\<lambda>i. (br_PriceHistory b ! (i mod br_BufferSize b), pa_secPriceHistory r ! (i mod 256))) [0..<minN])))"

definition add_up :: "('a \<Rightarrow> f64) \<Rightarrow> 'a list \<Rightarrow> f64" where
  "add_up f xs = foldl (\<lambda>s x. s + f x) 0 xs"

definition PairsRunner_computeSimpleHedge :: "Lib \<Rightarrow> PairsRunner \<Rightarrow> f64" where
  "PairsRunner_computeSimpleHedge lib r =
     (if br_HistCount (pa_base r) < 20 \<or> pa_secHistCount r < 20 then 1
      else let xs = log_pairs lib r; cnt = float_of_int (int (length xs));
               sumX = add_up fst xs; sumY = add_up snd xs; sumXY = add_up (\<lambda>(x, y). x * y) xs; sumX2 = add_up (\<lambda>(x, y). x * x) xs;
               denom = sumX2 * cnt - sumX * sumX
           in if length xs < 5 then 1
              else if \<bar>denom\<bar> < lit (1 / 10 ^ 10) then 1
              else (sumXY * cnt - sumX * sumY) / denom)"

definition PairsRunner_pairLogCorrelation :: "Lib \<Rightarrow> PairsRunner \<Rightarrow> f64" where
  "PairsRunner_pairLogCorrelation lib r =
     (if br_HistCount (pa_base r) < 20 \<or> pa_secHistCount r < 20 then 0
      else let xs = log_pairs lib r; cnt = float_of_int (int (length xs));
               sumX = add_up fst xs; sumY = add_up snd xs; sumXY = add_up (\<lambda>(x, y). x * y) xs;
               sumX2 = add_up (\<lambda>(x, y). x * x) xs; sumY2 = add_up (\<lambda>(x, y). y * y) xs;
               num = sumXY * cnt - sumX * sumY;
               denX = sumX2 * cnt - sumX * sumX;
               denY = sumY2 * cnt - sumY * sumY;
               den = math_sqrt (denX * denY)
           in if length xs < 5 then 0 else if den \<le> 0 then 0 else num / den)"

definition PairsRunner_HedgeRatio :: "Lib \<Rightarrow> PairsRunner \<Rightarrow> f64" where
  "PairsRunner_HedgeRatio lib r =
     (if ps_Valid (pa_pairStatus r) \<and> \<not> feq (ps_HedgeRatio (pa_pairStatus r)) 0
      then ps_HedgeRatio (pa_pairStatus r) else PairsRunner_computeSimpleHedge lib r)"

definition PairsRunner_computeSpreadStats :: "PairsRunner \<Rightarrow> f64 \<times> f64" where
  "PairsRunner_computeSpreadStats r =
     (let n = pa_spreadHistCount r in
      if int n < pa_SpreadLookback r then (0, 0)
      else let vals = filter (\<lambda>v. \<not> is_nan v) (map (\<lambda>i. pa_spreadHistory r ! (i mod 256))
                 [nat (max 0 (int n - pa_SpreadLookback r))..<n])
           in if length vals < 2 then (0, 0)
              else let mean = add_up (\<lambda>v. v) vals / float_of_int (int (length vals));
                       variance = add_up (\<lambda>v. (v - mean) * (v - mean)) vals
                   in (mean, sampleStd variance (int (length vals))))"

text \<open>\<open>secPriceHistory[(secHistIdx-1)%256]\<close>: Go's remainder of \<open>-1\<close> is \<open>-1\<close>, an index that panics.\<close>

definition last_secondary :: "PairsRunner \<Rightarrow> f64 option" where
  "last_secondary r = (if pa_secHistIdx r = 0 then None else Some (pa_secPriceHistory r ! ((pa_secHistIdx r - 1) mod 256)))"

definition PairsRunner_close :: "PairsRunner \<Rightarrow> Candle \<Rightarrow> Signal option \<times> PairsRunner" where
  "PairsRunner_close r c = (Some (exit_signal c (exitSide (br_CurrentSide (pa_base r)))),
     r\<lparr>pa_base := BaseRunner_ClosePosition (pa_base r)\<rparr>)"

definition PairsRunner_manage :: "PairsRunner \<Rightarrow> Candle \<Rightarrow> f64 \<Rightarrow> Signal option \<times> PairsRunner" where
  "PairsRunner_manage r c zScore =
     (let r = r\<lparr>pa_barsHeld := pa_barsHeld r + 1\<rparr>; side = br_CurrentSide (pa_base r) in
      if pa_barsHeld r \<ge> pa_MaxHold r then PairsRunner_close r c
      else if side = ''BUY'' \<and> zScore \<ge> pa_ExitZ r then PairsRunner_close r c
      else if side = ''SELL'' \<and> zScore \<le> - pa_ExitZ r then PairsRunner_close r c
      else (None, r))"

definition PairsRunner_enter :: "Lib \<Rightarrow> PairsRunner \<Rightarrow> Candle \<Rightarrow> f64 \<Rightarrow> Signal option \<times> PairsRunner" where
  "PairsRunner_enter lib r c zScore =
     (let open_at = (\<lambda>side. (Some (enter_signal c side), r\<lparr>pa_barsHeld := 0,
            pa_base := (pa_base r)\<lparr>br_EntryPrice := ca_Close c, br_PositionOpen := True, br_CurrentSide := side\<rparr>\<rparr>)) in
      if pa_MinPairCorrelation r > 0 \<and> PairsRunner_pairLogCorrelation lib r < pa_MinPairCorrelation r then (None, r)
      else if zScore \<le> - pa_EntryZ r then open_at ''BUY''
      else if zScore \<ge> pa_EntryZ r then open_at ''SELL''
      else (None, r))"

definition PairsRunner_push_spread :: "PairsRunner \<Rightarrow> f64 \<Rightarrow> PairsRunner" where
  "PairsRunner_push_spread r spread =
     r\<lparr>pa_spreadHistory := (pa_spreadHistory r)[pa_spreadHistIdx r mod 256 := spread],
       pa_spreadHistIdx := pa_spreadHistIdx r + 1,
       pa_spreadHistCount := (if pa_spreadHistCount r < 256 then pa_spreadHistCount r + 1 else pa_spreadHistCount r)\<rparr>"

definition PairsRunner_trade :: "Lib \<Rightarrow> PairsRunner \<Rightarrow> Candle \<Rightarrow> f64 \<Rightarrow> Signal option \<times> PairsRunner" where
  "PairsRunner_trade lib r c secondary =
     (let beta = PairsRunner_HedgeRatio lib r;
          beta = (if beta \<le> 0 then 1 else beta);
          spread = il_Log lib (Price_Float64 (ca_Close c)) - beta * il_Log lib secondary
      in if is_nan spread \<or> is_inf spread then (None, r)
         else let r = PairsRunner_push_spread r spread;
                  (mean, std) = PairsRunner_computeSpreadStats r
              in if std \<le> 0 then (None, r)
                 else let zScore = (spread - mean) / std
                      in if br_PositionOpen (pa_base r) then PairsRunner_manage r c zScore
                         else PairsRunner_enter lib r c zScore)"

definition PairsRunner_Evaluate :: "Lib \<Rightarrow> PairsRunner \<Rightarrow> Candle \<Rightarrow> int \<Rightarrow> (Signal option \<times> PairsRunner) option" where
  "PairsRunner_Evaluate lib r c regime =
     (if Price_IsZero (ca_Close c) then Some (None, r)
      else let r = r\<lparr>pa_base := BaseRunner_PushPrice (pa_base r) (ca_Close c) (ca_High c) (ca_Low c) (ca_Volume c)\<rparr>
           in if int (br_HistCount (pa_base r)) < pa_SpreadLookback r \<or> int (pa_secHistCount r) < pa_SpreadLookback r
              then Some (None, r)
              else if ps_Valid (pa_pairStatus r) \<and> ps_PValue (pa_pairStatus r) > lit (5/100)
              then Some (if br_PositionOpen (pa_base r) then PairsRunner_close r c else (None, r))
              else map_option (PairsRunner_trade lib r c) (last_secondary r))"

abbreviation pairs_pos :: "PairsRunner \<Rightarrow> string option" where
  "pairs_pos r \<equiv> br_pos (pa_base r)"

lemma pairs_close_fits:
  "br_PositionOpen (pa_base r) \<Longrightarrow> step_fits (Some (br_CurrentSide (pa_base r))) (fst (PairsRunner_close r c), pairs_pos (snd (PairsRunner_close r c)))"
  by (simp add: PairsRunner_close_def)

lemma pairs_manage_fits:
  "br_PositionOpen (pa_base r) \<Longrightarrow> step_fits (Some (br_CurrentSide (pa_base r)))
    (fst (PairsRunner_manage r c z), pairs_pos (snd (PairsRunner_manage r c z)))"
  unfolding PairsRunner_manage_def Let_def
  using pairs_close_fits[of "r\<lparr>pa_barsHeld := pa_barsHeld r + 1\<rparr>" c] by (auto simp: br_pos_def[of "pa_base r"])

lemma pairs_enter_fits:
  "\<not> br_PositionOpen (pa_base r) \<Longrightarrow>
    step_fits None (fst (PairsRunner_enter lib r c z), pairs_pos (snd (PairsRunner_enter lib r c z)))"
  unfolding PairsRunner_enter_def Let_def by (simp add: br_pos_def)

lemma pairs_trade_fits:
  "step_fits (pairs_pos r) (fst (PairsRunner_trade lib r c s), pairs_pos (snd (PairsRunner_trade lib r c s)))"
proof -
  define u where "u = PairsRunner_push_spread r"
  have b: "pa_base (u x) = pa_base r" for x by (simp add: u_def PairsRunner_push_spread_def)
  have m: "step_fits (pairs_pos r) (fst (if br_PositionOpen (pa_base (u x)) then PairsRunner_manage (u x) c z else PairsRunner_enter lib (u x) c z),
    pairs_pos (snd (if br_PositionOpen (pa_base (u x)) then PairsRunner_manage (u x) c z else PairsRunner_enter lib (u x) c z)))" for x z
    using pairs_manage_fits[of "u x" c z] pairs_enter_fits[of "u x" lib c z] by (simp add: b br_pos_def[of "pa_base r"])
  have k: "pairs_pos (u x) = pairs_pos r" for x by (simp add: b)
  have n: "step_fits (pairs_pos r) (None, pairs_pos (u x))" for x by (simp only: k step_fits_none)
  have split: "P (fst (if t then a else d), h (snd (if t then a else d)))"
    if "t \<Longrightarrow> P (fst a, h (snd a))" "\<not> t \<Longrightarrow> P (fst d, h (snd d))" for P t a d h
    using that by simp
  show ?thesis unfolding PairsRunner_trade_def Let_def u_def[symmetric] case_prod_beta
    by (rule split, simp, rule split, simp add: n, rule m)
qed

lemma pairs_fits: "PairsRunner_Evaluate lib r c g = Some (s, r') \<Longrightarrow> step_fits (pairs_pos r) (s, pairs_pos r')"
proof -
  define b where "b = BaseRunner_PushPrice (pa_base r) (ca_Close c) (ca_High c) (ca_Low c) (ca_Volume c)"
  define u where "u = r\<lparr>pa_base := b\<rparr>"
  define F where "F x = step_fits (pairs_pos r) (fst x, pairs_pos (snd x))" for x :: "Signal option \<times> PairsRunner"
  have p: "pairs_pos r = (if br_PositionOpen b then Some (br_CurrentSide b) else None)" unfolding b_def by (rule push_pos)
  have u: "pa_base u = b" "pairs_pos u = pairs_pos r" by (simp_all add: u_def b_def)
  have none: "F (None, r)" "F (None, u)" unfolding F_def by (simp_all only: fst_conv snd_conv u(2) step_fits_none)
  have close: "br_PositionOpen b \<Longrightarrow> F (PairsRunner_close u c)"
    unfolding F_def using pairs_close_fits[of u c] by (simp add: u(1) p)
  have trade: "F (PairsRunner_trade lib u c x)" for x
    unfolding F_def using pairs_trade_fits[of u lib c x] by (simp only: u(2))
  assume "PairsRunner_Evaluate lib r c g = Some (s, r')"
  then have "F (s, r')"
    unfolding PairsRunner_Evaluate_def Let_def b_def[symmetric] u_def[symmetric]
    using none close trade by (auto simp: u(1) split: if_splits) (metis trade)+
  then show ?thesis by (simp add: F_def)
qed

interpretation pairs: partial_machine "PairsRunner_Evaluate lib" pairs_pos "\<lambda>_. True" for lib
  using pairs_fits by unfold_locales (simp add: step_fits_def)

text \<open>With a positive lookback, as every declared value is, a run never panics.\<close>

lemma pairs_no_panic:
  "0 < pa_SpreadLookback r \<Longrightarrow> pa_secHistCount r \<le> pa_secHistIdx r \<Longrightarrow> PairsRunner_Evaluate lib r c g \<noteq> None"
  by (auto simp: PairsRunner_Evaluate_def last_secondary_def Let_def)

section \<open>MeanReversionRunner\<close>

record mr_position =
  mp_Symbol :: string
  mp_Side :: string
  mp_EntryPrice :: price
  mp_EntryBar :: int

record MeanReversionRunner =
  mr_Lookback :: int
  mr_EntryZ :: f64
  mr_ExitZ :: f64
  mr_MaxHold :: int
  mr_TrendPeriod :: int
  mr_VolMaxMult :: f64
  mr_Mode :: string
  mr_closeHistory :: "f64 list"
  mr_volumeHistory :: "f64 list"
  mr_histIndex :: nat
  mr_histCount :: nat
  mr_emaMean :: price
  mr_trendEMA :: price
  mr_openPosition :: "mr_position option"
  mr_barsHeld :: int
  mr_irVersion :: string
  mr_canonicalVersion :: string
  mr_instanceHash :: string

definition NewMeanReversionRunner :: "int \<Rightarrow> f64 \<Rightarrow> f64 \<Rightarrow> int \<Rightarrow> MeanReversionRunner" where
  "NewMeanReversionRunner lookback entryZ exitZ maxHold = \<lparr>mr_Lookback = lookback, mr_EntryZ = entryZ,
     mr_ExitZ = exitZ, mr_MaxHold = maxHold, mr_TrendPeriod = 200, mr_VolMaxMult = lit (25/10), mr_Mode = '''',
     mr_closeHistory = replicate (nat (lookback + 200)) 0, mr_volumeHistory = [], mr_histIndex = 0, mr_histCount = 0,
     mr_emaMean = 0, mr_trendEMA = 0, mr_openPosition = None, mr_barsHeld = 0,
     mr_irVersion = ''qst-ir/0.4'', mr_canonicalVersion = ''qst-canonical/0.4'', mr_instanceHash = ''''\<rparr>"

definition MeanReversionRunner_Version :: "MeanReversionRunner \<Rightarrow> string \<times> string" where
  "MeanReversionRunner_Version r = (mr_irVersion r, mr_canonicalVersion r)"

definition MeanReversionRunner_SetVersion :: "MeanReversionRunner \<Rightarrow> string \<Rightarrow> string \<Rightarrow> MeanReversionRunner" where
  "MeanReversionRunner_SetVersion r ir canonical = r\<lparr>mr_irVersion := ir, mr_canonicalVersion := canonical\<rparr>"

definition MeanReversionRunner_SetInstanceHash :: "MeanReversionRunner \<Rightarrow> string \<Rightarrow> MeanReversionRunner" where
  "MeanReversionRunner_SetInstanceHash r h = r\<lparr>mr_instanceHash := h\<rparr>"

definition MeanReversionRunner_Reset :: "MeanReversionRunner \<Rightarrow> MeanReversionRunner" where
  "MeanReversionRunner_Reset r = r\<lparr>mr_histIndex := 0, mr_histCount := 0, mr_emaMean := 0, mr_trendEMA := 0,
     mr_openPosition := None, mr_barsHeld := 0, mr_closeHistory := map (\<lambda>_. 0) (mr_closeHistory r)\<rparr>"

definition MeanReversionRunner_Params :: "MeanReversionRunner \<Rightarrow> params" where
  "MeanReversionRunner_Params r = [(''lookback'', float_of_int (mr_Lookback r)), (''entry_z'', mr_EntryZ r),
     (''exit_z'', mr_ExitZ r), (''max_hold'', float_of_int (mr_MaxHold r)),
     (''trend_period'', float_of_int (mr_TrendPeriod r))]"

definition MeanReversionRunner_SetParams :: "MeanReversionRunner \<Rightarrow> params \<Rightarrow> MeanReversionRunner" where
  "MeanReversionRunner_SetParams r ps =
     (let r = on_param ps ''lookback'' (\<lambda>v r. if v > 0 then r\<lparr>mr_Lookback := int64_of_float v\<rparr> else r) r;
          r = on_param ps ''entry_z'' (\<lambda>v r. r\<lparr>mr_EntryZ := v\<rparr>) r;
          r = on_param ps ''exit_z'' (\<lambda>v r. r\<lparr>mr_ExitZ := v\<rparr>) r;
          r = on_param ps ''max_hold'' (\<lambda>v r. if v > 0 then r\<lparr>mr_MaxHold := int64_of_float v\<rparr> else r) r
      in on_param ps ''trend_period'' (\<lambda>v r. if v > 0 then r\<lparr>mr_TrendPeriod := int64_of_float v\<rparr> else r) r)"

definition MeanReversionRunner_ParamDefs :: "MeanReversionRunner \<Rightarrow> ParamDef list" where
  "MeanReversionRunner_ParamDefs r =
     [int_param ''lookback'' (float_of_int (mr_Lookback r)) (lit 5) (lit 60) (lit 5),
      real_param ''entry_z'' (mr_EntryZ r) (lit (5/10)) (lit 4) (lit (25/100)),
      real_param ''exit_z'' (mr_ExitZ r) (lit (1/10)) (lit 2) (lit (1/10)),
      int_param ''max_hold'' (float_of_int (mr_MaxHold r)) (lit 10) (lit 200) (lit 10),
      int_param ''trend_period'' (float_of_int (mr_TrendPeriod r)) (lit 50) (lit 400) (lit 50)]"

text \<open>
  \<open>i % (Lookback+200)\<close>, and a read of \<open>closeHistory\<close> there. The slice keeps the length of the
  lookback the runner was built with.
\<close>

definition mr_slot :: "MeanReversionRunner \<Rightarrow> nat \<Rightarrow> nat option" where
  "mr_slot r i = (if mr_Lookback r + 200 = 0 then None else Some (nat (go_rem (int i) (mr_Lookback r + 200))))"

definition mr_read :: "MeanReversionRunner \<Rightarrow> nat \<Rightarrow> f64 option" where
  "mr_read r i = do { k \<leftarrow> mr_slot r i; if k < length (mr_closeHistory r) then Some (mr_closeHistory r ! k) else None }"

definition mr_reads :: "MeanReversionRunner \<Rightarrow> nat \<Rightarrow> nat \<Rightarrow> f64 list option" where
  "mr_reads r start stop = those (map (mr_read r) [start..<stop])"

definition MeanReversionRunner_computeVWAP :: "MeanReversionRunner \<Rightarrow> nat \<Rightarrow> nat \<Rightarrow> f64 option" where
  "MeanReversionRunner_computeVWAP r start stop =
     (if mr_volumeHistory r = [] then Some 0
      else do {
        ps \<leftarrow> mr_reads r start stop;
        ks \<leftarrow> those (map (mr_slot r) [start..<stop]);
        let vs = map (\<lambda>k. if k < length (mr_volumeHistory r) then mr_volumeHistory r ! k else 0) ks;
        let used = filter (\<lambda>(p, v). p > 0 \<and> v > 0) (zip ps vs);
        let totalPV = add_up (\<lambda>(p, v). p * v) used;
        let totalV = add_up snd used;
        Some (if totalV \<le> 0 then 0 else totalPV / totalV)
      })"

definition mr_start :: "MeanReversionRunner \<Rightarrow> int \<Rightarrow> nat" where
  "mr_start r period = nat (max 0 (int (mr_histCount r) - period))"

text \<open>One step of an exponential mean that starts at the simple mean.\<close>

definition ema_step :: "price \<Rightarrow> f64 \<Rightarrow> int \<Rightarrow> f64 \<Rightarrow> price" where
  "ema_step ema start_at period x =
     (let alpha = lit 2 / float_of_int (period + 1); ema = (if Price_IsZero ema then PriceFromFloat start_at else ema)
      in PriceFromFloat (alpha * x + (1 - alpha) * Price_Float64 ema))"

definition MeanReversionRunner_computeStats :: "MeanReversionRunner \<Rightarrow> ((f64 \<times> f64) \<times> MeanReversionRunner) option" where
  "MeanReversionRunner_computeStats r =
     do {
       let start = mr_start r (mr_Lookback r);
       ps \<leftarrow> mr_reads r start (mr_histCount r);
       let nLB = int (length ps);
       let simpleMean = add_up (\<lambda>p. p) ps / float_of_int nLB;
       vwapMean \<leftarrow> (if mr_Mode r = ''vwap'' \<and> mr_volumeHistory r \<noteq> []
          then MeanReversionRunner_computeVWAP r start (mr_histCount r) else Some 0);
       let simpleMean = (if mr_Mode r = ''vwap'' \<and> mr_volumeHistory r \<noteq> [] \<and> vwapMean > 0 then vwapMean else simpleMean);
       if ps = [] then None
       else do {
         let r = r\<lparr>mr_emaMean := ema_step (mr_emaMean r) simpleMean (mr_Lookback r) (last ps)\<rparr>;
         let r = r\<lparr>mr_trendEMA := ema_step (mr_trendEMA r) simpleMean (mr_TrendPeriod r) (last ps)\<rparr>;
         let variance = add_up (\<lambda>p. (p - simpleMean) * (p - simpleMean)) ps;
         Some ((Price_Float64 (mr_emaMean r), sampleStd variance nLB), r)
       }
     }"

definition return_deviation :: "f64 list \<Rightarrow> f64" where
  "return_deviation ps =
     (let returns = map (\<lambda>(p0, p1). p1 / p0 - 1) (filter (\<lambda>(p0, p1). p0 > 0 \<and> p1 > 0) (zip ps (tl ps)));
          n = int (length returns);
          mean = add_up (\<lambda>x. x) returns / float_of_int n
      in if n < 2 then 0 else sampleStd (add_up (\<lambda>x. (x - mean) * (x - mean)) returns) n)"

definition MeanReversionRunner_returnVol :: "MeanReversionRunner \<Rightarrow> int \<Rightarrow> f64 option" where
  "MeanReversionRunner_returnVol r period =
     (if period < 2 \<or> int (mr_histCount r) < period + 1 then Some 0
      else map_option return_deviation (mr_reads r (mr_start r period) (mr_histCount r)))"

definition MeanReversionRunner_push :: "MeanReversionRunner \<Rightarrow> Candle \<Rightarrow> MeanReversionRunner option" where
  "MeanReversionRunner_push r c =
     do {
       idx \<leftarrow> mr_slot r (mr_histIndex r);
       let n = mr_Lookback r + 200;
       let grown = mr_volumeHistory r @ replicate (nat n - length (mr_volumeHistory r)) 0;
       if idx \<ge> length (mr_closeHistory r) \<or> (idx \<ge> length (mr_volumeHistory r) \<and> n < 0) then None
       else do {
         let volumes = (if idx \<ge> length (mr_volumeHistory r) then take (nat n) grown else mr_volumeHistory r);
         Some (r\<lparr>mr_closeHistory := (mr_closeHistory r)[idx := Price_Float64 (ca_Close c)],
           mr_volumeHistory := volumes[idx := ca_Volume c],
           mr_histIndex := mr_histIndex r + 1,
           mr_histCount := (if int (mr_histCount r) < n then mr_histCount r + 1 else mr_histCount r)\<rparr>)
       }
     }"

definition MeanReversionRunner_highVol :: "MeanReversionRunner \<Rightarrow> bool option" where
  "MeanReversionRunner_highVol r =
     (if int (mr_histCount r) \<ge> mr_Lookback r + 2
      then do {
        recent \<leftarrow> MeanReversionRunner_returnVol r (mr_Lookback r);
        baseline \<leftarrow> MeanReversionRunner_returnVol r (mr_TrendPeriod r);
        Some (recent > 0 \<and> baseline > 0 \<and> recent > mr_VolMaxMult r * baseline)
      }
      else Some False)"

definition mr_open :: "MeanReversionRunner \<Rightarrow> Candle \<Rightarrow> string \<Rightarrow> Signal option \<times> MeanReversionRunner" where
  "mr_open r c side = (Some (enter_signal c side), r\<lparr>mr_openPosition := Some \<lparr>mp_Symbol = ca_Symbol c, mp_Side = side,
     mp_EntryPrice = ca_Close c, mp_EntryBar = 1\<rparr>, mr_barsHeld := 1\<rparr>)"

definition MeanReversionRunner_decide ::
  "MeanReversionRunner \<Rightarrow> Candle \<Rightarrow> f64 \<Rightarrow> f64 \<Rightarrow> bool \<Rightarrow> Signal option \<times> MeanReversionRunner" where
  "MeanReversionRunner_decide r c mean std isHighVol =
     (let p = Price_Float64 (ca_Close c); z = (p - mean) / std;
          isTrendingUp = Price_Compare (ca_Close c) (mr_trendEMA r) > 0;
          isTrendingDown = Price_Compare (ca_Close c) (mr_trendEMA r) < 0
      in case mr_openPosition r of
           Some q \<Rightarrow>
             (let r = r\<lparr>mr_barsHeld := mr_barsHeld r + 1\<rparr>;
                  complete = (mp_Side q = ''BUY'' \<and> p \<ge> mean \<or> mp_Side q = ''SELL'' \<and> p \<le> mean)
              in if mr_barsHeld r \<ge> mr_MaxHold r \<or> complete \<or> \<bar>z\<bar> < mr_ExitZ r
                 then (Some (exit_signal c (closing_side (mp_Side q))), r\<lparr>mr_openPosition := None, mr_barsHeld := 0\<rparr>)
                 else (None, r))
         | None \<Rightarrow>
             (if isHighVol then (None, r)
              else if z < - mr_EntryZ r then (if \<not> isTrendingUp then (None, r) else mr_open r c ''BUY'')
              else if z > mr_EntryZ r then (if \<not> isTrendingDown then (None, r) else mr_open r c ''SELL'')
              else (None, r)))"

definition MeanReversionRunner_Evaluate ::
  "MeanReversionRunner \<Rightarrow> Candle \<Rightarrow> int \<Rightarrow> (Signal option \<times> MeanReversionRunner) option" where
  "MeanReversionRunner_Evaluate r c regime =
     do {
       r \<leftarrow> MeanReversionRunner_push r c;
       if int (mr_histCount r) < mr_Lookback r then Some (None, r)
       else do {
         ((mean, std), r) \<leftarrow> MeanReversionRunner_computeStats r;
         if std \<le> 0 then Some (None, r)
         else do {
           isHighVol \<leftarrow> MeanReversionRunner_highVol r;
           Some (MeanReversionRunner_decide r c mean std isHighVol)
         }
       }
     }"

definition mr_pos :: "MeanReversionRunner \<Rightarrow> string option" where
  "mr_pos r = map_option mp_Side (mr_openPosition r)"

lemma mr_decide_fits:
  "step_fits (mr_pos r) (fst (MeanReversionRunner_decide r c m s h), mr_pos (snd (MeanReversionRunner_decide r c m s h)))"
  unfolding MeanReversionRunner_decide_def Let_def mr_open_def
  by (simp add: mr_pos_def split: option.split)

lemma mr_push_keeps: "MeanReversionRunner_push r c = Some r' \<Longrightarrow> mr_openPosition r' = mr_openPosition r"
  by (auto simp: MeanReversionRunner_push_def Let_def bind_eq_Some_conv split: if_splits)

lemma mr_stats_keep: "MeanReversionRunner_computeStats r = Some (ms, r') \<Longrightarrow>
    \<exists>e t. r' = r\<lparr>mr_emaMean := e, mr_trendEMA := t\<rparr>"
  by (auto simp: MeanReversionRunner_computeStats_def Let_def bind_eq_Some_conv split: if_splits)

lemma mr_fits: "MeanReversionRunner_Evaluate r c g = Some (s, r') \<Longrightarrow> step_fits (mr_pos r) (s, mr_pos r')"
proof -
  assume "MeanReversionRunner_Evaluate r c g = Some (s, r')"
  then obtain q where q: "MeanReversionRunner_push r c = Some q" and
    rest: "(s, r') = (None, q) \<or> (\<exists>m sd u. MeanReversionRunner_computeStats q = Some ((m, sd), u) \<and>
      ((s, r') = (None, u) \<or> (\<exists>h. MeanReversionRunner_decide u c m sd h = (s, r'))))"
    unfolding MeanReversionRunner_Evaluate_def by (auto simp: bind_eq_Some_conv split: if_splits) metis
  have k: "mr_pos q = mr_pos r" using mr_push_keeps[OF q] by (simp add: mr_pos_def)
  show ?thesis using rest
  proof (elim disjE exE conjE)
    fix m sd u assume u: "MeanReversionRunner_computeStats q = Some ((m, sd), u)"
    then have pu: "mr_pos u = mr_pos r" using mr_stats_keep[OF u] k by (auto simp: mr_pos_def)
    { assume "(s, r') = (None, u)" then show ?thesis by (simp add: pu) }
    { fix h assume "MeanReversionRunner_decide u c m sd h = (s, r')"
      then show ?thesis using mr_decide_fits[of u c m sd h] by (metis fst_conv snd_conv pu) }
  qed (simp add: k)
qed

interpretation mr: partial_machine MeanReversionRunner_Evaluate mr_pos "\<lambda>_. True"
  using mr_fits by unfold_locales (simp add: step_fits_def)

section \<open>The length of the history and the lookback\<close>

text \<open>
  After \<open>k\<close> bars of a runner whose slice has room for \<open>n\<close> prices, with a positive lookback.
\<close>

definition mr_after :: "int \<Rightarrow> nat \<Rightarrow> nat \<Rightarrow> MeanReversionRunner \<Rightarrow> bool" where
  "mr_after l n k r \<longleftrightarrow> mr_Lookback r = l \<and> length (mr_closeHistory r) = n \<and> mr_histIndex r = k \<and>
     mr_histCount r = min k (nat (l + 200))"

lemma those_map: "(\<And>x. x \<in> set xs \<Longrightarrow> f x = Some (g x)) \<Longrightarrow> those (map f xs) = Some (map g xs)"
  by (induction xs) auto

lemma mr_slot_after: "mr_after l n k r \<Longrightarrow> 0 < l \<Longrightarrow> mr_slot r i = Some (i mod nat (l + 200))"
  by (simp add: mr_slot_def mr_after_def nat_mod_distrib)

lemma mr_reads_after:
  assumes "mr_after l n k r" "0 < l" "k \<le> n \<or> nat (l + 200) \<le> n" "stop \<le> mr_histCount r"
  shows "mr_reads r start stop = Some (map (\<lambda>i. mr_closeHistory r ! i) [start..<stop])"
proof -
  have c: "mr_histCount r \<le> nat (l + 200)" "mr_histCount r \<le> n" "length (mr_closeHistory r) = n"
    using assms(1,3) by (auto simp: mr_after_def)
  have "mr_read r i = Some (mr_closeHistory r ! i)" if "i \<in> set [start..<stop]" for i
    using that c assms(4) by (simp add: mr_read_def mr_slot_after[OF assms(1,2)])
  then show ?thesis unfolding mr_reads_def by (rule those_map)
qed

lemma mr_push_after:
  assumes "mr_after l n k r" "0 < l"
  shows "MeanReversionRunner_push r c = None \<longleftrightarrow> n \<le> k mod nat (l + 200)"
    and "MeanReversionRunner_push r c = Some r' \<Longrightarrow> mr_after l n (Suc k) r'"
  using assms(1) mr_slot_after[OF assms] assms(2)
  by (auto simp: MeanReversionRunner_push_def mr_after_def Let_def split: if_splits)

lemma mr_stats_after:
  assumes "mr_after l n (Suc k) r" "0 < l" "Suc k \<le> n \<or> nat (l + 200) \<le> n"
  shows "\<exists>m s u. MeanReversionRunner_computeStats r = Some ((m, s), u) \<and> mr_after l n (Suc k) u"
proof -
  have h: "mr_histCount r = min (Suc k) (nat (l + 200))" "mr_Lookback r = l" using assms(1) by (simp_all add: mr_after_def)
  have reads: "mr_reads r a (mr_histCount r) = Some (map (\<lambda>i. mr_closeHistory r ! i) [a..<mr_histCount r])" for a
    by (rule mr_reads_after[OF assms]) simp
  have slots: "those (map (mr_slot r) [a..<b]) = Some (map (\<lambda>i. i mod nat (l + 200)) [a..<b])" for a b
    by (rule those_map) (rule mr_slot_after[OF assms(1,2)])
  have ne: "mr_start r (mr_Lookback r) < mr_histCount r" using assms(2) h by (simp add: mr_start_def) linarith
  have v: "\<exists>w. MeanReversionRunner_computeVWAP r a (mr_histCount r) = Some w" for a
    by (simp add: MeanReversionRunner_computeVWAP_def reads slots Let_def)
  obtain w where w: "(if mr_Mode r = ''vwap'' \<and> mr_volumeHistory r \<noteq> []
      then MeanReversionRunner_computeVWAP r (mr_start r (mr_Lookback r)) (mr_histCount r) else Some 0) = Some w"
    using v by (cases "mr_Mode r = ''vwap'' \<and> mr_volumeHistory r \<noteq> []") auto
  show ?thesis
    unfolding MeanReversionRunner_computeStats_def Let_def reads w Option.bind.simps
    using ne assms(1,2) by (auto simp: mr_after_def)
qed

lemma mr_vol_after:
  assumes "mr_after l n (Suc k) r" "0 < l" "Suc k \<le> n \<or> nat (l + 200) \<le> n"
  shows "\<exists>h. MeanReversionRunner_highVol r = Some h"
proof -
  have v: "\<exists>v. MeanReversionRunner_returnVol r p = Some v" for p
    by (simp add: MeanReversionRunner_returnVol_def mr_reads_after[OF assms])
  obtain x y where "MeanReversionRunner_returnVol r (mr_Lookback r) = Some x"
    "MeanReversionRunner_returnVol r (mr_TrendPeriod r) = Some y" using v by blast
  then show ?thesis by (auto simp: MeanReversionRunner_highVol_def intro: exI[of _ False])
qed

lemma mr_decide_after: "mr_after l n k r \<Longrightarrow> mr_after l n k (snd (MeanReversionRunner_decide r c m s h))"
  by (simp add: MeanReversionRunner_decide_def mr_open_def Let_def mr_after_def split: option.split)

lemma mr_evaluate_after:
  assumes "mr_after l n k r" "0 < l" "k \<le> n \<or> nat (l + 200) \<le> n"
  shows "if n \<le> k mod nat (l + 200) then MeanReversionRunner_Evaluate r c g = None
    else \<exists>s r'. MeanReversionRunner_Evaluate r c g = Some (s, r') \<and> mr_after l n (Suc k) r'"
proof (cases "MeanReversionRunner_push r c")
  case None
  then show ?thesis using mr_push_after(1)[OF assms(1,2)] by (simp add: MeanReversionRunner_Evaluate_def)
next
  case (Some q)
  then have q: "mr_after l n (Suc k) q" "\<not> n \<le> k mod nat (l + 200)"
    using mr_push_after[OF assms(1,2), of c] by auto
  have room: "Suc k \<le> n \<or> nat (l + 200) \<le> n"
    using q(2) assms(2,3) by (cases "k < nat (l + 200)") auto
  obtain m sd u where u: "MeanReversionRunner_computeStats q = Some ((m, sd), u)" "mr_after l n (Suc k) u"
    using mr_stats_after[OF q(1) assms(2) room] by blast
  obtain h where h: "MeanReversionRunner_highVol u = Some h" using mr_vol_after[OF u(2) assms(2) room] by blast
  obtain s r' where d: "MeanReversionRunner_decide u c m sd h = (s, r')" by force
  have "mr_after l n (Suc k) r'" using mr_decide_after[OF u(2), of c m sd h] by (simp add: d)
  then show ?thesis using q u h d by (simp add: MeanReversionRunner_Evaluate_def Some)
qed

lemma mr_run_after:
  assumes "mr_after l n k r" "0 < l" "k \<le> n \<or> nat (l + 200) \<le> n"
  shows "mr.run_bars r bars = None \<longleftrightarrow> n < nat (l + 200) \<and> n < k + length bars"
  using assms(1,3)
proof (induction bars arbitrary: r k)
  case (Cons b bars)
  obtain c g where b: "b = (c, g)" by force
  note e = mr_evaluate_after[OF Cons.prems(1) assms(2) Cons.prems(2), of c g]
  show ?case
  proof (cases "n \<le> k mod nat (l + 200)")
    case True
    then have "n < nat (l + 200)" "n \<le> k"
      using mod_less_divisor[of "nat (l + 200)" k] assms(2) mod_less_eq_dividend[of k "nat (l + 200)"] by linarith+
    then show ?thesis using e True by (simp add: b)
  next
    case False
    then obtain s r' where r': "MeanReversionRunner_Evaluate r c g = Some (s, r')" "mr_after l n (Suc k) r'" using e by auto
    have "Suc k \<le> n \<or> nat (l + 200) \<le> n" using False Cons.prems(2) by (cases "nat (l + 200) \<le> n") auto
    then show ?thesis using Cons.IH[OF r'(2)] by (auto simp: b r'(1) split: option.split)
  qed
qed (use assms in auto)

text \<open>A mean reversion strategy whose lookback is raised crashes. A runner built for the lookback
  \<open>l0\<close> and then set to \<open>l\<close> (the declared range is 5 to 60, the registry builds for 20) panics with
  an index out of range exactly when \<open>l\<close> is larger and more than \<open>l0 + 200\<close> bars are given: the
  slice keeps its first length while the index runs to \<open>l + 200\<close>. With a lookback that is not
  raised it never panics.
\<close>

theorem raised_lookback_panics:
  assumes "0 < l0" "0 < v" "int64_of_float v = l" "0 < l"
  shows "mr.run_bars (MeanReversionRunner_SetParams (NewMeanReversionRunner l0 ez xz hold) [(''lookback'', v)]) bars = None
    \<longleftrightarrow> l0 < l \<and> l0 + 200 < int (length bars)"
proof -
  have "mr_after l (nat (l0 + 200)) 0 (MeanReversionRunner_SetParams (NewMeanReversionRunner l0 ez xz hold) [(''lookback'', v)])"
    using assms by (simp add: mr_after_def MeanReversionRunner_SetParams_def NewMeanReversionRunner_def on_param_def)
  from mr_run_after[OF this assms(4)] show ?thesis using assms(1,4) by auto
qed

lemma raised_lookback_panics_witness:
  "mr.run_bars (MeanReversionRunner_SetParams (NewMeanReversionRunner 20 (lit 1) (lit 1) 200) [(''lookback'', lit 60)])
    (replicate 221 (dollar_bar 1 100, 0)) = None"
proof -
  have v: "0 < lit 60" "int64_of_float (lit 60) = 60" by (simp_all add: f64_eval int64_of_float_def is_int64_def)
  have l: "(0 :: int) < 20" "(0 :: int) < 60" by simp_all
  show ?thesis by (simp add: raised_lookback_panics[OF l(1) v l(2)])
qed

section \<open>The windows of a full history\<close>

lemma fade_values_full:
  assumes "buffers_ok b" "br_HistCount b = br_BufferSize b" "0 < lookback"
    and "int (br_HistIdx b mod br_BufferSize b) < int (br_BufferSize b) - lookback"
  shows "fade_values (BaseRunner_PushPrice b price high low volume) lookback = fade_values b lookback"
proof -
  let ?q = "BaseRunner_PushPrice b price high low volume" and ?from = "nat (max 0 (int (br_BufferSize b) - lookback))"
  have q: "br_HistCount ?q = br_BufferSize b" "br_BufferSize ?q = br_BufferSize b"
    using assms(2) by (simp_all add: BaseRunner_PushPrice_def Let_def)
  have "br_PriceHistory ?q ! (i mod br_BufferSize b) = br_PriceHistory b ! (i mod br_BufferSize b)"
    if "i \<in> set [?from..<br_BufferSize b]" for i
  proof -
    have "br_HistIdx b mod br_BufferSize b \<noteq> i" "i mod br_BufferSize b = i" using that assms(4) by auto
    then show ?thesis by (simp add: BaseRunner_PushPrice_def Let_def)
  qed
  then have "map (\<lambda>i. br_PriceHistory ?q ! (i mod br_BufferSize b)) [?from..<br_BufferSize b]
      = map (\<lambda>i. br_PriceHistory b ! (i mod br_BufferSize b)) [?from..<br_BufferSize b]" by (intro map_cong) auto
  then show ?thesis by (simp only: fade_values_def q assms(2))
qed

lemma mr_reads_full:
  assumes "mr_after l n k r" "0 < l" "nat (l + 200) \<le> n" "nat (l + 200) \<le> k" "k mod nat (l + 200) < 200"
    and "MeanReversionRunner_push r c = Some q"
  shows "mr_reads q (mr_start q l) (mr_histCount q) = mr_reads r (mr_start r l) (mr_histCount r)"
proof -
  have h: "mr_histCount r = nat (l + 200)" using assms(1,4) by (simp add: mr_after_def)
  have q: "mr_after l n (Suc k) q" using mr_push_after(2)[OF assms(1,2,6)] .
  then have hq: "mr_histCount q = nat (l + 200)" using assms(4) by (simp add: mr_after_def)
  have s: "mr_start q l = 200" "mr_start r l = 200" using assms(2) by (simp_all add: mr_start_def h hq)
  have c: "mr_closeHistory q = (mr_closeHistory r)[k mod nat (l + 200) := Price_Float64 (ca_Close c)]"
    using assms(6) mr_slot_after[OF assms(1,2), of "mr_histIndex r"] assms(1)
    by (auto simp: MeanReversionRunner_push_def Let_def mr_after_def split: if_splits)
  have "map (\<lambda>i. mr_closeHistory q ! i) [200..<nat (l + 200)] = map (\<lambda>i. mr_closeHistory r ! i) [200..<nat (l + 200)]"
    using assms(5) by (auto simp: c)
  then show ?thesis
    using mr_reads_after[OF assms(1,2), of "mr_histCount r" 200] mr_reads_after[OF q assms(2), of "mr_histCount q" 200] assms(3)
    by (simp add: s h hq)
qed

text \<open>Once their history is full the mean reversion strategies look at old prices. The prices of
  \<open>fade_stats\<close> (both volatility strategies) are those of the last \<open>lookback\<close> slots of the array,
  and \<open>MeanReversionRunner\<close> takes its mean and deviation from the slots 200 to
  \<open>Lookback + 199\<close>: a bar that falls in another slot, as all but \<open>lookback\<close> bars of every round
  do, changes none of the values the z-score is computed from.
\<close>

theorem full_history_ignores_bars:
  assumes "buffers_ok b" "br_HistCount b = br_BufferSize b" "0 < lookback"
    and "int (br_HistIdx b mod br_BufferSize b) < int (br_BufferSize b) - lookback"
    and "mr_after l n k r" "0 < l" "nat (l + 200) \<le> n" "nat (l + 200) \<le> k" "k mod nat (l + 200) < 200"
    and "MeanReversionRunner_push r c = Some q"
  shows "fade_values (BaseRunner_PushPrice b price high low volume) lookback = fade_values b lookback \<and>
    mr_reads q (mr_start q l) (mr_histCount q) = mr_reads r (mr_start r l) (mr_histCount r)"
  using fade_values_full[OF assms(1-4)] mr_reads_full[OF assms(5-10)] by simp

definition full_mr :: MeanReversionRunner where
  "full_mr = (NewMeanReversionRunner 1 (lit 1) (lit 1) 200)\<lparr>mr_histIndex := 201, mr_histCount := 201\<rparr>"

lemma full_history_ignores_bars_witness:
  "fade_values (BaseRunner_PushPrice flat_bars 500000 900000 100000 1) 2 = fade_values flat_bars 2 \<and>
   (\<exists>q. MeanReversionRunner_push full_mr (dollar_bar 1 100) = Some q \<and>
     mr_reads q (mr_start q 1) (mr_histCount q) = mr_reads full_mr (mr_start full_mr 1) (mr_histCount full_mr))"
proof -
  have r: "mr_after 1 201 201 full_mr"
    by (simp add: mr_after_def full_mr_def NewMeanReversionRunner_def)
  have b: "buffers_ok flat_bars" "br_HistCount flat_bars = br_BufferSize flat_bars"
    "int (br_HistIdx flat_bars mod br_BufferSize flat_bars) < int (br_BufferSize flat_bars) - 2"
    by (simp_all add: flat_bars_def NewBaseRunner_def buffers_ok_def)
  obtain q where q: "MeanReversionRunner_push full_mr (dollar_bar 1 100) = Some q"
    using mr_push_after(1)[OF r, of "dollar_bar 1 100"] by auto
  show ?thesis
    using full_history_ignores_bars[OF b(1,2) _ b(3) r _ _ _ _ q] q by auto
qed

end
