(* ===== verification/Grid.thy ===== *)
theory Grid
  imports StrategyKit
begin

text \<open>
  \<open>internal/strategy/grid_runner.go\<close>: levels around a reference price, one position per level.
  The positions are a map from the level, iterated in the order of the levels where they are closed.
\<close>

record gridPosition =
  gp_Side :: string
  gp_Quantity :: f64
  gp_EntryPrice :: price
  gp_GridLevel :: int
  gp_TakePrice :: price
  gp_StopPrice :: price

record GridRunner =
  gr_GridLevels :: f64
  gr_GridSpacingPct :: f64
  gr_PositionScale :: f64
  gr_MaxOpen :: f64
  gr_TakeProfitPct :: f64
  gr_StopLossPct :: f64
  gr_openCount :: int
  gr_openPositions :: "(int, gridPosition) gomap"
  gr_lastPrice :: price
  gr_referencePrice :: price
  gr_priceInit :: bool
  gr_barCount :: int
  gr_Disabled :: bool
  gr_AdjustByVolatility :: bool
  gr_CurrentVIX :: f64
  gr_CurrentATR :: f64
  gr_VolMaxSpacingMult :: f64
  gr_irVersion :: string
  gr_canonicalVersion :: string
  gr_instanceHash :: string

definition NewGridRunner :: GridRunner where
  "NewGridRunner = \<lparr>gr_GridLevels = lit 5, gr_GridSpacingPct = lit 1, gr_PositionScale = lit 1, gr_MaxOpen = lit 10,
     gr_TakeProfitPct = lit 1, gr_StopLossPct = lit (5/10), gr_openCount = 0, gr_openPositions = [], gr_lastPrice = 0,
     gr_referencePrice = 0, gr_priceInit = False, gr_barCount = 0, gr_Disabled = False,
     gr_AdjustByVolatility = False, gr_CurrentVIX = 0, gr_CurrentATR = 0, gr_VolMaxSpacingMult = lit 2,
     gr_irVersion = ''qst-ir/0.4'', gr_canonicalVersion = ''qst-canonical/0.4'', gr_instanceHash = ''''\<rparr>"

definition GridRunner_Version :: "GridRunner \<Rightarrow> string \<times> string" where
  "GridRunner_Version r = (gr_irVersion r, gr_canonicalVersion r)"

definition GridRunner_SetVersion :: "GridRunner \<Rightarrow> string \<Rightarrow> string \<Rightarrow> GridRunner" where
  "GridRunner_SetVersion r ir canonical = r\<lparr>gr_irVersion := ir, gr_canonicalVersion := canonical\<rparr>"

definition GridRunner_SetInstanceHash :: "GridRunner \<Rightarrow> string \<Rightarrow> GridRunner" where
  "GridRunner_SetInstanceHash r h = r\<lparr>gr_instanceHash := h\<rparr>"

definition GridRunner_Reset :: "GridRunner \<Rightarrow> GridRunner" where
  "GridRunner_Reset r = r\<lparr>gr_openCount := 0, gr_lastPrice := 0, gr_referencePrice := 0, gr_priceInit := False,
     gr_openPositions := []\<rparr>"

definition GridRunner_SetVIX :: "GridRunner \<Rightarrow> f64 \<Rightarrow> GridRunner" where
  "GridRunner_SetVIX r vix = r\<lparr>gr_CurrentVIX := vix\<rparr>"

definition GridRunner_SetATR :: "GridRunner \<Rightarrow> f64 \<Rightarrow> GridRunner" where
  "GridRunner_SetATR r atr = r\<lparr>gr_CurrentATR := atr\<rparr>"

definition GridRunner_computeVolatilityMultiplier :: "GridRunner \<Rightarrow> f64" where
  "GridRunner_computeVolatilityMultiplier r =
     (let clamp = (\<lambda>m. let m = (if m < lit (7/10) then lit (7/10) else m)
            in if m > gr_VolMaxSpacingMult r then gr_VolMaxSpacingMult r else m) in
      if gr_CurrentATR r > 0 then clamp (1 + (gr_CurrentATR r - lit 5) / lit 5 * lit (5/10))
      else if gr_CurrentVIX r > 0 then clamp (1 + (gr_CurrentVIX r - lit 15) / lit 15 * lit (5/10))
      else 1)"

definition GridRunner_Params :: "GridRunner \<Rightarrow> params" where
  "GridRunner_Params r = [(''grid_levels'', gr_GridLevels r), (''grid_spacing_pct'', gr_GridSpacingPct r),
     (''position_scale'', gr_PositionScale r), (''max_open'', gr_MaxOpen r),
     (''take_profit_pct'', gr_TakeProfitPct r), (''stop_loss_pct'', gr_StopLossPct r)]"

definition GridRunner_SetParams :: "GridRunner \<Rightarrow> params \<Rightarrow> GridRunner" where
  "GridRunner_SetParams r ps =
     (let r = on_param ps ''grid_levels'' (\<lambda>v r. r\<lparr>gr_GridLevels := v\<rparr>) r;
          r = on_param ps ''grid_spacing_pct'' (\<lambda>v r. r\<lparr>gr_GridSpacingPct := v\<rparr>) r;
          r = on_param ps ''position_scale'' (\<lambda>v r. r\<lparr>gr_PositionScale := v\<rparr>) r;
          r = on_param ps ''max_open'' (\<lambda>v r. r\<lparr>gr_MaxOpen := v\<rparr>) r;
          r = on_param ps ''take_profit_pct'' (\<lambda>v r. r\<lparr>gr_TakeProfitPct := v\<rparr>) r
      in on_param ps ''stop_loss_pct'' (\<lambda>v r. r\<lparr>gr_StopLossPct := v\<rparr>) r)"

definition GridRunner_ParamDefs :: "ParamDef list" where
  "GridRunner_ParamDefs =
     [int_param ''grid_levels'' (lit 5) (lit 2) (lit 8) (lit 1),
      real_param ''grid_spacing_pct'' (lit 1) (lit (2/10)) (lit 4) (lit (2/10)),
      real_param ''take_profit_pct'' (lit 1) (lit (1/10)) (lit 2) (lit (1/10)),
      real_param ''stop_loss_pct'' (lit (5/10)) (lit (1/10)) (lit 5) (lit (1/10)),
      int_param ''max_open'' (lit 10) (lit 1) (lit 10) (lit 1),
      real_param ''position_scale'' (lit 1) (lit (25/100)) (lit 2) (lit (25/100)),
      int_param ''adjust_by_volatility'' (lit 0) (lit 0) (lit 1) (lit 1)]"

text \<open>The parts of \<open>Evaluate\<close>: the limits of the regime, the prices of the levels,\<close>

definition grid_limits :: "GridRunner \<Rightarrow> int \<Rightarrow> f64 \<times> f64" where
  "grid_limits r regime =
     (let (maxOpen, spacing) =
        (if regime = RegimeCalm then (gr_MaxOpen r, gr_GridSpacingPct r * lit (8/10))
         else if regime = RegimeHighVol then (math_max 1 (gr_MaxOpen r * lit (5/10)), gr_GridSpacingPct r * lit (15/10))
         else (gr_MaxOpen r, gr_GridSpacingPct r))
      in (maxOpen, if gr_AdjustByVolatility r then spacing * GridRunner_computeVolatilityMultiplier r else spacing))"

definition grid_levels :: "GridRunner \<Rightarrow> nat" where
  "grid_levels r = (let levels = int64_of_float (gr_GridLevels r);
     levels = (if levels > 20 then 20 else levels) in nat (if levels < 2 then 2 else levels))"

definition grid_prices :: "price \<Rightarrow> f64 \<Rightarrow> nat \<Rightarrow> price list" where
  "grid_prices ref spacing levels =
     map (\<lambda>i. Price_MulFloat ref (1 - spacing * float_of_int (int i))) (rev [1..<levels + 1]) @ ref #
     map (\<lambda>i. Price_MulFloat ref (1 + spacing * float_of_int (int i))) [1..<levels + 1]"

text \<open>the positions to close at a price,\<close>

definition grid_exit :: "gridPosition \<Rightarrow> price \<Rightarrow> string option" where
  "grid_exit q price =
     (if gp_Side q = ''BUY'' \<and> Price_Compare price (gp_TakePrice q) \<ge> 0 then Some ''SELL''
      else if gp_Side q = ''SELL'' \<and> Price_Compare price (gp_TakePrice q) \<le> 0 then Some ''BUY''
      else if gp_Side q = ''BUY'' \<and> Price_Compare price (gp_StopPrice q) \<le> 0 then Some ''SELL''
      else if gp_Side q = ''SELL'' \<and> Price_Compare price (gp_StopPrice q) \<ge> 0 then Some ''BUY''
      else None)"

fun grid_close :: "price \<Rightarrow> int list \<Rightarrow> GridRunner \<Rightarrow> string option \<Rightarrow> GridRunner \<times> string option" where
  "grid_close price [] r side = (r, side)"
| "grid_close price (level # levels) r side =
     (case mlookup (gr_openPositions r) level of
        None \<Rightarrow> grid_close price levels r side
      | Some q \<Rightarrow> (case grid_exit q price of
          None \<Rightarrow> grid_close price levels r side
        | Some s \<Rightarrow> grid_close price levels
            (r\<lparr>gr_openPositions := mdelete (gr_openPositions r) level, gr_openCount := gr_openCount r - 1\<rparr>) (Some s)))"

text \<open>and the levels next to the price, where \<open>-1\<close> stands for none and is also a level.\<close>

fun nearest_levels :: "f64 \<Rightarrow> int \<Rightarrow> price list \<Rightarrow> (int \<times> f64) \<times> (int \<times> f64) \<Rightarrow> (int \<times> f64) \<times> (int \<times> f64)" where
  "nearest_levels p k [] acc = acc"
| "nearest_levels p k (g # gs) ((upper, distA), (lower, distB)) =
     (let gf = Price_Float64 g;
          (upper, distA) = (if gf > p \<and> gf - p < distA then (k, gf - p) else (upper, distA));
          (lower, distB) = (if gf < p \<and> p - gf < distB then (k, p - gf) else (lower, distB))
      in nearest_levels p (k + 1) gs ((upper, distA), (lower, distB)))"

definition grid_open :: "GridRunner \<Rightarrow> Candle \<Rightarrow> string \<Rightarrow> int \<Rightarrow> price \<Rightarrow> f64 \<Rightarrow> f64 \<Rightarrow> Signal option \<times> GridRunner" where
  "grid_open r c side level entry take_mult stop_mult =
     (Some (enter_signal c side),
      r\<lparr>gr_openPositions := mput (gr_openPositions r) level
          \<lparr>gp_Side = side, gp_Quantity = lit 100 * gr_PositionScale r, gp_EntryPrice = entry, gp_GridLevel = level,
           gp_TakePrice = Price_MulFloat entry take_mult, gp_StopPrice = Price_MulFloat entry stop_mult\<rparr>,
        gr_openCount := gr_openCount r + 1\<rparr>)"

definition GridRunner_enter :: "GridRunner \<Rightarrow> Candle \<Rightarrow> f64 \<Rightarrow> Signal option \<times> GridRunner" where
  "GridRunner_enter r c spacing =
     (let price = ca_Close c; levels = grid_levels r; prices = grid_prices (gr_referencePrice r) spacing levels;
          tpPct = gr_TakeProfitPct r / lit 100; slPct = gr_StopLossPct r / lit 100;
          crossedDown = Price_Compare (gr_lastPrice r) price > 0;
          crossedUp = Price_Compare (gr_lastPrice r) price < 0;
          ((upper, _), (lower, _)) = nearest_levels (Price_Float64 price) (- int levels) prices ((-1, MaxFloat64), (-1, MaxFloat64));
          (signal, r) =
            (if crossedDown \<and> lower \<noteq> -1 \<and> mlookup (gr_openPositions r) lower = None
             then grid_open r c ''BUY'' lower (prices ! nat (lower + int levels)) (1 + tpPct) (1 - slPct)
             else (None, r));
          (signal, r) =
            (if crossedUp \<and> upper \<noteq> -1 \<and> signal = None \<and> mlookup (gr_openPositions r) upper = None
             then grid_open r c ''SELL'' upper (prices ! nat (upper + int levels)) (1 - tpPct) (1 + slPct)
             else (signal, r))
      in (signal, r\<lparr>gr_lastPrice := price\<rparr>))"

text \<open>Every 100 bars the reference price follows, when nothing is open.\<close>

definition grid_begin :: "GridRunner \<Rightarrow> price \<Rightarrow> GridRunner" where
  "grid_begin r price = (let r = r\<lparr>gr_barCount := gr_barCount r + 1\<rparr> in
     if gr_barCount r > 0 \<and> gr_barCount r mod 100 = 0 \<and> gr_openCount r = 0 then r\<lparr>gr_referencePrice := price\<rparr> else r)"

definition GridRunner_Evaluate :: "GridRunner \<Rightarrow> Candle \<Rightarrow> int \<Rightarrow> Signal option \<times> GridRunner" where
  "GridRunner_Evaluate r c regime =
     (let price = ca_Close c in
      if gr_Disabled r then (None, r)
      else if Price_IsZero price then (None, r)
      else let (maxOpen, spacingPct) = grid_limits r regime in
        if \<not> gr_priceInit r then (None, r\<lparr>gr_referencePrice := price, gr_lastPrice := price, gr_priceInit := True\<rparr>)
        else let r = grid_begin r price;
                 spacing = spacingPct / lit 100;
                 spacing = (if spacing \<le> 0 then lit (1/100) else spacing);
                 (r, exitSide) = grid_close price (sort (map fst (gr_openPositions r))) r None
             in case exitSide of
                  Some side \<Rightarrow> (Some (exit_signal c side), r)
                | None \<Rightarrow> (if gr_openCount r \<ge> int64_of_float maxOpen then (None, r\<lparr>gr_lastPrice := price\<rparr>)
                    else GridRunner_enter r c spacing))"

section \<open>The books of the grid\<close>

text \<open>One position per level, the counter is their number, and no level is out of range or \<open>-1\<close>.\<close>

definition grid_ok :: "GridRunner \<Rightarrow> bool" where
  "grid_ok r \<longleftrightarrow> mkeys_ok (gr_openPositions r) \<and> gr_openCount r = int (length (gr_openPositions r)) \<and>
     (\<forall>x \<in> set (gr_openPositions r). fst x \<in> {-20..20} - {-1})"

lemma grid_ok_Reset: "grid_ok (GridRunner_Reset r)"
  by (simp add: grid_ok_def GridRunner_Reset_def)

lemma set_mdelete: "x \<in> set (mdelete m k) \<Longrightarrow> x \<in> set m"
  by (auto simp: mdelete_def AList.delete_eq)

lemma grid_close_ok:
  "grid_ok r \<Longrightarrow> grid_ok (fst (grid_close price levels r side))"
proof (induction levels arbitrary: r side)
  case (Cons level levels)
  have "grid_ok (r\<lparr>gr_openPositions := mdelete (gr_openPositions r) level, gr_openCount := gr_openCount r - 1\<rparr>)"
    if "mlookup (gr_openPositions r) level = Some q" for q
    using Cons.prems length_mdelete[OF _ that] set_mdelete[of _ "gr_openPositions r" level]
    by (fastforce simp: grid_ok_def)
  then show ?case using Cons by (simp split: option.split)
qed simp

lemma grid_close_frame [simp]:
  "gr_GridLevels (fst (grid_close price levels r side)) = gr_GridLevels r"
  by (induction levels arbitrary: r side) (auto split: option.split)

text \<open>An exit side means that the counter fell; none, that nothing was closed.\<close>

lemma grid_close_count:
  "gr_openCount (fst (grid_close price levels r side)) \<le> gr_openCount r \<and>
   (snd (grid_close price levels r side) \<noteq> side \<longrightarrow> gr_openCount (fst (grid_close price levels r side)) < gr_openCount r) \<and>
   (snd (grid_close price levels r side) = None \<longrightarrow> fst (grid_close price levels r side) = r \<and> side = None)"
proof (induction levels arbitrary: r side)
  case (Cons level levels)
  show ?case
  proof (cases "mlookup (gr_openPositions r) level")
    case None then show ?thesis using Cons.IH[of r side] by simp
  next
    case (Some q)
    show ?thesis
    proof (cases "grid_exit q price")
      case None then show ?thesis using Cons.IH[of r side] Some by simp
    next
      case (Some s)
      then show ?thesis
        using Cons.IH[of "r\<lparr>gr_openPositions := mdelete (gr_openPositions r) level, gr_openCount := gr_openCount r - 1\<rparr>" "Some s"]
          \<open>mlookup (gr_openPositions r) level = Some q\<close> by auto
    qed
  qed
qed simp

text \<open>The nearest levels are \<open>-1\<close> or levels whose price lies strictly on their side of the price.\<close>

definition level_at :: "f64 \<Rightarrow> int \<Rightarrow> price list \<Rightarrow> bool \<Rightarrow> int \<Rightarrow> bool" where
  "level_at p k gs up l \<longleftrightarrow> (\<exists>j < length gs. l = k + int j \<and>
     (if up then Price_Float64 (gs ! j) > p else Price_Float64 (gs ! j) < p))"

lemma level_at_Cons: "level_at p (k + 1) gs up l \<Longrightarrow> level_at p k (g # gs) up l"
  unfolding level_at_def by (metis (no_types, opaque_lifting) Suc_less_eq add.assoc add.commute length_Cons nth_Cons_Suc of_nat_Suc)

lemma level_at_first: "Price_Float64 g > p \<Longrightarrow> level_at p k (g # gs) True k" "Price_Float64 g < p \<Longrightarrow> level_at p k (g # gs) False k"
  by (auto simp: level_at_def intro: exI[of _ 0])

lemma nearest_levels_at:
  "(fst (fst (nearest_levels p k gs acc)) = fst (fst acc) \<or> level_at p k gs True (fst (fst (nearest_levels p k gs acc)))) \<and>
  (fst (snd (nearest_levels p k gs acc)) = fst (snd acc) \<or> level_at p k gs False (fst (snd (nearest_levels p k gs acc))))"
proof (induction gs arbitrary: k acc)
  case (Cons g gs)
  obtain u du l dl where acc: "acc = ((u, du), (l, dl))" by (metis prod.exhaust)
  define next_acc where "next_acc = ((if Price_Float64 g > p \<and> Price_Float64 g - p < du then (k, Price_Float64 g - p) else (u, du)),
    (if Price_Float64 g < p \<and> p - Price_Float64 g < dl then (k, p - Price_Float64 g) else (l, dl)))"
  have step: "nearest_levels p k (g # gs) acc = nearest_levels p (k + 1) gs next_acc"
    by (simp add: acc next_acc_def Let_def)
  have first: "fst (fst next_acc) = u \<or> level_at p k (g # gs) True (fst (fst next_acc))"
    "fst (snd next_acc) = l \<or> level_at p k (g # gs) False (fst (snd next_acc))"
    using level_at_first(1)[of p g k gs] level_at_first(2)[of g p k gs] by (auto simp: next_acc_def)
  show ?case
    using Cons.IH[of "k + 1" next_acc] first level_at_Cons[of p k gs True] level_at_Cons[of p k gs False]
    unfolding step by (auto simp: acc)
qed simp

lemma grid_levels_range: "2 \<le> grid_levels r \<and> grid_levels r \<le> 20"
  by (auto simp: grid_levels_def Let_def)

lemma length_grid_prices [simp]: "length (grid_prices ref spacing levels) = 2 * levels + 1"
  by (simp add: grid_prices_def)

text \<open>What a level that is not \<open>-1\<close> says of its price.\<close>

lemma nearest_level:
  assumes "nearest_levels p (- int levels) prices ((-1, d), (-1, d)) = ((u, du), (l, dl))"
    and "length prices = 2 * levels + 1"
  shows "u \<noteq> -1 \<Longrightarrow> u \<in> {- int levels..int levels} \<and> p < Price_Float64 (prices ! nat (u + int levels))"
    and "l \<noteq> -1 \<Longrightarrow> l \<in> {- int levels..int levels} \<and> Price_Float64 (prices ! nat (l + int levels)) < p"
  using nearest_levels_at[of p "- int levels" prices "((-1, d), (-1, d))"] assms(2)
  by (auto simp: assms(1) level_at_def)

lemma grid_open_ok:
  "grid_ok r \<Longrightarrow> mlookup (gr_openPositions r) level = None \<Longrightarrow> level \<in> {-20..20} - {-1} \<Longrightarrow>
    grid_ok (snd (grid_open r c side level entry x y))"
  using set_mputD[of _ "gr_openPositions r" level] by (fastforce simp: grid_ok_def grid_open_def length_mput)

text \<open>What \<open>GridRunner_enter\<close> opens: at most one position, on a level the price has not reached.\<close>

lemma grid_enter_cases:
  obtains (none) "fst (GridRunner_enter r c s) = None" "snd (GridRunner_enter r c s) = r\<lparr>gr_lastPrice := ca_Close c\<rparr>"
  | (buy) l e x y where "GridRunner_enter r c s = (fst (grid_open r c ''BUY'' l e x y), (snd (grid_open r c ''BUY'' l e x y))\<lparr>gr_lastPrice := ca_Close c\<rparr>)"
      "mlookup (gr_openPositions r) l = None" "l \<in> {-20..20} - {-1}" "Price_Float64 e < Price_Float64 (ca_Close c)"
  | (sell) l e x y where "GridRunner_enter r c s = (fst (grid_open r c ''SELL'' l e x y), (snd (grid_open r c ''SELL'' l e x y))\<lparr>gr_lastPrice := ca_Close c\<rparr>)"
      "mlookup (gr_openPositions r) l = None" "l \<in> {-20..20} - {-1}" "Price_Float64 (ca_Close c) < Price_Float64 e"
proof -
  let ?n = "grid_levels r" and ?p = "Price_Float64 (ca_Close c)"
  define ps where "ps = grid_prices (gr_referencePrice r) s ?n"
  obtain u du l dl where e: "nearest_levels ?p (- int ?n) ps ((-1, MaxFloat64), (-1, MaxFloat64)) = ((u, du), (l, dl))"
    by (metis prod.exhaust)
  have len: "length ps = 2 * ?n + 1" by (simp add: ps_def)
  note near = nearest_level[OF e len]
  have range: "x \<in> {- int ?n..int ?n} \<Longrightarrow> x \<noteq> -1 \<Longrightarrow> x \<in> {-20..20} - {-1}" for x
    using grid_levels_range[of r] by auto
  let ?buy = "Price_Compare (gr_lastPrice r) (ca_Close c) > 0 \<and> l \<noteq> -1 \<and> mlookup (gr_openPositions r) l = None"
  let ?sell = "Price_Compare (gr_lastPrice r) (ca_Close c) < 0 \<and> u \<noteq> -1 \<and> mlookup (gr_openPositions r) u = None"
  note body = GridRunner_enter_def Let_def ps_def[symmetric] e prod.case
  consider "?buy" | "\<not> ?buy" "?sell" | "\<not> ?buy" "\<not> ?sell" by blast
  then show ?thesis
  proof cases
    case 1
    then show ?thesis using near(2) range[of l] unfolding body
      by (intro buy[of l "ps ! nat (l + int ?n)"]) (auto simp: body grid_open_def)
  next
    case 2
    then show ?thesis using near(1) range[of u] unfolding body
      by (intro sell[of u "ps ! nat (u + int ?n)"]) (auto simp: body grid_open_def)
  next
    case 3
    then show ?thesis by (intro none) (auto simp: body)
  qed
qed

lemma grid_ok_frame [simp]: "grid_ok (r\<lparr>gr_lastPrice := x\<rparr>) = grid_ok r" "grid_ok (r\<lparr>gr_barCount := k\<rparr>) = grid_ok r"
  "grid_ok (r\<lparr>gr_referencePrice := x\<rparr>) = grid_ok r" "grid_ok (r\<lparr>gr_priceInit := b\<rparr>) = grid_ok r"
  by (simp_all add: grid_ok_def)

definition grid_accounts :: "GridRunner \<Rightarrow> Signal option \<times> GridRunner \<Rightarrow> bool" where
  "grid_accounts r out \<longleftrightarrow> grid_ok (snd out) \<and> (case fst out of
     None \<Rightarrow> gr_openCount (snd out) = gr_openCount r
   | Some s \<Rightarrow> if sl_Action s = SignalEntry then gr_openCount (snd out) = gr_openCount r + 1
       else sl_Action s = SignalExit \<and> gr_openCount (snd out) < gr_openCount r)"

lemma grid_enter_accounts: "grid_ok r \<Longrightarrow> grid_accounts r (GridRunner_enter r c s)"
proof (cases rule: grid_enter_cases[of r c s])
  case none
  assume "grid_ok r" then show ?thesis by (simp add: grid_accounts_def none)
next
  case (buy l e x y)
  assume "grid_ok r" then show ?thesis
    using grid_open_ok[OF _ buy(2,3), of c "''BUY''" e x y] by (simp add: grid_accounts_def buy(1) grid_open_def)
next
  case (sell l e x y)
  assume "grid_ok r" then show ?thesis
    using grid_open_ok[OF _ sell(2,3), of c "''SELL''" e x y] by (simp add: grid_accounts_def sell(1) grid_open_def)
qed

lemma grid_begin_frame [simp]: "grid_ok (grid_begin r p) = grid_ok r" "gr_openCount (grid_begin r p) = gr_openCount r"
  "gr_openPositions (grid_begin r p) = gr_openPositions r"
  by (simp_all add: grid_begin_def Let_def grid_ok_def)

lemma grid_evaluate_cases:
  obtains (none) "fst (GridRunner_Evaluate r c g) = None" "gr_openCount (snd (GridRunner_Evaluate r c g)) = gr_openCount r"
      "grid_ok r \<Longrightarrow> grid_ok (snd (GridRunner_Evaluate r c g))"
  | (exit) levels side q where "grid_close (ca_Close c) levels (grid_begin r (ca_Close c)) None = (q, Some side)"
      "GridRunner_Evaluate r c g = (Some (exit_signal c side), q)"
  | (enter) s where "GridRunner_Evaluate r c g = GridRunner_enter (grid_begin r (ca_Close c)) c s"
proof -
  let ?p = "ca_Close c" and ?u = "grid_begin r (ca_Close c)"
  obtain m sp where lim: "grid_limits r g = (m, sp)" by force
  obtain q side where cl: "grid_close ?p (sort (map fst (gr_openPositions r))) ?u None = (q, side)" by force
  note body = GridRunner_Evaluate_def Let_def lim prod.case
  have run: "\<not> gr_Disabled r \<Longrightarrow> \<not> Price_IsZero ?p \<Longrightarrow> gr_priceInit r \<Longrightarrow> GridRunner_Evaluate r c g =
     (case side of Some side \<Rightarrow> (Some (exit_signal c side), q)
      | None \<Rightarrow> (if gr_openCount q \<ge> int64_of_float m then (None, q\<lparr>gr_lastPrice := ?p\<rparr>)
         else GridRunner_enter q c (if sp / lit 100 \<le> 0 then lit (1/100) else sp / lit 100)))"
    using cl unfolding body by simp
  have q: "side = None \<Longrightarrow> q = ?u" using grid_close_count[of ?p "sort (map fst (gr_openPositions r))" ?u None] cl by simp
  show ?thesis
  proof (cases "gr_Disabled r \<or> Price_IsZero ?p \<or> \<not> gr_priceInit r")
    case True then show ?thesis by (intro none) (auto simp: body)
  next
    case False
    then have e: "GridRunner_Evaluate r c g =
     (case side of Some side \<Rightarrow> (Some (exit_signal c side), q)
      | None \<Rightarrow> (if gr_openCount q \<ge> int64_of_float m then (None, q\<lparr>gr_lastPrice := ?p\<rparr>)
         else GridRunner_enter q c (if sp / lit 100 \<le> 0 then lit (1/100) else sp / lit 100)))" using run by simp
    show ?thesis
    proof (cases side)
      case (Some s) then show ?thesis using exit[of "sort (map fst (gr_openPositions r))" q s] cl e by simp
    next
      case None
      then show ?thesis using q e none enter by (cases "gr_openCount q \<ge> int64_of_float m") auto
    qed
  qed
qed

lemma grid_evaluate_accounts: "grid_ok r \<Longrightarrow> grid_accounts r (GridRunner_Evaluate r c g)"
proof (cases rule: grid_evaluate_cases[of r c g])
  case none
  assume "grid_ok r" then show ?thesis using none by (simp add: grid_accounts_def)
next
  case (exit levels side q)
  assume "grid_ok r"
  then show ?thesis
    using grid_close_ok[of "grid_begin r (ca_Close c)" "ca_Close c" levels None]
      grid_close_count[of "ca_Close c" levels "grid_begin r (ca_Close c)" None] exit
    by (simp add: grid_accounts_def)
next
  case (enter s)
  assume "grid_ok r"
  then show ?thesis using grid_enter_accounts[of "grid_begin r (ca_Close c)" c s]
    by (cases "fst (GridRunner_enter (grid_begin r (ca_Close c)) c s)") (auto simp: grid_accounts_def enter split: if_splits)
qed

fun grid_run :: "GridRunner \<Rightarrow> (Candle \<times> int) list \<Rightarrow> Signal list \<times> GridRunner" where
  "grid_run r [] = ([], r)"
| "grid_run r ((c, g) # bars) = (let (s, r) = GridRunner_Evaluate r c g; (gs, r) = grid_run r bars
     in (case s of None \<Rightarrow> gs | Some s \<Rightarrow> s # gs, r))"

definition count_action :: "int \<Rightarrow> Signal list \<Rightarrow> int" where
  "count_action a gs = int (length (filter (\<lambda>s. sl_Action s = a) gs))"

lemma grid_ok_bound: "grid_ok r \<Longrightarrow> 0 \<le> gr_openCount r \<and> gr_openCount r \<le> 40"
proof -
  assume r: "grid_ok r"
  have "set (map fst (gr_openPositions r)) \<subseteq> {-20..20} - {-1}" using r by (auto simp: grid_ok_def)
  then have "card (set (map fst (gr_openPositions r))) \<le> card ({-20..20} - {-1 :: int})" by (intro card_mono) auto
  then show ?thesis using r by (simp add: grid_ok_def mkeys_ok_def distinct_card[of "map fst (gr_openPositions r)", simplified])
qed

text \<open>C11: The books of the grid. Start with a \<open>GridRunner\<close> whose counter \<open>openCount\<close> is the number of
  its positions, at most one per level, on the levels from -20 to 20 without -1, such as a reset
  one. Over any run, whatever its parameters, prices and regimes, this stays so: the level next
  below the reference price never gets a position (its number \<open>-1\<close> is the mark for "no level"), and
  at most 40 are open. The open positions grow by at most the entry signals less the exit signals:
  one exit signal may close several.\<close>

theorem grid_books_balance:
  assumes "grid_ok r" "grid_run r bars = (gs, r')"
  shows "grid_ok r' \<and> gr_openCount r' \<le> 40 \<and>
    gr_openCount r' \<le> gr_openCount r + count_action SignalEntry gs - count_action SignalExit gs"
  using assms
proof (induction bars arbitrary: r gs)
  case Nil then show ?case using grid_ok_bound by (auto simp: count_action_def)
next
  case (Cons b bars)
  obtain c g where b: "b = (c, g)" by force
  obtain s q where e: "GridRunner_Evaluate r c g = (s, q)" by force
  obtain hs where run: "grid_run q bars = (hs, r')" "gs = (case s of None \<Rightarrow> hs | Some s \<Rightarrow> s # hs)"
    using Cons.prems(2) by (auto simp: b e split: prod.splits)
  have a: "grid_accounts r (s, q)" using grid_evaluate_accounts[OF Cons.prems(1), of c g] by (simp add: e)
  then have "grid_ok q" by (simp add: grid_accounts_def)
  from Cons.IH[OF this run(1)] a show ?case
    by (cases s) (auto simp: run(2) grid_accounts_def count_action_def split: if_splits)
qed

lemma grid_books_balance_witness:
  "gr_openCount (snd (grid_run (GridRunner_Reset NewGridRunner) [(dollar_bar 1 100, 0), (dollar_bar 2 101, 0)])) \<le> 40"
  using grid_books_balance[OF grid_ok_Reset, of NewGridRunner "[(dollar_bar 1 100, 0), (dollar_bar 2 101, 0)]"]
  by (metis prod.collapse)

lemma grid_enter_level:
  "fst (GridRunner_enter r c s) = Some sig \<Longrightarrow> sl_Action sig = SignalEntry \<and>
    (\<exists>q. mlookup (gr_openPositions (snd (GridRunner_enter r c s))) (gp_GridLevel q) = Some q \<and> gp_Side q = sl_Side sig \<and>
      mlookup (gr_openPositions r) (gp_GridLevel q) = None \<and>
      (if gp_Side q = ''BUY'' then Price_Float64 (gp_EntryPrice q) < Price_Float64 (ca_Close c)
       else Price_Float64 (ca_Close c) < Price_Float64 (gp_EntryPrice q)))"
  by (cases rule: grid_enter_cases[of r c s]) (auto simp: grid_open_def)

text \<open>A grid position is entered before its level is reached. When \<open>GridRunner\<close> signals an entry,
  it records a position on a free level whose entry price lies strictly below the close of the
  bar for a buy and strictly above it for a sale: the level next in the direction of the move,
  not one the price has crossed; take profit and stop are computed from that price.
\<close>

theorem grid_enters_before_the_level:
  assumes "fst (GridRunner_Evaluate r c g) = Some sig" "sl_Action sig = SignalEntry"
  shows "\<exists>q. mlookup (gr_openPositions (snd (GridRunner_Evaluate r c g))) (gp_GridLevel q) = Some q \<and> gp_Side q = sl_Side sig \<and>
      mlookup (gr_openPositions r) (gp_GridLevel q) = None \<and>
      (if gp_Side q = ''BUY'' then Price_Float64 (gp_EntryPrice q) < Price_Float64 (ca_Close c)
       else Price_Float64 (ca_Close c) < Price_Float64 (gp_EntryPrice q))"
proof (cases rule: grid_evaluate_cases[of r c g])
  case none then show ?thesis using assms by simp
next
  case (exit levels side q) then show ?thesis using assms by auto
next
  case (enter s)
  then show ?thesis using grid_enter_level[of "grid_begin r (ca_Close c)" c s sig] assms(1) by simp
qed

definition started_grid :: GridRunner where
  "started_grid = NewGridRunner\<lparr>gr_GridLevels := lit 2, gr_priceInit := True, gr_referencePrice := 10000000,
     gr_lastPrice := 10000000\<rparr>"

lemmas price_eval = Price_Float64_def ToFloat64_def PriceScaleFactor_def Price_MulFloat_def math_round_def
  int64_of_float_def is_int64_def f64_eval

lemma started_grid_prices:
  "grid_prices 10000000 (Fin (5764607523034235 / 576460752303423488)) 2 = [9800000, 9900000, 10000000, 10100000, 10200000]"
  by (simp add: grid_prices_def upt_rec price_eval)

lemma started_grid_near:
  "fst (fst (nearest_levels (Price_Float64 10100000) (-2) [9800000, 9900000, 10000000, 10100000, 10200000]
    ((-1, MaxFloat64), (-1, MaxFloat64)))) = 2"
  by (simp add: MaxFloat64_def Let_def price_eval)

lemma started_grid_enters:
  "fst (GridRunner_Evaluate started_grid (dollar_bar 1 101) 1) = Some (enter_signal (dollar_bar 1 101) ''SELL'')"
proof -
  define u where "u = grid_begin started_grid 10100000"
  define near where "near = nearest_levels (Price_Float64 10100000) (-2) [9800000, 9900000, 10000000, 10100000, 10200000]
    ((-1, MaxFloat64), (-1, MaxFloat64))"
  obtain du l dl where n: "near = ((2, du), (l, dl))"
    using started_grid_near unfolding near_def by (metis prod.collapse)
  have u: "gr_openPositions u = []" "gr_openCount u = 0" "gr_referencePrice u = 10000000" "gr_lastPrice u = 10000000"
    "grid_levels u = 2"
    by (simp_all add: u_def started_grid_def NewGridRunner_def grid_begin_def grid_levels_def Let_def price_eval)
  have lim: "grid_limits started_grid 1 = (lit 10, lit 1)"
    by (simp add: grid_limits_def started_grid_def NewGridRunner_def RegimeCalm_def RegimeHighVol_def)
  have c: "ca_Close (dollar_bar 1 101) = 10100000" by (simp add: dollar_bar_def)
  have s: "1 / lit 100 = Fin (5764607523034235 / 576460752303423488)"
    "\<not> Fin (5764607523034235 / 576460752303423488) \<le> 0" "int64_of_float (lit 10) = 10" by (simp_all add: price_eval)
  have enter: "fst (GridRunner_enter u (dollar_bar 1 101) (Fin (5764607523034235 / 576460752303423488)))
    = Some (enter_signal (dollar_bar 1 101) ''SELL'')"
    unfolding GridRunner_enter_def Let_def c u started_grid_prices
    by (simp add: near_def[symmetric] n Price_Compare_def grid_open_def u del: nearest_levels.simps)
  have flags: "\<not> gr_Disabled started_grid" "gr_priceInit started_grid" "gr_openPositions started_grid = []"
    by (simp_all add: started_grid_def NewGridRunner_def)
  show ?thesis
    by (simp add: GridRunner_Evaluate_def lim c Price_IsZero_def flags u_def[symmetric] Let_def s u enter)
qed

text \<open>At 101 the strategy sells at the level of 102.\<close>

lemma grid_enters_before_the_level_witness:
  "\<exists>q. mlookup (gr_openPositions (snd (GridRunner_Evaluate started_grid (dollar_bar 1 101) 1))) (gp_GridLevel q) = Some q \<and>
     gp_Side q = sl_Side (enter_signal (dollar_bar 1 101) ''SELL'') \<and>
     mlookup (gr_openPositions started_grid) (gp_GridLevel q) = None \<and>
     (if gp_Side q = ''BUY'' then Price_Float64 (gp_EntryPrice q) < Price_Float64 (ca_Close (dollar_bar 1 101))
      else Price_Float64 (ca_Close (dollar_bar 1 101)) < Price_Float64 (gp_EntryPrice q))"
  by (rule grid_enters_before_the_level[OF started_grid_enters entry_fields(1)])

end
