(* ===== verification/Registry.thy ===== *)
theory Registry
  imports Trends Momentum Crossings Breakouts Reversion Grid
begin

text \<open>
  The strategies behind their interface (\<open>Strategy\<close> of \<open>internal/strategy/registry.go\<close>) as a sum
  type, the registry, the table of \<open>GlobalRegistry\<close>, \<open>param_validation.go\<close> and
  \<open>shared_candle.go\<close>. A constructor of the table is the fresh runner it returns. Go iterates a
  map in an arbitrary order: here it is the order of the list, so a statement over all registries
  is one over all orders. The callbacks \<open>OnFill\<close>, \<open>OnCancel\<close> and \<open>OnOrderRejected\<close> are empty
  in every strategy.
\<close>

section \<open>The strategies\<close>

text \<open>The names and types they give themselves.\<close>

definition OrbRunner_Name :: string where "OrbRunner_Name = ''opening_range_breakout''"
definition SessionScalpRunner_Name :: string where "SessionScalpRunner_Name = ''session_scalp''"
definition VolumeScalpRunner_Name :: string where "VolumeScalpRunner_Name = ''volume_scalp''"
definition SessionMomentumRunner_Name :: string where "SessionMomentumRunner_Name = ''session_momentum''"
definition TrendRunner_Name :: string where "TrendRunner_Name = ''trend_following''"
definition MomentumRunner_Name :: string where "MomentumRunner_Name = ''momentum_12_1''"
definition CarryRunner_Name :: string where "CarryRunner_Name = ''fx_carry''"
definition DonchianBreakoutRunner_Name :: string where "DonchianBreakoutRunner_Name = ''donchian_breakout''"
definition KeltnerMACDRunner_Name :: string where "KeltnerMACDRunner_Name = ''keltner_macd''"
definition MACrossoverRunner_Name :: string where "MACrossoverRunner_Name = ''ma_crossover''"
definition IchimokuRunner_Name :: string where "IchimokuRunner_Name = ''ichimoku_cloud''"
definition DragonTrendRunner_Name :: string where "DragonTrendRunner_Name = ''dragon_trend''"
definition RSI2MeanReversionRunner_Name :: string where "RSI2MeanReversionRunner_Name = ''rsi2_reversion''"
definition VolHarvestingRunner_Name :: string where "VolHarvestingRunner_Name = ''volatility_harvesting''"
definition VIXFuturesCarryRunner_Name :: string where "VIXFuturesCarryRunner_Name = ''vix_futures_carry''"
definition PairsRunner_Name :: string where "PairsRunner_Name = ''pairs_trading''"
definition MeanReversionRunner_Name :: string where "MeanReversionRunner_Name = ''mean_reversion''"
definition GridRunner_Name :: string where "GridRunner_Name = ''grid_trading''"

definition OrbRunner_Type :: string where "OrbRunner_Type = ''breakout''"
definition SessionScalpRunner_Type :: string where "SessionScalpRunner_Type = ''scalp''"
definition VolumeScalpRunner_Type :: string where "VolumeScalpRunner_Type = ''scalp''"
definition SessionMomentumRunner_Type :: string where "SessionMomentumRunner_Type = ''momentum''"
definition TrendRunner_Type :: string where "TrendRunner_Type = ''trend''"
definition MomentumRunner_Type :: string where "MomentumRunner_Type = ''momentum''"
definition CarryRunner_Type :: string where "CarryRunner_Type = ''carry''"
definition DonchianBreakoutRunner_Type :: string where "DonchianBreakoutRunner_Type = ''breakout''"
definition KeltnerMACDRunner_Type :: string where "KeltnerMACDRunner_Type = ''trend''"
definition MACrossoverRunner_Type :: string where "MACrossoverRunner_Type = ''trend''"
definition IchimokuRunner_Type :: string where "IchimokuRunner_Type = ''trend''"
definition DragonTrendRunner_Type :: string where "DragonTrendRunner_Type = ''trend''"
definition RSI2MeanReversionRunner_Type :: string where "RSI2MeanReversionRunner_Type = ''mean_reversion''"
definition VolHarvestingRunner_Type :: string where "VolHarvestingRunner_Type = ''volatility_harvesting''"
definition VIXFuturesCarryRunner_Type :: string where "VIXFuturesCarryRunner_Type = ''volatility''"
definition PairsRunner_Type :: string where "PairsRunner_Type = ''pairs''"
definition MeanReversionRunner_Type :: string where "MeanReversionRunner_Type = ''mr''"
definition GridRunner_Type :: string where "GridRunner_Type = ''grid''"

lemmas runner_names = OrbRunner_Name_def SessionScalpRunner_Name_def VolumeScalpRunner_Name_def SessionMomentumRunner_Name_def TrendRunner_Name_def MomentumRunner_Name_def CarryRunner_Name_def DonchianBreakoutRunner_Name_def KeltnerMACDRunner_Name_def MACrossoverRunner_Name_def IchimokuRunner_Name_def DragonTrendRunner_Name_def RSI2MeanReversionRunner_Name_def VolHarvestingRunner_Name_def VIXFuturesCarryRunner_Name_def PairsRunner_Name_def MeanReversionRunner_Name_def GridRunner_Name_def

datatype Strategy =
    StOrb OrbRunner
  | StSessionScalp SessionScalpRunner
  | StVolumeScalp VolumeScalpRunner
  | StSessionMomentum SessionMomentumRunner
  | StTrend TrendRunner
  | StMomentum MomentumRunner
  | StCarry CarryRunner
  | StDonchianBreakout DonchianBreakoutRunner
  | StKeltnerMACD KeltnerMACDRunner
  | StMACrossover MACrossoverRunner
  | StIchimoku IchimokuRunner
  | StDragonTrend DragonTrendRunner
  | StRSI2MeanReversion RSI2MeanReversionRunner
  | StVolHarvesting VolHarvestingRunner
  | StVIXFuturesCarry VIXFuturesCarryRunner
  | StPairs PairsRunner
  | StMeanReversion MeanReversionRunner
  | StGrid GridRunner

fun Strategy_Name :: "Strategy \<Rightarrow> string" where
  "Strategy_Name (StOrb r) = OrbRunner_Name"
| "Strategy_Name (StSessionScalp r) = SessionScalpRunner_Name"
| "Strategy_Name (StVolumeScalp r) = VolumeScalpRunner_Name"
| "Strategy_Name (StSessionMomentum r) = SessionMomentumRunner_Name"
| "Strategy_Name (StTrend r) = TrendRunner_Name"
| "Strategy_Name (StMomentum r) = MomentumRunner_Name"
| "Strategy_Name (StCarry r) = CarryRunner_Name"
| "Strategy_Name (StDonchianBreakout r) = DonchianBreakoutRunner_Name"
| "Strategy_Name (StKeltnerMACD r) = KeltnerMACDRunner_Name"
| "Strategy_Name (StMACrossover r) = MACrossoverRunner_Name"
| "Strategy_Name (StIchimoku r) = IchimokuRunner_Name"
| "Strategy_Name (StDragonTrend r) = DragonTrendRunner_Name"
| "Strategy_Name (StRSI2MeanReversion r) = RSI2MeanReversionRunner_Name"
| "Strategy_Name (StVolHarvesting r) = VolHarvestingRunner_Name"
| "Strategy_Name (StVIXFuturesCarry r) = VIXFuturesCarryRunner_Name"
| "Strategy_Name (StPairs r) = PairsRunner_Name"
| "Strategy_Name (StMeanReversion r) = MeanReversionRunner_Name"
| "Strategy_Name (StGrid r) = GridRunner_Name"

fun Strategy_Type :: "Strategy \<Rightarrow> string" where
  "Strategy_Type (StOrb r) = OrbRunner_Type"
| "Strategy_Type (StSessionScalp r) = SessionScalpRunner_Type"
| "Strategy_Type (StVolumeScalp r) = VolumeScalpRunner_Type"
| "Strategy_Type (StSessionMomentum r) = SessionMomentumRunner_Type"
| "Strategy_Type (StTrend r) = TrendRunner_Type"
| "Strategy_Type (StMomentum r) = MomentumRunner_Type"
| "Strategy_Type (StCarry r) = CarryRunner_Type"
| "Strategy_Type (StDonchianBreakout r) = DonchianBreakoutRunner_Type"
| "Strategy_Type (StKeltnerMACD r) = KeltnerMACDRunner_Type"
| "Strategy_Type (StMACrossover r) = MACrossoverRunner_Type"
| "Strategy_Type (StIchimoku r) = IchimokuRunner_Type"
| "Strategy_Type (StDragonTrend r) = DragonTrendRunner_Type"
| "Strategy_Type (StRSI2MeanReversion r) = RSI2MeanReversionRunner_Type"
| "Strategy_Type (StVolHarvesting r) = VolHarvestingRunner_Type"
| "Strategy_Type (StVIXFuturesCarry r) = VIXFuturesCarryRunner_Type"
| "Strategy_Type (StPairs r) = PairsRunner_Type"
| "Strategy_Type (StMeanReversion r) = MeanReversionRunner_Type"
| "Strategy_Type (StGrid r) = GridRunner_Type"

text \<open>Except for two, the strategies embed a \<open>BaseRunner\<close>, whose methods they inherit.\<close>

fun with_base :: "(BaseRunner \<Rightarrow> BaseRunner) \<Rightarrow> Strategy \<Rightarrow> Strategy" where
  "with_base f (StOrb r) = StOrb (r\<lparr>ob_base := f (ob_base r)\<rparr>)"
| "with_base f (StSessionScalp r) = StSessionScalp (r\<lparr>sc_base := f (sc_base r)\<rparr>)"
| "with_base f (StVolumeScalp r) = StVolumeScalp (r\<lparr>vs_base := f (vs_base r)\<rparr>)"
| "with_base f (StSessionMomentum r) = StSessionMomentum (r\<lparr>sm_base := f (sm_base r)\<rparr>)"
| "with_base f (StTrend r) = StTrend (r\<lparr>tn_base := f (tn_base r)\<rparr>)"
| "with_base f (StMomentum r) = StMomentum (r\<lparr>mo_base := f (mo_base r)\<rparr>)"
| "with_base f (StCarry r) = StCarry (r\<lparr>cy_base := f (cy_base r)\<rparr>)"
| "with_base f (StDonchianBreakout r) = StDonchianBreakout (r\<lparr>dc_base := f (dc_base r)\<rparr>)"
| "with_base f (StKeltnerMACD r) = StKeltnerMACD (r\<lparr>kl_base := f (kl_base r)\<rparr>)"
| "with_base f (StMACrossover r) = StMACrossover (r\<lparr>mc_base := f (mc_base r)\<rparr>)"
| "with_base f (StIchimoku r) = StIchimoku (r\<lparr>ic_base := f (ic_base r)\<rparr>)"
| "with_base f (StDragonTrend r) = StDragonTrend (r\<lparr>dg_base := f (dg_base r)\<rparr>)"
| "with_base f (StRSI2MeanReversion r) = StRSI2MeanReversion (r\<lparr>rs_base := f (rs_base r)\<rparr>)"
| "with_base f (StVolHarvesting r) = StVolHarvesting (r\<lparr>vh_base := f (vh_base r)\<rparr>)"
| "with_base f (StVIXFuturesCarry r) = StVIXFuturesCarry (r\<lparr>vx_base := f (vx_base r)\<rparr>)"
| "with_base f (StPairs r) = StPairs (r\<lparr>pa_base := f (pa_base r)\<rparr>)"
| "with_base f (StMeanReversion r) = StMeanReversion r"
| "with_base f (StGrid r) = StGrid r"

fun Strategy_Version :: "Strategy \<Rightarrow> string \<times> string" where
  "Strategy_Version (StOrb r) = BaseRunner_Version (ob_base r)"
| "Strategy_Version (StSessionScalp r) = BaseRunner_Version (sc_base r)"
| "Strategy_Version (StVolumeScalp r) = BaseRunner_Version (vs_base r)"
| "Strategy_Version (StSessionMomentum r) = BaseRunner_Version (sm_base r)"
| "Strategy_Version (StTrend r) = BaseRunner_Version (tn_base r)"
| "Strategy_Version (StMomentum r) = BaseRunner_Version (mo_base r)"
| "Strategy_Version (StCarry r) = BaseRunner_Version (cy_base r)"
| "Strategy_Version (StDonchianBreakout r) = BaseRunner_Version (dc_base r)"
| "Strategy_Version (StKeltnerMACD r) = BaseRunner_Version (kl_base r)"
| "Strategy_Version (StMACrossover r) = BaseRunner_Version (mc_base r)"
| "Strategy_Version (StIchimoku r) = BaseRunner_Version (ic_base r)"
| "Strategy_Version (StDragonTrend r) = BaseRunner_Version (dg_base r)"
| "Strategy_Version (StRSI2MeanReversion r) = BaseRunner_Version (rs_base r)"
| "Strategy_Version (StVolHarvesting r) = BaseRunner_Version (vh_base r)"
| "Strategy_Version (StVIXFuturesCarry r) = BaseRunner_Version (vx_base r)"
| "Strategy_Version (StPairs r) = BaseRunner_Version (pa_base r)"
| "Strategy_Version (StMeanReversion r) = MeanReversionRunner_Version r"
| "Strategy_Version (StGrid r) = GridRunner_Version r"

definition Strategy_SetVersion :: "Strategy \<Rightarrow> string \<Rightarrow> string \<Rightarrow> Strategy" where
  "Strategy_SetVersion s ir canonical = (case s of
     StMeanReversion r \<Rightarrow> StMeanReversion (MeanReversionRunner_SetVersion r ir canonical)
   | StGrid r \<Rightarrow> StGrid (GridRunner_SetVersion r ir canonical)
   | _ \<Rightarrow> with_base (\<lambda>b. BaseRunner_SetVersion b ir canonical) s)"

definition Strategy_SetInstanceHash :: "Strategy \<Rightarrow> string \<Rightarrow> Strategy" where
  "Strategy_SetInstanceHash s h = (case s of
     StMeanReversion r \<Rightarrow> StMeanReversion (MeanReversionRunner_SetInstanceHash r h)
   | StGrid r \<Rightarrow> StGrid (GridRunner_SetInstanceHash r h)
   | _ \<Rightarrow> with_base (\<lambda>b. BaseRunner_SetInstanceHash b h) s)"

fun Strategy_Evaluate :: "Lib \<Rightarrow> Strategy \<Rightarrow> Candle \<Rightarrow> int \<Rightarrow> (Signal option \<times> Strategy) option" where
  "Strategy_Evaluate lib (StOrb r) c regime = Some (map_prod id StOrb (OrbRunner_Evaluate r c regime))"
| "Strategy_Evaluate lib (StSessionScalp r) c regime = Some (map_prod id StSessionScalp (SessionScalpRunner_Evaluate r c regime))"
| "Strategy_Evaluate lib (StVolumeScalp r) c regime = Some (map_prod id StVolumeScalp (VolumeScalpRunner_Evaluate r c regime))"
| "Strategy_Evaluate lib (StSessionMomentum r) c regime = Some (map_prod id StSessionMomentum (SessionMomentumRunner_Evaluate r c regime))"
| "Strategy_Evaluate lib (StTrend r) c regime = Some (map_prod id StTrend (TrendRunner_Evaluate lib r c regime))"
| "Strategy_Evaluate lib (StMomentum r) c regime = Some (map_prod id StMomentum (MomentumRunner_Evaluate lib r c regime))"
| "Strategy_Evaluate lib (StCarry r) c regime = Some (map_prod id StCarry (CarryRunner_Evaluate lib r c regime))"
| "Strategy_Evaluate lib (StDonchianBreakout r) c regime = Some (map_prod id StDonchianBreakout (DonchianBreakoutRunner_Evaluate lib r c regime))"
| "Strategy_Evaluate lib (StKeltnerMACD r) c regime = Some (map_prod id StKeltnerMACD (KeltnerMACDRunner_Evaluate lib r c regime))"
| "Strategy_Evaluate lib (StMACrossover r) c regime = Some (map_prod id StMACrossover (MACrossoverRunner_Evaluate lib r c regime))"
| "Strategy_Evaluate lib (StIchimoku r) c regime = Some (map_prod id StIchimoku (IchimokuRunner_Evaluate lib r c regime))"
| "Strategy_Evaluate lib (StDragonTrend r) c regime = Some (map_prod id StDragonTrend (DragonTrendRunner_Evaluate r c regime))"
| "Strategy_Evaluate lib (StRSI2MeanReversion r) c regime = Some (map_prod id StRSI2MeanReversion (RSI2MeanReversionRunner_Evaluate lib r c regime))"
| "Strategy_Evaluate lib (StVolHarvesting r) c regime = Some (map_prod id StVolHarvesting (VolHarvestingRunner_Evaluate r c regime))"
| "Strategy_Evaluate lib (StVIXFuturesCarry r) c regime = Some (map_prod id StVIXFuturesCarry (VIXFuturesCarryRunner_Evaluate r c regime))"
| "Strategy_Evaluate lib (StPairs r) c regime = map_option (map_prod id StPairs) (PairsRunner_Evaluate lib r c regime)"
| "Strategy_Evaluate lib (StMeanReversion r) c regime = map_option (map_prod id StMeanReversion) (MeanReversionRunner_Evaluate r c regime)"
| "Strategy_Evaluate lib (StGrid r) c regime = Some (map_prod id StGrid (GridRunner_Evaluate r c regime))"

fun Strategy_Reset :: "Strategy \<Rightarrow> Strategy" where
  "Strategy_Reset (StOrb r) = StOrb (OrbRunner_Reset r)"
| "Strategy_Reset (StSessionScalp r) = StSessionScalp (SessionScalpRunner_Reset r)"
| "Strategy_Reset (StVolumeScalp r) = StVolumeScalp (r\<lparr>vs_base := BaseRunner_Reset (vs_base r)\<rparr>)"
| "Strategy_Reset (StSessionMomentum r) = StSessionMomentum (SessionMomentumRunner_Reset r)"
| "Strategy_Reset (StTrend r) = StTrend (TrendRunner_Reset r)"
| "Strategy_Reset (StMomentum r) = StMomentum (MomentumRunner_Reset r)"
| "Strategy_Reset (StCarry r) = StCarry (CarryRunner_Reset r)"
| "Strategy_Reset (StDonchianBreakout r) = StDonchianBreakout (DonchianBreakoutRunner_Reset r)"
| "Strategy_Reset (StKeltnerMACD r) = StKeltnerMACD (KeltnerMACDRunner_Reset r)"
| "Strategy_Reset (StMACrossover r) = StMACrossover (MACrossoverRunner_Reset r)"
| "Strategy_Reset (StIchimoku r) = StIchimoku (IchimokuRunner_Reset r)"
| "Strategy_Reset (StDragonTrend r) = StDragonTrend (DragonTrendRunner_Reset r)"
| "Strategy_Reset (StRSI2MeanReversion r) = StRSI2MeanReversion (RSI2MeanReversionRunner_Reset r)"
| "Strategy_Reset (StVolHarvesting r) = StVolHarvesting (VolHarvestingRunner_Reset r)"
| "Strategy_Reset (StVIXFuturesCarry r) = StVIXFuturesCarry (VIXFuturesCarryRunner_Reset r)"
| "Strategy_Reset (StPairs r) = StPairs (PairsRunner_Reset r)"
| "Strategy_Reset (StMeanReversion r) = StMeanReversion (MeanReversionRunner_Reset r)"
| "Strategy_Reset (StGrid r) = StGrid (GridRunner_Reset r)"

fun Strategy_Params :: "Strategy \<Rightarrow> params" where
  "Strategy_Params (StOrb r) = OrbRunner_Params r"
| "Strategy_Params (StSessionScalp r) = SessionScalpRunner_Params r"
| "Strategy_Params (StVolumeScalp r) = VolumeScalpRunner_Params r"
| "Strategy_Params (StSessionMomentum r) = SessionMomentumRunner_Params r"
| "Strategy_Params (StTrend r) = TrendRunner_Params r"
| "Strategy_Params (StMomentum r) = MomentumRunner_Params r"
| "Strategy_Params (StCarry r) = CarryRunner_Params r"
| "Strategy_Params (StDonchianBreakout r) = DonchianBreakoutRunner_Params r"
| "Strategy_Params (StKeltnerMACD r) = KeltnerMACDRunner_Params r"
| "Strategy_Params (StMACrossover r) = MACrossoverRunner_Params r"
| "Strategy_Params (StIchimoku r) = IchimokuRunner_Params r"
| "Strategy_Params (StDragonTrend r) = DragonTrendRunner_Params r"
| "Strategy_Params (StRSI2MeanReversion r) = RSI2MeanReversionRunner_Params r"
| "Strategy_Params (StVolHarvesting r) = VolHarvestingRunner_Params r"
| "Strategy_Params (StVIXFuturesCarry r) = VIXFuturesCarryRunner_Params r"
| "Strategy_Params (StPairs r) = PairsRunner_Params r"
| "Strategy_Params (StMeanReversion r) = MeanReversionRunner_Params r"
| "Strategy_Params (StGrid r) = GridRunner_Params r"

fun Strategy_SetParams :: "Strategy \<Rightarrow> params \<Rightarrow> Strategy" where
  "Strategy_SetParams (StOrb r) ps = StOrb (OrbRunner_SetParams r ps)"
| "Strategy_SetParams (StSessionScalp r) ps = StSessionScalp (SessionScalpRunner_SetParams r ps)"
| "Strategy_SetParams (StVolumeScalp r) ps = StVolumeScalp (VolumeScalpRunner_SetParams r ps)"
| "Strategy_SetParams (StSessionMomentum r) ps = StSessionMomentum (SessionMomentumRunner_SetParams r ps)"
| "Strategy_SetParams (StTrend r) ps = StTrend (TrendRunner_SetParams r ps)"
| "Strategy_SetParams (StMomentum r) ps = StMomentum (MomentumRunner_SetParams r ps)"
| "Strategy_SetParams (StCarry r) ps = StCarry (CarryRunner_SetParams r ps)"
| "Strategy_SetParams (StDonchianBreakout r) ps = StDonchianBreakout (DonchianBreakoutRunner_SetParams r ps)"
| "Strategy_SetParams (StKeltnerMACD r) ps = StKeltnerMACD (KeltnerMACDRunner_SetParams r ps)"
| "Strategy_SetParams (StMACrossover r) ps = StMACrossover (MACrossoverRunner_SetParams r ps)"
| "Strategy_SetParams (StIchimoku r) ps = StIchimoku (IchimokuRunner_SetParams r ps)"
| "Strategy_SetParams (StDragonTrend r) ps = StDragonTrend (DragonTrendRunner_SetParams r ps)"
| "Strategy_SetParams (StRSI2MeanReversion r) ps = StRSI2MeanReversion (RSI2MeanReversionRunner_SetParams r ps)"
| "Strategy_SetParams (StVolHarvesting r) ps = StVolHarvesting (VolHarvestingRunner_SetParams r ps)"
| "Strategy_SetParams (StVIXFuturesCarry r) ps = StVIXFuturesCarry (VIXFuturesCarryRunner_SetParams r ps)"
| "Strategy_SetParams (StPairs r) ps = StPairs (PairsRunner_SetParams r ps)"
| "Strategy_SetParams (StMeanReversion r) ps = StMeanReversion (MeanReversionRunner_SetParams r ps)"
| "Strategy_SetParams (StGrid r) ps = StGrid (GridRunner_SetParams r ps)"

fun Strategy_ParamDefs :: "Strategy \<Rightarrow> ParamDef list" where
  "Strategy_ParamDefs (StOrb r) = OrbRunner_ParamDefs"
| "Strategy_ParamDefs (StSessionScalp r) = SessionScalpRunner_ParamDefs"
| "Strategy_ParamDefs (StVolumeScalp r) = VolumeScalpRunner_ParamDefs"
| "Strategy_ParamDefs (StSessionMomentum r) = SessionMomentumRunner_ParamDefs"
| "Strategy_ParamDefs (StTrend r) = TrendRunner_ParamDefs"
| "Strategy_ParamDefs (StMomentum r) = MomentumRunner_ParamDefs"
| "Strategy_ParamDefs (StCarry r) = CarryRunner_ParamDefs"
| "Strategy_ParamDefs (StDonchianBreakout r) = DonchianBreakoutRunner_ParamDefs"
| "Strategy_ParamDefs (StKeltnerMACD r) = KeltnerMACDRunner_ParamDefs"
| "Strategy_ParamDefs (StMACrossover r) = MACrossoverRunner_ParamDefs"
| "Strategy_ParamDefs (StIchimoku r) = IchimokuRunner_ParamDefs"
| "Strategy_ParamDefs (StDragonTrend r) = DragonTrendRunner_ParamDefs"
| "Strategy_ParamDefs (StRSI2MeanReversion r) = RSI2MeanReversionRunner_ParamDefs"
| "Strategy_ParamDefs (StVolHarvesting r) = VolHarvestingRunner_ParamDefs"
| "Strategy_ParamDefs (StVIXFuturesCarry r) = VIXFuturesCarryRunner_ParamDefs"
| "Strategy_ParamDefs (StPairs r) = PairsRunner_ParamDefs"
| "Strategy_ParamDefs (StMeanReversion r) = MeanReversionRunner_ParamDefs r"
| "Strategy_ParamDefs (StGrid r) = GridRunner_ParamDefs"

text \<open>The optional interfaces: the regime exits of a \<open>BaseRunner\<close>, \<open>VIXReceiver\<close>, \<open>ATRReceiver\<close>
  and \<open>SecondaryPriceReceiver\<close> of \<open>dependencies.go\<close>.\<close>

definition Strategy_SetRegimeExitParams :: "Strategy \<Rightarrow> params \<Rightarrow> Strategy" where
  "Strategy_SetRegimeExitParams s ps = with_base (\<lambda>b. BaseRunner_SetRegimeExitParams b ps) s"

definition Strategy_SetVIX :: "Strategy \<Rightarrow> f64 \<Rightarrow> Strategy" where
  "Strategy_SetVIX s vix = (case s of
     StVolHarvesting r \<Rightarrow> StVolHarvesting (VolHarvestingRunner_SetVIX r vix)
   | StVIXFuturesCarry r \<Rightarrow> StVIXFuturesCarry (VIXFuturesCarryRunner_SetVIX r vix)
   | StGrid r \<Rightarrow> StGrid (GridRunner_SetVIX r vix)
   | _ \<Rightarrow> s)"

definition Strategy_SetATR :: "Strategy \<Rightarrow> f64 \<Rightarrow> Strategy" where
  "Strategy_SetATR s atr = (case s of StGrid r \<Rightarrow> StGrid (GridRunner_SetATR r atr) | _ \<Rightarrow> s)"

definition Strategy_PushSecondaryPrice :: "Strategy \<Rightarrow> price \<Rightarrow> Strategy" where
  "Strategy_PushSecondaryPrice s price =
     (case s of StPairs r \<Rightarrow> StPairs (PairsRunner_PushSecondaryPrice r price) | _ \<Rightarrow> s)"

section \<open>The registry\<close>

record Registry =
  rg_entries :: "(string, Strategy) gomap"
  rg_factories :: "(string, Strategy) gomap"

definition NewRegistry :: Registry where
  "NewRegistry = \<lparr>rg_entries = [], rg_factories = []\<rparr>"

definition Registry_Register :: "Registry \<Rightarrow> Strategy \<Rightarrow> Registry" where
  "Registry_Register r s = r\<lparr>rg_entries := mput (rg_entries r) (Strategy_Name s) s\<rparr>"

definition Registry_RegisterFactory :: "Registry \<Rightarrow> string \<Rightarrow> Strategy \<Rightarrow> Registry" where
  "Registry_RegisterFactory r name s = r\<lparr>rg_factories := mput (rg_factories r) name s\<rparr>"

definition Registry_Get :: "Registry \<Rightarrow> string \<Rightarrow> Strategy option" where
  "Registry_Get r name = mlookup (rg_entries r) name"

definition Registry_Create :: "Registry \<Rightarrow> string \<Rightarrow> Strategy option" where
  "Registry_Create r name = (case mlookup (rg_factories r) name of Some s \<Rightarrow> Some s | None \<Rightarrow> mlookup (rg_entries r) name)"

definition Registry_GetVersion :: "Registry \<Rightarrow> string \<Rightarrow> string \<times> string" where
  "Registry_GetVersion r name = (case mlookup (rg_entries r) name of Some s \<Rightarrow> Strategy_Version s | None \<Rightarrow> ([], []))"

definition Registry_All :: "Registry \<Rightarrow> Strategy list" where
  "Registry_All r = map snd (rg_entries r)"

fun evaluate_entries :: "Lib \<Rightarrow> Candle \<Rightarrow> int \<Rightarrow> (string, Strategy) gomap \<Rightarrow>
    (Signal list \<times> (string, Strategy) gomap) option" where
  "evaluate_entries lib c regime [] = Some ([], [])"
| "evaluate_entries lib c regime ((name, s) # es) =
     (case Strategy_Evaluate lib s c regime of None \<Rightarrow> None
      | Some (sig, s') \<Rightarrow> (case evaluate_entries lib c regime es of None \<Rightarrow> None
          | Some (sigs, es') \<Rightarrow> Some ((case sig of None \<Rightarrow> sigs | Some g \<Rightarrow> g\<lparr>sl_StrategyID := name\<rparr> # sigs), (name, s') # es')))"

definition Registry_EvaluateAll :: "Lib \<Rightarrow> Registry \<Rightarrow> Candle \<Rightarrow> int \<Rightarrow> (Signal list \<times> Registry) option" where
  "Registry_EvaluateAll lib r c regime =
     map_option (\<lambda>(sigs, es). (sigs, r\<lparr>rg_entries := es\<rparr>)) (evaluate_entries lib c regime (rg_entries r))"

definition Registry_SetActiveStrategyParams :: "Registry \<Rightarrow> string \<Rightarrow> params \<Rightarrow> Registry" where
  "Registry_SetActiveStrategyParams r name ps = (case mlookup (rg_entries r) name of None \<Rightarrow> r
     | Some s \<Rightarrow> r\<lparr>rg_entries := mput (rg_entries r) name (Strategy_SetParams s ps)\<rparr>)"

definition Registry_SetAllStrategyParams :: "Registry \<Rightarrow> params \<Rightarrow> Registry" where
  "Registry_SetAllStrategyParams r ps = r\<lparr>rg_entries := mmap_vals (\<lambda>s. Strategy_SetParams s ps) (rg_entries r)\<rparr>"

definition Registry_Factories :: "Registry \<Rightarrow> (string, Strategy) gomap" where
  "Registry_Factories r = rg_factories r"

text \<open>The literal of \<open>"vwap_mr"\<close> leaves the versions and the volatility limit empty.\<close>

definition vwap_runner :: MeanReversionRunner where
  "vwap_runner = \<lparr>mr_Lookback = 20, mr_EntryZ = lit (15/10), mr_ExitZ = lit (5/10), mr_MaxHold = 40,
     mr_TrendPeriod = 100, mr_VolMaxMult = 0, mr_Mode = ''vwap'', mr_closeHistory = replicate 220 0,
     mr_volumeHistory = replicate 220 0, mr_histIndex = 0, mr_histCount = 0, mr_emaMean = 0, mr_trendEMA = 0,
     mr_openPosition = None, mr_barsHeld = 0, mr_irVersion = [], mr_canonicalVersion = [], mr_instanceHash = []\<rparr>"

definition factory_table :: "(string, Strategy) gomap" where
  "factory_table =
     [(''opening_range_breakout'', StOrb NewOrbRunner),
      (''orb'', StOrb NewOrbRunner),
      (''breakout'', StOrb NewOrbRunner),
      (''orb_15m'', StOrb (NewOrbRunner\<lparr>ob_RangeMinutes := lit 15\<rparr>)),
      (''grid'', StGrid (NewGridRunner\<lparr>gr_Disabled := True\<rparr>)),
      (''grid_trading'', StGrid (NewGridRunner\<lparr>gr_Disabled := True\<rparr>)),
      (''vol_grid'', StGrid (NewGridRunner\<lparr>gr_AdjustByVolatility := True\<rparr>)),
      (''trend_following'', StTrend NewTrendRunner),
      (''trend'', StTrend NewTrendRunner),
      (''session_scalp'', StSessionScalp NewSessionScalpRunner),
      (''scalp'', StSessionScalp NewSessionScalpRunner),
      (''mean_reversion'', StMeanReversion (NewMeanReversionRunner 20 (lit (125/100)) (lit (5/10)) 200)),
      (''intraday_mr'', StMeanReversion (NewMeanReversionRunner 20 (lit (125/100)) (lit (5/10)) 200)),
      (''ma_crossover'', StMACrossover NewMACrossoverRunner),
      (''macd_rsi'', StMACrossover NewMACrossoverRunner),
      (''rsi2_reversion'', StRSI2MeanReversion NewRSI2MeanReversionRunner),
      (''rsi2'', StRSI2MeanReversion NewRSI2MeanReversionRunner),
      (''donchian_breakout'', StDonchianBreakout NewDonchianBreakoutRunner),
      (''donchian'', StDonchianBreakout NewDonchianBreakoutRunner),
      (''keltner_macd'', StKeltnerMACD NewKeltnerMACDRunner),
      (''keltner'', StKeltnerMACD NewKeltnerMACDRunner),
      (''ichimoku_cloud'', StIchimoku NewIchimokuRunner),
      (''ichimoku'', StIchimoku NewIchimokuRunner),
      (''pairs_trading'', StPairs (NewPairsRunner [] [])),
      (''stat_arb'', StPairs (NewPairsRunner [] [])),
      (''volatility_harvesting'', StVolHarvesting NewVolHarvestingRunner),
      (''vol_arb'', StVolHarvesting NewVolHarvestingRunner),
      (''dragon_trend'', StDragonTrend NewDragonTrendRunner),
      (''vwap_mr'', StMeanReversion vwap_runner),
      (''volume_scalp'', StVolumeScalp NewVolumeScalpRunner),
      (''vix_futures_carry'', StVIXFuturesCarry NewVIXFuturesCarryRunner),
      (''momentum_12_1'', StMomentum NewMomentumRunner),
      (''time_series_momentum'', StMomentum NewMomentumRunner),
      (''fx_carry'', StCarry NewCarryRunner),
      (''session_momentum'', StSessionMomentum NewSessionMomentumRunner)]"

definition GlobalRegistry :: Registry where
  "GlobalRegistry = \<lparr>rg_entries = factory_table, rg_factories = factory_table\<rparr>"

section \<open>Declared parameters\<close>

type_synonym ParamRegistry = "(string, ParamDef list) gomap"

definition NewParamRegistry :: ParamRegistry where
  "NewParamRegistry = []"

definition ParamRegistry_Register :: "ParamRegistry \<Rightarrow> string \<Rightarrow> ParamDef list \<Rightarrow> ParamRegistry" where
  "ParamRegistry_Register r name defs = mput r name defs"

definition ParamRegistry_Get :: "ParamRegistry \<Rightarrow> string \<Rightarrow> ParamDef list option" where
  "ParamRegistry_Get r name = mlookup r name"

definition ParamRegistry_All :: "ParamRegistry \<Rightarrow> (string, ParamDef list) gomap" where
  "ParamRegistry_All r = r"

text \<open>The texts of the violations are their constructors.\<close>

datatype violation = OutOfRange string f64 f64 f64 | EntryNotAboveExit | KellyOutside f64 | WeightOutside string f64

definition declared :: "Strategy option \<Rightarrow> (string, ParamDef) gomap" where
  "declared s = (case s of None \<Rightarrow> [] | Some s \<Rightarrow> foldl (\<lambda>m d. mput m (pd_Name d) d) [] (Strategy_ParamDefs s))"

definition range_violations :: "(string, ParamDef) gomap \<Rightarrow> params \<Rightarrow> violation list" where
  "range_violations defs ps = concat (map (\<lambda>(name, v). case mlookup defs name of None \<Rightarrow> []
     | Some d \<Rightarrow> if v < pd_Min d \<or> v > pd_Max d then [OutOfRange name v (pd_Min d) (pd_Max d)] else []) ps)"

definition regime_weight_names :: "string list" where
  "regime_weight_names = [''regime_w_calm'', ''regime_w_trending'', ''regime_w_highvol'', ''regime_w_crisis'']"

definition relation_violations :: "params \<Rightarrow> violation list" where
  "relation_violations ps =
        (case mlookup ps ''entry_z'' of None \<Rightarrow> []
           | Some ez \<Rightarrow> (case mlookup ps ''exit_z'' of None \<Rightarrow> [] | Some xz \<Rightarrow> if ez \<le> xz then [EntryNotAboveExit] else []))
        @ (case mlookup ps ''kelly_fraction'' of None \<Rightarrow> [] | Some k \<Rightarrow> if k \<le> 0 \<or> k > 1 then [KellyOutside k] else [])
        @ concat (map (\<lambda>name. case mlookup ps name of None \<Rightarrow> []
            | Some v \<Rightarrow> if v < 0 \<or> v > 1 then [WeightOutside name v] else []) regime_weight_names)"

definition ValidateParams :: "Registry \<Rightarrow> string \<Rightarrow> params \<Rightarrow> violation list" where
  "ValidateParams g strategyName ps =
     (if ps = [] then [] else range_violations (declared (Registry_Get g strategyName)) ps @ relation_violations ps)"

definition WarnParams :: "string \<Rightarrow> params \<Rightarrow> string list" where
  "WarnParams strategyName ps = (case mlookup ps ''take_profit_pct'' of None \<Rightarrow> []
     | Some tp \<Rightarrow> (case mlookup ps ''stop_loss_pct'' of None \<Rightarrow> []
        | Some sl \<Rightarrow> if tp < sl then [''take_profit_pct < stop_loss_pct: inverted reward:risk''] else []))"

section \<open>Shared candles\<close>

record SharedCandle =
  sh_refs :: int
  sh_Data :: Candle

definition NewSharedCandle :: "Candle \<Rightarrow> SharedCandle" where
  "NewSharedCandle c = \<lparr>sh_refs = 1, sh_Data = c\<rparr>"

definition SharedCandle_Acquire :: "SharedCandle \<Rightarrow> Candle \<times> SharedCandle" where
  "SharedCandle_Acquire s = (sh_Data s, s\<lparr>sh_refs := wrap32 (sh_refs s + 1)\<rparr>)"

definition SharedCandle_Release :: "SharedCandle \<Rightarrow> SharedCandle" where
  "SharedCandle_Release s = s\<lparr>sh_refs := wrap32 (sh_refs s - 1)\<rparr>"

section \<open>Entries and exits of every strategy\<close>

fun strategy_pos :: "Strategy \<Rightarrow> string option" where
  "strategy_pos (StOrb r) = br_pos (ob_base r)"
| "strategy_pos (StSessionScalp r) = br_pos (sc_base r)"
| "strategy_pos (StVolumeScalp r) = br_pos (vs_base r)"
| "strategy_pos (StSessionMomentum r) = br_pos (sm_base r)"
| "strategy_pos (StTrend r) = br_pos (tn_base r)"
| "strategy_pos (StMomentum r) = br_pos (mo_base r)"
| "strategy_pos (StCarry r) = br_pos (cy_base r)"
| "strategy_pos (StDonchianBreakout r) = br_pos (dc_base r)"
| "strategy_pos (StKeltnerMACD r) = br_pos (kl_base r)"
| "strategy_pos (StMACrossover r) = br_pos (mc_base r)"
| "strategy_pos (StIchimoku r) = br_pos (ic_base r)"
| "strategy_pos (StDragonTrend r) = br_pos (dg_base r)"
| "strategy_pos (StRSI2MeanReversion r) = br_pos (rs_base r)"
| "strategy_pos (StVolHarvesting r) = br_pos (vh_base r)"
| "strategy_pos (StVIXFuturesCarry r) = br_pos (vx_base r)"
| "strategy_pos (StPairs r) = br_pos (pa_base r)"
| "strategy_pos (StMeanReversion r) = mr_pos r"
| "strategy_pos (StGrid r) = None"

fun one_position :: "Strategy \<Rightarrow> bool" where
  "one_position (StGrid r) = False"
| "one_position _ = True"

lemma strategy_fits:
  assumes "Strategy_Evaluate lib s c g = Some (sig, s')" "one_position s"
  shows "step_fits (strategy_pos s) (sig, strategy_pos s') \<and> one_position s'"
proof (cases s)
  case (StOrb r) then show ?thesis using assms orb_fits[of r c g] by (auto simp: map_prod_def case_prod_beta)
next
  case (StSessionScalp r) then show ?thesis using assms scalp_fits[of r c g] by (auto simp: map_prod_def case_prod_beta)
next
  case (StVolumeScalp r) then show ?thesis using assms volume_fits[of r c g] by (auto simp: map_prod_def case_prod_beta)
next
  case (StSessionMomentum r) then show ?thesis using assms session_fits[of r c g] by (auto simp: map_prod_def case_prod_beta)
next
  case (StTrend r) then show ?thesis using assms trend_fits[of r lib c g] by (auto simp: map_prod_def case_prod_beta)
next
  case (StMomentum r) then show ?thesis using assms momentum_fits[of r lib c g] by (auto simp: map_prod_def case_prod_beta)
next
  case (StCarry r) then show ?thesis using assms carry_fits[of r lib c g] by (auto simp: map_prod_def case_prod_beta)
next
  case (StDonchianBreakout r) then show ?thesis using assms donchian_fits[of r lib c g] by (auto simp: map_prod_def case_prod_beta)
next
  case (StKeltnerMACD r) then show ?thesis using assms keltner_fits[of r lib c g] by (auto simp: map_prod_def case_prod_beta)
next
  case (StMACrossover r) then show ?thesis using assms crossover_fits[of r lib c g] by (auto simp: map_prod_def case_prod_beta)
next
  case (StIchimoku r) then show ?thesis using assms ichimoku_fits[of r lib c g] by (auto simp: map_prod_def case_prod_beta)
next
  case (StDragonTrend r) then show ?thesis using assms dragon_fits[of r c g] by (auto simp: map_prod_def case_prod_beta)
next
  case (StRSI2MeanReversion r) then show ?thesis using assms rsi2_fits[of r lib c g] by (auto simp: map_prod_def case_prod_beta)
next
  case (StVolHarvesting r) then show ?thesis using assms harvest_fits[of r c g] by (auto simp: map_prod_def case_prod_beta)
next
  case (StVIXFuturesCarry r) then show ?thesis using assms vix_fits[of r c g] by (auto simp: map_prod_def case_prod_beta)
next
  case (StPairs r) then show ?thesis using assms pairs_fits[of lib r c g] by (auto simp: map_prod_def split: prod.splits)
next
  case (StMeanReversion r) then show ?thesis using assms mr_fits[of r c g] by (auto simp: map_prod_def split: prod.splits)
next
  case (StGrid r) then show ?thesis using assms by simp
qed

interpretation strategies: partial_machine "Strategy_Evaluate lib" strategy_pos one_position for lib
  using strategy_fits by unfold_locales (auto simp: step_fits_def)

text \<open>The position after a list of signals, and the quantity a signal carries.\<close>

fun position_after :: "string option \<Rightarrow> Signal list \<Rightarrow> string option" where
  "position_after p [] = p"
| "position_after p (g # gs) = position_after (if sl_Action g = SignalEntry then Some (sl_Side g) else None) gs"

definition unit_quantity :: "Signal \<Rightarrow> bool" where
  "unit_quantity g \<longleftrightarrow> feq (sl_Quantity g) (if sl_Action g = SignalEntry then 1 else 0)"

lemma strategy_run_position:
  "strategies.run_bars lib s bars = Some (gs, s') \<Longrightarrow> one_position s \<Longrightarrow> side_ok (strategy_pos s) \<Longrightarrow>
    strategy_pos s' = position_after (strategy_pos s) gs \<and> list_all unit_quantity gs"
proof (induction bars arbitrary: s gs)
  case (Cons b bars)
  obtain c r where b: "b = (c, r)" by force
  obtain g s1 gs1 where e: "Strategy_Evaluate lib s c r = Some (g, s1)" "strategies.run_bars lib s1 bars = Some (gs1, s')"
    "gs = (case g of None \<Rightarrow> gs1 | Some g \<Rightarrow> g # gs1)"
    using Cons.prems(1) by (auto simp: b split: option.splits prod.splits)
  have st: "signal_fits (strategy_pos s) g (strategy_pos s1)" "side_ok (strategy_pos s1)" "one_position s1"
    using strategies.step[OF e(1) Cons.prems(2,3)] strategies.ok_step[OF e(1) Cons.prems(2)] by simp_all
  show ?case using Cons.IH[OF e(2) st(3,2)] st(1) e(3)
    by (cases g) (auto simp: signal_fits_def unit_quantity_def SignalEntry_def SignalExit_def split: if_splits)
qed simp

text \<open>C10: Every strategy but the grid takes turns. Whatever its parameters, the bars and the regimes,
  the signals of a run without a panic are, from a flat strategy, an entry (\<open>BUY\<close> or \<open>SELL\<close>), then an
  exit on the opposite side, then an entry, and so on; entries have quantity 1 and exits 0; and the
  position the strategy remembers at the end is the one its last signal leaves.\<close>

theorem strategy_signals_alternate:
  assumes "strategies.run_bars lib s bars = Some (gs, s')" and "one_position s" and "strategy_pos s = None"
  shows "alternates None gs \<and> list_all unit_quantity gs \<and> strategy_pos s' = position_after None gs"
  using strategies.run_bars_alternate[OF assms(1,2)] strategy_run_position[OF assms(1,2)] assms(3)
  by (simp add: side_ok_def)

lemma orb_run_returns: "\<exists>gs s'. strategies.run_bars lib (StOrb r) bars = Some (gs, s')"
proof (induction bars arbitrary: r)
  case (Cons b bars)
  obtain c g where b: "b = (c, g)" by force
  obtain sig r' where e: "OrbRunner_Evaluate r c g = (sig, r')" by force
  show ?case using Cons.IH[of r'] by (auto simp: b e)
qed simp

lemma strategy_signals_alternate_witness:
  "\<exists>gs s'. strategies.run_bars no_lib (StOrb NewOrbRunner) two_days = Some (gs, s') \<and> alternates None gs \<and>
     strategy_pos s' = position_after None gs"
proof -
  have "one_position (StOrb NewOrbRunner)" "strategy_pos (StOrb NewOrbRunner) = None"
    by (simp_all add: NewOrbRunner_def br_pos_def NewBaseRunner_def)
  then show ?thesis using orb_run_returns[of no_lib NewOrbRunner two_days] strategy_signals_alternate by blast
qed

section \<open>Declared and actual defaults\<close>

text \<open>The declared parameters whose default is not the value of a fresh runner.\<close>

definition default_mismatches :: "Strategy \<Rightarrow> string list" where
  "default_mismatches s = map pd_Name (filter (\<lambda>d. mlookup (Strategy_Params s) (pd_Name d) \<noteq> Some (pd_Default d)) (Strategy_ParamDefs s))"

lemma defaults_of_OrbRunner: "default_mismatches (StOrb NewOrbRunner) = []"
  by (simp add: default_mismatches_def OrbRunner_Params_def OrbRunner_ParamDefs_def NewOrbRunner_def param_def_def boolToFloat_def f64_eval)

lemma defaults_of_SessionScalpRunner: "default_mismatches (StSessionScalp NewSessionScalpRunner) = [''timezone_offset'']"
  by (simp add: default_mismatches_def SessionScalpRunner_Params_def SessionScalpRunner_ParamDefs_def NewSessionScalpRunner_def param_def_def boolToFloat_def f64_eval)

lemma defaults_of_VolumeScalpRunner: "default_mismatches (StVolumeScalp NewVolumeScalpRunner) = []"
  by (simp add: default_mismatches_def VolumeScalpRunner_Params_def VolumeScalpRunner_ParamDefs_def NewVolumeScalpRunner_def param_def_def boolToFloat_def f64_eval)

lemma defaults_of_SessionMomentumRunner: "default_mismatches (StSessionMomentum NewSessionMomentumRunner) = [''drift_threshold_pct'']"
  by (simp add: default_mismatches_def SessionMomentumRunner_Params_def SessionMomentumRunner_ParamDefs_def NewSessionMomentumRunner_def param_def_def boolToFloat_def f64_eval)

lemma defaults_of_TrendRunner: "default_mismatches (StTrend NewTrendRunner) = [''atr_multiplier'']"
  by (simp add: default_mismatches_def TrendRunner_Params_def TrendRunner_ParamDefs_def NewTrendRunner_def param_def_def boolToFloat_def f64_eval)

lemma defaults_of_MomentumRunner: "default_mismatches (StMomentum NewMomentumRunner) = []"
  by (simp add: default_mismatches_def MomentumRunner_Params_def MomentumRunner_ParamDefs_def NewMomentumRunner_def param_def_def boolToFloat_def f64_eval)

lemma defaults_of_CarryRunner: "default_mismatches (StCarry NewCarryRunner) = []"
  by (simp add: default_mismatches_def CarryRunner_Params_def CarryRunner_ParamDefs_def NewCarryRunner_def param_def_def boolToFloat_def f64_eval)

lemma defaults_of_DonchianBreakoutRunner: "default_mismatches (StDonchianBreakout NewDonchianBreakoutRunner) = [''min_range_pct'']"
  by (simp add: default_mismatches_def DonchianBreakoutRunner_Params_def DonchianBreakoutRunner_ParamDefs_def NewDonchianBreakoutRunner_def param_def_def boolToFloat_def f64_eval)

lemma defaults_of_KeltnerMACDRunner: "default_mismatches (StKeltnerMACD NewKeltnerMACDRunner) = []"
  by (simp add: default_mismatches_def KeltnerMACDRunner_Params_def KeltnerMACDRunner_ParamDefs_def NewKeltnerMACDRunner_def param_def_def boolToFloat_def f64_eval)

lemma defaults_of_MACrossoverRunner: "default_mismatches (StMACrossover NewMACrossoverRunner) = []"
  by (simp add: default_mismatches_def MACrossoverRunner_Params_def MACrossoverRunner_ParamDefs_def NewMACrossoverRunner_def param_def_def boolToFloat_def f64_eval)

lemma defaults_of_IchimokuRunner: "default_mismatches (StIchimoku NewIchimokuRunner) = []"
  by (simp add: default_mismatches_def IchimokuRunner_Params_def IchimokuRunner_ParamDefs_def NewIchimokuRunner_def param_def_def boolToFloat_def f64_eval)

lemma defaults_of_DragonTrendRunner: "default_mismatches (StDragonTrend NewDragonTrendRunner) = [''adx_threshold'', ''atr_multiplier'']"
  by (simp add: default_mismatches_def DragonTrendRunner_Params_def DragonTrendRunner_ParamDefs_def NewDragonTrendRunner_def param_def_def boolToFloat_def f64_eval)

lemma defaults_of_RSI2MeanReversionRunner: "default_mismatches (StRSI2MeanReversion NewRSI2MeanReversionRunner) = []"
  by (simp add: default_mismatches_def RSI2MeanReversionRunner_Params_def RSI2MeanReversionRunner_ParamDefs_def NewRSI2MeanReversionRunner_def param_def_def boolToFloat_def f64_eval)

lemma defaults_of_VolHarvestingRunner: "default_mismatches (StVolHarvesting NewVolHarvestingRunner) = []"
  by (simp add: default_mismatches_def VolHarvestingRunner_Params_def VolHarvestingRunner_ParamDefs_def NewVolHarvestingRunner_def param_def_def boolToFloat_def f64_eval)

lemma defaults_of_VIXFuturesCarryRunner: "default_mismatches (StVIXFuturesCarry NewVIXFuturesCarryRunner) = []"
  by (simp add: default_mismatches_def VIXFuturesCarryRunner_Params_def VIXFuturesCarryRunner_ParamDefs_def NewVIXFuturesCarryRunner_def param_def_def boolToFloat_def f64_eval)

lemma defaults_of_GridRunner: "default_mismatches (StGrid NewGridRunner) = [''adjust_by_volatility'']"
  by (simp add: default_mismatches_def GridRunner_Params_def GridRunner_ParamDefs_def NewGridRunner_def param_def_def boolToFloat_def f64_eval)

lemma defaults_of_PairsRunner: "default_mismatches (StPairs (NewPairsRunner p q)) = []"
  by (simp add: default_mismatches_def PairsRunner_Params_def PairsRunner_ParamDefs_def NewPairsRunner_def param_def_def f64_eval)

lemma defaults_of_MeanReversionRunner: "default_mismatches (StMeanReversion r) = []"
  by (simp add: default_mismatches_def MeanReversionRunner_Params_def MeanReversionRunner_ParamDefs_def param_def_def)

text \<open>The declared defaults are not always the defaults. For six strategies \<open>ParamDefs\<close> names a
  parameter whose default is not the value a fresh runner has (\<open>adjust_by_volatility\<close> of the
  grid is declared and no parameter at all); for the other twelve all declared defaults agree.
\<close>

theorem declared_defaults_differ:
  "default_mismatches (StOrb NewOrbRunner) = [] \<and>
   default_mismatches (StSessionScalp NewSessionScalpRunner) = [''timezone_offset''] \<and>
   default_mismatches (StVolumeScalp NewVolumeScalpRunner) = [] \<and>
   default_mismatches (StSessionMomentum NewSessionMomentumRunner) = [''drift_threshold_pct''] \<and>
   default_mismatches (StTrend NewTrendRunner) = [''atr_multiplier''] \<and>
   default_mismatches (StMomentum NewMomentumRunner) = [] \<and>
   default_mismatches (StCarry NewCarryRunner) = [] \<and>
   default_mismatches (StDonchianBreakout NewDonchianBreakoutRunner) = [''min_range_pct''] \<and>
   default_mismatches (StKeltnerMACD NewKeltnerMACDRunner) = [] \<and>
   default_mismatches (StMACrossover NewMACrossoverRunner) = [] \<and>
   default_mismatches (StIchimoku NewIchimokuRunner) = [] \<and>
   default_mismatches (StDragonTrend NewDragonTrendRunner) = [''adx_threshold'', ''atr_multiplier''] \<and>
   default_mismatches (StRSI2MeanReversion NewRSI2MeanReversionRunner) = [] \<and>
   default_mismatches (StVolHarvesting NewVolHarvestingRunner) = [] \<and>
   default_mismatches (StVIXFuturesCarry NewVIXFuturesCarryRunner) = [] \<and>
   default_mismatches (StGrid NewGridRunner) = [''adjust_by_volatility''] \<and>
   default_mismatches (StPairs (NewPairsRunner p q)) = [] \<and>
   default_mismatches (StMeanReversion r) = []"
  by (simp add: defaults_of_OrbRunner defaults_of_SessionScalpRunner defaults_of_VolumeScalpRunner defaults_of_SessionMomentumRunner defaults_of_TrendRunner defaults_of_MomentumRunner defaults_of_CarryRunner defaults_of_DonchianBreakoutRunner defaults_of_KeltnerMACDRunner defaults_of_MACrossoverRunner defaults_of_IchimokuRunner defaults_of_DragonTrendRunner defaults_of_RSI2MeanReversionRunner defaults_of_VolHarvestingRunner defaults_of_VIXFuturesCarryRunner defaults_of_GridRunner defaults_of_PairsRunner defaults_of_MeanReversionRunner)

text \<open>No violation in the parameters a strategy has, against those it declares.\<close>

definition self_valid :: "Strategy \<Rightarrow> bool" where
  "self_valid s \<longleftrightarrow> range_violations (declared (Some s)) (Strategy_Params s) @ relation_violations (Strategy_Params s) = []"

lemmas self_valid_defs = self_valid_def range_violations_def relation_violations_def regime_weight_names_def declared_def
  mput_def param_def_def boolToFloat_def

lemma self_valid_OrbRunner: "self_valid (StOrb NewOrbRunner)"
  by (simp add: self_valid_defs OrbRunner_Params_def OrbRunner_ParamDefs_def NewOrbRunner_def f64_eval)

lemma self_valid_SessionScalpRunner: "self_valid (StSessionScalp NewSessionScalpRunner)"
  by (simp add: self_valid_defs SessionScalpRunner_Params_def SessionScalpRunner_ParamDefs_def NewSessionScalpRunner_def f64_eval)

lemma self_valid_VolumeScalpRunner: "self_valid (StVolumeScalp NewVolumeScalpRunner)"
  by (simp add: self_valid_defs VolumeScalpRunner_Params_def VolumeScalpRunner_ParamDefs_def NewVolumeScalpRunner_def f64_eval)

lemma self_valid_SessionMomentumRunner: "self_valid (StSessionMomentum NewSessionMomentumRunner)"
  by (simp add: self_valid_defs SessionMomentumRunner_Params_def SessionMomentumRunner_ParamDefs_def NewSessionMomentumRunner_def f64_eval)

lemma self_valid_TrendRunner: "self_valid (StTrend NewTrendRunner)"
  by (simp add: self_valid_defs TrendRunner_Params_def TrendRunner_ParamDefs_def NewTrendRunner_def f64_eval)

lemma self_valid_MomentumRunner: "self_valid (StMomentum NewMomentumRunner)"
  by (simp add: self_valid_defs MomentumRunner_Params_def MomentumRunner_ParamDefs_def NewMomentumRunner_def f64_eval)

lemma self_valid_CarryRunner: "self_valid (StCarry NewCarryRunner)"
  by (simp add: self_valid_defs CarryRunner_Params_def CarryRunner_ParamDefs_def NewCarryRunner_def f64_eval)

lemma self_valid_DonchianBreakoutRunner: "self_valid (StDonchianBreakout NewDonchianBreakoutRunner)"
  by (simp add: self_valid_defs DonchianBreakoutRunner_Params_def DonchianBreakoutRunner_ParamDefs_def NewDonchianBreakoutRunner_def f64_eval)

lemma self_valid_KeltnerMACDRunner: "self_valid (StKeltnerMACD NewKeltnerMACDRunner)"
  by (simp add: self_valid_defs KeltnerMACDRunner_Params_def KeltnerMACDRunner_ParamDefs_def NewKeltnerMACDRunner_def f64_eval)

lemma self_valid_MACrossoverRunner: "self_valid (StMACrossover NewMACrossoverRunner)"
  by (simp add: self_valid_defs MACrossoverRunner_Params_def MACrossoverRunner_ParamDefs_def NewMACrossoverRunner_def f64_eval)

lemma self_valid_IchimokuRunner: "self_valid (StIchimoku NewIchimokuRunner)"
  by (simp add: self_valid_defs IchimokuRunner_Params_def IchimokuRunner_ParamDefs_def NewIchimokuRunner_def f64_eval)

lemma self_valid_DragonTrendRunner: "self_valid (StDragonTrend NewDragonTrendRunner)"
  by (simp add: self_valid_defs DragonTrendRunner_Params_def DragonTrendRunner_ParamDefs_def NewDragonTrendRunner_def f64_eval)

lemma self_valid_RSI2MeanReversionRunner: "self_valid (StRSI2MeanReversion NewRSI2MeanReversionRunner)"
  by (simp add: self_valid_defs RSI2MeanReversionRunner_Params_def RSI2MeanReversionRunner_ParamDefs_def NewRSI2MeanReversionRunner_def f64_eval)

lemma self_valid_VolHarvestingRunner: "self_valid (StVolHarvesting NewVolHarvestingRunner)"
  by (simp add: self_valid_defs VolHarvestingRunner_Params_def VolHarvestingRunner_ParamDefs_def NewVolHarvestingRunner_def f64_eval)

lemma self_valid_VIXFuturesCarryRunner: "self_valid (StVIXFuturesCarry NewVIXFuturesCarryRunner)"
  by (simp add: self_valid_defs VIXFuturesCarryRunner_Params_def VIXFuturesCarryRunner_ParamDefs_def NewVIXFuturesCarryRunner_def f64_eval)

lemma self_valid_orb_15m: "self_valid (StOrb (NewOrbRunner\<lparr>ob_RangeMinutes := lit 15\<rparr>))"
  by (simp add: self_valid_defs OrbRunner_Params_def OrbRunner_ParamDefs_def NewOrbRunner_def f64_eval)

lemma self_valid_grid: "self_valid (StGrid (NewGridRunner\<lparr>gr_Disabled := True\<rparr>))"
  by (simp add: self_valid_defs GridRunner_Params_def GridRunner_ParamDefs_def NewGridRunner_def f64_eval)

lemma self_valid_vol_grid: "self_valid (StGrid (NewGridRunner\<lparr>gr_AdjustByVolatility := True\<rparr>))"
  by (simp add: self_valid_defs GridRunner_Params_def GridRunner_ParamDefs_def NewGridRunner_def f64_eval)

lemma self_valid_mr: "self_valid (StMeanReversion (NewMeanReversionRunner 20 (lit (5/4)) (lit (1/2)) 200))"
  by (simp add: self_valid_defs MeanReversionRunner_Params_def MeanReversionRunner_ParamDefs_def NewMeanReversionRunner_def f64_eval)

lemma self_valid_vwap: "self_valid (StMeanReversion vwap_runner)"
  by (simp add: self_valid_defs MeanReversionRunner_Params_def MeanReversionRunner_ParamDefs_def vwap_runner_def f64_eval)

lemma self_valid_pairs: "self_valid (StPairs (NewPairsRunner p q))"
  by (simp add: self_valid_defs PairsRunner_Params_def PairsRunner_ParamDefs_def NewPairsRunner_def f64_eval)

lemma factory_names_distinct: "mkeys_ok factory_table"
  by (simp add: mkeys_ok_def factory_table_def)

lemma fresh_all_valid: "list_all (\<lambda>x. self_valid (snd x)) factory_table"
  by (simp add: factory_table_def self_valid_OrbRunner self_valid_SessionScalpRunner self_valid_VolumeScalpRunner self_valid_SessionMomentumRunner self_valid_TrendRunner self_valid_MomentumRunner self_valid_CarryRunner self_valid_DonchianBreakoutRunner self_valid_KeltnerMACDRunner self_valid_MACrossoverRunner self_valid_IchimokuRunner self_valid_DragonTrendRunner self_valid_RSI2MeanReversionRunner self_valid_VolHarvestingRunner self_valid_VIXFuturesCarryRunner self_valid_orb_15m self_valid_grid self_valid_vol_grid self_valid_mr self_valid_vwap self_valid_pairs)

text \<open>
  The strategies of the global registry pass their own validation. Under each of its names,
  \<open>ValidateParams\<close> finds nothing wrong with the parameters of a fresh instance: all are inside
  their declared ranges, the entry threshold is above the exit threshold, and no fraction or
  regime weight is out of range.
\<close>

theorem fresh_strategies_validate:
  "list_all (\<lambda>(name, s). Registry_Create GlobalRegistry name = Some s \<and>
     ValidateParams GlobalRegistry name (Strategy_Params s) = []) factory_table"
proof -
  have "mlookup factory_table name = Some s \<and> self_valid s" if "(name, s) \<in> set factory_table" for name s
    using that factory_names_distinct fresh_all_valid by (auto simp: mlookup_of_mem list_all_iff)
  then show ?thesis
    by (auto simp: list_all_iff ValidateParams_def Registry_Get_def Registry_Create_def GlobalRegistry_def self_valid_def)
qed

end
