(* ===== verification/SignalSymbols.thy ===== *)
theory SignalSymbols
  imports Registry
begin

text \<open>
  Every signal of every strategy names the symbol of the bar it was made from. The live engine
  rests on it: its bars carry no symbol (\<open>BarToCandle\<close>).
\<close>

definition about :: "Candle \<Rightarrow> Signal option \<Rightarrow> bool" where
  "about c sig = pred_option (\<lambda>g. sl_Symbol g = ca_Symbol c) sig"

lemma about_simps [simp]:
  "about c None" "about c (Some (enter_signal c side))" "about c (Some (exit_signal c side))"
  "about c (Some (entry_with c side p q))"
  by (simp_all add: about_def)

lemma orb_about: "about c (fst (OrbRunner_Evaluate r c g))"
  by (simp add: OrbRunner_Evaluate_def OrbRunner_trade_def OrbRunner_enter_def Let_def case_prod_beta)

lemma scalp_about: "about c (fst (SessionScalpRunner_Evaluate r c g))"
  by (simp add: SessionScalpRunner_Evaluate_def SessionScalpRunner_manage_def SessionScalpRunner_enter_def Let_def case_prod_beta)

lemma volume_about: "about c (fst (VolumeScalpRunner_Evaluate r c g))"
  by (simp add: VolumeScalpRunner_Evaluate_def VolumeScalpRunner_trade_def VolumeScalpRunner_enter_def Let_def case_prod_beta)

lemma session_manage_about: "about c (fst (SessionMomentumRunner_manage r c g))"
  by (simp add: SessionMomentumRunner_manage_def Let_def case_prod_beta)

lemma session_enter_about: "about c (fst (SessionMomentumRunner_enter r c g))"
  by (simp add: SessionMomentumRunner_enter_def Let_def case_prod_beta)

lemma session_about: "about c (fst (SessionMomentumRunner_Evaluate r c g))"
  by (simp add: SessionMomentumRunner_Evaluate_def Let_def session_manage_about session_enter_about)

lemma trend_about: "about c (fst (TrendRunner_Evaluate lib r c g))"
  by (simp add: TrendRunner_Evaluate_def TrendRunner_manage_def TrendRunner_enter_def TrendRunner_open_def TrendRunner_close_def Let_def case_prod_beta)

lemma momentum_about: "about c (fst (MomentumRunner_Evaluate lib r c g))"
  by (simp add: MomentumRunner_Evaluate_def Let_def case_prod_beta)

lemma carry_about: "about c (fst (CarryRunner_Evaluate lib r c g))"
  by (simp add: CarryRunner_Evaluate_def CarryRunner_manage_def Let_def case_prod_beta split: option.split)

lemma donchian_about: "about c (fst (DonchianBreakoutRunner_Evaluate lib r c g))"
  by (simp add: DonchianBreakoutRunner_Evaluate_def DonchianBreakoutRunner_manage_def Let_def case_prod_beta)

lemma keltner_about: "about c (fst (KeltnerMACDRunner_Evaluate lib r c g))"
  by (simp add: KeltnerMACDRunner_Evaluate_def KeltnerMACDRunner_manage_def Let_def case_prod_beta)

lemma crossover_manage_about: "about c (fst (MACrossoverRunner_manage lib r c x y))"
  by (simp add: MACrossoverRunner_manage_def Let_def case_prod_beta)

lemma crossover_enter_about: "about c (fst (MACrossoverRunner_enter lib r c x y))"
  by (simp add: MACrossoverRunner_enter_def Let_def case_prod_beta)

lemma crossover_about: "about c (fst (MACrossoverRunner_Evaluate lib r c g))"
  by (simp add: MACrossoverRunner_Evaluate_def Let_def crossover_manage_about crossover_enter_about)

lemma ichimoku_manage_about: "about c (fst (IchimokuRunner_manage r c x y z))"
  by (simp add: IchimokuRunner_manage_def Let_def case_prod_beta)

lemma ichimoku_enter_about: "about c (fst (IchimokuRunner_enter lib r c x y z u v))"
  by (simp add: IchimokuRunner_enter_def Let_def case_prod_beta)

lemma ichimoku_about: "about c (fst (IchimokuRunner_Evaluate lib r c g))"
  by (simp add: IchimokuRunner_Evaluate_def Let_def case_prod_beta ichimoku_manage_about ichimoku_enter_about)

lemma dragon_about: "about c (fst (DragonTrendRunner_Evaluate r c g))"
  by (simp add: DragonTrendRunner_Evaluate_def DragonTrendRunner_manage_def DragonTrendRunner_enter_def Let_def case_prod_beta)

lemma rsi2_about: "about c (fst (RSI2MeanReversionRunner_Evaluate lib r c g))"
  by (simp add: RSI2MeanReversionRunner_Evaluate_def RSI2MeanReversionRunner_manage_def RSI2MeanReversionRunner_enter_def Let_def case_prod_beta)

lemma harvest_about: "about c (fst (VolHarvestingRunner_Evaluate r c g))"
  by (simp add: VolHarvestingRunner_Evaluate_def VolHarvestingRunner_manage_def VolHarvestingRunner_enter_def Let_def case_prod_beta)

lemma vix_about: "about c (fst (VIXFuturesCarryRunner_Evaluate r c g))"
  by (simp add: VIXFuturesCarryRunner_Evaluate_def VIXFuturesCarryRunner_manage_def VIXFuturesCarryRunner_enter_def Let_def case_prod_beta)

lemma pairs_about: "PairsRunner_Evaluate lib r c g = Some (sig, r') \<Longrightarrow> about c sig"
  by (auto simp: PairsRunner_Evaluate_def PairsRunner_trade_def PairsRunner_close_def PairsRunner_manage_def PairsRunner_enter_def Let_def case_prod_beta split: if_splits)

lemma mr_about: "MeanReversionRunner_Evaluate r c g = Some (sig, r') \<Longrightarrow> about c sig"
  by (auto simp: MeanReversionRunner_Evaluate_def MeanReversionRunner_decide_def mr_open_def Let_def case_prod_beta split: if_splits option.splits bind_splits)

lemma grid_about: "about c (fst (GridRunner_Evaluate r c g))"
  by (simp add: GridRunner_Evaluate_def GridRunner_enter_def grid_open_def Let_def case_prod_beta split: option.split)

lemma strategy_about:
  assumes "Strategy_Evaluate lib s c g = Some (sig, s')"
  shows "about c sig"
  using assms orb_about scalp_about volume_about session_about trend_about momentum_about carry_about donchian_about
    keltner_about crossover_about ichimoku_about dragon_about rsi2_about harvest_about vix_about grid_about
  by (cases s) (auto simp: map_prod_def case_prod_beta dest: pairs_about mr_about split: prod.splits)

lemma evaluate_entries_about:
  "evaluate_entries lib c g es = Some (sigs, es') \<Longrightarrow> sig \<in> set sigs \<Longrightarrow> sl_Symbol sig = ca_Symbol c"
proof (induction lib c g es arbitrary: sigs es' rule: evaluate_entries.induct)
  case (2 lib c regime name s es)
  obtain o1 s1 rest es1 where e: "Strategy_Evaluate lib s c regime = Some (o1, s1)"
    "evaluate_entries lib c regime es = Some (rest, es1)"
    "sigs = (case o1 of None \<Rightarrow> rest | Some g \<Rightarrow> g\<lparr>sl_StrategyID := name\<rparr> # rest)"
    using "2.prems"(1) by (auto split: option.splits prod.splits)
  have "about c o1" using strategy_about[OF e(1)] .
  then show ?case using "2.IH"[OF e(1) refl e(2)] e(3) "2.prems"(2)
    by (auto simp: about_def split: option.splits)
qed simp

lemma EvaluateAll_about:
  "Registry_EvaluateAll lib r c g = Some (sigs, r') \<Longrightarrow> sig \<in> set sigs \<Longrightarrow> sl_Symbol sig = ca_Symbol c"
  by (auto simp: Registry_EvaluateAll_def dest: evaluate_entries_about)

end
