(* ===== verification/Bars.thy ===== *)
theory Bars
  imports MarketTypes "HOL-Library.Word"
begin

text \<open>
  The bar aggregator of the live engine, \<open>internal/strategy/bar_aggregator.go\<close>: ticks become
  bars of four lengths, each kept in a fixed array that drops its oldest bar when it is
  full. The reference is the grouping of the whole tick history into runs of one period.
\<close>

definition MaxBars1M :: nat where "MaxBars1M = 256"
definition MaxBars5M :: nat where "MaxBars5M = 256"
definition MaxBars15M :: nat where "MaxBars15M = 128"
definition MaxBars1H :: nat where "MaxBars1H = 64"

record Bar =
  br_Timestamp :: int
  br_Open :: int
  br_High :: int
  br_Low :: int
  br_Close :: int
  br_Volume :: "64 word"
  br_VWAP :: int
  br_Count :: int

definition zero_bar :: Bar where
  "zero_bar = \<lparr>br_Timestamp = 0, br_Open = 0, br_High = 0, br_Low = 0, br_Close = 0, br_Volume = 0,
     br_VWAP = 0, br_Count = 0\<rparr>"

text \<open>One of the four series: the array, the number of bars in it, the bar that is being built.\<close>

record Series =
  sr_Bars :: "Bar list"
  sr_Count :: nat
  sr_Current :: Bar

record BarAggregator =
  ag_SymbolID :: "32 word"
  ag_1M :: Series
  ag_5M :: Series
  ag_15M :: Series
  ag_1H :: Series

definition PriceScaleBar :: int where "PriceScaleBar = 100000"

definition empty_series :: "nat \<Rightarrow> Series" where
  "empty_series n = \<lparr>sr_Bars = replicate n zero_bar, sr_Count = 0, sr_Current = zero_bar\<rparr>"

definition NewBarAggregator :: "32 word \<Rightarrow> BarAggregator" where
  "NewBarAggregator symbolID = \<lparr>ag_SymbolID = symbolID, ag_1M = empty_series MaxBars1M,
     ag_5M = empty_series MaxBars5M, ag_15M = empty_series MaxBars15M, ag_1H = empty_series MaxBars1H\<rparr>"

definition new_bar :: "int \<Rightarrow> int \<Rightarrow> 64 word \<Rightarrow> Bar" where
  "new_bar periodTs price volume = \<lparr>br_Timestamp = periodTs, br_Open = price, br_High = price,
     br_Low = price, br_Close = price, br_Volume = volume, br_VWAP = 0, br_Count = 1\<rparr>"

definition extend_bar :: "Bar \<Rightarrow> int \<Rightarrow> 64 word \<Rightarrow> Bar" where
  "extend_bar b price volume =
     (let b = (if price > br_High b then b\<lparr>br_High := price\<rparr> else b);
          b = (if price < br_Low b then b\<lparr>br_Low := price\<rparr> else b)
      in b\<lparr>br_Close := price, br_Volume := br_Volume b + volume, br_Count := br_Count b + 1\<rparr>)"

text \<open>The loop that shifts the array down by one is \<open>tl\<close> with the new bar at the end.\<close>

definition store_bar :: "nat \<Rightarrow> Series \<Rightarrow> Series" where
  "store_bar maxBars s =
     (let bars = (if sr_Count s < maxBars then (sr_Bars s)[sr_Count s := sr_Current s]
                  else tl (sr_Bars s) @ [sr_Current s]);
          count = sr_Count s + 1
      in s\<lparr>sr_Bars := bars, sr_Count := (if count > maxBars then maxBars else count)\<rparr>)"

definition rollBar :: "nat \<Rightarrow> Series \<Rightarrow> int \<Rightarrow> int \<Rightarrow> 64 word \<Rightarrow> Series" where
  "rollBar maxBars s periodTs price volume =
     (if br_Timestamp (sr_Current s) \<noteq> periodTs
      then (if br_Timestamp (sr_Current s) \<noteq> 0 then store_bar maxBars s else s)
           \<lparr>sr_Current := new_bar periodTs price volume\<rparr>
      else s\<lparr>sr_Current := extend_bar (sr_Current s) price volume\<rparr>)"

definition BarAggregator_AddTick :: "BarAggregator \<Rightarrow> 64 word \<Rightarrow> 64 word \<Rightarrow> int \<Rightarrow> BarAggregator" where
  "BarAggregator_AddTick agg priceRaw volume ts =
     (let price = sint priceRaw in
      agg\<lparr>ag_1M := rollBar MaxBars1M (ag_1M agg) (go_div ts 60000000000) price volume,
          ag_5M := rollBar MaxBars5M (ag_5M agg) (go_div ts 300000000000) price volume,
          ag_15M := rollBar MaxBars15M (ag_15M agg) (go_div ts 900000000000) price volume,
          ag_1H := rollBar MaxBars1H (ag_1H agg) (go_div ts 3600000000000) price volume\<rparr>)"

definition series_of :: "BarAggregator \<Rightarrow> string \<Rightarrow> Series option" where
  "series_of agg timeframe =
     (if timeframe = ''1m'' then Some (ag_1M agg) else if timeframe = ''5m'' then Some (ag_5M agg)
      else if timeframe = ''15m'' then Some (ag_15M agg) else if timeframe = ''1h'' then Some (ag_1H agg)
      else None)"

definition minInt :: "int \<Rightarrow> int \<Rightarrow> int" where
  "minInt a b = (if a < b then a else b)"

text \<open>\<open>None\<close> is the panic of a slice with a negative bound.\<close>

definition BarAggregator_GetBars :: "BarAggregator \<Rightarrow> string \<Rightarrow> int \<Rightarrow> Bar list option" where
  "BarAggregator_GetBars agg timeframe count = (case series_of agg timeframe of None \<Rightarrow> Some []
     | Some s \<Rightarrow> let n = minInt (int (sr_Count s)) count in
         if n < 0 then None else Some (take (nat n) (sr_Bars s)))"

definition BarAggregator_GetLatestBar :: "BarAggregator \<Rightarrow> string \<Rightarrow> Bar" where
  "BarAggregator_GetLatestBar agg timeframe = (case series_of agg timeframe of None \<Rightarrow> zero_bar
     | Some s \<Rightarrow> if sr_Count s > 0 then sr_Bars s ! (sr_Count s - 1) else zero_bar)"

definition BarToCandle :: "Bar \<Rightarrow> Candle" where
  "BarToCandle b =
     (let scale = float_of_int PriceScaleBar
      in \<lparr>ca_Time = br_Timestamp b,
          ca_Open = PriceFromFloat (float_of_int (br_Open b) / scale),
          ca_High = PriceFromFloat (float_of_int (br_High b) / scale),
          ca_Low = PriceFromFloat (float_of_int (br_Low b) / scale),
          ca_Close = PriceFromFloat (float_of_int (br_Close b) / scale),
          ca_Volume = float_of_int (uint (br_Volume b)), ca_Symbol = '''', ca_AdjustmentFactor = 0,
          ca_Source = '''', ca_GenerationID = ''''\<rparr>)"

definition BarsToCandles :: "Bar list \<Rightarrow> Candle list" where
  "BarsToCandles bars = map BarToCandle bars"

section \<open>The reference: runs of one period\<close>

type_synonym tick = "int \<times> int \<times> 64 word"

text \<open>A run of ticks of one period, and its bar: first, highest, lowest, last, sum, number.\<close>

definition bar_of :: "tick list \<Rightarrow> Bar" where
  "bar_of ts = \<lparr>br_Timestamp = fst (hd ts), br_Open = fst (snd (hd ts)),
     br_High = Max (set (map (\<lambda>t. fst (snd t)) ts)), br_Low = Min (set (map (\<lambda>t. fst (snd t)) ts)),
     br_Close = fst (snd (last ts)), br_Volume = sum_list (map (\<lambda>t. snd (snd t)) ts), br_VWAP = 0,
     br_Count = int (length ts)\<rparr>"

text \<open>The runs of a history, newest tick added last.\<close>

fun add_run :: "tick list list \<Rightarrow> tick \<Rightarrow> tick list list" where
  "add_run [] t = [[t]]"
| "add_run runs t = (if fst (hd (last runs)) = fst t then butlast runs @ [last runs @ [t]] else runs @ [[t]])"

definition runs_of :: "tick list \<Rightarrow> tick list list" where
  "runs_of ts = foldl add_run [] ts"

definition roll_all :: "nat \<Rightarrow> tick list \<Rightarrow> Series" where
  "roll_all maxBars ts = foldl (\<lambda>s (p, price, v). rollBar maxBars s p price v) (empty_series maxBars) ts"

definition keep_last :: "nat \<Rightarrow> 'a list \<Rightarrow> 'a list" where
  "keep_last n xs = drop (length xs - n) xs"

definition series_ok :: "nat \<Rightarrow> tick list list \<Rightarrow> Series \<Rightarrow> bool" where
  "series_ok n runs s \<longleftrightarrow> length (sr_Bars s) = n \<and>
     (if runs = [] then sr_Count s = 0 \<and> sr_Current s = zero_bar
      else sr_Current s = bar_of (last runs) \<and>
           sr_Count s = min n (length runs - 1) \<and>
           take (sr_Count s) (sr_Bars s) = keep_last n (map bar_of (butlast runs)))"

lemma bar_of_single: "bar_of [(p, price, v)] = new_bar p price v"
  by (simp add: bar_of_def new_bar_def)

lemma extend_bar_max: "extend_bar b price v = b\<lparr>br_High := max price (br_High b), br_Low := min price (br_Low b),
    br_Close := price, br_Volume := br_Volume b + v, br_Count := br_Count b + 1\<rparr>"
  by (cases b) (auto simp: extend_bar_def Let_def max_def min_def)

lemma bar_of_snoc:
  assumes "ts \<noteq> []"
  shows "bar_of (ts @ [(p, price, v)]) = extend_bar (bar_of ts) price v"
proof -
  define P where "P = (\<lambda>t. fst (snd t)) ` set ts"
  have P: "finite P" "P \<noteq> {}" using assms by (simp_all add: P_def)
  have s: "set (map (\<lambda>t. fst (snd t)) (ts @ [(p, price, v)])) = insert price P" by (simp add: P_def)
  show ?thesis unfolding bar_of_def extend_bar_max s using assms P by (simp add: Max_insert Min_insert flip: P_def)
qed

lemma bar_of_timestamp: "br_Timestamp (bar_of r) = fst (hd r)"
  by (simp add: bar_of_def)

lemma keep_last_snoc: "0 < n \<Longrightarrow> keep_last n (xs @ [x]) =
    (if length xs < n then keep_last n xs @ [x] else tl (keep_last n xs) @ [x])"
  by (auto simp: keep_last_def drop_Suc tl_drop Suc_diff_le)

lemma length_keep_last: "length (keep_last n xs) = min n (length xs)"
  by (simp add: keep_last_def)

lemma add_run_nonempty: "runs \<noteq> [] \<Longrightarrow> add_run runs t =
    (if fst (hd (last runs)) = fst t then butlast runs @ [last runs @ [t]] else runs @ [[t]])"
  by (cases runs) simp_all

lemma rollBar_ok:
  assumes "series_ok n runs s" "0 < n" "p \<noteq> 0" "\<forall>r\<in>set runs. r \<noteq> [] \<and> fst (hd r) \<noteq> 0"
  shows "series_ok n (add_run runs (p, price, v)) (rollBar n s p price v)"
proof (cases "runs = []")
  case True
  then show ?thesis using assms
    by (simp add: series_ok_def rollBar_def zero_bar_def bar_of_single keep_last_def)
next
  case False
  define r where "r = last runs"
  have r: "r \<noteq> []" "fst (hd r) \<noteq> 0" using assms(4) False by (simp_all add: r_def)
  have s: "length (sr_Bars s) = n" "sr_Current s = bar_of r" "sr_Count s = min n (length runs - 1)"
    "take (sr_Count s) (sr_Bars s) = keep_last n (map bar_of (butlast runs))"
    using assms(1) False unfolding series_ok_def r_def by metis+
  have ts: "br_Timestamp (sr_Current s) = fst (hd r)" by (simp add: s bar_of_def)
  show ?thesis
  proof (cases "fst (hd r) = p")
    case True
    then show ?thesis using False r(1) s(1,3,4)
      by (simp add: series_ok_def rollBar_def s(2) bar_of_snoc add_run_nonempty bar_of_timestamp flip: r_def)
  next
    case other: False
    have b: "butlast (add_run runs (p, price, v)) = butlast runs @ [r]" "last (add_run runs (p, price, v)) = [(p, price, v)]"
      "length (add_run runs (p, price, v)) = Suc (length runs)" "add_run runs (p, price, v) \<noteq> []"
      using False other by (simp_all add: add_run_nonempty r_def)
    define k where "k = length runs - 1"
    have k: "length (map bar_of (butlast runs)) = k" "sr_Count s = min n k" "Suc k = length runs"
      using False s(3) by (simp_all add: k_def)
    have store: "sr_Count (store_bar n s) = min n (Suc k) \<and> length (sr_Bars (store_bar n s)) = n \<and>
      take (min n (Suc k)) (sr_Bars (store_bar n s)) = keep_last n (map bar_of (butlast runs) @ [bar_of r])"
    proof (cases "k < n")
      case True
      have "take (Suc k) ((sr_Bars s)[k := bar_of r]) = take k (sr_Bars s) @ [bar_of r]"
        using True s(1) by (simp add: take_Suc_conv_app_nth)
      moreover have "min n (Suc k) = Suc k" "min n k = k" using True by simp_all
      ultimately show ?thesis using True s(1,2,4) k(1,2)
        by (simp add: store_bar_def Let_def keep_last_snoc[OF assms(2)] del: take_all)
    next
      case False
      then show ?thesis using s(1,2,4) k assms(2)
        by (simp add: store_bar_def Let_def keep_last_snoc min_def)
    qed
    then show ?thesis using r(2) other assms(3) k
      by (simp add: series_ok_def b rollBar_def ts bar_of_single)
  qed
qed

lemma runs_nonempty:
  "\<forall>t\<in>set ts. fst t \<noteq> 0 \<Longrightarrow> \<forall>r\<in>set runs. r \<noteq> [] \<and> fst (hd r) \<noteq> 0 \<Longrightarrow>
   \<forall>r\<in>set (foldl add_run runs ts). r \<noteq> [] \<and> fst (hd r) \<noteq> 0"
proof (induction ts arbitrary: runs)
  case (Cons t ts)
  have "\<forall>r\<in>set (add_run runs t). r \<noteq> [] \<and> fst (hd r) \<noteq> 0"
    using Cons.prems by (cases "runs = []") (auto simp: add_run_nonempty dest: in_set_butlastD)
  moreover have "\<forall>t\<in>set ts. fst t \<noteq> 0" using Cons.prems(1) by simp
  ultimately show ?case unfolding foldl.simps by (intro Cons.IH)
qed simp

lemma roll_all_ok:
  assumes "0 < n" "\<forall>t\<in>set ts. fst t \<noteq> 0"
  shows "series_ok n (runs_of ts) (roll_all n ts)"
proof -
  have step: "series_ok n runs s \<Longrightarrow> \<forall>r\<in>set runs. r \<noteq> [] \<and> fst (hd r) \<noteq> 0 \<Longrightarrow>
     series_ok n (foldl add_run runs ts) (foldl (\<lambda>s (p, price, v). rollBar n s p price v) s ts)" for runs s
    using assms(2)
  proof (induction ts arbitrary: runs s)
    case (Cons t ts)
    obtain p price v where t: "t = (p, price, v)" by (metis prod_cases3)
    have "\<forall>r\<in>set (add_run runs t). r \<noteq> [] \<and> fst (hd r) \<noteq> 0"
      using runs_nonempty[of "[t]" runs] Cons.prems(2,3) by simp
    moreover have "series_ok n (add_run runs t) (rollBar n s p price v)"
      using rollBar_ok[OF Cons.prems(1) assms(1), of p] Cons.prems(2,3) by (simp add: t)
    ultimately show ?case using Cons.IH[of "add_run runs t" "rollBar n s p price v"] Cons.prems(3) by (simp add: t)
  qed simp
  have "series_ok n [] (empty_series n)" by (simp add: series_ok_def empty_series_def)
  then show ?thesis using step[of "[]"] by (simp add: runs_of_def roll_all_def)
qed

section \<open>What the aggregator answers\<close>

definition feed :: "BarAggregator \<Rightarrow> (64 word \<times> 64 word \<times> int) list \<Rightarrow> BarAggregator" where
  "feed agg h = foldl (\<lambda>a (p, v, t). BarAggregator_AddTick a p v t) agg h"

definition minutes_of :: "(64 word \<times> 64 word \<times> int) list \<Rightarrow> tick list" where
  "minutes_of h = map (\<lambda>(p, v, t). (go_div t 60000000000, sint p, v)) h"

lemma feed_1M: "ag_1M (feed (NewBarAggregator i) h) = roll_all 256 (minutes_of h)"
proof -
  have "ag_1M (foldl (\<lambda>a (p, v, t). BarAggregator_AddTick a p v t) a h) =
    foldl (\<lambda>s (p, price, v). rollBar 256 s p price v) (ag_1M a) (minutes_of h)" for a
  proof (induction h arbitrary: a)
    case (Cons x h)
    obtain p v t where x: "x = (p, v, t)" by (metis prod_cases3)
    have "ag_1M (BarAggregator_AddTick a p v t) = rollBar 256 (ag_1M a) (go_div t 60000000000) (sint p) v"
      by (simp add: BarAggregator_AddTick_def Let_def MaxBars1M_def)
    then show ?case using Cons.IH[of "BarAggregator_AddTick a p v t"] by (simp add: x minutes_of_def)
  qed (simp add: minutes_of_def)
  then show ?thesis by (simp add: feed_def roll_all_def NewBarAggregator_def MaxBars1M_def)
qed

lemma minutes_nonzero:
  assumes "\<forall>(p, v, t)\<in>set h. 60000000000 \<le> t"
  shows "\<forall>x\<in>set (minutes_of h). fst x \<noteq> 0"
  using assms by (fastforce simp: minutes_of_def go_div_def)

lemma feed_1M_ok:
  assumes "\<forall>(p, v, t)\<in>set h. 60000000000 \<le> t"
  shows "series_ok 256 (runs_of (minutes_of h)) (ag_1M (feed (NewBarAggregator i) h))"
  unfolding feed_1M by (rule roll_all_ok) (use minutes_nonzero[OF assms] in simp_all)

lemma take_minInt:
  "0 \<le> n \<Longrightarrow> take (nat (minInt (int c) n)) xs = take (nat n) (take c xs)"
  by (cases "nat n \<le> c") (auto simp: minInt_def min_def)

lemma series_ok_stored:
  "series_ok n runs s \<Longrightarrow> take (sr_Count s) (sr_Bars s) = keep_last n (map bar_of (butlast runs))"
  by (cases "runs = []") (auto simp: series_ok_def keep_last_def)

lemma series_of_1m: "series_of agg ''1m'' = Some (ag_1M agg)"
  by (simp add: series_of_def)


definition sample_ticks :: "(64 word \<times> 64 word \<times> int) list" where
  "sample_ticks = [(10, 1, 60000000000), (12, 2, 61000000000), (11, 1, 120000000000), (9, 3, 180000000000)]"


lemma last_take_nth: "0 < k \<Longrightarrow> k \<le> length xs \<Longrightarrow> last (take k xs) = xs ! (k - 1)"
proof -
  assume k: "0 < k" "k \<le> length xs"
  then obtain y ys where "take k xs = y # ys" by (cases xs; cases k) auto
  then have "take k xs \<noteq> []" by simp
  then show ?thesis using k by (simp add: last_conv_nth min_absorb2)
qed

text \<open>The latest bar is the bar of the last completed minute, never of the running one.\<close>

theorem GetLatestBar_completed:
  assumes "\<forall>(p, v, t)\<in>set h. 60000000000 \<le> t" "2 \<le> length (runs_of (minutes_of h))"
  shows "BarAggregator_GetLatestBar (feed (NewBarAggregator i) h) ''1m'' =
    bar_of (last (butlast (runs_of (minutes_of h))))"
proof -
  define s where "s = ag_1M (feed (NewBarAggregator i) h)"
  define rs where "rs = runs_of (minutes_of h)"
  have ok: "series_ok 256 rs s" using feed_1M_ok[OF assms(1), of i] by (simp add: s_def rs_def)
  have rs: "rs \<noteq> []" "butlast rs \<noteq> []" using assms(2) by (auto simp: rs_def simp flip: length_greater_0_conv)
  have t: "take (sr_Count s) (sr_Bars s) = keep_last 256 (map bar_of (butlast rs))" by (rule series_ok_stored[OF ok])
  have c: "sr_Count s = min 256 (length rs - 1)" "length (sr_Bars s) = 256" "0 < sr_Count s"
    using ok rs assms(2) by (auto simp: series_ok_def simp flip: rs_def)
  have "sr_Bars s ! (sr_Count s - 1) = last (take (sr_Count s) (sr_Bars s))"
    by (rule last_take_nth[symmetric]) (use c in simp_all)
  also have "\<dots> = bar_of (last (butlast rs))"
  proof -
    have "length (map bar_of (butlast rs)) - 256 < length (map bar_of (butlast rs))"
      using rs(2) by (simp only: length_map) (use length_greater_0_conv[of "butlast rs"] in linarith)
    then show ?thesis unfolding t keep_last_def using rs(2)
      by (subst last_drop) (simp_all only: last_map not_False_eq_True)
  qed
  finally show ?thesis using c(3) by (simp add: BarAggregator_GetLatestBar_def series_of_1m flip: s_def rs_def)
qed

theorem GetLatestBar_completed_witness:
  "br_Close (BarAggregator_GetLatestBar (feed (NewBarAggregator 7) sample_ticks) ''1m'') = 11"
proof -
  have "BarAggregator_GetLatestBar (feed (NewBarAggregator 7) sample_ticks) ''1m'' =
    bar_of (last (butlast (runs_of (minutes_of sample_ticks))))"
    by (rule GetLatestBar_completed) (simp_all add: sample_ticks_def minutes_of_def runs_of_def go_div_def)
  then show ?thesis
    by (simp add: sample_ticks_def minutes_of_def runs_of_def bar_of_def go_div_def)
qed

end
