(* ===== verification/Adversarial.thy ===== *)
theory Adversarial
  imports Prelude "HOL-Library.Word"
begin

text \<open>
  The adversarial checks of \<open>internal/risk/adversarial.go\<close>, which every live signal passes
  before the pipeline. Sizes are \<open>uint64\<close>, symbols \<open>uint32\<close>, times \<open>int64\<close> nanoseconds;
  the arrays are lists of their length.
\<close>

definition RejectThreshold :: int where "RejectThreshold = 3"
definition FiveMinNS :: int where "FiveMinNS = 300000000000"

record AdversarialState =
  ad_RejectCount :: int
  ad_RejectWindowStart :: int
  ad_AvgTradeSize :: "64 word"
  ad_Last10Sizes :: "64 word list"
  ad_SizeIdx :: nat
  ad_Last10Symbols :: "32 word list"
  ad_SymbolIdx :: nat
  ad_Watchlist :: "32 word list"
  ad_WatchlistCount :: nat
  ad_AfterHoursActivity :: bool

text \<open>The zero value, with which the live engine starts.\<close>

definition zero_adversarial :: AdversarialState where
  "zero_adversarial = \<lparr>ad_RejectCount = 0, ad_RejectWindowStart = 0, ad_AvgTradeSize = 0,
     ad_Last10Sizes = replicate 10 0, ad_SizeIdx = 0, ad_Last10Symbols = replicate 10 0, ad_SymbolIdx = 0,
     ad_Watchlist = replicate 32 0, ad_WatchlistCount = 0, ad_AfterHoursActivity = False\<rparr>"

record AdversarialResult =
  ar_Approve :: bool
  ar_TriggerKill :: bool
  ar_Reject :: bool
  ar_Reason :: string

definition adv_kill :: "string \<Rightarrow> AdversarialResult" where
  "adv_kill r = \<lparr>ar_Approve = False, ar_TriggerKill = True, ar_Reject = False, ar_Reason = r\<rparr>"

definition adv_reject :: "string \<Rightarrow> AdversarialResult" where
  "adv_reject r = \<lparr>ar_Approve = False, ar_TriggerKill = False, ar_Reject = True, ar_Reason = r\<rparr>"

definition adv_approve :: AdversarialResult where
  "adv_approve = \<lparr>ar_Approve = True, ar_TriggerKill = False, ar_Reject = False, ar_Reason = ''''\<rparr>"

text \<open>The loop of \<open>updateAvgSize\<close>: the sum, which wraps, and the number of the non-zero sizes.\<close>

definition updateAvgSize :: "AdversarialState \<Rightarrow> AdversarialState" where
  "updateAvgSize st =
     (let (sum, count) = foldl (\<lambda>(sum, count) x. if x > 0 then (sum + x, count + 1) else (sum, count))
            (0, 0 :: nat) (ad_Last10Sizes st)
      in if count > 0 then st\<lparr>ad_AvgTradeSize := sum div of_nat count\<rparr> else st)"

definition isWatchlisted :: "AdversarialState \<Rightarrow> 32 word \<Rightarrow> bool" where
  "isWatchlisted st symbol \<longleftrightarrow> (\<exists>i\<in>{0..<ad_WatchlistCount st}. ad_Watchlist st ! i = symbol)"

definition isAfterHours :: "int \<Rightarrow> bool" where
  "isAfterHours timestampNS =
     (let sec = go_div timestampNS 1000000000;
          hour = go_rem (go_div sec 3600) 24;
          weekday = go_rem (go_div sec 86400 + 4) 7
      in if weekday \<ge> 5 then True else if hour < 9 \<or> hour \<ge> 16 then True else False)"

definition CheckAdversarial :: "AdversarialState \<Rightarrow> 64 word \<Rightarrow> 32 word \<Rightarrow> int \<Rightarrow>
  AdversarialResult \<times> AdversarialState" where
  "CheckAdversarial st quantity symbol now =
     (if wrap64 (now - ad_RejectWindowStart st) < FiveMinNS \<and> ad_RejectCount st > RejectThreshold
      then (adv_kill ''reject_spike'', st)
      else if ad_AvgTradeSize st > 0 \<and> quantity > 2 * ad_AvgTradeSize st
      then (adv_reject ''unusual_size'', st)
      else if ad_WatchlistCount st > 0 \<and> \<not> isWatchlisted st symbol
      then (adv_reject ''unusual_symbol'', st)
      else if isAfterHours now then (adv_reject ''after_hours'', st)
      else let st = st\<lparr>ad_SizeIdx := (ad_SizeIdx st + 1) mod 10\<rparr>;
               st = st\<lparr>ad_Last10Sizes := (ad_Last10Sizes st)[ad_SizeIdx st := quantity]\<rparr>;
               st = updateAvgSize st;
               st = st\<lparr>ad_SymbolIdx := (ad_SymbolIdx st + 1) mod 10\<rparr>;
               st = st\<lparr>ad_Last10Symbols := (ad_Last10Symbols st)[ad_SymbolIdx st := symbol]\<rparr>
           in (adv_approve, st))"

definition RecordReject :: "AdversarialState \<Rightarrow> int \<Rightarrow> AdversarialState" where
  "RecordReject st now =
     (let st = (if wrap64 (now - ad_RejectWindowStart st) > FiveMinNS
                then st\<lparr>ad_RejectCount := 0, ad_RejectWindowStart := now\<rparr> else st)
      in st\<lparr>ad_RejectCount := ad_RejectCount st + 1\<rparr>)"

lemma adv_simps [simp]:
  "ar_TriggerKill (adv_kill r)" "\<not> ar_Reject (adv_kill r)" "\<not> ar_TriggerKill (adv_reject r)"
  "ar_Reject (adv_reject r)" "\<not> ar_TriggerKill adv_approve" "\<not> ar_Reject adv_approve"
  "ar_Approve adv_approve" "\<not> ar_Approve (adv_reject r)" "\<not> ar_Approve (adv_kill r)"
  by (simp_all add: adv_kill_def adv_reject_def adv_approve_def)

section \<open>The trading week\<close>

datatype weekday = Sunday | Monday | Tuesday | Wednesday | Thursday | Friday | Saturday

text \<open>The calendar: the epoch was a Thursday.\<close>

definition weekday_of :: "int \<Rightarrow> weekday" where
  "weekday_of day = [Thursday, Friday, Saturday, Sunday, Monday, Tuesday, Wednesday] ! nat (day mod 7)"

lemma mod7_cases: "(d :: int) mod 7 = 0 \<or> d mod 7 = 1 \<or> d mod 7 = 2 \<or> d mod 7 = 3 \<or> d mod 7 = 4 \<or> d mod 7 = 5 \<or> d mod 7 = 6"
  by presburger

lemma weekend_iff: "weekday_of d \<in> {Friday, Saturday} \<longleftrightarrow> d mod 7 = 1 \<or> d mod 7 = 2"
  using mod7_cases[of d] by (elim disjE) (simp_all add: weekday_of_def numeral_2_eq_2 numeral_3_eq_3)

text \<open>The session check takes Friday for a weekend day and Sunday for a trading day. At every time
  since the epoch a signal counts as after hours exactly on Fridays and Saturdays, and outside
  09:00 to 16:00 UTC on the other days.\<close>

theorem after_hours_calendar:
  assumes "0 \<le> t"
  shows "isAfterHours t \<longleftrightarrow>
    weekday_of (t div 86400000000000) \<in> {Friday, Saturday} \<or>
    t div 3600000000000 mod 24 < 9 \<or> 16 \<le> t div 3600000000000 mod 24"
proof -
  define d where "d = t div 86400000000000"
  have d: "go_div (go_div t 1000000000) 86400 = d" "go_div (go_div t 1000000000) 3600 = t div 3600000000000" "0 \<le> d"
    using assms by (simp_all add: d_def pos_imp_zdiv_nonneg_iff zdiv_zmult2_eq[symmetric])
  have "go_rem (d + 4) 7 = (d mod 7 + 4) mod 7" using d(3) by (simp add: mod_add_left_eq)
  moreover have "(d mod 7 + 4) mod 7 \<ge> 5 \<longleftrightarrow> weekday_of d \<in> {Friday, Saturday}"
    unfolding weekend_iff using mod7_cases[of d] by (elim disjE) simp_all
  moreover have "0 \<le> t div 3600000000000" using assms by (simp add: pos_imp_zdiv_nonneg_iff)
  then have "go_rem (t div 3600000000000) 24 = t div 3600000000000 mod 24" by (intro go_rem_nonneg) simp_all
  moreover have "isAfterHours t \<longleftrightarrow> go_rem (d + 4) 7 \<ge> 5 \<or> go_rem (t div 3600000000000) 24 < 9 \<or>
      go_rem (t div 3600000000000) 24 \<ge> 16"
    unfolding isAfterHours_def Let_def d by auto
  ultimately show ?thesis unfolding d_def[symmetric] by metis
qed

text \<open>Sunday 2024-01-07 at noon is open, Friday 2024-01-05 at noon is not.\<close>

theorem after_hours_calendar_witness:
  "\<not> isAfterHours 1704628800000000000 \<and> weekday_of (1704628800000000000 div 86400000000000) = Sunday \<and>
   isAfterHours 1704456000000000000 \<and> weekday_of (1704456000000000000 div 86400000000000) = Friday"
proof -
  have d: "weekday_of (1704628800000000000 div 86400000000000) = Sunday"
    "weekday_of (1704456000000000000 div 86400000000000) = Friday"
    by (simp_all add: weekday_of_def numeral_3_eq_3)
  show ?thesis
    using after_hours_calendar[of 1704628800000000000] after_hours_calendar[of 1704456000000000000]
    unfolding d by simp
qed

section \<open>The reject spike\<close>

text \<open>The live engine's only calls: nothing outside the tests calls \<open>RecordReject\<close>.\<close>

definition adversarial_run :: "(64 word \<times> 32 word \<times> int) list \<Rightarrow> AdversarialState" where
  "adversarial_run cs = foldl (\<lambda>st (q, s, t). snd (CheckAdversarial st q s t)) zero_adversarial cs"

lemma updateAvgSize_frame [simp]:
  "ad_RejectCount (updateAvgSize st) = ad_RejectCount st"
  "ad_WatchlistCount (updateAvgSize st) = ad_WatchlistCount st"
  "ad_Last10Sizes (updateAvgSize st) = ad_Last10Sizes st"
  "ad_SizeIdx (updateAvgSize st) = ad_SizeIdx st"
  by (simp_all add: updateAvgSize_def case_prod_beta Let_def)

lemma Check_rejects: "ad_RejectCount (snd (CheckAdversarial st q s t)) = ad_RejectCount st"
  by (simp add: CheckAdversarial_def Let_def)

text \<open>The kill for a spike of rejects never fires in the live engine: a check records no reject,
  so after any sequence of checks the count is zero and no check asks for the kill.\<close>

theorem reject_spike_never_fires:
  "\<not> ar_TriggerKill (fst (CheckAdversarial (adversarial_run cs) q s t))"
proof -
  have "ad_RejectCount (foldl (\<lambda>st (q, s, t). snd (CheckAdversarial st q s t)) st cs) = ad_RejectCount st" for st
    by (induction cs arbitrary: st) (auto simp: Check_rejects)
  then have "ad_RejectCount (adversarial_run cs) = 0"
    by (simp add: adversarial_run_def) (simp add: zero_adversarial_def)
  then show ?thesis by (simp add: CheckAdversarial_def Let_def RejectThreshold_def)
qed

text \<open>The rejects of a window with \<open>RecordReject\<close>: the fourth arms the kill.\<close>

lemma RecordReject_window:
  assumes "ad_RejectWindowStart st \<le> t" "t - ad_RejectWindowStart st < FiveMinNS" "is_int64 (t - ad_RejectWindowStart st)"
    and "3 < ad_RejectCount st + 1"
  shows "ar_TriggerKill (fst (CheckAdversarial (RecordReject st t) q s t))"
  using assms by (simp add: RecordReject_def CheckAdversarial_def RejectThreshold_def FiveMinNS_def Let_def)

section \<open>Sizes\<close>

definition adversarial_ok :: "AdversarialState \<Rightarrow> bool" where
  "adversarial_ok st \<longleftrightarrow> length (ad_Last10Sizes st) = 10 \<and> length (ad_Last10Symbols st) = 10 \<and>
     ad_SizeIdx st < 10 \<and> ad_SymbolIdx st < 10"

lemma Check_ok: "adversarial_ok st \<Longrightarrow> adversarial_ok (snd (CheckAdversarial st q s t))"
  by (auto simp: adversarial_ok_def CheckAdversarial_def updateAvgSize_def Let_def case_prod_beta)

lemma adversarial_run_ok: "adversarial_ok (adversarial_run cs)"
proof -
  have "adversarial_ok st \<Longrightarrow> adversarial_ok (foldl (\<lambda>st (q, s, t). snd (CheckAdversarial st q s t)) st cs)" for st
    by (induction cs arbitrary: st) (auto simp: Check_ok)
  then show ?thesis by (simp add: adversarial_run_def) (simp add: adversarial_ok_def zero_adversarial_def)
qed

end
