(* ===== verification/Hmm.thy ===== *)
theory Hmm
  imports PriceExact
begin

text \<open>
  The regime tracker, \<open>internal/risk/hmm.go\<close>, \<open>hmm_enhanced.go\<close>, \<open>hmm_validation.go\<close>: the
  forward step of a four state hidden Markov model on the returns of the ticks. Arrays are lists
  of their length. \<open>math.Exp\<close> and \<open>math.Log\<close> are parameters, and the parameter file of the
  enhanced model is read outside.
\<close>

definition HMMCalm :: int where "HMMCalm = 0"
definition HMMTrending :: int where "HMMTrending = 1"
definition HMMHighVol :: int where "HMMHighVol = 2"
definition HMMCrisis :: int where "HMMCrisis = 3"

record HMMModel =
  hm_Transition :: "f64 list list"
  hm_InitialProbs :: "f64 list"
  hm_EmissionMeans :: "f64 list"
  hm_EmissionSDs :: "f64 list"
  hm_Loaded :: bool

record HMMTracker =
  ht_Model :: HMMModel
  ht_CurrentState :: int
  ht_Confidence :: f64
  ht_Alpha :: "f64 list"
  ht_LastReturns :: "f64 list"
  ht_ReturnCount :: nat
  ht_ReturnIdx :: nat

definition DefaultHMM :: HMMModel where
  "DefaultHMM = \<lparr>hm_Transition = [
       [lit (85/100), lit (10/100), lit (4/100), lit (1/100)],
       [lit (8/100), lit (80/100), lit (10/100), lit (2/100)],
       [lit (3/100), lit (10/100), lit (80/100), lit (7/100)],
       [lit (1/100), lit (2/100), lit (10/100), lit (87/100)]],
     hm_InitialProbs = [lit (70/100), lit (20/100), lit (8/100), lit (2/100)],
     hm_EmissionMeans = [lit (2/10000), lit (5/10000), lit (-3/10000), lit (-15/10000)],
     hm_EmissionSDs = [lit (5/1000), lit (12/1000), lit (25/1000), lit (60/1000)],
     hm_Loaded = True\<rparr>"

definition NewHMMTracker :: "HMMModel \<Rightarrow> HMMTracker" where
  "NewHMMTracker model = \<lparr>ht_Model = model, ht_CurrentState = 0, ht_Confidence = 0, ht_Alpha = hm_InitialProbs model,
     ht_LastReturns = replicate 256 0, ht_ReturnCount = 0, ht_ReturnIdx = 0\<rparr>"

definition computeVolatility :: "f64 list \<Rightarrow> nat \<Rightarrow> f64" where
  "computeVolatility returns cnt =
     (if cnt < 2 then lit (1/100)
      else let rs = take cnt returns;
               mean = foldl (\<lambda>s r. s + r) 0 rs / float_of_int (int cnt);
               variance = foldl (\<lambda>s r. s + (r - mean) * (r - mean)) 0 rs
           in math_sqrt (variance / float_of_int (int cnt - 1)))"

definition emissionProb :: "(f64 \<Rightarrow> f64) \<Rightarrow> nat \<Rightarrow> f64 \<Rightarrow> f64 \<Rightarrow> f64 list \<Rightarrow> f64 list \<Rightarrow> f64" where
  "emissionProb ex state ret vol means sds =
     (let mu = means ! state; sd = sds ! state;
          sd = (if sd < vol then vol else sd);
          sd = (if feq sd 0 then lit (1/1000) else sd);
          z = (ret - mu) / sd
      in ex (lit (-5/10) * z * z) / (sd * lit (250662827463/100000000000)))"

text \<open>One step of the chain: the probability of arriving in a state.\<close>

definition arrive :: "f64 list \<Rightarrow> f64 list list \<Rightarrow> nat \<Rightarrow> f64" where
  "arrive alpha transition j = foldl (\<lambda>s i. s + alpha ! i * transition ! i ! j) 0 [0..<4]"

definition HMMTracker_push :: "HMMTracker \<Rightarrow> f64 \<Rightarrow> HMMTracker" where
  "HMMTracker_push t ret = t\<lparr>ht_LastReturns := (ht_LastReturns t)[ht_ReturnIdx t := ret],
     ht_ReturnIdx := (ht_ReturnIdx t + 1) mod 256,
     ht_ReturnCount := (if ht_ReturnCount t < 256 then ht_ReturnCount t + 1 else ht_ReturnCount t)\<rparr>"

text \<open>The first state with the largest belief, from \<open>bestState = 0\<close> and \<open>bestConf = 0\<close>.\<close>

definition best_state :: "f64 list \<Rightarrow> int \<times> f64" where
  "best_state alpha = foldl (\<lambda>(s, conf) j. if alpha ! j > conf then (int j, alpha ! j) else (s, conf)) (0, 0) [0..<4]"

definition HMMTracker_Update :: "(f64 \<Rightarrow> f64) \<Rightarrow> HMMTracker \<Rightarrow> int \<Rightarrow> int \<Rightarrow> HMMTracker" where
  "HMMTracker_Update ex t priceRaw prevPrice =
     (if prevPrice \<le> 0 \<or> \<not> hm_Loaded (ht_Model t) then t
      else let ret = float_of_int (wrap64 (priceRaw - prevPrice)) / float_of_int prevPrice;
               t = HMMTracker_push t ret
           in if ht_ReturnCount t < 10 then t
              else let m = ht_Model t;
                       vol = computeVolatility (ht_LastReturns t) (ht_ReturnCount t);
                       newAlpha = map (\<lambda>j. arrive (ht_Alpha t) (hm_Transition m) j *
                         emissionProb ex j ret vol (hm_EmissionMeans m) (hm_EmissionSDs m)) [0..<4];
                       tot = foldl (\<lambda>s j. s + newAlpha ! j) 0 [0..<4];
                       alpha = (if tot > 0 then map (\<lambda>a. a / tot) newAlpha else ht_Alpha t);
                       (s, conf) = best_state alpha
                   in t\<lparr>ht_Alpha := alpha, ht_CurrentState := s, ht_Confidence := conf\<rparr>)"

definition HMMTracker_GetRegime :: "HMMTracker \<Rightarrow> int \<times> f64" where
  "HMMTracker_GetRegime t = (ht_CurrentState t, ht_Confidence t)"

definition HMMTracker_LoadCalibratedParams ::
  "HMMTracker \<Rightarrow> f64 list list \<Rightarrow> f64 list \<Rightarrow> f64 list \<Rightarrow> f64 list \<Rightarrow> HMMTracker" where
  "HMMTracker_LoadCalibratedParams t transition initialProbs means sds =
     t\<lparr>ht_Model := \<lparr>hm_Transition = transition, hm_InitialProbs = initialProbs, hm_EmissionMeans = means,
         hm_EmissionSDs = sds, hm_Loaded = True\<rparr>, ht_Alpha := initialProbs\<rparr>"

definition VIXModulateSDs :: "f64 list \<Rightarrow> f64 \<Rightarrow> f64 list" where
  "VIXModulateSDs sds vix =
     (if vix > lit 30 then map (\<lambda>s. s * lit (15/10)) sds
      else if vix > lit 25 then sds[3 := sds ! 3 * lit (13/10)]
      else if vix < lit 12 then map (\<lambda>s. s * lit (75/100)) sds
      else sds)"

section \<open>The enhanced model\<close>

record EnhancedHMMParams =
  eh_Transition :: "f64 list list"
  eh_InitialProbs :: "f64 list"
  eh_EmissionMeans :: "f64 list list"
  eh_EmissionDiagSDs :: "f64 list list"
  eh_Loaded :: bool

definition emissionProbMultiDim :: "(f64 \<Rightarrow> f64) \<Rightarrow> (f64 \<Rightarrow> f64) \<Rightarrow> int \<Rightarrow> f64 list \<Rightarrow> EnhancedHMMParams \<Rightarrow> f64" where
  "emissionProbMultiDim ex lg state obs p =
     (if state < 0 \<or> state \<ge> 4 then 0
      else ex (foldl (\<lambda>logProb d.
        let mu = eh_EmissionMeans p ! nat state ! d; sd = eh_EmissionDiagSDs p ! nat state ! d;
            sd = (if sd < lit (1/10000) then lit (1/10000) else sd);
            z = (obs ! d - mu) / sd
        in logProb + (lit (-5/10) * z * z - lg sd - lit (5/10) * lg (lit (6283185307179586/1000000000000000)))) 0 [0..<5]))"

definition HMMTracker_UpdateEnhanced ::
  "(f64 \<Rightarrow> f64) \<Rightarrow> (f64 \<Rightarrow> f64) \<Rightarrow> HMMTracker \<Rightarrow> int \<Rightarrow> int \<Rightarrow> f64 list \<Rightarrow> EnhancedHMMParams \<Rightarrow> HMMTracker" where
  "HMMTracker_UpdateEnhanced ex lg t priceRaw prevPrice obs p =
     (if prevPrice \<le> 0 \<or> \<not> eh_Loaded p then t
      else let ret = float_of_int (wrap64 (priceRaw - prevPrice)) / float_of_int prevPrice;
               t = HMMTracker_push t ret
           in if ht_ReturnCount t < 10 then t
              else let newAlpha = map (\<lambda>j. arrive (ht_Alpha t) (eh_Transition p) j * emissionProbMultiDim ex lg (int j) obs p) [0..<4];
                       tot = foldl (\<lambda>s j. s + newAlpha ! j) 0 [0..<4];
                       alpha = (if tot > 0 then map (\<lambda>a. a / tot) newAlpha else newAlpha);
                       (s, conf) = (if tot > 0 then best_state alpha else (0, 0))
                   in t\<lparr>ht_Alpha := alpha, ht_CurrentState := s, ht_Confidence := conf\<rparr>)"

section \<open>Validation of a model\<close>

record HMMCheck =
  hc_Name :: string
  hc_Passed :: bool
  hc_Message :: string

definition hmm_check :: "string \<Rightarrow> bool \<Rightarrow> string \<Rightarrow> HMMCheck" where
  "hmm_check name passed message = \<lparr>hc_Name = name, hc_Passed = passed, hc_Message = message\<rparr>"

text \<open>The messages with a dash or an arrow that is not an ASCII character are left out.\<close>

definition ValidateHMMParams :: "f64 list list \<Rightarrow> f64 list \<Rightarrow> f64 list \<Rightarrow> HMMCheck list \<times> bool" where
  "ValidateHMMParams transition means sds =
     (let checks =
        [if sds ! 2 < sds ! 0 \<or> sds ! 2 < sds ! 1 then hmm_check ''emission_sd_ordering'' False []
         else hmm_check ''emission_sd_ordering'' True ''SD ordering looks sensible'',
         if transition ! 2 ! 3 < lit (1/1000) then hmm_check ''transition_highvol_to_crisis'' False []
         else hmm_check ''transition_highvol_to_crisis'' True [],
         if transition ! 1 ! 1 < lit (5/10) then hmm_check ''transition_trending_self'' False []
         else hmm_check ''transition_trending_self'' True ''TRENDING self-transition is plausible'']
        @ (if \<exists>row \<in> set transition. \<bar>foldl (\<lambda>s x. s + x) 0 row - 1\<bar> > lit (1/100)
           then [hmm_check ''transition_row_sum'' False ''Transition matrix row does not tot to 1.0''] else [])
        @ (if \<exists>sd \<in> set sds. sd \<le> 0
           then [hmm_check ''emission_sd_positive'' False ''Emission SD must be positive''] else [])
      in (checks, list_all hc_Passed checks))"

section \<open>The tracked state\<close>

lemma best_state_from:
  "fst (foldl (\<lambda>(s, conf) j. if alpha ! j > conf then (int j, alpha ! j) else (s, conf)) (s, conf) js) \<in> insert s (int ` set js)"
  by (induction js arbitrary: s conf) (auto split: if_splits)

lemma best_state_range: "fst (best_state alpha) \<in> {0..3}"
  using best_state_from[of alpha 0 0 "[0..<4]"] by (auto simp: best_state_def)

text \<open>No belief is above the confidence, and the confidence is the belief of the state or zero.\<close>

lemma best_state_max:
  "foldl (\<lambda>(s, conf) j. if alpha ! j > conf then (int j, alpha ! j) else (s, conf)) (s, conf) js = (s', conf') \<Longrightarrow>
    conf \<noteq> FNaN \<Longrightarrow> conf \<le> conf' \<and> (\<forall>j \<in> set js. \<not> alpha ! j > conf') \<and>
    ((s', conf') = (s, conf) \<or> (\<exists>j \<in> set js. s' = int j \<and> conf' = alpha ! j))"
proof (induction js arbitrary: s conf)
  case Nil then show ?case by (simp add: less_eq_f64_def)
next
  case (Cons j js)
  show ?case
  proof (cases "alpha ! j > conf")
    case True
    then have n: "alpha ! j \<noteq> FNaN" by (simp add: less_f64_def)
    have r: "foldl (\<lambda>(s, conf) j. if alpha ! j > conf then (int j, alpha ! j) else (s, conf)) (int j, alpha ! j) js = (s', conf')"
      using Cons.prems(1) True by simp
    note ih = Cons.IH[OF r n]
    have "conf < conf'" using True ih by (blast intro: f64_less_le_trans)
    then have "conf \<le> conf'" by (auto simp: less_f64_def less_eq_f64_def)
    moreover have "\<not> alpha ! j > conf'" using ih by (auto dest: f64_less_not_le)
    ultimately show ?thesis using ih by auto
  next
    case False
    then have r: "foldl (\<lambda>(s, conf) j. if alpha ! j > conf then (int j, alpha ! j) else (s, conf)) (s, conf) js = (s', conf')"
      using Cons.prems(1) by simp
    note ih = Cons.IH[OF r Cons.prems(2)]
    have "\<not> alpha ! j > conf'" using False ih by (blast intro: f64_le_less_trans)
    then show ?thesis using ih by auto
  qed
qed

definition hmm_ok :: "HMMTracker \<Rightarrow> bool" where
  "hmm_ok t \<longleftrightarrow> length (ht_LastReturns t) = 256 \<and> ht_ReturnIdx t < 256 \<and> ht_ReturnCount t \<le> 256 \<and>
     ht_CurrentState t \<in> {0..3}"

lemma hmm_ok_New: "hmm_ok (NewHMMTracker m)"
  by (simp add: hmm_ok_def NewHMMTracker_def)

lemma hmm_ok_push: "hmm_ok t \<Longrightarrow> hmm_ok (HMMTracker_push t ret)"
  by (auto simp: hmm_ok_def HMMTracker_push_def)

lemma hmm_ok_Update: "hmm_ok t \<Longrightarrow> hmm_ok (HMMTracker_Update ex t p q)"
  using hmm_ok_push best_state_range
  by (auto simp: HMMTracker_Update_def Let_def hmm_ok_def case_prod_beta)

text \<open>The updates of a run, over pairs of a price and the one before it.\<close>

definition hmm_run :: "(f64 \<Rightarrow> f64) \<Rightarrow> HMMModel \<Rightarrow> (int \<times> int) list \<Rightarrow> HMMTracker" where
  "hmm_run ex m ticks = foldl (\<lambda>t (p, q). HMMTracker_Update ex t p q) (NewHMMTracker m) ticks"

lemma hmm_ok_run: "hmm_ok (hmm_run ex m ticks)"
proof -
  have "hmm_ok t \<Longrightarrow> hmm_ok (foldl (\<lambda>t (p, q). HMMTracker_Update ex t p q) t ticks)" for t
    by (induction ticks arbitrary: t) (auto intro: hmm_ok_Update)
  then show ?thesis by (simp add: hmm_run_def hmm_ok_New)
qed

lemma hmm_count:
  "hm_Loaded (ht_Model t) \<Longrightarrow> \<forall>(p, q) \<in> set ticks. 0 < q \<Longrightarrow> ht_ReturnCount t \<le> 256 \<Longrightarrow>
    ht_ReturnCount (foldl (\<lambda>t (p, q). HMMTracker_Update ex t p q) t ticks) = min 256 (ht_ReturnCount t + length ticks)"
proof (induction ticks arbitrary: t)
  case (Cons x ticks)
  obtain p q where x: "x = (p, q)" by force
  have "ht_ReturnCount (HMMTracker_Update ex t p q) = min 256 (ht_ReturnCount t + 1)"
    "ht_Model (HMMTracker_Update ex t p q) = ht_Model t"
    using Cons.prems by (auto simp: x HMMTracker_Update_def HMMTracker_push_def Let_def case_prod_beta)
  then show ?case using Cons by (simp add: x)
qed simp

text \<open>The state and the confidence are those of the beliefs, once there are ten returns.\<close>

definition hmm_best :: "HMMTracker \<Rightarrow> bool" where
  "hmm_best t \<longleftrightarrow> ht_ReturnCount t < 10 \<or> best_state (ht_Alpha t) = (ht_CurrentState t, ht_Confidence t)"

lemma hmm_best_Update: "hmm_best t \<Longrightarrow> hmm_best (HMMTracker_Update ex t p q)"
  by (auto simp: HMMTracker_Update_def HMMTracker_push_def hmm_best_def Let_def case_prod_beta)

lemma hmm_best_run: "hmm_best (hmm_run ex m ticks)"
proof -
  have "hmm_best t \<Longrightarrow> hmm_best (foldl (\<lambda>t (p, q). HMMTracker_Update ex t p q) t ticks)" for t
    by (induction ticks arbitrary: t) (auto intro: hmm_best_Update)
  then show ?thesis by (simp add: hmm_run_def hmm_best_def NewHMMTracker_def)
qed

text \<open>The tracked regime is the one best supported by the beliefs. After any run of prices with
  at least ten returns, whatever the model (also one that is not a probability table) and
  whatever \<open>math.Exp\<close> answers: the state is one of the four, no belief is above the reported
  confidence, and the confidence is the belief of that state, or zero with the state calm.
\<close>

theorem regime_is_best_supported:
  assumes "10 \<le> ht_ReturnCount (hmm_run ex m ticks)"
  shows "let t = hmm_run ex m ticks in ht_CurrentState t \<in> {0..3} \<and> (\<forall>j<4. \<not> ht_Alpha t ! j > ht_Confidence t) \<and>
    (ht_Confidence t = ht_Alpha t ! nat (ht_CurrentState t) \<or> ht_Confidence t = 0 \<and> ht_CurrentState t = HMMCalm)"
proof -
  define t where "t = hmm_run ex m ticks"
  have b: "best_state (ht_Alpha t) = (ht_CurrentState t, ht_Confidence t)"
    using hmm_best_run[of ex m ticks] assms by (simp add: hmm_best_def t_def)
  then show ?thesis unfolding Let_def t_def[symmetric]
    using best_state_max[of "ht_Alpha t" 0 0 "[0..<4]" "ht_CurrentState t" "ht_Confidence t"] best_state_range[of "ht_Alpha t"]
    by (auto simp: best_state_def HMMCalm_def)
qed

lemma regime_is_best_supported_witness:
  "ht_CurrentState (hmm_run (\<lambda>_. 1) DefaultHMM (replicate 12 (10000000, 10000000))) \<in> {0..3}"
proof -
  have "10 \<le> ht_ReturnCount (hmm_run (\<lambda>_. 1) DefaultHMM (replicate 12 (10000000, 10000000)))"
    unfolding hmm_run_def by (subst hmm_count) (auto simp: NewHMMTracker_def DefaultHMM_def)
  from regime_is_best_supported[OF this] show ?thesis by (simp add: Let_def)
qed

end
