(* ===== verification/OrderBook.thy ===== *)
theory OrderBook
  imports Price "HOL-Library.Word"
begin

text \<open>
  The order book of \<open>internal/market/orderbook.go\<close>: two arrays of 32 levels with \<open>uint64\<close>
  prices and quantities, whose arithmetic wraps.
\<close>

definition MaxLevels :: int where "MaxLevels = 32"

record PriceLevel =
  lv_Price :: "64 word"
  lv_Quantity :: "64 word"
  lv_Orders :: int

definition zero_level :: PriceLevel where
  "zero_level = \<lparr>lv_Price = 0, lv_Quantity = 0, lv_Orders = 0\<rparr>"

record OrderBook =
  ob_SymbolID :: "32 word"
  ob_Bids :: "PriceLevel list"
  ob_Asks :: "PriceLevel list"
  ob_BidCount :: int
  ob_AskCount :: int
  ob_VWAP :: f64
  ob_TotalVol :: "64 word"

definition NewOrderBook :: "32 word \<Rightarrow> OrderBook" where
  "NewOrderBook symbolID = \<lparr>ob_SymbolID = symbolID, ob_Bids = replicate (nat MaxLevels) zero_level,
     ob_Asks = replicate (nat MaxLevels) zero_level, ob_BidCount = 0, ob_AskCount = 0, ob_VWAP = 0,
     ob_TotalVol = 0\<rparr>"

definition OrderBook_UpdateBid :: "OrderBook \<Rightarrow> int \<Rightarrow> 64 word \<Rightarrow> 64 word \<Rightarrow> OrderBook" where
  "OrderBook_UpdateBid ob index price quantity =
     (if index \<ge> 0 \<and> index < MaxLevels
      then (let ob = ob\<lparr>ob_Bids := (ob_Bids ob)[nat index := \<lparr>lv_Price = price, lv_Quantity = quantity, lv_Orders = 1\<rparr>]\<rparr>
            in if index + 1 > ob_BidCount ob then ob\<lparr>ob_BidCount := index + 1\<rparr> else ob)
      else ob)"

definition OrderBook_UpdateAsk :: "OrderBook \<Rightarrow> int \<Rightarrow> 64 word \<Rightarrow> 64 word \<Rightarrow> OrderBook" where
  "OrderBook_UpdateAsk ob index price quantity =
     (if index \<ge> 0 \<and> index < MaxLevels
      then (let ob = ob\<lparr>ob_Asks := (ob_Asks ob)[nat index := \<lparr>lv_Price = price, lv_Quantity = quantity, lv_Orders = 1\<rparr>]\<rparr>
            in if index + 1 > ob_AskCount ob then ob\<lparr>ob_AskCount := index + 1\<rparr> else ob)
      else ob)"

definition OrderBook_BestBid :: "OrderBook \<Rightarrow> 64 word \<times> 64 word" where
  "OrderBook_BestBid ob = (if ob_BidCount ob = 0 then (0, 0)
     else let best = ob_Bids ob ! 0 in (lv_Price best, lv_Quantity best))"

definition OrderBook_BestAsk :: "OrderBook \<Rightarrow> 64 word \<times> 64 word" where
  "OrderBook_BestAsk ob = (if ob_AskCount ob = 0 then (0, 0)
     else let best = ob_Asks ob ! 0 in (lv_Price best, lv_Quantity best))"

definition OrderBook_MidPrice :: "OrderBook \<Rightarrow> 64 word" where
  "OrderBook_MidPrice ob =
     (let bidPrice = fst (OrderBook_BestBid ob); askPrice = fst (OrderBook_BestAsk ob)
      in if bidPrice = 0 \<or> askPrice = 0 then 0 else (bidPrice + askPrice) div 2)"

definition OrderBook_Spread :: "OrderBook \<Rightarrow> 64 word" where
  "OrderBook_Spread ob =
     (let bid = fst (OrderBook_BestBid ob); ask = fst (OrderBook_BestAsk ob)
      in if bid = 0 \<or> ask = 0 then 0 else ask - bid)"

text \<open>The sum of the first \<open>count\<close> quantities of a side, which wraps.\<close>

definition side_total :: "PriceLevel list \<Rightarrow> int \<Rightarrow> 64 word" where
  "side_total levels count = foldl (\<lambda>s l. s + lv_Quantity l) 0 (take (nat count) levels)"

definition OrderBook_ImbalanceRatio :: "OrderBook \<Rightarrow> f64" where
  "OrderBook_ImbalanceRatio ob =
     (let bidTotal = side_total (ob_Bids ob) (ob_BidCount ob);
          askTotal = side_total (ob_Asks ob) (ob_AskCount ob);
          total = bidTotal + askTotal
      in if total = 0 then lit (5/10)
         else float_of_int (uint bidTotal) / float_of_int (uint total))"

definition OrderBook_Reset :: "OrderBook \<Rightarrow> OrderBook" where
  "OrderBook_Reset ob = ob\<lparr>ob_BidCount := 0, ob_AskCount := 0, ob_VWAP := 0, ob_TotalVol := 0,
     ob_Bids := map (\<lambda>_. zero_level) (ob_Bids ob), ob_Asks := map (\<lambda>_. zero_level) (ob_Bids ob)\<rparr>"

section \<open>The shape of a book\<close>

datatype book_op = ObBid int "64 word" "64 word" | ObAsk int "64 word" "64 word" | ObReset

fun book_step :: "OrderBook \<Rightarrow> book_op \<Rightarrow> OrderBook" where
  "book_step ob (ObBid i p q) = OrderBook_UpdateBid ob i p q"
| "book_step ob (ObAsk i p q) = OrderBook_UpdateAsk ob i p q"
| "book_step ob ObReset = OrderBook_Reset ob"

definition book_ok :: "OrderBook \<Rightarrow> bool" where
  "book_ok ob \<longleftrightarrow> length (ob_Bids ob) = 32 \<and> length (ob_Asks ob) = 32 \<and>
     0 \<le> ob_BidCount ob \<and> ob_BidCount ob \<le> 32 \<and> 0 \<le> ob_AskCount ob \<and> ob_AskCount ob \<le> 32"

lemma book_step_ok: "book_ok ob \<Longrightarrow> book_ok (book_step ob op)"
  by (cases op) (auto simp: book_ok_def OrderBook_UpdateBid_def OrderBook_UpdateAsk_def OrderBook_Reset_def
      MaxLevels_def Let_def)

lemma book_run_ok: "book_ok (foldl book_step (NewOrderBook symb) ops)"
proof -
  have "book_ok ob \<Longrightarrow> book_ok (foldl book_step ob ops)" for ob
    by (induction ops arbitrary: ob) (simp_all add: book_step_ok)
  then show ?thesis by (simp add: book_ok_def NewOrderBook_def MaxLevels_def)
qed

lemma book_run_symbol: "ob_SymbolID (foldl book_step ob ops) = ob_SymbolID ob"
proof (induction ops arbitrary: ob)
  case (Cons op ops)
  then show ?case by (cases op) (simp_all add: OrderBook_UpdateBid_def OrderBook_UpdateAsk_def OrderBook_Reset_def
    MaxLevels_def Let_def)
qed simp

text \<open>After any updates and resets both sides keep their 32 slots and their counts stay between
  zero and the slots. The guard of the updates keeps every index inside the array.\<close>

theorem order_book_well_formed:
  "let ob = foldl book_step (NewOrderBook symb) ops in
   length (ob_Bids ob) = nat MaxLevels \<and> length (ob_Asks ob) = nat MaxLevels \<and>
   ob_BidCount ob \<in> {0..MaxLevels} \<and> ob_AskCount ob \<in> {0..MaxLevels} \<and> ob_SymbolID ob = symb"
  using book_run_ok[of symb ops] book_run_symbol[of "NewOrderBook symb" ops]
  by (simp add: Let_def book_ok_def MaxLevels_def NewOrderBook_def)

text \<open>After any updates a reset leaves exactly a new book of the symbol.\<close>

theorem Reset_is_new:
  "OrderBook_Reset (foldl book_step (NewOrderBook symb) ops) = NewOrderBook symb"
proof -
  define ob where "ob = foldl book_step (NewOrderBook symb) ops"
  have "ob_SymbolID ob = symb" by (simp add: ob_def book_run_symbol) (simp add: NewOrderBook_def)
  moreover have "length (ob_Bids ob) = 32" using book_run_ok[of symb ops] by (simp add: ob_def book_ok_def)
  ultimately show ?thesis unfolding ob_def[symmetric]
    by (simp add: OrderBook_Reset_def NewOrderBook_def MaxLevels_def map_replicate_const)
qed

section \<open>Prices that wrap\<close>

text \<open>The middle price is only right while the two prices do not wrap: then it lies between
  them, in either order.\<close>

theorem MidPrice_between:
  assumes "fst (OrderBook_BestBid ob) \<noteq> 0" "fst (OrderBook_BestAsk ob) \<noteq> 0"
    and "unat (fst (OrderBook_BestBid ob)) + unat (fst (OrderBook_BestAsk ob)) < 2 ^ 64"
  shows "min (fst (OrderBook_BestBid ob)) (fst (OrderBook_BestAsk ob)) \<le> OrderBook_MidPrice ob \<and>
    OrderBook_MidPrice ob \<le> max (fst (OrderBook_BestBid ob)) (fst (OrderBook_BestAsk ob))"
proof -
  define b a where "b = fst (OrderBook_BestBid ob)" and "a = fst (OrderBook_BestAsk ob)"
  have s: "unat (b + a) = unat b + unat a"
    using assms(3) by (simp add: unat_plus_if' flip: a_def b_def)
  have m: "unat (OrderBook_MidPrice ob) = (unat b + unat a) div 2"
    using assms(1,2) s by (simp add: OrderBook_MidPrice_def Let_def unat_div flip: a_def b_def)
  have "min (unat b) (unat a) \<le> (unat b + unat a) div 2" "(unat b + unat a) div 2 \<le> max (unat b) (unat a)" by auto
  then show ?thesis unfolding word_le_nat_alt min_def max_def m
    by (simp add: word_le_nat_alt m flip: a_def b_def split: if_splits)
qed

definition sample_book :: OrderBook where
  "sample_book = OrderBook_UpdateAsk (OrderBook_UpdateBid (NewOrderBook 1) 0 100 5) 0 104 7"

theorem MidPrice_between_witness: "100 \<le> OrderBook_MidPrice sample_book \<and> OrderBook_MidPrice sample_book \<le> 104"
  using MidPrice_between[of sample_book]
  by (simp add: sample_book_def OrderBook_UpdateAsk_def OrderBook_UpdateBid_def NewOrderBook_def MaxLevels_def
      OrderBook_BestBid_def OrderBook_BestAsk_def Let_def)

text \<open>The spread of a crossed book wraps: with the bid above the ask it is not negative or zero but
  \<open>2 ^ 64\<close> minus the difference.\<close>

theorem Spread_wraps:
  assumes "fst (OrderBook_BestBid ob) \<noteq> 0" "fst (OrderBook_BestAsk ob) \<noteq> 0"
  shows "unat (OrderBook_Spread ob) =
    (if fst (OrderBook_BestBid ob) \<le> fst (OrderBook_BestAsk ob)
     then unat (fst (OrderBook_BestAsk ob)) - unat (fst (OrderBook_BestBid ob))
     else 2 ^ 64 + unat (fst (OrderBook_BestAsk ob)) - unat (fst (OrderBook_BestBid ob)))"
proof -
  define b a where "b = fst (OrderBook_BestBid ob)" and "a = fst (OrderBook_BestAsk ob)"
  have d: "unat (a - b) = (if unat b \<le> unat a then unat a - unat b else unat a + 2 ^ 64 - unat b)"
    by (simp add: unat_sub_if')
  have "OrderBook_Spread ob = a - b" using assms by (simp add: OrderBook_Spread_def Let_def a_def b_def)
  then show ?thesis unfolding a_def[symmetric] b_def[symmetric] word_le_nat_alt using d by (simp only: add.commute)
qed

definition crossed_book :: OrderBook where
  "crossed_book = OrderBook_UpdateAsk (OrderBook_UpdateBid (NewOrderBook 1) 0 104 5) 0 100 7"

theorem Spread_wraps_witness: "unat (OrderBook_Spread crossed_book) = 2 ^ 64 - 4"
  using Spread_wraps[of crossed_book]
  by (simp add: crossed_book_def OrderBook_UpdateAsk_def OrderBook_UpdateBid_def NewOrderBook_def MaxLevels_def
      OrderBook_BestBid_def OrderBook_BestAsk_def Let_def)

section \<open>The imbalance\<close>

text \<open>While the total quantity does not wrap the imbalance is a ratio: a number from 0 to 1.\<close>

theorem ImbalanceRatio_unit:
  assumes "unat (side_total (ob_Bids ob) (ob_BidCount ob)) + unat (side_total (ob_Asks ob) (ob_AskCount ob)) < 2 ^ 64"
  shows "0 \<le> OrderBook_ImbalanceRatio ob \<and> OrderBook_ImbalanceRatio ob \<le> 1"
proof -
  define b a where "b = side_total (ob_Bids ob) (ob_BidCount ob)" and "a = side_total (ob_Asks ob) (ob_AskCount ob)"
  have "unat (b + a) = unat b + unat a" using assms by (simp add: unat_plus_if' flip: a_def b_def)
  then have "int (unat (b + a)) = int (unat b) + int (unat a)" by (simp only: of_nat_add)
  then have s: "uint (b + a) = uint b + uint a" by (simp only: uint_nat)
  have u: "0 \<le> uint b" "0 \<le> uint a" "uint (b + a) < 2 ^ 64" using uint_lt2p[of "b + a"] by simp_all
  show ?thesis
  proof (cases "b + a = 0")
    case True
    then show ?thesis by (simp add: OrderBook_ImbalanceRatio_def Let_def f64_eval flip: a_def b_def)
  next
    case False
    define t where "t = uint (b + a)"
    have "t \<noteq> 0" using False by (simp add: t_def uint_0_iff)
    moreover have "0 \<le> t" by (simp add: t_def)
    ultimately have "1 \<le> t" by linarith
    moreover have "uint b \<le> t" unfolding t_def s using u(2) by linarith
    ultimately have t: "1 \<le> t" "uint b \<le> t" "t < 2 ^ 64" using u(3) unfolding t_def by blast+
    have fin: "fin_nonneg (float_of_int n)" if "0 \<le> n" "n < 2 ^ 64" for n
      unfolding float_of_int_def
    proof (rule fin_nonneg_rnd)
      show "0 \<le> (of_int n :: rat)" using that by simp
      have "(of_int n :: rat) \<le> of_int (2 ^ 64)" using that by (simp only: of_int_le_iff)
      also have "\<dots> \<le> pow2 1000" by (simp add: pow2_nat)
      finally show "of_int n \<le> pow2 1000" .
    qed
    have le: "float_of_int (uint b) \<le> float_of_int t" unfolding float_of_int_def using t(2) by (intro rnd_mono) (simp only: of_int_le_iff)
    have "rnd 1 \<le> rnd (of_int t)" using t by (intro rnd_mono) simp
    then have one: "1 \<le> float_of_int t" by (simp add: f64_eval one_f64_def float_of_int_def)
    have f: "fin_nonneg (float_of_int (uint b))" "fin_nonneg (float_of_int t)"
      using t u(1) by (intro fin; linarith)+
    have v: "fval (float_of_int (uint b)) \<le> fval (float_of_int t)" "1 \<le> fval (float_of_int t)"
      using le one f by (simp_all add: fin_le fin_nonneg_def)
    have o: "fin_nonneg 1" by (simp add: fin_nonneg_def)
    have q: "0 \<le> fval (float_of_int (uint b)) / fval (float_of_int t)"
      "fval (float_of_int (uint b)) / fval (float_of_int t) \<le> fval 1"
      using v f by (simp_all add: fin_nonneg_def)
    have e: "feqv (float_of_int (uint b) / float_of_int t) (rnd (fval (float_of_int (uint b)) / fval (float_of_int t)))"
      using div_feqv[of "float_of_int (uint b)" "float_of_int t"] f v by (simp add: fin_nonneg_def)
    have "0 \<le> float_of_int (uint b) / float_of_int t" "float_of_int (uint b) / float_of_int t \<le> 1"
      using rnd_nonneg[OF q(1)] rnd_shrink(2)[OF o q] by (simp_all add: feqv_le[OF e])
    then show ?thesis using False by (simp add: OrderBook_ImbalanceRatio_def Let_def t_def flip: a_def b_def)
  qed
qed

theorem ImbalanceRatio_unit_witness:
  "0 \<le> OrderBook_ImbalanceRatio sample_book \<and> OrderBook_ImbalanceRatio sample_book \<le> 1"
proof -
  have r: "replicate 32 x = x # replicate 31 x" for x :: PriceLevel by (simp add: numeral_eq_Suc)
  show ?thesis
    by (rule ImbalanceRatio_unit)
      (simp add: sample_book_def OrderBook_UpdateAsk_def OrderBook_UpdateBid_def NewOrderBook_def MaxLevels_def
        side_total_def zero_level_def Let_def r)
qed

end
