(* ===== verification/Live.thy ===== *)
theory Live
  imports SignalSymbols Deployments Bars Adversarial Slippage StopLoss Hmm OrderBook
    "HOL-Library.Monad_Syntax" "HOL-Library.Multiset"
begin

text \<open>
  The live engine, \<open>internal/engine/live_engine.go\<close> and \<open>runner.go\<close>, with the replay of
  \<open>replay_engine.go\<close>: a tick goes through the regime tracker, the bars of its symbol, every
  strategy of the account, the adversarial checks, the pipeline of the theory Deployments and the
  open stops. Nothing in the program sets the hooks for machine learning (\<open>metaLabeler\<close>,
  \<open>exitOrch\<close>, \<open>regimeEnhancer\<close>, \<open>featureStore\<close>), so they are nil here and their branches are left
  out. A tick is one step. \<open>None\<close> is a panic: of a strategy, of a missing position sizer, or of a
  negative number of bars.
\<close>

section \<open>State\<close>

record GlobalRiskState =
  gs_HMMTracker :: HMMTracker
  gs_Adversarial :: AdversarialState
  gs_Halted :: bool
  gs_HaltReason :: string

definition NewGlobalRiskState :: GlobalRiskState where
  "NewGlobalRiskState = \<lparr>gs_HMMTracker = NewHMMTracker DefaultHMM, gs_Adversarial = zero_adversarial,
     gs_Halted = False, gs_HaltReason = ''''\<rparr>"

record SymbolState =
  sy_SymbolID :: "32 word"
  sy_OrderBook :: OrderBook
  sy_Aggregator :: BarAggregator
  sy_PrevPrice :: int

record LiveEngine =
  le_Symbols :: "(32 word, SymbolState) gomap"
  le_RiskState :: GlobalRiskState
  le_Running :: bool
  le_Halted :: bool
  le_PrevTickNS :: int
  le_TickCount :: int
  le_SignalCount :: int
  le_openPositions :: "(string, ActiveStop) gomap"
  le_lastVIX :: f64
  le_lastSentiment :: f64
  le_lastCVD :: f64
  le_lastVolStructure :: f64
  le_lastDay :: "int option"
  le_StrategyHash :: string
  le_KellyFraction :: f64
  le_runningCapital :: f64
  le_pipeline :: "live_pipeline option"
  le_multiPool :: "MultiAccountCapitalPool option"
  le_accountRegistries :: "(string, Registry) gomap"
  le_defaultRegistry :: "Registry option"
  le_slippageModel :: SlippageModel
  le_slippageSampleCount :: int
  le_warmUpCount :: int
  le_warmUpTicks :: "(32 word, int) gomap"
  le_stopLossCfg :: "StopLossConfig option"

text \<open>
  The outside of the engine: the indicators, \<open>math.Exp\<close>, the factories of the global registry in
  the order in which the iteration over the map visits them, and the readings of the clock.
\<close>

record LiveEnv =
  lv_Lib :: Lib
  lv_Exp :: "f64 \<Rightarrow> f64"
  lv_Factories :: "(string, Strategy) gomap"
  lv_Clock :: "nat \<Rightarrow> int"

definition NewLiveEngine :: LiveEngine where
  "NewLiveEngine = \<lparr>le_Symbols = [], le_RiskState = NewGlobalRiskState, le_Running = False, le_Halted = False,
     le_PrevTickNS = 0, le_TickCount = 0, le_SignalCount = 0, le_openPositions = [],
     le_lastVIX = 0, le_lastSentiment = 0, le_lastCVD = 0, le_lastVolStructure = 0, le_lastDay = None,
     le_StrategyHash = '''', le_KellyFraction = lit (25/100), le_runningCapital = lit 100000,
     le_pipeline = None, le_multiPool = None, le_accountRegistries = [], le_defaultRegistry = None,
     le_slippageModel = \<lparr>sm_Type = '''', sm_SpreadBps = 0, sm_MaxSlippage = 0, sm_LatencyMs = 0,
       sm_VolumeImpactFactor = 0, sm_AdverseSelectBps = 0\<rparr>, le_slippageSampleCount = 0,
     le_warmUpCount = 20, le_warmUpTicks = [],
     le_stopLossCfg = Some \<lparr>sc_Type = StopLossATR, sc_StopPoints = 0, sc_StopPercent = 0, sc_ATRPeriod = 14,
       sc_ATRMultiplier = lit 2, sc_TrailActivation = 0, sc_TrailDistance = 0\<rparr>\<rparr>"

definition LiveEngine_SetRiskPipeline :: "LiveEngine \<Rightarrow> live_pipeline \<Rightarrow> LiveEngine" where
  "LiveEngine_SetRiskPipeline e p = e\<lparr>le_pipeline := Some p\<rparr>"

definition LiveEngine_SetMultiAccountPool :: "LiveEngine \<Rightarrow> MultiAccountCapitalPool \<Rightarrow> LiveEngine" where
  "LiveEngine_SetMultiAccountPool e mp = e\<lparr>le_multiPool := Some mp\<rparr>"

text \<open>The wiring of the server, \<open>internal/api/router.go\<close>: without a multi-account pool the engine gets no
  pipeline. The prop firm manager of the server is set. The callback it registers with the kill switch
  marks every pool as violated; the pool is shared with the engine.\<close>

definition Server_SetLiveEngine :: "MultiAccountCapitalPool option \<Rightarrow> manager \<Rightarrow> LiveEngine \<Rightarrow> LiveEngine" where
  "Server_SetLiveEngine multiCapitalPool mgr le = (case multiCapitalPool of None \<Rightarrow> le
     | Some mcp \<Rightarrow> LiveEngine_SetRiskPipeline (LiveEngine_SetMultiAccountPool le mcp) (SetLiveEngine_pipeline mgr))"

definition Server_kill_callback :: "LiveEngine \<Rightarrow> string \<Rightarrow> LiveEngine" where
  "Server_kill_callback le reason =
     le\<lparr>le_multiPool := map_option (\<lambda>mcp. MultiAccountCapitalPool_MarkAllViolated mcp reason) (le_multiPool le)\<rparr>"

definition LiveEngine_SetRunningCapital :: "LiveEngine \<Rightarrow> f64 \<Rightarrow> LiveEngine" where
  "LiveEngine_SetRunningCapital e capital = e\<lparr>le_runningCapital := capital\<rparr>"

definition LiveEngine_GetRunningCapital :: "LiveEngine \<Rightarrow> f64" where
  "LiveEngine_GetRunningCapital e = le_runningCapital e"

definition LiveEngine_SetWarmUpBars :: "LiveEngine \<Rightarrow> int \<Rightarrow> LiveEngine" where
  "LiveEngine_SetWarmUpBars e n = e\<lparr>le_warmUpCount := n\<rparr>"

definition LiveEngine_SetStopLossConfig :: "LiveEngine \<Rightarrow> StopLossConfig option \<Rightarrow> LiveEngine" where
  "LiveEngine_SetStopLossConfig e cfg = e\<lparr>le_stopLossCfg := cfg\<rparr>"

definition LiveEngine_SetSlippageModel :: "LiveEngine \<Rightarrow> SlippageModel \<Rightarrow> LiveEngine" where
  "LiveEngine_SetSlippageModel e m = e\<lparr>le_slippageModel := m, le_slippageSampleCount := 0\<rparr>"

definition LiveEngine_GetSlippageModel :: "LiveEngine \<Rightarrow> SlippageModel" where
  "LiveEngine_GetSlippageModel e = le_slippageModel e"

definition LiveEngine_UpdateRegimeInputs :: "LiveEngine \<Rightarrow> f64 \<Rightarrow> f64 \<Rightarrow> f64 \<Rightarrow> f64 \<Rightarrow> LiveEngine" where
  "LiveEngine_UpdateRegimeInputs e vix sentiment cvd volStructure = e\<lparr>le_lastVIX := vix,
     le_lastSentiment := sentiment, le_lastCVD := cvd, le_lastVolStructure := volStructure\<rparr>"

section \<open>Running and halting\<close>

datatype live_error = AlreadyRunning | NotRunning | EngineHalted
  | HashEmpty | HashDeployed string string | HashFailed string | HashComputed string string

definition LiveEngine_Start :: "LiveEngine \<Rightarrow> live_error + LiveEngine" where
  "LiveEngine_Start e = (if le_Running e then Inl AlreadyRunning else Inr (e\<lparr>le_Running := True, le_Halted := False\<rparr>))"

definition LiveEngine_Pause :: "LiveEngine \<Rightarrow> LiveEngine" where
  "LiveEngine_Pause e = e\<lparr>le_Halted := True\<rparr>"

definition LiveEngine_Stop :: "LiveEngine \<Rightarrow> LiveEngine" where
  "LiveEngine_Stop e = e\<lparr>le_Running := False\<rparr>"

definition LiveEngine_IsRunning :: "LiveEngine \<Rightarrow> bool" where
  "LiveEngine_IsRunning e \<longleftrightarrow> le_Running e \<and> \<not> le_Halted e"

definition LiveEngine_Health :: "LiveEngine \<Rightarrow> live_error option" where
  "LiveEngine_Health e = (if \<not> le_Running e then Some NotRunning else if le_Halted e then Some EngineHalted else None)"

definition LiveEngine_Halt :: "LiveEngine \<Rightarrow> string \<Rightarrow> LiveEngine" where
  "LiveEngine_Halt e reason = e\<lparr>le_Halted := True,
     le_RiskState := (le_RiskState e)\<lparr>gs_Halted := True, gs_HaltReason := reason\<rparr>, le_openPositions := []\<rparr>"

definition LiveEngine_Resume :: "LiveEngine \<Rightarrow> LiveEngine" where
  "LiveEngine_Resume e = e\<lparr>le_Halted := False,
     le_RiskState := (le_RiskState e)\<lparr>gs_Halted := False, gs_HaltReason := ''''\<rparr>\<rparr>"

text \<open>\<open>hash.ComputeInstanceHash\<close> reads a file: a parameter that returns its error or the hash.\<close>

definition LiveEngine_VerifyStrategyHash ::
  "(string \<Rightarrow> string + string) \<Rightarrow> LiveEngine \<Rightarrow> string \<Rightarrow> string \<Rightarrow> live_error option \<times> LiveEngine" where
  "LiveEngine_VerifyStrategyHash compute e gkrPath expected =
     (if expected = '''' then (Some HashEmpty, e)
      else if le_StrategyHash e \<noteq> '''' \<and> le_StrategyHash e \<noteq> expected
      then (Some (HashDeployed (le_StrategyHash e) expected), e)
      else (case compute gkrPath of Inl err \<Rightarrow> (Some (HashFailed err), e)
        | Inr actual \<Rightarrow> if actual \<noteq> expected then (Some (HashComputed actual expected), e)
            else (None, e\<lparr>le_StrategyHash := actual\<rparr>)))"

section \<open>Registries\<close>

text \<open>The strategies of an account: one instance per factory, kept under its own name.\<close>

definition configured_strategy :: "(string, params) gomap \<Rightarrow> string \<times> Strategy \<Rightarrow> Strategy" where
  "configured_strategy ps f = (case mlookup ps (fst f) of None \<Rightarrow> snd f
     | Some accountParams \<Rightarrow> Strategy_SetRegimeExitParams (Strategy_SetParams (snd f) accountParams) accountParams)"

definition account_registry :: "(string, params) gomap \<Rightarrow> (string, Strategy) gomap \<Rightarrow> Registry" where
  "account_registry ps factories = foldl (\<lambda>reg f. Registry_Register reg (configured_strategy ps f)) NewRegistry factories"

definition account_participation :: "(string, params) gomap \<Rightarrow> (string, Strategy) gomap \<Rightarrow> live_pipeline \<Rightarrow> live_pipeline" where
  "account_participation ps factories p = foldl (\<lambda>p (name, _). case mlookup ps name of None \<Rightarrow> p
     | Some accountParams \<Rightarrow> if rp_RegimeMatrix p = None then p
         else p\<lparr>rp_RegimeMatrix := ApplyRegimeParticipation (rp_RegimeMatrix p) name accountParams\<rparr>) p factories"

definition LiveEngine_RegisterAccountStrategies ::
  "LiveEnv \<Rightarrow> LiveEngine \<Rightarrow> string \<Rightarrow> (string, params) gomap \<Rightarrow> LiveEngine" where
  "LiveEngine_RegisterAccountStrategies env e accountID ps =
     e\<lparr>le_pipeline := map_option (account_participation ps (lv_Factories env)) (le_pipeline e),
       le_accountRegistries := mput (le_accountRegistries e) accountID (account_registry ps (lv_Factories env))\<rparr>"

definition LiveEngine_getRegistryForAccount :: "LiveEnv \<Rightarrow> LiveEngine \<Rightarrow> string \<Rightarrow> Registry \<times> LiveEngine" where
  "LiveEngine_getRegistryForAccount env e accountID = (case mlookup (le_accountRegistries e) accountID of
       Some reg \<Rightarrow> (reg, e)
     | None \<Rightarrow> (case le_defaultRegistry e of Some reg \<Rightarrow> (reg, e)
         | None \<Rightarrow> (let reg = account_registry [] (lv_Factories env) in (reg, e\<lparr>le_defaultRegistry := Some reg\<rparr>))))"

text \<open>A registry is a pointer: its strategies change in the place it was found in.\<close>

definition store_registry :: "LiveEngine \<Rightarrow> string \<Rightarrow> Registry \<Rightarrow> LiveEngine" where
  "store_registry e accountID reg = (if mlookup (le_accountRegistries e) accountID = None
     then e\<lparr>le_defaultRegistry := Some reg\<rparr> else e\<lparr>le_accountRegistries := mput (le_accountRegistries e) accountID reg\<rparr>)"

section \<open>The head of a tick\<close>

definition LiveEngine_GetOrCreateSymbol :: "LiveEngine \<Rightarrow> 32 word \<Rightarrow> SymbolState \<times> LiveEngine" where
  "LiveEngine_GetOrCreateSymbol e symbolID = (case mlookup (le_Symbols e) symbolID of Some s \<Rightarrow> (s, e)
     | None \<Rightarrow> (let s = \<lparr>sy_SymbolID = symbolID, sy_OrderBook = NewOrderBook symbolID,
           sy_Aggregator = NewBarAggregator symbolID, sy_PrevPrice = 0\<rparr>
         in (s, e\<lparr>le_Symbols := mput (le_Symbols e) symbolID s\<rparr>)))"

definition LiveEngine_observe ::
  "LiveEnv \<Rightarrow> LiveEngine \<Rightarrow> 32 word \<Rightarrow> 64 word \<Rightarrow> 64 word \<Rightarrow> int \<Rightarrow> SymbolState \<times> LiveEngine" where
  "LiveEngine_observe env e symbolID priceRaw volumeRaw timestampNS =
     (let (s, e) = LiveEngine_GetOrCreateSymbol e symbolID;
          rs = le_RiskState e;
          rs = (if sy_PrevPrice s > 0
            then rs\<lparr>gs_HMMTracker := HMMTracker_Update (lv_Exp env) (gs_HMMTracker rs) (sint priceRaw) (sy_PrevPrice s)\<rparr>
            else rs);
          s = s\<lparr>sy_PrevPrice := sint priceRaw,
                sy_Aggregator := BarAggregator_AddTick (sy_Aggregator s) priceRaw volumeRaw timestampNS\<rparr>
      in (s, e\<lparr>le_RiskState := rs, le_Symbols := mput (le_Symbols e) symbolID s\<rparr>))"

definition pipeline_new_day :: "live_pipeline \<Rightarrow> live_pipeline" where
  "pipeline_new_day p = (case rp_Capital p of None \<Rightarrow> p | Some (G, c) \<Rightarrow> p\<lparr>rp_Capital := Some (G, cg_ResetDaily G c)\<rparr>)"

definition LiveEngine_newDay :: "LiveEngine \<Rightarrow> int \<Rightarrow> LiveEngine" where
  "LiveEngine_newDay e currentDay =
     (let e = (if le_lastDay e \<noteq> None \<and> le_lastDay e \<noteq> Some currentDay
        then e\<lparr>le_pipeline := map_option pipeline_new_day (le_pipeline e),
               le_multiPool := map_option MultiAccountCapitalPool_ResetAllDaily (le_multiPool e)\<rparr> else e)
      in e\<lparr>le_lastDay := Some currentDay\<rparr>)"

definition pipeline_market :: "live_pipeline \<Rightarrow> f64 \<Rightarrow> int \<Rightarrow> live_pipeline option" where
  "pipeline_market p vix regime = (case rp_SignalGate p of None \<Rightarrow> Some p
     | Some (G, g) \<Rightarrow> do {
         g \<leftarrow> SignalGateImpl_SetVIX g vix;
         g \<leftarrow> SignalGateImpl_SetRegime g regime;
         Some (p\<lparr>rp_SignalGate := Some (G, g)\<rparr>)
       })"

definition LiveEngine_market :: "LiveEngine \<Rightarrow> int \<Rightarrow> LiveEngine option" where
  "LiveEngine_market e regime = (case le_pipeline e of None \<Rightarrow> Some e
     | Some p \<Rightarrow> do { p \<leftarrow> pipeline_market p (le_lastVIX e) regime; Some (e\<lparr>le_pipeline := Some p\<rparr>) })"

text \<open>The strategies of the account see the volatility index and then the last completed minute.\<close>

definition LiveEngine_evaluate ::
  "LiveEnv \<Rightarrow> LiveEngine \<Rightarrow> string \<Rightarrow> Candle \<Rightarrow> int \<Rightarrow> (Signal list \<times> LiveEngine) option" where
  "LiveEngine_evaluate env e accountID c regime =
     (let (reg, e) = LiveEngine_getRegistryForAccount env e accountID;
          reg = reg\<lparr>rg_entries := mmap_vals (\<lambda>s. Strategy_SetVIX s (le_lastVIX e)) (rg_entries reg)\<rparr>
      in map_option (\<lambda>(sigs, reg). (sigs, store_registry e accountID reg)) (Registry_EvaluateAll (lv_Lib env) reg c regime))"

section \<open>The signals of a tick\<close>

text \<open>The loop of the adversarial checks: the reason of a kill, or the signals that pass.\<close>

fun adversarial_pass :: "AdversarialState \<Rightarrow> 32 word \<Rightarrow> int \<Rightarrow> Signal list \<Rightarrow> (string + Signal list) \<times> AdversarialState" where
  "adversarial_pass st symbolID now [] = (Inr [], st)"
| "adversarial_pass st symbolID now (sig # sigs) =
     (let (adv, st) = CheckAdversarial st (word_of_int (int64_of_float (sl_Quantity sig))) symbolID now in
      if ar_TriggerKill adv then (Inl (ar_Reason adv), st)
      else let (rest, st) = adversarial_pass st symbolID now sigs in
        (case rest of Inl reason \<Rightarrow> Inl reason | Inr out \<Rightarrow> Inr (if ar_Reject adv then out else sig # out), st))"

text \<open>Without a pipeline the quantity is scaled by the confidence and the Kelly fraction.\<close>

definition kelly_signal :: "f64 \<Rightarrow> Signal \<Rightarrow> Signal" where
  "kelly_signal kelly sig =
     (let pWin = (if sl_PWin sig \<le> 0 then lit (5/10) else sl_PWin sig)
      in sig\<lparr>sl_Quantity := sl_Quantity sig * math_min (pWin * lit (15/10)) 1 * kelly\<rparr>)"

definition LiveEngine_size :: "LiveEnv \<Rightarrow> LiveEngine \<Rightarrow> Candle \<Rightarrow> int \<Rightarrow> Signal list \<Rightarrow> Signal list \<times> LiveEngine" where
  "LiveEngine_size env e c regime passed = (case le_pipeline e of
       Some p \<Rightarrow> (let (out, p) = live_filter (p\<lparr>rp_CurrentRegime := regime\<rparr>)
           (zip passed (map (lv_Clock env) [0..<length passed])) (ca_Close c) (le_runningCapital e)
         in (out, e\<lparr>le_pipeline := Some p\<rparr>))
     | None \<Rightarrow> (let kelly = (if le_KellyFraction e \<le> 0 then lit (25/100) else le_KellyFraction e)
         in (map (kelly_signal kelly) passed, e)))"

section \<open>Open stops\<close>

definition live_ATR :: "LiveEngine \<Rightarrow> SymbolState \<Rightarrow> f64 option" where
  "live_ATR e s = (case le_stopLossCfg e of None \<Rightarrow> Some 0
     | Some cfg \<Rightarrow> if sc_Type cfg = StopLossATR \<and> sc_ATRPeriod cfg > 0
         then map_option (\<lambda>bars. if int (length bars) \<ge> sc_ATRPeriod cfg + 1
             then ComputeATR (BarsToCandles bars) (sc_ATRPeriod cfg) else 0)
           (BarAggregator_GetBars (sy_Aggregator s) ''1m'' (sc_ATRPeriod cfg + 1))
         else Some 0)"

text \<open>Every approved signal with a side is tracked as a position at the price of the bar.\<close>

definition track_signal :: "StopLossConfig option \<Rightarrow> f64 \<Rightarrow> f64 \<Rightarrow> f64 \<Rightarrow> (string, ActiveStop) gomap \<Rightarrow> Signal \<Rightarrow>
    (string, ActiveStop) gomap" where
  "track_signal cfg price atrVal high positions sig =
     (let side = sl_Side sig in
      if side = ''BUY'' \<or> side = ''SELL''
      then let (stopPrice, stopType) = (case cfg of None \<Rightarrow> (0, '''')
                 | Some k \<Rightarrow> (CalculateStopPrice price side cfg atrVal high, sc_Type k));
               (stopPrice, stopType) = (if stopPrice \<le> 0
                 then (if side = ''SELL'' then price * lit (102/100) else price * lit (98/100), StopLossFixed)
                 else (stopPrice, stopType))
           in mput positions (sl_Symbol sig) \<lparr>as_TradeID = 0, as_EntryPrice = PriceFromFloat price, as_Side = side,
                as_StopPrice = PriceFromFloat stopPrice, as_TakePrice = 0, as_PeakPrice = PriceFromFloat price,
                as_ATRValue = 0, as_StopType = stopType, as_TakeType = ''''\<rparr>
      else positions)"

definition stop_signal :: "string \<times> ActiveStop \<Rightarrow> Signal" where
  "stop_signal q = \<lparr>sl_Symbol = fst q, sl_Side = (if as_Side (snd q) = ''SELL'' then ''BUY'' else ''SELL''), sl_Quantity = 0,
     sl_Action = SignalNone, sl_PWin = 0, sl_StrategyID = '''', sl_StopLoss = 0, sl_TakeProfit = 0\<rparr>"

definition stop_hit :: "Candle \<Rightarrow> string \<times> ActiveStop \<Rightarrow> bool" where
  "stop_hit c q = fst (CheckStopHit c (Some (snd q)))"

definition LiveEngine_CheckOpenStops ::
  "LiveEngine \<Rightarrow> SymbolState \<Rightarrow> Candle \<Rightarrow> Signal list \<Rightarrow> (Signal list \<times> LiveEngine) option" where
  "LiveEngine_CheckOpenStops e s c passed =
     (let price = Price_Float64 (ca_Close c) in
      if price \<le> 0 then Some (passed, e)
      else do {
        atrVal \<leftarrow> live_ATR e s;
        let positions = foldl (track_signal (le_stopLossCfg e) price atrVal (Price_Float64 (ca_High c))) (le_openPositions e) passed;
        Some (passed @ map stop_signal (filter (stop_hit c) positions),
              e\<lparr>le_openPositions := filter (\<lambda>q. \<not> stop_hit c q) positions\<rparr>)
      })"

section \<open>A tick\<close>

definition LiveEngine_act :: "LiveEnv \<Rightarrow> LiveEngine \<Rightarrow> SymbolState \<Rightarrow> 32 word \<Rightarrow> Candle \<Rightarrow> int \<Rightarrow> int \<Rightarrow> Signal list \<Rightarrow>
    (Signal list \<times> LiveEngine) option" where
  "LiveEngine_act env e s symbolID c regime timestampNS signals =
     (let (checked, adv) = adversarial_pass (gs_Adversarial (le_RiskState e)) symbolID timestampNS signals;
          e = e\<lparr>le_RiskState := (le_RiskState e)\<lparr>gs_Adversarial := adv\<rparr>\<rparr> in
      case checked of
        Inl reason \<Rightarrow> Some ([], e\<lparr>le_Halted := True,
          le_RiskState := (le_RiskState e)\<lparr>gs_Halted := True, gs_HaltReason := reason\<rparr>\<rparr>)
      | Inr passed \<Rightarrow> do {
          let (passed, e) = LiveEngine_size env e c regime passed;
          (passed, e) \<leftarrow> LiveEngine_CheckOpenStops e s c passed;
          Some (passed, e\<lparr>le_TickCount := le_TickCount e + 1,
            le_SignalCount := le_SignalCount e + int (length passed), le_PrevTickNS := timestampNS\<rparr>)
        })"

definition LiveEngine_ProcessTickForAccount ::
  "LiveEnv \<Rightarrow> LiveEngine \<Rightarrow> string \<Rightarrow> 32 word \<Rightarrow> 64 word \<Rightarrow> 64 word \<Rightarrow> int \<Rightarrow> (Signal list \<times> LiveEngine) option" where
  "LiveEngine_ProcessTickForAccount env e accountID symbolID priceRaw volumeRaw timestampNS =
     (if le_Halted e then Some ([], e)
      else do {
        let (s, e) = LiveEngine_observe env e symbolID priceRaw volumeRaw timestampNS;
        let regime = ht_CurrentState (gs_HMMTracker (le_RiskState e));
        let c = BarToCandle (BarAggregator_GetLatestBar (sy_Aggregator s) ''1m'');
        let e = LiveEngine_newDay e (day_of timestampNS);
        e \<leftarrow> LiveEngine_market e regime;
        let ticks = mget 0 (le_warmUpTicks e) symbolID + 1;
        let e = e\<lparr>le_warmUpTicks := mput (le_warmUpTicks e) symbolID ticks\<rparr>;
        (signals, e) \<leftarrow> LiveEngine_evaluate env e accountID c regime;
        if ticks < le_warmUpCount e then Some ([], e)
        else LiveEngine_act env e s symbolID c regime timestampNS signals
      })"

definition LiveEngine_ProcessTick ::
  "LiveEnv \<Rightarrow> LiveEngine \<Rightarrow> 32 word \<Rightarrow> 64 word \<Rightarrow> 64 word \<Rightarrow> int \<Rightarrow> (Signal list \<times> LiveEngine) option" where
  "LiveEngine_ProcessTick env e symbolID priceRaw volumeRaw timestampNS =
     LiveEngine_ProcessTickForAccount env e ''default'' symbolID priceRaw volumeRaw timestampNS"

section \<open>Fills\<close>

definition LiveEngine_SignalOutcome :: "LiveEngine \<Rightarrow> string \<Rightarrow> string \<Rightarrow> f64 \<Rightarrow> int \<times> LiveEngine" where
  "LiveEngine_SignalOutcome e symbol side pnl =
     (let price = (case mlookup (le_openPositions e) symbol of None \<Rightarrow> 0 | Some q \<Rightarrow> Price_Float64 (as_EntryPrice q))
      in (if pnl > 0 then 1 else 0,
          e\<lparr>le_pipeline := map_option (\<lambda>p. RiskPipeline_ReconcileFill p ''global'' symbol side pnl 1 price) (le_pipeline e)\<rparr>))"

definition LiveEngine_RecordSlippageObservation :: "LiveEngine \<Rightarrow> f64 \<Rightarrow> f64 \<Rightarrow> LiveEngine" where
  "LiveEngine_RecordSlippageObservation e expectedPrice actualPrice =
     (if expectedPrice \<le> 0 \<or> actualPrice \<le> 0 then e
      else let observedBps = (actualPrice - expectedPrice) / expectedPrice * lit 10000;
               observedBps = (if observedBps < 0 then - observedBps else observedBps);
               n = le_slippageSampleCount e + 1
           in e\<lparr>le_slippageSampleCount := n,
                le_slippageModel := CalibrateSlippageModel (le_slippageModel e) observedBps n\<rparr>)"

definition record_all_accounts ::
  "MultiAccountCapitalPool \<Rightarrow> string \<Rightarrow> string \<Rightarrow> string \<Rightarrow> f64 \<Rightarrow> f64 \<Rightarrow> MultiAccountCapitalPool" where
  "record_all_accounts mp strategyID symbol side pnl quantity =
     foldl (\<lambda>mp aid. snd (MultiAccountCapitalPool_RecordFill mp aid strategyID symbol side pnl quantity))
       mp (MultiAccountCapitalPool_AccountIDs mp)"

definition LiveEngine_ReconcileLiveFill ::
  "LiveEngine \<Rightarrow> string \<Rightarrow> string \<Rightarrow> string \<Rightarrow> f64 \<Rightarrow> f64 \<Rightarrow> f64 \<Rightarrow> LiveEngine" where
  "LiveEngine_ReconcileLiveFill e strategyID symbol side pnl quantity price = (case le_pipeline e of None \<Rightarrow> e
     | Some p \<Rightarrow>
        (let e = e\<lparr>le_pipeline := Some (RiskPipeline_ReconcileFill p strategyID symbol side pnl quantity price)\<rparr>;
             e = (case mlookup (le_openPositions e) symbol of None \<Rightarrow> e
               | Some q \<Rightarrow> LiveEngine_RecordSlippageObservation e (Price_Float64 (as_EntryPrice q)) price)
         in e\<lparr>le_multiPool := map_option (\<lambda>mp. record_all_accounts mp strategyID symbol side pnl quantity) (le_multiPool e)\<rparr>))"

section \<open>Replay\<close>

record SyntheticTick =
  tk_TimestampMS :: int
  tk_Price :: price
  tk_Bid :: price
  tk_Ask :: price
  tk_Volume :: int
  tk_Symbol :: string

text \<open>The loop of \<open>Replay\<close> without its pauses: new symbols are numbered as they come.\<close>

fun replay_ticks :: "LiveEnv \<Rightarrow> (string, 32 word) gomap \<Rightarrow> LiveEngine \<Rightarrow> SyntheticTick list \<Rightarrow> (Signal list \<times> LiveEngine) option" where
  "replay_ticks env m e [] = Some ([], e)"
| "replay_ticks env m e (t # ts) =
     (let (symbolID, m) = (case mlookup m (tk_Symbol t) of Some i \<Rightarrow> (i, m)
        | None \<Rightarrow> (let i = of_nat (length m + 1) in (i, mput m (tk_Symbol t) i)))
      in (case LiveEngine_ProcessTick env e symbolID (word_of_int (tk_Price t)) (word_of_int (tk_Volume t))
              (wrap64 (tk_TimestampMS t * 1000000)) of
            None \<Rightarrow> None
          | Some (sigs, e) \<Rightarrow> map_option (\<lambda>(rest, e). (sigs @ rest, e)) (replay_ticks env m e ts)))"

definition ReplayEngine_Replay :: "LiveEnv \<Rightarrow> (string, 32 word) gomap \<Rightarrow> LiveEngine \<Rightarrow> SyntheticTick list \<Rightarrow>
    (string + Signal list \<times> LiveEngine) option" where
  "ReplayEngine_Replay env m e ts = (if ts = [] then Some (Inl ''no ticks to replay'')
     else map_option Inr (replay_ticks env m e ts))"

section \<open>One slot for all positions\<close>

text \<open>What happens to a live engine between two observations of it.\<close>

datatype live_event =
    EvTick string "32 word" "64 word" "64 word" int
  | EvAccount string "(string, params) gomap"
  | EvKill string | EvHalt string | EvResume | EvStart | EvPause | EvStop
  | EvCapital f64 | EvWarmUp int | EvStops "StopLossConfig option"
  | EvInputs f64 f64 f64 f64
  | EvOutcome string string f64
  | EvFill string string string f64 f64 f64

text \<open>The engine after an event; \<open>None\<close> after a panic.\<close>

fun live_happens :: "LiveEnv \<Rightarrow> LiveEngine \<Rightarrow> live_event \<Rightarrow> LiveEngine option" where
  "live_happens env e (EvTick acc symbolID price volume ts) =
     map_option snd (LiveEngine_ProcessTickForAccount env e acc symbolID price volume ts)"
| "live_happens env e (EvAccount acc ps) = Some (LiveEngine_RegisterAccountStrategies env e acc ps)"
| "live_happens env e (EvKill reason) = Some (Server_kill_callback e reason)"
| "live_happens env e (EvHalt reason) = Some (LiveEngine_Halt e reason)"
| "live_happens env e EvResume = Some (LiveEngine_Resume e)"
| "live_happens env e EvStart = Some (case LiveEngine_Start e of Inl _ \<Rightarrow> e | Inr e' \<Rightarrow> e')"
| "live_happens env e EvPause = Some (LiveEngine_Pause e)"
| "live_happens env e EvStop = Some (LiveEngine_Stop e)"
| "live_happens env e (EvCapital capital) = Some (LiveEngine_SetRunningCapital e capital)"
| "live_happens env e (EvWarmUp n) = Some (LiveEngine_SetWarmUpBars e n)"
| "live_happens env e (EvStops cfg) = Some (LiveEngine_SetStopLossConfig e cfg)"
| "live_happens env e (EvInputs vix s cvd v) = Some (LiveEngine_UpdateRegimeInputs e vix s cvd v)"
| "live_happens env e (EvOutcome symb side pnl) = Some (snd (LiveEngine_SignalOutcome e symb side pnl))"
| "live_happens env e (EvFill sid symb side pnl qty price) = Some (LiveEngine_ReconcileLiveFill e sid symb side pnl qty price)"

fun live_run :: "LiveEnv \<Rightarrow> LiveEngine \<Rightarrow> live_event list \<Rightarrow> LiveEngine option" where
  "live_run env e [] = Some e"
| "live_run env e (ev # evs) = (case live_happens env e ev of None \<Rightarrow> None | Some e' \<Rightarrow> live_run env e' evs)"

text \<open>An invariant of the events is one of the runs.\<close>

lemma live_run_invariant:
  assumes "\<And>e ev e'. live_happens env e ev = Some e' \<Longrightarrow> P e \<Longrightarrow> P e'"
  shows "live_run env e evs = Some e' \<Longrightarrow> P e \<Longrightarrow> P e'"
  by (induction evs arbitrary: e) (auto split: option.splits intro: assms)

text \<open>What the parts of a tick leave alone.\<close>

lemma observe_frame [frame_simps]:
  assumes "LiveEngine_observe env e sid pr vol ts = (s, e')"
  shows "le_openPositions e' = le_openPositions e" "le_pipeline e' = le_pipeline e"
  using assms by (auto simp: LiveEngine_observe_def LiveEngine_GetOrCreateSymbol_def Let_def case_prod_beta split: option.splits)

lemma newDay_frame [frame_simps]:
  "le_openPositions (LiveEngine_newDay e d) = le_openPositions e"
  "le_pipeline (LiveEngine_newDay e d) = None \<longleftrightarrow> le_pipeline e = None"
  by (simp_all add: LiveEngine_newDay_def Let_def)

lemma market_frame:
  assumes "LiveEngine_market e regime = Some e'"
  shows "le_openPositions e' = le_openPositions e"
  using assms by (auto simp: LiveEngine_market_def split: option.splits bind_splits)

lemma registry_frame [frame_simps]:
  assumes "LiveEngine_getRegistryForAccount env e acc = (reg, e')"
  shows "le_openPositions e' = le_openPositions e" "le_pipeline e' = le_pipeline e"
  using assms by (auto simp: LiveEngine_getRegistryForAccount_def Let_def split: option.splits)

lemma store_frame [frame_simps]:
  "le_openPositions (store_registry e acc reg) = le_openPositions e" "le_pipeline (store_registry e acc reg) = le_pipeline e"
  by (simp_all add: store_registry_def)

lemma evaluate_frame:
  assumes "LiveEngine_evaluate env e acc c regime = Some (sigs, e')"
  shows "le_openPositions e' = le_openPositions e" "le_pipeline e' = le_pipeline e"
    "sig \<in> set sigs \<Longrightarrow> sl_Symbol sig = ca_Symbol c"
proof -
  obtain reg e1 where r: "LiveEngine_getRegistryForAccount env e acc = (reg, e1)" by force
  then show "le_openPositions e' = le_openPositions e" "le_pipeline e' = le_pipeline e"
    "sig \<in> set sigs \<Longrightarrow> sl_Symbol sig = ca_Symbol c"
    using assms registry_frame[OF r]
    by (auto simp: LiveEngine_evaluate_def Let_def frame_simps dest: EvaluateAll_about)
qed

lemma adversarial_pass_subset:
  "adversarial_pass st sid now sigs = (Inr out, st') \<Longrightarrow> set out \<subseteq> set sigs"
proof (induction sigs arbitrary: st out st')
  case (Cons sig sigs)
  obtain adv st1 where c: "CheckAdversarial st (word_of_int (int64_of_float (sl_Quantity sig))) sid now = (adv, st1)" by force
  obtain rest st2 where r: "adversarial_pass st1 sid now sigs = (rest, st2)" by force
  obtain out1 where o: "rest = Inr out1" "out = (if ar_Reject adv then out1 else sig # out1)"
    using Cons.prems by (auto simp: c r split: if_splits sum.splits)
  then have "set out1 \<subseteq> set sigs" using Cons.IH r by blast
  then show ?case by (auto simp: o(2))
qed simp

lemma live_filter_symbols:
  "sig \<in> set (fst (live_filter p sigs close capital)) \<Longrightarrow> \<exists>s\<in>set sigs. sl_Symbol sig = sl_Symbol (fst s)"
proof (induction sigs arbitrary: p)
  case (Cons s sigs)
  then show ?case by (cases s) (force simp: Let_def case_prod_beta split: if_splits)
qed simp

lemma kelly_symbol [simp]: "sl_Symbol (kelly_signal k sig) = sl_Symbol sig"
  by (simp add: kelly_signal_def Let_def)

lemma size_frame:
  assumes "LiveEngine_size env e c regime sigs = (out, e')"
  shows "le_openPositions e' = le_openPositions e" "le_stopLossCfg e' = le_stopLossCfg e"
    "sig \<in> set out \<Longrightarrow> \<exists>s\<in>set sigs. sl_Symbol sig = sl_Symbol s"
proof -
  show "le_openPositions e' = le_openPositions e" "le_stopLossCfg e' = le_stopLossCfg e"
    using assms by (auto simp: LiveEngine_size_def Let_def case_prod_beta split: option.splits)
  show "\<exists>s\<in>set sigs. sl_Symbol sig = sl_Symbol s" if "sig \<in> set out"
    using assms that
    by (fastforce simp: LiveEngine_size_def Let_def case_prod_beta dest: live_filter_symbols set_zip_leftD split: option.splits)
qed

definition one_slot :: "(string, ActiveStop) gomap \<Rightarrow> bool" where
  "one_slot m \<longleftrightarrow> m = [] \<or> (\<exists>q. m = [('''', q)])"

lemma one_slot_track:
  assumes "one_slot m" "\<And>sig. sig \<in> set sigs \<Longrightarrow> sl_Symbol sig = ''''"
  shows "one_slot (foldl (track_signal cfg price atr high) m sigs)"
proof -
  have put: "one_slot (mput m [] q)" if "one_slot m" for m q
    using that by (auto simp: one_slot_def mput_def)
  have "one_slot (track_signal cfg price atr high m sig)" if "one_slot m" "sl_Symbol sig = ''''" for m sig
    using that by (simp add: track_signal_def put Let_def case_prod_beta)
  then show ?thesis using assms by (induction sigs arbitrary: m) auto
qed

lemma one_slot_filter: "one_slot m \<Longrightarrow> one_slot (filter P m)"
  by (auto simp: one_slot_def)

text \<open>The equity the exposure tracker of the engine's pipeline divides by.\<close>

definition live_equity :: "LiveEngine \<Rightarrow> f64 option" where
  "live_equity e = Option.bind (le_pipeline e) pipeline_equity"

lemma live_equity_cong: "le_pipeline e' = le_pipeline e \<Longrightarrow> live_equity e' = live_equity e"
  by (simp add: live_equity_def)

lemma new_day_equity: "live_equity (LiveEngine_newDay e d) = live_equity e"
proof -
  have "pipeline_equity (pipeline_new_day p) = pipeline_equity p" for p
    by (simp add: pipeline_new_day_def frame_simps split: option.split prod.split)
  then show ?thesis by (cases "le_pipeline e") (simp_all add: LiveEngine_newDay_def live_equity_def Let_def)
qed

lemma market_equity:
  assumes "LiveEngine_market e regime = Some e'"
  shows "live_equity e' = live_equity e"
proof (cases "le_pipeline e")
  case (Some p)
  obtain q where q: "pipeline_market p (le_lastVIX e) regime = Some q" "e' = e\<lparr>le_pipeline := Some q\<rparr>"
    using assms Some by (auto simp: LiveEngine_market_def split: bind_splits)
  have "pipeline_equity q = pipeline_equity p"
    using q(1) by (auto simp: pipeline_market_def SignalGateImpl_SetVIX_def SignalGateImpl_SetRegime_def
        pipeline_equity_def tracker_equity_def split: option.splits bind_splits)
  then show ?thesis by (simp add: live_equity_def q(2) Some)
qed (use assms in \<open>simp add: LiveEngine_market_def\<close>)

text \<open>A tick of an engine that is not halted, in two calls that can fail and the action.\<close>

definition tick_candle :: "SymbolState \<Rightarrow> Candle" where
  "tick_candle s = BarToCandle (BarAggregator_GetLatestBar (sy_Aggregator s) ''1m'')"

definition warm_tick :: "32 word \<Rightarrow> LiveEngine \<Rightarrow> LiveEngine" where
  "warm_tick sid e = e\<lparr>le_warmUpTicks := mput (le_warmUpTicks e) sid (mget 0 (le_warmUpTicks e) sid + 1)\<rparr>"

lemma ProcessTick_step:
  assumes "\<not> le_Halted e" "LiveEngine_observe env e sid pr vol ts = (s, e1)"
  shows "LiveEngine_ProcessTickForAccount env e acc sid pr vol ts =
     (let regime = ht_CurrentState (gs_HMMTracker (le_RiskState e1)) in
      do {
        e2 \<leftarrow> LiveEngine_market (LiveEngine_newDay e1 (day_of ts)) regime;
        (signals, e3) \<leftarrow> LiveEngine_evaluate env (warm_tick sid e2) acc (tick_candle s) regime;
        if mget 0 (le_warmUpTicks e2) sid + 1 < le_warmUpCount e3 then Some ([], e3)
        else LiveEngine_act env e3 s sid (tick_candle s) regime ts signals
      })"
  unfolding tick_candle_def warm_tick_def using assms by (simp add: LiveEngine_ProcessTickForAccount_def Let_def)

lemma ProcessTickE:
  assumes "LiveEngine_ProcessTickForAccount env e acc sid pr vol ts = Some (sigs, e')"
  obtains "sigs = []" "le_openPositions e' = le_openPositions e" "live_equity e' = live_equity e"
  | e1 s c regime signals where "LiveEngine_act env e1 s sid c regime ts signals = Some (sigs, e')"
      "le_openPositions e1 = le_openPositions e" "live_equity e1 = live_equity e"
      "\<And>sig. sig \<in> set signals \<Longrightarrow> sl_Symbol sig = ''''"
proof (cases "le_Halted e")
  case True
  then show ?thesis using assms that(1) by (simp add: LiveEngine_ProcessTickForAccount_def)
next
  case False
  obtain s e1 where o: "LiveEngine_observe env e sid pr vol ts = (s, e1)" by force
  define regime where "regime = ht_CurrentState (gs_HMMTracker (le_RiskState e1))"
  obtain e2 signals e3 where m: "LiveEngine_market (LiveEngine_newDay e1 (day_of ts)) regime = Some e2"
    and v: "LiveEngine_evaluate env (warm_tick sid e2) acc (tick_candle s) regime = Some (signals, e3)"
    and r: "(if mget 0 (le_warmUpTicks e2) sid + 1 < le_warmUpCount e3 then Some ([], e3)
      else LiveEngine_act env e3 s sid (tick_candle s) regime ts signals) = Some (sigs, e')"
    using assms unfolding ProcessTick_step[OF False o] Let_def regime_def[symmetric] by (auto split: bind_splits)
  have frame: "le_openPositions e3 = le_openPositions e" "live_equity e3 = live_equity e"
    using observe_frame[OF o] market_frame[OF m] market_equity[OF m] evaluate_frame(1,2)[OF v]
    by (simp_all add: newDay_frame new_day_equity[unfolded live_equity_def] live_equity_def warm_tick_def)
  have "sl_Symbol sig = ''''" if "sig \<in> set signals" for sig
    using evaluate_frame(3)[OF v that] by (simp add: tick_candle_def BarToCandle_def Let_def)
  then show ?thesis using r frame that by (auto split: if_splits)
qed

lemma actE:
  assumes "LiveEngine_act env e s sid c regime ts signals = Some (sigs, e')"
  obtains "sigs = []" "le_openPositions e' = le_openPositions e" "live_equity e' = live_equity e"
  | passed out e0 e1 e2 where "set passed \<subseteq> set signals" "LiveEngine_size env e0 c regime passed = (out, e1)"
      "LiveEngine_CheckOpenStops e1 s c out = Some (sigs, e2)"
      "le_openPositions e0 = le_openPositions e" "live_equity e0 = live_equity e"
      "le_openPositions e' = le_openPositions e2" "live_equity e' = live_equity e2"
proof -
  obtain checked adv where a: "adversarial_pass (gs_Adversarial (le_RiskState e)) sid ts signals = (checked, adv)" by force
  define e0 where "e0 = e\<lparr>le_RiskState := (le_RiskState e)\<lparr>gs_Adversarial := adv\<rparr>\<rparr>"
  have e0: "le_openPositions e0 = le_openPositions e" "live_equity e0 = live_equity e"
    by (simp_all add: e0_def live_equity_def)
  show ?thesis
  proof (cases checked)
    case (Inl reason)
    then show ?thesis using assms that(1) by (auto simp: LiveEngine_act_def a live_equity_def)
  next
    case (Inr passed)
    obtain out e1 where z: "LiveEngine_size env e0 c regime passed = (out, e1)" by force
    obtain e2 where k: "LiveEngine_CheckOpenStops e1 s c out = Some (sigs, e2)"
      "le_openPositions e' = le_openPositions e2" "live_equity e' = live_equity e2"
      using assms by (auto simp: LiveEngine_act_def a Inr z Let_def live_equity_def simp flip: e0_def split: bind_splits)
    show ?thesis using that(2)[OF _ z k(1) e0 k(2,3)] adversarial_pass_subset[OF a[unfolded Inr]] by blast
  qed
qed

lemma CheckOpenStops_frame:
  assumes "LiveEngine_CheckOpenStops e s c sigs = Some (out, e')"
  shows "le_pipeline e' = le_pipeline e"
    "one_slot (le_openPositions e) \<Longrightarrow> (\<And>sig. sig \<in> set sigs \<Longrightarrow> sl_Symbol sig = '''') \<Longrightarrow> one_slot (le_openPositions e')"
    "le_openPositions e = [] \<Longrightarrow> sigs = [] \<Longrightarrow> out = [] \<and> le_openPositions e' = []"
  using assms by (auto simp: LiveEngine_CheckOpenStops_def Let_def split: if_splits bind_splits
      intro!: one_slot_filter one_slot_track)

lemma tick_one_slot:
  assumes "LiveEngine_ProcessTickForAccount env e acc sid pr vol ts = Some (sigs, e')" "one_slot (le_openPositions e)"
  shows "one_slot (le_openPositions e')"
  using assms(1)
proof (cases rule: ProcessTickE)
  case (2 e1 s c regime signals)
  show ?thesis using 2(1)
  proof (cases rule: actE)
    case (2 passed out e0 e1' e2)
    have "sl_Symbol sig = ''''" if "sig \<in> set out" for sig
      using size_frame(3)[OF 2(2) that] 2(1) \<open>\<And>sig. sig \<in> set signals \<Longrightarrow> sl_Symbol sig = ''''\<close> by force
    then show ?thesis
      using CheckOpenStops_frame(2)[OF 2(3)] size_frame(1)[OF 2(2)] 2 \<open>le_openPositions e1 = le_openPositions e\<close> assms(2) by simp
  qed (use 2 assms(2) in simp)
qed (use assms(2) in simp)

lemma fill_frame [frame_simps]:
  "le_openPositions (LiveEngine_RecordSlippageObservation e x y) = le_openPositions e"
  "le_pipeline (LiveEngine_RecordSlippageObservation e x y) = le_pipeline e"
  "le_openPositions (LiveEngine_ReconcileLiveFill e sid symb side pnl qty price) = le_openPositions e"
  "le_openPositions (snd (LiveEngine_SignalOutcome e symb side pnl)) = le_openPositions e"
  by (simp_all add: LiveEngine_RecordSlippageObservation_def LiveEngine_ReconcileLiveFill_def
      LiveEngine_SignalOutcome_def Let_def split: option.split)

lemmas live_op_defs = LiveEngine_RegisterAccountStrategies_def LiveEngine_Halt_def LiveEngine_Resume_def
  LiveEngine_Start_def LiveEngine_Pause_def LiveEngine_Stop_def LiveEngine_SetRunningCapital_def
  LiveEngine_SetWarmUpBars_def LiveEngine_SetStopLossConfig_def LiveEngine_UpdateRegimeInputs_def
  Server_kill_callback_def

lemma event_one_slot:
  assumes "live_happens env e ev = Some e'" "one_slot (le_openPositions e)"
  shows "one_slot (le_openPositions e')"
proof (cases ev)
  case (EvTick acc sid pr vol ts)
  then show ?thesis using assms tick_one_slot by (auto split: prod.splits)
qed (use assms in \<open>auto simp: live_op_defs frame_simps one_slot_def\<close>)

text \<open>C30: The live engine can hold one position in all. Its bars carry no symbol, so every signal
  names the empty one, and \<open>openPositions\<close> is keyed by it: on a new engine without a pipeline, after
  any run without a panic of ticks of any symbols and accounts, halts, registrations, fills and
  settings there is at most one entry and none under a name that is not empty; so a fill reported
  for such a symbol finds none and leaves the slippage model as it was.\<close>

theorem live_engine_holds_one_position:
  assumes "live_run env NewLiveEngine evs = Some e" and "symb \<noteq> ''''"
  shows "length (le_openPositions e) \<le> 1 \<and> mlookup (le_openPositions e) symb = None \<and>
    le_slippageModel (LiveEngine_ReconcileLiveFill e sid symb side pnl qty price) = le_slippageModel e"
proof -
  have "one_slot (le_openPositions e)"
    by (rule live_run_invariant[OF _ assms(1)], rule event_one_slot) (simp_all add: NewLiveEngine_def one_slot_def)
  then have "length (le_openPositions e) \<le> 1" "mlookup (le_openPositions e) symb = None"
    using assms(2) by (auto simp: one_slot_def)
  then show ?thesis by (simp add: LiveEngine_ReconcileLiveFill_def Let_def split: option.split)
qed

section \<open>The wired engine\<close>

definition silent :: "LiveEngine \<Rightarrow> bool" where
  "silent e \<longleftrightarrow> live_equity e = Some 0 \<and> le_openPositions e = []"

lemma size_silent:
  assumes "LiveEngine_size env e c regime sigs = (out, e')" "live_equity e = Some 0"
  shows "out = []" "live_equity e' = Some 0"
proof -
  obtain p where p: "le_pipeline e = Some p" "pipeline_equity (p\<lparr>rp_CurrentRegime := regime\<rparr>) = Some 0"
    using assms(2) by (auto simp: live_equity_def frame_simps bind_eq_Some_conv)
  show "out = []" "live_equity e' = Some 0"
    using assms(1) live_filter_starved[OF p(2)] p(2)
    by (auto simp: LiveEngine_size_def p(1) Let_def case_prod_beta live_equity_def live_filter_equity)
qed

lemma tick_silent:
  assumes "LiveEngine_ProcessTickForAccount env e acc sid pr vol ts = Some (sigs, e')" "silent e"
  shows "sigs = [] \<and> silent e'"
  using assms(1)
proof (cases rule: ProcessTickE)
  case (2 e1 s c regime signals)
  show ?thesis using 2(1)
  proof (cases rule: actE)
    case (2 passed out e0 e1' e2)
    have "live_equity e0 = Some 0" "le_openPositions e0 = []"
      using 2 \<open>le_openPositions e1 = le_openPositions e\<close> \<open>live_equity e1 = live_equity e\<close> assms(2) by (simp_all add: silent_def)
    then show ?thesis
      using size_silent[OF 2(2)] size_frame(1)[OF 2(2)] CheckOpenStops_frame(1,3)[OF 2(3)] 2(6,7)
      by (simp add: silent_def live_equity_def)
  qed (use 2 assms(2) in \<open>simp add: silent_def\<close>)
qed (use assms(2) in \<open>simp add: silent_def\<close>)

lemma participation_equity: "pipeline_equity (account_participation ps fs p) = pipeline_equity p"
  unfolding account_participation_def
  by (induction fs arbitrary: p) (auto simp: frame_simps split: option.splits prod.splits)

lemma event_silent:
  assumes "live_happens env e ev = Some e'" "silent e"
  shows "silent e'"
proof (cases ev)
  case (EvTick acc sid pr vol ts)
  then show ?thesis using assms tick_silent by (auto split: prod.splits)
qed (use assms in \<open>auto simp: live_op_defs silent_def live_equity_def frame_simps participation_equity bind_eq_Some_conv
  LiveEngine_SignalOutcome_def LiveEngine_ReconcileLiveFill_def Let_def split: option.splits\<close>)

text \<open>C3: The live engine the server wires is silent. When a multi-account pool is set,
  \<open>SetLiveEngine\<close> gives a new engine its pipeline; after any run of ticks, registrations, kill switch
  callbacks, halts, fills and settings, every tick that returns gives no signal, and no position is ever tracked,
  whatever the strategies, prices and parameters are.\<close>

theorem wired_engine_is_silent:
  assumes "live_run env (Server_SetLiveEngine (Some mcp) mgr NewLiveEngine) evs = Some e"
    and "LiveEngine_ProcessTickForAccount env e acc sid pr vol ts = Some (sigs, e')"
  shows "sigs = [] \<and> le_openPositions e' = []"
proof -
  have "silent (Server_SetLiveEngine (Some mcp) mgr NewLiveEngine)"
    by (simp add: silent_def Server_SetLiveEngine_def LiveEngine_SetRiskPipeline_def LiveEngine_SetMultiAccountPool_def
        live_equity_def SetLiveEngine_equity NewLiveEngine_def)
  then have "silent e"
    by (rule live_run_invariant[OF _ assms(1), rotated]) (rule event_silent)
  then show ?thesis using tick_silent[OF assms(2)] by (simp add: silent_def)
qed

section \<open>Stopping\<close>

abbreviation set_running :: "bool \<Rightarrow> LiveEngine \<Rightarrow> LiveEngine" where
  "set_running b e \<equiv> e\<lparr>le_Running := b\<rparr>"

abbreviation running_result :: "bool \<Rightarrow> (Signal list \<times> LiveEngine) option \<Rightarrow> (Signal list \<times> LiveEngine) option" where
  "running_result b \<equiv> map_option (map_prod id (set_running b))"

lemma observe_running:
  "LiveEngine_observe env (set_running b e) sid pr vol ts = map_prod id (set_running b) (LiveEngine_observe env e sid pr vol ts)"
  by (simp add: LiveEngine_observe_def LiveEngine_GetOrCreateSymbol_def Let_def case_prod_beta split: option.split)

lemma newDay_running: "LiveEngine_newDay (set_running b e) d = set_running b (LiveEngine_newDay e d)"
  by (simp add: LiveEngine_newDay_def Let_def)

lemma market_running: "LiveEngine_market (set_running b e) regime = map_option (set_running b) (LiveEngine_market e regime)"
  by (auto simp: LiveEngine_market_def split: option.split bind_split)

lemma evaluate_running:
  "LiveEngine_evaluate env (set_running b e) acc c regime = running_result b (LiveEngine_evaluate env e acc c regime)"
  by (simp add: LiveEngine_evaluate_def LiveEngine_getRegistryForAccount_def store_registry_def Let_def split_def
      option.map_comp comp_def split: option.split)
    (auto intro!: option.map_cong)

lemma size_running:
  "LiveEngine_size env (set_running b e) c regime sigs = map_prod id (set_running b) (LiveEngine_size env e c regime sigs)"
  by (simp add: LiveEngine_size_def Let_def case_prod_beta split: option.split)

lemma stops_running:
  "LiveEngine_CheckOpenStops (set_running b e) s c sigs = running_result b (LiveEngine_CheckOpenStops e s c sigs)"
  by (auto simp: LiveEngine_CheckOpenStops_def live_ATR_def Let_def split: option.split bind_split)

lemma running_swap:
  "(set_running b e)\<lparr>le_RiskState := rs\<rparr> = set_running b (e\<lparr>le_RiskState := rs\<rparr>)"
  "warm_tick sid (set_running b e) = set_running b (warm_tick sid e)"
  by (simp_all add: warm_tick_def)

lemma act_running:
  "LiveEngine_act env (set_running b e) s sid c regime ts sigs = running_result b (LiveEngine_act env e s sid c regime ts sigs)"
proof -
  obtain checked adv where a: "adversarial_pass (gs_Adversarial (le_RiskState e)) sid ts sigs = (checked, adv)" by force
  define e0 where "e0 = e\<lparr>le_RiskState := (le_RiskState e)\<lparr>gs_Adversarial := adv\<rparr>\<rparr>"
  show ?thesis
  proof (cases checked)
    case (Inr passed)
    obtain out e1 where z: "LiveEngine_size env e0 c regime passed = (out, e1)" by force
    show ?thesis
      by (auto simp: LiveEngine_act_def a Inr running_swap size_running z Let_def stops_running simp flip: e0_def
          split: bind_split option.split)
  qed (simp add: LiveEngine_act_def a)
qed

text \<open>Stopping does not stop. A tick never asks \<open>Running\<close>: on an engine that \<open>Stop\<close> was called on it
  returns the signals it would return on the running one, and tracks the same positions. Only
  \<open>Halted\<close> ends trading, and \<open>Start\<close> clears it without clearing the halt of the risk state.
\<close>

theorem stopped_engine_trades:
  "LiveEngine_ProcessTickForAccount env (LiveEngine_Stop e) acc sid pr vol ts =
     map_option (\<lambda>(sigs, e'). (sigs, LiveEngine_Stop e')) (LiveEngine_ProcessTickForAccount env e acc sid pr vol ts) \<and>
   (LiveEngine_Start (LiveEngine_Stop (LiveEngine_Halt e reason)) =
      Inr ((LiveEngine_Halt e reason)\<lparr>le_Running := True, le_Halted := False\<rparr>) \<and>
    LiveEngine_Health ((LiveEngine_Halt e reason)\<lparr>le_Running := True, le_Halted := False\<rparr>) = None)"
proof -
  obtain s e1 where o: "LiveEngine_observe env e sid pr vol ts = (s, e1)" by force
  have "LiveEngine_ProcessTickForAccount env (set_running False e) acc sid pr vol ts =
      running_result False (LiveEngine_ProcessTickForAccount env e acc sid pr vol ts)"
  proof (cases "le_Halted e")
    case False
    have o': "LiveEngine_observe env (set_running False e) sid pr vol ts = (s, set_running False e1)"
      by (simp add: observe_running o)
    show ?thesis using False
      by (auto simp: ProcessTick_step[OF False o] ProcessTick_step[OF _ o'] newDay_running market_running Let_def
          running_swap evaluate_running act_running split: option.split bind_split)
  qed (simp add: LiveEngine_ProcessTickForAccount_def)
  then show ?thesis
    by (simp add: LiveEngine_Stop_def LiveEngine_Start_def LiveEngine_Halt_def LiveEngine_Health_def map_prod_def case_prod_beta)
qed

section \<open>Concrete runs\<close>

text \<open>An environment without strategies, and the first tick there: 100.00 at ten o'clock of day zero.\<close>

definition bare_env :: LiveEnv where
  "bare_env = \<lparr>lv_Lib = no_lib, lv_Exp = (\<lambda>_. 1), lv_Factories = [], lv_Clock = (\<lambda>_. 0)\<rparr>"

definition first_tick :: live_event where
  "first_tick = EvTick ''default'' 1 10000000 5 36000000000000"

lemma bare_evaluate:
  assumes "le_accountRegistries e = []" "le_defaultRegistry e = None"
  shows "LiveEngine_evaluate bare_env e acc c regime = Some ([], e\<lparr>le_defaultRegistry := Some NewRegistry\<rparr>)"
  using assms by (simp add: LiveEngine_evaluate_def LiveEngine_getRegistryForAccount_def bare_env_def account_registry_def
      NewRegistry_def Registry_EvaluateAll_def store_registry_def Let_def)

lemma bare_act:
  assumes "Price_Float64 (ca_Close c) \<le> 0"
  shows "\<exists>e'. LiveEngine_act env e s sid c regime ts [] = Some ([], e')"
  using assms by (simp add: LiveEngine_act_def LiveEngine_size_def LiveEngine_CheckOpenStops_def Let_def split: option.split)

lemma first_candle: "Price_Float64 (ca_Close (BarToCandle zero_bar)) \<le> 0"
  by (simp add: BarToCandle_def zero_bar_def PriceScaleBar_def Let_def PriceFromFloat_def FromFloat64_def price_eval f64_eval)

lemma first_tick_returns:
  assumes "\<not> le_Halted e" "le_accountRegistries e = []" "le_defaultRegistry e = None" "le_Symbols e = []" "le_lastDay e = None"
    and market: "\<And>e' r. le_pipeline e' = le_pipeline e \<Longrightarrow> LiveEngine_market e' r \<noteq> None"
  shows "\<exists>e'. LiveEngine_ProcessTickForAccount bare_env e ''default'' 1 10000000 5 36000000000000 = Some ([], e')"
proof -
  obtain s e1 where o: "LiveEngine_observe bare_env e 1 10000000 5 36000000000000 = (s, e1)" by force
  have e1: "le_accountRegistries e1 = []" "le_defaultRegistry e1 = None" "le_lastDay e1 = None" "le_pipeline e1 = le_pipeline e"
    and s: "tick_candle s = BarToCandle zero_bar"
    using o assms(2-5) by (auto simp: LiveEngine_observe_def LiveEngine_GetOrCreateSymbol_def Let_def tick_candle_def
        BarAggregator_GetLatestBar_def BarAggregator_AddTick_def series_of_def NewBarAggregator_def empty_series_def
        rollBar_def zero_bar_def)
  define regime where "regime = ht_CurrentState (gs_HMMTracker (le_RiskState e1))"
  obtain e2 where m: "LiveEngine_market (LiveEngine_newDay e1 (day_of 36000000000000)) regime = Some e2"
    using market[of "LiveEngine_newDay e1 (day_of 36000000000000)"] e1 by (auto simp: LiveEngine_newDay_def Let_def)
  then have e2: "le_accountRegistries e2 = []" "le_defaultRegistry e2 = None"
    using e1 by (auto simp: LiveEngine_market_def LiveEngine_newDay_def Let_def split: option.splits bind_splits)
  then have v: "LiveEngine_evaluate bare_env (warm_tick 1 e2) ''default'' (tick_candle s) regime =
      Some ([], (warm_tick 1 e2)\<lparr>le_defaultRegistry := Some NewRegistry\<rparr>)"
    by (intro bare_evaluate) (simp_all add: warm_tick_def)
  show ?thesis
    using bare_act[of "tick_candle s"] first_candle
    by (auto simp: ProcessTick_step[OF assms(1) o] m v[unfolded s] s Let_def simp flip: regime_def)
qed

lemma live_engine_holds_one_position_witness:
  "\<exists>e. live_run bare_env NewLiveEngine [EvWarmUp 0, first_tick] = Some e \<and> length (le_openPositions e) \<le> 1 \<and>
    mlookup (le_openPositions e) ''AAPL'' = None \<and>
    le_slippageModel (LiveEngine_ReconcileLiveFill e ''orb'' ''AAPL'' ''BUY'' 0 1 (lit 100)) = le_slippageModel e"
proof -
  obtain e where "live_run bare_env NewLiveEngine [EvWarmUp 0, first_tick] = Some e"
    using first_tick_returns[of "LiveEngine_SetWarmUpBars NewLiveEngine 0"]
    by (auto simp: first_tick_def LiveEngine_SetWarmUpBars_def NewLiveEngine_def LiveEngine_market_def)
  then show ?thesis using live_engine_holds_one_position[of bare_env _ e "''AAPL''"] by blast
qed

lemma wired_market:
  assumes "le_pipeline e = Some (SetLiveEngine_pipeline mgr)"
  shows "LiveEngine_market e r \<noteq> None"
  using assms by (simp add: LiveEngine_market_def pipeline_market_def SetLiveEngine_pipeline_def SignalGateImpl_SetVIX_def
      SignalGateImpl_SetRegime_def SignalGateImpl_SetBacktestMode_def NewSignalGateImpl_def)

lemmas wiring_defs = LiveEngine_SetWarmUpBars_def LiveEngine_SetRiskPipeline_def LiveEngine_SetMultiAccountPool_def
  Server_SetLiveEngine_def

lemma wired_engine_is_silent_witness:
  "\<exists>e sigs e'. live_run bare_env (Server_SetLiveEngine (Some NewMultiAccountCapitalPool) (ftmo_manager 0) NewLiveEngine) [EvWarmUp 0] = Some e \<and>
     LiveEngine_ProcessTickForAccount bare_env e ''default'' 1 10000000 5 36000000000000 = Some (sigs, e') \<and>
     sigs = [] \<and> le_openPositions e' = []"
proof -
  define e where "e = LiveEngine_SetWarmUpBars (Server_SetLiveEngine (Some NewMultiAccountCapitalPool) (ftmo_manager 0) NewLiveEngine) 0"
  have p: "le_pipeline e = Some (SetLiveEngine_pipeline (ftmo_manager 0))"
    by (simp add: e_def wiring_defs)
  have r: "live_run bare_env (Server_SetLiveEngine (Some NewMultiAccountCapitalPool) (ftmo_manager 0) NewLiveEngine) [EvWarmUp 0] = Some e"
    by (simp add: e_def)
  obtain e' where t: "LiveEngine_ProcessTickForAccount bare_env e ''default'' 1 10000000 5 36000000000000 = Some ([], e')"
    using first_tick_returns[of e] wired_market p
    by (auto simp: e_def wiring_defs NewLiveEngine_def)
  show ?thesis using r t wired_engine_is_silent[OF r t] by blast
qed

section \<open>Which instance an account gets\<close>

lemma Registry_Get_Register:
  "Registry_Get (Registry_Register reg s) n = (if n = Strategy_Name s then Some s else Registry_Get reg n)"
  by (simp add: Registry_Get_def Registry_Register_def)

lemma last_factory_wins:
  "Registry_Get (account_registry ps fs) n =
     (let same = filter (\<lambda>f. Strategy_Name (configured_strategy ps f) = n) fs
      in if same = [] then None else Some (configured_strategy ps (last same)))"
proof (induction fs rule: rev_induct)
  case Nil
  show ?case by (simp add: account_registry_def NewRegistry_def Registry_Get_def)
next
  case (snoc f fs)
  have "account_registry ps (fs @ [f]) = Registry_Register (account_registry ps fs) (configured_strategy ps f)"
    by (simp add: account_registry_def)
  then show ?case using snoc by (auto simp: Registry_Get_Register Let_def)
qed

lemma grid_factories:
  "filter (\<lambda>f. Strategy_Name (configured_strategy [] f) = ''grid_trading'') factory_table =
     [(''grid'', StGrid (NewGridRunner\<lparr>gr_Disabled := True\<rparr>)), (''grid_trading'', StGrid (NewGridRunner\<lparr>gr_Disabled := True\<rparr>)),
      (''vol_grid'', StGrid (NewGridRunner\<lparr>gr_AdjustByVolatility := True\<rparr>))]"
  by (simp add: factory_table_def configured_strategy_def runner_names)

text \<open>Which grid an account trades is decided by the order of a map. \<open>RegisterAccountStrategies\<close>
  makes one instance per factory and keeps it under its own name, so of the three grid factories
  the last one visited stays. Go visits a map in any order: with the factories in one order the
  grid of an account trades, with the same factories in another it is disabled. Parameters given
  under an alias are lost in the same way when another alias comes later.
\<close>

theorem account_grid_depends_on_map_order:
  "\<exists>order1 order2 r1 r2. mset order1 = mset factory_table \<and> mset order2 = mset factory_table \<and>
     Registry_Get (account_registry [] order1) ''grid_trading'' = Some (StGrid r1) \<and> \<not> gr_Disabled r1 \<and>
     Registry_Get (account_registry [] order2) ''grid_trading'' = Some (StGrid r2) \<and> gr_Disabled r2"
proof (intro exI conjI)
  show "mset factory_table = mset factory_table" "mset (rev factory_table) = mset factory_table" by simp_all
  show "Registry_Get (account_registry [] factory_table) ''grid_trading'' =
      Some (StGrid (NewGridRunner\<lparr>gr_AdjustByVolatility := True\<rparr>))"
    by (simp only: last_factory_wins grid_factories Let_def) (simp add: configured_strategy_def)
  show "Registry_Get (account_registry [] (rev factory_table)) ''grid_trading'' =
      Some (StGrid (NewGridRunner\<lparr>gr_Disabled := True\<rparr>))"
    by (simp only: last_factory_wins rev_filter[symmetric] grid_factories Let_def) (simp add: configured_strategy_def)
qed (simp_all add: NewGridRunner_def)

section \<open>Exits become positions\<close>

lemma mlookup_filter:
  "mkeys_ok m \<Longrightarrow> mlookup m k = Some v \<Longrightarrow> P (k, v) \<Longrightarrow> mlookup (filter P m) k = Some v"
  by (induction m) (auto simp: mkeys_ok_def image_iff dest: map_of_SomeD)

lemma track_ok: "mkeys_ok m \<Longrightarrow> mkeys_ok (foldl (track_signal cfg price atr high) m sigs)"
  by (induction sigs arbitrary: m) (auto simp: track_signal_def Let_def case_prod_beta)

lemma track_last:
  assumes "sigs \<noteq> []" "sl_Side (last sigs) = ''BUY'' \<or> sl_Side (last sigs) = ''SELL''"
  obtains q where "mlookup (foldl (track_signal cfg price atr high) m sigs) (sl_Symbol (last sigs)) = Some q"
    "as_Side q = sl_Side (last sigs)"
proof -
  obtain xs x where x: "sigs = xs @ [x]" using assms(1) by (metis append_butlast_last_id)
  show ?thesis using assms(2) that by (simp add: x track_signal_def Let_def case_prod_beta)
qed

text \<open>
  An exit opens a position. \<open>CheckOpenStops\<close> tracks every approved signal that has a side: the
  exit of a long position, side \<open>SELL\<close>, leaves a tracked short one in its place, unless the bar
  stops that one out at once, which yields one more signal, with the side \<open>BUY\<close>.
\<close>

theorem exit_is_tracked_as_position:
  assumes "LiveEngine_CheckOpenStops e s c sigs = Some (out, e')" and "\<not> Price_Float64 (ca_Close c) \<le> 0"
    and "sigs \<noteq> []" and "sl_Action (last sigs) = SignalExit" and "sl_Side (last sigs) = ''SELL''"
    and "mkeys_ok (le_openPositions e)"
  shows "(\<exists>q. mlookup (le_openPositions e') (sl_Symbol (last sigs)) = Some q \<and> as_Side q = ''SELL'') \<or>
    (\<exists>g\<in>set (drop (length sigs) out). sl_Symbol g = sl_Symbol (last sigs) \<and> sl_Side g = ''BUY'')"
proof -
  obtain atr where a: "live_ATR e s = Some atr" using assms(1,2) by (auto simp: LiveEngine_CheckOpenStops_def split: bind_splits)
  define m where "m = foldl (track_signal (le_stopLossCfg e) (Price_Float64 (ca_Close c)) atr (Price_Float64 (ca_High c)))
    (le_openPositions e) sigs"
  have r: "out = sigs @ map stop_signal (filter (stop_hit c) m)" "le_openPositions e' = filter (\<lambda>q. \<not> stop_hit c q) m"
    using assms(1,2) by (auto simp: LiveEngine_CheckOpenStops_def a m_def Let_def)
  obtain q where q: "mlookup m (sl_Symbol (last sigs)) = Some q" "as_Side q = ''SELL''"
    using track_last[of sigs] assms(3,5) unfolding m_def by metis
  have ok: "mkeys_ok m" using track_ok assms(6) by (simp add: m_def)
  show ?thesis
  proof (cases "stop_hit c (sl_Symbol (last sigs), q)")
    case True
    then have "stop_signal (sl_Symbol (last sigs), q) \<in> set (drop (length sigs) out)"
      using map_of_SomeD[OF q(1)] by (simp add: r image_iff) (metis)
    then show ?thesis by (force simp: stop_signal_def q(2))
  next
    case False
    then show ?thesis using mlookup_filter[OF ok q(1)] q(2) by (simp add: r)
  qed
qed

text \<open>The exit of a long position at 100.00, on a bar from 99.00 to 101.00: the stop is 102.00.\<close>

definition exit_engine :: LiveEngine where
  "exit_engine = NewLiveEngine\<lparr>le_stopLossCfg := None\<rparr>"

definition exit_symbol :: SymbolState where
  "exit_symbol = \<lparr>sy_SymbolID = 1, sy_OrderBook = NewOrderBook 1, sy_Aggregator = NewBarAggregator 1, sy_PrevPrice = 0\<rparr>"

lemma exit_run:
  "\<exists>out e'. LiveEngine_CheckOpenStops exit_engine exit_symbol (dollar_bar 0 100) [exit_signal (dollar_bar 0 100) ''SELL''] = Some (out, e')"
  "\<not> Price_Float64 (ca_Close (dollar_bar 0 100)) \<le> 0"
  by (simp_all add: LiveEngine_CheckOpenStops_def exit_engine_def live_ATR_def Let_def dollar_bar_def price_eval)

lemma exit_is_tracked_as_position_witness:
  "\<exists>out e'. LiveEngine_CheckOpenStops exit_engine exit_symbol (dollar_bar 0 100) [exit_signal (dollar_bar 0 100) ''SELL''] = Some (out, e') \<and>
    ((\<exists>q. mlookup (le_openPositions e') ''SPY'' = Some q \<and> as_Side q = ''SELL'') \<or>
     (\<exists>g\<in>set (drop 1 out). sl_Symbol g = ''SPY'' \<and> sl_Side g = ''BUY''))"
proof -
  obtain out e' where r: "LiveEngine_CheckOpenStops exit_engine exit_symbol (dollar_bar 0 100)
      [exit_signal (dollar_bar 0 100) ''SELL''] = Some (out, e')" using exit_run(1) by blast
  have "mkeys_ok (le_openPositions exit_engine)" by (simp add: exit_engine_def NewLiveEngine_def)
  then show ?thesis using r exit_is_tracked_as_position[OF r exit_run(2)] by (simp add: dollar_bar_def)
qed

end
