(* ===== verification/Broker.thy ===== *)
theory Broker
  imports Price
begin

text \<open>
  The broker layer of \<open>internal/broker\<close>: the adapter interface of \<open>adapter.go\<close> as a method
  table over the state of the outside world, the preflight check, the two registries and the
  account manager. An entry of the driver registry is shared between its list and its index by
  a pointer, so the entries live in a heap and the two hold references to it. Mutexes make every
  method one step; the clock is an argument; rows written to the database are left out.
\<close>

section \<open>Orders, positions and accounts\<close>

definition Buy :: string where "Buy = ''BUY''"
definition Sell :: string where "Sell = ''SELL''"
definition Market :: string where "Market = ''MARKET''"
definition New :: string where "New = ''NEW''"
definition PartiallyFilled :: string where "PartiallyFilled = ''PARTIALLY_FILLED''"
definition Filled :: string where "Filled = ''FILLED''"
definition Canceled :: string where "Canceled = ''CANCELED''"

record OrderRequest =
  rq_AccountID :: string
  rq_Symbol :: string
  rq_Side :: string
  rq_Type :: string
  rq_Quantity :: f64
  rq_LimitPrice :: price
  rq_StopPrice :: price
  rq_TimeInForce :: string
  rq_StrategyID :: string
  rq_TxID :: string
  rq_StopLoss :: price
  rq_TakeProfit :: price

record OrderResponse =
  rs_BrokerOrderID :: string
  rs_Status :: string
  rs_FilledQty :: f64
  rs_AvgFillPrice :: price
  rs_TxID :: string

record Position =
  po_Symbol :: string
  po_Quantity :: f64
  po_AvgEntryPrice :: price
  po_MarketValue :: price
  po_UnrealizedPL :: f64

record Account =
  ac_ID :: string
  ac_Balance :: price
  ac_Equity :: price
  ac_BuyingPower :: price
  ac_DailyPL :: f64
  ac_Status :: string

record TradeFill =
  tf_OrderID :: string
  tf_Symbol :: string
  tf_Side :: string
  tf_Quantity :: f64
  tf_FillPrice :: price
  tf_FillTime :: int
  tf_BrokerOrderID :: string

record AdapterManifest =
  mf_ID :: string
  mf_BrokerType :: string
  mf_Priority :: int
  mf_Capabilities :: "string list"

datatype broker_error =
    AdapterFailure string
  | AlreadyRegistered string
  | ManifestMissingID
  | NoAdapterFor string
  | AllUnhealthy nat string
  | AllFailed string
  | AccountNotFound string
  | NoDefaultAccount

section \<open>Adapters\<close>

text \<open>
  \<open>'s\<close> is the state behind all adapters: two adapters may share a connection, and two
  accounts may share an adapter.
\<close>

record 's Adapter =
  ad_PlaceOrder :: "OrderRequest \<Rightarrow> 's \<Rightarrow> (broker_error + OrderResponse) \<times> 's"
  ad_CancelOrder :: "string \<Rightarrow> 's \<Rightarrow> broker_error option \<times> 's"
  ad_CancelAllOrders :: "'s \<Rightarrow> broker_error option \<times> 's"
  ad_CloseAllPositions :: "'s \<Rightarrow> broker_error option \<times> 's"
  ad_GetPositions :: "'s \<Rightarrow> (broker_error + Position list) \<times> 's"
  ad_GetAccount :: "'s \<Rightarrow> (broker_error + Account) \<times> 's"
  ad_ValidateCredentials :: "'s \<Rightarrow> broker_error option \<times> 's"

record 's CapableAdapter = "'s Adapter" +
  ca_Manifest :: AdapterManifest
  ca_HealthCheck :: "'s \<Rightarrow> broker_error option \<times> 's"

definition as_Adapter :: "'s CapableAdapter \<Rightarrow> 's Adapter" where
  "as_Adapter a = Adapter.truncate a"

section \<open>Preflight\<close>

record OrderPreflight =
  pf_Skip :: bool
  pf_Reason :: string

definition preflight_pass :: OrderPreflight where
  "preflight_pass = \<lparr>pf_Skip = False, pf_Reason = ''''\<rparr>"

fun held_in :: "string \<Rightarrow> Position list \<Rightarrow> f64" where
  "held_in symb [] = 0"
| "held_in symb (p # ps) = (if po_Symbol p = symb then po_Quantity p else held_in symb ps)"

definition buying_power_check :: "'s Adapter \<Rightarrow> OrderRequest \<Rightarrow> 's \<Rightarrow> OrderPreflight \<times> 's" where
  "buying_power_check a req s =
     (if Price_Float64 (rq_LimitPrice req) > 0 then
        (case ad_GetAccount a s of
           (Inr acct, s') \<Rightarrow>
             (if Price_Float64 (ac_BuyingPower acct) > 0 \<and>
                 rq_Quantity req * Price_Float64 (rq_LimitPrice req) > Price_Float64 (ac_BuyingPower acct)
              then (\<lparr>pf_Skip = True, pf_Reason = ''insufficient buying power''\<rparr>, s')
              else (preflight_pass, s'))
         | (Inl e, s') \<Rightarrow> (preflight_pass, s'))
      else (preflight_pass, s))"

definition Preflight :: "'s Adapter option \<Rightarrow> OrderRequest option \<Rightarrow> 's \<Rightarrow> OrderPreflight \<times> 's" where
  "Preflight adapter request s =
     (case (adapter, request) of
        (Some a, Some req) \<Rightarrow>
          (case ad_GetPositions a s of
             (Inl e, s') \<Rightarrow> (preflight_pass, s')
           | (Inr positions, s') \<Rightarrow>
               (let held = held_in (rq_Symbol req) positions in
                if rq_Side req = Buy then
                  (if held > 0 then (\<lparr>pf_Skip = True, pf_Reason = ''position already open''\<rparr>, s')
                   else buying_power_check a req s')
                else if rq_Side req = Sell then
                  (if held \<le> 0 then (\<lparr>pf_Skip = True, pf_Reason = ''no position to close''\<rparr>, s')
                   else (preflight_pass, s'))
                else (preflight_pass, s')))
      | _ \<Rightarrow> (preflight_pass, s))"

text \<open>
  What the preflight check relies on, relative to the states and requests an adapter is used
  with: reading positions changes nothing, and what was bought is reported as held.
\<close>

locale broker_contract =
  fixes adapter :: "'s Adapter"
    and ok :: "'s \<Rightarrow> bool"
    and sane :: "OrderRequest \<Rightarrow> bool"
  assumes placed_ok: "ok s \<Longrightarrow> sane req \<Longrightarrow> ok (snd (ad_PlaceOrder adapter req s))"
    and positions_read: "ok s \<Longrightarrow> \<exists>ps. ad_GetPositions adapter s = (Inr ps, s)"
    and bought_held: "ok s \<Longrightarrow> sane req \<Longrightarrow> rq_Side req = Buy \<Longrightarrow> ad_PlaceOrder adapter req s = (Inr resp, s') \<Longrightarrow>
      ad_GetPositions adapter s' = (Inr ps, s'') \<Longrightarrow> 0 < held_in (rq_Symbol req) ps"
begin

lemma second_buy_refused:
  assumes "ok s" "sane req" "rq_Side req = Buy" "ad_PlaceOrder adapter req s = (Inr resp, s')"
    and "rq_Side req' = Buy" "rq_Symbol req' = rq_Symbol req"
  shows "Preflight (Some adapter) (Some req') s' = (\<lparr>pf_Skip = True, pf_Reason = ''position already open''\<rparr>, s')"
proof -
  have "ok s'" using placed_ok[OF assms(1,2)] assms(4) by simp
  then obtain ps where ps: "ad_GetPositions adapter s' = (Inr ps, s')" using positions_read by blast
  have "0 < held_in (rq_Symbol req) ps" using bought_held[OF assms(1-4) ps] .
  then show ?thesis using ps assms(5,6) by (simp add: Preflight_def Let_def)
qed

lemma sale_needs_position:
  assumes "ok s" "rq_Side req = Sell" "\<not> pf_Skip (fst (Preflight (Some adapter) (Some req) s))"
  shows "\<exists>ps. ad_GetPositions adapter s = (Inr ps, s) \<and> \<not> held_in (rq_Symbol req) ps \<le> 0"
proof -
  obtain ps where "ad_GetPositions adapter s = (Inr ps, s)" using positions_read[OF assms(1)] by blast
  with assms show ?thesis by (auto simp: Preflight_def Let_def Buy_def Sell_def split: if_splits)
qed

end

section \<open>The registry of connections\<close>

record 's ConnRegistry =
  cr_adapters :: "(string, 's Adapter) gomap"
  cr_status :: "(string, string) gomap"

definition NewConnRegistry :: "'s ConnRegistry" where
  "NewConnRegistry = \<lparr>cr_adapters = [], cr_status = []\<rparr>"

definition ConnRegistry_Register :: "'s ConnRegistry \<Rightarrow> string \<Rightarrow> 's Adapter \<Rightarrow> broker_error option \<times> 's ConnRegistry" where
  "ConnRegistry_Register r i a =
     (case mlookup (cr_adapters r) i of
        Some _ \<Rightarrow> (Some (AlreadyRegistered i), r)
      | None \<Rightarrow> (None, r\<lparr>cr_adapters := mput (cr_adapters r) i a, cr_status := mput (cr_status r) i ''disconnected''\<rparr>))"

definition ConnRegistry_Unregister :: "'s ConnRegistry \<Rightarrow> string \<Rightarrow> 's ConnRegistry" where
  "ConnRegistry_Unregister r i = r\<lparr>cr_adapters := mdelete (cr_adapters r) i, cr_status := mdelete (cr_status r) i\<rparr>"

definition ConnRegistry_Get :: "'s ConnRegistry \<Rightarrow> string \<Rightarrow> 's Adapter option" where
  "ConnRegistry_Get r i = mlookup (cr_adapters r) i"

definition ConnRegistry_SetStatus :: "'s ConnRegistry \<Rightarrow> string \<Rightarrow> string \<Rightarrow> 's ConnRegistry" where
  "ConnRegistry_SetStatus r i st = r\<lparr>cr_status := mput (cr_status r) i st\<rparr>"

definition ConnRegistry_GetStatus :: "'s ConnRegistry \<Rightarrow> string \<Rightarrow> string" where
  "ConnRegistry_GetStatus r i = mget '''' (cr_status r) i"

definition ConnRegistry_List :: "'s ConnRegistry \<Rightarrow> (string, string) gomap" where
  "ConnRegistry_List r = cr_status r"

definition ConnRegistry_CancelAllOrders :: "'s ConnRegistry \<Rightarrow> 's \<Rightarrow> 's" where
  "ConnRegistry_CancelAllOrders r s = fold (\<lambda>(i, a) s. snd (ad_CancelAllOrders a s)) (cr_adapters r) s"

definition ConnRegistry_CloseAllPositions :: "'s ConnRegistry \<Rightarrow> 's \<Rightarrow> 's" where
  "ConnRegistry_CloseAllPositions r s = fold (\<lambda>(i, a) s. snd (ad_CloseAllPositions a s)) (cr_adapters r) s"

section \<open>The driver registry\<close>

record 's adapterEntry =
  en_adapter :: "'s CapableAdapter"
  en_manifest :: AdapterManifest
  en_healthy :: bool
  en_lastErr :: "broker_error option"
  en_lastSeen :: int

text \<open>\<open>dr_heap\<close> holds every entry ever made; a reference is an index into it.\<close>

record 's BrokerDriverRegistry =
  dr_heap :: "'s adapterEntry list"
  dr_entries :: "nat list"
  dr_byID :: "(string, nat) gomap"

definition NewBrokerDriverRegistry :: "'s BrokerDriverRegistry" where
  "NewBrokerDriverRegistry = \<lparr>dr_heap = [], dr_entries = [], dr_byID = []\<rparr>"

definition entry_at :: "'s BrokerDriverRegistry \<Rightarrow> nat \<Rightarrow> 's adapterEntry" where
  "entry_at r e = dr_heap r ! e"

definition set_entry :: "'s BrokerDriverRegistry \<Rightarrow> nat \<Rightarrow> ('s adapterEntry \<Rightarrow> 's adapterEntry) \<Rightarrow> 's BrokerDriverRegistry" where
  "set_entry r e f = r\<lparr>dr_heap := (dr_heap r)[e := f (entry_at r e)]\<rparr>"

definition removeEntry :: "'s BrokerDriverRegistry \<Rightarrow> nat \<Rightarrow> 's BrokerDriverRegistry" where
  "removeEntry r e = r\<lparr>dr_entries := remove1 e (dr_entries r)\<rparr>"

definition sortByPriority :: "'s BrokerDriverRegistry \<Rightarrow> 's BrokerDriverRegistry" where
  "sortByPriority r = r\<lparr>dr_entries := sort_key (\<lambda>e. mf_Priority (en_manifest (entry_at r e))) (dr_entries r)\<rparr>"

definition BrokerDriverRegistry_Register ::
  "int \<Rightarrow> 's BrokerDriverRegistry \<Rightarrow> 's CapableAdapter \<Rightarrow> broker_error option \<times> 's BrokerDriverRegistry" where
  "BrokerDriverRegistry_Register now r a =
     (let m = ca_Manifest a in
      if mf_ID m = '''' then (Some ManifestMissingID, r)
      else
        (let e = length (dr_heap r);
             r = r\<lparr>dr_heap := dr_heap r @ [\<lparr>en_adapter = a, en_manifest = m, en_healthy = False,
                    en_lastErr = None, en_lastSeen = now\<rparr>]\<rparr>;
             r = (case mlookup (dr_byID r) (mf_ID m) of Some old \<Rightarrow> removeEntry r old | None \<Rightarrow> r);
             r = r\<lparr>dr_byID := mput (dr_byID r) (mf_ID m) e, dr_entries := dr_entries r @ [e]\<rparr>
         in (None, sortByPriority r)))"

definition BrokerDriverRegistry_Unregister :: "'s BrokerDriverRegistry \<Rightarrow> string \<Rightarrow> 's BrokerDriverRegistry" where
  "BrokerDriverRegistry_Unregister r i =
     (case mlookup (dr_byID r) i of
        None \<Rightarrow> r
      | Some e \<Rightarrow> (removeEntry r e)\<lparr>dr_byID := mdelete (dr_byID r) i\<rparr>)"

definition adapterEntry_supports :: "'s adapterEntry \<Rightarrow> string \<Rightarrow> bool" where
  "adapterEntry_supports en cap \<longleftrightarrow> cap \<in> set (mf_Capabilities (en_manifest en))"

definition candidates :: "'s BrokerDriverRegistry \<Rightarrow> string \<Rightarrow> nat list" where
  "candidates r cap = filter (\<lambda>e. adapterEntry_supports (entry_at r e) cap) (dr_entries r)"

definition Resolve :: "'s BrokerDriverRegistry \<Rightarrow> string \<Rightarrow> broker_error + 's CapableAdapter" where
  "Resolve r cap =
     (let cands = candidates r cap in
      if cands = [] then Inl (NoAdapterFor cap)
      else (case find (\<lambda>e. en_healthy (entry_at r e)) cands of
              Some e \<Rightarrow> Inr (en_adapter (entry_at r e))
            | None \<Rightarrow> Inl (AllUnhealthy (length cands) cap)))"

section \<open>Health checks and fallback\<close>

definition check_entry :: "int \<Rightarrow> nat \<Rightarrow> 's BrokerDriverRegistry \<times> 's \<Rightarrow> 's BrokerDriverRegistry \<times> 's" where
  "check_entry now e = (\<lambda>(r, s). case ca_HealthCheck (en_adapter (entry_at r e)) s of
     (err, s') \<Rightarrow> (set_entry r e (\<lambda>en. en\<lparr>en_lastSeen := now, en_healthy := err = None, en_lastErr := err\<rparr>), s'))"

definition RunHealthChecks :: "int \<Rightarrow> 's BrokerDriverRegistry \<times> 's \<Rightarrow> 's BrokerDriverRegistry \<times> 's" where
  "RunHealthChecks now = (\<lambda>(r, s). fold (check_entry now) (dr_entries r) (r, s))"

type_synonym 's broker_op = "'s CapableAdapter \<Rightarrow> 's \<Rightarrow> broker_error option \<times> 's"

definition mark_failed :: "'s BrokerDriverRegistry \<Rightarrow> nat \<Rightarrow> broker_error \<Rightarrow> 's BrokerDriverRegistry" where
  "mark_failed r e err = set_entry r e (\<lambda>en. en\<lparr>en_healthy := False, en_lastErr := Some err\<rparr>)"

text \<open>
  One pass over the candidates: the first healthy one is tried and the pass ends there, with
  \<open>True\<close> when the operation worked.
\<close>

fun fallback_pass ::
  "'s broker_op \<Rightarrow> nat list \<Rightarrow> 's BrokerDriverRegistry \<times> 's \<Rightarrow> bool \<times> 's BrokerDriverRegistry \<times> 's" where
  "fallback_pass fn [] (r, s) = (False, r, s)"
| "fallback_pass fn (e # es) (r, s) =
     (if \<not> en_healthy (entry_at r e) then fallback_pass fn es (r, s)
      else (case fn (en_adapter (entry_at r e)) s of
              (None, s') \<Rightarrow> (True, r, s')
            | (Some err, s') \<Rightarrow> (False, mark_failed r e err, s')))"

text \<open>\<open>fallback_rounds\<close> takes the rounds that are left, three at first.\<close>

fun fallback_rounds ::
  "int \<Rightarrow> string \<Rightarrow> 's broker_op \<Rightarrow> nat \<Rightarrow> 's BrokerDriverRegistry \<times> 's
     \<Rightarrow> broker_error option \<times> 's BrokerDriverRegistry \<times> 's" where
  "fallback_rounds now cap fn 0 (r, s) = (Some (AllFailed cap), r, s)"
| "fallback_rounds now cap fn (Suc k) (r, s) =
     (case fallback_pass fn (candidates r cap) (r, s) of
        (True, r', s') \<Rightarrow> (None, r', s')
      | (False, r', s') \<Rightarrow>
          fallback_rounds now cap fn k (if 0 < k then RunHealthChecks now (r', s') else (r', s')))"

definition ResolveWithFallback ::
  "int \<Rightarrow> 's BrokerDriverRegistry \<Rightarrow> string \<Rightarrow> 's broker_op \<Rightarrow> 's
     \<Rightarrow> broker_error option \<times> 's BrokerDriverRegistry \<times> 's" where
  "ResolveWithFallback now r cap fn s = fallback_rounds now cap fn 3 (r, s)"

section \<open>Lookups and broadcasts\<close>

definition BrokerDriverRegistry_Get :: "'s BrokerDriverRegistry \<Rightarrow> string \<Rightarrow> 's CapableAdapter option" where
  "BrokerDriverRegistry_Get r i = map_option (\<lambda>e. en_adapter (entry_at r e)) (mlookup (dr_byID r) i)"

record AdapterStatus =
  as_BrokerType :: string
  as_Priority :: int
  as_Healthy :: bool
  as_LastError :: "broker_error option"
  as_LastSeen :: int

definition status_of :: "'s adapterEntry \<Rightarrow> AdapterStatus" where
  "status_of en = \<lparr>as_BrokerType = mf_BrokerType (en_manifest en), as_Priority = mf_Priority (en_manifest en),
     as_Healthy = en_healthy en, as_LastError = en_lastErr en, as_LastSeen = en_lastSeen en\<rparr>"

definition BrokerDriverRegistry_List :: "'s BrokerDriverRegistry \<Rightarrow> (string, AdapterStatus) gomap" where
  "BrokerDriverRegistry_List r =
     fold (\<lambda>e m. mput m (mf_ID (en_manifest (entry_at r e))) (status_of (entry_at r e))) (dr_entries r) []"

definition BrokerDriverRegistry_CancelAllOrders :: "'s BrokerDriverRegistry \<Rightarrow> 's \<Rightarrow> 's" where
  "BrokerDriverRegistry_CancelAllOrders r s =
     fold (\<lambda>e s. snd (ad_CancelAllOrders (as_Adapter (en_adapter (entry_at r e))) s)) (dr_entries r) s"

definition BrokerDriverRegistry_CloseAllPositions :: "'s BrokerDriverRegistry \<Rightarrow> 's \<Rightarrow> 's" where
  "BrokerDriverRegistry_CloseAllPositions r s =
     fold (\<lambda>e s. snd (ad_CloseAllPositions (as_Adapter (en_adapter (entry_at r e))) s)) (dr_entries r) s"

section \<open>Accounts\<close>

datatype 's account_adapter = Plain "'s Adapter" | Capable "'s CapableAdapter"

fun account_Adapter :: "'s account_adapter \<Rightarrow> 's Adapter" where
  "account_Adapter (Plain a) = a"
| "account_Adapter (Capable ca) = as_Adapter ca"

record 's ManagedAccount =
  ma_ID :: string
  ma_BrokerType :: string
  ma_Name :: string
  ma_Environment :: string
  ma_VaultPath :: string
  ma_MaskedKey :: string
  ma_PropFirmProfileID :: string
  ma_Balance :: price
  ma_Equity :: price
  ma_DailyPnL :: f64
  ma_HighWaterMark :: f64
  ma_IsDefault :: bool
  ma_adapter :: "'s account_adapter"

definition NewManagedAccount :: "string \<Rightarrow> string \<Rightarrow> string \<Rightarrow> 's account_adapter \<Rightarrow> 's ManagedAccount" where
  "NewManagedAccount i brokerType name a = \<lparr>ma_ID = i, ma_BrokerType = brokerType, ma_Name = name,
     ma_Environment = '''', ma_VaultPath = '''', ma_MaskedKey = '''', ma_PropFirmProfileID = '''',
     ma_Balance = 0, ma_Equity = 0, ma_DailyPnL = 0, ma_HighWaterMark = 0, ma_IsDefault = False, ma_adapter = a\<rparr>"

definition ManagedAccount_SetBalance :: "'s ManagedAccount \<Rightarrow> price \<Rightarrow> price \<Rightarrow> f64 \<Rightarrow> f64 \<Rightarrow> 's ManagedAccount" where
  "ManagedAccount_SetBalance ma balance equity dailyPnL highWaterMark =
     ma\<lparr>ma_Balance := balance, ma_Equity := equity, ma_DailyPnL := dailyPnL, ma_HighWaterMark := highWaterMark\<rparr>"

definition ManagedAccount_Adapter :: "'s ManagedAccount \<Rightarrow> 's Adapter" where
  "ManagedAccount_Adapter ma = account_Adapter (ma_adapter ma)"

text \<open>The row of an account in the database.\<close>

record DbAccount =
  da_ID :: string
  da_BrokerType :: string
  da_Name :: string
  da_Environment :: string
  da_VaultPath :: string
  da_MaskedKey :: string
  da_PropFirmProfileID :: string
  da_Balance :: f64
  da_Equity :: f64
  da_DailyPnL :: f64
  da_HighWaterMark :: f64
  da_IsDefault :: bool

definition ManagedAccount_ToDBAccount :: "'s ManagedAccount \<Rightarrow> DbAccount" where
  "ManagedAccount_ToDBAccount ma = \<lparr>da_ID = ma_ID ma, da_BrokerType = ma_BrokerType ma, da_Name = ma_Name ma,
     da_Environment = ma_Environment ma, da_VaultPath = ma_VaultPath ma, da_MaskedKey = ma_MaskedKey ma,
     da_PropFirmProfileID = ma_PropFirmProfileID ma, da_Balance = Price_Float64 (ma_Balance ma),
     da_Equity = Price_Float64 (ma_Equity ma), da_DailyPnL = ma_DailyPnL ma,
     da_HighWaterMark = ma_HighWaterMark ma, da_IsDefault = ma_IsDefault ma\<rparr>"

definition ManagedAccount_ApplyFromDBAccount :: "'s ManagedAccount \<Rightarrow> DbAccount \<Rightarrow> 's ManagedAccount" where
  "ManagedAccount_ApplyFromDBAccount ma a = ma\<lparr>ma_ID := da_ID a, ma_BrokerType := da_BrokerType a,
     ma_Name := da_Name a, ma_Environment := da_Environment a, ma_VaultPath := da_VaultPath a,
     ma_MaskedKey := da_MaskedKey a, ma_PropFirmProfileID := da_PropFirmProfileID a,
     ma_Balance := FromFloat64 (da_Balance a), ma_Equity := FromFloat64 (da_Equity a),
     ma_DailyPnL := da_DailyPnL a, ma_HighWaterMark := da_HighWaterMark a, ma_IsDefault := da_IsDefault a\<rparr>"

section \<open>The account manager\<close>

record 's AccountManager =
  am_accounts :: "(string, 's ManagedAccount) gomap"
  am_registry :: "'s BrokerDriverRegistry"

definition NewAccountManager :: "'s BrokerDriverRegistry \<Rightarrow> 's AccountManager" where
  "NewAccountManager r = \<lparr>am_accounts = [], am_registry = r\<rparr>"

text \<open>
  \<open>RegisterAccount\<close> builds a manifest of its own for the account and drops it: the registry asks
  the adapter again.
\<close>

definition RegisterAccount ::
  "int \<Rightarrow> 's AccountManager \<Rightarrow> 's ManagedAccount \<Rightarrow> broker_error option \<times> 's AccountManager" where
  "RegisterAccount now am acct =
     (case mlookup (am_accounts am) (ma_ID acct) of
        Some _ \<Rightarrow> (Some (AlreadyRegistered (ma_ID acct)), am)
      | None \<Rightarrow>
          (case ma_adapter acct of
             Capable ca \<Rightarrow>
               (let m = (ca_Manifest ca)\<lparr>mf_ID := ma_BrokerType acct @ '':'' @ ma_ID acct\<rparr> in
                case BrokerDriverRegistry_Register now (am_registry am) ca of
                  (Some err, r) \<Rightarrow> (Some err, am\<lparr>am_registry := r\<rparr>)
                | (None, r) \<Rightarrow> (None, am\<lparr>am_registry := r, am_accounts := mput (am_accounts am) (ma_ID acct) acct\<rparr>))
           | Plain a \<Rightarrow> (None, am\<lparr>am_accounts := mput (am_accounts am) (ma_ID acct) acct\<rparr>)))"

definition UnregisterAccount :: "'s AccountManager \<Rightarrow> string \<Rightarrow> 's AccountManager" where
  "UnregisterAccount am i =
     (case mlookup (am_accounts am) i of
        None \<Rightarrow> am
      | Some acct \<Rightarrow>
          (let registryKey = ma_BrokerType acct @ '':'' @ i in
           am\<lparr>am_registry := BrokerDriverRegistry_Unregister (am_registry am) registryKey,
              am_accounts := mdelete (am_accounts am) i\<rparr>))"

definition AccountManager_GetAccount :: "'s AccountManager \<Rightarrow> string \<Rightarrow> broker_error + 's ManagedAccount" where
  "AccountManager_GetAccount am i =
     (case mlookup (am_accounts am) i of Some acct \<Rightarrow> Inr acct | None \<Rightarrow> Inl (AccountNotFound i))"

text \<open>The order of the list is the order in which the map is ranged over.\<close>

definition default_entry :: "'s AccountManager \<Rightarrow> (string \<times> 's ManagedAccount) option" where
  "default_entry am =
     (case find (\<lambda>p. ma_IsDefault (snd p)) (am_accounts am) of
        Some p \<Rightarrow> Some p
      | None \<Rightarrow> (if length (am_accounts am) = 1 then Some (hd (am_accounts am)) else None))"

definition GetDefaultAccount :: "'s AccountManager \<Rightarrow> broker_error + 's ManagedAccount" where
  "GetDefaultAccount am = (case default_entry am of Some p \<Rightarrow> Inr (snd p) | None \<Rightarrow> Inl NoDefaultAccount)"

definition GetDefaultAccountID :: "'s AccountManager \<Rightarrow> string" where
  "GetDefaultAccountID am = (case default_entry am of Some p \<Rightarrow> fst p | None \<Rightarrow> '''')"

text \<open>
  The rows of a user come from the repository: \<open>None\<close> without one, \<open>Some None\<close> when the query
  fails.
\<close>

fun apply_rows :: "DbAccount list \<Rightarrow> 's AccountManager \<Rightarrow> string list \<times> 's AccountManager" where
  "apply_rows [] am = ([], am)"
| "apply_rows (dba # rows) am =
     (case mlookup (am_accounts am) (da_ID dba) of
        Some acct \<Rightarrow>
          (let am = am\<lparr>am_accounts := mput (am_accounts am) (da_ID dba) (ManagedAccount_ApplyFromDBAccount acct dba)\<rparr>;
               (ids, am) = apply_rows rows am
           in (da_ID dba # ids, am))
      | None \<Rightarrow> apply_rows rows am)"

definition ListAccountsByUser ::
  "DbAccount list option option \<Rightarrow> 's AccountManager \<Rightarrow> string \<Rightarrow> string list \<times> 's AccountManager" where
  "ListAccountsByUser rows am userID =
     (if userID = '''' then (map fst (am_accounts am), am)
      else (case rows of
              Some (Some dbAccounts) \<Rightarrow> apply_rows dbAccounts am
            | _ \<Rightarrow> (map fst (am_accounts am), am)))"

definition GetAdapter :: "'s AccountManager \<Rightarrow> string \<Rightarrow> broker_error + 's Adapter" where
  "GetAdapter am i = map_sum (\<lambda>e. e) ManagedAccount_Adapter (AccountManager_GetAccount am i)"

definition GetDefaultAdapter :: "'s AccountManager \<Rightarrow> broker_error + 's Adapter" where
  "GetDefaultAdapter am = map_sum (\<lambda>e. e) ManagedAccount_Adapter (GetDefaultAccount am)"

text \<open>Every operation on an account looks it up and calls its adapter.\<close>

definition on_account :: "('s Adapter \<Rightarrow> 's \<Rightarrow> (broker_error + 'r) \<times> 's) \<Rightarrow> 's AccountManager \<Rightarrow> string \<Rightarrow> 's
    \<Rightarrow> (broker_error + 'r) \<times> 's" where
  "on_account call am i s =
     (case GetAdapter am i of Inl e \<Rightarrow> (Inl e, s) | Inr a \<Rightarrow> call a s)"

definition to_result :: "broker_error option \<times> 's \<Rightarrow> (broker_error + unit) \<times> 's" where
  "to_result p = (case fst p of None \<Rightarrow> Inr () | Some e \<Rightarrow> Inl e, snd p)"

definition AccountManager_PlaceOrder ::
  "'s AccountManager \<Rightarrow> string \<Rightarrow> OrderRequest \<Rightarrow> 's \<Rightarrow> (broker_error + OrderResponse) \<times> 's" where
  "AccountManager_PlaceOrder am i req = on_account (\<lambda>a. ad_PlaceOrder a req) am i"

definition AccountManager_CancelOrder :: "'s AccountManager \<Rightarrow> string \<Rightarrow> string \<Rightarrow> 's \<Rightarrow> (broker_error + unit) \<times> 's" where
  "AccountManager_CancelOrder am i orderID = on_account (\<lambda>a s. to_result (ad_CancelOrder a orderID s)) am i"

definition AccountManager_CancelAllOrders :: "'s AccountManager \<Rightarrow> string \<Rightarrow> 's \<Rightarrow> (broker_error + unit) \<times> 's" where
  "AccountManager_CancelAllOrders am i = on_account (\<lambda>a s. to_result (ad_CancelAllOrders a s)) am i"

definition AccountManager_CloseAllPositions :: "'s AccountManager \<Rightarrow> string \<Rightarrow> 's \<Rightarrow> (broker_error + unit) \<times> 's" where
  "AccountManager_CloseAllPositions am i = on_account (\<lambda>a s. to_result (ad_CloseAllPositions a s)) am i"

definition AccountManager_GetPositions :: "'s AccountManager \<Rightarrow> string \<Rightarrow> 's \<Rightarrow> (broker_error + Position list) \<times> 's" where
  "AccountManager_GetPositions am i = on_account ad_GetPositions am i"

definition AccountManager_GetAccountInfo :: "'s AccountManager \<Rightarrow> string \<Rightarrow> 's \<Rightarrow> (broker_error + Account) \<times> 's" where
  "AccountManager_GetAccountInfo am i = on_account ad_GetAccount am i"

definition synced :: "Account \<Rightarrow> 's ManagedAccount \<Rightarrow> 's ManagedAccount" where
  "synced b acct =
     (let acct = acct\<lparr>ma_Balance := ac_Balance b, ma_Equity := ac_Equity b, ma_DailyPnL := ac_DailyPL b\<rparr>
      in if Price_Float64 (ac_Equity b) > ma_HighWaterMark acct
         then acct\<lparr>ma_HighWaterMark := Price_Float64 (ac_Equity b)\<rparr> else acct)"

definition SyncAccountState ::
  "string \<Rightarrow> 's AccountManager \<times> 's \<Rightarrow> broker_error option \<times> 's AccountManager \<times> 's" where
  "SyncAccountState i = (\<lambda>(am, s).
     case AccountManager_GetAccount am i of
       Inl e \<Rightarrow> (Some e, am, s)
     | Inr acct \<Rightarrow>
         (case ad_GetAccount (ManagedAccount_Adapter acct) s of
            (Inl e, s') \<Rightarrow> (Some e, am, s')
          | (Inr b, s') \<Rightarrow>
              (let am = am\<lparr>am_accounts := mput (am_accounts am) i (synced b acct)\<rparr> in
               case ad_GetPositions (ManagedAccount_Adapter acct) s' of
                 (Inl e, s'') \<Rightarrow> (Some e, am, s'')
               | (Inr ps, s'') \<Rightarrow> (None, am, s''))))"

definition SyncAll :: "'s AccountManager \<times> 's \<Rightarrow> 's AccountManager \<times> 's" where
  "SyncAll = (\<lambda>(am, s). fold (\<lambda>i x. snd (SyncAccountState i x)) (fst (ListAccountsByUser None am '''')) (am, s))"

definition CloseAllPositionsAcrossAll :: "'s AccountManager \<Rightarrow> 's \<Rightarrow> 's" where
  "CloseAllPositionsAcrossAll am s =
     fold (\<lambda>i s. snd (AccountManager_CloseAllPositions am i s)) (fst (ListAccountsByUser None am '''')) s"

definition CancelAllOrdersAcrossAll :: "'s AccountManager \<Rightarrow> 's \<Rightarrow> 's" where
  "CancelAllOrdersAcrossAll am s =
     fold (\<lambda>i s. snd (AccountManager_CancelAllOrders am i s)) (fst (ListAccountsByUser None am '''')) s"

definition AccountCount :: "'s AccountManager \<Rightarrow> int" where
  "AccountCount am = int (length (am_accounts am))"

text \<open>\<open>saved\<close> is the answer of the repository, \<open>None\<close> without one.\<close>

definition SetDefaultAccount ::
  "broker_error option \<Rightarrow> 's AccountManager \<Rightarrow> string \<Rightarrow> broker_error option \<times> 's AccountManager" where
  "SetDefaultAccount saved am i =
     (case mlookup (am_accounts am) i of
        None \<Rightarrow> (Some (AccountNotFound i), am)
      | Some acct \<Rightarrow>
          (let accts = mmap_vals (\<lambda>a. a\<lparr>ma_IsDefault := False\<rparr>) (am_accounts am)
           in (saved, am\<lparr>am_accounts := mput accts i (acct\<lparr>ma_IsDefault := True\<rparr>)\<rparr>)))"

section \<open>Well-formed driver registries\<close>

abbreviation entry_prio :: "'s BrokerDriverRegistry \<Rightarrow> nat \<Rightarrow> int" where
  "entry_prio r e \<equiv> mf_Priority (en_manifest (entry_at r e))"

abbreviation entry_id :: "'s BrokerDriverRegistry \<Rightarrow> nat \<Rightarrow> string" where
  "entry_id r e \<equiv> mf_ID (en_manifest (entry_at r e))"

text \<open>The list is ordered by priority, and the index holds exactly its entries, each under its own name.\<close>

definition dr_ok :: "'s BrokerDriverRegistry \<Rightarrow> bool" where
  "dr_ok r \<longleftrightarrow> distinct (dr_entries r) \<and> (\<forall>e\<in>set (dr_entries r). e < length (dr_heap r)) \<and>
     sorted (map (entry_prio r) (dr_entries r)) \<and> mkeys_ok (dr_byID r) \<and>
     (\<forall>i e. mlookup (dr_byID r) i = Some e \<longleftrightarrow> e \<in> set (dr_entries r) \<and> entry_id r e = i)"

datatype 's dr_op =
    DrRegister int "'s CapableAdapter"
  | DrUnregister string
  | DrCheck int
  | DrFallback int string "'s broker_op"

fun dr_step :: "'s dr_op \<Rightarrow> 's BrokerDriverRegistry \<times> 's \<Rightarrow> 's BrokerDriverRegistry \<times> 's" where
  "dr_step (DrRegister now a) (r, s) = (snd (BrokerDriverRegistry_Register now r a), s)"
| "dr_step (DrUnregister i) (r, s) = (BrokerDriverRegistry_Unregister r i, s)"
| "dr_step (DrCheck now) (r, s) = RunHealthChecks now (r, s)"
| "dr_step (DrFallback now cap fn) (r, s) = snd (ResolveWithFallback now r cap fn s)"

text \<open>Two registries with the same entries up to health: what a check and a failure keep.\<close>

definition same_routes :: "'s BrokerDriverRegistry \<Rightarrow> 's BrokerDriverRegistry \<Rightarrow> bool" where
  "same_routes r r' \<longleftrightarrow> length (dr_heap r') = length (dr_heap r) \<and> dr_entries r' = dr_entries r \<and> dr_byID r' = dr_byID r \<and>
     (\<forall>e. e < length (dr_heap r) \<longrightarrow> en_adapter (entry_at r' e) = en_adapter (entry_at r e) \<and>
          en_manifest (entry_at r' e) = en_manifest (entry_at r e))"

lemma same_routes_refl [simp]: "same_routes r r"
  by (simp add: same_routes_def)

lemma same_routes_trans: "same_routes r r' \<Longrightarrow> same_routes r' r'' \<Longrightarrow> same_routes r r''"
  by (simp add: same_routes_def)

lemma entry_at_set_entry: "e < length (dr_heap r) \<Longrightarrow>
  entry_at (set_entry r e f) d = (if d = e then f (entry_at r e) else entry_at r d)"
  by (simp add: set_entry_def entry_at_def)

lemma set_entry_frame [simp]: "dr_entries (set_entry r e f) = dr_entries r" "dr_byID (set_entry r e f) = dr_byID r"
  "length (dr_heap (set_entry r e f)) = length (dr_heap r)"
  by (simp_all add: set_entry_def)

lemma same_routes_set_entry:
  assumes "\<And>en. en_adapter (f en) = en_adapter en" "\<And>en. en_manifest (f en) = en_manifest en"
  shows "same_routes r (set_entry r e f)"
  using assms by (cases "e < length (dr_heap r)")
    (auto simp: same_routes_def entry_at_set_entry, auto simp: set_entry_def entry_at_def)

lemma same_routes_check: "same_routes r (fst (check_entry now e (r, s)))"
  by (auto simp: check_entry_def same_routes_set_entry split: prod.split)

lemma same_routes_checks: "same_routes r (fst (fold (check_entry now) es (r, s)))"
proof (induction es arbitrary: r s)
  case (Cons e es)
  obtain r' s' where p: "check_entry now e (r, s) = (r', s')" by fastforce
  with same_routes_check[of r now e s] have "same_routes r r'" by simp
  with Cons.IH[of r' s'] p show ?case by (auto intro: same_routes_trans)
qed simp

lemma same_routes_RunHealthChecks: "same_routes r (fst (RunHealthChecks now (r, s)))"
  by (simp add: RunHealthChecks_def same_routes_checks)

lemma same_routes_pass: "same_routes r (fst (snd (fallback_pass fn es (r, s))))"
  by (induction es) (auto simp: mark_failed_def same_routes_set_entry split: prod.split option.split)

lemma same_routes_rounds: "same_routes r (fst (snd (fallback_rounds now cap fn k (r, s))))"
proof (induction k arbitrary: r s)
  case (Suc k)
  obtain b r1 s1 where p: "fallback_pass fn (candidates r cap) (r, s) = (b, r1, s1)" by (metis prod_cases3)
  have 1: "same_routes r r1" using same_routes_pass[of r fn "candidates r cap" s] p by simp
  show ?case
  proof (cases b)
    case True with p 1 show ?thesis by simp
  next
    case False
    obtain r2 s2 where q: "(if 0 < k then RunHealthChecks now (r1, s1) else (r1, s1)) = (r2, s2)" by fastforce
    have "same_routes r1 r2" using q same_routes_RunHealthChecks[of r1 now s1] by (auto split: if_splits)
    with 1 Suc.IH[of r2 s2] False p q show ?thesis by (auto intro: same_routes_trans)
  qed
qed simp

lemma same_routes_ok: "same_routes r r' \<Longrightarrow> dr_ok r \<Longrightarrow> dr_ok r'"
proof -
  assume s: "same_routes r r'" and ok: "dr_ok r"
  have e: "entry_prio r' e = entry_prio r e \<and> entry_id r' e = entry_id r e" if "e \<in> set (dr_entries r)" for e
    using that s ok by (auto simp: same_routes_def dr_ok_def)
  from s ok show ?thesis
    using e by (auto simp: same_routes_def dr_ok_def cong: map_cong)
qed

lemma dr_ok_new [simp]: "dr_ok NewBrokerDriverRegistry"
  by (simp add: dr_ok_def NewBrokerDriverRegistry_def)

lemma dr_okD:
  assumes "dr_ok r"
  shows "mlookup (dr_byID r) i = Some e \<longleftrightarrow> e \<in> set (dr_entries r) \<and> entry_id r e = i"
  using assms by (simp add: dr_ok_def)

lemma entry_unique:
  "dr_ok r \<Longrightarrow> e \<in> set (dr_entries r) \<Longrightarrow> d \<in> set (dr_entries r) \<Longrightarrow> entry_id r e = entry_id r d \<Longrightarrow> e = d"
  using dr_okD[of r "entry_id r d" e] dr_okD[of r "entry_id r d" d] by simp

lemma dr_ok_Unregister:
  assumes "dr_ok r"
  shows "dr_ok (BrokerDriverRegistry_Unregister r i)"
proof (cases "mlookup (dr_byID r) i")
  case (Some e)
  define r1 where "r1 = (removeEntry r e)\<lparr>dr_byID := mdelete (dr_byID r) i\<rparr>"
  have frame: "dr_heap r1 = dr_heap r" "dr_entries r1 = remove1 e (dr_entries r)" "dr_byID r1 = mdelete (dr_byID r) i"
    "entry_at r1 = entry_at r"
    by (simp_all add: r1_def removeEntry_def entry_at_def fun_eq_iff)
  have e: "e \<in> set (dr_entries r)" "entry_id r e = i" using Some assms by (simp_all add: dr_okD)
  have "d \<noteq> e \<longleftrightarrow> entry_id r d \<noteq> i" if "d \<in> set (dr_entries r)" for d
    using that e entry_unique[OF assms] by auto
  then have index: "mlookup (dr_byID r1) j = Some d \<longleftrightarrow> d \<in> set (dr_entries r1) \<and> entry_id r1 d = j" for j d
    using assms by (auto simp: frame dr_okD dr_ok_def)
  have "dr_ok r1"
    unfolding dr_ok_def[of r1] using assms index
    by (auto simp: frame dr_ok_def sorted_map_remove1 dest: notin_set_remove1)
  with Some show ?thesis by (simp add: BrokerDriverRegistry_Unregister_def r1_def)
qed (use assms in \<open>simp add: BrokerDriverRegistry_Unregister_def\<close>)

text \<open>What is left of the list after a registration under a name, before the new entry is added.\<close>

definition others :: "'s BrokerDriverRegistry \<Rightarrow> string \<Rightarrow> nat list" where
  "others r i = (case mlookup (dr_byID r) i of Some old \<Rightarrow> remove1 old (dr_entries r) | None \<Rightarrow> dr_entries r)"

definition new_entry :: "int \<Rightarrow> 's CapableAdapter \<Rightarrow> 's adapterEntry" where
  "new_entry now a = \<lparr>en_adapter = a, en_manifest = ca_Manifest a, en_healthy = False, en_lastErr = None, en_lastSeen = now\<rparr>"

lemma Register_eq:
  "mf_ID (ca_Manifest a) \<noteq> '''' \<Longrightarrow> BrokerDriverRegistry_Register now r a =
     (None, sortByPriority \<lparr>dr_heap = dr_heap r @ [new_entry now a],
        dr_entries = others r (mf_ID (ca_Manifest a)) @ [length (dr_heap r)],
        dr_byID = mput (dr_byID r) (mf_ID (ca_Manifest a)) (length (dr_heap r))\<rparr>)"
  by (cases r) (simp add: BrokerDriverRegistry_Register_def removeEntry_def others_def new_entry_def Let_def split: option.split)

lemma set_others:
  assumes "dr_ok r"
  shows "set (others r i) = {e \<in> set (dr_entries r). entry_id r e \<noteq> i}"
proof (cases "mlookup (dr_byID r) i")
  case None
  then have "e \<in> set (dr_entries r) \<Longrightarrow> entry_id r e \<noteq> i" for e
    using dr_okD[OF assms, of i e] by auto
  with None show ?thesis by (auto simp: others_def)
next
  case (Some d)
  then have d: "d \<in> set (dr_entries r)" "entry_id r d = i" using assms by (simp_all add: dr_okD)
  have "e \<noteq> d \<longleftrightarrow> entry_id r e \<noteq> i" if "e \<in> set (dr_entries r)" for e
    using that d entry_unique[OF assms] by auto
  moreover have "set (remove1 d (dr_entries r)) = set (dr_entries r) - {d}"
    using assms by (simp add: dr_ok_def)
  ultimately show ?thesis using Some by (auto simp: others_def)
qed

lemma distinct_others: "dr_ok r \<Longrightarrow> distinct (others r i)"
  by (simp add: others_def dr_ok_def split: option.split)

lemma entry_at_append: "e < length h \<Longrightarrow> entry_at \<lparr>dr_heap = h @ [x], dr_entries = es, dr_byID = m\<rparr> e = h ! e"
  "entry_at \<lparr>dr_heap = h @ [x], dr_entries = es, dr_byID = m\<rparr> (length h) = x"
  by (simp_all add: entry_at_def nth_append)

lemma sortByPriority_frame [simp]: "dr_heap (sortByPriority r) = dr_heap r" "dr_byID (sortByPriority r) = dr_byID r"
  "entry_at (sortByPriority r) = entry_at r" "set (dr_entries (sortByPriority r)) = set (dr_entries r)"
  "distinct (dr_entries (sortByPriority r)) = distinct (dr_entries r)"
  "sorted (map (entry_prio r) (dr_entries (sortByPriority r)))"
  by (simp_all add: sortByPriority_def entry_at_def fun_eq_iff)

lemma dr_ok_Register: 
  assumes "dr_ok r"
  shows "dr_ok (snd (BrokerDriverRegistry_Register now r a))"
proof (cases "mf_ID (ca_Manifest a) = ''''")
  case True
  with assms show ?thesis by (simp add: BrokerDriverRegistry_Register_def)
next
  case False
  define i where "i = mf_ID (ca_Manifest a)"
  define n where "n = length (dr_heap r)"
  define r1 where "r1 = \<lparr>dr_heap = dr_heap r @ [new_entry now a], dr_entries = others r i @ [n], dr_byID = mput (dr_byID r) i n\<rparr>"
  have eq: "snd (BrokerDriverRegistry_Register now r a) = sortByPriority r1"
    using False by (simp add: Register_eq r1_def i_def n_def)
  have old: "e < n \<and> entry_at r1 e = entry_at r e" if "e \<in> set (dr_entries r)" for e
  proof -
    from that assms have "e < length (dr_heap r)" by (simp add: dr_ok_def)
    then show ?thesis by (simp add: r1_def n_def entry_at_def nth_append)
  qed
  have new: "entry_at r1 n = new_entry now a" by (simp add: r1_def n_def entry_at_append)
  have new_id: "mf_ID (en_manifest (new_entry now a)) = i" by (simp add: new_entry_def i_def)
  have dist: "distinct (dr_entries r1)"
    using distinct_others[OF assms, of i] set_others[OF assms, of i] old by (auto simp: r1_def)
  have small: "\<forall>e\<in>set (dr_entries r1). e < length (dr_heap r1)"
    using set_others[OF assms, of i] old by (auto simp: r1_def n_def less_Suc_eq)
  have keys: "mkeys_ok (dr_byID r1)"
    using assms by (simp add: r1_def dr_ok_def)
  have index: "mlookup (dr_byID r1) j = Some e \<longleftrightarrow> e \<in> set (dr_entries r1) \<and> entry_id r1 e = j" for j e
  proof (cases "e = n")
    case True
    have "n \<notin> set (dr_entries r)" using old by auto
    with assms have no: "mlookup (dr_byID r) j \<noteq> Some n" by (simp add: dr_ok_def)
    have r1_eqs: "mlookup (dr_byID r1) j = (if j = i then Some n else mlookup (dr_byID r) j)" "n \<in> set (dr_entries r1)"
      by (simp_all add: r1_def)
    show ?thesis unfolding True new new_id r1_eqs(1) using no r1_eqs(2) by auto
  next
    case False
    have m: "mlookup (dr_byID r1) j = Some e \<longleftrightarrow> j \<noteq> i \<and> mlookup (dr_byID r) j = Some e"
      using False by (simp add: r1_def)
    have s: "e \<in> set (dr_entries r1) \<longleftrightarrow> e \<in> set (dr_entries r) \<and> entry_id r e \<noteq> i"
      using False set_others[OF assms, of i] by (simp add: r1_def)
    have d: "mlookup (dr_byID r) j = Some e \<longleftrightarrow> e \<in> set (dr_entries r) \<and> entry_id r e = j"
      using assms by (simp add: dr_ok_def)
    show ?thesis unfolding m s d using old by auto
  qed
  show ?thesis
    unfolding eq dr_ok_def sortByPriority_frame using dist small keys index by simp
qed

lemma dr_ok_step: "dr_ok (fst x) \<Longrightarrow> dr_ok (fst (dr_step op x))"
proof -
  assume ok: "dr_ok (fst x)"
  obtain r s where x: "x = (r, s)" by fastforce
  with ok have r: "dr_ok r" by simp
  show ?thesis
  proof (cases op)
    case (DrCheck now)
    then show ?thesis using x r same_routes_ok[OF same_routes_RunHealthChecks r] by simp
  next
    case (DrFallback now cap fn)
    then show ?thesis using x r same_routes_ok[OF same_routes_rounds r] by (simp add: ResolveWithFallback_def)
  qed (simp_all add: x r dr_ok_Register dr_ok_Unregister)
qed

lemma dr_ok_run: "dr_ok (fst x) \<Longrightarrow> dr_ok (fst (fold dr_step ops x))"
  by (induction ops arbitrary: x) (simp_all add: dr_ok_step)

text \<open>C31: The driver registry stays well formed. After every sequence of registrations, removals,
  health checks and operations with fallback on a new registry, whatever the adapters answer, the
  routing list has no duplicates and is ordered by priority, and the index holds exactly the listed
  entries, each under the name in its manifest.\<close>

theorem driver_registry_well_formed:
  "dr_ok (fst (fold dr_step ops (NewBrokerDriverRegistry, s)))"
  by (rule dr_ok_run) simp

section \<open>Fallback\<close>

lemma check_entry_other:
  "d \<noteq> e \<Longrightarrow> entry_at (fst (check_entry now e (r, s))) d = entry_at r d"
  by (simp add: check_entry_def set_entry_def entry_at_def split: prod.split)

lemma check_entry_healthy:
  "e < length (dr_heap r) \<Longrightarrow> (\<And>s. fst (ca_HealthCheck (en_adapter (entry_at r e)) s) = None) \<Longrightarrow>
     en_healthy (entry_at (fst (check_entry now e (r, s))) e)"
  by (simp add: check_entry_def entry_at_set_entry split: prod.split) (metis fst_conv)

lemma checks_healthy:
  assumes "e \<in> set es \<or> en_healthy (entry_at r e)" "e < length (dr_heap r)"
    and "\<And>s. fst (ca_HealthCheck (en_adapter (entry_at r e)) s) = None"
  shows "en_healthy (entry_at (fst (fold (check_entry now) es (r, s))) e)"
  using assms
proof (induction es arbitrary: r s)
  case (Cons d es)
  obtain r1 s1 where p: "check_entry now d (r, s) = (r1, s1)" by fastforce
  have same: "same_routes r r1" using same_routes_check[of r now d s] p by simp
  have "e \<in> set es \<or> en_healthy (entry_at r1 e)"
  proof (cases "d = e")
    case True
    then have "en_healthy (entry_at r1 e)" using check_entry_healthy[of e r now s] Cons.prems p by simp
    then show ?thesis ..
  next
    case False
    then show ?thesis using check_entry_other[of e d now r s] Cons.prems p by auto
  qed
  moreover have "e < length (dr_heap r1)" "en_adapter (entry_at r1 e) = en_adapter (entry_at r e)"
    using same Cons.prems(2) by (simp_all add: same_routes_def)
  ultimately show ?case using Cons.IH[of r1 s1] Cons.prems(3) p by simp
qed simp

lemma same_routes_candidates: "same_routes r r' \<Longrightarrow> dr_ok r \<Longrightarrow> candidates r' cap = candidates r cap"
  unfolding candidates_def same_routes_def dr_ok_def adapterEntry_supports_def by (auto intro: filter_cong)

lemma fallback_rounds_stuck:
  assumes "dr_ok r" "candidates r cap = e # es" "en_healthy (entry_at r e)"
    and "\<And>s. fst (ca_HealthCheck (en_adapter (entry_at r e)) s) = None"
    and "\<And>s. fst (fn (en_adapter (entry_at r e)) s) \<noteq> None"
  shows "fst (fallback_rounds now cap fn k (r, s)) = Some (AllFailed cap)"
  using assms
proof (induction k arbitrary: r s)
  case (Suc k)
  obtain err s1 where f: "fn (en_adapter (entry_at r e)) s = (Some err, s1)"
    using Suc.prems(5)[of s] by (cases "fn (en_adapter (entry_at r e)) s") auto
  define r1 where "r1 = mark_failed r e err"
  have pass: "fallback_pass fn (candidates r cap) (r, s) = (False, r1, s1)"
    using Suc.prems(2,3) f by (simp add: r1_def)
  have e: "e \<in> set (dr_entries r)" using Suc.prems(2) by (auto simp: candidates_def filter_eq_Cons_iff)
  show ?case
  proof (cases "0 < k")
    case False
    then show ?thesis using pass by simp
  next
    case True
    obtain r2 s2 where h: "RunHealthChecks now (r1, s1) = (r2, s2)" by fastforce
    have same: "same_routes r r1" by (simp add: r1_def mark_failed_def same_routes_set_entry)
    then have frame: "e \<in> set (dr_entries r1)" "e < length (dr_heap r1)" "en_adapter (entry_at r1 e) = en_adapter (entry_at r e)"
      using e Suc.prems(1) by (auto simp: same_routes_def dr_ok_def)
    have "same_routes r1 r2" using same_routes_RunHealthChecks[of r1 now s1] h by simp
    with same have same2: "same_routes r r2" by (rule same_routes_trans)
    then have ad: "en_adapter (entry_at r2 e) = en_adapter (entry_at r e)"
      using e Suc.prems(1) by (simp add: same_routes_def dr_ok_def)
    have healthy: "en_healthy (entry_at r2 e)"
      using checks_healthy[of e "dr_entries r1" r1 now s1] frame Suc.prems(4) h by (simp add: RunHealthChecks_def)
    show ?thesis
      using pass True h Suc.IH[of r2 s2] same_routes_ok[OF same2 Suc.prems(1)] same_routes_candidates[OF same2 Suc.prems(1), of cap]
        Suc.prems(2,4,5) healthy ad by simp
  qed
qed simp

text \<open>C9: The fallback never reaches the second adapter while the first one answers its health
  checks. In a well formed registry (\<open>dr_ok\<close>, which every operation keeps), if the first adapter
  that supports the capability is healthy, passes every health check and fails the operation in
  every state, a call of \<open>ResolveWithFallback\<close> without other calls in between ends with the error
  that all adapters failed, whatever the operation does on the others: a round ends at its first
  failure, and the checks between the rounds put the failed adapter back in front.\<close>

theorem fallback_never_reaches_backup:
  assumes "dr_ok r" "candidates r cap = e # es" "en_healthy (entry_at r e)"
    and "\<And>s. fst (ca_HealthCheck (en_adapter (entry_at r e)) s) = None"
    and "\<And>s. fst (fn (en_adapter (entry_at r e)) s) \<noteq> None"
  shows "fst (ResolveWithFallback now r cap fn s) = Some (AllFailed cap)"
  using assms by (simp add: ResolveWithFallback_def fallback_rounds_stuck)

text \<open>Two adapters for the instances below: they pass every check and know every capability.\<close>

definition CapPlaceOrder :: string where "CapPlaceOrder = ''PLACE_ORDER''"

definition sample_adapter :: "string \<Rightarrow> int \<Rightarrow> unit CapableAdapter" where
  "sample_adapter i prio = \<lparr>ad_PlaceOrder = (\<lambda>req s. (Inl (AdapterFailure i), s)), ad_CancelOrder = (\<lambda>orderID s. (None, s)),
     ad_CancelAllOrders = (\<lambda>s. (None, s)), ad_CloseAllPositions = (\<lambda>s. (None, s)),
     ad_GetPositions = (\<lambda>s. (Inr [], s)), ad_GetAccount = (\<lambda>s. (Inl (AdapterFailure i), s)),
     ad_ValidateCredentials = (\<lambda>s. (None, s)),
     ca_Manifest = \<lparr>mf_ID = i, mf_BrokerType = i, mf_Priority = prio, mf_Capabilities = [CapPlaceOrder]\<rparr>,
     ca_HealthCheck = (\<lambda>s. (None, s))\<rparr>"

definition sample_drivers :: "unit BrokerDriverRegistry" where
  "sample_drivers = fst (fold dr_step
     [DrRegister 0 (sample_adapter ''paper'' 1), DrRegister 0 (sample_adapter ''alpaca'' 0), DrCheck 0]
     (NewBrokerDriverRegistry, ()))"

lemma sample_drivers_ok: "dr_ok sample_drivers"
  unfolding sample_drivers_def by (rule dr_ok_run) simp

lemma sample_drivers_eval: "sample_drivers =
  \<lparr>dr_heap = [(new_entry 0 (sample_adapter ''paper'' 1))\<lparr>en_healthy := True\<rparr>,
      (new_entry 0 (sample_adapter ''alpaca'' 0))\<lparr>en_healthy := True\<rparr>],
   dr_entries = [1, 0], dr_byID = [(''paper'', 0), (''alpaca'', 1)]\<rparr>"
  by (simp add: sample_drivers_def BrokerDriverRegistry_Register_def NewBrokerDriverRegistry_def removeEntry_def
    sortByPriority_def entry_at_def new_entry_def sample_adapter_def RunHealthChecks_def check_entry_def set_entry_def
    Let_def mput_def)

definition sample_refusal :: "unit broker_op" where
  "sample_refusal a s = (if mf_ID (ca_Manifest a) = ''alpaca'' then Some (AdapterFailure ''down'') else None, s)"

theorem fallback_never_reaches_backup_witness:
  "fst (ResolveWithFallback 1 sample_drivers CapPlaceOrder sample_refusal ()) = Some (AllFailed CapPlaceOrder) \<and>
   fst (sample_refusal (sample_adapter ''paper'' 1) ()) = None"
proof -
  have "candidates sample_drivers CapPlaceOrder = [1, 0]" "en_healthy (entry_at sample_drivers 1)"
    "en_adapter (entry_at sample_drivers 1) = sample_adapter ''alpaca'' 0"
    by (simp_all add: sample_drivers_eval candidates_def entry_at_def adapterEntry_supports_def new_entry_def sample_adapter_def)
  then show ?thesis
    using fallback_never_reaches_backup[OF sample_drivers_ok, of CapPlaceOrder 1 "[0]" sample_refusal 1 "()"]
    by (simp add: sample_adapter_def sample_refusal_def)
qed

section \<open>Accounts and routes\<close>

lemma candidates_Register:
  assumes "dr_ok r" "mf_ID (ca_Manifest a) = i" "i \<noteq> ''''" "cap \<in> set (mf_Capabilities (ca_Manifest a))"
    and "\<forall>e\<in>set (candidates r cap). entry_id r e = i"
  shows "candidates (snd (BrokerDriverRegistry_Register now r a)) cap = [length (dr_heap r)]"
proof -
  define n where "n = length (dr_heap r)"
  define r1 where "r1 = \<lparr>dr_heap = dr_heap r @ [new_entry now a], dr_entries = others r i @ [n], dr_byID = mput (dr_byID r) i n\<rparr>"
  have eq: "snd (BrokerDriverRegistry_Register now r a) = sortByPriority r1"
    using assms(2,3) by (simp add: Register_eq r1_def n_def)
  have new: "entry_at r1 n = new_entry now a" by (simp add: r1_def n_def entry_at_append)
  have "e < n \<and> entry_at r1 e = entry_at r e \<and> \<not> adapterEntry_supports (entry_at r e) cap" if "e \<in> set (others r i)" for e
  proof -
    have e: "e \<in> set (dr_entries r)" "entry_id r e \<noteq> i" using that set_others[OF assms(1), of i] by auto
    then have "e \<notin> set (candidates r cap)" using assms(5) by blast
    moreover have "e < length (dr_heap r)" using assms(1) e(1) by (simp add: dr_ok_def)
    ultimately show ?thesis using e(1) by (simp add: candidates_def r1_def n_def entry_at_def nth_append)
  qed
  moreover have "adapterEntry_supports (entry_at r1 n) cap"
    using assms(4) by (simp add: new new_entry_def adapterEntry_supports_def)
  moreover have "distinct (dr_entries (sortByPriority r1))"
    using dr_ok_Register[OF assms(1), of now a] eq by (simp add: dr_ok_def)
  ultimately have "set (candidates (sortByPriority r1) cap) = {n}" "distinct (candidates (sortByPriority r1) cap)"
    by (auto simp: candidates_def r1_def)
  then have "candidates (sortByPriority r1) cap = [n]"
    by (metis distinct_card list.set_cases length_0_conv length_Suc_conv card.empty card.insert empty_iff finite.emptyI
      set_empty2 singletonD list.simps(15) list.set_intros(1) One_nat_def)
  then show ?thesis by (simp add: eq n_def)
qed

lemma new_entry_Register:
  "mf_ID (ca_Manifest a) \<noteq> '''' \<Longrightarrow>
     entry_at (snd (BrokerDriverRegistry_Register now r a)) (length (dr_heap r)) = new_entry now a"
  by (simp add: Register_eq entry_at_append)

text \<open>C8: Creating an account takes its broker out of service. In a well formed registry (\<open>dr_ok\<close>), take
  an account whose name is new and whose adapter has a name and a capability, and let every listed
  adapter with that capability, if any, go by the same name. Then registering the account succeeds
  and right afterwards no adapter resolves for the capability: the registration replaces the entry
  of that broker by a new one, which starts as unhealthy.\<close>

theorem account_registration_stops_routing:
  assumes "dr_ok (am_registry am)" "mlookup (am_accounts am) (ma_ID acct) = None"
    and "ma_adapter acct = Capable ca" "mf_ID (ca_Manifest ca) \<noteq> ''''"
    and "cap \<in> set (mf_Capabilities (ca_Manifest ca))"
    and "\<forall>e\<in>set (candidates (am_registry am) cap). entry_id (am_registry am) e = mf_ID (ca_Manifest ca)"
  shows "fst (RegisterAccount now am acct) = None \<and>
    Resolve (am_registry (snd (RegisterAccount now am acct))) cap = Inl (AllUnhealthy 1 cap)"
proof -
  let ?r = "am_registry am"
  obtain r1 where r1: "BrokerDriverRegistry_Register now ?r ca = (None, r1)"
    using assms(4) by (auto simp: Register_eq)
  have c: "candidates r1 cap = [length (dr_heap ?r)]"
    using candidates_Register[OF assms(1) refl assms(4) assms(5,6), of now] r1 by simp
  have "\<not> en_healthy (entry_at r1 (length (dr_heap ?r)))"
    using new_entry_Register[OF assms(4), of now ?r] r1 by (simp add: new_entry_def)
  then have "Resolve r1 cap = Inl (AllUnhealthy 1 cap)"
    using c by (simp add: Resolve_def)
  then show ?thesis using assms(2,3) r1 by (simp add: RegisterAccount_def Let_def)
qed

definition sample_accounts :: "unit AccountManager" where
  "sample_accounts = NewAccountManager (fst (fold dr_step [DrRegister 0 (sample_adapter ''paper'' 1), DrCheck 0]
     (NewBrokerDriverRegistry, ())))"

definition sample_account :: "string \<Rightarrow> unit ManagedAccount" where
  "sample_account i = NewManagedAccount i ''paper'' ''desk'' (Capable (sample_adapter ''paper'' 1))"

lemma sample_accounts_eval: "sample_accounts = \<lparr>am_accounts = [], am_registry =
  \<lparr>dr_heap = [(new_entry 0 (sample_adapter ''paper'' 1))\<lparr>en_healthy := True\<rparr>], dr_entries = [0], dr_byID = [(''paper'', 0)]\<rparr>\<rparr>"
  by (simp add: sample_accounts_def NewAccountManager_def BrokerDriverRegistry_Register_def NewBrokerDriverRegistry_def
    sortByPriority_def entry_at_def new_entry_def sample_adapter_def RunHealthChecks_def check_entry_def set_entry_def
    Let_def mput_def)

theorem account_registration_stops_routing_witness:
  "Resolve (am_registry sample_accounts) CapPlaceOrder = Inr (sample_adapter ''paper'' 1) \<and>
   Resolve (am_registry (snd (RegisterAccount 1 sample_accounts (sample_account ''a1'')))) CapPlaceOrder
     = Inl (AllUnhealthy 1 CapPlaceOrder)"
proof -
  have "dr_ok (am_registry sample_accounts)"
    unfolding sample_accounts_def NewAccountManager_def by (simp only: BrokerDriverRegistry.simps AccountManager.simps)
      (rule dr_ok_run, simp)
  then show ?thesis
    using account_registration_stops_routing[of sample_accounts "sample_account ''a1''" "sample_adapter ''paper'' 1" CapPlaceOrder 1]
    by (simp add: sample_accounts_eval sample_account_def NewManagedAccount_def Resolve_def candidates_def
      adapterEntry_supports_def entry_at_def new_entry_def) (simp add: sample_adapter_def)
qed

lemma RegisterAccount_Capable:
  "mlookup (am_accounts am) (ma_ID acct) = None \<Longrightarrow> ma_adapter acct = Capable ca \<Longrightarrow> mf_ID (ca_Manifest ca) \<noteq> '''' \<Longrightarrow>
     RegisterAccount now am acct = (None, am\<lparr>am_registry := snd (BrokerDriverRegistry_Register now (am_registry am) ca),
       am_accounts := mput (am_accounts am) (ma_ID acct) acct\<rparr>)"
  by (simp add: RegisterAccount_def Register_eq Let_def)

lemma entries_Register:
  assumes "dr_ok r" "mf_ID (ca_Manifest a) \<noteq> ''''"
  shows "set (dr_entries (snd (BrokerDriverRegistry_Register now r a))) =
    insert (length (dr_heap r)) {e \<in> set (dr_entries r). entry_id r e \<noteq> mf_ID (ca_Manifest a)}"
  using assms by (simp add: Register_eq set_others)

lemma Get_Register:
  "mf_ID (ca_Manifest a) \<noteq> '''' \<Longrightarrow>
     BrokerDriverRegistry_Get (snd (BrokerDriverRegistry_Register now r a)) (mf_ID (ca_Manifest a)) = Some a"
  by (simp add: BrokerDriverRegistry_Get_def Register_eq entry_at_append new_entry_def)

text \<open>No adapter goes by a name with a colon; the names of accounts in the registry would.\<close>

definition plain_names :: "'s BrokerDriverRegistry \<Rightarrow> bool" where
  "plain_names r \<longleftrightarrow> (\<forall>p\<in>set (dr_byID r). CHR '':'' \<notin> set (fst p))"

lemma plain_names_Register:
  "plain_names r \<Longrightarrow> CHR '':'' \<notin> set (mf_ID (ca_Manifest a)) \<Longrightarrow>
     plain_names (snd (BrokerDriverRegistry_Register now r a))"
proof (cases "mf_ID (ca_Manifest a) = ''''")
  case True
  then show "plain_names r \<Longrightarrow> ?thesis" by (simp add: BrokerDriverRegistry_Register_def)
next
  case False
  assume "plain_names r" "CHR '':'' \<notin> set (mf_ID (ca_Manifest a))"
  with False show ?thesis by (auto simp: plain_names_def Register_eq dest: set_mputD)
qed

lemma plain_names_lookup: "plain_names r \<Longrightarrow> CHR '':'' \<in> set i \<Longrightarrow> mlookup (dr_byID r) i = None"
  by (force simp: plain_names_def map_of_eq_None_iff)

text \<open>
  Accounts of one broker share a single route, and closing an account leaves it in place.
  After two new accounts with adapters of the same name are registered, that name leads to the
  adapter of the second account alone, the second registration has not added an entry, and
  removing either account changes nothing in the registry: it is removed under a name that no
  adapter was ever registered under.
\<close>

theorem accounts_share_one_route:
  assumes "dr_ok (am_registry am)" "plain_names (am_registry am)" "CHR '':'' \<notin> set i" "i \<noteq> ''''"
    and "mlookup (am_accounts am) (ma_ID a1) = None" "mlookup (am_accounts am) (ma_ID a2) = None" "ma_ID a1 \<noteq> ma_ID a2"
    and "ma_adapter a1 = Capable c1" "ma_adapter a2 = Capable c2" "mf_ID (ca_Manifest c1) = i" "mf_ID (ca_Manifest c2) = i"
    and "am1 = snd (RegisterAccount t1 am a1)" "am2 = snd (RegisterAccount t2 am1 a2)"
  shows "BrokerDriverRegistry_Get (am_registry am2) i = Some c2 \<and>
    length (dr_entries (am_registry am2)) = length (dr_entries (am_registry am1)) \<and>
    am_registry (UnregisterAccount am2 (ma_ID a1)) = am_registry am2 \<and>
    am_registry (UnregisterAccount am2 (ma_ID a2)) = am_registry am2"
proof -
  define r1 where "r1 = snd (BrokerDriverRegistry_Register t1 (am_registry am) c1)"
  define r2 where "r2 = snd (BrokerDriverRegistry_Register t2 r1 c2)"
  have am1: "am_registry am1 = r1" "am_accounts am1 = mput (am_accounts am) (ma_ID a1) a1"
    using assms by (simp_all add: RegisterAccount_Capable r1_def)
  have am2: "am_registry am2 = r2" "am_accounts am2 = mput (am_accounts am1) (ma_ID a2) a2"
    using assms am1 by (simp_all add: RegisterAccount_Capable r2_def)
  have ok: "dr_ok r1" "dr_ok r2" using assms(1) by (simp_all add: r1_def r2_def dr_ok_Register)
  have "plain_names r2" using assms by (simp add: r1_def r2_def plain_names_Register)
  then have gone: "mlookup (dr_byID r2) (bt @ '':'' @ k) = None" for bt k
    by (simp add: plain_names_lookup)
  have unreg: "am_registry (UnregisterAccount am2 k) = r2" for k
    using gone by (simp add: UnregisterAccount_def BrokerDriverRegistry_Unregister_def am2(1) Let_def split: option.split)
  have byid: "mlookup (dr_byID r1) i = Some (length (dr_heap (am_registry am)))"
    using assms by (simp add: r1_def Register_eq)
  let ?n1 = "length (dr_heap (am_registry am))"
  have "?n1 \<in> set (dr_entries r1)" using byid ok(1) by (simp add: dr_okD)
  moreover have "dr_entries r2 = dr_entries (sortByPriority \<lparr>dr_heap = dr_heap r1 @ [new_entry t2 c2],
      dr_entries = others r1 i @ [length (dr_heap r1)], dr_byID = mput (dr_byID r1) i (length (dr_heap r1))\<rparr>)"
    using assms by (simp add: r2_def Register_eq)
  ultimately have "length (dr_entries r2) = length (dr_entries r1)"
    by (simp add: sortByPriority_def others_def byid length_remove1 in_set_conv_nth) (metis Suc_pred length_pos_if_in_set nth_mem)
  moreover have "BrokerDriverRegistry_Get r2 i = Some c2"
    using assms Get_Register[of c2 t2 r1] by (simp add: r2_def)
  ultimately show ?thesis unfolding unreg am1(1) am2(1) by simp
qed

theorem accounts_share_one_route_witness:
  "length (dr_entries (am_registry (snd (RegisterAccount 2 (snd (RegisterAccount 1 sample_accounts (sample_account ''a1'')))
     (sample_account ''a2''))))) = 1"
proof -
  have ok: "dr_ok (am_registry sample_accounts)"
    unfolding sample_accounts_def NewAccountManager_def by (simp only: BrokerDriverRegistry.simps AccountManager.simps)
      (rule dr_ok_run, simp)
  have one: "length (dr_entries (am_registry (snd (RegisterAccount 1 sample_accounts (sample_account ''a1''))))) = 1"
    by (simp add: sample_accounts_eval sample_account_def NewManagedAccount_def RegisterAccount_def Register_eq
      sample_adapter_def others_def sortByPriority_def)
  show ?thesis
    using accounts_share_one_route[of sample_accounts "''paper''" "sample_account ''a1''" "sample_account ''a2''"
      "sample_adapter ''paper'' 1" "sample_adapter ''paper'' 1", OF ok _ _ _ _ _ _ _ _ _ _ refl refl, of 2 1] one
    by (simp add: sample_accounts_eval sample_account_def NewManagedAccount_def plain_names_def) (simp add: sample_adapter_def)
qed

text \<open>Setting the default account leaves exactly one; registering a default account does not clear the others.\<close>

theorem SetDefaultAccount_unique:
  assumes "fst (SetDefaultAccount None am i) = None" "mlookup (am_accounts (snd (SetDefaultAccount None am i))) k = Some a"
  shows "ma_IsDefault a \<longleftrightarrow> k = i"
  using assms by (auto simp: SetDefaultAccount_def Let_def split: option.splits if_splits)

theorem SetDefaultAccount_unique_witness:
  "\<exists>a. mlookup (am_accounts (snd (SetDefaultAccount None (snd (RegisterAccount 1 sample_accounts (sample_account ''a1''))) ''a1''))) ''a1'' = Some a
     \<and> ma_IsDefault a"
proof -
  let ?am = "snd (RegisterAccount 1 sample_accounts (sample_account ''a1''))"
  have "fst (SetDefaultAccount None ?am ''a1'') = None \<and>
    mlookup (am_accounts (snd (SetDefaultAccount None ?am ''a1''))) ''a1'' = Some ((sample_account ''a1'')\<lparr>ma_IsDefault := True\<rparr>)"
    by (simp add: SetDefaultAccount_def sample_accounts_eval sample_account_def NewManagedAccount_def RegisterAccount_def
      Register_eq sample_adapter_def)
  then show ?thesis using SetDefaultAccount_unique[of ?am "''a1''" "''a1''"] by blast
qed

text \<open>With two default accounts the one that is used is the one the map yields first.\<close>

theorem default_account_follows_map_order:
  assumes "i \<noteq> k" "ma_IsDefault a" "ma_IsDefault b"
  shows "GetDefaultAccountID \<lparr>am_accounts = [(i, a), (k, b)], am_registry = r\<rparr> \<noteq>
    GetDefaultAccountID \<lparr>am_accounts = [(k, b), (i, a)], am_registry = r\<rparr>"
  using assms by (simp add: GetDefaultAccountID_def default_entry_def)

end
