(* ===== verification/Paper.thy ===== *)
theory Paper
  imports Broker Trades
begin

text \<open>
  The paper broker of \<open>internal/broker/paper/adapter.go\<close>, which stands behind the adapter
  interface whenever no other broker is configured. The mutex makes every method one step; the
  clock is an argument, in seconds, with the offset of the local time zone where days are
  compared. An order returned to a caller is a value here: the code returns a pointer that later
  cancellations write through.
\<close>

section \<open>State\<close>

record PaperAdapter =
  pa_balance :: f64
  pa_equity :: f64
  pa_startingBalance :: f64
  pa_positions :: "(string, Position) gomap"
  pa_orders :: "(string, OrderResponse) gomap"
  pa_lastPrices :: "(string, price) gomap"
  pa_orderCount :: int
  pa_feeConfig :: BrokerageFeeConfig
  pa_fillTimes :: "(string, int) gomap"

definition NewAdapter :: "f64 \<Rightarrow> PaperAdapter" where
  "NewAdapter startingBalance = \<lparr>pa_balance = startingBalance, pa_equity = startingBalance,
     pa_startingBalance = startingBalance, pa_positions = [], pa_orders = [], pa_lastPrices = [],
     pa_orderCount = 0, pa_feeConfig = DefaultBrokerageFee, pa_fillTimes = []\<rparr>"

definition PaperAdapter_Manifest :: AdapterManifest where
  "PaperAdapter_Manifest = \<lparr>mf_ID = ''paper'', mf_BrokerType = ''paper'', mf_Priority = 1,
     mf_Capabilities = [''PLACE_ORDER'', ''CANCEL_ORDER'', ''CANCEL_ALL_ORDERS'', ''CLOSE_ALL_POSITIONS'',
       ''GET_POSITIONS'', ''GET_ACCOUNT'', ''VALIDATE_CREDENTIALS'']\<rparr>"

definition PaperAdapter_HealthCheck :: "PaperAdapter \<Rightarrow> broker_error option" where
  "PaperAdapter_HealthCheck p = (if pa_balance p < 0 then Some (AdapterFailure ''paper: negative balance'') else None)"

section \<open>Orders\<close>

fun digits :: "nat \<Rightarrow> string" where
  "digits n = (if n < 10 then [char_of (48 + n)] else digits (n div 10) @ [char_of (48 + n mod 10)])"

declare digits.simps [simp del]

definition order_name :: "string \<Rightarrow> int \<Rightarrow> string" where
  "order_name prefix n = prefix @ (if n < 0 then ''-'' @ digits (nat (- n)) else digits (nat n))"

definition fill_price :: "PaperAdapter \<Rightarrow> OrderRequest \<Rightarrow> price" where
  "fill_price p req =
     (if rq_Type req = Market then
        (case mlookup (pa_lastPrices p) (rq_Symbol req) of
           Some lastPrice \<Rightarrow> lastPrice
         | None \<Rightarrow> if Price_IsZero (rq_LimitPrice req) then FromFloat64 (lit 100) else rq_LimitPrice req)
      else rq_LimitPrice req)"

definition order_cost :: "price \<Rightarrow> f64 \<Rightarrow> f64" where
  "order_cost pr quantity = Price_Float64 (Price_MulFloat pr quantity)"

definition order_commission :: "PaperAdapter \<Rightarrow> price \<Rightarrow> f64 \<Rightarrow> f64" where
  "order_commission p pr quantity = BrokerageFeeConfig_CalculateFee (pa_feeConfig p) quantity (Price_Float64 pr)"

definition empty_position :: "string \<Rightarrow> Position" where
  "empty_position symb = \<lparr>po_Symbol = symb, po_Quantity = 0, po_AvgEntryPrice = 0, po_MarketValue = 0, po_UnrealizedPL = 0\<rparr>"

definition bought :: "Position \<Rightarrow> f64 \<Rightarrow> price \<Rightarrow> Position" where
  "bought pos quantity pr =
     (let newQty = po_Quantity pos + quantity;
          avg = (if feq (po_Quantity pos) 0 then pr
                 else FromFloat64 ((Price_Float64 (po_AvgEntryPrice pos) * po_Quantity pos + Price_Float64 pr * quantity) / newQty))
      in pos\<lparr>po_AvgEntryPrice := avg, po_Quantity := newQty\<rparr>)"

definition sold :: "Position \<Rightarrow> f64 \<Rightarrow> Position" where
  "sold pos quantity =
     (let newQty = po_Quantity pos - quantity
      in if newQty \<le> 0 then pos\<lparr>po_AvgEntryPrice := 0, po_Quantity := 0\<rparr> else pos\<lparr>po_Quantity := newQty\<rparr>)"

definition marked :: "Position \<Rightarrow> price \<Rightarrow> Position" where
  "marked pos pr =
     (let mv = FromFloat64 (po_Quantity pos * Price_Float64 pr)
      in pos\<lparr>po_MarketValue := mv,
           po_UnrealizedPL := (if po_Quantity pos > 0
             then Price_Float64 mv - Price_Float64 (po_AvgEntryPrice pos) * po_Quantity pos else 0)\<rparr>)"

definition PaperAdapter_PlaceOrder :: "int \<Rightarrow> OrderRequest \<Rightarrow> PaperAdapter \<Rightarrow> OrderResponse \<times> PaperAdapter" where
  "PaperAdapter_PlaceOrder now req p =
     (let n = wrap64 (pa_orderCount p + 1);
          orderID = order_name ''paper-'' n;
          pr = fill_price p req;
          resp = \<lparr>rs_BrokerOrderID = orderID, rs_Status = Filled, rs_FilledQty = rq_Quantity req,
                  rs_AvgFillPrice = pr, rs_TxID = ''''\<rparr>;
          cost = order_cost pr (rq_Quantity req);
          commission = order_commission p pr (rq_Quantity req);
          pos = mget (empty_position (rq_Symbol req)) (pa_positions p) (rq_Symbol req);
          balance = (if rq_Side req = Buy then pa_balance p - (cost + commission) else pa_balance p + (cost - commission));
          pos = marked (if rq_Side req = Buy then bought pos (rq_Quantity req) pr else sold pos (rq_Quantity req)) pr;
          positions = mput (pa_positions p) (rq_Symbol req) pos;
          equity = fold (\<lambda>(k, pn) eq. if po_Symbol pn \<noteq> po_Symbol pos then eq + po_UnrealizedPL pn else eq)
                     positions (balance + po_UnrealizedPL pos)
      in (resp, p\<lparr>pa_orderCount := n, pa_lastPrices := mput (pa_lastPrices p) (rq_Symbol req) pr,
           pa_orders := mput (pa_orders p) orderID resp, pa_fillTimes := mput (pa_fillTimes p) orderID now,
           pa_positions := positions, pa_balance := balance, pa_equity := equity\<rparr>))"

definition PaperAdapter_CancelOrder :: "string \<Rightarrow> PaperAdapter \<Rightarrow> PaperAdapter" where
  "PaperAdapter_CancelOrder orderID p =
     (case mlookup (pa_orders p) orderID of
        Some order \<Rightarrow> p\<lparr>pa_orders := mput (pa_orders p) orderID (order\<lparr>rs_Status := Canceled\<rparr>)\<rparr>
      | None \<Rightarrow> p)"

definition PaperAdapter_CancelAllOrders :: "PaperAdapter \<Rightarrow> PaperAdapter" where
  "PaperAdapter_CancelAllOrders p = p\<lparr>pa_orders := mmap_vals (\<lambda>order.
     if rs_Status order = New \<or> rs_Status order = PartiallyFilled then order\<lparr>rs_Status := Canceled\<rparr> else order) (pa_orders p)\<rparr>"

definition PaperAdapter_CloseAllPositions :: "PaperAdapter \<Rightarrow> PaperAdapter" where
  "PaperAdapter_CloseAllPositions p = fold (\<lambda>(key, pos) p. p\<lparr>pa_equity := pa_equity p + po_UnrealizedPL pos,
     pa_balance := pa_balance p + po_UnrealizedPL pos, pa_positions := mdelete (pa_positions p) key\<rparr>) (pa_positions p) p"

definition PaperAdapter_GetPositions :: "PaperAdapter \<Rightarrow> Position list" where
  "PaperAdapter_GetPositions p = filter (\<lambda>pos. \<not> feq (po_Quantity pos) 0) (map snd (pa_positions p))"

definition PaperAdapter_GetAccount :: "int \<Rightarrow> PaperAdapter \<Rightarrow> Account" where
  "PaperAdapter_GetAccount now p =
     (let unrealizedPL = fold (\<lambda>(k, pos) u. u + po_UnrealizedPL pos) (pa_positions p) 0
      in \<lparr>ac_ID = order_name ''paper-'' now, ac_Balance = FromFloat64 (pa_balance p),
          ac_Equity = FromFloat64 (pa_balance p + unrealizedPL),
          ac_BuyingPower = FromFloat64 ((pa_balance p + unrealizedPL) * lit 2),
          ac_DailyPL = pa_balance p + unrealizedPL - pa_startingBalance p, ac_Status = ''ACTIVE''\<rparr>)"

definition PaperAdapter_Reset :: "PaperAdapter \<Rightarrow> PaperAdapter" where
  "PaperAdapter_Reset p = p\<lparr>pa_positions := [], pa_orders := [], pa_equity := pa_startingBalance p,
     pa_balance := pa_startingBalance p\<rparr>"

section \<open>Orders in two phases\<close>

definition PaperAdapter_PrepareOrder :: "OrderRequest \<Rightarrow> PaperAdapter \<Rightarrow> string \<times> PaperAdapter" where
  "PaperAdapter_PrepareOrder req p =
     (let n = wrap64 (pa_orderCount p + 1);
          orderID = order_name ''paper-tx-'' n;
          pr = (if rq_Type req = Market then
                  (case mlookup (pa_lastPrices p) (rq_Symbol req) of Some lastPrice \<Rightarrow> lastPrice | None \<Rightarrow> FromFloat64 (lit 100))
                else rq_LimitPrice req);
          resp = \<lparr>rs_BrokerOrderID = orderID, rs_Status = New, rs_FilledQty = 0, rs_AvgFillPrice = pr, rs_TxID = ''''\<rparr>
      in (orderID, p\<lparr>pa_orderCount := n, pa_orders := mput (pa_orders p) orderID resp\<rparr>))"

definition PaperAdapter_ConfirmOrder :: "string \<Rightarrow> PaperAdapter \<Rightarrow> (broker_error + OrderResponse) \<times> PaperAdapter" where
  "PaperAdapter_ConfirmOrder brokerID p =
     (case mlookup (pa_orders p) brokerID of
        None \<Rightarrow> (Inl (AdapterFailure (''paper: order '' @ brokerID @ '' not found'')), p)
      | Some order \<Rightarrow>
          (let n = wrap64 (pa_orderCount p + 1);
               fillOrderID = order_name ''paper-'' n;
               qty = (if rs_FilledQty order \<le> 0 then lit 100 else rs_FilledQty order);
               pr = rs_AvgFillPrice order;
               resp = \<lparr>rs_BrokerOrderID = fillOrderID, rs_Status = Filled, rs_FilledQty = qty, rs_AvgFillPrice = pr, rs_TxID = ''''\<rparr>;
               cost = order_cost pr qty;
               commission = order_commission p pr qty
           in (Inr resp, p\<lparr>pa_orderCount := n, pa_lastPrices := mput (pa_lastPrices p) fillOrderID pr,
                pa_orders := mput (pa_orders p) fillOrderID resp,
                pa_balance := pa_balance p - (cost + commission), pa_equity := pa_equity p - commission\<rparr>)))"

text \<open>\<open>zone\<close> is the offset of local time; \<open>day\<close> the parsed date, \<open>None\<close> when it does not parse.\<close>

definition sameDay :: "int \<Rightarrow> int \<Rightarrow> int \<Rightarrow> bool" where
  "sameDay zone t target \<longleftrightarrow> (t + zone) div 86400 = target div 86400"

definition PaperAdapter_GetFills :: "int \<Rightarrow> int option \<Rightarrow> PaperAdapter \<Rightarrow> broker_error + TradeFill list" where
  "PaperAdapter_GetFills zone day p =
     (case day of
        None \<Rightarrow> Inl (AdapterFailure ''paper: invalid date format'')
      | Some target \<Rightarrow> Inr (List.map_filter (\<lambda>(orderID, order).
          if rs_Status order \<noteq> Filled then None
          else (case mlookup (pa_fillTimes p) orderID of
                  None \<Rightarrow> None
                | Some ft \<Rightarrow> if sameDay zone ft target
                    then Some \<lparr>tf_OrderID = orderID, tf_Symbol = ''PAPER'', tf_Side = Buy, tf_Quantity = rs_FilledQty order,
                      tf_FillPrice = rs_AvgFillPrice order, tf_FillTime = ft, tf_BrokerOrderID = rs_BrokerOrderID order\<rparr>
                    else None)) (pa_orders p)))"

section \<open>The adapter\<close>

definition Paper_adapter :: "int \<Rightarrow> PaperAdapter CapableAdapter" where
  "Paper_adapter now = \<lparr>
     ad_PlaceOrder = (\<lambda>req p. case PaperAdapter_PlaceOrder now req p of (resp, p') \<Rightarrow> (Inr resp, p')),
     ad_CancelOrder = (\<lambda>orderID p. (None, PaperAdapter_CancelOrder orderID p)),
     ad_CancelAllOrders = (\<lambda>p. (None, PaperAdapter_CancelAllOrders p)),
     ad_CloseAllPositions = (\<lambda>p. (None, PaperAdapter_CloseAllPositions p)),
     ad_GetPositions = (\<lambda>p. (Inr (PaperAdapter_GetPositions p), p)),
     ad_GetAccount = (\<lambda>p. (Inr (PaperAdapter_GetAccount now p), p)),
     ad_ValidateCredentials = (\<lambda>p. (None, p)),
     ca_Manifest = PaperAdapter_Manifest,
     ca_HealthCheck = (\<lambda>p. (PaperAdapter_HealthCheck p, p))\<rparr>"

section \<open>Positions are never short\<close>

definition long_qty :: "f64 \<Rightarrow> bool" where
  "long_qty q \<longleftrightarrow> 0 \<le> q \<and> f64_ok q"

definition trade_qty :: "f64 \<Rightarrow> bool" where
  "trade_qty q \<longleftrightarrow> is_fin q \<and> 0 < q \<and> f64_ok q"

definition position_ok :: "string \<times> Position \<Rightarrow> bool" where
  "position_ok p \<longleftrightarrow> po_Symbol (snd p) = fst p \<and> long_qty (po_Quantity (snd p))"

definition paper_ok :: "PaperAdapter \<Rightarrow> bool" where
  "paper_ok p \<longleftrightarrow> mkeys_ok (pa_positions p) \<and> (\<forall>x\<in>set (pa_positions p). position_ok x)"

datatype paper_op =
    PaPlace int OrderRequest
  | PaCancel string
  | PaCancelAll
  | PaCloseAll
  | PaPrepare OrderRequest
  | PaConfirm string
  | PaReset

fun paper_step :: "paper_op \<Rightarrow> PaperAdapter \<Rightarrow> PaperAdapter" where
  "paper_step (PaPlace now req) p = snd (PaperAdapter_PlaceOrder now req p)"
| "paper_step (PaCancel i) p = PaperAdapter_CancelOrder i p"
| "paper_step PaCancelAll p = PaperAdapter_CancelAllOrders p"
| "paper_step PaCloseAll p = PaperAdapter_CloseAllPositions p"
| "paper_step (PaPrepare req) p = snd (PaperAdapter_PrepareOrder req p)"
| "paper_step (PaConfirm i) p = snd (PaperAdapter_ConfirmOrder i p)"
| "paper_step PaReset p = PaperAdapter_Reset p"

fun paper_op_ok :: "paper_op \<Rightarrow> bool" where
  "paper_op_ok (PaPlace now req) = trade_qty (rq_Quantity req)"
| "paper_op_ok _ = True"

lemma long_qty_0 [simp]: "long_qty 0"
  by (simp add: long_qty_def zero_f64_def)

lemma add_trade_qty:
  assumes "long_qty a" "trade_qty b"
  shows "0 < a + b" and "long_qty (a + b)"
proof -
  have b: "is_fin b" "0 < fval b" "f64_ok b" using assms(2) by (auto simp: trade_qty_def fin_less)
  have a: "a \<noteq> FNaN" "0 \<le> a" "f64_ok a" using assms(1) by (auto simp: long_qty_def)
  show pos: "0 < a + b"
  proof (cases "is_fin a")
    case True
    then have "0 \<le> fval a" using a(2) by (simp add: fin_le)
    then have "rnd (fval b) \<le> rnd (fval a + fval b)" by (intro rnd_mono) simp
    then have "Fin (fval b) \<le> a + b"
      using rnd_fval[OF b(3,1)] feqv_le(1)[OF add_feqv[OF True b(1)]] by simp
    moreover have "0 < Fin (fval b)" using b(2) by (simp add: fin_less)
    ultimately show ?thesis by (metis f64_less_le_trans)
  next
    case False
    then have "a = FPosInf" using a by (cases a) (auto simp: less_eq_f64_def zero_f64_def frank_def is_fin_def)
    then show ?thesis using b(1) by (cases b) (auto simp: plus_f64_def is_inf_def less_f64_def zero_f64_def frank_def is_fin_def)
  qed
  then show "long_qty (a + b)" using a b by (simp add: long_qty_def f64_less_imp_le)
qed

lemma sub_trade_qty:
  assumes "long_qty a" "trade_qty b" "\<not> a - b \<le> 0"
  shows "long_qty (a - b)"
proof -
  have "a \<noteq> FNaN" "is_fin b" using assms(1,2) by (auto simp: long_qty_def trade_qty_def)
  then have "a - b \<noteq> FNaN"
    by (cases b; cases a) (auto simp: minus_f64_def plus_f64_def uminus_f64_def is_inf_def is_fin_def)
  then show ?thesis using assms f64_not_le[of "a - b" 0] by (simp add: long_qty_def trade_qty_def f64_less_imp_le)
qed

lemma marked_frame [simp]: "po_Symbol (marked pos pr) = po_Symbol pos" "po_Quantity (marked pos pr) = po_Quantity pos"
  by (simp_all add: marked_def Let_def)

lemma bought_frame [simp]: "po_Symbol (bought pos q pr) = po_Symbol pos" "po_Quantity (bought pos q pr) = po_Quantity pos + q"
  by (simp_all add: bought_def Let_def)

lemma sold_frame [simp]: "po_Symbol (sold pos q) = po_Symbol pos"
  "po_Quantity (sold pos q) = (if po_Quantity pos - q \<le> 0 then 0 else po_Quantity pos - q)"
  by (simp_all add: sold_def Let_def)

lemma held_position_ok: "paper_ok p \<Longrightarrow> position_ok (symb, mget (empty_position symb) (pa_positions p) symb)"
proof (cases "mlookup (pa_positions p) symb")
  case None
  then show ?thesis by (simp add: mget_def position_ok_def empty_position_def)
next
  case (Some pos)
  assume "paper_ok p"
  with mlookup_in_set[OF Some] have "position_ok (symb, pos)" by (auto simp: paper_ok_def)
  with Some show ?thesis by (simp add: mget_def)
qed

lemma PlaceOrder_positions:
  "pa_positions (snd (PaperAdapter_PlaceOrder now req p)) = mput (pa_positions p) (rq_Symbol req)
     (let pos = mget (empty_position (rq_Symbol req)) (pa_positions p) (rq_Symbol req); pr = fill_price p req
      in marked (if rq_Side req = Buy then bought pos (rq_Quantity req) pr else sold pos (rq_Quantity req)) pr)"
  by (simp add: PaperAdapter_PlaceOrder_def Let_def)

lemma paper_ok_PlaceOrder:
  assumes "paper_ok p" "trade_qty (rq_Quantity req)"
  shows "paper_ok (snd (PaperAdapter_PlaceOrder now req p))"
proof -
  have "position_ok (rq_Symbol req, mget (empty_position (rq_Symbol req)) (pa_positions p) (rq_Symbol req))"
    using assms(1) by (rule held_position_ok)
  then have "position_ok (rq_Symbol req, let pos = mget (empty_position (rq_Symbol req)) (pa_positions p) (rq_Symbol req); pr = fill_price p req
      in marked (if rq_Side req = Buy then bought pos (rq_Quantity req) pr else sold pos (rq_Quantity req)) pr)"
    using assms(2) by (auto simp: position_ok_def Let_def add_trade_qty(2) sub_trade_qty)
  then show ?thesis using assms(1) by (auto simp: paper_ok_def PlaceOrder_positions dest: set_mputD)
qed

lemma closed_positions:
  "pa_positions (fold (\<lambda>(key, pos) p. p\<lparr>pa_equity := pa_equity p + po_UnrealizedPL pos,
     pa_balance := pa_balance p + po_UnrealizedPL pos, pa_positions := mdelete (pa_positions p) key\<rparr>) xs p)
   = fold (\<lambda>x m. mdelete m (fst x)) xs (pa_positions p)"
  by (induction xs arbitrary: p) (auto simp: case_prod_beta)

lemma delete_all: "mkeys_ok m \<Longrightarrow> fold (\<lambda>x m. mdelete m (fst x)) m m = []"
proof (induction m)
  case (Cons x m)
  have "mdelete (x # m) (fst x) = m"
    using Cons.prems mdelete_absent[of m "fst x"]
    by (cases x) (auto simp: mdelete_def mkeys_ok_def map_of_eq_None_iff)
  with Cons show ?case by (simp add: mkeys_ok_def)
qed simp

lemma CloseAllPositions_positions: "mkeys_ok (pa_positions p) \<Longrightarrow> pa_positions (PaperAdapter_CloseAllPositions p) = []"
  by (simp add: PaperAdapter_CloseAllPositions_def closed_positions delete_all)

lemma paper_ok_step: "paper_ok p \<Longrightarrow> paper_op_ok op \<Longrightarrow> paper_ok (paper_step op p)"
proof (cases op)
  case (PaPlace now req)
  then show "paper_ok p \<Longrightarrow> paper_op_ok op \<Longrightarrow> ?thesis" by (simp add: paper_ok_PlaceOrder)
next
  case PaCloseAll
  then show "paper_ok p \<Longrightarrow> ?thesis" using CloseAllPositions_positions[of p] by (simp add: paper_ok_def)
qed (auto simp: paper_ok_def PaperAdapter_CancelOrder_def PaperAdapter_CancelAllOrders_def PaperAdapter_PrepareOrder_def
    PaperAdapter_ConfirmOrder_def PaperAdapter_Reset_def Let_def split: option.split)

lemma paper_ok_new [simp]: "paper_ok (NewAdapter b)"
  by (simp add: paper_ok_def NewAdapter_def)

lemma paper_ok_run: "paper_ok p \<Longrightarrow> list_all paper_op_ok ops \<Longrightarrow> paper_ok (fold paper_step ops p)"
  by (induction ops arbitrary: p) (simp_all add: paper_ok_step)

text \<open>
  The paper broker never reports a short position. From a new adapter, after any sequence of
  orders of positive finite quantities, cancellations, closings, two phase orders and resets,
  every position that \<open>GetPositions\<close> returns has a positive quantity, and no two are in the same
  symbol: a sale of more than is held closes the position.
\<close>

theorem paper_positions_never_short:
  assumes "list_all paper_op_ok ops"
  shows "let ps = PaperAdapter_GetPositions (fold paper_step ops (NewAdapter b))
    in distinct (map po_Symbol ps) \<and> list_all (\<lambda>pos. 0 < po_Quantity pos) ps"
proof -
  define p where "p = fold paper_step ops (NewAdapter b)"
  have ok: "paper_ok p" unfolding p_def by (rule paper_ok_run[OF paper_ok_new assms])
  then have "map po_Symbol (map snd (pa_positions p)) = map fst (pa_positions p)"
    by (auto simp: paper_ok_def position_ok_def)
  moreover have "distinct (map fst (pa_positions p))" using ok by (simp add: paper_ok_def mkeys_ok_def)
  ultimately have "distinct (map po_Symbol (map snd (pa_positions p)))" by (simp only:)
  then have "distinct (map po_Symbol (PaperAdapter_GetPositions p))"
    unfolding PaperAdapter_GetPositions_def by (rule distinct_map_filter)
  moreover have "0 < q" if "long_qty q" "\<not> feq q 0" for q
    using that by (cases q) (auto simp: long_qty_def feq_def less_eq_f64_def less_f64_def zero_f64_def frank_def)
  then have "list_all (\<lambda>pos. 0 < po_Quantity pos) (PaperAdapter_GetPositions p)"
    using ok by (auto simp: list_all_iff PaperAdapter_GetPositions_def paper_ok_def position_ok_def)
  ultimately show ?thesis by (simp add: p_def Let_def)
qed

theorem paper_positions_never_short_witness:
  "list_all (\<lambda>pos. 0 < po_Quantity pos) (PaperAdapter_GetPositions (fold paper_step
     [PaPlace 0 \<lparr>rq_AccountID = '''', rq_Symbol = ''SPY'', rq_Side = Sell, rq_Type = Market, rq_Quantity = lit 5,
        rq_LimitPrice = 0, rq_StopPrice = 0, rq_TimeInForce = ''DAY'', rq_StrategyID = '''', rq_TxID = '''',
        rq_StopLoss = 0, rq_TakeProfit = 0\<rparr>] (NewAdapter (lit 1000))))"
proof -
  have "trade_qty (lit 5)" by (simp add: trade_qty_def f64_eval)
  then show ?thesis
    using paper_positions_never_short[of "[PaPlace 0 \<lparr>rq_AccountID = '''', rq_Symbol = ''SPY'', rq_Side = Sell, rq_Type = Market,
      rq_Quantity = lit 5, rq_LimitPrice = 0, rq_StopPrice = 0, rq_TimeInForce = ''DAY'', rq_StrategyID = '''', rq_TxID = '''',
      rq_StopLoss = 0, rq_TakeProfit = 0\<rparr>]" "lit 1000"] by (simp add: Let_def)
qed

section \<open>Preflight in front of the paper broker\<close>

lemma held_in_positions:
  "list_all position_ok m \<Longrightarrow> mkeys_ok m \<Longrightarrow> mlookup m symb = Some pos \<Longrightarrow> \<not> feq (po_Quantity pos) 0 \<Longrightarrow>
     held_in symb (filter (\<lambda>pos. \<not> feq (po_Quantity pos) 0) (map snd m)) = po_Quantity pos"
proof (induction m)
  case (Cons x m)
  obtain k v where x: "x = (k, v)" by fastforce
  have v: "po_Symbol v = k" using Cons.prems(1) x by (simp add: position_ok_def)
  show ?case
  proof (cases "k = symb")
    case True
    then show ?thesis using Cons.prems x v by simp
  next
    case False
    have "mkeys_ok m" using Cons.prems(2) by (simp add: mkeys_ok_def)
    then show ?thesis using Cons x v False by simp
  qed
qed simp

lemma pos_not_zero: "0 < (q :: f64) \<Longrightarrow> \<not> feq q 0"
  by (cases q) (auto simp: feq_def less_f64_def zero_f64_def frank_def)

lemma bought_is_held:
  assumes "paper_ok p" "trade_qty (rq_Quantity req)" "rq_Side req = Buy"
  shows "0 < held_in (rq_Symbol req) (PaperAdapter_GetPositions (snd (PaperAdapter_PlaceOrder now req p)))"
proof -
  let ?p' = "snd (PaperAdapter_PlaceOrder now req p)"
  let ?old = "mget (empty_position (rq_Symbol req)) (pa_positions p) (rq_Symbol req)"
  have ok: "paper_ok ?p'" using assms(1,2) by (rule paper_ok_PlaceOrder)
  obtain pos where pos: "mlookup (pa_positions ?p') (rq_Symbol req) = Some pos" "po_Quantity pos = po_Quantity ?old + rq_Quantity req"
    using assms(3) by (simp add: PlaceOrder_positions Let_def)
  have "long_qty (po_Quantity ?old)" using held_position_ok[OF assms(1)] by (simp add: position_ok_def)
  then have "0 < po_Quantity pos" using add_trade_qty(1) assms(2) pos(2) by simp
  then show ?thesis
    using held_in_positions[OF _ _ pos(1)] ok pos_not_zero
    by (simp add: PaperAdapter_GetPositions_def paper_ok_def list_all_iff)
qed

lemma Paper_adapter_simps:
  "ad_PlaceOrder (as_Adapter (Paper_adapter now)) req p = (Inr (fst (PaperAdapter_PlaceOrder now req p)), snd (PaperAdapter_PlaceOrder now req p))"
  "ad_GetPositions (as_Adapter (Paper_adapter now)) p = (Inr (PaperAdapter_GetPositions p), p)"
  "ad_GetAccount (as_Adapter (Paper_adapter now)) p = (Inr (PaperAdapter_GetAccount now p), p)"
  "ad_CancelAllOrders (as_Adapter (Paper_adapter now)) p = (None, PaperAdapter_CancelAllOrders p)"
  "ad_CloseAllPositions (as_Adapter (Paper_adapter now)) p = (None, PaperAdapter_CloseAllPositions p)"
  by (simp_all add: as_Adapter_def Paper_adapter_def Adapter.truncate_def case_prod_beta)

interpretation paper_desk: broker_contract "as_Adapter (Paper_adapter now)" paper_ok "\<lambda>req. trade_qty (rq_Quantity req)" for now
proof (unfold_locales, goal_cases)
  case (1 s req)
  then show ?case by (simp add: Paper_adapter_simps paper_ok_PlaceOrder)
next
  case (2 s)
  show ?case by (simp add: Paper_adapter_simps)
next
  case (3 s req resp s' ps s'')
  then show ?case using bought_is_held[of s req now] by (auto simp: Paper_adapter_simps)
qed

text \<open>The preflight check stops a second purchase on the paper broker. After any history of
  orders of positive quantities and a purchase, a further order to buy the same symbol is
  skipped because the position is already open.
\<close>

theorem preflight_refuses_second_buy:
  assumes "list_all paper_op_ok ops" "trade_qty (rq_Quantity req)" "rq_Side req = Buy"
    and "rq_Side req' = Buy" "rq_Symbol req' = rq_Symbol req"
  shows "fst (Preflight (Some (as_Adapter (Paper_adapter now))) (Some req')
      (snd (PaperAdapter_PlaceOrder now req (fold paper_step ops (NewAdapter b)))))
    = \<lparr>pf_Skip = True, pf_Reason = ''position already open''\<rparr>"
  using paper_desk.second_buy_refused[OF paper_ok_run[OF paper_ok_new assms(1)] assms(2,3) Paper_adapter_simps(1) assms(4,5)]
  by simp

definition sample_order :: "string \<Rightarrow> string \<Rightarrow> OrderRequest" where
  "sample_order side ty = \<lparr>rq_AccountID = '''', rq_Symbol = ''SPY'', rq_Side = side, rq_Type = ty, rq_Quantity = lit 100,
     rq_LimitPrice = 10000000, rq_StopPrice = 0, rq_TimeInForce = ''DAY'', rq_StrategyID = '''', rq_TxID = '''',
     rq_StopLoss = 0, rq_TakeProfit = 0\<rparr>"

lemma trade_qty_100: "trade_qty (lit 100)"
  by (simp add: trade_qty_def f64_eval)

theorem preflight_refuses_second_buy_witness:
  "fst (Preflight (Some (as_Adapter (Paper_adapter 0))) (Some (sample_order Buy Market))
      (snd (PaperAdapter_PlaceOrder 0 (sample_order Buy ''LIMIT'') (fold paper_step [PaReset] (NewAdapter (lit 100000))))))
    = \<lparr>pf_Skip = True, pf_Reason = ''position already open''\<rparr>"
  using preflight_refuses_second_buy[of "[PaReset]" "sample_order Buy ''LIMIT''" "sample_order Buy Market" 0 "lit 100000"] trade_qty_100
  by (simp add: sample_order_def)

section \<open>What the paper broker does with money\<close>

lemma sale_result:
  assumes "rq_Side req \<noteq> Buy" "mlookup (pa_positions p) (rq_Symbol req) = None" "trade_qty (rq_Quantity req)"
  shows "pa_balance (snd (PaperAdapter_PlaceOrder now req p)) =
      pa_balance p + (order_cost (fill_price p req) (rq_Quantity req) - order_commission p (fill_price p req) (rq_Quantity req))"
    and "map_option po_Quantity (mlookup (pa_positions (snd (PaperAdapter_PlaceOrder now req p))) (rq_Symbol req)) = Some 0"
proof -
  have "0 < fval (rq_Quantity req)" "is_fin (rq_Quantity req)" "f64_ok (rq_Quantity req)"
    using assms(3) by (auto simp: trade_qty_def fin_less)
  then have "(0 :: f64) - rq_Quantity req \<le> 0"
    using rnd_mono[of "0 - fval (rq_Quantity req)" 0] feqv_le(2)[OF sub_feqv[of 0 "rq_Quantity req"], of 0]
    by (simp add: zero_f64_def)
  then show "pa_balance (snd (PaperAdapter_PlaceOrder now req p)) =
      pa_balance p + (order_cost (fill_price p req) (rq_Quantity req) - order_commission p (fill_price p req) (rq_Quantity req))"
    and "map_option po_Quantity (mlookup (pa_positions (snd (PaperAdapter_PlaceOrder now req p))) (rq_Symbol req)) = Some 0"
    using assms(1,2) by (simp_all add: PlaceOrder_positions) (simp_all add: PaperAdapter_PlaceOrder_def Let_def mget_def empty_position_def)
qed

lemma fill_price_any_side: "fill_price p (req\<lparr>rq_Side := x\<rparr>) = fill_price p req"
  by (simp add: fill_price_def split: option.split)

text \<open>An order whose side is neither \<open>BUY\<close> nor \<open>SELL\<close>, such as \<open>sell\<close> in lower case, passes the
  preflight check in every state and is then carried out as a sale. When nothing is held in the
  symbol, the check would have stopped the sale, and the sale credits the full price of the
  shares in cash while the position stays at zero.
\<close>

theorem unknown_side_sells:
  assumes "rq_Side req \<noteq> Buy" "rq_Side req \<noteq> Sell" "trade_qty (rq_Quantity req)"
    and "mlookup (pa_positions p) (rq_Symbol req) = None"
  shows "fst (Preflight (Some (as_Adapter (Paper_adapter now))) (Some req) p) = preflight_pass \<and>
    PaperAdapter_PlaceOrder now req p = PaperAdapter_PlaceOrder now (req\<lparr>rq_Side := Sell\<rparr>) p \<and>
    pa_balance (snd (PaperAdapter_PlaceOrder now req p)) = pa_balance p +
      (order_cost (fill_price p req) (rq_Quantity req) - order_commission p (fill_price p req) (rq_Quantity req)) \<and>
    map_option po_Quantity (mlookup (pa_positions (snd (PaperAdapter_PlaceOrder now req p))) (rq_Symbol req)) = Some 0"
proof -
  have "Sell \<noteq> Buy" by (simp add: Sell_def Buy_def)
  then have "PaperAdapter_PlaceOrder now req p = PaperAdapter_PlaceOrder now (req\<lparr>rq_Side := Sell\<rparr>) p"
    using assms(1) by (simp add: PaperAdapter_PlaceOrder_def fill_price_any_side Let_def)
  moreover have "fst (Preflight (Some (as_Adapter (Paper_adapter now))) (Some req) p) = preflight_pass"
    using assms(1,2) by (simp add: Preflight_def Paper_adapter_simps Let_def)
  ultimately show ?thesis using sale_result[OF assms(1,4,3)] by (intro conjI)
qed

lemmas paper_eval = NewAdapter_def DefaultBrokerageFee_def order_cost_def order_commission_def fill_price_def
  BrokerageFeeConfig_CalculateFee_def fee_with_def Price_MulFloat_def Price_Float64_def ToFloat64_def FromFloat64_def
  PriceScaleFactor_def Let_def

theorem unknown_side_sells_witness:
  "pa_balance (snd (PaperAdapter_PlaceOrder 0 (sample_order ''sell'' ''LIMIT'') (NewAdapter (lit 100000)))) > lit 109998 \<and>
   map_option po_Quantity (mlookup (pa_positions (snd (PaperAdapter_PlaceOrder 0 (sample_order ''sell'' ''LIMIT'') (NewAdapter (lit 100000)))))
     ''SPY'') = Some 0"
proof -
  let ?req = "sample_order ''sell'' ''LIMIT''" and ?p = "NewAdapter (lit 100000)"
  have h: "rq_Side ?req \<noteq> Buy" "rq_Side ?req \<noteq> Sell" "trade_qty (rq_Quantity ?req)"
    "mlookup (pa_positions ?p) (rq_Symbol ?req) = None"
    using trade_qty_100 by (simp_all add: sample_order_def Buy_def Sell_def NewAdapter_def)
  note t = unknown_side_sells[OF h, of 0, THEN conjunct2, THEN conjunct2]
  have "fill_price ?p ?req = 10000000" "rq_Quantity ?req = lit 100" "rq_Symbol ?req = ''SPY''" "pa_balance ?p = lit 100000"
    by (simp_all add: fill_price_def sample_order_def Market_def NewAdapter_def)
  moreover have "lit 109998 < lit 100000 + (order_cost 10000000 (lit 100) - order_commission ?p 10000000 (lit 100))"
    by (simp add: paper_eval f64_eval int64_of_float_def math_round_def is_int64_def)
  ultimately show ?thesis using t by (simp only: simp_thms)
qed

text \<open>A cancelled order still fills. When a prepared order is cancelled together with all others
  and then confirmed, the confirmation reports a fill of one hundred shares, whatever quantity
  was asked for, takes their price and commission out of the balance, and leaves the positions
  as they were.
\<close>

theorem cancelled_order_still_fills:
  "case PaperAdapter_PrepareOrder req p of (orderID, p1) \<Rightarrow>
     let p2 = PaperAdapter_CancelAllOrders p1; (result, p3) = PaperAdapter_ConfirmOrder orderID p2;
         pr = rs_AvgFillPrice (the (mlookup (pa_orders p1) orderID))
     in map_option rs_Status (mlookup (pa_orders p2) orderID) = Some Canceled \<and>
        map_sum id (\<lambda>r. (rs_Status r, rs_FilledQty r, rs_AvgFillPrice r)) result = Inr (Filled, lit 100, pr) \<and>
        pa_balance p3 = pa_balance p - (order_cost pr (lit 100) + order_commission p pr (lit 100)) \<and>
        pa_positions p3 = pa_positions p"
  by (simp add: PaperAdapter_PrepareOrder_def PaperAdapter_CancelAllOrders_def PaperAdapter_ConfirmOrder_def Let_def
    order_commission_def)

text \<open>The equity of the paper broker leaves out what is held. After one purchase on a new
  adapter the account reports the remaining cash plus the unrealised profit as its equity, so
  the price of the shares counts as lost; closing all positions, as the kill switch does, removes
  the position and adds that profit to the cash, not the value of the shares.
\<close>

theorem paper_equity_leaves_out_holdings:
  assumes "rq_Side req = Buy"
  shows "let p = NewAdapter b;
             pr = fill_price p req;
             p1 = snd (PaperAdapter_PlaceOrder now req p);
             u = po_UnrealizedPL (mget (empty_position (rq_Symbol req)) (pa_positions p1) (rq_Symbol req));
             cash = b - (order_cost pr (rq_Quantity req) + order_commission p pr (rq_Quantity req));
             p2 = PaperAdapter_CloseAllPositions p1
         in ac_Equity (PaperAdapter_GetAccount now p1) = FromFloat64 (cash + (0 + u)) \<and>
            pa_balance p2 = cash + u \<and> pa_positions p2 = []"
  using assms by (simp add: PaperAdapter_PlaceOrder_def PaperAdapter_GetAccount_def PaperAdapter_CloseAllPositions_def
    NewAdapter_def Let_def mput_def mdelete_def mget_def)

theorem paper_equity_leaves_out_holdings_witness:
  "ac_Equity (PaperAdapter_GetAccount 0 (snd (PaperAdapter_PlaceOrder 0 (sample_order Buy ''LIMIT'') (NewAdapter (lit 100000)))))
    = 8999857100"
proof -
  let ?req = "sample_order Buy ''LIMIT''" and ?p = "NewAdapter (lit 100000)"
  have f: "fill_price ?p ?req = 10000000" "rq_Quantity ?req = lit 100" "rq_Symbol ?req = ''SPY''" "rq_Side ?req = Buy"
    by (simp_all add: fill_price_def sample_order_def Market_def)
  have u: "po_UnrealizedPL (mget (empty_position ''SPY'') (pa_positions (snd (PaperAdapter_PlaceOrder 0 ?req ?p))) ''SPY'') = Fin 0"
    by (simp add: PlaceOrder_positions f) (simp add: marked_def bought_def empty_position_def NewAdapter_def
      paper_eval f64_eval int64_of_float_def math_round_def is_int64_def)
  have "FromFloat64 (lit 100000 - (order_cost 10000000 (lit 100) + order_commission ?p 10000000 (lit 100)) + (0 + Fin 0)) = 8999857100"
    by (simp add: paper_eval f64_eval int64_of_float_def math_round_def is_int64_def)
  then show ?thesis using paper_equity_leaves_out_holdings[OF f(4), of "lit 100000" 0] by (simp add: f(1,2,3) u Let_def)
qed

end
