(* ===== verification/Calculator.thy ===== *)
theory Calculator
  imports Metrics
begin

text \<open>
  The calculator behind the reports of a run, \<open>internal/metrics/calculator.go\<close>: the snapshot of
  an equity curve and its trades, the distribution of the trades, and the returns by day and by
  month. It is a second implementation beside the theory Metrics, with its own conventions.
  \<open>math.Pow\<close> and \<open>math.Log\<close> are parameters, the clock is an argument, and an instant counts
  nanoseconds.
\<close>

section \<open>Records\<close>

record Calculator =
  ca_riskFreeRate :: f64
  ca_tradingDays :: int

record MetricEquityPoint =
  mp_Timestamp :: int
  mp_Equity :: f64
  mp_Balance :: f64
  mp_Drawdown :: f64

text \<open>The fields of a trade that the calculator reads.\<close>

record TradeSummary =
  ts_Symbol :: string
  ts_PnL :: f64
  ts_PnLPct :: f64
  ts_HoldDuration :: f64

record PerformanceSnapshot =
  sn_Timestamp :: int
  sn_Equity :: f64
  sn_Balance :: f64
  sn_DailyPnL :: f64
  sn_DailyPnLPct :: f64
  sn_DrawdownPct :: f64
  sn_MaxDrawdownPct :: f64
  sn_CAGR :: f64
  sn_Sharpe :: f64
  sn_Sortino :: f64
  sn_Calmar :: f64
  sn_WinRate :: f64
  sn_ProfitFactor :: f64
  sn_VaR95 :: f64
  sn_CVaR95 :: f64
  sn_UlcerIndex :: f64
  sn_NumTrades :: int
  sn_CommissionBps :: f64
  sn_TotalCommission :: f64

record TradeDistribution =
  td_TotalTrades :: int
  td_WinningTrades :: int
  td_LosingTrades :: int
  td_WinRatePct :: f64
  td_AvgTradePnL :: f64
  td_MedianTradePnL :: f64
  td_AvgTradePnlPct :: f64
  td_MedianTradePnlPct :: f64
  td_BestTrade :: f64
  td_WorstTrade :: f64
  td_AvgTradeDurationHours :: f64
  td_MedianTradeDurationHrs :: f64
  td_AvgWinningPnL :: f64
  td_AvgLosingPnL :: f64
  td_UniqueTickers :: int

record DayReturn =
  dy_Date :: int
  dy_ReturnPct :: f64
  dy_PnL :: f64

record MonthlyReturn =
  mo_Year :: int
  mo_Month :: int
  mo_ReturnPct :: f64

record RollingMetric =
  rm_Timestamp :: int
  rm_Value :: f64
  rm_Window :: int

definition NewCalculator :: "f64 \<Rightarrow> Calculator" where
  "NewCalculator riskFreeRate =
     \<lparr>ca_riskFreeRate = (if riskFreeRate < 0 then 0 else riskFreeRate), ca_tradingDays = 252\<rparr>"

definition Calculator_SetTradingDays :: "Calculator \<Rightarrow> int \<Rightarrow> Calculator" where
  "Calculator_SetTradingDays c days = (if days > 0 then c\<lparr>ca_tradingDays := days\<rparr> else c)"

section \<open>Statistics\<close>

definition average :: "f64 list \<Rightarrow> f64" where
  "average values = (if values = [] then 0 else fsum values / float_of_int (int (length values)))"

definition median_of :: "f64 list \<Rightarrow> f64" where
  "median_of values =
     (let filtered = filter (\<lambda>v. \<not> is_nan v \<and> \<not> is_inf v) values in
      if filtered = [] then 0 else
      let xs = sort_Float64s filtered; mid = length xs div 2
      in if length xs mod 2 = 0 then (xs ! (mid - 1) + xs ! mid) / lit 2 else xs ! mid)"

definition maxValue :: "f64 list \<Rightarrow> f64" where
  "maxValue values = (case values of [] \<Rightarrow> 0 | v # vs \<Rightarrow> foldl (\<lambda>m v. if v > m then v else m) v vs)"

definition minValue :: "f64 list \<Rightarrow> f64" where
  "minValue values = (case values of [] \<Rightarrow> 0 | v # vs \<Rightarrow> foldl (\<lambda>m v. if v < m then v else m) v vs)"

definition stddev :: "f64 list \<Rightarrow> f64 \<Rightarrow> f64" where
  "stddev values m = (if length values < 2 then 0
     else math_sqrt (squares m values / float_of_int (int (length values) - 1)))"

text \<open>A polynomial in Horner form, as the source writes it out.\<close>

definition horner :: "rat list \<Rightarrow> f64 \<Rightarrow> f64" where
  "horner cs x = (case cs of [] \<Rightarrow> 0 | c # cs \<Rightarrow> foldl (\<lambda>acc c. acc * x + lit c) (lit c) cs)"

definition norm_a :: "rat list" where
  "norm_a = [- (3969683028665376/100000000000000), 2209460984245205/10000000000000, - (2759285104469687/10000000000000),
     1383577518672690/10000000000000, - (3066479806614716/100000000000000), 2506628277459239/1000000000000000]"

definition norm_b :: "rat list" where
  "norm_b = [- (5447609879822406/100000000000000), 1615858368580409/10000000000000, - (1556989798598866/10000000000000),
     6680131188771972/100000000000000, - (1328068155288572/100000000000000)]"

definition norm_c :: "rat list" where
  "norm_c = [- (7784894002430293/1000000000000000000), - (3223964580411365/10000000000000000), - (2400758277161838/1000000000000000),
     - (2549732539343734/1000000000000000), 4374664141464968/1000000000000000, 2938163982698783/1000000000000000]"

definition norm_d :: "rat list" where
  "norm_d = [7784695709041462/1000000000000000000, 3224671290700398/10000000000000000, 2445134137142996/1000000000000000,
     3754408661907416/1000000000000000]"

definition normInv :: "(f64 \<Rightarrow> f64) \<Rightarrow> f64 \<Rightarrow> f64" where
  "normInv logf p =
     (if p \<le> 0 \<or> p \<ge> 1 then 0 else
      let plow = lit (2425/100000); phigh = 1 - plow in
      if p < plow then
        (let q = math_sqrt (- lit 2 * logf p) in horner norm_c q / (horner norm_d q * q + 1))
      else if p \<le> phigh then
        (let q = p - lit (1/2); r = q * q in horner norm_a r * q / (horner norm_b r * r + 1))
      else
        (let q = math_sqrt (- lit 2 * logf (1 - p)) in - horner norm_c q / (horner norm_d q * q + 1)))"

section \<open>Ratios\<close>

definition annual_excess :: "Calculator \<Rightarrow> f64 \<Rightarrow> f64" where
  "annual_excess c m =
     (let rfDaily = ca_riskFreeRate c / float_of_int (ca_tradingDays c)
      in m * float_of_int (ca_tradingDays c) - rfDaily * float_of_int (ca_tradingDays c))"

definition Calculator_Sharpe :: "Calculator \<Rightarrow> f64 list \<Rightarrow> f64" where
  "Calculator_Sharpe c returns =
     (if length returns < 2 then 0 else
      let m = average returns; std = stddev returns m
      in if feq std 0 then 0
         else annual_excess c m / (std * math_sqrt (float_of_int (ca_tradingDays c))))"

definition Calculator_Sortino :: "Calculator \<Rightarrow> f64 list \<Rightarrow> f64 \<Rightarrow> f64" where
  "Calculator_Sortino c returns mar =
     (if length returns < 2 then 0 else
      let m = average returns;
          (downStd, numDownObs) = foldl (\<lambda>(s, n :: int) r. let d = r - mar in if d < 0 then (s + d * d, n + 1) else (s, n)) (0, 0) returns
      in if numDownObs = 0 then lit 1000000000 else
         let downStd = math_sqrt (downStd / float_of_int (int (length returns)))
         in if feq downStd 0 then lit 1000000000
            else annual_excess c m / (downStd * math_sqrt (float_of_int (ca_tradingDays c))))"

definition Calculator_Calmar :: "f64 \<Rightarrow> f64 \<Rightarrow> f64" where
  "Calculator_Calmar cagr maxDD = (if maxDD \<ge> 0 then 0 else cagr / (- maxDD))"

definition Calculator_VaR :: "(f64 \<Rightarrow> f64) \<Rightarrow> f64 list \<Rightarrow> f64 \<Rightarrow> f64" where
  "Calculator_VaR logf returns confidence =
     (if length returns < 2 then 0 else
      let m = average returns; std = stddev returns m; zScore = normInv logf (1 - confidence)
      in - (m + zScore * std) * lit 100)"

definition Calculator_CVaR :: "(f64 \<Rightarrow> f64) \<Rightarrow> f64 list \<Rightarrow> f64 \<Rightarrow> f64" where
  "Calculator_CVaR logf returns confidence =
     (if length returns < 2 then 0 else
      let varValue = Calculator_VaR logf returns confidence;
          tailReturns = filter (\<lambda>r. r * lit 100 \<le> - varValue) returns
      in if tailReturns = [] then varValue else - average tailReturns * lit 100)"

definition Calculator_CAGR :: "(f64 \<Rightarrow> f64 \<Rightarrow> f64) \<Rightarrow> Calculator \<Rightarrow> f64 \<Rightarrow> f64 \<Rightarrow> int \<Rightarrow> f64" where
  "Calculator_CAGR powf c startEquity endEquity days =
     (if days \<le> 0 \<or> startEquity \<le> 0 then 0 else
      let years = float_of_int days / float_of_int (ca_tradingDays c);
          totalReturn = endEquity / startEquity
      in (powf totalReturn (1 / years) - 1) * lit 100)"

definition Calculator_ProfitFactor :: "TradeSummary list \<Rightarrow> f64" where
  "Calculator_ProfitFactor trades =
     (let (grossProfit, grossLoss) = foldl (\<lambda>(p, l) t. if ts_PnL t > 0 then (p + ts_PnL t, l) else (p, l + (- ts_PnL t))) (0, 0) trades
      in if feq grossLoss 0 then (if grossProfit > 0 then lit 1000000000 else 1) else grossProfit / grossLoss)"

definition Calculator_WinRate :: "TradeSummary list \<Rightarrow> f64" where
  "Calculator_WinRate trades = (if trades = [] then 0 else
     float_of_int (int (length (filter (\<lambda>t. ts_PnL t > 0) trades))) / float_of_int (int (length trades)) * lit 100)"

definition winRateFromReturns :: "f64 list \<Rightarrow> f64" where
  "winRateFromReturns returns = (if returns = [] then 0 else
     float_of_int (int (length (filter (\<lambda>r. r > 0) returns))) / float_of_int (int (length returns)) * lit 100)"

section \<open>Drawdowns\<close>

definition ulcer_step :: "f64 \<times> f64 \<Rightarrow> f64 \<Rightarrow> f64 \<times> f64" where
  "ulcer_step = (\<lambda>(sumSq, peak) e.
     let peak = (if e > peak then e else peak)
     in if peak > 0 then (let dd = (peak - e) / peak * lit 100 in (sumSq + dd * dd, peak)) else (sumSq, peak))"

definition Calculator_UlcerIndex :: "f64 list \<Rightarrow> f64" where
  "Calculator_UlcerIndex equity = (if length equity < 2 then 0
     else math_sqrt (fst (foldl ulcer_step (0, hd equity) equity) / float_of_int (int (length equity))))"

text \<open>The peak, its index, the largest drawdown and its index, after one more point.\<close>

record drawdown_scan =
  ds_peakVal :: f64
  ds_peakIdx :: nat
  ds_maxDD :: f64
  ds_troughIdx :: nat

definition scan_point :: "drawdown_scan \<Rightarrow> nat \<times> f64 \<Rightarrow> drawdown_scan" where
  "scan_point d = (\<lambda>(i, e).
     let d = (if e > ds_peakVal d then d\<lparr>ds_peakVal := e, ds_peakIdx := i\<rparr> else d);
         dd = (ds_peakVal d - e) / ds_peakVal d * lit 100
     in if dd > ds_maxDD d then d\<lparr>ds_maxDD := dd, ds_troughIdx := i\<rparr> else d)"

definition Calculator_MaxDrawdown :: "f64 list \<Rightarrow> f64 \<times> nat \<times> nat" where
  "Calculator_MaxDrawdown equity =
     (if length equity < 2 then (0, 0, 0) else
      let d = foldl scan_point \<lparr>ds_peakVal = hd equity, ds_peakIdx = 0, ds_maxDD = 0, ds_troughIdx = 0\<rparr> (enumerate 0 equity)
      in (- ds_maxDD d, ds_peakIdx d, ds_troughIdx d))"

definition currentDrawdownPct :: "f64 list \<Rightarrow> f64" where
  "currentDrawdownPct equity = (if equity = [] then 0 else
     let peak = foldl (\<lambda>m e. if e > m then e else m) (hd equity) equity; current = last equity
     in if feq peak 0 then 0 else - (peak - current) / peak * lit 100)"

section \<open>Returns by day and month\<close>

fun point_returns :: "MetricEquityPoint list \<Rightarrow> DayReturn list" where
  "point_returns (p0 # p1 # ps) =
     (if mp_Equity p0 > 0
      then \<lparr>dy_Date = mp_Timestamp p1, dy_ReturnPct = (mp_Equity p1 - mp_Equity p0) / mp_Equity p0 * lit 100,
            dy_PnL = mp_Equity p1 - mp_Equity p0\<rparr> # point_returns (p1 # ps)
      else point_returns (p1 # ps))"
| "point_returns _ = []"

definition dailyReturnsFromEquity :: "MetricEquityPoint list \<Rightarrow> DayReturn list" where
  "dailyReturnsFromEquity equity = (if length equity < 2 then [] else point_returns equity)"

definition month_of :: "DayReturn \<Rightarrow> int \<times> int" where
  "month_of dr = (let (y, m, d) = civil (day_of (dy_Date dr)) in (y, m))"

definition MonthlyReturns :: "DayReturn list \<Rightarrow> MonthlyReturn list" where
  "MonthlyReturns daily =
     (let monthMap = foldl (\<lambda>m dr. mput m (month_of dr) (mget 0 m (month_of dr) + dy_ReturnPct dr)) [] daily
      in sort_key (\<lambda>r. mo_Year r * 12 + mo_Month r)
           (map (\<lambda>((y, m), ret). \<lparr>mo_Year = y, mo_Month = m, mo_ReturnPct = ret\<rparr>) monthMap))"

definition RollingSharpe :: "int \<Rightarrow> Calculator \<Rightarrow> f64 list \<Rightarrow> int \<Rightarrow> RollingMetric list" where
  "RollingSharpe now c returns window =
     (if int (length returns) < window \<or> window < 2 then []
      else map (\<lambda>i. \<lparr>rm_Timestamp = now, rm_Value = Calculator_Sharpe c (take (nat window) (drop (i + 1 - nat window) returns)),
                 rm_Window = window\<rparr>) [nat window - 1 ..< length returns])"

section \<open>The snapshot\<close>

definition empty_snapshot :: "int \<Rightarrow> PerformanceSnapshot" where
  "empty_snapshot now = \<lparr>sn_Timestamp = now, sn_Equity = 0, sn_Balance = 0, sn_DailyPnL = 0, sn_DailyPnLPct = 0,
     sn_DrawdownPct = 0, sn_MaxDrawdownPct = 0, sn_CAGR = 0, sn_Sharpe = 0, sn_Sortino = 0, sn_Calmar = 0,
     sn_WinRate = 0, sn_ProfitFactor = 0, sn_VaR95 = 0, sn_CVaR95 = 0, sn_UlcerIndex = 0, sn_NumTrades = 0,
     sn_CommissionBps = 0, sn_TotalCommission = 0\<rparr>"

text \<open>The figures that need at least one return.\<close>

definition snapshot_returns ::
  "(f64 \<Rightarrow> f64 \<Rightarrow> f64) \<Rightarrow> (f64 \<Rightarrow> f64) \<Rightarrow> Calculator \<Rightarrow> MetricEquityPoint list \<Rightarrow> f64 list \<Rightarrow> PerformanceSnapshot \<Rightarrow> PerformanceSnapshot" where
  "snapshot_returns powf logf c equity returns snap =
     (let eqValues = map mp_Equity equity;
          snap = snap\<lparr>sn_WinRate := winRateFromReturns returns, sn_Sharpe := Calculator_Sharpe c returns,
                   sn_Sortino := Calculator_Sortino c returns 0, sn_VaR95 := Calculator_VaR logf returns (lit (95/100)),
                   sn_CVaR95 := Calculator_CVaR logf returns (lit (95/100))\<rparr>;
          startEquity = hd eqValues; endEquity = last eqValues;
          days = duration_hours (duration_between (mp_Timestamp (hd equity)) (mp_Timestamp (last equity))) / lit 24;
          snap = (if days > 0 \<and> startEquity > 0
                  then snap\<lparr>sn_CAGR := Calculator_CAGR powf c startEquity endEquity (int64_of_float days)\<rparr> else snap);
          yesterdayEq = eqValues ! (length eqValues - 2);
          snap = (if length equity \<ge> 2 \<and> yesterdayEq > 0
                  then snap\<lparr>sn_DailyPnL := endEquity - yesterdayEq,
                         sn_DailyPnLPct := (endEquity - yesterdayEq) / yesterdayEq * lit 100\<rparr> else snap);
          snap = snap\<lparr>sn_MaxDrawdownPct := fst (Calculator_MaxDrawdown eqValues), sn_DrawdownPct := currentDrawdownPct eqValues\<rparr>;
          snap = (if \<not> feq (sn_MaxDrawdownPct snap) 0
                  then snap\<lparr>sn_Calmar := sn_CAGR snap / (- sn_MaxDrawdownPct snap)\<rparr> else snap)
      in snap\<lparr>sn_UlcerIndex := Calculator_UlcerIndex eqValues\<rparr>)"

definition ComputeSnapshot ::
  "(f64 \<Rightarrow> f64 \<Rightarrow> f64) \<Rightarrow> (f64 \<Rightarrow> f64) \<Rightarrow> int \<Rightarrow> Calculator \<Rightarrow> MetricEquityPoint list \<Rightarrow> TradeSummary list \<Rightarrow> PerformanceSnapshot" where
  "ComputeSnapshot powf logf now c equity trades =
     (if equity = [] then empty_snapshot now else
      let snap = (empty_snapshot now)\<lparr>sn_Equity := mp_Equity (last equity), sn_Balance := mp_Balance (last equity)\<rparr>;
          dailyReturns = dailyReturnsFromEquity equity;
          snap = snap\<lparr>sn_NumTrades := int (length trades)\<rparr>;
          snap = (if dailyReturns = [] then snap
                  else snapshot_returns powf logf c equity (map (\<lambda>dr. dy_ReturnPct dr / lit 100) dailyReturns) snap)
      in snap\<lparr>sn_ProfitFactor := Calculator_ProfitFactor trades\<rparr>)"

section \<open>The distribution of the trades\<close>

definition ComputeTradeDistribution :: "TradeSummary list \<Rightarrow> TradeDistribution" where
  "ComputeTradeDistribution trades =
     (let pnls = map ts_PnL trades; pnlPcts = map ts_PnLPct trades;
          durations = map (\<lambda>t. ts_HoldDuration t / lit 60) (filter (\<lambda>t. ts_HoldDuration t > 0) trades);
          wins = filter (\<lambda>x. x > 0) pnls; losses = filter (\<lambda>x. x < 0) pnls;
          tickers = remdups (map ts_Symbol trades)
      in if trades = [] then \<lparr>td_TotalTrades = 0, td_WinningTrades = 0, td_LosingTrades = 0, td_WinRatePct = 0,
           td_AvgTradePnL = 0, td_MedianTradePnL = 0, td_AvgTradePnlPct = 0, td_MedianTradePnlPct = 0, td_BestTrade = 0,
           td_WorstTrade = 0, td_AvgTradeDurationHours = 0, td_MedianTradeDurationHrs = 0, td_AvgWinningPnL = 0,
           td_AvgLosingPnL = 0, td_UniqueTickers = 0\<rparr>
         else \<lparr>td_TotalTrades = int (length trades), td_WinningTrades = int (length wins), td_LosingTrades = int (length losses),
           td_WinRatePct = float_of_int (int (length wins)) / float_of_int (int (length trades)) * lit 100,
           td_AvgTradePnL = average pnls, td_MedianTradePnL = median_of pnls, td_AvgTradePnlPct = average pnlPcts,
           td_MedianTradePnlPct = median_of pnlPcts, td_BestTrade = maxValue pnls, td_WorstTrade = minValue pnls,
           td_AvgTradeDurationHours = average durations, td_MedianTradeDurationHrs = median_of durations,
           td_AvgWinningPnL = average wins, td_AvgLosingPnL = average losses, td_UniqueTickers = int (length tickers)\<rparr>)"

section \<open>What the indices of the drawdown say\<close>

definition peak_step :: "f64 \<times> nat \<Rightarrow> nat \<times> f64 \<Rightarrow> f64 \<times> nat" where
  "peak_step = (\<lambda>(v, k) (i, e). if e > v then (e, i) else (v, k))"

lemma scan_point_peak:
  "(ds_peakVal (scan_point d x), ds_peakIdx (scan_point d x)) = peak_step (ds_peakVal d, ds_peakIdx d) x"
  by (simp add: scan_point_def peak_step_def Let_def split: prod.split)

lemma scan_peak:
  "(ds_peakVal (foldl scan_point d xs), ds_peakIdx (foldl scan_point d xs)) = foldl peak_step (ds_peakVal d, ds_peakIdx d) xs"
  by (induction xs arbitrary: d) (simp_all add: scan_point_peak[symmetric])

lemma peak_scan_global:
  assumes "es \<noteq> []" "FNaN \<notin> set es"
  shows "case foldl peak_step (hd es, 0) (enumerate 0 es) of (v, k) \<Rightarrow> k < length es \<and> v = es ! k \<and> (\<forall>e\<in>set es. e \<le> v)"
  using assms
proof (induction es rule: rev_nonempty_induct)
  case (single x)
  then show ?case by (simp add: peak_step_def)
next
  case (snoc x xs)
  obtain v k where f: "foldl peak_step (hd xs, 0) (enumerate 0 xs) = (v, k)" by fastforce
  have ih: "k < length xs" "v = xs ! k" "\<forall>e\<in>set xs. e \<le> v" using snoc f by auto
  have nan: "v \<noteq> FNaN" "x \<noteq> FNaN" using ih(2) snoc.prems nth_mem[OF ih(1)] by (metis Un_iff list.set_intros(1) set_append)+
  have f': "foldl peak_step (hd (xs @ [x]), 0) (enumerate 0 (xs @ [x])) = (if x > v then (x, length xs) else (v, k))"
    using f snoc.hyps by (simp add: enumerate_append_eq peak_step_def)
  show ?case
  proof (cases "x > v")
    case True
    then have "\<forall>e\<in>set xs. e \<le> x" using ih(3) by (meson f64_le_trans f64_less_imp_le)
    with True f' nan show ?thesis by simp
  next
    case False
    then have "x \<le> v" using nan by (simp add: f64_not_less)
    with False f' ih show ?thesis by (simp add: nth_append)
  qed
qed

text \<open>The peak index that comes with the largest drawdown is not the peak it fell from. On every
  equity curve without NaN, \<open>MaxDrawdown\<close> returns as the peak the index of the highest value of
  the whole curve, so the peak can lie after the trough.
\<close>

theorem drawdown_peak_is_global:
  assumes "2 \<le> length equity" "FNaN \<notin> set equity" "Calculator_MaxDrawdown equity = (dd, peakIdx, troughIdx)"
  shows "peakIdx < length equity \<and> (\<forall>e\<in>set equity. e \<le> equity ! peakIdx)"
proof -
  let ?d = "\<lparr>ds_peakVal = hd equity, ds_peakIdx = 0, ds_maxDD = 0, ds_troughIdx = 0\<rparr>"
  have "equity \<noteq> []" using assms(1) by auto
  from peak_scan_global[OF this assms(2)] show ?thesis
    using scan_peak[of ?d "enumerate 0 equity"] assms(1,3) by (auto simp: Calculator_MaxDrawdown_def Let_def)
qed

theorem drawdown_peak_is_global_witness:
  "Calculator_MaxDrawdown [lit 100, lit 50, lit 200] = (- lit 50, 2, 1) \<and>
   (\<forall>e\<in>set [lit 100, lit 50, lit 200]. e \<le> lit 200)"
proof -
  have e: "Calculator_MaxDrawdown [lit 100, lit 50, lit 200] = (- lit 50, 2, 1)"
    by (simp add: Calculator_MaxDrawdown_def scan_point_def f64_eval)
  have "FNaN \<notin> set [lit 100, lit 50, lit 200]" using lit_not_nan[THEN not_sym] by simp
  with drawdown_peak_is_global[OF _ _ e] show ?thesis using e by simp
qed

section \<open>What counts as a day\<close>

lemma length_point_returns:
  "\<forall>p\<in>set equity. mp_Equity p > 0 \<Longrightarrow> length (point_returns equity) = length equity - 1"
  by (induction equity rule: point_returns.induct) auto

lemma dates_point_returns:
  "\<forall>p\<in>set equity. mp_Equity p > 0 \<Longrightarrow> map dy_Date (point_returns equity) = map mp_Timestamp (tl equity)"
  by (induction equity rule: point_returns.induct) auto

text \<open>
  The daily returns of a report are returns per point. On a curve of positive values there is
  one for every point after the first, dated by that point, whatever the time between them: a
  curve of bars within one day yields as many daily returns as it has bars, and the ratios
  annualise each of them as a trading day.
\<close>

theorem daily_returns_are_per_point:
  assumes "\<forall>p\<in>set equity. mp_Equity p > 0"
  shows "map dy_Date (dailyReturnsFromEquity equity) = map mp_Timestamp (tl equity)"
proof (cases equity)
  case (Cons p ps)
  with assms show ?thesis
    using dates_point_returns[of equity] by (cases ps) (simp_all add: dailyReturnsFromEquity_def)
qed (simp add: dailyReturnsFromEquity_def)

theorem daily_returns_are_per_point_witness:
  "map (\<lambda>r. day_of (dy_Date r)) (dailyReturnsFromEquity
     [\<lparr>mp_Timestamp = 0, mp_Equity = lit 100, mp_Balance = lit 100, mp_Drawdown = 0\<rparr>,
      \<lparr>mp_Timestamp = 60000000000, mp_Equity = lit 101, mp_Balance = lit 101, mp_Drawdown = 0\<rparr>,
      \<lparr>mp_Timestamp = 120000000000, mp_Equity = lit 99, mp_Balance = lit 99, mp_Drawdown = 0\<rparr>]) = [0, 0]"
proof -
  let ?e = "[\<lparr>mp_Timestamp = 0, mp_Equity = lit 100, mp_Balance = lit 100, mp_Drawdown = 0\<rparr>,
      \<lparr>mp_Timestamp = 60000000000, mp_Equity = lit 101, mp_Balance = lit 101, mp_Drawdown = 0\<rparr>,
      \<lparr>mp_Timestamp = 120000000000, mp_Equity = lit 99, mp_Balance = lit 99, mp_Drawdown = 0\<rparr>]"
  have "\<forall>p\<in>set ?e. mp_Equity p > 0" by (simp add: f64_eval)
  then have "map dy_Date (dailyReturnsFromEquity ?e) = [60000000000, 120000000000]"
    using daily_returns_are_per_point[of ?e] by simp
  then have "map day_of (map dy_Date (dailyReturnsFromEquity ?e)) = [0, 0]" by (simp add: day_of_def)
  then show ?thesis by (simp add: comp_def)
qed

end
