(* ===== verification/Execution.thy ===== *)
theory Execution
  imports FloatEval
begin

text \<open>
  The execution models of \<open>internal/model\<close>: fills, fees and latencies behind small interfaces,
  and the life cycle of a strategy. \<open>math.Exp\<close> is the parameter \<open>expf\<close>; prices and volumes are the
  non-negative integers of \<open>uint64\<close>, and the conversion of a float outside that range, which Go
  leaves to the machine, is the parameter \<open>outside\<close>. Durations count nanoseconds.
\<close>

section \<open>Life cycle\<close>

definition ValidTransitions :: "(string, string list) gomap" where
  "ValidTransitions = [
     (''draft'', [''backtested'', ''archived'']),
     (''backtested'', [''ready'', ''draft'', ''archived'']),
     (''ready'', [''live'', ''draft'', ''archived'']),
     (''live'', [''halted'', ''ready'', ''archived'']),
     (''halted'', [''live'', ''archived'']),
     (''archived'', [])]"

definition CanTransitionTo :: "string \<Rightarrow> string \<Rightarrow> bool" where
  "CanTransitionTo s target =
     (case mlookup ValidTransitions s of None \<Rightarrow> False | Some allowed \<Rightarrow> list_ex (\<lambda>a. a = target) allowed)"

definition LifecycleStatus_Color :: "string \<Rightarrow> string" where
  "LifecycleStatus_Color s =
     (if s = ''draft'' then ''#8b949e'' else if s = ''backtested'' then ''#58a6ff''
      else if s = ''ready'' then ''#d29922'' else if s = ''live'' then ''#3fb950''
      else if s = ''halted'' then ''#da3633'' else if s = ''archived'' then ''#484f58'' else ''#8b949e'')"

definition LifecycleStatus_Label :: "string \<Rightarrow> string" where
  "LifecycleStatus_Label s =
     (if s = ''draft'' then ''Draft'' else if s = ''backtested'' then ''Backtested''
      else if s = ''ready'' then ''Ready for Live'' else if s = ''live'' then ''Live''
      else if s = ''halted'' then ''Halted'' else if s = ''archived'' then ''Archived'' else ''Unknown'')"

section \<open>Fills\<close>

definition sigmoid :: "(f64 \<Rightarrow> f64) \<Rightarrow> f64 \<Rightarrow> f64" where
  "sigmoid expf x = 1 / (1 + expf (- x))"

definition uint64_of_float :: "(f64 \<Rightarrow> int) \<Rightarrow> f64 \<Rightarrow> int" where
  "uint64_of_float outside a = (if is_fin a \<and> 0 \<le> \<lfloor>fval a\<rfloor> \<and> \<lfloor>fval a\<rfloor> < 2 ^ 64 then \<lfloor>fval a\<rfloor> else outside a)"

definition MidPriceFill_FillProbability :: "int \<Rightarrow> int \<Rightarrow> int \<Rightarrow> int \<Rightarrow> f64 \<Rightarrow> f64" where
  "MidPriceFill_FillProbability limitPrice midPrice spread volume atr = 1"

definition MidPriceFill_FillPrice :: "int \<Rightarrow> int \<Rightarrow> string \<Rightarrow> f64 \<Rightarrow> int" where
  "MidPriceFill_FillPrice limitPrice midPrice side atr = midPrice"

record ProbabilisticFill =
  pb_BaseFillRate :: f64
  pb_SpreadSensitivity :: f64
  pb_VolumeScale :: f64

definition NewProbabilisticFill :: "f64 \<Rightarrow> f64 \<Rightarrow> f64 \<Rightarrow> ProbabilisticFill" where
  "NewProbabilisticFill baseFillRate spreadSensitivity volumeScale =
     \<lparr>pb_BaseFillRate = baseFillRate, pb_SpreadSensitivity = spreadSensitivity, pb_VolumeScale = volumeScale\<rparr>"

definition vol_adjust :: "ProbabilisticFill \<Rightarrow> int \<Rightarrow> f64 \<Rightarrow> f64" where
  "vol_adjust p volume atr =
     (if atr > 0 then
        (let v = float_of_int volume / (atr * pb_VolumeScale p);
             v = (if v > lit 2 then lit 2 else v)
         in if v < lit (1/10) then lit (1/10) else v)
      else 1)"

definition ProbabilisticFill_FillProbability ::
  "(f64 \<Rightarrow> f64) \<Rightarrow> ProbabilisticFill \<Rightarrow> int \<Rightarrow> int \<Rightarrow> int \<Rightarrow> int \<Rightarrow> f64 \<Rightarrow> f64" where
  "ProbabilisticFill_FillProbability expf p limitPrice midPrice spread volume atr =
     (if spread = 0 then pb_BaseFillRate p else
      let halfSpread = float_of_int spread / lit 2;
          distanceFromMid = \<bar>float_of_int limitPrice - float_of_int midPrice\<bar>;
          alpha = pb_SpreadSensitivity p * (halfSpread - distanceFromMid) / halfSpread;
          prob = pb_BaseFillRate p * vol_adjust p volume atr * sigmoid expf alpha;
          prob = (if prob > 1 then 1 else prob)
      in if prob < 0 then 0 else prob)"

definition ProbabilisticFill_FillPrice :: "(f64 \<Rightarrow> int) \<Rightarrow> int \<Rightarrow> int \<Rightarrow> string \<Rightarrow> f64 \<Rightarrow> int" where
  "ProbabilisticFill_FillPrice outside limitPrice midPrice side atr =
     (let slip = (if atr > 0 then atr * lit (15/100) else 0);
          high = float_of_int midPrice * lit (101/100);
          low = float_of_int midPrice * lit (99/100)
      in if side = ''BUY'' then
           (let fp = float_of_int limitPrice + slip;
                fp = (if fp > high then high else fp);
                fp = (if fp < low then low else fp)
            in uint64_of_float outside fp)
         else
           (let fp = float_of_int limitPrice - slip;
                fp = (if fp < low then low else fp);
                fp = (if fp > high then high else fp)
            in uint64_of_float outside fp))"

section \<open>Fees and latencies\<close>

record FixedFee =
  ff_MakerBps :: f64
  ff_TakerBps :: f64

definition FixedFee_MakerFee :: "FixedFee \<Rightarrow> f64 \<Rightarrow> f64" where
  "FixedFee_MakerFee f notional = notional * ff_MakerBps f / lit 10000"

definition FixedFee_TakerFee :: "FixedFee \<Rightarrow> f64 \<Rightarrow> f64" where
  "FixedFee_TakerFee f notional = notional * ff_TakerBps f / lit 10000"

definition ZeroFee_MakerFee :: "f64 \<Rightarrow> f64" where
  "ZeroFee_MakerFee notional = 0"

definition ZeroFee_TakerFee :: "f64 \<Rightarrow> f64" where
  "ZeroFee_TakerFee notional = 0"

record ConstantLatency =
  la_Entry :: int
  la_Response :: int

definition ConstantLatency_EntryLatency :: "ConstantLatency \<Rightarrow> int \<Rightarrow> int \<Rightarrow> int \<Rightarrow> string \<Rightarrow> int" where
  "ConstantLatency_EntryLatency c ts price quantity side = la_Entry c"

definition ConstantLatency_ResponseLatency :: "ConstantLatency \<Rightarrow> int \<Rightarrow> int \<Rightarrow> string \<Rightarrow> int" where
  "ConstantLatency_ResponseLatency c ts price side = la_Response c"

definition ZeroLatency_EntryLatency :: "int \<Rightarrow> int \<Rightarrow> int \<Rightarrow> string \<Rightarrow> int" where
  "ZeroLatency_EntryLatency ts price quantity side = 0"

definition ZeroLatency_ResponseLatency :: "int \<Rightarrow> int \<Rightarrow> string \<Rightarrow> int" where
  "ZeroLatency_ResponseLatency ts price side = 0"

section \<open>The way to live trading\<close>

inductive lifecycle_path :: "string \<Rightarrow> string list \<Rightarrow> string \<Rightarrow> bool" where
  here: "lifecycle_path s [] s"
| move: "CanTransitionTo s m \<Longrightarrow> lifecycle_path m visited t \<Longrightarrow> lifecycle_path s (m # visited) t"

inductive_cases lifecycle_pathE: "lifecycle_path s visited t"

lemma from_draft: "CanTransitionTo ''draft'' t \<longleftrightarrow> t = ''backtested'' \<or> t = ''archived''"
  and from_backtested: "CanTransitionTo ''backtested'' t \<longleftrightarrow> t = ''ready'' \<or> t = ''draft'' \<or> t = ''archived''"
  and from_ready: "CanTransitionTo ''ready'' t \<longleftrightarrow> t = ''live'' \<or> t = ''draft'' \<or> t = ''archived''"
  and from_archived: "\<not> CanTransitionTo ''archived'' t"
  by (simp_all add: CanTransitionTo_def ValidTransitions_def eq_commute[of _ t])

lemma archived_stays: "lifecycle_path s visited t \<Longrightarrow> s = ''archived'' \<Longrightarrow> t = ''archived'' \<and> visited = []"
  by (induction rule: lifecycle_path.induct) (simp_all add: from_archived)

lemma path_to_live:
  "lifecycle_path s visited t \<Longrightarrow> t = ''live'' \<Longrightarrow>
     (s = ''draft'' \<longrightarrow> ''backtested'' \<in> set visited \<and> ''ready'' \<in> set visited) \<and>
     (s = ''backtested'' \<longrightarrow> ''ready'' \<in> set visited)"
proof (induction rule: lifecycle_path.induct)
  case (move s m visited t)
  have m: "m \<noteq> ''archived''" using archived_stays[OF move.hyps(2)] move.prems by auto
  show ?case
  proof (intro conjI impI)
    assume "s = ''draft''"
    then have "m = ''backtested''" using move.hyps(1) m by (simp add: from_draft)
    then show "''backtested'' \<in> set (m # visited)" "''ready'' \<in> set (m # visited)"
      using move.IH[OF move.prems] by simp_all
  next
    assume "s = ''backtested''"
    then have "m = ''ready'' \<or> m = ''draft''" using move.hyps(1) m by (simp add: from_backtested)
    then show "''ready'' \<in> set (m # visited)" using move.IH[OF move.prems] by auto
  qed
qed simp

text \<open>
  No strategy goes live without a backtest: every sequence of allowed transitions from draft to
  live passes through backtested and ready, and an archived strategy stays archived.
\<close>

theorem live_needs_backtest:
  assumes "lifecycle_path ''draft'' visited ''live''"
  shows "''backtested'' \<in> set visited \<and> ''ready'' \<in> set visited \<and> ''archived'' \<notin> set visited"
proof -
  have "lifecycle_path s visited t \<Longrightarrow> t = ''live'' \<Longrightarrow> ''archived'' \<notin> set visited" for s visited t
  proof (induction rule: lifecycle_path.induct)
    case (move s m visited t)
    then show ?case using archived_stays[of m visited t] by auto
  qed simp
  with assms path_to_live[OF assms] show ?thesis by blast
qed

theorem live_needs_backtest_witness:
  "''ready'' \<in> set [''backtested'', ''ready'', ''live'']"
proof -
  have "lifecycle_path ''draft'' [''backtested'', ''ready'', ''live''] ''live''"
    by (intro lifecycle_path.intros) (simp_all add: from_draft from_backtested from_ready)
  then show ?thesis using live_needs_backtest by blast
qed

text \<open>A fill probability is a probability, or NaN.\<close>

theorem fill_probability_bounds:
  assumes "spread \<noteq> 0" "ProbabilisticFill_FillProbability expf p limitPrice midPrice spread volume atr \<noteq> FNaN"
  shows "0 \<le> ProbabilisticFill_FillProbability expf p limitPrice midPrice spread volume atr \<and>
    ProbabilisticFill_FillProbability expf p limitPrice midPrice spread volume atr \<le> 1"
proof -
  have "0 \<le> (1 :: f64)" by (simp add: f64_eval zero_f64_def one_f64_def)
  then show ?thesis
    using assms by (auto simp: ProbabilisticFill_FillProbability_def Let_def f64_not_less f64_less_imp_le)
qed

theorem fill_probability_bounds_witness:
  "ProbabilisticFill_FillProbability (\<lambda>x. 1) (NewProbabilisticFill 1 1 1) 100 100 2 10 0 \<le> 1"
proof -
  have "ProbabilisticFill_FillProbability (\<lambda>x. 1) (NewProbabilisticFill 1 1 1) 100 100 2 10 0 \<noteq> FNaN"
    by (simp add: ProbabilisticFill_FillProbability_def NewProbabilisticFill_def vol_adjust_def sigmoid_def one_f64_def zero_f64_def f64_eval)
  then show ?thesis using fill_probability_bounds[of 2 "\<lambda>x. 1"] by simp
qed

end
