(* ===== verification/Spec2Isabelle.thy ===== *)
theory Spec2Isabelle
  imports Orchestrator Jobs Retention KillSwitch Breaker RingBuffer Live Paper Calculator Execution
begin

text \<open>
  A verification library for the trading core of the repository (the Go module
  \<open>orca-core\<close> under \<open>src/internal\<close>): the risk pipeline every order passes, the gates plugged
  into it, the strategies, the backtest and live engines that run them, and the data structures
  that feed them.

  \<^bold>\<open>The program.\<close> A strategy yields a signal. \<open>RiskPipeline.ProcessSignal\<close>
  (\<open>risk/pipeline.go\<close>) asks three gates about it: the signal gate (rate limiter, volatility
  halt, position sizer and exposure tracker), the capital gate (the pool of an account, or of
  a simulated account) and the prop firm gate (the limits of a funded account). What is
  approved is filled, and \<open>ReconcileFill\<close> books the result in the gates. The same pipeline is
  built by the live engine (\<open>api/router.go\<close>), the backtest engine (\<open>backtest/engine.go\<close>) and
  the orchestrator (\<open>backtest/orchestrator.go\<close>). Around it stand a kill switch, circuit
  breakers, a tick ring buffer, a bar aggregator and an order book.

  \<^bold>\<open>Conventions.\<close> A Go struct is a record, a method \<open>T.M\<close> the definition \<open>T_M\<close> on the record,
  returning the result and the new state. A nil pointer or an absent part is \<open>None\<close>. A mutex
  makes a method one step, so a component guarded by one is a state machine whose steps are
  its methods; the kill switch, which mixes atomics with a mutex, is a step relation between
  the accesses of many threads. The clock is an argument. A Go map that is only read and
  written by key is an association list (\<open>mget\<close>, \<open>mput\<close> in theory Prelude). \<open>int64\<close> arithmetic
  that can wrap is followed by \<open>wrap64\<close>, \<open>uint64\<close> values are words, integer division truncates
  (\<open>go_div\<close>, \<open>go_rem\<close>); counters that only count calls are integers. \<open>float64\<close> is IEEE 754
  binary64 with every operation rounded to nearest even (theory Float64): no law of real
  arithmetic is assumed. Logging, metrics and fields that nothing reads are left out.

  \<^bold>\<open>Theories.\<close>
  \<^item> Prelude, Float64, FloatEval, PriceExact: integers and maps of Go, the floating point
    numbers with their monotonicity and error lemmas, their evaluation, and the exactness of
    sums of prices.
  \<^item> Price (\<open>types/price.go\<close>): the fixed point price and its conversions.
  \<^item> PropFirm (\<open>propfirm/*.go\<close>): profiles, the account manager, the pool rules; Enforcer
    (\<open>backtest/propfirm_enforcer.go\<close>): the same contract in the backtest.
  \<^item> Regime (\<open>risk/regime_activation.go\<close>), Controls (\<open>risk/trading_controls.go\<close>), Sizing
    (\<open>risk/position_sizer.go\<close>, \<open>risk/signal_gate_impl.go\<close>), CapitalPool
    (\<open>risk/capital_pool.go\<close>, \<open>risk/multi_account_capital_pool.go\<close>), PoolSim
    (\<open>backtest/capital_pool_sim.go\<close>): the parts of the gates.
  \<^item> Gates (\<open>risk/interfaces.go\<close>): the three gate interfaces as records of methods and their
    contracts as locales, each interpreted in the theory of the component that provides it.
  \<^item> Pipeline (\<open>risk/pipeline.go\<close>): the steps of \<open>ProcessSignal\<close> in their order, and
    \<open>ReconcileFill\<close>; Deployments: the three ways the program wires and drives it.
  \<^item> StopLoss (\<open>backtest/stop_loss.go\<close>): levels, hits, the trailing stop, the average true range.
  \<^item> Rebalance (\<open>backtest/rebalance_scheduler.go\<close>, \<open>correlation_tracker.go\<close>,
    \<open>vix_detector.go\<close>), Slippage (\<open>backtest/slippage.go\<close>), Orchestrator
    (\<open>backtest/orchestrator.go\<close>): the calendar, the fills and the run of many strategies.
  \<^item> Trades (\<open>Trade\<close> of \<open>backtest/engine.go\<close>, \<open>broker/fee.go\<close>): trades and fees; Backtest
    (\<open>Engine.Run\<close> of \<open>backtest/engine.go\<close>): the candle loop, entries, exits, the end of the data.
  \<^item> Metrics (\<open>backtest/metrics.go\<close> and the figures of \<open>engine.go\<close>), Report (the second half of
    \<open>Engine.Run\<close>, \<open>multi_metric_gate.go\<close>): what a run reports and the gate on it.
  \<^item> Optimizer (\<open>backtest/optimizer.go\<close>), WalkForward (\<open>walk_forward.go\<close>,
    \<open>optimized_walk_forward.go\<close>), MonteCarlo (\<open>monte_carlo.go\<close>), Jobs (\<open>job_runner.go\<close>): the
    research job, from the search space to the verdict on a strategy; Retention
    (\<open>retention.go\<close>): which results of a batch are kept.
  \<^item> Runners (\<open>strategy/base_runner.go\<close>, \<open>history.go\<close>, \<open>session.go\<close>, \<open>trend_filter.go\<close> and the
    stop models), Indicators (\<open>strategy/indicators.go\<close>), StrategyKit (signals and parameters):
    what the strategies share.
  \<^item> Trends, Momentum, Crossings, Breakouts, Reversion, Grid (\<open>strategy/*_runner.go\<close>,
    \<open>mean_reversion.go\<close>): the 18 strategies; Registry (\<open>strategy/registry.go\<close>,
    \<open>param_validation.go\<close>): all of them as one type, the registry and the check of parameters;
    SignalSymbols: the symbols of their signals.
  \<^item> Hmm (\<open>risk/hmm*.go\<close>): the tracker of the market regime; Live
    (\<open>engine/live_engine.go\<close>, \<open>runner.go\<close>, \<open>replay_engine.go\<close>): the live engine, which joins
    the tracker, the bars, the strategies, the adversarial checks, the pipeline and the stops.
  \<^item> Broker (\<open>broker/adapter.go\<close>, \<open>preflight.go\<close>, \<open>broker_driver.go\<close>, \<open>account_manager.go\<close>): the
    adapter interface as a record of methods with its contract as a locale, the preflight check,
    the registries and the accounts; Paper (\<open>broker/paper/adapter.go\<close>): the simulated broker,
    which interprets the contract; Execution (\<open>model/*.go\<close>): fills, fees and the life cycle.
  \<^item> Calculator (\<open>metrics/calculator.go\<close>): the figures of the reports, beside those of Metrics.
  \<^item> KillSwitch (\<open>risk/kill_switch.go\<close>), Breaker (\<open>breaker/circuit_breaker.go\<close>), Adversarial
    (\<open>risk/adversarial.go\<close>): the emergency stops.
  \<^item> RingBuffer (\<open>ingest/ring_buffer.go\<close>), OrderBook (\<open>market/orderbook.go\<close>), Bars
    (\<open>strategy/bar_aggregator.go\<close>), MarketTypes (\<open>strategy/types.go\<close>): market data.

  \<^bold>\<open>What the lemmas show.\<close> Every component has an invariant and the lemma that each operation
  keeps it (\<open>cpm_ok\<close>, \<open>enforcer_ok\<close>, \<open>breaker_ok\<close>, \<open>rb_inv\<close>, \<open>book_ok\<close>, \<open>ks_inv\<close> and others),
  lifted to runs of any operations. Over them stand: refinements (the rate limiter and the
  history of all orders, the ring buffer and a bounded queue, the bar aggregator and the runs
  of the tick history), the effect of whole deployments (an approved backtest entry stays
  within two percent of the capital, the live engine wired with a pool of accounts gives no
  signal, the gates do not stop an entry of the orchestrator, whose positions last one bar),
  limits that hold in every reachable state, halts that are final, exact results under rounding,
  and for the kill switch mutual exclusion and the end of every schedule. The books of a backtest
  balance (\<open>ledger_ok\<close>), its entries wait for the next bar, and a halted account keeps its positions. The search over parameters enumerates the filtered product
  of its grids, walk forward windows without negative purge days end their training a day before
  their test, the workers of a Monte Carlo run
  cannot disturb each other, and a research job passes no strategy. The locales \<open>price_history\<close>,
  \<open>position_machine\<close>, \<open>partial_machine\<close> and \<open>daily_limit\<close> state what a history, a strategy and a
  daily counter promise; every runner interprets them, so that its signals alternate and its
  windows are recent bars. \<open>ProcessTickE\<close> and the frame lemmas around it split a tick of the live
  engine, and its invariants hold in every run of events. The entries of the broker registry
  live in a heap of their own, as the code shares them by pointer: \<open>dr_ok\<close> ties its list to its
  index, and the theorems about accounts show what registering one does to it. Where the code
  departs from its comments or its purpose the theorem states what it does, and the manifest lists the finding.

  \<^bold>\<open>Bounds.\<close> Prices are exact up to 2^50 raw units for conversions and 2^46 raw units (700
  million currency units) for the stops, where the error of five roundings stays below half a
  raw unit. Ranges of the pipeline inputs are predicates named where they are used
  (\<open>request_ok\<close>, \<open>engine_op_ok\<close>). Nothing uses fuel: a recursion is structural or has its measure,
  and the three loops that may run for ever (\<open>grid_loop\<close>, \<open>combos_loop\<close>, \<open>windows_loop\<close>) are \<open>None\<close>
  then; when the last two return is a theorem.

  \<^bold>\<open>Not modelled.\<close> The machine learning hooks of the live engine, which nothing sets; of the
  backtest the database reads and recorders; the light optimizer, batches and the matrix of the
  orchestrator, which run modelled parts over database rows; the network clients of brokers, HTTP handlers, persistence,
  data fetchers, machine learning clients, schedulers and notification, which are input and
  output around the core. The series of the package \<open>github.com/cinar/indicator\<close>, the
  exponential, the logarithms and random numbers are parameters. Code outside of \<open>src/internal\<close>
  that is written in Go is vendored research, but for the small programs of \<open>src/cmd\<close>.

  \<^bold>\<open>Plan.\<close> What is left is code whose subject is rows, requests and files; the parts worth
  adding first would be the retries of the broker clients and the smaller search over the engine.
\<close>

end
